(* ===== verification/Prelude.thy ===== *)
theory Prelude
  imports Main "HOL-Library.Word" "HOL-Library.List_Lexorder" "HOL-Library.Char_ord"
begin

unbundle bit_operations_syntax

section \<open>Prelude: results, effects, rows and runs\<close>

text \<open>
  What every component shares: fallible results (\<open>Result\<close> of Rust as a sum, the error on the
  left), effectful operations (a state transformer that returns a result), row tables (lists, in
  rowid order), machine integers, and the generic fact that an invariant of a step function holds
  along every run. The collection \<open>res_simps\<close> unfolds the result combinators.
\<close>

named_theorems res_simps \<open>equations that evaluate results and effects\<close>

subsection \<open>Types\<close>

type_synonym u8 = "8 word"
type_synonym u16 = "16 word"
type_synonym u32 = "32 word"
type_synonym u64 = "64 word"
type_synonym bytes = "u8 list"

type_synonym ('e, 'a) result = "'e + 'a"
type_synonym ('s, 'e, 'a) effect = "'s \<Rightarrow> ('e + 'a) \<times> 's"

subsection \<open>Results\<close>

definition bindE :: "'e + 'a \<Rightarrow> ('a \<Rightarrow> 'e + 'b) \<Rightarrow> 'e + 'b" where
  "bindE m f = (case m of Inl e \<Rightarrow> Inl e | Inr x \<Rightarrow> f x)"

definition unwrap_or :: "'e + 'a \<Rightarrow> 'a \<Rightarrow> 'a" where
  "unwrap_or m d = (case m of Inl _ \<Rightarrow> d | Inr x \<Rightarrow> x)"

definition map_err :: "('e \<Rightarrow> 'f) \<Rightarrow> 'e + 'a \<Rightarrow> 'f + 'a" where
  "map_err g m = (case m of Inl e \<Rightarrow> Inl (g e) | Inr x \<Rightarrow> Inr x)"

definition ok_or :: "'a option \<Rightarrow> 'e \<Rightarrow> 'e + 'a" where
  "ok_or m e = (case m of None \<Rightarrow> Inl e | Some x \<Rightarrow> Inr x)"

definition ensure :: "bool \<Rightarrow> 'e \<Rightarrow> 'e + unit" where
  "ensure b e = (if b then Inr () else Inl e)"

text \<open>Collecting an iterator of results: the first error wins.\<close>

fun mapE :: "('a \<Rightarrow> 'e + 'b) \<Rightarrow> 'a list \<Rightarrow> 'e + 'b list" where
  "mapE f [] = Inr []"
| "mapE f (x # xs) = bindE (f x) (\<lambda>y. bindE (mapE f xs) (\<lambda>ys. Inr (y # ys)))"

lemma bindE_simps [simp, res_simps]:
  "bindE (Inl e) f = Inl e"
  "bindE (Inr x) f = f x"
  by (simp_all add: bindE_def)

lemma bindE_eq_Inr [simp]: "bindE m f = Inr y \<longleftrightarrow> (\<exists>x. m = Inr x \<and> f x = Inr y)"
  by (cases m) simp_all

lemma bindE_eq_Inl: "bindE m f = Inl e \<longleftrightarrow> m = Inl e \<or> (\<exists>x. m = Inr x \<and> f x = Inl e)"
  by (cases m) simp_all

lemma unwrap_or_simps [simp, res_simps]:
  "unwrap_or (Inl e) d = d"
  "unwrap_or (Inr x) d = x"
  by (simp_all add: unwrap_or_def)

lemma map_err_simps [simp, res_simps]:
  "map_err g (Inl e) = Inl (g e)"
  "map_err g (Inr x) = Inr x"
  by (simp_all add: map_err_def)

lemma map_err_eq_Inr [simp]: "map_err g m = Inr x \<longleftrightarrow> m = Inr x"
  by (cases m) simp_all

lemma ok_or_simps [simp, res_simps]:
  "ok_or None e = Inl e"
  "ok_or (Some x) e = Inr x"
  by (simp_all add: ok_or_def)

lemma ok_or_eq_Inr [simp]: "ok_or m e = Inr x \<longleftrightarrow> m = Some x"
  by (cases m) simp_all

lemma ensure_simps [simp, res_simps]:
  "ensure True e = Inr ()"
  "ensure False e = Inl e"
  by (simp_all add: ensure_def)

lemma ensure_eq_Inr [simp]: "ensure b e = Inr u \<longleftrightarrow> b"
  by (simp add: ensure_def)

lemma ensure_eq_Inl [simp]: "ensure b e = Inl e' \<longleftrightarrow> \<not> b \<and> e' = e"
  by (auto simp: ensure_def)

subsection \<open>Effects\<close>

definition returnS :: "'a \<Rightarrow> ('s, 'e, 'a) effect" where
  "returnS x s = (Inr x, s)"

definition throwS :: "'e \<Rightarrow> ('s, 'e, 'a) effect" where
  "throwS e s = (Inl e, s)"

definition bindS :: "('s, 'e, 'a) effect \<Rightarrow> ('a \<Rightarrow> ('s, 'e, 'b) effect) \<Rightarrow> ('s, 'e, 'b) effect" where
  "bindS m f s = (case m s of (Inl e, s') \<Rightarrow> (Inl e, s') | (Inr x, s') \<Rightarrow> f x s')"

text \<open>A read-only query used inside an effect, and a statement whose result is dropped
  (\<open>let _ = ...\<close> in the source): the state change stays, the error goes.\<close>

definition readS :: "('s \<Rightarrow> 'e + 'a) \<Rightarrow> ('s, 'e, 'a) effect" where
  "readS q s = (q s, s)"

definition ignoreS :: "('s, 'e, 'a) effect \<Rightarrow> ('s, 'e, unit) effect" where
  "ignoreS m s = (Inr (), snd (m s))"

primrec for_eachS :: "('a \<Rightarrow> ('s, 'e, unit) effect) \<Rightarrow> 'a list \<Rightarrow> ('s, 'e, unit) effect" where
  "for_eachS f [] = returnS ()"
| "for_eachS f (x # xs) = bindS (f x) (\<lambda>_. for_eachS f xs)"

lemma effect_simps [simp, res_simps]:
  "returnS x s = (Inr x, s)"
  "throwS e s = (Inl e, s)"
  "readS q s = (q s, s)"
  "ignoreS m s = (Inr (), snd (m s))"
  by (simp_all add: returnS_def throwS_def readS_def ignoreS_def)

lemma bindS_eq_Inr [simp]:
  "bindS m f s = (Inr y, s') \<longleftrightarrow> (\<exists>x t. m s = (Inr x, t) \<and> f x t = (Inr y, s'))"
  by (auto simp: bindS_def split: prod.splits sum.splits)

lemma bindS_readS [simp, res_simps]:
  "bindS (readS q) f s = (case q s of Inl e \<Rightarrow> (Inl e, s) | Inr x \<Rightarrow> f x s)"
  by (simp add: bindS_def split: sum.splits)

lemma bindS_Inl [res_simps]: "m s = (Inl e, t) \<Longrightarrow> bindS m f s = (Inl e, t)"
  by (simp add: bindS_def)

lemma bindS_Inr [res_simps]: "m s = (Inr x, t) \<Longrightarrow> bindS m f s = f x t"
  by (simp add: bindS_def)

lemma bindS_return [simp, res_simps]: "bindS (returnS x) f = f x"
  by (rule ext) (simp add: bindS_def)

lemma bindS_ignore [simp, res_simps]: "bindS (ignoreS m) f s = f () (snd (m s))"
  by (simp add: bindS_def)

lemma bindS_assoc: "bindS (bindS m f) g = bindS m (\<lambda>x. bindS (f x) g)"
  by (rule ext) (auto simp: bindS_def split: prod.splits sum.splits)

text \<open>What every effect of a chain keeps, the chain keeps.\<close>

lemma bindS_keeps:
  assumes "\<And>s. P s \<Longrightarrow> P (snd (m s))" and "\<And>x s. P s \<Longrightarrow> P (snd (f x s))" and "P s"
  shows "P (snd (bindS m f s))"
proof -
  obtain r t where ms: "m s = (r, t)" by fastforce
  with assms(1) [OF assms(3)] have "P t" by simp
  with assms(2) ms show ?thesis by (cases r) (simp_all add: bindS_def)
qed

lemma bindS_keeps_from:
  assumes "P (snd (m s))" and "\<And>x t. P t \<Longrightarrow> P (snd (f x t))"
  shows "P (snd (bindS m f s))"
proof -
  obtain r t where ms: "m s = (r, t)" by fastforce
  with assms show ?thesis by (cases r) (simp_all add: bindS_def)
qed

lemma bindS_after:
  assumes "P (snd (m s))" and "\<And>x. m s = (Inr x, snd (m s)) \<Longrightarrow> P (snd (f x (snd (m s))))"
  shows "P (snd (bindS m f s))"
  using assms by (cases "m s"; cases "fst (m s)") (auto simp: bindS_def)

lemma for_eachS_keeps:
  assumes "\<And>x s. x \<in> set xs \<Longrightarrow> P s \<Longrightarrow> P (snd (f x s))" and "P s"
  shows "P (snd (for_eachS f xs s))"
  using assms
proof (induction xs arbitrary: s)
  case Nil
  then show ?case by simp
next
  case (Cons x xs)
  obtain r t where fx: "f x s = (r, t)" by fastforce
  with Cons.prems have "P t" by (metis list.set_intros(1) snd_conv)
  with Cons fx show ?case by (cases r) (simp_all add: bindS_def)
qed

subsection \<open>Strings\<close>

text \<open>\<open>str::starts_with\<close> and \<open>str::contains\<close>.\<close>

definition starts_with :: "string \<Rightarrow> string \<Rightarrow> bool" where
  "starts_with p s = (take (length p) s = p)"

fun contains :: "string \<Rightarrow> string \<Rightarrow> bool" where
  "contains p [] = (p = [])"
| "contains p (x # s) = (starts_with p (x # s) \<or> contains p s)"

subsection \<open>Rows of a table\<close>

definition first_row :: "'r list \<Rightarrow> 'r option" where
  "first_row rs = (case rs of [] \<Rightarrow> None | r # _ \<Rightarrow> Some r)"

definition rows_where :: "('r \<Rightarrow> bool) \<Rightarrow> 'r list \<Rightarrow> 'r list" where
  "rows_where p rs = filter p rs"

definition update_where :: "('r \<Rightarrow> bool) \<Rightarrow> ('r \<Rightarrow> 'r) \<Rightarrow> 'r list \<Rightarrow> 'r list" where
  "update_where p f rs = map (\<lambda>r. if p r then f r else r) rs"

definition delete_where :: "('r \<Rightarrow> bool) \<Rightarrow> 'r list \<Rightarrow> 'r list" where
  "delete_where p rs = filter (\<lambda>r. \<not> p r) rs"

definition insert_or_ignore :: "'r \<Rightarrow> 'r list \<Rightarrow> 'r list" where
  "insert_or_ignore r rs = (if r \<in> set rs then rs else rs @ [r])"

lemma first_row_simps [simp]: "first_row [] = None" "first_row (r # rs) = Some r"
  by (simp_all add: first_row_def)

lemma first_row_None [simp]: "first_row rs = None \<longleftrightarrow> rs = []"
  by (cases rs) simp_all

lemma first_row_SomeD: "first_row rs = Some r \<Longrightarrow> r \<in> set rs"
  by (cases rs) simp_all

lemma first_row_append: "first_row (xs @ ys) = (if xs = [] then first_row ys else first_row xs)"
  by (cases xs) simp_all

lemma first_row_map: "first_row (map f rs) = map_option f (first_row rs)"
  by (cases rs) simp_all

lemma rows_where_simps [simp]:
  "rows_where p [] = []"
  "rows_where p (r # rs) = (if p r then r # rows_where p rs else rows_where p rs)"
  "rows_where p (xs @ ys) = rows_where p xs @ rows_where p ys"
  by (simp_all add: rows_where_def)

lemma set_rows_where [simp]: "set (rows_where p rs) = {r \<in> set rs. p r}"
  by (simp add: rows_where_def)

lemma rows_where_eq_Nil: "rows_where p rs = [] \<longleftrightarrow> (\<forall>r \<in> set rs. \<not> p r)"
  by (simp add: rows_where_def filter_empty_conv)

lemma set_update_where [simp]: "set (update_where p f rs) = (\<lambda>r. if p r then f r else r) ` set rs"
  by (simp add: update_where_def)

lemma ball_update_where:
  "(\<forall>x \<in> set (update_where p f rs). q x) \<longleftrightarrow> (\<forall>r \<in> set rs. q (if p r then f r else r))"
  by (simp only: set_update_where ball_simps)

lemma length_update_where [simp]: "length (update_where p f rs) = length rs"
  by (simp add: update_where_def)

lemma set_delete_where [simp]: "set (delete_where p rs) = {r \<in> set rs. \<not> p r}"
  by (simp add: delete_where_def)

lemma update_where_none: "\<forall>r \<in> set rs. \<not> p r \<Longrightarrow> update_where p f rs = rs"
  by (induction rs) (simp_all add: update_where_def)

lemma map_update_where: "(\<And>r. p r \<Longrightarrow> k (f r) = k r) \<Longrightarrow> map k (update_where p f rs) = map k rs"
  by (induction rs) (simp_all add: update_where_def)

lemma image_update_where: "(\<And>r. p r \<Longrightarrow> k (f r) = k r) \<Longrightarrow> k ` set (update_where p f rs) = k ` set rs"
  by (metis image_set map_update_where)

lemma rows_where_update_where:
  assumes "\<And>r. p r \<Longrightarrow> q (f r) = q r"
  shows "rows_where q (update_where p f rs) = update_where p f (rows_where q rs)"
  using assms by (induction rs) (simp_all add: update_where_def rows_where_def)

lemma rows_where_update_other:
  assumes "\<And>r. p r \<Longrightarrow> \<not> q r" and "\<And>r. p r \<Longrightarrow> \<not> q (f r)"
  shows "rows_where q (update_where p f rs) = rows_where q rs"
  using assms by (induction rs) (simp_all add: update_where_def rows_where_def)

lemma set_insert_or_ignore [simp]: "set (insert_or_ignore r rs) = insert r (set rs)"
  by (auto simp: insert_or_ignore_def)

lemma distinct_insert_or_ignore: "distinct rs \<Longrightarrow> distinct (insert_or_ignore r rs)"
  by (simp add: insert_or_ignore_def)

text \<open>Lookup by a primary key: at most one row matches, so the first is the only one.\<close>

definition lookup_by :: "('r \<Rightarrow> 'k) \<Rightarrow> 'k \<Rightarrow> 'r list \<Rightarrow> 'r option" where
  "lookup_by key k rs = first_row (rows_where (\<lambda>r. key r = k) rs)"

lemma lookup_by_simps [simp]:
  "lookup_by key k [] = None"
  "lookup_by key k (r # rs) = (if key r = k then Some r else lookup_by key k rs)"
  by (simp_all add: lookup_by_def)

lemma lookup_by_SomeD: "lookup_by key k rs = Some r \<Longrightarrow> r \<in> set rs \<and> key r = k"
  by (induction rs) (auto split: if_splits)

lemma lookup_by_None: "lookup_by key k rs = None \<longleftrightarrow> k \<notin> key ` set rs"
  by (induction rs) auto

lemma lookup_by_append:
  "lookup_by key k (xs @ ys) = (case lookup_by key k xs of None \<Rightarrow> lookup_by key k ys | Some r \<Rightarrow> Some r)"
  by (induction xs) auto

lemma lookup_by_unique:
  "distinct (map key rs) \<Longrightarrow> r \<in> set rs \<Longrightarrow> lookup_by key (key r) rs = Some r"
  by (induction rs) force+

lemma lookup_by_update_where:
  assumes "\<And>r. p r \<Longrightarrow> key (f r) = key r"
  shows "lookup_by key k (update_where p f rs)
    = map_option (\<lambda>r. if p r then f r else r) (lookup_by key k rs)"
  using assms by (induction rs) (auto simp: update_where_def)

text \<open>Foreign keys: every child row's key \<open>f\<close> is the key \<open>g\<close> of a parent row.\<close>

definition refs :: "('a \<Rightarrow> 'k) \<Rightarrow> 'a list \<Rightarrow> ('b \<Rightarrow> 'k) \<Rightarrow> 'b list \<Rightarrow> bool" where
  "refs f xs g ys \<longleftrightarrow> (\<forall>x \<in> set xs. f x \<in> g ` set ys)"

named_theorems refs_intros \<open>how row operations keep a foreign key\<close>

lemma refs_Nil [simp]: "refs f [] g ys"
  by (simp add: refs_def)

lemma refsD: "refs f xs g ys \<Longrightarrow> x \<in> set xs \<Longrightarrow> f x \<in> g ` set ys"
  by (simp add: refs_def)

lemma refs_append_child [simp]: "refs f (xs @ zs) g ys \<longleftrightarrow> refs f xs g ys \<and> refs f zs g ys"
  by (auto simp: refs_def)

lemma refs_single [simp]: "refs f [x] g ys \<longleftrightarrow> f x \<in> g ` set ys"
  by (simp add: refs_def)

lemma refs_append_parent [refs_intros]: "refs f xs g ys \<Longrightarrow> refs f xs g (ys @ zs)"
  by (auto simp: refs_def)

lemma refs_update_child [refs_intros]:
  "refs f xs g ys \<Longrightarrow> (\<And>r. p r \<Longrightarrow> f (u r) = f r) \<Longrightarrow> refs f (update_where p u xs) g ys"
  by (auto simp: refs_def)

lemma refs_update_parent [refs_intros]:
  "refs f xs g ys \<Longrightarrow> (\<And>r. p r \<Longrightarrow> g (u r) = g r) \<Longrightarrow> refs f xs g (update_where p u ys)"
  unfolding refs_def by (subst image_update_where)

lemma refs_delete_child [refs_intros]: "refs f xs g ys \<Longrightarrow> refs f (delete_where p xs) g ys"
  by (simp add: refs_def)

lemma refs_cascade:
  assumes "refs f xs g ys"
    and "\<And>x y. x \<in> set xs \<Longrightarrow> y \<in> set ys \<Longrightarrow> f x = g y \<Longrightarrow> q y \<Longrightarrow> p x"
  shows "refs f (delete_where p xs) g (delete_where q ys)"
  using assms by (fastforce simp: refs_def)

text \<open>Primary keys under the row operations.\<close>

lemma distinct_delete_where [simp]: "distinct (map k rs) \<Longrightarrow> distinct (map k (delete_where p rs))"
  by (simp add: delete_where_def distinct_map_filter)

lemma distinct_delete_where' [simp]: "distinct rs \<Longrightarrow> distinct (delete_where p rs)"
  by (simp add: delete_where_def)

subsection \<open>Machine integers\<close>

text \<open>Release-mode \<open>i32\<close> arithmetic: the mathematical result reduced into the signed range.\<close>

definition wrap_i32 :: "int \<Rightarrow> int" where
  "wrap_i32 x = (x + 2 ^ 31) mod 2 ^ 32 - 2 ^ 31"

lemma wrap_i32_id: "- (2 ^ 31) \<le> x \<Longrightarrow> x < 2 ^ 31 \<Longrightarrow> wrap_i32 x = x"
  by (simp add: wrap_i32_def)

lemma wrap_i32_range: "- (2 ^ 31) \<le> wrap_i32 x \<and> wrap_i32 x < 2 ^ 31"
proof -
  have "0 \<le> (x + 2 ^ 31) mod (2 ^ 32)" and "(x + 2 ^ 31) mod (2 ^ 32) < (2 ^ 32 :: int)"
    by simp_all
  then show ?thesis unfolding wrap_i32_def by simp
qed

subsection \<open>Runs of a step function\<close>

primrec run :: "('s \<Rightarrow> 'e \<Rightarrow> 's) \<Rightarrow> 's \<Rightarrow> 'e list \<Rightarrow> 's" where
  "run step s [] = s"
| "run step s (e # es) = run step (step s e) es"

primrec admissible :: "('s \<Rightarrow> 'e \<Rightarrow> bool) \<Rightarrow> ('s \<Rightarrow> 'e \<Rightarrow> 's) \<Rightarrow> 's \<Rightarrow> 'e list \<Rightarrow> bool" where
  "admissible ok step s [] = True"
| "admissible ok step s (e # es) = (ok s e \<and> admissible ok step (step s e) es)"

lemma run_append: "run step s (xs @ ys) = run step (run step s xs) ys"
  by (induction xs arbitrary: s) simp_all

text \<open>The interface of a state machine with an invariant: what the machine promises about one
  step, and what its clients get for every run.\<close>

locale invariant_machine =
  fixes step :: "'s \<Rightarrow> 'e \<Rightarrow> 's"
    and ok :: "'s \<Rightarrow> 'e \<Rightarrow> bool"
    and inv :: "'s \<Rightarrow> bool"
    and init :: "'s"
  assumes init_inv: "inv init"
    and step_inv: "inv s \<Longrightarrow> ok s e \<Longrightarrow> inv (step s e)"
begin

lemma run_inv: "inv s \<Longrightarrow> admissible ok step s es \<Longrightarrow> inv (run step s es)"
  by (induction es arbitrary: s) (auto intro: step_inv)

lemma reachable_inv: "admissible ok step init es \<Longrightarrow> inv (run step init es)"
  by (rule run_inv [OF init_inv])

end

text \<open>A machine that counts upwards: a measure no step lowers.\<close>

locale monotone_machine =
  fixes step :: "'s \<Rightarrow> 'e \<Rightarrow> 's"
    and level :: "'s \<Rightarrow> 'o::preorder"
  assumes step_mono: "level s \<le> level (step s e)"
begin

lemma run_mono: "level s \<le> level (run step s es)"
  by (induction es arbitrary: s) (auto intro: order_trans [OF step_mono])

end

end
