(* ===== verification/Models.thy ===== *)
theory Models
  imports Prelude
begin

section \<open>Data model and connection\<close>

text \<open>
  The structs of \<open>server-rs/src/db/models.rs\<close> as records (field names carry the struct's
  prefix, since Isabelle's selectors are global), the permission bits, the error type of
  \<open>rusqlite\<close> as far as the code distinguishes it, and the connection: the rows of the tables of
  \<open>server-rs/migrations\<close> that the modelled code reads or writes, each a list in rowid order.
  A Rust \<open>String\<close> is a \<open>string\<close> of bytes (both Rust and SQLite compare byte by byte, which is the
  order of \<open>List_Lexorder\<close> and \<open>Char_ord\<close>); a nullable column is an \<open>option\<close>; \<open>i64\<close> permission
  masks are 64-bit words.

  A statement can fail for reasons outside the code (a locked or corrupt file). \<open>c_faults\<close> names
  the statements that fail on this connection, by the Rust function that issues them, so that
  every \<open>Err\<close> branch of the source is a branch of the model; \<open>healthy\<close> says that none does.
\<close>

subsection \<open>JSON values\<close>

text \<open>\<open>serde_json::Value\<close>: objects as association lists (the order of the members, which the
  code does not observe except in \<open>canonicalize\<close>, is the order of the declaration), numbers as integers
  (the modelled code reads and writes no fraction).\<close>

datatype json =
    JNull
  | JBool bool
  | JNum int
  | JStr string
  | JArr "json list"
  | JObj "(string \<times> json) list"

text \<open>\<open>Value::get\<close> on a key, and \<open>Value::as_str\<close>.\<close>

fun json_get :: "json \<Rightarrow> string \<Rightarrow> json option" where
  "json_get (JObj kvs) k = map_of kvs k"
| "json_get _ k = None"

fun json_as_str :: "json \<Rightarrow> string option" where
  "json_as_str (JStr s) = Some s"
| "json_as_str _ = None"

definition json_get_str :: "json \<Rightarrow> string \<Rightarrow> string option" where
  "json_get_str v k = Option.bind (json_get v k) json_as_str"

subsection \<open>Structs\<close>

record user =
  u_id :: string
  u_username :: string
  u_display_name :: string
  u_public_key :: bytes
  u_avatar_url :: string
  u_status_text :: string
  u_status_type :: string
  u_is_admin :: bool
  u_created_at :: string
  u_updated_at :: string
  u_quiet_hours_enabled :: bool
  u_quiet_hours_from :: string
  u_quiet_hours_to :: string

record team =
  t_id :: string
  t_name :: string
  t_description :: string
  t_icon_url :: string
  t_created_by :: string
  t_max_file_size :: int
  t_allow_member_invites :: bool
  t_federated :: bool
  t_force_turn_relay :: bool
  t_created_at :: string
  t_updated_at :: string

record role =
  r_id :: string
  r_team_id :: string
  r_name :: string
  r_color :: string
  r_position :: int
  r_permissions :: u64
  r_is_default :: bool
  r_created_at :: string
  r_updated_at :: string

record member =
  m_id :: string
  m_team_id :: string
  m_user_id :: string
  m_nickname :: string
  m_joined_at :: string
  m_invited_by :: string
  m_updated_at :: string

record channel =
  ch_id :: string
  ch_team_id :: string
  ch_name :: string
  ch_topic :: string
  ch_type :: string
  ch_position :: int
  ch_category :: string
  ch_created_by :: string
  ch_created_at :: string
  ch_updated_at :: string
  ch_locked :: bool
  ch_hidden_if_restricted :: bool
  ch_slow_mode_seconds :: int
  ch_group_id :: "string option"

record message =
  msg_id :: string
  msg_channel_id :: string
  msg_dm_channel_id :: string
  msg_author_id :: string
  msg_content :: string
  msg_type :: string
  msg_thread_id :: string
  msg_reply_to :: "string option"
  msg_edited_at :: "string option"
  msg_deleted :: bool
  msg_lamport_ts :: u64
  msg_created_at :: string

record attachment =
  a_id :: string
  a_message_id :: string
  a_filename :: bytes
  a_content_type :: bytes
  a_size :: int
  a_storage_path :: string
  a_uploader_id :: "string option"
  a_created_at :: string

record invite =
  i_id :: string
  i_team_id :: string
  i_created_by :: string
  i_token :: string
  i_max_uses :: "int option"
  i_uses :: int
  i_expires_at :: "string option"
  i_revoked :: bool
  i_created_at :: string

record reaction =
  rx_id :: string
  rx_message_id :: string
  rx_user_id :: string
  rx_emoji :: string
  rx_created_at :: string

record reaction_group =
  rg_emoji :: string
  rg_count :: int
  rg_users :: "string list"

record invite_use =
  iu_id :: string
  iu_invite_id :: string
  iu_user_id :: string
  iu_used_at :: string

record bootstrap_token =
  bt_token :: string
  bt_used :: bool
  bt_created_at :: string
  bt_expires_at :: string

record ban =
  ban_team_id :: string
  ban_user_id :: string
  ban_banned_by :: string
  ban_reason :: string
  ban_created_at :: string

record dm_channel =
  dm_id :: string
  dm_team_id :: string
  dm_type :: string
  dm_name :: string
  dm_created_at :: string

record thread =
  th_id :: string
  th_channel_id :: string
  th_parent_message_id :: string
  th_team_id :: string
  th_creator_id :: string
  th_title :: string
  th_message_count :: int
  th_last_message_at :: "string option"
  th_created_at :: string

record dm_member =
  dmm_channel_id :: string
  dmm_user_id :: string
  dmm_joined_at :: string

record user_device =
  d_id :: string
  d_user_id :: string
  d_public_key :: bytes
  d_label :: string
  d_created_at :: string
  d_last_seen_at :: "string option"
  d_last_seen_ip :: "string option"
  d_last_seen_user_agent :: "string option"
  d_last_seen_country :: "string option"
  d_current_session_started_at :: "string option"
  d_revoked_at :: "string option"
  d_tokens_invalidated_after :: int

record channel_group =
  cg_id :: string
  cg_team_id :: string
  cg_name :: string
  cg_position :: int
  cg_created_at :: string
  cg_updated_at :: string
  cg_hidden_if_restricted :: bool

record pinned_message =
  pm_message_id :: string
  pm_channel_id :: string
  pm_team_id :: string
  pm_pinned_by :: "string option"
  pm_pinned_at :: string

record user_block =
  ub_blocker_id :: string
  ub_blocked_id :: string
  ub_created_at :: string

record poll =
  po_id :: string
  po_team_id :: string
  po_channel_id :: string
  po_question :: string
  po_options :: string
  po_created_by :: "string option"
  po_created_at :: string

record poll_vote =
  pv_poll_id :: string
  pv_user_id :: string
  pv_option_index :: int
  pv_voted_at :: string

record prekey_bundle =
  pk_id :: string
  pk_user_id :: string
  pk_identity_key :: bytes
  pk_identity_dh_key :: bytes
  pk_signed_prekey :: bytes
  pk_signed_prekey_signature :: bytes
  pk_one_time_prekeys :: bytes
  pk_uploaded_at :: string

record recovery_slot =
  rs_id :: int
  rs_user_id :: string
  rs_credential_id :: string
  rs_rp_id :: string
  rs_prf_salt :: bytes
  rs_encrypted_blob :: bytes
  rs_created_at :: string
  rs_updated_at :: string

record pinned_peer =
  pp_node_id :: string
  pp_public_key :: bytes
  pp_hostname :: string
  pp_pinned_at :: string
  pp_revoked_at :: "string option"

record audit_event =
  ae_id :: string
  ae_team_id :: string
  ae_actor_user_id :: "string option"
  ae_action :: string
  ae_target_type :: "string option"
  ae_target_id :: "string option"
  ae_details :: "json option"
  ae_created_at :: string

subsection \<open>Permission bits\<close>

definition PERM_ADMIN :: u64 where "PERM_ADMIN = 1"
definition PERM_MANAGE_CHANNELS :: u64 where "PERM_MANAGE_CHANNELS = 2"
definition PERM_MANAGE_MEMBERS :: u64 where "PERM_MANAGE_MEMBERS = 4"
definition PERM_MANAGE_ROLES :: u64 where "PERM_MANAGE_ROLES = 8"
definition PERM_SEND_MESSAGES :: u64 where "PERM_SEND_MESSAGES = 16"
definition PERM_MANAGE_MESSAGES :: u64 where "PERM_MANAGE_MESSAGES = 32"
definition PERM_CREATE_INVITES :: u64 where "PERM_CREATE_INVITES = 64"
definition PERM_MANAGE_TEAM :: u64 where "PERM_MANAGE_TEAM = 128"
definition PERM_BYPASS_SLOW_MODE :: u64 where "PERM_BYPASS_SLOW_MODE = 256"
definition PERM_MUTE_VOICE :: u64 where "PERM_MUTE_VOICE = 512"
definition PERM_MANAGE_FEDERATION :: u64 where "PERM_MANAGE_FEDERATION = 1024"
definition PERM_VIEW_AUDIT_LOG :: u64 where "PERM_VIEW_AUDIT_LOG = 2048"

lemmas perm_defs = PERM_ADMIN_def PERM_MANAGE_CHANNELS_def PERM_MANAGE_MEMBERS_def
  PERM_MANAGE_ROLES_def PERM_SEND_MESSAGES_def PERM_MANAGE_MESSAGES_def PERM_CREATE_INVITES_def
  PERM_MANAGE_TEAM_def PERM_BYPASS_SLOW_MODE_def PERM_MUTE_VOICE_def PERM_MANAGE_FEDERATION_def
  PERM_VIEW_AUDIT_LOG_def

subsection \<open>Errors and the connection\<close>

datatype db_error = InvalidParameterName string | QueryReturnedNoRows | SqliteFailure

text \<open>\<open>format!("{}", e)\<close> of the errors that can arise here.\<close>

definition db_error_text :: "db_error \<Rightarrow> string" where
  "db_error_text e = (case e of
     InvalidParameterName s \<Rightarrow> ''Invalid parameter name: '' @ s
   | QueryReturnedNoRows \<Rightarrow> ''Query returned no rows''
   | SqliteFailure \<Rightarrow> ''SqliteFailure'')"

record conn =
  c_users :: "user list"
  c_teams :: "team list"
  c_roles :: "role list"
  c_members :: "member list"
  c_member_roles :: "(string \<times> string) list"
  c_channels :: "channel list"
  c_channel_groups :: "channel_group list"
  c_channel_role_access :: "(string \<times> string) list"
  c_group_role_access :: "(string \<times> string) list"
  c_dm_channels :: "dm_channel list"
  c_dm_members :: "dm_member list"
  c_messages :: "message list"
  c_threads :: "thread list"
  c_attachments :: "attachment list"
  c_reactions :: "reaction list"
  c_channel_reads :: "((string \<times> string) \<times> string \<times> string) list"
  c_bans :: "ban list"
  c_invites :: "invite list"
  c_invite_uses :: "invite_use list"
  c_bootstrap_tokens :: "bootstrap_token list"
  c_devices :: "user_device list"
  c_jwt_revocations :: "(string \<times> int) list"
  c_pins :: "pinned_message list"
  c_blocks :: "user_block list"
  c_channel_mutes :: "((string \<times> string) \<times> string option) list"
  c_polls :: "poll list"
  c_poll_votes :: "poll_vote list"
  c_prekeys :: "prekey_bundle list"
  c_settings :: "(string \<times> string) list"
  c_upload_bytes :: "(string \<times> int) list"
  c_team_authority :: "(string \<times> string) list"
  c_seq_watermark :: "((string \<times> string) \<times> u64) list"
  c_fed_peers :: "pinned_peer list"
  c_node_identity :: "(string \<times> bytes \<times> bytes) option"
  c_audit :: "audit_event list"
  c_recovery :: "recovery_slot list"
  c_faults :: "string list"

type_synonym 'a db_res = "db_error + 'a"
type_synonym 'a db_op = "conn \<Rightarrow> (db_error + 'a) \<times> conn"

definition empty_conn :: conn where
  "empty_conn = \<lparr>c_users = [], c_teams = [], c_roles = [], c_members = [], c_member_roles = [],
     c_channels = [], c_channel_groups = [], c_channel_role_access = [], c_group_role_access = [],
     c_dm_channels = [], c_dm_members = [], c_messages = [], c_threads = [], c_attachments = [], c_reactions = [],
     c_channel_reads = [], c_bans = [],
     c_invites = [], c_invite_uses = [], c_bootstrap_tokens = [],
     c_devices = [], c_jwt_revocations = [], c_pins = [], c_blocks = [], c_channel_mutes = [],
     c_polls = [], c_poll_votes = [], c_prekeys = [], c_settings = [], c_upload_bytes = [],
     c_team_authority = [], c_seq_watermark = [],
     c_fed_peers = [], c_node_identity = None, c_audit = [], c_recovery = [], c_faults = []\<rparr>"

definition healthy :: "conn \<Rightarrow> bool" where
  "healthy c \<longleftrightarrow> c_faults c = []"

text \<open>A read statement issued by function \<open>f\<close>; \<open>query_row\<close> turns "no row" into an error, which
  \<open>.optional()\<close> turns back into \<open>None\<close>.\<close>

definition stmt :: "string \<Rightarrow> conn \<Rightarrow> 'a \<Rightarrow> 'a db_res" where
  "stmt f c v = (if f \<in> set (c_faults c) then Inl SqliteFailure else Inr v)"

definition query_row :: "string \<Rightarrow> conn \<Rightarrow> 'r list \<Rightarrow> 'r db_res" where
  "query_row f c rs = bindE (stmt f c (first_row rs)) (\<lambda>o1. ok_or o1 QueryReturnedNoRows)"

definition optional :: "'r db_res \<Rightarrow> 'r option db_res" where
  "optional m = (case m of Inr r \<Rightarrow> Inr (Some r) | Inl QueryReturnedNoRows \<Rightarrow> Inr None
     | Inl e \<Rightarrow> Inl e)"

text \<open>A write statement issued by function \<open>f\<close>: \<open>upd\<close> is \<open>None\<close> when a constraint of the schema
  rejects it. A statement that fails changes nothing.\<close>

definition exec :: "string \<Rightarrow> (conn \<Rightarrow> conn option) \<Rightarrow> unit db_op" where
  "exec f upd c = (if f \<in> set (c_faults c) then (Inl SqliteFailure, c)
     else case upd c of None \<Rightarrow> (Inl SqliteFailure, c) | Some c' \<Rightarrow> (Inr (), c'))"

lemma stmt_healthy [simp]: "healthy c \<Longrightarrow> stmt f c v = Inr v"
  by (simp add: stmt_def healthy_def)

lemma stmt_eq_Inr: "stmt f c v = Inr w \<longleftrightarrow> f \<notin> set (c_faults c) \<and> w = v"
  by (auto simp: stmt_def)

lemma query_row_healthy [simp]:
  "healthy c \<Longrightarrow> query_row f c rs = ok_or (first_row rs) QueryReturnedNoRows"
  by (simp add: query_row_def)

lemma query_row_eq_Inr:
  "query_row f c rs = Inr r \<longleftrightarrow> f \<notin> set (c_faults c) \<and> first_row rs = Some r"
  by (auto simp: query_row_def stmt_def)

lemma optional_simps [simp]:
  "optional (Inr r) = Inr (Some r)"
  "optional (Inl QueryReturnedNoRows) = Inr None"
  "optional (Inl SqliteFailure) = Inl SqliteFailure"
  "optional (Inl (InvalidParameterName s)) = Inl (InvalidParameterName s)"
  by (simp_all add: optional_def)

lemma optional_ok_or [simp]: "optional (ok_or m QueryReturnedNoRows) = Inr m"
  by (cases m) simp_all

lemma optional_query_row: "optional (query_row f c rs) = stmt f c (first_row rs)"
  by (cases "first_row rs") (simp_all add: query_row_def stmt_def)

lemma exec_healthy:
  "healthy c \<Longrightarrow> exec f upd c
    = (case upd c of None \<Rightarrow> (Inl SqliteFailure, c) | Some c' \<Rightarrow> (Inr (), c'))"
  by (simp add: exec_def healthy_def)

lemma exec_eq_Inr: "exec f upd c = (Inr u, c') \<longleftrightarrow> f \<notin> set (c_faults c) \<and> upd c = Some c'"
  by (auto simp: exec_def split: option.splits)

text \<open>What an accepted write establishes and a refused write keeps.\<close>

lemma exec_cases:
  assumes "\<And>c'. upd c = Some c' \<Longrightarrow> P c'" and "P c"
  shows "P (snd (exec f upd c))"
  using assms by (auto simp: exec_def split: option.splits)


subsection \<open>Helpers of \<open>db/mod.rs\<close>\<close>

text \<open>\<open>nullable\<close>: the empty string is stored as NULL.\<close>

definition nullable :: "string \<Rightarrow> string option" where
  "nullable s = (if s = [] then None else Some s)"

text \<open>SQLite's \<open>lower\<close> and \<open>trim\<close>, used by the unique index on channel names: ASCII letters only,
  the space character only.\<close>

definition sql_lower :: "string \<Rightarrow> string" where
  "sql_lower s = map (\<lambda>ch. if CHR ''A'' \<le> ch \<and> ch \<le> CHR ''Z'' then char_of (of_char ch + (32::nat)) else ch) s"

definition sql_trim :: "string \<Rightarrow> string" where
  "sql_trim s = rev (dropWhile (\<lambda>ch. ch = CHR '' '') (rev (dropWhile (\<lambda>ch. ch = CHR '' '') s)))"

definition insert_audit_event ::
  "string \<Rightarrow> string \<Rightarrow> string \<Rightarrow> string option \<Rightarrow> string \<Rightarrow> string option \<Rightarrow> string option
    \<Rightarrow> json option \<Rightarrow> unit db_op" where
  "insert_audit_event new_id now team_id actor action target_type target_id details =
     exec ''insert_audit_event'' (\<lambda>c.
       if new_id \<in> ae_id ` set (c_audit c) then None
       else Some (c\<lparr>c_audit := c_audit c @ [\<lparr>ae_id = new_id, ae_team_id = team_id,
         ae_actor_user_id = actor, ae_action = action, ae_target_type = target_type,
         ae_target_id = target_id, ae_details = details, ae_created_at = now\<rparr>]\<rparr>))"

text \<open>An audit statement touches the audit table only, so whatever does not mention that table is
  kept by it.\<close>

lemma insert_audit_event_state:
  "\<exists>as. snd (insert_audit_event i n t a ac tt ti d c) = c\<lparr>c_audit := as\<rparr>"
proof -
  have same: "\<exists>as. c = c\<lparr>c_audit := as\<rparr>" by (rule exI [where x = "c_audit c"]) simp
  have ins: "(if b then None else Some (c\<lparr>c_audit := xs\<rparr>)) = Some c' \<Longrightarrow> \<exists>as. c' = c\<lparr>c_audit := as\<rparr>"
    for b xs c'
    by (metis option.distinct(1) option.inject)
  show ?thesis
    unfolding insert_audit_event_def by (rule exec_cases, erule ins, rule same)
qed

lemma insert_audit_event_frame:
  assumes "\<And>c as. P (c\<lparr>c_audit := as\<rparr>) = P c"
  shows "P (snd (insert_audit_event i n t a ac tt ti d c)) = P c"
  using insert_audit_event_state [of i n t a ac tt ti d c] assms by auto

lemma insert_audit_event_fresh:
  assumes "healthy c" and "i \<notin> ae_id ` set (c_audit c)"
  shows "insert_audit_event i n t a ac tt ti d c = (Inr (), c\<lparr>c_audit := c_audit c @
    [\<lparr>ae_id = i, ae_team_id = t, ae_actor_user_id = a, ae_action = ac, ae_target_type = tt,
      ae_target_id = ti, ae_details = d, ae_created_at = n\<rparr>]\<rparr>)"
  using assms by (simp add: insert_audit_event_def exec_healthy)

end
