(* ===== verification/Team_Store.thy ===== *)
theory Team_Store
  imports Models
begin

section \<open>Teams, members, roles\<close>

text \<open>
  The statements of \<open>db/team_queries.rs\<close>, \<open>db/member_queries.rs\<close>, \<open>db/role_queries.rs\<close> and the
  row operations of \<open>db/permission_queries.rs\<close>, one definition per Rust function, with the
  constraints of migrations 001 and 006 written out (primary keys, \<open>UNIQUE(team_id, user_id)\<close>,
  foreign keys with their \<open>ON DELETE CASCADE\<close>; \<open>PRAGMA foreign_keys = ON\<close>). \<open>wf_team\<close> is the
  integrity the schema promises; every write keeps it.
\<close>

subsection \<open>Teams\<close>

definition create_team :: "team \<Rightarrow> unit db_op" where
  "create_team t = exec ''create_team'' (\<lambda>c.
     if t_id t \<in> t_id ` set (c_teams c) \<or> t_created_by t \<notin> u_id ` set (c_users c) then None
     else Some (c\<lparr>c_teams := c_teams c @ [t]\<rparr>))"

definition get_team :: "conn \<Rightarrow> string \<Rightarrow> team option db_res" where
  "get_team c tid = optional (query_row ''get_team'' c (rows_where (\<lambda>t. t_id t = tid) (c_teams c)))"

definition get_first_team :: "conn \<Rightarrow> team option db_res" where
  "get_first_team c = optional (query_row ''get_first_team'' c (sort_key t_created_at (c_teams c)))"

definition get_teams_by_user :: "conn \<Rightarrow> string \<Rightarrow> team list db_res" where
  "get_teams_by_user c uid = stmt ''get_teams_by_user'' c
     (rows_where (\<lambda>t. \<exists>m \<in> set (c_members c). m_team_id m = t_id t \<and> m_user_id m = uid) (c_teams c))"

definition update_team :: "string \<Rightarrow> team \<Rightarrow> unit db_op" where
  "update_team now t = exec ''update_team'' (\<lambda>c.
     Some (c\<lparr>c_teams := update_where (\<lambda>x. t_id x = t_id t)
       (\<lambda>x. x\<lparr>t_name := t_name t, t_description := t_description t, t_icon_url := t_icon_url t,
         t_max_file_size := t_max_file_size t, t_allow_member_invites := t_allow_member_invites t,
         t_federated := t_federated t, t_force_turn_relay := t_force_turn_relay t,
         t_updated_at := now\<rparr>) (c_teams c)\<rparr>))"

text \<open>\<open>SELECT created_by FROM teams WHERE id = ?1\<close>, compared with the caller, any error read as
  "not the owner" (the idiom \<open>.map(|owner| owner == user_id).unwrap_or(false)\<close>); \<open>f\<close> is the function
  that issues it.\<close>

definition is_team_owner :: "string \<Rightarrow> conn \<Rightarrow> string \<Rightarrow> string \<Rightarrow> bool" where
  "is_team_owner f c uid tid = unwrap_or
     (bindE (query_row f c (map t_created_by (rows_where (\<lambda>t. t_id t = tid) (c_teams c))))
       (\<lambda>owner. Inr (owner = uid))) False"

subsection \<open>Members\<close>

definition create_member :: "member \<Rightarrow> unit db_op" where
  "create_member m = exec ''create_member'' (\<lambda>c.
     if m_id m \<in> m_id ` set (c_members c)
       \<or> (\<exists>x \<in> set (c_members c). m_team_id x = m_team_id m \<and> m_user_id x = m_user_id m)
       \<or> m_team_id m \<notin> t_id ` set (c_teams c) \<or> m_user_id m \<notin> u_id ` set (c_users c)
       \<or> m_invited_by m \<notin> u_id ` set (c_users c) then None
     else Some (c\<lparr>c_members := c_members c @
       [m\<lparr>m_updated_at := (if m_updated_at m = [] then m_joined_at m else m_updated_at m)\<rparr>]\<rparr>))"

definition get_members_by_team :: "conn \<Rightarrow> string \<Rightarrow> (member \<times> user) list db_res" where
  "get_members_by_team c tid = stmt ''get_members_by_team'' c
     (concat (map (\<lambda>m. map (Pair m) (rows_where (\<lambda>u. u_id u = m_user_id m) (c_users c)))
       (rows_where (\<lambda>m. m_team_id m = tid) (c_members c))))"

definition list_user_teams :: "conn \<Rightarrow> string \<Rightarrow> string list db_res" where
  "list_user_teams c uid = stmt ''list_user_teams'' c
     (map m_team_id (rows_where (\<lambda>m. m_user_id m = uid) (c_members c)))"

definition get_member_by_user_and_team :: "conn \<Rightarrow> string \<Rightarrow> string \<Rightarrow> member option db_res" where
  "get_member_by_user_and_team c uid tid =
     optional (query_row ''get_member_by_user_and_team'' c
       (rows_where (\<lambda>m. m_user_id m = uid \<and> m_team_id m = tid) (c_members c)))"

definition update_member :: "string \<Rightarrow> member \<Rightarrow> unit db_op" where
  "update_member now m = exec ''update_member'' (\<lambda>c.
     Some (c\<lparr>c_members := update_where (\<lambda>x. m_id x = m_id m)
       (\<lambda>x. x\<lparr>m_nickname := m_nickname m, m_updated_at := now\<rparr>) (c_members c)\<rparr>))"

text \<open>\<open>member_roles\<close> rows of a deleted member go with it (\<open>ON DELETE CASCADE\<close>).\<close>

definition delete_member :: "string \<Rightarrow> string \<Rightarrow> unit db_op" where
  "delete_member uid tid = exec ''delete_member'' (\<lambda>c.
     let gone = (\<lambda>m. m_user_id m = uid \<and> m_team_id m = tid);
         gone_ids = m_id ` {m \<in> set (c_members c). gone m}
     in Some (c\<lparr>c_members := delete_where gone (c_members c),
       c_member_roles := delete_where (\<lambda>(mid, rid). mid \<in> gone_ids) (c_member_roles c)\<rparr>))"

definition users_share_team :: "conn \<Rightarrow> string \<Rightarrow> string \<Rightarrow> bool db_res" where
  "users_share_team c caller target =
     (if caller = target then Inr True
      else bindE (optional (query_row ''users_share_team'' c
        (concat (map (\<lambda>ma. rows_where (\<lambda>mb. m_team_id mb = m_team_id ma \<and> m_user_id mb = target)
           (c_members c)) (rows_where (\<lambda>ma. m_user_id ma = caller) (c_members c))))))
        (\<lambda>o1. Inr (o1 \<noteq> None)))"

subsection \<open>Roles and their assignment\<close>

definition create_role :: "string \<Rightarrow> role \<Rightarrow> unit db_op" where
  "create_role now r = exec ''create_role'' (\<lambda>c.
     if r_id r \<in> r_id ` set (c_roles c) \<or> r_team_id r \<notin> t_id ` set (c_teams c) then None
     else Some (c\<lparr>c_roles := c_roles c @
       [r\<lparr>r_updated_at := (if r_updated_at r = [] then now else r_updated_at r)\<rparr>]\<rparr>))"

definition get_roles_by_team :: "conn \<Rightarrow> string \<Rightarrow> role list db_res" where
  "get_roles_by_team c tid = stmt ''get_roles_by_team'' c
     (sort_key r_position (rows_where (\<lambda>r. r_team_id r = tid) (c_roles c)))"

definition get_role_by_id :: "conn \<Rightarrow> string \<Rightarrow> role option db_res" where
  "get_role_by_id c rid = optional (query_row ''get_role_by_id'' c
     (rows_where (\<lambda>r. r_id r = rid) (c_roles c)))"

definition update_role :: "string \<Rightarrow> role \<Rightarrow> unit db_op" where
  "update_role now r = exec ''update_role'' (\<lambda>c.
     Some (c\<lparr>c_roles := update_where (\<lambda>x. r_id x = r_id r)
       (\<lambda>x. x\<lparr>r_name := r_name r, r_color := r_color r, r_position := r_position r,
         r_permissions := r_permissions r, r_updated_at := now\<rparr>) (c_roles c)\<rparr>))"

text \<open>Deleting a role cascades into both access tables (migrations 015 and 020).\<close>

definition delete_role :: "string \<Rightarrow> unit db_op" where
  "delete_role rid = bindS
     (exec ''delete_role.member_roles'' (\<lambda>c.
        Some (c\<lparr>c_member_roles := delete_where (\<lambda>(mid, x). x = rid) (c_member_roles c)\<rparr>)))
     (\<lambda>_. exec ''delete_role.roles'' (\<lambda>c. Some (c\<lparr>
        c_roles := delete_where (\<lambda>r. r_id r = rid) (c_roles c),
        c_member_roles := delete_where (\<lambda>(mid, x). x = rid \<and> rid \<in> r_id ` set (c_roles c)) (c_member_roles c),
        c_channel_role_access := delete_where (\<lambda>(cid, x). x = rid \<and> rid \<in> r_id ` set (c_roles c))
          (c_channel_role_access c),
        c_group_role_access := delete_where (\<lambda>(gid, x). x = rid \<and> rid \<in> r_id ` set (c_roles c))
          (c_group_role_access c)\<rparr>)))"

definition get_default_role_for_team :: "conn \<Rightarrow> string \<Rightarrow> role option db_res" where
  "get_default_role_for_team c tid = optional (query_row ''get_default_role_for_team'' c
     (rows_where (\<lambda>r. r_team_id r = tid \<and> r_is_default r) (c_roles c)))"

definition assign_role_to_member :: "string \<Rightarrow> string \<Rightarrow> unit db_op" where
  "assign_role_to_member mid rid = exec ''assign_role_to_member'' (\<lambda>c.
     if (mid, rid) \<in> set (c_member_roles c) then Some c
     else if mid \<notin> m_id ` set (c_members c) \<or> rid \<notin> r_id ` set (c_roles c) then None
     else Some (c\<lparr>c_member_roles := c_member_roles c @ [(mid, rid)]\<rparr>))"

definition remove_role_from_member :: "string \<Rightarrow> string \<Rightarrow> unit db_op" where
  "remove_role_from_member mid rid = exec ''remove_role_from_member'' (\<lambda>c.
     Some (c\<lparr>c_member_roles := delete_where (\<lambda>p. p = (mid, rid)) (c_member_roles c)\<rparr>))"

definition clear_member_roles :: "string \<Rightarrow> unit db_op" where
  "clear_member_roles mid = exec ''clear_member_roles'' (\<lambda>c.
     Some (c\<lparr>c_member_roles := delete_where (\<lambda>(m, r). m = mid) (c_member_roles c)\<rparr>))"

text \<open>The join of \<open>roles\<close> with \<open>member_roles\<close>; both keys are primary, so a role occurs once.\<close>

definition get_member_roles :: "conn \<Rightarrow> string \<Rightarrow> role list db_res" where
  "get_member_roles c mid = stmt ''get_member_roles'' c
     (sort_key r_position (rows_where (\<lambda>r. (mid, r_id r) \<in> set (c_member_roles c)) (c_roles c)))"

subsection \<open>Integrity of the tables\<close>

definition wf_team :: "conn \<Rightarrow> bool" where
  "wf_team c \<longleftrightarrow> distinct (map t_id (c_teams c)) \<and> distinct (map r_id (c_roles c))
     \<and> distinct (map m_id (c_members c))
     \<and> distinct (map (\<lambda>m. (m_team_id m, m_user_id m)) (c_members c))
     \<and> distinct (c_member_roles c)
     \<and> refs t_created_by (c_teams c) u_id (c_users c)
     \<and> refs r_team_id (c_roles c) t_id (c_teams c)
     \<and> refs m_team_id (c_members c) t_id (c_teams c)
     \<and> refs m_user_id (c_members c) u_id (c_users c)
     \<and> refs fst (c_member_roles c) m_id (c_members c)
     \<and> refs snd (c_member_roles c) r_id (c_roles c)
     \<and> refs snd (c_channel_role_access c) r_id (c_roles c)
     \<and> refs snd (c_group_role_access c) r_id (c_roles c)"

lemma wf_team_frame:
  "c_users c' = c_users c \<Longrightarrow> c_teams c' = c_teams c \<Longrightarrow> c_roles c' = c_roles c
   \<Longrightarrow> c_members c' = c_members c \<Longrightarrow> c_member_roles c' = c_member_roles c
   \<Longrightarrow> c_channel_role_access c' = c_channel_role_access c
   \<Longrightarrow> c_group_role_access c' = c_group_role_access c \<Longrightarrow> wf_team c' = wf_team c"
  by (simp add: wf_team_def)

lemma wf_team_empty: "wf_team empty_conn"
  by (simp add: wf_team_def empty_conn_def)

lemma member_unique:
  assumes "wf_team c" and "m \<in> set (c_members c)" and "m' \<in> set (c_members c)"
    and "m_team_id m = m_team_id m'" and "m_user_id m = m_user_id m'"
  shows "m = m'"
proof -
  have "inj_on (\<lambda>m. (m_team_id m, m_user_id m)) (set (c_members c))"
    using assms(1) by (simp add: wf_team_def distinct_map)
  from inj_onD [OF this] assms(2-) show ?thesis by simp
qed

lemma role_unique:
  "wf_team c \<Longrightarrow> r \<in> set (c_roles c) \<Longrightarrow> r' \<in> set (c_roles c) \<Longrightarrow> r_id r = r_id r' \<Longrightarrow> r = r'"
  by (auto simp: wf_team_def distinct_map dest: inj_onD)

lemma get_role_by_id_SomeD: "get_role_by_id c rid = Inr (Some r) \<Longrightarrow> r \<in> set (c_roles c) \<and> r_id r = rid"
  by (auto simp: get_role_by_id_def optional_query_row stmt_eq_Inr dest!: first_row_SomeD sym [of "Some _"])

lemma get_member_iff:
  assumes "healthy c"
  shows "get_member_by_user_and_team c uid tid
    = Inr (first_row (rows_where (\<lambda>m. m_user_id m = uid \<and> m_team_id m = tid) (c_members c)))"
  using assms by (simp add: get_member_by_user_and_team_def)

subsection \<open>Every write keeps the integrity\<close>

lemma wf_create_team: "wf_team c \<Longrightarrow> wf_team (snd (create_team t c))"
  unfolding create_team_def
  by (rule exec_cases) (auto simp: wf_team_def intro: refs_intros split: if_splits)

lemma wf_update_team: "wf_team c \<Longrightarrow> wf_team (snd (update_team now t c))"
  unfolding update_team_def
  by (rule exec_cases) (auto simp: wf_team_def map_update_where intro!: refs_intros)

lemma wf_create_member: "wf_team c \<Longrightarrow> wf_team (snd (create_member m c))"
  unfolding create_member_def
  by (rule exec_cases, auto simp: wf_team_def intro: refs_intros split: if_splits) blast+

lemma wf_update_member: "wf_team c \<Longrightarrow> wf_team (snd (update_member now m c))"
  unfolding update_member_def
  by (rule exec_cases) (auto simp: wf_team_def map_update_where intro!: refs_intros)

lemma wf_delete_member: "wf_team c \<Longrightarrow> wf_team (snd (delete_member uid tid c))"
  unfolding delete_member_def
  by (rule exec_cases) (auto simp: wf_team_def Let_def intro!: refs_cascade intro: refs_intros)

lemma wf_create_role: "wf_team c \<Longrightarrow> wf_team (snd (create_role now r c))"
  unfolding create_role_def
  by (rule exec_cases) (auto simp: wf_team_def intro: refs_intros split: if_splits)

lemma wf_update_role: "wf_team c \<Longrightarrow> wf_team (snd (update_role now r c))"
  unfolding update_role_def
  by (rule exec_cases) (auto simp: wf_team_def map_update_where intro!: refs_intros)

lemma wf_delete_role: "wf_team c \<Longrightarrow> wf_team (snd (delete_role rid c))"
  unfolding delete_role_def
  by (rule bindS_keeps; (rule exec_cases)?)
    (auto simp: wf_team_def intro!: refs_cascade intro: refs_intros)

lemma wf_assign_role: "wf_team c \<Longrightarrow> wf_team (snd (assign_role_to_member mid rid c))"
  unfolding assign_role_to_member_def by (rule exec_cases) (auto simp: wf_team_def split: if_splits)

lemma wf_remove_role: "wf_team c \<Longrightarrow> wf_team (snd (remove_role_from_member mid rid c))"
  unfolding remove_role_from_member_def by (rule exec_cases) (auto simp: wf_team_def intro: refs_intros)

lemma wf_clear_roles: "wf_team c \<Longrightarrow> wf_team (snd (clear_member_roles mid c))"
  unfolding clear_member_roles_def by (rule exec_cases) (auto simp: wf_team_def intro: refs_intros)

lemma wf_audit: "wf_team (snd (insert_audit_event i n t a ac tt ti d c)) = wf_team c"
  by (rule insert_audit_event_frame) (simp add: wf_team_def)

lemmas wf_team_ops = wf_create_team wf_update_team wf_create_member wf_update_member
  wf_delete_member wf_create_role wf_update_role wf_delete_role wf_assign_role wf_remove_role
  wf_clear_roles

end
