(* ===== verification/Permissions.thy ===== *)
theory Permissions
  imports Team_Store
begin

section \<open>Resolving a caller's permissions\<close>

text \<open>
  \<open>user_permissions_bits\<close> and \<open>user_has_permission\<close> of \<open>db/permission_queries.rs\<close>. The first folds
  the masks of the caller's roles and returns \<open>!0\<close> for the owner and as soon as a role carries
  \<open>PERM_ADMIN\<close>; the second answers one permission. The lemmas describe both bit by bit and show
  that they agree.
\<close>

subsection \<open>The code\<close>

fun permissions_loop :: "role list \<Rightarrow> u64 \<Rightarrow> u64" where
  "permissions_loop [] bits = bits"
| "permissions_loop (r # rs) bits =
     (let bits' = bits OR r_permissions r
      in if r_permissions r AND PERM_ADMIN \<noteq> 0 then NOT 0 else permissions_loop rs bits')"

definition user_permissions_bits :: "conn \<Rightarrow> string \<Rightarrow> string \<Rightarrow> u64 db_res" where
  "user_permissions_bits c uid tid =
     (if is_team_owner ''user_permissions_bits'' c uid tid then Inr (NOT 0)
      else bindE (get_member_by_user_and_team c uid tid) (\<lambda>mo. case mo of
          None \<Rightarrow> Inr 0
        | Some m \<Rightarrow> bindE (get_member_roles c (m_id m)) (\<lambda>roles. Inr (permissions_loop roles 0))))"

definition user_has_permission :: "conn \<Rightarrow> string \<Rightarrow> string \<Rightarrow> u64 \<Rightarrow> bool db_res" where
  "user_has_permission c uid tid perm =
     (if is_team_owner ''user_has_permission'' c uid tid then Inr True
      else bindE (get_member_by_user_and_team c uid tid) (\<lambda>mo. case mo of
          None \<Rightarrow> Inr False
        | Some m \<Rightarrow> bindE (get_member_roles c (m_id m)) (\<lambda>roles.
            Inr (list_ex (\<lambda>r. r_permissions r AND PERM_ADMIN \<noteq> 0 \<or> r_permissions r AND perm \<noteq> 0) roles))))"

subsection \<open>What they compute\<close>

definition owns_team :: "conn \<Rightarrow> string \<Rightarrow> string \<Rightarrow> bool" where
  "owns_team c uid tid \<longleftrightarrow>
     map_option t_created_by (first_row (rows_where (\<lambda>t. t_id t = tid) (c_teams c))) = Some uid"

definition held_roles :: "conn \<Rightarrow> string \<Rightarrow> string \<Rightarrow> role list" where
  "held_roles c uid tid =
     (case first_row (rows_where (\<lambda>m. m_user_id m = uid \<and> m_team_id m = tid) (c_members c)) of
        None \<Rightarrow> []
      | Some m \<Rightarrow> rows_where (\<lambda>r. (m_id m, r_id r) \<in> set (c_member_roles c)) (c_roles c))"

lemma is_team_owner_iff: "healthy c \<Longrightarrow> is_team_owner f c uid tid = owns_team c uid tid"
  by (cases "rows_where (\<lambda>t. t_id t = tid) (c_teams c)")
    (simp_all add: is_team_owner_def owns_team_def)

lemma PERM_ADMIN_bit: "w AND PERM_ADMIN \<noteq> 0 \<longleftrightarrow> bit w 0"
  by (simp add: PERM_ADMIN_def and_one_eq odd_iff_mod_2_eq_one bit_0)

lemma permissions_loop_bit:
  "bit (permissions_loop rs b) n \<longleftrightarrow>
     n < 64 \<and> (bit b n \<or> (\<exists>r \<in> set rs. bit (r_permissions r) 0 \<or> bit (r_permissions r) n))"
proof (induction rs arbitrary: b)
  case Nil
  then show ?case by (auto dest: bit_imp_le_length)
next
  case (Cons r rs)
  then show ?case
    by (auto simp: PERM_ADMIN_bit Let_def bit_or_iff bit_not_iff)
qed

lemma and_neq_0_bit: "(a::u64) AND b \<noteq> 0 \<longleftrightarrow> (\<exists>n<64. bit a n \<and> bit b n)"
  by (auto simp: bit_eq_iff bit_and_iff)

text \<open>The bit-level description of the caller's mask.\<close>

lemma user_permissions_bits_bit:
  assumes "healthy c" and "user_permissions_bits c uid tid = Inr w"
  shows "bit w n \<longleftrightarrow> n < 64 \<and> (owns_team c uid tid
    \<or> (\<exists>r \<in> set (held_roles c uid tid). bit (r_permissions r) 0 \<or> bit (r_permissions r) n))"
  using assms
  by (auto simp: user_permissions_bits_def is_team_owner_iff get_member_iff held_roles_def
      get_member_roles_def permissions_loop_bit bit_not_iff split: if_splits option.splits)

lemma user_permissions_bits_total:
  "healthy c \<Longrightarrow> \<exists>w. user_permissions_bits c uid tid = Inr w"
  by (auto simp: user_permissions_bits_def get_member_iff get_member_roles_def split: option.split)

lemma user_has_permission_Inr:
  assumes "healthy c"
  shows "user_has_permission c uid tid perm = Inr (owns_team c uid tid
    \<or> (\<exists>r \<in> set (held_roles c uid tid).
        r_permissions r AND PERM_ADMIN \<noteq> 0 \<or> r_permissions r AND perm \<noteq> 0))"
  using assms
  by (auto simp: user_has_permission_def is_team_owner_iff get_member_iff held_roles_def
      get_member_roles_def list_ex_iff split: option.splits)

text \<open>The two resolvers agree: a permission is held iff the mask meets it or the admin bit.\<close>

lemma has_permission_bits:
  assumes "healthy c" and "user_permissions_bits c uid tid = Inr w"
  shows "user_has_permission c uid tid perm = Inr (w AND (perm OR PERM_ADMIN) \<noteq> 0)"
proof -
  have w: "bit w n \<longleftrightarrow> n < 64 \<and> (owns_team c uid tid
      \<or> (\<exists>r \<in> set (held_roles c uid tid). bit (r_permissions r) 0 \<or> bit (r_permissions r) n))" for n
    by (rule user_permissions_bits_bit [OF assms])
  have admin: "bit PERM_ADMIN n \<longleftrightarrow> n = 0" for n
    by (simp add: PERM_ADMIN_def bit_1_iff)
  have meet: "w AND (perm OR PERM_ADMIN) \<noteq> 0 \<longleftrightarrow> (\<exists>n<64. bit w n \<and> (bit perm n \<or> n = 0))"
    by (simp add: and_neq_0_bit bit_or_iff admin)
  show ?thesis
    unfolding user_has_permission_Inr [OF assms(1)] meet w PERM_ADMIN_bit
    by (auto simp: and_neq_0_bit intro: exI [where x = 0])
qed

text \<open>A caller with no membership who does not own the team has no permission at all.\<close>

lemma outsider_no_permission:
  assumes "healthy c" and "\<not> owns_team c uid tid"
    and "\<forall>m \<in> set (c_members c). \<not> (m_user_id m = uid \<and> m_team_id m = tid)"
  shows "user_permissions_bits c uid tid = Inr 0 \<and> user_has_permission c uid tid perm = Inr False"
proof -
  have "rows_where (\<lambda>m. m_user_id m = uid \<and> m_team_id m = tid) (c_members c) = []"
    using assms(3) by (simp add: rows_where_eq_Nil)
  with assms(1,2) show ?thesis
    by (simp add: user_permissions_bits_def user_has_permission_def is_team_owner_iff get_member_iff)
qed

text \<open>A database error never grants: when the membership or role lookup fails the answer is an
  error, and a failing owner lookup counts as "not the owner".\<close>

lemma has_permission_fail_closed:
  assumes "user_has_permission c uid tid perm = Inr True"
  shows "owns_team c uid tid
    \<or> (\<exists>r \<in> set (held_roles c uid tid).
        r_permissions r AND PERM_ADMIN \<noteq> 0 \<or> r_permissions r AND perm \<noteq> 0)"
proof (cases "is_team_owner ''user_has_permission'' c uid tid")
  case True
  then have "owns_team c uid tid"
    by (cases "rows_where (\<lambda>t. t_id t = tid) (c_teams c)")
      (auto simp: is_team_owner_def owns_team_def query_row_def stmt_def split: if_splits)
  then show ?thesis ..
next
  case False
  with assms show ?thesis
    by (auto simp: user_has_permission_def held_roles_def get_member_by_user_and_team_def
        optional_query_row get_member_roles_def stmt_eq_Inr list_ex_iff split: option.splits)
qed

subsection \<open>Held permission bits\<close>

text \<open>Bit \<open>n\<close> of the mask a user holds in a team. Holding the admin bit is holding every bit. The
  computed mask never claims more, and on a healthy connection it is exactly that.\<close>

definition holds_bit :: "conn \<Rightarrow> string \<Rightarrow> string \<Rightarrow> nat \<Rightarrow> bool" where
  "holds_bit c uid tid n \<longleftrightarrow> n < 64 \<and> (owns_team c uid tid
     \<or> (\<exists>r \<in> set (held_roles c uid tid). bit (r_permissions r) 0 \<or> bit (r_permissions r) n))"

lemma holds_bit_admin: "holds_bit c uid tid 0 \<Longrightarrow> n < 64 \<Longrightarrow> holds_bit c uid tid n"
  by (auto simp: holds_bit_def)

lemma bits_hold: "healthy c \<Longrightarrow> user_permissions_bits c uid tid = Inr w \<Longrightarrow> bit w n = holds_bit c uid tid n"
  by (simp add: holds_bit_def user_permissions_bits_bit)

lemma bits_sound:
  assumes "user_permissions_bits c uid tid = Inr w" and "bit w n"
  shows "holds_bit c uid tid n"
proof (cases "is_team_owner ''user_permissions_bits'' c uid tid")
  case True
  then have "owns_team c uid tid"
    by (cases "rows_where (\<lambda>t. t_id t = tid) (c_teams c)")
      (auto simp: is_team_owner_def owns_team_def query_row_def stmt_def split: if_splits)
  moreover have "n < 64" using assms(2) by (auto dest: bit_imp_le_length)
  ultimately show ?thesis by (simp add: holds_bit_def)
next
  case False
  with assms show ?thesis
    by (auto simp: user_permissions_bits_def holds_bit_def held_roles_def get_member_by_user_and_team_def
        optional_query_row get_member_roles_def stmt_eq_Inr permissions_loop_bit split: option.splits)
qed

lemma holds_bit_frame:
  "c_teams c' = c_teams c \<Longrightarrow> c_members c' = c_members c \<Longrightarrow> c_member_roles c' = c_member_roles c
   \<Longrightarrow> c_roles c' = c_roles c \<Longrightarrow> holds_bit c' = holds_bit c"
  by (rule ext)+ (simp add: holds_bit_def owns_team_def held_roles_def)

lemma held_roles_iff:
  "r \<in> set (held_roles c uid tid) \<longleftrightarrow>
     (\<exists>m. first_row (rows_where (\<lambda>m. m_user_id m = uid \<and> m_team_id m = tid) (c_members c)) = Some m
        \<and> r \<in> set (c_roles c) \<and> (m_id m, r_id r) \<in> set (c_member_roles c))"
  by (cases "first_row (rows_where (\<lambda>m. m_user_id m = uid \<and> m_team_id m = tid) (c_members c))")
    (simp_all add: held_roles_def)

lemma held_roles_in: "r \<in> set (held_roles c uid tid) \<Longrightarrow> r \<in> set (c_roles c)"
  by (auto simp: held_roles_def split: option.splits)

lemma holds_bit_mono:
  assumes "c_teams c' = c_teams c" and "c_members c' = c_members c"
    and "set (c_member_roles c') \<subseteq> set (c_member_roles c)" and "set (c_roles c') \<subseteq> set (c_roles c)"
    and "holds_bit c' uid tid n"
  shows "holds_bit c uid tid n"
proof -
  have "set (held_roles c' uid tid) \<subseteq> set (held_roles c uid tid)"
    using assms(2,3,4) by (auto simp: held_roles_def split: option.split)
  then show ?thesis using assms(1,5) by (auto simp: holds_bit_def owns_team_def)
qed

end
