(* ===== verification/Channel_Access.thy ===== *)
theory Channel_Access
  imports Permissions
begin

section \<open>Who may read a channel\<close>

text \<open>
  \<open>db/channel_access_queries.rs\<close>: the role lists that gate channels and channel groups, and the
  decision \<open>user_can_access_channel\<close>. Access is purely inherited: a channel in a group is gated by
  the group's list alone. An empty list is open.
\<close>

subsection \<open>The access lists\<close>

text \<open>\<open>SELECT group_id FROM channels WHERE id = ?1\<close> with \<open>.unwrap_or(None)\<close>: an error, a missing
  channel and a NULL column all read as "no group".\<close>

definition channel_group :: "string \<Rightarrow> conn \<Rightarrow> string \<Rightarrow> string option" where
  "channel_group f c cid =
     unwrap_or (query_row f c (map ch_group_id (rows_where (\<lambda>ch. ch_id ch = cid) (c_channels c)))) None"

definition get_channel_access_roles :: "conn \<Rightarrow> string \<Rightarrow> string list db_res" where
  "get_channel_access_roles c cid =
     (case channel_group ''get_channel_access_roles.group'' c cid of
        Some gid \<Rightarrow> stmt ''get_channel_access_roles.by_group'' c
          (map snd (rows_where (\<lambda>p. fst p = gid) (c_group_role_access c)))
      | None \<Rightarrow> stmt ''get_channel_access_roles.by_channel'' c
          (map snd (rows_where (\<lambda>p. fst p = cid) (c_channel_role_access c))))"

definition get_group_access_roles :: "conn \<Rightarrow> string \<Rightarrow> string list db_res" where
  "get_group_access_roles c gid = stmt ''get_group_access_roles'' c
     (map snd (rows_where (\<lambda>p. fst p = gid) (c_group_role_access c)))"

definition set_group_access_roles :: "string \<Rightarrow> string list \<Rightarrow> unit db_op" where
  "set_group_access_roles gid rids = bindS
     (exec ''set_group_access_roles.delete'' (\<lambda>c.
        Some (c\<lparr>c_group_role_access := delete_where (\<lambda>p. fst p = gid) (c_group_role_access c)\<rparr>)))
     (\<lambda>_. for_eachS (\<lambda>rid. exec ''set_group_access_roles.insert'' (\<lambda>c.
        if (gid, rid) \<in> set (c_group_role_access c) then Some c
        else if gid \<notin> cg_id ` set (c_channel_groups c) \<or> rid \<notin> r_id ` set (c_roles c) then None
        else Some (c\<lparr>c_group_role_access := c_group_role_access c @ [(gid, rid)]\<rparr>))) rids)"

definition set_channel_access_roles :: "string \<Rightarrow> string list \<Rightarrow> unit db_op" where
  "set_channel_access_roles cid rids = bindS
     (exec ''set_channel_access_roles.delete'' (\<lambda>c.
        Some (c\<lparr>c_channel_role_access := delete_where (\<lambda>p. fst p = cid) (c_channel_role_access c)\<rparr>)))
     (\<lambda>_. for_eachS (\<lambda>rid. exec ''set_channel_access_roles.insert'' (\<lambda>c.
        if (cid, rid) \<in> set (c_channel_role_access c) then Some c
        else if cid \<notin> ch_id ` set (c_channels c) \<or> rid \<notin> r_id ` set (c_roles c) then None
        else Some (c\<lparr>c_channel_role_access := c_channel_role_access c @ [(cid, rid)]\<rparr>))) rids)"

subsection \<open>The decision\<close>

text \<open>The last two queries: does the caller hold, through any membership of the team, a role on
  the list? The group variant looks the group up again inside the statement.\<close>

definition holds_listed_role :: "conn \<Rightarrow> string \<Rightarrow> string \<Rightarrow> string list \<Rightarrow> bool" where
  "holds_listed_role c uid tid rids \<longleftrightarrow>
     list_ex (\<lambda>m. m_team_id m = tid \<and> m_user_id m = uid
       \<and> list_ex (\<lambda>(mid, rid). mid = m_id m \<and> rid \<in> set rids) (c_member_roles c)) (c_members c)"

definition user_can_access_channel :: "conn \<Rightarrow> string \<Rightarrow> string \<Rightarrow> string \<Rightarrow> bool db_res" where
  "user_can_access_channel c uid tid cid =
     (if is_team_owner ''user_can_access_channel.owner'' c uid tid then Inr True
      else bindE (get_channel_access_roles c cid) (\<lambda>access_role_ids.
        if access_role_ids = [] then Inr True
        else
          let default_role = (case query_row ''user_can_access_channel.default'' c
                (map r_id (rows_where (\<lambda>r. r_team_id r = tid \<and> r_is_default r) (c_roles c)))
              of Inr d \<Rightarrow> Some d | Inl _ \<Rightarrow> None)
          in if (case default_role of Some d \<Rightarrow> d \<in> set access_role_ids | None \<Rightarrow> False)
             then Inr (unwrap_or (bindE (query_row ''user_can_access_channel.member'' c
                    (rows_where (\<lambda>m. m_team_id m = tid \<and> m_user_id m = uid) (c_members c)))
                    (\<lambda>_. Inr True)) False)
             else (case channel_group ''user_can_access_channel.group'' c cid of
                 Some _ \<Rightarrow> stmt ''user_can_access_channel.by_group'' c (holds_listed_role c uid tid
                   (case first_row (map ch_group_id (rows_where (\<lambda>ch. ch_id ch = cid) (c_channels c))) of
                      Some (Some gid) \<Rightarrow> map snd (rows_where (\<lambda>p. fst p = gid) (c_group_role_access c))
                    | _ \<Rightarrow> []))
               | None \<Rightarrow> stmt ''user_can_access_channel.by_channel'' c (holds_listed_role c uid tid
                   (map snd (rows_where (\<lambda>p. fst p = cid) (c_channel_role_access c)))))))"

subsection \<open>The policy it implements\<close>

text \<open>The access list that applies to a channel, and the rule of the module's comment over it.\<close>

definition gating_roles :: "conn \<Rightarrow> string \<Rightarrow> string set" where
  "gating_roles c cid =
     (case first_row (rows_where (\<lambda>ch. ch_id ch = cid) (c_channels c)) of
        Some ch \<Rightarrow> (case ch_group_id ch of
            Some gid \<Rightarrow> {rid. (gid, rid) \<in> set (c_group_role_access c)}
          | None \<Rightarrow> {rid. (cid, rid) \<in> set (c_channel_role_access c)})
      | None \<Rightarrow> {rid. (cid, rid) \<in> set (c_channel_role_access c)})"

definition is_member :: "conn \<Rightarrow> string \<Rightarrow> string \<Rightarrow> bool" where
  "is_member c uid tid \<longleftrightarrow> (\<exists>m \<in> set (c_members c). m_user_id m = uid \<and> m_team_id m = tid)"

definition default_role_id :: "conn \<Rightarrow> string \<Rightarrow> string option" where
  "default_role_id c tid = map_option r_id
     (first_row (rows_where (\<lambda>r. r_team_id r = tid \<and> r_is_default r) (c_roles c)))"

definition may_access :: "conn \<Rightarrow> string \<Rightarrow> string \<Rightarrow> string \<Rightarrow> bool" where
  "may_access c uid tid cid \<longleftrightarrow>
     owns_team c uid tid \<or> gating_roles c cid = {}
     \<or> (if default_role_id c tid \<in> Some ` gating_roles c cid then is_member c uid tid
        else \<exists>m \<in> set (c_members c). m_user_id m = uid \<and> m_team_id m = tid
          \<and> (\<exists>rid \<in> gating_roles c cid. (m_id m, rid) \<in> set (c_member_roles c)))"

lemma channel_group_healthy:
  "healthy c \<Longrightarrow> channel_group f c cid
     = (case first_row (rows_where (\<lambda>ch. ch_id ch = cid) (c_channels c)) of
          Some ch \<Rightarrow> ch_group_id ch | None \<Rightarrow> None)"
  by (cases "rows_where (\<lambda>ch. ch_id ch = cid) (c_channels c)") (simp_all add: channel_group_def)

lemma access_roles_gating:
  assumes "healthy c"
  shows "\<exists>rs. get_channel_access_roles c cid = Inr rs \<and> set rs = gating_roles c cid"
  using assms
  by (auto simp: get_channel_access_roles_def channel_group_healthy gating_roles_def
      split: option.split intro: rev_image_eqI)

lemma holds_listed_role_iff:
  "holds_listed_role c uid tid rids \<longleftrightarrow>
     (\<exists>m \<in> set (c_members c). m_user_id m = uid \<and> m_team_id m = tid
        \<and> (\<exists>rid \<in> set rids. (m_id m, rid) \<in> set (c_member_roles c)))"
  by (auto simp: holds_listed_role_def list_ex_iff)

text \<open>Whatever statements fail, an allowing answer is right, provided the two lookups of the
  channel's group do not fail.\<close>

definition group_lookups_ok :: "conn \<Rightarrow> bool" where
  "group_lookups_ok c \<longleftrightarrow> ''get_channel_access_roles.group'' \<notin> set (c_faults c)
     \<and> ''user_can_access_channel.group'' \<notin> set (c_faults c)"

lemma channel_group_ok:
  "f \<notin> set (c_faults c) \<Longrightarrow> channel_group f c cid
     = (case first_row (rows_where (\<lambda>ch. ch_id ch = cid) (c_channels c)) of
          Some ch \<Rightarrow> ch_group_id ch | None \<Rightarrow> None)"
  by (cases "rows_where (\<lambda>ch. ch_id ch = cid) (c_channels c)")
    (simp_all add: channel_group_def query_row_def stmt_def)

lemma is_team_owner_sound: "is_team_owner f c uid tid \<Longrightarrow> owns_team c uid tid"
  by (cases "rows_where (\<lambda>t. t_id t = tid) (c_teams c)")
    (auto simp: is_team_owner_def owns_team_def query_row_def stmt_def split: if_splits)

lemma access_roles_gating_ok:
  assumes "group_lookups_ok c" and "get_channel_access_roles c cid = Inr rs"
  shows "set rs = gating_roles c cid"
  using assms
  by (auto simp: get_channel_access_roles_def group_lookups_ok_def channel_group_ok gating_roles_def
      stmt_eq_Inr split: option.splits intro: rev_image_eqI)

lemma is_member_row:
  "is_member c uid tid \<longleftrightarrow> rows_where (\<lambda>m. m_team_id m = tid \<and> m_user_id m = uid) (c_members c) \<noteq> []"
  by (auto simp: is_member_def rows_where_eq_Nil)

lemma holds_gate_role:
  assumes "set rids = gating_roles c cid" and "holds_listed_role c uid tid rids"
  shows "may_access c uid tid cid"
  using assms unfolding may_access_def holds_listed_role_iff is_member_def by auto

text \<open>The list the last queries read is the gating list again.\<close>

lemma listed_by_group:
  assumes "channel_group f c cid = Some g" and "f \<notin> set (c_faults c)"
  shows "set (case first_row (map ch_group_id (rows_where (\<lambda>ch. ch_id ch = cid) (c_channels c))) of
      Some (Some gid) \<Rightarrow> map snd (rows_where (\<lambda>p. fst p = gid) (c_group_role_access c))
    | _ \<Rightarrow> []) = gating_roles c cid"
  using assms
  by (auto simp: channel_group_ok gating_roles_def first_row_map split: option.splits intro: rev_image_eqI)

lemma listed_by_channel:
  assumes "channel_group f c cid = None" and "f \<notin> set (c_faults c)"
  shows "set (map snd (rows_where (\<lambda>p. fst p = cid) (c_channel_role_access c))) = gating_roles c cid"
  using assms
  by (auto simp: channel_group_ok gating_roles_def split: option.splits intro: rev_image_eqI)

lemma access_granted_sound:
  assumes ok: "group_lookups_ok c" and res: "user_can_access_channel c uid tid cid = Inr True"
  shows "may_access c uid tid cid"
proof (cases "is_team_owner ''user_can_access_channel.owner'' c uid tid")
  case True
  then show ?thesis by (simp add: may_access_def is_team_owner_sound)
next
  case False
  let ?def = "query_row ''user_can_access_channel.default'' c
    (map r_id (rows_where (\<lambda>r. r_team_id r = tid \<and> r_is_default r) (c_roles c)))"
  let ?mem = "query_row ''user_can_access_channel.member'' c
    (rows_where (\<lambda>m. m_team_id m = tid \<and> m_user_id m = uid) (c_members c))"
  from res False obtain rs where rs: "get_channel_access_roles c cid = Inr rs"
    by (auto simp: user_can_access_channel_def)
  note gate = access_roles_gating_ok [OF ok rs]
  show ?thesis
  proof (cases "rs = []")
    case True
    with gate show ?thesis by (simp add: may_access_def)
  next
    case nonempty: False
    show ?thesis
    proof (cases "\<exists>d. ?def = Inr d \<and> d \<in> set rs")
      case True
      then obtain d where d: "?def = Inr d" "d \<in> set rs" by blast
      then have "default_role_id c tid = Some d"
        by (auto simp: query_row_eq_Inr default_role_id_def first_row_map)
      moreover from res False rs nonempty d have "is_member c uid tid"
        by (cases ?mem) (auto simp: user_can_access_channel_def query_row_eq_Inr is_member_row)
      ultimately show ?thesis using d gate by (simp add: may_access_def)
    next
      case no_def: False
      let ?g = "channel_group ''user_can_access_channel.group'' c cid"
      have fg: "''user_can_access_channel.group'' \<notin> set (c_faults c)"
        using ok by (simp add: group_lookups_ok_def)
      show ?thesis
      proof (cases ?g)
        case None
        with res False rs nonempty no_def show ?thesis
          by (intro holds_gate_role [OF listed_by_channel [OF None fg]])
            (auto simp: user_can_access_channel_def Let_def stmt_eq_Inr split: sum.splits if_splits)
      next
        case (Some g)
        with res False rs nonempty no_def show ?thesis
          by (intro holds_gate_role [OF listed_by_group [OF Some fg]])
            (auto simp: user_can_access_channel_def Let_def stmt_eq_Inr split: sum.splits if_splits)
      qed
    qed
  qed
qed

lemma healthy_group_lookups: "healthy c \<Longrightarrow> group_lookups_ok c"
  by (simp add: healthy_def group_lookups_ok_def)

text \<open>On a healthy connection every query answers, and the answer is the policy.\<close>

theorem access_decides:
  assumes h: "healthy c"
  shows "user_can_access_channel c uid tid cid = Inr (may_access c uid tid cid)"
proof -
  obtain rs where rs: "get_channel_access_roles c cid = Inr rs" and gate: "set rs = gating_roles c cid"
    using access_roles_gating [OF h] by blast
  have fg: "''user_can_access_channel.group'' \<notin> set (c_faults c)"
    using h by (simp add: healthy_def)
  let ?g = "channel_group ''user_can_access_channel.group'' c cid"
  have same: "set xs = gating_roles c cid
      \<Longrightarrow> holds_listed_role c uid tid xs = holds_listed_role c uid tid rs" for xs
    by (simp add: holds_listed_role_def gate)
  have default: "(case ok_or (first_row (map r_id (rows_where
        (\<lambda>r. r_team_id r = tid \<and> r_is_default r) (c_roles c)))) QueryReturnedNoRows of
      Inr d \<Rightarrow> Some d | Inl _ \<Rightarrow> None) = default_role_id c tid"
    by (cases "rows_where (\<lambda>r. r_team_id r = tid \<and> r_is_default r) (c_roles c)")
      (simp_all add: default_role_id_def)
  have member: "unwrap_or (bindE (ok_or (first_row (rows_where
        (\<lambda>m. m_team_id m = tid \<and> m_user_id m = uid) (c_members c))) QueryReturnedNoRows)
      (\<lambda>_. Inr True)) False = is_member c uid tid"
    unfolding is_member_row
    by (cases "rows_where (\<lambda>m. m_team_id m = tid \<and> m_user_id m = uid) (c_members c)") simp_all
  have empty: "rs = [] \<longleftrightarrow> gating_roles c cid = {}"
    using gate by auto
  have spec: "may_access c uid tid cid \<longleftrightarrow> owns_team c uid tid \<or> rs = []
      \<or> (if case default_role_id c tid of Some d \<Rightarrow> d \<in> set rs | None \<Rightarrow> False
         then is_member c uid tid else holds_listed_role c uid tid rs)"
    by (auto simp: may_access_def empty gate holds_listed_role_iff split: option.split)
  show ?thesis
  proof (cases ?g)
    case None
    show ?thesis
      unfolding spec user_can_access_channel_def
      by (simp add: h is_team_owner_iff rs default member None Let_def same [OF listed_by_channel [OF None fg]]
          del: set_map)
  next
    case (Some g)
    show ?thesis
      unfolding spec user_can_access_channel_def
      by (simp add: h is_team_owner_iff rs default member Some Let_def same [OF listed_by_group [OF Some fg]]
          del: set_map)
  qed
qed

end
