(* ===== verification/Channel_Store.thy ===== *)
theory Channel_Store
  imports Models
begin

section \<open>Channels, messages, attachments, direct messages, threads\<close>

text \<open>
  The statements of \<open>db/channel_queries.rs\<close>, \<open>db/message_queries.rs\<close>, \<open>db/attachment_queries.rs\<close>,
  \<open>db/dm_queries.rs\<close> and \<open>db/thread_queries.rs\<close>, one definition per Rust function, with the
  constraints of migrations 001, 003, 004, 007, 019, 020 and 025 written out. \<open>wf_chat\<close> is the
  integrity the schema promises for these tables; every write keeps it.
\<close>

subsection \<open>Channels\<close>

text \<open>The unique index of migration 019 on \<open>(team_id, lower(trim(name)), type)\<close>.\<close>

definition channel_key :: "channel \<Rightarrow> string \<times> string \<times> string" where
  "channel_key ch = (ch_team_id ch, sql_lower (sql_trim (ch_name ch)), ch_type ch)"

definition channel_types :: "string set" where
  "channel_types = {''text'', ''voice'', ''dm'', ''group_dm''}"

definition create_channel :: "channel \<Rightarrow> unit db_op" where
  "create_channel ch = exec ''create_channel'' (\<lambda>c.
     if ch_id ch \<in> ch_id ` set (c_channels c) \<or> channel_key ch \<in> channel_key ` set (c_channels c)
       \<or> ch_team_id ch \<notin> t_id ` set (c_teams c) \<or> ch_created_by ch \<notin> u_id ` set (c_users c)
       \<or> ch_type ch \<notin> channel_types
       \<or> (case ch_group_id ch of None \<Rightarrow> False | Some g \<Rightarrow> g \<notin> cg_id ` set (c_channel_groups c)) then None
     else Some (c\<lparr>c_channels := c_channels c @ [ch]\<rparr>))"

definition get_channels_by_team :: "conn \<Rightarrow> string \<Rightarrow> channel list db_res" where
  "get_channels_by_team c tid = stmt ''get_channels_by_team'' c
     (sort_key (\<lambda>ch. ch_position ch) (sort_key (\<lambda>ch. ch_created_at ch)
       (rows_where (\<lambda>ch. ch_team_id ch = tid) (c_channels c))))"

definition get_channel_by_id :: "conn \<Rightarrow> string \<Rightarrow> channel option db_res" where
  "get_channel_by_id c cid =
     optional (query_row ''get_channel_by_id'' c (rows_where (\<lambda>ch. ch_id ch = cid) (c_channels c)))"

definition edit_channel_row :: "string \<Rightarrow> channel \<Rightarrow> channel \<Rightarrow> channel" where
  "edit_channel_row now ch x = x\<lparr>ch_name := ch_name ch, ch_topic := ch_topic ch,
     ch_position := ch_position ch, ch_category := ch_category ch, ch_locked := ch_locked ch,
     ch_hidden_if_restricted := ch_hidden_if_restricted ch,
     ch_slow_mode_seconds := ch_slow_mode_seconds ch, ch_group_id := ch_group_id ch,
     ch_updated_at := now\<rparr>"

text \<open>The update is refused when it would duplicate a normalised name or name an unknown group.\<close>

definition update_channel :: "string \<Rightarrow> channel \<Rightarrow> unit db_op" where
  "update_channel now ch = exec ''update_channel'' (\<lambda>c.
     let chs = update_where (\<lambda>x. ch_id x = ch_id ch) (edit_channel_row now ch) (c_channels c)
     in if ch_id ch \<in> ch_id ` set (c_channels c) \<and> (\<not> distinct (map channel_key chs)
          \<or> (case ch_group_id ch of None \<Rightarrow> False | Some g \<Rightarrow> g \<notin> cg_id ` set (c_channel_groups c))) then None
        else Some (c\<lparr>c_channels := chs\<rparr>))"

subsection \<open>Deleting messages with what hangs on them\<close>

text \<open>\<open>ON DELETE CASCADE\<close> of attachments, reactions and threads, \<open>ON DELETE SET NULL\<close> of replies, for the
  message rows that satisfy \<open>p\<close>.\<close>

definition drop_messages :: "(message \<Rightarrow> bool) \<Rightarrow> conn \<Rightarrow> conn" where
  "drop_messages p c =
     (let gone = msg_id ` {m \<in> set (c_messages c). p m}
      in c\<lparr>c_messages := update_where (\<lambda>m. \<exists>g \<in> gone. msg_reply_to m = Some g) (\<lambda>m. m\<lparr>msg_reply_to := None\<rparr>)
             (delete_where p (c_messages c)),
           c_attachments := delete_where (\<lambda>a. a_message_id a \<in> gone) (c_attachments c),
           c_reactions := delete_where (\<lambda>r. rx_message_id r \<in> gone) (c_reactions c),
           c_threads := delete_where (\<lambda>t. th_parent_message_id t \<in> gone) (c_threads c),
           c_pins := delete_where (\<lambda>p. pm_message_id p \<in> gone) (c_pins c)\<rparr>)"

definition delete_channel :: "string \<Rightarrow> unit db_op" where
  "delete_channel cid = exec ''delete_channel'' (\<lambda>c.
     if cid \<notin> ch_id ` set (c_channels c) then Some c
     else let c' = drop_messages (\<lambda>m. msg_channel_id m = cid) c
       in Some (c'\<lparr>c_channels := delete_where (\<lambda>ch. ch_id ch = cid) (c_channels c'),
            c_threads := delete_where (\<lambda>t. th_channel_id t = cid) (c_threads c'),
            c_channel_role_access := delete_where (\<lambda>p. fst p = cid) (c_channel_role_access c'),
            c_pins := delete_where (\<lambda>p. pm_channel_id p = cid) (c_pins c')\<rparr>))"

subsection \<open>Messages\<close>

definition message_types :: "string set" where
  "message_types = {''text'', ''system'', ''file''}"

text \<open>The constraints an inserted message meets; \<open>''''\<close> in a nullable column is NULL.\<close>

definition message_ok :: "conn \<Rightarrow> message \<Rightarrow> bool" where
  "message_ok c m \<longleftrightarrow> msg_id m \<notin> msg_id ` set (c_messages c)
     \<and> (msg_channel_id m = [] \<or> msg_channel_id m \<in> ch_id ` set (c_channels c))
     \<and> (msg_dm_channel_id m = [] \<or> msg_dm_channel_id m \<in> dm_id ` set (c_dm_channels c))
     \<and> msg_author_id m \<in> u_id ` set (c_users c) \<and> msg_type m \<in> message_types
     \<and> (case msg_reply_to m of None \<Rightarrow> True | Some r \<Rightarrow> r = msg_id m \<or> r \<in> msg_id ` set (c_messages c))"

text \<open>\<open>create_message\<close> lists ten columns: \<open>edited_at\<close> and \<open>deleted\<close> take their defaults.\<close>

definition create_message :: "message \<Rightarrow> unit db_op" where
  "create_message m = exec ''create_message'' (\<lambda>c.
     if message_ok c m
     then Some (c\<lparr>c_messages := c_messages c @ [m\<lparr>msg_edited_at := None, msg_deleted := False\<rparr>]\<rparr>)
     else None)"

definition get_message_by_id :: "conn \<Rightarrow> string \<Rightarrow> message option db_res" where
  "get_message_by_id c mid =
     optional (query_row ''get_message_by_id'' c (rows_where (\<lambda>m. msg_id m = mid) (c_messages c)))"

text \<open>\<open>ORDER BY created_at DESC LIMIT n\<close> (the index is read backwards, so rows of one instant come
  in descending rowid order; a negative limit is no limit), then \<open>reverse\<close>.\<close>

definition newest :: "int \<Rightarrow> message list \<Rightarrow> message list" where
  "newest n ms = (let desc = rev (sort_key msg_created_at ms)
     in rev (if n < 0 then desc else take (nat n) desc))"

definition get_messages_by_channel :: "conn \<Rightarrow> string \<Rightarrow> string \<Rightarrow> int \<Rightarrow> message list db_res" where
  "get_messages_by_channel c cid before n = stmt ''get_messages_by_channel'' c
     (newest n (rows_where (\<lambda>m. msg_channel_id m = cid \<and> cid \<noteq> [] \<and> msg_thread_id m = []
        \<and> (before = [] \<or> msg_created_at m < before)) (c_messages c)))"

definition update_message_content :: "string \<Rightarrow> string \<Rightarrow> string \<Rightarrow> unit db_op" where
  "update_message_content now mid content = exec ''update_message_content'' (\<lambda>c.
     Some (c\<lparr>c_messages := update_where (\<lambda>m. msg_id m = mid)
       (\<lambda>m. m\<lparr>msg_content := content, msg_edited_at := Some now\<rparr>) (c_messages c)\<rparr>))"

definition soft_delete_message :: "string \<Rightarrow> unit db_op" where
  "soft_delete_message mid = exec ''soft_delete_message'' (\<lambda>c.
     Some (c\<lparr>c_messages := update_where (\<lambda>m. msg_id m = mid)
       (\<lambda>m. m\<lparr>msg_deleted := True, msg_content := []\<rparr>) (c_messages c)\<rparr>))"

subsection \<open>Attachments\<close>

definition create_attachment :: "attachment \<Rightarrow> unit db_op" where
  "create_attachment a = exec ''create_attachment'' (\<lambda>c.
     if a_id a \<in> a_id ` set (c_attachments c)
       \<or> (a_message_id a \<noteq> [] \<and> a_message_id a \<notin> msg_id ` set (c_messages c)) then None
     else Some (c\<lparr>c_attachments := c_attachments c @ [a]\<rparr>))"

definition get_attachment :: "conn \<Rightarrow> string \<Rightarrow> attachment option db_res" where
  "get_attachment c aid =
     optional (query_row ''get_attachment'' c (rows_where (\<lambda>a. a_id a = aid) (c_attachments c)))"

definition get_message_attachments :: "conn \<Rightarrow> string \<Rightarrow> attachment list db_res" where
  "get_message_attachments c mid = stmt ''get_message_attachments'' c
     (rows_where (\<lambda>a. a_message_id a = mid \<and> mid \<noteq> []) (c_attachments c))"

definition delete_attachment :: "string \<Rightarrow> unit db_op" where
  "delete_attachment aid = exec ''delete_attachment'' (\<lambda>c.
     Some (c\<lparr>c_attachments := delete_where (\<lambda>a. a_id a = aid) (c_attachments c)\<rparr>))"

subsection \<open>Direct messages\<close>

definition create_dm_channel :: "dm_channel \<Rightarrow> unit db_op" where
  "create_dm_channel d = exec ''create_dm_channel'' (\<lambda>c.
     if dm_id d \<in> dm_id ` set (c_dm_channels c) \<or> dm_type d \<notin> {''dm'', ''group_dm''}
       \<or> (dm_team_id d \<noteq> [] \<and> dm_team_id d \<notin> t_id ` set (c_teams c)) then None
     else Some (c\<lparr>c_dm_channels := c_dm_channels c @ [d]\<rparr>))"

definition get_dm_channel :: "conn \<Rightarrow> string \<Rightarrow> dm_channel option db_res" where
  "get_dm_channel c i = optional (query_row ''get_dm_channel'' c (rows_where (\<lambda>d. dm_id d = i) (c_dm_channels c)))"

definition in_dm :: "conn \<Rightarrow> string \<Rightarrow> string \<Rightarrow> bool" where
  "in_dm c did uid = list_ex (\<lambda>x. dmm_channel_id x = did \<and> dmm_user_id x = uid) (c_dm_members c)"

text \<open>Joined twice with \<open>dm_members\<close>; the key \<open>(channel_id, user_id)\<close> is primary, so each channel
  occurs once. \<open>team_id = ?1\<close> never matches NULL.\<close>

definition get_dm_channel_by_members :: "conn \<Rightarrow> string \<Rightarrow> string \<Rightarrow> string \<Rightarrow> dm_channel option db_res" where
  "get_dm_channel_by_members c tid u1 u2 = optional (query_row ''get_dm_channel_by_members'' c
     (rows_where (\<lambda>d. in_dm c (dm_id d) u1 \<and> in_dm c (dm_id d) u2 \<and> dm_team_id d = tid \<and> tid \<noteq> []
        \<and> dm_type d = ''dm'') (c_dm_channels c)))"

definition get_user_dm_channels :: "conn \<Rightarrow> string \<Rightarrow> string \<Rightarrow> dm_channel list db_res" where
  "get_user_dm_channels c tid uid = stmt ''get_user_dm_channels'' c
     (rev (sort_key dm_created_at (rows_where (\<lambda>d. dm_team_id d = tid \<and> tid \<noteq> [] \<and> in_dm c (dm_id d) uid)
        (c_dm_channels c))))"

definition add_dm_members :: "string \<Rightarrow> string \<Rightarrow> string list \<Rightarrow> unit db_op" where
  "add_dm_members now did uids = for_eachS (\<lambda>uid. exec ''add_dm_members'' (\<lambda>c.
     if in_dm c did uid then Some c
     else if did \<notin> dm_id ` set (c_dm_channels c) \<or> uid \<notin> u_id ` set (c_users c) then None
     else Some (c\<lparr>c_dm_members := c_dm_members c @
       [\<lparr>dmm_channel_id = did, dmm_user_id = uid, dmm_joined_at = now\<rparr>]\<rparr>))) uids"

definition remove_dm_member :: "string \<Rightarrow> string \<Rightarrow> unit db_op" where
  "remove_dm_member did uid = exec ''remove_dm_member'' (\<lambda>c.
     Some (c\<lparr>c_dm_members := delete_where (\<lambda>x. dmm_channel_id x = did \<and> dmm_user_id x = uid) (c_dm_members c)\<rparr>))"

definition get_dm_members :: "conn \<Rightarrow> string \<Rightarrow> dm_member list db_res" where
  "get_dm_members c did = stmt ''get_dm_members'' c
     (rows_where (\<lambda>x. dmm_channel_id x = did) (c_dm_members c))"

definition is_dm_member :: "conn \<Rightarrow> string \<Rightarrow> string \<Rightarrow> bool db_res" where
  "is_dm_member c did uid = bindE (stmt ''is_dm_member'' c
     (length (rows_where (\<lambda>x. dmm_channel_id x = did \<and> dmm_user_id x = uid) (c_dm_members c))))
     (\<lambda>count. Inr (count > 0))"

definition create_dm_message :: "message \<Rightarrow> unit db_op" where
  "create_dm_message m = exec ''create_dm_message'' (\<lambda>c.
     let row = m\<lparr>msg_channel_id := [], msg_thread_id := [], msg_reply_to := None,
       msg_edited_at := None, msg_deleted := False\<rparr>
     in if message_ok c row \<and> msg_dm_channel_id m \<noteq> [] then Some (c\<lparr>c_messages := c_messages c @ [row]\<rparr>)
        else None)"

definition get_dm_messages :: "conn \<Rightarrow> string \<Rightarrow> string \<Rightarrow> int \<Rightarrow> message list db_res" where
  "get_dm_messages c did before n = stmt ''get_dm_messages'' c
     (newest n (rows_where (\<lambda>m. msg_dm_channel_id m = did \<and> did \<noteq> []
        \<and> (before = [] \<or> msg_created_at m < before)) (c_messages c)))"

definition get_last_dm_message :: "conn \<Rightarrow> string \<Rightarrow> message option db_res" where
  "get_last_dm_message c did = optional (query_row ''get_last_dm_message'' c
     (rev (sort_key msg_created_at (rows_where (\<lambda>m. msg_dm_channel_id m = did \<and> did \<noteq> []) (c_messages c)))))"

subsection \<open>Threads\<close>

definition create_thread :: "thread \<Rightarrow> unit db_op" where
  "create_thread t = exec ''create_thread'' (\<lambda>c.
     if th_id t \<in> th_id ` set (c_threads c)
       \<or> th_parent_message_id t \<in> th_parent_message_id ` set (c_threads c)
       \<or> th_channel_id t \<notin> ch_id ` set (c_channels c)
       \<or> th_parent_message_id t \<notin> msg_id ` set (c_messages c)
       \<or> th_creator_id t \<notin> u_id ` set (c_users c) then None
     else Some (c\<lparr>c_threads := c_threads c @ [t]\<rparr>))"

definition get_thread :: "conn \<Rightarrow> string \<Rightarrow> thread option db_res" where
  "get_thread c i = optional (query_row ''get_thread'' c (rows_where (\<lambda>t. th_id t = i) (c_threads c)))"

definition get_thread_by_parent_message :: "conn \<Rightarrow> string \<Rightarrow> thread option db_res" where
  "get_thread_by_parent_message c mid = optional (query_row ''get_thread_by_parent_message'' c
     (rows_where (\<lambda>t. th_parent_message_id t = mid) (c_threads c)))"

definition get_channel_threads :: "conn \<Rightarrow> string \<Rightarrow> thread list db_res" where
  "get_channel_threads c cid = stmt ''get_channel_threads'' c
     (rev (sort_key th_created_at (rows_where (\<lambda>t. th_channel_id t = cid) (c_threads c))))"

definition update_thread :: "thread \<Rightarrow> unit db_op" where
  "update_thread t = exec ''update_thread'' (\<lambda>c.
     Some (c\<lparr>c_threads := update_where (\<lambda>x. th_id x = th_id t)
       (\<lambda>x. x\<lparr>th_title := th_title t, th_message_count := th_message_count t,
         th_last_message_at := th_last_message_at t\<rparr>) (c_threads c)\<rparr>))"

definition delete_thread :: "string \<Rightarrow> unit db_op" where
  "delete_thread i = bindS
     (exec ''delete_thread.messages'' (\<lambda>c. Some (drop_messages (\<lambda>m. msg_thread_id m = i \<and> i \<noteq> []) c)))
     (\<lambda>_. exec ''delete_thread.thread'' (\<lambda>c.
        Some (c\<lparr>c_threads := delete_where (\<lambda>t. th_id t = i) (c_threads c)\<rparr>)))"

text \<open>The insert names \<open>channel_id\<close> and \<open>thread_id\<close> as they come, without \<open>nullable\<close>: an empty
  channel id is refused by the foreign key. The callers pass the id of a thread they have read, so
  the empty thread id does not arise.\<close>

definition create_thread_message :: "string \<Rightarrow> message \<Rightarrow> unit db_op" where
  "create_thread_message now m = bindS
     (exec ''create_thread_message.insert'' (\<lambda>c.
        let row = m\<lparr>msg_dm_channel_id := [], msg_reply_to := None, msg_edited_at := None, msg_deleted := False\<rparr>
        in if message_ok c row \<and> msg_channel_id m \<noteq> [] then Some (c\<lparr>c_messages := c_messages c @ [row]\<rparr>)
           else None))
     (\<lambda>_. exec ''create_thread_message.count'' (\<lambda>c.
        Some (c\<lparr>c_threads := update_where (\<lambda>t. th_id t = msg_thread_id m)
          (\<lambda>t. t\<lparr>th_message_count := th_message_count t + 1, th_last_message_at := Some now\<rparr>) (c_threads c)\<rparr>)))"

definition get_thread_messages :: "conn \<Rightarrow> string \<Rightarrow> string \<Rightarrow> int \<Rightarrow> message list db_res" where
  "get_thread_messages c i before n = stmt ''get_thread_messages'' c
     (newest n (rows_where (\<lambda>m. msg_thread_id m = i \<and> i \<noteq> []
        \<and> (before = [] \<or> msg_created_at m < before)) (c_messages c)))"

subsection \<open>Integrity of the tables\<close>

text \<open>A foreign key in a nullable column.\<close>

definition opt_refs :: "('a \<Rightarrow> string) \<Rightarrow> 'a list \<Rightarrow> ('b \<Rightarrow> string) \<Rightarrow> 'b list \<Rightarrow> bool" where
  "opt_refs f xs g ys \<longleftrightarrow> (\<forall>x \<in> set xs. f x = [] \<or> f x \<in> g ` set ys)"

lemma opt_refs_Nil [simp]: "opt_refs f [] g ys"
  by (simp add: opt_refs_def)

lemma opt_refs_append [simp]: "opt_refs f (xs @ zs) g ys \<longleftrightarrow> opt_refs f xs g ys \<and> opt_refs f zs g ys"
  by (auto simp: opt_refs_def)

lemma opt_refs_single [simp]: "opt_refs f [x] g ys \<longleftrightarrow> f x = [] \<or> f x \<in> g ` set ys"
  by (simp add: opt_refs_def)

lemma opt_refs_parent [refs_intros]: "opt_refs f xs g ys \<Longrightarrow> opt_refs f xs g (ys @ zs)"
  by (auto simp: opt_refs_def)

lemma opt_refs_update_child [refs_intros]:
  "opt_refs f xs g ys \<Longrightarrow> (\<And>r. p r \<Longrightarrow> f (u r) = f r) \<Longrightarrow> opt_refs f (update_where p u xs) g ys"
  by (auto simp: opt_refs_def)

lemma opt_refs_update_parent [refs_intros]:
  "opt_refs f xs g ys \<Longrightarrow> (\<And>r. p r \<Longrightarrow> g (u r) = g r) \<Longrightarrow> opt_refs f xs g (update_where p u ys)"
  unfolding opt_refs_def by (subst image_update_where)

lemma opt_refs_delete_child [refs_intros]: "opt_refs f xs g ys \<Longrightarrow> opt_refs f (delete_where p xs) g ys"
  by (simp add: opt_refs_def)

lemma opt_refs_cascade:
  assumes "opt_refs f xs g ys"
    and "\<And>x y. x \<in> set xs \<Longrightarrow> y \<in> set ys \<Longrightarrow> f x = g y \<Longrightarrow> q y \<Longrightarrow> p x"
  shows "opt_refs f (delete_where p xs) g (delete_where q ys)"
  using assms by (fastforce simp: opt_refs_def)

definition wf_chat :: "conn \<Rightarrow> bool" where
  "wf_chat c \<longleftrightarrow> distinct (map ch_id (c_channels c)) \<and> distinct (map channel_key (c_channels c))
     \<and> distinct (map msg_id (c_messages c)) \<and> distinct (map a_id (c_attachments c))
     \<and> distinct (map dm_id (c_dm_channels c)) \<and> distinct (map th_id (c_threads c))
     \<and> distinct (map (\<lambda>x. (dmm_channel_id x, dmm_user_id x)) (c_dm_members c))
     \<and> refs ch_team_id (c_channels c) t_id (c_teams c)
     \<and> opt_refs msg_channel_id (c_messages c) ch_id (c_channels c)
     \<and> opt_refs msg_dm_channel_id (c_messages c) dm_id (c_dm_channels c)
     \<and> refs msg_author_id (c_messages c) u_id (c_users c)
     \<and> opt_refs a_message_id (c_attachments c) msg_id (c_messages c)
     \<and> refs dmm_channel_id (c_dm_members c) dm_id (c_dm_channels c)
     \<and> refs dmm_user_id (c_dm_members c) u_id (c_users c)
     \<and> refs th_channel_id (c_threads c) ch_id (c_channels c)
     \<and> refs th_parent_message_id (c_threads c) msg_id (c_messages c)"

lemma wf_chat_empty: "wf_chat empty_conn"
  by (simp add: wf_chat_def empty_conn_def)

lemma wf_chat_audit: "wf_chat (snd (insert_audit_event i n t a ac tt ti d c)) = wf_chat c"
  by (rule insert_audit_event_frame) (simp add: wf_chat_def)

lemma message_unique:
  "wf_chat c \<Longrightarrow> m \<in> set (c_messages c) \<Longrightarrow> m' \<in> set (c_messages c) \<Longrightarrow> msg_id m = msg_id m' \<Longrightarrow> m = m'"
  by (auto simp: wf_chat_def distinct_map dest: inj_onD)

lemma get_message_by_id_SomeD:
  "get_message_by_id c mid = Inr (Some m) \<Longrightarrow> m \<in> set (c_messages c) \<and> msg_id m = mid"
  by (auto simp: get_message_by_id_def optional_query_row stmt_eq_Inr dest!: first_row_SomeD sym [of "Some _"])

lemma get_channel_by_id_SomeD:
  "get_channel_by_id c cid = Inr (Some ch) \<Longrightarrow> ch \<in> set (c_channels c) \<and> ch_id ch = cid"
  by (auto simp: get_channel_by_id_def optional_query_row stmt_eq_Inr dest!: first_row_SomeD sym [of "Some _"])

subsection \<open>Every write keeps the integrity\<close>

lemma wf_create_channel: "wf_chat c \<Longrightarrow> wf_chat (snd (create_channel ch c))"
  unfolding create_channel_def
  by (rule exec_cases) (auto simp: wf_chat_def intro: refs_intros split: if_splits)

lemma edit_channel_row_keys [simp]:
  "ch_id (edit_channel_row now ch x) = ch_id x" "ch_team_id (edit_channel_row now ch x) = ch_team_id x"
  by (simp_all add: edit_channel_row_def)

lemma refs_image: "refs f xs g ys \<longleftrightarrow> f ` set xs \<subseteq> g ` set ys"
  by (auto simp: refs_def)

lemma wf_chat_channels:
  assumes "wf_chat c" and "map ch_id chs = map ch_id (c_channels c)"
    and "map ch_team_id chs = map ch_team_id (c_channels c)" and "distinct (map channel_key chs)"
  shows "wf_chat (c\<lparr>c_channels := chs\<rparr>)"
proof -
  have ids: "ch_id ` set chs = ch_id ` set (c_channels c)"
    and teams: "ch_team_id ` set chs = ch_team_id ` set (c_channels c)"
    using assms(2,3) by (metis list.set_map)+
  have "refs ch_team_id chs t_id (c_teams c)"
    using assms(1) teams by (simp add: wf_chat_def refs_image)
  moreover have "opt_refs msg_channel_id (c_messages c) ch_id chs"
    and "refs th_channel_id (c_threads c) ch_id chs"
    using assms(1) by (simp_all add: wf_chat_def opt_refs_def refs_def ids)
  ultimately show ?thesis
    using assms unfolding wf_chat_def by simp
qed

lemma wf_update_channel: "wf_chat c \<Longrightarrow> wf_chat (snd (update_channel now ch c))"
proof -
  have same: "ch_id ch \<notin> ch_id ` set (c_channels c)
      \<Longrightarrow> update_where (\<lambda>x. ch_id x = ch_id ch) (edit_channel_row now ch) (c_channels c) = c_channels c"
    by (rule update_where_none) (metis image_eqI)
  assume wf: "wf_chat c"
  then have keys: "distinct (map channel_key (c_channels c))" by (simp add: wf_chat_def)
  show ?thesis
    unfolding update_channel_def Let_def
  proof (rule exec_cases)
    show "wf_chat c" by (rule wf)
    fix c' assume upd: "(if ch_id ch \<in> ch_id ` set (c_channels c) \<and> (\<not> distinct (map channel_key
          (update_where (\<lambda>x. ch_id x = ch_id ch) (edit_channel_row now ch) (c_channels c)))
          \<or> (case ch_group_id ch of None \<Rightarrow> False | Some g \<Rightarrow> g \<notin> cg_id ` set (c_channel_groups c))) then None
        else Some (c\<lparr>c_channels := update_where (\<lambda>x. ch_id x = ch_id ch) (edit_channel_row now ch)
          (c_channels c)\<rparr>)) = Some c'"
    have "distinct (map channel_key (update_where (\<lambda>x. ch_id x = ch_id ch) (edit_channel_row now ch) (c_channels c)))"
      using upd keys same by (cases "ch_id ch \<in> ch_id ` set (c_channels c)") (auto split: if_splits)
    from wf_chat_channels [OF wf _ _ this] upd show "wf_chat c'"
      by (auto simp: map_update_where split: if_splits)
  qed
qed

lemma wf_drop_messages:
  assumes "wf_chat c" shows "wf_chat (drop_messages p c)"
proof -
  let ?gone = "msg_id ` {m \<in> set (c_messages c). p m}"
  let ?ms = "update_where (\<lambda>m. \<exists>g \<in> ?gone. msg_reply_to m = Some g) (\<lambda>m. m\<lparr>msg_reply_to := None\<rparr>)
    (delete_where p (c_messages c))"
  have "opt_refs a_message_id (delete_where (\<lambda>a. a_message_id a \<in> ?gone) (c_attachments c)) msg_id ?ms"
    using assms by (intro opt_refs_update_parent opt_refs_cascade) (auto simp: wf_chat_def)
  moreover have "refs th_parent_message_id
      (delete_where (\<lambda>t. th_parent_message_id t \<in> ?gone) (c_threads c)) msg_id ?ms"
    using assms by (intro refs_update_parent refs_cascade) (auto simp: wf_chat_def)
  ultimately show ?thesis
    using assms unfolding drop_messages_def Let_def wf_chat_def
    by (simp add: map_update_where refs_delete_child refs_update_child opt_refs_delete_child
        opt_refs_update_child)
qed

lemma wf_add_message: "wf_chat c \<Longrightarrow> message_ok c m \<Longrightarrow> wf_chat (c\<lparr>c_messages := c_messages c @ [m]\<rparr>)"
  unfolding wf_chat_def message_ok_def by (simp, intro conjI refs_intros; simp)

lemma wf_insert_message:
  "(if message_ok c m \<and> q then Some (c\<lparr>c_messages := c_messages c @ [m]\<rparr>) else None) = Some c'
   \<Longrightarrow> wf_chat c \<Longrightarrow> wf_chat c'"
  by (cases "message_ok c m \<and> q") (auto simp: wf_add_message)

lemma message_ok_flags [simp]:
  "message_ok c (m\<lparr>msg_edited_at := e, msg_deleted := d\<rparr>) = message_ok c m"
  by (cases "msg_reply_to m") (simp_all add: message_ok_def)

lemma wf_create_message: "wf_chat c \<Longrightarrow> wf_chat (snd (create_message m c))"
  unfolding create_message_def
  by (rule exec_cases) (auto simp: intro: wf_add_message split: if_splits)

lemma wf_update_message_content: "wf_chat c \<Longrightarrow> wf_chat (snd (update_message_content now mid s c))"
  unfolding update_message_content_def
  by (rule exec_cases) (auto simp: wf_chat_def map_update_where intro!: refs_intros)

lemma wf_soft_delete_message: "wf_chat c \<Longrightarrow> wf_chat (snd (soft_delete_message mid c))"
  unfolding soft_delete_message_def
  by (rule exec_cases) (auto simp: wf_chat_def map_update_where intro!: refs_intros)

lemma wf_create_attachment: "wf_chat c \<Longrightarrow> wf_chat (snd (create_attachment a c))"
  unfolding create_attachment_def
  by (rule exec_cases) (auto simp: wf_chat_def intro: refs_intros split: if_splits)

lemma wf_delete_attachment: "wf_chat c \<Longrightarrow> wf_chat (snd (delete_attachment a c))"
  unfolding delete_attachment_def
  by (rule exec_cases) (auto simp: wf_chat_def intro: refs_intros split: if_splits)

lemma wf_create_dm_channel: "wf_chat c \<Longrightarrow> wf_chat (snd (create_dm_channel d c))"
  unfolding create_dm_channel_def
  by (rule exec_cases) (auto simp: wf_chat_def intro: refs_intros split: if_splits)

lemma in_dm_iff: "in_dm c did uid \<longleftrightarrow> (did, uid) \<in> (\<lambda>x. (dmm_channel_id x, dmm_user_id x)) ` set (c_dm_members c)"
  by (auto simp: in_dm_def list_ex_iff)

lemma wf_add_dm_members: "wf_chat c \<Longrightarrow> wf_chat (snd (add_dm_members now did uids c))"
  unfolding add_dm_members_def
  by (rule for_eachS_keeps, rule exec_cases)
    (auto simp: wf_chat_def in_dm_iff intro: refs_intros split: if_splits)

lemma wf_remove_dm_member: "wf_chat c \<Longrightarrow> wf_chat (snd (remove_dm_member did uid c))"
  unfolding remove_dm_member_def
  by (rule exec_cases) (auto simp: wf_chat_def intro: refs_intros)

lemma wf_create_dm_message: "wf_chat c \<Longrightarrow> wf_chat (snd (create_dm_message m c))"
  unfolding create_dm_message_def Let_def
  by (rule exec_cases) (auto intro: wf_add_message split: if_splits)

lemma wf_create_thread: "wf_chat c \<Longrightarrow> wf_chat (snd (create_thread t c))"
  unfolding create_thread_def
  by (rule exec_cases) (auto simp: wf_chat_def intro: refs_intros split: if_splits)

lemma wf_update_thread: "wf_chat c \<Longrightarrow> wf_chat (snd (update_thread t c))"
  unfolding update_thread_def
  by (rule exec_cases) (auto simp: wf_chat_def map_update_where intro!: refs_intros)

lemma wf_delete_thread: "wf_chat c \<Longrightarrow> wf_chat (snd (delete_thread i c))"
  unfolding delete_thread_def
  by (rule bindS_keeps; (rule exec_cases)?)
    (auto simp: wf_drop_messages, auto simp: wf_chat_def intro: refs_intros)

lemma wf_chat_threads:
  "wf_chat c \<Longrightarrow> (\<And>t. p t \<Longrightarrow> th_id (f t) = th_id t) \<Longrightarrow> (\<And>t. p t \<Longrightarrow> th_channel_id (f t) = th_channel_id t)
   \<Longrightarrow> (\<And>t. p t \<Longrightarrow> th_parent_message_id (f t) = th_parent_message_id t)
   \<Longrightarrow> wf_chat (c\<lparr>c_threads := update_where p f (c_threads c)\<rparr>)"
  unfolding wf_chat_def by (simp add: map_update_where, intro conjI refs_intros; simp)

lemma wf_create_thread_message:
  assumes "wf_chat c" shows "wf_chat (snd (create_thread_message now m c))"
  unfolding create_thread_message_def Let_def
proof (rule bindS_keeps [where P = wf_chat], goal_cases)
  case (1 s)
  then show ?case
    by (intro exec_cases [where P = wf_chat]) (erule wf_insert_message, assumption+)
next
  case (2 x s)
  then show ?case by (intro exec_cases [where P = wf_chat]) (auto intro: wf_chat_threads)
qed (rule assms)

lemmas wf_chat_ops = wf_create_channel wf_update_channel wf_create_message wf_update_message_content
  wf_soft_delete_message wf_create_attachment wf_delete_attachment wf_create_dm_channel
  wf_add_dm_members wf_remove_dm_member wf_create_dm_message wf_create_thread wf_update_thread
  wf_delete_thread wf_create_thread_message

end
