(* ===== verification/Policy.thy ===== *)
theory Policy
  imports Channel_Access Channel_Store
begin

section \<open>The policy module\<close>

text \<open>
  \<open>policy/mod.rs\<close>: the typed decisions. \<open>log_decision\<close> only traces and has no counterpart. Every
  error of a query is a denial with the reason the code gives it.
\<close>

datatype decision = Allow | Deny string

definition is_allowed :: "decision \<Rightarrow> bool" where
  "is_allowed d \<longleftrightarrow> (case d of Allow \<Rightarrow> True | Deny _ \<Rightarrow> False)"

definition can_subscribe_channel :: "conn \<Rightarrow> string \<Rightarrow> string \<Rightarrow> string \<Rightarrow> decision" where
  "can_subscribe_channel c uid tid cid =
     (case get_channel_by_id c cid of
        Inr (Some channel) \<Rightarrow>
          if ch_team_id channel \<noteq> tid then Deny ''channel.cross_team''
          else (case user_can_access_channel c uid tid cid of
              Inr True \<Rightarrow> Allow
            | Inr False \<Rightarrow> Deny ''channel.no_access''
            | Inl _ \<Rightarrow> Deny ''channel.db_error'')
      | Inr None \<Rightarrow>
          (case is_dm_member c cid uid of
              Inr True \<Rightarrow> Allow
            | Inr False \<Rightarrow> Deny ''channel.unknown''
            | Inl _ \<Rightarrow> Deny ''channel.db_error'')
      | Inl _ \<Rightarrow> Deny ''channel.db_error'')"

definition can_send_message :: "conn \<Rightarrow> string \<Rightarrow> string \<Rightarrow> string \<Rightarrow> decision" where
  "can_send_message c uid tid cid =
     (case get_member_by_user_and_team c uid tid of
        Inr (Some _) \<Rightarrow> can_subscribe_channel c uid tid cid
      | Inr None \<Rightarrow> Deny ''team.not_member''
      | Inl _ \<Rightarrow> Deny ''team.db_error'')"

definition can_manage_team :: "conn \<Rightarrow> string \<Rightarrow> string \<Rightarrow> decision" where
  "can_manage_team c uid tid =
     (case user_has_permission c uid tid PERM_MANAGE_TEAM of
        Inr True \<Rightarrow> Allow
      | Inr False \<Rightarrow> Deny ''team.no_manage_permission''
      | Inl _ \<Rightarrow> Deny ''team.db_error'')"

definition can_read_attachment :: "conn \<Rightarrow> string \<Rightarrow> string \<Rightarrow> decision" where
  "can_read_attachment c uid aid =
     (case get_attachment c aid of
        Inl _ \<Rightarrow> Deny ''attachment.db_error''
      | Inr None \<Rightarrow> Deny ''attachment.not_found''
      | Inr (Some a) \<Rightarrow>
          if a_message_id a = [] then Deny ''attachment.unlinked_policy_undefined''
          else (case get_message_by_id c (a_message_id a) of
              Inl _ \<Rightarrow> Deny ''attachment.db_error''
            | Inr None \<Rightarrow> Deny ''attachment.message_missing''
            | Inr (Some msg) \<Rightarrow>
                (case get_channel_by_id c (msg_channel_id msg) of
                   Inl _ \<Rightarrow> Deny ''attachment.db_error''
                 | Inr None \<Rightarrow> Deny ''attachment.channel_missing''
                 | Inr (Some channel) \<Rightarrow>
                     (case user_can_access_channel c uid (ch_team_id channel) (msg_channel_id msg) of
                        Inr True \<Rightarrow> Allow
                      | Inr False \<Rightarrow> Deny ''attachment.no_channel_access''
                      | Inl _ \<Rightarrow> Deny ''attachment.db_error''))))"

definition can_call_federation :: "conn \<Rightarrow> string \<Rightarrow> decision" where
  "can_call_federation c peer_node_id =
     (if peer_node_id = [] then Deny ''federation.unknown_peer'' else Allow)"

definition require_team_member :: "conn \<Rightarrow> string \<Rightarrow> string \<Rightarrow> unit db_res" where
  "require_team_member c uid tid =
     (let decision = (case get_member_by_user_and_team c uid tid of
            Inr (Some _) \<Rightarrow> Allow | Inr None \<Rightarrow> Deny ''team.not_member'' | Inl _ \<Rightarrow> Deny ''team.db_error'')
      in (case decision of Allow \<Rightarrow> Inr ()
          | Deny _ \<Rightarrow> Inl (InvalidParameterName ''not a member of this team'')))"

definition require_permission :: "conn \<Rightarrow> string \<Rightarrow> string \<Rightarrow> u64 \<Rightarrow> unit db_res" where
  "require_permission c uid tid perm =
     (let decision = (case user_has_permission c uid tid perm of
            Inr True \<Rightarrow> Allow | Inr False \<Rightarrow> Deny ''team.insufficient_permission'' | Inl _ \<Rightarrow> Deny ''team.db_error'')
      in (case decision of Allow \<Rightarrow> Inr ()
          | Deny _ \<Rightarrow> Inl (InvalidParameterName ''insufficient permissions'')))"

subsection \<open>What they decide\<close>

lemma is_allowed_simps [simp]: "is_allowed Allow" "\<not> is_allowed (Deny r)"
  by (simp_all add: is_allowed_def)

lemma require_permission_Inr:
  "require_permission c uid tid perm = Inr u \<longleftrightarrow> user_has_permission c uid tid perm = Inr True"
  by (auto simp: require_permission_def split: sum.split bool.split)

lemma require_permission_InrD:
  "require_permission c uid tid perm = Inr u \<Longrightarrow> owns_team c uid tid
    \<or> (\<exists>r \<in> set (held_roles c uid tid).
        r_permissions r AND PERM_ADMIN \<noteq> 0 \<or> r_permissions r AND perm \<noteq> 0)"
  by (simp only: require_permission_Inr) (rule has_permission_fail_closed)

lemma get_member_SomeD:
  "get_member_by_user_and_team c uid tid = Inr (Some m)
     \<Longrightarrow> m \<in> set (c_members c) \<and> m_user_id m = uid \<and> m_team_id m = tid"
  by (auto simp: get_member_by_user_and_team_def optional_query_row stmt_eq_Inr
      dest!: first_row_SomeD sym [of "Some _"])

lemma require_team_member_Inr:
  "require_team_member c uid tid = Inr u \<longleftrightarrow> (\<exists>m. get_member_by_user_and_team c uid tid = Inr (Some m))"
  by (auto simp: require_team_member_def split: sum.split option.split)

lemma require_team_member_InrD: "require_team_member c uid tid = Inr u \<Longrightarrow> is_member c uid tid"
  by (auto simp: require_team_member_Inr is_member_def dest: get_member_SomeD)

lemma is_dm_member_Inr:
  "is_dm_member c did uid = Inr b \<longleftrightarrow> ''is_dm_member'' \<notin> set (c_faults c) \<and> b = in_dm c did uid"
  by (auto simp: is_dm_member_def stmt_eq_Inr in_dm_def list_ex_iff rows_where_eq_Nil)

lemma can_subscribe_AllowD:
  assumes "is_allowed (can_subscribe_channel c uid tid cid)"
  shows "(\<exists>ch \<in> set (c_channels c). ch_id ch = cid \<and> ch_team_id ch = tid
        \<and> user_can_access_channel c uid tid cid = Inr True)
    \<or> get_channel_by_id c cid = Inr None \<and> in_dm c cid uid"
proof (cases "get_channel_by_id c cid")
  case (Inr o1)
  then show ?thesis
    using assms get_channel_by_id_SomeD [of c cid]
    by (cases o1) (auto simp: can_subscribe_channel_def is_dm_member_Inr
        split: if_splits sum.splits bool.splits)
qed (use assms in \<open>simp add: can_subscribe_channel_def\<close>)

lemma get_channel_by_id_NoneD:
  "get_channel_by_id c cid = Inr None \<Longrightarrow> ch \<in> set (c_channels c) \<Longrightarrow> ch_id ch \<noteq> cid"
  using rows_where_eq_Nil [of "\<lambda>ch. ch_id ch = cid" "c_channels c"]
  by (simp add: get_channel_by_id_def optional_query_row stmt_def split: if_splits)

subsection \<open>Properties\<close>

text \<open>C1. Subscribing fails closed and never crosses teams: a subscription is allowed only to a channel
  of the caller's own team that the access policy opens to the caller, or to a direct-message channel
  the caller belongs to. This holds whatever statements fail, short of the two lookups of the
  channel's group.\<close>

theorem subscribe_sound:
  assumes "group_lookups_ok c" and "can_subscribe_channel c uid tid cid = Allow"
  shows "(\<exists>ch \<in> set (c_channels c). ch_id ch = cid \<and> ch_team_id ch = tid \<and> may_access c uid tid cid)
    \<or> (\<forall>ch \<in> set (c_channels c). ch_id ch \<noteq> cid) \<and> in_dm c cid uid"
proof -
  have "is_allowed (can_subscribe_channel c uid tid cid)" using assms(2) by simp
  then show ?thesis
  proof (rule disjE [OF can_subscribe_AllowD])
    assume "\<exists>ch \<in> set (c_channels c). ch_id ch = cid \<and> ch_team_id ch = tid
      \<and> user_can_access_channel c uid tid cid = Inr True"
    with access_granted_sound [OF assms(1)] show ?thesis by blast
  next
    assume "get_channel_by_id c cid = Inr None \<and> in_dm c cid uid"
    then show ?thesis by (auto dest: get_channel_by_id_NoneD)
  qed
qed

definition sample_user :: "string \<Rightarrow> user" where
  "sample_user n = \<lparr>u_id = n, u_username = n, u_display_name = [], u_public_key = [], u_avatar_url = [],
       u_status_text = [], u_status_type = ''online'', u_is_admin = False, u_created_at = [], u_updated_at = [],
       u_quiet_hours_enabled = False, u_quiet_hours_from = [], u_quiet_hours_to = []\<rparr>"

definition sample_conn :: conn where
  "sample_conn = empty_conn\<lparr>
     c_users := [sample_user ''owner'', sample_user ''bob''],
     c_teams := [\<lparr>t_id = ''t'', t_name = ''T'', t_description = [], t_icon_url = [], t_created_by = ''owner'',
       t_max_file_size = 0, t_allow_member_invites = True, t_federated = False, t_force_turn_relay = False,
       t_created_at = [], t_updated_at = []\<rparr>],
     c_roles := [\<lparr>r_id = ''mod'', r_team_id = ''t'', r_name = ''Mod'', r_color = [], r_position = 1,
       r_permissions = 8, r_is_default = False, r_created_at = [], r_updated_at = []\<rparr>],
     c_members := [\<lparr>m_id = ''m1'', m_team_id = ''t'', m_user_id = ''bob'', m_nickname = [], m_joined_at = [],
       m_invited_by = ''owner'', m_updated_at = []\<rparr>],
     c_member_roles := [(''m1'', ''mod'')],
     c_channels := [\<lparr>ch_id = ''ch'', ch_team_id = ''t'', ch_name = ''general'', ch_topic = [], ch_type = ''text'',
       ch_position = 0, ch_category = [], ch_created_by = ''owner'', ch_created_at = [], ch_updated_at = [],
       ch_locked = False, ch_hidden_if_restricted = False, ch_slow_mode_seconds = 10, ch_group_id = None\<rparr>],
     c_channel_role_access := [(''ch'', ''mod'')]\<rparr>"

lemma sample_conn_sel [simp]:
  "c_faults sample_conn = []" "healthy sample_conn"
  by (simp_all add: sample_conn_def empty_conn_def healthy_def)

lemma sample_subscribe: "can_subscribe_channel sample_conn ''bob'' ''t'' ''ch'' = Allow"
  by (simp add: can_subscribe_channel_def get_channel_by_id_def access_decides may_access_def
      gating_roles_def default_role_id_def sample_conn_def empty_conn_def healthy_def owns_team_def)

theorem subscribe_sound_witness:
  "(\<exists>ch \<in> set (c_channels sample_conn). ch_id ch = ''ch'' \<and> ch_team_id ch = ''t''
      \<and> may_access sample_conn ''bob'' ''t'' ''ch'')
    \<or> (\<forall>ch \<in> set (c_channels sample_conn). ch_id ch \<noteq> ''ch'') \<and> in_dm sample_conn ''ch'' ''bob''"
  by (rule subscribe_sound [OF healthy_group_lookups sample_subscribe]) simp

text \<open>An attachment read is allowed only through the channel of the message it hangs on, and only
  to users the access policy opens that channel to; unlinked attachments and attachments of direct
  messages are always refused.\<close>

theorem attachment_read_sound:
  assumes "group_lookups_ok c" and "can_read_attachment c uid aid = Allow"
  shows "\<exists>a \<in> set (c_attachments c). \<exists>m \<in> set (c_messages c). \<exists>ch \<in> set (c_channels c).
    a_id a = aid \<and> msg_id m = a_message_id a \<and> ch_id ch = msg_channel_id m \<and> a_message_id a \<noteq> []
    \<and> may_access c uid (ch_team_id ch) (ch_id ch)"
proof -
  from assms(2) obtain a m ch where
    a: "get_attachment c aid = Inr (Some a)" "a_message_id a \<noteq> []" and
    m: "get_message_by_id c (a_message_id a) = Inr (Some m)" and
    ch: "get_channel_by_id c (msg_channel_id m) = Inr (Some ch)" and
    acc: "user_can_access_channel c uid (ch_team_id ch) (msg_channel_id m) = Inr True"
    by (auto simp: can_read_attachment_def split: sum.splits option.splits if_splits bool.splits)
  have "a \<in> set (c_attachments c) \<and> a_id a = aid"
    using a(1) by (auto simp: get_attachment_def optional_query_row stmt_eq_Inr
        dest!: first_row_SomeD sym [of "Some _"])
  with a(2) get_message_by_id_SomeD [OF m] get_channel_by_id_SomeD [OF ch]
    access_granted_sound [OF assms(1) acc] show ?thesis
    by (intro bexI [of _ a] bexI [of _ m] bexI [of _ ch]) simp_all
qed

definition sample_chat :: conn where
  "sample_chat = sample_conn\<lparr>
     c_messages := [\<lparr>msg_id = ''m'', msg_channel_id = ''ch'', msg_dm_channel_id = [], msg_author_id = ''bob'',
       msg_content = ''hi'', msg_type = ''text'', msg_thread_id = [], msg_reply_to = None, msg_edited_at = None,
       msg_deleted = False, msg_lamport_ts = 0, msg_created_at = ''2024-01-01 00:00:00''\<rparr>],
     c_attachments := [\<lparr>a_id = ''a'', a_message_id = ''m'', a_filename = [], a_content_type = [], a_size = 1,
       a_storage_path = ''p'', a_uploader_id = Some ''bob'', a_created_at = []\<rparr>]\<rparr>"

lemma sample_chat_sel [simp]: "healthy sample_chat"
  by (simp add: sample_chat_def sample_conn_def empty_conn_def healthy_def)

lemma sample_read: "can_read_attachment sample_chat ''bob'' ''a'' = Allow"
proof -
  have "user_can_access_channel sample_chat ''bob'' ''t'' ''ch'' = Inr True"
    by (simp add: access_decides may_access_def gating_roles_def default_role_id_def sample_chat_def
        sample_conn_def empty_conn_def healthy_def owns_team_def)
  moreover have "get_attachment sample_chat ''a'' = Inr (first_row (c_attachments sample_chat))"
    "get_message_by_id sample_chat ''m'' = Inr (first_row (c_messages sample_chat))"
    "get_channel_by_id sample_chat ''ch'' = Inr (first_row (c_channels sample_chat))"
    by (simp_all add: get_attachment_def get_message_by_id_def get_channel_by_id_def
        sample_chat_def sample_conn_def empty_conn_def healthy_def)
  ultimately show ?thesis
    by (simp add: can_read_attachment_def) (simp add: sample_chat_def sample_conn_def)
qed

theorem attachment_read_sound_witness:
  "\<exists>a \<in> set (c_attachments sample_chat). \<exists>m \<in> set (c_messages sample_chat). \<exists>ch \<in> set (c_channels sample_chat).
    a_id a = ''a'' \<and> msg_id m = a_message_id a \<and> ch_id ch = msg_channel_id m \<and> a_message_id a \<noteq> []
    \<and> may_access sample_chat ''bob'' (ch_team_id ch) (ch_id ch)"
  by (rule attachment_read_sound [OF healthy_group_lookups sample_read]) simp

end
