(* ===== verification/Hub.thy ===== *)
theory Hub
  imports Models "HOL-Library.AList"
begin

section \<open>The WebSocket hub\<close>

text \<open>
  \<open>ws/hub.rs\<close>: the dispatch loop \<open>Hub::run\<close> as a step function on the hub's maps, one message of
  its queues per step. \<open>clients\<close>, \<open>user_index\<close> and \<open>voice_clients\<close> are \<open>HashMap\<close>s (finite maps);
  \<open>channels\<close> is an association list because the code also walks and counts its entries. An unbounded
  sender is the list of frames sent to the client that holds it; \<open>event_tx\<close> is the list of events
  emitted so far. The client id is a fresh UUID per connection (\<open>ws/client.rs\<close>), which is the
  guard \<open>hub_ok\<close> of the reachability lemmas.
\<close>

subsection \<open>Events and state\<close>

datatype hub_event =
    ClientConnected string
  | ClientDisconnected string
  | ClientActivity string
  | PresenceUpdateEv string string string
  | MessageSent message string
  | MessageEdited string string string
  | MessageDeleted string string
  | VoiceJoined string string string
  | VoiceLeft string string
  | VoiceClientGone string string string

text \<open>A frame: an event of \<open>ws/events.rs\<close>, before \<open>to_bytes\<close>.\<close>

record event =
  ev_type :: string
  ev_payload :: json

record client_handle =
  cl_id :: string
  cl_user_id :: string
  cl_username :: string
  cl_team_id :: string

record hub =
  h_clients :: "string \<rightharpoonup> client_handle"
  h_channels :: "(string \<times> string set) list"
  h_user_index :: "string \<rightharpoonup> string list"
  h_voice_clients :: "string \<rightharpoonup> string"
  h_typing :: "(string \<times> int) list"
  h_outbox :: "string \<Rightarrow> event list"
  h_events :: "hub_event list"

definition hub_new :: hub where
  "hub_new = \<lparr>h_clients = Map.empty, h_channels = [], h_user_index = Map.empty,
     h_voice_clients = Map.empty, h_typing = [], h_outbox = (\<lambda>_. []), h_events = []\<rparr>"

text \<open>The messages of the seven queues, the cleanup tick at time \<open>now\<close>, and the calls that lock a map
  directly (\<open>set_voice_client\<close>, \<open>clear_voice_client\<close>, \<open>emit_event\<close>, the typing throttle).\<close>

datatype hub_msg =
    Register client_handle
  | Unregister string
  | Subscribe string string
  | Unsubscribe string string
  | ChannelMsg string event "string option"
  | DirectMsg string event
  | BroadcastAll event
  | CleanupTick int
  | SetVoiceClient string string
  | ClearVoiceClient string
  | EmitEvent hub_event
  | TypingInsert string int

subsection \<open>The dispatch loop\<close>

definition emit_event :: "hub_event \<Rightarrow> hub \<Rightarrow> hub" where
  "emit_event e h = h\<lparr>h_events := h_events h @ [e]\<rparr>"

definition hub_register :: "client_handle \<Rightarrow> hub \<Rightarrow> hub" where
  "hub_register cl h =
     (let uid = cl_user_id cl; cid = cl_id cl;
          ids = (case h_user_index h uid of None \<Rightarrow> [] | Some is \<Rightarrow> is)
      in emit_event (ClientConnected uid)
           (h\<lparr>h_clients := (h_clients h)(cid \<mapsto> cl),
              h_user_index := (h_user_index h)(uid \<mapsto> ids @ [cid])\<rparr>))"

text \<open>The voice tag goes first, then the user index (with the disconnect event when it empties),
  then the subscriptions.\<close>

definition drop_voice_tag :: "string \<Rightarrow> string \<Rightarrow> hub \<Rightarrow> hub" where
  "drop_voice_tag cid uid h =
     (case h_voice_clients h cid of
        None \<Rightarrow> h
      | Some ch \<Rightarrow> emit_event (VoiceClientGone cid uid ch)
          (h\<lparr>h_voice_clients := (h_voice_clients h)(cid := None)\<rparr>))"

definition drop_from_index :: "string \<Rightarrow> string \<Rightarrow> hub \<Rightarrow> hub" where
  "drop_from_index cid uid h =
     (case h_user_index h uid of
        None \<Rightarrow> h
      | Some ids \<Rightarrow>
          let ids' = filter (\<lambda>i. i \<noteq> cid) ids
          in if ids' = []
             then emit_event (ClientDisconnected uid) (h\<lparr>h_user_index := (h_user_index h)(uid := None)\<rparr>)
             else h\<lparr>h_user_index := (h_user_index h)(uid \<mapsto> ids')\<rparr>)"

definition drop_subscriptions :: "string \<Rightarrow> hub \<Rightarrow> hub" where
  "drop_subscriptions cid h = h\<lparr>h_channels := map (\<lambda>(ch, subs). (ch, subs - {cid})) (h_channels h)\<rparr>"

definition hub_unregister :: "string \<Rightarrow> hub \<Rightarrow> hub" where
  "hub_unregister cid h =
     (case h_clients h cid of
        None \<Rightarrow> h
      | Some cl \<Rightarrow> drop_subscriptions cid (drop_from_index cid (cl_user_id cl)
          (drop_voice_tag cid (cl_user_id cl) (h\<lparr>h_clients := (h_clients h)(cid := None)\<rparr>))))"

definition send_frame :: "event \<Rightarrow> string set \<Rightarrow> hub \<Rightarrow> hub" where
  "send_frame data cids h = h\<lparr>h_outbox := (\<lambda>cid.
     if cid \<in> cids \<and> h_clients h cid \<noteq> None then h_outbox h cid @ [data] else h_outbox h cid)\<rparr>"

definition subscribers :: "hub \<Rightarrow> string \<Rightarrow> string set" where
  "subscribers h ch = (case map_of (h_channels h) ch of None \<Rightarrow> {} | Some subs \<Rightarrow> subs)"

definition hub_broadcast :: "string \<Rightarrow> event \<Rightarrow> string option \<Rightarrow> hub \<Rightarrow> hub" where
  "hub_broadcast ch data exclude h =
     send_frame data {cid \<in> subscribers h ch. exclude \<noteq> Some cid} h"

text \<open>\<open>send_to_user\<close> walks the index's list, so a client listed twice would receive twice.\<close>

primrec send_each :: "event \<Rightarrow> string list \<Rightarrow> hub \<Rightarrow> hub" where
  "send_each data [] h = h"
| "send_each data (cid # cids) h = send_each data cids (send_frame data {cid} h)"

definition hub_direct :: "string \<Rightarrow> event \<Rightarrow> hub \<Rightarrow> hub" where
  "hub_direct uid data h =
     (case h_user_index h uid of None \<Rightarrow> h | Some ids \<Rightarrow> send_each data ids h)"

definition TYPING_RETENTION :: int where "TYPING_RETENTION = 10"

fun hub_step :: "hub \<Rightarrow> hub_msg \<Rightarrow> hub" where
  "hub_step h (Register cl) = hub_register cl h"
| "hub_step h (Unregister cid) = hub_unregister cid h"
| "hub_step h (Subscribe cid ch) = h\<lparr>h_channels := AList.map_default ch {cid} (insert cid) (h_channels h)\<rparr>"
| "hub_step h (Unsubscribe cid ch) =
     h\<lparr>h_channels := AList.map_entry ch (\<lambda>subs. subs - {cid}) (h_channels h)\<rparr>"
| "hub_step h (ChannelMsg ch data ex) = hub_broadcast ch data ex h"
| "hub_step h (DirectMsg uid data) = hub_direct uid data h"
| "hub_step h (BroadcastAll data) = send_frame data UNIV h"
| "hub_step h (CleanupTick now) =
     h\<lparr>h_typing := filter (\<lambda>(k, ts). now - ts < TYPING_RETENTION) (h_typing h)\<rparr>"
| "hub_step h (SetVoiceClient cid ch) = h\<lparr>h_voice_clients := (h_voice_clients h)(cid \<mapsto> ch)\<rparr>"
| "hub_step h (ClearVoiceClient cid) = h\<lparr>h_voice_clients := (h_voice_clients h)(cid := None)\<rparr>"
| "hub_step h (EmitEvent e) = emit_event e h"
| "hub_step h (TypingInsert k now) = h\<lparr>h_typing := AList.update k now (h_typing h)\<rparr>"

definition client_subscription_count :: "hub \<Rightarrow> string \<Rightarrow> nat" where
  "client_subscription_count h cid = length (filter (\<lambda>(ch, subs). cid \<in> subs) (h_channels h))"

subsection \<open>Consistency\<close>

text \<open>The clients the index lists for a user, and the user of a live client.\<close>

definition listed :: "hub \<Rightarrow> string \<Rightarrow> string list" where
  "listed h uid = (case h_user_index h uid of None \<Rightarrow> [] | Some ids \<Rightarrow> ids)"

definition user_of :: "hub \<Rightarrow> string \<Rightarrow> string option" where
  "user_of h cid = map_option cl_user_id (h_clients h cid)"

text \<open>The index lists exactly the live clients of a user, each once, and never an empty list.\<close>

definition hub_wf :: "hub \<Rightarrow> bool" where
  "hub_wf h \<longleftrightarrow> (\<forall>cid cl. h_clients h cid = Some cl \<longrightarrow> cl_id cl = cid)
     \<and> (\<forall>uid. h_user_index h uid \<noteq> Some [] \<and> distinct (listed h uid)
          \<and> set (listed h uid) = {cid. user_of h cid = Some uid})
     \<and> distinct (map fst (h_channels h))"

text \<open>Connection ids are fresh, and the connection events are the loop's own.\<close>

fun hub_ok :: "hub \<Rightarrow> hub_msg \<Rightarrow> bool" where
  "hub_ok h (Register cl) \<longleftrightarrow> h_clients h (cl_id cl) = None"
| "hub_ok h (EmitEvent e) \<longleftrightarrow> (\<forall>u. e \<noteq> ClientConnected u \<and> e \<noteq> ClientDisconnected u)"
| "hub_ok h _ \<longleftrightarrow> True"

definition online :: "hub \<Rightarrow> string \<Rightarrow> bool" where
  "online h uid \<longleftrightarrow> (\<exists>cid cl. h_clients h cid = Some cl \<and> cl_user_id cl = uid)"

text \<open>What a listener of the event stream believes: on after \<open>ClientConnected\<close>, off after
  \<open>ClientDisconnected\<close>.\<close>

fun believes_online :: "string \<Rightarrow> bool \<Rightarrow> hub_event \<Rightarrow> bool" where
  "believes_online uid b (ClientConnected u) = (if u = uid then True else b)"
| "believes_online uid b (ClientDisconnected u) = (if u = uid then False else b)"
| "believes_online uid b _ = b"

definition log_online :: "hub \<Rightarrow> string \<Rightarrow> bool" where
  "log_online h uid = foldl (believes_online uid) False (h_events h)"

subsection \<open>Frames of the helper steps\<close>

lemma emit_event_sel [simp]:
  "h_clients (emit_event e h) = h_clients h" "h_channels (emit_event e h) = h_channels h"
  "h_user_index (emit_event e h) = h_user_index h" "h_voice_clients (emit_event e h) = h_voice_clients h"
  "h_typing (emit_event e h) = h_typing h" "h_outbox (emit_event e h) = h_outbox h"
  "h_events (emit_event e h) = h_events h @ [e]"
  by (simp_all add: emit_event_def)

lemma drop_voice_tag_sel [simp]:
  "h_clients (drop_voice_tag cid uid h) = h_clients h"
  "h_channels (drop_voice_tag cid uid h) = h_channels h"
  "h_user_index (drop_voice_tag cid uid h) = h_user_index h"
  "h_outbox (drop_voice_tag cid uid h) = h_outbox h"
  "h_voice_clients (drop_voice_tag cid uid h) = (h_voice_clients h)(cid := None)"
  "h_events (drop_voice_tag cid uid h) = h_events h
     @ (case h_voice_clients h cid of None \<Rightarrow> [] | Some ch \<Rightarrow> [VoiceClientGone cid uid ch])"
  by (simp_all add: drop_voice_tag_def fun_upd_idem split: option.split)

lemma drop_from_index_sel [simp]:
  "h_clients (drop_from_index cid uid h) = h_clients h"
  "h_channels (drop_from_index cid uid h) = h_channels h"
  "h_voice_clients (drop_from_index cid uid h) = h_voice_clients h"
  "h_outbox (drop_from_index cid uid h) = h_outbox h"
  by (simp_all add: drop_from_index_def Let_def split: option.split)

lemma drop_from_index_index:
  "h_user_index (drop_from_index cid uid h) = (case h_user_index h uid of None \<Rightarrow> h_user_index h
     | Some ids \<Rightarrow> (h_user_index h)(uid := (if filter (\<lambda>i. i \<noteq> cid) ids = [] then None
         else Some (filter (\<lambda>i. i \<noteq> cid) ids))))"
  by (simp add: drop_from_index_def Let_def split: option.split)

lemma drop_from_index_events:
  "h_events (drop_from_index cid uid h) = h_events h @ (case h_user_index h uid of None \<Rightarrow> []
     | Some ids \<Rightarrow> if filter (\<lambda>i. i \<noteq> cid) ids = [] then [ClientDisconnected uid] else [])"
  by (simp add: drop_from_index_def Let_def split: option.split)

lemma drop_subscriptions_sel [simp]:
  "h_clients (drop_subscriptions cid h) = h_clients h"
  "h_user_index (drop_subscriptions cid h) = h_user_index h"
  "h_voice_clients (drop_subscriptions cid h) = h_voice_clients h"
  "h_outbox (drop_subscriptions cid h) = h_outbox h"
  "h_events (drop_subscriptions cid h) = h_events h"
  by (simp_all add: drop_subscriptions_def)

lemma send_frame_sel [simp]:
  "h_clients (send_frame d S h) = h_clients h" "h_channels (send_frame d S h) = h_channels h"
  "h_user_index (send_frame d S h) = h_user_index h"
  "h_voice_clients (send_frame d S h) = h_voice_clients h"
  "h_typing (send_frame d S h) = h_typing h" "h_events (send_frame d S h) = h_events h"
  by (simp_all add: send_frame_def)

lemma send_each_sel [simp]:
  "h_clients (send_each d cids h) = h_clients h" "h_channels (send_each d cids h) = h_channels h"
  "h_user_index (send_each d cids h) = h_user_index h"
  "h_voice_clients (send_each d cids h) = h_voice_clients h"
  "h_typing (send_each d cids h) = h_typing h" "h_events (send_each d cids h) = h_events h"
  by (induction cids arbitrary: h) simp_all

text \<open>The outbox of one client under the sending steps.\<close>

lemma send_frame_outbox:
  "h_outbox (send_frame d S h) cid
     = h_outbox h cid @ (if cid \<in> S \<and> h_clients h cid \<noteq> None then [d] else [])"
  by (simp add: send_frame_def)

lemma send_each_outbox:
  "h_outbox (send_each d cids h) cid
     = h_outbox h cid @ (if h_clients h cid \<noteq> None then replicate (count_list cids cid) d else [])"
  by (induction cids arbitrary: h) (auto simp: send_frame_outbox replicate_append_same [symmetric])

subsection \<open>Every step keeps the consistency\<close>

lemma hub_wf_frame:
  "h_clients h' = h_clients h \<Longrightarrow> h_user_index h' = h_user_index h
   \<Longrightarrow> distinct (map fst (h_channels h')) = distinct (map fst (h_channels h)) \<Longrightarrow> hub_wf h' = hub_wf h"
  by (simp add: hub_wf_def listed_def user_of_def)

lemma hub_wf_listed: "hub_wf h \<Longrightarrow> cid \<in> set (listed h uid) \<longleftrightarrow> user_of h cid = Some uid"
  by (simp add: hub_wf_def)

lemma register_listed:
  "listed (hub_register cl h) uid
     = (if uid = cl_user_id cl then listed h uid @ [cl_id cl] else listed h uid)"
  by (simp add: listed_def hub_register_def Let_def)

lemma register_user_of:
  "user_of (hub_register cl h) cid = (if cid = cl_id cl then Some (cl_user_id cl) else user_of h cid)"
  by (simp add: user_of_def hub_register_def Let_def)

lemma hub_wf_register:
  assumes wf: "hub_wf h" and fresh: "h_clients h (cl_id cl) = None"
  shows "hub_wf (hub_register cl h)"
proof -
  have "cl_id cl \<notin> set (listed h uid)" for uid
    using hub_wf_listed [OF wf] fresh by (simp add: user_of_def)
  moreover have "user_of h (cl_id cl) = None"
    using fresh by (simp add: user_of_def)
  ultimately have "distinct (listed (hub_register cl h) uid)
      \<and> set (listed (hub_register cl h) uid) = {cid. user_of (hub_register cl h) cid = Some uid}" for uid
    using wf unfolding hub_wf_def register_listed register_user_of by auto
  with wf show ?thesis
    unfolding hub_wf_def by (simp add: hub_register_def Let_def)
qed

lemma unregister_user_of:
  "user_of (hub_unregister cid h) i = (if i = cid then None else user_of h i)"
  by (simp add: user_of_def hub_unregister_def split: option.split)

lemma drop_from_index_listed:
  "listed (drop_from_index cid u h) uid
     = (if uid = u then filter (\<lambda>i. i \<noteq> cid) (listed h uid) else listed h uid)"
  by (cases "h_user_index h u") (simp_all add: listed_def drop_from_index_index)

lemma listed_sel [simp]:
  "listed (drop_subscriptions cid h) uid = listed h uid"
  "listed (drop_voice_tag cid u h) uid = listed h uid"
  "listed (h\<lparr>h_clients := m\<rparr>) uid = listed h uid"
  by (simp_all add: listed_def)

lemma unregister_listed:
  assumes wf: "hub_wf h"
  shows "listed (hub_unregister cid h) uid = filter (\<lambda>i. i \<noteq> cid) (listed h uid)"
proof -
  have same: "filter (\<lambda>i. i \<noteq> cid) (listed h uid) = listed h uid" if "user_of h cid \<noteq> Some uid"
    using that by (intro filter_True ballI) (auto simp: hub_wf_listed [OF wf])
  show ?thesis
    using same
    by (cases "h_clients h cid") (auto simp: hub_unregister_def drop_from_index_listed user_of_def)
qed

lemma unregister_index_nonempty:
  "hub_wf h \<Longrightarrow> h_user_index (hub_unregister cid h) uid \<noteq> Some []"
  by (auto simp: hub_unregister_def drop_from_index_index hub_wf_def split: option.splits)

lemma hub_wf_unregister:
  assumes wf: "hub_wf h"
  shows "hub_wf (hub_unregister cid h)"
proof -
  have chans: "fst \<circ> (\<lambda>(ch :: string, subs). (ch, subs - {cid})) = fst"
    by (rule ext) (simp add: case_prod_beta)
  have "distinct (map fst (h_channels (hub_unregister cid h)))"
    using wf by (simp add: hub_unregister_def drop_subscriptions_def chans hub_wf_def split: option.split)
  moreover have "\<forall>i cl. h_clients (hub_unregister cid h) i = Some cl \<longrightarrow> cl_id cl = i"
    using wf by (simp add: hub_unregister_def hub_wf_def split: option.split)
  moreover have "distinct (listed (hub_unregister cid h) uid)
      \<and> set (listed (hub_unregister cid h) uid) = {i. user_of (hub_unregister cid h) i = Some uid}" for uid
    unfolding unregister_listed [OF wf] unregister_user_of using wf by (auto simp: hub_wf_def)
  ultimately show ?thesis
    using unregister_index_nonempty [OF wf] unfolding hub_wf_def by blast
qed

lemma hub_wf_step:
  assumes "hub_wf h" and "hub_ok h e"
  shows "hub_wf (hub_step h e)"
proof (cases e)
  case (Register cl)
  with assms show ?thesis by (simp add: hub_wf_register)
next
  case (Unregister cid)
  with assms show ?thesis by (simp add: hub_wf_unregister)
next
  case (Subscribe cid ch)
  with assms show ?thesis by (simp add: hub_wf_def distinct_map_default listed_def user_of_def)
next
  case (Unsubscribe cid ch)
  with assms show ?thesis by (simp add: hub_wf_def distinct_map_entry listed_def user_of_def)
next
  case (DirectMsg uid d)
  with assms show ?thesis
    by (cases "h_user_index h uid") (simp_all add: hub_direct_def hub_wf_frame [of "send_each d _ h" h])
qed (use assms in \<open>simp_all add: hub_broadcast_def hub_wf_def listed_def user_of_def\<close>)

subsection \<open>The event stream tells who is online\<close>

lemma online_iff: "hub_wf h \<Longrightarrow> online h uid \<longleftrightarrow> listed h uid \<noteq> []"
proof -
  assume "hub_wf h"
  then have "set (listed h uid) = {cid. user_of h cid = Some uid}" by (simp add: hub_wf_def)
  moreover have "online h uid \<longleftrightarrow> {cid. user_of h cid = Some uid} \<noteq> {}"
    by (auto simp: online_def user_of_def)
  ultimately show ?thesis by (metis set_empty)
qed

lemma log_online_append: "h_events h' = h_events h @ es
  \<Longrightarrow> log_online h' uid = foldl (believes_online uid) (log_online h uid) es"
  by (simp add: log_online_def)

definition hub_inv :: "hub \<Rightarrow> bool" where
  "hub_inv h \<longleftrightarrow> hub_wf h \<and> (\<forall>uid. log_online h uid = online h uid)"

lemma log_unregister:
  assumes inv: "hub_inv h"
  shows "log_online (hub_unregister cid h) uid = online (hub_unregister cid h) uid"
proof -
  have wf: "hub_wf h" using inv by (simp add: hub_inv_def)
  show ?thesis
  proof (cases "h_clients h cid")
    case None
    with inv show ?thesis by (simp add: hub_unregister_def hub_inv_def)
  next
    case (Some cl)
    then have mem: "cid \<in> set (listed h (cl_user_id cl))"
      by (simp add: hub_wf_listed [OF wf] user_of_def)
    then obtain ids where ids: "h_user_index h (cl_user_id cl) = Some ids"
      by (cases "h_user_index h (cl_user_id cl)") (simp_all add: listed_def)
    have same: "filter (\<lambda>i. i \<noteq> cid) (listed h uid) = listed h uid" if "uid \<noteq> cl_user_id cl"
      using that Some by (intro filter_True ballI) (auto simp: hub_wf_listed [OF wf] user_of_def)
    have ev: "h_events (hub_unregister cid h) = h_events h
        @ (case h_voice_clients h cid of None \<Rightarrow> [] | Some ch \<Rightarrow> [VoiceClientGone cid (cl_user_id cl) ch])
        @ (if filter (\<lambda>i. i \<noteq> cid) ids = [] then [ClientDisconnected (cl_user_id cl)] else [])"
      using Some ids by (simp add: hub_unregister_def drop_from_index_events)
    have on: "online h uid = log_online h uid" using inv by (simp add: hub_inv_def)
    have log: "log_online (hub_unregister cid h) uid \<longleftrightarrow> listed h uid \<noteq> []
        \<and> \<not> (uid = cl_user_id cl \<and> filter (\<lambda>i. i \<noteq> cid) ids = [])"
      unfolding log_online_append [OF ev] on [symmetric] online_iff [OF wf] by (auto split: option.split)
    show ?thesis
      unfolding log online_iff [OF hub_wf_unregister [OF wf]] unregister_listed [OF wf]
      using mem ids same by (cases "uid = cl_user_id cl") (auto simp: listed_def)
  qed
qed

lemma believes_other [simp]:
  "(\<forall>u. e \<noteq> ClientConnected u \<and> e \<noteq> ClientDisconnected u) \<Longrightarrow> believes_online uid b e = b"
  by (cases e) simp_all

lemma online_register: "online (hub_register cl h) uid \<longleftrightarrow> uid = cl_user_id cl \<or> online h uid"
  if "hub_wf h" and "h_clients h (cl_id cl) = None"
  by (simp add: online_iff [OF that(1)] online_iff [OF hub_wf_register [OF that]] register_listed)

lemma hub_inv_step:
  assumes inv: "hub_inv h" and ok: "hub_ok h e"
  shows "hub_inv (hub_step h e)"
proof -
  have wf: "hub_wf h" and wf': "hub_wf (hub_step h e)"
    using inv ok by (simp_all add: hub_inv_def hub_wf_step)
  have same: "log_online h uid = online h uid" for uid
    using inv by (simp add: hub_inv_def)
  have "log_online (hub_step h e) uid = online (hub_step h e) uid" for uid
  proof (cases e)
    case (Register cl)
    have ev: "h_events (hub_register cl h) = h_events h @ [ClientConnected (cl_user_id cl)]"
      by (simp add: hub_register_def Let_def)
    show ?thesis
      using Register ok wf by (simp add: log_online_append [OF ev] online_register same)
  next
    case (Unregister cid)
    then show ?thesis by (simp add: log_unregister [OF inv])
  next
    case (DirectMsg u d)
    then show ?thesis
      using same by (cases "h_user_index h u") (simp_all add: hub_direct_def log_online_def online_def)
  next
    case (EmitEvent ev)
    then show ?thesis
      using same ok by (simp add: log_online_append [of "emit_event ev h" h "[ev]"]) (simp add: online_def)
  qed (use same in \<open>simp_all add: hub_broadcast_def log_online_def online_def\<close>)
  with wf' show ?thesis by (simp add: hub_inv_def)
qed

lemma hub_inv_new: "hub_inv hub_new"
  by (simp add: hub_inv_def hub_wf_def hub_new_def listed_def user_of_def log_online_def online_def)

interpretation hub_machine: invariant_machine hub_step hub_ok hub_inv hub_new
  by unfold_locales (rule hub_inv_new, rule hub_inv_step)

interpretation hub_log: monotone_machine hub_step "\<lambda>h. length (h_events h)"
proof
  fix h e
  show "length (h_events h) \<le> length (h_events (hub_step h e))"
    by (cases e) (auto simp: hub_broadcast_def hub_direct_def hub_register_def hub_unregister_def
        Let_def drop_from_index_events split: option.split)
qed

subsection \<open>Properties\<close>

lemma count_list_distinct: "distinct xs \<Longrightarrow> count_list xs x = (if x \<in> set xs then 1 else 0)"
  by (induction xs) auto

definition sample_client :: "string \<Rightarrow> string \<Rightarrow> client_handle" where
  "sample_client cid uid = \<lparr>cl_id = cid, cl_user_id = uid, cl_username = uid, cl_team_id = ''t''\<rparr>"

definition sample_hub_run :: "hub_msg list" where
  "sample_hub_run = [Register (sample_client ''c1'' ''u''), Register (sample_client ''c2'' ''u''),
     Subscribe ''c1'' ''ch'', SetVoiceClient ''c2'' ''ch'', Unregister ''c2'']"

text \<open>C4. After any sequence of the dispatch loop's steps with fresh connection ids, the user index
  lists exactly the live connections of each user, and replaying the \<open>ClientConnected\<close> and
  \<open>ClientDisconnected\<close> events that were emitted yields exactly the users with a live connection:
  a listener of the stream (the presence manager) is never wrong about who is online.\<close>

theorem hub_consistent:
  assumes "admissible hub_ok hub_step hub_new es"
  shows "hub_wf (run hub_step hub_new es)
    \<and> (\<forall>uid. log_online (run hub_step hub_new es) uid = online (run hub_step hub_new es) uid)"
  using hub_machine.reachable_inv [OF assms] by (simp add: hub_inv_def)

theorem hub_consistent_witness:
  "hub_wf (run hub_step hub_new sample_hub_run)
    \<and> (\<forall>uid. log_online (run hub_step hub_new sample_hub_run) uid = online (run hub_step hub_new sample_hub_run) uid)"
  by (rule hub_consistent)
    (simp add: sample_hub_run_def sample_client_def hub_new_def hub_register_def Let_def)

lemma unregister_subscribers:
  "subscribers (hub_unregister cid h) ch
     = (if h_clients h cid = None then subscribers h ch else subscribers h ch - {cid})"
proof -
  have "map_of (map (\<lambda>(k, s). (k, s - {cid})) xs) ch = map_option (\<lambda>s. s - {cid}) (map_of xs ch)"
    for xs :: "(string \<times> string set) list"
    by (induction xs) auto
  then show ?thesis
    by (simp add: subscribers_def hub_unregister_def drop_subscriptions_def split: option.split)
qed

text \<open>Closing a connection: it is no longer a client nor subscribed anywhere; the events emitted
  are \<open>VoiceClientGone\<close> when this very connection held a voice membership, before
  \<open>ClientDisconnected\<close>, which is emitted exactly when it was the user's last connection; the voice
  tags of the other connections stay. So closing one tab does not end the user's presence.\<close>

theorem unregister_effect:
  assumes wf: "hub_wf h" and live: "h_clients h cid = Some cl"
  shows "h_clients (hub_step h (Unregister cid)) cid = None
    \<and> (\<forall>ch. cid \<notin> subscribers (hub_step h (Unregister cid)) ch)
    \<and> h_voice_clients (hub_step h (Unregister cid)) = (h_voice_clients h)(cid := None)
    \<and> h_events (hub_step h (Unregister cid)) = h_events h
        @ (case h_voice_clients h cid of None \<Rightarrow> [] | Some ch \<Rightarrow> [VoiceClientGone cid (cl_user_id cl) ch])
        @ (if \<exists>i. i \<noteq> cid \<and> user_of h i = Some (cl_user_id cl) then []
           else [ClientDisconnected (cl_user_id cl)])"
proof -
  have "cid \<in> set (listed h (cl_user_id cl))"
    using live by (simp add: hub_wf_listed [OF wf] user_of_def)
  then obtain ids where ids: "h_user_index h (cl_user_id cl) = Some ids"
    by (cases "h_user_index h (cl_user_id cl)") (simp_all add: listed_def)
  have "i \<in> set ids \<longleftrightarrow> user_of h i = Some (cl_user_id cl)" for i
    using hub_wf_listed [OF wf, of i "cl_user_id cl"] ids by (simp add: listed_def)
  then have "filter (\<lambda>i. i \<noteq> cid) ids = [] \<longleftrightarrow> \<not> (\<exists>i. i \<noteq> cid \<and> user_of h i = Some (cl_user_id cl))"
    by (auto simp: filter_empty_conv)
  with live ids show ?thesis
    by (simp add: unregister_subscribers)
      (simp add: hub_unregister_def drop_from_index_events)
qed

theorem unregister_effect_witness:
  "h_events (hub_step (run hub_step hub_new (butlast sample_hub_run)) (Unregister ''c2''))
     = [ClientConnected ''u'', ClientConnected ''u'', VoiceClientGone ''c2'' ''u'' ''ch'']"
proof -
  let ?h = "run hub_step hub_new (butlast sample_hub_run)"
  have adm: "admissible hub_ok hub_step hub_new (butlast sample_hub_run)"
    by (simp add: sample_hub_run_def sample_client_def hub_new_def hub_register_def Let_def)
  have wf: "hub_wf ?h"
    using hub_machine.reachable_inv [OF adm] by (simp add: hub_inv_def)
  have h: "h_clients ?h ''c2'' = Some (sample_client ''c2'' ''u'')" "h_voice_clients ?h ''c2'' = Some ''ch''"
    "h_events ?h = [ClientConnected ''u'', ClientConnected ''u'']"
    "user_of ?h ''c1'' = Some ''u''"
    by (simp_all add: sample_hub_run_def hub_register_def sample_client_def Let_def hub_new_def user_of_def)
  have "\<exists>i. i \<noteq> ''c2'' \<and> user_of ?h i = Some ''u''"
    using h(4) by (intro exI [of _ "''c1''"]) simp
  then show ?thesis
    using unregister_effect [OF wf h(1)] h by (simp add: sample_client_def)
qed

text \<open>Delivery. A channel broadcast appends the frame once to every live connection subscribed to
  the channel except the excluded one, and to nobody else; a frame to a user reaches each of the
  user's live connections exactly once, and nobody else. Stale subscribers receive nothing.\<close>

theorem delivery_exact:
  assumes wf: "hub_wf h"
  shows "h_outbox (hub_step h (ChannelMsg ch data ex)) cid = h_outbox h cid
      @ (if cid \<in> subscribers h ch \<and> h_clients h cid \<noteq> None \<and> ex \<noteq> Some cid then [data] else [])
    \<and> h_outbox (hub_step h (DirectMsg uid data)) cid = h_outbox h cid
      @ (if user_of h cid = Some uid then [data] else [])"
proof -
  have step: "hub_step h (DirectMsg uid data) = send_each data (listed h uid) h"
    by (cases "h_user_index h uid") (simp_all add: hub_direct_def listed_def)
  have "distinct (listed h uid)" using wf by (simp add: hub_wf_def)
  then have "count_list (listed h uid) cid = (if user_of h cid = Some uid then 1 else 0)"
    by (simp add: count_list_distinct hub_wf_listed [OF wf])
  then show ?thesis
    unfolding step send_each_outbox
    by (auto simp: hub_broadcast_def send_frame_outbox user_of_def split: option.splits)
qed

theorem delivery_exact_witness:
  "\<forall>data. h_outbox (hub_step (run hub_step hub_new sample_hub_run) (ChannelMsg ''ch'' data None)) ''c1'' = [data]
   \<and> h_outbox (hub_step (run hub_step hub_new sample_hub_run) (DirectMsg ''u'' data)) ''c1'' = [data]"
proof -
  let ?h = "run hub_step hub_new sample_hub_run"
  have adm: "admissible hub_ok hub_step hub_new sample_hub_run"
    by (simp add: sample_hub_run_def sample_client_def hub_new_def hub_register_def Let_def)
  have wf: "hub_wf ?h"
    using hub_machine.reachable_inv [OF adm] by (simp add: hub_inv_def)
  have h: "h_outbox ?h ''c1'' = []" "''c1'' \<in> subscribers ?h ''ch''" "h_clients ?h ''c1'' \<noteq> None"
    "user_of ?h ''c1'' = Some ''u''"
    by (simp_all add: sample_hub_run_def hub_register_def sample_client_def Let_def hub_new_def
        user_of_def unregister_user_of unregister_subscribers)
      (simp_all add: subscribers_def hub_unregister_def)
  from delivery_exact [OF wf, of "''ch''" _ None "''c1''" "''u''"] h show ?thesis by simp
qed

end
