(* ===== verification/Presence.thy ===== *)
theory Presence
  imports Hub
begin

section \<open>Presence\<close>

text \<open>
  \<open>presence/mod.rs\<close>: the presence manager. An \<open>Instant\<close> is the time in seconds at which the
  operation runs (its argument \<open>now\<close>). The two optional callbacks are recorded as the lists of the
  calls made to them; only an installed callback is called.
\<close>

subsection \<open>Status\<close>

datatype status = Online | Idle | Dnd | Offline

fun status_as_str :: "status \<Rightarrow> string" where
  "status_as_str Online = ''online''"
| "status_as_str Idle = ''idle''"
| "status_as_str Dnd = ''dnd''"
| "status_as_str Offline = ''offline''"

definition status_from_str :: "string \<Rightarrow> status" where
  "status_from_str s =
     (if s = ''idle'' then Idle
      else if s = ''dnd'' \<or> s = ''do_not_disturb'' then Dnd
      else if s = ''offline'' then Offline
      else Online)"

subsection \<open>The manager\<close>

record user_presence =
  up_user_id :: string
  up_status :: status
  up_custom :: string
  up_last_activity :: int

type_synonym presence_call = "string \<times> string \<times> string"

record presence_mgr =
  pm_presences :: "string \<rightharpoonup> user_presence"
  pm_on_broadcast :: bool
  pm_on_federation :: bool
  pm_broadcasts :: "presence_call list"
  pm_federated :: "presence_call list"

definition presence_new :: presence_mgr where
  "presence_new = \<lparr>pm_presences = Map.empty, pm_on_broadcast = False, pm_on_federation = False,
     pm_broadcasts = [], pm_federated = []\<rparr>"

definition pm_broadcast :: "string \<Rightarrow> string \<Rightarrow> string \<Rightarrow> presence_mgr \<Rightarrow> presence_mgr" where
  "pm_broadcast uid st cu pm =
     (if pm_on_broadcast pm then pm\<lparr>pm_broadcasts := pm_broadcasts pm @ [(uid, st, cu)]\<rparr> else pm)"

definition pm_federate :: "string \<Rightarrow> string \<Rightarrow> string \<Rightarrow> presence_mgr \<Rightarrow> presence_mgr" where
  "pm_federate uid st cu pm =
     (if pm_on_federation pm then pm\<lparr>pm_federated := pm_federated pm @ [(uid, st, cu)]\<rparr> else pm)"

definition set_online :: "int \<Rightarrow> string \<Rightarrow> presence_mgr \<Rightarrow> presence_mgr" where
  "set_online now uid pm =
     (let entry = (case pm_presences pm uid of
            None \<Rightarrow> \<lparr>up_user_id = uid, up_status = Online, up_custom = [], up_last_activity = now\<rparr>
          | Some e \<Rightarrow> e);
          entry = (if up_status entry = Offline \<or> up_status entry = Idle
                   then entry\<lparr>up_status := Online\<rparr> else entry);
          entry = entry\<lparr>up_last_activity := now\<rparr>
      in pm_broadcast uid (status_as_str (up_status entry)) (up_custom entry)
           (pm\<lparr>pm_presences := (pm_presences pm)(uid \<mapsto> entry)\<rparr>))"

definition set_offline :: "string \<Rightarrow> presence_mgr \<Rightarrow> presence_mgr" where
  "set_offline uid pm = pm_broadcast uid ''offline'' []
     (case pm_presences pm uid of
        None \<Rightarrow> pm
      | Some e \<Rightarrow> pm\<lparr>pm_presences := (pm_presences pm)(uid \<mapsto> e\<lparr>up_status := Offline\<rparr>)\<rparr>)"

definition update_presence :: "int \<Rightarrow> string \<Rightarrow> status \<Rightarrow> string \<Rightarrow> presence_mgr \<Rightarrow> presence_mgr" where
  "update_presence now uid st cu pm =
     (let entry = (case pm_presences pm uid of
            None \<Rightarrow> \<lparr>up_user_id = uid, up_status = st, up_custom = cu, up_last_activity = now\<rparr>
          | Some e \<Rightarrow> e);
          entry = entry\<lparr>up_status := st, up_custom := cu, up_last_activity := now\<rparr>
      in pm_federate uid (status_as_str st) cu (pm_broadcast uid (status_as_str st) cu
           (pm\<lparr>pm_presences := (pm_presences pm)(uid \<mapsto> entry)\<rparr>)))"

definition update_activity :: "int \<Rightarrow> string \<Rightarrow> presence_mgr \<Rightarrow> presence_mgr" where
  "update_activity now uid pm = (case pm_presences pm uid of
       None \<Rightarrow> pm
     | Some e \<Rightarrow>
         if up_status e = Idle
         then pm_broadcast uid (status_as_str Online) (up_custom e) (pm\<lparr>pm_presences := (pm_presences pm)
           (uid \<mapsto> e\<lparr>up_last_activity := now, up_status := Online\<rparr>)\<rparr>)
         else pm\<lparr>pm_presences := (pm_presences pm)(uid \<mapsto> e\<lparr>up_last_activity := now\<rparr>)\<rparr>)"

text \<open>\<open>handle_federated_presence\<close> does not touch \<open>last_activity\<close> of an existing entry, and broadcasts
  the peer's status string as it came.\<close>

definition handle_federated_presence ::
  "int \<Rightarrow> string \<Rightarrow> string \<Rightarrow> string \<Rightarrow> presence_mgr \<Rightarrow> presence_mgr" where
  "handle_federated_presence now uid status_type cu pm =
     (let st = status_from_str status_type;
          entry = (case pm_presences pm uid of
            None \<Rightarrow> \<lparr>up_user_id = uid, up_status = st, up_custom = cu, up_last_activity = now\<rparr>
          | Some e \<Rightarrow> e);
          entry = entry\<lparr>up_status := st, up_custom := cu\<rparr>
      in pm_broadcast uid status_type cu (pm\<lparr>pm_presences := (pm_presences pm)(uid \<mapsto> entry)\<rparr>))"

definition IDLE_THRESHOLD :: int where "IDLE_THRESHOLD = 300"

text \<open>One tick of the idle checker.\<close>

definition idle_tick :: "int \<Rightarrow> presence_mgr \<Rightarrow> presence_mgr" where
  "idle_tick now pm = pm\<lparr>pm_presences := (\<lambda>uid. case pm_presences pm uid of
       None \<Rightarrow> None
     | Some e \<Rightarrow> Some (if up_status e = Online \<and> now - up_last_activity e > IDLE_THRESHOLD
         then e\<lparr>up_status := Idle\<rparr> else e))\<rparr>"

definition get_presence :: "presence_mgr \<Rightarrow> string \<Rightarrow> user_presence option" where
  "get_presence pm uid = pm_presences pm uid"

subsection \<open>Status of one user\<close>

definition status_of :: "presence_mgr \<Rightarrow> string \<Rightarrow> status option" where
  "status_of pm uid = map_option up_status (get_presence pm uid)"

lemma pm_calls_presences [simp]:
  "pm_presences (pm_broadcast u s c pm) = pm_presences pm"
  "pm_presences (pm_federate u s c pm) = pm_presences pm"
  by (simp_all add: pm_broadcast_def pm_federate_def)

lemma status_set_online: "status_of (set_online now u pm) uid = (if uid = u then
    Some (if status_of pm u = Some Dnd then Dnd else Online) else status_of pm uid)"
  by (auto simp: status_of_def get_presence_def set_online_def Let_def split: option.split)
    (metis status.exhaust)

lemma status_set_offline: "status_of (set_offline u pm) uid
    = (if uid = u then map_option (\<lambda>_. Offline) (status_of pm u) else status_of pm uid)"
  by (simp add: status_of_def get_presence_def set_offline_def split: option.split)

lemma status_update_presence: "status_of (update_presence now u st cu pm) uid
    = (if uid = u then Some st else status_of pm uid)"
  by (simp add: status_of_def get_presence_def update_presence_def Let_def)

lemma status_update_activity: "status_of (update_activity now u pm) uid
    = (if uid = u \<and> status_of pm u = Some Idle then Some Online else status_of pm uid)"
  by (auto simp: status_of_def get_presence_def update_activity_def split: option.split)

lemma status_idle_tick: "status_of (idle_tick now pm) uid
    = (if status_of pm uid = Some Online
         \<and> now - up_last_activity (the (get_presence pm uid)) > IDLE_THRESHOLD then Some Idle
       else status_of pm uid)"
  by (simp add: status_of_def get_presence_def idle_tick_def split: option.split)

lemma status_roundtrip: "status_from_str (status_as_str s) = s"
  by (cases s) (simp_all add: status_from_str_def)

subsection \<open>Following the hub's event stream\<close>

text \<open>The presence part of \<open>handle_hub_event\<close> of \<open>main.rs\<close>.\<close>

fun presence_event :: "int \<Rightarrow> presence_mgr \<Rightarrow> hub_event \<Rightarrow> presence_mgr" where
  "presence_event now pm (ClientConnected uid) = set_online now uid pm"
| "presence_event now pm (ClientDisconnected uid) = set_offline uid pm"
| "presence_event now pm (ClientActivity uid) = update_activity now uid pm"
| "presence_event now pm (PresenceUpdateEv uid st cu) = update_presence now uid (status_from_str st) cu pm"
| "presence_event now pm _ = pm"

text \<open>The events come at times of their own, with idle ticks in between.\<close>

datatype presence_input = HubEvent int hub_event | Tick int

fun presence_step :: "presence_mgr \<Rightarrow> presence_input \<Rightarrow> presence_mgr" where
  "presence_step pm (HubEvent now e) = presence_event now pm e"
| "presence_step pm (Tick now) = idle_tick now pm"

fun hub_events_of :: "presence_input list \<Rightarrow> hub_event list" where
  "hub_events_of [] = []"
| "hub_events_of (HubEvent _ e # is) = e # hub_events_of is"
| "hub_events_of (Tick _ # is) = hub_events_of is"

definition shown_online :: "presence_mgr \<Rightarrow> string \<Rightarrow> bool" where
  "shown_online pm uid \<longleftrightarrow> status_of pm uid \<noteq> None \<and> status_of pm uid \<noteq> Some Offline"

text \<open>What the user set since the last connect or disconnect of that user, if anything.\<close>

fun own_status_step :: "string \<Rightarrow> string option \<Rightarrow> hub_event \<Rightarrow> string option" where
  "own_status_step uid st (ClientConnected u) = (if u = uid then None else st)"
| "own_status_step uid st (ClientDisconnected u) = (if u = uid then None else st)"
| "own_status_step uid st (PresenceUpdateEv u s cu) = (if u = uid then Some s else st)"
| "own_status_step uid st _ = st"

definition own_status :: "string \<Rightarrow> hub_event list \<Rightarrow> string option" where
  "own_status uid es = foldl (own_status_step uid) None es"

definition expected_shown :: "string option \<Rightarrow> bool \<Rightarrow> bool" where
  "expected_shown st connected = (case st of None \<Rightarrow> connected | Some s \<Rightarrow> status_from_str s \<noteq> Offline)"

lemma shown_online_step:
  assumes "shown_online pm uid = expected_shown st b"
  shows "shown_online (presence_event now pm e) uid = expected_shown (own_status_step uid st e) (believes_online uid b e)"
  using assms
  by (cases e) (auto simp: shown_online_def expected_shown_def status_set_online status_set_offline
      status_update_activity status_update_presence)

lemma shown_online_run:
  assumes "shown_online pm uid = expected_shown st b"
  shows "shown_online (run presence_step pm is) uid
    = expected_shown (foldl (own_status_step uid) st (hub_events_of is)) (foldl (believes_online uid) b (hub_events_of is))"
  using assms
proof (induction "is" arbitrary: pm st b rule: hub_events_of.induct)
  case (2 now e "is")
  from 2(1) [OF shown_online_step [OF 2(2)]] show ?case by simp
next
  case (3 now "is")
  have "shown_online (idle_tick now pm) uid = shown_online pm uid" by (simp add: shown_online_def status_idle_tick)
  with 3 show ?case by simp
qed simp_all

subsection \<open>Properties\<close>

text \<open>The presence transitions. Connecting makes a user online but leaves \<open>dnd\<close> alone;
  disconnecting makes a known user offline whatever the status was; activity only wakes the idle; the
  idle checker only demotes users that are online and silent for more than five minutes; nobody
  else's status moves; and the wire names of the statuses round-trip.\<close>

theorem presence_transitions:
  "status_of (set_online now u pm) uid
     = (if uid = u then Some (if status_of pm u = Some Dnd then Dnd else Online) else status_of pm uid)
   \<and> status_of (set_offline u pm) uid
     = (if uid = u then map_option (\<lambda>_. Offline) (status_of pm u) else status_of pm uid)
   \<and> status_of (update_activity now u pm) uid
     = (if uid = u \<and> status_of pm u = Some Idle then Some Online else status_of pm uid)
   \<and> status_of (idle_tick now pm) uid
     = (if status_of pm uid = Some Online \<and> now - up_last_activity (the (get_presence pm uid)) > 300
        then Some Idle else status_of pm uid)
   \<and> status_of (update_presence now u (status_from_str (status_as_str st)) cu pm) u = Some st"
  by (simp add: status_set_online status_set_offline status_update_activity status_idle_tick
      IDLE_THRESHOLD_def status_update_presence status_roundtrip)

text \<open>C5. End to end: whatever the hub did, the manager that consumed its event stream, with idle ticks
  anywhere in between, shows a user as present exactly when that user has a live connection; but who set a status by hand
  after the last connect or disconnect is shown by that status, absent for \<open>offline\<close> and present for every other.\<close>

theorem presence_follows_hub:
  assumes "admissible hub_ok hub_step hub_new ms"
    and "hub_events_of is = h_events (run hub_step hub_new ms)"
  shows "shown_online (run presence_step presence_new is) uid
    = (case own_status uid (h_events (run hub_step hub_new ms)) of
         None \<Rightarrow> online (run hub_step hub_new ms) uid
       | Some s \<Rightarrow> status_from_str s \<noteq> Offline)"
proof -
  have "shown_online presence_new uid = expected_shown None False"
    by (simp add: shown_online_def status_of_def get_presence_def presence_new_def expected_shown_def)
  from shown_online_run [OF this, of "is"]
  have "shown_online (run presence_step presence_new is) uid
      = expected_shown (own_status uid (h_events (run hub_step hub_new ms))) (log_online (run hub_step hub_new ms) uid)"
    by (simp add: log_online_def own_status_def assms(2))
  also have "log_online (run hub_step hub_new ms) uid = online (run hub_step hub_new ms) uid"
    using hub_machine.reachable_inv [OF assms(1)] by (simp add: hub_inv_def)
  finally show ?thesis by (simp add: expected_shown_def)
qed

theorem presence_follows_hub_witness:
  "shown_online (run presence_step presence_new
     [HubEvent 0 (ClientConnected ''u''), Tick 400, HubEvent 401 (ClientDisconnected ''u'')]) ''u''
   = online (run hub_step hub_new [Register (sample_client ''c'' ''u''), Unregister ''c'']) ''u''"
proof -
  let ?ms = "[Register (sample_client ''c'' ''u''), Unregister ''c'']"
  let ?is = "[HubEvent 0 (ClientConnected ''u''), Tick 400, HubEvent 401 (ClientDisconnected ''u'')]"
  have ok: "admissible hub_ok hub_step hub_new ?ms" and es: "hub_events_of ?is = h_events (run hub_step hub_new ?ms)"
    by (simp_all add: sample_client_def hub_new_def hub_register_def hub_unregister_def Let_def drop_from_index_events)
  moreover have "own_status ''u'' (h_events (run hub_step hub_new ?ms)) = None"
    by (simp only: es [symmetric]) (simp add: own_status_def)
  ultimately show ?thesis using presence_follows_hub [OF ok es, of "''u''"] by (simp only: option.case)
qed

end
