(* ===== verification/Voice_Room.thy ===== *)
theory Voice_Room
  imports Prelude "HOL-Library.AList"
begin

section \<open>Voice rooms\<close>

text \<open>
  \<open>voice/room.rs\<close>: \<open>RoomManager\<close>, its two maps as association lists (\<open>HashMap\<close> order is
  unspecified; no statement here depends on the order). \<open>add_peer\<close> takes the locks several times, so
  it is written as the composition of its critical sections; the last section interleaves them.
\<close>

record voice_peer =
  vp_user_id :: string
  vp_username :: string
  vp_muted :: bool
  vp_deafened :: bool
  vp_speaking :: bool
  vp_screen_sharing :: bool
  vp_webcam_sharing :: bool

record voice_room =
  vr_channel_id :: string
  vr_team_id :: string
  vr_peers :: "voice_peer list"

type_synonym peer_map = "(string \<times> voice_peer) list"

record room_mgr =
  rm_rooms :: "(string \<times> peer_map) list"
  rm_teams :: "(string \<times> string) list"

definition room_new :: room_mgr where
  "room_new = \<lparr>rm_rooms = [], rm_teams = []\<rparr>"

subsection \<open>The critical sections of \<open>add_peer\<close>\<close>

definition fresh_peer :: "string \<Rightarrow> string \<Rightarrow> voice_peer" where
  "fresh_peer uid uname = \<lparr>vp_user_id = uid, vp_username = uname, vp_muted = False,
     vp_deafened = False, vp_speaking = False, vp_screen_sharing = False, vp_webcam_sharing = False\<rparr>"

definition add_peer_team :: "string \<Rightarrow> string \<Rightarrow> room_mgr \<Rightarrow> room_mgr" where
  "add_peer_team ch tid rm = rm\<lparr>rm_teams := AList.update ch tid (rm_teams rm)\<rparr>"

text \<open>Remove the user from every room but \<open>keep\<close> (from every room when \<open>keep\<close> is \<open>None\<close>): the rooms
  left, the rooms it was in, and which of those are now empty.\<close>

definition evicted_from :: "string option \<Rightarrow> string \<Rightarrow> (string \<times> peer_map) list \<Rightarrow> string list" where
  "evicted_from keep uid rooms =
     map fst (filter (\<lambda>(c, peers). keep \<noteq> Some c \<and> map_of peers uid \<noteq> None) rooms)"

definition evict_rooms :: "string option \<Rightarrow> string \<Rightarrow> (string \<times> peer_map) list \<Rightarrow> (string \<times> peer_map) list" where
  "evict_rooms keep uid rooms =
     map (\<lambda>(c, peers). (c, if keep \<noteq> Some c then AList.delete uid peers else peers)) rooms"

definition emptied_by :: "string option \<Rightarrow> string \<Rightarrow> (string \<times> peer_map) list \<Rightarrow> string list" where
  "emptied_by keep uid rooms =
     map fst (filter (\<lambda>(c, peers). keep \<noteq> Some c \<and> map_of peers uid \<noteq> None
       \<and> AList.delete uid peers = []) rooms)"

definition add_peer_evict :: "string \<Rightarrow> string \<Rightarrow> room_mgr \<Rightarrow> (string list \<times> string list) \<times> room_mgr" where
  "add_peer_evict ch uid rm =
     (let emptied = emptied_by (Some ch) uid (rm_rooms rm)
      in ((evicted_from (Some ch) uid (rm_rooms rm), emptied),
          rm\<lparr>rm_rooms := filter (\<lambda>(c, _). c \<notin> set emptied) (evict_rooms (Some ch) uid (rm_rooms rm))\<rparr>))"

definition drop_teams :: "string list \<Rightarrow> room_mgr \<Rightarrow> room_mgr" where
  "drop_teams emptied rm = rm\<lparr>rm_teams := filter (\<lambda>(c, _). c \<notin> set emptied) (rm_teams rm)\<rparr>"

definition add_peer_insert :: "string \<Rightarrow> string \<Rightarrow> string \<Rightarrow> room_mgr \<Rightarrow> room_mgr" where
  "add_peer_insert ch uid uname rm = rm\<lparr>rm_rooms :=
     AList.map_default ch [(uid, fresh_peer uid uname)] (AList.update uid (fresh_peer uid uname)) (rm_rooms rm)\<rparr>"

definition add_peer :: "string \<Rightarrow> string \<Rightarrow> string \<Rightarrow> string \<Rightarrow> room_mgr \<Rightarrow> string list \<times> room_mgr" where
  "add_peer ch uid uname tid rm =
     (let rm1 = add_peer_team ch tid rm;
          ((evicted, emptied), rm2) = add_peer_evict ch uid rm1;
          rm3 = (if emptied \<noteq> [] then drop_teams emptied rm2 else rm2)
      in (evicted, add_peer_insert ch uid uname rm3))"

subsection \<open>The other operations\<close>

definition remove_peer_everywhere :: "string \<Rightarrow> room_mgr \<Rightarrow> string list \<times> room_mgr" where
  "remove_peer_everywhere uid rm =
     (let emptied = emptied_by None uid (rm_rooms rm);
          rm' = rm\<lparr>rm_rooms := filter (\<lambda>(c, _). c \<notin> set emptied) (evict_rooms None uid (rm_rooms rm))\<rparr>
      in (evicted_from None uid (rm_rooms rm), if emptied \<noteq> [] then drop_teams emptied rm' else rm'))"

definition remove_peer :: "string \<Rightarrow> string \<Rightarrow> room_mgr \<Rightarrow> room_mgr" where
  "remove_peer ch uid rm = (case map_of (rm_rooms rm) ch of
       None \<Rightarrow> rm
     | Some peers \<Rightarrow>
         if AList.delete uid peers = []
         then rm\<lparr>rm_rooms := AList.delete ch (rm_rooms rm), rm_teams := AList.delete ch (rm_teams rm)\<rparr>
         else rm\<lparr>rm_rooms := AList.map_entry ch (AList.delete uid) (rm_rooms rm)\<rparr>)"

definition get_room :: "room_mgr \<Rightarrow> string \<Rightarrow> voice_peer list option" where
  "get_room rm ch = map_option (map snd) (map_of (rm_rooms rm) ch)"

definition upd_peer :: "string \<Rightarrow> string \<Rightarrow> (voice_peer \<Rightarrow> voice_peer) \<Rightarrow> room_mgr \<Rightarrow> room_mgr" where
  "upd_peer ch uid f rm = rm\<lparr>rm_rooms := AList.map_entry ch (AList.map_entry uid f) (rm_rooms rm)\<rparr>"

definition set_muted :: "string \<Rightarrow> string \<Rightarrow> bool \<Rightarrow> room_mgr \<Rightarrow> room_mgr" where
  "set_muted ch uid b = upd_peer ch uid (\<lambda>p. p\<lparr>vp_muted := b\<rparr>)"

definition set_deafened :: "string \<Rightarrow> string \<Rightarrow> bool \<Rightarrow> room_mgr \<Rightarrow> room_mgr" where
  "set_deafened ch uid b = upd_peer ch uid (\<lambda>p. p\<lparr>vp_deafened := b\<rparr>)"

definition set_screen_sharing :: "string \<Rightarrow> string \<Rightarrow> bool \<Rightarrow> room_mgr \<Rightarrow> room_mgr" where
  "set_screen_sharing ch uid b = upd_peer ch uid (\<lambda>p. p\<lparr>vp_screen_sharing := b\<rparr>)"

definition set_webcam_sharing :: "string \<Rightarrow> string \<Rightarrow> bool \<Rightarrow> room_mgr \<Rightarrow> room_mgr" where
  "set_webcam_sharing ch uid b = upd_peer ch uid (\<lambda>p. p\<lparr>vp_webcam_sharing := b\<rparr>)"

definition screen_sharer :: "room_mgr \<Rightarrow> string \<Rightarrow> string option" where
  "screen_sharer rm ch = (case map_of (rm_rooms rm) ch of
       None \<Rightarrow> None
     | Some peers \<Rightarrow> map_option vp_user_id (find vp_screen_sharing (map snd peers)))"

definition get_rooms_by_team :: "room_mgr \<Rightarrow> string \<Rightarrow> voice_room list" where
  "get_rooms_by_team rm tid = List.map_filter (\<lambda>(c, peers). case map_of (rm_teams rm) c of
       None \<Rightarrow> None
     | Some t \<Rightarrow> if t = tid
         then Some \<lparr>vr_channel_id = c, vr_team_id = t, vr_peers = map snd peers\<rparr> else None) (rm_rooms rm)"

subsection \<open>Membership and the invariant\<close>

definition peer_in :: "room_mgr \<Rightarrow> string \<Rightarrow> string \<Rightarrow> voice_peer option" where
  "peer_in rm ch uid = Option.bind (map_of (rm_rooms rm) ch) (\<lambda>peers. map_of peers uid)"

definition peers_ok :: "peer_map \<Rightarrow> bool" where
  "peers_ok ps \<longleftrightarrow> ps \<noteq> [] \<and> distinct (map fst ps) \<and> (\<forall>u p. map_of ps u = Some p \<longrightarrow> vp_user_id p = u)"

text \<open>No room is empty, every peer sits under its own id, and a room has a team exactly as long as it
  exists.\<close>

definition room_wf :: "room_mgr \<Rightarrow> bool" where
  "room_wf rm \<longleftrightarrow> distinct (map fst (rm_rooms rm)) \<and> distinct (map fst (rm_teams rm))
     \<and> (\<forall>c ps. map_of (rm_rooms rm) c = Some ps \<longrightarrow> peers_ok ps)
     \<and> (\<forall>c. map_of (rm_teams rm) c = None \<longleftrightarrow> map_of (rm_rooms rm) c = None)"

definition single_room :: "room_mgr \<Rightarrow> bool" where
  "single_room rm \<longleftrightarrow> (\<forall>uid c c'. peer_in rm c uid \<noteq> None \<longrightarrow> peer_in rm c' uid \<noteq> None \<longrightarrow> c = c')"

subsection \<open>Eviction, by lookup\<close>

lemma map_of_filter_key: "map_of (filter (\<lambda>(c, _). c \<notin> S) xs) c = (if c \<in> S then None else map_of xs c)"
  by (induction xs) auto

lemma map_of_evict_rooms:
  "map_of (evict_rooms keep uid rooms) c
     = map_option (\<lambda>ps. if keep \<noteq> Some c then AList.delete uid ps else ps) (map_of rooms c)"
  by (induction rooms) (auto simp: evict_rooms_def)

lemma keys_evict_rooms [simp]: "map fst (evict_rooms keep uid rooms) = map fst rooms"
  by (induction rooms) (auto simp: evict_rooms_def)

lemma distinct_filter_key: "distinct (map fst xs) \<Longrightarrow> distinct (map fst (filter P xs))"
  by (simp add: distinct_map_filter)

lemma in_evicted_iff:
  "distinct (map fst rooms) \<Longrightarrow> c \<in> set (evicted_from keep uid rooms)
     \<longleftrightarrow> keep \<noteq> Some c \<and> (\<exists>ps. map_of rooms c = Some ps \<and> map_of ps uid \<noteq> None)"
  by (force simp: evicted_from_def)

lemma in_emptied_iff:
  "distinct (map fst rooms) \<Longrightarrow> c \<in> set (emptied_by keep uid rooms)
     \<longleftrightarrow> keep \<noteq> Some c \<and> (\<exists>ps. map_of rooms c = Some ps \<and> map_of ps uid \<noteq> None \<and> AList.delete uid ps = [])"
  by (force simp: emptied_by_def)

definition after_evict :: "string option \<Rightarrow> string \<Rightarrow> (string \<times> peer_map) list \<Rightarrow> (string \<times> peer_map) list" where
  "after_evict keep uid rooms =
     filter (\<lambda>(c, _). c \<notin> set (emptied_by keep uid rooms)) (evict_rooms keep uid rooms)"

lemma map_of_after_evict:
  assumes "distinct (map fst rooms)" and "\<forall>c ps. map_of rooms c = Some ps \<longrightarrow> ps \<noteq> []"
  shows "map_of (after_evict keep uid rooms) c = (case map_of rooms c of None \<Rightarrow> None
     | Some ps \<Rightarrow> if keep = Some c then Some ps
         else if AList.delete uid ps = [] then None else Some (AList.delete uid ps))"
proof (cases "map_of rooms c")
  case (Some ps)
  with assms(2) have "ps \<noteq> []" by blast
  moreover have "AList.delete uid ps = ps" if "map_of ps uid = None"
    using that by (intro AList.delete_id) (simp add: map_of_eq_None_iff)
  moreover have "c \<in> set (emptied_by keep uid rooms)
      \<longleftrightarrow> keep \<noteq> Some c \<and> map_of ps uid \<noteq> None \<and> AList.delete uid ps = []"
    unfolding in_emptied_iff [OF assms(1)] Some by simp
  ultimately show ?thesis
    unfolding after_evict_def map_of_filter_key map_of_evict_rooms Some by auto
qed (simp add: after_evict_def map_of_filter_key map_of_evict_rooms)

lemma peers_ok_delete: "peers_ok ps \<Longrightarrow> AList.delete u ps \<noteq> [] \<Longrightarrow> peers_ok (AList.delete u ps)"
  by (auto simp: peers_ok_def AList.distinct_delete AList.delete_conv' split: if_splits)

lemma peers_ok_update: "peers_ok ps \<Longrightarrow> vp_user_id p = u \<Longrightarrow> peers_ok (AList.update u p ps)"
  by (auto simp: peers_ok_def AList.distinct_update AList.update_conv' split: if_splits)

lemma peers_ok_map_entry:
  "peers_ok ps \<Longrightarrow> (\<And>p. vp_user_id (f p) = vp_user_id p) \<Longrightarrow> peers_ok (AList.map_entry u f ps)"
proof -
  assume ok: "peers_ok ps" and f: "\<And>p. vp_user_id (f p) = vp_user_id p"
  have "AList.map_entry u f ps \<noteq> []" using ok by (cases ps) (simp_all add: peers_ok_def)
  moreover have "distinct (map fst (AList.map_entry u f ps))"
    using ok by (simp add: peers_ok_def AList.distinct_map_entry)
  moreover have "vp_user_id p = v" if "map_of (AList.map_entry u f ps) v = Some p" for v p
    using ok f that unfolding AList.map_of_map_entry by (cases "map_of ps u") (auto simp: peers_ok_def split: if_splits)
  ultimately show ?thesis by (simp add: peers_ok_def)
qed

lemma peers_ok_single: "vp_user_id p = u \<Longrightarrow> peers_ok [(u, p)]"
  by (simp add: peers_ok_def)

lemma room_wf_nonempty: "room_wf rm \<Longrightarrow> \<forall>c ps. map_of (rm_rooms rm) c = Some ps \<longrightarrow> ps \<noteq> []"
  by (auto simp: room_wf_def peers_ok_def)

text \<open>One shape for both evictions: rooms lose the user, emptied rooms go with their team.\<close>

definition evict_all :: "string option \<Rightarrow> string \<Rightarrow> room_mgr \<Rightarrow> room_mgr" where
  "evict_all keep uid rm = \<lparr>rm_rooms = after_evict keep uid (rm_rooms rm),
     rm_teams = filter (\<lambda>(c, _). c \<notin> set (emptied_by keep uid (rm_rooms rm))) (rm_teams rm)\<rparr>"

lemma remove_everywhere_eq:
  "remove_peer_everywhere uid rm = (evicted_from None uid (rm_rooms rm), evict_all None uid rm)"
  by (cases rm) (auto simp: remove_peer_everywhere_def evict_all_def after_evict_def drop_teams_def Let_def)

lemma add_peer_eq:
  "add_peer ch uid uname tid rm = (evicted_from (Some ch) uid (rm_rooms rm),
     add_peer_insert ch uid uname (evict_all (Some ch) uid (add_peer_team ch tid rm)))"
  by (cases rm) (auto simp: add_peer_def add_peer_evict_def evict_all_def after_evict_def drop_teams_def
      add_peer_team_def Let_def)

lemma peer_in_evict_all:
  assumes "room_wf rm"
  shows "peer_in (evict_all keep uid rm) c u
    = (if u = uid \<and> keep \<noteq> Some c then None else peer_in rm c u)"
proof -
  have d: "distinct (map fst (rm_rooms rm))" using assms by (simp add: room_wf_def)
  have "AList.delete uid ps = [] \<Longrightarrow> u \<noteq> uid \<Longrightarrow> map_of ps u = None" for ps :: peer_map
    by (metis AList.map_of_delete map_of.simps(1))
  then show ?thesis
    by (auto simp: peer_in_def evict_all_def map_of_after_evict [OF d room_wf_nonempty [OF assms]]
        AList.delete_conv' split: option.split)
qed

text \<open>Well-formedness but for the team of the room being joined.\<close>

lemma room_wf_evict_all:
  assumes "room_wf rm" shows "room_wf (evict_all keep uid rm)"
proof -
  have d: "distinct (map fst (rm_rooms rm))" using assms by (simp add: room_wf_def)
  note rooms = map_of_after_evict [OF d room_wf_nonempty [OF assms]]
  have "distinct (map fst (rm_rooms (evict_all keep uid rm)))"
    using d by (simp add: evict_all_def after_evict_def distinct_filter_key)
  moreover have "distinct (map fst (rm_teams (evict_all keep uid rm)))"
    using assms by (simp add: evict_all_def distinct_filter_key room_wf_def)
  moreover have "peers_ok ps" if "map_of (rm_rooms (evict_all keep uid rm)) c = Some ps" for c ps
    using assms that by (auto simp: evict_all_def rooms room_wf_def peers_ok_delete split: option.splits if_splits)
  moreover have "map_of (rm_teams (evict_all keep uid rm)) c = None
      \<longleftrightarrow> map_of (rm_rooms (evict_all keep uid rm)) c = None" for c
  proof -
    have "ps \<noteq> [] \<and> (AList.delete uid ps = [] \<longrightarrow> map_of ps uid \<noteq> None)" if "map_of (rm_rooms rm) c = Some ps" for ps
      using room_wf_nonempty [OF assms] that
      by (metis AList.delete_id map_of_eq_None_iff)
    moreover have "map_of (rm_teams rm) c = None \<longleftrightarrow> map_of (rm_rooms rm) c = None"
      using assms by (simp add: room_wf_def)
    moreover have "c \<in> set (emptied_by keep uid (rm_rooms rm)) \<longleftrightarrow> keep \<noteq> Some c
        \<and> (\<exists>ps. map_of (rm_rooms rm) c = Some ps \<and> map_of ps uid \<noteq> None \<and> AList.delete uid ps = [])"
      by (rule in_emptied_iff [OF d])
    moreover have "map_of (rm_teams (evict_all keep uid rm)) c
        = (if c \<in> set (emptied_by keep uid (rm_rooms rm)) then None else map_of (rm_teams rm) c)"
      by (simp only: evict_all_def map_of_filter_key room_mgr.simps)
    ultimately show ?thesis
      by (cases "map_of (rm_rooms rm) c") (auto simp: evict_all_def rooms)
  qed
  ultimately show ?thesis unfolding room_wf_def by blast
qed

subsection \<open>Every operation keeps the invariants\<close>

lemma evict_all_team:
  "rm_rooms (evict_all k u (add_peer_team ch tid rm)) = rm_rooms (evict_all k u rm)"
  "map_of (rm_teams (evict_all (Some ch) u (add_peer_team ch tid rm)))
     = (map_of (rm_teams (evict_all (Some ch) u rm)))(ch \<mapsto> tid)"
  "distinct (map fst (rm_teams rm)) \<Longrightarrow> distinct (map fst (rm_teams (evict_all (Some ch) u (add_peer_team ch tid rm))))"
proof -
  have "ch \<notin> set (emptied_by (Some ch) u (rm_rooms rm))" by (auto simp: emptied_by_def)
  then show "map_of (rm_teams (evict_all (Some ch) u (add_peer_team ch tid rm)))
     = (map_of (rm_teams (evict_all (Some ch) u rm)))(ch \<mapsto> tid)"
    by (intro ext) (simp add: evict_all_def add_peer_team_def map_of_filter_key AList.update_conv')
qed (simp_all add: evict_all_def add_peer_team_def distinct_filter_key AList.distinct_update)

lemma peer_in_insert:
  "peer_in (add_peer_insert ch uid uname rm) c u
     = (if c = ch \<and> u = uid then Some (fresh_peer uid uname) else peer_in rm c u)"
  by (auto simp: peer_in_def add_peer_insert_def map_of_map_default AList.update_conv' split: option.split)

lemma peer_in_rooms: "rm_rooms rm = rm_rooms rm' \<Longrightarrow> peer_in rm = peer_in rm'"
  by (intro ext) (simp add: peer_in_def)

lemma peer_in_add_peer:
  assumes "room_wf rm"
  shows "peer_in (snd (add_peer ch uid uname tid rm)) c u
    = (if u = uid then if c = ch then Some (fresh_peer uid uname) else None else peer_in rm c u)"
  using peer_in_rooms [OF evict_all_team(1), of "Some ch" uid ch tid rm]
  by (auto simp: add_peer_eq peer_in_insert peer_in_evict_all [OF assms])

lemma room_wf_add_peer:
  assumes "room_wf rm" shows "room_wf (snd (add_peer ch uid uname tid rm))"
proof -
  have wf: "room_wf (evict_all (Some ch) uid rm)" by (rule room_wf_evict_all [OF assms])
  have "distinct (map fst (rm_teams rm))" using assms by (simp add: room_wf_def)
  note teams = evict_all_team(2,3) evict_all_team(3) [OF this]
  have rooms: "map_of (rm_rooms (snd (add_peer ch uid uname tid rm))) c
    = (if c = ch then Some (case map_of (rm_rooms (evict_all (Some ch) uid rm)) ch of
          None \<Rightarrow> [(uid, fresh_peer uid uname)] | Some ps \<Rightarrow> AList.update uid (fresh_peer uid uname) ps)
       else map_of (rm_rooms (evict_all (Some ch) uid rm)) c)" for c
    by (simp add: add_peer_eq add_peer_insert_def map_of_map_default evict_all_team(1) split: option.split)
  have me: "vp_user_id (fresh_peer uid uname) = uid" by (simp add: fresh_peer_def)
  have "peers_ok ps" if "map_of (rm_rooms (snd (add_peer ch uid uname tid rm))) c = Some ps" for c ps
    using that wf me unfolding rooms
    by (auto simp: room_wf_def peers_ok_update peers_ok_single split: if_splits option.splits)
  moreover have "map_of (rm_teams (snd (add_peer ch uid uname tid rm))) c = None
      \<longleftrightarrow> map_of (rm_rooms (snd (add_peer ch uid uname tid rm))) c = None" for c
    unfolding rooms using wf by (simp add: add_peer_eq add_peer_insert_def teams(1) room_wf_def)
  moreover have "distinct (map fst (rm_rooms (snd (add_peer ch uid uname tid rm))))"
    using wf by (simp add: add_peer_eq add_peer_insert_def distinct_map_default evict_all_team(1) room_wf_def)
  moreover have "distinct (map fst (rm_teams (snd (add_peer ch uid uname tid rm))))"
    using teams(3) by (simp add: add_peer_eq add_peer_insert_def)
  ultimately show ?thesis unfolding room_wf_def by blast
qed

lemma peer_in_remove_peer:
  "peer_in (remove_peer ch uid rm) c u = (if c = ch \<and> u = uid then None else peer_in rm c u)"
proof (cases "map_of (rm_rooms rm) ch")
  case (Some ps)
  have "map_of ps u = None" if "AList.delete uid ps = []" "u \<noteq> uid"
    using that by (metis AList.map_of_delete map_of.simps(1))
  with Some show ?thesis
    by (auto simp: peer_in_def remove_peer_def AList.delete_conv' AList.map_of_map_entry)
qed (simp add: remove_peer_def peer_in_def)

lemma room_wf_remove_peer:
  assumes "room_wf rm" shows "room_wf (remove_peer ch uid rm)"
proof (cases "map_of (rm_rooms rm) ch")
  case (Some ps)
  with assms have ok: "peers_ok ps" by (simp add: room_wf_def)
  show ?thesis
  proof (cases "AList.delete uid ps = []")
    case True
    with assms Some show ?thesis
      by (auto simp: room_wf_def remove_peer_def AList.distinct_delete AList.delete_conv' split: if_splits)
  next
    case False
    with assms Some peers_ok_delete [OF ok False] show ?thesis
      by (auto simp: room_wf_def remove_peer_def AList.distinct_map_entry AList.map_of_map_entry split: if_splits)
  qed
qed (use assms in \<open>simp add: remove_peer_def\<close>)

lemma peer_in_upd_peer:
  "peer_in (upd_peer ch uid f rm) c u
     = (if c = ch \<and> u = uid then map_option f (peer_in rm c u) else peer_in rm c u)"
  by (auto simp: peer_in_def upd_peer_def AList.map_of_map_entry split: option.split)

lemma room_wf_upd_peer:
  assumes "room_wf rm" and f: "\<And>p. vp_user_id (f p) = vp_user_id p"
  shows "room_wf (upd_peer ch uid f rm)"
  using assms(1) peers_ok_map_entry [OF _ f]
  by (auto simp: room_wf_def upd_peer_def AList.distinct_map_entry AList.map_of_map_entry
      split: if_splits option.splits)

datatype room_op =
    AddPeer string string string string
  | RemovePeer string string
  | RemovePeerEverywhere string
  | SetMuted string string bool
  | SetDeafened string string bool
  | SetScreenSharing string string bool
  | SetWebcamSharing string string bool

fun room_step :: "room_mgr \<Rightarrow> room_op \<Rightarrow> room_mgr" where
  "room_step rm (AddPeer ch uid uname tid) = snd (add_peer ch uid uname tid rm)"
| "room_step rm (RemovePeer ch uid) = remove_peer ch uid rm"
| "room_step rm (RemovePeerEverywhere uid) = snd (remove_peer_everywhere uid rm)"
| "room_step rm (SetMuted ch uid b) = set_muted ch uid b rm"
| "room_step rm (SetDeafened ch uid b) = set_deafened ch uid b rm"
| "room_step rm (SetScreenSharing ch uid b) = set_screen_sharing ch uid b rm"
| "room_step rm (SetWebcamSharing ch uid b) = set_webcam_sharing ch uid b rm"

definition room_inv :: "room_mgr \<Rightarrow> bool" where
  "room_inv rm \<longleftrightarrow> room_wf rm \<and> single_room rm"

lemmas set_flag_defs = set_muted_def set_deafened_def set_screen_sharing_def set_webcam_sharing_def

lemma single_room_mono:
  "single_room rm \<Longrightarrow> (\<And>c u. peer_in rm' c u \<noteq> None \<Longrightarrow> peer_in rm c u \<noteq> None) \<Longrightarrow> single_room rm'"
  unfolding single_room_def by blast

lemma single_room_upd: "single_room rm \<Longrightarrow> single_room (upd_peer ch uid f rm)"
  by (erule single_room_mono) (simp add: peer_in_upd_peer split: if_splits)

lemma single_room_add:
  "room_wf rm \<Longrightarrow> single_room rm \<Longrightarrow> single_room (snd (add_peer ch uid uname tid rm))"
  unfolding single_room_def peer_in_add_peer by auto

lemma room_inv_step: "room_inv rm \<Longrightarrow> room_inv (room_step rm e)"
proof -
  assume inv: "room_inv rm"
  then have wf: "room_wf rm" and one: "single_room rm" by (simp_all add: room_inv_def)
  show ?thesis
  proof (cases e)
    case (AddPeer ch uid uname tid)
    with wf one show ?thesis by (simp add: room_inv_def room_wf_add_peer single_room_add)
  next
    case (RemovePeer ch uid)
    have "single_room (remove_peer ch uid rm)"
      by (rule single_room_mono [OF one]) (simp add: peer_in_remove_peer split: if_splits)
    with RemovePeer wf show ?thesis by (simp add: room_inv_def room_wf_remove_peer)
  next
    case (RemovePeerEverywhere uid)
    have "single_room (evict_all None uid rm)"
      by (rule single_room_mono [OF one]) (simp add: peer_in_evict_all [OF wf] split: if_splits)
    with RemovePeerEverywhere wf show ?thesis
      by (simp add: room_inv_def room_wf_evict_all remove_everywhere_eq)
  qed (use wf one in \<open>simp_all add: room_inv_def set_flag_defs room_wf_upd_peer single_room_upd\<close>)
qed

lemma room_inv_new: "room_inv room_new"
  by (simp add: room_inv_def room_wf_def single_room_def room_new_def peer_in_def)

interpretation room_machine: invariant_machine room_step "\<lambda>_ _. True" room_inv room_new
  by unfold_locales (rule room_inv_new, rule room_inv_step)

lemma admissible_any [simp]: "admissible (\<lambda>_ _. True) step s es"
  by (induction es arbitrary: s) simp_all

lemma distinct_singleton: "set xs = {x} \<Longrightarrow> distinct xs \<Longrightarrow> xs = [x]"
proof (cases xs)
  case (Cons y ys)
  assume "set xs = {x}" and "distinct xs"
  with Cons have "y = x" and "set ys \<subseteq> {x}" and "x \<notin> set ys" by auto
  with Cons show ?thesis by (cases ys) auto
qed simp

subsection \<open>Properties\<close>

text \<open>With each call taken as one step, a user is in at most one voice room, no room is empty, and
  a room's team is known exactly as long as the room exists.\<close>

theorem voice_rooms_invariant:
  "single_room (run room_step room_new ops)
   \<and> (\<forall>c. map_of (rm_rooms (run room_step room_new ops)) c \<noteq> Some [])
   \<and> (\<forall>c. map_of (rm_teams (run room_step room_new ops)) c = None
        \<longleftrightarrow> map_of (rm_rooms (run room_step room_new ops)) c = None)"
  using room_machine.reachable_inv [of ops]
  by (fastforce simp: room_inv_def room_wf_def peers_ok_def)

text \<open>Joining: the user ends in the joined room alone, with every flag cleared, the returned list
  is exactly the other rooms the user was in (so the caller tears down exactly those), and nobody
  else's membership changes.\<close>

theorem add_peer_effect:
  assumes "room_wf rm"
  shows "(\<forall>c u. peer_in (snd (add_peer ch uid uname tid rm)) c u
      = (if u = uid then if c = ch then Some (fresh_peer uid uname) else None else peer_in rm c u))
    \<and> set (fst (add_peer ch uid uname tid rm)) = {c. c \<noteq> ch \<and> peer_in rm c uid \<noteq> None}
    \<and> distinct (fst (add_peer ch uid uname tid rm))"
proof -
  have d: "distinct (map fst (rm_rooms rm))" using assms by (simp add: room_wf_def)
  have "peer_in rm c uid \<noteq> None \<longleftrightarrow> (\<exists>ps. map_of (rm_rooms rm) c = Some ps \<and> map_of ps uid \<noteq> None)" for c
    by (cases "map_of (rm_rooms rm) c") (auto simp: peer_in_def)
  then have "set (evicted_from (Some ch) uid (rm_rooms rm)) = {c. c \<noteq> ch \<and> peer_in rm c uid \<noteq> None}"
    using in_evicted_iff [OF d, of _ "Some ch" uid] by auto
  moreover have "distinct (evicted_from (Some ch) uid (rm_rooms rm))"
    using d by (simp add: evicted_from_def distinct_filter_key)
  moreover have "fst (add_peer ch uid uname tid rm) = evicted_from (Some ch) uid (rm_rooms rm)"
    by (simp add: add_peer_eq)
  ultimately show ?thesis
    by (simp only: peer_in_add_peer [OF assms]) simp
qed

theorem add_peer_effect_witness:
  "fst (add_peer ''c2'' ''u'' ''alice'' ''t'' (run room_step room_new [AddPeer ''c1'' ''u'' ''alice'' ''t'']))
     = [''c1'']"
proof -
  let ?rm = "run room_step room_new [AddPeer ''c1'' ''u'' ''alice'' ''t'']"
  have wf: "room_wf ?rm"
    using room_machine.reachable_inv [of "[AddPeer ''c1'' ''u'' ''alice'' ''t'']"] by (simp add: room_inv_def)
  have "room_wf room_new" using room_inv_new by (simp add: room_inv_def)
  then have "{c. c \<noteq> ''c2'' \<and> peer_in ?rm c ''u'' \<noteq> None} = {''c1''}"
    by (auto simp: peer_in_add_peer split: if_splits)
  with add_peer_effect [OF wf, of "''c2''" "''u''" "''alice''" "''t''"]
  have "set (fst (add_peer ''c2'' ''u'' ''alice'' ''t'' ?rm)) = {''c1''}"
    and "distinct (fst (add_peer ''c2'' ''u'' ''alice'' ''t'' ?rm))" by simp_all
  then show ?thesis by (rule distinct_singleton)
qed

text \<open>The room map is unlocked between the eviction and the insertion of \<open>add_peer\<close>, so two joins of
  one user (two tabs) that interleave there leave the user in two rooms: the invariant the comment of
  \<open>add_peer\<close> claims holds for sequential calls only.\<close>

theorem concurrent_joins_break_single_room:
  "let rm1 = snd (add_peer_evict ''c1'' ''u'' (add_peer_team ''c1'' ''t'' room_new));
       rm2 = snd (add_peer_evict ''c2'' ''u'' (add_peer_team ''c2'' ''t'' rm1));
       rm3 = add_peer_insert ''c1'' ''u'' ''alice'' rm2;
       rm4 = add_peer_insert ''c2'' ''u'' ''alice'' rm3
   in \<not> single_room rm4"
proof -
  have two: "\<not> single_room rm" if "peer_in rm c u \<noteq> None" and "peer_in rm c' u \<noteq> None" and "c \<noteq> c'" for rm c c' u
    using that unfolding single_room_def by blast
  show ?thesis
    unfolding Let_def by (rule two [of _ "''c1''" "''u''" "''c2''"]) (simp_all add: peer_in_insert)
qed

end
