(* ===== verification/Events.thy ===== *)
theory Events
  imports Hub
begin

section \<open>Events on the WebSocket\<close>

text \<open>
  \<open>ws/events.rs\<close>: the event names, the payload structs as records, what \<open>serde_json::from_value\<close>
  accepts for each inbound payload (\<open>None\<close> is a parse error) and what \<open>Event::new\<close> builds for each
  outbound one. The derived \<open>Deserialize\<close> also accepts an array that lists the fields in order, and
  so does \<open>fields_of\<close>. Member order of objects is the declaration order.
\<close>

subsection \<open>Event names\<close>

definition EVENT_MESSAGE_SEND :: string where "EVENT_MESSAGE_SEND = ''message:send''"
definition EVENT_MESSAGE_EDIT :: string where "EVENT_MESSAGE_EDIT = ''message:edit''"
definition EVENT_MESSAGE_DELETE :: string where "EVENT_MESSAGE_DELETE = ''message:delete''"
definition EVENT_TYPING_START :: string where "EVENT_TYPING_START = ''typing:start''"
definition EVENT_TYPING_STOP :: string where "EVENT_TYPING_STOP = ''typing:stop''"
definition EVENT_PRESENCE_UPDATE :: string where "EVENT_PRESENCE_UPDATE = ''presence:update''"
definition EVENT_CHANNEL_JOIN :: string where "EVENT_CHANNEL_JOIN = ''channel:join''"
definition EVENT_CHANNEL_LEAVE :: string where "EVENT_CHANNEL_LEAVE = ''channel:leave''"
definition EVENT_THREAD_MESSAGE_SEND :: string where "EVENT_THREAD_MESSAGE_SEND = ''thread:message:send''"
definition EVENT_THREAD_MESSAGE_EDIT :: string where "EVENT_THREAD_MESSAGE_EDIT = ''thread:message:edit''"
definition EVENT_THREAD_MESSAGE_REMOVE :: string where "EVENT_THREAD_MESSAGE_REMOVE = ''thread:message:remove''"
definition EVENT_VOICE_JOIN :: string where "EVENT_VOICE_JOIN = ''voice:join''"
definition EVENT_VOICE_JOIN_DENIED :: string where "EVENT_VOICE_JOIN_DENIED = ''voice:join-denied''"
definition EVENT_VOICE_LEAVE :: string where "EVENT_VOICE_LEAVE = ''voice:leave''"
definition EVENT_VOICE_ANSWER :: string where "EVENT_VOICE_ANSWER = ''voice:answer''"
definition EVENT_VOICE_ICE_CANDIDATE :: string where "EVENT_VOICE_ICE_CANDIDATE = ''voice:ice-candidate''"
definition EVENT_VOICE_INVITE :: string where "EVENT_VOICE_INVITE = ''voice:invite''"
definition EVENT_VOICE_MUTE :: string where "EVENT_VOICE_MUTE = ''voice:mute''"
definition EVENT_VOICE_DEAFEN :: string where "EVENT_VOICE_DEAFEN = ''voice:deafen''"
definition EVENT_VOICE_FORCE_MUTE :: string where "EVENT_VOICE_FORCE_MUTE = ''voice:force-mute''"
definition EVENT_VOICE_FORCE_DISCONNECT :: string where "EVENT_VOICE_FORCE_DISCONNECT = ''voice:force-disconnect''"
definition EVENT_VOICE_LATENCY :: string where "EVENT_VOICE_LATENCY = ''voice:latency''"
definition EVENT_VOICE_LATENCY_UPDATE :: string where "EVENT_VOICE_LATENCY_UPDATE = ''voice:latency-update''"
definition EVENT_VOICE_SCREEN_START :: string where "EVENT_VOICE_SCREEN_START = ''voice:screen-start''"
definition EVENT_VOICE_SCREEN_STOP :: string where "EVENT_VOICE_SCREEN_STOP = ''voice:screen-stop''"
definition EVENT_VOICE_WEBCAM_START :: string where "EVENT_VOICE_WEBCAM_START = ''voice:webcam-start''"
definition EVENT_VOICE_WEBCAM_STOP :: string where "EVENT_VOICE_WEBCAM_STOP = ''voice:webcam-stop''"
definition EVENT_VOICE_KEY_DISTRIBUTE :: string where "EVENT_VOICE_KEY_DISTRIBUTE = ''voice:key-distribute''"
definition EVENT_CHANNEL_KEY_DISTRIBUTE :: string where "EVENT_CHANNEL_KEY_DISTRIBUTE = ''channel:key-distribute''"
definition EVENT_REQUEST :: string where "EVENT_REQUEST = ''request''"
definition EVENT_PING :: string where "EVENT_PING = ''ping''"
definition EVENT_REACTION_ADD :: string where "EVENT_REACTION_ADD = ''reaction:add''"
definition EVENT_REACTION_REMOVE :: string where "EVENT_REACTION_REMOVE = ''reaction:remove''"
definition EVENT_TELEMETRY_ERROR :: string where "EVENT_TELEMETRY_ERROR = ''telemetry:error''"
definition EVENT_TELEMETRY_BREADCRUMB :: string where "EVENT_TELEMETRY_BREADCRUMB = ''telemetry:breadcrumb''"
definition EVENT_DM_MESSAGE_SEND :: string where "EVENT_DM_MESSAGE_SEND = ''dm:message:send''"
definition EVENT_DM_MESSAGE_EDIT :: string where "EVENT_DM_MESSAGE_EDIT = ''dm:message:edit''"
definition EVENT_DM_MESSAGE_DELETE :: string where "EVENT_DM_MESSAGE_DELETE = ''dm:message:delete''"
definition EVENT_DM_TYPING_START :: string where "EVENT_DM_TYPING_START = ''dm:typing:start''"
definition EVENT_DM_TYPING_STOP :: string where "EVENT_DM_TYPING_STOP = ''dm:typing:stop''"
definition EVENT_MESSAGE_NEW :: string where "EVENT_MESSAGE_NEW = ''message:new''"
definition EVENT_MESSAGE_UPDATED :: string where "EVENT_MESSAGE_UPDATED = ''message:updated''"
definition EVENT_MESSAGE_DELETED :: string where "EVENT_MESSAGE_DELETED = ''message:deleted''"
definition EVENT_TYPING_INDICATOR :: string where "EVENT_TYPING_INDICATOR = ''typing:indicator''"
definition EVENT_PRESENCE_CHANGED :: string where "EVENT_PRESENCE_CHANGED = ''presence:changed''"
definition EVENT_PONG :: string where "EVENT_PONG = ''pong''"
definition EVENT_MEMBER_JOINED :: string where "EVENT_MEMBER_JOINED = ''member:joined''"
definition EVENT_MEMBER_LEFT :: string where "EVENT_MEMBER_LEFT = ''member:left''"
definition EVENT_CHANNEL_CREATED :: string where "EVENT_CHANNEL_CREATED = ''channel:created''"
definition EVENT_CHANNEL_UPDATED :: string where "EVENT_CHANNEL_UPDATED = ''channel:updated''"
definition EVENT_CHANNEL_DELETED :: string where "EVENT_CHANNEL_DELETED = ''channel:deleted''"
definition EVENT_ERROR :: string where "EVENT_ERROR = ''error''"
definition EVENT_THREAD_MESSAGE_NEW :: string where "EVENT_THREAD_MESSAGE_NEW = ''thread:message:new''"
definition EVENT_THREAD_MESSAGE_UPDATED :: string where "EVENT_THREAD_MESSAGE_UPDATED = ''thread:message:updated''"
definition EVENT_THREAD_MESSAGE_DELETED :: string where "EVENT_THREAD_MESSAGE_DELETED = ''thread:message:deleted''"
definition EVENT_THREAD_UPDATED :: string where "EVENT_THREAD_UPDATED = ''thread:updated''"
definition EVENT_THREAD_CREATED :: string where "EVENT_THREAD_CREATED = ''thread:created''"
definition EVENT_REACTION_ADDED :: string where "EVENT_REACTION_ADDED = ''reaction:added''"
definition EVENT_REACTION_REMOVED :: string where "EVENT_REACTION_REMOVED = ''reaction:removed''"
definition EVENT_VOICE_INCOMING_CALL :: string where "EVENT_VOICE_INCOMING_CALL = ''voice:incoming-call''"
definition EVENT_VOICE_OFFER :: string where "EVENT_VOICE_OFFER = ''voice:offer''"
definition EVENT_VOICE_USER_JOINED :: string where "EVENT_VOICE_USER_JOINED = ''voice:user-joined''"
definition EVENT_VOICE_USER_LEFT :: string where "EVENT_VOICE_USER_LEFT = ''voice:user-left''"
definition EVENT_VOICE_STATE :: string where "EVENT_VOICE_STATE = ''voice:state''"
definition EVENT_VOICE_ROOMS_SNAPSHOT :: string where "EVENT_VOICE_ROOMS_SNAPSHOT = ''voice:rooms-snapshot''"
definition EVENT_VOICE_MUTE_UPDATE :: string where "EVENT_VOICE_MUTE_UPDATE = ''voice:mute-update''"
definition EVENT_VOICE_SCREEN_UPDATE :: string where "EVENT_VOICE_SCREEN_UPDATE = ''voice:screen-update''"
definition EVENT_VOICE_WEBCAM_UPDATE :: string where "EVENT_VOICE_WEBCAM_UPDATE = ''voice:webcam-update''"
definition EVENT_VOICE_ICE_OUT :: string where "EVENT_VOICE_ICE_OUT = ''voice:ice-candidate''"
definition EVENT_VOICE_SPEAKING :: string where "EVENT_VOICE_SPEAKING = ''voice:speaking''"
definition EVENT_DM_MESSAGE_NEW :: string where "EVENT_DM_MESSAGE_NEW = ''dm:message:new''"
definition EVENT_DM_MESSAGE_UPDATED :: string where "EVENT_DM_MESSAGE_UPDATED = ''dm:message:updated''"
definition EVENT_DM_MESSAGE_DELETED :: string where "EVENT_DM_MESSAGE_DELETED = ''dm:message:deleted''"
definition EVENT_DM_CREATED :: string where "EVENT_DM_CREATED = ''dm:created''"
definition EVENT_FEDERATION_PEER_STATUS :: string where "EVENT_FEDERATION_PEER_STATUS = ''federation:peer-status''"
definition EVENT_FEDERATION_LAMPORT :: string where "EVENT_FEDERATION_LAMPORT = ''federation:lamport''"
definition EVENT_FEDERATION_LATENCY :: string where "EVENT_FEDERATION_LATENCY = ''federation:latency''"
definition ACTION_CHANNEL_READ :: string where "ACTION_CHANNEL_READ = ''channel:mark-read''"
definition EVENT_CHANNEL_READ :: string where "EVENT_CHANNEL_READ = ''channel:read''"
definition ACTION_SYNC_INIT :: string where "ACTION_SYNC_INIT = ''sync:init''"
definition ACTION_MESSAGE_LIST :: string where "ACTION_MESSAGE_LIST = ''messages:list''"
definition ACTION_THREAD_LIST :: string where "ACTION_THREAD_LIST = ''threads:list''"
definition ACTION_THREAD_MESSAGES :: string where "ACTION_THREAD_MESSAGES = ''threads:messages''"
definition ACTION_DM_LIST :: string where "ACTION_DM_LIST = ''dms:list''"
definition ACTION_DM_MESSAGES :: string where "ACTION_DM_MESSAGES = ''dms:messages''"

lemmas event_names = 
  EVENT_MESSAGE_SEND_def EVENT_MESSAGE_EDIT_def EVENT_MESSAGE_DELETE_def EVENT_TYPING_START_def
  EVENT_TYPING_STOP_def EVENT_PRESENCE_UPDATE_def EVENT_CHANNEL_JOIN_def EVENT_CHANNEL_LEAVE_def
  EVENT_THREAD_MESSAGE_SEND_def EVENT_THREAD_MESSAGE_EDIT_def EVENT_THREAD_MESSAGE_REMOVE_def EVENT_VOICE_JOIN_def
  EVENT_VOICE_JOIN_DENIED_def EVENT_VOICE_LEAVE_def EVENT_VOICE_ANSWER_def EVENT_VOICE_ICE_CANDIDATE_def
  EVENT_VOICE_INVITE_def EVENT_VOICE_MUTE_def EVENT_VOICE_DEAFEN_def EVENT_VOICE_FORCE_MUTE_def
  EVENT_VOICE_FORCE_DISCONNECT_def EVENT_VOICE_LATENCY_def EVENT_VOICE_LATENCY_UPDATE_def EVENT_VOICE_SCREEN_START_def
  EVENT_VOICE_SCREEN_STOP_def EVENT_VOICE_WEBCAM_START_def EVENT_VOICE_WEBCAM_STOP_def EVENT_VOICE_KEY_DISTRIBUTE_def
  EVENT_CHANNEL_KEY_DISTRIBUTE_def EVENT_REQUEST_def EVENT_PING_def EVENT_REACTION_ADD_def
  EVENT_REACTION_REMOVE_def EVENT_TELEMETRY_ERROR_def EVENT_TELEMETRY_BREADCRUMB_def EVENT_DM_MESSAGE_SEND_def
  EVENT_DM_MESSAGE_EDIT_def EVENT_DM_MESSAGE_DELETE_def EVENT_DM_TYPING_START_def EVENT_DM_TYPING_STOP_def
  EVENT_MESSAGE_NEW_def EVENT_MESSAGE_UPDATED_def EVENT_MESSAGE_DELETED_def EVENT_TYPING_INDICATOR_def
  EVENT_PRESENCE_CHANGED_def EVENT_PONG_def EVENT_MEMBER_JOINED_def EVENT_MEMBER_LEFT_def
  EVENT_CHANNEL_CREATED_def EVENT_CHANNEL_UPDATED_def EVENT_CHANNEL_DELETED_def EVENT_ERROR_def
  EVENT_THREAD_MESSAGE_NEW_def EVENT_THREAD_MESSAGE_UPDATED_def EVENT_THREAD_MESSAGE_DELETED_def EVENT_THREAD_UPDATED_def
  EVENT_THREAD_CREATED_def EVENT_REACTION_ADDED_def EVENT_REACTION_REMOVED_def EVENT_VOICE_INCOMING_CALL_def
  EVENT_VOICE_OFFER_def EVENT_VOICE_USER_JOINED_def EVENT_VOICE_USER_LEFT_def EVENT_VOICE_STATE_def
  EVENT_VOICE_ROOMS_SNAPSHOT_def EVENT_VOICE_MUTE_UPDATE_def EVENT_VOICE_SCREEN_UPDATE_def EVENT_VOICE_WEBCAM_UPDATE_def
  EVENT_VOICE_ICE_OUT_def EVENT_VOICE_SPEAKING_def EVENT_DM_MESSAGE_NEW_def EVENT_DM_MESSAGE_UPDATED_def
  EVENT_DM_MESSAGE_DELETED_def EVENT_DM_CREATED_def EVENT_FEDERATION_PEER_STATUS_def EVENT_FEDERATION_LAMPORT_def
  EVENT_FEDERATION_LATENCY_def ACTION_CHANNEL_READ_def EVENT_CHANNEL_READ_def ACTION_SYNC_INIT_def
  ACTION_MESSAGE_LIST_def ACTION_THREAD_LIST_def ACTION_THREAD_MESSAGES_def ACTION_DM_LIST_def
  ACTION_DM_MESSAGES_def

subsection \<open>Decoding\<close>

text \<open>The members of a struct value: an object, or an array that lists the fields in order.\<close>

fun fields_of :: "string list \<Rightarrow> json \<Rightarrow> (string \<times> json) list option" where
  "fields_of names (JObj kvs) = Some kvs"
| "fields_of names (JArr xs) = (if length xs \<le> length names then Some (zip names xs) else None)"
| "fields_of names _ = None"

definition field_str :: "(string \<times> json) list \<Rightarrow> string \<Rightarrow> string option" where
  "field_str kvs k = (case map_of kvs k of Some (JStr s) \<Rightarrow> Some s | _ \<Rightarrow> None)"

text \<open>\<open>#[serde(default)]\<close> on a \<open>String\<close>, an \<open>Option<String>\<close>, a \<open>Vec<String>\<close> and a \<open>Value\<close>.\<close>

definition field_str_default :: "(string \<times> json) list \<Rightarrow> string \<Rightarrow> string option" where
  "field_str_default kvs k = (case map_of kvs k of None \<Rightarrow> Some [] | Some (JStr s) \<Rightarrow> Some s | _ \<Rightarrow> None)"

definition field_opt_str :: "(string \<times> json) list \<Rightarrow> string \<Rightarrow> string option option" where
  "field_opt_str kvs k = (case map_of kvs k of None \<Rightarrow> Some None | Some JNull \<Rightarrow> Some None
     | Some (JStr s) \<Rightarrow> Some (Some s) | _ \<Rightarrow> None)"

definition field_strs_default :: "(string \<times> json) list \<Rightarrow> string \<Rightarrow> string list option" where
  "field_strs_default kvs k = (case map_of kvs k of None \<Rightarrow> Some []
     | Some (JArr xs) \<Rightarrow> those (map json_as_str xs) | _ \<Rightarrow> None)"

definition field_value_default :: "(string \<times> json) list \<Rightarrow> string \<Rightarrow> json option" where
  "field_value_default kvs k = (case map_of kvs k of None \<Rightarrow> Some JNull | Some v \<Rightarrow> Some v)"

definition field_bool :: "(string \<times> json) list \<Rightarrow> string \<Rightarrow> bool option" where
  "field_bool kvs k = (case map_of kvs k of Some (JBool b) \<Rightarrow> Some b | _ \<Rightarrow> None)"

definition field_int :: "int \<Rightarrow> int \<Rightarrow> (string \<times> json) list \<Rightarrow> string \<Rightarrow> int option" where
  "field_int lo hi kvs k = (case map_of kvs k of
     Some (JNum n) \<Rightarrow> if lo \<le> n \<and> n \<le> hi then Some n else None | _ \<Rightarrow> None)"

definition field_strmap :: "(string \<times> json) list \<Rightarrow> string \<Rightarrow> (string \<times> string) list option" where
  "field_strmap kvs k = (case map_of kvs k of
     Some (JObj ms) \<Rightarrow> those (map (\<lambda>(i, v). map_option (Pair i) (json_as_str v)) ms) | _ \<Rightarrow> None)"

subsection \<open>Inbound payloads\<close>

record message_send_payload =
  ms_channel_id :: string
  ms_content :: string
  ms_msg_type :: string
  ms_thread_id :: "string option"
  ms_attachment_ids :: "string list"
  ms_reply_to_message_id :: "string option"

definition parse_message_send_payload :: "json \<Rightarrow> message_send_payload option" where
  "parse_message_send_payload v = Option.bind (fields_of [''channel_id'', ''content'', ''type'', ''thread_id'', ''attachment_ids'', ''reply_to_message_id''] v) (\<lambda>kvs.
     Option.bind (field_str kvs ''channel_id'') (\<lambda>x0.
     Option.bind (field_str kvs ''content'') (\<lambda>x1.
     Option.bind (field_str_default kvs ''type'') (\<lambda>x2.
     Option.bind (field_opt_str kvs ''thread_id'') (\<lambda>x3.
     Option.bind (field_strs_default kvs ''attachment_ids'') (\<lambda>x4.
     Option.bind (field_opt_str kvs ''reply_to_message_id'') (\<lambda>x5.
     Some \<lparr>ms_channel_id = x0, ms_content = x1, ms_msg_type = x2, ms_thread_id = x3, ms_attachment_ids = x4, ms_reply_to_message_id = x5\<rparr>)))))))"

record message_edit_payload =
  me_message_id :: string
  me_channel_id :: string
  me_content :: string

definition parse_message_edit_payload :: "json \<Rightarrow> message_edit_payload option" where
  "parse_message_edit_payload v = Option.bind (fields_of [''message_id'', ''channel_id'', ''content''] v) (\<lambda>kvs.
     Option.bind (field_str kvs ''message_id'') (\<lambda>x0.
     Option.bind (field_str kvs ''channel_id'') (\<lambda>x1.
     Option.bind (field_str kvs ''content'') (\<lambda>x2.
     Some \<lparr>me_message_id = x0, me_channel_id = x1, me_content = x2\<rparr>))))"

record message_delete_payload =
  md_message_id :: string
  md_channel_id :: string

definition parse_message_delete_payload :: "json \<Rightarrow> message_delete_payload option" where
  "parse_message_delete_payload v = Option.bind (fields_of [''message_id'', ''channel_id''] v) (\<lambda>kvs.
     Option.bind (field_str kvs ''message_id'') (\<lambda>x0.
     Option.bind (field_str kvs ''channel_id'') (\<lambda>x1.
     Some \<lparr>md_message_id = x0, md_channel_id = x1\<rparr>)))"

record presence_update_payload =
  pu_user_id :: string
  pu_status_type :: string
  pu_status_text :: string

definition parse_presence_update_payload :: "json \<Rightarrow> presence_update_payload option" where
  "parse_presence_update_payload v = Option.bind (fields_of [''user_id'', ''status_type'', ''status_text''] v) (\<lambda>kvs.
     Option.bind (field_str kvs ''user_id'') (\<lambda>x0.
     Option.bind (field_str kvs ''status_type'') (\<lambda>x1.
     Option.bind (field_str kvs ''status_text'') (\<lambda>x2.
     Some \<lparr>pu_user_id = x0, pu_status_type = x1, pu_status_text = x2\<rparr>))))"

record channel_join_payload =
  cj_channel_id :: string

definition parse_channel_join_payload :: "json \<Rightarrow> channel_join_payload option" where
  "parse_channel_join_payload v = Option.bind (fields_of [''channel_id''] v) (\<lambda>kvs.
     Option.bind (field_str kvs ''channel_id'') (\<lambda>x0.
     Some \<lparr>cj_channel_id = x0\<rparr>))"

record voice_join_payload =
  vj_channel_id :: string

definition parse_voice_join_payload :: "json \<Rightarrow> voice_join_payload option" where
  "parse_voice_join_payload v = Option.bind (fields_of [''channel_id''] v) (\<lambda>kvs.
     Option.bind (field_str kvs ''channel_id'') (\<lambda>x0.
     Some \<lparr>vj_channel_id = x0\<rparr>))"

record voice_invite_payload =
  vi_target_user_id :: string
  vi_channel_id :: string

definition parse_voice_invite_payload :: "json \<Rightarrow> voice_invite_payload option" where
  "parse_voice_invite_payload v = Option.bind (fields_of [''target_user_id'', ''channel_id''] v) (\<lambda>kvs.
     Option.bind (field_str kvs ''target_user_id'') (\<lambda>x0.
     Option.bind (field_str kvs ''channel_id'') (\<lambda>x1.
     Some \<lparr>vi_target_user_id = x0, vi_channel_id = x1\<rparr>)))"

record voice_answer_payload =
  va_channel_id :: string
  va_sdp :: string

definition parse_voice_answer_payload :: "json \<Rightarrow> voice_answer_payload option" where
  "parse_voice_answer_payload v = Option.bind (fields_of [''channel_id'', ''sdp''] v) (\<lambda>kvs.
     Option.bind (field_str kvs ''channel_id'') (\<lambda>x0.
     Option.bind (field_str kvs ''sdp'') (\<lambda>x1.
     Some \<lparr>va_channel_id = x0, va_sdp = x1\<rparr>)))"

record voice_ice_candidate_payload =
  vic_channel_id :: string
  vic_candidate :: string
  vic_sdp_mid :: string
  vic_sdp_mline_index :: int

definition parse_voice_ice_candidate_payload :: "json \<Rightarrow> voice_ice_candidate_payload option" where
  "parse_voice_ice_candidate_payload v = Option.bind (fields_of [''channel_id'', ''candidate'', ''sdp_mid'', ''sdp_mline_index''] v) (\<lambda>kvs.
     Option.bind (field_str kvs ''channel_id'') (\<lambda>x0.
     Option.bind (field_str kvs ''candidate'') (\<lambda>x1.
     Option.bind (field_str_default kvs ''sdp_mid'') (\<lambda>x2.
     Option.bind ((if map_of kvs ''sdp_mline_index'' = None then Some 0 else field_int 0 (2 ^ 16 - 1) kvs ''sdp_mline_index'')) (\<lambda>x3.
     Some \<lparr>vic_channel_id = x0, vic_candidate = x1, vic_sdp_mid = x2, vic_sdp_mline_index = x3\<rparr>)))))"

record voice_mute_payload =
  vm_channel_id :: string
  vm_muted :: bool

definition parse_voice_mute_payload :: "json \<Rightarrow> voice_mute_payload option" where
  "parse_voice_mute_payload v = Option.bind (fields_of [''channel_id'', ''muted''] v) (\<lambda>kvs.
     Option.bind (field_str kvs ''channel_id'') (\<lambda>x0.
     Option.bind (field_bool kvs ''muted'') (\<lambda>x1.
     Some \<lparr>vm_channel_id = x0, vm_muted = x1\<rparr>)))"

record voice_force_mute_payload =
  vfm_channel_id :: string
  vfm_target_user_id :: string

definition parse_voice_force_mute_payload :: "json \<Rightarrow> voice_force_mute_payload option" where
  "parse_voice_force_mute_payload v = Option.bind (fields_of [''channel_id'', ''target_user_id''] v) (\<lambda>kvs.
     Option.bind (field_str kvs ''channel_id'') (\<lambda>x0.
     Option.bind (field_str kvs ''target_user_id'') (\<lambda>x1.
     Some \<lparr>vfm_channel_id = x0, vfm_target_user_id = x1\<rparr>)))"

record voice_force_disconnect_payload =
  vfd_channel_id :: string
  vfd_target_user_id :: string

definition parse_voice_force_disconnect_payload :: "json \<Rightarrow> voice_force_disconnect_payload option" where
  "parse_voice_force_disconnect_payload v = Option.bind (fields_of [''channel_id'', ''target_user_id''] v) (\<lambda>kvs.
     Option.bind (field_str kvs ''channel_id'') (\<lambda>x0.
     Option.bind (field_str kvs ''target_user_id'') (\<lambda>x1.
     Some \<lparr>vfd_channel_id = x0, vfd_target_user_id = x1\<rparr>)))"

record voice_latency_payload =
  vl_channel_id :: string
  vl_latency_ms :: int

definition parse_voice_latency_payload :: "json \<Rightarrow> voice_latency_payload option" where
  "parse_voice_latency_payload v = Option.bind (fields_of [''channel_id'', ''latency_ms''] v) (\<lambda>kvs.
     Option.bind (field_str kvs ''channel_id'') (\<lambda>x0.
     Option.bind (field_int 0 (2 ^ 32 - 1) kvs ''latency_ms'') (\<lambda>x1.
     Some \<lparr>vl_channel_id = x0, vl_latency_ms = x1\<rparr>)))"

record voice_deafen_payload =
  vd_channel_id :: string
  vd_deafened :: bool

definition parse_voice_deafen_payload :: "json \<Rightarrow> voice_deafen_payload option" where
  "parse_voice_deafen_payload v = Option.bind (fields_of [''channel_id'', ''deafened''] v) (\<lambda>kvs.
     Option.bind (field_str kvs ''channel_id'') (\<lambda>x0.
     Option.bind (field_bool kvs ''deafened'') (\<lambda>x1.
     Some \<lparr>vd_channel_id = x0, vd_deafened = x1\<rparr>)))"

record voice_key_distribute_payload =
  vk_channel_id :: string
  vk_sender_id :: string
  vk_key_id :: int
  vk_encrypted_keys :: "(string \<times> string) list"

definition parse_voice_key_distribute_payload :: "json \<Rightarrow> voice_key_distribute_payload option" where
  "parse_voice_key_distribute_payload v = Option.bind (fields_of [''channel_id'', ''sender_id'', ''key_id'', ''encrypted_keys''] v) (\<lambda>kvs.
     Option.bind (field_str kvs ''channel_id'') (\<lambda>x0.
     Option.bind (field_str_default kvs ''sender_id'') (\<lambda>x1.
     Option.bind (field_int 0 (2 ^ 32 - 1) kvs ''key_id'') (\<lambda>x2.
     Option.bind (field_strmap kvs ''encrypted_keys'') (\<lambda>x3.
     Some \<lparr>vk_channel_id = x0, vk_sender_id = x1, vk_key_id = x2, vk_encrypted_keys = x3\<rparr>)))))"

record channel_key_distribute_payload =
  ck_channel_id :: string
  ck_sender_id :: string
  ck_distribution :: string

definition parse_channel_key_distribute_payload :: "json \<Rightarrow> channel_key_distribute_payload option" where
  "parse_channel_key_distribute_payload v = Option.bind (fields_of [''channel_id'', ''sender_id'', ''distribution''] v) (\<lambda>kvs.
     Option.bind (field_str kvs ''channel_id'') (\<lambda>x0.
     Option.bind (field_str_default kvs ''sender_id'') (\<lambda>x1.
     Option.bind (field_str kvs ''distribution'') (\<lambda>x2.
     Some \<lparr>ck_channel_id = x0, ck_sender_id = x1, ck_distribution = x2\<rparr>))))"

record reaction_payload =
  rx_message_id :: string
  rx_channel_id :: string
  rx_emoji :: string

definition parse_reaction_payload :: "json \<Rightarrow> reaction_payload option" where
  "parse_reaction_payload v = Option.bind (fields_of [''message_id'', ''channel_id'', ''emoji''] v) (\<lambda>kvs.
     Option.bind (field_str kvs ''message_id'') (\<lambda>x0.
     Option.bind (field_str kvs ''channel_id'') (\<lambda>x1.
     Option.bind (field_str kvs ''emoji'') (\<lambda>x2.
     Some \<lparr>rx_message_id = x0, rx_channel_id = x1, rx_emoji = x2\<rparr>))))"

record thread_message_send_payload =
  ts_thread_id :: string
  ts_content :: string
  ts_nonce :: string

definition parse_thread_message_send_payload :: "json \<Rightarrow> thread_message_send_payload option" where
  "parse_thread_message_send_payload v = Option.bind (fields_of [''thread_id'', ''content'', ''nonce''] v) (\<lambda>kvs.
     Option.bind (field_str kvs ''thread_id'') (\<lambda>x0.
     Option.bind (field_str kvs ''content'') (\<lambda>x1.
     Option.bind (field_str_default kvs ''nonce'') (\<lambda>x2.
     Some \<lparr>ts_thread_id = x0, ts_content = x1, ts_nonce = x2\<rparr>))))"

record thread_message_edit_payload =
  te_thread_id :: string
  te_message_id :: string
  te_content :: string

definition parse_thread_message_edit_payload :: "json \<Rightarrow> thread_message_edit_payload option" where
  "parse_thread_message_edit_payload v = Option.bind (fields_of [''thread_id'', ''message_id'', ''content''] v) (\<lambda>kvs.
     Option.bind (field_str kvs ''thread_id'') (\<lambda>x0.
     Option.bind (field_str kvs ''message_id'') (\<lambda>x1.
     Option.bind (field_str kvs ''content'') (\<lambda>x2.
     Some \<lparr>te_thread_id = x0, te_message_id = x1, te_content = x2\<rparr>))))"

record thread_message_remove_payload =
  tr_thread_id :: string
  tr_message_id :: string

definition parse_thread_message_remove_payload :: "json \<Rightarrow> thread_message_remove_payload option" where
  "parse_thread_message_remove_payload v = Option.bind (fields_of [''thread_id'', ''message_id''] v) (\<lambda>kvs.
     Option.bind (field_str kvs ''thread_id'') (\<lambda>x0.
     Option.bind (field_str kvs ''message_id'') (\<lambda>x1.
     Some \<lparr>tr_thread_id = x0, tr_message_id = x1\<rparr>)))"

record voice_screen_payload =
  vs_channel_id :: string

definition parse_voice_screen_payload :: "json \<Rightarrow> voice_screen_payload option" where
  "parse_voice_screen_payload v = Option.bind (fields_of [''channel_id''] v) (\<lambda>kvs.
     Option.bind (field_str kvs ''channel_id'') (\<lambda>x0.
     Some \<lparr>vs_channel_id = x0\<rparr>))"

record dm_message_send_payload =
  ds_dm_channel_id :: string
  ds_content :: string
  ds_msg_type :: string

definition parse_dm_message_send_payload :: "json \<Rightarrow> dm_message_send_payload option" where
  "parse_dm_message_send_payload v = Option.bind (fields_of [''dm_channel_id'', ''content'', ''type''] v) (\<lambda>kvs.
     Option.bind (field_str kvs ''dm_channel_id'') (\<lambda>x0.
     Option.bind (field_str kvs ''content'') (\<lambda>x1.
     Option.bind (field_str_default kvs ''type'') (\<lambda>x2.
     Some \<lparr>ds_dm_channel_id = x0, ds_content = x1, ds_msg_type = x2\<rparr>))))"

record dm_message_edit_payload =
  de_dm_channel_id :: string
  de_message_id :: string
  de_content :: string

definition parse_dm_message_edit_payload :: "json \<Rightarrow> dm_message_edit_payload option" where
  "parse_dm_message_edit_payload v = Option.bind (fields_of [''dm_channel_id'', ''message_id'', ''content''] v) (\<lambda>kvs.
     Option.bind (field_str kvs ''dm_channel_id'') (\<lambda>x0.
     Option.bind (field_str kvs ''message_id'') (\<lambda>x1.
     Option.bind (field_str kvs ''content'') (\<lambda>x2.
     Some \<lparr>de_dm_channel_id = x0, de_message_id = x1, de_content = x2\<rparr>))))"

record dm_message_delete_payload =
  dd_dm_channel_id :: string
  dd_message_id :: string

definition parse_dm_message_delete_payload :: "json \<Rightarrow> dm_message_delete_payload option" where
  "parse_dm_message_delete_payload v = Option.bind (fields_of [''dm_channel_id'', ''message_id''] v) (\<lambda>kvs.
     Option.bind (field_str kvs ''dm_channel_id'') (\<lambda>x0.
     Option.bind (field_str kvs ''message_id'') (\<lambda>x1.
     Some \<lparr>dd_dm_channel_id = x0, dd_message_id = x1\<rparr>)))"

record dm_typing_payload =
  dt_dm_channel_id :: string

definition parse_dm_typing_payload :: "json \<Rightarrow> dm_typing_payload option" where
  "parse_dm_typing_payload v = Option.bind (fields_of [''dm_channel_id''] v) (\<lambda>kvs.
     Option.bind (field_str kvs ''dm_channel_id'') (\<lambda>x0.
     Some \<lparr>dt_dm_channel_id = x0\<rparr>))"

record channel_mark_read_payload =
  cm_channel_id :: string
  cm_message_id :: string

definition parse_channel_mark_read_payload :: "json \<Rightarrow> channel_mark_read_payload option" where
  "parse_channel_mark_read_payload v = Option.bind (fields_of [''channel_id'', ''message_id''] v) (\<lambda>kvs.
     Option.bind (field_str kvs ''channel_id'') (\<lambda>x0.
     Option.bind (field_str kvs ''message_id'') (\<lambda>x1.
     Some \<lparr>cm_channel_id = x0, cm_message_id = x1\<rparr>)))"

record request_event =
  rq_id :: string
  rq_action :: string
  rq_payload :: json

definition parse_request_event :: "json \<Rightarrow> request_event option" where
  "parse_request_event v = Option.bind (fields_of [''id'', ''action'', ''payload''] v) (\<lambda>kvs.
     Option.bind (field_str kvs ''id'') (\<lambda>x0.
     Option.bind (field_str kvs ''action'') (\<lambda>x1.
     Option.bind (field_value_default kvs ''payload'') (\<lambda>x2.
     Some \<lparr>rq_id = x0, rq_action = x1, rq_payload = x2\<rparr>))))"

subsection \<open>Outbound payloads\<close>

definition attachment_payload_json :: "string \<Rightarrow> string \<Rightarrow> string \<Rightarrow> int \<Rightarrow> string \<Rightarrow> json" where
  "attachment_payload_json x0 x1 x2 x3 x4 =
     JObj [(''id'', JStr x0), (''filename'', JStr x1), (''content_type'', JStr x2),
       (''size'', JNum x3), (''url'', JStr x4)]"

definition message_new_payload_json :: "string \<Rightarrow> string \<Rightarrow> string \<Rightarrow> string \<Rightarrow> string \<Rightarrow> string \<Rightarrow> string \<Rightarrow> (string option) \<Rightarrow> string \<Rightarrow> (json list) \<Rightarrow> json" where
  "message_new_payload_json x0 x1 x2 x3 x4 x5 x6 x7 x8 x9 =
     JObj ([(''id'', JStr x0), (''channel_id'', JStr x1), (''author_id'', JStr x2),
       (''username'', JStr x3), (''content'', JStr x4), (''type'', JStr x5),
       (''thread_id'', JStr x6)] @ (case x7 of None \<Rightarrow> [] | Some s
       \<Rightarrow> [(''reply_to_message_id'', JStr s)]) @ [(''created_at'', JStr x8),
       (''attachments'', JArr x9)])"

definition typing_payload_json :: "string \<Rightarrow> string \<Rightarrow> string \<Rightarrow> json" where
  "typing_payload_json x0 x1 x2 =
     JObj [(''channel_id'', JStr x0), (''user_id'', JStr x1), (''username'', JStr x2)]"

definition presence_update_payload_json :: "string \<Rightarrow> string \<Rightarrow> string \<Rightarrow> json" where
  "presence_update_payload_json x0 x1 x2 =
     JObj [(''user_id'', JStr x0), (''status_type'', JStr x1), (''status_text'', JStr x2)]"

definition message_edit_payload_json :: "string \<Rightarrow> string \<Rightarrow> string \<Rightarrow> json" where
  "message_edit_payload_json x0 x1 x2 =
     JObj [(''message_id'', JStr x0), (''channel_id'', JStr x1), (''content'', JStr x2)]"

definition message_delete_payload_json :: "string \<Rightarrow> string \<Rightarrow> json" where
  "message_delete_payload_json x0 x1 =
     JObj [(''message_id'', JStr x0), (''channel_id'', JStr x1)]"

definition voice_incoming_call_payload_json :: "string \<Rightarrow> string \<Rightarrow> string \<Rightarrow> string \<Rightarrow> json" where
  "voice_incoming_call_payload_json x0 x1 x2 x3 =
     JObj [(''caller_user_id'', JStr x0), (''caller_username'', JStr x1), (''channel_id'',
       JStr x2), (''channel_name'', JStr x3)]"

definition voice_latency_update_payload_json :: "string \<Rightarrow> string \<Rightarrow> int \<Rightarrow> json" where
  "voice_latency_update_payload_json x0 x1 x2 =
     JObj [(''channel_id'', JStr x0), (''user_id'', JStr x1), (''latency_ms'', JNum x2)]"

definition voice_user_joined_payload_json :: "string \<Rightarrow> string \<Rightarrow> string \<Rightarrow> json" where
  "voice_user_joined_payload_json x0 x1 x2 =
     JObj [(''channel_id'', JStr x0), (''user_id'', JStr x1), (''username'', JStr x2)]"

definition voice_user_left_payload_json :: "string \<Rightarrow> string \<Rightarrow> json" where
  "voice_user_left_payload_json x0 x1 =
     JObj [(''channel_id'', JStr x0), (''user_id'', JStr x1)]"

definition voice_key_distribute_payload_json :: "string \<Rightarrow> string \<Rightarrow> int \<Rightarrow> ((string \<times> string) list) \<Rightarrow> json" where
  "voice_key_distribute_payload_json x0 x1 x2 x3 =
     JObj [(''channel_id'', JStr x0), (''sender_id'', JStr x1), (''key_id'', JNum x2),
       (''encrypted_keys'', JObj (map (\<lambda>(i, s). (i, JStr s)) x3))]"

definition channel_key_distribute_payload_json :: "string \<Rightarrow> string \<Rightarrow> string \<Rightarrow> json" where
  "channel_key_distribute_payload_json x0 x1 x2 =
     JObj [(''channel_id'', JStr x0), (''sender_id'', JStr x1), (''distribution'', JStr
       x2)]"

definition reaction_event_payload_json :: "string \<Rightarrow> string \<Rightarrow> string \<Rightarrow> string \<Rightarrow> json" where
  "reaction_event_payload_json x0 x1 x2 x3 =
     JObj [(''message_id'', JStr x0), (''channel_id'', JStr x1), (''user_id'', JStr x2),
       (''emoji'', JStr x3)]"

definition dm_message_new_payload_json :: "string \<Rightarrow> string \<Rightarrow> string \<Rightarrow> string \<Rightarrow> string \<Rightarrow> string \<Rightarrow> string \<Rightarrow> json" where
  "dm_message_new_payload_json x0 x1 x2 x3 x4 x5 x6 =
     JObj [(''id'', JStr x0), (''dm_channel_id'', JStr x1), (''author_id'', JStr x2),
       (''username'', JStr x3), (''content'', JStr x4), (''type'', JStr x5),
       (''created_at'', JStr x6)]"

definition thread_message_new_payload_json :: "string \<Rightarrow> string \<Rightarrow> string \<Rightarrow> string \<Rightarrow> string \<Rightarrow> string \<Rightarrow> string \<Rightarrow> json" where
  "thread_message_new_payload_json x0 x1 x2 x3 x4 x5 x6 =
     JObj [(''id'', JStr x0), (''thread_id'', JStr x1), (''channel_id'', JStr x2),
       (''author_id'', JStr x3), (''content'', JStr x4), (''type'', JStr x5),
       (''created_at'', JStr x6)]"

definition thread_updated_payload_json :: "string \<Rightarrow> string \<Rightarrow> int \<Rightarrow> string \<Rightarrow> json" where
  "thread_updated_payload_json x0 x1 x2 x3 =
     JObj [(''id'', JStr x0), (''title'', JStr x1), (''message_count'', JNum x2),
       (''last_message_at'', JStr x3)]"

definition thread_message_updated_payload_json :: "string \<Rightarrow> string \<Rightarrow> string \<Rightarrow> string \<Rightarrow> json" where
  "thread_message_updated_payload_json x0 x1 x2 x3 =
     JObj [(''id'', JStr x0), (''thread_id'', JStr x1), (''content'', JStr x2),
       (''edited_at'', JStr x3)]"

definition thread_message_deleted_payload_json :: "string \<Rightarrow> string \<Rightarrow> json" where
  "thread_message_deleted_payload_json x0 x1 =
     JObj [(''id'', JStr x0), (''thread_id'', JStr x1)]"

definition voice_screen_update_payload_json :: "string \<Rightarrow> string \<Rightarrow> bool \<Rightarrow> json" where
  "voice_screen_update_payload_json x0 x1 x2 =
     JObj [(''channel_id'', JStr x0), (''user_id'', JStr x1), (''sharing'', JBool x2)]"

definition voice_webcam_update_payload_json :: "string \<Rightarrow> string \<Rightarrow> bool \<Rightarrow> json" where
  "voice_webcam_update_payload_json x0 x1 x2 =
     JObj [(''channel_id'', JStr x0), (''user_id'', JStr x1), (''sharing'', JBool x2)]"

definition voice_mute_update_payload_json :: "string \<Rightarrow> string \<Rightarrow> bool \<Rightarrow> bool \<Rightarrow> json" where
  "voice_mute_update_payload_json x0 x1 x2 x3 =
     JObj [(''channel_id'', JStr x0), (''user_id'', JStr x1), (''muted'', JBool x2),
       (''deafened'', JBool x3)]"

definition voice_offer_payload_json :: "string \<Rightarrow> string \<Rightarrow> json" where
  "voice_offer_payload_json x0 x1 =
     JObj [(''channel_id'', JStr x0), (''sdp'', JStr x1)]"

text \<open>\<open>Event::new\<close>: serialising these payloads cannot fail.\<close>

definition event_new :: "string \<Rightarrow> json \<Rightarrow> event" where
  "event_new ty payload = \<lparr>ev_type = ty, ev_payload = payload\<rparr>"

end
