(* ===== verification/Ws_Messages.thy ===== *)
theory Ws_Messages
  imports Policy Events Voice_Room
begin

section \<open>WebSocket session: channel, message and typing events\<close>

text \<open>
  \<open>ws/handlers/message.rs\<close> and the channel part of \<open>ws/client.rs\<close>. A handler reads the hub's maps
  (\<open>hub\<close>, a snapshot) and changes the \<open>world\<close>: the database, the voice rooms, the messages it puts on
  the hub's queues (in order) and the calls it makes to the SFU. A join error of \<open>spawn_blocking\<close> (a
  panic of the closure) has no branch of its own: the code treats it like the error it falls back to.

  Parameters: \<open>new_id\<close>, \<open>audit_id\<close> and \<open>now\<close> are what \<open>db::new_id\<close> and the clock return for the call,
  \<open>epoch\<close> is SQLite's \<open>strftime('%s', _)\<close> on a stored timestamp, \<open>now_ts\<close> its value for the present.
\<close>

subsection \<open>The world of a handler\<close>

datatype sfu_call =
    SfuJoin string string
  | SfuLeave string string
  | SfuAnswer string string string
  | SfuIce string string string string int
  | SfuAddScreen string string
  | SfuRemoveScreen string string
  | SfuAddWebcam string string
  | SfuRemoveWebcam string string
  | SfuRenegotiate string

record world =
  w_conn :: conn
  w_rooms :: "room_mgr option"
  w_out :: "hub_msg list"
  w_sfu :: "sfu_call list"

definition send :: "hub_msg \<Rightarrow> world \<Rightarrow> world" where
  "send m w = w\<lparr>w_out := w_out w @ [m]\<rparr>"

definition broadcast_to_channel :: "string \<Rightarrow> event \<Rightarrow> string option \<Rightarrow> world \<Rightarrow> world" where
  "broadcast_to_channel ch ev ex = send (ChannelMsg ch ev ex)"

definition send_to_user :: "string \<Rightarrow> event \<Rightarrow> world \<Rightarrow> world" where
  "send_to_user uid ev = send (DirectMsg uid ev)"

definition broadcast_to_all :: "event \<Rightarrow> world \<Rightarrow> world" where
  "broadcast_to_all ev = send (BroadcastAll ev)"

definition emit :: "hub_event \<Rightarrow> world \<Rightarrow> world" where
  "emit e = send (EmitEvent e)"

lemma send_sel [simp]:
  "w_conn (send m w) = w_conn w" "w_rooms (send m w) = w_rooms w"
  "w_sfu (send m w) = w_sfu w" "w_out (send m w) = w_out w @ [m]"
  by (simp_all add: send_def)

lemmas send_defs = broadcast_to_channel_def send_to_user_def broadcast_to_all_def emit_def

subsection \<open>Subscribing\<close>

definition MAX_SUBSCRIPTIONS_PER_CLIENT :: nat where "MAX_SUBSCRIPTIONS_PER_CLIENT = 200"

definition user_can_subscribe_to_channel :: "conn \<Rightarrow> string \<Rightarrow> string \<Rightarrow> string \<Rightarrow> bool" where
  "user_can_subscribe_to_channel c uid tid cid = is_allowed (can_subscribe_channel c uid tid cid)"

definition handle_channel_event ::
  "hub \<Rightarrow> string \<Rightarrow> string \<Rightarrow> string \<Rightarrow> string \<Rightarrow> json \<Rightarrow> world \<Rightarrow> world" where
  "handle_channel_event h client_id uid tid event_type payload w =
     (case parse_channel_join_payload payload of
        None \<Rightarrow> w
      | Some p \<Rightarrow>
          if event_type \<noteq> EVENT_CHANNEL_JOIN then send (Unsubscribe client_id (cj_channel_id p)) w
          else if \<not> user_can_subscribe_to_channel (w_conn w) uid tid (cj_channel_id p) then w
          else if client_subscription_count h client_id \<ge> MAX_SUBSCRIPTIONS_PER_CLIENT then w
          else send (Subscribe client_id (cj_channel_id p)) w)"

definition handle_presence_update :: "string \<Rightarrow> json \<Rightarrow> world \<Rightarrow> world" where
  "handle_presence_update uid payload w =
     (case parse_presence_update_payload payload of
        None \<Rightarrow> w
      | Some p \<Rightarrow> emit (PresenceUpdateEv uid (pu_status_type p) (pu_status_text p)) w)"

definition handle_ping :: "string \<Rightarrow> world \<Rightarrow> world" where
  "handle_ping uid w = send_to_user uid (event_new EVENT_PONG (JObj [])) w"

subsection \<open>Sending\<close>

definition check_channel_access :: "conn \<Rightarrow> string \<Rightarrow> string \<Rightarrow> string \<Rightarrow> bool" where
  "check_channel_access c cid tid uid =
     unwrap_or (bindE (get_channel_by_id c cid) (\<lambda>channel.
       if (case channel of Some ch \<Rightarrow> ch_team_id ch = tid | None \<Rightarrow> False)
       then user_can_access_channel c uid tid cid else Inr False)) False"

definition compute_slow_mode_block ::
  "(string \<Rightarrow> int option) \<Rightarrow> int \<Rightarrow> conn \<Rightarrow> string \<Rightarrow> string \<Rightarrow> string \<Rightarrow> int option" where
  "compute_slow_mode_block epoch now_ts c cid tid uid =
     (let secs = unwrap_or (query_row ''compute_slow_mode_block.secs'' c
            (map ch_slow_mode_seconds (rows_where (\<lambda>ch. ch_id ch = cid) (c_channels c)))) 0
      in if secs \<le> 0 then None
         else if unwrap_or (user_has_permission c uid tid PERM_BYPASS_SLOW_MODE) False then None
         else
           let last_ts = unwrap_or (bindE (query_row ''compute_slow_mode_block.last'' c
                 (rev (sort_key msg_created_at (rows_where (\<lambda>m. msg_channel_id m = cid \<and> cid \<noteq> []
                    \<and> msg_author_id m = uid \<and> \<not> msg_deleted m) (c_messages c)))))
                 (\<lambda>m. Inr (epoch (msg_created_at m)))) None;
               now = unwrap_or (stmt ''compute_slow_mode_block.now'' c now_ts) 0
           in (case last_ts of
                 Some prev \<Rightarrow> let remaining = secs - (now - prev)
                   in if remaining > 0 then Some remaining else None
               | None \<Rightarrow> None))"

definition send_slow_mode_rejection :: "string \<Rightarrow> string \<Rightarrow> int \<Rightarrow> world \<Rightarrow> world" where
  "send_slow_mode_rejection uid cid remaining =
     send_to_user uid (event_new ''message:rejected'' (JObj [(''channel_id'', JStr cid),
       (''reason'', JStr ''slow_mode''), (''retry_in'', JNum remaining)]))"

text \<open>The row is inserted, then each named attachment is pointed at it; there is no transaction.\<close>

definition persist_message_and_attachments :: "message \<Rightarrow> string list \<Rightarrow> conn \<Rightarrow> bool \<times> conn" where
  "persist_message_and_attachments m aids c =
     (case bindS (create_message m) (\<lambda>_. for_eachS (\<lambda>aid. exec ''persist_message_and_attachments.link'' (\<lambda>c.
         Some (c\<lparr>c_attachments := update_where (\<lambda>a. a_id a = aid) (\<lambda>a. a\<lparr>a_message_id := msg_id m\<rparr>)
           (c_attachments c)\<rparr>))) aids) c
      of (Inl e, c') \<Rightarrow> (False, c') | (Inr _, c') \<Rightarrow> (True, c'))"

text \<open>\<open>String::from_utf8_lossy\<close>: every maximal invalid prefix becomes one U+FFFD.\<close>

definition is_cont :: "u8 \<Rightarrow> bool" where
  "is_cont b \<longleftrightarrow> 0x80 \<le> b \<and> b \<le> 0xBF"

definition second_ok :: "u8 \<Rightarrow> u8 \<Rightarrow> bool" where
  "second_ok a b \<longleftrightarrow>
     (if a = 0xE0 then 0xA0 \<le> b \<and> b \<le> 0xBF
      else if a = 0xED then 0x80 \<le> b \<and> b \<le> 0x9F
      else if a = 0xF0 then 0x90 \<le> b \<and> b \<le> 0xBF
      else if a = 0xF4 then 0x80 \<le> b \<and> b \<le> 0x8F
      else is_cont b)"

definition utf8_width :: "u8 \<Rightarrow> nat" where
  "utf8_width b = (if b < 0x80 then 1 else if 0xC2 \<le> b \<and> b \<le> 0xDF then 2
     else if 0xE0 \<le> b \<and> b \<le> 0xEF then 3 else if 0xF0 \<le> b \<and> b \<le> 0xF4 then 4 else 0)"

text \<open>How many bytes the chunk at the front takes, and whether it is a character.\<close>

definition utf8_chunk :: "bytes \<Rightarrow> nat \<times> bool" where
  "utf8_chunk bs = (case bs of [] \<Rightarrow> (0, True) | a # r \<Rightarrow>
     let at = (\<lambda>i. if i < length r then r ! i else 0)
     in if utf8_width a = 1 then (1, True)
        else if utf8_width a = 2 then (if is_cont (at 0) then (2, True) else (1, False))
        else if utf8_width a = 3 then
          (if \<not> second_ok a (at 0) then (1, False)
           else if \<not> is_cont (at 1) then (2, False) else (3, True))
        else if utf8_width a = 4 then
          (if \<not> second_ok a (at 0) then (1, False)
           else if \<not> is_cont (at 1) then (2, False)
           else if \<not> is_cont (at 2) then (3, False) else (4, True))
        else (1, False))"

definition byte_char :: "u8 \<Rightarrow> char" where
  "byte_char b = char_of (unat b)"

lemma utf8_chunk_pos: "fst (utf8_chunk (b # bs)) > 0"
  by (simp add: utf8_chunk_def Let_def)

function from_utf8_lossy :: "bytes \<Rightarrow> string" where
  "from_utf8_lossy [] = []"
| "from_utf8_lossy (b # bs) =
     (let (n, ok) = utf8_chunk (b # bs)
      in (if ok then map byte_char (take n (b # bs)) else map byte_char [0xEF, 0xBF, 0xBD])
         @ from_utf8_lossy (drop n (b # bs)))"
  by pat_completeness auto

termination from_utf8_lossy
proof (relation "measure length")
  fix b :: u8 and bs x n ok
  assume "x = utf8_chunk (b # bs)" and "(n, ok) = x"
  then have "n > 0" using utf8_chunk_pos [of b bs] by (metis fst_conv)
  then show "(drop n (b # bs), b # bs) \<in> measure length" by simp
qed simp

definition attachment_json :: "string \<Rightarrow> attachment \<Rightarrow> json" where
  "attachment_json tid a = attachment_payload_json (a_id a) (from_utf8_lossy (a_filename a))
     (from_utf8_lossy (a_content_type a)) (a_size a)
     (''/api/v1/teams/'' @ tid @ ''/attachments/'' @ a_id a)"

definition handle_message_send ::
  "(string \<Rightarrow> int option) \<Rightarrow> int \<Rightarrow> string \<Rightarrow> string \<Rightarrow> string \<Rightarrow> string \<Rightarrow> string \<Rightarrow> json \<Rightarrow> world \<Rightarrow> world" where
  "handle_message_send epoch now_ts new_id now uid uname tid payload w =
     (case parse_message_send_payload payload of
        None \<Rightarrow> w
      | Some p \<Rightarrow>
          if \<not> check_channel_access (w_conn w) (ms_channel_id p) tid uid then w
          else (case compute_slow_mode_block epoch now_ts (w_conn w) (ms_channel_id p) tid uid of
            Some remaining \<Rightarrow> send_slow_mode_rejection uid (ms_channel_id p) remaining w
          | None \<Rightarrow>
              let msg_type = (if ms_msg_type p = [] then ''text'' else ms_msg_type p);
                  thread = (case ms_thread_id p of None \<Rightarrow> [] | Some t \<Rightarrow> t);
                  msg = \<lparr>msg_id = new_id, msg_channel_id = ms_channel_id p, msg_dm_channel_id = [],
                    msg_author_id = uid, msg_content = ms_content p, msg_type = msg_type,
                    msg_thread_id = thread, msg_reply_to = ms_reply_to_message_id p,
                    msg_edited_at = None, msg_deleted = False, msg_lamport_ts = 0, msg_created_at = now\<rparr>;
                  (ok, c') = persist_message_and_attachments msg (ms_attachment_ids p) (w_conn w);
                  w' = w\<lparr>w_conn := c'\<rparr>
              in if \<not> ok then w'
                 else
                   let attachments = unwrap_or (get_message_attachments c' new_id) [];
                       ev = event_new EVENT_MESSAGE_NEW (message_new_payload_json new_id (ms_channel_id p)
                         uid uname (ms_content p) msg_type thread (ms_reply_to_message_id p) now
                         (map (attachment_json tid) attachments))
                   in emit (MessageSent msg tid) (broadcast_to_channel (ms_channel_id p) ev None w')))"

subsection \<open>Editing and deleting\<close>

definition apply_message_edit ::
  "string \<Rightarrow> string \<Rightarrow> string \<Rightarrow> string \<Rightarrow> string \<Rightarrow> bool db_op" where
  "apply_message_edit audit_id now mid new_content actor =
     bindS (readS (\<lambda>c. get_message_by_id c mid)) (\<lambda>mo. case mo of
         None \<Rightarrow> returnS False
       | Some msg \<Rightarrow>
           if msg_author_id msg \<noteq> actor then returnS False
           else bindS (update_message_content now mid new_content) (\<lambda>_.
             if msg_content msg = new_content then returnS True
             else (\<lambda>c. case get_channel_by_id c (msg_channel_id msg) of
                 Inr (Some channel) \<Rightarrow> bindS (ignoreS (insert_audit_event audit_id now (ch_team_id channel)
                     (Some actor) ''message.edit'' (Some ''message'') (Some mid)
                     (Some (JObj [(''channel_id'', JStr (msg_channel_id msg)), (''edited_at'', JStr now)]))))
                     (\<lambda>_. returnS True) c
               | _ \<Rightarrow> returnS True c)))"

definition message_edit_json :: "message_edit_payload \<Rightarrow> json" where
  "message_edit_json p = message_edit_payload_json (me_message_id p) (me_channel_id p) (me_content p)"

definition handle_message_edit :: "string \<Rightarrow> string \<Rightarrow> string \<Rightarrow> json \<Rightarrow> world \<Rightarrow> world" where
  "handle_message_edit audit_id now uid payload w =
     (case parse_message_edit_payload payload of
        None \<Rightarrow> w
      | Some p \<Rightarrow>
          let (r, c') = apply_message_edit audit_id now (me_message_id p) (me_content p) uid (w_conn w);
              w' = w\<lparr>w_conn := c'\<rparr>
          in if \<not> unwrap_or r False then w'
             else emit (MessageEdited (me_message_id p) (me_channel_id p) (me_content p))
               (broadcast_to_channel (me_channel_id p) (event_new EVENT_MESSAGE_UPDATED (message_edit_json p)) None w'))"

definition apply_message_delete :: "string \<Rightarrow> string \<Rightarrow> string \<Rightarrow> string \<Rightarrow> bool db_op" where
  "apply_message_delete audit_id now mid actor =
     bindS (readS (\<lambda>c. get_message_by_id c mid)) (\<lambda>mo. case mo of
         None \<Rightarrow> returnS False
       | Some msg \<Rightarrow>
           if msg_deleted msg \<or> msg_author_id msg \<noteq> actor then returnS False
           else bindS (soft_delete_message mid) (\<lambda>_. (\<lambda>c. case get_channel_by_id c (msg_channel_id msg) of
               Inr (Some channel) \<Rightarrow> bindS (ignoreS (insert_audit_event audit_id now (ch_team_id channel)
                   (Some actor) ''message.delete'' (Some ''message'') (Some mid)
                   (Some (JObj [(''channel_id'', JStr (msg_channel_id msg)), (''deleted_at'', JStr now)]))))
                   (\<lambda>_. returnS True) c
             | _ \<Rightarrow> returnS True c)))"

definition handle_message_delete :: "string \<Rightarrow> string \<Rightarrow> string \<Rightarrow> json \<Rightarrow> world \<Rightarrow> world" where
  "handle_message_delete audit_id now uid payload w =
     (case parse_message_delete_payload payload of
        None \<Rightarrow> w
      | Some p \<Rightarrow>
          let (r, c') = apply_message_delete audit_id now (md_message_id p) uid (w_conn w);
              w' = w\<lparr>w_conn := c'\<rparr>
          in if \<not> unwrap_or r False then w'
             else emit (MessageDeleted (md_message_id p) (md_channel_id p))
               (broadcast_to_channel (md_channel_id p) (event_new EVENT_MESSAGE_DELETED
                 (message_delete_payload_json (md_message_id p) (md_channel_id p))) None w'))"

subsection \<open>Typing\<close>

definition TYPING_THROTTLE :: int where "TYPING_THROTTLE = 3"

definition handle_typing ::
  "hub \<Rightarrow> int \<Rightarrow> string \<Rightarrow> string \<Rightarrow> string \<Rightarrow> string \<Rightarrow> json \<Rightarrow> world \<Rightarrow> world" where
  "handle_typing h now client_id uid uname tid payload w =
     (case parse_channel_join_payload payload of
        None \<Rightarrow> w
      | Some p \<Rightarrow>
          if \<not> user_can_subscribe_to_channel (w_conn w) uid tid (cj_channel_id p) then w
          else
            let key = cj_channel_id p @ '':'' @ uid
            in if (case map_of (h_typing h) key of Some prev \<Rightarrow> now - prev < TYPING_THROTTLE | None \<Rightarrow> False) then w
               else broadcast_to_channel (cj_channel_id p) (event_new EVENT_TYPING_INDICATOR
                   (typing_payload_json (cj_channel_id p) uid uname)) (Some client_id)
                 (send (TypingInsert key now) w))"

subsection \<open>Lemmas\<close>

lemma check_access_sound:
  assumes "group_lookups_ok c" and "check_channel_access c cid tid uid"
  shows "\<exists>ch \<in> set (c_channels c). ch_id ch = cid \<and> ch_team_id ch = tid \<and> may_access c uid tid cid"
proof -
  obtain ch where "get_channel_by_id c cid = Inr (Some ch)" "ch_team_id ch = tid"
      "user_can_access_channel c uid tid cid = Inr True"
  proof (cases "get_channel_by_id c cid")
    case (Inr o1)
    with assms(2) that show ?thesis
      by (cases o1; cases "user_can_access_channel c uid tid cid") (auto simp: check_channel_access_def split: if_splits)
  qed (use assms(2) in \<open>simp add: check_channel_access_def\<close>)
  with get_channel_by_id_SomeD access_granted_sound [OF assms(1)] show ?thesis by blast
qed

lemma check_access_healthy:
  "healthy c \<Longrightarrow> check_channel_access c cid tid uid
    \<longleftrightarrow> (\<exists>ch. first_row (rows_where (\<lambda>ch. ch_id ch = cid) (c_channels c)) = Some ch \<and> ch_team_id ch = tid)
      \<and> may_access c uid tid cid"
  by (simp add: check_channel_access_def get_channel_by_id_def access_decides split: option.split)

text \<open>The time of the caller's newest undeleted message in the channel.\<close>

definition newest_own :: "conn \<Rightarrow> string \<Rightarrow> string \<Rightarrow> message option" where
  "newest_own c cid uid = first_row (rev (sort_key msg_created_at (rows_where (\<lambda>m. msg_channel_id m = cid
     \<and> cid \<noteq> [] \<and> msg_author_id m = uid \<and> \<not> msg_deleted m) (c_messages c))))"

definition slow_mode_seconds :: "conn \<Rightarrow> string \<Rightarrow> int" where
  "slow_mode_seconds c cid = (case first_row (rows_where (\<lambda>ch. ch_id ch = cid) (c_channels c)) of
     None \<Rightarrow> 0 | Some ch \<Rightarrow> ch_slow_mode_seconds ch)"

lemma slow_mode_healthy:
  assumes "healthy c" and "user_has_permission c uid tid PERM_BYPASS_SLOW_MODE = Inr bypass"
  shows "compute_slow_mode_block epoch now_ts c cid tid uid
    = (if slow_mode_seconds c cid \<le> 0 \<or> bypass then None
       else case Option.bind (newest_own c cid uid) (\<lambda>m. epoch (msg_created_at m)) of
           None \<Rightarrow> None
         | Some prev \<Rightarrow> if slow_mode_seconds c cid - (now_ts - prev) > 0
             then Some (slow_mode_seconds c cid - (now_ts - prev)) else None)"
proof -
  have secs: "unwrap_or (query_row f c (map ch_slow_mode_seconds (rows_where (\<lambda>ch. ch_id ch = cid) (c_channels c)))) 0
      = slow_mode_seconds c cid" for f
    using assms(1) by (cases "rows_where (\<lambda>ch. ch_id ch = cid) (c_channels c)") (simp_all add: slow_mode_seconds_def)
  show ?thesis
    using assms
    unfolding compute_slow_mode_block_def secs Let_def
    by (cases "newest_own c cid uid") (simp_all add: newest_own_def split: option.split)
qed

text \<open>What the two write statements of the handlers do on a healthy connection.\<close>

lemma update_content_healthy:
  "healthy c \<Longrightarrow> update_message_content now mid s c = (Inr (), c\<lparr>c_messages := update_where
     (\<lambda>m. msg_id m = mid) (\<lambda>m. m\<lparr>msg_content := s, msg_edited_at := Some now\<rparr>) (c_messages c)\<rparr>)"
  by (simp add: update_message_content_def exec_healthy)

lemma soft_delete_healthy:
  "healthy c \<Longrightarrow> soft_delete_message mid c = (Inr (), c\<lparr>c_messages := update_where
     (\<lambda>m. msg_id m = mid) (\<lambda>m. m\<lparr>msg_deleted := True, msg_content := []\<rparr>) (c_messages c)\<rparr>)"
  by (simp add: soft_delete_message_def exec_healthy)

lemma audit_messages [simp]: "c_messages (snd (insert_audit_event i n t a ac tt ti d c)) = c_messages c"
  using insert_audit_event_state [of i n t a ac tt ti d c] by auto

lemma healthy_messages [simp]: "healthy (c\<lparr>c_messages := ms\<rparr>) = healthy c"
  by (simp add: healthy_def)

lemma get_message_healthy:
  "healthy c \<Longrightarrow> get_message_by_id c mid = Inr (first_row (rows_where (\<lambda>m. msg_id m = mid) (c_messages c)))"
  by (simp add: get_message_by_id_def)

lemma edit_messages:
  assumes "healthy c"
  shows "c_messages (snd (apply_message_edit audit_id now mid s actor c)) =
      (if fst (apply_message_edit audit_id now mid s actor c) = Inr True
       then update_where (\<lambda>m. msg_id m = mid) (\<lambda>m. m\<lparr>msg_content := s, msg_edited_at := Some now\<rparr>) (c_messages c)
       else c_messages c)
    \<and> (fst (apply_message_edit audit_id now mid s actor c) = Inr True
       \<longleftrightarrow> (\<exists>m. first_row (rows_where (\<lambda>m. msg_id m = mid) (c_messages c)) = Some m \<and> msg_author_id m = actor))"
  using assms
  by (cases "first_row (rows_where (\<lambda>m. msg_id m = mid) (c_messages c))")
    (auto simp: apply_message_edit_def get_message_healthy update_content_healthy bindS_def
      split: sum.split option.split)

lemma delete_messages:
  assumes "healthy c"
  shows "c_messages (snd (apply_message_delete audit_id now mid actor c)) =
      (if fst (apply_message_delete audit_id now mid actor c) = Inr True
       then update_where (\<lambda>m. msg_id m = mid) (\<lambda>m. m\<lparr>msg_deleted := True, msg_content := []\<rparr>) (c_messages c)
       else c_messages c)
    \<and> (fst (apply_message_delete audit_id now mid actor c) = Inr True
       \<longleftrightarrow> (\<exists>m. first_row (rows_where (\<lambda>m. msg_id m = mid) (c_messages c)) = Some m
             \<and> msg_author_id m = actor \<and> \<not> msg_deleted m))"
  using assms
  by (cases "first_row (rows_where (\<lambda>m. msg_id m = mid) (c_messages c))")
    (auto simp: apply_message_delete_def get_message_healthy soft_delete_healthy bindS_def
      split: sum.split option.split)

text \<open>Linking attachments: every listed attachment, whoever uploaded it and wherever it hung.\<close>

definition link_all :: "string \<Rightarrow> string list \<Rightarrow> attachment list \<Rightarrow> attachment list" where
  "link_all mid aids = map (\<lambda>a. if a_id a \<in> set aids then a\<lparr>a_message_id := mid\<rparr> else a)"

lemma link_healthy:
  assumes "healthy c"
  shows "for_eachS (\<lambda>aid. exec f (\<lambda>c. Some (c\<lparr>c_attachments := update_where (\<lambda>a. a_id a = aid)
      (\<lambda>a. a\<lparr>a_message_id := mid\<rparr>) (c_attachments c)\<rparr>))) aids c
    = (Inr (), c\<lparr>c_attachments := link_all mid aids (c_attachments c)\<rparr>)"
  using assms
proof (induction aids arbitrary: c)
  case Nil
  then show ?case by (simp add: link_all_def)
next
  case (Cons aid aids)
  have h: "healthy (c\<lparr>c_attachments := as\<rparr>)" for as
    using Cons.prems by (simp add: healthy_def)
  have "link_all mid aids (update_where (\<lambda>a. a_id a = aid) (\<lambda>a. a\<lparr>a_message_id := mid\<rparr>) as)
      = link_all mid (aid # aids) as" for as
    by (simp add: link_all_def update_where_def)
  then show ?case
    by (simp add: bindS_def exec_healthy Cons.prems Cons.IH [OF h])
qed

lemma persist_healthy:
  assumes "healthy c" and "message_ok c m"
  shows "persist_message_and_attachments m aids c
    = (True, c\<lparr>c_messages := c_messages c @ [m\<lparr>msg_edited_at := None, msg_deleted := False\<rparr>],
        c_attachments := link_all (msg_id m) aids (c_attachments c)\<rparr>)"
  using assms
  by (simp add: persist_message_and_attachments_def create_message_def exec_healthy bindS_def link_healthy)

subsection \<open>Properties\<close>

text \<open>C2. Sending is guarded. When \<open>message:send\<close> changes the database or reaches anybody, the payload
  named a channel of the caller's own team that the access policy opens to the caller; when it changes
  the database, slow mode did not hold the caller back. The statement holds whatever statements fail,
  short of the two lookups of the channel's group.\<close>

theorem message_send_guarded:
  assumes "group_lookups_ok (w_conn w)"
    and "handle_message_send epoch now_ts new_id now uid uname tid payload w \<noteq> w"
  shows "\<exists>p ch. parse_message_send_payload payload = Some p \<and> ch \<in> set (c_channels (w_conn w))
    \<and> ch_id ch = ms_channel_id p \<and> ch_team_id ch = tid \<and> may_access (w_conn w) uid tid (ch_id ch)
    \<and> (w_conn (handle_message_send epoch now_ts new_id now uid uname tid payload w) \<noteq> w_conn w
        \<longrightarrow> compute_slow_mode_block epoch now_ts (w_conn w) (ch_id ch) tid uid = None)"
proof -
  from assms(2) obtain p where p: "parse_message_send_payload payload = Some p"
    by (cases "parse_message_send_payload payload") (simp_all add: handle_message_send_def)
  with assms(2) have "check_channel_access (w_conn w) (ms_channel_id p) tid uid"
    by (cases "check_channel_access (w_conn w) (ms_channel_id p) tid uid") (simp_all add: handle_message_send_def)
  from check_access_sound [OF assms(1) this] obtain ch where
    ch: "ch \<in> set (c_channels (w_conn w))" "ch_id ch = ms_channel_id p" "ch_team_id ch = tid"
      "may_access (w_conn w) uid tid (ms_channel_id p)" by blast
  moreover have "w_conn (handle_message_send epoch now_ts new_id now uid uname tid payload w) = w_conn w"
    if "compute_slow_mode_block epoch now_ts (w_conn w) (ms_channel_id p) tid uid = Some r" for r
    using p that by (simp add: handle_message_send_def send_slow_mode_rejection_def send_defs)
  ultimately show ?thesis using p by (cases "compute_slow_mode_block epoch now_ts (w_conn w) (ms_channel_id p) tid uid") auto
qed

definition sample_world :: world where
  "sample_world = \<lparr>w_conn = sample_chat, w_rooms = None, w_out = [], w_sfu = []\<rparr>"

definition sample_send :: json where
  "sample_send = JObj [(''channel_id'', JStr ''ch''), (''content'', JStr ''hello''),
     (''attachment_ids'', JArr [JStr ''a''])]"

lemma sample_send_parsed: "parse_message_send_payload sample_send = Some \<lparr>ms_channel_id = ''ch'',
    ms_content = ''hello'', ms_msg_type = [], ms_thread_id = None, ms_attachment_ids = [''a''],
    ms_reply_to_message_id = None\<rparr>"
  by (simp add: parse_message_send_payload_def sample_send_def field_str_def field_str_default_def
      field_opt_str_def field_strs_default_def)

lemma sample_access: "check_channel_access sample_chat ''ch'' ''t'' ''bob''"
  by (simp add: check_access_healthy may_access_def gating_roles_def default_role_id_def sample_chat_def
      sample_conn_def empty_conn_def healthy_def owns_team_def)

lemma sample_bypass: "user_has_permission sample_chat ''bob'' ''t'' PERM_BYPASS_SLOW_MODE = Inr False"
  by (simp add: user_has_permission_Inr owns_team_def held_roles_def sample_chat_def sample_conn_def
      empty_conn_def perm_defs healthy_def)

lemma sample_slow: "compute_slow_mode_block (\<lambda>_. Some 0) n sample_chat ''ch'' ''t'' ''bob''
    = (if n < 10 then Some (10 - n) else None)"
proof -
  have "newest_own sample_chat ''ch'' ''bob'' = Some (hd (c_messages sample_chat))"
    by (simp add: newest_own_def sample_chat_def sample_conn_def)
  moreover have "slow_mode_seconds sample_chat ''ch'' = 10"
    by (simp add: slow_mode_seconds_def sample_chat_def sample_conn_def)
  ultimately show ?thesis by (simp add: slow_mode_healthy [OF sample_chat_sel sample_bypass])
qed

theorem message_send_guarded_witness:
  "\<exists>p ch. parse_message_send_payload sample_send = Some p \<and> ch \<in> set (c_channels sample_chat)
    \<and> ch_id ch = ms_channel_id p \<and> ch_team_id ch = ''t'' \<and> may_access sample_chat ''bob'' ''t'' (ch_id ch)"
proof -
  have "handle_message_send (\<lambda>_. Some 0) 5 ''n'' ''now'' ''bob'' ''bob'' ''t'' sample_send sample_world \<noteq> sample_world"
    by (simp add: handle_message_send_def sample_send_parsed sample_world_def sample_access sample_slow
        send_slow_mode_rejection_def send_defs send_def)
  from message_send_guarded [OF _ this] show ?thesis
    by (simp add: sample_world_def healthy_group_lookups) blast
qed

text \<open>What an admitted \<open>message:send\<close> does on a healthy database: exactly one row is appended,
  authored by the caller, undeleted and unedited; one \<open>message:new\<close> frame goes to the channel, then one
  \<open>MessageSent\<close> event; and every attachment the payload lists now hangs on the new message, also one
  that somebody else uploaded or that hung on another message.\<close>

theorem message_send_effect:
  assumes "healthy (w_conn w)" and "parse_message_send_payload payload = Some p"
    and "check_channel_access (w_conn w) (ms_channel_id p) tid uid"
    and "compute_slow_mode_block epoch now_ts (w_conn w) (ms_channel_id p) tid uid = None"
    and row: "row = \<lparr>msg_id = new_id, msg_channel_id = ms_channel_id p, msg_dm_channel_id = [],
        msg_author_id = uid, msg_content = ms_content p,
        msg_type = (if ms_msg_type p = [] then ''text'' else ms_msg_type p),
        msg_thread_id = (case ms_thread_id p of None \<Rightarrow> [] | Some t \<Rightarrow> t),
        msg_reply_to = ms_reply_to_message_id p, msg_edited_at = None, msg_deleted = False,
        msg_lamport_ts = 0, msg_created_at = now\<rparr>"
    and "message_ok (w_conn w) row"
  shows "let w' = handle_message_send epoch now_ts new_id now uid uname tid payload w
    in c_messages (w_conn w') = c_messages (w_conn w) @ [row]
      \<and> c_attachments (w_conn w') = link_all new_id (ms_attachment_ids p) (c_attachments (w_conn w))
      \<and> (\<exists>ev. ev_type ev = EVENT_MESSAGE_NEW
          \<and> w_out w' = w_out w @ [ChannelMsg (ms_channel_id p) ev None, EmitEvent (MessageSent row tid)])"
  using assms(1-4) persist_healthy [OF assms(1,6)]
  by (simp add: handle_message_send_def Let_def row send_defs event_new_def)

theorem message_send_effect_witness:
  "map a_message_id (c_attachments (w_conn (handle_message_send (\<lambda>_. Some 0) 10 ''n'' ''now'' ''bob'' ''bob'' ''t''
     sample_send sample_world))) = [''n'']"
proof -
  let ?row = "\<lparr>msg_id = ''n'', msg_channel_id = ''ch'', msg_dm_channel_id = [], msg_author_id = ''bob'',
    msg_content = ''hello'', msg_type = ''text'', msg_thread_id = [], msg_reply_to = None,
    msg_edited_at = None, msg_deleted = False, msg_lamport_ts = 0, msg_created_at = ''now''\<rparr>"
  have "message_ok sample_chat ?row"
    by (simp add: message_ok_def sample_chat_def sample_conn_def empty_conn_def message_types_def sample_user_def)
  then have "c_attachments (w_conn (handle_message_send (\<lambda>_. Some 0) 10 ''n'' ''now'' ''bob'' ''bob'' ''t''
     sample_send sample_world)) = link_all ''n'' [''a''] (c_attachments sample_chat)"
    using message_send_effect [of sample_world sample_send _ "''t''" "''bob''" "\<lambda>_. Some 0" 10 ?row "''n''" "''now''" "''bob''",
        OF _ sample_send_parsed]
    by (simp add: sample_world_def sample_access sample_slow Let_def)
  then show ?thesis by (simp add: link_all_def sample_chat_def)
qed

text \<open>Either nothing happened to the messages, or the caller's own row was rewritten.\<close>

definition same_identity :: "(message \<Rightarrow> message) \<Rightarrow> bool" where
  "same_identity f \<longleftrightarrow> (\<forall>m. msg_id (f m) = msg_id m \<and> msg_author_id (f m) = msg_author_id m
     \<and> msg_channel_id (f m) = msg_channel_id m \<and> msg_created_at (f m) = msg_created_at m)"

definition own_rewrite :: "string \<Rightarrow> string \<Rightarrow> conn \<Rightarrow> conn \<Rightarrow> bool" where
  "own_rewrite mid actor c c' \<longleftrightarrow> c_messages c' = c_messages c
     \<or> (\<exists>f m. same_identity f \<and> c_messages c' = update_where (\<lambda>m. msg_id m = mid) f (c_messages c)
          \<and> m \<in> set (c_messages c) \<and> msg_id m = mid \<and> msg_author_id m = actor)"

lemma own_rewrite_edit:
  assumes h: "healthy c" shows "own_rewrite mid actor c (snd (apply_message_edit audit_id now mid s actor c))"
proof (cases "fst (apply_message_edit audit_id now mid s actor c) = Inr True")
  case True
  with edit_messages [OF h, of audit_id now mid s actor] obtain m where
    "first_row (rows_where (\<lambda>m. msg_id m = mid) (c_messages c)) = Some m" "msg_author_id m = actor" by auto
  with True conjunct1 [OF edit_messages [OF h, of audit_id now mid s actor]] first_row_SomeD show ?thesis
    unfolding own_rewrite_def same_identity_def
    by (intro disjI2 exI [of _ "\<lambda>m. m\<lparr>msg_content := s, msg_edited_at := Some now\<rparr>"] exI [of _ m]) fastforce
next
  case False
  with conjunct1 [OF edit_messages [OF h, of audit_id now mid s actor]] show ?thesis
    by (simp add: own_rewrite_def)
qed

lemma own_rewrite_delete:
  assumes h: "healthy c" shows "own_rewrite mid actor c (snd (apply_message_delete audit_id now mid actor c))"
proof (cases "fst (apply_message_delete audit_id now mid actor c) = Inr True")
  case True
  with delete_messages [OF h, of audit_id now mid actor] obtain m where
    "first_row (rows_where (\<lambda>m. msg_id m = mid) (c_messages c)) = Some m" "msg_author_id m = actor" by auto
  with True conjunct1 [OF delete_messages [OF h, of audit_id now mid actor]] first_row_SomeD show ?thesis
    unfolding own_rewrite_def same_identity_def
    by (intro disjI2 exI [of _ "\<lambda>m. m\<lparr>msg_deleted := True, msg_content := []\<rparr>"] exI [of _ m]) fastforce
next
  case False
  with conjunct1 [OF delete_messages [OF h, of audit_id now mid actor]] show ?thesis
    by (simp add: own_rewrite_def)
qed

text \<open>Only authors edit and delete. After \<open>apply_message_edit\<close> or \<open>apply_message_delete\<close> every
  message row that is not one of the caller's own rows with that id is exactly as before, no row is
  added or lost, and no row changes its author, channel or id. In particular a caller who is not the
  author changes nothing.\<close>

theorem edit_delete_only_own:
  assumes h: "healthy c" and wf: "wf_chat c"
    and c': "c' = snd (apply_message_edit audit_id now mid s actor c)
      \<or> c' = snd (apply_message_delete audit_id now mid actor c)"
  shows "(\<forall>m \<in> set (c_messages c). msg_id m = mid \<and> msg_author_id m = actor \<or> m \<in> set (c_messages c'))
    \<and> map (\<lambda>m. (msg_id m, msg_author_id m, msg_channel_id m, msg_created_at m)) (c_messages c')
      = map (\<lambda>m. (msg_id m, msg_author_id m, msg_channel_id m, msg_created_at m)) (c_messages c)
    \<and> ((\<forall>m \<in> set (c_messages c). \<not> (msg_id m = mid \<and> msg_author_id m = actor)) \<longrightarrow> c_messages c' = c_messages c)"
proof -
  have "own_rewrite mid actor c c'"
    using c' own_rewrite_edit [OF h] own_rewrite_delete [OF h] by blast
  then consider "c_messages c' = c_messages c"
    | f m where "same_identity f" "c_messages c' = update_where (\<lambda>m. msg_id m = mid) f (c_messages c)"
        "m \<in> set (c_messages c)" "msg_id m = mid" "msg_author_id m = actor"
    unfolding own_rewrite_def by blast
  then show ?thesis
  proof cases
    case (2 f m)
    then have "msg_author_id m' = actor" if "m' \<in> set (c_messages c)" "msg_id m' = mid" for m'
      using message_unique [OF wf that(1) 2(3)] that by simp
    moreover have "map (\<lambda>m. (msg_id m, msg_author_id m, msg_channel_id m, msg_created_at m)) (c_messages c')
      = map (\<lambda>m. (msg_id m, msg_author_id m, msg_channel_id m, msg_created_at m)) (c_messages c)"
      unfolding 2(2) by (rule map_update_where) (use 2(1) in \<open>simp add: same_identity_def\<close>)
    ultimately show ?thesis using 2(2-5) by (auto simp: image_iff)
  qed simp
qed

lemma sample_chat_wf: "wf_chat sample_chat"
  by (simp add: wf_chat_def sample_chat_def sample_conn_def empty_conn_def sample_user_def refs_def opt_refs_def)

theorem edit_delete_only_own_witness:
  "c_messages (snd (apply_message_delete ''ae'' ''now'' ''m'' ''mallory'' sample_chat)) = c_messages sample_chat"
proof -
  have "\<forall>m \<in> set (c_messages sample_chat). \<not> (msg_id m = ''m'' \<and> msg_author_id m = ''mallory'')"
    by (simp add: sample_chat_def)
  with edit_delete_only_own [OF sample_chat_sel sample_chat_wf disjI2 [OF refl], of "''m''" "''mallory''" "''ae''" "''now''"]
  show ?thesis by blast
qed

text \<open>Deleting a message is idempotent: the first \<open>message:delete\<close> of the author leaves a tombstone
  with empty content, and a second one answers "not deleted" and changes nothing, so neither a second
  audit row nor a second broadcast follows.\<close>

theorem delete_idempotent:
  assumes "healthy c" and "wf_chat c" and "apply_message_delete a1 n1 mid actor c = (Inr True, c')"
    and "healthy c'"
  shows "(\<forall>m \<in> set (c_messages c'). msg_id m = mid \<longrightarrow> msg_deleted m \<and> msg_content m = [])
    \<and> apply_message_delete a2 n2 mid actor c' = (Inr False, c')"
proof -
  have ms: "c_messages c' = update_where (\<lambda>m. msg_id m = mid) (\<lambda>m. m\<lparr>msg_deleted := True, msg_content := []\<rparr>) (c_messages c)"
    using delete_messages [OF assms(1), of a1 n1 mid actor] assms(3) by simp
  have tomb: "\<forall>m \<in> set (c_messages c'). msg_id m = mid \<longrightarrow> msg_deleted m \<and> msg_content m = []"
    unfolding ms ball_update_where by simp
  have "msg_deleted m" if "first_row (rows_where (\<lambda>m. msg_id m = mid) (c_messages c')) = Some m" for m
    using tomb first_row_SomeD [OF that] by simp
  then have "apply_message_delete a2 n2 mid actor c' = (Inr False, c')"
    by (cases "first_row (rows_where (\<lambda>m. msg_id m = mid) (c_messages c'))")
      (simp_all add: apply_message_delete_def get_message_healthy [OF assms(4)])
  with tomb show ?thesis by simp
qed

lemma sample_delete: "\<exists>c'. apply_message_delete ''ae'' ''now'' ''m'' ''bob'' sample_chat = (Inr True, c') \<and> healthy c'"
proof -
  have row: "first_row (rows_where (\<lambda>m. msg_id m = ''m'') (c_messages sample_chat)) = Some (hd (c_messages sample_chat))"
    "msg_author_id (hd (c_messages sample_chat)) = ''bob''" "\<not> msg_deleted (hd (c_messages sample_chat))"
    by (simp_all add: sample_chat_def)
  then have "fst (apply_message_delete ''ae'' ''now'' ''m'' ''bob'' sample_chat) = Inr True"
    using delete_messages [OF sample_chat_sel, of "''ae''" "''now''" "''m''" "''bob''"] by simp
  moreover have "healthy (snd (apply_message_delete ''ae'' ''now'' ''m'' ''bob'' sample_chat))"
  proof -
    have "healthy (snd (insert_audit_event i n t a ac tt ti d c)) = healthy c" for i n t a ac tt ti d c
      by (rule insert_audit_event_frame) (simp add: healthy_def)
    then show ?thesis
      using row by (simp add: apply_message_delete_def get_message_healthy soft_delete_healthy bindS_def
          split: sum.split option.split)
  qed
  ultimately show ?thesis by (metis prod.collapse)
qed

theorem delete_idempotent_witness:
  "\<exists>c'. apply_message_delete ''ae'' ''now'' ''m'' ''bob'' sample_chat = (Inr True, c')
    \<and> apply_message_delete ''ae2'' ''later'' ''m'' ''bob'' c' = (Inr False, c')"
proof -
  obtain c' where "apply_message_delete ''ae'' ''now'' ''m'' ''bob'' sample_chat = (Inr True, c')" "healthy c'"
    using sample_delete by blast
  with delete_idempotent [OF sample_chat_sel sample_chat_wf this] show ?thesis by blast
qed

text \<open>An edit does not look at the tombstone: after the author deleted a message, an edit by the same
  author succeeds and stores new content in the deleted row (which keeps its \<open>deleted\<close> flag), and the
  handler broadcasts it as \<open>message:updated\<close> to whatever channel id the client wrote in the payload.\<close>

theorem edit_revives_deleted_content:
  assumes "healthy c" and "first_row (rows_where (\<lambda>m. msg_id m = mid) (c_messages c)) = Some m"
    and "msg_author_id m = actor" and "msg_deleted m"
    and "parse_message_edit_payload payload = Some p" and "me_message_id p = mid" and "w_conn w = c"
  shows "let w' = handle_message_edit audit_id now actor payload w
    in m\<lparr>msg_content := me_content p, msg_edited_at := Some now\<rparr> \<in> set (c_messages (w_conn w'))
      \<and> (\<exists>ev. ChannelMsg (me_channel_id p) ev None \<in> set (w_out w') \<and> ev_type ev = EVENT_MESSAGE_UPDATED)"
proof -
  note em = edit_messages [OF assms(1), of audit_id now mid "me_content p" actor]
  obtain c' where e: "apply_message_edit audit_id now mid (me_content p) actor c = (Inr True, c')"
    using em assms(2,3) by (cases "apply_message_edit audit_id now mid (me_content p) actor c") auto
  with em have "c_messages c' = update_where (\<lambda>m. msg_id m = mid)
      (\<lambda>m. m\<lparr>msg_content := me_content p, msg_edited_at := Some now\<rparr>) (c_messages c)" by simp
  moreover have "m \<in> set (c_messages c)" "msg_id m = mid"
    using first_row_SomeD [OF assms(2)] by simp_all
  ultimately have "m\<lparr>msg_content := me_content p, msg_edited_at := Some now\<rparr> \<in> set (c_messages c')"
    by (auto intro!: rev_image_eqI)
  with e assms show ?thesis
    by (auto simp: handle_message_edit_def Let_def send_defs event_new_def)
qed

theorem edit_revives_deleted_content_witness:
  "\<exists>c w'. (\<forall>m \<in> set (c_messages c). msg_deleted m)
     \<and> w' = handle_message_edit ''ae'' ''now'' ''bob''
         (JObj [(''message_id'', JStr ''m''), (''channel_id'', JStr ''elsewhere''), (''content'', JStr ''back'')])
         (sample_world\<lparr>w_conn := c\<rparr>)
     \<and> (\<exists>m \<in> set (c_messages (w_conn w')). msg_deleted m \<and> msg_content m = ''back'')"
proof -
  obtain c where d: "apply_message_delete ''ae'' ''now'' ''m'' ''bob'' sample_chat = (Inr True, c)" "healthy c"
    using sample_delete by blast
  have ms: "c_messages c = [(hd (c_messages sample_chat))\<lparr>msg_deleted := True, msg_content := []\<rparr>]"
    using delete_messages [OF sample_chat_sel, of "''ae''" "''now''" "''m''" "''bob''"] d(1)
    by (simp add: sample_chat_def update_where_def)
  let ?m = "(hd (c_messages sample_chat))\<lparr>msg_deleted := True, msg_content := []\<rparr>"
  let ?v = "JObj [(''message_id'', JStr ''m''), (''channel_id'', JStr ''elsewhere''), (''content'', JStr ''back'')]"
  have p: "parse_message_edit_payload ?v
      = Some \<lparr>me_message_id = ''m'', me_channel_id = ''elsewhere'', me_content = ''back''\<rparr>"
    by (simp add: parse_message_edit_payload_def field_str_def)
  have row: "first_row (rows_where (\<lambda>m. msg_id m = ''m'') (c_messages c)) = Some ?m" "msg_author_id ?m = ''bob''"
      "msg_deleted ?m"
    unfolding ms by (simp_all add: sample_chat_def)
  have "?m\<lparr>msg_content := ''back'', msg_edited_at := Some ''now''\<rparr>
      \<in> set (c_messages (w_conn (handle_message_edit ''ae'' ''now'' ''bob'' ?v (sample_world\<lparr>w_conn := c\<rparr>))))"
    using edit_revives_deleted_content [OF d(2) row p, of "sample_world\<lparr>w_conn := c\<rparr>" "''ae''" "''now''"]
    by (simp add: Let_def)
  then have "\<exists>m \<in> set (c_messages (w_conn (handle_message_edit ''ae'' ''now'' ''bob'' ?v (sample_world\<lparr>w_conn := c\<rparr>)))).
      msg_deleted m \<and> msg_content m = ''back''"
    by (rule rev_bexI) simp
  moreover have "\<forall>m \<in> set (c_messages c). msg_deleted m" unfolding ms by simp
  ultimately show ?thesis by blast
qed

text \<open>Slow mode on a healthy database: a caller without the bypass permission waits exactly until the
  configured number of seconds has passed since the newest of the caller's undeleted messages in the
  channel, and \<open>retry_in\<close> is what is left; with slow mode off, with the bypass, or without such a message
  the caller is not held back. Deleting one's last message therefore ends the wait.\<close>

theorem slow_mode_exact:
  assumes "healthy c" and "user_has_permission c uid tid PERM_BYPASS_SLOW_MODE = Inr bypass"
  shows "compute_slow_mode_block epoch now_ts c cid tid uid = Some r \<longleftrightarrow>
      0 < slow_mode_seconds c cid \<and> \<not> bypass
      \<and> (\<exists>m t. newest_own c cid uid = Some m \<and> epoch (msg_created_at m) = Some t
          \<and> r = t + slow_mode_seconds c cid - now_ts \<and> 0 < r)"
  unfolding slow_mode_healthy [OF assms] by (cases "newest_own c cid uid") (auto split: option.splits)

theorem slow_mode_exact_witness:
  "compute_slow_mode_block (\<lambda>_. Some 0) 7 sample_chat ''ch'' ''t'' ''bob'' = Some 3"
proof -
  have "newest_own sample_chat ''ch'' ''bob'' = Some (hd (c_messages sample_chat))"
    "slow_mode_seconds sample_chat ''ch'' = 10"
    by (simp_all add: newest_own_def slow_mode_seconds_def sample_chat_def sample_conn_def)
  then show ?thesis by (subst slow_mode_exact [OF sample_chat_sel sample_bypass]) simp
qed

end
