(* ===== verification/User_Store.thy ===== *)
theory User_Store
  imports Team_Store
begin

section \<open>User rows\<close>

text \<open>
  \<open>db/user_queries.rs\<close> without \<open>delete_user\<close>: one definition per function, with the constraints of
  migrations 001 and 023 (primary key, unique name and key, the \<open>CHECK\<close> on \<open>status_type\<close>; the two
  quiet-hours defaults are written at insertion).
\<close>

definition status_types :: "string set" where
  "status_types = {''online'', ''idle'', ''dnd'', ''offline''}"

definition or_default :: "string \<Rightarrow> string \<Rightarrow> string" where
  "or_default s d = (if s = [] then d else s)"

definition create_user :: "user \<Rightarrow> unit db_op" where
  "create_user u = exec ''create_user'' (\<lambda>c.
     if u_id u \<in> u_id ` set (c_users c) \<or> u_username u \<in> u_username ` set (c_users c)
       \<or> u_public_key u \<in> u_public_key ` set (c_users c) \<or> u_status_type u \<notin> status_types then None
     else Some (c\<lparr>c_users := c_users c @ [u\<lparr>
       u_quiet_hours_from := or_default (u_quiet_hours_from u) ''22:00'',
       u_quiet_hours_to := or_default (u_quiet_hours_to u) ''07:30''\<rparr>]\<rparr>))"

definition get_user_by_id :: "conn \<Rightarrow> string \<Rightarrow> user option db_res" where
  "get_user_by_id c uid = optional (query_row ''get_user_by_id'' c (rows_where (\<lambda>u. u_id u = uid) (c_users c)))"

definition get_user_by_username :: "conn \<Rightarrow> string \<Rightarrow> user option db_res" where
  "get_user_by_username c n =
     optional (query_row ''get_user_by_username'' c (rows_where (\<lambda>u. u_username u = n) (c_users c)))"

definition get_user_by_public_key :: "conn \<Rightarrow> bytes \<Rightarrow> user option db_res" where
  "get_user_by_public_key c pk =
     optional (query_row ''get_user_by_public_key'' c (rows_where (\<lambda>u. u_public_key u = pk) (c_users c)))"

definition update_user :: "string \<Rightarrow> user \<Rightarrow> unit db_op" where
  "update_user now u = exec ''update_user'' (\<lambda>c.
     if u_id u \<in> u_id ` set (c_users c) \<and> u_status_type u \<notin> status_types then None
     else Some (c\<lparr>c_users := update_where (\<lambda>x. u_id x = u_id u)
       (\<lambda>x. x\<lparr>u_display_name := u_display_name u, u_avatar_url := u_avatar_url u,
         u_status_text := u_status_text u, u_status_type := u_status_type u,
         u_quiet_hours_enabled := u_quiet_hours_enabled u, u_quiet_hours_from := u_quiet_hours_from u,
         u_quiet_hours_to := u_quiet_hours_to u, u_updated_at := now\<rparr>) (c_users c)\<rparr>))"

definition update_user_status :: "string \<Rightarrow> string \<Rightarrow> string \<Rightarrow> string \<Rightarrow> unit db_op" where
  "update_user_status now uid status_type custom_status = exec ''update_user_status'' (\<lambda>c.
     if uid \<in> u_id ` set (c_users c) \<and> status_type \<notin> status_types then None
     else Some (c\<lparr>c_users := update_where (\<lambda>x. u_id x = uid)
       (\<lambda>x. x\<lparr>u_status_type := status_type, u_status_text := custom_status, u_updated_at := now\<rparr>)
       (c_users c)\<rparr>))"

subsection \<open>Keys and integrity\<close>

definition wf_users :: "conn \<Rightarrow> bool" where
  "wf_users c \<longleftrightarrow> distinct (map u_id (c_users c)) \<and> distinct (map u_username (c_users c))
     \<and> distinct (map u_public_key (c_users c)) \<and> (\<forall>u \<in> set (c_users c). u_status_type u \<in> status_types)"

lemma wf_create_user: "wf_users c \<Longrightarrow> wf_users (snd (create_user u c))"
  unfolding create_user_def by (rule exec_cases) (auto simp: wf_users_def split: if_splits)

lemma users_check_kept:
  "\<forall>u \<in> set us. u_status_type u \<in> S \<Longrightarrow> (\<And>r. r \<in> set us \<Longrightarrow> p r \<Longrightarrow> u_status_type (f r) \<in> S)
   \<Longrightarrow> \<forall>u \<in> set (update_where p f us). u_status_type u \<in> S"
  unfolding ball_update_where by simp

lemma wf_users_update:
  assumes "wf_users c" and "\<And>r. u_id (f r) = u_id r" and "\<And>r. u_username (f r) = u_username r"
    and "\<And>r. u_public_key (f r) = u_public_key r"
    and "\<And>r. r \<in> set (c_users c) \<Longrightarrow> p r \<Longrightarrow> u_status_type (f r) \<in> status_types"
  shows "wf_users (c\<lparr>c_users := update_where p f (c_users c)\<rparr>)"
proof -
  have "\<forall>u \<in> set (update_where p f (c_users c)). u_status_type u \<in> status_types"
    using assms(1,5) by (intro users_check_kept) (simp_all add: wf_users_def)
  then show ?thesis
    using assms(1) by (simp add: wf_users_def map_update_where assms(2-4) del: set_update_where)
qed

lemma wf_update_user: "wf_users c \<Longrightarrow> wf_users (snd (update_user now u c))"
  unfolding update_user_def
proof (rule exec_cases)
  fix c'
  assume wf: "wf_users c"
    and "(if u_id u \<in> u_id ` set (c_users c) \<and> u_status_type u \<notin> status_types then None
      else Some (c\<lparr>c_users := update_where (\<lambda>x. u_id x = u_id u)
       (\<lambda>x. x\<lparr>u_display_name := u_display_name u, u_avatar_url := u_avatar_url u,
         u_status_text := u_status_text u, u_status_type := u_status_type u,
         u_quiet_hours_enabled := u_quiet_hours_enabled u, u_quiet_hours_from := u_quiet_hours_from u,
         u_quiet_hours_to := u_quiet_hours_to u, u_updated_at := now\<rparr>) (c_users c)\<rparr>)) = Some c'"
  then show "wf_users c'" by (auto split: if_splits intro!: wf_users_update) (metis imageI)
qed

lemma wf_update_user_status: "wf_users c \<Longrightarrow> wf_users (snd (update_user_status now uid st cu c))"
  unfolding update_user_status_def
proof (rule exec_cases)
  fix c'
  assume wf: "wf_users c"
    and "(if uid \<in> u_id ` set (c_users c) \<and> st \<notin> status_types then None
      else Some (c\<lparr>c_users := update_where (\<lambda>x. u_id x = uid)
       (\<lambda>x. x\<lparr>u_status_type := st, u_status_text := cu, u_updated_at := now\<rparr>) (c_users c)\<rparr>)) = Some c'"
  then show "wf_users c'" by (auto split: if_splits intro!: wf_users_update)
qed

lemma wf_team_users:
  "wf_team c \<Longrightarrow> wf_team (snd (create_user u c))" "wf_team c \<Longrightarrow> wf_team (snd (update_user now u c))"
  "wf_team c \<Longrightarrow> wf_team (snd (update_user_status now uid st cu c))"
  unfolding create_user_def update_user_def update_user_status_def
  by (rule exec_cases; auto simp: wf_team_def intro!: refs_intros split: if_splits)+

lemma get_user_by_id_SomeD: "get_user_by_id c uid = Inr (Some u) \<Longrightarrow> u \<in> set (c_users c) \<and> u_id u = uid"
  by (auto simp: get_user_by_id_def optional_query_row stmt_eq_Inr dest!: first_row_SomeD sym [of "Some _"])

end
