(* ===== verification/Api_Base.thy ===== *)
theory Api_Base
  imports Policy
begin

section \<open>Errors and helpers of the HTTP API\<close>

text \<open>
  \<open>error.rs\<close> and \<open>api/helpers.rs\<close>. A handler is an effect on the database with an \<open>AppError\<close> on
  failure; the JSON rendering of the returned value (\<open>json_ok\<close>) is left to \<open>serde\<close>. A join error of
  \<open>spawn_blocking\<close> (a panic of the closure) is outside the model. \<open>authorized_op\<close> is the contract of
  a handler that checks a permission before it does anything else.
\<close>

datatype app_error =
    NotFound string
  | Unauthorized string
  | Forbidden string
  | BadRequest string
  | Conflict string
  | PayloadTooLarge string
  | ServiceUnavailable string
  | BadGateway string
  | Internal string

type_synonym 'a handler = "conn \<Rightarrow> (app_error + 'a) \<times> conn"

definition app_error_status :: "app_error \<Rightarrow> nat" where
  "app_error_status e = (case e of
     NotFound _ \<Rightarrow> 404 | Unauthorized _ \<Rightarrow> 401 | Forbidden _ \<Rightarrow> 403 | BadRequest _ \<Rightarrow> 400
   | Conflict _ \<Rightarrow> 409 | PayloadTooLarge _ \<Rightarrow> 413 | ServiceUnavailable _ \<Rightarrow> 503 | BadGateway _ \<Rightarrow> 502
   | Internal _ \<Rightarrow> 500)"

text \<open>The body of the response: an internal error does not show its message.\<close>

definition app_error_message :: "app_error \<Rightarrow> string" where
  "app_error_message e = (case e of
     NotFound m \<Rightarrow> m | Unauthorized m \<Rightarrow> m | Forbidden m \<Rightarrow> m | BadRequest m \<Rightarrow> m
   | Conflict m \<Rightarrow> m | PayloadTooLarge m \<Rightarrow> m | ServiceUnavailable m \<Rightarrow> m | BadGateway m \<Rightarrow> m
   | Internal m \<Rightarrow> ''internal server error'')"

definition map_db_error :: "db_error \<Rightarrow> app_error" where
  "map_db_error e = (case e of
     InvalidParameterName msg \<Rightarrow> Forbidden msg
   | QueryReturnedNoRows \<Rightarrow> NotFound ''not found''
   | SqliteFailure \<Rightarrow> Internal ''db: SqliteFailure'')"

definition spawn_db :: "'a db_op \<Rightarrow> 'a handler" where
  "spawn_db f c = (case f c of (r, c') \<Rightarrow> (map_err map_db_error r, c'))"

definition map_not_found :: "string \<Rightarrow> app_error \<Rightarrow> app_error" where
  "map_not_found entity e = (case e of NotFound _ \<Rightarrow> NotFound (entity @ '' not found'') | other \<Rightarrow> other)"

text \<open>\<open>.map_err\<close> on the result of a handler.\<close>

definition map_errH :: "(app_error \<Rightarrow> app_error) \<Rightarrow> 'a handler \<Rightarrow> 'a handler" where
  "map_errH g h c = (case h c of (r, c') \<Rightarrow> (map_err g r, c'))"

text \<open>\<open>.ok_or(e)?\<close> on an optional row, and \<open>if cond { return Err(e) }\<close>.\<close>

definition some_or :: "db_error \<Rightarrow> 'a option \<Rightarrow> 'a db_op" where
  "some_or e o1 = (case o1 of None \<Rightarrow> throwS e | Some x \<Rightarrow> returnS x)"

definition refuse_if :: "bool \<Rightarrow> 'e \<Rightarrow> ('s, 'e, unit) effect" where
  "refuse_if b e = (if b then throwS e else returnS ())"

lemma some_or_simps [simp]: "some_or e (Some x) = returnS x" "some_or e None = throwS e"
  by (simp_all add: some_or_def)

lemma refuse_if_simps [simp]: "refuse_if True e = throwS e" "refuse_if False e = returnS ()"
  by (simp_all add: refuse_if_def)

lemma spawn_db_state [simp]: "snd (spawn_db f c) = snd (f c)"
  by (simp add: spawn_db_def split: prod.split)

lemma spawn_db_result: "fst (spawn_db f c) = map_err map_db_error (fst (f c))"
  by (simp add: spawn_db_def split: prod.split)

lemma map_errH_state [simp]: "snd (map_errH g h c) = snd (h c)"
  by (simp add: map_errH_def split: prod.split)

lemma map_errH_result: "fst (map_errH g h c) = map_err g (fst (h c))"
  by (simp add: map_errH_def split: prod.split)

subsection \<open>Permission as a guard\<close>

definition holds_permission :: "conn \<Rightarrow> string \<Rightarrow> string \<Rightarrow> u64 \<Rightarrow> bool" where
  "holds_permission c uid tid perm \<longleftrightarrow> owns_team c uid tid
     \<or> (\<exists>r \<in> set (held_roles c uid tid).
          r_permissions r AND PERM_ADMIN \<noteq> 0 \<or> r_permissions r AND perm \<noteq> 0)"

lemma require_permission_holds: "require_permission c uid tid perm = Inr u \<Longrightarrow> holds_permission c uid tid perm"
  unfolding holds_permission_def by (rule require_permission_InrD)

text \<open>The contract of an operation behind a permission check: refused callers change nothing and get
  an error, and the operation keeps the integrity of the tables.\<close>

definition refuses :: "conn \<Rightarrow> (app_error + 'a) \<times> conn \<Rightarrow> bool" where
  "refuses c r \<longleftrightarrow> snd r = c \<and> (\<exists>e. fst r = Inl e)"

locale authorized_op =
  fixes op :: "'a handler"
    and guard :: "conn \<Rightarrow> bool"
  assumes refused: "\<not> guard c \<Longrightarrow> refuses c (op c)"
    and integrity: "wf_team c \<Longrightarrow> wf_team (snd (op c))"
begin

lemma effect_needs_guard: "snd (op c) \<noteq> c \<Longrightarrow> guard c"
  using refused unfolding refuses_def by blast

lemma success_needs_guard: "fst (op c) = Inr r \<Longrightarrow> guard c"
  using refused unfolding refuses_def by fastforce

end

text \<open>How a handler that begins with \<open>require_permission\<close> meets the first law.\<close>

lemma refuses_guarded:
  assumes "\<not> holds_permission c uid tid perm"
  shows "refuses c (spawn_db (bindS (readS (\<lambda>c. require_permission c uid tid perm)) f) c)"
proof (cases "require_permission c uid tid perm")
  case (Inr u)
  with assms require_permission_holds show ?thesis by blast
qed (simp add: refuses_def spawn_db_result)

lemma refuses_member:
  assumes "\<not> is_member c uid tid"
  shows "refuses c (spawn_db (bindS (readS (\<lambda>c. require_team_member c uid tid)) f) c)"
proof (cases "require_team_member c uid tid")
  case (Inr u)
  with assms require_team_member_InrD show ?thesis by blast
qed (simp add: refuses_def spawn_db_result)

lemma refuses_simps:
  "refuses c (h c) \<Longrightarrow> refuses c (map_errH g h c)"
  "refuses c (Inl e, c)"
  "refuses c x \<Longrightarrow> refuses c y \<Longrightarrow> refuses c (if b then x else y)"
  by (auto simp: refuses_def map_errH_result)

lemmas refuses_intros = refuses_guarded refuses_member refuses_simps

subsection \<open>What a chain of statements keeps\<close>

text \<open>A property of the connection that audit rows do not disturb (the audit statement is the one
  every handler issues). Its \<open>chain\<close> rules follow the shape of a handler down to the writes that are
  specific to it.\<close>

locale kept_property =
  fixes P :: "conn \<Rightarrow> bool"
  assumes audit: "P c \<Longrightarrow> P (snd (insert_audit_event i n t a ac tt ti d c))"
begin

lemma read: "P c \<Longrightarrow> P (snd (readS q c))"
  by simp

lemma ignored: "P (snd (m c)) \<Longrightarrow> P (snd (ignoreS m c))"
  by simp

lemma pure: "P c \<Longrightarrow> P (snd (returnS x c))" "P c \<Longrightarrow> P (snd (throwS e c))"
  "P c \<Longrightarrow> P (snd (refuse_if b e2 c))" "P c \<Longrightarrow> P (snd (some_or e3 o1 c))" "P c \<Longrightarrow> P (snd (r, c))"
  by (auto simp: refuse_if_def some_or_def split: option.split)

lemma branch:
  "(b \<Longrightarrow> P (snd x)) \<Longrightarrow> (\<not> b \<Longrightarrow> P (snd y)) \<Longrightarrow> P (snd (if b then x else y))"
  "(b \<Longrightarrow> P (snd (f c))) \<Longrightarrow> (\<not> b \<Longrightarrow> P (snd (g c))) \<Longrightarrow> P (snd ((if b then f else g) c))"
  by simp_all

lemma branch_option:
  "(o1 = None \<Longrightarrow> P (snd (f c))) \<Longrightarrow> (\<And>x. o1 = Some x \<Longrightarrow> P (snd (g x c)))
   \<Longrightarrow> P (snd ((case o1 of None \<Rightarrow> f | Some x \<Rightarrow> g x) c))"
  by (cases o1) simp_all

lemma wrapped: "P (snd (h c)) \<Longrightarrow> P (snd (map_errH g h c))" "P (snd (f c)) \<Longrightarrow> P (snd (spawn_db f c))"
  by simp_all

text \<open>A check leads on only when it succeeds, and what follows a write may assume what the write
  established.\<close>

lemma guarded: "P c \<Longrightarrow> (\<And>u. chk c = Inr u \<Longrightarrow> P (snd (f u c))) \<Longrightarrow> P (snd (bindS (readS chk) f c))"
  by (cases "chk c") simp_all

lemmas written = bindS_keeps_from [where P = P]

lemmas chain = bindS_keeps [where P = P] for_eachS_keeps [where P = P] read ignored audit pure branch
  branch_option wrapped

end

interpretation team_kept: kept_property wf_team
  by unfold_locales (simp add: wf_audit)

lemmas wf_team_chain = team_kept.chain wf_team_ops

end
