(* ===== verification/Ws_Voice.thy ===== *)
theory Ws_Voice
  imports Ws_Messages User_Store Presence Api_Base
begin

section \<open>WebSocket session: voice\<close>

text \<open>
  \<open>ws/handlers/voice.rs\<close>, the voice part of \<open>ws/handlers/mod.rs\<close> and the handlers of hub and SFU events
  in \<open>main.rs\<close>. The SFU (\<open>webrtc\<close> behind \<open>voice/signaling.rs\<close>) is the parameter \<open>sfu\<close>: absent, or an
  \<open>sfu_port\<close> that answers the calls whose result the handlers read; every call is recorded in \<open>w_sfu\<close>.
\<close>

record sfu_port =
  sp_join :: "string \<Rightarrow> string \<Rightarrow> string option"
  sp_add_screen :: "string \<Rightarrow> string \<Rightarrow> bool"
  sp_add_webcam :: "string \<Rightarrow> string \<Rightarrow> bool"

definition sfu_do :: "sfu_port option \<Rightarrow> sfu_call \<Rightarrow> world \<Rightarrow> world" where
  "sfu_do sfu call w = (case sfu of None \<Rightarrow> w | Some _ \<Rightarrow> w\<lparr>w_sfu := w_sfu w @ [call]\<rparr>)"

text \<open>\<open>if let Some(room_mgr) = &hub.voice_room_manager\<close> around an update.\<close>

definition rooms_do :: "(room_mgr \<Rightarrow> room_mgr) \<Rightarrow> world \<Rightarrow> world" where
  "rooms_do f w = w\<lparr>w_rooms := map_option f (w_rooms w)\<rparr>"

definition verify_channel_team :: "conn \<Rightarrow> string \<Rightarrow> string \<Rightarrow> bool" where
  "verify_channel_team c cid tid =
     unwrap_or (bindE (get_channel_by_id c cid) (\<lambda>channel.
       Inr (case channel of Some ch \<Rightarrow> ch_team_id ch = tid | None \<Rightarrow> False))) False"

definition check_voice_join_access :: "conn \<Rightarrow> string \<Rightarrow> string \<Rightarrow> string \<Rightarrow> bool" where
  "check_voice_join_access c uid tid cid = unwrap_or (user_can_access_channel c uid tid cid) False"

definition voice_user_left :: "string \<Rightarrow> string \<Rightarrow> event" where
  "voice_user_left ch uid = event_new EVENT_VOICE_USER_LEFT (voice_user_left_payload_json ch uid)"

definition deny_voice_join :: "string \<Rightarrow> string \<Rightarrow> world \<Rightarrow> world" where
  "deny_voice_join uid cid = send_to_user uid (event_new EVENT_VOICE_JOIN_DENIED
     (JObj [(''channel_id'', JStr cid), (''reason'', JStr ''no_access'')]))"

subsection \<open>Joining and leaving\<close>

primrec process_eviction ::
  "sfu_port option \<Rightarrow> string \<Rightarrow> string \<Rightarrow> string list \<Rightarrow> world \<Rightarrow> world" where
  "process_eviction sfu client_id uid [] w = w"
| "process_eviction sfu client_id uid (old # olds) w =
     process_eviction sfu client_id uid olds
       (send (Unsubscribe client_id old)
         (sfu_do sfu (SfuLeave old uid)
           (broadcast_to_all (voice_user_left old uid) w)))"

definition broadcast_voice_joined :: "string \<Rightarrow> string \<Rightarrow> string \<Rightarrow> world \<Rightarrow> world" where
  "broadcast_voice_joined cid uid uname = broadcast_to_all
     (event_new EVENT_VOICE_USER_JOINED (voice_user_joined_payload_json cid uid uname))"

definition voice_peer_json :: "voice_peer \<Rightarrow> json" where
  "voice_peer_json p = JObj [(''user_id'', JStr (vp_user_id p)), (''username'', JStr (vp_username p)),
     (''muted'', JBool (vp_muted p)), (''deafened'', JBool (vp_deafened p)),
     (''speaking'', JBool (vp_speaking p)), (''screen_sharing'', JBool (vp_screen_sharing p)),
     (''webcam_sharing'', JBool (vp_webcam_sharing p))]"

definition send_voice_state :: "string \<Rightarrow> string \<Rightarrow> world \<Rightarrow> world" where
  "send_voice_state cid uid w = (case Option.bind (w_rooms w) (\<lambda>rm. get_room rm cid) of
       Some peers \<Rightarrow> send_to_user uid (event_new EVENT_VOICE_STATE
         (JObj [(''channel_id'', JStr cid), (''peers'', JArr (map voice_peer_json peers))])) w
     | None \<Rightarrow> w)"

definition initiate_sfu_join :: "sfu_port option \<Rightarrow> string \<Rightarrow> string \<Rightarrow> world \<Rightarrow> world" where
  "initiate_sfu_join sfu cid uid w = (case sfu of
       None \<Rightarrow> w
     | Some port \<Rightarrow>
         let w' = sfu_do sfu (SfuJoin cid uid) w
         in (case sp_join port cid uid of
               Some offer_sdp \<Rightarrow> send_to_user uid (event_new EVENT_VOICE_OFFER
                 (voice_offer_payload_json cid offer_sdp)) w'
             | None \<Rightarrow> w'))"

definition handle_voice_join ::
  "sfu_port option \<Rightarrow> string \<Rightarrow> string \<Rightarrow> string \<Rightarrow> string \<Rightarrow> voice_join_payload \<Rightarrow> world \<Rightarrow> world" where
  "handle_voice_join sfu client_id uid uname tid p w =
     (let cid = vj_channel_id p in
      if \<not> verify_channel_team (w_conn w) cid tid then w
      else if \<not> check_voice_join_access (w_conn w) uid tid cid then deny_voice_join uid cid w
      else (case w_rooms w of
          None \<Rightarrow> w
        | Some rm \<Rightarrow>
            let (evicted, rm') = add_peer cid uid uname tid rm;
                w = w\<lparr>w_rooms := Some rm'\<rparr>;
                w = process_eviction sfu client_id uid evicted w;
                w = send (Subscribe client_id cid) w;
                w = send (SetVoiceClient client_id cid) w;
                w = broadcast_voice_joined cid uid uname w;
                w = send_voice_state cid uid w;
                w = initiate_sfu_join sfu cid uid w
            in emit (VoiceJoined cid uid tid) w))"

definition handle_voice_invite ::
  "string \<Rightarrow> string \<Rightarrow> string \<Rightarrow> voice_invite_payload \<Rightarrow> world \<Rightarrow> world" where
  "handle_voice_invite uid uname tid p w =
     (let cid = vi_channel_id p in
      if \<not> verify_channel_team (w_conn w) cid tid then w
      else
        let channel_name = (case get_channel_by_id (w_conn w) cid of
              Inr (Some ch) \<Rightarrow> ch_name ch | _ \<Rightarrow> cid)
        in send_to_user (vi_target_user_id p) (event_new EVENT_VOICE_INCOMING_CALL
             (voice_incoming_call_payload_json uid uname cid channel_name)) w)"

definition handle_voice_leave ::
  "sfu_port option \<Rightarrow> string \<Rightarrow> string \<Rightarrow> voice_join_payload \<Rightarrow> world \<Rightarrow> world" where
  "handle_voice_leave sfu client_id uid p w =
     (let cid = vj_channel_id p;
          w = send (ClearVoiceClient client_id) w;
          w = sfu_do sfu (SfuLeave cid uid) w;
          w = rooms_do (remove_peer cid uid) w;
          w = broadcast_to_all (voice_user_left cid uid) w;
          w = send (Unsubscribe client_id cid) w
      in emit (VoiceLeft cid uid) w)"

definition handle_voice_answer :: "sfu_port option \<Rightarrow> string \<Rightarrow> voice_answer_payload \<Rightarrow> world \<Rightarrow> world" where
  "handle_voice_answer sfu uid p = sfu_do sfu (SfuAnswer (va_channel_id p) uid (va_sdp p))"

definition handle_voice_ice_candidate ::
  "sfu_port option \<Rightarrow> string \<Rightarrow> voice_ice_candidate_payload \<Rightarrow> world \<Rightarrow> world" where
  "handle_voice_ice_candidate sfu uid p = sfu_do sfu (SfuIce (vic_channel_id p) uid (vic_candidate p)
     (vic_sdp_mid p) (vic_sdp_mline_index p))"

subsection \<open>Mute and deafen\<close>

text \<open>The peer of a user in a room, as the handlers look it up, and a flag of it (\<open>false\<close> without one).\<close>

definition room_peer :: "room_mgr \<Rightarrow> string \<Rightarrow> string \<Rightarrow> voice_peer option" where
  "room_peer rm cid uid = Option.bind (get_room rm cid) (find (\<lambda>peer. vp_user_id peer = uid))"

definition peer_flag :: "(voice_peer \<Rightarrow> bool) \<Rightarrow> room_mgr \<Rightarrow> string \<Rightarrow> string \<Rightarrow> bool" where
  "peer_flag sel rm cid uid = (case room_peer rm cid uid of Some peer \<Rightarrow> sel peer | None \<Rightarrow> False)"

definition mute_update :: "string \<Rightarrow> string \<Rightarrow> bool \<Rightarrow> bool \<Rightarrow> world \<Rightarrow> world" where
  "mute_update cid uid muted deafened = broadcast_to_all
     (event_new EVENT_VOICE_MUTE_UPDATE (voice_mute_update_payload_json cid uid muted deafened))"

definition handle_voice_mute :: "string \<Rightarrow> voice_mute_payload \<Rightarrow> world \<Rightarrow> world" where
  "handle_voice_mute uid p w = (case w_rooms w of
       None \<Rightarrow> w
     | Some rm \<Rightarrow>
         let rm' = set_muted (vm_channel_id p) uid (vm_muted p) rm
         in mute_update (vm_channel_id p) uid (vm_muted p)
              (peer_flag vp_deafened rm' (vm_channel_id p) uid) (w\<lparr>w_rooms := Some rm'\<rparr>))"

definition handle_voice_deafen :: "string \<Rightarrow> voice_deafen_payload \<Rightarrow> world \<Rightarrow> world" where
  "handle_voice_deafen uid p w = (case w_rooms w of
       None \<Rightarrow> w
     | Some rm \<Rightarrow>
         let cid = vd_channel_id p;
             rm1 = set_deafened cid uid (vd_deafened p) rm;
             rm2 = (if vd_deafened p then set_muted cid uid True rm1 else rm1);
             muted = (if vd_deafened p then True else peer_flag vp_muted rm2 cid uid)
         in mute_update cid uid muted (vd_deafened p) (w\<lparr>w_rooms := Some rm2\<rparr>))"

subsection \<open>Moderation\<close>

definition voice_moderator :: "conn \<Rightarrow> string \<Rightarrow> string \<Rightarrow> bool" where
  "voice_moderator c actor tid = unwrap_or (user_has_permission c actor tid PERM_MUTE_VOICE) False"

definition audit_voice :: "string \<Rightarrow> string \<Rightarrow> string \<Rightarrow> string \<Rightarrow> string \<Rightarrow> string \<Rightarrow> string \<Rightarrow> world \<Rightarrow> world" where
  "audit_voice audit_id now action actor tid target cid w = w\<lparr>w_conn := snd (insert_audit_event audit_id now
     tid (Some actor) action (Some ''user'') (Some target) (Some (JObj [(''channel_id'', JStr cid)])) (w_conn w))\<rparr>"

definition handle_voice_force_mute ::
  "string \<Rightarrow> string \<Rightarrow> string \<Rightarrow> string \<Rightarrow> voice_force_mute_payload \<Rightarrow> world \<Rightarrow> world" where
  "handle_voice_force_mute audit_id now actor tid p w =
     (let cid = vfm_channel_id p; target = vfm_target_user_id p in
      if \<not> verify_channel_team (w_conn w) cid tid then w
      else if \<not> voice_moderator (w_conn w) actor tid then w
      else audit_voice audit_id now ''voice.force_mute'' actor tid target cid
        (case w_rooms w of
           None \<Rightarrow> w
         | Some rm \<Rightarrow>
             let rm' = set_muted cid target True rm
             in mute_update cid target True (peer_flag vp_deafened rm' cid target) (w\<lparr>w_rooms := Some rm'\<rparr>)))"

definition handle_voice_force_disconnect ::
  "sfu_port option \<Rightarrow> string \<Rightarrow> string \<Rightarrow> string \<Rightarrow> string \<Rightarrow> voice_force_disconnect_payload \<Rightarrow> world \<Rightarrow> world" where
  "handle_voice_force_disconnect sfu audit_id now actor tid p w =
     (let cid = vfd_channel_id p; target = vfd_target_user_id p in
      if \<not> verify_channel_team (w_conn w) cid tid then w
      else if \<not> voice_moderator (w_conn w) actor tid then w
      else
        let w = sfu_do sfu (SfuLeave cid target) w;
            w = rooms_do (remove_peer cid target) w;
            w = broadcast_to_all (voice_user_left cid target) w;
            w = send_to_user target (event_new EVENT_VOICE_FORCE_DISCONNECT
                  (JObj [(''channel_id'', JStr cid), (''reason'', JStr ''moderator_action'')])) w
        in audit_voice audit_id now ''voice.force_disconnect'' actor tid target cid w)"

subsection \<open>Latency, screen, webcam, keys\<close>

definition handle_voice_latency :: "string \<Rightarrow> voice_latency_payload \<Rightarrow> world \<Rightarrow> world" where
  "handle_voice_latency uid p = broadcast_to_all (event_new EVENT_VOICE_LATENCY_UPDATE
     (voice_latency_update_payload_json (vl_channel_id p) uid (vl_latency_ms p)))"

text \<open>The start handlers undo the flag when the SFU refuses the track, and stop there.\<close>

definition handle_voice_screen_start :: "sfu_port option \<Rightarrow> string \<Rightarrow> voice_screen_payload \<Rightarrow> world \<Rightarrow> world" where
  "handle_voice_screen_start sfu uid p w =
     (let cid = vs_channel_id p;
          w = rooms_do (set_screen_sharing cid uid True) w;
          w = sfu_do sfu (SfuAddScreen cid uid) w
      in if (case sfu of Some port \<Rightarrow> \<not> sp_add_screen port cid uid | None \<Rightarrow> False)
         then rooms_do (set_screen_sharing cid uid False) w
         else sfu_do sfu (SfuRenegotiate cid) (broadcast_to_all
           (event_new EVENT_VOICE_SCREEN_UPDATE (voice_screen_update_payload_json cid uid True)) w))"

definition handle_voice_screen_stop :: "sfu_port option \<Rightarrow> string \<Rightarrow> voice_screen_payload \<Rightarrow> world \<Rightarrow> world" where
  "handle_voice_screen_stop sfu uid p w =
     (let cid = vs_channel_id p;
          w = rooms_do (set_screen_sharing cid uid False) w;
          w = sfu_do sfu (SfuRemoveScreen cid uid) w
      in sfu_do sfu (SfuRenegotiate cid) (broadcast_to_all
           (event_new EVENT_VOICE_SCREEN_UPDATE (voice_screen_update_payload_json cid uid False)) w))"

definition handle_voice_webcam_start :: "sfu_port option \<Rightarrow> string \<Rightarrow> voice_screen_payload \<Rightarrow> world \<Rightarrow> world" where
  "handle_voice_webcam_start sfu uid p w =
     (let cid = vs_channel_id p;
          w = rooms_do (set_webcam_sharing cid uid True) w;
          w = sfu_do sfu (SfuAddWebcam cid uid) w
      in if (case sfu of Some port \<Rightarrow> \<not> sp_add_webcam port cid uid | None \<Rightarrow> False)
         then rooms_do (set_webcam_sharing cid uid False) w
         else sfu_do sfu (SfuRenegotiate cid) (broadcast_to_all
           (event_new EVENT_VOICE_WEBCAM_UPDATE (voice_webcam_update_payload_json cid uid True)) w))"

definition handle_voice_webcam_stop :: "sfu_port option \<Rightarrow> string \<Rightarrow> voice_screen_payload \<Rightarrow> world \<Rightarrow> world" where
  "handle_voice_webcam_stop sfu uid p w =
     (let cid = vs_channel_id p;
          w = rooms_do (set_webcam_sharing cid uid False) w;
          w = sfu_do sfu (SfuRemoveWebcam cid uid) w
      in sfu_do sfu (SfuRenegotiate cid) (broadcast_to_all
           (event_new EVENT_VOICE_WEBCAM_UPDATE (voice_webcam_update_payload_json cid uid False)) w))"

text \<open>The two key distributions stamp the sender and pass the payload on; neither looks at the
  channel.\<close>

definition handle_voice_key_distribute :: "string \<Rightarrow> string \<Rightarrow> json \<Rightarrow> world \<Rightarrow> world" where
  "handle_voice_key_distribute client_id uid payload w =
     (case parse_voice_key_distribute_payload payload of
        None \<Rightarrow> w
      | Some p \<Rightarrow> broadcast_to_channel (vk_channel_id p) (event_new EVENT_VOICE_KEY_DISTRIBUTE
          (voice_key_distribute_payload_json (vk_channel_id p) uid (vk_key_id p) (vk_encrypted_keys p)))
          (Some client_id) w)"

definition handle_channel_key_distribute :: "string \<Rightarrow> json \<Rightarrow> world \<Rightarrow> world" where
  "handle_channel_key_distribute uid payload w =
     (case parse_channel_key_distribute_payload payload of
        None \<Rightarrow> w
      | Some p \<Rightarrow> broadcast_to_channel (ck_channel_id p) (event_new EVENT_CHANNEL_KEY_DISTRIBUTE
          (channel_key_distribute_payload_json (ck_channel_id p) uid (ck_distribution p))) None w)"

subsection \<open>Dispatch of the voice events\<close>

definition handle_voice_join_leave ::
  "sfu_port option \<Rightarrow> string \<Rightarrow> string \<Rightarrow> string \<Rightarrow> string \<Rightarrow> string \<Rightarrow> json \<Rightarrow> world \<Rightarrow> world" where
  "handle_voice_join_leave sfu client_id uid uname tid event_type payload w =
     (case parse_voice_join_payload payload of
        None \<Rightarrow> w
      | Some p \<Rightarrow> if event_type = EVENT_VOICE_JOIN then handle_voice_join sfu client_id uid uname tid p w
          else handle_voice_leave sfu client_id uid p w)"

definition on_payload :: "'p option \<Rightarrow> ('p \<Rightarrow> world \<Rightarrow> world) \<Rightarrow> world \<Rightarrow> world" where
  "on_payload po h w = (case po of None \<Rightarrow> w | Some p \<Rightarrow> h p w)"

definition handle_voice_signaling :: "sfu_port option \<Rightarrow> string \<Rightarrow> string \<Rightarrow> json \<Rightarrow> world \<Rightarrow> world" where
  "handle_voice_signaling sfu uid event_type payload =
     (if event_type = EVENT_VOICE_ANSWER
        then on_payload (parse_voice_answer_payload payload) (handle_voice_answer sfu uid)
      else if event_type = EVENT_VOICE_ICE_CANDIDATE
        then on_payload (parse_voice_ice_candidate_payload payload) (handle_voice_ice_candidate sfu uid)
      else if event_type = EVENT_VOICE_MUTE
        then on_payload (parse_voice_mute_payload payload) (handle_voice_mute uid)
      else if event_type = EVENT_VOICE_DEAFEN
        then on_payload (parse_voice_deafen_payload payload) (handle_voice_deafen uid)
      else (\<lambda>w. w))"

definition handle_voice_media :: "sfu_port option \<Rightarrow> string \<Rightarrow> string \<Rightarrow> json \<Rightarrow> world \<Rightarrow> world" where
  "handle_voice_media sfu uid event_type payload = on_payload (parse_voice_screen_payload payload) (\<lambda>p.
     if event_type = EVENT_VOICE_SCREEN_START then handle_voice_screen_start sfu uid p
     else if event_type = EVENT_VOICE_SCREEN_STOP then handle_voice_screen_stop sfu uid p
     else if event_type = EVENT_VOICE_WEBCAM_START then handle_voice_webcam_start sfu uid p
     else if event_type = EVENT_VOICE_WEBCAM_STOP then handle_voice_webcam_stop sfu uid p
     else (\<lambda>w. w))"

definition handle_voice_event ::
  "sfu_port option \<Rightarrow> string \<Rightarrow> string \<Rightarrow> string \<Rightarrow> string \<Rightarrow> string \<Rightarrow> string \<Rightarrow> string \<Rightarrow> json \<Rightarrow> world \<Rightarrow> world" where
  "handle_voice_event sfu audit_id now client_id uid uname tid event_type payload =
     (if event_type \<in> {EVENT_VOICE_JOIN, EVENT_VOICE_LEAVE}
        then handle_voice_join_leave sfu client_id uid uname tid event_type payload
      else if event_type \<in> {EVENT_VOICE_ANSWER, EVENT_VOICE_ICE_CANDIDATE, EVENT_VOICE_MUTE, EVENT_VOICE_DEAFEN}
        then handle_voice_signaling sfu uid event_type payload
      else if event_type = EVENT_VOICE_FORCE_MUTE
        then on_payload (parse_voice_force_mute_payload payload) (handle_voice_force_mute audit_id now uid tid)
      else if event_type = EVENT_VOICE_FORCE_DISCONNECT
        then on_payload (parse_voice_force_disconnect_payload payload)
          (handle_voice_force_disconnect sfu audit_id now uid tid)
      else if event_type = EVENT_VOICE_LATENCY
        then on_payload (parse_voice_latency_payload payload) (handle_voice_latency uid)
      else if event_type \<in> {EVENT_VOICE_SCREEN_START, EVENT_VOICE_SCREEN_STOP,
          EVENT_VOICE_WEBCAM_START, EVENT_VOICE_WEBCAM_STOP}
        then handle_voice_media sfu uid event_type payload
      else if event_type = EVENT_VOICE_KEY_DISTRIBUTE then handle_voice_key_distribute client_id uid payload
      else if event_type = EVENT_VOICE_INVITE
        then on_payload (parse_voice_invite_payload payload) (handle_voice_invite uid uname tid)
      else (\<lambda>w. w))"

subsection \<open>Hub events and SFU events\<close>

definition broadcast_voice_left :: "string \<Rightarrow> string \<Rightarrow> world \<Rightarrow> world" where
  "broadcast_voice_left cid uid = broadcast_to_all (voice_user_left cid uid)"

primrec cleanup_each :: "sfu_port option \<Rightarrow> string \<Rightarrow> string list \<Rightarrow> world \<Rightarrow> world" where
  "cleanup_each sfu uid [] w = w"
| "cleanup_each sfu uid (cid # cids) w =
     cleanup_each sfu uid cids (sfu_do sfu (SfuLeave cid uid) (broadcast_voice_left cid uid w))"

definition cleanup_user_voice_state :: "sfu_port option \<Rightarrow> string \<Rightarrow> world \<Rightarrow> world" where
  "cleanup_user_voice_state sfu uid w = (case w_rooms w of
       None \<Rightarrow> w
     | Some rm \<Rightarrow> let (channels, rm') = remove_peer_everywhere uid rm
         in cleanup_each sfu uid channels (w\<lparr>w_rooms := Some rm'\<rparr>))"

definition cleanup_channel_voice_state :: "sfu_port option \<Rightarrow> string \<Rightarrow> string \<Rightarrow> world \<Rightarrow> world" where
  "cleanup_channel_voice_state sfu cid uid w =
     sfu_do sfu (SfuLeave cid uid) (broadcast_voice_left cid uid (rooms_do (remove_peer cid uid) w))"

definition persist_presence_update :: "string \<Rightarrow> string \<Rightarrow> string \<Rightarrow> string \<Rightarrow> world \<Rightarrow> world" where
  "persist_presence_update now uid st cu w = w\<lparr>w_conn := snd (update_user_status now uid st cu (w_conn w))\<rparr>"

text \<open>One event of the hub's stream: the presence manager's part is \<open>presence_event\<close>.\<close>

definition handle_hub_event ::
  "sfu_port option \<Rightarrow> int \<Rightarrow> string \<Rightarrow> hub_event \<Rightarrow> presence_mgr \<times> world \<Rightarrow> presence_mgr \<times> world" where
  "handle_hub_event sfu now_ts now e = (\<lambda>(pm, w). (presence_event now_ts pm e,
     (case e of
        ClientDisconnected uid \<Rightarrow> cleanup_user_voice_state sfu uid w
      | VoiceClientGone client_id uid cid \<Rightarrow> cleanup_channel_voice_state sfu cid uid w
      | PresenceUpdateEv uid st cu \<Rightarrow> persist_presence_update now uid st cu w
      | _ \<Rightarrow> w)))"

datatype sfu_event =
    ICECandidate string string string "string option" "int option"
  | Renegotiate string string string
  | PeerDropped string string

definition voice_ice_candidate_payload_json :: "string \<Rightarrow> string \<Rightarrow> string \<Rightarrow> int \<Rightarrow> json" where
  "voice_ice_candidate_payload_json cid cand mid idx = JObj [(''channel_id'', JStr cid),
     (''candidate'', JStr cand), (''sdp_mid'', JStr mid), (''sdp_mline_index'', JNum idx)]"

definition handle_sfu_event :: "sfu_event \<Rightarrow> world \<Rightarrow> world" where
  "handle_sfu_event e w = (case e of
       ICECandidate cid uid cand mid idx \<Rightarrow> send_to_user uid (event_new EVENT_VOICE_ICE_CANDIDATE
         (voice_ice_candidate_payload_json cid cand (case mid of None \<Rightarrow> [] | Some m \<Rightarrow> m)
           (case idx of None \<Rightarrow> 0 | Some i \<Rightarrow> i))) w
     | Renegotiate cid uid offer \<Rightarrow> send_to_user uid (event_new EVENT_VOICE_OFFER
         (voice_offer_payload_json cid offer)) w
     | PeerDropped cid uid \<Rightarrow> broadcast_to_all (voice_user_left cid uid) (rooms_do (remove_peer cid uid) w))"

subsection \<open>What the steps touch\<close>

lemma sfu_do_sel [simp]:
  "w_conn (sfu_do sfu call w) = w_conn w" "w_rooms (sfu_do sfu call w) = w_rooms w"
  "w_out (sfu_do sfu call w) = w_out w"
  by (simp_all add: sfu_do_def split: option.split)

lemma rooms_do_sel [simp]:
  "w_conn (rooms_do f w) = w_conn w" "w_rooms (rooms_do f w) = map_option f (w_rooms w)"
  "w_out (rooms_do f w) = w_out w"
  by (simp_all add: rooms_do_def)

lemma process_eviction_sel [simp]:
  "w_conn (process_eviction sfu cl uid olds w) = w_conn w"
  "w_rooms (process_eviction sfu cl uid olds w) = w_rooms w"
  by (induction olds arbitrary: w) (simp_all add: send_defs)

lemma cleanup_each_sel [simp]:
  "w_conn (cleanup_each sfu uid cids w) = w_conn w" "w_rooms (cleanup_each sfu uid cids w) = w_rooms w"
  by (induction cids arbitrary: w) (simp_all add: send_defs broadcast_voice_left_def)

lemma send_voice_state_sel [simp]:
  "w_conn (send_voice_state cid uid w) = w_conn w" "w_rooms (send_voice_state cid uid w) = w_rooms w"
  by (simp_all add: send_voice_state_def send_defs split: option.split)

lemma initiate_sfu_join_sel [simp]:
  "w_conn (initiate_sfu_join sfu cid uid w) = w_conn w" "w_rooms (initiate_sfu_join sfu cid uid w) = w_rooms w"
  by (simp_all add: initiate_sfu_join_def send_defs Let_def split: option.split)

lemma audit_voice_sel [simp]:
  "w_rooms (audit_voice a n ac u t x c w) = w_rooms w" "w_out (audit_voice a n ac u t x c w) = w_out w"
  by (simp_all add: audit_voice_def)

lemmas voice_leaf_defs = send_defs voice_user_left_def deny_voice_join_def broadcast_voice_joined_def
  mute_update_def handle_voice_answer_def handle_voice_ice_candidate_def handle_voice_latency_def
  broadcast_voice_left_def

lemma verify_channel_teamD:
  "verify_channel_team c cid tid \<Longrightarrow> \<exists>ch \<in> set (c_channels c). ch_id ch = cid \<and> ch_team_id ch = tid"
  by (cases "get_channel_by_id c cid")
    (auto simp: verify_channel_team_def split: option.splits dest!: get_channel_by_id_SomeD)

lemma voice_moderatorD: "voice_moderator c actor tid \<Longrightarrow> holds_permission c actor tid PERM_MUTE_VOICE"
  unfolding holds_permission_def
  by (rule has_permission_fail_closed)
    (auto simp: voice_moderator_def unwrap_or_def split: sum.splits)

subsection \<open>Effects on the rooms\<close>

text \<open>\<open>rooms_effect A w w'\<close>: the invariant of the room manager is kept, and only memberships
  \<open>(channel, user)\<close> with \<open>A channel user\<close> may differ.\<close>

definition rooms_effect :: "(string \<Rightarrow> string \<Rightarrow> bool) \<Rightarrow> world \<Rightarrow> world \<Rightarrow> bool" where
  "rooms_effect A w w' \<longleftrightarrow> (case w_rooms w of
       None \<Rightarrow> w_rooms w' = None
     | Some rm \<Rightarrow> (\<exists>rm'. w_rooms w' = Some rm' \<and> (room_inv rm \<longrightarrow> room_inv rm' \<and>
         (\<forall>c u. \<not> A c u \<longrightarrow> peer_in rm' c u = peer_in rm c u))))"

lemma rooms_effect_same: "w_rooms w' = w_rooms w \<Longrightarrow> rooms_effect A w w'"
  by (auto simp: rooms_effect_def split: option.split)

lemma rooms_effect_map:
  assumes "w_rooms w' = map_option f (w_rooms w)"
    and "\<And>rm. room_inv rm \<Longrightarrow> room_inv (f rm) \<and> (\<forall>c u. \<not> A c u \<longrightarrow> peer_in (f rm) c u = peer_in rm c u)"
  shows "rooms_effect A w w'"
  using assms by (auto simp: rooms_effect_def split: option.split)

lemma rooms_effect_weaken: "rooms_effect A w w' \<Longrightarrow> (\<And>c u. A c u \<Longrightarrow> B c u) \<Longrightarrow> rooms_effect B w w'"
  by (fastforce simp: rooms_effect_def split: option.splits)

lemma room_inv_ops:
  assumes "room_inv rm"
  shows "room_inv (snd (add_peer ch uid uname tid rm))" "room_inv (remove_peer ch uid rm)"
    "room_inv (snd (remove_peer_everywhere uid rm))" "room_inv (set_muted ch uid b rm)"
    "room_inv (set_deafened ch uid b rm)" "room_inv (set_screen_sharing ch uid b rm)"
    "room_inv (set_webcam_sharing ch uid b rm)"
  using room_inv_step [OF assms, of "AddPeer ch uid uname tid"] room_inv_step [OF assms, of "RemovePeer ch uid"]
    room_inv_step [OF assms, of "RemovePeerEverywhere uid"] room_inv_step [OF assms, of "SetMuted ch uid b"]
    room_inv_step [OF assms, of "SetDeafened ch uid b"] room_inv_step [OF assms, of "SetScreenSharing ch uid b"]
    room_inv_step [OF assms, of "SetWebcamSharing ch uid b"] by simp_all

text \<open>Nobody else's membership moves.\<close>

lemma peer_in_others:
  "u \<noteq> uid \<Longrightarrow> room_inv rm \<Longrightarrow> peer_in (snd (add_peer ch uid uname tid rm)) c u = peer_in rm c u"
  "u \<noteq> uid \<Longrightarrow> peer_in (remove_peer ch uid rm) c u = peer_in rm c u"
  "u \<noteq> uid \<Longrightarrow> peer_in (set_muted ch uid b rm) c u = peer_in rm c u"
  "u \<noteq> uid \<Longrightarrow> peer_in (set_deafened ch uid b rm) c u = peer_in rm c u"
  "u \<noteq> uid \<Longrightarrow> peer_in (set_screen_sharing ch uid b rm) c u = peer_in rm c u"
  "u \<noteq> uid \<Longrightarrow> peer_in (set_webcam_sharing ch uid b rm) c u = peer_in rm c u"
  by (simp_all add: room_inv_def peer_in_add_peer peer_in_remove_peer peer_in_upd_peer set_flag_defs)

abbreviation own :: "string \<Rightarrow> string \<Rightarrow> string \<Rightarrow> bool" where
  "own uid \<equiv> (\<lambda>c u. u = uid)"

lemma voice_join_rooms: "rooms_effect (own uid) w (handle_voice_join sfu cl uid uname tid p w)"
proof (cases "w_rooms w")
  case None
  then show ?thesis
    by (simp add: rooms_effect_def handle_voice_join_def voice_leaf_defs Let_def)
next
  case (Some rm)
  have "w_rooms (handle_voice_join sfu cl uid uname tid p w) = w_rooms w
      \<or> w_rooms (handle_voice_join sfu cl uid uname tid p w)
          = map_option (\<lambda>rm. snd (add_peer (vj_channel_id p) uid uname tid rm)) (w_rooms w)"
    by (simp add: handle_voice_join_def voice_leaf_defs Some Let_def split: prod.split)
  then show ?thesis
  proof
    assume "w_rooms (handle_voice_join sfu cl uid uname tid p w)
      = map_option (\<lambda>rm. snd (add_peer (vj_channel_id p) uid uname tid rm)) (w_rooms w)"
    then show ?thesis
      by (rule rooms_effect_map) (simp add: room_inv_ops peer_in_others)
  qed (rule rooms_effect_same)
qed

lemma voice_leave_rooms: "rooms_effect (own uid) w (handle_voice_leave sfu cl uid p w)"
  by (rule rooms_effect_map [where f = "remove_peer (vj_channel_id p) uid"])
    (auto simp: handle_voice_leave_def voice_leaf_defs Let_def room_inv_ops peer_in_others)

lemma voice_mute_rooms: "rooms_effect (own uid) w (handle_voice_mute uid p w)"
  by (rule rooms_effect_map [where f = "set_muted (vm_channel_id p) uid (vm_muted p)"])
    (auto simp: handle_voice_mute_def voice_leaf_defs Let_def room_inv_ops peer_in_others split: option.split)

lemma voice_deafen_rooms: "rooms_effect (own uid) w (handle_voice_deafen uid p w)"
  by (rule rooms_effect_map [where f = "\<lambda>rm. let rm1 = set_deafened (vd_channel_id p) uid (vd_deafened p) rm
        in if vd_deafened p then set_muted (vd_channel_id p) uid True rm1 else rm1"])
    (auto simp: handle_voice_deafen_def voice_leaf_defs Let_def room_inv_ops peer_in_others split: option.split)

lemma voice_media_rooms: "rooms_effect (own uid) w (handle_voice_media sfu uid ty payload w)"
proof -
  have screen: "room_inv rm \<Longrightarrow> room_inv (set_screen_sharing c uid b rm)
      \<and> (\<forall>d u. u \<noteq> uid \<longrightarrow> peer_in (set_screen_sharing c uid b rm) d u = peer_in rm d u)" for rm c b
    by (simp add: room_inv_ops peer_in_others)
  have webcam: "room_inv rm \<Longrightarrow> room_inv (set_webcam_sharing c uid b rm)
      \<and> (\<forall>d u. u \<noteq> uid \<longrightarrow> peer_in (set_webcam_sharing c uid b rm) d u = peer_in rm d u)" for rm c b
    by (simp add: room_inv_ops peer_in_others)
  have start: "rooms_effect (own uid) w (handle_voice_screen_start sfu uid p w)"
    "rooms_effect (own uid) w (handle_voice_webcam_start sfu uid p w)" for p
    using screen webcam by (auto simp: rooms_effect_def handle_voice_screen_start_def handle_voice_webcam_start_def
        voice_leaf_defs Let_def split: option.split)
  have stop: "rooms_effect (own uid) w (handle_voice_screen_stop sfu uid p w)"
    "rooms_effect (own uid) w (handle_voice_webcam_stop sfu uid p w)" for p
    using screen webcam by (auto simp: rooms_effect_def handle_voice_screen_stop_def handle_voice_webcam_stop_def
        voice_leaf_defs Let_def split: option.split)
  show ?thesis
    using start stop rooms_effect_same
    by (cases "parse_voice_screen_payload payload") (auto simp: handle_voice_media_def on_payload_def)
qed

text \<open>A moderator reaches others, in channels of the own team.\<close>

definition moderates :: "conn \<Rightarrow> string \<Rightarrow> string \<Rightarrow> string \<Rightarrow> bool" where
  "moderates c actor tid cid \<longleftrightarrow> holds_permission c actor tid PERM_MUTE_VOICE
     \<and> (\<exists>ch \<in> set (c_channels c). ch_id ch = cid \<and> ch_team_id ch = tid)"

lemma force_rooms:
  "rooms_effect (\<lambda>c u. moderates (w_conn w) actor tid c) w (handle_voice_force_mute a now actor tid fp w)"
  "rooms_effect (\<lambda>c u. moderates (w_conn w) actor tid c) w (handle_voice_force_disconnect sfu a now actor tid dp w)"
proof -
  have muted: "room_inv rm \<Longrightarrow> room_inv (set_muted c t True rm)
      \<and> (\<forall>d u. d \<noteq> c \<longrightarrow> peer_in (set_muted c t True rm) d u = peer_in rm d u)" for rm c t
    by (auto simp: room_inv_ops) (simp add: set_muted_def peer_in_upd_peer)
  have removed: "room_inv rm \<Longrightarrow> room_inv (remove_peer c t rm)
      \<and> (\<forall>d u. d \<noteq> c \<longrightarrow> peer_in (remove_peer c t rm) d u = peer_in rm d u)" for rm c t
    by (auto simp: room_inv_ops peer_in_remove_peer)
  show "rooms_effect (\<lambda>c u. moderates (w_conn w) actor tid c) w (handle_voice_force_mute a now actor tid fp w)"
  proof (cases "verify_channel_team (w_conn w) (vfm_channel_id fp) tid \<and> voice_moderator (w_conn w) actor tid")
    case True
    then have "moderates (w_conn w) actor tid (vfm_channel_id fp)"
      by (auto simp: moderates_def dest: verify_channel_teamD voice_moderatorD)
    with True muted show ?thesis
      by (intro rooms_effect_map [where f = "set_muted (vfm_channel_id fp) (vfm_target_user_id fp) True"])
        (simp_all add: handle_voice_force_mute_def voice_leaf_defs Let_def split: option.split, metis)
  qed (auto simp: handle_voice_force_mute_def Let_def intro: rooms_effect_same)
  show "rooms_effect (\<lambda>c u. moderates (w_conn w) actor tid c) w (handle_voice_force_disconnect sfu a now actor tid dp w)"
  proof (cases "verify_channel_team (w_conn w) (vfd_channel_id dp) tid \<and> voice_moderator (w_conn w) actor tid")
    case True
    then have "moderates (w_conn w) actor tid (vfd_channel_id dp)"
      by (auto simp: moderates_def dest: verify_channel_teamD voice_moderatorD)
    with True removed show ?thesis
      by (intro rooms_effect_map [where f = "remove_peer (vfd_channel_id dp) (vfd_target_user_id dp)"])
        (simp_all add: handle_voice_force_disconnect_def voice_leaf_defs Let_def, metis)
  qed (auto simp: handle_voice_force_disconnect_def Let_def intro: rooms_effect_same)
qed

abbreviation may_touch :: "conn \<Rightarrow> string \<Rightarrow> string \<Rightarrow> string \<Rightarrow> string \<Rightarrow> bool" where
  "may_touch c uid tid \<equiv> (\<lambda>ch u. u = uid \<or> moderates c uid tid ch)"

lemma rooms_effect_if:
  "(b \<Longrightarrow> rooms_effect A w (f w)) \<Longrightarrow> (\<not> b \<Longrightarrow> rooms_effect A w (g w)) \<Longrightarrow> rooms_effect A w ((if b then f else g) w)"
  by simp

lemma rooms_effect_payload: "(\<And>p. rooms_effect A w (h p w)) \<Longrightarrow> rooms_effect A w (on_payload po h w)"
  by (cases po) (simp_all add: on_payload_def rooms_effect_same)

lemma rooms_effect_refl: "rooms_effect A w w"
  by (rule rooms_effect_same) simp

lemmas rooms_effect_dispatch = rooms_effect_if rooms_effect_payload rooms_effect_refl

lemma voice_others_rooms:
  "rooms_effect A w (handle_voice_answer sfu uid ap w)" "rooms_effect A w (handle_voice_ice_candidate sfu uid ip w)"
  "rooms_effect A w (handle_voice_latency uid lp w)" "rooms_effect A w (handle_voice_invite uid uname tid vp w)"
  "rooms_effect A w (handle_voice_key_distribute cl uid payload w)"
  by (rule rooms_effect_same, simp add: handle_voice_answer_def handle_voice_ice_candidate_def
      handle_voice_latency_def handle_voice_invite_def handle_voice_key_distribute_def send_defs Let_def
      split: option.split)+

lemma voice_signaling_rooms: "rooms_effect (own uid) w (handle_voice_signaling sfu uid ty payload w)"
  unfolding handle_voice_signaling_def
  by (intro rooms_effect_dispatch voice_others_rooms voice_mute_rooms voice_deafen_rooms)

lemma voice_join_leave_rooms: "rooms_effect (own uid) w (handle_voice_join_leave sfu cl uid uname tid ty payload w)"
  using voice_join_rooms voice_leave_rooms rooms_effect_refl
  by (simp add: handle_voice_join_leave_def split: option.split)

lemma voice_event_rooms:
  "rooms_effect (may_touch (w_conn w) uid tid) w (handle_voice_event sfu a now cl uid uname tid ty payload w)"
  unfolding handle_voice_event_def
  by (intro rooms_effect_dispatch voice_others_rooms
      rooms_effect_weaken [where A = "own uid", OF voice_join_leave_rooms]
      rooms_effect_weaken [where A = "own uid", OF voice_signaling_rooms]
      rooms_effect_weaken [where A = "own uid", OF voice_media_rooms]
      rooms_effect_weaken [OF force_rooms(1)] rooms_effect_weaken [OF force_rooms(2)])
    simp_all

text \<open>The events of the hub and of the SFU act for the user they name.\<close>

lemma rooms_everywhere: "room_inv rm \<Longrightarrow> room_inv (snd (remove_peer_everywhere uid rm))
    \<and> (\<forall>c u. peer_in (snd (remove_peer_everywhere uid rm)) c u = (if u = uid then None else peer_in rm c u))"
  using room_inv_ops(3) [of rm uid] by (simp add: remove_everywhere_eq room_inv_def peer_in_evict_all)

lemma hub_event_rooms:
  "rooms_effect (\<lambda>c u. e = ClientDisconnected u \<or> (\<exists>i. e = VoiceClientGone i u c)) w
     (snd (handle_hub_event sfu now_ts now e (pm, w)))"
proof (cases e)
  case (ClientDisconnected uid)
  have "w_rooms (cleanup_user_voice_state sfu uid w)
      = map_option (\<lambda>rm. snd (remove_peer_everywhere uid rm)) (w_rooms w)"
    by (simp add: cleanup_user_voice_state_def split: option.split prod.split)
  then show ?thesis
    using ClientDisconnected rooms_everywhere
    by (intro rooms_effect_map [where f = "\<lambda>rm. snd (remove_peer_everywhere uid rm)"])
      (simp_all add: handle_hub_event_def)
next
  case (VoiceClientGone i uid cid)
  then show ?thesis
    by (intro rooms_effect_map [where f = "remove_peer cid uid"])
      (simp_all add: handle_hub_event_def cleanup_channel_voice_state_def broadcast_voice_left_def send_defs
        room_inv_ops peer_in_remove_peer)
qed (simp_all add: handle_hub_event_def rooms_effect_same persist_presence_update_def)

lemma sfu_event_rooms: "rooms_effect (\<lambda>c u. e = PeerDropped c u) w (handle_sfu_event e w)"
proof (cases e)
  case (PeerDropped cid uid)
  then show ?thesis
    by (intro rooms_effect_map [where f = "remove_peer cid uid"])
      (simp_all add: handle_sfu_event_def send_defs room_inv_ops peer_in_remove_peer)
qed (simp_all add: handle_sfu_event_def send_defs rooms_effect_same)

subsection \<open>The voice server as a machine\<close>

text \<open>Every input that moves the rooms: a client's voice event (of any type and payload), an event of
  the hub's stream, an event of the SFU. The presence manager does not matter here.\<close>

datatype voice_input =
    FromClient string string string string string string json
  | FromHub hub_event
  | FromSfu sfu_event

fun voice_step :: "sfu_port option \<Rightarrow> string \<Rightarrow> world \<Rightarrow> voice_input \<Rightarrow> world" where
  "voice_step sfu now w (FromClient a cl uid uname tid ty payload) =
     handle_voice_event sfu a now cl uid uname tid ty payload w"
| "voice_step sfu now w (FromHub e) = snd (handle_hub_event sfu 0 now e (presence_new, w))"
| "voice_step sfu now w (FromSfu e) = handle_sfu_event e w"

definition rooms_inv :: "world \<Rightarrow> bool" where
  "rooms_inv w \<longleftrightarrow> (case w_rooms w of None \<Rightarrow> True | Some rm \<Rightarrow> room_inv rm)"

lemma rooms_effect_inv: "rooms_effect A w w' \<Longrightarrow> rooms_inv w \<Longrightarrow> rooms_inv w'"
  by (auto simp: rooms_effect_def rooms_inv_def split: option.splits)

interpretation voice_machine: invariant_machine "voice_step sfu now" "\<lambda>_ _. True" rooms_inv
    "\<lparr>w_conn = c, w_rooms = Some room_new, w_out = [], w_sfu = []\<rparr>"
  for sfu now c
proof unfold_locales
  show "rooms_inv \<lparr>w_conn = c, w_rooms = Some room_new, w_out = [], w_sfu = []\<rparr>"
    by (simp add: rooms_inv_def room_inv_new)
next
  fix w e
  assume "rooms_inv w"
  then show "rooms_inv (voice_step sfu now w e)"
    by (cases e) (auto intro: rooms_effect_inv voice_event_rooms hub_event_rooms sfu_event_rooms)
qed

subsection \<open>Properties\<close>

text \<open>C23. The voice rooms of a running server stay consistent: after any sequence of client voice events,
  hub events and SFU events, each user is in at most one room, no room is empty, and exactly the existing
  rooms have a team.\<close>

theorem voice_server_consistent:
  assumes "w_rooms (run (voice_step sfu now) \<lparr>w_conn = c, w_rooms = Some room_new, w_out = [], w_sfu = []\<rparr> es)
    = Some rm"
  shows "(\<forall>u c1 c2. peer_in rm c1 u \<noteq> None \<and> peer_in rm c2 u \<noteq> None \<longrightarrow> c1 = c2)
    \<and> (\<forall>ch. map_of (rm_rooms rm) ch \<noteq> Some [])
    \<and> (\<forall>ch. map_of (rm_teams rm) ch = None \<longleftrightarrow> map_of (rm_rooms rm) ch = None)"
proof -
  have "room_inv rm"
    using voice_machine.reachable_inv [of sfu now c es] assms by (simp add: rooms_inv_def)
  then show ?thesis by (fastforce simp: room_inv_def room_wf_def single_room_def peers_ok_def)
qed

theorem voice_server_consistent_witness:
  "\<not> (\<exists>ch. ch \<noteq> ''ch'' \<and> peer_in (snd (add_peer ''ch'' ''bob'' ''Bob'' ''t'' room_new)) ch ''bob'' \<noteq> None)"
proof -
  let ?rm = "snd (add_peer ''ch'' ''bob'' ''Bob'' ''t'' room_new)"
  have "w_rooms (run (voice_step None ''now'') \<lparr>w_conn = sample_conn, w_rooms = Some room_new, w_out = [], w_sfu = []\<rparr>
      [FromClient ''a'' ''c'' ''bob'' ''Bob'' ''t'' EVENT_VOICE_JOIN (JObj [(''channel_id'', JStr ''ch'')]),
       FromHub (ClientDisconnected ''eve'')]) = Some ?rm"
    by code_simp
  moreover have "peer_in ?rm ''ch'' ''bob'' \<noteq> None"
    by code_simp
  ultimately show ?thesis
    using voice_server_consistent by blast
qed

text \<open>C24. A client's voice event, whatever its type and payload, changes the voice membership or flags of
  nobody but the client's own user, unless that user owns the channel's team or holds a role with the
  mute-voice (or administrator) bit there; and then only in channels of the own team.\<close>

theorem voice_event_confined:
  assumes "w_rooms w = Some rm" and "room_inv rm"
    and "w_rooms (handle_voice_event sfu a now cl uid uname tid ty payload w) = Some rm'"
    and "peer_in rm' cid u \<noteq> peer_in rm cid u"
  shows "u = uid \<or> holds_permission (w_conn w) uid tid PERM_MUTE_VOICE
    \<and> (\<exists>ch \<in> set (c_channels (w_conn w)). ch_id ch = cid \<and> ch_team_id ch = tid)"
  using voice_event_rooms [where w = w and uid = uid and tid = tid and sfu = sfu and a = a and now = now
      and cl = cl and uname = uname and ty = ty and payload = payload] assms
  by (auto simp: rooms_effect_def moderates_def)

definition sample_voice :: world where
  "sample_voice = \<lparr>w_conn = sample_conn\<lparr>c_roles := map (\<lambda>r. r\<lparr>r_permissions := PERM_MUTE_VOICE\<rparr>) (c_roles sample_conn)\<rparr>,
     w_rooms = Some (snd (add_peer ''ch'' ''eve'' ''Eve'' ''t'' room_new)), w_out = [], w_sfu = []\<rparr>"

definition force_eve :: json where
  "force_eve = JObj [(''channel_id'', JStr ''ch''), (''target_user_id'', JStr ''eve'')]"

theorem voice_event_confined_witness:
  "holds_permission (w_conn sample_voice) ''bob'' ''t'' PERM_MUTE_VOICE"
proof -
  let ?w' = "handle_voice_event None ''a'' ''now'' ''c'' ''bob'' ''Bob'' ''t'' EVENT_VOICE_FORCE_DISCONNECT force_eve sample_voice"
  have rm: "w_rooms sample_voice = Some (snd (add_peer ''ch'' ''eve'' ''Eve'' ''t'' room_new))"
    by (simp add: sample_voice_def)
  have inv: "room_inv (snd (add_peer ''ch'' ''eve'' ''Eve'' ''t'' room_new))"
    by (rule room_inv_ops(1) [OF room_inv_new])
  have after: "w_rooms ?w' = Some room_new" and diff: "peer_in room_new ''ch'' ''eve''
      \<noteq> peer_in (snd (add_peer ''ch'' ''eve'' ''Eve'' ''t'' room_new)) ''ch'' ''eve''"
    by code_simp+
  from voice_event_confined [OF rm inv after diff] show ?thesis by simp
qed

text \<open>Closing one tab ends the voice session of another: when two live connections of a user hold the
  voice tag of the same channel, closing the first emits \<open>VoiceClientGone\<close>, and the handler of that event
  removes the user from the room although the second connection still holds its tag.\<close>

theorem closing_tab_ends_other_session:
  assumes "h_clients h c1 = Some cl1" and "h_clients h c2 = Some cl2" and "c1 \<noteq> c2"
    and "cl_user_id cl1 = u" and "cl_user_id cl2 = u"
    and "h_voice_clients h c1 = Some ch" and "h_voice_clients h c2 = Some ch"
    and "w_rooms w = Some rm"
  shows "VoiceClientGone c1 u ch \<in> set (h_events (hub_step h (Unregister c1)))
    \<and> h_clients (hub_step h (Unregister c1)) c2 = Some cl2
    \<and> h_voice_clients (hub_step h (Unregister c1)) c2 = Some ch
    \<and> (\<exists>rm'. w_rooms (snd (handle_hub_event sfu n now (VoiceClientGone c1 u ch) (pm, w))) = Some rm'
        \<and> peer_in rm' ch u = None)"
  using assms
  by (simp add: hub_unregister_def drop_from_index_events handle_hub_event_def cleanup_channel_voice_state_def
      broadcast_voice_left_def send_defs peer_in_remove_peer)

definition sample_tabs :: hub where
  "sample_tabs = run hub_step hub_new
     [Register \<lparr>cl_id = ''c1'', cl_user_id = ''u'', cl_username = ''U'', cl_team_id = ''t''\<rparr>,
      Register \<lparr>cl_id = ''c2'', cl_user_id = ''u'', cl_username = ''U'', cl_team_id = ''t''\<rparr>,
      SetVoiceClient ''c1'' ''ch'', SetVoiceClient ''c2'' ''ch'']"

theorem closing_tab_ends_other_session_witness:
  "h_voice_clients (hub_step sample_tabs (Unregister ''c1'')) ''c2'' = Some ''ch''"
proof -
  let ?cl = "\<lambda>i. \<lparr>cl_id = i, cl_user_id = ''u'', cl_username = ''U'', cl_team_id = ''t''\<rparr>"
  have h: "h_clients sample_tabs ''c1'' = Some (?cl ''c1'')" "h_clients sample_tabs ''c2'' = Some (?cl ''c2'')"
    "h_voice_clients sample_tabs ''c1'' = Some ''ch''" "h_voice_clients sample_tabs ''c2'' = Some ''ch''"
    by (simp_all add: sample_tabs_def hub_register_def Let_def hub_new_def)
  have rm: "w_rooms sample_voice = Some (snd (add_peer ''ch'' ''eve'' ''Eve'' ''t'' room_new))"
    by (simp add: sample_voice_def)
  show ?thesis
    using closing_tab_ends_other_session [OF h(1,2) _ _ _ h(3,4) rm, where u = "''u''"] by simp
qed

text \<open>What joining a voice channel does. An unknown channel, one of another team or one the caller may
  not read leaves the server unchanged but for one denial to the caller; otherwise the caller ends up in
  that room alone, the hub is told (in this order) to announce and unsubscribe every room left, to
  subscribe and tag the connection and to announce the join, and everybody else keeps their place.\<close>

theorem voice_join_effect:
  assumes "w_rooms w = Some rm" and "room_inv rm"
  shows "if verify_channel_team (w_conn w) cid tid \<and> check_voice_join_access (w_conn w) uid tid cid
    then (\<exists>rm' rest. w_rooms (handle_voice_join sfu cl uid uname tid \<lparr>vj_channel_id = cid\<rparr> w) = Some rm'
        \<and> (\<forall>c u. peer_in rm' c u = (if u = uid then if c = cid then Some (fresh_peer uid uname) else None
              else peer_in rm c u))
        \<and> w_out (handle_voice_join sfu cl uid uname tid \<lparr>vj_channel_id = cid\<rparr> w) = w_out w
            @ concat (map (\<lambda>old. [BroadcastAll (voice_user_left old uid), Unsubscribe cl old])
                (fst (add_peer cid uid uname tid rm)))
            @ [Subscribe cl cid, SetVoiceClient cl cid,
               BroadcastAll (event_new EVENT_VOICE_USER_JOINED (voice_user_joined_payload_json cid uid uname))]
            @ rest)
    else w_rooms (handle_voice_join sfu cl uid uname tid \<lparr>vj_channel_id = cid\<rparr> w) = Some rm
      \<and> set (w_out (handle_voice_join sfu cl uid uname tid \<lparr>vj_channel_id = cid\<rparr> w)) - set (w_out w)
          \<subseteq> {DirectMsg uid (event_new EVENT_VOICE_JOIN_DENIED
                (JObj [(''channel_id'', JStr cid), (''reason'', JStr ''no_access'')]))}"
proof (cases "verify_channel_team (w_conn w) cid tid \<and> check_voice_join_access (w_conn w) uid tid cid")
  case True
  have evict: "w_out (process_eviction sfu cl uid olds w0) = w_out w0
      @ concat (map (\<lambda>old. [BroadcastAll (voice_user_left old uid), Unsubscribe cl old]) olds)" for olds w0
    by (induction olds arbitrary: w0) (simp_all add: send_defs)
  have tail: "\<exists>rest. w_out (emit e (initiate_sfu_join sfu cid uid (send_voice_state cid uid w0))) = w_out w0 @ rest" for e w0
    by (simp add: initiate_sfu_join_def send_voice_state_def send_defs Let_def split: option.split)
  obtain evicted rm' where add: "add_peer cid uid uname tid rm = (evicted, rm')" by fastforce
  let ?w1 = "broadcast_voice_joined cid uid uname (send (SetVoiceClient cl cid) (send (Subscribe cl cid)
      (process_eviction sfu cl uid evicted (w\<lparr>w_rooms := Some rm'\<rparr>))))"
  have eq: "handle_voice_join sfu cl uid uname tid \<lparr>vj_channel_id = cid\<rparr> w
      = emit (VoiceJoined cid uid tid) (initiate_sfu_join sfu cid uid (send_voice_state cid uid ?w1))"
    using True assms(1) add by (simp add: handle_voice_join_def Let_def)
  obtain rest where "w_out (handle_voice_join sfu cl uid uname tid \<lparr>vj_channel_id = cid\<rparr> w) = w_out ?w1 @ rest"
    using tail eq by metis
  moreover have "w_rooms (handle_voice_join sfu cl uid uname tid \<lparr>vj_channel_id = cid\<rparr> w) = Some rm'"
    by (simp add: eq voice_leaf_defs)
  moreover have "peer_in rm' c u = (if u = uid then if c = cid then Some (fresh_peer uid uname) else None
      else peer_in rm c u)" for c u
    using peer_in_add_peer [of rm cid uid uname tid c u] assms(2) add by (simp add: room_inv_def)
  ultimately show ?thesis
    using True by (simp add: evict broadcast_voice_joined_def send_defs add)
next
  case False
  then show ?thesis
    using assms(1) by (auto simp: handle_voice_join_def deny_voice_join_def send_defs Let_def)
qed

theorem voice_join_effect_witness:
  "\<exists>rm'. w_rooms (handle_voice_join None ''c'' ''bob'' ''Bob'' ''t'' \<lparr>vj_channel_id = ''ch''\<rparr> sample_voice) = Some rm'
     \<and> peer_in rm' ''ch'' ''bob'' = Some (fresh_peer ''bob'' ''Bob'')"
proof -
  have rm: "w_rooms sample_voice = Some (snd (add_peer ''ch'' ''eve'' ''Eve'' ''t'' room_new))"
    by (simp add: sample_voice_def)
  have inv: "room_inv (snd (add_peer ''ch'' ''eve'' ''Eve'' ''t'' room_new))"
    by (rule room_inv_ops(1) [OF room_inv_new])
  have ok: "verify_channel_team (w_conn sample_voice) ''ch'' ''t''
      \<and> check_voice_join_access (w_conn sample_voice) ''bob'' ''t'' ''ch''"
    by code_simp
  show ?thesis
    using voice_join_effect [OF rm inv, of "''ch''" "''t''" "''bob''" None "''c''" "''Bob''"] ok by auto
qed

end
