(* ===== verification/Ws_Social.thy ===== *)
theory Ws_Social
  imports Ws_Voice
begin

section \<open>WebSocket session: reactions, threads, direct messages, read marks\<close>

text \<open>
  \<open>ws/handlers/reaction.rs\<close>, \<open>thread.rs\<close>, \<open>dm.rs\<close> and \<open>read.rs\<close> with the statements of
  \<open>db/reaction_queries.rs\<close> and \<open>mark_channel_read\<close>. The clock returns one value \<open>now\<close> within one event;
  \<open>new_id\<close> is what \<open>db::new_id\<close> returns.
\<close>

subsection \<open>Statements\<close>

text \<open>\<open>INSERT OR IGNORE\<close>: a duplicate id or a duplicate \<open>(message, user, emoji)\<close> is ignored, a missing
  message or user is a foreign-key error.\<close>

definition add_reaction :: "string \<Rightarrow> string \<Rightarrow> string \<Rightarrow> string \<Rightarrow> string \<Rightarrow> reaction db_op" where
  "add_reaction new_id now mid uid emoji =
     (let row = \<lparr>rx_id = new_id, rx_message_id = mid, rx_user_id = uid, rx_emoji = emoji, rx_created_at = now\<rparr>
      in bindS (exec ''add_reaction'' (\<lambda>c.
           if list_ex (\<lambda>r. rx_id r = new_id \<or> reaction.rx_message_id r = mid \<and> rx_user_id r = uid
                \<and> reaction.rx_emoji r = emoji) (c_reactions c) then Some c
           else if mid \<notin> msg_id ` set (c_messages c) \<or> uid \<notin> u_id ` set (c_users c) then None
           else Some (c\<lparr>c_reactions := c_reactions c @ [row]\<rparr>))) (\<lambda>_. returnS row))"

definition remove_reaction :: "string \<Rightarrow> string \<Rightarrow> string \<Rightarrow> unit db_op" where
  "remove_reaction mid uid emoji = exec ''remove_reaction'' (\<lambda>c.
     Some (c\<lparr>c_reactions := delete_where (\<lambda>r. reaction.rx_message_id r = mid \<and> rx_user_id r = uid
       \<and> reaction.rx_emoji r = emoji) (c_reactions c)\<rparr>))"

text \<open>Groups in the order of their first reaction.\<close>

fun group_reaction :: "reaction_group list \<Rightarrow> string \<times> string \<Rightarrow> reaction_group list" where
  "group_reaction [] (emoji, uid) = [\<lparr>rg_emoji = emoji, rg_count = 1, rg_users = [uid]\<rparr>]"
| "group_reaction (g # gs) (emoji, uid) =
     (if rg_emoji g = emoji then g\<lparr>rg_count := rg_count g + 1, rg_users := rg_users g @ [uid]\<rparr> # gs
      else g # group_reaction gs (emoji, uid))"

definition get_message_reactions :: "conn \<Rightarrow> string \<Rightarrow> reaction_group list db_res" where
  "get_message_reactions c mid = bindE (stmt ''get_message_reactions'' c
     (map (\<lambda>r. (reaction.rx_emoji r, rx_user_id r)) (sort_key rx_created_at
       (rows_where (\<lambda>r. reaction.rx_message_id r = mid) (c_reactions c)))))
     (\<lambda>rows. Inr (foldl group_reaction [] rows))"

definition get_user_reaction :: "conn \<Rightarrow> string \<Rightarrow> string \<Rightarrow> string \<Rightarrow> reaction option db_res" where
  "get_user_reaction c mid uid emoji = optional (query_row ''get_user_reaction'' c
     (rows_where (\<lambda>r. reaction.rx_message_id r = mid \<and> rx_user_id r = uid \<and> reaction.rx_emoji r = emoji) (c_reactions c)))"

definition mark_channel_read :: "string \<Rightarrow> string \<Rightarrow> string \<Rightarrow> string \<Rightarrow> unit db_op" where
  "mark_channel_read now uid cid mid = exec ''mark_channel_read'' (\<lambda>c.
     if uid \<notin> u_id ` set (c_users c) then None
     else Some (c\<lparr>c_channel_reads :=
       (if (uid, cid) \<in> fst ` set (c_channel_reads c)
        then update_where (\<lambda>p. fst p = (uid, cid)) (\<lambda>p. (fst p, mid, now)) (c_channel_reads c)
        else c_channel_reads c @ [((uid, cid), mid, now)])\<rparr>))"

subsection \<open>Reactions\<close>

definition reaction_frame :: "string \<Rightarrow> reaction_payload \<Rightarrow> string \<Rightarrow> event" where
  "reaction_frame ty p uid = event_new ty (reaction_event_payload_json
     (reaction_payload.rx_message_id p) (rx_channel_id p) uid (reaction_payload.rx_emoji p))"

text \<open>An effect on the database inside a handler: its result, and the world with the new database.\<close>

definition run_db :: "'a db_op \<Rightarrow> world \<Rightarrow> (db_error + 'a) \<times> world" where
  "run_db f w = (case f (w_conn w) of (r, c') \<Rightarrow> (r, w\<lparr>w_conn := c'\<rparr>))"

definition handle_reaction_add ::
  "string \<Rightarrow> string \<Rightarrow> string \<Rightarrow> string \<Rightarrow> reaction_payload \<Rightarrow> world \<Rightarrow> world" where
  "handle_reaction_add new_id now uid tid p w =
     (if \<not> verify_channel_team (w_conn w) (rx_channel_id p) tid then w
      else case run_db (add_reaction new_id now (reaction_payload.rx_message_id p) uid (reaction_payload.rx_emoji p)) w of
          (Inl _, w') \<Rightarrow> w'
        | (Inr _, w') \<Rightarrow> broadcast_to_channel (rx_channel_id p) (reaction_frame EVENT_REACTION_ADDED p uid) None w')"

definition handle_reaction_remove :: "string \<Rightarrow> string \<Rightarrow> reaction_payload \<Rightarrow> world \<Rightarrow> world" where
  "handle_reaction_remove uid tid p w =
     (if \<not> verify_channel_team (w_conn w) (rx_channel_id p) tid then w
      else case run_db (remove_reaction (reaction_payload.rx_message_id p) uid (reaction_payload.rx_emoji p)) w of
          (Inl _, w') \<Rightarrow> w'
        | (Inr _, w') \<Rightarrow> broadcast_to_channel (rx_channel_id p) (reaction_frame EVENT_REACTION_REMOVED p uid) None w')"

definition handle_reaction_event ::
  "string \<Rightarrow> string \<Rightarrow> string \<Rightarrow> string \<Rightarrow> string \<Rightarrow> json \<Rightarrow> world \<Rightarrow> world" where
  "handle_reaction_event new_id now uid tid event_type payload = on_payload (parse_reaction_payload payload) (\<lambda>p.
     if event_type = EVENT_REACTION_ADD then handle_reaction_add new_id now uid tid p
     else handle_reaction_remove uid tid p)"

subsection \<open>Threads\<close>

definition verify_thread_channel_team :: "conn \<Rightarrow> string \<Rightarrow> string \<Rightarrow> bool" where
  "verify_thread_channel_team c thid tid =
     unwrap_or (bindE (get_thread c thid) (\<lambda>thread. case thread of
         Some t \<Rightarrow> bindE (get_channel_by_id c (th_channel_id t)) (\<lambda>channel.
           Inr (case channel of Some ch \<Rightarrow> ch_team_id ch = tid | None \<Rightarrow> False))
       | None \<Rightarrow> Inr False)) False"

definition thread_message :: "string \<Rightarrow> string \<Rightarrow> string \<Rightarrow> string \<Rightarrow> string \<Rightarrow> string \<Rightarrow> message" where
  "thread_message new_id now cid uid thid content = \<lparr>msg_id = new_id, msg_channel_id = cid,
     msg_dm_channel_id = [], msg_author_id = uid, msg_content = content, msg_type = ''text'',
     msg_thread_id = thid, msg_reply_to = None, msg_edited_at = None, msg_deleted = False,
     msg_lamport_ts = 0, msg_created_at = now\<rparr>"

definition broadcast_thread_message_new :: "string \<Rightarrow> string \<Rightarrow> message \<Rightarrow> world \<Rightarrow> world" where
  "broadcast_thread_message_new cid thid msg = broadcast_to_channel cid (event_new EVENT_THREAD_MESSAGE_NEW
     (thread_message_new_payload_json (msg_id msg) thid cid (msg_author_id msg) (msg_content msg)
       (msg_type msg) (msg_created_at msg))) None"

definition broadcast_thread_updated :: "string \<Rightarrow> thread option \<Rightarrow> world \<Rightarrow> world" where
  "broadcast_thread_updated cid th w = (case th of
       None \<Rightarrow> w
     | Some t \<Rightarrow> broadcast_to_channel cid (event_new EVENT_THREAD_UPDATED (thread_updated_payload_json
         (th_id t) (th_title t) (th_message_count t)
         (case th_last_message_at t of None \<Rightarrow> [] | Some s \<Rightarrow> s))) None w)"

definition handle_thread_message_send ::
  "string \<Rightarrow> string \<Rightarrow> string \<Rightarrow> string \<Rightarrow> thread_message_send_payload \<Rightarrow> world \<Rightarrow> world" where
  "handle_thread_message_send new_id now uid tid p w =
     (if \<not> verify_thread_channel_team (w_conn w) (ts_thread_id p) tid then w
      else case run_db
          (bindS (readS (\<lambda>c. bindE (get_thread c (ts_thread_id p)) (\<lambda>o1. ok_or o1 QueryReturnedNoRows))) (\<lambda>th.
           let msg = thread_message new_id now (th_channel_id th) uid (ts_thread_id p) (ts_content p) in
           bindS (create_thread_message now msg) (\<lambda>_.
           bindS (readS (\<lambda>c. get_thread c (ts_thread_id p))) (\<lambda>updated.
           returnS (msg, th_channel_id th, updated))))) w of
          (Inl _, w') \<Rightarrow> w'
        | (Inr (msg, cid, updated), w') \<Rightarrow> broadcast_thread_updated cid updated
            (broadcast_thread_message_new cid (ts_thread_id p) msg w'))"

text \<open>Edit and removal: the row must be the caller's and lie in the named thread.\<close>

definition own_thread_message :: "string \<Rightarrow> string \<Rightarrow> string \<Rightarrow> conn \<Rightarrow> unit db_res" where
  "own_thread_message mid thid uid c = bindE (get_message_by_id c mid) (\<lambda>mo. case mo of
       Some m \<Rightarrow> if msg_thread_id m = thid \<and> msg_author_id m = uid then Inr () else Inl QueryReturnedNoRows
     | None \<Rightarrow> Inl QueryReturnedNoRows)"

definition thread_channel_or_empty :: "string \<Rightarrow> conn \<Rightarrow> string db_res" where
  "thread_channel_or_empty thid c = bindE (get_thread c thid) (\<lambda>t.
     Inr (case t of Some t \<Rightarrow> th_channel_id t | None \<Rightarrow> []))"

definition handle_thread_message_edit ::
  "string \<Rightarrow> string \<Rightarrow> thread_message_edit_payload \<Rightarrow> world \<Rightarrow> world" where
  "handle_thread_message_edit now uid p w =
     (case run_db
        (bindS (readS (own_thread_message (te_message_id p) (te_thread_id p) uid)) (\<lambda>_.
         bindS (update_message_content now (te_message_id p) (te_content p)) (\<lambda>_.
         readS (thread_channel_or_empty (te_thread_id p))))) w of
        (Inl _, w') \<Rightarrow> w'
      | (Inr cid, w') \<Rightarrow> broadcast_to_channel cid (event_new EVENT_THREAD_MESSAGE_UPDATED
          (thread_message_updated_payload_json (te_message_id p) (te_thread_id p) (te_content p) now)) None w')"

definition handle_thread_message_remove :: "string \<Rightarrow> thread_message_remove_payload \<Rightarrow> world \<Rightarrow> world" where
  "handle_thread_message_remove uid p w =
     (case run_db
        (bindS (readS (own_thread_message (tr_message_id p) (tr_thread_id p) uid)) (\<lambda>_.
         bindS (soft_delete_message (tr_message_id p)) (\<lambda>_.
         readS (thread_channel_or_empty (tr_thread_id p))))) w of
        (Inl _, w') \<Rightarrow> w'
      | (Inr cid, w') \<Rightarrow> broadcast_to_channel cid (event_new EVENT_THREAD_MESSAGE_DELETED
          (thread_message_deleted_payload_json (tr_message_id p) (tr_thread_id p))) None w')"

definition handle_thread_event ::
  "string \<Rightarrow> string \<Rightarrow> string \<Rightarrow> string \<Rightarrow> string \<Rightarrow> json \<Rightarrow> world \<Rightarrow> world" where
  "handle_thread_event new_id now uid tid event_type payload =
     (if event_type = EVENT_THREAD_MESSAGE_SEND
        then on_payload (parse_thread_message_send_payload payload) (handle_thread_message_send new_id now uid tid)
      else if event_type = EVENT_THREAD_MESSAGE_EDIT
        then on_payload (parse_thread_message_edit_payload payload) (handle_thread_message_edit now uid)
      else if event_type = EVENT_THREAD_MESSAGE_REMOVE
        then on_payload (parse_thread_message_remove_payload payload) (handle_thread_message_remove uid)
      else (\<lambda>w. w))"

subsection \<open>Direct messages\<close>

definition verify_dm_membership :: "conn \<Rightarrow> string \<Rightarrow> string \<Rightarrow> bool" where
  "verify_dm_membership c did uid = unwrap_or (is_dm_member c did uid) False"

primrec broadcast_to_dm_members :: "dm_member list \<Rightarrow> event \<Rightarrow> world \<Rightarrow> world" where
  "broadcast_to_dm_members [] ev w = w"
| "broadcast_to_dm_members (m # ms) ev w = broadcast_to_dm_members ms ev (send_to_user (dmm_user_id m) ev w)"

definition dm_message :: "string \<Rightarrow> string \<Rightarrow> string \<Rightarrow> dm_message_send_payload \<Rightarrow> message" where
  "dm_message new_id now uid p = \<lparr>msg_id = new_id, msg_channel_id = [], msg_dm_channel_id = ds_dm_channel_id p,
     msg_author_id = uid, msg_content = ds_content p,
     msg_type = (if ds_msg_type p = [] then ''text'' else ds_msg_type p), msg_thread_id = [],
     msg_reply_to = None, msg_edited_at = None, msg_deleted = False, msg_lamport_ts = 0, msg_created_at = now\<rparr>"

definition handle_dm_message_send ::
  "string \<Rightarrow> string \<Rightarrow> string \<Rightarrow> string \<Rightarrow> dm_message_send_payload \<Rightarrow> world \<Rightarrow> world" where
  "handle_dm_message_send new_id now uid uname p w =
     (if \<not> verify_dm_membership (w_conn w) (ds_dm_channel_id p) uid then w
      else let msg = dm_message new_id now uid p in
        (case run_db (bindS (create_message msg) (\<lambda>_. readS (\<lambda>c. get_dm_members c (ds_dm_channel_id p)))) w of
          (Inl _, w') \<Rightarrow> w'
        | (Inr members, w') \<Rightarrow> broadcast_to_dm_members members (event_new EVENT_DM_MESSAGE_NEW
            (dm_message_new_payload_json (msg_id msg) (ds_dm_channel_id p) (msg_author_id msg) uname
              (msg_content msg) (msg_type msg) (msg_created_at msg))) w'))"

definition own_message :: "string \<Rightarrow> string \<Rightarrow> conn \<Rightarrow> unit db_res" where
  "own_message mid uid c = bindE (get_message_by_id c mid) (\<lambda>mo. case mo of
       Some m \<Rightarrow> if msg_author_id m = uid then Inr () else Inl QueryReturnedNoRows
     | None \<Rightarrow> Inl QueryReturnedNoRows)"

definition handle_dm_message_edit :: "string \<Rightarrow> string \<Rightarrow> dm_message_edit_payload \<Rightarrow> world \<Rightarrow> world" where
  "handle_dm_message_edit now uid p w =
     (if \<not> verify_dm_membership (w_conn w) (de_dm_channel_id p) uid then w
      else (case run_db
          (bindS (readS (own_message (de_message_id p) uid)) (\<lambda>_.
           bindS (update_message_content now (de_message_id p) (de_content p)) (\<lambda>_.
           readS (\<lambda>c. get_dm_members c (de_dm_channel_id p))))) w of
          (Inl _, w') \<Rightarrow> w'
        | (Inr members, w') \<Rightarrow> broadcast_to_dm_members members (event_new EVENT_DM_MESSAGE_UPDATED
            (JObj [(''message_id'', JStr (de_message_id p)), (''dm_channel_id'', JStr (de_dm_channel_id p)),
              (''content'', JStr (de_content p)), (''edited_at'', JStr now)])) w'))"

definition handle_dm_message_delete :: "string \<Rightarrow> dm_message_delete_payload \<Rightarrow> world \<Rightarrow> world" where
  "handle_dm_message_delete uid p w =
     (if \<not> verify_dm_membership (w_conn w) (dd_dm_channel_id p) uid then w
      else (case run_db
          (bindS (readS (own_message (dd_message_id p) uid)) (\<lambda>_.
           bindS (soft_delete_message (dd_message_id p)) (\<lambda>_.
           readS (\<lambda>c. get_dm_members c (dd_dm_channel_id p))))) w of
          (Inl _, w') \<Rightarrow> w'
        | (Inr members, w') \<Rightarrow> broadcast_to_dm_members members (event_new EVENT_DM_MESSAGE_DELETED
            (JObj [(''message_id'', JStr (dd_message_id p)), (''dm_channel_id'', JStr (dd_dm_channel_id p))])) w'))"

definition handle_dm_message_event ::
  "string \<Rightarrow> string \<Rightarrow> string \<Rightarrow> string \<Rightarrow> string \<Rightarrow> json \<Rightarrow> world \<Rightarrow> world" where
  "handle_dm_message_event new_id now uid uname event_type payload =
     (if event_type = EVENT_DM_MESSAGE_SEND
        then on_payload (parse_dm_message_send_payload payload) (handle_dm_message_send new_id now uid uname)
      else if event_type = EVENT_DM_MESSAGE_EDIT
        then on_payload (parse_dm_message_edit_payload payload) (handle_dm_message_edit now uid)
      else if event_type = EVENT_DM_MESSAGE_DELETE
        then on_payload (parse_dm_message_delete_payload payload) (handle_dm_message_delete uid)
      else (\<lambda>w. w))"

text \<open>The typing indicator of a direct channel goes to its members; the sender's own membership is not
  looked at.\<close>

definition handle_dm_typing :: "string \<Rightarrow> string \<Rightarrow> json \<Rightarrow> world \<Rightarrow> world" where
  "handle_dm_typing uid uname payload w =
     (case parse_dm_typing_payload payload of
        None \<Rightarrow> w
      | Some p \<Rightarrow> (case get_dm_members (w_conn w) (dt_dm_channel_id p) of
            Inl _ \<Rightarrow> w
          | Inr members \<Rightarrow> broadcast_to_dm_members (filter (\<lambda>m. dmm_user_id m \<noteq> uid) members)
              (event_new EVENT_TYPING_INDICATOR (typing_payload_json (dt_dm_channel_id p) uid uname)) w))"

subsection \<open>Read marks\<close>

definition handle_channel_mark_read :: "string \<Rightarrow> string \<Rightarrow> string \<Rightarrow> json \<Rightarrow> world \<Rightarrow> world" where
  "handle_channel_mark_read now uid tid payload w =
     (case parse_channel_mark_read_payload payload of
        None \<Rightarrow> w
      | Some p \<Rightarrow>
          (case run_db (bindS (readS (\<lambda>c. get_channel_by_id c (cm_channel_id p))) (\<lambda>channel.
              if (case channel of Some ch \<Rightarrow> ch_team_id ch = tid | None \<Rightarrow> False)
              then bindS (mark_channel_read now uid (cm_channel_id p) (cm_message_id p)) (\<lambda>_. returnS True)
              else returnS False)) w of
            (r, w') \<Rightarrow> if \<not> unwrap_or r False then w'
              else send_to_user uid (event_new EVENT_CHANNEL_READ (JObj [(''channel_id'', JStr (cm_channel_id p)),
                (''message_id'', JStr (cm_message_id p)), (''user_id'', JStr uid)])) w'))"

end
