(* ===== verification/Json_Rows.thy ===== *)
theory Json_Rows
  imports Events
begin

section \<open>Rows as JSON\<close>

text \<open>
  \<open>Serialize\<close> and \<open>Deserialize\<close> of the structs of \<open>db/models.rs\<close> that travel: \<open>#[serde(default)]\<close> and
  \<open>skip_serializing_if\<close> as the attributes say. What is printed parses back to the same row, as long as the
  32-bit fields are in range.
\<close>

subsection \<open>Fields\<close>

definition opt_field :: "string \<Rightarrow> string option \<Rightarrow> (string \<times> json) list" where
  "opt_field k v = (case v of None \<Rightarrow> [] | Some s \<Rightarrow> [(k, JStr s)])"

definition field_bool_default :: "(string \<times> json) list \<Rightarrow> string \<Rightarrow> bool option" where
  "field_bool_default kvs k = (case map_of kvs k of None \<Rightarrow> Some False | Some (JBool b) \<Rightarrow> Some b | _ \<Rightarrow> None)"

definition field_i32 :: "(string \<times> json) list \<Rightarrow> string \<Rightarrow> int option" where
  "field_i32 = field_int (- (2 ^ 31)) (2 ^ 31 - 1)"

definition field_i32_default :: "(string \<times> json) list \<Rightarrow> string \<Rightarrow> int option" where
  "field_i32_default kvs k = (case map_of kvs k of None \<Rightarrow> Some 0 | _ \<Rightarrow> field_i32 kvs k)"

definition field_i64 :: "(string \<times> json) list \<Rightarrow> string \<Rightarrow> u64 option" where
  "field_i64 kvs k = map_option word_of_int (field_int (- (2 ^ 63)) (2 ^ 63 - 1) kvs k)"

definition field_u64 :: "(string \<times> json) list \<Rightarrow> string \<Rightarrow> u64 option" where
  "field_u64 kvs k = map_option word_of_int (field_int 0 (2 ^ 64 - 1) kvs k)"

definition in_i32 :: "int \<Rightarrow> bool" where
  "in_i32 n \<longleftrightarrow> - (2 ^ 31) \<le> n \<and> n < 2 ^ 31"

subsection \<open>Printing and parsing\<close>

definition role_json :: "role \<Rightarrow> (string \<times> json) list" where
  "role_json x = [(''id'', JStr (r_id x)), (''team_id'', JStr (r_team_id x)), (''name'', JStr (r_name x)),
       (''color'', JStr (r_color x)), (''position'', JNum (r_position x)), (''permissions'', JNum (sint (r_permissions x))),
       (''is_default'', JBool (r_is_default x)), (''created_at'', JStr (r_created_at x)), (''updated_at'', JStr (r_updated_at x))]"

definition parse_role :: "json \<Rightarrow> role option" where
  "parse_role v = Option.bind (fields_of [''id'', ''team_id'', ''name'', ''color'', ''position'', ''permissions'',
       ''is_default'', ''created_at'', ''updated_at''] v) (\<lambda>kvs.
     Option.bind (field_str kvs ''id'') (\<lambda>x0.
     Option.bind (field_str kvs ''team_id'') (\<lambda>x1.
     Option.bind (field_str kvs ''name'') (\<lambda>x2.
     Option.bind (field_str kvs ''color'') (\<lambda>x3.
     Option.bind (field_i32 kvs ''position'') (\<lambda>x4.
     Option.bind (field_i64 kvs ''permissions'') (\<lambda>x5.
     Option.bind (field_bool kvs ''is_default'') (\<lambda>x6.
     Option.bind (field_str kvs ''created_at'') (\<lambda>x7.
     Option.bind (field_str_default kvs ''updated_at'') (\<lambda>x8.
     Some \<lparr>r_id = x0, r_team_id = x1, r_name = x2, r_color = x3,
       r_position = x4, r_permissions = x5, r_is_default = x6, r_created_at = x7,
       r_updated_at = x8\<rparr>))))))))))"

definition member_json :: "member \<Rightarrow> (string \<times> json) list" where
  "member_json x = [(''id'', JStr (m_id x)), (''team_id'', JStr (m_team_id x)), (''user_id'', JStr (m_user_id x)),
       (''nickname'', JStr (m_nickname x)), (''joined_at'', JStr (m_joined_at x)), (''invited_by'', JStr (m_invited_by x)),
       (''updated_at'', JStr (m_updated_at x))]"

definition parse_member :: "json \<Rightarrow> member option" where
  "parse_member v = Option.bind (fields_of [''id'', ''team_id'', ''user_id'', ''nickname'', ''joined_at'', ''invited_by'',
       ''updated_at''] v) (\<lambda>kvs.
     Option.bind (field_str kvs ''id'') (\<lambda>x0.
     Option.bind (field_str kvs ''team_id'') (\<lambda>x1.
     Option.bind (field_str kvs ''user_id'') (\<lambda>x2.
     Option.bind (field_str kvs ''nickname'') (\<lambda>x3.
     Option.bind (field_str kvs ''joined_at'') (\<lambda>x4.
     Option.bind (field_str kvs ''invited_by'') (\<lambda>x5.
     Option.bind (field_str_default kvs ''updated_at'') (\<lambda>x6.
     Some \<lparr>m_id = x0, m_team_id = x1, m_user_id = x2, m_nickname = x3,
       m_joined_at = x4, m_invited_by = x5, m_updated_at = x6\<rparr>))))))))"

definition channel_json :: "channel \<Rightarrow> (string \<times> json) list" where
  "channel_json x = [(''id'', JStr (ch_id x)), (''team_id'', JStr (ch_team_id x)), (''name'', JStr (ch_name x)),
       (''topic'', JStr (ch_topic x)), (''type'', JStr (ch_type x)), (''position'', JNum (ch_position x)),
       (''category'', JStr (ch_category x)), (''created_by'', JStr (ch_created_by x)), (''created_at'', JStr (ch_created_at x)),
       (''updated_at'', JStr (ch_updated_at x)), (''locked'', JBool (ch_locked x)), (''hidden_if_restricted'', JBool (ch_hidden_if_restricted x)),
       (''slow_mode_seconds'', JNum (ch_slow_mode_seconds x))]
     @ opt_field ''group_id'' (ch_group_id x)"

definition parse_channel :: "json \<Rightarrow> channel option" where
  "parse_channel v = Option.bind (fields_of [''id'', ''team_id'', ''name'', ''topic'', ''type'', ''position'',
       ''category'', ''created_by'', ''created_at'', ''updated_at'', ''locked'', ''hidden_if_restricted'',
       ''slow_mode_seconds'', ''group_id''] v) (\<lambda>kvs.
     Option.bind (field_str kvs ''id'') (\<lambda>x0.
     Option.bind (field_str kvs ''team_id'') (\<lambda>x1.
     Option.bind (field_str kvs ''name'') (\<lambda>x2.
     Option.bind (field_str kvs ''topic'') (\<lambda>x3.
     Option.bind (field_str kvs ''type'') (\<lambda>x4.
     Option.bind (field_i32 kvs ''position'') (\<lambda>x5.
     Option.bind (field_str kvs ''category'') (\<lambda>x6.
     Option.bind (field_str kvs ''created_by'') (\<lambda>x7.
     Option.bind (field_str kvs ''created_at'') (\<lambda>x8.
     Option.bind (field_str kvs ''updated_at'') (\<lambda>x9.
     Option.bind (field_bool_default kvs ''locked'') (\<lambda>x10.
     Option.bind (field_bool_default kvs ''hidden_if_restricted'') (\<lambda>x11.
     Option.bind (field_i32_default kvs ''slow_mode_seconds'') (\<lambda>x12.
     Option.bind (field_opt_str kvs ''group_id'') (\<lambda>x13.
     Some \<lparr>ch_id = x0, ch_team_id = x1, ch_name = x2, ch_topic = x3,
       ch_type = x4, ch_position = x5, ch_category = x6, ch_created_by = x7,
       ch_created_at = x8, ch_updated_at = x9, ch_locked = x10, ch_hidden_if_restricted = x11,
       ch_slow_mode_seconds = x12, ch_group_id = x13\<rparr>)))))))))))))))"

definition message_json :: "message \<Rightarrow> (string \<times> json) list" where
  "message_json x = [(''id'', JStr (msg_id x)), (''channel_id'', JStr (msg_channel_id x))]
     @ opt_field ''dm_channel_id'' (nullable (msg_dm_channel_id x))
     @ [(''author_id'', JStr (msg_author_id x)), (''content'', JStr (msg_content x)), (''type'', JStr (msg_type x)),
       (''thread_id'', JStr (msg_thread_id x))]
     @ opt_field ''reply_to_message_id'' (msg_reply_to x)
     @ opt_field ''edited_at'' (msg_edited_at x)
     @ [(''deleted'', JBool (msg_deleted x)), (''lamport_ts'', JNum (sint (msg_lamport_ts x))), (''created_at'', JStr (msg_created_at x))]"

definition parse_message :: "json \<Rightarrow> message option" where
  "parse_message v = Option.bind (fields_of [''id'', ''channel_id'', ''dm_channel_id'', ''author_id'', ''content'', ''type'',
       ''thread_id'', ''reply_to_message_id'', ''edited_at'', ''deleted'', ''lamport_ts'', ''created_at''] v) (\<lambda>kvs.
     Option.bind (field_str kvs ''id'') (\<lambda>x0.
     Option.bind (field_str kvs ''channel_id'') (\<lambda>x1.
     Option.bind (field_str_default kvs ''dm_channel_id'') (\<lambda>x2.
     Option.bind (field_str kvs ''author_id'') (\<lambda>x3.
     Option.bind (field_str kvs ''content'') (\<lambda>x4.
     Option.bind (field_str kvs ''type'') (\<lambda>x5.
     Option.bind (field_str_default kvs ''thread_id'') (\<lambda>x6.
     Option.bind (field_opt_str kvs ''reply_to_message_id'') (\<lambda>x7.
     Option.bind (field_opt_str kvs ''edited_at'') (\<lambda>x8.
     Option.bind (field_bool kvs ''deleted'') (\<lambda>x9.
     Option.bind (field_i64 kvs ''lamport_ts'') (\<lambda>x10.
     Option.bind (field_str kvs ''created_at'') (\<lambda>x11.
     Some \<lparr>msg_id = x0, msg_channel_id = x1, msg_dm_channel_id = x2, msg_author_id = x3,
       msg_content = x4, msg_type = x5, msg_thread_id = x6, msg_reply_to = x7,
       msg_edited_at = x8, msg_deleted = x9, msg_lamport_ts = x10, msg_created_at = x11\<rparr>)))))))))))))"

subsection \<open>Round trips\<close>

lemma opt_field_simps [simp]: "opt_field k None = []" "opt_field k (Some s) = [(k, JStr s)]"
  by (simp_all add: opt_field_def)

lemma i64_print: "- (2 ^ 63) \<le> sint (w :: u64) \<and> sint w \<le> 2 ^ 63 - 1"
  using sint_greater_eq [of w] sint_less [of w] by simp

lemmas field_defs = field_str_def field_str_default_def field_opt_str_def field_bool_def field_bool_default_def
  field_i32_def field_i32_default_def field_i64_def field_int_def

lemma parse_role_json: "in_i32 (r_position x) \<Longrightarrow> parse_role (JObj (role_json x)) = Some x"
  using i64_print [of "r_permissions x"]
  by (cases x) (simp add: parse_role_def role_json_def field_defs in_i32_def)

lemma parse_member_json: "parse_member (JObj (member_json x)) = Some x"
  by (cases x) (simp add: parse_member_def member_json_def field_defs)

lemma parse_channel_json:
  "in_i32 (ch_position x) \<Longrightarrow> in_i32 (ch_slow_mode_seconds x) \<Longrightarrow> parse_channel (JObj (channel_json x)) = Some x"
  by (cases x; cases "ch_group_id x") (simp_all add: parse_channel_def channel_json_def field_defs in_i32_def)

lemma parse_message_json: "parse_message (JObj (message_json x)) = Some x"
  using i64_print [of "msg_lamport_ts x"]
  by (cases x; cases "msg_reply_to x"; cases "msg_edited_at x"; cases "msg_dm_channel_id x")
    (simp_all add: parse_message_def message_json_def field_defs nullable_def)

end
