(* ===== verification/Ws_Requests.thy ===== *)
theory Ws_Requests
  imports Ws_Social Json_Rows
begin

section \<open>WebSocket session: requests\<close>

text \<open>
  \<open>ws/handlers/request.rs\<close>: the read requests of a session and the response frame. \<open>sync:init\<close> (the
  bulk read of a team) is the argument \<open>sync_init\<close> of \<open>handle_request\<close>, a read of the
  database that \<open>Ws_Sync\<close> supplies. \<open>serde\<close>'s rendering of the rows follows the attributes of \<open>db/models.rs\<close>.
\<close>

subsection \<open>Rendering rows\<close>

definition dm_member_json :: "dm_member \<Rightarrow> json" where
  "dm_member_json m = JObj [(''channel_id'', JStr (dmm_channel_id m)), (''user_id'', JStr (dmm_user_id m)),
     (''joined_at'', JStr (dmm_joined_at m))]"

subsection \<open>Parameters of a request\<close>

definition payload_str :: "json \<Rightarrow> string \<Rightarrow> string" where
  "payload_str payload key = (case json_get_str payload key of None \<Rightarrow> [] | Some s \<Rightarrow> s)"

text \<open>\<open>as_i64().unwrap_or(50) as i32\<close>.\<close>

definition payload_pagination :: "json \<Rightarrow> string \<times> int" where
  "payload_pagination payload = (payload_str payload ''before'',
     (case json_get payload ''limit'' of
        Some (JNum n) \<Rightarrow> if - (2 ^ 63) \<le> n \<and> n < 2 ^ 63 then wrap_i32 n else 50
      | _ \<Rightarrow> 50))"

definition lookup_username :: "conn \<Rightarrow> string \<Rightarrow> string" where
  "lookup_username c author = (case get_user_by_id c author of Inr (Some u) \<Rightarrow> u_username u | _ \<Rightarrow> [])"

definition channel_belongs_to_team :: "conn \<Rightarrow> string \<Rightarrow> string \<Rightarrow> bool" where
  "channel_belongs_to_team c cid tid = (case get_channel_by_id c cid of
       Inr (Some ch) \<Rightarrow> ch_team_id ch = tid | _ \<Rightarrow> False)"

subsection \<open>The actions\<close>

definition enriched_message :: "conn \<Rightarrow> string \<Rightarrow> message \<Rightarrow> json" where
  "enriched_message c tid msg = JObj (message_json msg
     @ [(''username'', JStr (lookup_username c (msg_author_id msg))),
        (''attachments'', JArr (map (attachment_json tid) (unwrap_or (get_message_attachments c (msg_id msg)) [])))])"

definition list_messages :: "string \<Rightarrow> json \<Rightarrow> conn \<Rightarrow> json db_res" where
  "list_messages tid payload c =
     (let cid = payload_str payload ''channel_id''; (before, n) = payload_pagination payload
      in if \<not> channel_belongs_to_team c cid tid then Inr (JArr [])
         else bindE (get_messages_by_channel c cid before n) (\<lambda>messages.
           Inr (JArr (map (enriched_message c tid) messages))))"

definition thread_json :: "thread \<Rightarrow> json" where
  "thread_json t = JObj [(''id'', JStr (th_id t)), (''channel_id'', JStr (th_channel_id t)),
     (''parent_message_id'', JStr (th_parent_message_id t)), (''team_id'', JStr (th_team_id t)),
     (''creator_id'', JStr (th_creator_id t)), (''title'', JStr (th_title t)),
     (''message_count'', JNum (th_message_count t)),
     (''last_message_at'', (case th_last_message_at t of None \<Rightarrow> JNull | Some s \<Rightarrow> JStr s)),
     (''created_at'', JStr (th_created_at t))]"

definition list_threads :: "string \<Rightarrow> json \<Rightarrow> conn \<Rightarrow> json db_res" where
  "list_threads tid payload c =
     (let cid = payload_str payload ''channel_id''
      in if \<not> channel_belongs_to_team c cid tid then Inr (JArr [])
         else bindE (get_channel_threads c cid) (\<lambda>ts. Inr (JArr (map thread_json ts))))"

definition list_thread_messages :: "string \<Rightarrow> json \<Rightarrow> conn \<Rightarrow> json db_res" where
  "list_thread_messages tid payload c =
     (let thid = payload_str payload ''thread_id''; (before, n) = payload_pagination payload
      in bindE (get_thread c thid) (\<lambda>th.
        if (case th of Some t \<Rightarrow> channel_belongs_to_team c (th_channel_id t) tid | None \<Rightarrow> False)
        then bindE (get_thread_messages c thid before n) (\<lambda>ms. Inr (JArr (map (\<lambda>m. JObj (message_json m)) ms)))
        else Inr (JArr [])))"

definition dm_entry :: "conn \<Rightarrow> dm_channel \<Rightarrow> json db_res" where
  "dm_entry c d = bindE (get_dm_members c (dm_id d)) (\<lambda>members.
     bindE (get_last_dm_message c (dm_id d)) (\<lambda>last_msg.
       Inr (JObj [(''id'', JStr (dm_id d)), (''team_id'', JStr (dm_team_id d)), (''name'', JStr (dm_name d)),
         (''created_at'', JStr (dm_created_at d)), (''members'', JArr (map dm_member_json members)),
         (''last_message'', (case last_msg of None \<Rightarrow> JNull | Some m \<Rightarrow> JObj (message_json m)))])))"

definition list_dms :: "string \<Rightarrow> string \<Rightarrow> conn \<Rightarrow> json db_res" where
  "list_dms uid tid c = bindE (get_user_dm_channels c tid uid) (\<lambda>ds.
     bindE (mapE (dm_entry c) ds) (\<lambda>results. Inr (JObj [(''dm_channels'', JArr results)])))"

definition list_dm_messages :: "string \<Rightarrow> json \<Rightarrow> conn \<Rightarrow> json db_res" where
  "list_dm_messages uid payload c =
     (let did = payload_str payload ''dm_id''; (before, n) = payload_pagination payload
      in bindE (is_dm_member c did uid) (\<lambda>member.
        if \<not> member then Inr (JArr [])
        else bindE (get_dm_messages c did before n) (\<lambda>ms. Inr (JArr (map (\<lambda>m. JObj (message_json m)) ms)))))"

definition request_result ::
  "(string \<Rightarrow> string \<Rightarrow> conn \<Rightarrow> json db_res) \<Rightarrow> string \<Rightarrow> string \<Rightarrow> request_event \<Rightarrow> conn \<Rightarrow> json db_res" where
  "request_result sync_init uid tid req =
     (if rq_action req = ACTION_SYNC_INIT then sync_init uid tid
      else if rq_action req = ACTION_MESSAGE_LIST then list_messages tid (rq_payload req)
      else if rq_action req = ACTION_THREAD_LIST then list_threads tid (rq_payload req)
      else if rq_action req = ACTION_THREAD_MESSAGES then list_thread_messages tid (rq_payload req)
      else if rq_action req = ACTION_DM_LIST then list_dms uid tid
      else if rq_action req = ACTION_DM_MESSAGES then list_dm_messages uid (rq_payload req)
      else (\<lambda>c. Inr JNull))"

definition response_event :: "request_event \<Rightarrow> json db_res \<Rightarrow> event" where
  "response_event req r = event_new ''response'' (JObj ([(''id'', JStr (rq_id req)),
     (''action'', JStr (rq_action req))] @
     (case r of
        Inr payload \<Rightarrow> [(''ok'', JBool True), (''payload'', payload)]
      | Inl e \<Rightarrow> [(''ok'', JBool False), (''error'', JStr (db_error_text e))])))"

definition handle_request ::
  "(string \<Rightarrow> string \<Rightarrow> conn \<Rightarrow> json db_res) \<Rightarrow> string \<Rightarrow> string \<Rightarrow> request_event \<Rightarrow> world \<Rightarrow> world" where
  "handle_request sync_init uid tid req w =
     send_to_user uid (response_event req (request_result sync_init uid tid req (w_conn w))) w"

subsection \<open>Lemmas\<close>

lemma handle_request_sel [simp]:
  "w_conn (handle_request si uid tid req w) = w_conn w" "w_rooms (handle_request si uid tid req w) = w_rooms w"
  by (simp_all add: handle_request_def send_defs)

lemma channel_belongsD:
  "channel_belongs_to_team c cid tid \<Longrightarrow> \<exists>ch \<in> set (c_channels c). ch_id ch = cid \<and> ch_team_id ch = tid"
  by (auto simp: channel_belongs_to_team_def split: sum.splits option.splits dest!: get_channel_by_id_SomeD)

subsection \<open>Properties\<close>

text \<open>Reading messages over the socket does not ask the channel's access policy: the response to
  \<open>messages:list\<close> depends on the caller only through the team of the session, so a member of the team who
  is kept out of a channel by its role list receives the same history as one who may read it.\<close>

theorem message_list_ignores_access:
  shows "request_result si uid tid \<lparr>rq_id = i, rq_action = ACTION_MESSAGE_LIST, rq_payload = payload\<rparr> c
      = request_result si uid' tid \<lparr>rq_id = i, rq_action = ACTION_MESSAGE_LIST, rq_payload = payload\<rparr> c
    \<and> may_access sample_chat ''eve'' ''t'' ''ch'' = False
    \<and> request_result si ''eve'' ''t'' \<lparr>rq_id = i, rq_action = ACTION_MESSAGE_LIST,
         rq_payload = JObj [(''channel_id'', JStr ''ch'')]\<rparr> sample_chat
       = Inr (JArr (map (enriched_message sample_chat ''t'') (c_messages sample_chat)))"
proof (intro conjI)
  have acts: "ACTION_MESSAGE_LIST \<noteq> ACTION_SYNC_INIT"
    by (simp add: ACTION_MESSAGE_LIST_def ACTION_SYNC_INIT_def)
  then show "request_result si uid tid \<lparr>rq_id = i, rq_action = ACTION_MESSAGE_LIST, rq_payload = payload\<rparr> c
      = request_result si uid' tid \<lparr>rq_id = i, rq_action = ACTION_MESSAGE_LIST, rq_payload = payload\<rparr> c"
    by (simp add: request_result_def)
  show "may_access sample_chat ''eve'' ''t'' ''ch'' = False"
    by (simp add: may_access_def gating_roles_def default_role_id_def owns_team_def sample_chat_def sample_conn_def)
  have "list_messages ''t'' (JObj [(''channel_id'', JStr ''ch'')]) sample_chat
      = Inr (JArr (map (enriched_message sample_chat ''t'') (c_messages sample_chat)))"
    by code_simp
  with acts show "request_result si ''eve'' ''t'' \<lparr>rq_id = i, rq_action = ACTION_MESSAGE_LIST,
      rq_payload = JObj [(''channel_id'', JStr ''ch'')]\<rparr> sample_chat
    = Inr (JArr (map (enriched_message sample_chat ''t'') (c_messages sample_chat)))"
    by (simp add: request_result_def)
qed

end
