(* ===== verification/Roles_Api.thy ===== *)
theory Roles_Api
  imports Api_Base
begin

section \<open>The role API\<close>

text \<open>
  \<open>api/roles.rs\<close>: the five handlers. \<open>new_id\<close>, \<open>audit_id\<close> and \<open>now\<close> are what \<open>db::new_id\<close> and the
  clock return during the request. Every writing handler is an \<open>authorized_op\<close>; the last part shows
  that none of them lets the caller hand out a permission bit the caller does not hold.
\<close>

subsection \<open>The handlers\<close>

record create_role_request =
  crr_name :: string
  crr_color :: string
  crr_permissions :: u64

definition default_color :: string where "default_color = ''#99AAB5''"

record update_role_request =
  urr_name :: "string option"
  urr_color :: "string option"
  urr_permissions :: "u64 option"
  urr_position :: "int option"

record reorder_request =
  ror_role_ids :: "string list"

definition roles_list :: "string \<Rightarrow> string \<Rightarrow> role list handler" where
  "roles_list uid tid = spawn_db
     (bindS (readS (\<lambda>c. require_team_member c uid tid)) (\<lambda>_. readS (\<lambda>c. get_roles_by_team c tid)))"

text \<open>The remapping of the \<open>escalation\<close> marker that \<open>create\<close> and \<open>update\<close> share.\<close>

definition escalation_msg :: "app_error \<Rightarrow> app_error" where
  "escalation_msg e = (case e of
     Forbidden msg \<Rightarrow> if msg = ''escalation''
       then Forbidden ''you can't grant a permission you don't hold yourself'' else e
   | _ \<Rightarrow> e)"

definition max_position :: "role list \<Rightarrow> int" where
  "max_position roles = (case roles of [] \<Rightarrow> 0 | _ \<Rightarrow> Max (r_position ` set roles))"

definition roles_create ::
  "string \<Rightarrow> string \<Rightarrow> string \<Rightarrow> string \<Rightarrow> string \<Rightarrow> create_role_request \<Rightarrow> role handler" where
  "roles_create new_id audit_id now uid tid body c =
     (if crr_name body = [] then (Inl (BadRequest ''name is required''), c)
      else map_errH escalation_msg (spawn_db
        (bindS (readS (\<lambda>c. require_permission c uid tid PERM_MANAGE_ROLES)) (\<lambda>_.
         bindS (readS (\<lambda>c. user_permissions_bits c uid tid)) (\<lambda>my_bits.
         bindS (refuse_if (crr_permissions body AND NOT my_bits \<noteq> 0) (InvalidParameterName ''escalation'')) (\<lambda>_.
         bindS (readS (\<lambda>c. get_roles_by_team c tid)) (\<lambda>roles.
         let role = \<lparr>r_id = new_id, r_team_id = tid, r_name = crr_name body, r_color = crr_color body,
               r_position = wrap_i32 (max_position roles + 1), r_permissions = crr_permissions body,
               r_is_default = False, r_created_at = now, r_updated_at = []\<rparr>
         in bindS (create_role now role) (\<lambda>_.
            bindS (ignoreS (insert_audit_event audit_id now tid (Some uid) ''role.create'' (Some ''role'')
              (Some new_id) (Some (JObj [(''name'', JStr (r_name role)),
                (''permissions'', JNum (sint (r_permissions role)))])))) (\<lambda>_.
            returnS role)))))))) c)"

definition get_role_for_team :: "conn \<Rightarrow> string \<Rightarrow> string \<Rightarrow> role db_res" where
  "get_role_for_team c rid tid =
     bindE (get_role_by_id c rid) (\<lambda>ro. bindE (ok_or ro QueryReturnedNoRows) (\<lambda>role.
       if r_team_id role \<noteq> tid then Inl (InvalidParameterName ''role does not belong to this team'')
       else Inr role))"

definition apply_role_updates :: "role \<Rightarrow> update_role_request \<Rightarrow> role" where
  "apply_role_updates role body =
     role\<lparr>r_name := (case urr_name body of None \<Rightarrow> r_name role | Some n \<Rightarrow> n),
       r_color := (case urr_color body of None \<Rightarrow> r_color role | Some n \<Rightarrow> n),
       r_permissions := (case urr_permissions body of None \<Rightarrow> r_permissions role | Some p \<Rightarrow> p),
       r_position := (case urr_position body of None \<Rightarrow> r_position role | Some p \<Rightarrow> p)\<rparr>"

text \<open>The check of the bits an update adds: the caller's own mask is looked up only when there are any.\<close>

definition check_added_bits :: "string \<Rightarrow> string \<Rightarrow> u64 \<Rightarrow> conn \<Rightarrow> unit db_res" where
  "check_added_bits uid tid added c =
     (if added \<noteq> 0
      then bindE (user_permissions_bits c uid tid) (\<lambda>my_bits.
        if added AND NOT my_bits \<noteq> 0 then Inl (InvalidParameterName ''escalation'') else Inr ())
      else Inr ())"

definition roles_update ::
  "string \<Rightarrow> string \<Rightarrow> string \<Rightarrow> string \<Rightarrow> string \<Rightarrow> update_role_request \<Rightarrow> role handler" where
  "roles_update audit_id now uid tid rid body =
     map_errH (\<lambda>e. case e of NotFound _ \<Rightarrow> NotFound ''role not found'' | _ \<Rightarrow> escalation_msg e) (spawn_db
       (bindS (readS (\<lambda>c. require_permission c uid tid PERM_MANAGE_ROLES)) (\<lambda>_.
        bindS (readS (\<lambda>c. get_role_for_team c rid tid)) (\<lambda>old.
        let role = apply_role_updates old body;
            added = r_permissions role AND NOT (r_permissions old)
        in bindS (readS (check_added_bits uid tid added)) (\<lambda>_.
           bindS (update_role now role) (\<lambda>_.
           bindS (ignoreS (insert_audit_event audit_id now tid (Some uid) ''role.update'' (Some ''role'')
             (Some (r_id role)) (Some (JObj [(''name'', JStr (r_name role)),
               (''permissions'', JNum (sint (r_permissions role))), (''color'', JStr (r_color role))])))) (\<lambda>_.
           returnS role)))))))"

definition roles_delete :: "string \<Rightarrow> string \<Rightarrow> string \<Rightarrow> string \<Rightarrow> string \<Rightarrow> unit handler" where
  "roles_delete audit_id now uid tid rid =
     map_errH (\<lambda>e. case e of NotFound _ \<Rightarrow> NotFound ''role not found'' | other \<Rightarrow> other) (spawn_db
       (bindS (readS (\<lambda>c. require_permission c uid tid PERM_MANAGE_ROLES)) (\<lambda>_.
        bindS (readS (\<lambda>c. bindE (get_role_by_id c rid) (\<lambda>ro. ok_or ro QueryReturnedNoRows))) (\<lambda>role.
        bindS (refuse_if (r_team_id role \<noteq> tid) (InvalidParameterName ''role does not belong to this team'')) (\<lambda>_.
        bindS (refuse_if (r_is_default role) (InvalidParameterName ''cannot delete the default role'')) (\<lambda>_.
        bindS (delete_role rid) (\<lambda>_.
        ignoreS (insert_audit_event audit_id now tid (Some uid) ''role.delete'' (Some ''role'') (Some rid)
          (Some (JObj [(''name'', JStr (r_name role))])))))))))) "

text \<open>One step of the loop of \<open>reorder\<close>, with the index of the id in the request (\<open>as i32\<close>).\<close>

definition reorder_one :: "string \<Rightarrow> string \<Rightarrow> nat \<times> string \<Rightarrow> unit db_op" where
  "reorder_one now tid = (\<lambda>(i, rid). bindS (readS (\<lambda>c. get_role_by_id c rid)) (\<lambda>ro. case ro of
       Some role \<Rightarrow> if r_team_id role = tid
         then update_role now (role\<lparr>r_position := wrap_i32 (int i)\<rparr>) else returnS ()
     | None \<Rightarrow> returnS ()))"

definition roles_reorder ::
  "string \<Rightarrow> string \<Rightarrow> string \<Rightarrow> string \<Rightarrow> reorder_request \<Rightarrow> role list handler" where
  "roles_reorder audit_id now uid tid body c =
     (if ror_role_ids body = [] then (Inl (BadRequest ''role_ids is required''), c)
      else spawn_db
        (bindS (readS (\<lambda>c. require_permission c uid tid PERM_MANAGE_ROLES)) (\<lambda>_.
         bindS (for_eachS (reorder_one now tid) (enumerate 0 (ror_role_ids body))) (\<lambda>_.
         bindS (ignoreS (insert_audit_event audit_id now tid (Some uid) ''role.reorder'' None None
           (Some (JObj [(''role_ids'', JArr (map JStr (ror_role_ids body)))])))) (\<lambda>_.
         readS (\<lambda>c. get_roles_by_team c tid))))) c)"

subsection \<open>Each writing handler is an authorized operation\<close>

text \<open>The integrity law: every branch ends after writes that keep it.\<close>

lemma wf_roles_create: "wf_team c \<Longrightarrow> wf_team (snd (roles_create n a now uid tid body c))"
  unfolding roles_create_def Let_def by (intro wf_team_chain; assumption)

lemma wf_roles_update: "wf_team c \<Longrightarrow> wf_team (snd (roles_update a now uid tid rid body c))"
  unfolding roles_update_def Let_def by (intro wf_team_chain; assumption)

lemma wf_roles_delete: "wf_team c \<Longrightarrow> wf_team (snd (roles_delete a now uid tid rid c))"
  unfolding roles_delete_def by (intro wf_team_chain; assumption)

lemma wf_reorder_one: "wf_team c \<Longrightarrow> wf_team (snd (reorder_one now tid x c))"
proof -
  assume wf: "wf_team c"
  obtain i rid where x: "x = (i, rid)" by fastforce
  show ?thesis
    unfolding reorder_one_def x prod.case
    by (rule bindS_keeps [where P = wf_team]) (use wf in \<open>auto simp: wf_update_role split: option.split\<close>)
qed

lemma wf_roles_reorder: "wf_team c \<Longrightarrow> wf_team (snd (roles_reorder a now uid tid body c))"
  unfolding roles_reorder_def by (intro wf_team_chain wf_reorder_one; assumption)

interpretation role_create: authorized_op "roles_create new_id audit_id now uid tid body"
    "\<lambda>c. holds_permission c uid tid PERM_MANAGE_ROLES"
  for new_id audit_id now uid tid body
  by unfold_locales (unfold roles_create_def, intro refuses_intros, assumption,
      fold roles_create_def, rule wf_roles_create)

interpretation role_update: authorized_op "roles_update audit_id now uid tid rid body"
    "\<lambda>c. holds_permission c uid tid PERM_MANAGE_ROLES"
  for audit_id now uid tid rid body
  by unfold_locales (unfold roles_update_def, intro refuses_intros, assumption,
      fold roles_update_def, rule wf_roles_update)

interpretation role_delete: authorized_op "roles_delete audit_id now uid tid rid"
    "\<lambda>c. holds_permission c uid tid PERM_MANAGE_ROLES"
  for audit_id now uid tid rid
  by unfold_locales (unfold roles_delete_def, intro refuses_intros, assumption,
      fold roles_delete_def, rule wf_roles_delete)

interpretation role_reorder: authorized_op "roles_reorder audit_id now uid tid body"
    "\<lambda>c. holds_permission c uid tid PERM_MANAGE_ROLES"
  for audit_id now uid tid body
  by unfold_locales (unfold roles_reorder_def, intro refuses_intros, assumption,
      fold roles_reorder_def, rule wf_roles_reorder)

subsection \<open>No handler hands out a bit its caller does not hold\<close>

text \<open>\<open>within c uid tid s\<close>: every bit somebody holds in \<open>s\<close> was held before, in \<open>c\<close>, by that user or by
  the caller.\<close>

definition within :: "conn \<Rightarrow> string \<Rightarrow> string \<Rightarrow> conn \<Rightarrow> bool" where
  "within c uid tid s \<longleftrightarrow> (\<forall>v t n. holds_bit s v t n \<longrightarrow> holds_bit c v t n \<or> holds_bit c uid tid n)"

lemma within_refl: "within c uid tid c"
  by (simp add: within_def)

lemma within_same: "within c uid tid s \<Longrightarrow> holds_bit s' = holds_bit s \<Longrightarrow> within c uid tid s'"
  by (simp add: within_def)

lemma within_audit: "within c uid tid s \<Longrightarrow> within c uid tid (snd (insert_audit_event i n t a ac tt ti d s))"
  by (subst insert_audit_event_frame [where P = "within c uid tid"])
    (auto simp: within_def holds_bit_frame [of "s\<lparr>c_audit := as\<rparr>" s for s as])

text \<open>A new role is held by nobody.\<close>

lemma create_role_holds:
  assumes "wf_team s"
  shows "holds_bit (snd (create_role now r s)) = holds_bit s"
  unfolding create_role_def
proof (rule exec_cases)
  fix s'
  assume upd: "(if r_id r \<in> r_id ` set (c_roles s) \<or> r_team_id r \<notin> t_id ` set (c_teams s) then None
     else Some (s\<lparr>c_roles := c_roles s @
       [r\<lparr>r_updated_at := (if r_updated_at r = [] then now else r_updated_at r)\<rparr>]\<rparr>)) = Some s'"
  then have fresh: "(mid, r_id r) \<notin> set (c_member_roles s)" for mid
    using assms by (auto simp: wf_team_def refs_def split: if_splits)
  have "held_roles s' v t = held_roles s v t" for v t
    using upd fresh by (auto simp: held_roles_def split: option.split if_splits)
  moreover have "owns_team s' v t = owns_team s v t" for v t
    using upd by (auto simp: owns_team_def split: if_splits)
  ultimately show "holds_bit s' = holds_bit s" by (intro ext) (simp add: holds_bit_def)
qed simp

text \<open>An updated role keeps its holders.\<close>

lemma update_role_held:
  "held_roles (s\<lparr>c_roles := update_where (\<lambda>x. r_id x = k) (\<lambda>x. x\<lparr>r_name := a, r_color := b, r_position := p,
       r_permissions := q, r_updated_at := d\<rparr>) (c_roles s)\<rparr>) v t
    = update_where (\<lambda>x. r_id x = k) (\<lambda>x. x\<lparr>r_name := a, r_color := b, r_position := p,
       r_permissions := q, r_updated_at := d\<rparr>) (held_roles s v t)"
  by (simp add: held_roles_def rows_where_update_where split: option.split) (simp add: update_where_def)

lemma update_role_holds:
  assumes "wf_team s" and "old \<in> set (c_roles s)" and "r_id role = r_id old"
    and "holds_bit (snd (update_role now role s)) v t n"
  shows "holds_bit s v t n \<or> bit (r_permissions role AND NOT (r_permissions old)) n
    \<or> bit (r_permissions role AND NOT (r_permissions old)) 0"
proof -
  let ?s' = "snd (update_role now role s)"
  have "?s' = s \<or> ?s' = s\<lparr>c_roles := update_where (\<lambda>x. r_id x = r_id role)
       (\<lambda>x. x\<lparr>r_name := r_name role, r_color := r_color role, r_position := r_position role,
         r_permissions := r_permissions role, r_updated_at := now\<rparr>) (c_roles s)\<rparr>"
    unfolding update_role_def by (rule exec_cases) simp_all
  then show ?thesis
  proof
    assume "?s' = s"
    with assms(4) show ?thesis by simp
  next
    assume s': "?s' = s\<lparr>c_roles := update_where (\<lambda>x. r_id x = r_id role)
       (\<lambda>x. x\<lparr>r_name := r_name role, r_color := r_color role, r_position := r_position role,
         r_permissions := r_permissions role, r_updated_at := now\<rparr>) (c_roles s)\<rparr>"
    have owns: "owns_team ?s' v t = owns_team s v t" by (simp add: s' owns_team_def)
    show ?thesis
    proof (cases "owns_team s v t")
      case True
      with assms(4) show ?thesis by (simp add: holds_bit_def)
    next
      case False
      with assms(4) owns obtain x where n: "n < 64" and x: "x \<in> set (held_roles ?s' v t)"
        "bit (r_permissions x) 0 \<or> bit (r_permissions x) n"
        by (auto simp: holds_bit_def)
      from x(1) obtain y where y: "y \<in> set (held_roles s v t)"
        "x = y \<or> r_id y = r_id role \<and> r_permissions x = r_permissions role"
        unfolding s' update_role_held set_update_where by (auto split: if_splits)
      have "y = old" if "r_id y = r_id role"
        using role_unique [OF assms(1) held_roles_in [OF y(1)] assms(2)] that assms(3) by simp
      with n x(2) y show ?thesis
        by (auto simp: holds_bit_def bit_and_iff bit_not_iff)
    qed
  qed
qed

lemma reorder_one_holds:
  assumes "wf_team s"
  shows "holds_bit (snd (reorder_one now tid x s)) v t n \<Longrightarrow> holds_bit s v t n"
proof -
  assume h: "holds_bit (snd (reorder_one now tid x s)) v t n"
  obtain i rid where x: "x = (i, rid)" by fastforce
  show ?thesis
  proof (cases "\<exists>role. get_role_by_id s rid = Inr (Some role) \<and> r_team_id role = tid")
    case True
    then obtain role where role: "get_role_by_id s rid = Inr (Some role)" "r_team_id role = tid" by blast
    then have "role \<in> set (c_roles s)" using get_role_by_id_SomeD by blast
    from update_role_holds [OF assms this, of "role\<lparr>r_position := wrap_i32 (int i)\<rparr>" now v t n] role h
    show ?thesis by (simp add: x reorder_one_def bit_and_iff bit_not_iff)
  next
    case False
    with h show ?thesis by (auto simp: x reorder_one_def split: sum.splits option.splits if_splits)
  qed
qed

text \<open>The four handlers. Along the chain the tables stay well formed, so each write sees unique ids.\<close>

abbreviation wf_within :: "conn \<Rightarrow> string \<Rightarrow> string \<Rightarrow> conn \<Rightarrow> bool" where
  "wf_within c uid tid s \<equiv> wf_team s \<and> within c uid tid s"

interpretation within_kept: kept_property "wf_within c uid tid" for c uid tid
  by unfold_locales (simp add: wf_audit within_audit)

lemma wf_within_start: "wf_team c \<Longrightarrow> wf_within c uid tid c"
  by (simp add: within_refl)

lemma wf_within_create: "wf_within c uid tid s \<Longrightarrow> wf_within c uid tid (snd (create_role now r s))"
  by (simp add: wf_create_role create_role_holds within_def)

lemma wf_within_reorder: "wf_within c uid tid s \<Longrightarrow> wf_within c uid tid (snd (reorder_one now t x s))"
  by (auto simp: wf_reorder_one within_def dest: reorder_one_holds)

lemma within_roles_create:
  "wf_team c \<Longrightarrow> wf_within c uid tid (snd (roles_create new_id a now uid tid body c))"
  unfolding roles_create_def Let_def by (intro within_kept.chain wf_within_create wf_within_start; assumption)

lemma within_roles_reorder:
  "wf_team c \<Longrightarrow> wf_within c uid tid (snd (roles_reorder a now uid tid body c))"
  unfolding roles_reorder_def by (intro within_kept.chain wf_within_reorder wf_within_start; assumption)

text \<open>Deleting a role takes bits away only.\<close>

lemma within_fewer:
  "within c uid tid s \<Longrightarrow> c_teams s' = c_teams s \<Longrightarrow> c_members s' = c_members s
   \<Longrightarrow> set (c_member_roles s') \<subseteq> set (c_member_roles s) \<Longrightarrow> set (c_roles s') \<subseteq> set (c_roles s)
   \<Longrightarrow> within c uid tid s'"
  unfolding within_def using holds_bit_mono by blast

lemma delete_role_fewer:
  "c_teams (snd (delete_role rid s)) = c_teams s \<and> c_members (snd (delete_role rid s)) = c_members s
   \<and> set (c_member_roles (snd (delete_role rid s))) \<subseteq> set (c_member_roles s)
   \<and> set (c_roles (snd (delete_role rid s))) \<subseteq> set (c_roles s)"
  by (auto simp: delete_role_def bindS_def exec_def split: prod.split sum.split)

lemma wf_within_delete: "wf_within c uid tid s \<Longrightarrow> wf_within c uid tid (snd (delete_role rid s))"
  using within_fewer [of c uid tid s "snd (delete_role rid s)"] delete_role_fewer [of rid s]
  by (auto simp: wf_delete_role)

lemma within_roles_delete:
  "wf_team c \<Longrightarrow> wf_within c uid tid (snd (roles_delete a now uid tid rid c))"
  unfolding roles_delete_def by (intro within_kept.chain wf_within_delete wf_within_start; assumption)

text \<open>An update adds only bits its check has found in the caller's own mask.\<close>

lemma get_role_for_team_InrD:
  "get_role_for_team c rid tid = Inr r \<Longrightarrow> r \<in> set (c_roles c) \<and> r_id r = rid \<and> r_team_id r = tid"
  by (auto simp: get_role_for_team_def split: if_splits dest: get_role_by_id_SomeD)

lemma check_added_bits_InrD:
  assumes "check_added_bits uid tid added c = Inr u" and "bit added n"
  shows "holds_bit c uid tid n"
proof -
  have nz: "added \<noteq> 0" using assms(2) by auto
  with assms(1) obtain my where my: "user_permissions_bits c uid tid = Inr my" "added AND NOT my = 0"
    by (auto simp: check_added_bits_def split: if_splits)
  have "n < 64" using assms(2) by (auto dest: bit_imp_le_length)
  moreover have "\<not> bit (added AND NOT my) n" by (simp add: my(2))
  ultimately have "bit my n" using assms(2) by (simp add: bit_and_iff bit_not_iff)
  with bits_sound [OF my(1)] show ?thesis .
qed

lemma within_roles_update:
  assumes wf: "wf_team c"
  shows "wf_within c uid tid (snd (roles_update a now uid tid rid body c))"
proof -
  have step: "wf_within c uid tid (snd (update_role now (apply_role_updates old body) c))"
    if old: "get_role_for_team c rid tid = Inr old"
      and chk: "check_added_bits uid tid (r_permissions (apply_role_updates old body) AND NOT (r_permissions old)) c
        = Inr u" for old u
  proof -
    have same: "r_id (apply_role_updates old body) = r_id old" by (simp add: apply_role_updates_def)
    have "holds_bit c v t n \<or> holds_bit c uid tid n"
      if h: "holds_bit (snd (update_role now (apply_role_updates old body) c)) v t n" for v t n
    proof -
      have "n < 64" using h by (simp add: holds_bit_def)
      with update_role_holds [OF wf _ same h] get_role_for_team_InrD [OF old]
        check_added_bits_InrD [OF chk] holds_bit_admin show ?thesis by blast
    qed
    then show ?thesis using wf by (simp add: wf_update_role within_def)
  qed
  note start = within_kept.guarded [OF wf_within_start [OF wf]]
  show ?thesis
    unfolding roles_update_def Let_def
  proof (rule within_kept.wrapped, rule within_kept.wrapped, rule start, rule start, rule start,
      rule within_kept.written, rule step)
  qed (assumption | intro within_kept.chain)+
qed

text \<open>What a successful creation does.\<close>

lemma roles_create_InrD:
  assumes "roles_create new_id a now uid tid body c = (Inr role, c')"
  shows "crr_name body \<noteq> [] \<and> holds_permission c uid tid PERM_MANAGE_ROLES
    \<and> (\<exists>my. user_permissions_bits c uid tid = Inr my \<and> crr_permissions body AND NOT my = 0)
    \<and> r_permissions role = crr_permissions body"
proof -
  have "holds_permission c uid tid PERM_MANAGE_ROLES"
    using role_create.success_needs_guard [of new_id a now uid tid body c role] assms by simp
  then show ?thesis using assms
    by (auto simp: roles_create_def map_errH_def spawn_db_def refuse_if_def Let_def split: if_splits prod.splits sum.splits)
qed

text \<open>What a successful deletion does: the role is gone from every table that names it.\<close>

lemma delete_role_InrD:
  assumes "delete_role rid c = (Inr u, c')"
  shows "c_roles c' = delete_where (\<lambda>r. r_id r = rid) (c_roles c) \<and> c_faults c' = c_faults c
    \<and> c_channels c' = c_channels c
    \<and> (rid \<in> r_id ` set (c_roles c) \<longrightarrow>
        c_channel_role_access c' = delete_where (\<lambda>(cid, x). x = rid) (c_channel_role_access c)
        \<and> c_group_role_access c' = delete_where (\<lambda>(gid, x). x = rid) (c_group_role_access c))"
  using assms by (auto simp: delete_role_def exec_eq_Inr case_prod_beta)

lemma roles_delete_InrD:
  assumes "roles_delete a now uid tid rid c = (Inr (), c')"
  shows "\<exists>role s as. role \<in> set (c_roles c) \<and> r_id role = rid \<and> r_team_id role = tid \<and> \<not> r_is_default role
    \<and> delete_role rid c = (Inr (), s) \<and> c' = s\<lparr>c_audit := as\<rparr>"
proof -
  from assms obtain role s where role: "get_role_by_id c rid = Inr (Some role)" "r_team_id role = tid"
    "\<not> r_is_default role" and s: "delete_role rid c = (Inr (), s)"
    and c': "c' = snd (insert_audit_event a now tid (Some uid) ''role.delete'' (Some ''role'') (Some rid)
          (Some (JObj [(''name'', JStr (r_name role))])) s)"
    by (auto simp: roles_delete_def map_errH_def spawn_db_def refuse_if_def split: if_splits prod.splits sum.splits)
  from role get_role_by_id_SomeD [OF role(1)] s insert_audit_event_state show ?thesis unfolding c' by blast
qed

subsection \<open>Properties\<close>

text \<open>Role administration is behind one permission: whenever creating, updating, deleting or
  reordering roles changes anything in the database (audit rows included) or reports success, the
  caller owns the team or holds a role with the administrator or the manage-roles bit.\<close>

theorem role_writes_authorized:
  assumes "\<not> holds_permission c uid tid PERM_MANAGE_ROLES"
  shows "refuses c (roles_create new_id a now uid tid cbody c)
    \<and> refuses c (roles_update a now uid tid rid ubody c)
    \<and> refuses c (roles_delete a now uid tid rid c)
    \<and> refuses c (roles_reorder a now uid tid obody c)"
  by (intro conjI role_create.refused role_update.refused role_delete.refused role_reorder.refused assms)

theorem role_writes_authorized_witness:
  "refuses sample_conn (roles_delete ''a'' ''now'' ''eve'' ''t'' ''mod'' sample_conn)"
  using role_writes_authorized [of sample_conn "''eve''" "''t''"]
  by (simp add: holds_permission_def owns_team_def held_roles_def sample_conn_def empty_conn_def)

text \<open>A sequence of requests: each names its caller, the team of the path, the identifiers and the time it is given, and the body.\<close>

datatype role_request =
    RoleCreate string string string string string create_role_request
  | RoleUpdate string string string string string update_role_request
  | RoleDelete string string string string string
  | RoleReorder string string string string reorder_request

fun role_step :: "conn \<Rightarrow> role_request \<Rightarrow> conn" where
  "role_step c (RoleCreate new_id a now uid tid body) = snd (roles_create new_id a now uid tid body c)"
| "role_step c (RoleUpdate a now uid tid rid body) = snd (roles_update a now uid tid rid body c)"
| "role_step c (RoleDelete a now uid tid rid) = snd (roles_delete a now uid tid rid c)"
| "role_step c (RoleReorder a now uid tid body) = snd (roles_reorder a now uid tid body c)"

fun request_caller :: "role_request \<Rightarrow> string \<times> string" where
  "request_caller (RoleCreate new_id a now uid tid body) = (uid, tid)"
| "request_caller (RoleUpdate a now uid tid rid body) = (uid, tid)"
| "request_caller (RoleDelete a now uid tid rid) = (uid, tid)"
| "request_caller (RoleReorder a now uid tid body) = (uid, tid)"

lemma role_step_within:
  assumes "wf_team c"
  shows "wf_team (role_step c r) \<and> (case request_caller r of (uid, tid) \<Rightarrow> within c uid tid (role_step c r))"
  using within_roles_create [OF assms] within_roles_update [OF assms] within_roles_delete [OF assms] within_roles_reorder [OF assms]
  by (cases r) simp_all

lemma roles_run_within:
  assumes "wf_team c" and "holds_bit (run role_step c rs) v t n"
  shows "holds_bit c v t n \<or> (\<exists>(uid, tid) \<in> request_caller ` set rs. holds_bit c uid tid n)"
  using assms
proof (induction rs arbitrary: c)
  case (Cons r rs)
  obtain uid tid where u: "request_caller r = (uid, tid)" by fastforce
  note step = role_step_within [OF Cons.prems(1), of r, unfolded u, simplified]
  from step Cons.prems(2) have "holds_bit (role_step c r) v t n \<or> (\<exists>x \<in> request_caller ` set rs. holds_bit (role_step c r) (fst x) (snd x) n)"
    using Cons.IH [of "role_step c r"] by (simp add: split_def)
  moreover have "holds_bit c v' t' n \<or> holds_bit c uid tid n" if "holds_bit (role_step c r) v' t' n" for v' t'
    using step that unfolding within_def by blast
  ultimately have "holds_bit c v t n \<or> (\<exists>x \<in> insert (uid, tid) (request_caller ` set rs). holds_bit c (fst x) (snd x) n)"
    by fastforce
  then show ?case by (simp only: u [symmetric] image_insert [symmetric] list.set split_def)
qed simp

text \<open>C3. No escalation through role administration: after any sequence of requests to the role endpoints, by whatever
  callers, each acting with the rights it has by then, a permission bit that some user (a caller included) holds in some
  team was held before the first of them, by that user in that team, or by one of the callers in the team of its request.\<close>

theorem roles_no_escalation:
  assumes "wf_team c" and "healthy c"
    and "user_permissions_bits (run role_step c rs) v t = Inr new" and "bit new n"
  shows "\<exists>(u, td) \<in> insert (v, t) (request_caller ` set rs). \<exists>old. user_permissions_bits c u td = Inr old \<and> bit old n"
proof -
  have "holds_bit c u td n \<Longrightarrow> \<exists>old. user_permissions_bits c u td = Inr old \<and> bit old n" for u td
    using user_permissions_bits_total [OF assms(2), of u td] bits_hold [OF assms(2)] by blast
  then show ?thesis using roles_run_within [OF assms(1) bits_sound [OF assms(3,4)]] by fast
qed

theorem roles_no_escalation_witness:
  "\<exists>(u, td) \<in> {(''bob'', ''t''), (''owner'', ''t'')}. \<exists>old. user_permissions_bits sample_conn u td = Inr old \<and> bit old 3"
proof -
  let ?rs = "[RoleReorder ''a'' ''now'' ''owner'' ''t'' \<lparr>ror_role_ids = [''mod'']\<rparr>,
     RoleUpdate ''a'' ''now'' ''bob'' ''t'' ''mod'' \<lparr>urr_name = None, urr_color = None, urr_permissions = Some 12, urr_position = None\<rparr>]"
  have wf: "wf_team sample_conn"
    by (simp add: wf_team_def sample_conn_def sample_user_def empty_conn_def)
  have new: "user_permissions_bits (run role_step sample_conn ?rs) ''bob'' ''t'' = Inr 8" by code_simp
  have "bit (8 :: u64) 3" by code_simp
  from roles_no_escalation [OF wf sample_conn_sel(2) new this] show ?thesis by (simp del: run.simps) fast
qed

text \<open>A role that was just created carries no permission bit its creator does not hold, and only a
  caller with the manage-roles permission gets that far.\<close>

theorem created_role_within_creator:
  assumes "roles_create new_id a now uid tid body c = (Inr role, c')"
    and "user_permissions_bits c uid tid = Inr mine"
  shows "r_permissions role AND NOT mine = 0 \<and> holds_permission c uid tid PERM_MANAGE_ROLES"
  using roles_create_InrD [OF assms(1)] assms(2) by auto

theorem created_role_within_creator_witness:
  "\<exists>role c'. roles_create ''r2'' ''a'' ''now'' ''bob'' ''t'' \<lparr>crr_name = ''x'', crr_color = [], crr_permissions = 8\<rparr>
      sample_conn = (Inr role, c') \<and> r_permissions role AND NOT 8 = 0"
proof -
  let ?r = "roles_create ''r2'' ''a'' ''now'' ''bob'' ''t'' \<lparr>crr_name = ''x'', crr_color = [], crr_permissions = 8\<rparr> sample_conn"
  have mine: "user_permissions_bits sample_conn ''bob'' ''t'' = Inr 8"
    by code_simp
  have "case ?r of (Inr _, _) \<Rightarrow> True | _ \<Rightarrow> False"
    by code_simp
  then obtain role c' where "?r = (Inr role, c')"
    by (auto split: prod.splits sum.splits)
  with created_role_within_creator [OF this mine] show ?thesis by blast
qed

text \<open>Deleting a role widens access: when the deleted role was the only one that gated a channel (or
  its group), the cascade empties the list, and an empty list is open, so after the deletion anybody
  (even a user who is in no team) passes the access check of that channel.\<close>

theorem deleting_gate_opens_channel:
  assumes "healthy c" and "gating_roles c cid = {rid}"
    and "roles_delete a now uid tid rid c = (Inr (), c')"
  shows "user_can_access_channel c' v t cid = Inr True"
proof -
  from roles_delete_InrD [OF assms(3)] obtain role s as where
    role: "role \<in> set (c_roles c)" "r_id role = rid" and s: "delete_role rid c = (Inr (), s)"
    and c': "c' = s\<lparr>c_audit := as\<rparr>"
    by blast
  have "rid \<in> r_id ` set (c_roles c)" using role by auto
  with delete_role_InrD [OF s] have kept: "c_faults c' = c_faults c" "c_channels c' = c_channels c"
    "c_channel_role_access c' = delete_where (\<lambda>(cid, x). x = rid) (c_channel_role_access c)"
    "c_group_role_access c' = delete_where (\<lambda>(gid, x). x = rid) (c_group_role_access c)"
    by (auto simp: c')
  have "gating_roles c' cid = gating_roles c cid - {rid}"
    unfolding gating_roles_def by (auto simp: kept split: option.splits)
  then have "may_access c' v t cid" using assms(2) by (simp add: may_access_def)
  moreover have "healthy c'" using assms(1) kept(1) by (simp add: healthy_def)
  ultimately show ?thesis by (simp add: access_decides)
qed

theorem deleting_gate_opens_channel_witness:
  "user_can_access_channel sample_conn ''eve'' ''t'' ''ch'' = Inr False
   \<and> user_can_access_channel (snd (roles_delete ''a'' ''now'' ''owner'' ''t'' ''mod'' sample_conn)) ''eve'' ''t'' ''ch''
      = Inr True"
proof
  show "user_can_access_channel sample_conn ''eve'' ''t'' ''ch'' = Inr False"
    by code_simp
  have gate: "gating_roles sample_conn ''ch'' = {''mod''}"
    by (auto simp: gating_roles_def sample_conn_def)
  have "fst (roles_delete ''a'' ''now'' ''owner'' ''t'' ''mod'' sample_conn) = Inr ()"
    by code_simp
  then have ok: "roles_delete ''a'' ''now'' ''owner'' ''t'' ''mod'' sample_conn
      = (Inr (), snd (roles_delete ''a'' ''now'' ''owner'' ''t'' ''mod'' sample_conn))"
    by (metis prod.collapse)
  show "user_can_access_channel (snd (roles_delete ''a'' ''now'' ''owner'' ''t'' ''mod'' sample_conn)) ''eve'' ''t'' ''ch''
      = Inr True"
    by (rule deleting_gate_opens_channel [OF sample_conn_sel(2) gate ok])
qed

end
