(* ===== verification/Teams_Api.thy ===== *)
theory Teams_Api
  imports Roles_Api Events
begin

section \<open>The team and member API\<close>

text \<open>
  \<open>api/teams.rs\<close>, with the statements of \<open>db/ban_queries.rs\<close> it uses, \<open>record_team_owner\<close> of
  \<open>federation/authority.rs\<close> and \<open>invalidate_user_tokens_now\<close> of \<open>db/device_queries.rs\<close>. A handler that
  broadcasts returns the events it puts on \<open>Hub::broadcast_to_all\<close> beside its result. Fresh ids, the
  clock and the node id (\<open>identity::ensure\<close>, empty when that failed) are parameters of a request.
\<close>

type_synonym 'a broadcasting = "conn \<Rightarrow> (app_error + 'a) \<times> conn \<times> event list"

definition and_broadcast :: "'a handler \<Rightarrow> event list \<Rightarrow> 'a broadcasting" where
  "and_broadcast h evs c = (case h c of (Inl e, c') \<Rightarrow> (Inl e, c', []) | (Inr x, c') \<Rightarrow> (Inr x, c', evs))"

lemma and_broadcast_sel:
  "fst (and_broadcast h evs c) = fst (h c)" "fst (snd (and_broadcast h evs c)) = snd (h c)"
  "snd (snd (and_broadcast h evs c)) = (case fst (h c) of Inl _ \<Rightarrow> [] | Inr _ \<Rightarrow> evs)"
  by (simp_all add: and_broadcast_def split: prod.split sum.split)

subsection \<open>Bans, team ownership, token invalidation\<close>

definition create_ban :: "ban \<Rightarrow> unit db_op" where
  "create_ban b = exec ''create_ban'' (\<lambda>c.
     if (\<exists>x \<in> set (c_bans c). ban_team_id x = ban_team_id b \<and> ban_user_id x = ban_user_id b)
       \<or> ban_team_id b \<notin> t_id ` set (c_teams c) \<or> ban_user_id b \<notin> u_id ` set (c_users c)
       \<or> ban_banned_by b \<notin> u_id ` set (c_users c) then None
     else Some (c\<lparr>c_bans := c_bans c @ [b]\<rparr>))"

definition delete_ban :: "string \<Rightarrow> string \<Rightarrow> unit db_op" where
  "delete_ban tid uid = exec ''delete_ban'' (\<lambda>c.
     Some (c\<lparr>c_bans := delete_where (\<lambda>b. ban_team_id b = tid \<and> ban_user_id b = uid) (c_bans c)\<rparr>))"

definition get_ban :: "conn \<Rightarrow> string \<Rightarrow> string \<Rightarrow> ban option db_res" where
  "get_ban c tid uid = optional (query_row ''get_ban'' c
     (rows_where (\<lambda>b. ban_team_id b = tid \<and> ban_user_id b = uid) (c_bans c)))"

definition get_banned_users :: "conn \<Rightarrow> string \<Rightarrow> ban list db_res" where
  "get_banned_users c tid = stmt ''get_banned_users'' c (rows_where (\<lambda>b. ban_team_id b = tid) (c_bans c))"

text \<open>An upsert on the primary key \<open>team_id\<close>.\<close>

definition record_team_owner :: "string \<Rightarrow> string \<Rightarrow> unit db_op" where
  "record_team_owner tid node = exec ''record_team_owner'' (\<lambda>c.
     Some (c\<lparr>c_team_authority :=
       (if tid \<in> fst ` set (c_team_authority c)
        then update_where (\<lambda>p. fst p = tid) (\<lambda>p. (fst p, node)) (c_team_authority c)
        else c_team_authority c @ [(tid, node)])\<rparr>))"

definition invalidate_user_tokens_now :: "int \<Rightarrow> string \<Rightarrow> unit db_op" where
  "invalidate_user_tokens_now now_ts uid = exec ''invalidate_user_tokens_now'' (\<lambda>c.
     Some (c\<lparr>c_devices := update_where (\<lambda>d. d_user_id d = uid)
       (\<lambda>d. d\<lparr>d_tokens_invalidated_after := now_ts\<rparr>) (c_devices c)\<rparr>))"

subsection \<open>Teams\<close>

record create_team_request =
  ctr_name :: string
  ctr_description :: string

record update_team_request =
  utr_name :: "string option"
  utr_description :: "string option"
  utr_icon_url :: "string option"
  utr_force_turn_relay :: "bool option"

record update_member_request =
  umr_nickname :: "string option"
  umr_role_ids :: "string list option"

record ban_request =
  br_reason :: string

definition teams_list :: "string \<Rightarrow> team list handler" where
  "teams_list uid = spawn_db (readS (\<lambda>c. get_teams_by_user c uid))"

text \<open>The ids a creation draws, in the order of the source.\<close>

record team_ids =
  ti_team :: string
  ti_member :: string
  ti_admin :: string
  ti_everyone :: string
  ti_channel :: string

definition fresh_team :: "team_ids \<Rightarrow> string \<Rightarrow> string \<Rightarrow> create_team_request \<Rightarrow> team" where
  "fresh_team ids now uid body = \<lparr>t_id = ti_team ids, t_name = ctr_name body,
     t_description = ctr_description body, t_icon_url = [], t_created_by = uid,
     t_max_file_size = 25 * 1024 * 1024, t_allow_member_invites = True, t_federated = False,
     t_force_turn_relay = False, t_created_at = now, t_updated_at = now\<rparr>"

definition fresh_member :: "team_ids \<Rightarrow> string \<Rightarrow> string \<Rightarrow> member" where
  "fresh_member ids now uid = \<lparr>m_id = ti_member ids, m_team_id = ti_team ids, m_user_id = uid,
     m_nickname = [], m_joined_at = now, m_invited_by = [], m_updated_at = []\<rparr>"

definition fresh_roles :: "team_ids \<Rightarrow> string \<Rightarrow> role list" where
  "fresh_roles ids now =
     [\<lparr>r_id = ti_admin ids, r_team_id = ti_team ids, r_name = ''Admin'', r_color = ''#5eebab'',
        r_position = 1, r_permissions = PERM_ADMIN, r_is_default = False, r_created_at = now,
        r_updated_at = []\<rparr>,
      \<lparr>r_id = ti_everyone ids, r_team_id = ti_team ids, r_name = ''everyone'', r_color = ''#99AAB5'',
        r_position = 0, r_permissions = PERM_SEND_MESSAGES OR PERM_CREATE_INVITES, r_is_default = True,
        r_created_at = now, r_updated_at = []\<rparr>]"

definition fresh_channel :: "team_ids \<Rightarrow> string \<Rightarrow> string \<Rightarrow> channel" where
  "fresh_channel ids now uid = \<lparr>ch_id = ti_channel ids, ch_team_id = ti_team ids, ch_name = ''general'',
     ch_topic = ''General discussion'', ch_type = ''text'', ch_position = 0, ch_category = [],
     ch_created_by = uid, ch_created_at = now, ch_updated_at = now, ch_locked = False,
     ch_hidden_if_restricted = False, ch_slow_mode_seconds = 0, ch_group_id = None\<rparr>"

definition create_team_body ::
  "team_ids \<Rightarrow> string \<Rightarrow> string \<Rightarrow> string \<Rightarrow> create_team_request \<Rightarrow> team db_op" where
  "create_team_body ids now this_node_id uid body =
     bindS (create_team (fresh_team ids now uid body)) (\<lambda>_.
     bindS (if this_node_id \<noteq> [] then ignoreS (record_team_owner (ti_team ids) this_node_id)
            else returnS ()) (\<lambda>_.
     bindS (create_member (fresh_member ids now uid)) (\<lambda>_.
     bindS (for_eachS (create_role now) (fresh_roles ids now)) (\<lambda>_.
     bindS (assign_role_to_member (ti_member ids) (ti_admin ids)) (\<lambda>_.
     bindS (create_channel (fresh_channel ids now uid)) (\<lambda>_.
     returnS (fresh_team ids now uid body)))))))"

definition teams_create ::
  "team_ids \<Rightarrow> string \<Rightarrow> string \<Rightarrow> string \<Rightarrow> create_team_request \<Rightarrow> team handler" where
  "teams_create ids now this_node_id uid body c =
     (if ctr_name body = [] then (Inl (BadRequest ''name is required''), c)
      else if length (ctr_name body) > 100 then (Inl (BadRequest ''name too long (max 100 chars)''), c)
      else if length (ctr_description body) > 1024
        then (Inl (BadRequest ''description too long (max 1024 chars)''), c)
      else spawn_db (create_team_body ids now this_node_id uid body) c)"

definition teams_get_team :: "string \<Rightarrow> string \<Rightarrow> team handler" where
  "teams_get_team uid tid = map_errH (map_not_found ''team'') (spawn_db
     (bindS (readS (\<lambda>c. require_team_member c uid tid)) (\<lambda>_.
      readS (\<lambda>c. bindE (get_team c tid) (\<lambda>o1. ok_or o1 QueryReturnedNoRows)))))"

definition apply_team_updates :: "team \<Rightarrow> update_team_request \<Rightarrow> team" where
  "apply_team_updates t body = t\<lparr>
     t_name := (case utr_name body of None \<Rightarrow> t_name t | Some n \<Rightarrow> n),
     t_description := (case utr_description body of None \<Rightarrow> t_description t | Some d \<Rightarrow> d),
     t_icon_url := (case utr_icon_url body of None \<Rightarrow> t_icon_url t | Some i \<Rightarrow> i),
     t_force_turn_relay := (case utr_force_turn_relay body of None \<Rightarrow> t_force_turn_relay t | Some b \<Rightarrow> b)\<rparr>"

definition teams_update ::
  "string \<Rightarrow> string \<Rightarrow> string \<Rightarrow> string \<Rightarrow> update_team_request \<Rightarrow> team handler" where
  "teams_update audit_id now uid tid body c =
     (if (case utr_name body of None \<Rightarrow> False | Some n \<Rightarrow> length n > 100)
      then (Inl (BadRequest ''name too long (max 100 chars)''), c)
      else if (case utr_description body of None \<Rightarrow> False | Some d \<Rightarrow> length d > 1024)
      then (Inl (BadRequest ''description too long (max 1024 chars)''), c)
      else map_errH (map_not_found ''team'') (spawn_db
        (bindS (readS (\<lambda>c. require_permission c uid tid PERM_MANAGE_TEAM)) (\<lambda>_.
         bindS (readS (\<lambda>c. bindE (get_team c tid) (\<lambda>o1. ok_or o1 QueryReturnedNoRows))) (\<lambda>t0.
         let t = apply_team_updates t0 body in
         bindS (update_team now t) (\<lambda>_.
         bindS (ignoreS (insert_audit_event audit_id now tid (Some uid) ''team.update'' (Some ''team'')
           (Some tid) (Some (JObj [(''name'', JStr (t_name t)),
             (''force_turn_relay'', JBool (t_force_turn_relay t))])))) (\<lambda>_.
         returnS t)))))) c)"

definition teams_list_members :: "string \<Rightarrow> string \<Rightarrow> (member \<times> user) list handler" where
  "teams_list_members uid tid = spawn_db
     (bindS (readS (\<lambda>c. require_team_member c uid tid)) (\<lambda>_. readS (\<lambda>c. get_members_by_team c tid)))"

subsection \<open>Members and their roles\<close>

fun collect_team_role_bits_loop :: "conn \<Rightarrow> string \<Rightarrow> string list \<Rightarrow> u64 \<Rightarrow> u64 db_res" where
  "collect_team_role_bits_loop c tid [] bits = Inr bits"
| "collect_team_role_bits_loop c tid (rid # rids) bits =
     bindE (get_role_by_id c rid) (\<lambda>ro.
     bindE (ok_or ro (InvalidParameterName (''role '' @ rid @ '' not found''))) (\<lambda>role.
       if r_team_id role \<noteq> tid then Inl (InvalidParameterName ''role does not belong to this team'')
       else collect_team_role_bits_loop c tid rids
         (if r_permissions role AND PERM_ADMIN \<noteq> 0 then NOT 0 else bits OR r_permissions role)))"

definition collect_team_role_bits :: "conn \<Rightarrow> string list \<Rightarrow> string \<Rightarrow> u64 db_res" where
  "collect_team_role_bits c rids tid = collect_team_role_bits_loop c tid rids 0"

text \<open>The loop over the previous roles is the one of \<open>user_permissions_bits\<close>, break included.\<close>

definition check_role_escalation :: "conn \<Rightarrow> string \<Rightarrow> string \<Rightarrow> string \<Rightarrow> u64 \<Rightarrow> unit db_res" where
  "check_role_escalation c mid actor tid assigned_bits =
     bindE (get_member_roles c mid) (\<lambda>prev.
       let added = assigned_bits AND NOT (permissions_loop prev 0)
       in if added \<noteq> 0
          then bindE (user_permissions_bits c actor tid) (\<lambda>my_bits.
            if added AND NOT my_bits \<noteq> 0 then Inl (InvalidParameterName ''escalation'') else Inr ())
          else Inr ())"

definition apply_member_role_reassignment ::
  "string \<Rightarrow> string \<Rightarrow> int \<Rightarrow> member \<Rightarrow> string list \<Rightarrow> string \<Rightarrow> string \<Rightarrow> string \<Rightarrow> unit db_op" where
  "apply_member_role_reassignment audit_id now now_ts m rids actor tid target =
     bindS (readS (\<lambda>c. collect_team_role_bits c rids tid)) (\<lambda>assigned_bits.
     bindS (readS (\<lambda>c. check_role_escalation c (m_id m) actor tid assigned_bits)) (\<lambda>_.
     bindS (readS (\<lambda>c. get_member_roles c (m_id m))) (\<lambda>existing.
     bindS (for_eachS (\<lambda>r. remove_role_from_member (m_id m) (r_id r)) existing) (\<lambda>_.
     bindS (for_eachS (\<lambda>rid. assign_role_to_member (m_id m) rid) rids) (\<lambda>_.
     bindS (ignoreS (insert_audit_event audit_id now tid (Some actor) ''member.roles.update'' (Some ''user'')
       (Some target) (Some (JObj [(''role_ids'', JArr (map JStr rids))])))) (\<lambda>_.
     ignoreS (invalidate_user_tokens_now now_ts target)))))))"

definition update_member_error :: "app_error \<Rightarrow> app_error" where
  "update_member_error e = (case e of
     Forbidden msg \<Rightarrow> if msg = ''escalation''
       then Forbidden ''you can't grant a permission you don't hold yourself''
       else map_not_found ''member'' e
   | other \<Rightarrow> map_not_found ''member'' other)"

definition update_member_body ::
  "string \<Rightarrow> string \<Rightarrow> int \<Rightarrow> string \<Rightarrow> string \<Rightarrow> string \<Rightarrow> update_member_request \<Rightarrow> member db_op" where
  "update_member_body audit_id now now_ts uid tid target body =
     bindS (if uid \<noteq> target \<or> umr_role_ids body \<noteq> None
            then readS (\<lambda>c. require_permission c uid tid PERM_MANAGE_MEMBERS) else returnS ()) (\<lambda>_.
     bindS (readS (\<lambda>c. bindE (get_member_by_user_and_team c target tid)
       (\<lambda>mo. ok_or mo QueryReturnedNoRows))) (\<lambda>m0.
     let m = m0\<lparr>m_nickname := (case umr_nickname body of None \<Rightarrow> m_nickname m0 | Some n \<Rightarrow> n)\<rparr> in
     bindS (update_member now m) (\<lambda>_.
     bindS (case umr_role_ids body of
         Some rids \<Rightarrow> apply_member_role_reassignment audit_id now now_ts m rids uid tid target
       | None \<Rightarrow> returnS ()) (\<lambda>_.
     returnS m))))"

definition teams_update_member ::
  "string \<Rightarrow> string \<Rightarrow> int \<Rightarrow> string \<Rightarrow> string \<Rightarrow> string \<Rightarrow> update_member_request \<Rightarrow> member broadcasting" where
  "teams_update_member audit_id now now_ts uid tid target body = and_broadcast
     (map_errH update_member_error (spawn_db (update_member_body audit_id now now_ts uid tid target body)))
     (case umr_role_ids body of
        Some rids \<Rightarrow> [event_new ''member:roles-updated'' (JObj [(''team_id'', JStr tid),
          (''user_id'', JStr target), (''actor_user_id'', JStr uid), (''role_ids'', JArr (map JStr rids))])]
      | None \<Rightarrow> [])"

definition member_left :: "string \<Rightarrow> string \<Rightarrow> event list" where
  "member_left tid uid = [event_new ''member:left'' (JObj [(''team_id'', JStr tid), (''user_id'', JStr uid)])]"

subsection \<open>Kick, leave, ban\<close>

definition remove_member :: "string \<Rightarrow> string \<Rightarrow> member option \<Rightarrow> unit db_op" where
  "remove_member uid tid mo =
     bindS (case mo of Some m \<Rightarrow> clear_member_roles (m_id m) | None \<Rightarrow> returnS ()) (\<lambda>_. delete_member uid tid)"

definition kick_member_body :: "string \<Rightarrow> string \<Rightarrow> string \<Rightarrow> string \<Rightarrow> string \<Rightarrow> unit db_op" where
  "kick_member_body audit_id now uid tid target =
     bindS (readS (\<lambda>c. require_permission c uid tid PERM_MANAGE_MEMBERS)) (\<lambda>_.
     bindS (readS (\<lambda>c. get_member_by_user_and_team c target tid)) (\<lambda>mo.
     bindS (refuse_if (mo = None) QueryReturnedNoRows) (\<lambda>_.
     bindS (remove_member target tid mo) (\<lambda>_.
     ignoreS (insert_audit_event audit_id now tid (Some uid) ''member.kick'' (Some ''user'')
       (Some target) None)))))"

definition teams_kick_member :: "string \<Rightarrow> string \<Rightarrow> string \<Rightarrow> string \<Rightarrow> string \<Rightarrow> unit broadcasting" where
  "teams_kick_member audit_id now uid tid target c =
     (if uid = target then (Inl (BadRequest ''cannot kick yourself''), c, [])
      else and_broadcast
        (map_errH (map_not_found ''member'') (spawn_db (kick_member_body audit_id now uid tid target)))
        (member_left tid target) c)"

text \<open>\<open>COUNT(DISTINCT m.user_id)\<close> over the joined tables, and the \<open>EXISTS\<close> query.\<close>

definition holds_admin_role :: "conn \<Rightarrow> string \<Rightarrow> bool" where
  "holds_admin_role c mid \<longleftrightarrow> list_ex (\<lambda>(x, rid). x = mid \<and>
     list_ex (\<lambda>r. r_id r = rid \<and> r_permissions r AND PERM_ADMIN \<noteq> 0) (c_roles c)) (c_member_roles c)"

definition count_other_admins :: "conn \<Rightarrow> string \<Rightarrow> string \<Rightarrow> nat" where
  "count_other_admins c uid tid = length (remdups (map m_user_id (filter (\<lambda>m.
     m_team_id m = tid \<and> m_user_id m \<noteq> uid \<and> holds_admin_role c (m_id m)) (c_members c))))"

definition leave_error :: "app_error \<Rightarrow> app_error" where
  "leave_error e = (case e of
     NotFound _ \<Rightarrow> NotFound ''not a member of this team''
   | Forbidden msg \<Rightarrow> if msg = ''sole_admin''
       then Conflict (''you're the only admin '' @ [CHR 0xE2, CHR 0x80, CHR 0x94] @ '' promote someone else before leaving'') else e
   | _ \<Rightarrow> e)"

definition leave_team_body :: "string \<Rightarrow> string \<Rightarrow> string \<Rightarrow> string \<Rightarrow> unit db_op" where
  "leave_team_body audit_id now uid tid =
     bindS (readS (\<lambda>c. bindE (get_member_by_user_and_team c uid tid) (\<lambda>mo. ok_or mo QueryReturnedNoRows))) (\<lambda>m.
     bindS (readS (\<lambda>c. stmt ''leave_team.other_admins'' c (count_other_admins c uid tid))) (\<lambda>other_admins.
     bindS (readS (\<lambda>c. stmt ''leave_team.i_am_admin'' c (holds_admin_role c (m_id m)))) (\<lambda>i_am_admin.
     bindS (refuse_if (i_am_admin \<and> other_admins = 0) (InvalidParameterName ''sole_admin'')) (\<lambda>_.
     bindS (remove_member uid tid (Some m)) (\<lambda>_.
     ignoreS (insert_audit_event audit_id now tid (Some uid) ''member.leave'' (Some ''user'') (Some uid) None))))))"

definition teams_leave_team :: "string \<Rightarrow> string \<Rightarrow> string \<Rightarrow> string \<Rightarrow> unit broadcasting" where
  "teams_leave_team audit_id now uid tid = and_broadcast
     (map_errH leave_error (spawn_db (leave_team_body audit_id now uid tid))) (member_left tid uid)"

definition ban_member_body ::
  "string \<Rightarrow> string \<Rightarrow> string \<Rightarrow> string \<Rightarrow> string \<Rightarrow> ban_request \<Rightarrow> ban db_op" where
  "ban_member_body audit_id now uid tid target body =
     bindS (readS (\<lambda>c. require_permission c uid tid PERM_MANAGE_MEMBERS)) (\<lambda>_.
     bindS (readS (\<lambda>c. get_ban c tid target)) (\<lambda>already.
     bindS (refuse_if (already \<noteq> None) (InvalidParameterName ''user is already banned'')) (\<lambda>_.
     let b = \<lparr>ban_team_id = tid, ban_user_id = target, ban_banned_by = uid, ban_reason = br_reason body,
           ban_created_at = now\<rparr> in
     bindS (create_ban b) (\<lambda>_.
     bindS (readS (\<lambda>c. get_member_by_user_and_team c target tid)) (\<lambda>mo.
     bindS (remove_member target tid mo) (\<lambda>_.
     bindS (ignoreS (insert_audit_event audit_id now tid (Some uid) ''member.ban'' (Some ''user'')
       (Some target) (Some (JObj [(''reason'', JStr (br_reason body))])))) (\<lambda>_.
     returnS b)))))))"

definition teams_ban_member ::
  "string \<Rightarrow> string \<Rightarrow> string \<Rightarrow> string \<Rightarrow> string \<Rightarrow> ban_request \<Rightarrow> ban broadcasting" where
  "teams_ban_member audit_id now uid tid target body c =
     (if uid = target then (Inl (BadRequest ''cannot ban yourself''), c, [])
      else and_broadcast (spawn_db (ban_member_body audit_id now uid tid target body))
        (member_left tid target) c)"

definition teams_unban_member :: "string \<Rightarrow> string \<Rightarrow> string \<Rightarrow> unit handler" where
  "teams_unban_member uid tid target = map_errH (map_not_found ''ban'') (spawn_db
     (bindS (readS (\<lambda>c. require_permission c uid tid PERM_MANAGE_MEMBERS)) (\<lambda>_.
      bindS (readS (\<lambda>c. get_ban c tid target)) (\<lambda>b.
      bindS (refuse_if (b = None) QueryReturnedNoRows) (\<lambda>_. delete_ban tid target)))))"

subsection \<open>Guards and integrity\<close>

lemma wf_team_other_tables:
  "wf_team c \<Longrightarrow> wf_team (snd (create_ban b c))" "wf_team c \<Longrightarrow> wf_team (snd (delete_ban tid uid c))"
  "wf_team c \<Longrightarrow> wf_team (snd (record_team_owner tid node c))"
  "wf_team c \<Longrightarrow> wf_team (snd (invalidate_user_tokens_now n uid c))"
  "wf_team c \<Longrightarrow> wf_team (snd (create_channel ch c))"
  unfolding create_ban_def delete_ban_def record_team_owner_def invalidate_user_tokens_now_def create_channel_def
  by (rule exec_cases; auto simp: wf_team_def split: if_splits)+

lemma wf_remove_member: "wf_team c \<Longrightarrow> wf_team (snd (remove_member uid tid mo c))"
  unfolding remove_member_def by (intro wf_team_chain; assumption)

lemmas wf_teams_chain = wf_team_chain wf_team_other_tables wf_remove_member

lemma wf_teams_create: "wf_team c \<Longrightarrow> wf_team (snd (teams_create ids now node uid body c))"
  unfolding teams_create_def create_team_body_def by (intro wf_teams_chain; assumption)

lemma wf_teams_update: "wf_team c \<Longrightarrow> wf_team (snd (teams_update a now uid tid body c))"
  unfolding teams_update_def Let_def by (intro wf_teams_chain; assumption)

lemma wf_update_member_body:
  "wf_team c \<Longrightarrow> wf_team (snd (spawn_db (update_member_body a now nts uid tid target body) c))"
  unfolding update_member_body_def apply_member_role_reassignment_def Let_def
  by (intro wf_teams_chain; assumption)

lemma wf_kick_body: "wf_team c \<Longrightarrow> wf_team (snd (spawn_db (kick_member_body a now uid tid target) c))"
  unfolding kick_member_body_def by (intro wf_teams_chain; assumption)

lemma wf_leave_body: "wf_team c \<Longrightarrow> wf_team (snd (spawn_db (leave_team_body a now uid tid) c))"
  unfolding leave_team_body_def by (intro wf_teams_chain; assumption)

lemma wf_ban_body: "wf_team c \<Longrightarrow> wf_team (snd (spawn_db (ban_member_body a now uid tid target body) c))"
  unfolding ban_member_body_def Let_def by (intro wf_teams_chain; assumption)

lemma wf_unban: "wf_team c \<Longrightarrow> wf_team (snd (teams_unban_member uid tid target c))"
  unfolding teams_unban_member_def by (intro wf_teams_chain; assumption)

lemma update_member_refused:
  assumes "\<not> (uid \<noteq> target \<or> umr_role_ids body \<noteq> None \<longrightarrow> holds_permission c uid tid PERM_MANAGE_MEMBERS)"
  shows "refuses c (spawn_db (update_member_body a now nts uid tid target body) c)"
proof -
  from assms have "uid \<noteq> target \<or> umr_role_ids body \<noteq> None" and no: "\<not> holds_permission c uid tid PERM_MANAGE_MEMBERS"
    by simp_all
  then show ?thesis
    unfolding update_member_body_def if_P [OF \<open>uid \<noteq> target \<or> umr_role_ids body \<noteq> None\<close>]
    by (intro refuses_guarded)
qed

interpretation team_update: authorized_op "teams_update a now uid tid body"
    "\<lambda>c. holds_permission c uid tid PERM_MANAGE_TEAM"
  for a now uid tid body
  by unfold_locales (unfold teams_update_def, intro refuses_intros, assumption,
      fold teams_update_def, rule wf_teams_update)

interpretation member_update: authorized_op "spawn_db (update_member_body a now nts uid tid target body)"
    "\<lambda>c. uid \<noteq> target \<or> umr_role_ids body \<noteq> None \<longrightarrow> holds_permission c uid tid PERM_MANAGE_MEMBERS"
  for a now nts uid tid target body
  by unfold_locales (rule update_member_refused, assumption, rule wf_update_member_body)

interpretation member_kick: authorized_op "spawn_db (kick_member_body a now uid tid target)"
    "\<lambda>c. holds_permission c uid tid PERM_MANAGE_MEMBERS"
  for a now uid tid target
  by unfold_locales (unfold kick_member_body_def, intro refuses_intros, assumption,
      fold kick_member_body_def, rule wf_kick_body)

interpretation member_ban: authorized_op "spawn_db (ban_member_body a now uid tid target body)"
    "\<lambda>c. holds_permission c uid tid PERM_MANAGE_MEMBERS"
  for a now uid tid target body
  by unfold_locales (unfold ban_member_body_def, intro refuses_intros, assumption,
      fold ban_member_body_def, rule wf_ban_body)

interpretation member_unban: authorized_op "teams_unban_member uid tid target"
    "\<lambda>c. holds_permission c uid tid PERM_MANAGE_MEMBERS"
  for uid tid target
  by unfold_locales (unfold teams_unban_member_def, intro refuses_intros, assumption,
      fold teams_unban_member_def, rule wf_unban)

interpretation member_leave: authorized_op "spawn_db (leave_team_body a now uid tid)"
    "\<lambda>c. is_member c uid tid"
  for a now uid tid
proof unfold_locales
  fix c :: conn
  assume no: "\<not> is_member c uid tid"
  have "get_member_by_user_and_team c uid tid \<noteq> Inr (Some m)" for m
    using no get_member_SomeD [of c uid tid m] by (auto simp: is_member_def)
  then show "refuses c (spawn_db (leave_team_body a now uid tid) c)"
    unfolding leave_team_body_def
    by (cases "get_member_by_user_and_team c uid tid")
      (auto simp: refuses_def spawn_db_result ok_or_def split: option.splits)
qed (rule wf_leave_body)

text \<open>A refused broadcasting handler changes nothing and broadcasts nothing.\<close>

definition refuses_silently :: "conn \<Rightarrow> (app_error + 'a) \<times> conn \<times> event list \<Rightarrow> bool" where
  "refuses_silently c r \<longleftrightarrow> fst (snd r) = c \<and> (\<exists>e. fst r = Inl e) \<and> snd (snd r) = []"

lemma refuses_silently_broadcast: "refuses c (h c) \<Longrightarrow> refuses_silently c (and_broadcast h evs c)"
  by (auto simp: refuses_def refuses_silently_def and_broadcast_sel)

lemma refuses_silently_simps:
  "refuses_silently c (Inl e, c, [])"
  "refuses_silently c x \<Longrightarrow> refuses_silently c y \<Longrightarrow> refuses_silently c (if b then x else y)"
  by (auto simp: refuses_silently_def)

subsection \<open>Role assignment stays within the caller's permissions\<close>

lemma collect_loop_found:
  "collect_team_role_bits_loop c tid rids b = Inr w \<Longrightarrow> rid \<in> set rids
   \<Longrightarrow> \<exists>r. get_role_by_id c rid = Inr (Some r) \<and> r_team_id r = tid"
  by (induction rids arbitrary: b) (auto split: if_splits)

lemma collect_loop_bits:
  assumes "collect_team_role_bits_loop c tid rids b = Inr w" and "n < 64"
  shows "bit w n \<longleftrightarrow> bit b n \<or> (\<exists>rid \<in> set rids. \<exists>r. get_role_by_id c rid = Inr (Some r)
    \<and> (bit (r_permissions r) 0 \<or> bit (r_permissions r) n))"
  using assms
proof (induction rids arbitrary: b)
  case (Cons rid rids)
  from Cons.prems obtain role where role: "get_role_by_id c rid = Inr (Some role)"
    by (auto split: if_splits)
  let ?b = "if r_permissions role AND PERM_ADMIN \<noteq> 0 then NOT 0 else b OR r_permissions role"
  have "collect_team_role_bits_loop c tid rids ?b = Inr w"
    using Cons.prems role by (auto split: if_splits)
  from Cons.IH [OF this assms(2)] role assms(2) show ?case
    by (auto simp: PERM_ADMIN_bit bit_or_iff bit_not_iff)
qed simp

text \<open>Every assigned role gives only bits the target's roles or the caller already had.\<close>

lemma assigned_bits_held:
  assumes "collect_team_role_bits c rids tid = Inr w" and "check_role_escalation c mid actor tid w = Inr u"
    and "rid \<in> set rids" and "r \<in> set (c_roles c)" and "r_id r = rid" and "wf_team c"
    and "bit (r_permissions r) 0 \<or> bit (r_permissions r) n" and "n < 64"
  shows "(\<exists>q \<in> set (c_roles c). (mid, r_id q) \<in> set (c_member_roles c)
      \<and> (bit (r_permissions q) 0 \<or> bit (r_permissions q) n)) \<or> holds_bit c actor tid n"
proof -
  obtain r' where found: "get_role_by_id c rid = Inr (Some r')"
    using collect_loop_found assms(1,3) unfolding collect_team_role_bits_def by blast
  then have "r' = r"
    using get_role_by_id_SomeD [OF found] assms(4,5) by (intro role_unique [OF assms(6)]) auto
  with found have "get_role_by_id c rid = Inr (Some r)" by simp
  with assms have wn: "bit w n"
    using collect_loop_bits [of c tid rids 0 w n] by (auto simp: collect_team_role_bits_def)
  from assms(2) obtain prev where prev: "get_member_roles c mid = Inr prev"
    by (auto simp: check_role_escalation_def)
  show ?thesis
  proof (cases "bit (permissions_loop prev 0) n")
    case True
    with prev show ?thesis
      by (auto simp: permissions_loop_bit get_member_roles_def stmt_eq_Inr)
  next
    case False
    with wn have "bit (w AND NOT (permissions_loop prev 0)) n"
      using assms(8) by (simp add: bit_and_iff bit_not_iff)
    moreover have "check_added_bits actor tid (w AND NOT (permissions_loop prev 0)) c = Inr u"
      using assms(2) prev by (simp add: check_role_escalation_def check_added_bits_def Let_def)
    ultimately show ?thesis using check_added_bits_InrD by blast
  qed
qed

text \<open>Between the check and the end only the assignments of that one member change, and only towards the
  requested roles.\<close>

definition reassigned :: "conn \<Rightarrow> string \<Rightarrow> string list \<Rightarrow> conn \<Rightarrow> bool" where
  "reassigned s0 mid rids s \<longleftrightarrow> c_teams s = c_teams s0 \<and> c_roles s = c_roles s0 \<and> c_members s = c_members s0
     \<and> set (c_member_roles s) \<subseteq> set (c_member_roles s0) \<union> Pair mid ` set rids"

interpretation reassigned_kept: kept_property "reassigned s0 mid rids" for s0 mid rids
  by unfold_locales (subst insert_audit_event_frame [where P = "reassigned s0 mid rids" for s0 mid rids],
      auto simp: reassigned_def)

lemma reassigned_steps:
  "reassigned s0 mid rids s \<Longrightarrow> reassigned s0 mid rids (snd (remove_role_from_member mid2 rid2 s))"
  "reassigned s0 mid rids s \<Longrightarrow> rid \<in> set rids \<Longrightarrow> reassigned s0 mid rids (snd (assign_role_to_member mid rid s))"
  "reassigned s0 mid rids s \<Longrightarrow> reassigned s0 mid rids (snd (invalidate_user_tokens_now nts uid s))"
  unfolding remove_role_from_member_def assign_role_to_member_def invalidate_user_tokens_now_def
  by (rule exec_cases; auto simp: reassigned_def split: if_splits)+

lemma reassigned_within:
  assumes wf: "wf_team s0" and s: "reassigned s0 mid rids s"
    and bits: "collect_team_role_bits s0 rids tid = Inr w" "check_role_escalation s0 mid actor tid w = Inr u"
  shows "within s0 actor tid s"
  unfolding within_def
proof (intro allI impI)
  fix v t n
  assume h: "holds_bit s v t n"
  then have n: "n < 64" by (simp add: holds_bit_def)
  show "holds_bit s0 v t n \<or> holds_bit s0 actor tid n"
  proof (cases "owns_team s v t")
    case True
    with s n show ?thesis by (simp add: holds_bit_def owns_team_def reassigned_def)
  next
    case False
    with h obtain m r where m: "first_row (rows_where (\<lambda>m. m_user_id m = v \<and> m_team_id m = t) (c_members s)) = Some m"
      and r: "r \<in> set (c_roles s)" "(m_id m, r_id r) \<in> set (c_member_roles s)"
      and b: "bit (r_permissions r) 0 \<or> bit (r_permissions r) n"
      unfolding holds_bit_def Bex_def held_roles_iff by blast
    have m0: "first_row (rows_where (\<lambda>m. m_user_id m = v \<and> m_team_id m = t) (c_members s0)) = Some m"
      and r0: "r \<in> set (c_roles s0)"
      using m r s by (simp_all add: reassigned_def)
    have held: "q \<in> set (c_roles s0) \<Longrightarrow> (m_id m, r_id q) \<in> set (c_member_roles s0)
        \<Longrightarrow> bit (r_permissions q) 0 \<or> bit (r_permissions q) n \<Longrightarrow> holds_bit s0 v t n" for q
      using m0 n unfolding holds_bit_def Bex_def held_roles_iff by blast
    from r(2) s have "(m_id m, r_id r) \<in> set (c_member_roles s0) \<or> m_id m = mid \<and> r_id r \<in> set rids"
      by (auto simp: reassigned_def)
    then show ?thesis
      using held [OF r0 _ b] assigned_bits_held [OF bits _ r0 refl wf b n] held by blast
  qed
qed

lemma update_member_holds: "holds_bit (snd (update_member now m s)) = holds_bit s"
  unfolding update_member_def
proof (rule exec_cases)
  fix s'
  assume "Some (s\<lparr>c_members := update_where (\<lambda>x. m_id x = m_id m)
       (\<lambda>x. x\<lparr>m_nickname := m_nickname m, m_updated_at := now\<rparr>) (c_members s)\<rparr>) = Some s'"
  then have s': "s' = s\<lparr>c_members := update_where (\<lambda>x. m_id x = m_id m)
       (\<lambda>x. x\<lparr>m_nickname := m_nickname m, m_updated_at := now\<rparr>) (c_members s)\<rparr>" by simp
  have "first_row (rows_where (\<lambda>x. m_user_id x = v \<and> m_team_id x = t) (c_members s'))
      = map_option (\<lambda>x. if m_id x = m_id m then x\<lparr>m_nickname := m_nickname m, m_updated_at := now\<rparr> else x)
          (first_row (rows_where (\<lambda>x. m_user_id x = v \<and> m_team_id x = t) (c_members s)))" for v t
    by (simp add: s' rows_where_update_where) (simp add: update_where_def first_row_map)
  then have "held_roles s' v t = held_roles s v t" for v t
    by (auto simp: held_roles_def s' split: option.split)
  then show "holds_bit s' = holds_bit s"
    by (intro ext) (simp add: holds_bit_def owns_team_def s')
qed simp

interpretation within_only: kept_property "within c uid tid" for c uid tid
  by unfold_locales (rule within_audit)

lemma within_reassignment:
  assumes wf: "wf_team s"
  shows "within s actor tid (snd (apply_member_role_reassignment a now nts m rids actor tid target s))"
  unfolding apply_member_role_reassignment_def
proof (rule within_only.guarded [OF within_refl], rule within_only.guarded [OF within_refl])
  fix w u
  assume bits: "collect_team_role_bits s rids tid = Inr w" "check_role_escalation s (m_id m) actor tid w = Inr u"
  show "within s actor tid (snd (bindS (readS (\<lambda>c. get_member_roles c (m_id m))) (\<lambda>existing.
     bindS (for_eachS (\<lambda>r. remove_role_from_member (m_id m) (r_id r)) existing) (\<lambda>_.
     bindS (for_eachS (\<lambda>rid. assign_role_to_member (m_id m) rid) rids) (\<lambda>_.
     bindS (ignoreS (insert_audit_event a now tid (Some actor) ''member.roles.update'' (Some ''user'')
       (Some target) (Some (JObj [(''role_ids'', JArr (map JStr rids))])))) (\<lambda>_.
     ignoreS (invalidate_user_tokens_now nts target))))) s))"
  proof (rule reassigned_within [OF wf _ bits])
    have start: "reassigned s (m_id m) rids s" by (simp add: reassigned_def)
    show "reassigned s (m_id m) rids (snd (bindS (readS (\<lambda>c. get_member_roles c (m_id m))) (\<lambda>existing.
     bindS (for_eachS (\<lambda>r. remove_role_from_member (m_id m) (r_id r)) existing) (\<lambda>_.
     bindS (for_eachS (\<lambda>rid. assign_role_to_member (m_id m) rid) rids) (\<lambda>_.
     bindS (ignoreS (insert_audit_event a now tid (Some actor) ''member.roles.update'' (Some ''user'')
       (Some target) (Some (JObj [(''role_ids'', JArr (map JStr rids))])))) (\<lambda>_.
     ignoreS (invalidate_user_tokens_now nts target))))) s))"
      by (intro reassigned_kept.chain reassigned_steps start; assumption)
  qed
qed

lemma within_update_member:
  assumes wf: "wf_team c"
  shows "within c uid tid (fst (snd (teams_update_member a now nts uid tid target body c)))"
proof -
  have step: "within c uid tid (snd (bindS (update_member now m) (\<lambda>_.
     bindS (case umr_role_ids body of
         Some rids \<Rightarrow> apply_member_role_reassignment a now nts m rids uid tid target
       | None \<Rightarrow> returnS ()) (\<lambda>_. returnS m)) c))" for m
  proof (rule bindS_after)
    let ?s = "snd (update_member now m c)"
    have s: "holds_bit ?s = holds_bit c" "wf_team ?s"
      by (simp_all add: update_member_holds wf_update_member wf)
    then have start: "within c uid tid ?s" by (simp add: within_def)
    show "within c uid tid ?s" by (rule start)
    have "within c uid tid (snd (apply_member_role_reassignment a now nts m rids uid tid target ?s))" for rids
      using within_reassignment [OF s(2)] s(1) unfolding within_def by metis
    with start show "within c uid tid (snd (bindS (case umr_role_ids body of
         Some rids \<Rightarrow> apply_member_role_reassignment a now nts m rids uid tid target
       | None \<Rightarrow> returnS ()) (\<lambda>_. returnS m) ?s))"
      by (intro bindS_after [where P = "within c uid tid"]) (simp_all split: option.split)
  qed
  have "within c uid tid (snd (update_member_body a now nts uid tid target body c))"
    unfolding update_member_body_def Let_def
    by (cases "uid \<noteq> target \<or> umr_role_ids body \<noteq> None")
      (simp_all only: if_True if_False bindS_return, (rule within_only.guarded [OF within_refl], rule step | rule within_only.guarded [OF within_refl])+)
  then show ?thesis by (simp add: teams_update_member_def and_broadcast_sel)
qed

subsection \<open>Removal from a team\<close>

lemma remove_member_InrD:
  assumes "remove_member uid tid mo c = (Inr u, c')"
  shows "c_members c' = delete_where (\<lambda>m. m_user_id m = uid \<and> m_team_id m = tid) (c_members c)
    \<and> c_teams c' = c_teams c \<and> c_roles c' = c_roles c \<and> c_users c' = c_users c \<and> c_faults c' = c_faults c
    \<and> set (c_member_roles c') \<subseteq> set (c_member_roles c)"
  using assms
  by (auto simp: remove_member_def clear_member_roles_def delete_member_def exec_eq_Inr Let_def
      split: option.splits)

text \<open>Somebody without a membership has the owner's bits or none.\<close>

lemma removed_bits:
  assumes "healthy c" and "\<not> is_member c uid tid"
  shows "user_permissions_bits c uid tid = Inr (if owns_team c uid tid then NOT 0 else 0)"
proof (cases "owns_team c uid tid")
  case True
  then show ?thesis by (simp add: user_permissions_bits_def is_team_owner_iff assms(1))
next
  case False
  with outsider_no_permission [OF assms(1) False] assms(2) show ?thesis
    by (auto simp: is_member_def)
qed

text \<open>\<open>gone c tid uid c'\<close>: exactly that membership has disappeared.\<close>

definition gone :: "conn \<Rightarrow> string \<Rightarrow> string \<Rightarrow> conn \<Rightarrow> bool" where
  "gone c tid uid c' \<longleftrightarrow> c_members c' = delete_where (\<lambda>m. m_user_id m = uid \<and> m_team_id m = tid) (c_members c)
     \<and> c_teams c' = c_teams c \<and> c_roles c' = c_roles c \<and> c_faults c' = c_faults c"

lemma gone_effect:
  assumes "healthy c" and "gone c tid uid c'"
  shows "user_permissions_bits c' uid tid = Inr (if owns_team c uid tid then NOT 0 else 0)
    \<and> (\<forall>v t. is_member c' v t \<longleftrightarrow> is_member c v t \<and> (v, t) \<noteq> (uid, tid))"
proof
  have "healthy c'" "\<not> is_member c' uid tid" "owns_team c' uid tid = owns_team c uid tid"
    using assms by (auto simp: gone_def healthy_def is_member_def owns_team_def)
  then show "user_permissions_bits c' uid tid = Inr (if owns_team c uid tid then NOT 0 else 0)"
    by (simp add: removed_bits)
  show "\<forall>v t. is_member c' v t \<longleftrightarrow> is_member c v t \<and> (v, t) \<noteq> (uid, tid)"
    using assms(2) by (auto simp: gone_def is_member_def)
qed

lemma gone_audit: "gone c tid uid s \<Longrightarrow> gone c tid uid (snd (insert_audit_event i n t a ac tt ti d s))"
  by (subst insert_audit_event_frame [where P = "gone c tid uid"]) (simp_all add: gone_def)

lemma gone_remove: "remove_member uid tid mo c = (Inr u, c') \<Longrightarrow> gone c tid uid c'"
  using remove_member_InrD [of uid tid mo c u c'] by (simp add: gone_def)

lemma and_broadcast_InrD:
  "and_broadcast h evs c = (Inr x, c', out) \<Longrightarrow> h c = (Inr x, c') \<and> out = evs"
  by (auto simp: and_broadcast_def split: prod.splits sum.splits)

lemma handler_InrD: "map_errH g h c = (Inr x, c') \<Longrightarrow> h c = (Inr x, c')"
  by (auto simp: map_errH_def split: prod.splits)

lemma spawn_db_InrD: "spawn_db f c = (Inr x, c') \<Longrightarrow> f c = (Inr x, c')"
  by (auto simp: spawn_db_def split: prod.splits)

lemma refuse_if_Inr [simp]: "refuse_if b e c = (Inr u, c') \<longleftrightarrow> \<not> b \<and> c' = c"
  by (cases b) auto

lemma kick_gone:
  assumes "teams_kick_member a now uid tid target c = (Inr (), c', out)"
  shows "gone c tid target c' \<and> out = member_left tid target"
proof -
  from assms have h: "kick_member_body a now uid tid target c = (Inr (), c')" and "out = member_left tid target"
    by (auto simp: teams_kick_member_def split: if_splits dest!: and_broadcast_InrD handler_InrD spawn_db_InrD)
  moreover have "gone c tid target c'"
    using h by (auto simp: kick_member_body_def simp del: bindS_readS dest!: gone_remove intro: gone_audit)
  ultimately show ?thesis by simp
qed

lemma leave_gone:
  assumes "teams_leave_team a now uid tid c = (Inr (), c', out)"
  shows "gone c tid uid c' \<and> out = member_left tid uid"
proof -
  from assms have h: "leave_team_body a now uid tid c = (Inr (), c')" and "out = member_left tid uid"
    by (auto simp: teams_leave_team_def dest!: and_broadcast_InrD handler_InrD spawn_db_InrD)
  moreover have "gone c tid uid c'"
    using h by (auto simp: leave_team_body_def simp del: bindS_readS dest!: gone_remove intro: gone_audit)
  ultimately show ?thesis by simp
qed

lemma ban_gone:
  assumes "teams_ban_member a now uid tid target body c = (Inr b, c', out)"
  shows "gone c tid target c' \<and> out = member_left tid target \<and> b \<in> set (c_bans c')
    \<and> ban_team_id b = tid \<and> ban_user_id b = target"
proof -
  from assms have h: "ban_member_body a now uid tid target body c = (Inr b, c')" and "out = member_left tid target"
    by (auto simp: teams_ban_member_def split: if_splits dest!: and_broadcast_InrD spawn_db_InrD)
  from h obtain s mo s2 where s: "create_ban b c = (Inr (), s)" and r: "remove_member target tid mo s = (Inr (), s2)"
    and c': "c' = snd (insert_audit_event a now tid (Some uid) ''member.ban'' (Some ''user'')
       (Some target) (Some (JObj [(''reason'', JStr (br_reason body))])) s2)"
    and b: "ban_team_id b = tid" "ban_user_id b = target"
    by (auto simp: ban_member_body_def Let_def simp del: bindS_readS)
  from s have "gone s tid target s2 \<Longrightarrow> gone c tid target s2" and "b \<in> set (c_bans s)"
    by (auto simp: create_ban_def exec_eq_Inr gone_def split: if_splits)
  moreover have "c_bans s2 = c_bans s"
    using r by (auto simp: remove_member_def clear_member_roles_def delete_member_def exec_eq_Inr Let_def
      split: option.splits)
  moreover have "c_bans c' = c_bans s2"
    unfolding c' by (rule insert_audit_event_frame [where P = "\<lambda>x. c_bans x = c_bans s2", THEN iffD2]) simp_all
  ultimately show ?thesis using \<open>out = _\<close> b gone_remove [OF r] by (simp add: c' gone_audit)
qed

lemma member_by_id: "wf_team c \<Longrightarrow> m \<in> set (c_members c) \<Longrightarrow> m' \<in> set (c_members c) \<Longrightarrow> m_id m = m_id m' \<Longrightarrow> m = m'"
  by (auto simp: wf_team_def distinct_map dest: inj_onD)

text \<open>The roles of everybody else survive a removal.\<close>

lemma remove_member_others:
  assumes wf: "wf_team c" and r: "remove_member uid tid (Some m) c = (Inr u, c')"
    and m: "m \<in> set (c_members c)" "m_user_id m = uid"
    and m': "m' \<in> set (c_members c)" "m_user_id m' \<noteq> uid"
  shows "m' \<in> set (c_members c') \<and> holds_admin_role c' (m_id m') = holds_admin_role c (m_id m')"
proof -
  have ids: "m_id x = m_id m' \<Longrightarrow> x \<in> set (c_members c) \<Longrightarrow> m_user_id x \<noteq> uid" for x
    using member_by_id [OF wf _ m'(1)] m'(2) by blast
  have "(m_id m', rid) \<in> set (c_member_roles c') \<longleftrightarrow> (m_id m', rid) \<in> set (c_member_roles c)" for rid
    using r ids ids [of m] m
    by (auto simp: remove_member_def clear_member_roles_def delete_member_def exec_eq_Inr Let_def)
  moreover have "c_roles c' = c_roles c" "m' \<in> set (c_members c')"
    using remove_member_InrD [OF r] m' by auto
  ultimately show ?thesis by (auto simp: holds_admin_role_def list_ex_iff)
qed

lemma count_other_admins_pos:
  "count_other_admins c uid tid \<noteq> 0 \<Longrightarrow> \<exists>m \<in> set (c_members c). m_team_id m = tid \<and> m_user_id m \<noteq> uid
     \<and> holds_admin_role c (m_id m)"
  by (auto simp: count_other_admins_def filter_empty_conv)

text \<open>The creator's membership is refused by the foreign key on \<open>invited_by\<close>, after the team row.\<close>

lemma fresh_member_refused:
  "\<forall>u \<in> set (c_users s). u_id u \<noteq> [] \<Longrightarrow> create_member (fresh_member ids now uid) s = (Inl SqliteFailure, s)"
  by (auto simp: create_member_def exec_def fresh_member_def)

lemma record_team_owner_state: "\<exists>as. snd (record_team_owner t n s) = s\<lparr>c_team_authority := as\<rparr>"
  unfolding record_team_owner_def exec_def by (cases s) auto

lemma create_team_body_after_team:
  assumes "create_team (fresh_team ids now uid body) c = (Inr u, s)" and "\<forall>u \<in> set (c_users s). u_id u \<noteq> []"
  shows "\<exists>as. create_team_body ids now node uid body c = (Inl SqliteFailure, s\<lparr>c_team_authority := as\<rparr>)"
proof -
  let ?o = "if node \<noteq> [] then ignoreS (record_team_owner (ti_team ids) node) else returnS ()"
  have "\<exists>as. ?o s = (Inr (), s\<lparr>c_team_authority := as\<rparr>)"
    using record_team_owner_state [of "ti_team ids" node s]
    by (cases "node = []") (auto intro: exI [of _ "c_team_authority s"])
  then obtain as where o: "?o s = (Inr (), s\<lparr>c_team_authority := as\<rparr>)" by blast
  have "create_member (fresh_member ids now uid) (s\<lparr>c_team_authority := as\<rparr>)
      = (Inl SqliteFailure, s\<lparr>c_team_authority := as\<rparr>)"
    by (rule fresh_member_refused) (simp add: assms(2))
  then have "create_team_body ids now node uid body c = (Inl SqliteFailure, s\<lparr>c_team_authority := as\<rparr>)"
    unfolding create_team_body_def bindS_def by (simp only: assms(1) o prod.case sum.case)
  then show ?thesis ..
qed

lemma create_team_users: "create_team t c = (r, s) \<Longrightarrow> c_users s = c_users c"
  by (auto simp: create_team_def exec_def split: if_splits)

lemma create_team_body_fails:
  assumes "\<forall>u \<in> set (c_users c). u_id u \<noteq> []"
  shows "\<exists>e. fst (create_team_body ids now node uid body c) = Inl e"
proof (cases "create_team (fresh_team ids now uid body) c")
  case (Pair r s)
  show ?thesis
  proof (cases r)
    case (Inl e)
    show ?thesis
      unfolding create_team_body_def bindS_def by (simp add: Pair Inl)
  next
    case (Inr u)
    with Pair assms create_team_users [OF Pair] create_team_body_after_team [of ids now uid body c u s node]
    show ?thesis by auto
  qed
qed

subsection \<open>Properties\<close>

text \<open>C6. Team and member administration is guarded: without the manage-team permission a team update,
  and without the manage-members permission a kick, a ban, an unban, a change of somebody else's
  membership or any change of role assignments (one's own included), is refused with an error, leaves
  the database untouched and broadcasts nothing.\<close>

theorem member_writes_authorized:
  shows "(\<not> holds_permission c uid tid PERM_MANAGE_TEAM \<longrightarrow> refuses c (teams_update a now uid tid tbody c))
    \<and> (\<not> holds_permission c uid tid PERM_MANAGE_MEMBERS \<longrightarrow>
        refuses_silently c (teams_kick_member a now uid tid target c)
        \<and> refuses_silently c (teams_ban_member a now uid tid target bbody c)
        \<and> refuses c (teams_unban_member uid tid target c)
        \<and> (uid \<noteq> target \<or> umr_role_ids mbody \<noteq> None \<longrightarrow>
            refuses_silently c (teams_update_member a now nts uid tid target mbody c)))"
  unfolding teams_kick_member_def teams_ban_member_def teams_update_member_def
  by (intro conjI impI refuses_silently_simps refuses_silently_broadcast refuses_simps
      team_update.refused member_kick.refused member_ban.refused member_unban.refused
      member_update.refused) (assumption | blast)+

theorem member_writes_authorized_witness:
  "refuses sample_conn (teams_unban_member ''bob'' ''t'' ''eve'' sample_conn)"
proof -
  have "\<not> holds_permission sample_conn ''bob'' ''t'' PERM_MANAGE_MEMBERS"
    by (simp add: holds_permission_def owns_team_def held_roles_def sample_conn_def empty_conn_def
        PERM_MANAGE_MEMBERS_def PERM_ADMIN_def)
  with member_writes_authorized [of sample_conn "''bob''" "''t''"] show ?thesis by blast
qed

text \<open>No escalation through role assignment: whatever roles a caller assigns to whomever, and even
  when a statement fails half way, no user ends up with a permission bit in any team that neither that
  user nor the caller held before.\<close>

theorem assignment_no_escalation:
  assumes "wf_team c" and "healthy c"
    and "user_permissions_bits c v t = Inr old" and "user_permissions_bits c uid tid = Inr mine"
    and "user_permissions_bits (fst (snd (teams_update_member a now nts uid tid target body c))) v t = Inr new"
  shows "new AND NOT (old OR mine) = 0"
proof -
  have "bit old n \<or> bit mine n" if "bit new n" for n
    using within_update_member [OF assms(1), of uid tid a now nts target body] that bits_sound [OF assms(5)]
      bits_hold [OF assms(2) assms(3)] bits_hold [OF assms(2) assms(4)]
    unfolding within_def by blast
  then show ?thesis
    by (intro bit_eqI) (auto simp: bit_and_iff bit_or_iff bit_not_iff)
qed

theorem assignment_no_escalation_witness:
  "user_permissions_bits (fst (snd (teams_update_member ''a'' ''now'' 5 ''owner'' ''t'' ''bob''
      \<lparr>umr_nickname = None, umr_role_ids = Some [''mod'']\<rparr> sample_conn))) ''bob'' ''t'' = Inr 8
   \<and> 8 AND NOT (8 OR NOT 0 :: u64) = 0"
proof
  let ?c' = "fst (snd (teams_update_member ''a'' ''now'' 5 ''owner'' ''t'' ''bob''
      \<lparr>umr_nickname = None, umr_role_ids = Some [''mod'']\<rparr> sample_conn))"
  have wf: "wf_team sample_conn"
    by (simp add: wf_team_def sample_conn_def sample_user_def empty_conn_def)
  have old: "user_permissions_bits sample_conn ''bob'' ''t'' = Inr 8"
    and mine: "user_permissions_bits sample_conn ''owner'' ''t'' = Inr (NOT 0)" by code_simp+
  show new: "user_permissions_bits ?c' ''bob'' ''t'' = Inr 8" by code_simp
  show "8 AND NOT (8 OR NOT 0 :: u64) = 0"
    by (rule assignment_no_escalation [OF wf sample_conn_sel(2) old mine new])
qed

text \<open>Removal is complete: after a successful kick, ban or leave exactly that membership is gone,
  every other membership is as before, one \<open>member:left\<close> event is broadcast, and the removed user's
  permission mask is empty, unless the user is the one who created the team: the creator keeps every
  permission without being a member.\<close>

theorem removal_effect:
  assumes "healthy c"
    and "teams_kick_member a now uid tid target c = (Inr (), c', out)
      \<or> (\<exists>b. teams_ban_member a now uid tid target body c = (Inr b, c', out))
      \<or> teams_leave_team a now target tid c = (Inr (), c', out)"
  shows "user_permissions_bits c' target tid = Inr (if owns_team c target tid then NOT 0 else 0)
    \<and> (\<forall>v t. is_member c' v t \<longleftrightarrow> is_member c v t \<and> (v, t) \<noteq> (target, tid))
    \<and> out = member_left tid target"
proof -
  have "gone c tid target c' \<and> out = member_left tid target"
    using assms(2) kick_gone ban_gone leave_gone by metis
  with gone_effect [OF assms(1)] show ?thesis by blast
qed

theorem removal_effect_witness:
  "user_permissions_bits (fst (snd (teams_kick_member ''a'' ''now'' ''owner'' ''t'' ''bob'' sample_conn))) ''bob'' ''t'' = Inr 0"
proof -
  let ?r = "teams_kick_member ''a'' ''now'' ''owner'' ''t'' ''bob'' sample_conn"
  have "fst ?r = Inr ()" by code_simp
  then have ok: "?r = (Inr (), fst (snd ?r), snd (snd ?r))" by (simp add: prod_eq_iff)
  have "\<not> owns_team sample_conn ''bob'' ''t''" by (simp add: owns_team_def sample_conn_def)
  with removal_effect [OF sample_conn_sel(2) disjI1 [OF ok]] show ?thesis by simp
qed

text \<open>A team is never left without an administrator by its own members leaving: when a member who
  holds an administrator role leaves successfully, another member of the team holds one afterwards.\<close>

theorem leave_keeps_admin:
  assumes "wf_team c" and "teams_leave_team a now uid tid c = (Inr (), c', out)"
    and "m \<in> set (c_members c)" and "m_user_id m = uid" and "m_team_id m = tid"
    and "holds_admin_role c (m_id m)"
  shows "\<exists>m' \<in> set (c_members c'). m_team_id m' = tid \<and> m_user_id m' \<noteq> uid \<and> holds_admin_role c' (m_id m')"
proof -
  from assms(2) have "leave_team_body a now uid tid c = (Inr (), c')"
    by (auto simp: teams_leave_team_def dest!: and_broadcast_InrD handler_InrD spawn_db_InrD)
  then obtain m0 s where m0: "get_member_by_user_and_team c uid tid = Inr (Some m0)"
    and chk: "\<not> (holds_admin_role c (m_id m0) \<and> count_other_admins c uid tid = 0)"
    and r: "remove_member uid tid (Some m0) c = (Inr (), s)"
    and c': "c' = snd (insert_audit_event a now tid (Some uid) ''member.leave'' (Some ''user'') (Some uid) None s)"
    by (auto simp: leave_team_body_def stmt_eq_Inr simp del: bindS_readS)
  have "m0 = m"
    using get_member_SomeD [OF m0] assms(3-5) by (intro member_unique [OF assms(1)]) auto
  with chk assms(6) obtain m' where m': "m' \<in> set (c_members c)" "m_team_id m' = tid" "m_user_id m' \<noteq> uid"
    "holds_admin_role c (m_id m')"
    using count_other_admins_pos by blast
  have "m' \<in> set (c_members s) \<and> holds_admin_role s (m_id m')"
    using remove_member_others [OF assms(1) r _ _ m'(1,3)] assms(3,4) m'(4) by (simp add: \<open>m0 = m\<close>)
  moreover obtain as where "c' = s\<lparr>c_audit := as\<rparr>"
    unfolding c' using insert_audit_event_state by blast
  ultimately show ?thesis using m' by (auto simp: holds_admin_role_def)
qed

definition sample_admins :: conn where
  "sample_admins = sample_conn\<lparr>
     c_users := map sample_user [''owner'', ''bob'', ''ann''],
     c_roles := [\<lparr>r_id = ''adm'', r_team_id = ''t'', r_name = ''Admin'', r_color = [], r_position = 1,
       r_permissions = 1, r_is_default = False, r_created_at = [], r_updated_at = []\<rparr>],
     c_members := map (\<lambda>n. \<lparr>m_id = n @ ''-m'', m_team_id = ''t'', m_user_id = n, m_nickname = [], m_joined_at = [],
       m_invited_by = ''owner'', m_updated_at = []\<rparr>) [''bob'', ''ann''],
     c_member_roles := [(''bob-m'', ''adm''), (''ann-m'', ''adm'')], c_channel_role_access := []\<rparr>"

theorem leave_keeps_admin_witness:
  "\<exists>m' \<in> set (c_members (fst (snd (teams_leave_team ''a'' ''now'' ''bob'' ''t'' sample_admins)))).
     m_team_id m' = ''t'' \<and> m_user_id m' \<noteq> ''bob''
     \<and> holds_admin_role (fst (snd (teams_leave_team ''a'' ''now'' ''bob'' ''t'' sample_admins))) (m_id m')"
proof -
  let ?r = "teams_leave_team ''a'' ''now'' ''bob'' ''t'' sample_admins"
  let ?m = "c_members sample_admins ! 0"
  have wf: "wf_team sample_admins"
    by (simp add: wf_team_def refs_def sample_admins_def sample_conn_def sample_user_def empty_conn_def)
  have "fst ?r = Inr ()" by code_simp
  then have ok: "?r = (Inr (), fst (snd ?r), snd (snd ?r))" by (simp add: prod_eq_iff)
  have m: "?m \<in> set (c_members sample_admins)" "m_user_id ?m = ''bob''" "m_team_id ?m = ''t''"
    by (simp_all add: sample_admins_def)
  have adm: "holds_admin_role sample_admins (m_id ?m)" by code_simp
  show ?thesis by (rule leave_keeps_admin [OF wf ok m adm])
qed

text \<open>Creating a team over the API cannot succeed on a database that enforces its foreign keys: the
  membership of the creator is stored with an empty inviter, which is neither NULL nor a user. Every
  call is answered with an error, and a call that gets as far as the database leaves a team behind that
  has no member, no role and no channel.\<close>

theorem team_creation_fails:
  assumes "\<forall>u \<in> set (c_users c). u_id u \<noteq> []"
  shows "(\<exists>e. fst (teams_create ids now node uid body c) = Inl e)
    \<and> (healthy c \<and> uid \<in> u_id ` set (c_users c) \<and> ti_team ids \<notin> t_id ` set (c_teams c)
        \<and> ctr_name body \<noteq> [] \<and> length (ctr_name body) \<le> 100 \<and> length (ctr_description body) \<le> 1024
        \<longrightarrow> fst (teams_create ids now node uid body c) = Inl (Internal ''db: SqliteFailure'')
          \<and> c_teams (snd (teams_create ids now node uid body c)) = c_teams c @ [fresh_team ids now uid body]
          \<and> c_members (snd (teams_create ids now node uid body c)) = c_members c
          \<and> c_roles (snd (teams_create ids now node uid body c)) = c_roles c
          \<and> c_channels (snd (teams_create ids now node uid body c)) = c_channels c)"
proof (intro conjI impI)
  have body: "\<exists>e. fst (create_team_body ids now node uid body c) = Inl e"
    by (rule create_team_body_fails [OF assms])
  then show "\<exists>e. fst (teams_create ids now node uid body c) = Inl e"
    by (auto simp: teams_create_def spawn_db_result)
  assume ok: "healthy c \<and> uid \<in> u_id ` set (c_users c) \<and> ti_team ids \<notin> t_id ` set (c_teams c)
    \<and> ctr_name body \<noteq> [] \<and> length (ctr_name body) \<le> 100 \<and> length (ctr_description body) \<le> 1024"
  let ?s = "c\<lparr>c_teams := c_teams c @ [fresh_team ids now uid body]\<rparr>"
  have "create_team (fresh_team ids now uid body) c = (Inr (), ?s)"
    using ok by (simp add: create_team_def exec_healthy fresh_team_def)
  then obtain as where "create_team_body ids now node uid body c = (Inl SqliteFailure, ?s\<lparr>c_team_authority := as\<rparr>)"
    using create_team_body_after_team assms by fastforce
  then have r: "teams_create ids now node uid body c
      = (Inl (Internal ''db: SqliteFailure''), ?s\<lparr>c_team_authority := as\<rparr>)"
    using ok by (simp add: teams_create_def spawn_db_def map_db_error_def)
  show "fst (teams_create ids now node uid body c) = Inl (Internal ''db: SqliteFailure'')"
    "c_teams (snd (teams_create ids now node uid body c)) = c_teams c @ [fresh_team ids now uid body]"
    "c_members (snd (teams_create ids now node uid body c)) = c_members c"
    "c_roles (snd (teams_create ids now node uid body c)) = c_roles c"
    "c_channels (snd (teams_create ids now node uid body c)) = c_channels c"
    by (simp_all add: r)
qed

theorem team_creation_fails_witness:
  "\<exists>e. fst (teams_create \<lparr>ti_team = ''t2'', ti_member = ''m2'', ti_admin = ''ra'', ti_everyone = ''re'', ti_channel = ''c2''\<rparr>
      ''now'' ''node'' ''bob'' \<lparr>ctr_name = ''Team'', ctr_description = []\<rparr> sample_conn) = Inl e"
  by (rule team_creation_fails [THEN conjunct1]) (simp add: sample_conn_def sample_user_def)

text \<open>A refused role change is not undone: when the caller may manage members but the requested roles
  would escalate (or do not exist), the request fails, yet the nickname sent along with it has been
  stored.\<close>

theorem refused_update_keeps_nickname:
  shows "let r = teams_update_member ''a'' ''now'' 5 ''bob'' ''t'' ''bob''
      \<lparr>umr_nickname = Some ''x'', umr_role_ids = Some [''nope'']\<rparr>
      (sample_conn\<lparr>c_roles := map (\<lambda>r. r\<lparr>r_permissions := PERM_MANAGE_MEMBERS\<rparr>) (c_roles sample_conn)\<rparr>)
    in fst r = Inl (Forbidden ''role nope not found'') \<and> map m_nickname (c_members (fst (snd r))) = [''x'']"
  by code_simp

end
