(* ===== verification/Text.thy ===== *)
theory Text
  imports Prelude
begin

section \<open>Strings of the standard library\<close>

text \<open>
  A \<open>String\<close> of the program is a list of bytes in UTF-8, written as characters. \<open>len\<close> counts bytes,
  \<open>chars().count()\<close> counts code points, \<open>trim\<close> removes Unicode white space.
\<close>

subsection \<open>Counting and cutting\<close>

definition char_byte :: "char \<Rightarrow> int" where
  "char_byte ch = of_char ch"

text \<open>A byte that does not continue a code point starts one.\<close>

definition chars_count :: "string \<Rightarrow> nat" where
  "chars_count s = length (filter (\<lambda>ch. \<not> (128 \<le> char_byte ch \<and> char_byte ch < 192)) s)"

definition strip_prefix :: "string \<Rightarrow> string \<Rightarrow> string option" where
  "strip_prefix p s = (if starts_with p s then Some (drop (length p) s) else None)"

fun split_on :: "char \<Rightarrow> string \<Rightarrow> string list" where
  "split_on ch [] = [[]]"
| "split_on ch (x # xs) = (if x = ch then [] # split_on ch xs
     else (case split_on ch xs of [] \<Rightarrow> [[x]] | p # ps \<Rightarrow> (x # p) # ps))"

text \<open>U+2014, in the texts of some error messages.\<close>

definition em_dash :: string where
  "em_dash = map char_of [0xE2, 0x80, 0x94 :: int]"

subsection \<open>White space\<close>

text \<open>The code points with the property \<open>White_Space\<close>: U+0009 to U+000D, U+0020, U+0085, U+00A0, U+1680,
  U+2000 to U+200A, U+2028, U+2029, U+202F, U+205F and U+3000, in UTF-8.\<close>

definition white_space :: "string list" where
  "white_space = map (map char_of)
     ([[9], [10], [11], [12], [13], [32], [0xC2, 0x85], [0xC2, 0xA0], [0xE1, 0x9A, 0x80]]
      @ map (\<lambda>b. [0xE2, 0x80, b]) [0x80 .. 0x8A]
      @ [[0xE2, 0x80, 0xA8], [0xE2, 0x80, 0xA9], [0xE2, 0x80, 0xAF], [0xE2, 0x81, 0x9F], [0xE3, 0x80, 0x80 :: int]])"

definition leading_space :: "string list \<Rightarrow> string \<Rightarrow> nat" where
  "leading_space ws s = (case find (\<lambda>w. starts_with w s) ws of None \<Rightarrow> 0 | Some w \<Rightarrow> length w)"

lemma leading_space_le: "leading_space ws s \<le> length s"
proof (cases "find (\<lambda>w. starts_with w s) ws")
  case (Some w)
  then have "take (length w) s = w" by (auto simp: find_Some_iff starts_with_def)
  then have "length w \<le> length s" by (metis length_take min.cobounded1)
  with Some show ?thesis by (simp add: leading_space_def)
qed (simp add: leading_space_def)

function drop_spaces :: "string list \<Rightarrow> string \<Rightarrow> string" where
  "drop_spaces ws s = (if leading_space ws s = 0 then s else drop_spaces ws (drop (leading_space ws s) s))"
  by pat_completeness auto

termination drop_spaces
proof (relation "measure (\<lambda>(ws, s). length s)")
  fix ws s
  assume "leading_space ws s \<noteq> 0"
  then show "((ws, drop (leading_space ws s) s), ws, s) \<in> measure (\<lambda>(ws, s). length s)"
    using leading_space_le [of ws s] by simp
qed simp

declare drop_spaces.simps [simp del]

definition trim_start :: "string \<Rightarrow> string" where
  "trim_start = drop_spaces white_space"

definition trim_end :: "string \<Rightarrow> string" where
  "trim_end s = rev (drop_spaces (map rev white_space) (rev s))"

definition trim :: "string \<Rightarrow> string" where
  "trim s = trim_end (trim_start s)"

lemma leading_space_drop_spaces: "leading_space ws (drop_spaces ws s) = 0"
  by (induction ws s rule: drop_spaces.induct) (subst drop_spaces.simps, simp)

lemma drop_spaces_id: "leading_space ws s = 0 \<Longrightarrow> drop_spaces ws s = s"
  by (subst drop_spaces.simps) simp

lemma length_drop_spaces: "length (drop_spaces ws s) \<le> length s"
proof (induction ws s rule: drop_spaces.induct)
  case (1 ws s)
  show ?case by (subst drop_spaces.simps) (use 1 in auto)
qed

lemma trim_Nil [simp]: "trim [] = []"
  using length_drop_spaces [of white_space "[]"] length_drop_spaces [of "map rev white_space" "[]"]
  by (simp add: trim_def trim_end_def trim_start_def)

lemma length_trim: "length (trim s) \<le> length s"
  using length_drop_spaces [of white_space s] length_drop_spaces [of "map rev white_space" "rev (trim_start s)"]
  by (simp add: trim_def trim_end_def trim_start_def)

text \<open>A string between two visible ASCII characters is not touched.\<close>

definition visible :: "char \<Rightarrow> bool" where
  "visible ch \<longleftrightarrow> 33 \<le> char_byte ch \<and> char_byte ch < 127"

lemma white_space_words: "w \<in> set white_space \<Longrightarrow> w \<noteq> [] \<and> \<not> visible (hd w) \<and> \<not> visible (last w)"
proof -
  have "list_all (\<lambda>w. w \<noteq> [] \<and> \<not> visible (hd w) \<and> \<not> visible (last w)) white_space"
    by (simp add: white_space_def visible_def char_byte_def)
  then show "w \<in> set white_space \<Longrightarrow> w \<noteq> [] \<and> \<not> visible (hd w) \<and> \<not> visible (last w)"
    by (simp add: list_all_iff)
qed

lemma leading_space_visible:
  assumes "\<And>w. w \<in> set ws \<Longrightarrow> w \<noteq> [] \<and> \<not> visible (hd w)" and "s = [] \<or> visible (hd s)"
  shows "leading_space ws s = 0"
proof -
  have "\<not> starts_with w s" if "w \<in> set ws" for w
    using assms(1) [OF that] assms(2) by (cases w; cases s) (auto simp: starts_with_def)
  then have "find (\<lambda>w. starts_with w s) ws = None" by (auto simp: find_None_iff)
  then show ?thesis by (simp add: leading_space_def)
qed

lemma trim_visible:
  assumes "s \<noteq> []" and "visible (hd s)" and "visible (last s)"
  shows "trim s = s"
proof -
  have "trim_start s = s"
    unfolding trim_start_def using white_space_words assms
    by (intro drop_spaces_id leading_space_visible) auto
  moreover have "leading_space (map rev white_space) (rev s) = 0"
    using white_space_words assms
    by (intro leading_space_visible) (auto simp: hd_rev)
  ultimately show ?thesis by (simp add: trim_def trim_end_def drop_spaces_id)
qed

text \<open>\<open>eq_ignore_ascii_case\<close> folds the letters A to Z only.\<close>

definition ascii_lower :: "string \<Rightarrow> string" where
  "ascii_lower s = map (\<lambda>ch. if 65 \<le> char_byte ch \<and> char_byte ch \<le> 90 then char_of (char_byte ch + 32) else ch) s"

definition eq_ignore_ascii_case :: "string \<Rightarrow> string \<Rightarrow> bool" where
  "eq_ignore_ascii_case a b = (ascii_lower a = ascii_lower b)"

lemma eq_ignore_ascii_case_refl [simp]: "eq_ignore_ascii_case a a"
  by (simp add: eq_ignore_ascii_case_def)

end
