(* ===== verification/Libraries.thy ===== *)
theory Libraries
  imports Events
begin

section \<open>Third-party functions as parameters\<close>

text \<open>
  The cryptography (Ed25519, SHA-256), base64 and the JSON serializer are third-party crates. A record of
  functions stands for them, an argument of the definitions that use them; \<open>crypto_ok\<close> states what their
  documentation promises, and \<open>toy_crypto\<close> is an instance of it, for the witnesses. A public key or a
  signature is its bytes; \<open>cr_key_ok\<close> is the check of \<open>VerifyingKey::from_bytes\<close>. The hex encoding is
  written out.
\<close>

record crypto =
  cr_sha256 :: "bytes \<Rightarrow> bytes"
  cr_to_vec :: "json \<Rightarrow> string + bytes"
  cr_b64_encode :: "bytes \<Rightarrow> string"
  cr_b64_decode :: "string \<Rightarrow> string + bytes"
  cr_sign :: "bytes \<Rightarrow> bytes \<Rightarrow> bytes"
  cr_verify :: "bytes \<Rightarrow> bytes \<Rightarrow> bytes \<Rightarrow> bool"
  cr_public :: "bytes \<Rightarrow> bytes"
  cr_key_ok :: "bytes \<Rightarrow> bool"

text \<open>Documented behaviour: base64 decodes what it encodes, Ed25519 signatures have 64 bytes and verify
  under the key they were made with, public keys have 32 bytes and are accepted.\<close>

definition crypto_ok :: "crypto \<Rightarrow> bool" where
  "crypto_ok cr \<longleftrightarrow> (\<forall>bs. cr_b64_decode cr (cr_b64_encode cr bs) = Inr bs)
     \<and> (\<forall>sk m. length (cr_sign cr sk m) = 64)
     \<and> (\<forall>sk m. cr_verify cr (cr_public cr sk) m (cr_sign cr sk m))
     \<and> (\<forall>sk. length (cr_public cr sk) = 32 \<and> cr_key_ok cr (cr_public cr sk))"

record json_lib =
  js_to_string :: "json \<Rightarrow> string"
  js_from_str :: "string \<Rightarrow> json option"

subsection \<open>Bytes as text\<close>

definition hex_digit :: "nat \<Rightarrow> char" where
  "hex_digit n = ''0123456789abcdef'' ! n"

definition hex_byte :: "u8 \<Rightarrow> string" where
  "hex_byte b = [hex_digit (unat b div 16), hex_digit (unat b mod 16)]"

definition hex :: "bytes \<Rightarrow> string" where
  "hex bs = concat (map hex_byte bs)"

definition as_bytes :: "string \<Rightarrow> bytes" where
  "as_bytes s = map (\<lambda>ch. of_nat (of_char ch)) s"

subsection \<open>An instance\<close>

definition toy_crypto :: crypto where
  "toy_crypto = \<lparr>cr_sha256 = (\<lambda>bs. take 32 (bs @ replicate 32 0)), cr_to_vec = (\<lambda>_. Inr [1, 2, 3]),
     cr_b64_encode = map (\<lambda>b. char_of (unat b)), cr_b64_decode = (\<lambda>s. Inr (map (\<lambda>c. of_nat (of_char c)) s)),
     cr_sign = (\<lambda>sk m. take 64 (m @ replicate 64 0)), cr_verify = (\<lambda>pk m s. s = take 64 (m @ replicate 64 0)),
     cr_public = (\<lambda>sk. take 32 (sk @ replicate 32 0)), cr_key_ok = (\<lambda>_. True)\<rparr>"

lemma toy_crypto_ok: "crypto_ok toy_crypto"
proof -
  have "of_nat (of_char (char_of (unat b))) = (b :: u8)" for b
  proof -
    have "unat b < 256" using unsigned_less [of b] by simp
    then show ?thesis by (simp add: of_char_of)
  qed
  then show ?thesis
    by (simp add: crypto_ok_def toy_crypto_def comp_def map_idI min_def)
qed

end
