(* ===== verification/Device_Store.thy ===== *)
theory Device_Store
  imports Team_Store
begin

section \<open>Devices, revoked tokens and bootstrap tokens\<close>

text \<open>
  \<open>db/device_queries.rs\<close>, \<open>db/jwt_revocation_queries.rs\<close> and the bootstrap half of
  \<open>db/invite_queries.rs\<close>, with the constraints of migrations 026, 027 and 029. Times of SQLite are texts,
  times of tokens seconds since the epoch.
\<close>

definition device_active :: "user_device \<Rightarrow> bool" where
  "device_active d = (d_revoked_at d = None)"

definition create_device :: "string \<Rightarrow> string \<Rightarrow> string \<Rightarrow> bytes \<Rightarrow> string \<Rightarrow> string db_op" where
  "create_device new_id now uid pk label = bindS (exec ''create_device'' (\<lambda>c.
     if new_id \<in> d_id ` set (c_devices c) \<or> uid \<notin> u_id ` set (c_users c)
       \<or> (uid, pk) \<in> (\<lambda>d. (d_user_id d, d_public_key d)) ` set (c_devices c) then None
     else Some (c\<lparr>c_devices := c_devices c @ [\<lparr>d_id = new_id, d_user_id = uid, d_public_key = pk, d_label = label,
       d_created_at = now, d_last_seen_at = None, d_last_seen_ip = None, d_last_seen_user_agent = None,
       d_last_seen_country = None, d_current_session_started_at = None, d_revoked_at = None,
       d_tokens_invalidated_after = 0\<rparr>]\<rparr>))) (\<lambda>_. returnS new_id)"

definition get_device_by_id :: "conn \<Rightarrow> string \<Rightarrow> user_device option db_res" where
  "get_device_by_id c did = optional (query_row ''get_device_by_id'' c (rows_where (\<lambda>d. d_id d = did) (c_devices c)))"

definition get_device_by_user_and_pubkey :: "conn \<Rightarrow> string \<Rightarrow> bytes \<Rightarrow> user_device option db_res" where
  "get_device_by_user_and_pubkey c uid pk = optional (query_row ''get_device_by_user_and_pubkey'' c
     (rows_where (\<lambda>d. d_user_id d = uid \<and> d_public_key d = pk) (c_devices c)))"

text \<open>\<open>ORDER BY created_at DESC\<close>: a stable sort of the rows.\<close>

definition list_devices_for_user :: "conn \<Rightarrow> string \<Rightarrow> user_device list db_res" where
  "list_devices_for_user c uid = stmt ''list_devices_for_user'' c
     (rev (sort_key d_created_at (rev (rows_where (\<lambda>d. d_user_id d = uid) (c_devices c)))))"

definition revoke_device :: "string \<Rightarrow> string \<Rightarrow> unit db_op" where
  "revoke_device now did = exec ''revoke_device'' (\<lambda>c. Some (c\<lparr>c_devices :=
     update_where (\<lambda>d. d_id d = did \<and> d_revoked_at d = None) (\<lambda>d. d\<lparr>d_revoked_at := Some now\<rparr>) (c_devices c)\<rparr>))"

text \<open>\<open>COALESCE(?, column)\<close>.\<close>

definition coalesce :: "'a option \<Rightarrow> 'a option \<Rightarrow> 'a option" where
  "coalesce new old = (case new of None \<Rightarrow> old | Some x \<Rightarrow> Some x)"

definition record_device_login ::
  "string \<Rightarrow> string \<Rightarrow> string option \<Rightarrow> string option \<Rightarrow> string option \<Rightarrow> unit db_op" where
  "record_device_login now did ip agent country = exec ''record_device_login'' (\<lambda>c. Some (c\<lparr>c_devices :=
     update_where (\<lambda>d. d_id d = did) (\<lambda>d. d\<lparr>d_last_seen_at := Some now,
       d_last_seen_ip := coalesce ip (d_last_seen_ip d),
       d_last_seen_user_agent := coalesce agent (d_last_seen_user_agent d),
       d_last_seen_country := coalesce country (d_last_seen_country d),
       d_current_session_started_at := Some now\<rparr>) (c_devices c)\<rparr>))"

definition count_active_devices :: "conn \<Rightarrow> string \<Rightarrow> nat db_res" where
  "count_active_devices c uid = stmt ''count_active_devices'' c
     (length (rows_where (\<lambda>d. d_user_id d = uid \<and> d_revoked_at d = None) (c_devices c)))"

definition wf_devices :: "conn \<Rightarrow> bool" where
  "wf_devices c \<longleftrightarrow> distinct (map d_id (c_devices c))
     \<and> distinct (map (\<lambda>d. (d_user_id d, d_public_key d)) (c_devices c))"

lemma wf_device_ops:
  assumes "wf_devices c"
  shows "wf_devices (snd (create_device i now uid pk label c))" "wf_devices (snd (revoke_device now did c))"
    "wf_devices (snd (record_device_login now did ip agent country c))"
  using assms
  by (auto simp: create_device_def revoke_device_def record_device_login_def exec_def bindS_def wf_devices_def
      map_update_where split: option.splits)

text \<open>Revoked devices stay revoked, with the time of the first revocation.\<close>

lemma revoke_device_idempotent:
  "snd (revoke_device t2 did (snd (revoke_device t1 did c))) = snd (revoke_device t1 did c)"
proof -
  have "update_where (\<lambda>d. d_id d = did \<and> d_revoked_at d = None) f
      (update_where (\<lambda>d. d_id d = did \<and> d_revoked_at d = None) (\<lambda>d. d\<lparr>d_revoked_at := Some t1\<rparr>) ds)
    = update_where (\<lambda>d. d_id d = did \<and> d_revoked_at d = None) (\<lambda>d. d\<lparr>d_revoked_at := Some t1\<rparr>) ds"
    for f and ds :: "user_device list"
    by (induction ds) (auto simp: update_where_def)
  then show ?thesis by (auto simp: revoke_device_def exec_def)
qed

subsection \<open>Revoked tokens\<close>

definition revoke_jti :: "string \<Rightarrow> int \<Rightarrow> unit db_op" where
  "revoke_jti jti expires_at = exec ''revoke_jti'' (\<lambda>c. Some (c\<lparr>c_jwt_revocations :=
     delete_where (\<lambda>p. fst p = jti) (c_jwt_revocations c) @ [(jti, expires_at)]\<rparr>))"

definition is_revoked :: "int \<Rightarrow> conn \<Rightarrow> string \<Rightarrow> bool db_res" where
  "is_revoked now c jti = stmt ''is_revoked'' c
     (rows_where (\<lambda>p. fst p = jti \<and> snd p > now) (c_jwt_revocations c) \<noteq> [])"

definition gc_revoked_jtis :: "int \<Rightarrow> nat db_op" where
  "gc_revoked_jtis now c = bindS (exec ''gc_revoked_jtis'' (\<lambda>c. Some (c\<lparr>c_jwt_revocations :=
     delete_where (\<lambda>p. snd p \<le> now) (c_jwt_revocations c)\<rparr>)))
     (\<lambda>_. returnS (length (rows_where (\<lambda>p. snd p \<le> now) (c_jwt_revocations c)))) c"

lemma is_revoked_gc:
  assumes "now \<le> now'" and "healthy c"
  shows "is_revoked now' (snd (gc_revoked_jtis now c)) jti = is_revoked now' c jti"
proof -
  have "rows_where (\<lambda>p. fst p = jti \<and> snd p > now') (delete_where (\<lambda>p. snd p \<le> now) ps)
      = rows_where (\<lambda>p. fst p = jti \<and> snd p > now') ps" for ps
    using assms(1) by (induction ps) (auto simp: delete_where_def rows_where_def)
  then show ?thesis using assms(2)
    by (simp add: is_revoked_def gc_revoked_jtis_def exec_healthy bindS_def stmt_def)
qed

lemma is_revoked_revoke:
  "healthy c \<Longrightarrow> is_revoked now (snd (revoke_jti jti e c)) j
    = (if j = jti then Inr (now < e) else is_revoked now c j)"
  by (auto simp: is_revoked_def revoke_jti_def exec_healthy healthy_def stmt_def delete_where_def
      rows_where_def filter_empty_conv)

subsection \<open>Bootstrap tokens\<close>

definition BOOTSTRAP_TOKEN_TTL_SECS :: int where "BOOTSTRAP_TOKEN_TTL_SECS = 15 * 60"

text \<open>\<open>fmt\<close> is \<open>chrono\<close>'s formatting of a time in UTC.\<close>

definition create_bootstrap_token_with_ttl :: "(int \<Rightarrow> string) \<Rightarrow> int \<Rightarrow> string \<Rightarrow> int \<Rightarrow> unit db_op" where
  "create_bootstrap_token_with_ttl fmt now token ttl_secs = exec ''create_bootstrap_token'' (\<lambda>c.
     if token \<in> bt_token ` set (c_bootstrap_tokens c) then None
     else Some (c\<lparr>c_bootstrap_tokens := c_bootstrap_tokens c @ [\<lparr>bt_token = token, bt_used = False,
       bt_created_at = fmt now, bt_expires_at = fmt (now + ttl_secs)\<rparr>]\<rparr>))"

definition create_bootstrap_token :: "(int \<Rightarrow> string) \<Rightarrow> int \<Rightarrow> string \<Rightarrow> unit db_op" where
  "create_bootstrap_token fmt now token = create_bootstrap_token_with_ttl fmt now token BOOTSTRAP_TOKEN_TTL_SECS"

definition get_bootstrap_token :: "conn \<Rightarrow> string \<Rightarrow> bootstrap_token option db_res" where
  "get_bootstrap_token c token = optional (query_row ''get_bootstrap_token'' c
     (rows_where (\<lambda>b. bt_token b = token) (c_bootstrap_tokens c)))"

definition use_bootstrap_token :: "string \<Rightarrow> unit db_op" where
  "use_bootstrap_token token = exec ''use_bootstrap_token'' (\<lambda>c. Some (c\<lparr>c_bootstrap_tokens :=
     update_where (\<lambda>b. bt_token b = token) (\<lambda>b. b\<lparr>bt_used := True\<rparr>) (c_bootstrap_tokens c)\<rparr>))"

end
