(* ===== verification/Auth.thy ===== *)
theory Auth
  imports Api_Base Device_Store Json_Rows Libraries Text "HOL-Library.AList"
begin

section \<open>Authentication: challenges, tokens, tickets\<close>

text \<open>
  \<open>auth.rs\<close>. The two maps of \<open>AuthService\<close> are association lists, the database is the connection the other
  theories use. \<open>Instant\<close>s are nanoseconds of a monotonic clock, token times seconds since the epoch; both
  clocks, random bytes and fresh ids are arguments. Locks are taken for one map operation each, so an
  operation is a step. The JWT crate is a record of functions with its documented behaviour in \<open>jwt_ok\<close>.
\<close>

subsection \<open>State\<close>

definition secs :: "int \<Rightarrow> int" where
  "secs n = n * 1000000000"

definition elapsed :: "int \<Rightarrow> int \<Rightarrow> int" where
  "elapsed now created = max 0 (now - created)"

record challenge_binding =
  cb_user_id :: string
  cb_target_pk :: bytes

record challenge =
  chl_nonce :: bytes
  chl_created_at :: int
  chl_binding :: "challenge_binding option"

record ws_ticket =
  wt_user_id :: string
  wt_created_at :: int

record auth_service =
  au_jwt_secret :: bytes
  au_challenges :: "(string \<times> challenge) list"
  au_ws_tickets :: "(string \<times> ws_ticket) list"
  au_node_name :: string

type_synonym 'a auth_op = "auth_service \<Rightarrow> (app_error + 'a) \<times> auth_service"

text \<open>\<open>derive_jwt_secret\<close>: \<open>hkdf\<close> is HKDF-SHA256 with the label \<open>dilla-jwt-signing-key-v1\<close>, \<open>env\<close> the value of
  \<open>DILLA_JWT_SECRET\<close>, \<open>rnd\<close> 32 random bytes.\<close>

definition derive_jwt_secret :: "(bytes \<Rightarrow> bytes) \<Rightarrow> string option \<Rightarrow> bytes \<Rightarrow> string \<Rightarrow> bytes" where
  "derive_jwt_secret hkdf env rnd db_passphrase = (case env of
     Some s \<Rightarrow> if s \<noteq> [] then hkdf (as_bytes s)
       else if db_passphrase = [] then rnd else hkdf (as_bytes db_passphrase)
   | None \<Rightarrow> if db_passphrase = [] then rnd else hkdf (as_bytes db_passphrase))"

definition auth_new :: "bytes \<Rightarrow> string \<Rightarrow> auth_service" where
  "auth_new jwt_secret node_name =
     \<lparr>au_jwt_secret = jwt_secret, au_challenges = [], au_ws_tickets = [], au_node_name = node_name\<rparr>"

subsection \<open>Challenges\<close>

definition insert_challenge ::
  "bytes \<Rightarrow> bytes \<Rightarrow> int \<Rightarrow> challenge_binding option \<Rightarrow> (bytes \<times> string) auth_op" where
  "insert_challenge nonce id_bytes now binding s =
     (let challenge_id = hex id_bytes
      in (Inr (nonce, challenge_id), s\<lparr>au_challenges := AList.update challenge_id
           \<lparr>chl_nonce = nonce, chl_created_at = now, chl_binding = binding\<rparr> (au_challenges s)\<rparr>))"

definition generate_challenge :: "bytes \<Rightarrow> bytes \<Rightarrow> int \<Rightarrow> (bytes \<times> string) auth_op" where
  "generate_challenge nonce id_bytes now = insert_challenge nonce id_bytes now None"

definition generate_challenge_with_binding ::
  "bytes \<Rightarrow> bytes \<Rightarrow> int \<Rightarrow> string \<Rightarrow> bytes \<Rightarrow> (bytes \<times> string) auth_op" where
  "generate_challenge_with_binding nonce id_bytes now uid target_pk s =
     (if length target_pk \<noteq> 32 then (Inl (BadRequest ''target_pk must be 32 bytes''), s)
      else insert_challenge nonce id_bytes now (Some \<lparr>cb_user_id = uid, cb_target_pk = target_pk\<rparr>) s)"

text \<open>Both verifiers remove the challenge first, whatever comes of it.\<close>

definition take_challenge :: "string \<Rightarrow> (challenge \<Rightarrow> app_error + 'a) \<Rightarrow> 'a auth_op" where
  "take_challenge challenge_id judge s =
     (case map_of (au_challenges s) challenge_id of
        None \<Rightarrow> (Inl (Unauthorized ''challenge not found or expired''), s)
      | Some ch \<Rightarrow> (judge ch, s\<lparr>au_challenges := AList.delete challenge_id (au_challenges s)\<rparr>))"

text \<open>The key and signature checks the two verifiers share.\<close>

definition check_signature :: "crypto \<Rightarrow> bytes \<Rightarrow> bytes \<Rightarrow> bytes \<Rightarrow> app_error + bool" where
  "check_signature cr public_key message signature =
     (if length public_key \<noteq> 32 then Inl (BadRequest ''invalid public key length'')
      else if \<not> cr_key_ok cr public_key then Inl (BadRequest ''invalid public key'')
      else if length signature \<noteq> 64 then Inl (BadRequest ''invalid signature length'')
      else Inr (cr_verify cr public_key message signature))"

definition verify_challenge :: "crypto \<Rightarrow> int \<Rightarrow> string \<Rightarrow> bytes \<Rightarrow> bytes \<Rightarrow> bool auth_op" where
  "verify_challenge cr now challenge_id public_key signature = take_challenge challenge_id (\<lambda>ch.
     if elapsed now (chl_created_at ch) > secs 300 then Inl (Unauthorized ''challenge expired'')
     else if chl_binding ch \<noteq> None
       then Inl (Unauthorized 
         (''challenge was issued bound to (user_id, target_pk) '' @ em_dash @ '' use verify_challenge_bound''))
     else check_signature cr public_key (chl_nonce ch) signature)"

definition ENROLL_DIGEST_LABEL :: bytes where
  "ENROLL_DIGEST_LABEL = as_bytes ''dilla-device-enroll-v1''"

definition enrollment_signing_digest :: "crypto \<Rightarrow> string \<Rightarrow> bytes \<Rightarrow> bytes \<Rightarrow> bytes" where
  "enrollment_signing_digest cr uid new_pk nonce =
     cr_sha256 cr (ENROLL_DIGEST_LABEL @ [0] @ as_bytes uid @ [0] @ new_pk @ [0] @ nonce)"

definition verify_challenge_bound ::
  "crypto \<Rightarrow> int \<Rightarrow> string \<Rightarrow> string \<Rightarrow> bytes \<Rightarrow> bytes \<Rightarrow> bytes \<Rightarrow> bool auth_op" where
  "verify_challenge_bound cr now challenge_id uid new_pk authorizer_pk signature = take_challenge challenge_id (\<lambda>ch.
     if elapsed now (chl_created_at ch) > secs 300 then Inl (Unauthorized ''challenge expired'')
     else (case chl_binding ch of
         None \<Rightarrow> Inl (Unauthorized (''challenge was not issued with binding '' @ em_dash @ '' refusing to verify''))
       | Some binding \<Rightarrow>
           if length new_pk \<noteq> 32 then Inl (BadRequest ''new public key must be 32 bytes'')
           else if cb_user_id binding \<noteq> uid then Inl (Unauthorized ''challenge bound to a different user'')
           else if cb_target_pk binding \<noteq> new_pk
             then Inl (Unauthorized ''challenge bound to a different new_device_public_key'')
           else if length authorizer_pk \<noteq> 32 then Inl (BadRequest ''invalid public key length'')
           else if \<not> cr_key_ok cr authorizer_pk then Inl (BadRequest ''invalid public key'')
           else if length signature \<noteq> 64 then Inl (BadRequest ''invalid signature length'')
           else if length (chl_nonce ch) \<noteq> 32 then Inl (Internal ''stored nonce was not 32 bytes'')
           else Inr (cr_verify cr authorizer_pk (enrollment_signing_digest cr uid new_pk (chl_nonce ch)) signature)))"

text \<open>The sweep that the constructor spawns, every five minutes.\<close>

definition sweep_challenges :: "int \<Rightarrow> auth_service \<Rightarrow> auth_service" where
  "sweep_challenges now s = s\<lparr>au_challenges :=
     filter (\<lambda>p. elapsed now (chl_created_at (snd p)) < secs 360) (au_challenges s)\<rparr>"

subsection \<open>WebSocket tickets\<close>

definition generate_ws_ticket :: "bytes \<Rightarrow> int \<Rightarrow> string \<Rightarrow> auth_service \<Rightarrow> string \<times> auth_service" where
  "generate_ws_ticket rnd now uid s =
     (let ticket = hex rnd
      in (ticket, s\<lparr>au_ws_tickets := AList.update ticket \<lparr>wt_user_id = uid, wt_created_at = now\<rparr> (au_ws_tickets s)\<rparr>))"

definition validate_ws_ticket :: "int \<Rightarrow> string \<Rightarrow> string auth_op" where
  "validate_ws_ticket now ticket s =
     (case map_of (au_ws_tickets s) ticket of
        None \<Rightarrow> (Inl (Unauthorized ''invalid or expired ws ticket''), s)
      | Some t \<Rightarrow> ((if elapsed now (wt_created_at t) > secs 30 then Inl (Unauthorized ''ws ticket expired'')
                   else Inr (wt_user_id t)),
                  s\<lparr>au_ws_tickets := AList.delete ticket (au_ws_tickets s)\<rparr>))"

definition cleanup_expired_ws_tickets :: "int \<Rightarrow> auth_service \<Rightarrow> nat \<times> auth_service" where
  "cleanup_expired_ws_tickets now s =
     (let kept = filter (\<lambda>p. elapsed now (wt_created_at (snd p)) < secs 30) (au_ws_tickets s)
      in (length (au_ws_tickets s) - length kept, s\<lparr>au_ws_tickets := kept\<rparr>))"

definition ws_ticket_count :: "auth_service \<Rightarrow> nat" where
  "ws_ticket_count s = length (au_ws_tickets s)"

definition is_ws_ticket_valid :: "int \<Rightarrow> auth_service \<Rightarrow> string \<Rightarrow> bool" where
  "is_ws_ticket_valid now s ticket = (case map_of (au_ws_tickets s) ticket of None \<Rightarrow> False
     | Some t \<Rightarrow> elapsed now (wt_created_at t) < secs 30)"

definition ws_ticket_ttl :: "int \<Rightarrow> auth_service \<Rightarrow> string \<Rightarrow> int" where
  "ws_ticket_ttl now s ticket = (case map_of (au_ws_tickets s) ticket of None \<Rightarrow> 0
     | Some t \<Rightarrow> max 0 (30 - elapsed now (wt_created_at t) div 1000000000))"

definition generate_ws_ticket_with_expiry ::
  "bytes \<Rightarrow> int \<Rightarrow> string \<Rightarrow> auth_service \<Rightarrow> (string \<times> nat) \<times> auth_service" where
  "generate_ws_ticket_with_expiry rnd now uid s = (case generate_ws_ticket rnd now uid s of (t, s') \<Rightarrow> ((t, 30), s'))"

definition generate_invite_token :: "bytes \<Rightarrow> string" where
  "generate_invite_token rnd = hex rnd"

definition generate_bootstrap_token :: "(int \<Rightarrow> string) \<Rightarrow> int \<Rightarrow> bytes \<Rightarrow> string handler" where
  "generate_bootstrap_token fmt now rnd c =
     (case create_bootstrap_token fmt now (hex rnd) c of
        (Inl e, c') \<Rightarrow> (Inl (Internal (''store bootstrap token: '' @ db_error_text e)), c')
      | (Inr _, c') \<Rightarrow> (Inr (hex rnd), c'))"

subsection \<open>Tokens\<close>

definition ACCESS_TOKEN_EXPIRY_SECS :: int where "ACCESS_TOKEN_EXPIRY_SECS = 3600"
definition REFRESH_TOKEN_EXPIRY_SECS :: int where "REFRESH_TOKEN_EXPIRY_SECS = 24 * 3600"

record claims =
  cm_sub :: string
  cm_iat :: int
  cm_exp :: int
  cm_jti :: string
  cm_aud :: string
  cm_iss :: string
  cm_did :: string

record refresh_claims = claims +
  cm_token_type :: string

definition claims_json :: "claims \<Rightarrow> json" where
  "claims_json x = JObj [(''sub'', JStr (cm_sub x)), (''iat'', JNum (cm_iat x)), (''exp'', JNum (cm_exp x)),
     (''jti'', JStr (cm_jti x)), (''aud'', JStr (cm_aud x)), (''iss'', JStr (cm_iss x)), (''did'', JStr (cm_did x))]"

definition refresh_claims_json :: "refresh_claims \<Rightarrow> json" where
  "refresh_claims_json x = JObj [(''sub'', JStr (cm_sub x)), (''iat'', JNum (cm_iat x)), (''exp'', JNum (cm_exp x)),
     (''token_type'', JStr (cm_token_type x)), (''jti'', JStr (cm_jti x)), (''aud'', JStr (cm_aud x)),
     (''iss'', JStr (cm_iss x)), (''did'', JStr (cm_did x))]"

definition field_time :: "(string \<times> json) list \<Rightarrow> string \<Rightarrow> int option" where
  "field_time = field_int (- (2 ^ 63)) (2 ^ 63 - 1)"

definition parse_claims :: "json \<Rightarrow> claims option" where
  "parse_claims v = Option.bind (fields_of [''sub'', ''iat'', ''exp'', ''jti'', ''aud'', ''iss'', ''did''] v) (\<lambda>kvs.
     Option.bind (field_str kvs ''sub'') (\<lambda>sub.
     Option.bind (field_time kvs ''iat'') (\<lambda>iat.
     Option.bind (field_time kvs ''exp'') (\<lambda>ex.
     Option.bind (field_str_default kvs ''jti'') (\<lambda>jti.
     Option.bind (field_str_default kvs ''aud'') (\<lambda>aud.
     Option.bind (field_str_default kvs ''iss'') (\<lambda>iss.
     Option.bind (field_str_default kvs ''did'') (\<lambda>did.
       Some \<lparr>cm_sub = sub, cm_iat = iat, cm_exp = ex, cm_jti = jti, cm_aud = aud, cm_iss = iss, cm_did = did\<rparr>))))))))"

definition parse_refresh_claims :: "json \<Rightarrow> refresh_claims option" where
  "parse_refresh_claims v = Option.bind
     (fields_of [''sub'', ''iat'', ''exp'', ''token_type'', ''jti'', ''aud'', ''iss'', ''did''] v) (\<lambda>kvs.
     Option.bind (field_str kvs ''sub'') (\<lambda>sub.
     Option.bind (field_time kvs ''iat'') (\<lambda>iat.
     Option.bind (field_time kvs ''exp'') (\<lambda>ex.
     Option.bind (field_str kvs ''token_type'') (\<lambda>tt.
     Option.bind (field_str_default kvs ''jti'') (\<lambda>jti.
     Option.bind (field_str_default kvs ''aud'') (\<lambda>aud.
     Option.bind (field_str_default kvs ''iss'') (\<lambda>iss.
     Option.bind (field_str_default kvs ''did'') (\<lambda>did.
       Some \<lparr>cm_sub = sub, cm_iat = iat, cm_exp = ex, cm_jti = jti, cm_aud = aud, cm_iss = iss, cm_did = did,
         cm_token_type = tt\<rparr>)))))))))"

text \<open>\<open>jsonwebtoken\<close>: what \<open>encode\<close> and \<open>decode\<close> return for a key, with the part of \<open>Validation\<close> that the code
  sets or relies on. \<open>jl_bad_claims\<close> is the text of the error when the claims do not deserialize.\<close>

record validation =
  v_leeway :: int
  v_validate_exp :: bool
  v_validate_aud :: bool
  v_aud :: "string option"
  v_iss :: "string option"

definition validation_default :: validation where
  "validation_default = \<lparr>v_leeway = 60, v_validate_exp = True, v_validate_aud = True, v_aud = None, v_iss = None\<rparr>"

record jwt_lib =
  jl_encode :: "bytes \<Rightarrow> json \<Rightarrow> string + string"
  jl_decode :: "int \<Rightarrow> validation \<Rightarrow> bytes \<Rightarrow> string \<Rightarrow> string + json"
  jl_bad_claims :: string

text \<open>Documented behaviour: the expiry is checked with the leeway, an audience or issuer that is present must
  be the configured one; a token decodes under the key it was encoded with, to the claims it was encoded
  from, when its registered claims are present and pass, and under no other key.\<close>

definition expiry_passes :: "int \<Rightarrow> validation \<Rightarrow> json \<Rightarrow> bool" where
  "expiry_passes now v cl \<longleftrightarrow> v_validate_exp v \<longrightarrow>
     (case json_get cl ''exp'' of Some (JNum e) \<Rightarrow> now - v_leeway v \<le> e | _ \<Rightarrow> False)"

definition names_pass :: "validation \<Rightarrow> json \<Rightarrow> bool" where
  "names_pass v cl \<longleftrightarrow>
     (v_validate_aud v \<longrightarrow> (case json_get_str cl ''aud'' of None \<Rightarrow> True | Some a \<Rightarrow> v_aud v = Some a))
     \<and> (case v_iss v of None \<Rightarrow> True | Some i \<Rightarrow>
          (case json_get_str cl ''iss'' of None \<Rightarrow> True | Some i' \<Rightarrow> i' = i))"

definition jwt_ok :: "jwt_lib \<Rightarrow> bool" where
  "jwt_ok J \<longleftrightarrow>
     (\<forall>now v k t cl. jl_decode J now v k t = Inr cl \<longrightarrow> expiry_passes now v cl \<and> names_pass v cl)
   \<and> (\<forall>now v k t cl. jl_encode J k cl = Inr t \<and> expiry_passes now v cl \<and> names_pass v cl
        \<and> json_get cl ''exp'' \<noteq> None \<and> json_get_str cl ''aud'' \<noteq> None \<and> json_get_str cl ''iss'' \<noteq> None
        \<longrightarrow> jl_decode J now v k t = Inr cl)
   \<and> (\<forall>now v k k' t cl cl'. jl_encode J k cl = Inr t \<and> jl_decode J now v k' t = Inr cl' \<longrightarrow> k' = k \<and> cl' = cl)"

definition decode_as :: "(json \<Rightarrow> 'c option) \<Rightarrow> jwt_lib \<Rightarrow> int \<Rightarrow> validation \<Rightarrow> bytes \<Rightarrow> string \<Rightarrow> string + 'c" where
  "decode_as parse J now v key token =
     bindE (jl_decode J now v key token) (\<lambda>cl. ok_or (parse cl) (jl_bad_claims J))"

definition generate_jwt_for_device ::
  "jwt_lib \<Rightarrow> auth_service \<Rightarrow> int \<Rightarrow> string \<Rightarrow> string \<Rightarrow> string \<Rightarrow> app_error + string" where
  "generate_jwt_for_device J s now jti uid did = map_err (\<lambda>e. Internal (''jwt encode: '' @ e))
     (jl_encode J (au_jwt_secret s) (claims_json \<lparr>cm_sub = uid, cm_iat = now, cm_exp = now + ACCESS_TOKEN_EXPIRY_SECS,
        cm_jti = jti, cm_aud = au_node_name s, cm_iss = au_node_name s, cm_did = did\<rparr>))"

definition generate_jwt :: "jwt_lib \<Rightarrow> auth_service \<Rightarrow> int \<Rightarrow> string \<Rightarrow> string \<Rightarrow> app_error + string" where
  "generate_jwt J s now jti uid = generate_jwt_for_device J s now jti uid []"

definition generate_refresh_token_for_device ::
  "jwt_lib \<Rightarrow> auth_service \<Rightarrow> int \<Rightarrow> string \<Rightarrow> string \<Rightarrow> string \<Rightarrow> app_error + string" where
  "generate_refresh_token_for_device J s now jti uid did = map_err (\<lambda>e. Internal (''jwt encode refresh: '' @ e))
     (jl_encode J (au_jwt_secret s) (refresh_claims_json \<lparr>cm_sub = uid, cm_iat = now,
        cm_exp = now + REFRESH_TOKEN_EXPIRY_SECS, cm_jti = jti, cm_aud = au_node_name s, cm_iss = au_node_name s,
        cm_did = did, cm_token_type = ''refresh''\<rparr>))"

definition access_token_validation :: "auth_service \<Rightarrow> validation" where
  "access_token_validation s =
     (if au_node_name s \<noteq> [] then validation_default\<lparr>v_aud := Some (au_node_name s), v_iss := Some (au_node_name s)\<rparr>
      else validation_default\<lparr>v_validate_aud := False\<rparr>)"

definition reject_if_refresh_token :: "jwt_lib \<Rightarrow> auth_service \<Rightarrow> int \<Rightarrow> string \<Rightarrow> app_error + unit" where
  "reject_if_refresh_token J s now token =
     (case decode_as parse_refresh_claims J now
         (validation_default\<lparr>v_validate_exp := False, v_validate_aud := False\<rparr>) (au_jwt_secret s) token of
        Inr cl \<Rightarrow> if cm_token_type cl = ''refresh''
          then Inl (Unauthorized ''refresh token cannot be used as access token'') else Inr ()
      | Inl _ \<Rightarrow> Inr ())"

definition assert_jti_not_revoked :: "int \<Rightarrow> conn \<Rightarrow> string \<Rightarrow> app_error + unit" where
  "assert_jti_not_revoked now c jti =
     (if jti = [] then Inr ()
      else bindE (map_err (\<lambda>e. Internal (''revocation lookup: '' @ db_error_text e)) (is_revoked now c jti))
        (\<lambda>revoked. if revoked then Inl (Unauthorized ''token revoked'') else Inr ()))"

definition assert_device_not_invalidated :: "conn \<Rightarrow> string \<Rightarrow> int \<Rightarrow> app_error + unit" where
  "assert_device_not_invalidated c did iat =
     (if did = [] then Inr ()
      else bindE (map_err (\<lambda>e. Internal (''device lookup: '' @ db_error_text e)) (get_device_by_id c did))
        (\<lambda>device. case device of None \<Rightarrow> Inr ()
         | Some d \<Rightarrow> if \<not> device_active d then Inl (Unauthorized ''device revoked'')
             else if iat < d_tokens_invalidated_after d then Inl (Unauthorized (''token superseded '' @ em_dash @ '' re-authenticate''))
             else Inr ()))"

definition validate_jwt_full ::
  "jwt_lib \<Rightarrow> auth_service \<Rightarrow> int \<Rightarrow> conn \<Rightarrow> string \<Rightarrow> app_error + string \<times> string \<times> int \<times> string" where
  "validate_jwt_full J s now c token =
     bindE (map_err (\<lambda>e. Unauthorized (''invalid token: '' @ e))
       (decode_as parse_claims J now (access_token_validation s) (au_jwt_secret s) token)) (\<lambda>cl.
     bindE (reject_if_refresh_token J s now token) (\<lambda>_.
     bindE (assert_jti_not_revoked now c (cm_jti cl)) (\<lambda>_.
     bindE (assert_device_not_invalidated c (cm_did cl) (cm_iat cl)) (\<lambda>_.
       Inr (cm_sub cl, cm_jti cl, cm_exp cl, cm_did cl)))))"

definition validate_jwt :: "jwt_lib \<Rightarrow> auth_service \<Rightarrow> int \<Rightarrow> conn \<Rightarrow> string \<Rightarrow> app_error + string" where
  "validate_jwt J s now c token = bindE (validate_jwt_full J s now c token) (\<lambda>r. Inr (fst r))"

definition validate_jwt_with_device ::
  "jwt_lib \<Rightarrow> auth_service \<Rightarrow> int \<Rightarrow> conn \<Rightarrow> string \<Rightarrow> app_error + string \<times> string" where
  "validate_jwt_with_device J s now c token =
     bindE (validate_jwt_full J s now c token) (\<lambda>(sub, _, _, did). Inr (sub, did))"

definition revoke_token :: "jwt_lib \<Rightarrow> auth_service \<Rightarrow> int \<Rightarrow> string \<Rightarrow> unit handler" where
  "revoke_token J s now token c =
     (case decode_as parse_claims J now (validation_default\<lparr>v_validate_aud := False, v_validate_exp := False\<rparr>)
         (au_jwt_secret s) token of
        Inl e \<Rightarrow> (Inl (Unauthorized (''invalid token: '' @ e)), c)
      | Inr cl \<Rightarrow> if cm_jti cl = [] then (Inr (), c)
          else (case revoke_jti (cm_jti cl) (cm_exp cl) c of
              (Inl e, c') \<Rightarrow> (Inl (Internal (''revoke: '' @ db_error_text e)), c')
            | (Inr _, c') \<Rightarrow> (Inr (), c')))"

definition validate_refresh_token_full ::
  "jwt_lib \<Rightarrow> auth_service \<Rightarrow> int \<Rightarrow> conn \<Rightarrow> string \<Rightarrow> app_error + string \<times> int \<times> int \<times> string \<times> string" where
  "validate_refresh_token_full J s now c token =
     bindE (map_err (\<lambda>e. Unauthorized (''invalid refresh token: '' @ e))
       (decode_as parse_refresh_claims J now (access_token_validation s) (au_jwt_secret s) token)) (\<lambda>cl.
     if cm_token_type cl \<noteq> ''refresh'' then Inl (Unauthorized ''token is not a refresh token'')
     else bindE (if cm_jti cl = [] then Inr () else
         bindE (map_err (\<lambda>e. Internal (''revocation lookup: '' @ db_error_text e)) (is_revoked now c (cm_jti cl)))
           (\<lambda>revoked. if revoked then Inl (Unauthorized ''refresh token revoked'') else Inr ())) (\<lambda>_.
       Inr (cm_sub cl, cm_iat cl, cm_exp cl, cm_jti cl, cm_did cl)))"

definition validate_refresh_token :: "jwt_lib \<Rightarrow> auth_service \<Rightarrow> int \<Rightarrow> conn \<Rightarrow> string \<Rightarrow> app_error + string" where
  "validate_refresh_token J s now c token = bindE (validate_refresh_token_full J s now c token) (\<lambda>r. Inr (fst r))"

definition refresh_access_token ::
  "jwt_lib \<Rightarrow> auth_service \<Rightarrow> int \<Rightarrow> string \<Rightarrow> conn \<Rightarrow> string \<Rightarrow> app_error + string" where
  "refresh_access_token J s now jti c token =
     bindE (validate_refresh_token J s now c token) (\<lambda>uid. generate_jwt J s now jti uid)"

text \<open>\<open>t0\<close> is the time of the validation and of the access token, \<open>t1\<close> of the decision to rotate and of the new
  refresh token.\<close>

definition refresh_with_sliding ::
  "jwt_lib \<Rightarrow> auth_service \<Rightarrow> int \<Rightarrow> int \<Rightarrow> string \<Rightarrow> string \<Rightarrow> string \<Rightarrow> (string \<times> string \<times> bool) handler" where
  "refresh_with_sliding J s t0 t1 jti_access jti_refresh refresh_token c =
     (case validate_refresh_token_full J s t0 c refresh_token of
        Inl e \<Rightarrow> (Inl e, c)
      | Inr (uid, _, ex, old_jti, did) \<Rightarrow>
          (case generate_jwt_for_device J s t0 jti_access uid did of
             Inl e \<Rightarrow> (Inl e, c)
           | Inr access \<Rightarrow>
               if ex - t1 \<le> REFRESH_TOKEN_EXPIRY_SECS div 2
               then (case generate_refresh_token_for_device J s t1 jti_refresh uid did of
                   Inl e \<Rightarrow> (Inl e, c)
                 | Inr new_refresh \<Rightarrow> (Inr (access, new_refresh, True),
                     if old_jti \<noteq> [] then snd (revoke_jti old_jti ex c) else c))
               else (Inr (access, refresh_token, False), c)))"

subsection \<open>The middleware\<close>

text \<open>A header is \<open>None\<close> when absent, \<open>Some None\<close> when \<open>to_str\<close> fails on it.\<close>

fun cookie_value :: "string list \<Rightarrow> string option" where
  "cookie_value [] = None"
| "cookie_value (p # ps) = (case strip_prefix ''__dilla_jwt'' (trim p) of
     None \<Rightarrow> cookie_value ps
   | Some rest \<Rightarrow> (case strip_prefix ''='' rest of
       None \<Rightarrow> cookie_value ps
     | Some v \<Rightarrow> if v = [] then None else Some v))"

definition extract_auth_cookie :: "string option option \<Rightarrow> string option" where
  "extract_auth_cookie cookie = (case cookie of
     Some (Some raw) \<Rightarrow> cookie_value (split_on CHR '';'' raw) | _ \<Rightarrow> None)"

definition request_token :: "string option option \<Rightarrow> string option option \<Rightarrow> app_error + string" where
  "request_token authorization cookie = (case authorization of
     Some hv \<Rightarrow> bindE (ok_or hv (Unauthorized ''invalid authorization format''))
       (\<lambda>raw. ok_or (strip_prefix ''Bearer '' raw) (Unauthorized ''invalid authorization format''))
   | None \<Rightarrow> ok_or (extract_auth_cookie cookie) (Unauthorized ''missing authorization header''))"

definition auth_middleware ::
  "jwt_lib \<Rightarrow> auth_service \<Rightarrow> int \<Rightarrow> conn \<Rightarrow> string option option \<Rightarrow> string option option
     \<Rightarrow> (string \<Rightarrow> 'r) \<Rightarrow> app_error + 'r" where
  "auth_middleware J s now c authorization cookie next_handler =
     bindE (request_token authorization cookie) (\<lambda>token.
     bindE (validate_jwt J s now c token) (\<lambda>uid. Inr (next_handler uid)))"

subsection \<open>Single use\<close>

text \<open>The operations on the two maps, as one machine.\<close>

datatype auth_input =
    IssueTicket bytes int string
  | UseTicket int string
  | CleanTickets int
  | IssueChallenge bytes bytes int "challenge_binding option"
  | UseChallenge int string bytes bytes
  | UseBound int string string bytes bytes bytes
  | SweepChallenges int

fun auth_step :: "crypto \<Rightarrow> auth_service \<Rightarrow> auth_input \<Rightarrow> auth_service" where
  "auth_step cr s (IssueTicket rnd now uid) = snd (generate_ws_ticket rnd now uid s)"
| "auth_step cr s (UseTicket now t) = snd (validate_ws_ticket now t s)"
| "auth_step cr s (CleanTickets now) = snd (cleanup_expired_ws_tickets now s)"
| "auth_step cr s (IssueChallenge nonce ident now b) = snd (insert_challenge nonce ident now b s)"
| "auth_step cr s (UseChallenge now i pk sig) = snd (verify_challenge cr now i pk sig s)"
| "auth_step cr s (UseBound now i uid new_pk pk sig) = snd (verify_challenge_bound cr now i uid new_pk pk sig s)"
| "auth_step cr s (SweepChallenges now) = sweep_challenges now s"

text \<open>The contract of a store of one-time items: an item is there because it was put there, and taking it
  removes it.\<close>

locale one_time_store = invariant_machine step "\<lambda>_ _. True" inv init
  for step :: "'s \<Rightarrow> 'e \<Rightarrow> 's" and inv :: "'s \<Rightarrow> bool" and init :: 's +
  fixes held :: "'s \<Rightarrow> string \<Rightarrow> 'v option"
    and issues :: "'e \<Rightarrow> (string \<times> 'v) option"
    and takes :: "'e \<Rightarrow> string option"
  assumes init_empty: "held init k = None"
    and step_held: "inv s \<Longrightarrow> held (step s e) k = Some v
      \<Longrightarrow> issues e = Some (k, v) \<or> held s k = Some v \<and> takes e \<noteq> Some k"
begin

lemma always_inv: "inv (run step init es)"
proof -
  have "admissible (\<lambda>_ _. True) step s es" for s by (induction es arbitrary: s) simp_all
  then show ?thesis by (rule reachable_inv)
qed

lemma held_issued:
  "held (run step init es) k = Some v \<Longrightarrow>
   \<exists>es1 e es2. es = es1 @ e # es2 \<and> issues e = Some (k, v) \<and> (\<forall>e' \<in> set es2. takes e' \<noteq> Some k)"
proof (induction es rule: rev_induct)
  case Nil
  then show ?case by (simp add: init_empty)
next
  case (snoc e es)
  from snoc.prems have "held (step (run step init es) e) k = Some v" by (simp add: run_append)
  from step_held [OF always_inv this] show ?case
  proof
    assume "issues e = Some (k, v)"
    then show ?thesis by (intro exI [of _ es] exI [of _ e] exI [of _ "[]"]) simp
  next
    assume old: "held (run step init es) k = Some v \<and> takes e \<noteq> Some k"
    with snoc.IH obtain es1 e' es2 where "es = es1 @ e' # es2" "issues e' = Some (k, v)"
      "\<forall>x \<in> set es2. takes x \<noteq> Some k" by blast
    with old show ?thesis by (intro exI [of _ es1] exI [of _ e'] exI [of _ "es2 @ [e]"]) simp
  qed
qed

end

fun ticket_issued :: "auth_input \<Rightarrow> (string \<times> ws_ticket) option" where
  "ticket_issued (IssueTicket rnd now uid) = Some (hex rnd, \<lparr>wt_user_id = uid, wt_created_at = now\<rparr>)"
| "ticket_issued _ = None"

fun ticket_taken :: "auth_input \<Rightarrow> string option" where
  "ticket_taken (UseTicket now t) = Some t"
| "ticket_taken _ = None"

fun challenge_issued :: "auth_input \<Rightarrow> (string \<times> challenge) option" where
  "challenge_issued (IssueChallenge nonce ident now b) =
     Some (hex ident, \<lparr>chl_nonce = nonce, chl_created_at = now, chl_binding = b\<rparr>)"
| "challenge_issued _ = None"

fun challenge_taken :: "auth_input \<Rightarrow> string option" where
  "challenge_taken (UseChallenge now i pk sig) = Some i"
| "challenge_taken (UseBound now i uid new_pk pk sig) = Some i"
| "challenge_taken _ = None"

lemma map_of_filterD: "map_of (filter p xs) k = Some v \<Longrightarrow> distinct (map fst xs) \<Longrightarrow> map_of xs k = Some v"
  by (induction xs) (auto split: if_splits dest: map_of_SomeD intro: rev_image_eqI)

definition keys_distinct :: "auth_service \<Rightarrow> bool" where
  "keys_distinct s \<longleftrightarrow> distinct (map fst (au_ws_tickets s)) \<and> distinct (map fst (au_challenges s))"

lemmas auth_op_defs = generate_ws_ticket_def validate_ws_ticket_def cleanup_expired_ws_tickets_def
  insert_challenge_def verify_challenge_def verify_challenge_bound_def take_challenge_def sweep_challenges_def

lemma keys_distinct_step: "keys_distinct s \<Longrightarrow> keys_distinct (auth_step cr s e)"
  by (cases e) (auto simp: keys_distinct_def auth_op_defs Let_def distinct_update distinct_delete distinct_map_filter
      split: option.split)

lemma ticket_step_held:
  assumes "keys_distinct s" and "map_of (au_ws_tickets (auth_step cr s e)) k = Some v"
  shows "ticket_issued e = Some (k, v) \<or> map_of (au_ws_tickets s) k = Some v \<and> ticket_taken e \<noteq> Some k"
  using assms
  by (cases e) (auto simp: keys_distinct_def auth_op_defs Let_def update_conv' delete_conv' dest: map_of_filterD
      split: option.splits if_splits)

lemma challenge_step_held:
  assumes "keys_distinct s" and "map_of (au_challenges (auth_step cr s e)) k = Some v"
  shows "challenge_issued e = Some (k, v) \<or> map_of (au_challenges s) k = Some v \<and> challenge_taken e \<noteq> Some k"
  using assms
  by (cases e) (auto simp: keys_distinct_def auth_op_defs Let_def update_conv' delete_conv' dest: map_of_filterD
      split: option.splits if_splits)

lemma keys_distinct_new: "keys_distinct (auth_new key name)"
  by (simp add: keys_distinct_def auth_new_def)

interpretation tickets: one_time_store "auth_step cr" keys_distinct "auth_new key name"
    "\<lambda>s. map_of (au_ws_tickets s)" ticket_issued ticket_taken for cr key name
  by unfold_locales (use keys_distinct_new in \<open>auto simp: auth_new_def intro: keys_distinct_step dest: ticket_step_held\<close>)

interpretation challenges: one_time_store "auth_step cr" keys_distinct "auth_new key name"
    "\<lambda>s. map_of (au_challenges s)" challenge_issued challenge_taken for cr key name
  by unfold_locales (auto simp: auth_new_def dest: challenge_step_held)

lemma validate_ws_ticket_InrD:
  assumes "validate_ws_ticket now t s = (Inr uid, s')"
  shows "\<exists>tk. map_of (au_ws_tickets s) t = Some tk \<and> uid = wt_user_id tk
    \<and> elapsed now (wt_created_at tk) \<le> secs 30 \<and> map_of (au_ws_tickets s') t = None"
proof (cases "map_of (au_ws_tickets s) t")
  case (Some tk)
  then show ?thesis using assms
    by (cases "elapsed now (wt_created_at tk) > secs 30") (auto simp: validate_ws_ticket_def delete_conv')
qed (use assms in \<open>simp add: validate_ws_ticket_def\<close>)

lemma verify_challenge_bound_InrD:
  assumes "verify_challenge_bound cr now i uid new_pk pk sig s = (Inr True, s')"
  shows "\<exists>ch. map_of (au_challenges s) i = Some ch \<and> chl_binding ch = Some \<lparr>cb_user_id = uid, cb_target_pk = new_pk\<rparr>
    \<and> elapsed now (chl_created_at ch) \<le> secs 300
    \<and> cr_verify cr pk (enrollment_signing_digest cr uid new_pk (chl_nonce ch)) sig"
proof (cases "map_of (au_challenges s) i")
  case (Some ch)
  show ?thesis
  proof (cases "chl_binding ch")
    case None
    with Some assms show ?thesis
      by (simp add: verify_challenge_bound_def take_challenge_def split: if_splits)
  next
    case (Some b)
    moreover have "b = \<lparr>cb_user_id = cb_user_id b, cb_target_pk = cb_target_pk b\<rparr>" by simp
    ultimately show ?thesis using \<open>map_of (au_challenges s) i = Some ch\<close> assms
      by (auto simp: verify_challenge_bound_def take_challenge_def split: if_splits)
  qed
qed (use assms in \<open>simp add: verify_challenge_bound_def take_challenge_def\<close>)

text \<open>C36. A WebSocket ticket that is accepted, after any sequence of operations on the service, was issued to
  that user at most 30 seconds before, and has not been presented since it was issued: no ticket is
  accepted twice.\<close>

theorem ws_ticket_sound:
  assumes "validate_ws_ticket now t (run (auth_step cr) (auth_new key name) es) = (Inr uid, s')"
  shows "(\<exists>es1 rnd created es2. es = es1 @ IssueTicket rnd created uid # es2 \<and> t = hex rnd
      \<and> elapsed now created \<le> secs 30 \<and> (\<forall>e \<in> set es2. ticket_taken e \<noteq> Some t))
    \<and> fst (validate_ws_ticket now' t s') = Inl (Unauthorized ''invalid or expired ws ticket'')"
proof -
  from validate_ws_ticket_InrD [OF assms] obtain tk
    where held: "map_of (au_ws_tickets (run (auth_step cr) (auth_new key name) es)) t = Some tk"
    and uid: "uid = wt_user_id tk" and age: "elapsed now (wt_created_at tk) \<le> secs 30"
    and gone: "map_of (au_ws_tickets s') t = None"
    by blast
  from tickets.held_issued [OF held] obtain es1 e es2
    where es: "es = es1 @ e # es2" "ticket_issued e = Some (t, tk)" "\<forall>e' \<in> set es2. ticket_taken e' \<noteq> Some t"
    by blast
  then obtain rnd created where "e = IssueTicket rnd created uid" "t = hex rnd" "created = wt_created_at tk"
    using uid by (cases e) auto
  moreover have "fst (validate_ws_ticket now' t s') = Inl (Unauthorized ''invalid or expired ws ticket'')"
    using gone by (simp add: validate_ws_ticket_def)
  ultimately show ?thesis using es age by blast
qed

theorem ws_ticket_sound_witness:
  "fst (validate_ws_ticket 9 (hex [1]) (snd (validate_ws_ticket 8 (hex [1])
     (run (auth_step toy_crypto) (auth_new [] []) [IssueTicket [1] 7 ''u'']))))
   = Inl (Unauthorized ''invalid or expired ws ticket'')"
proof -
  let ?s = "run (auth_step toy_crypto) (auth_new [] []) [IssueTicket [1] 7 ''u'']"
  have "fst (validate_ws_ticket 8 (hex [1]) ?s) = Inr ''u''" by code_simp
  then have "validate_ws_ticket 8 (hex [1]) ?s = (Inr ''u'', snd (validate_ws_ticket 8 (hex [1]) ?s))"
    by (metis prod.collapse)
  from ws_ticket_sound [OF this] show ?thesis by blast
qed

text \<open>A device enrollment is accepted only under a challenge that was issued, at most 300 seconds before
  and not presented since, for exactly that user and exactly that new key, and the signature covers both and
  the nonce: the digest of a challenge issued for one key never enrolls another. The login path accepts no
  such challenge.\<close>

theorem enrollment_bound:
  assumes "s = run (auth_step cr) (auth_new key name) es"
    and "verify_challenge_bound cr now i uid new_pk pk sig s = (Inr True, s')"
  shows "(\<exists>es1 nonce ident created es2. es = es1 @ IssueChallenge nonce ident created
        (Some \<lparr>cb_user_id = uid, cb_target_pk = new_pk\<rparr>) # es2 \<and> i = hex ident
      \<and> elapsed now created \<le> secs 300 \<and> (\<forall>e \<in> set es2. challenge_taken e \<noteq> Some i)
      \<and> cr_verify cr pk (enrollment_signing_digest cr uid new_pk nonce) sig)
    \<and> (\<forall>b. fst (verify_challenge cr now i pk' sig' s) \<noteq> Inr b)"
proof -
  from verify_challenge_bound_InrD [OF assms(2)] obtain ch
    where held: "map_of (au_challenges (run (auth_step cr) (auth_new key name) es)) i = Some ch"
    and b: "chl_binding ch = Some \<lparr>cb_user_id = uid, cb_target_pk = new_pk\<rparr>"
    and age: "elapsed now (chl_created_at ch) \<le> secs 300"
    and sig: "cr_verify cr pk (enrollment_signing_digest cr uid new_pk (chl_nonce ch)) sig"
    unfolding assms(1) by blast
  from challenges.held_issued [OF held] obtain es1 e es2
    where es: "es = es1 @ e # es2" "challenge_issued e = Some (i, ch)" "\<forall>e' \<in> set es2. challenge_taken e' \<noteq> Some i"
    by blast
  then obtain nonce ident created where "e = IssueChallenge nonce ident created
      (Some \<lparr>cb_user_id = uid, cb_target_pk = new_pk\<rparr>)" "i = hex ident" "nonce = chl_nonce ch"
      "created = chl_created_at ch"
    using b by (cases e) auto
  moreover have "fst (verify_challenge cr now i pk' sig' s) \<noteq> Inr b'" for b'
    using held b by (simp add: assms(1) verify_challenge_def take_challenge_def)
  ultimately show ?thesis using es age sig by blast
qed

definition sample_bound :: auth_service where
  "sample_bound = run (auth_step toy_crypto) (auth_new [] []) [IssueChallenge (replicate 32 5) [9] 0
     (Some \<lparr>cb_user_id = ''u'', cb_target_pk = replicate 32 7\<rparr>)]"

theorem enrollment_bound_witness:
  "fst (verify_challenge toy_crypto 1 (hex [9]) [] [] sample_bound) \<noteq> Inr True"
proof -
  let ?sig = "cr_sign toy_crypto [] (enrollment_signing_digest toy_crypto ''u'' (replicate 32 7) (replicate 32 5))"
  have "fst (verify_challenge_bound toy_crypto 1 (hex [9]) ''u'' (replicate 32 7) (replicate 32 1) ?sig sample_bound)
      = Inr True" by code_simp
  then have "verify_challenge_bound toy_crypto 1 (hex [9]) ''u'' (replicate 32 7) (replicate 32 1) ?sig sample_bound
      = (Inr True, snd (verify_challenge_bound toy_crypto 1 (hex [9]) ''u'' (replicate 32 7) (replicate 32 1) ?sig sample_bound))"
    by (metis prod.collapse)
  from enrollment_bound [OF sample_bound_def this] show ?thesis by blast
qed

subsection \<open>Tokens: what they say and when they pass\<close>

definition in_i64 :: "int \<Rightarrow> bool" where
  "in_i64 n \<longleftrightarrow> - (2 ^ 63) \<le> n \<and> n \<le> 2 ^ 63 - 1"

lemmas claim_defs = parse_claims_def parse_refresh_claims_def claims_json_def refresh_claims_json_def
  field_time_def field_defs in_i64_def

lemma parse_claims_json: "in_i64 (cm_iat x) \<Longrightarrow> in_i64 (cm_exp x) \<Longrightarrow> parse_claims (claims_json x) = Some x"
  by (cases x) (simp add: claim_defs)

lemma parse_refresh_claims_json:
  "in_i64 (cm_iat x) \<Longrightarrow> in_i64 (cm_exp x) \<Longrightarrow> parse_refresh_claims (refresh_claims_json x) = Some x"
  by (cases x) (simp add: claim_defs)

lemma parse_refresh_claims_access: "parse_refresh_claims (claims_json x) = None"
  by (simp add: claim_defs Option.bind_eq_None_conv)

lemma json_get_claims:
  "json_get (claims_json x) ''exp'' = Some (JNum (cm_exp x))"
  "json_get_str (claims_json x) ''aud'' = Some (cm_aud x)" "json_get_str (claims_json x) ''iss'' = Some (cm_iss x)"
  "json_get (refresh_claims_json y) ''exp'' = Some (JNum (cm_exp y))"
  "json_get_str (refresh_claims_json y) ''aud'' = Some (cm_aud y)"
  "json_get_str (refresh_claims_json y) ''iss'' = Some (cm_iss y)"
  by (simp_all add: claims_json_def refresh_claims_json_def json_get_str_def)

lemmas validation_defs = access_token_validation_def validation_default_def expiry_passes_def names_pass_def

lemma jwt_okD:
  assumes "jwt_ok J"
  shows "jl_decode J now v k t = Inr cl \<Longrightarrow> expiry_passes now v cl \<and> names_pass v cl"
    and "jl_encode J k cl = Inr t \<Longrightarrow> expiry_passes now v cl \<Longrightarrow> names_pass v cl \<Longrightarrow> json_get cl ''exp'' \<noteq> None
      \<Longrightarrow> json_get_str cl ''aud'' \<noteq> None \<Longrightarrow> json_get_str cl ''iss'' \<noteq> None \<Longrightarrow> jl_decode J now v k t = Inr cl"
    and "jl_encode J k cl = Inr t \<Longrightarrow> jl_decode J now v k' t = Inr cl' \<Longrightarrow> k' = k \<and> cl' = cl"
proof -
  note J = assms [unfolded jwt_ok_def]
  show "jl_decode J now v k t = Inr cl \<Longrightarrow> expiry_passes now v cl \<and> names_pass v cl"
    using conjunct1 [OF J] by blast
  show "jl_encode J k cl = Inr t \<Longrightarrow> expiry_passes now v cl \<Longrightarrow> names_pass v cl \<Longrightarrow> json_get cl ''exp'' \<noteq> None
      \<Longrightarrow> json_get_str cl ''aud'' \<noteq> None \<Longrightarrow> json_get_str cl ''iss'' \<noteq> None \<Longrightarrow> jl_decode J now v k t = Inr cl"
    using conjunct1 [OF conjunct2 [OF J]] by blast
  show "jl_encode J k cl = Inr t \<Longrightarrow> jl_decode J now v k' t = Inr cl' \<Longrightarrow> k' = k \<and> cl' = cl"
    using conjunct2 [OF conjunct2 [OF J]] by blast
qed

text \<open>What decoding an encoded token gives, for the validations the service uses.\<close>

lemma decode_own:
  assumes "jwt_ok J" and "jl_encode J k cl = Inr t"
    and "json_get cl ''exp'' = Some (JNum e)" and "json_get_str cl ''aud'' = Some a" and "json_get_str cl ''iss'' = Some i"
    and "v_validate_exp v \<Longrightarrow> now - v_leeway v \<le> e" and "v_validate_aud v \<Longrightarrow> v_aud v = Some a"
    and "v_iss v = None \<or> v_iss v = Some i"
  shows "jl_decode J now v k t = Inr cl"
proof -
  have "expiry_passes now v cl" "names_pass v cl"
    using assms(3-8) by (auto simp: expiry_passes_def names_pass_def)
  then show ?thesis using jwt_okD(2) [OF assms(1,2)] assms(3-5) by simp
qed

lemma decode_expired:
  assumes "jwt_ok J" and "jl_encode J k cl = Inr t" and "json_get cl ''exp'' = Some (JNum e)"
    and "v_validate_exp v" and "e < now - v_leeway v"
  shows "\<exists>x. jl_decode J now v k t = Inl x"
proof (cases "jl_decode J now v k t")
  case (Inr cl')
  then have "cl' = cl" "expiry_passes now v cl'" using jwt_okD(1,3) [OF assms(1)] assms(2) by blast+
  then show ?thesis using assms(3-5) by (simp add: expiry_passes_def)
qed simp

text \<open>The access token that \<open>generate_jwt_for_device\<close> mints, as the validator sees it.\<close>

lemma validate_own_token:
  assumes "jwt_ok J" and "generate_jwt_for_device J s now jti uid did = Inr t"
    and "in_i64 now" and "in_i64 (now + ACCESS_TOKEN_EXPIRY_SECS)"
    and "now' \<le> now + ACCESS_TOKEN_EXPIRY_SECS + 60"
  shows "validate_jwt_full J s now' c t =
    bindE (assert_jti_not_revoked now' c jti) (\<lambda>_. bindE (assert_device_not_invalidated c did now) (\<lambda>_.
      Inr (uid, jti, now + ACCESS_TOKEN_EXPIRY_SECS, did)))"
proof -
  define cl where "cl = \<lparr>cm_sub = uid, cm_iat = now, cm_exp = now + ACCESS_TOKEN_EXPIRY_SECS, cm_jti = jti,
    cm_aud = au_node_name s, cm_iss = au_node_name s, cm_did = did\<rparr>"
  have enc: "jl_encode J (au_jwt_secret s) (claims_json cl) = Inr t"
    using assms(2) by (simp add: generate_jwt_for_device_def cl_def)
  note own = decode_own [OF assms(1) enc json_get_claims(1-3)]
  have "jl_decode J now' (access_token_validation s) (au_jwt_secret s) t = Inr (claims_json cl)"
    using assms(5) by (intro own) (auto simp: validation_defs cl_def)
  moreover have "jl_decode J now' (validation_default\<lparr>v_validate_exp := False, v_validate_aud := False\<rparr>)
      (au_jwt_secret s) t = Inr (claims_json cl)"
    by (intro own) (simp_all add: validation_defs)
  moreover have "parse_claims (claims_json cl) = Some cl"
    using assms(3,4) by (intro parse_claims_json) (simp_all add: cl_def)
  ultimately show ?thesis
    by (simp add: validate_jwt_full_def decode_as_def reject_if_refresh_token_def parse_refresh_claims_access cl_def)
qed

text \<open>An access token, from its creation until one hour later, gives back the user, its id, its expiry and
  the device it was minted for, as long as its id is not revoked and the device, if it has a row, is active
  and was not invalidated after the token was minted.\<close>

theorem token_roundtrip:
  assumes "jwt_ok J" and "healthy c" and "generate_jwt_for_device J s now jti uid did = Inr t"
    and "in_i64 now" and "in_i64 (now + ACCESS_TOKEN_EXPIRY_SECS)"
    and "now' \<le> now + ACCESS_TOKEN_EXPIRY_SECS" and "jti \<notin> fst ` set (c_jwt_revocations c)"
    and "\<And>d. lookup_by d_id did (c_devices c) = Some d \<Longrightarrow> device_active d \<and> d_tokens_invalidated_after d \<le> now"
  shows "validate_jwt_full J s now' c t = Inr (uid, jti, now + ACCESS_TOKEN_EXPIRY_SECS, did)"
proof -
  have "rows_where (\<lambda>p. fst p = jti \<and> now' < snd p) (c_jwt_revocations c) = []"
    using assms(7) by (auto simp: rows_where_eq_Nil)
  then have "assert_jti_not_revoked now' c jti = Inr ()"
    using assms(2) by (simp add: assert_jti_not_revoked_def is_revoked_def)
  moreover have "assert_device_not_invalidated c did now = Inr ()"
    using assms(2,8)
    by (fastforce simp: assert_device_not_invalidated_def get_device_by_id_def lookup_by_def split: option.split)
  ultimately show ?thesis
    using validate_own_token [OF assms(1,3-5), of now' c] assms(6) by simp
qed

text \<open>Revoking an access token works until the second it expires and no longer: from then on the revocation
  row is not looked at, but the decoder still grants the default leeway of 60 seconds, so the revoked token
  is accepted again in that window.\<close>

theorem revocation_window:
  assumes "jwt_ok J" and "healthy c" and "generate_jwt_for_device J s now jti uid [] = Inr t"
    and "in_i64 now" and "ex = now + ACCESS_TOKEN_EXPIRY_SECS" and "in_i64 ex" and "jti \<noteq> []"
    and "c' = snd (revoke_token J s now1 t c)"
  shows "(now' < ex \<longrightarrow> validate_jwt_full J s now' c' t = Inl (Unauthorized ''token revoked''))
    \<and> (ex \<le> now' \<and> now' \<le> ex + 60 \<longrightarrow> validate_jwt_full J s now' c' t = Inr (uid, jti, ex, []))
    \<and> (ex + 60 < now' \<longrightarrow> (\<exists>e. validate_jwt_full J s now' c' t = Inl e))"
proof -
  define cl where "cl = \<lparr>cm_sub = uid, cm_iat = now, cm_exp = ex, cm_jti = jti,
    cm_aud = au_node_name s, cm_iss = au_node_name s, cm_did = []\<rparr>"
  have enc: "jl_encode J (au_jwt_secret s) (claims_json cl) = Inr t"
    using assms(3,5) by (simp add: generate_jwt_for_device_def cl_def)
  have "jl_decode J now1 (validation_default\<lparr>v_validate_aud := False, v_validate_exp := False\<rparr>) (au_jwt_secret s) t
      = Inr (claims_json cl)"
    by (rule decode_own [OF assms(1) enc json_get_claims(1-3)]) (simp_all add: validation_defs)
  moreover have "parse_claims (claims_json cl) = Some cl"
    using assms(4,6) by (intro parse_claims_json) (simp_all add: cl_def)
  ultimately have c': "c' = snd (revoke_jti jti ex c)"
    using assms(7,8) by (simp add: revoke_token_def decode_as_def cl_def split: sum.split prod.split)
  have "is_revoked now' c' jti = Inr (now' < ex)"
    using is_revoked_revoke [OF assms(2)] by (simp add: c')
  then have jti: "assert_jti_not_revoked now' c' jti
      = (if now' < ex then Inl (Unauthorized ''token revoked'') else Inr ())"
    using assms(7) by (simp add: assert_jti_not_revoked_def)
  have "ex + 60 < now' \<Longrightarrow> \<exists>e. validate_jwt_full J s now' c' t = Inl e"
    using decode_expired [OF assms(1) enc json_get_claims(1), of "access_token_validation s" now']
    by (auto simp: validate_jwt_full_def decode_as_def validation_defs cl_def split: if_splits)
  moreover have "assert_device_not_invalidated c' [] now = Inr ()" by (simp add: assert_device_not_invalidated_def)
  ultimately show ?thesis
    using validate_own_token [OF assms(1,3,4), of now' c'] jti assms(5,6) by simp
qed

text \<open>A refresh token is no access token.\<close>

lemma refresh_is_no_access_token:
  assumes "jwt_ok J" and "generate_refresh_token_for_device J s now jti uid did = Inr t"
    and "in_i64 now" and "in_i64 (now + REFRESH_TOKEN_EXPIRY_SECS)"
  shows "\<exists>e. validate_jwt_full J s now' c t = Inl e"
proof -
  define cl where "cl = \<lparr>cm_sub = uid, cm_iat = now, cm_exp = now + REFRESH_TOKEN_EXPIRY_SECS, cm_jti = jti,
    cm_aud = au_node_name s, cm_iss = au_node_name s, cm_did = did, cm_token_type = ''refresh''\<rparr>"
  have enc: "jl_encode J (au_jwt_secret s) (refresh_claims_json cl) = Inr t"
    using assms(2) by (simp add: generate_refresh_token_for_device_def cl_def)
  have "jl_decode J now' (validation_default\<lparr>v_validate_exp := False, v_validate_aud := False\<rparr>) (au_jwt_secret s) t
      = Inr (refresh_claims_json cl)"
    by (rule decode_own [OF assms(1) enc json_get_claims(4-6)]) (simp_all add: validation_defs)
  moreover have "parse_refresh_claims (refresh_claims_json cl) = Some cl"
    using assms(3,4) by (intro parse_refresh_claims_json) (simp_all add: cl_def)
  ultimately have "reject_if_refresh_token J s now' t
      = Inl (Unauthorized ''refresh token cannot be used as access token'')"
    by (simp add: reject_if_refresh_token_def decode_as_def cl_def)
  then show ?thesis
    by (cases "decode_as parse_claims J now' (access_token_validation s) (au_jwt_secret s) t")
      (simp_all add: validate_jwt_full_def)
qed

lemma validate_own_refresh:
  assumes "jwt_ok J" and "generate_refresh_token_for_device J s now jti uid did = Inr t"
    and "in_i64 now" and "in_i64 (now + REFRESH_TOKEN_EXPIRY_SECS)"
    and "now' \<le> now + REFRESH_TOKEN_EXPIRY_SECS" and "healthy c" and "jti \<noteq> []"
  shows "validate_refresh_token_full J s now' c t =
    (if \<exists>e > now'. (jti, e) \<in> set (c_jwt_revocations c) then Inl (Unauthorized ''refresh token revoked'')
     else Inr (uid, now, now + REFRESH_TOKEN_EXPIRY_SECS, jti, did))"
proof -
  define cl where "cl = \<lparr>cm_sub = uid, cm_iat = now, cm_exp = now + REFRESH_TOKEN_EXPIRY_SECS, cm_jti = jti,
    cm_aud = au_node_name s, cm_iss = au_node_name s, cm_did = did, cm_token_type = ''refresh''\<rparr>"
  have enc: "jl_encode J (au_jwt_secret s) (refresh_claims_json cl) = Inr t"
    using assms(2) by (simp add: generate_refresh_token_for_device_def cl_def)
  have "jl_decode J now' (access_token_validation s) (au_jwt_secret s) t = Inr (refresh_claims_json cl)"
    using assms(5) by (intro decode_own [OF assms(1) enc json_get_claims(4-6)]) (auto simp: validation_defs cl_def)
  moreover have "parse_refresh_claims (refresh_claims_json cl) = Some cl"
    using assms(3,4) by (intro parse_refresh_claims_json) (simp_all add: cl_def)
  moreover have "is_revoked now' c jti = Inr (\<exists>e > now'. (jti, e) \<in> set (c_jwt_revocations c))"
    using assms(6) by (simp add: is_revoked_def rows_where_eq_Nil) force
  ultimately show ?thesis
    using assms(7) by (simp add: validate_refresh_token_full_def decode_as_def cl_def)
qed

text \<open>The sliding refresh: a live refresh token always buys a new access token for its user and device; it is
  replaced exactly when at most half of its day is left, the replacement is a refresh token minted for the
  same user and device, and the old one is refused from then on until it expires by itself.\<close>

theorem sliding_refresh:
  assumes "jwt_ok J" and "healthy c" and "generate_refresh_token_for_device J s now jti uid did = Inr t"
    and "in_i64 now" and "in_i64 (now + REFRESH_TOKEN_EXPIRY_SECS)" and "jti \<noteq> []"
    and "t0 \<le> now + REFRESH_TOKEN_EXPIRY_SECS" and "jti \<notin> fst ` set (c_jwt_revocations c)"
    and "refresh_with_sliding J s t0 t1 ja jr t c = (Inr (access, refresh, rotated), c')"
  shows "generate_jwt_for_device J s t0 ja uid did = Inr access
    \<and> (rotated \<longleftrightarrow> now + 12 * 3600 \<le> t1)
    \<and> (\<not> rotated \<longrightarrow> refresh = t \<and> c' = c)
    \<and> (rotated \<longrightarrow> generate_refresh_token_for_device J s t1 jr uid did = Inr refresh
        \<and> (\<forall>t2 < now + REFRESH_TOKEN_EXPIRY_SECS.
             validate_refresh_token_full J s t2 c' t = Inl (Unauthorized ''refresh token revoked'')))"
proof -
  have "\<nexists>e. e > t0 \<and> (jti, e) \<in> set (c_jwt_revocations c)" using assms(8) by force
  with validate_own_refresh [OF assms(1,3-5,7,2,6)]
  have valid: "validate_refresh_token_full J s t0 c t = Inr (uid, now, now + REFRESH_TOKEN_EXPIRY_SECS, jti, did)"
    by simp
  obtain acc where acc: "generate_jwt_for_device J s t0 ja uid did = Inr acc"
    using assms(9) valid by (auto simp: refresh_with_sliding_def split: sum.splits)
  show ?thesis
  proof (cases "now + 12 * 3600 \<le> t1")
    case False
    then have "\<not> now + REFRESH_TOKEN_EXPIRY_SECS - t1 \<le> REFRESH_TOKEN_EXPIRY_SECS div 2"
      by (simp add: REFRESH_TOKEN_EXPIRY_SECS_def)
    with valid acc assms(9) False show ?thesis by (simp add: refresh_with_sliding_def)
  next
    case True
    then have half: "now + REFRESH_TOKEN_EXPIRY_SECS - t1 \<le> REFRESH_TOKEN_EXPIRY_SECS div 2"
      by (simp add: REFRESH_TOKEN_EXPIRY_SECS_def)
    obtain new where new: "generate_refresh_token_for_device J s t1 jr uid did = Inr new"
      using assms(9) valid acc half by (auto simp: refresh_with_sliding_def split: sum.splits)
    have out: "access = acc" "refresh = new" "rotated"
      and c': "c' = snd (revoke_jti jti (now + REFRESH_TOKEN_EXPIRY_SECS) c)"
      using assms(6,9) valid acc half new by (auto simp: refresh_with_sliding_def)
    have "(jti, now + REFRESH_TOKEN_EXPIRY_SECS) \<in> set (c_jwt_revocations c')" "healthy c'"
      using assms(2) by (simp_all add: c' revoke_jti_def exec_healthy healthy_def exec_def)
    then have "validate_refresh_token_full J s t2 c' t = Inl (Unauthorized ''refresh token revoked'')"
      if "t2 < now + REFRESH_TOKEN_EXPIRY_SECS" for t2
      using validate_own_refresh [OF assms(1,3-5) less_imp_le [OF that] _ assms(6), of c'] that by auto
    with acc new out True show ?thesis by simp
  qed
qed

subsection \<open>An instance of the token library\<close>

text \<open>A finite table of claims and their tokens, for one key.\<close>

definition toy_jwt :: "(json \<times> string) list \<Rightarrow> jwt_lib" where
  "toy_jwt tbl = \<lparr>jl_encode = (\<lambda>k cl. if k = [] then ok_or (map_of tbl cl) ''no token'' else Inl ''no token''),
     jl_decode = (\<lambda>now v k t. case map_of (map (\<lambda>(cl, t). (t, cl)) tbl) t of
        Some cl \<Rightarrow> if k = [] \<and> expiry_passes now v cl \<and> names_pass v cl then Inr cl else Inl ''invalid''
      | None \<Rightarrow> Inl ''invalid''),
     jl_bad_claims = ''claims''\<rparr>"

lemma toy_jwt_ok:
  assumes "distinct (map snd tbl)"
  shows "jwt_ok (toy_jwt tbl)"
proof -
  have swap: "map_of (map (\<lambda>(cl, t). (t, cl)) tbl) t = Some cl" if "map_of tbl cl = Some t" for cl t
  proof (rule map_of_is_SomeI)
    show "distinct (map fst (map (\<lambda>(cl, t). (t, cl)) tbl))"
      using assms by (simp add: comp_def case_prod_beta)
    show "(t, cl) \<in> set (map (\<lambda>(cl, t). (t, cl)) tbl)" using map_of_SomeD [OF that] by force
  qed
  have enc: "jl_encode (toy_jwt tbl) k cl = Inr t \<Longrightarrow> k = [] \<and> map_of tbl cl = Some t" for k cl t
    by (simp add: toy_jwt_def split: if_splits)
  have dec: "k = [] \<and> map_of (map (\<lambda>(cl, t). (t, cl)) tbl) t = Some cl \<and> expiry_passes now v cl \<and> names_pass v cl"
    if "jl_decode (toy_jwt tbl) now v k t = Inr cl" for now v k t cl
    using that by (cases "map_of (map (\<lambda>(cl, t). (t, cl)) tbl) t") (simp_all add: toy_jwt_def split: if_splits)
  show ?thesis
    unfolding jwt_ok_def
  proof (intro conjI allI impI)
    fix now v k t cl
    assume "jl_decode (toy_jwt tbl) now v k t = Inr cl"
    then show "expiry_passes now v cl" "names_pass v cl"
      using dec by blast+
  next
    fix now v k t cl
    assume asm: "jl_encode (toy_jwt tbl) k cl = Inr t \<and> expiry_passes now v cl \<and> names_pass v cl
      \<and> json_get cl ''exp'' \<noteq> None \<and> json_get_str cl ''aud'' \<noteq> None \<and> json_get_str cl ''iss'' \<noteq> None"
    have "k = []" and t: "map_of tbl cl = Some t" using enc [OF conjunct1 [OF asm]] by blast+
    moreover have "expiry_passes now v cl" "names_pass v cl" using asm by blast+
    ultimately show "jl_decode (toy_jwt tbl) now v k t = Inr cl"
      using swap [OF t] by (simp add: toy_jwt_def)
  next
    fix now v k k' t cl cl'
    assume asm: "jl_encode (toy_jwt tbl) k cl = Inr t \<and> jl_decode (toy_jwt tbl) now v k' t = Inr cl'"
    have "k = []" and t: "map_of tbl cl = Some t" using enc [OF conjunct1 [OF asm]] by blast+
    moreover have "k' = []" and cl': "map_of (map (\<lambda>(cl, t). (t, cl)) tbl) t = Some cl'"
      using dec [OF conjunct2 [OF asm]] by blast+
    ultimately show "k' = k" by simp
    show "cl' = cl" using swap [OF t] cl' by (metis option.inject)
  qed
qed

definition sample_access :: claims where
  "sample_access = \<lparr>cm_sub = ''u'', cm_iat = 100, cm_exp = 3700, cm_jti = ''j'', cm_aud = ''n'', cm_iss = ''n'',
     cm_did = []\<rparr>"

definition sample_refresh :: "int \<Rightarrow> string \<Rightarrow> refresh_claims" where
  "sample_refresh now jti = \<lparr>cm_sub = ''u'', cm_iat = now, cm_exp = now + 86400, cm_jti = jti, cm_aud = ''n'',
     cm_iss = ''n'', cm_did = [], cm_token_type = ''refresh''\<rparr>"

definition sample_jwt :: jwt_lib where
  "sample_jwt = toy_jwt [(claims_json sample_access, ''A''), (refresh_claims_json (sample_refresh 0 ''old''), ''R''),
     (refresh_claims_json (sample_refresh 50000 ''new''), ''S''),
     (claims_json (sample_access\<lparr>cm_iat := 50000, cm_exp := 53600\<rparr>), ''B'')]"

lemma sample_jwt_ok: "jwt_ok sample_jwt"
  unfolding sample_jwt_def by (rule toy_jwt_ok) simp

lemma sample_access_token: "generate_jwt_for_device sample_jwt (auth_new [] ''n'') 100 ''j'' ''u'' [] = Inr ''A''"
  by code_simp

theorem token_roundtrip_witness:
  "validate_jwt_full sample_jwt (auth_new [] ''n'') 3700 empty_conn ''A'' = Inr (''u'', ''j'', 3700, [])"
proof -
  have h: "healthy empty_conn" by (simp add: healthy_def empty_conn_def)
  from token_roundtrip [OF sample_jwt_ok h sample_access_token, of 3700]
  show ?thesis by (simp add: in_i64_def ACCESS_TOKEN_EXPIRY_SECS_def empty_conn_def)
qed

theorem revocation_window_witness:
  "validate_jwt_full sample_jwt (auth_new [] ''n'') 3700
     (snd (revoke_token sample_jwt (auth_new [] ''n'') 200 ''A'' empty_conn)) ''A'' = Inr (''u'', ''j'', 3700, [])"
proof -
  have h: "healthy empty_conn" by (simp add: healthy_def empty_conn_def)
  from revocation_window [OF sample_jwt_ok h sample_access_token, where now' = 3700 and ?now1.0 = 200]
  show ?thesis by (simp add: in_i64_def ACCESS_TOKEN_EXPIRY_SECS_def)
qed

theorem sliding_refresh_witness:
  "validate_refresh_token_full sample_jwt (auth_new [] ''n'') 50001
     (snd (refresh_with_sliding sample_jwt (auth_new [] ''n'') 50000 50000 ''j'' ''new'' ''R'' empty_conn)) ''R''
   = Inl (Unauthorized ''refresh token revoked'')"
proof -
  let ?s = "auth_new [] ''n''"
  have h: "healthy empty_conn" by (simp add: healthy_def empty_conn_def)
  have r: "generate_refresh_token_for_device sample_jwt ?s 0 ''old'' ''u'' [] = Inr ''R''" by code_simp
  have "fst (refresh_with_sliding sample_jwt ?s 50000 50000 ''j'' ''new'' ''R'' empty_conn) = Inr (''B'', ''S'', True)"
    by code_simp
  then have "refresh_with_sliding sample_jwt ?s 50000 50000 ''j'' ''new'' ''R'' empty_conn = (Inr (''B'', ''S'', True),
      snd (refresh_with_sliding sample_jwt ?s 50000 50000 ''j'' ''new'' ''R'' empty_conn))"
    by (metis prod.collapse)
  from sliding_refresh [OF sample_jwt_ok h r _ _ _ _ _ this]
  show ?thesis by (simp add: in_i64_def REFRESH_TOKEN_EXPIRY_SECS_def empty_conn_def)
qed

end
