(* ===== verification/Outbound.thy ===== *)
theory Outbound
  imports Api_Base Text
begin

section \<open>The guard of outbound requests\<close>

text \<open>
  \<open>api/outbound.rs\<close>: the small URL parser, the address classes of \<open>std::net\<close> the guard asks for, and the
  guard. Name resolution is the environment: \<open>dns\<close> maps \<open>host:port\<close> to an error or to the addresses. An
  IPv4 address is its four octets, an IPv6 address its eight segments.
\<close>

subsection \<open>Addresses\<close>

datatype ip_addr =
    V4 u8 u8 u8 u8
  | V6 u16 u16 u16 u16 u16 u16 u16 u16

fun is_loopback4 :: "u8 \<times> u8 \<times> u8 \<times> u8 \<Rightarrow> bool" where
  "is_loopback4 (a, b, c, d) = (a = 127)"

fun is_link_local4 :: "u8 \<times> u8 \<times> u8 \<times> u8 \<Rightarrow> bool" where
  "is_link_local4 (a, b, c, d) = (a = 169 \<and> b = 254)"

fun is_private4 :: "u8 \<times> u8 \<times> u8 \<times> u8 \<Rightarrow> bool" where
  "is_private4 (a, b, c, d) = (a = 10 \<or> a = 172 \<and> 16 \<le> b \<and> b \<le> 31 \<or> a = 192 \<and> b = 168)"

fun is_broadcast4 :: "u8 \<times> u8 \<times> u8 \<times> u8 \<Rightarrow> bool" where
  "is_broadcast4 (a, b, c, d) = (a = 255 \<and> b = 255 \<and> c = 255 \<and> d = 255)"

fun is_multicast4 :: "u8 \<times> u8 \<times> u8 \<times> u8 \<Rightarrow> bool" where
  "is_multicast4 (a, b, c, d) = (224 \<le> a \<and> a \<le> 239)"

fun is_unspecified4 :: "u8 \<times> u8 \<times> u8 \<times> u8 \<Rightarrow> bool" where
  "is_unspecified4 (a, b, c, d) = (a = 0 \<and> b = 0 \<and> c = 0 \<and> d = 0)"

fun is_documentation4 :: "u8 \<times> u8 \<times> u8 \<times> u8 \<Rightarrow> bool" where
  "is_documentation4 (a, b, c, d) =
     (a = 192 \<and> b = 0 \<and> c = 2 \<or> a = 198 \<and> b = 51 \<and> c = 100 \<or> a = 203 \<and> b = 0 \<and> c = 113)"

definition is_public_ipv4 :: "u8 \<times> u8 \<times> u8 \<times> u8 \<Rightarrow> bool" where
  "is_public_ipv4 v4 =
     (if is_loopback4 v4 \<or> is_link_local4 v4 \<or> is_private4 v4 \<or> is_broadcast4 v4 \<or> is_multicast4 v4
         \<or> is_unspecified4 v4 \<or> is_documentation4 v4 then False
      else (case v4 of (a, b, c, d) \<Rightarrow> \<not> (a = 100 \<and> 64 \<le> b \<and> b \<le> 127)))"

definition high_byte :: "u16 \<Rightarrow> u8" where "high_byte s = ucast (drop_bit 8 s)"
definition low_byte :: "u16 \<Rightarrow> u8" where "low_byte s = ucast s"

fun to_ipv4_mapped :: "u16 list \<Rightarrow> (u8 \<times> u8 \<times> u8 \<times> u8) option" where
  "to_ipv4_mapped [s0, s1, s2, s3, s4, s5, s6, s7] =
     (if s0 = 0 \<and> s1 = 0 \<and> s2 = 0 \<and> s3 = 0 \<and> s4 = 0 \<and> s5 = 0xffff
      then Some (high_byte s6, low_byte s6, high_byte s7, low_byte s7) else None)"
| "to_ipv4_mapped _ = None"

definition is_public_ipv6 :: "u16 list \<Rightarrow> bool" where
  "is_public_ipv6 seg =
     (if seg = [0, 0, 0, 0, 0, 0, 0, 1] \<or> seg ! 0 AND 0xff00 = 0xff00 \<or> seg = replicate 8 0 then False
      else (case to_ipv4_mapped seg of
          Some v4 \<Rightarrow> is_public_ipv4 v4
        | None \<Rightarrow> \<not> (seg ! 0 AND 0xffc0 = 0xfe80 \<or> seg ! 0 AND 0xfe00 = 0xfc00
            \<or> seg ! 0 = 0x2001 \<and> seg ! 1 = 0x0db8)))"

fun is_public_ip :: "ip_addr \<Rightarrow> bool" where
  "is_public_ip (V4 a b c d) = is_public_ipv4 (a, b, c, d)"
| "is_public_ip (V6 s0 s1 s2 s3 s4 s5 s6 s7) = is_public_ipv6 [s0, s1, s2, s3, s4, s5, s6, s7]"

subsection \<open>URLs\<close>

text \<open>\<open>split_once\<close>, \<open>rsplit_once\<close> and \<open>rsplit(..).next()\<close>.\<close>

fun split_once :: "string \<Rightarrow> string \<Rightarrow> (string \<times> string) option" where
  "split_once pat [] = (if pat = [] then Some ([], []) else None)"
| "split_once pat (x # s) = (if starts_with pat (x # s) then Some ([], drop (length pat) (x # s))
     else map_option (\<lambda>(a, b). (x # a, b)) (split_once pat s))"

fun rsplit_once :: "char \<Rightarrow> string \<Rightarrow> (string \<times> string) option" where
  "rsplit_once ch [] = None"
| "rsplit_once ch (x # s) = (case rsplit_once ch s of
     Some (a, b) \<Rightarrow> Some (x # a, b)
   | None \<Rightarrow> if x = ch then Some ([], s) else None)"

definition after_last :: "char \<Rightarrow> string \<Rightarrow> string" where
  "after_last ch s = (case rsplit_once ch s of None \<Rightarrow> s | Some (a, b) \<Rightarrow> b)"

text \<open>\<open>u16::from_str\<close>: an optional plus sign and decimal digits, at most 65535.\<close>

definition digit_value :: "char \<Rightarrow> nat option" where
  "digit_value ch = (if 48 \<le> char_byte ch \<and> char_byte ch \<le> 57 then Some (nat (char_byte ch - 48)) else None)"

fun digits_value :: "nat \<Rightarrow> string \<Rightarrow> nat option" where
  "digits_value acc [] = Some acc"
| "digits_value acc (x # s) = (case digit_value x of
     None \<Rightarrow> None
   | Some v \<Rightarrow> if acc * 10 + v \<le> 65535 then digits_value (acc * 10 + v) s else None)"

definition parse_u16 :: "string \<Rightarrow> u16 option" where
  "parse_u16 s = (let ds = (case s of [] \<Rightarrow> [] | x # t \<Rightarrow> if x = CHR ''+'' then t else s)
     in if ds = [] then None else map_option of_nat (digits_value 0 ds))"

record url =
  url_scheme :: string
  url_host :: string
  url_port :: "u16 option"

definition port_or_default :: "url \<Rightarrow> u16" where
  "port_or_default u = (case url_port u of Some p \<Rightarrow> p
     | None \<Rightarrow> if url_scheme u = ''https'' then 443 else if url_scheme u = ''http'' then 80 else 0)"

definition parse_host_port :: "string \<Rightarrow> (string \<times> u16 option) option" where
  "parse_host_port host_and_port =
     (case strip_prefix ''['' host_and_port of
        Some rest \<Rightarrow> Option.bind (split_once '']'' rest) (\<lambda>(host, remainder).
          case strip_prefix '':'' remainder of
            Some p \<Rightarrow> Option.bind (parse_u16 p) (\<lambda>n. Some (host, Some n))
          | None \<Rightarrow> Some (host, None))
      | None \<Rightarrow> (case rsplit_once CHR '':'' host_and_port of
            Some (host, port) \<Rightarrow> Option.bind (parse_u16 port) (\<lambda>n. Some (host, Some n))
          | None \<Rightarrow> Some (host_and_port, None)))"

definition parse_url :: "string \<Rightarrow> url option" where
  "parse_url raw = Option.bind (split_once ''://'' raw) (\<lambda>(scheme, rest).
     let authority = takeWhile (\<lambda>ch. ch \<notin> {CHR ''/'', CHR ''?'', CHR ''#''}) rest;
         host_and_port = after_last CHR ''@'' authority
     in if host_and_port = [] then None
        else Option.bind (parse_host_port host_and_port) (\<lambda>(host, port).
          if host = [] then None
          else Some \<lparr>url_scheme = ascii_lower scheme, url_host = host, url_port = port\<rparr>))"

text \<open>\<open>format!\<close> of a number.\<close>

fun show_nat :: "nat \<Rightarrow> string" where
  "show_nat n = (if n < 10 then [char_of (48 + n)] else show_nat (n div 10) @ [char_of (48 + n mod 10)])"

declare show_nat.simps [simp del]

definition host_port :: "url \<Rightarrow> string" where
  "host_port u = url_host u @ '':'' @ show_nat (unat (port_or_default u))"

subsection \<open>The guard\<close>

record safe_outbound =
  so_url :: string
  so_host :: string
  so_addr :: ip_addr
  so_port :: u16

text \<open>\<open>show_ip\<close> prints an address in an error text.\<close>

fun check_addresses :: "(ip_addr \<Rightarrow> string) \<Rightarrow> (ip_addr \<times> u16) option \<Rightarrow> (ip_addr \<times> u16) list
    \<Rightarrow> app_error + (ip_addr \<times> u16) option" where
  "check_addresses show_ip pinned [] = Inr pinned"
| "check_addresses show_ip pinned ((ip, port) # addrs) =
     (if \<not> is_public_ip ip
      then Inl (BadRequest (''refusing outbound to non-public address: '' @ show_ip ip))
      else check_addresses show_ip (case pinned of None \<Rightarrow> Some (ip, port) | Some p \<Rightarrow> Some p) addrs)"

definition safe_outbound_url ::
  "(string \<Rightarrow> string + (ip_addr \<times> u16) list) \<Rightarrow> (ip_addr \<Rightarrow> string) \<Rightarrow> string \<Rightarrow> app_error + safe_outbound" where
  "safe_outbound_url dns show_ip raw_url =
     bindE (ok_or (parse_url raw_url) (BadRequest ''invalid url'')) (\<lambda>url.
     if url_scheme url \<noteq> ''https'' then Inl (BadRequest (''refusing non-https scheme: '' @ url_scheme url))
     else if url_host url = [] then Inl (BadRequest ''url missing host'')
     else bindE (map_err (\<lambda>e. BadRequest (''dns lookup failed: '' @ e)) (dns (host_port url)))
       (\<lambda>addrs. bindE (check_addresses show_ip None addrs)
       (\<lambda>pinned. bindE (ok_or pinned (BadRequest ''dns returned no addresses''))
       (\<lambda>(ip, port). Inr \<lparr>so_url = raw_url, so_host = url_host url, so_addr = ip, so_port = port\<rparr>))))"

subsection \<open>What the guard promises\<close>

lemma check_addresses_Inr:
  "check_addresses f p addrs = Inr q \<longleftrightarrow> (\<forall>a \<in> set addrs. is_public_ip (fst a))
     \<and> q = (case p of Some x \<Rightarrow> Some x | None \<Rightarrow> first_row addrs)"
  by (induction f p addrs rule: check_addresses.induct) (auto split: option.splits)

text \<open>An octet quadruple as a 32-bit number, and the blocks the guard refuses as ranges of it.\<close>

definition ipv4_value :: "u8 \<times> u8 \<times> u8 \<times> u8 \<Rightarrow> nat" where
  "ipv4_value v = (case v of (a, b, c, d) \<Rightarrow> ((unat a * 256 + unat b) * 256 + unat c) * 256 + unat d)"

definition refused_blocks :: "(nat \<times> nat) list" where
  "refused_blocks = [(0x00000000, 0x00000000), (0x0A000000, 0x0AFFFFFF), (0x64400000, 0x647FFFFF),
     (0x7F000000, 0x7FFFFFFF), (0xA9FE0000, 0xA9FEFFFF), (0xAC100000, 0xAC1FFFFF), (0xC0000200, 0xC00002FF),
     (0xC0A80000, 0xC0A8FFFF), (0xC6336400, 0xC63364FF), (0xCB007100, 0xCB0071FF), (0xE0000000, 0xEFFFFFFF),
     (0xFFFFFFFF, 0xFFFFFFFF)]"

lemma octet_range: "unat (b :: u8) < 256"
  using unsigned_less [of b] by simp

lemma octet_eq: "(b :: u8) = numeral n \<longleftrightarrow> unat b = unat (numeral n :: u8)"
  by (simp add: word_unat_eq_iff)

lemma octet_zero: "(b :: u8) = 0 \<longleftrightarrow> unat b = 0"
  by (simp add: unat_eq_0)

text \<open>A block whose bounds are multiples of \<open>m\<close> is a range of the quotient by \<open>m\<close>.\<close>

lemma block_div:
  fixes m :: nat
  assumes "0 < m"
  shows "x * m \<le> v \<and> v \<le> y * m + (m - 1) \<longleftrightarrow> x \<le> v div m \<and> v div m \<le> y"
proof -
  have "v \<le> y * m + (m - 1) \<longleftrightarrow> v < (y + 1) * m" using assms by auto
  also have "\<dots> \<longleftrightarrow> v div m < y + 1" using assms by (simp add: div_less_iff_less_mult)
  finally show ?thesis using assms by (auto simp: less_eq_div_iff_mult_less_eq)
qed

lemma block_quotients:
  assumes "b < 256" and "c < 256" and "d < (256 :: nat)" and "v = ((a * 256 + b) * 256 + c) * 256 + d"
  shows "v div 16777216 = a" "v div 65536 = a * 256 + b" "v div 256 = (a * 256 + b) * 256 + c"
  using assms by simp_all

lemma base_range:
  fixes a b :: nat
  assumes "b < 256" and "z < 256"
  shows "x * 256 + y \<le> a * 256 + b \<and> a * 256 + b \<le> x * 256 + z \<longleftrightarrow> a = x \<and> y \<le> b \<and> b \<le> z"
proof (cases a x rule: linorder_cases)
  case less
  then have "a * 256 + b < x * 256" using assms by linarith
  with less show ?thesis by linarith
next
  case greater
  then have "x * 256 + z < a * 256" using assms by linarith
  with greater show ?thesis by linarith
qed simp

lemma base_digits:
  fixes a b :: nat
  assumes "b < 256" and "y < 256"
  shows "x * 256 + y \<le> a * 256 + b \<and> a * 256 + b \<le> x * 256 + y \<longleftrightarrow> a = x \<and> b = y"
  using base_range [OF assms, of x y a] by auto

lemma base_eq:
  fixes a b :: nat
  assumes "b < 256" and "y < 256"
  shows "a * 256 + b = x * 256 + y \<longleftrightarrow> a = x \<and> b = y"
  using base_digits [OF assms, of x a] by auto

lemma refused_block_octets:
  fixes a b c d :: nat
  assumes "a < 256" and "b < 256" and "c < 256" and "d < 256"
    and v: "v = ((a * 256 + b) * 256 + c) * 256 + d"
  shows "(\<exists>(lo, hi) \<in> set refused_blocks. lo \<le> v \<and> v \<le> hi) \<longleftrightarrow>
    a = 0 \<and> b = 0 \<and> c = 0 \<and> d = 0 \<or> a = 10 \<or> a = 100 \<and> 64 \<le> b \<and> b \<le> 127 \<or> a = 127 \<or> a = 169 \<and> b = 254
    \<or> a = 172 \<and> 16 \<le> b \<and> b \<le> 31 \<or> a = 192 \<and> b = 0 \<and> c = 2 \<or> a = 192 \<and> b = 168
    \<or> a = 198 \<and> b = 51 \<and> c = 100 \<or> a = 203 \<and> b = 0 \<and> c = 113 \<or> 224 \<le> a \<and> a \<le> 239
    \<or> a = 255 \<and> b = 255 \<and> c = 255 \<and> d = 255"
proof -
  note q = block_quotients [OF assms(2-4) v]
  note r = assms(1-4)
  have "v \<le> 0 \<longleftrightarrow> a = 0 \<and> b = 0 \<and> c = 0 \<and> d = 0" using v by simp
  moreover have "0xFFFFFFFF \<le> v \<and> v \<le> 0xFFFFFFFF \<longleftrightarrow> a = 255 \<and> b = 255 \<and> c = 255 \<and> d = 255"
    using base_digits [OF r(4), of 255 16777215 "(a * 256 + b) * 256 + c"] base_eq [OF r(3), of 255 "a * 256 + b" 65535]
      base_eq [OF r(2), of 255 a 255] v by simp
  moreover have "a = 10 \<longleftrightarrow> 10 \<le> a \<and> a \<le> 10" "a = 127 \<longleftrightarrow> 127 \<le> a \<and> a \<le> 127" by linarith+
  moreover have "0x0A000000 \<le> v \<and> v \<le> 0x0AFFFFFF \<longleftrightarrow> 10 \<le> a \<and> a \<le> 10"
    using block_div [of 16777216 10 v 10] q(1) by simp
  moreover have "0x7F000000 \<le> v \<and> v \<le> 0x7FFFFFFF \<longleftrightarrow> 127 \<le> a \<and> a \<le> 127"
    using block_div [of 16777216 127 v 127] q(1) by simp
  moreover have "0xE0000000 \<le> v \<and> v \<le> 0xEFFFFFFF \<longleftrightarrow> 224 \<le> a \<and> a \<le> 239"
    using block_div [of 16777216 224 v 239] q(1) by simp
  moreover have "0x64400000 \<le> v \<and> v \<le> 0x647FFFFF \<longleftrightarrow> a = 100 \<and> 64 \<le> b \<and> b \<le> 127"
    using block_div [of 65536 25664 v 25727] base_range [OF r(2), of 127 100 64 a] q(2) by simp
  moreover have "0xAC100000 \<le> v \<and> v \<le> 0xAC1FFFFF \<longleftrightarrow> a = 172 \<and> 16 \<le> b \<and> b \<le> 31"
    using block_div [of 65536 44048 v 44063] base_range [OF r(2), of 31 172 16 a] q(2) by simp
  moreover have "0xA9FE0000 \<le> v \<and> v \<le> 0xA9FEFFFF \<longleftrightarrow> a = 169 \<and> b = 254"
    using block_div [of 65536 43518 v 43518] base_digits [OF r(2), of 254 169 a] q(2) by simp
  moreover have "0xC0A80000 \<le> v \<and> v \<le> 0xC0A8FFFF \<longleftrightarrow> a = 192 \<and> b = 168"
    using block_div [of 65536 49320 v 49320] base_digits [OF r(2), of 168 192 a] q(2) by simp
  moreover have "0xC0000200 \<le> v \<and> v \<le> 0xC00002FF \<longleftrightarrow> a = 192 \<and> b = 0 \<and> c = 2"
    using block_div [of 256 12582914 v 12582914] base_digits [OF r(3), of 2 49152 "a * 256 + b"]
      base_eq [OF r(2), of 0 a 192] q(3) by simp
  moreover have "0xC6336400 \<le> v \<and> v \<le> 0xC63364FF \<longleftrightarrow> a = 198 \<and> b = 51 \<and> c = 100"
    using block_div [of 256 12989284 v 12989284] base_digits [OF r(3), of 100 50739 "a * 256 + b"]
      base_eq [OF r(2), of 51 a 198] q(3) by simp
  moreover have "0xCB007100 \<le> v \<and> v \<le> 0xCB0071FF \<longleftrightarrow> a = 203 \<and> b = 0 \<and> c = 113"
    using block_div [of 256 13303921 v 13303921] base_digits [OF r(3), of 113 51968 "a * 256 + b"]
      base_eq [OF r(2), of 0 a 203] q(3) by simp
  ultimately show ?thesis unfolding refused_blocks_def by simp
qed

lemma ipv4_refused_blocks:
  "is_public_ipv4 v \<longleftrightarrow> \<not> (\<exists>(lo, hi) \<in> set refused_blocks. lo \<le> ipv4_value v \<and> ipv4_value v \<le> hi)"
proof -
  obtain a b c d where v: "v = (a, b, c, d)" by (cases v) auto
  have "ipv4_value v = ((unat a * 256 + unat b) * 256 + unat c) * 256 + unat d" by (simp add: v ipv4_value_def)
  from refused_block_octets [OF octet_range octet_range octet_range octet_range this]
  show ?thesis
    by (simp add: v is_public_ipv4_def octet_eq octet_zero word_le_nat_alt)
qed

text \<open>The IPv4 address a connection reaches, for the two forms the guard knows.\<close>

fun ipv4_of :: "ip_addr \<Rightarrow> (u8 \<times> u8 \<times> u8 \<times> u8) option" where
  "ipv4_of (V4 a b c d) = Some (a, b, c, d)"
| "ipv4_of (V6 s0 s1 s2 s3 s4 s5 s6 s7) = to_ipv4_mapped [s0, s1, s2, s3, s4, s5, s6, s7]"

lemma public_ipv4_of: "is_public_ip ip \<Longrightarrow> ipv4_of ip = Some v \<Longrightarrow> is_public_ipv4 v"
  by (cases ip) (auto simp: is_public_ipv6_def split: if_splits)

text \<open>C37. A URL that passes the guard is an \<open>https\<close> one, every address its host resolves to is public, the address
  the caller must connect to is the first of them, and no IPv4 address among them, plain or mapped into IPv6,
  lies in a refused block.\<close>

theorem outbound_guard:
  assumes "safe_outbound_url dns show_ip raw = Inr so"
  shows "\<exists>u addrs. parse_url raw = Some u \<and> url_scheme u = ''https'' \<and> so_host so = url_host u
    \<and> dns (host_port u) = Inr addrs \<and> first_row addrs = Some (so_addr so, so_port so)
    \<and> (\<forall>(ip, p) \<in> set addrs. is_public_ip ip \<and> (\<forall>v. ipv4_of ip = Some v \<longrightarrow>
         (\<forall>(lo, hi) \<in> set refused_blocks. \<not> (lo \<le> ipv4_value v \<and> ipv4_value v \<le> hi))))"
proof -
  obtain u where u: "parse_url raw = Some u"
    using assms by (cases "parse_url raw") (simp_all add: safe_outbound_url_def)
  have "url_scheme u = ''https''" "url_host u \<noteq> []"
    using assms u by (auto simp: safe_outbound_url_def split: if_splits)
  moreover obtain addrs where dns: "dns (host_port u) = Inr addrs"
    using assms u calculation by (cases "dns (host_port u)") (simp_all add: safe_outbound_url_def)
  moreover obtain pinned where chk: "check_addresses show_ip None addrs = Inr pinned"
    using assms u calculation by (cases "check_addresses show_ip None addrs") (simp_all add: safe_outbound_url_def)
  moreover have "pinned = Some (so_addr so, so_port so) \<and> so_host so = url_host u"
    using assms u calculation by (cases pinned) (auto simp: safe_outbound_url_def)
  ultimately show ?thesis
    using u check_addresses_Inr [of show_ip None addrs] public_ipv4_of ipv4_refused_blocks by fastforce
qed

theorem outbound_guard_witness:
  "is_public_ip (so_addr \<lparr>so_url = ''https://giphy.com/x'', so_host = ''giphy.com'', so_addr = V4 151 101 2 2, so_port = 443\<rparr>)"
proof -
  have "parse_url ''https://giphy.com/x'' = Some \<lparr>url_scheme = ''https'', url_host = ''giphy.com'', url_port = None\<rparr>"
    by code_simp
  moreover have "is_public_ip (V4 151 101 2 2)" by code_simp
  ultimately have "safe_outbound_url (\<lambda>_. Inr [(V4 151 101 2 2, 443)]) (\<lambda>_. []) ''https://giphy.com/x''
    = Inr \<lparr>so_url = ''https://giphy.com/x'', so_host = ''giphy.com'', so_addr = V4 151 101 2 2, so_port = 443\<rparr>"
    by (simp add: safe_outbound_url_def)
  from outbound_guard [OF this] show ?thesis by auto
qed

text \<open>Addresses that are not routable or reach a private host through a translator, and pass: the metadata
  address behind NAT64 and 6to4, "this network" and the reserved block.\<close>

lemma translated_addresses_pass:
  "is_public_ip (V6 0x64 0xff9b 0 0 0 0 0xa9fe 0xa9fe)" "is_public_ip (V6 0x2002 0xa9fe 0xa9fe 0 0 0 0 0)"
  "is_public_ip (V4 0 1 2 3)" "is_public_ip (V4 240 0 0 1)"
  by code_simp+

end
