(* ===== verification/Messages_Api.thy ===== *)
theory Messages_Api
  imports Ws_Requests Api_Base
begin

section \<open>The HTTP API of channel messages\<close>

text \<open>
  \<open>api/messages.rs\<close>. A handler that broadcasts returns the frames it queues beside its result and the
  database; a frame whose encoding fails is not modelled (\<open>to_vec\<close> of a JSON value does not fail).
\<close>

type_synonym 'a sending = "conn \<Rightarrow> (app_error + 'a) \<times> conn \<times> hub_msg list"

definition and_send :: "'a handler \<Rightarrow> ('a \<Rightarrow> hub_msg list) \<Rightarrow> 'a sending" where
  "and_send h frames c = (case h c of (Inl e, c') \<Rightarrow> (Inl e, c', []) | (Inr x, c') \<Rightarrow> (Inr x, c', frames x))"

lemma and_send_sel:
  "fst (and_send h frames c) = fst (h c)" "fst (snd (and_send h frames c)) = snd (h c)"
  "snd (snd (and_send h frames c)) = (case fst (h c) of Inl _ \<Rightarrow> [] | Inr x \<Rightarrow> frames x)"
  by (simp_all add: and_send_def split: prod.split sum.split)

subsection \<open>Requests\<close>

definition MAX_PAGE_LIMIT :: int where "MAX_PAGE_LIMIT = 200"

definition clamp :: "int \<Rightarrow> int \<Rightarrow> int \<Rightarrow> int" where
  "clamp lo hi n = max lo (min hi n)"

record list_messages_query =
  lmq_before :: string
  lmq_limit :: int

record create_message_request =
  cmq_content :: string
  cmq_type :: string

text \<open>The gate the handlers share: \<open>if !user_can_access_channel(..)? { return Err(..) }\<close>.\<close>

definition channel_gate :: "string \<Rightarrow> string \<Rightarrow> string \<Rightarrow> unit db_op" where
  "channel_gate uid tid cid = bindS (readS (\<lambda>c. user_can_access_channel c uid tid cid))
     (\<lambda>ok. refuse_if (\<not> ok) (InvalidParameterName ''channel access denied''))"

subsection \<open>Handlers\<close>

definition api_message_json :: "conn \<Rightarrow> string \<Rightarrow> message \<Rightarrow> json" where
  "api_message_json c tid msg = JObj (message_json msg
     @ [(''attachments'', JArr (map (attachment_json tid) (unwrap_or (get_message_attachments c (msg_id msg)) [])))])"

definition messages_list :: "string \<Rightarrow> string \<Rightarrow> string \<Rightarrow> list_messages_query \<Rightarrow> json list handler" where
  "messages_list uid tid cid q = spawn_db
     (bindS (readS (\<lambda>c. require_team_member c uid tid)) (\<lambda>_.
      bindS (channel_gate uid tid cid) (\<lambda>_.
      bindS (readS (\<lambda>c. get_messages_by_channel c cid (lmq_before q) (clamp 1 MAX_PAGE_LIMIT (lmq_limit q)))) (\<lambda>messages.
      readS (\<lambda>c. Inr (map (api_message_json c tid) messages))))))"

definition fresh_rest_message :: "string \<Rightarrow> string \<Rightarrow> string \<Rightarrow> string \<Rightarrow> create_message_request \<Rightarrow> message" where
  "fresh_rest_message new_id now uid cid body = \<lparr>msg_id = new_id, msg_channel_id = cid, msg_dm_channel_id = [],
     msg_author_id = uid, msg_content = cmq_content body, msg_type = cmq_type body, msg_thread_id = [],
     msg_reply_to = None, msg_edited_at = None, msg_deleted = False, msg_lamport_ts = 0, msg_created_at = now\<rparr>"

definition create_message_body ::
  "string \<Rightarrow> string \<Rightarrow> string \<Rightarrow> string \<Rightarrow> string \<Rightarrow> create_message_request \<Rightarrow> message db_op" where
  "create_message_body new_id now uid tid cid body =
     bindS (readS (\<lambda>c. require_team_member c uid tid)) (\<lambda>_.
     bindS (readS (\<lambda>c. get_channel_by_id c cid)) (\<lambda>channel.
     bindS (refuse_if (case channel of Some ch \<Rightarrow> ch_team_id ch \<noteq> tid | None \<Rightarrow> True) QueryReturnedNoRows) (\<lambda>_.
     bindS (channel_gate uid tid cid) (\<lambda>_.
     let msg = fresh_rest_message new_id now uid cid body
     in bindS (create_message msg) (\<lambda>_. returnS msg)))))"

definition messages_create ::
  "string \<Rightarrow> string \<Rightarrow> string \<Rightarrow> string \<Rightarrow> string \<Rightarrow> create_message_request \<Rightarrow> message sending" where
  "messages_create new_id now uid tid cid body c =
     (if cmq_content body = [] then (Inl (BadRequest ''content is required''), c, [])
      else and_send (map_errH (map_not_found ''channel'')
          (spawn_db (create_message_body new_id now uid tid cid body)))
        (\<lambda>msg. [ChannelMsg (msg_channel_id msg) (event_new ''message:new'' (JObj (message_json msg))) None]) c)"

definition edit_message_body ::
  "string \<Rightarrow> string \<Rightarrow> string \<Rightarrow> string \<Rightarrow> string \<Rightarrow> string \<Rightarrow> string \<Rightarrow> message db_op" where
  "edit_message_body audit_id now uid tid cid mid content =
     bindS (readS (\<lambda>c. require_team_member c uid tid)) (\<lambda>_.
     bindS (channel_gate uid tid cid) (\<lambda>_.
     bindS (readS (\<lambda>c. get_message_by_id c mid)) (\<lambda>mo.
     bindS (some_or QueryReturnedNoRows mo) (\<lambda>msg.
     bindS (refuse_if (msg_author_id msg \<noteq> uid) (InvalidParameterName ''can only edit your own messages'')) (\<lambda>_.
     bindS (refuse_if (msg_deleted msg) (InvalidParameterName ''cannot edit a deleted message'')) (\<lambda>_.
     bindS (update_message_content now mid content) (\<lambda>_.
     bindS (readS (\<lambda>c. get_message_by_id c mid)) (\<lambda>uo.
     bindS (some_or QueryReturnedNoRows uo) (\<lambda>updated.
     bindS (if msg_content msg = content then returnS ()
       else ignoreS (insert_audit_event audit_id now tid (Some uid) ''message.edit'' (Some ''message'') (Some mid)
         (Some (JObj [(''channel_id'', JStr cid),
           (''edited_at'', (case msg_edited_at updated of None \<Rightarrow> JNull | Some s \<Rightarrow> JStr s))])))) (\<lambda>_.
     returnS updated))))))))))"

definition messages_edit ::
  "string \<Rightarrow> string \<Rightarrow> string \<Rightarrow> string \<Rightarrow> string \<Rightarrow> string \<Rightarrow> string \<Rightarrow> message sending" where
  "messages_edit audit_id now uid tid cid mid content c =
     (if content = [] then (Inl (BadRequest ''content is required''), c, [])
      else and_send (map_errH (map_not_found ''message'')
          (spawn_db (edit_message_body audit_id now uid tid cid mid content)))
        (\<lambda>msg. [ChannelMsg (msg_channel_id msg) (event_new ''message:updated'' (JObj (message_json msg))) None]) c)"

definition delete_message_body ::
  "string \<Rightarrow> string \<Rightarrow> string \<Rightarrow> string \<Rightarrow> string \<Rightarrow> string \<Rightarrow> unit db_op" where
  "delete_message_body audit_id now uid tid cid mid =
     bindS (readS (\<lambda>c. require_team_member c uid tid)) (\<lambda>_.
     bindS (channel_gate uid tid cid) (\<lambda>_.
     bindS (readS (\<lambda>c. get_message_by_id c mid)) (\<lambda>mo.
     bindS (some_or QueryReturnedNoRows mo) (\<lambda>msg.
     bindS (refuse_if (msg_deleted msg) (InvalidParameterName ''message already deleted'')) (\<lambda>_.
     bindS (if msg_author_id msg \<noteq> uid
       then bindS (readS (\<lambda>c. user_has_permission c uid tid PERM_MANAGE_MESSAGES))
         (\<lambda>ok. refuse_if (\<not> ok) (InvalidParameterName ''insufficient permissions''))
       else returnS ()) (\<lambda>_.
     bindS (soft_delete_message mid) (\<lambda>_.
     bindS (ignoreS (insert_audit_event audit_id now tid (Some uid) ''message.delete'' (Some ''message'') (Some mid)
       (Some (JObj [(''channel_id'', JStr cid), (''deleted_at'', JStr now)])))) (\<lambda>_.
     returnS ()))))))))"

definition messages_delete ::
  "string \<Rightarrow> string \<Rightarrow> string \<Rightarrow> string \<Rightarrow> string \<Rightarrow> string \<Rightarrow> unit sending" where
  "messages_delete audit_id now uid tid cid mid = and_send (map_errH (map_not_found ''message'')
       (spawn_db (delete_message_body audit_id now uid tid cid mid)))
     (\<lambda>_. [ChannelMsg cid (event_new ''message:deleted''
        (JObj [(''message_id'', JStr mid), (''channel_id'', JStr cid)])) None])"

subsection \<open>What a refusal costs, and who gets through\<close>

lemma channel_gate_state [simp]: "snd (channel_gate uid tid cid c) = c"
  by (simp add: channel_gate_def refuse_if_def split: sum.split)

lemma channel_gate_Inr:
  "fst (channel_gate uid tid cid c) = Inr u \<longleftrightarrow> user_can_access_channel c uid tid cid = Inr True"
  by (auto simp: channel_gate_def refuse_if_def split: sum.split)

text \<open>An operation that starts with the two guards either is refused and changes nothing, or both hold.\<close>

lemma guarded_cases:
  assumes "op = bindS (readS (\<lambda>c. require_team_member c uid tid)) (\<lambda>_. bindS (channel_gate uid tid cid) f)"
  shows "refuses c (spawn_db op c)
    \<or> is_member c uid tid \<and> user_can_access_channel c uid tid cid = Inr True \<and> op c = f () c"
proof (cases "is_member c uid tid \<and> user_can_access_channel c uid tid cid = Inr True")
  case True
  then have "channel_gate uid tid cid c = (Inr (), c)" by (simp add: channel_gate_def)
  then show ?thesis
    using True assms
    by (cases "require_team_member c uid tid") (simp_all add: bindS_def refuses_def spawn_db_result)
next
  case False
  show ?thesis
  proof (cases "require_team_member c uid tid")
    case (Inr u)
    then have "is_member c uid tid" by (rule require_team_member_InrD)
    with False have no: "\<nexists>u. fst (channel_gate uid tid cid c) = Inr u" by (simp add: channel_gate_Inr)
    then obtain e where "channel_gate uid tid cid c = (Inl e, c)"
      by (cases "channel_gate uid tid cid c"; cases "fst (channel_gate uid tid cid c)")
        (use channel_gate_state [of uid tid cid c] in auto)
    with Inr assms show ?thesis by (simp add: refuses_def spawn_db_result bindS_def)
  qed (use assms in \<open>simp add: refuses_def spawn_db_result\<close>)
qed

lemma bindS_guards:
  "bindS (refuse_if b e) f c = (if b then (Inl e, c) else f () c)"
  "bindS (some_or e o1) g c = (case o1 of None \<Rightarrow> (Inl e, c) | Some x \<Rightarrow> g x c)"
  "bindS (throwS e) h c = (Inl e, c)"
  by (simp_all add: refuse_if_def some_or_def bindS_def split: option.split)

lemma get_message_lookup:
  "healthy c \<Longrightarrow> get_message_by_id c mid = Inr (lookup_by msg_id mid (c_messages c))"
  by (simp add: get_message_by_id_def lookup_by_def)

lemma guarded_effect:
  assumes "op = bindS (readS (\<lambda>c. require_team_member c uid tid)) (\<lambda>_. bindS (channel_gate uid tid cid) f)"
    and "healthy c" and "snd (spawn_db op c) \<noteq> c"
  shows "is_member c uid tid \<and> may_access c uid tid cid \<and> snd (f () c) \<noteq> c"
  using guarded_cases [OF assms(1), of c] assms(2,3) by (auto simp: refuses_def access_decides)

lemma create_effect:
  assumes "healthy c" and "snd (spawn_db (create_message_body i now uid tid cid body) c) \<noteq> c"
  shows "is_member c uid tid \<and> may_access c uid tid cid
    \<and> (\<exists>ch \<in> set (c_channels c). ch_id ch = cid \<and> ch_team_id ch = tid)"
proof (cases "require_team_member c uid tid")
  case (Inr u)
  then have member: "is_member c uid tid" by (rule require_team_member_InrD)
  obtain ch where ch: "lookup_by ch_id cid (c_channels c) = Some ch" "ch_team_id ch = tid"
    using assms Inr
    by (cases "lookup_by ch_id cid (c_channels c)")
      (auto simp: create_message_body_def get_channel_by_id_def bindS_guards lookup_by_def split: if_splits)
  have "may_access c uid tid cid"
  proof (rule ccontr)
    assume "\<not> may_access c uid tid cid"
    then have "bindS (channel_gate uid tid cid) f c = (Inl (InvalidParameterName ''channel access denied''), c)"
      for f :: "unit \<Rightarrow> message db_op"
      using assms(1) by (simp add: channel_gate_def access_decides bindS_def)
    with assms Inr ch show False
      by (simp add: create_message_body_def get_channel_by_id_def bindS_guards lookup_by_def [symmetric])
  qed
  with member lookup_by_SomeD [OF ch(1)] ch(2) show ?thesis by blast
qed (use assms in \<open>simp add: create_message_body_def\<close>)

lemma edit_effect:
  assumes "healthy c" and "snd (spawn_db (edit_message_body i now uid tid cid mid body_text) c) \<noteq> c"
  shows "is_member c uid tid \<and> may_access c uid tid cid
    \<and> (\<exists>m. lookup_by msg_id mid (c_messages c) = Some m \<and> msg_author_id m = uid \<and> \<not> msg_deleted m)"
  using guarded_effect [OF edit_message_body_def assms] assms(1)
  by (cases "lookup_by msg_id mid (c_messages c)")
    (auto simp: get_message_lookup bindS_guards simp del: spawn_db_state split: if_splits)

lemma delete_effect:
  assumes "healthy c" and "snd (spawn_db (delete_message_body i now uid tid cid mid) c) \<noteq> c"
  shows "is_member c uid tid \<and> may_access c uid tid cid \<and> (\<exists>m. lookup_by msg_id mid (c_messages c) = Some m
    \<and> \<not> msg_deleted m \<and> (msg_author_id m = uid \<or> holds_permission c uid tid PERM_MANAGE_MESSAGES))"
proof -
  from guarded_effect [OF delete_message_body_def assms] have g: "is_member c uid tid" "may_access c uid tid cid" by simp_all
  from guarded_effect [OF delete_message_body_def assms] obtain m
    where m: "lookup_by msg_id mid (c_messages c) = Some m" "\<not> msg_deleted m"
    using assms(1) by (cases "lookup_by msg_id mid (c_messages c)")
      (auto simp: get_message_lookup bindS_guards simp del: spawn_db_state split: if_splits)
  have "msg_author_id m = uid \<or> holds_permission c uid tid PERM_MANAGE_MESSAGES"
  proof (rule ccontr)
    assume "\<not> ?thesis"
    then have "user_has_permission c uid tid PERM_MANAGE_MESSAGES = Inr False" "msg_author_id m \<noteq> uid"
      by (auto simp: user_has_permission_Inr [OF assms(1)] holds_permission_def)
    then show False
      using guarded_effect [OF delete_message_body_def assms] m assms(1)
      by (simp add: get_message_lookup bindS_guards bindS_assoc)
  qed
  with g m show ?thesis by blast
qed

text \<open>Over HTTP a message is created only in a channel of the team, by a member the access policy lets in;
  edited only by its author, and not after deletion; deleted only once, by its author or by somebody who may
  manage messages. Whoever is refused changes nothing.\<close>

theorem rest_messages_guarded:
  assumes "healthy c"
  shows "(fst (snd (messages_create i now uid tid cid body c)) \<noteq> c \<longrightarrow>
      is_member c uid tid \<and> may_access c uid tid cid \<and> (\<exists>ch \<in> set (c_channels c). ch_id ch = cid \<and> ch_team_id ch = tid))
    \<and> (fst (snd (messages_edit i now uid tid cid mid body_text c)) \<noteq> c \<longrightarrow> is_member c uid tid \<and> may_access c uid tid cid
      \<and> (\<exists>m. lookup_by msg_id mid (c_messages c) = Some m \<and> msg_author_id m = uid \<and> \<not> msg_deleted m))
    \<and> (fst (snd (messages_delete i now uid tid cid mid c)) \<noteq> c \<longrightarrow> is_member c uid tid \<and> may_access c uid tid cid
      \<and> (\<exists>m. lookup_by msg_id mid (c_messages c) = Some m \<and> \<not> msg_deleted m
           \<and> (msg_author_id m = uid \<or> holds_permission c uid tid PERM_MANAGE_MESSAGES)))"
proof -
  have "fst (snd (messages_create i now uid tid cid body c)) \<noteq> c
      \<Longrightarrow> snd (spawn_db (create_message_body i now uid tid cid body) c) \<noteq> c"
    by (simp add: messages_create_def and_send_sel split: if_splits)
  moreover have "fst (snd (messages_edit i now uid tid cid mid body_text c)) \<noteq> c
      \<Longrightarrow> snd (spawn_db (edit_message_body i now uid tid cid mid body_text) c) \<noteq> c"
    by (simp add: messages_edit_def and_send_sel split: if_splits)
  moreover have "fst (snd (messages_delete i now uid tid cid mid c)) \<noteq> c
      \<Longrightarrow> snd (spawn_db (delete_message_body i now uid tid cid mid) c) \<noteq> c"
    by (simp add: messages_delete_def and_send_sel)
  ultimately show ?thesis
    using create_effect [OF assms] edit_effect [OF assms] delete_effect [OF assms] by blast
qed

lemma sample_chat_gate: "may_access sample_chat ''bob'' ''t'' ''ch''"
  by (simp add: may_access_def gating_roles_def default_role_id_def sample_chat_def sample_conn_def empty_conn_def
      owns_team_def)

theorem rest_messages_guarded_witness:
  "is_member sample_chat ''bob'' ''t'' \<and> may_access sample_chat ''bob'' ''t'' ''ch''
    \<and> (\<exists>m. lookup_by msg_id ''m'' (c_messages sample_chat) = Some m \<and> msg_author_id m = ''bob'' \<and> \<not> msg_deleted m)"
proof -
  have "c_messages (fst (snd (messages_edit ''a'' ''now'' ''bob'' ''t'' ''ch'' ''m'' ''new'' sample_chat)))
      \<noteq> c_messages sample_chat" by code_simp
  then have "fst (snd (messages_edit ''a'' ''now'' ''bob'' ''t'' ''ch'' ''m'' ''new'' sample_chat)) \<noteq> sample_chat"
    by metis
  with rest_messages_guarded [OF sample_chat_sel, where i = "''a''" and now = "''now''" and uid = "''bob''"
      and tid = "''t''" and cid = "''ch''" and mid = "''m''" and body_text = "''new''"]
  show ?thesis by blast
qed

subsection \<open>The team of the channel, the channel of the message\<close>

text \<open>The listing does not look at the team of the channel and the deletion not at the channel of the
  message: with the id of any channel without gating roles, a member of one team reads the messages of a
  channel of another team, and a moderator of one team deletes every message there is, in any team and in
  any direct conversation.\<close>

theorem rest_crosses_teams:
  assumes "healthy c" and "is_member c uid tid" and "gating_roles c cid = {}"
  shows "fst (messages_list uid tid cid q c) = Inr (map (api_message_json c tid)
      (newest (clamp 1 200 (lmq_limit q)) (rows_where (\<lambda>m. msg_channel_id m = cid \<and> cid \<noteq> [] \<and> msg_thread_id m = []
        \<and> (lmq_before q = [] \<or> msg_created_at m < lmq_before q)) (c_messages c))))
    \<and> (holds_permission c uid tid PERM_MANAGE_MESSAGES \<and> lookup_by msg_id mid (c_messages c) = Some m
        \<and> \<not> msg_deleted m \<longrightarrow>
      fst (messages_delete i now uid tid cid mid c) = Inr ()
      \<and> c_messages (fst (snd (messages_delete i now uid tid cid mid c))) = update_where (\<lambda>m. msg_id m = mid)
          (\<lambda>m. m\<lparr>msg_deleted := True, msg_content := []\<rparr>) (c_messages c))"
proof -
  have member: "require_team_member c uid tid = Inr ()"
    using assms(1,2)
    by (auto simp: require_team_member_def is_member_def get_member_iff rows_where_eq_Nil Let_def split: option.split)
  have gate: "channel_gate uid tid cid c = (Inr (), c)"
    using assms(1,3) by (simp add: channel_gate_def access_decides may_access_def)
  have gate': "bindS (channel_gate uid tid cid) f c = f () c" for f :: "unit \<Rightarrow> 'a db_op"
    using gate by (simp add: bindS_def)
  have list: "fst (messages_list uid tid cid q c) = Inr (map (api_message_json c tid)
      (newest (clamp 1 200 (lmq_limit q)) (rows_where (\<lambda>m. msg_channel_id m = cid \<and> cid \<noteq> [] \<and> msg_thread_id m = []
        \<and> (lmq_before q = [] \<or> msg_created_at m < lmq_before q)) (c_messages c))))"
    using assms(1) member gate
    by (simp add: messages_list_def spawn_db_result gate' get_messages_by_channel_def MAX_PAGE_LIMIT_def)
  have "fst (messages_delete i now uid tid cid mid c) = Inr ()
      \<and> c_messages (fst (snd (messages_delete i now uid tid cid mid c))) = update_where (\<lambda>m. msg_id m = mid)
          (\<lambda>m. m\<lparr>msg_deleted := True, msg_content := []\<rparr>) (c_messages c)"
    if "holds_permission c uid tid PERM_MANAGE_MESSAGES" and "lookup_by msg_id mid (c_messages c) = Some m"
      and "\<not> msg_deleted m"
  proof -
    have "user_has_permission c uid tid PERM_MANAGE_MESSAGES = Inr True"
      using that(1) by (simp add: user_has_permission_Inr [OF assms(1)] holds_permission_def)
    then have "delete_message_body i now uid tid cid mid c
      = bindS (soft_delete_message mid) (\<lambda>_. bindS (ignoreS (insert_audit_event i now tid (Some uid) ''message.delete''
          (Some ''message'') (Some mid) (Some (JObj [(''channel_id'', JStr cid), (''deleted_at'', JStr now)]))))
          (\<lambda>_. returnS ())) c"
      using that(2,3) assms(1) member
      by (simp add: delete_message_body_def gate' get_message_lookup bindS_guards bindS_assoc)
    then show ?thesis
      using assms(1)
      by (simp add: messages_delete_def and_send_sel map_errH_result spawn_db_result soft_delete_message_def
          exec_healthy bindS_def insert_audit_event_frame [where P = "\<lambda>c. c_messages c = X" for X])
  qed
  with list show ?thesis by blast
qed

text \<open>Bob may manage messages in team \<open>t\<close>; \<open>c2\<close> is a channel of team \<open>t2\<close> with a message of its owner.\<close>

definition sample_two :: conn where
  "sample_two = sample_chat\<lparr>
     c_roles := map (\<lambda>r. r\<lparr>r_permissions := 32\<rparr>) (c_roles sample_chat),
     c_channels := c_channels sample_chat @ [(hd (c_channels sample_chat))\<lparr>ch_id := ''c2'', ch_team_id := ''t2''\<rparr>],
     c_messages := c_messages sample_chat @ [(hd (c_messages sample_chat))\<lparr>msg_id := ''m2'',
       msg_channel_id := ''c2'', msg_author_id := ''owner''\<rparr>]\<rparr>"

theorem rest_crosses_teams_witness:
  "fst (messages_delete ''a'' ''now'' ''bob'' ''t'' ''c2'' ''m2'' sample_two) = Inr ()"
proof -
  have h: "healthy sample_two" "is_member sample_two ''bob'' ''t''"
    by (simp_all add: sample_two_def sample_chat_def sample_conn_def empty_conn_def healthy_def is_member_def)
  have g: "gating_roles sample_two ''c2'' = {}"
    by (simp add: gating_roles_def sample_two_def sample_chat_def sample_conn_def empty_conn_def)
  have "user_has_permission sample_two ''bob'' ''t'' PERM_MANAGE_MESSAGES = Inr True" by code_simp
  then have p: "holds_permission sample_two ''bob'' ''t'' PERM_MANAGE_MESSAGES"
    by (simp add: user_has_permission_Inr [OF h(1)] holds_permission_def)
  have m: "lookup_by msg_id ''m2'' (c_messages sample_two) = Some ((hd (c_messages sample_chat))\<lparr>msg_id := ''m2'',
       msg_channel_id := ''c2'', msg_author_id := ''owner''\<rparr>)" "\<not> msg_deleted (hd (c_messages sample_chat))"
    by (simp_all add: sample_two_def sample_chat_def)
  from rest_crosses_teams [OF h g, where mid = "''m2''" and i = "''a''" and now = "''now''"] p m
  show ?thesis by (metis (no_types, lifting) message.select_convs(10) message.surjective message.update_convs)
qed

end
