(* ===== verification/Api_Kit.thy ===== *)
theory Api_Kit
  imports Messages_Api Text
begin

section \<open>What the HTTP handlers share\<close>

text \<open>
  How the guards of \<open>policy/mod.rs\<close> answer on a database without faults, how a constrained write keeps a
  property, and the contract of a refused request that would have sent frames.
\<close>

subsection \<open>Guards\<close>

lemma holds_permission_require:
  "healthy c \<Longrightarrow> holds_permission c uid tid perm \<Longrightarrow> require_permission c uid tid perm = Inr ()"
  by (simp add: require_permission_Inr user_has_permission_Inr holds_permission_def)

lemma require_team_member_healthy:
  assumes "healthy c"
  shows "require_team_member c uid tid
    = (if is_member c uid tid then Inr () else Inl (InvalidParameterName ''not a member of this team''))"
proof -
  have "get_member_by_user_and_team c uid tid
      = Inr (first_row (rows_where (\<lambda>m. m_user_id m = uid \<and> m_team_id m = tid) (c_members c)))"
    using assms by (simp add: get_member_by_user_and_team_def optional_query_row)
  then show ?thesis
    by (cases "rows_where (\<lambda>m. m_user_id m = uid \<and> m_team_id m = tid) (c_members c)")
      (auto simp: require_team_member_def is_member_def rows_where_eq_Nil dest: get_member_SomeD)
qed

subsection \<open>Constrained writes\<close>

lemma exec_cases_if:
  assumes "\<not> B c \<Longrightarrow> P (C c)" and "P c"
  shows "P (snd (exec f (\<lambda>c. if B c then None else Some (C c)) c))"
  using assms by (simp add: exec_def)

lemma exec_cases_skip:
  assumes "P (C c)" and "P c"
  shows "P (snd (exec f (\<lambda>c. if B c then Some c else Some (C c)) c))"
  using assms by (simp add: exec_def)

subsection \<open>Refusal of a request that sends\<close>

definition sends_nothing :: "conn \<Rightarrow> (app_error + 'a) \<times> conn \<times> hub_msg list \<Rightarrow> bool" where
  "sends_nothing c r \<longleftrightarrow> (\<exists>e. r = (Inl e, c, []))"

lemma sends_nothing_and_send: "refuses c (h c) \<Longrightarrow> sends_nothing c (and_send h frames c)"
  by (auto simp: refuses_def sends_nothing_def and_send_def split: prod.split)

lemma sends_nothing_if: "sends_nothing c (Inl e, c, [])" "sends_nothing c x \<Longrightarrow> sends_nothing c y \<Longrightarrow> sends_nothing c (if b then x else y)"
  by (simp_all add: sends_nothing_def)

lemmas sends_nothing_intros = sends_nothing_and_send sends_nothing_if refuses_intros

end
