(* ===== verification/Channel_Groups.thy ===== *)
theory Channel_Groups
  imports Api_Kit
begin

section \<open>Channel groups\<close>

text \<open>
  \<open>db/channel_group_queries.rs\<close> and \<open>api/channel_groups.rs\<close>: groups own a name, a position and the role list
  that gates the channels in them. \<open>lower\<close> is \<open>str::to_lowercase\<close>, the Unicode case table, as a parameter.
  \<open>groups_wf\<close> is what the schema promises; the first property shows every handler keeps it.
\<close>

subsection \<open>Statements\<close>

text \<open>The columns of the unique index of migration 020.\<close>

definition group_key :: "channel_group \<Rightarrow> string \<times> string" where
  "group_key g = (cg_team_id g, sql_lower (sql_trim (cg_name g)))"

definition get_groups_by_team :: "conn \<Rightarrow> string \<Rightarrow> channel_group list db_res" where
  "get_groups_by_team c tid = stmt ''get_groups_by_team'' c
     (sort_key cg_position (sort_key cg_created_at (rows_where (\<lambda>g. cg_team_id g = tid) (c_channel_groups c))))"

definition get_group_by_id :: "conn \<Rightarrow> string \<Rightarrow> channel_group option db_res" where
  "get_group_by_id c gid =
     optional (query_row ''get_group_by_id'' c (rows_where (\<lambda>g. cg_id g = gid) (c_channel_groups c)))"

definition create_group :: "channel_group \<Rightarrow> unit db_op" where
  "create_group g = exec ''create_group'' (\<lambda>c.
     if cg_id g \<in> cg_id ` set (c_channel_groups c) \<or> group_key g \<in> group_key ` set (c_channel_groups c)
       \<or> cg_team_id g \<notin> t_id ` set (c_teams c) then None
     else Some (c\<lparr>c_channel_groups := c_channel_groups c @ [g]\<rparr>))"

definition edit_group_row :: "channel_group \<Rightarrow> channel_group \<Rightarrow> channel_group" where
  "edit_group_row g x = x\<lparr>cg_name := cg_name g, cg_position := cg_position g,
     cg_hidden_if_restricted := cg_hidden_if_restricted g, cg_updated_at := cg_updated_at g\<rparr>"

definition update_group :: "channel_group \<Rightarrow> unit db_op" where
  "update_group g = exec ''update_group'' (\<lambda>c.
     let gs = update_where (\<lambda>x. cg_id x = cg_id g) (edit_group_row g) (c_channel_groups c)
     in if cg_id g \<in> cg_id ` set (c_channel_groups c) \<and> \<not> distinct (map group_key gs) then None
        else Some (c\<lparr>c_channel_groups := gs\<rparr>))"

text \<open>The role list of the group goes with it (\<open>ON DELETE CASCADE\<close>), the channels stay (\<open>ON DELETE SET
  NULL\<close>).\<close>

definition delete_group :: "string \<Rightarrow> unit db_op" where
  "delete_group gid = exec ''delete_group'' (\<lambda>c.
     if gid \<notin> cg_id ` set (c_channel_groups c) then Some c
     else Some (c\<lparr>c_channel_groups := delete_where (\<lambda>g. cg_id g = gid) (c_channel_groups c),
       c_group_role_access := delete_where (\<lambda>p. fst p = gid) (c_group_role_access c),
       c_channels := update_where (\<lambda>ch. ch_group_id ch = Some gid) (\<lambda>ch. ch\<lparr>ch_group_id := None\<rparr>) (c_channels c)\<rparr>))"

definition other_id :: "string option \<Rightarrow> string \<Rightarrow> bool" where
  "other_id ignore_id i = (case ignore_id of None \<Rightarrow> True | Some j \<Rightarrow> i \<noteq> j)"

definition group_name_exists ::
  "(string \<Rightarrow> string) \<Rightarrow> conn \<Rightarrow> string \<Rightarrow> string \<Rightarrow> string option \<Rightarrow> bool db_res" where
  "group_name_exists lower c tid name ignore_id = stmt ''group_name_exists'' c
     (list_ex (\<lambda>g. cg_team_id g = tid \<and> sql_lower (sql_trim (cg_name g)) = lower (trim name)
       \<and> other_id ignore_id (cg_id g)) (c_channel_groups c))"

definition group_channels :: "conn \<Rightarrow> string \<Rightarrow> string list db_res" where
  "group_channels c gid = stmt ''groups.channels'' c
     (map ch_id (rows_where (\<lambda>ch. ch_group_id ch = Some gid) (c_channels c)))"

subsection \<open>Handlers\<close>

definition group_json :: "channel_group \<Rightarrow> (string \<times> json) list" where
  "group_json g = [(''id'', JStr (cg_id g)), (''team_id'', JStr (cg_team_id g)), (''name'', JStr (cg_name g)),
     (''position'', JNum (cg_position g)), (''created_at'', JStr (cg_created_at g)),
     (''updated_at'', JStr (cg_updated_at g)), (''hidden_if_restricted'', JBool (cg_hidden_if_restricted g))]"

definition group_frame :: "string \<Rightarrow> string \<Rightarrow> channel_group \<Rightarrow> string list \<Rightarrow> hub_msg" where
  "group_frame kind tid g affected = BroadcastAll (event_new kind (JObj
     [(''group'', JObj (group_json g)), (''team_id'', JStr tid), (''channel_ids'', JArr (map JStr affected))]))"

definition map_group_name_conflict :: "app_error \<Rightarrow> app_error" where
  "map_group_name_conflict e = (case e of
     Forbidden msg \<Rightarrow> if msg = ''group_name_conflict''
       then Conflict ''a group with that name already exists in this team'' else e
   | _ \<Rightarrow> e)"

definition groups_list :: "string \<Rightarrow> string \<Rightarrow> json list handler" where
  "groups_list uid tid = spawn_db
     (bindS (readS (\<lambda>c. require_team_member c uid tid)) (\<lambda>_.
      bindS (readS (\<lambda>c. get_groups_by_team c tid)) (\<lambda>groups.
      readS (\<lambda>c. Inr (map (\<lambda>g. JObj (group_json g @ [(''access_role_ids'',
        JArr (map JStr (unwrap_or (get_group_access_roles c (cg_id g)) [])))])) groups)))))"

definition max_group_position :: "conn \<Rightarrow> string \<Rightarrow> int" where
  "max_group_position c tid =
     (case map cg_position (rows_where (\<lambda>g. cg_team_id g = tid) (c_channel_groups c)) of [] \<Rightarrow> -1 | p # ps \<Rightarrow> fold max ps p)"

definition create_group_body ::
  "(string \<Rightarrow> string) \<Rightarrow> string \<Rightarrow> string \<Rightarrow> string \<Rightarrow> string \<Rightarrow> string \<Rightarrow> string \<Rightarrow> channel_group db_op" where
  "create_group_body lower new_id audit_id now uid tid trimmed =
     bindS (readS (\<lambda>c. require_permission c uid tid PERM_MANAGE_CHANNELS)) (\<lambda>_.
     bindS (readS (\<lambda>c. group_name_exists lower c tid trimmed None)) (\<lambda>taken.
     bindS (refuse_if taken (InvalidParameterName ''group_name_conflict'')) (\<lambda>_.
     bindS (readS (\<lambda>c. Inr (unwrap_or (stmt ''groups.max_position'' c (max_group_position c tid)) (-1)))) (\<lambda>max_pos.
     let g = \<lparr>cg_id = new_id, cg_team_id = tid, cg_name = trimmed, cg_position = wrap_i32 (max_pos + 1),
           cg_created_at = now, cg_updated_at = now, cg_hidden_if_restricted = False\<rparr>
     in bindS (create_group g) (\<lambda>_.
        bindS (ignoreS (insert_audit_event audit_id now tid (Some uid) ''group.create'' (Some ''group'')
          (Some new_id) (Some (JObj [(''name'', JStr trimmed)])))) (\<lambda>_.
        returnS g))))))"

definition groups_create ::
  "(string \<Rightarrow> string) \<Rightarrow> string \<Rightarrow> string \<Rightarrow> string \<Rightarrow> string \<Rightarrow> string \<Rightarrow> string \<Rightarrow> channel_group sending" where
  "groups_create lower new_id audit_id now uid tid name c =
     (let trimmed = trim name in
      if trimmed = [] then (Inl (BadRequest ''name is required''), c, [])
      else if chars_count trimmed > 100 then (Inl (BadRequest ''name too long (max 100 chars)''), c, [])
      else and_send (map_errH map_group_name_conflict
          (spawn_db (create_group_body lower new_id audit_id now uid tid trimmed)))
        (\<lambda>g. [group_frame ''group:created'' tid g []]) c)"

record update_group_request =
  ugr_name :: "string option"
  ugr_position :: "int option"
  ugr_hidden_if_restricted :: "bool option"

definition validate_update_group_body :: "update_group_request \<Rightarrow> app_error + unit" where
  "validate_update_group_body body = (case ugr_name body of None \<Rightarrow> Inr ()
   | Some n \<Rightarrow> if trim n = [] then Inl (BadRequest ''name cannot be empty'')
       else if chars_count (trim n) > 100 then Inl (BadRequest ''name too long (max 100 chars)'')
       else Inr ())"

definition apply_group_updates ::
  "(string \<Rightarrow> string) \<Rightarrow> conn \<Rightarrow> channel_group \<Rightarrow> update_group_request \<Rightarrow> string \<Rightarrow> string \<Rightarrow> channel_group db_res" where
  "apply_group_updates lower c g body tid gid =
     bindE (case ugr_name body of None \<Rightarrow> Inr g
       | Some name \<Rightarrow> bindE (group_name_exists lower c tid (trim name) (Some gid)) (\<lambda>taken.
           if taken then Inl (InvalidParameterName ''group_name_conflict'') else Inr (g\<lparr>cg_name := trim name\<rparr>))) (\<lambda>g.
     Inr (g\<lparr>cg_position := (case ugr_position body of None \<Rightarrow> cg_position g | Some p \<Rightarrow> p),
       cg_hidden_if_restricted := (case ugr_hidden_if_restricted body of
         None \<Rightarrow> cg_hidden_if_restricted g | Some h \<Rightarrow> h)\<rparr>))"

text \<open>The lookup the handlers share: a group of another team is not found.\<close>

definition group_of_team :: "string \<Rightarrow> string \<Rightarrow> channel_group db_op" where
  "group_of_team tid gid = bindS (readS (\<lambda>c. get_group_by_id c gid)) (\<lambda>go.
     bindS (some_or QueryReturnedNoRows go) (\<lambda>g.
     bindS (refuse_if (cg_team_id g \<noteq> tid) QueryReturnedNoRows) (\<lambda>_. returnS g)))"

definition group_not_found :: "(app_error \<Rightarrow> app_error) \<Rightarrow> app_error \<Rightarrow> app_error" where
  "group_not_found other e = (case e of NotFound _ \<Rightarrow> NotFound ''group not found'' | _ \<Rightarrow> other e)"

definition update_group_body ::
  "(string \<Rightarrow> string) \<Rightarrow> string \<Rightarrow> string \<Rightarrow> string \<Rightarrow> string \<Rightarrow> string \<Rightarrow> update_group_request \<Rightarrow> channel_group db_op" where
  "update_group_body lower audit_id now uid tid gid body =
     bindS (readS (\<lambda>c. require_permission c uid tid PERM_MANAGE_CHANNELS)) (\<lambda>_.
     bindS (group_of_team tid gid) (\<lambda>g0.
     bindS (readS (\<lambda>c. apply_group_updates lower c g0 body tid gid)) (\<lambda>g1.
     let g = g1\<lparr>cg_updated_at := now\<rparr>
     in bindS (update_group g) (\<lambda>_.
        bindS (ignoreS (insert_audit_event audit_id now tid (Some uid) ''group.update'' (Some ''group'')
          (Some (cg_id g)) (Some (JObj [(''name'', JStr (cg_name g)), (''position'', JNum (cg_position g))])))) (\<lambda>_.
        returnS g)))))"

definition groups_update ::
  "(string \<Rightarrow> string) \<Rightarrow> string \<Rightarrow> string \<Rightarrow> string \<Rightarrow> string \<Rightarrow> string \<Rightarrow> update_group_request \<Rightarrow> channel_group sending" where
  "groups_update lower audit_id now uid tid gid body c = (case validate_update_group_body body of
     Inl e \<Rightarrow> (Inl e, c, [])
   | Inr _ \<Rightarrow> and_send (map_errH (group_not_found map_group_name_conflict)
         (spawn_db (update_group_body lower audit_id now uid tid gid body)))
       (\<lambda>g. [group_frame ''group:updated'' tid g []]) c)"

definition delete_group_body ::
  "string \<Rightarrow> string \<Rightarrow> string \<Rightarrow> string \<Rightarrow> string \<Rightarrow> (channel_group \<times> string list) db_op" where
  "delete_group_body audit_id now uid tid gid =
     bindS (readS (\<lambda>c. require_permission c uid tid PERM_MANAGE_CHANNELS)) (\<lambda>_.
     bindS (group_of_team tid gid) (\<lambda>g.
     bindS (readS (\<lambda>c. group_channels c gid)) (\<lambda>channels.
     bindS (delete_group gid) (\<lambda>_.
     bindS (ignoreS (insert_audit_event audit_id now tid (Some uid) ''group.delete'' (Some ''group'')
       (Some gid) (Some (JObj [(''name'', JStr (cg_name g))])))) (\<lambda>_.
     returnS (g, channels))))))"

definition groups_delete ::
  "string \<Rightarrow> string \<Rightarrow> string \<Rightarrow> string \<Rightarrow> string \<Rightarrow> (channel_group \<times> string list) sending" where
  "groups_delete audit_id now uid tid gid = and_send (map_errH (group_not_found (\<lambda>e. e))
       (spawn_db (delete_group_body audit_id now uid tid gid)))
     (\<lambda>(g, affected). [group_frame ''group:deleted'' tid g affected])"

definition groups_get_access :: "string \<Rightarrow> string \<Rightarrow> string \<Rightarrow> string list handler" where
  "groups_get_access uid tid gid = map_errH (group_not_found (\<lambda>e. e)) (spawn_db
     (bindS (readS (\<lambda>c. require_team_member c uid tid)) (\<lambda>_.
      bindS (group_of_team tid gid) (\<lambda>_.
      readS (\<lambda>c. get_group_access_roles c gid)))))"

record set_access_request =
  sar_role_ids :: "string list"
  sar_hidden_if_restricted :: "bool option"

text \<open>\<open>set_access\<close> after the list has been replaced.\<close>

definition finish_group_access ::
  "string \<Rightarrow> string \<Rightarrow> string \<Rightarrow> string \<Rightarrow> string \<Rightarrow> set_access_request \<Rightarrow> channel_group
     \<Rightarrow> (channel_group \<times> string list \<times> string list) db_op" where
  "finish_group_access audit_id now uid tid gid body g0 =
     bindS (case sar_hidden_if_restricted body of
         None \<Rightarrow> returnS g0
       | Some hidden \<Rightarrow> let g = g0\<lparr>cg_hidden_if_restricted := hidden, cg_updated_at := now\<rparr>
           in bindS (update_group g) (\<lambda>_. returnS g)) (\<lambda>g.
     bindS (readS (\<lambda>c. group_channels c gid)) (\<lambda>channels.
     bindS (ignoreS (insert_audit_event audit_id now tid (Some uid) ''group.access'' (Some ''group'')
       (Some gid) (Some (JObj [(''name'', JStr (cg_name g)), (''role_ids'', JArr (map JStr (sar_role_ids body)))])))) (\<lambda>_.
     returnS (g, sar_role_ids body, channels))))"

definition set_group_access_body ::
  "string \<Rightarrow> string \<Rightarrow> string \<Rightarrow> string \<Rightarrow> string \<Rightarrow> set_access_request
     \<Rightarrow> (channel_group \<times> string list \<times> string list) db_op" where
  "set_group_access_body audit_id now uid tid gid body =
     bindS (readS (\<lambda>c. require_permission c uid tid PERM_MANAGE_CHANNELS)) (\<lambda>_.
     bindS (group_of_team tid gid) (\<lambda>g0.
     bindS (set_group_access_roles gid (sar_role_ids body)) (\<lambda>_.
     finish_group_access audit_id now uid tid gid body g0)))"

definition group_access_payload :: "channel_group \<times> string list \<times> string list \<Rightarrow> json" where
  "group_access_payload = (\<lambda>(g, role_ids, affected). JObj [(''group_id'', JStr (cg_id g)), (''team_id'', JStr (cg_team_id g)),
     (''name'', JStr (cg_name g)), (''role_ids'', JArr (map JStr role_ids)),
     (''hidden_if_restricted'', JBool (cg_hidden_if_restricted g)), (''channel_ids'', JArr (map JStr affected))])"

definition groups_set_access ::
  "string \<Rightarrow> string \<Rightarrow> string \<Rightarrow> string \<Rightarrow> string \<Rightarrow> set_access_request
     \<Rightarrow> (channel_group \<times> string list \<times> string list) sending" where
  "groups_set_access audit_id now uid tid gid body = and_send (map_errH (group_not_found (\<lambda>e. e))
       (spawn_db (set_group_access_body audit_id now uid tid gid body)))
     (\<lambda>r. [BroadcastAll (event_new ''group:access-update'' (group_access_payload r))])"

subsection \<open>What the schema keeps\<close>

definition groups_wf :: "conn \<Rightarrow> bool" where
  "groups_wf c \<longleftrightarrow> distinct (map cg_id (c_channel_groups c)) \<and> distinct (map group_key (c_channel_groups c))
     \<and> refs cg_team_id (c_channel_groups c) t_id (c_teams c)
     \<and> (\<forall>ch \<in> set (c_channels c). \<forall>g. ch_group_id ch = Some g \<longrightarrow> g \<in> cg_id ` set (c_channel_groups c))
     \<and> refs fst (c_group_role_access c) cg_id (c_channel_groups c)
     \<and> refs snd (c_group_role_access c) r_id (c_roles c) \<and> distinct (c_group_role_access c)"

lemma groups_wf_empty: "groups_wf empty_conn"
  by (simp add: groups_wf_def empty_conn_def)

lemma groups_wf_audit: "groups_wf (snd (insert_audit_event i n t a ac tt ti d c)) = groups_wf c"
  by (rule insert_audit_event_frame) (simp add: groups_wf_def)

interpretation groups_kept: kept_property groups_wf
  by unfold_locales (simp add: groups_wf_audit)

lemma groups_wf_create: "groups_wf c \<Longrightarrow> groups_wf (snd (create_group g c))"
  unfolding create_group_def
  by (rule exec_cases_if) (auto simp: groups_wf_def refs_append_parent)

lemma groups_wf_update: "groups_wf c \<Longrightarrow> groups_wf (snd (update_group g c))"
proof -
  assume wf: "groups_wf c"
  let ?gs = "update_where (\<lambda>x. cg_id x = cg_id g) (edit_group_row g) (c_channel_groups c)"
  have same: "?gs = c_channel_groups c" if "cg_id g \<notin> cg_id ` set (c_channel_groups c)"
    using that by (intro update_where_none) (metis image_eqI)
  have ids: "map cg_id ?gs = map cg_id (c_channel_groups c)" and teams: "map cg_team_id ?gs = map cg_team_id (c_channel_groups c)"
    by (simp_all add: map_update_where edit_group_row_def)
  then have "cg_id ` set ?gs = cg_id ` set (c_channel_groups c)" "cg_team_id ` set ?gs = cg_team_id ` set (c_channel_groups c)"
    by (metis list.set_map)+
  then have "distinct (map group_key ?gs) \<Longrightarrow> groups_wf (c\<lparr>c_channel_groups := ?gs\<rparr>)"
    using wf ids by (simp add: groups_wf_def refs_image del: set_update_where)
  moreover have "distinct (map group_key ?gs)" if "cg_id g \<notin> cg_id ` set (c_channel_groups c)"
    using wf same [OF that] by (simp add: groups_wf_def)
  ultimately have ok: "\<not> (cg_id g \<in> cg_id ` set (c_channel_groups c) \<and> \<not> distinct (map group_key ?gs))
      \<Longrightarrow> groups_wf (c\<lparr>c_channel_groups := ?gs\<rparr>)" by blast
  show ?thesis
    unfolding update_group_def Let_def by (rule exec_cases_if) (use ok wf in blast)+
qed

lemma groups_wf_delete:
  assumes "groups_wf c" shows "groups_wf (snd (delete_group gid c))"
proof -
  have "groups_wf (c\<lparr>c_channel_groups := delete_where (\<lambda>g. cg_id g = gid) (c_channel_groups c),
       c_group_role_access := delete_where (\<lambda>p. fst p = gid) (c_group_role_access c),
       c_channels := update_where (\<lambda>ch. ch_group_id ch = Some gid) (\<lambda>ch. ch\<lparr>ch_group_id := None\<rparr>) (c_channels c)\<rparr>)"
    using assms by (auto simp: groups_wf_def refs_delete_child intro!: refs_cascade)
  then show ?thesis
    unfolding delete_group_def by (rule exec_cases_skip) (rule assms)
qed

lemma groups_wf_set_roles: "groups_wf c \<Longrightarrow> groups_wf (snd (set_group_access_roles gid rids c))"
proof -
  have del: "groups_wf c \<Longrightarrow> groups_wf (c\<lparr>c_group_role_access := delete_where (\<lambda>p. fst p = gid) (c_group_role_access c)\<rparr>)" for c
    by (auto simp: groups_wf_def refs_delete_child)
  have ins: "groups_wf c \<Longrightarrow> groups_wf (snd (exec f (\<lambda>c.
        if (gid, rid) \<in> set (c_group_role_access c) then Some c
        else if gid \<notin> cg_id ` set (c_channel_groups c) \<or> rid \<notin> r_id ` set (c_roles c) then None
        else Some (c\<lparr>c_group_role_access := c_group_role_access c @ [(gid, rid)]\<rparr>)) c))" for c f rid
    by (rule exec_cases) (auto simp: groups_wf_def split: if_splits)
  assume "groups_wf c"
  then show ?thesis
    unfolding set_group_access_roles_def
    by (intro bindS_keeps [where P = groups_wf] for_eachS_keeps [where P = groups_wf] ins)
      (auto intro!: exec_cases [where P = groups_wf] del)
qed

lemmas groups_wf_chain = groups_kept.chain groups_wf_create groups_wf_update groups_wf_delete groups_wf_set_roles

subsection \<open>Replacing a role list\<close>

definition listed :: "string \<Rightarrow> string list \<Rightarrow> (string \<times> string) list \<Rightarrow> (string \<times> string) list" where
  "listed gid rids ps = fold (\<lambda>rid. insert_or_ignore (gid, rid)) rids ps"

lemma set_listed [simp]: "set (listed gid rids ps) = set ps \<union> Pair gid ` set rids"
  by (induction rids arbitrary: ps) (auto simp: listed_def)

text \<open>The loop stops at the first unknown role, and what it has inserted stays.\<close>

lemma insert_loop:
  assumes "healthy c" and "gid \<in> cg_id ` set (c_channel_groups c)" and "set known \<subseteq> r_id ` set (c_roles c)"
  shows "for_eachS (\<lambda>rid. exec f (\<lambda>c.
        if (gid, rid) \<in> set (c_group_role_access c) then Some c
        else if gid \<notin> cg_id ` set (c_channel_groups c) \<or> rid \<notin> r_id ` set (c_roles c) then None
        else Some (c\<lparr>c_group_role_access := c_group_role_access c @ [(gid, rid)]\<rparr>))) (known @ rest) c
    = for_eachS (\<lambda>rid. exec f (\<lambda>c.
        if (gid, rid) \<in> set (c_group_role_access c) then Some c
        else if gid \<notin> cg_id ` set (c_channel_groups c) \<or> rid \<notin> r_id ` set (c_roles c) then None
        else Some (c\<lparr>c_group_role_access := c_group_role_access c @ [(gid, rid)]\<rparr>))) rest
      (c\<lparr>c_group_role_access := listed gid known (c_group_role_access c)\<rparr>)"
  using assms
proof (induction known arbitrary: c)
  case Nil
  then show ?case by (simp add: listed_def)
next
  case (Cons rid known)
  let ?c = "c\<lparr>c_group_role_access := insert_or_ignore (gid, rid) (c_group_role_access c)\<rparr>"
  have "healthy ?c" "gid \<in> cg_id ` set (c_channel_groups ?c)" "set known \<subseteq> r_id ` set (c_roles ?c)"
    using Cons.prems by (simp_all add: healthy_def)
  note IH = Cons.IH [OF this]
  show ?case
  proof (cases "(gid, rid) \<in> set (c_group_role_access c)")
    case True
    then have "?c = c" by (simp add: insert_or_ignore_def)
    with IH Cons.prems True show ?thesis
      by (simp add: exec_healthy bindS_def listed_def insert_or_ignore_def)
  next
    case False
    with IH Cons.prems show ?thesis
      by (simp add: exec_healthy bindS_def listed_def insert_or_ignore_def)
  qed
qed

lemma set_roles_effect:
  assumes "healthy c" and "gid \<in> cg_id ` set (c_channel_groups c)" and "set known \<subseteq> r_id ` set (c_roles c)"
  shows "set_group_access_roles gid known c = (Inr (), c\<lparr>c_group_role_access :=
      listed gid known (delete_where (\<lambda>p. fst p = gid) (c_group_role_access c))\<rparr>)"
    and "r \<notin> r_id ` set (c_roles c) \<Longrightarrow> set_group_access_roles gid (known @ r # rest) c = (Inl SqliteFailure,
      c\<lparr>c_group_role_access := listed gid known (delete_where (\<lambda>p. fst p = gid) (c_group_role_access c))\<rparr>)"
proof -
  let ?c = "c\<lparr>c_group_role_access := delete_where (\<lambda>p. fst p = gid) (c_group_role_access c)\<rparr>"
  have h: "healthy ?c" "gid \<in> cg_id ` set (c_channel_groups ?c)" "set known \<subseteq> r_id ` set (c_roles ?c)"
    using assms by (simp_all add: healthy_def)
  note loop = insert_loop [OF h]
  show "set_group_access_roles gid known c = (Inr (), c\<lparr>c_group_role_access :=
      listed gid known (delete_where (\<lambda>p. fst p = gid) (c_group_role_access c))\<rparr>)"
    using loop [where rest = "[]"] assms(1) by (simp add: set_group_access_roles_def exec_healthy bindS_def)
  assume "r \<notin> r_id ` set (c_roles c)"
  moreover have "(gid, r) \<notin> set (listed gid known (delete_where (\<lambda>p. fst p = gid) (c_group_role_access c)))"
    using assms(3) calculation by auto
  ultimately show "set_group_access_roles gid (known @ r # rest) c = (Inl SqliteFailure,
      c\<lparr>c_group_role_access := listed gid known (delete_where (\<lambda>p. fst p = gid) (c_group_role_access c))\<rparr>)"
    using loop [where rest = "r # rest"] assms(1)
    by (simp add: set_group_access_roles_def exec_healthy bindS_def healthy_def del: set_listed)
qed

lemma group_of_team_found:
  assumes "healthy c" and "lookup_by cg_id gid (c_channel_groups c) = Some g" and "cg_team_id g = tid"
  shows "group_of_team tid gid c = (Inr g, c)"
  using assms by (simp add: group_of_team_def get_group_by_id_def lookup_by_def bindS_def)

lemma gating_of_group:
  assumes "lookup_by ch_id cid (c_channels c) = Some ch" and "ch_group_id ch = Some gid"
  shows "gating_roles c cid = {rid. (gid, rid) \<in> set (c_group_role_access c)}"
  using assms by (simp add: gating_roles_def lookup_by_def)

subsection \<open>Properties\<close>

text \<open>Every handler of the group API keeps the tables well formed, failed requests included: group ids
  are unique, no two groups of a team have the same normalised name, each group belongs to a team, each
  channel and each gate names an existing group, and each gate an existing role.\<close>

theorem group_tables_typed:
  assumes "groups_wf c"
  shows "groups_wf (fst (snd (groups_create lower new_id a now uid tid name c)))
    \<and> groups_wf (fst (snd (groups_update lower a now uid tid gid ubody c)))
    \<and> groups_wf (fst (snd (groups_delete a now uid tid gid c)))
    \<and> groups_wf (fst (snd (groups_set_access a now uid tid gid sbody c)))"
proof -
  have "groups_wf (snd (create_group_body lower new_id a now uid tid n c))" for n
    unfolding create_group_body_def Let_def using assms by - (intro groups_wf_chain; assumption)
  moreover have "groups_wf (snd (update_group_body lower a now uid tid gid ubody c))"
    unfolding update_group_body_def group_of_team_def Let_def using assms by - (intro groups_wf_chain; assumption)
  moreover have "groups_wf (snd (delete_group_body a now uid tid gid c))"
    unfolding delete_group_body_def group_of_team_def using assms by - (intro groups_wf_chain; assumption)
  moreover have "groups_wf (snd (set_group_access_body a now uid tid gid sbody c))"
    unfolding set_group_access_body_def finish_group_access_def group_of_team_def Let_def using assms by - (intro groups_wf_chain; assumption)
  ultimately show ?thesis
    by (simp add: groups_create_def groups_update_def groups_delete_def groups_set_access_def and_send_sel assms
        Let_def split: sum.split)
qed

text \<open>A group \<open>staff\<close> with the gate \<open>mod\<close> around channel \<open>ch\<close> of the sample team.\<close>

definition sample_group :: channel_group where
  "sample_group = \<lparr>cg_id = ''g'', cg_team_id = ''t'', cg_name = ''staff'', cg_position = 0, cg_created_at = [],
     cg_updated_at = [], cg_hidden_if_restricted = True\<rparr>"

definition sample_grouped :: conn where
  "sample_grouped = sample_conn\<lparr>c_channel_groups := [sample_group], c_group_role_access := [(''g'', ''mod'')],
     c_channels := map (\<lambda>ch. ch\<lparr>ch_group_id := Some ''g''\<rparr>) (c_channels sample_conn)\<rparr>"

lemma sample_grouped_wf: "groups_wf sample_grouped"
  by (simp add: groups_wf_def sample_grouped_def sample_group_def sample_conn_def refs_def empty_conn_def)

theorem group_tables_typed_witness:
  "groups_wf (fst (snd (groups_delete ''a'' ''now'' ''owner'' ''t'' ''g'' sample_grouped)))
    \<and> c_channel_groups (fst (snd (groups_delete ''a'' ''now'' ''owner'' ''t'' ''g'' sample_grouped))) = []"
proof
  show "groups_wf (fst (snd (groups_delete ''a'' ''now'' ''owner'' ''t'' ''g'' sample_grouped)))"
    using group_tables_typed [OF sample_grouped_wf] by blast
  show "c_channel_groups (fst (snd (groups_delete ''a'' ''now'' ''owner'' ''t'' ''g'' sample_grouped))) = []"
    by code_simp
qed

text \<open>What stays as it is once the lists have been written.\<close>

definition lists_are :: "(string \<times> string) list \<Rightarrow> channel list \<Rightarrow> conn \<Rightarrow> bool" where
  "lists_are ps chs c \<longleftrightarrow> c_group_role_access c = ps \<and> c_channels c = chs \<and> healthy c"

lemma lists_are_audit: "lists_are ps chs (snd (insert_audit_event i n t a ac tt ti d c)) = lists_are ps chs c"
  by (rule insert_audit_event_frame) (simp add: lists_are_def healthy_def)

interpretation lists_kept: kept_property "lists_are ps chs" for ps chs
  by unfold_locales (simp add: lists_are_audit)

lemma lists_update_group: "lists_are ps chs c \<Longrightarrow> lists_are ps chs (snd (update_group g c))"
  unfolding update_group_def Let_def by (rule exec_cases_if) (simp_all add: lists_are_def healthy_def)

lemma lists_finish: "lists_are ps chs s \<Longrightarrow> lists_are ps chs (snd (finish_group_access a now uid tid gid body g s))"
  unfolding finish_group_access_def Let_def by (intro lists_kept.chain lists_update_group; assumption)

lemma set_group_access_start:
  assumes "healthy c" and "holds_permission c uid tid PERM_MANAGE_CHANNELS"
    and "lookup_by cg_id gid (c_channel_groups c) = Some g" and "cg_team_id g = tid"
  shows "set_group_access_body a now uid tid gid body c
    = bindS (set_group_access_roles gid (sar_role_ids body)) (\<lambda>_. finish_group_access a now uid tid gid body g) c"
  using group_of_team_found [OF assms(1,3,4)] holds_permission_require [OF assms(1,2)]
  by (simp add: set_group_access_body_def bindS_Inr)

lemma set_group_access_lists:
  assumes "healthy c" and "holds_permission c uid tid PERM_MANAGE_CHANNELS"
    and "lookup_by cg_id gid (c_channel_groups c) = Some g" and "cg_team_id g = tid"
    and "known = takeWhile (\<lambda>rid. rid \<in> r_id ` set (c_roles c)) (sar_role_ids body)"
  shows "lists_are (listed gid known (delete_where (\<lambda>p. fst p = gid) (c_group_role_access c))) (c_channels c)
      (snd (set_group_access_body a now uid tid gid body c))"
    and "known \<noteq> sar_role_ids body \<Longrightarrow> fst (set_group_access_body a now uid tid gid body c) = Inl SqliteFailure"
proof -
  let ?ps = "listed gid known (delete_where (\<lambda>p. fst p = gid) (c_group_role_access c))"
  have gid: "gid \<in> cg_id ` set (c_channel_groups c)" and known: "set known \<subseteq> r_id ` set (c_roles c)"
    using lookup_by_SomeD [OF assms(3)] by (auto simp: assms(5) dest: set_takeWhileD)
  have start: "lists_are ?ps (c_channels c) (c\<lparr>c_group_role_access := ?ps\<rparr>)"
    using assms(1) by (simp add: lists_are_def healthy_def)
  have unknown: "set_group_access_body a now uid tid gid body c = (Inl SqliteFailure, c\<lparr>c_group_role_access := ?ps\<rparr>)"
    if "known \<noteq> sar_role_ids body"
  proof -
    from that assms(5) obtain x rest where "sar_role_ids body = known @ x # rest" "x \<notin> r_id ` set (c_roles c)"
      by (metis append_Nil2 dropWhile_eq_Cons_conv list.exhaust takeWhile_dropWhile_id)
    with set_roles_effect(2) [OF assms(1) gid known] show ?thesis
      by (simp add: set_group_access_start [OF assms(1-4)] bindS_Inl)
  qed
  then show "known \<noteq> sar_role_ids body \<Longrightarrow> fst (set_group_access_body a now uid tid gid body c) = Inl SqliteFailure"
    by simp
  show "lists_are ?ps (c_channels c) (snd (set_group_access_body a now uid tid gid body c))"
  proof (cases "known = sar_role_ids body")
    case True
    with set_roles_effect(1) [OF assms(1) gid known] lists_finish [OF start] show ?thesis
      by (simp add: set_group_access_start [OF assms(1-4)] bindS_Inr)
  qed (simp add: unknown start)
qed

text \<open>Replacing the role list of a group is not atomic. The old list is deleted first, then the new
  roles are inserted until one does not exist: every channel of the group is then gated by the roles before
  that one, the request is answered with an internal error and nobody is told. When the unknown role is the
  first of the request, every channel of the group is open to everybody, members of the team or not.\<close>

theorem group_access_half_applied:
  assumes "healthy c" and "holds_permission c uid tid PERM_MANAGE_CHANNELS"
    and "lookup_by cg_id gid (c_channel_groups c) = Some g" and "cg_team_id g = tid"
    and "lookup_by ch_id cid (c_channels c) = Some ch" and "ch_group_id ch = Some gid"
    and "known = takeWhile (\<lambda>rid. rid \<in> r_id ` set (c_roles c)) (sar_role_ids body)"
    and "groups_set_access a now uid tid gid body c = (r, c', frames)"
  shows "gating_roles c' cid = set known
    \<and> (known \<noteq> sar_role_ids body \<longrightarrow> r = Inl (Internal ''db: SqliteFailure'') \<and> frames = [])
    \<and> (known = [] \<longrightarrow> user_can_access_channel c' v t cid = Inr True)"
proof -
  note lists = set_group_access_lists [OF assms(1-4,7), of a now]
  have c': "c' = snd (set_group_access_body a now uid tid gid body c)"
    and r: "r = map_err (group_not_found (\<lambda>e. e)) (map_err map_db_error (fst (set_group_access_body a now uid tid gid body c)))"
    and frames: "frames = (case r of Inl _ \<Rightarrow> [] | Inr x \<Rightarrow> [BroadcastAll (event_new ''group:access-update'' (group_access_payload x))])"
    using assms(8) by (auto simp: groups_set_access_def and_send_sel map_errH_result spawn_db_result prod_eq_iff)
  have gate: "gating_roles c' cid = set known" and "healthy c'"
    using lists(1) gating_of_group [of cid c' ch gid] assms(5,6) by (auto simp: c' lists_are_def)
  moreover have "may_access c' v t cid" if "known = []" using gate that by (simp add: may_access_def)
  ultimately show ?thesis
    using lists(2) by (auto simp: r frames access_decides map_db_error_def group_not_found_def)
qed

theorem group_access_half_applied_witness:
  "user_can_access_channel sample_grouped ''eve'' ''t'' ''ch'' = Inr False
   \<and> user_can_access_channel (fst (snd (groups_set_access ''a'' ''now'' ''owner'' ''t'' ''g''
        \<lparr>sar_role_ids = [''gone'', ''mod''], sar_hidden_if_restricted = None\<rparr> sample_grouped))) ''eve'' ''t'' ''ch'' = Inr True"
proof
  show "user_can_access_channel sample_grouped ''eve'' ''t'' ''ch'' = Inr False" by code_simp
  let ?body = "\<lparr>sar_role_ids = [''gone'', ''mod''], sar_hidden_if_restricted = None\<rparr>"
  have h: "healthy sample_grouped" by (simp add: sample_grouped_def sample_conn_def healthy_def empty_conn_def)
  have p: "holds_permission sample_grouped ''owner'' ''t'' PERM_MANAGE_CHANNELS"
    by (simp add: holds_permission_def owns_team_def sample_grouped_def sample_conn_def)
  have g: "lookup_by cg_id ''g'' (c_channel_groups sample_grouped) = Some sample_group" "cg_team_id sample_group = ''t''"
    by (simp_all add: sample_grouped_def sample_group_def)
  obtain ch where ch: "lookup_by ch_id ''ch'' (c_channels sample_grouped) = Some ch" "ch_group_id ch = Some ''g''"
    by (simp add: sample_grouped_def sample_conn_def)
  have k: "[] = takeWhile (\<lambda>rid. rid \<in> r_id ` set (c_roles sample_grouped)) (sar_role_ids ?body)"
    by (simp add: sample_grouped_def sample_conn_def)
  show "user_can_access_channel (fst (snd (groups_set_access ''a'' ''now'' ''owner'' ''t'' ''g'' ?body sample_grouped)))
      ''eve'' ''t'' ''ch'' = Inr True"
    using group_access_half_applied [OF h p g ch k, where a = "''a''" and now = "''now''" and v = "''eve''" and t = "''t''"]
    by (metis prod.collapse)
qed

lemma group_of_team_InrD:
  "group_of_team tid gid c = (Inr g, c') \<Longrightarrow> c' = c \<and> g \<in> set (c_channel_groups c) \<and> cg_id g = gid \<and> cg_team_id g = tid"
  by (auto simp: group_of_team_def get_group_by_id_def optional_query_row stmt_eq_Inr bindS_guards
      split: option.splits sum.splits if_splits dest!: first_row_SomeD)

lemma delete_group_body_InrD:
  assumes "healthy c" and "delete_group_body a now uid tid gid c = (Inr (g, affected), c')"
  shows "c_channels c' = update_where (\<lambda>ch. ch_group_id ch = Some gid) (\<lambda>ch. ch\<lparr>ch_group_id := None\<rparr>) (c_channels c)"
    and "affected = map ch_id (rows_where (\<lambda>ch. ch_group_id ch = Some gid) (c_channels c))"
    and "c_channel_role_access c' = c_channel_role_access c" and "healthy c'"
proof -
  from assms obtain s where found: "group_of_team tid gid c = (Inr g, c)"
    and s: "delete_group gid c = (Inr (), s)"
    and c': "c' = snd (insert_audit_event a now tid (Some uid) ''group.delete'' (Some ''group'')
       (Some gid) (Some (JObj [(''name'', JStr (cg_name g))])) s)"
    and aff: "affected = map ch_id (rows_where (\<lambda>ch. ch_group_id ch = Some gid) (c_channels c))"
    by (auto simp: delete_group_body_def group_channels_def stmt_eq_Inr simp del: bindS_readS dest: group_of_team_InrD)
  have "gid \<in> cg_id ` set (c_channel_groups c)" using group_of_team_InrD [OF found] by auto
  with s assms(1) have "c_channels s = update_where (\<lambda>ch. ch_group_id ch = Some gid) (\<lambda>ch. ch\<lparr>ch_group_id := None\<rparr>) (c_channels c)
      \<and> c_channel_role_access s = c_channel_role_access c \<and> healthy s"
    by (auto simp: delete_group_def exec_healthy healthy_def)
  then show "c_channels c' = update_where (\<lambda>ch. ch_group_id ch = Some gid) (\<lambda>ch. ch\<lparr>ch_group_id := None\<rparr>) (c_channels c)"
    and "c_channel_role_access c' = c_channel_role_access c" and "healthy c'"
    by (simp_all add: c' healthy_def insert_audit_event_frame [where P = "\<lambda>c. c_channels c = X" for X]
      insert_audit_event_frame [where P = "\<lambda>c. c_channel_role_access c = X" for X]
      insert_audit_event_frame [where P = "\<lambda>c. c_faults c = X" for X])
  show "affected = map ch_id (rows_where (\<lambda>ch. ch_group_id ch = Some gid) (c_channels c))" by (rule aff)
qed

text \<open>A deleted group takes its gates with it: every channel that was in it survives, is in no group, is
  announced, and from then on gated by its own list alone. A channel that never had a list of its own is
  open to everybody.\<close>

theorem deleted_group_opens_channels:
  assumes "healthy c" and "groups_delete a now uid tid gid c = (Inr (g, affected), c', frames)"
    and "lookup_by ch_id cid (c_channels c) = Some ch" and "ch_group_id ch = Some gid"
  shows "lookup_by ch_id cid (c_channels c') = Some (ch\<lparr>ch_group_id := None\<rparr>) \<and> cid \<in> set affected
    \<and> frames = [group_frame ''group:deleted'' tid g affected]
    \<and> gating_roles c' cid = {rid. (cid, rid) \<in> set (c_channel_role_access c)}
    \<and> ((\<forall>rid. (cid, rid) \<notin> set (c_channel_role_access c)) \<longrightarrow> user_can_access_channel c' v t cid = Inr True)"
proof -
  have body: "delete_group_body a now uid tid gid c = (Inr (g, affected), c')"
    and frames: "frames = [group_frame ''group:deleted'' tid g affected]"
    using assms(2) by (auto simp: groups_delete_def and_send_def map_errH_def spawn_db_def split: prod.splits sum.splits)
  note eff = delete_group_body_InrD [OF assms(1) body]
  have look: "lookup_by ch_id cid (c_channels c') = Some (ch\<lparr>ch_group_id := None\<rparr>)"
    using assms(3,4) by (simp add: eff lookup_by_update_where)
  moreover have "cid \<in> set affected"
    using lookup_by_SomeD [OF assms(3)] assms(4) by (auto simp: eff)
  moreover have gate: "gating_roles c' cid = {rid. (cid, rid) \<in> set (c_channel_role_access c)}"
    using look by (simp add: gating_roles_def lookup_by_def eff)
  moreover have "user_can_access_channel c' v t cid = Inr True" if "\<forall>rid. (cid, rid) \<notin> set (c_channel_role_access c)"
    using gate that eff(4) by (simp add: access_decides may_access_def)
  ultimately show ?thesis by (simp add: frames)
qed

text \<open>Channel \<open>ch\<close> has an own list in the sample, so the one that opens has none.\<close>

theorem deleted_group_opens_channels_witness:
  "user_can_access_channel (sample_grouped\<lparr>c_channel_role_access := []\<rparr>) ''eve'' ''t'' ''ch'' = Inr False
   \<and> user_can_access_channel (fst (snd (groups_delete ''a'' ''now'' ''owner'' ''t'' ''g''
        (sample_grouped\<lparr>c_channel_role_access := []\<rparr>)))) ''eve'' ''t'' ''ch'' = Inr True"
proof
  let ?c = "sample_grouped\<lparr>c_channel_role_access := []\<rparr>"
  let ?r = "groups_delete ''a'' ''now'' ''owner'' ''t'' ''g'' ?c"
  show "user_can_access_channel ?c ''eve'' ''t'' ''ch'' = Inr False" by code_simp
  have h: "healthy ?c" by (simp add: sample_grouped_def sample_conn_def healthy_def empty_conn_def)
  obtain ch where ch: "lookup_by ch_id ''ch'' (c_channels ?c) = Some ch" "ch_group_id ch = Some ''g''"
    by (simp add: sample_grouped_def sample_conn_def)
  have "fst ?r = Inr (sample_group, [''ch''])" by code_simp
  then have "?r = (Inr (sample_group, [''ch'']), fst (snd ?r), snd (snd ?r))" by (metis prod.collapse)
  from deleted_group_opens_channels [OF h this ch, where v = "''eve''" and t = "''t''"]
  show "user_can_access_channel (fst (snd ?r)) ''eve'' ''t'' ''ch'' = Inr True" by simp
qed

end
