(* ===== verification/Channels_Api.thy ===== *)
theory Channels_Api
  imports Channel_Groups
begin

section \<open>The HTTP API of channels\<close>

text \<open>
  \<open>api/channels.rs\<close>. Listing and updating are effects on the database; \<open>set_access\<close> also evicts voice peers,
  so it acts on the world of the voice handlers. The eviction reads the room once and then removes one peer
  after the other, as one step of the model. \<open>lower\<close> is \<open>str::to_lowercase\<close>.
\<close>

subsection \<open>Requests\<close>

record create_channel_request =
  ccr_name :: string
  ccr_topic :: string
  ccr_type :: string
  ccr_category :: string

record update_channel_request =
  ucr_name :: "string option"
  ucr_topic :: "string option"
  ucr_position :: "int option"
  ucr_category :: "string option"
  ucr_locked :: "bool option"
  ucr_hidden_if_restricted :: "bool option"
  ucr_slow_mode_seconds :: "int option"

subsection \<open>Listing\<close>

text \<open>A group's flag overrides the channel's; a hidden channel is listed only to whom may access it.\<close>

definition channel_hidden :: "conn \<Rightarrow> channel \<Rightarrow> bool" where
  "channel_hidden c ch =
     (case Option.bind (ch_group_id ch) (\<lambda>gid. case get_group_by_id c gid of
          Inr (Some g) \<Rightarrow> Some (cg_hidden_if_restricted g) | _ \<Rightarrow> None) of
        Some h \<Rightarrow> h | None \<Rightarrow> ch_hidden_if_restricted ch)"

definition channel_listed :: "conn \<Rightarrow> string \<Rightarrow> string \<Rightarrow> channel \<Rightarrow> bool" where
  "channel_listed c uid tid ch \<longleftrightarrow>
     (channel_hidden c ch \<longrightarrow> unwrap_or (user_can_access_channel c uid tid (ch_id ch)) False)"

definition channel_with_access :: "conn \<Rightarrow> channel \<Rightarrow> json" where
  "channel_with_access c ch = JObj (channel_json ch @ [(''access_role_ids'',
     JArr (map JStr (unwrap_or (get_channel_access_roles c (ch_id ch)) [])))])"

definition channels_list :: "string \<Rightarrow> string \<Rightarrow> json list handler" where
  "channels_list uid tid = spawn_db
     (bindS (readS (\<lambda>c. require_team_member c uid tid)) (\<lambda>_.
      bindS (readS (\<lambda>c. get_channels_by_team c tid)) (\<lambda>all.
      readS (\<lambda>c. Inr (map (channel_with_access c) (filter (channel_listed c uid tid) all))))))"

definition get_channel_for_team :: "conn \<Rightarrow> string \<Rightarrow> string \<Rightarrow> channel db_res" where
  "get_channel_for_team c cid tid =
     bindE (get_channel_by_id c cid) (\<lambda>co. bindE (ok_or co QueryReturnedNoRows) (\<lambda>ch.
       if ch_team_id ch \<noteq> tid then Inl (InvalidParameterName ''channel does not belong to this team'') else Inr ch))"

definition map_not_found_channel :: "app_error \<Rightarrow> app_error" where
  "map_not_found_channel e = (case e of NotFound _ \<Rightarrow> NotFound ''channel not found'' | _ \<Rightarrow> e)"

definition channels_get :: "string \<Rightarrow> string \<Rightarrow> string \<Rightarrow> channel handler" where
  "channels_get uid tid cid = map_errH map_not_found_channel (spawn_db
     (bindS (readS (\<lambda>c. require_team_member c uid tid)) (\<lambda>_. readS (\<lambda>c. get_channel_for_team c cid tid))))"

subsection \<open>Names and groups\<close>

definition channel_name_exists ::
  "(string \<Rightarrow> string) \<Rightarrow> conn \<Rightarrow> string \<Rightarrow> string \<Rightarrow> string \<Rightarrow> string option \<Rightarrow> bool db_res" where
  "channel_name_exists lower c tid name channel_type ignore_id = stmt ''channel_name_exists'' c
     (list_ex (\<lambda>ch. ch_team_id ch = tid \<and> ch_type ch = channel_type
       \<and> sql_lower (sql_trim (ch_name ch)) = lower (trim name) \<and> other_id ignore_id (ch_id ch)) (c_channels c))"

definition map_channel_name_conflict :: "app_error \<Rightarrow> app_error" where
  "map_channel_name_conflict e = (case e of
     Forbidden msg \<Rightarrow> if msg = ''channel_name_conflict''
       then Conflict ''a channel with that name already exists in this team'' else e
   | _ \<Rightarrow> e)"

text \<open>The group a category names: an existing one, whatever the case of its letters, or a new one.\<close>

definition resolve_category :: "string \<Rightarrow> string \<Rightarrow> string \<Rightarrow> string \<Rightarrow> string option db_op" where
  "resolve_category new_id now tid category =
     (let cat = trim category in
      if cat = [] then returnS None
      else bindS (readS (\<lambda>c. get_groups_by_team c tid)) (\<lambda>groups.
        case find (\<lambda>g. eq_ignore_ascii_case (trim (cg_name g)) cat) groups of
          Some g \<Rightarrow> returnS (Some (cg_id g))
        | None \<Rightarrow> bindS (create_group \<lparr>cg_id = new_id, cg_team_id = tid, cg_name = cat, cg_position = 0,
              cg_created_at = now, cg_updated_at = now, cg_hidden_if_restricted = False\<rparr>)
            (\<lambda>_. returnS (Some new_id))))"

definition sync_group_id_from_category :: "string \<Rightarrow> string \<Rightarrow> channel \<Rightarrow> string \<Rightarrow> channel db_op" where
  "sync_group_id_from_category new_id now ch tid =
     bindS (resolve_category new_id now tid (ch_category ch)) (\<lambda>gid. returnS (ch\<lparr>ch_group_id := gid\<rparr>))"

subsection \<open>Creating and updating\<close>

definition create_channel_body ::
  "(string \<Rightarrow> string) \<Rightarrow> string \<Rightarrow> string \<Rightarrow> string \<Rightarrow> string \<Rightarrow> string \<Rightarrow> string \<Rightarrow> string
     \<Rightarrow> create_channel_request \<Rightarrow> channel db_op" where
  "create_channel_body lower new_id group_id audit_id now uid tid trimmed_name body =
     bindS (readS (\<lambda>c. require_permission c uid tid PERM_MANAGE_CHANNELS)) (\<lambda>_.
     bindS (readS (\<lambda>c. channel_name_exists lower c tid trimmed_name (ccr_type body) None)) (\<lambda>taken.
     bindS (refuse_if taken (InvalidParameterName ''channel_name_conflict'')) (\<lambda>_.
     bindS (resolve_category group_id now tid (ccr_category body)) (\<lambda>gid.
     let ch = \<lparr>ch_id = new_id, ch_team_id = tid, ch_name = trimmed_name, ch_topic = ccr_topic body,
           ch_type = ccr_type body, ch_position = 0, ch_category = ccr_category body, ch_created_by = uid,
           ch_created_at = now, ch_updated_at = now, ch_locked = False, ch_hidden_if_restricted = False,
           ch_slow_mode_seconds = 0, ch_group_id = gid\<rparr>
     in bindS (create_channel ch) (\<lambda>_.
        bindS (ignoreS (insert_audit_event audit_id now tid (Some uid) ''channel.create'' (Some ''channel'')
          (Some new_id) (Some (JObj [(''name'', JStr trimmed_name), (''type'', JStr (ccr_type body))])))) (\<lambda>_.
        returnS ch))))))"

definition channels_create ::
  "(string \<Rightarrow> string) \<Rightarrow> string \<Rightarrow> string \<Rightarrow> string \<Rightarrow> string \<Rightarrow> string \<Rightarrow> string \<Rightarrow> create_channel_request
     \<Rightarrow> channel handler" where
  "channels_create lower new_id group_id audit_id now uid tid body c =
     (let trimmed_name = trim (ccr_name body) in
      if trimmed_name = [] then (Inl (BadRequest ''name is required''), c)
      else if chars_count trimmed_name > 100 then (Inl (BadRequest ''name too long (max 100 chars)''), c)
      else if length (ccr_topic body) > 1024 then (Inl (BadRequest ''topic too long (max 1024 chars)''), c)
      else map_errH map_channel_name_conflict
        (spawn_db (create_channel_body lower new_id group_id audit_id now uid tid trimmed_name body)) c)"

definition validate_update_channel_body :: "update_channel_request \<Rightarrow> app_error + unit" where
  "validate_update_channel_body body =
     bindE (case ucr_name body of None \<Rightarrow> Inr ()
       | Some name \<Rightarrow> if trim name = [] then Inl (BadRequest ''name cannot be empty'')
           else if chars_count (trim name) > 100 then Inl (BadRequest ''name too long (max 100 chars)'') else Inr ()) (\<lambda>_.
     case ucr_topic body of None \<Rightarrow> Inr ()
       | Some topic \<Rightarrow> if length topic > 1024 then Inl (BadRequest ''topic too long (max 1024 chars)'') else Inr ())"

definition channel_update_audit_action :: "bool \<Rightarrow> bool \<Rightarrow> string" where
  "channel_update_audit_action prev_locked now_locked =
     (if prev_locked = now_locked then ''channel.update''
      else if now_locked then ''channel.lock'' else ''channel.unlock'')"

definition apply_channel_updates :: "channel \<Rightarrow> update_channel_request \<Rightarrow> channel" where
  "apply_channel_updates ch body = ch\<lparr>
     ch_name := (case ucr_name body of None \<Rightarrow> ch_name ch | Some name \<Rightarrow> trim name),
     ch_topic := (case ucr_topic body of None \<Rightarrow> ch_topic ch | Some topic \<Rightarrow> topic),
     ch_position := (case ucr_position body of None \<Rightarrow> ch_position ch | Some p \<Rightarrow> p),
     ch_category := (case ucr_category body of None \<Rightarrow> ch_category ch | Some cat \<Rightarrow> cat),
     ch_locked := (case ucr_locked body of None \<Rightarrow> ch_locked ch | Some l \<Rightarrow> l),
     ch_hidden_if_restricted := (case ucr_hidden_if_restricted body of None \<Rightarrow> ch_hidden_if_restricted ch | Some h \<Rightarrow> h),
     ch_slow_mode_seconds := (case ucr_slow_mode_seconds body of None \<Rightarrow> ch_slow_mode_seconds ch | Some s \<Rightarrow> max s 0)\<rparr>"

definition update_channel_body ::
  "(string \<Rightarrow> string) \<Rightarrow> string \<Rightarrow> string \<Rightarrow> string \<Rightarrow> string \<Rightarrow> string \<Rightarrow> string \<Rightarrow> update_channel_request \<Rightarrow> channel db_op" where
  "update_channel_body lower group_id audit_id now uid tid cid body =
     bindS (readS (\<lambda>c. require_permission c uid tid PERM_MANAGE_CHANNELS)) (\<lambda>_.
     bindS (readS (\<lambda>c. get_channel_for_team c cid tid)) (\<lambda>old.
     let ch0 = apply_channel_updates old body
     in bindS (if ucr_category body = None then returnS ch0 else sync_group_id_from_category group_id now ch0 tid) (\<lambda>ch.
        bindS (readS (\<lambda>c. if ucr_name body = None then Inr False
          else channel_name_exists lower c tid (ch_name ch) (ch_type ch) (Some (ch_id ch)))) (\<lambda>taken.
        bindS (refuse_if taken (InvalidParameterName ''channel_name_conflict'')) (\<lambda>_.
        bindS (update_channel now ch) (\<lambda>_.
        bindS (ignoreS (insert_audit_event audit_id now tid (Some uid)
          (channel_update_audit_action (ch_locked old) (ch_locked ch)) (Some ''channel'') (Some (ch_id ch))
          (Some (JObj [(''name'', JStr (ch_name ch)), (''locked'', JBool (ch_locked ch))])))) (\<lambda>_.
        returnS ch)))))))"

definition channels_update ::
  "(string \<Rightarrow> string) \<Rightarrow> string \<Rightarrow> string \<Rightarrow> string \<Rightarrow> string \<Rightarrow> string \<Rightarrow> string \<Rightarrow> update_channel_request \<Rightarrow> channel sending" where
  "channels_update lower group_id audit_id now uid tid cid body c = (case validate_update_channel_body body of
     Inl e \<Rightarrow> (Inl e, c, [])
   | Inr _ \<Rightarrow> and_send (map_errH (\<lambda>e. case e of NotFound _ \<Rightarrow> NotFound ''channel not found'' | other \<Rightarrow> map_channel_name_conflict other)
         (spawn_db (update_channel_body lower group_id audit_id now uid tid cid body)))
       (\<lambda>ch. [BroadcastAll (event_new EVENT_CHANNEL_UPDATED (JObj (channel_json ch)))]) c)"

subsection \<open>Access lists\<close>

definition channels_get_access :: "string \<Rightarrow> string \<Rightarrow> string \<Rightarrow> string list handler" where
  "channels_get_access uid tid cid = map_errH map_not_found_channel (spawn_db
     (bindS (readS (\<lambda>c. require_team_member c uid tid)) (\<lambda>_.
      bindS (readS (\<lambda>c. get_channel_for_team c cid tid)) (\<lambda>_.
      readS (\<lambda>c. get_channel_access_roles c cid)))))"

definition check_role_of_team :: "string \<Rightarrow> string \<Rightarrow> conn \<Rightarrow> unit db_res" where
  "check_role_of_team tid rid c = bindE (get_role_by_id c rid) (\<lambda>ro.
     bindE (ok_or ro (InvalidParameterName (''role '' @ rid @ '' not found''))) (\<lambda>role.
       if r_team_id role \<noteq> tid then Inl (InvalidParameterName ''role does not belong to this team'') else Inr ()))"

definition set_channel_access_body ::
  "string \<Rightarrow> string \<Rightarrow> string \<Rightarrow> string \<Rightarrow> string \<Rightarrow> string list \<Rightarrow> string list db_op" where
  "set_channel_access_body audit_id now uid tid cid rids =
     bindS (readS (\<lambda>c. require_permission c uid tid PERM_MANAGE_CHANNELS)) (\<lambda>_.
     bindS (readS (\<lambda>c. get_channel_for_team c cid tid)) (\<lambda>_.
     bindS (for_eachS (\<lambda>rid. readS (check_role_of_team tid rid)) rids) (\<lambda>_.
     bindS (set_channel_access_roles cid rids) (\<lambda>_.
     bindS (ignoreS (insert_audit_event audit_id now tid (Some uid) ''channel.access.update'' (Some ''channel'')
       (Some cid) (Some (JObj [(''role_ids'', JArr (map JStr rids))])))) (\<lambda>_.
     readS (\<lambda>c. get_channel_access_roles c cid))))))"

definition evict_one_inaccessible_peer :: "sfu_port option \<Rightarrow> string \<Rightarrow> string \<Rightarrow> world \<Rightarrow> world" where
  "evict_one_inaccessible_peer sfu cid uid w =
     send_to_user uid (event_new EVENT_VOICE_FORCE_DISCONNECT
         (JObj [(''channel_id'', JStr cid), (''reason'', JStr ''access_revoked'')]))
       (broadcast_to_all (voice_user_left cid uid) (rooms_do (remove_peer cid uid) (sfu_do sfu (SfuLeave cid uid) w)))"

definition losing_access :: "conn \<Rightarrow> string \<Rightarrow> string \<Rightarrow> voice_peer list \<Rightarrow> string list" where
  "losing_access c tid cid peers =
     filter (\<lambda>uid. \<not> unwrap_or (user_can_access_channel c uid tid cid) False) (map vp_user_id peers)"

definition evict_inaccessible_peers :: "sfu_port option \<Rightarrow> string \<Rightarrow> string \<Rightarrow> world \<Rightarrow> world" where
  "evict_inaccessible_peers sfu tid cid w = (case Option.bind (w_rooms w) (\<lambda>rm. get_room rm cid) of
       None \<Rightarrow> w
     | Some peers \<Rightarrow> fold (evict_one_inaccessible_peer sfu cid) (losing_access (w_conn w) tid cid peers) w)"

definition channels_set_access ::
  "sfu_port option \<Rightarrow> string \<Rightarrow> string \<Rightarrow> string \<Rightarrow> string \<Rightarrow> string \<Rightarrow> string list \<Rightarrow> world
     \<Rightarrow> (app_error + string list) \<times> world" where
  "channels_set_access sfu audit_id now uid tid cid rids w =
     (case map_errH map_not_found_channel (spawn_db (set_channel_access_body audit_id now uid tid cid rids)) (w_conn w) of
        (Inl e, c) \<Rightarrow> (Inl e, w\<lparr>w_conn := c\<rparr>)
      | (Inr role_ids, c) \<Rightarrow> (Inr role_ids, evict_inaccessible_peers sfu tid cid
          (broadcast_to_all (event_new ''channel:access-update''
             (JObj [(''channel_id'', JStr cid), (''role_ids'', JArr (map JStr role_ids))])) (w\<lparr>w_conn := c\<rparr>))))"

subsection \<open>Deleting, and the read mark\<close>

definition delete_channel_body :: "string \<Rightarrow> string \<Rightarrow> string \<Rightarrow> string \<Rightarrow> string \<Rightarrow> string db_op" where
  "delete_channel_body audit_id now uid tid cid =
     bindS (readS (\<lambda>c. require_permission c uid tid PERM_MANAGE_CHANNELS)) (\<lambda>_.
     bindS (readS (\<lambda>c. get_channel_for_team c cid tid)) (\<lambda>ch.
     bindS (delete_channel cid) (\<lambda>_.
     bindS (ignoreS (insert_audit_event audit_id now tid (Some uid) ''channel.delete'' (Some ''channel'')
       (Some cid) (Some (JObj [(''name'', JStr (ch_name ch))])))) (\<lambda>_.
     returnS (ch_name ch)))))"

definition channels_delete :: "string \<Rightarrow> string \<Rightarrow> string \<Rightarrow> string \<Rightarrow> string \<Rightarrow> string sending" where
  "channels_delete audit_id now uid tid cid = and_send
     (map_errH map_not_found_channel (spawn_db (delete_channel_body audit_id now uid tid cid)))
     (\<lambda>deleted_name. [BroadcastAll (event_new EVENT_CHANNEL_DELETED
        (JObj [(''channel_id'', JStr cid), (''team_id'', JStr tid), (''name'', JStr deleted_name)]))])"

text \<open>The mark is the newest message that is not deleted, \<open>''''\<close> in an empty channel. Membership of the team is
  all it takes: the access list of the channel is not asked.\<close>

definition mark_read_body :: "string \<Rightarrow> string \<Rightarrow> string \<Rightarrow> string \<Rightarrow> json db_op" where
  "mark_read_body now uid tid cid =
     bindS (readS (\<lambda>c. require_team_member c uid tid)) (\<lambda>_.
     bindS (readS (\<lambda>c. get_channel_for_team c cid tid)) (\<lambda>_.
     bindS (readS (\<lambda>c. optional (query_row ''mark_read_latest'' c (map msg_id (newest 1
       (rows_where (\<lambda>m. msg_channel_id m = cid \<and> cid \<noteq> [] \<and> \<not> msg_deleted m) (c_messages c))))))) (\<lambda>latest.
     let message_id = (case latest of None \<Rightarrow> '''' | Some mid \<Rightarrow> mid)
     in bindS (mark_channel_read now uid cid message_id) (\<lambda>_.
     bindS (readS (\<lambda>c. optional (query_row ''mark_read_at'' c
       (map (\<lambda>(_, _, at). at) (rows_where (\<lambda>p. fst p = (uid, cid)) (c_channel_reads c)))))) (\<lambda>read_at.
     returnS (JObj [(''last_read_message_id'', JStr message_id),
       (''last_read_at'', JStr (case read_at of None \<Rightarrow> '''' | Some at \<Rightarrow> at))]))))))"

definition channels_mark_read :: "string \<Rightarrow> string \<Rightarrow> string \<Rightarrow> string \<Rightarrow> json handler" where
  "channels_mark_read now uid tid cid = spawn_db (mark_read_body now uid tid cid)"

subsection \<open>What the schema keeps\<close>

definition channel_lists_wf :: "conn \<Rightarrow> bool" where
  "channel_lists_wf c \<longleftrightarrow> refs fst (c_channel_role_access c) ch_id (c_channels c)
     \<and> refs snd (c_channel_role_access c) r_id (c_roles c) \<and> distinct (c_channel_role_access c)"

definition channel_tables_wf :: "conn \<Rightarrow> bool" where
  "channel_tables_wf c \<longleftrightarrow> wf_chat c \<and> groups_wf c \<and> channel_lists_wf c"

lemma channel_lists_audit: "channel_lists_wf (snd (insert_audit_event i n t a ac tt ti d c)) = channel_lists_wf c"
  by (rule insert_audit_event_frame) (simp add: channel_lists_wf_def)

interpretation channel_tables_kept: kept_property channel_tables_wf
  by unfold_locales (simp add: channel_tables_wf_def wf_chat_audit groups_wf_audit channel_lists_audit)

text \<open>Statements on groups leave the chat tables alone, but for the cascade of a deletion.\<close>

lemma chat_frame_groups: "wf_chat (c\<lparr>c_channel_groups := gs, c_group_role_access := ps\<rparr>) = wf_chat c"
  "wf_chat (c\<lparr>c_channel_groups := gs\<rparr>) = wf_chat c" "wf_chat (c\<lparr>c_group_role_access := ps\<rparr>) = wf_chat c"
  "wf_chat (c\<lparr>c_channel_role_access := ps\<rparr>) = wf_chat c"
  by (simp_all add: wf_chat_def)

lemma wf_chat_create_group: "wf_chat c \<Longrightarrow> wf_chat (snd (create_group g c))"
  unfolding create_group_def by (rule exec_cases_if) (simp_all add: chat_frame_groups)

lemma wf_chat_update_group: "wf_chat c \<Longrightarrow> wf_chat (snd (update_group g c))"
  unfolding update_group_def Let_def by (rule exec_cases_if) (simp_all add: chat_frame_groups)

lemma wf_chat_set_group_roles: "wf_chat c \<Longrightarrow> wf_chat (snd (set_group_access_roles gid rids c))"
  unfolding set_group_access_roles_def
  by (intro bindS_keeps [where P = wf_chat] for_eachS_keeps [where P = wf_chat])
    (auto intro!: exec_cases [where P = wf_chat] simp: chat_frame_groups split: if_splits)

lemma wf_chat_delete_group:
  assumes "wf_chat c" shows "wf_chat (snd (delete_group gid c))"
proof -
  let ?chs = "update_where (\<lambda>ch. ch_group_id ch = Some gid) (\<lambda>ch. ch\<lparr>ch_group_id := None\<rparr>) (c_channels c)"
  let ?c = "c\<lparr>c_channel_groups := delete_where (\<lambda>g. cg_id g = gid) (c_channel_groups c),
      c_group_role_access := delete_where (\<lambda>p. fst p = gid) (c_group_role_access c)\<rparr>"
  have "map channel_key ?chs = map channel_key (c_channels c)"
    by (rule map_update_where) (simp add: channel_key_def)
  then have keys: "distinct (map channel_key ?chs)" using assms by (simp add: wf_chat_def)
  have chs: "c_channels ?c = c_channels c" by simp
  have "wf_chat (?c\<lparr>c_channels := ?chs\<rparr>)"
    using assms keys by (intro wf_chat_channels) (simp_all add: chat_frame_groups map_update_where)
  then show ?thesis
    unfolding delete_group_def by (rule exec_cases_skip) (rule assms)
qed

lemma lists_frame:
  "channel_lists_wf (c\<lparr>c_channel_groups := gs\<rparr>) = channel_lists_wf c"
  "channel_lists_wf (c\<lparr>c_group_role_access := ps\<rparr>) = channel_lists_wf c"
  by (simp_all add: channel_lists_wf_def)

lemma channel_lists_create_group: "channel_lists_wf c \<Longrightarrow> channel_lists_wf (snd (create_group g c))"
  unfolding create_group_def by (rule exec_cases_if) (simp_all add: lists_frame)

lemma channel_lists_update_group: "channel_lists_wf c \<Longrightarrow> channel_lists_wf (snd (update_group g c))"
  unfolding update_group_def Let_def by (rule exec_cases_if) (simp_all add: lists_frame)

lemma channel_lists_delete_group: "channel_lists_wf c \<Longrightarrow> channel_lists_wf (snd (delete_group gid c))"
  unfolding delete_group_def
  by (rule exec_cases_skip) (simp_all add: channel_lists_wf_def refs_update_parent)

lemma channel_lists_set_group_roles: "channel_lists_wf c \<Longrightarrow> channel_lists_wf (snd (set_group_access_roles gid rids c))"
  unfolding set_group_access_roles_def
  by (intro bindS_keeps [where P = channel_lists_wf] for_eachS_keeps [where P = channel_lists_wf])
    (auto intro!: exec_cases [where P = channel_lists_wf] simp: lists_frame split: if_splits)

text \<open>Statements on channels.\<close>

lemma groups_wf_create_channel: "groups_wf c \<Longrightarrow> groups_wf (snd (create_channel ch c))"
  unfolding create_channel_def
  by (rule exec_cases_if) (auto simp: groups_wf_def split: option.splits)

lemma lists_create_channel: "channel_lists_wf c \<Longrightarrow> channel_lists_wf (snd (create_channel ch c))"
  unfolding create_channel_def
  by (rule exec_cases_if) (simp_all add: channel_lists_wf_def refs_append_parent)

lemma tables_create_channel: "channel_tables_wf c \<Longrightarrow> channel_tables_wf (snd (create_channel ch c))"
  by (simp add: channel_tables_wf_def wf_create_channel groups_wf_create_channel lists_create_channel)

lemma tables_set_channel_roles: "channel_tables_wf c \<Longrightarrow> channel_tables_wf (snd (set_channel_access_roles cid rids c))"
proof -
  let ?P = channel_tables_wf
  have del: "?P c \<Longrightarrow> ?P (c\<lparr>c_channel_role_access := delete_where (\<lambda>p. fst p = cid) (c_channel_role_access c)\<rparr>)" for c
    by (auto simp: channel_tables_wf_def chat_frame_groups groups_wf_def channel_lists_wf_def refs_delete_child)
  have ins: "?P c \<Longrightarrow> ?P (snd (exec f (\<lambda>c.
        if (cid, rid) \<in> set (c_channel_role_access c) then Some c
        else if cid \<notin> ch_id ` set (c_channels c) \<or> rid \<notin> r_id ` set (c_roles c) then None
        else Some (c\<lparr>c_channel_role_access := c_channel_role_access c @ [(cid, rid)]\<rparr>)) c))" for c f rid
    by (rule exec_cases)
      (auto simp: channel_tables_wf_def chat_frame_groups groups_wf_def channel_lists_wf_def split: if_splits)
  assume "?P c"
  then show ?thesis
    unfolding set_channel_access_roles_def
    by (intro bindS_keeps [where P = ?P] for_eachS_keeps [where P = ?P] ins) (auto intro!: exec_cases [where P = ?P] del)
qed

lemma groups_wf_update_channel: "groups_wf c \<Longrightarrow> groups_wf (snd (update_channel now ch c))"
  unfolding update_channel_def Let_def
proof (rule exec_cases_if)
  assume wf: "groups_wf c" and ok: "\<not> (ch_id ch \<in> ch_id ` set (c_channels c) \<and> (\<not> distinct (map channel_key
      (update_where (\<lambda>x. ch_id x = ch_id ch) (edit_channel_row now ch) (c_channels c)))
      \<or> (case ch_group_id ch of None \<Rightarrow> False | Some g \<Rightarrow> g \<notin> cg_id ` set (c_channel_groups c))))"
  have "g \<in> cg_id ` set (c_channel_groups c)"
    if x: "x \<in> set (c_channels c)" and g: "ch_group_id (if ch_id x = ch_id ch then edit_channel_row now ch x else x) = Some g" for x g
  proof (cases "ch_id x = ch_id ch")
    case True
    with x have "ch_id ch \<in> ch_id ` set (c_channels c)" by (metis imageI)
    with ok True g show ?thesis by (simp add: edit_channel_row_def)
  next
    case False
    with x g wf show ?thesis by (simp add: groups_wf_def)
  qed
  with wf show "groups_wf (c\<lparr>c_channels := update_where (\<lambda>x. ch_id x = ch_id ch) (edit_channel_row now ch) (c_channels c)\<rparr>)"
    by (simp add: groups_wf_def ball_update_where del: set_update_where)
qed

lemma lists_update_channel: "channel_lists_wf c \<Longrightarrow> channel_lists_wf (snd (update_channel now ch c))"
  unfolding update_channel_def Let_def
  by (rule exec_cases_if) (simp_all add: channel_lists_wf_def refs_update_parent)

lemma tables_update_channel: "channel_tables_wf c \<Longrightarrow> channel_tables_wf (snd (update_channel now ch c))"
  by (simp add: channel_tables_wf_def wf_update_channel groups_wf_update_channel lists_update_channel)

lemma tables_group_ops:
  "channel_tables_wf c \<Longrightarrow> channel_tables_wf (snd (create_group g c))"
  "channel_tables_wf c \<Longrightarrow> channel_tables_wf (snd (update_group g c))"
  "channel_tables_wf c \<Longrightarrow> channel_tables_wf (snd (delete_group gid c))"
  "channel_tables_wf c \<Longrightarrow> channel_tables_wf (snd (set_group_access_roles gid rids c))"
  by (simp_all add: channel_tables_wf_def wf_chat_create_group wf_chat_update_group wf_chat_delete_group
      wf_chat_set_group_roles groups_wf_create groups_wf_update groups_wf_delete groups_wf_set_roles
      channel_lists_create_group channel_lists_update_group channel_lists_delete_group channel_lists_set_group_roles)

text \<open>The cascade of a deleted channel.\<close>

lemma wf_delete_channel:
  assumes "wf_chat c" shows "wf_chat (snd (delete_channel cid c))"
proof -
  let ?c = "drop_messages (\<lambda>m. msg_channel_id m = cid) c"
  let ?left = "delete_where (\<lambda>ch. ch_id ch = cid) (c_channels ?c)"
  have wf: "wf_chat ?c" using assms by (rule wf_drop_messages)
  have "opt_refs msg_channel_id (delete_where (\<lambda>m. msg_channel_id m = cid) (c_messages c)) ch_id
      (delete_where (\<lambda>ch. ch_id ch = cid) (c_channels c))"
    using assms by (intro opt_refs_cascade) (auto simp: wf_chat_def)
  then have msgs: "opt_refs msg_channel_id (c_messages ?c) ch_id ?left"
    by (simp add: drop_messages_def Let_def opt_refs_update_child)
  have threads: "refs th_channel_id (delete_where (\<lambda>t. th_channel_id t = cid) (c_threads ?c)) ch_id ?left"
    using wf by (intro refs_cascade) (auto simp: wf_chat_def)
  show ?thesis
    unfolding delete_channel_def Let_def
  proof (rule exec_cases_skip)
    show "wf_chat (?c\<lparr>c_channels := ?left, c_threads := delete_where (\<lambda>t. th_channel_id t = cid) (c_threads ?c),
        c_channel_role_access := delete_where (\<lambda>p. fst p = cid) (c_channel_role_access ?c),
        c_pins := delete_where (\<lambda>p. pm_channel_id p = cid) (c_pins ?c)\<rparr>)"
      using wf msgs threads unfolding wf_chat_def by (simp add: refs_delete_child)
  qed (rule assms)
qed

lemma tables_delete_channel: "channel_tables_wf c \<Longrightarrow> channel_tables_wf (snd (delete_channel cid c))"
proof -
  assume wf: "channel_tables_wf c"
  have "refs fst (delete_where (\<lambda>p. fst p = cid) (c_channel_role_access c)) ch_id
      (delete_where (\<lambda>ch. ch_id ch = cid) (c_channels c))"
    using wf by (intro refs_cascade) (auto simp: channel_tables_wf_def channel_lists_wf_def)
  with wf have "groups_wf (snd (delete_channel cid c)) \<and> channel_lists_wf (snd (delete_channel cid c))"
    unfolding delete_channel_def Let_def
    by (intro exec_cases_skip [where P = "\<lambda>c. groups_wf c \<and> channel_lists_wf c"])
      (auto simp: channel_tables_wf_def groups_wf_def channel_lists_wf_def drop_messages_def Let_def refs_delete_child)
  with wf show ?thesis by (simp add: channel_tables_wf_def wf_delete_channel)
qed

lemma tables_mark_read: "channel_tables_wf c \<Longrightarrow> channel_tables_wf (snd (mark_channel_read now uid cid mid c))"
  unfolding mark_channel_read_def
  by (rule exec_cases_if) (simp_all add: channel_tables_wf_def wf_chat_def groups_wf_def channel_lists_wf_def)

lemmas tables_chain = channel_tables_kept.chain tables_create_channel tables_update_channel
  tables_set_channel_roles tables_group_ops tables_delete_channel tables_mark_read

subsection \<open>Who may call, and who is evicted\<close>

text \<open>The eviction, peer by peer.\<close>

lemma evict_one_sel [simp]:
  "w_conn (evict_one_inaccessible_peer sfu cid uid w) = w_conn w"
  "w_rooms (evict_one_inaccessible_peer sfu cid uid w) = map_option (remove_peer cid uid) (w_rooms w)"
  by (simp_all add: evict_one_inaccessible_peer_def send_defs)

lemma evict_each_sel:
  "w_conn (fold (evict_one_inaccessible_peer sfu cid) uids w) = w_conn w"
  "w_rooms (fold (evict_one_inaccessible_peer sfu cid) uids w) = map_option (fold (remove_peer cid) uids) (w_rooms w)"
  by (induction uids arbitrary: w) (simp_all add: option.map_comp comp_def option.map_id)

lemma peer_in_remove_each:
  "peer_in (fold (remove_peer cid) uids rm) ch u = (if ch = cid \<and> u \<in> set uids then None else peer_in rm ch u)"
  by (induction uids arbitrary: rm) (auto simp: peer_in_remove_peer)

lemma peer_in_room:
  assumes "room_wf rm" and "peer_in rm cid u = Some p"
  shows "\<exists>peers. get_room rm cid = Some peers \<and> u \<in> set (map vp_user_id peers)"
proof -
  from assms(2) obtain ps where ps: "map_of (rm_rooms rm) cid = Some ps" "map_of ps u = Some p"
    by (auto simp: peer_in_def bind_eq_Some_conv)
  with assms(1) have "vp_user_id p = u" "(u, p) \<in> set ps" by (auto simp: room_wf_def peers_ok_def dest: map_of_SomeD)
  with ps show ?thesis by (force simp: get_room_def)
qed

lemma evict_inaccessible_rooms:
  assumes "w_rooms w = Some rm" and "room_wf rm"
  shows "\<exists>rm'. w_rooms (evict_inaccessible_peers sfu tid cid w) = Some rm'
    \<and> (\<forall>ch u. peer_in rm' ch u = (if ch = cid \<and> user_can_access_channel (w_conn w) u tid cid \<noteq> Inr True
         then None else peer_in rm ch u))"
proof (cases "get_room rm cid")
  case None
  then have "peer_in rm cid u = None" for u
    using peer_in_room [OF assms(2), of cid u] by (cases "peer_in rm cid u") simp_all
  with assms(1) None show ?thesis by (auto simp: evict_inaccessible_peers_def)
next
  case (Some peers)
  have denied: "\<not> unwrap_or (user_can_access_channel (w_conn w) u tid cid) False
      \<longleftrightarrow> user_can_access_channel (w_conn w) u tid cid \<noteq> Inr True" for u
    by (cases "user_can_access_channel (w_conn w) u tid cid") simp_all
  have "peer_in rm cid u = None" if "u \<notin> vp_user_id ` set peers" for u
    using peer_in_room [OF assms(2), of cid u] Some that by (cases "peer_in rm cid u") simp_all
  with assms(1) Some show ?thesis
    by (auto simp: evict_inaccessible_peers_def evict_each_sel peer_in_remove_each losing_access_def denied)
qed

lemma evict_inaccessible_conn [simp]: "w_conn (evict_inaccessible_peers sfu tid cid w) = w_conn w"
  by (simp add: evict_inaccessible_peers_def evict_each_sel split: option.split)

subsection \<open>Properties\<close>

text \<open>C38. The administration of channels and groups is behind one permission: without it (and without owning
  the team) a request to create, edit or delete a channel or a group, or to set the access list of one, is refused,
  changes no table, no voice room, and nobody is told anything. The read mark is not administration: every member
  sets the own one.\<close>

theorem channel_admin_authorized:
  assumes "\<not> holds_permission c uid tid PERM_MANAGE_CHANNELS"
  shows "refuses c (channels_create lower n g a now uid tid cbody c)
    \<and> sends_nothing c (channels_update lower g a now uid tid cid ubody c)
    \<and> (\<exists>e. channels_set_access sfu a now uid tid cid rids (w\<lparr>w_conn := c\<rparr>) = (Inl e, w\<lparr>w_conn := c\<rparr>))
    \<and> sends_nothing c (channels_delete a now uid tid cid c)
    \<and> sends_nothing c (groups_create lower n a now uid tid gname c)
    \<and> sends_nothing c (groups_update lower a now uid tid gid gbody c)
    \<and> sends_nothing c (groups_delete a now uid tid gid c)
    \<and> sends_nothing c (groups_set_access a now uid tid gid sbody c)"
proof -
  have access: "refuses c (map_errH map_not_found_channel (spawn_db (set_channel_access_body a now uid tid cid rids)) c)"
    unfolding set_channel_access_body_def using assms by (intro refuses_intros)
  have "refuses c (channels_create lower n g a now uid tid cbody c)"
    unfolding channels_create_def create_channel_body_def Let_def using assms by (intro refuses_intros)
  moreover have "sends_nothing c (channels_update lower g a now uid tid cid ubody c)"
    using assms unfolding channels_update_def update_channel_body_def
    by (auto split: sum.split intro!: sends_nothing_intros)
  moreover have "\<exists>e. channels_set_access sfu a now uid tid cid rids (w\<lparr>w_conn := c\<rparr>) = (Inl e, w\<lparr>w_conn := c\<rparr>)"
  proof -
    obtain e where "map_errH map_not_found_channel (spawn_db (set_channel_access_body a now uid tid cid rids)) c = (Inl e, c)"
      using access unfolding refuses_def by (metis prod.collapse)
    then show ?thesis by (simp add: channels_set_access_def)
  qed
  moreover have "sends_nothing c (channels_delete a now uid tid cid c)"
    unfolding channels_delete_def delete_channel_body_def using assms by (intro sends_nothing_intros)
  moreover have "sends_nothing c (groups_create lower n a now uid tid gname c)"
    using assms unfolding groups_create_def create_group_body_def Let_def by (intro sends_nothing_intros)
  moreover have "sends_nothing c (groups_update lower a now uid tid gid gbody c)"
    using assms unfolding groups_update_def update_group_body_def
    by (auto split: sum.split intro!: sends_nothing_intros)
  moreover have "sends_nothing c (groups_delete a now uid tid gid c)"
    unfolding groups_delete_def delete_group_body_def using assms by (intro sends_nothing_intros)
  moreover have "sends_nothing c (groups_set_access a now uid tid gid sbody c)"
    unfolding groups_set_access_def set_group_access_body_def using assms by (intro sends_nothing_intros)
  ultimately show ?thesis by blast
qed

theorem channel_admin_authorized_witness:
  "sends_nothing sample_grouped (groups_delete ''a'' ''now'' ''eve'' ''t'' ''g'' sample_grouped)"
  using channel_admin_authorized [of sample_grouped "''eve''" "''t''"]
  by (simp add: holds_permission_def owns_team_def held_roles_def sample_grouped_def sample_conn_def empty_conn_def)

text \<open>C39. The endpoints of channels and of groups (create, update, delete, access list, read mark) keep the
  tables well formed, failed requests included:
  ids are unique, no two channels of a team and type and no two groups of a team have the same normalised
  name, and every reference of a channel, a message, a thread, a gate or a group names an existing row.\<close>

theorem channel_tables_typed:
  assumes "channel_tables_wf c"
  shows "channel_tables_wf (snd (channels_create lower n g a now uid tid cbody c))
    \<and> channel_tables_wf (fst (snd (channels_update lower g a now uid tid cid ubody c)))
    \<and> channel_tables_wf (w_conn (snd (channels_set_access sfu a now uid tid cid rids (w\<lparr>w_conn := c\<rparr>))))
    \<and> channel_tables_wf (fst (snd (channels_delete a now uid tid cid c)))
    \<and> channel_tables_wf (snd (channels_mark_read now uid tid cid c))
    \<and> channel_tables_wf (fst (snd (groups_create lower n a now uid tid gname c)))
    \<and> channel_tables_wf (fst (snd (groups_update lower a now uid tid gid gbody c)))
    \<and> channel_tables_wf (fst (snd (groups_delete a now uid tid gid c)))
    \<and> channel_tables_wf (fst (snd (groups_set_access a now uid tid gid sbody c)))"
proof -
  have cat: "channel_tables_wf s \<Longrightarrow> channel_tables_wf (snd (resolve_category i now tid x s))" for i x s
    unfolding resolve_category_def Let_def by (intro tables_chain; assumption)
  have "channel_tables_wf (snd (create_channel_body lower n g a now uid tid x cbody c))" for x
    unfolding create_channel_body_def Let_def using assms by - (intro tables_chain cat; assumption)
  moreover have "channel_tables_wf (snd (update_channel_body lower g a now uid tid cid ubody c))"
    unfolding update_channel_body_def sync_group_id_from_category_def Let_def
    using assms by - (intro tables_chain cat; assumption)
  moreover have "channel_tables_wf (snd (set_channel_access_body a now uid tid cid rids c))"
    unfolding set_channel_access_body_def using assms by - (intro tables_chain; assumption)
  moreover have "channel_tables_wf (snd (delete_channel_body a now uid tid cid c))"
    unfolding delete_channel_body_def using assms by - (intro tables_chain; assumption)
  moreover have "channel_tables_wf (snd (mark_read_body now uid tid cid c))"
    unfolding mark_read_body_def Let_def using assms by - (intro tables_chain; assumption)
  moreover have "channel_tables_wf (snd (create_group_body lower n a now uid tid x c))" for x
    unfolding create_group_body_def Let_def using assms by - (intro tables_chain; assumption)
  moreover have "channel_tables_wf (snd (update_group_body lower a now uid tid gid gbody c))"
    unfolding update_group_body_def group_of_team_def Let_def using assms by - (intro tables_chain; assumption)
  moreover have "channel_tables_wf (snd (delete_group_body a now uid tid gid c))"
    unfolding delete_group_body_def group_of_team_def using assms by - (intro tables_chain; assumption)
  moreover have "channel_tables_wf (snd (set_group_access_body a now uid tid gid sbody c))"
    unfolding set_group_access_body_def finish_group_access_def group_of_team_def Let_def
    using assms by - (intro tables_chain; assumption)
  moreover have "w_conn (snd (channels_set_access sfu a now uid tid cid rids (w\<lparr>w_conn := c\<rparr>)))
      = snd (set_channel_access_body a now uid tid cid rids c)"
    by (auto simp: channels_set_access_def map_errH_def spawn_db_def send_defs split: prod.split sum.split)
  ultimately show ?thesis
    by (simp add: channels_create_def channels_update_def channels_delete_def channels_mark_read_def groups_create_def groups_update_def groups_delete_def
        groups_set_access_def and_send_sel assms Let_def split: sum.split)
qed

lemma sample_grouped_tables: "channel_tables_wf sample_grouped"
  by (simp add: channel_tables_wf_def sample_grouped_wf, rule conjI)
    (simp_all add: wf_chat_def channel_lists_wf_def sample_grouped_def sample_conn_def empty_conn_def refs_def)

theorem channel_tables_typed_witness:
  "channel_tables_wf (fst (snd (groups_delete ''a'' ''now'' ''owner'' ''t'' ''g'' sample_grouped)))"
  using channel_tables_typed [OF sample_grouped_tables] by blast

text \<open>What a member sees: exactly the channels of the team, in order, but for those that are hidden (by
  their group's flag, or their own when they are in no group) and that the access policy denies. A caller who
  is no member sees nothing.\<close>

theorem channels_list_exact:
  assumes "healthy c" and "groups_wf c"
  shows "fst (channels_list uid tid c) = (if is_member c uid tid
    then Inr (map (channel_with_access c)
      (filter (\<lambda>ch. (case ch_group_id ch of None \<Rightarrow> ch_hidden_if_restricted ch
          | Some gid \<Rightarrow> \<exists>g \<in> set (c_channel_groups c). cg_id g = gid \<and> cg_hidden_if_restricted g)
            \<longrightarrow> may_access c uid tid (ch_id ch))
        (sort_key ch_position (sort_key ch_created_at (filter (\<lambda>ch. ch_team_id ch = tid) (c_channels c))))))
    else Inl (Forbidden ''not a member of this team''))"
proof -
  have hidden: "channel_hidden c ch = (case ch_group_id ch of None \<Rightarrow> ch_hidden_if_restricted ch
      | Some gid \<Rightarrow> \<exists>g \<in> set (c_channel_groups c). cg_id g = gid \<and> cg_hidden_if_restricted g)"
    if "ch \<in> set (c_channels c)" for ch
  proof (cases "ch_group_id ch")
    case (Some gid)
    then obtain g where g: "g \<in> set (c_channel_groups c)" "cg_id g = gid"
      using assms(2) \<open>ch \<in> set (c_channels c)\<close> by (auto simp: groups_wf_def)
    have d: "distinct (map cg_id (c_channel_groups c))" using assms(2) by (simp add: groups_wf_def)
    from lookup_by_unique [OF d g(1)] g(2) have "lookup_by cg_id gid (c_channel_groups c) = Some g" by simp
    then have "channel_hidden c ch = cg_hidden_if_restricted g"
      using Some assms(1) by (simp add: channel_hidden_def get_group_by_id_def lookup_by_def)
    moreover have "(\<exists>g' \<in> set (c_channel_groups c). cg_id g' = gid \<and> cg_hidden_if_restricted g') = cg_hidden_if_restricted g"
      using d g by (metis distinct_map inj_onD)
    ultimately show ?thesis using Some by simp
  qed (simp add: channel_hidden_def)
  have listed: "channel_listed c uid tid ch \<longleftrightarrow> (channel_hidden c ch \<longrightarrow> may_access c uid tid (ch_id ch))" for ch
    using assms(1) by (simp add: channel_listed_def access_decides)
  let ?all = "sort_key ch_position (sort_key ch_created_at (filter (\<lambda>ch. ch_team_id ch = tid) (c_channels c)))"
  have same: "filter (channel_listed c uid tid) ?all = filter (\<lambda>ch. (case ch_group_id ch of None \<Rightarrow> ch_hidden_if_restricted ch
          | Some gid \<Rightarrow> \<exists>g \<in> set (c_channel_groups c). cg_id g = gid \<and> cg_hidden_if_restricted g)
            \<longrightarrow> may_access c uid tid (ch_id ch)) ?all"
    by (rule filter_cong [OF refl]) (simp only: listed hidden set_sort set_filter mem_Collect_eq)
  show ?thesis
    using assms(1) unfolding same [symmetric]
    by (simp add: channels_list_def spawn_db_result require_team_member_healthy get_channels_by_team_def rows_where_def map_db_error_def)
qed

theorem channels_list_exact_witness:
  "fst (channels_list ''bob'' ''t'' (sample_grouped\<lparr>c_member_roles := []\<rparr>)) = Inr []
    \<and> is_member (sample_grouped\<lparr>c_member_roles := []\<rparr>) ''bob'' ''t''"
proof
  let ?c = "sample_grouped\<lparr>c_member_roles := []\<rparr>"
  have h: "healthy ?c" by (simp add: sample_grouped_def sample_conn_def healthy_def empty_conn_def)
  have wf: "groups_wf ?c" using sample_grouped_wf by (simp add: groups_wf_def)
  show m: "is_member ?c ''bob'' ''t''"
    by (simp add: is_member_def sample_grouped_def sample_conn_def)
  have "filter (\<lambda>ch. (case ch_group_id ch of None \<Rightarrow> ch_hidden_if_restricted ch
          | Some gid \<Rightarrow> \<exists>g \<in> set (c_channel_groups ?c). cg_id g = gid \<and> cg_hidden_if_restricted g)
            \<longrightarrow> may_access ?c ''bob'' ''t'' (ch_id ch))
        (sort_key ch_position (sort_key ch_created_at (filter (\<lambda>ch. ch_team_id ch = ''t'') (c_channels ?c)))) = []"
    by (simp add: sample_grouped_def sample_group_def sample_conn_def may_access_def gating_roles_def owns_team_def
        default_role_id_def)
  with channels_list_exact [OF h wf, of "''bob''" "''t''"] m
  show "fst (channels_list ''bob'' ''t'' ?c) = Inr []" by simp
qed

text \<open>After the access list of a channel has been changed, nobody sits in its voice room whom the new policy
  denies: exactly those peers are removed, from this room only, and everybody who may stay does.\<close>

theorem access_change_evicts:
  assumes "w_rooms w = Some rm" and "room_wf rm"
    and "channels_set_access sfu a now uid tid cid rids w = (Inr role_ids, w')"
  shows "\<exists>rm'. w_rooms w' = Some rm'
    \<and> (\<forall>ch u. peer_in rm' ch u = (if ch = cid \<and> user_can_access_channel (w_conn w') u tid cid \<noteq> Inr True
         then None else peer_in rm ch u))"
proof -
  from assms(3) obtain c where w': "w' = evict_inaccessible_peers sfu tid cid
      (broadcast_to_all (event_new ''channel:access-update''
             (JObj [(''channel_id'', JStr cid), (''role_ids'', JArr (map JStr role_ids))])) (w\<lparr>w_conn := c\<rparr>))"
    by (auto simp: channels_set_access_def split: prod.splits sum.splits)
  show ?thesis
    unfolding w' evict_inaccessible_conn
    by (rule evict_inaccessible_rooms) (simp_all add: assms(1,2) send_defs)
qed

text \<open>Eve sits in \<open>ch\<close> while the owner restricts it to the role \<open>mod\<close>, which she does not hold.\<close>

definition sample_call :: world where
  "sample_call = \<lparr>w_conn = sample_conn\<lparr>c_channel_role_access := []\<rparr>,
     w_rooms = Some (snd (add_peer ''ch'' ''eve'' ''eve'' ''t'' room_new)), w_out = [], w_sfu = []\<rparr>"

theorem access_change_evicts_witness:
  "peer_in (snd (add_peer ''ch'' ''eve'' ''eve'' ''t'' room_new)) ''ch'' ''eve'' \<noteq> None
    \<and> (\<exists>rm'. w_rooms (snd (channels_set_access None ''a'' ''now'' ''owner'' ''t'' ''ch'' [''mod''] sample_call)) = Some rm'
        \<and> peer_in rm' ''ch'' ''eve'' = None)"
proof
  let ?r = "channels_set_access None ''a'' ''now'' ''owner'' ''t'' ''ch'' [''mod''] sample_call"
  have wf: "room_wf (snd (add_peer ''ch'' ''eve'' ''eve'' ''t'' room_new))"
    by (rule room_wf_add_peer) (simp add: room_wf_def room_new_def)
  have rooms: "w_rooms sample_call = Some (snd (add_peer ''ch'' ''eve'' ''eve'' ''t'' room_new))"
    by (simp add: sample_call_def)
  have "fst ?r = Inr [''mod'']" by code_simp
  then have r: "?r = (Inr [''mod''], snd ?r)" by (metis prod.collapse)
  have "user_can_access_channel (w_conn (snd ?r)) ''eve'' ''t'' ''ch'' = Inr False" by code_simp
  with access_change_evicts [OF rooms wf r]
  show "\<exists>rm'. w_rooms (snd ?r) = Some rm' \<and> peer_in rm' ''ch'' ''eve'' = None" by auto
  show "peer_in (snd (add_peer ''ch'' ''eve'' ''eve'' ''t'' room_new)) ''ch'' ''eve'' \<noteq> None" by code_simp
qed

end
