(* ===== verification/Dms_Api.thy ===== *)
theory Dms_Api
  imports Api_Kit
begin

section \<open>The HTTP API of direct messages\<close>

text \<open>
  \<open>api/dms.rs\<close>. Every member of a conversation is told by a frame of their own, in the order of the member
  table. The team id of the path is ignored by all handlers but creation and listing, as in the code.
\<close>

subsection \<open>Guards and rendering\<close>

definition require_dm_member :: "conn \<Rightarrow> string \<Rightarrow> string \<Rightarrow> unit db_res" where
  "require_dm_member c did uid = bindE (is_dm_member c did uid) (\<lambda>ok.
     if \<not> ok then Inl (InvalidParameterName ''not a member of this DM'') else Inr ())"

definition dm_peer_json :: "conn \<Rightarrow> dm_member \<Rightarrow> json db_res" where
  "dm_peer_json c m = bindE (get_user_by_id c (dmm_user_id m)) (\<lambda>uo.
     let names = (case uo of Some u \<Rightarrow> (u_username u, u_display_name u) | None \<Rightarrow> ([], []))
     in Inr (JObj [(''user_id'', JStr (dmm_user_id m)), (''username'', JStr (fst names)),
          (''display_name'', JStr (snd names))]))"

definition enrich_dm_channel :: "conn \<Rightarrow> dm_channel \<Rightarrow> json db_res" where
  "enrich_dm_channel c dm = bindE (get_dm_members c (dm_id dm)) (\<lambda>members.
     bindE (mapE (dm_peer_json c) members) (\<lambda>enriched.
     Inr (JObj [(''id'', JStr (dm_id dm)), (''team_id'', JStr (dm_team_id dm)),
       (''is_group'', JBool (dm_type dm = ''group_dm'')), (''name'', JStr (dm_name dm)),
       (''members'', JArr enriched), (''created_at'', JStr (dm_created_at dm))])))"

definition dm_member_ids :: "conn \<Rightarrow> string \<Rightarrow> string list db_res" where
  "dm_member_ids c did = bindE (get_dm_members c did) (\<lambda>members. Inr (map dmm_user_id members))"

definition to_each :: "event \<Rightarrow> string list \<Rightarrow> hub_msg list" where
  "to_each ev uids = map (\<lambda>uid. DirectMsg uid ev) uids"

subsection \<open>Creating\<close>

record create_dm_request =
  cdm_user_ids :: "string list"
  cdm_name :: string

definition create_new_dm_channel :: "string \<Rightarrow> string \<Rightarrow> string \<Rightarrow> string \<Rightarrow> create_dm_request \<Rightarrow> dm_channel db_op" where
  "create_new_dm_channel new_id now tid creator_id body =
     (let dm = \<lparr>dm_id = new_id, dm_team_id = tid,
            dm_type = (if length (cdm_user_ids body) > 1 then ''group_dm'' else ''dm''),
            dm_name = cdm_name body, dm_created_at = now\<rparr>
      in bindS (create_dm_channel dm) (\<lambda>_.
         bindS (add_dm_members now new_id (creator_id # filter (\<lambda>i. i \<noteq> creator_id) (cdm_user_ids body))) (\<lambda>_.
         returnS dm)))"

text \<open>What the two exits of the closure return: the rendered channel and its members.\<close>

definition rendered_dm :: "bool \<Rightarrow> dm_channel \<Rightarrow> (json \<times> bool \<times> string list) db_op" where
  "rendered_dm created dm =
     bindS (readS (\<lambda>c. enrich_dm_channel c dm)) (\<lambda>enriched.
     bindS (readS (\<lambda>c. dm_member_ids c (dm_id dm))) (\<lambda>member_ids.
     returnS (enriched, created, member_ids)))"

definition create_or_get_body ::
  "string \<Rightarrow> string \<Rightarrow> string \<Rightarrow> string \<Rightarrow> create_dm_request \<Rightarrow> (json \<times> bool \<times> string list) db_op" where
  "create_or_get_body new_id now uid tid body =
     bindS (readS (\<lambda>c. require_team_member c uid tid)) (\<lambda>_.
     bindS (readS (\<lambda>c. if length (cdm_user_ids body) = 1
         then get_dm_channel_by_members c tid uid (hd (cdm_user_ids body)) else Inr None)) (\<lambda>existing.
     case existing of
       Some dm \<Rightarrow> rendered_dm False dm
     | None \<Rightarrow> bindS (create_new_dm_channel new_id now tid uid body) (rendered_dm True)))"

definition dms_create_or_get ::
  "string \<Rightarrow> string \<Rightarrow> string \<Rightarrow> string \<Rightarrow> create_dm_request \<Rightarrow> (json \<times> bool \<times> string list) sending" where
  "dms_create_or_get new_id now uid tid body c =
     (if cdm_user_ids body = [] then (Inl (BadRequest ''user_ids is required''), c, [])
      else and_send (spawn_db (create_or_get_body new_id now uid tid body))
        (\<lambda>(enriched, created, member_ids).
           if created then to_each (event_new ''dm:created'' enriched) member_ids else []) c)"

subsection \<open>Reading\<close>

definition dms_list :: "string \<Rightarrow> string \<Rightarrow> json list handler" where
  "dms_list uid tid = spawn_db (readS (\<lambda>c. bindE (get_user_dm_channels c tid uid) (mapE (enrich_dm_channel c))))"

definition dms_get :: "string \<Rightarrow> string \<Rightarrow> json handler" where
  "dms_get uid did = map_errH (\<lambda>e. case e of NotFound _ \<Rightarrow> NotFound ''DM channel not found'' | _ \<Rightarrow> e) (spawn_db
     (bindS (readS (\<lambda>c. require_dm_member c did uid)) (\<lambda>_.
      bindS (readS (\<lambda>c. get_dm_channel c did)) (\<lambda>dmo.
      bindS (some_or QueryReturnedNoRows dmo) (\<lambda>dm.
      bindS (readS (\<lambda>c. enrich_dm_channel c dm)) (\<lambda>ch.
      returnS (JObj [(''channel'', ch)])))))))"

definition dms_list_messages :: "string \<Rightarrow> string \<Rightarrow> list_messages_query \<Rightarrow> message list handler" where
  "dms_list_messages uid did q = spawn_db
     (bindS (readS (\<lambda>c. require_dm_member c did uid)) (\<lambda>_.
      readS (\<lambda>c. get_dm_messages c did (lmq_before q) (clamp 1 MAX_PAGE_LIMIT (lmq_limit q)))))"

subsection \<open>Writing\<close>

definition fresh_dm_message :: "string \<Rightarrow> string \<Rightarrow> string \<Rightarrow> string \<Rightarrow> create_message_request \<Rightarrow> message" where
  "fresh_dm_message new_id now uid did body = \<lparr>msg_id = new_id, msg_channel_id = [], msg_dm_channel_id = did,
     msg_author_id = uid, msg_content = cmq_content body, msg_type = cmq_type body, msg_thread_id = [],
     msg_reply_to = None, msg_edited_at = None, msg_deleted = False, msg_lamport_ts = 0, msg_created_at = now\<rparr>"

definition send_dm_body ::
  "string \<Rightarrow> string \<Rightarrow> string \<Rightarrow> string \<Rightarrow> create_message_request \<Rightarrow> (message \<times> string list) db_op" where
  "send_dm_body new_id now uid did body =
     bindS (readS (\<lambda>c. require_dm_member c did uid)) (\<lambda>_.
     bindS (create_dm_message (fresh_dm_message new_id now uid did body)) (\<lambda>_.
     bindS (readS (\<lambda>c. dm_member_ids c did)) (\<lambda>member_ids.
     returnS (fresh_dm_message new_id now uid did body, member_ids))))"

definition dms_send_message ::
  "string \<Rightarrow> string \<Rightarrow> string \<Rightarrow> string \<Rightarrow> create_message_request \<Rightarrow> (message \<times> string list) sending" where
  "dms_send_message new_id now uid did body c =
     (if cmq_content body = [] then (Inl (BadRequest ''content is required''), c, [])
      else and_send (spawn_db (send_dm_body new_id now uid did body))
        (\<lambda>(msg, member_ids). to_each (event_new ''dm:message:new'' (JObj (message_json msg))) member_ids) c)"

definition edit_dm_body ::
  "string \<Rightarrow> string \<Rightarrow> string \<Rightarrow> string \<Rightarrow> string \<Rightarrow> (message \<times> string list) db_op" where
  "edit_dm_body now uid did mid content =
     bindS (readS (\<lambda>c. require_dm_member c did uid)) (\<lambda>_.
     bindS (readS (\<lambda>c. get_message_by_id c mid)) (\<lambda>mo.
     bindS (some_or QueryReturnedNoRows mo) (\<lambda>msg.
     bindS (refuse_if (msg_author_id msg \<noteq> uid) (InvalidParameterName ''can only edit your own messages'')) (\<lambda>_.
     bindS (refuse_if (msg_deleted msg) (InvalidParameterName ''cannot edit a deleted message'')) (\<lambda>_.
     bindS (update_message_content now mid content) (\<lambda>_.
     bindS (readS (\<lambda>c. get_message_by_id c mid)) (\<lambda>uo.
     bindS (some_or QueryReturnedNoRows uo) (\<lambda>updated.
     bindS (readS (\<lambda>c. dm_member_ids c did)) (\<lambda>member_ids.
     returnS (updated, member_ids))))))))))"

definition dms_edit_message ::
  "string \<Rightarrow> string \<Rightarrow> string \<Rightarrow> string \<Rightarrow> string \<Rightarrow> (message \<times> string list) sending" where
  "dms_edit_message now uid did mid content c =
     (if content = [] then (Inl (BadRequest ''content is required''), c, [])
      else and_send (map_errH (map_not_found ''message'') (spawn_db (edit_dm_body now uid did mid content)))
        (\<lambda>(msg, member_ids). to_each (event_new ''dm:message:updated'' (JObj (message_json msg))) member_ids) c)"

definition delete_dm_body :: "string \<Rightarrow> string \<Rightarrow> string \<Rightarrow> string list db_op" where
  "delete_dm_body uid did mid =
     bindS (readS (\<lambda>c. require_dm_member c did uid)) (\<lambda>_.
     bindS (readS (\<lambda>c. get_message_by_id c mid)) (\<lambda>mo.
     bindS (some_or QueryReturnedNoRows mo) (\<lambda>msg.
     bindS (refuse_if (msg_author_id msg \<noteq> uid) (InvalidParameterName ''can only delete your own messages'')) (\<lambda>_.
     bindS (soft_delete_message mid) (\<lambda>_.
     readS (\<lambda>c. dm_member_ids c did))))))"

definition dms_delete_message :: "string \<Rightarrow> string \<Rightarrow> string \<Rightarrow> string list sending" where
  "dms_delete_message uid did mid = and_send (map_errH (map_not_found ''message'') (spawn_db (delete_dm_body uid did mid)))
     (to_each (event_new ''dm:message:deleted'' (JObj [(''message_id'', JStr mid), (''dm_channel_id'', JStr did)])))"

definition dms_add_members :: "string \<Rightarrow> string \<Rightarrow> string \<Rightarrow> string list \<Rightarrow> dm_member list handler" where
  "dms_add_members now uid did user_ids c =
     (if user_ids = [] then (Inl (BadRequest ''user_ids is required''), c)
      else spawn_db
        (bindS (readS (\<lambda>c. require_dm_member c did uid)) (\<lambda>_.
         bindS (add_dm_members now did user_ids) (\<lambda>_.
         readS (\<lambda>c. get_dm_members c did)))) c)"

definition dms_remove_member :: "string \<Rightarrow> string \<Rightarrow> string \<Rightarrow> unit handler" where
  "dms_remove_member uid did target = spawn_db
     (bindS (readS (\<lambda>c. require_dm_member c did uid)) (\<lambda>_. remove_dm_member did target))"

subsection \<open>Members only\<close>

lemma require_dm_member_healthy:
  "healthy c \<Longrightarrow> require_dm_member c did uid
    = (if in_dm c did uid then Inr () else Inl (InvalidParameterName ''not a member of this DM''))"
  by (auto simp: require_dm_member_def is_dm_member_def in_dm_def list_ex_iff rows_where_eq_Nil)

lemma require_dm_member_InrD: "require_dm_member c did uid = Inr u \<Longrightarrow> in_dm c did uid"
  by (auto simp: require_dm_member_def is_dm_member_Inr split: if_splits)

lemma refuses_outsider:
  assumes "\<not> in_dm c did uid"
  shows "refuses c (spawn_db (bindS (readS (\<lambda>c. require_dm_member c did uid)) f) c)"
proof (cases "require_dm_member c did uid")
  case (Inr u)
  with assms require_dm_member_InrD show ?thesis by blast
qed (simp add: refuses_def spawn_db_result)

text \<open>Whichever conversation a call names, it edits and deletes messages of the caller only.\<close>

lemma refuses_foreign:
  assumes "\<forall>m \<in> set (c_messages c). msg_id m = mid \<longrightarrow> msg_author_id m \<noteq> uid"
  shows "refuses c (spawn_db (edit_dm_body now uid did mid content) c)" "refuses c (spawn_db (delete_dm_body uid did mid) c)"
proof -
  have foreign: "msg_author_id m \<noteq> uid" if "get_message_by_id c mid = Inr (Some m)" for m
    using assms that by (auto dest: get_message_by_id_SomeD)
  show "refuses c (spawn_db (edit_dm_body now uid did mid content) c)"
    by (cases "require_dm_member c did uid"; cases "get_message_by_id c mid")
      (auto simp: edit_dm_body_def refuses_def spawn_db_result foreign refuse_if_def some_or_def bindS_def throwS_def readS_def split: option.split)
  show "refuses c (spawn_db (delete_dm_body uid did mid) c)"
    by (cases "require_dm_member c did uid"; cases "get_message_by_id c mid")
      (auto simp: delete_dm_body_def refuses_def spawn_db_result foreign refuse_if_def some_or_def bindS_def throwS_def readS_def split: option.split)
qed

text \<open>C40. The routes of a direct conversation are closed to who is not in it: a call that names the conversation neither
  reads it nor its messages, nor writes, edits, deletes, adds or removes anybody, and nobody hears of the attempt. Who is
  in it reads messages of this conversation only, at most 200 of them. And no call, whichever conversation it names, edits
  or deletes the message of another user. (That the message is in the conversation that the call names is not checked:
  \<open>former_member_edits\<close>.)\<close>

theorem dm_confidential:
  "(\<not> in_dm c did uid \<longrightarrow> refuses c (dms_get uid did c) \<and> refuses c (dms_list_messages uid did q c)
      \<and> sends_nothing c (dms_send_message i now uid did body c) \<and> sends_nothing c (dms_edit_message now uid did mid content c)
      \<and> sends_nothing c (dms_delete_message uid did mid c)
      \<and> refuses c (dms_add_members now uid did uids c) \<and> refuses c (dms_remove_member uid did target c))
    \<and> (\<forall>ms c'. dms_list_messages uid did q c = (Inr ms, c') \<longrightarrow> c' = c \<and> length ms \<le> 200
      \<and> set ms \<subseteq> {m \<in> set (c_messages c). msg_dm_channel_id m = did})
    \<and> ((\<forall>m \<in> set (c_messages c). msg_id m = mid \<longrightarrow> msg_author_id m \<noteq> uid)
      \<longrightarrow> sends_nothing c (dms_edit_message now uid did mid content c) \<and> sends_nothing c (dms_delete_message uid did mid c))"
proof (intro conjI impI)
  assume out: "\<not> in_dm c did uid"
  note r = refuses_outsider [OF out]
  show "refuses c (dms_get uid did c)"
    unfolding dms_get_def by (intro refuses_simps r)
  show "refuses c (dms_list_messages uid did q c)"
    unfolding dms_list_messages_def by (rule r)
  show "sends_nothing c (dms_send_message i now uid did body c)"
    unfolding dms_send_message_def send_dm_body_def by (intro sends_nothing_and_send sends_nothing_if refuses_simps r)
  show "sends_nothing c (dms_edit_message now uid did mid content c)"
    unfolding dms_edit_message_def edit_dm_body_def by (intro sends_nothing_and_send sends_nothing_if refuses_simps r)
  show "sends_nothing c (dms_delete_message uid did mid c)"
    unfolding dms_delete_message_def delete_dm_body_def by (intro sends_nothing_and_send refuses_simps r)
  show "refuses c (dms_add_members now uid did uids c)"
    unfolding dms_add_members_def by (intro refuses_simps r)
  show "refuses c (dms_remove_member uid did target c)"
    unfolding dms_remove_member_def by (rule r)
next
  have limit: "0 \<le> clamp 1 MAX_PAGE_LIMIT n \<and> clamp 1 MAX_PAGE_LIMIT n \<le> 200" for n
    by (simp add: clamp_def MAX_PAGE_LIMIT_def)
  have newest: "length (newest (clamp 1 MAX_PAGE_LIMIT n) ms) \<le> 200 \<and> set (newest (clamp 1 MAX_PAGE_LIMIT n) ms) \<subseteq> set ms" for n ms
    using limit [of n] by (auto simp: newest_def dest: in_set_takeD)
  show "\<forall>ms c'. dms_list_messages uid did q c = (Inr ms, c') \<longrightarrow> c' = c \<and> length ms \<le> 200
      \<and> set ms \<subseteq> {m \<in> set (c_messages c). msg_dm_channel_id m = did}"
    using newest
    by (fastforce simp: dms_list_messages_def spawn_db_def get_dm_messages_def stmt_eq_Inr split: prod.splits sum.splits)
next
  assume "\<forall>m \<in> set (c_messages c). msg_id m = mid \<longrightarrow> msg_author_id m \<noteq> uid"
  note r = refuses_foreign [OF this]
  show "sends_nothing c (dms_edit_message now uid did mid content c)"
    unfolding dms_edit_message_def by (intro sends_nothing_and_send sends_nothing_if refuses_simps r)
  show "sends_nothing c (dms_delete_message uid did mid c)"
    unfolding dms_delete_message_def by (intro sends_nothing_and_send refuses_simps r)
qed

text \<open>Who has left a conversation still edits the own messages there, by naming any conversation that the caller is in.\<close>

lemma former_member_edits:
  assumes "healthy c" and "in_dm c other uid" and "wf_chat c" and "m \<in> set (c_messages c)" and "msg_author_id m = uid"
    and "\<not> msg_deleted m" and "content \<noteq> []"
  shows "m\<lparr>msg_content := content, msg_edited_at := Some now\<rparr>
    \<in> set (c_messages (fst (snd (dms_edit_message now uid other (msg_id m) content c))))"
proof -
  have ids: "distinct (map msg_id (c_messages c))" using assms(3) by (simp add: wf_chat_def)
  let ?f = "\<lambda>m. m\<lparr>msg_content := content, msg_edited_at := Some now\<rparr>"
  let ?c = "c\<lparr>c_messages := update_where (\<lambda>x. msg_id x = msg_id m) ?f (c_messages c)\<rparr>"
  have row: "get_message_by_id c (msg_id m) = Inr (Some m)"
    using assms(1,4) lookup_by_unique [OF ids assms(4)] by (simp add: get_message_by_id_def lookup_by_def)
  have "snd (edit_dm_body now uid other (msg_id m) content c) = ?c"
    using assms(1,2,5,6) row
    by (simp add: edit_dm_body_def require_dm_member_healthy update_message_content_def exec_healthy some_or_def refuse_if_def
        bindS_def readS_def returnS_def split: sum.split option.split)
  then have "fst (snd (dms_edit_message now uid other (msg_id m) content c)) = ?c"
    using assms(7) by (simp add: dms_edit_message_def and_send_sel)
  moreover have "?f m \<in> set (c_messages ?c)" using assms(4) by simp
  ultimately show ?thesis by (simp only:)
qed

text \<open>Two members of the sample team, and a conversation between them with one message.\<close>

definition sample_pair :: conn where
  "sample_pair = sample_conn\<lparr>c_members := c_members sample_conn @ [\<lparr>m_id = ''m2'', m_team_id = ''t'', m_user_id = ''owner'',
     m_nickname = [], m_joined_at = [], m_invited_by = [], m_updated_at = []\<rparr>]\<rparr>"

definition sample_talk :: conn where
  "sample_talk = sample_pair\<lparr>c_dm_channels := [\<lparr>dm_id = ''d'', dm_team_id = ''t'', dm_type = ''dm'', dm_name = [], dm_created_at = []\<rparr>],
     c_dm_members := [\<lparr>dmm_channel_id = ''d'', dmm_user_id = ''owner'', dmm_joined_at = []\<rparr>,
       \<lparr>dmm_channel_id = ''d'', dmm_user_id = ''bob'', dmm_joined_at = []\<rparr>],
     c_messages := [fresh_dm_message ''m'' ''now'' ''bob'' ''d'' \<lparr>cmq_content = ''hi'', cmq_type = ''text''\<rparr>]\<rparr>"

theorem dm_confidential_witness:
  "refuses sample_talk (dms_get ''eve'' ''d'' sample_talk)
    \<and> (\<exists>m c'. dms_list_messages ''owner'' ''d'' \<lparr>lmq_before = [], lmq_limit = 1000\<rparr> sample_talk = (Inr [m], c')
        \<and> m \<in> set (c_messages sample_talk) \<and> msg_dm_channel_id m = ''d'')"
proof
  have "\<not> in_dm sample_talk ''d'' ''eve''" by (simp add: in_dm_def sample_talk_def)
  then show "refuses sample_talk (dms_get ''eve'' ''d'' sample_talk)"
    using dm_confidential [where c = sample_talk and did = "''d''" and uid = "''eve''"] by blast
  let ?r = "dms_list_messages ''owner'' ''d'' \<lparr>lmq_before = [], lmq_limit = 1000\<rparr> sample_talk"
  have "fst ?r = Inr [fresh_dm_message ''m'' ''now'' ''bob'' ''d'' \<lparr>cmq_content = ''hi'', cmq_type = ''text''\<rparr>]" by code_simp
  then obtain m where r: "?r = (Inr [m], snd ?r)" by (metis prod.collapse)
  with dm_confidential [where c = sample_talk and did = "''d''" and uid = "''owner''" and q = "\<lparr>lmq_before = [], lmq_limit = 1000\<rparr>"]
  have "set [m] \<subseteq> {m \<in> set (c_messages sample_talk). msg_dm_channel_id m = ''d''}" by blast
  with r show "\<exists>m c'. ?r = (Inr [m], c') \<and> m \<in> set (c_messages sample_talk) \<and> msg_dm_channel_id m = ''d''" by auto
qed

subsection \<open>One conversation for two\<close>

lemma mapE_Inr: "mapE (\<lambda>x. Inr (g x)) xs = Inr (map g xs)"
  by (induction xs) simp_all

definition peer_rendering :: "conn \<Rightarrow> dm_member \<Rightarrow> json" where
  "peer_rendering c m = (let names = (case lookup_by u_id (dmm_user_id m) (c_users c) of
       Some u \<Rightarrow> (u_username u, u_display_name u) | None \<Rightarrow> ([], []))
     in JObj [(''user_id'', JStr (dmm_user_id m)), (''username'', JStr (fst names)), (''display_name'', JStr (snd names))])"

lemma dm_peer_healthy: "healthy c \<Longrightarrow> dm_peer_json c = (\<lambda>m. Inr (peer_rendering c m))"
  by (rule ext) (simp add: dm_peer_json_def peer_rendering_def get_user_by_id_def lookup_by_def Let_def)

definition dm_rendering :: "conn \<Rightarrow> dm_channel \<Rightarrow> json" where
  "dm_rendering c dm = JObj [(''id'', JStr (dm_id dm)), (''team_id'', JStr (dm_team_id dm)),
     (''is_group'', JBool (dm_type dm = ''group_dm'')), (''name'', JStr (dm_name dm)),
     (''members'', JArr (map (peer_rendering c)
        (rows_where (\<lambda>x. dmm_channel_id x = dm_id dm) (c_dm_members c)))), (''created_at'', JStr (dm_created_at dm))]"

lemma enrich_healthy: "healthy c \<Longrightarrow> enrich_dm_channel c dm = Inr (dm_rendering c dm)"
  by (simp add: enrich_dm_channel_def get_dm_members_def dm_peer_healthy dm_rendering_def mapE_Inr)

lemma rendered_healthy:
  "healthy c \<Longrightarrow> rendered_dm created dm c = (Inr (dm_rendering c dm, created,
     map dmm_user_id (rows_where (\<lambda>x. dmm_channel_id x = dm_id dm) (c_dm_members c))), c)"
  by (simp add: rendered_dm_def enrich_healthy dm_member_ids_def get_dm_members_def)

text \<open>The lookup of \<open>create_or_get\<close> for one other user.\<close>

definition shared_dms :: "conn \<Rightarrow> string \<Rightarrow> string \<Rightarrow> string \<Rightarrow> dm_channel list" where
  "shared_dms c tid u v = rows_where (\<lambda>d. in_dm c (dm_id d) u \<and> in_dm c (dm_id d) v \<and> dm_team_id d = tid \<and> tid \<noteq> []
     \<and> dm_type d = ''dm'') (c_dm_channels c)"

lemma create_or_get_existing:
  assumes "healthy c" and "is_member c u tid" and "first_row (shared_dms c tid u v) = Some d"
  shows "dms_create_or_get i now u tid \<lparr>cdm_user_ids = [v], cdm_name = nm\<rparr> c = (Inr (dm_rendering c d, False,
     map dmm_user_id (rows_where (\<lambda>x. dmm_channel_id x = dm_id d) (c_dm_members c))), c, [])"
  using assms
  by (simp add: dms_create_or_get_def create_or_get_body_def and_send_def spawn_db_def require_team_member_healthy
      get_dm_channel_by_members_def shared_dms_def rendered_healthy)

lemma create_or_get_new:
  fixes c :: conn and i now tid u v nm :: string
  assumes "healthy c" and "wf_chat c" and "is_member c u tid" and "shared_dms c tid u v = []" and "u \<noteq> v"
    and "i \<notin> dm_id ` set (c_dm_channels c)" and "tid \<in> t_id ` set (c_teams c)" and "{u, v} \<subseteq> u_id ` set (c_users c)"
  defines "d \<equiv> \<lparr>dm_id = i, dm_team_id = tid, dm_type = ''dm'', dm_name = nm, dm_created_at = now\<rparr>"
  defines "c' \<equiv> c\<lparr>c_dm_channels := c_dm_channels c @ [d], c_dm_members := c_dm_members c
      @ [\<lparr>dmm_channel_id = i, dmm_user_id = u, dmm_joined_at = now\<rparr>, \<lparr>dmm_channel_id = i, dmm_user_id = v, dmm_joined_at = now\<rparr>]\<rparr>"
  shows "dms_create_or_get i now u tid \<lparr>cdm_user_ids = [v], cdm_name = nm\<rparr> c
    = (Inr (dm_rendering c' d, True, [u, v]), c', to_each (event_new ''dm:created'' (dm_rendering c' d)) [u, v])"
proof -
  have none: "x \<notin> set (c_dm_members c) \<or> dmm_channel_id x \<noteq> i" for x
    using assms(2,6) by (auto simp: wf_chat_def refs_def)
  then have fresh: "\<not> in_dm c i w" "rows_where (\<lambda>x. dmm_channel_id x = i) (c_dm_members c) = []" for w
    by (auto simp: in_dm_def list_ex_iff rows_where_eq_Nil)
  have h: "healthy c'" using assms(1) by (simp add: c'_def healthy_def)
  have "create_new_dm_channel i now tid u \<lparr>cdm_user_ids = [v], cdm_name = nm\<rparr> c = (Inr d, c')"
    using assms(1,5-8) fresh
    by (auto simp: create_new_dm_channel_def create_dm_channel_def add_dm_members_def exec_def healthy_def bindS_def
        Let_def d_def c'_def in_dm_def)
  moreover have "rows_where (\<lambda>x. dmm_channel_id x = dm_id d) (c_dm_members c')
      = [\<lparr>dmm_channel_id = i, dmm_user_id = u, dmm_joined_at = now\<rparr>, \<lparr>dmm_channel_id = i, dmm_user_id = v, dmm_joined_at = now\<rparr>]"
    using fresh(2) by (simp add: c'_def d_def)
  ultimately show ?thesis
    using assms(1,3,4) rendered_healthy [OF h]
    by (simp add: dms_create_or_get_def create_or_get_body_def and_send_def spawn_db_def require_team_member_healthy
        get_dm_channel_by_members_def shared_dms_def bindS_def)
qed

text \<open>Two members of a team have one conversation: the first request creates it, tells both and returns it;
  whichever of the two asks next is given the same conversation, and nothing is written or sent.\<close>

theorem dm_created_once:
  assumes "healthy c" and "wf_chat c" and "is_member c u tid" and "is_member c v tid" and "tid \<noteq> []"
    and "shared_dms c tid u v = []" and "u \<noteq> v"
    and "i \<notin> dm_id ` set (c_dm_channels c)" and "tid \<in> t_id ` set (c_teams c)" and "{u, v} \<subseteq> u_id ` set (c_users c)"
  shows "\<exists>rendering c'. dms_create_or_get i now u tid \<lparr>cdm_user_ids = [v], cdm_name = nm\<rparr> c
      = (Inr (rendering, True, [u, v]), c', to_each (event_new ''dm:created'' rendering) [u, v])
    \<and> dms_create_or_get i' now' u tid \<lparr>cdm_user_ids = [v], cdm_name = nm'\<rparr> c' = (Inr (rendering, False, [u, v]), c', [])
    \<and> dms_create_or_get i' now' v tid \<lparr>cdm_user_ids = [u], cdm_name = nm'\<rparr> c' = (Inr (rendering, False, [u, v]), c', [])"
proof -
  define d where "d = \<lparr>dm_id = i, dm_team_id = tid, dm_type = ''dm'', dm_name = nm, dm_created_at = now\<rparr>"
  define c' where "c' = c\<lparr>c_dm_channels := c_dm_channels c @ [d], c_dm_members := c_dm_members c
      @ [\<lparr>dmm_channel_id = i, dmm_user_id = u, dmm_joined_at = now\<rparr>, \<lparr>dmm_channel_id = i, dmm_user_id = v, dmm_joined_at = now\<rparr>]\<rparr>"
  have none: "dmm_channel_id x \<noteq> i" if "x \<in> set (c_dm_members c)" for x
    using assms(2,8) that by (auto simp: wf_chat_def refs_def)
  then have rows: "rows_where (\<lambda>x. dmm_channel_id x = dm_id d) (c_dm_members c')
      = [\<lparr>dmm_channel_id = i, dmm_user_id = u, dmm_joined_at = now\<rparr>, \<lparr>dmm_channel_id = i, dmm_user_id = v, dmm_joined_at = now\<rparr>]"
    by (auto simp: c'_def d_def rows_where_eq_Nil)
  have same: "in_dm c' (dm_id x) w = in_dm c (dm_id x) w" if "x \<in> set (c_dm_channels c)" for x w
    using assms(8) that by (auto simp: in_dm_def c'_def)
  have "rows_where (\<lambda>x. in_dm c' (dm_id x) u \<and> in_dm c' (dm_id x) v \<and> dm_team_id x = tid \<and> tid \<noteq> [] \<and> dm_type x = ''dm'') (c_dm_channels c) = []"
    using assms(6) same by (auto simp: shared_dms_def rows_where_eq_Nil)
  then have "shared_dms c' tid u v = [d]" 
    using assms(5) by (simp add: shared_dms_def c'_def [THEN arg_cong [where f = c_dm_channels]]) (simp add: in_dm_def c'_def d_def)
  moreover have "shared_dms c' tid v u = shared_dms c' tid u v"
    unfolding shared_dms_def by (rule arg_cong2 [where f = rows_where]) auto
  moreover have "healthy c'" "is_member c' u tid" "is_member c' v tid"
    using assms(1,3,4) by (simp_all add: c'_def healthy_def is_member_def)
  ultimately show ?thesis
    using create_or_get_new [OF assms(1,2,3,6-10), of now nm] create_or_get_existing [of c' _ tid _ d] rows
    unfolding d_def [symmetric] c'_def [symmetric] by auto
qed

theorem dm_created_once_witness:
  "\<exists>rendering c'. dms_create_or_get ''d'' ''now'' ''owner'' ''t'' \<lparr>cdm_user_ids = [''bob''], cdm_name = []\<rparr> sample_pair
      = (Inr (rendering, True, [''owner'', ''bob'']), c', to_each (event_new ''dm:created'' rendering) [''owner'', ''bob''])
    \<and> dms_create_or_get ''e'' ''now'' ''bob'' ''t'' \<lparr>cdm_user_ids = [''owner''], cdm_name = []\<rparr> c'
      = (Inr (rendering, False, [''owner'', ''bob'']), c', [])"
proof -
  have "healthy sample_pair" by (simp add: sample_pair_def sample_conn_def healthy_def empty_conn_def)
  moreover have "wf_chat sample_pair"
    by (simp add: sample_pair_def sample_conn_def wf_chat_def empty_conn_def refs_def opt_refs_def)
  moreover have "is_member sample_pair ''owner'' ''t''" "is_member sample_pair ''bob'' ''t''" "shared_dms sample_pair ''t'' ''owner'' ''bob'' = []"
    "''d'' \<notin> dm_id ` set (c_dm_channels sample_pair)" "''t'' \<in> t_id ` set (c_teams sample_pair)"
    "{''owner'', ''bob''} \<subseteq> u_id ` set (c_users sample_pair)"
    by (simp_all add: sample_pair_def sample_conn_def empty_conn_def is_member_def shared_dms_def sample_user_def)
  ultimately show ?thesis
    using dm_created_once [of sample_pair "''owner''" "''t''" "''bob''" "''d''" "''now''" "[]" "''e''" "''now''" "[]"] by fastforce
qed

text \<open>Asking for a conversation with oneself does not give one: the lookup joins the member table twice with
  the same user, so it finds the first one-to-one conversation the caller has in the team, and returns it with
  its other member. Nothing is created.\<close>

theorem dm_with_self_is_another:
  assumes "healthy c" and "is_member c u tid" and "tid \<noteq> []"
    and "rows_where (\<lambda>d. in_dm c (dm_id d) u \<and> dm_team_id d = tid \<and> dm_type d = ''dm'') (c_dm_channels c) = d # ds"
  shows "dms_create_or_get i now u tid \<lparr>cdm_user_ids = [u], cdm_name = nm\<rparr> c
    = (Inr (dm_rendering c d, False, map dmm_user_id (rows_where (\<lambda>x. dmm_channel_id x = dm_id d) (c_dm_members c))), c, [])"
  by (rule create_or_get_existing) (simp_all add: assms shared_dms_def)

theorem dm_with_self_is_another_witness:
  "\<exists>rendering. dms_create_or_get ''e'' ''now'' ''bob'' ''t'' \<lparr>cdm_user_ids = [''bob''], cdm_name = []\<rparr> sample_talk
     = (Inr (rendering, False, [''owner'', ''bob'']), sample_talk, [])"
proof -
  have "healthy sample_talk" "is_member sample_talk ''bob'' ''t''"
    by (simp_all add: sample_talk_def sample_pair_def sample_conn_def healthy_def empty_conn_def is_member_def)
  moreover have "rows_where (\<lambda>d. in_dm sample_talk (dm_id d) ''bob'' \<and> dm_team_id d = ''t'' \<and> dm_type d = ''dm'') (c_dm_channels sample_talk)
      = [\<lparr>dm_id = ''d'', dm_team_id = ''t'', dm_type = ''dm'', dm_name = [], dm_created_at = []\<rparr>]"
    by (simp add: sample_talk_def in_dm_def)
  ultimately show ?thesis
    using dm_with_self_is_another [of sample_talk "''bob''" "''t''" _ "[]" "''e''" "''now''" "[]"] by (simp add: sample_talk_def)
qed

end
