(* ===== verification/Threads_Api.thy ===== *)
theory Threads_Api
  imports Api_Kit
begin

section \<open>The HTTP API of threads and reactions\<close>

text \<open>
  \<open>api/threads.rs\<close> and \<open>api/reactions.rs\<close>. The statements are those of the socket handlers; the guards are
  not: no handler asks for access to the channel.
\<close>

subsection \<open>Threads\<close>

record create_thread_request =
  ctr_parent_message_id :: string
  ctr_title :: string

definition get_thread_for_team :: "conn \<Rightarrow> string \<Rightarrow> string \<Rightarrow> thread db_res" where
  "get_thread_for_team c i tid =
     bindE (get_thread c i) (\<lambda>tho. bindE (ok_or tho QueryReturnedNoRows) (\<lambda>th.
       if th_team_id th \<noteq> tid then Inl (InvalidParameterName ''thread does not belong to this team'') else Inr th))"

definition create_thread_body ::
  "string \<Rightarrow> string \<Rightarrow> string \<Rightarrow> string \<Rightarrow> string \<Rightarrow> create_thread_request \<Rightarrow> thread db_op" where
  "create_thread_body new_id now uid tid cid body =
     bindS (readS (\<lambda>c. require_team_member c uid tid)) (\<lambda>_.
     bindS (readS (\<lambda>c. get_message_by_id c (ctr_parent_message_id body))) (\<lambda>parent.
     bindS (refuse_if (parent = None) QueryReturnedNoRows) (\<lambda>_.
     bindS (readS (\<lambda>c. get_thread_by_parent_message c (ctr_parent_message_id body))) (\<lambda>existing.
     case existing of
       Some th \<Rightarrow> returnS th
     | None \<Rightarrow>
         let th = \<lparr>th_id = new_id, th_channel_id = cid, th_parent_message_id = ctr_parent_message_id body,
               th_team_id = tid, th_creator_id = uid, th_title = ctr_title body, th_message_count = 0,
               th_last_message_at = None, th_created_at = now\<rparr>
         in bindS (create_thread th) (\<lambda>_. returnS th)))))"

definition threads_create ::
  "string \<Rightarrow> string \<Rightarrow> string \<Rightarrow> string \<Rightarrow> string \<Rightarrow> create_thread_request \<Rightarrow> thread sending" where
  "threads_create new_id now uid tid cid body c =
     (if ctr_parent_message_id body = [] then (Inl (BadRequest ''parent_message_id is required''), c, [])
      else and_send (map_errH (map_not_found ''parent message'') (spawn_db (create_thread_body new_id now uid tid cid body)))
        (\<lambda>th. [ChannelMsg (th_channel_id th) (event_new ''thread:created'' (thread_json th)) None]) c)"

definition threads_list :: "string \<Rightarrow> string \<Rightarrow> string \<Rightarrow> thread list handler" where
  "threads_list uid tid cid = spawn_db
     (bindS (readS (\<lambda>c. require_team_member c uid tid)) (\<lambda>_. readS (\<lambda>c. get_channel_threads c cid)))"

definition threads_get :: "string \<Rightarrow> string \<Rightarrow> string \<Rightarrow> thread handler" where
  "threads_get uid tid i = map_errH (map_not_found ''thread'') (spawn_db
     (bindS (readS (\<lambda>c. require_team_member c uid tid)) (\<lambda>_. readS (\<lambda>c. get_thread_for_team c i tid))))"

definition creator_or_manager :: "string \<Rightarrow> string \<Rightarrow> thread \<Rightarrow> conn \<Rightarrow> unit db_res" where
  "creator_or_manager uid tid th c =
     (if th_creator_id th \<noteq> uid then require_permission c uid tid PERM_MANAGE_MESSAGES else Inr ())"

definition threads_update :: "string \<Rightarrow> string \<Rightarrow> string \<Rightarrow> string option \<Rightarrow> thread handler" where
  "threads_update uid tid i title = map_errH (map_not_found ''thread'') (spawn_db
     (bindS (readS (\<lambda>c. require_team_member c uid tid)) (\<lambda>_.
      bindS (readS (\<lambda>c. get_thread_for_team c i tid)) (\<lambda>old.
      bindS (readS (creator_or_manager uid tid old)) (\<lambda>_.
      let th = old\<lparr>th_title := (case title of None \<Rightarrow> th_title old | Some x \<Rightarrow> x)\<rparr>
      in bindS (update_thread th) (\<lambda>_. returnS th))))))"

definition threads_delete :: "string \<Rightarrow> string \<Rightarrow> string \<Rightarrow> unit handler" where
  "threads_delete uid tid i = map_errH (map_not_found ''thread'') (spawn_db
     (bindS (readS (\<lambda>c. get_thread_for_team c i tid)) (\<lambda>th.
      bindS (readS (creator_or_manager uid tid th)) (\<lambda>_.
      delete_thread i))))"

definition fresh_thread_message :: "string \<Rightarrow> string \<Rightarrow> string \<Rightarrow> thread \<Rightarrow> string \<Rightarrow> create_message_request \<Rightarrow> message" where
  "fresh_thread_message new_id now uid th i body = \<lparr>msg_id = new_id, msg_channel_id = th_channel_id th,
     msg_dm_channel_id = [], msg_author_id = uid, msg_content = cmq_content body, msg_type = cmq_type body,
     msg_thread_id = i, msg_reply_to = None, msg_edited_at = None, msg_deleted = False, msg_lamport_ts = 0,
     msg_created_at = now\<rparr>"

definition create_thread_message_body ::
  "string \<Rightarrow> string \<Rightarrow> string \<Rightarrow> string \<Rightarrow> string \<Rightarrow> create_message_request \<Rightarrow> (message \<times> string) db_op" where
  "create_thread_message_body new_id now uid tid i body =
     bindS (readS (\<lambda>c. require_team_member c uid tid)) (\<lambda>_.
     bindS (readS (\<lambda>c. get_thread_for_team c i tid)) (\<lambda>th.
     let msg = fresh_thread_message new_id now uid th i body
     in bindS (create_thread_message now msg) (\<lambda>_. returnS (msg, th_channel_id th))))"

definition threads_create_message ::
  "string \<Rightarrow> string \<Rightarrow> string \<Rightarrow> string \<Rightarrow> string \<Rightarrow> create_message_request \<Rightarrow> (message \<times> string) sending" where
  "threads_create_message new_id now uid tid i body c =
     (if cmq_content body = [] then (Inl (BadRequest ''content is required''), c, [])
      else and_send (map_errH (map_not_found ''thread'') (spawn_db (create_thread_message_body new_id now uid tid i body)))
        (\<lambda>(msg, cid). [ChannelMsg cid (event_new ''thread:message:new'' (JObj (message_json msg))) None]) c)"

definition threads_list_messages :: "string \<Rightarrow> string \<Rightarrow> string \<Rightarrow> list_messages_query \<Rightarrow> message list handler" where
  "threads_list_messages uid tid i q = map_errH (map_not_found ''thread'') (spawn_db
     (bindS (readS (\<lambda>c. require_team_member c uid tid)) (\<lambda>_.
      bindS (readS (\<lambda>c. get_thread c i)) (\<lambda>tho.
      bindS (refuse_if (tho = None) QueryReturnedNoRows) (\<lambda>_.
      readS (\<lambda>c. get_thread_messages c i (lmq_before q) (clamp 1 MAX_PAGE_LIMIT (lmq_limit q))))))))"

subsection \<open>Reactions\<close>

definition reaction_event :: "string \<Rightarrow> string \<Rightarrow> string \<Rightarrow> string \<Rightarrow> string \<Rightarrow> hub_msg" where
  "reaction_event kind mid cid uid emoji = ChannelMsg cid (event_new kind (JObj [(''message_id'', JStr mid),
     (''channel_id'', JStr cid), (''user_id'', JStr uid), (''emoji'', JStr emoji)])) None"

definition reactions_add ::
  "string \<Rightarrow> string \<Rightarrow> string \<Rightarrow> string \<Rightarrow> string \<Rightarrow> string \<Rightarrow> string \<Rightarrow> reaction sending" where
  "reactions_add new_id now uid tid cid mid emoji = and_send (map_errH (map_not_found ''message'') (spawn_db
     (bindS (readS (\<lambda>c. require_team_member c uid tid)) (\<lambda>_.
      bindS (readS (\<lambda>c. get_message_by_id c mid)) (\<lambda>mo.
      bindS (refuse_if (mo = None) QueryReturnedNoRows) (\<lambda>_.
      add_reaction new_id now mid uid emoji))))))
     (\<lambda>r. [reaction_event ''reaction:added'' (reaction.rx_message_id r) cid (rx_user_id r) (reaction.rx_emoji r)])"

definition reactions_remove :: "string \<Rightarrow> string \<Rightarrow> string \<Rightarrow> string \<Rightarrow> string \<Rightarrow> unit sending" where
  "reactions_remove uid tid cid mid emoji = and_send (spawn_db
     (bindS (readS (\<lambda>c. require_team_member c uid tid)) (\<lambda>_. remove_reaction mid uid emoji)))
     (\<lambda>_. [reaction_event ''reaction:removed'' mid cid uid emoji])"

definition reactions_list :: "string \<Rightarrow> string \<Rightarrow> string \<Rightarrow> reaction_group list handler" where
  "reactions_list uid tid mid = spawn_db
     (bindS (readS (\<lambda>c. require_team_member c uid tid)) (\<lambda>_. readS (\<lambda>c. get_message_reactions c mid)))"

subsection \<open>Properties\<close>

text \<open>The thread and reaction handlers stop at team membership. Listing the messages of a thread checks that
  the thread exists, not whose it is: a member of any team reads the messages of any thread of any team, also
  of channels the caller has no access to, by its id. In the same way the threads of any channel are listed,
  and the reactions of any message.\<close>

theorem threads_readable_from_any_team:
  assumes "healthy c" and "is_member c uid tid"
  shows "(lookup_by th_id i (c_threads c) = Some th \<longrightarrow>
      fst (threads_list_messages uid tid i q c) = Inr (newest (clamp 1 200 (lmq_limit q))
        (rows_where (\<lambda>m. msg_thread_id m = i \<and> i \<noteq> [] \<and> (lmq_before q = [] \<or> msg_created_at m < lmq_before q)) (c_messages c))))
    \<and> fst (threads_list uid tid cid c)
      = Inr (rev (sort_key th_created_at (rows_where (\<lambda>t. th_channel_id t = cid) (c_threads c))))
    \<and> (\<exists>gs. fst (reactions_list uid tid mid c) = Inr gs)"
  using assms
  by (simp add: threads_list_messages_def threads_list_def reactions_list_def map_errH_result spawn_db_result
      require_team_member_healthy get_thread_def lookup_by_def get_thread_messages_def get_channel_threads_def
      get_message_reactions_def bindS_guards MAX_PAGE_LIMIT_def)

text \<open>Bob is a member of team \<open>t\<close>; the thread is of team \<open>t2\<close>.\<close>

definition sample_threads :: conn where
  "sample_threads = sample_conn\<lparr>c_threads := [\<lparr>th_id = ''h'', th_channel_id = ''c2'', th_parent_message_id = ''p'',
      th_team_id = ''t2'', th_creator_id = ''owner'', th_title = [], th_message_count = 1, th_last_message_at = None, th_created_at = []\<rparr>],
     c_messages := [\<lparr>msg_id = ''s'', msg_channel_id = ''c2'', msg_dm_channel_id = [], msg_author_id = ''owner'',
      msg_content = ''secret'', msg_type = ''text'', msg_thread_id = ''h'', msg_reply_to = None, msg_edited_at = None,
      msg_deleted = False, msg_lamport_ts = 0, msg_created_at = []\<rparr>]\<rparr>"

theorem threads_readable_from_any_team_witness:
  "\<exists>m. fst (threads_list_messages ''bob'' ''t'' ''h'' \<lparr>lmq_before = [], lmq_limit = 50\<rparr> sample_threads) = Inr [m]
     \<and> msg_content m = ''secret''"
proof -
  have h: "healthy sample_threads" and m: "is_member sample_threads ''bob'' ''t''"
    by (simp_all add: sample_threads_def sample_conn_def healthy_def empty_conn_def is_member_def)
  obtain th where th: "lookup_by th_id ''h'' (c_threads sample_threads) = Some th" by (simp add: sample_threads_def)
  from threads_readable_from_any_team [OF h m, where i = "''h''" and th = th and q = "\<lparr>lmq_before = [], lmq_limit = 50\<rparr>"] th
  show ?thesis by (simp add: sample_threads_def newest_def clamp_def)
qed

definition thread_writer :: "conn \<Rightarrow> string \<Rightarrow> string \<Rightarrow> string \<Rightarrow> bool" where
  "thread_writer c uid tid i \<longleftrightarrow> (\<exists>th \<in> set (c_threads c). th_id th = i \<and> th_team_id th = tid
     \<and> (th_creator_id th = uid \<or> holds_permission c uid tid PERM_MANAGE_MESSAGES))"

lemma get_thread_for_team_InrD:
  "get_thread_for_team c i tid = Inr th \<Longrightarrow> th \<in> set (c_threads c) \<and> th_id th = i \<and> th_team_id th = tid"
  by (auto simp: get_thread_for_team_def get_thread_def optional_query_row stmt_eq_Inr split: if_splits
      dest!: sym [of "Some _"] first_row_SomeD)

lemma creator_or_manager_InrD:
  "creator_or_manager uid tid th c = Inr u \<Longrightarrow> th_creator_id th = uid \<or> holds_permission c uid tid PERM_MANAGE_MESSAGES"
  by (auto simp: creator_or_manager_def require_permission_holds split: if_splits)

text \<open>Whatever a handler of threads or reactions writes, it writes in the name of the caller: the rows that are
  new belong to the caller, and the rows that disappear or change do only when the caller created the thread or
  may manage messages in its team, or when they are the caller's own reactions.\<close>

theorem thread_writes_owned:
  "(snd (threads_update uid tid i title c) \<noteq> c \<or> snd (threads_delete uid tid i c) \<noteq> c \<longrightarrow> thread_writer c uid tid i)
   \<and> (\<forall>r \<in> set (c_reactions (fst (snd (reactions_add n now uid tid cid mid emoji c)))). r \<in> set (c_reactions c) \<or> rx_user_id r = uid)
   \<and> (\<forall>r \<in> set (c_reactions c). r \<in> set (c_reactions (fst (snd (reactions_remove uid tid cid mid emoji c)))) \<or> rx_user_id r = uid)"
proof (intro conjI impI)
  assume "snd (threads_update uid tid i title c) \<noteq> c \<or> snd (threads_delete uid tid i c) \<noteq> c"
  then obtain th u where "get_thread_for_team c i tid = Inr th" "creator_or_manager uid tid th c = Inr u"
    by (auto simp: threads_update_def threads_delete_def Let_def split: sum.splits)
  with get_thread_for_team_InrD creator_or_manager_InrD show "thread_writer c uid tid i"
    unfolding thread_writer_def by blast
next
  have add: "\<forall>r \<in> set (c_reactions (snd (add_reaction n now mid uid emoji c))). r \<in> set (c_reactions c) \<or> rx_user_id r = uid"
    by (auto simp: add_reaction_def Let_def bindS_def exec_def)
  have "fst (snd (reactions_add n now uid tid cid mid emoji c)) = c
      \<or> fst (snd (reactions_add n now uid tid cid mid emoji c)) = snd (add_reaction n now mid uid emoji c)"
    by (auto simp: reactions_add_def and_send_sel bindS_guards split: sum.split)
  with add show "\<forall>r \<in> set (c_reactions (fst (snd (reactions_add n now uid tid cid mid emoji c)))). r \<in> set (c_reactions c) \<or> rx_user_id r = uid"
    by auto
next
  show "\<forall>r \<in> set (c_reactions c). r \<in> set (c_reactions (fst (snd (reactions_remove uid tid cid mid emoji c)))) \<or> rx_user_id r = uid"
    by (auto simp: reactions_remove_def and_send_sel remove_reaction_def exec_def split: sum.split)
qed

end
