(* ===== verification/Site_Kit.thy ===== *)
theory Site_Kit
  imports Api_Kit Auth Device_Store User_Store
begin

section \<open>Handlers that use more than the database\<close>

text \<open>
  A handler of \<open>api/auth_handlers.rs\<close> or \<open>api/devices.rs\<close> works on the authentication service, the database and
  the frames queued for the hub: the record \<open>site\<close>. The lock of \<open>db/mod.rs\<close> around the connection is modelled
  here too: \<open>with_write\<close> unwraps the lock, so a closure that panics leaves it poisoned.
\<close>

subsection \<open>The state\<close>

record site =
  st_auth :: auth_service
  st_conn :: conn
  st_sent :: "hub_msg list"

type_synonym 'a site_op = "(site, app_error, 'a) effect"

definition on_auth :: "'a auth_op \<Rightarrow> 'a site_op" where
  "on_auth f s = (case f (st_auth s) of (r, a) \<Rightarrow> (r, s\<lparr>st_auth := a\<rparr>))"

definition on_db :: "'a handler \<Rightarrow> 'a site_op" where
  "on_db h s = (case h (st_conn s) of (r, c) \<Rightarrow> (r, s\<lparr>st_conn := c\<rparr>))"

definition send_frames :: "hub_msg list \<Rightarrow> unit site_op" where
  "send_frames frames s = (Inr (), s\<lparr>st_sent := st_sent s @ frames\<rparr>)"

lemma on_auth_sel: "fst (on_auth f s) = fst (f (st_auth s))" "snd (on_auth f s) = s\<lparr>st_auth := snd (f (st_auth s))\<rparr>"
  by (simp_all add: on_auth_def split: prod.split)

lemma on_db_sel: "fst (on_db h s) = fst (h (st_conn s))" "snd (on_db h s) = s\<lparr>st_conn := snd (h (st_conn s))\<rparr>"
  by (simp_all add: on_db_def split: prod.split)

lemma send_frames_sel [simp]: "fst (send_frames fs s) = Inr ()" "snd (send_frames fs s) = s\<lparr>st_sent := st_sent s @ fs\<rparr>"
  by (simp_all add: send_frames_def)

lemma bindS_split: "bindS m f s = (case fst (m s) of Inl e \<Rightarrow> (Inl e, snd (m s)) | Inr x \<Rightarrow> f x (snd (m s)))"
  by (simp add: bindS_def split: prod.split sum.split)

lemma snd_bindS_return [simp]: "snd (bindS m (\<lambda>_. returnS x) s) = snd (m s)"
  by (simp add: bindS_split split: sum.split)

subsection \<open>Base64 arguments\<close>

definition decode_b64 :: "crypto \<Rightarrow> string \<Rightarrow> string \<Rightarrow> app_error + bytes" where
  "decode_b64 cr what s = map_err (\<lambda>_. BadRequest (''invalid base64 '' @ what)) (cr_b64_decode cr s)"

text \<open>A decoded argument that must have a fixed length.\<close>

definition sized :: "nat \<Rightarrow> string \<Rightarrow> bytes \<Rightarrow> app_error + bytes" where
  "sized n msg bs = (if length bs \<noteq> n then Inl (BadRequest msg) else Inr bs)"

lemma decode_b64_Inr [simp]: "decode_b64 cr what s = Inr bs \<longleftrightarrow> cr_b64_decode cr s = Inr bs"
  by (simp add: decode_b64_def)

lemma sized_Inr [simp]: "sized n msg bs = Inr bs' \<longleftrightarrow> bs' = bs \<and> length bs = n"
  by (auto simp: sized_def)

subsection \<open>An audit row for every team of the user\<close>

text \<open>\<open>mk\<close> gives the fresh id of the row for a team.\<close>

definition audit_user_teams ::
  "(string \<Rightarrow> string) \<Rightarrow> string \<Rightarrow> string \<Rightarrow> string \<Rightarrow> string option \<Rightarrow> string option \<Rightarrow> json option \<Rightarrow> unit db_op" where
  "audit_user_teams mk now uid action target_type target_id details c =
     for_eachS (\<lambda>tid. ignoreS (insert_audit_event (mk tid) now tid (Some uid) action target_type target_id details))
       (unwrap_or (list_user_teams c uid) []) c"

lemma for_each_audit_state:
  "\<exists>as. for_eachS (\<lambda>t. ignoreS (insert_audit_event (i t) n t a ac tt ti d)) ts c = (Inr (), c\<lparr>c_audit := as\<rparr>)"
proof (induction ts arbitrary: c)
  case Nil
  show ?case by (auto intro!: exI [where x = "c_audit c"])
next
  case (Cons t ts)
  obtain as where "snd (insert_audit_event (i t) n t a ac tt ti d c) = c\<lparr>c_audit := as\<rparr>"
    using insert_audit_event_state by blast
  with Cons.IH [of "c\<lparr>c_audit := as\<rparr>"] show ?case by simp
qed

lemma audit_user_teams_state: "\<exists>as. audit_user_teams mk now uid ac tt ti d c = (Inr (), c\<lparr>c_audit := as\<rparr>)"
  unfolding audit_user_teams_def by (rule for_each_audit_state)

text \<open>What an operation leaves when only the audit table may differ.\<close>

definition audit_only :: "conn \<Rightarrow> conn \<Rightarrow> bool" where
  "audit_only c c' \<longleftrightarrow> c' = c\<lparr>c_audit := c_audit c'\<rparr>"

lemma audit_only_refl [simp]: "audit_only c c"
  by (simp add: audit_only_def)

lemma audit_only_update [simp]: "audit_only c (c\<lparr>c_audit := as\<rparr>)"
  by (simp add: audit_only_def)

lemma audit_only_trans: "audit_only c d \<Longrightarrow> audit_only d e \<Longrightarrow> audit_only c e"
  unfolding audit_only_def by (metis conn.surjective conn.update_convs(35))

lemma audit_only_event: "audit_only c (snd (insert_audit_event i n t a ac tt ti d c))"
  using insert_audit_event_state [of i n t a ac tt ti d c] by auto

lemma audit_only_teams: "audit_only c (snd (audit_user_teams mk now uid ac tt ti d c))"
  using audit_user_teams_state [of mk now uid ac tt ti d c] by auto

lemma audit_only_frame:
  assumes "audit_only c c'" and "\<And>d as. P (d\<lparr>c_audit := as\<rparr>) = P d"
  shows "P c' = P c"
  using assms unfolding audit_only_def by metis

subsection \<open>Transactions\<close>

text \<open>\<open>conn.unchecked_transaction()\<close> and a body that ends in \<open>tx.commit()\<close> when its result is one of \<open>keep\<close>. An
  early return, an error of the body or of the commit drops the transaction, which rolls it back; the error of a
  rollback is ignored.\<close>

definition in_tx :: "('a \<Rightarrow> bool) \<Rightarrow> 'a db_op \<Rightarrow> 'a db_op" where
  "in_tx keep body c =
     (if ''BEGIN'' \<in> set (c_faults c) then (Inl SqliteFailure, c)
      else (case body c of (r, c') \<Rightarrow>
        let dropped = (if ''ROLLBACK'' \<in> set (c_faults c) then c' else c)
        in (case r of
            Inl e \<Rightarrow> (Inl e, dropped)
          | Inr x \<Rightarrow>
              if \<not> keep x then (Inr x, dropped)
              else if ''COMMIT'' \<in> set (c_faults c) then (Inl SqliteFailure, dropped) else (Inr x, c'))))"

lemma in_tx_healthy:
  "healthy c \<Longrightarrow> in_tx keep f c = (case f c of (Inl e, c') \<Rightarrow> (Inl e, c) | (Inr x, c') \<Rightarrow> (Inr x, if keep x then c' else c))"
  by (simp add: in_tx_def healthy_def Let_def split: prod.split sum.split)

lemma in_tx_cases:
  assumes "P c" and "P (snd (f c))"
  shows "P (snd (in_tx keep f c))"
  using assms by (cases "f c") (auto simp: in_tx_def Let_def split: sum.split)

lemma in_tx_Inr: "fst (in_tx keep f c) = Inr x \<Longrightarrow> fst (f c) = Inr x"
  by (auto simp: in_tx_def Let_def split: prod.splits sum.splits if_splits)

subsection \<open>The lock around the connection\<close>

text \<open>A closure that may panic: \<open>None\<close> is the panic. \<open>std::sync::Mutex\<close> is poisoned by it, and
  \<open>lock().unwrap()\<close> panics from then on; \<open>spawn_blocking\<close> turns a panic into a join error.\<close>

type_synonym 'a may_panic = "conn \<Rightarrow> (db_error + 'a) option \<times> conn"

record db_lock =
  lk_conn :: conn
  lk_poisoned :: bool

definition with_write :: "'a may_panic \<Rightarrow> db_lock \<Rightarrow> (db_error + 'a) option \<times> db_lock" where
  "with_write f l =
     (if lk_poisoned l then (None, l)
      else case f (lk_conn l) of
          (None, c) \<Rightarrow> (None, \<lparr>lk_conn = c, lk_poisoned = True\<rparr>)
        | (Some r, c) \<Rightarrow> (Some r, \<lparr>lk_conn = c, lk_poisoned = False\<rparr>))"

definition spawn_locked :: "'a may_panic \<Rightarrow> db_lock \<Rightarrow> (app_error + 'a) \<times> db_lock" where
  "spawn_locked f l = (case with_write f l of
       (None, l') \<Rightarrow> (Inl (Internal ''task join: panic''), l')
     | (Some r, l') \<Rightarrow> (map_err map_db_error r, l'))"

definition no_panic :: "'a db_op \<Rightarrow> 'a may_panic" where
  "no_panic f c = (case f c of (r, c') \<Rightarrow> (Some r, c'))"

lemma spawn_locked_no_panic:
  "spawn_locked (no_panic f) \<lparr>lk_conn = c, lk_poisoned = False\<rparr>
    = (fst (spawn_db f c), \<lparr>lk_conn = snd (spawn_db f c), lk_poisoned = False\<rparr>)"
  by (simp add: spawn_locked_def with_write_def no_panic_def spawn_db_def split: prod.split)

lemma spawn_locked_poisoned: "lk_poisoned l \<Longrightarrow> spawn_locked f l = (Inl (Internal ''task join: panic''), l)"
  by (simp add: spawn_locked_def with_write_def)

end
