(* ===== verification/Invites_Api.thy ===== *)
theory Invites_Api
  imports Site_Kit
begin

section \<open>Invites\<close>

text \<open>
  The invite half of \<open>db/invite_queries.rs\<close> and \<open>api/invites.rs\<close>. The quota of an invite is the invariant
  \<open>wf_invites\<close>; the registration that uses an invite up is in \<open>Login_Api\<close>.
\<close>

subsection \<open>Statements\<close>

definition create_invite :: "invite \<Rightarrow> unit db_op" where
  "create_invite i = exec ''create_invite'' (\<lambda>c.
     if i_id i \<in> i_id ` set (c_invites c) \<or> i_token i \<in> i_token ` set (c_invites c)
       \<or> i_team_id i \<notin> t_id ` set (c_teams c) \<or> i_created_by i \<notin> u_id ` set (c_users c) then None
     else Some (c\<lparr>c_invites := c_invites c @ [i]\<rparr>))"

definition get_invite_by_token :: "conn \<Rightarrow> string \<Rightarrow> invite option db_res" where
  "get_invite_by_token c token =
     optional (query_row ''get_invite_by_token'' c (rows_where (\<lambda>i. i_token i = token) (c_invites c)))"

definition get_invite_by_id :: "conn \<Rightarrow> string \<Rightarrow> invite option db_res" where
  "get_invite_by_id c i =
     optional (query_row ''get_invite_by_id'' c (rows_where (\<lambda>x. i_id x = i) (c_invites c)))"

definition increment_invite_uses :: "string \<Rightarrow> unit db_op" where
  "increment_invite_uses i = exec ''increment_invite_uses'' (\<lambda>c. Some (c\<lparr>c_invites :=
     update_where (\<lambda>x. i_id x = i) (\<lambda>x. x\<lparr>i_uses := i_uses x + 1\<rparr>) (c_invites c)\<rparr>))"

definition revoke_invite :: "string \<Rightarrow> unit db_op" where
  "revoke_invite i = exec ''revoke_invite'' (\<lambda>c. Some (c\<lparr>c_invites :=
     update_where (\<lambda>x. i_id x = i) (\<lambda>x. x\<lparr>i_revoked := True\<rparr>) (c_invites c)\<rparr>))"

definition get_active_invites_by_team :: "conn \<Rightarrow> string \<Rightarrow> invite list db_res" where
  "get_active_invites_by_team c tid = stmt ''get_active_invites_by_team'' c
     (rev (sort_key i_created_at (rev (rows_where (\<lambda>i. i_team_id i = tid \<and> \<not> i_revoked i) (c_invites c)))))"

definition log_invite_use :: "string \<Rightarrow> string \<Rightarrow> string \<Rightarrow> string \<Rightarrow> unit db_op" where
  "log_invite_use new_id now i uid = exec ''log_invite_use'' (\<lambda>c.
     if new_id \<in> iu_id ` set (c_invite_uses c) \<or> i \<notin> i_id ` set (c_invites c) \<or> uid \<notin> u_id ` set (c_users c) then None
     else Some (c\<lparr>c_invite_uses := c_invite_uses c
       @ [\<lparr>iu_id = new_id, iu_invite_id = i, iu_user_id = uid, iu_used_at = now\<rparr>]\<rparr>))"

subsection \<open>Judging an invite\<close>

text \<open>The body that \<open>validate_invite_token\<close> here and \<open>validate_invite\<close> of \<open>api/auth_handlers.rs\<close> have in common;
  they differ in the error for an unknown token.\<close>

definition judge_invite :: "string \<Rightarrow> invite \<Rightarrow> invite db_res" where
  "judge_invite now i =
     (if i_revoked i then Inl (InvalidParameterName ''invite has been revoked'')
      else if (case i_max_uses i of None \<Rightarrow> False | Some m \<Rightarrow> i_uses i \<ge> m)
        then Inl (InvalidParameterName ''invite max uses reached'')
      else if (case i_expires_at i of None \<Rightarrow> False | Some e \<Rightarrow> now > e)
        then Inl (InvalidParameterName ''invite has expired'')
      else Inr i)"

definition validate_invite_token :: "string \<Rightarrow> conn \<Rightarrow> string \<Rightarrow> invite db_res" where
  "validate_invite_token now c token = bindE (get_invite_by_token c token) (\<lambda>io.
     bindE (ok_or io QueryReturnedNoRows) (judge_invite now))"

definition usable_invite :: "string \<Rightarrow> invite \<Rightarrow> bool" where
  "usable_invite now i \<longleftrightarrow> \<not> i_revoked i \<and> (\<forall>m. i_max_uses i = Some m \<longrightarrow> i_uses i < m)
     \<and> (\<forall>e. i_expires_at i = Some e \<longrightarrow> now \<le> e)"

lemma judge_invite_Inr: "judge_invite now i = Inr j \<longleftrightarrow> j = i \<and> usable_invite now i"
  by (auto simp: judge_invite_def usable_invite_def split: option.splits if_splits)

subsection \<open>Handlers\<close>

record create_invite_request =
  cir_max_uses :: "int option"
  cir_expires_in_hours :: "int option"

definition invites_list :: "string \<Rightarrow> string \<Rightarrow> invite list handler" where
  "invites_list uid tid = spawn_db
     (bindS (readS (\<lambda>c. require_team_member c uid tid)) (\<lambda>_. readS (\<lambda>c. get_active_invites_by_team c tid)))"

text \<open>\<open>in_hours h\<close> is the formatted time in \<open>h\<close> hours by \<open>chrono\<close>, \<open>None\<close> where \<open>Duration::hours\<close> or the sum is
  out of its range: both panic there. The closure is a \<open>may_panic\<close>.\<close>

definition invite_row :: "string \<Rightarrow> string \<Rightarrow> string \<Rightarrow> string \<Rightarrow> string \<Rightarrow> create_invite_request \<Rightarrow> string option \<Rightarrow> invite" where
  "invite_row new_id now token uid tid body expires_at = \<lparr>i_id = new_id, i_team_id = tid, i_created_by = uid,
     i_token = token, i_max_uses = cir_max_uses body, i_uses = 0, i_expires_at = expires_at, i_revoked = False,
     i_created_at = now\<rparr>"

definition create_invite_body :: "string \<Rightarrow> string \<Rightarrow> string \<Rightarrow> string \<Rightarrow> invite \<Rightarrow> invite db_op" where
  "create_invite_body audit_id now uid tid i =
     bindS (create_invite i) (\<lambda>_.
     bindS (ignoreS (insert_audit_event audit_id now tid (Some uid) ''invite.create'' (Some ''invite'') (Some (i_id i))
       (Some (JObj [(''max_uses'', case i_max_uses i of None \<Rightarrow> JNull | Some m \<Rightarrow> JNum m),
          (''expires_at'', case i_expires_at i of None \<Rightarrow> JNull | Some e \<Rightarrow> JStr e)])))) (\<lambda>_.
     returnS i))"

definition invites_create ::
  "(int \<Rightarrow> string option) \<Rightarrow> string \<Rightarrow> string \<Rightarrow> string \<Rightarrow> bytes \<Rightarrow> string \<Rightarrow> string \<Rightarrow> create_invite_request
    \<Rightarrow> invite may_panic" where
  "invites_create in_hours new_id audit_id now rnd uid tid body c =
     (case require_permission c uid tid PERM_CREATE_INVITES of
        Inl e \<Rightarrow> (Some (Inl e), c)
      | Inr _ \<Rightarrow> (case map_option in_hours (cir_expires_in_hours body) of
          Some None \<Rightarrow> (None, c)
        | ex \<Rightarrow> no_panic (create_invite_body audit_id now uid tid
            (invite_row new_id now (generate_invite_token rnd) uid tid body (case ex of None \<Rightarrow> None | Some e \<Rightarrow> e))) c))"

definition invites_revoke :: "string \<Rightarrow> string \<Rightarrow> string \<Rightarrow> string \<Rightarrow> string \<Rightarrow> unit handler" where
  "invites_revoke audit_id now uid tid i = map_errH (map_not_found ''invite'') (spawn_db
     (bindS (readS (\<lambda>c. require_permission c uid tid PERM_CREATE_INVITES)) (\<lambda>_.
      bindS (readS (\<lambda>c. get_invite_by_id c i)) (\<lambda>io.
      bindS (some_or QueryReturnedNoRows io) (\<lambda>iv.
      bindS (refuse_if (i_team_id iv \<noteq> tid) (InvalidParameterName ''invite does not belong to this team'')) (\<lambda>_.
      bindS (revoke_invite i) (\<lambda>_.
      ignoreS (insert_audit_event audit_id now tid (Some uid) ''invite.revoke'' (Some ''invite'') (Some i) None))))))))"

definition invite_info_error :: "app_error \<Rightarrow> app_error" where
  "invite_info_error e = (case e of Forbidden msg \<Rightarrow> BadRequest msg | NotFound _ \<Rightarrow> NotFound ''invite not found'' | _ \<Rightarrow> e)"

definition get_invite_info :: "string \<Rightarrow> string \<Rightarrow> json handler" where
  "get_invite_info now token = map_errH invite_info_error (spawn_db
     (bindS (readS (\<lambda>c. validate_invite_token now c token)) (\<lambda>iv.
      bindS (readS (\<lambda>c. get_team c (i_team_id iv))) (\<lambda>to1.
      returnS (JObj [(''team_id'', JStr (i_team_id iv)),
        (''team_name'', JStr (case to1 of None \<Rightarrow> [] | Some t \<Rightarrow> t_name t)), (''token'', JStr (i_token iv))])))))"

subsection \<open>The quota of an invite\<close>

definition logged_uses :: "conn \<Rightarrow> string \<Rightarrow> nat" where
  "logged_uses c i = length (rows_where (\<lambda>u. iu_invite_id u = i) (c_invite_uses c))"

definition within_quota :: "conn \<Rightarrow> invite \<Rightarrow> bool" where
  "within_quota c i \<longleftrightarrow> int (logged_uses c (i_id i)) \<le> i_uses i
     \<and> (\<forall>m. i_max_uses i = Some m \<longrightarrow> i_uses i \<le> max 0 m)"

definition wf_invites :: "conn \<Rightarrow> bool" where
  "wf_invites c \<longleftrightarrow> distinct (map i_id (c_invites c)) \<and> distinct (map i_token (c_invites c))
     \<and> (\<forall>u \<in> set (c_invite_uses c). iu_invite_id u \<in> i_id ` set (c_invites c))
     \<and> (\<forall>i \<in> set (c_invites c). within_quota c i)"

lemma wf_invites_frame:
  "c_invites c' = c_invites c \<Longrightarrow> c_invite_uses c' = c_invite_uses c \<Longrightarrow> wf_invites c' = wf_invites c"
  by (simp add: wf_invites_def within_quota_def logged_uses_def)

lemma logged_uses_none: "i \<notin> iu_invite_id ` set (c_invite_uses c) \<Longrightarrow> logged_uses c i = 0"
  by (auto simp: logged_uses_def rows_where_def filter_empty_conv)

lemma wf_invites_audit: "wf_invites (snd (insert_audit_event i n t a ac tt ti d c)) = wf_invites c"
  by (rule insert_audit_event_frame) (rule wf_invites_frame; simp)

interpretation invites_kept: kept_property wf_invites
  by unfold_locales (simp add: wf_invites_audit)

lemma wf_create_invite:
  assumes "wf_invites c" and "i_uses i = 0"
  shows "wf_invites (snd (create_invite i c))"
  unfolding create_invite_def
proof (rule exec_cases_if)
  let ?c' = "c\<lparr>c_invites := c_invites c @ [i]\<rparr>"
  assume fresh: "\<not> (i_id i \<in> i_id ` set (c_invites c) \<or> i_token i \<in> i_token ` set (c_invites c)
       \<or> i_team_id i \<notin> t_id ` set (c_teams c) \<or> i_created_by i \<notin> u_id ` set (c_users c))"
  with assms(1) have "logged_uses c (i_id i) = 0"
    by (intro logged_uses_none) (auto simp: wf_invites_def)
  with assms fresh show "wf_invites ?c'"
    by (auto simp: wf_invites_def within_quota_def logged_uses_def split: option.split)
qed (rule assms(1))

lemma wf_invites_update:
  assumes "wf_invites c" and "\<And>x. i_id (f x) = i_id x" and "\<And>x. i_token (f x) = i_token x"
    and "\<And>i. i \<in> set (c_invites c) \<Longrightarrow> p i \<Longrightarrow> within_quota c (f i)"
  shows "wf_invites (c\<lparr>c_invites := update_where p f (c_invites c)\<rparr>)"
proof -
  have "i_id ` set (update_where p f (c_invites c)) = i_id ` set (c_invites c)"
    by (rule image_update_where) (rule assms(2))
  moreover have "\<forall>i \<in> set (update_where p f (c_invites c)). within_quota c i"
    unfolding ball_update_where using assms(1,4) by (simp add: wf_invites_def)
  ultimately show ?thesis
    using assms(1-3) by (simp add: wf_invites_def map_update_where within_quota_def logged_uses_def del: set_update_where)
qed

lemma wf_revoke_invite: "wf_invites c \<Longrightarrow> wf_invites (snd (revoke_invite i c))"
  unfolding revoke_invite_def
  by (rule exec_cases) (auto intro!: wf_invites_update, auto simp: wf_invites_def within_quota_def)

text \<open>Using an invite up: the increment raises the bound that the log entry then meets.\<close>

lemma wf_increment_invite:
  assumes "wf_invites c" and "\<And>i. i \<in> set (c_invites c) \<Longrightarrow> i_id i = iid \<Longrightarrow> usable_invite now i"
  shows "wf_invites (snd (increment_invite_uses iid c))"
  unfolding increment_invite_uses_def
proof (rule exec_cases, erule option.inject [THEN iffD1, THEN subst])
  show "wf_invites (c\<lparr>c_invites := update_where (\<lambda>x. i_id x = iid) (\<lambda>x. x\<lparr>i_uses := i_uses x + 1\<rparr>) (c_invites c)\<rparr>)"
  proof (rule wf_invites_update)
    fix i assume i: "i \<in> set (c_invites c)" "i_id i = iid"
    then have "within_quota c i" "usable_invite now i" using assms by (auto simp: wf_invites_def)
    then show "within_quota c (i\<lparr>i_uses := i_uses i + 1\<rparr>)"
      by (cases "i_max_uses i") (auto simp: within_quota_def usable_invite_def)
  qed (simp_all add: assms(1))
qed (rule assms(1))

subsection \<open>Properties\<close>

lemma require_invites_refused:
  assumes "\<not> holds_permission c uid tid perm"
  shows "\<exists>e. require_permission c uid tid perm = Inl e"
  using assms require_permission_holds by (cases "require_permission c uid tid perm") blast+

text \<open>A caller may ask for an invite that expires further away than the calendar of the time library reaches.
  The computation panics inside the closure that holds the lock of the connection, the lock is poisoned, and from
  then on every request of every user that needs the database is answered with an internal error. Everybody with
  the permission to create invites, which the default role carries, can do it. Without the permission the request
  is refused and nothing changes.\<close>

theorem one_invite_stops_the_server:
  assumes "in_hours h = None"
  shows "(healthy c \<and> holds_permission c uid tid PERM_CREATE_INVITES \<longrightarrow>
      (\<exists>l. spawn_locked (invites_create in_hours i a now rnd uid tid \<lparr>cir_max_uses = m, cir_expires_in_hours = Some h\<rparr>)
          \<lparr>lk_conn = c, lk_poisoned = False\<rparr> = (Inl (Internal ''task join: panic''), l)
        \<and> lk_conn l = c \<and> (\<forall>f. spawn_locked f l = (Inl (Internal ''task join: panic'') :: app_error + 'a, l))))
    \<and> (\<not> holds_permission c uid tid PERM_CREATE_INVITES \<longrightarrow>
      (\<exists>e. invites_create in_hours i a now rnd uid tid body c = (Some (Inl e), c)))"
proof (intro conjI impI)
  assume h: "healthy c \<and> holds_permission c uid tid PERM_CREATE_INVITES"
  then have "require_permission c uid tid PERM_CREATE_INVITES = Inr ()"
    by (simp add: holds_permission_require)
  with assms show "\<exists>l. spawn_locked (invites_create in_hours i a now rnd uid tid
        \<lparr>cir_max_uses = m, cir_expires_in_hours = Some h\<rparr>) \<lparr>lk_conn = c, lk_poisoned = False\<rparr>
      = (Inl (Internal ''task join: panic''), l)
    \<and> lk_conn l = c \<and> (\<forall>f. spawn_locked f l = (Inl (Internal ''task join: panic'') :: app_error + 'a, l))"
    by (simp add: spawn_locked_def with_write_def invites_create_def)
next
  assume "\<not> holds_permission c uid tid PERM_CREATE_INVITES"
  from require_invites_refused [OF this]
  show "\<exists>e. invites_create in_hours i a now rnd uid tid body c = (Some (Inl e), c)"
    by (auto simp: invites_create_def)
qed

text \<open>The range of \<open>chrono::Duration::hours\<close>; the rendering is a stand-in.\<close>

definition toy_in_hours :: "int \<Rightarrow> string option" where
  "toy_in_hours h = (if \<bar>h\<bar> > 2562047788015 then None else Some ''2030-01-01 00:00:00'')"

theorem one_invite_stops_the_server_witness:
  "\<exists>l. spawn_locked (invites_create toy_in_hours ''i'' ''a'' ''now'' [1] ''owner'' ''t''
      \<lparr>cir_max_uses = None, cir_expires_in_hours = Some 9223372036854775807\<rparr>) \<lparr>lk_conn = sample_conn, lk_poisoned = False\<rparr>
    = (Inl (Internal ''task join: panic''), l)
    \<and> spawn_locked (no_panic (readS (\<lambda>c. get_user_by_id c ''bob''))) l = (Inl (Internal ''task join: panic''), l)"
proof -
  have r: "toy_in_hours 9223372036854775807 = None" by (simp add: toy_in_hours_def)
  have "healthy sample_conn \<and> holds_permission sample_conn ''owner'' ''t'' PERM_CREATE_INVITES"
    by (simp add: healthy_def sample_conn_def empty_conn_def holds_permission_def owns_team_def)
  with r one_invite_stops_the_server [where 'a = "user option" and in_hours = toy_in_hours and h = 9223372036854775807
      and c = sample_conn and uid = "''owner''" and tid = "''t''"
      and i = "''i''" and a = "''a''" and now = "''now''" and rnd = "[1]" and m = None]
  show ?thesis by blast
qed

lemma rows_where_absent: "k \<notin> f ` set rs \<Longrightarrow> rows_where (\<lambda>x. f x = k) rs = []"
  unfolding rows_where_eq_Nil by (metis imageI)

lemma created_invite:
  assumes "healthy c" and "i_id iv \<notin> i_id ` set (c_invites c)" and "i_token iv \<notin> i_token ` set (c_invites c)"
    and "i_team_id iv \<in> t_id ` set (c_teams c)" and "i_created_by iv \<in> u_id ` set (c_users c)"
  shows "\<exists>as. create_invite_body a now uid tid iv c = (Inr iv, c\<lparr>c_invites := c_invites c @ [iv], c_audit := as\<rparr>)"
proof -
  have "create_invite iv c = (Inr (), c\<lparr>c_invites := c_invites c @ [iv]\<rparr>)"
    using assms by (simp add: create_invite_def exec_healthy)
  moreover obtain as where "snd (insert_audit_event a now tid (Some uid) ''invite.create'' (Some ''invite'') (Some (i_id iv))
      (Some (JObj [(''max_uses'', case i_max_uses iv of None \<Rightarrow> JNull | Some m \<Rightarrow> JNum m),
        (''expires_at'', case i_expires_at iv of None \<Rightarrow> JNull | Some e \<Rightarrow> JStr e)])) (c\<lparr>c_invites := c_invites c @ [iv]\<rparr>))
      = c\<lparr>c_invites := c_invites c @ [iv], c_audit := as\<rparr>"
    using insert_audit_event_state by blast
  ultimately show ?thesis by (auto simp add: create_invite_body_def bindS_Inr)
qed

lemma revoked_invite:
  assumes "healthy c" and "require_permission c uid tid PERM_CREATE_INVITES = Inr ()"
    and "rows_where (\<lambda>x. i_id x = i) (c_invites c) = [iv]" and "i_team_id iv = tid"
  shows "\<exists>as. invites_revoke a now uid tid i c = (Inr (), c\<lparr>c_invites := update_where (\<lambda>x. i_id x = i)
      (\<lambda>x. x\<lparr>i_revoked := True\<rparr>) (c_invites c), c_audit := as\<rparr>)"
proof -
  let ?d = "c\<lparr>c_invites := update_where (\<lambda>x. i_id x = i) (\<lambda>x. x\<lparr>i_revoked := True\<rparr>) (c_invites c)\<rparr>"
  obtain as where "snd (insert_audit_event a now tid (Some uid) ''invite.revoke'' (Some ''invite'') (Some i) None ?d) = ?d\<lparr>c_audit := as\<rparr>"
    using insert_audit_event_state by blast
  then show ?thesis using assms
    by (simp add: invites_revoke_def map_errH_def spawn_db_def get_invite_by_id_def revoke_invite_def exec_healthy bindS_Inr
        ignoreS_def exI [where x = as])
qed

lemma revoked_invite_refused:
  assumes "healthy c" and "rows_where (\<lambda>x. i_token x = token) (c_invites c) = [iv]" and "i_revoked iv"
  shows "get_invite_info t token c = (Inl (BadRequest ''invite has been revoked''), c)"
  using assms by (simp add: get_invite_info_def validate_invite_token_def judge_invite_def map_errH_def spawn_db_def
      invite_info_error_def map_db_error_def get_invite_by_token_def)

text \<open>The life of an invite: the token that a creation returns leads to exactly the row that was created, which
  is accepted while its quota and its time last; after a revocation it is refused at every time, and the answer to
  a caller without an account says so.\<close>

theorem invite_lifecycle:
  assumes "healthy c" and "holds_permission c uid tid PERM_CREATE_INVITES"
    and "i \<notin> i_id ` set (c_invites c)" and "hex rnd \<notin> i_token ` set (c_invites c)"
    and "tid \<in> t_id ` set (c_teams c)" and "uid \<in> u_id ` set (c_users c)"
    and "in_hours h = Some ex"
  shows "\<exists>iv c'. invites_create in_hours i a now rnd uid tid \<lparr>cir_max_uses = m, cir_expires_in_hours = Some h\<rparr> c
        = (Some (Inr iv), c')
    \<and> (\<forall>t. validate_invite_token t c' (hex rnd) = judge_invite t iv \<and> usable_invite t iv = (t \<le> ex \<and> (\<forall>n. m = Some n \<longrightarrow> 0 < n)))
    \<and> (\<exists>c''. invites_revoke a' now' uid tid i c' = (Inr (), c'')
      \<and> (\<forall>t. get_invite_info t (hex rnd) c'' = (Inl (BadRequest ''invite has been revoked''), c'')))"
proof -
  define iv where "iv = invite_row i now (hex rnd) uid tid \<lparr>cir_max_uses = m, cir_expires_in_hours = Some h\<rparr> (Some ex)"
  have sel: "i_id iv = i" "i_token iv = hex rnd" "i_team_id iv = tid" "i_created_by iv = uid" "i_uses iv = 0"
    "i_max_uses iv = m" "i_expires_at iv = Some ex" "\<not> i_revoked iv"
    by (simp_all add: iv_def invite_row_def)
  obtain as where body: "create_invite_body a now uid tid iv c = (Inr iv, c\<lparr>c_invites := c_invites c @ [iv], c_audit := as\<rparr>)"
    using created_invite [of c iv a now uid tid] assms(1,3-6) sel by auto
  let ?c = "c\<lparr>c_invites := c_invites c @ [iv], c_audit := as\<rparr>"
  have created: "invites_create in_hours i a now rnd uid tid \<lparr>cir_max_uses = m, cir_expires_in_hours = Some h\<rparr> c = (Some (Inr iv), ?c)"
    using body assms(7) holds_permission_require [OF assms(1,2)]
    by (simp add: invites_create_def no_panic_def iv_def generate_invite_token_def)
  have h: "healthy ?c" using assms(1) by (simp add: healthy_def)
  have rows: "rows_where (\<lambda>x. i_token x = hex rnd) (c_invites ?c) = [iv]" "rows_where (\<lambda>x. i_id x = i) (c_invites ?c) = [iv]"
    using rows_where_absent [OF assms(3)] rows_where_absent [OF assms(4)] sel by simp_all
  have "validate_invite_token t ?c (hex rnd) = judge_invite t iv \<and> usable_invite t iv = (t \<le> ex \<and> (\<forall>n. m = Some n \<longrightarrow> 0 < n))" for t
    using h rows sel by (auto simp: validate_invite_token_def get_invite_by_token_def usable_invite_def)
  moreover have "require_permission ?c uid tid PERM_CREATE_INVITES = Inr ()"
    using holds_permission_require [OF h] assms(2) by (simp add: holds_permission_def owns_team_def held_roles_def)
  from revoked_invite [OF h this rows(2) sel(3)] obtain bs where
    rev: "invites_revoke a' now' uid tid i ?c = (Inr (), ?c\<lparr>c_invites := c_invites c @ [iv\<lparr>i_revoked := True\<rparr>], c_audit := bs\<rparr>)"
    (is "_ = (_, ?d)") using assms(3) sel update_where_none [of "c_invites c" "\<lambda>x. i_id x = i"]
    by (fastforce simp: update_where_def image_iff)
  have "get_invite_info t (hex rnd) ?d = (Inl (BadRequest ''invite has been revoked''), ?d)" for t
    using revoked_invite_refused [of ?d "hex rnd" "iv\<lparr>i_revoked := True\<rparr>" t] h rows_where_absent [OF assms(4)] sel
    by (simp add: healthy_def)
  with rev have "\<exists>c''. invites_revoke a' now' uid tid i ?c = (Inr (), c'')
      \<and> (\<forall>t. get_invite_info t (hex rnd) c'' = (Inl (BadRequest ''invite has been revoked''), c''))" by blast
  ultimately show ?thesis using created by blast
qed

theorem invite_lifecycle_witness:
  "\<exists>iv c'. invites_create toy_in_hours ''i'' ''a'' ''now'' [1] ''owner'' ''t'' \<lparr>cir_max_uses = Some 1, cir_expires_in_hours = Some 24\<rparr>
        sample_conn = (Some (Inr iv), c')
    \<and> validate_invite_token ''2025'' c' ''01'' = Inr iv"
proof -
  have "healthy sample_conn" "holds_permission sample_conn ''owner'' ''t'' PERM_CREATE_INVITES"
    "''i'' \<notin> i_id ` set (c_invites sample_conn)" "hex [1] \<notin> i_token ` set (c_invites sample_conn)"
    "''t'' \<in> t_id ` set (c_teams sample_conn)" "''owner'' \<in> u_id ` set (c_users sample_conn)"
    by (simp_all add: healthy_def sample_conn_def sample_user_def empty_conn_def holds_permission_def owns_team_def)
  note ok = this
  have e: "toy_in_hours 24 = Some ''2030-01-01 00:00:00''" by (simp add: toy_in_hours_def)
  have hx: "hex [1] = ''01''" by code_simp
  have le: "''2025'' \<le> ''2030-01-01 00:00:00''" by (simp add: less_eq_char_def)
  from invite_lifecycle [where in_hours = toy_in_hours and h = 24 and m = "Some 1" and a = "''a''" and now = "''now''"
      and a' = "''b''" and now' = "''now''", OF ok e] obtain iv c'
    where "invites_create toy_in_hours ''i'' ''a'' ''now'' [1] ''owner'' ''t'' \<lparr>cir_max_uses = Some 1, cir_expires_in_hours = Some 24\<rparr>
        sample_conn = (Some (Inr iv), c')"
      and "\<forall>t. validate_invite_token t c' ''01'' = judge_invite t iv \<and> usable_invite t iv = (t \<le> ''2030-01-01 00:00:00'')"
    by (auto simp: hx)
  with le show ?thesis by (metis judge_invite_Inr)
qed

end
