(* ===== verification/Devices_Api.thy ===== *)
theory Devices_Api
  imports Site_Kit
begin

section \<open>The HTTP API of devices\<close>

text \<open>
  \<open>api/devices.rs\<close>: listing, the two halves of an enrolment, revocation. The device that is already trusted signs
  for the new one; the challenge in between is bound to the user and the new key.
\<close>

subsection \<open>Handlers\<close>

definition list_devices :: "string \<Rightarrow> user_device list handler" where
  "list_devices uid = spawn_db (readS (\<lambda>c. list_devices_for_user c uid))"

definition enroll_begin :: "crypto \<Rightarrow> bytes \<Rightarrow> bytes \<Rightarrow> int \<Rightarrow> string \<Rightarrow> string \<Rightarrow> (string \<times> string) site_op" where
  "enroll_begin cr nonce id_bytes now uid new_device_public_key =
     bindS (readS (\<lambda>_. bindE (decode_b64 cr ''public key'' new_device_public_key)
       (sized 32 ''public key must be 32 bytes''))) (\<lambda>pk.
     bindS (on_auth (generate_challenge_with_binding nonce id_bytes now uid pk)) (\<lambda>(nc, cid).
     returnS (cid, cr_b64_encode cr nc)))"

record enroll_request =
  er_challenge_id :: string
  er_new_device_public_key :: string
  er_authorizer_public_key :: string
  er_signature :: string
  er_device_label :: string

text \<open>The decoded arguments: the new key, the authorizer's key, the signature. \<open>String::len\<close> counts bytes.\<close>

definition decode_enroll :: "crypto \<Rightarrow> enroll_request \<Rightarrow> app_error + bytes \<times> bytes \<times> bytes" where
  "decode_enroll cr body =
     bindE (bindE (decode_b64 cr ''new public key'' (er_new_device_public_key body))
       (sized 32 ''new public key must be 32 bytes'')) (\<lambda>new_pk.
     bindE (bindE (decode_b64 cr ''authorizer public key'' (er_authorizer_public_key body))
       (sized 32 ''authorizer public key must be 32 bytes'')) (\<lambda>auth_pk.
     bindE (bindE (decode_b64 cr ''signature'' (er_signature body)) (sized 64 ''signature must be 64 bytes'')) (\<lambda>sig.
     if length (er_device_label body) > 64 then Inl (BadRequest ''device_label too long (max 64 chars)'')
     else Inr (new_pk, auth_pk, sig))))"

definition active_authorizer :: "string \<Rightarrow> bytes \<Rightarrow> user_device site_op" where
  "active_authorizer uid auth_pk =
     bindS (on_db (spawn_db (readS (\<lambda>c. get_device_by_user_and_pubkey c uid auth_pk)))) (\<lambda>found.
     case found of
       None \<Rightarrow> throwS (Forbidden ''authorizer is not a known device of this user'')
     | Some d \<Rightarrow> bindS (refuse_if (\<not> device_active d) (Forbidden ''authorizer device is revoked'')) (\<lambda>_. returnS d))"

definition insert_enrolled :: "string \<Rightarrow> string \<Rightarrow> string \<Rightarrow> bytes \<Rightarrow> string \<Rightarrow> string db_op" where
  "insert_enrolled new_id now uid new_pk label =
     bindS (readS (\<lambda>c. get_device_by_user_and_pubkey c uid new_pk)) (\<lambda>existing.
     case existing of Some d \<Rightarrow> returnS (d_id d) | None \<Rightarrow> create_device new_id now uid new_pk label)"

text \<open>The last part of an enrolment, after the signature.\<close>

definition enroll_commit ::
  "string \<Rightarrow> (string \<Rightarrow> string) \<Rightarrow> string \<Rightarrow> string \<Rightarrow> enroll_request \<Rightarrow> bytes \<Rightarrow> user_device \<Rightarrow> (string \<times> string) site_op" where
  "enroll_commit new_id mk now_str uid body new_pk authorizer =
     bindS (on_db (spawn_db (insert_enrolled new_id now_str uid new_pk (er_device_label body)))) (\<lambda>did.
     bindS (ignoreS (on_db (spawn_db (audit_user_teams mk now_str uid ''device.enrolled'' (Some ''device'') (Some did)
       (Some (JObj [(''device_label'', JStr (er_device_label body)),
          (''authorizer_device_id'', JStr (d_id authorizer))])))))) (\<lambda>_.
     returnS (did, er_device_label body)))"

definition enroll_complete ::
  "crypto \<Rightarrow> string \<Rightarrow> (string \<Rightarrow> string) \<Rightarrow> string \<Rightarrow> int \<Rightarrow> string \<Rightarrow> enroll_request \<Rightarrow> (string \<times> string) site_op" where
  "enroll_complete cr new_id mk now_str now uid body =
     bindS (readS (\<lambda>_. decode_enroll cr body)) (\<lambda>(new_pk, auth_pk, sig).
     bindS (active_authorizer uid auth_pk) (\<lambda>authorizer.
     bindS (on_auth (verify_challenge_bound cr now (er_challenge_id body) uid new_pk auth_pk sig)) (\<lambda>valid.
     bindS (refuse_if (\<not> valid) (Unauthorized ''invalid signature'')) (\<lambda>_.
     enroll_commit new_id mk now_str uid body new_pk authorizer))))"

datatype revoke_outcome = RevokeOk user_device | RevokeNotFound | RevokeLastDevice

definition revoke_body :: "string \<Rightarrow> string \<Rightarrow> string \<Rightarrow> revoke_outcome db_op" where
  "revoke_body now uid did =
     bindS (readS (\<lambda>c. get_device_by_id c did)) (\<lambda>found.
     case found of
       None \<Rightarrow> returnS RevokeNotFound
     | Some device \<Rightarrow>
         if d_user_id device \<noteq> uid then returnS RevokeNotFound
         else bindS (readS (\<lambda>c. if device_active device then count_active_devices c uid else Inr 2)) (\<lambda>active.
           if active \<le> 1 then returnS RevokeLastDevice
           else bindS (revoke_device now did) (\<lambda>_. returnS (RevokeOk device))))"

definition devices_revoke :: "(string \<Rightarrow> string) \<Rightarrow> string \<Rightarrow> string \<Rightarrow> string \<Rightarrow> unit handler" where
  "devices_revoke mk now uid did =
     bindS (spawn_db (in_tx (\<lambda>r. case r of RevokeOk _ \<Rightarrow> True | _ \<Rightarrow> False) (revoke_body now uid did))) (\<lambda>outcome.
     case outcome of
       RevokeOk d \<Rightarrow> ignoreS (spawn_db (audit_user_teams mk now uid ''device.revoked'' (Some ''device'') (Some did)
         (Some (JObj [(''device_label'', JStr (d_label d))]))))
     | RevokeNotFound \<Rightarrow> throwS (NotFound ''device not found'')
     | RevokeLastDevice \<Rightarrow> throwS (BadRequest (''cannot revoke the last active device '' @ em_dash
         @ '' enroll a replacement first'')))"

subsection \<open>Somebody can still get in\<close>

definition active_devices :: "conn \<Rightarrow> string \<Rightarrow> user_device list" where
  "active_devices c uid = rows_where (\<lambda>d. d_user_id d = uid \<and> device_active d) (c_devices c)"

lemma active_devices_frame: "c_devices c' = c_devices c \<Longrightarrow> active_devices c' uid = active_devices c uid"
  by (simp add: active_devices_def)

lemma active_after_revoke:
  assumes "distinct (map d_id ds)" and "d \<in> set ds" and "d_id d = did" and "d_user_id d = uid"
    and "device_active d \<Longrightarrow> 1 < length (rows_where (\<lambda>d. d_user_id d = uid \<and> device_active d) ds)"
    and "rows_where (\<lambda>d. d_user_id d = v \<and> device_active d) ds \<noteq> []"
  shows "rows_where (\<lambda>d. d_user_id d = v \<and> device_active d)
      (update_where (\<lambda>d. d_id d = did \<and> d_revoked_at d = None) (\<lambda>d. d\<lparr>d_revoked_at := Some t\<rparr>) ds) \<noteq> []"
proof -
  obtain x where x: "x \<in> set ds" "d_user_id x = v" "device_active x" "d_id x = did \<longrightarrow> \<not> device_active d"
  proof (cases "v = uid \<and> device_active d")
    case False
    obtain x where "x \<in> set ds" "d_user_id x = v" "device_active x"
      using assms(6) by (auto simp: rows_where_eq_Nil)
    moreover have "d_id x = did \<Longrightarrow> x = d"
      using assms(1-3) calculation(1) by (auto simp: distinct_map dest: inj_onD)
    ultimately show ?thesis using False that assms(4) by blast
  next
    case True
    let ?as = "rows_where (\<lambda>d. d_user_id d = uid \<and> device_active d) ds"
    have "distinct ?as" using assms(1) by (simp add: rows_where_def distinct_map)
    then have "card (set ?as) = length ?as" by (rule distinct_card)
    with assms(5) True have "1 < card (set ?as)" by simp
    moreover have "set ?as \<subseteq> {d} \<Longrightarrow> card (set ?as) \<le> 1" using card_mono [of "{d}" "set ?as"] by simp
    ultimately obtain x where "x \<in> set ?as" "x \<noteq> d" by fastforce
    moreover have "d_id x = did \<Longrightarrow> x = d"
      using assms(1-3) calculation(1) by (auto simp: distinct_map dest: inj_onD)
    ultimately show ?thesis using that True by auto
  qed
  have "d_id x = did \<Longrightarrow> x = d"
    using assms(1-3) x(1) by (auto simp: distinct_map dest: inj_onD)
  with x have "d_id x \<noteq> did" by blast
  with x show ?thesis by (auto simp: rows_where_eq_Nil intro!: bexI [of _ x] rev_image_eqI [of x])
qed

lemma revoke_body_active:
  assumes "wf_devices c" and "active_devices c v \<noteq> []"
  shows "active_devices (snd (revoke_body now uid did c)) v \<noteq> []"
proof (cases "get_device_by_id c did")
  case (Inr found)
  then have f: "found = first_row (rows_where (\<lambda>d. d_id d = did) (c_devices c))"
    by (simp add: get_device_by_id_def optional_query_row stmt_eq_Inr)
  show ?thesis
  proof (cases found)
    case (Some d)
    then have d: "d \<in> set (c_devices c)" "d_id d = did" using f by (auto dest!: sym [of "Some d"] first_row_SomeD)
    have "1 < n \<Longrightarrow> active_devices (snd (revoke_device now did c)) v \<noteq> []"
      if "d_user_id d = uid" "(if device_active d then count_active_devices c uid else Inr 2) = Inr n" for n
      using active_after_revoke [of "c_devices c" d did uid v now] d that assms
      by (auto simp: revoke_device_def exec_def active_devices_def wf_devices_def count_active_devices_def
          stmt_eq_Inr device_active_def split: if_splits)
    then show ?thesis
      using Inr Some assms(2)
      by (auto simp: revoke_body_def not_le split: sum.split)
  qed (use Inr assms(2) in \<open>simp add: revoke_body_def\<close>)
qed (use assms(2) in \<open>simp add: revoke_body_def\<close>)

lemma devices_revoke_active:
  assumes "wf_devices c" and "active_devices c v \<noteq> []"
  shows "active_devices (snd (devices_revoke mk now uid did c)) v \<noteq> []"
proof -
  let ?P = "\<lambda>c. active_devices c v \<noteq> []"
  have a: "?P c' \<Longrightarrow> ?P (snd (audit_user_teams mk now u ac tt ti dt c'))" for u ac tt ti dt c'
    by (subst audit_only_frame [OF audit_only_teams, where P = ?P]) (simp_all add: active_devices_def)
  let ?tx = "spawn_db (in_tx (\<lambda>r. case r of RevokeOk _ \<Rightarrow> True | _ \<Rightarrow> False) (revoke_body now uid did))"
  have t: "?P (snd (?tx c))"
    unfolding spawn_db_state using assms(2) revoke_body_active [OF assms] by (rule in_tx_cases)
  then show ?thesis
    by (cases "fst (?tx c)") (auto simp: devices_revoke_def bindS_split throwS_def ignoreS_def a split: revoke_outcome.split)
qed

lemma wf_devices_revoke: "wf_devices c \<Longrightarrow> wf_devices (snd (devices_revoke mk now uid did c))"
proof -
  assume wf: "wf_devices c"
  have a: "wf_devices c' \<Longrightarrow> wf_devices (snd (audit_user_teams mk now u ac tt ti dt c'))" for u ac tt ti dt c'
    by (subst audit_only_frame [OF audit_only_teams, where P = wf_devices]) (simp_all add: wf_devices_def)
  have "wf_devices (snd (revoke_body now uid did c))"
    using wf wf_device_ops(2) [OF wf, of now did]
    by (auto simp: revoke_body_def bindS_split readS_def split: sum.split option.split)
  with wf have t: "wf_devices (snd (spawn_db (in_tx (\<lambda>r. case r of RevokeOk _ \<Rightarrow> True | _ \<Rightarrow> False) (revoke_body now uid did)) c))"
    unfolding spawn_db_state by (rule in_tx_cases)
  then show ?thesis
    by (auto simp: devices_revoke_def bindS_split throwS_def ignoreS_def intro: a split: sum.split revoke_outcome.split)
qed

text \<open>What an enrolment does to the table.\<close>

definition enrolled_row :: "string \<Rightarrow> string \<Rightarrow> string \<Rightarrow> bytes \<Rightarrow> string \<Rightarrow> user_device" where
  "enrolled_row i now uid pk label = \<lparr>d_id = i, d_user_id = uid, d_public_key = pk, d_label = label,
     d_created_at = now, d_last_seen_at = None, d_last_seen_ip = None, d_last_seen_user_agent = None,
     d_last_seen_country = None, d_current_session_started_at = None, d_revoked_at = None,
     d_tokens_invalidated_after = 0\<rparr>"

lemma create_device_devices:
  "c_devices (snd (create_device i now uid pk label c)) \<in> {c_devices c, c_devices c @ [enrolled_row i now uid pk label]}"
  unfolding create_device_def snd_bindS_return by (rule exec_cases) (auto simp: enrolled_row_def split: if_splits)

lemma insert_enrolled_devices:
  "c_devices (snd (insert_enrolled i now uid pk label c)) \<in> {c_devices c, c_devices c @ [enrolled_row i now uid pk label]}"
  using create_device_devices [of i now uid pk label c]
  by (cases "get_device_by_user_and_pubkey c uid pk") (auto simp: insert_enrolled_def split: option.split)

lemma wf_insert_enrolled: "wf_devices c \<Longrightarrow> wf_devices (snd (insert_enrolled i now uid pk label c))"
  using wf_device_ops(1)
  by (cases "get_device_by_user_and_pubkey c uid pk") (auto simp: insert_enrolled_def split: option.split)

subsection \<open>What an enrolment takes\<close>

lemma decode_enroll_Inr:
  "decode_enroll cr body = Inr (new_pk, auth_pk, sig) \<Longrightarrow>
    cr_b64_decode cr (er_new_device_public_key body) = Inr new_pk \<and> cr_b64_decode cr (er_authorizer_public_key body) = Inr auth_pk
    \<and> cr_b64_decode cr (er_signature body) = Inr sig"
  by (auto simp: decode_enroll_def split: if_splits)

lemma active_authorizer_state [simp]: "snd (active_authorizer uid pk s) = s"
  by (simp add: active_authorizer_def bindS_split on_db_sel refuse_if_def throwS_def split: sum.split option.split)

lemma active_authorizer_Inr:
  assumes "fst (active_authorizer uid pk s) = Inr d"
  shows "d \<in> set (active_devices (st_conn s) uid) \<and> d_public_key d = pk"
proof -
  have "get_device_by_user_and_pubkey (st_conn s) uid pk = Inr (Some d) \<and> device_active d"
    using assms by (auto simp: active_authorizer_def bindS_split on_db_sel refuse_if_def throwS_def spawn_db_result
        split: sum.splits option.splits if_splits)
  then show ?thesis
    by (auto simp: get_device_by_user_and_pubkey_def optional_query_row stmt_eq_Inr active_devices_def
        dest!: sym [of "Some d"] first_row_SomeD)
qed

lemma enroll_commit_conn:
  "audit_only (snd (insert_enrolled i now uid pk (er_device_label body) (st_conn s)))
     (st_conn (snd (enroll_commit i mk now uid body pk d s)))"
  by (auto simp: enroll_commit_def bindS_split on_db_sel ignoreS_def audit_only_teams split: sum.split)

lemma enroll_complete_cases:
  "st_conn (snd (enroll_complete cr i mk now_str now uid body s)) = st_conn s
   \<or> (\<exists>new_pk auth_pk sig d a. decode_enroll cr body = Inr (new_pk, auth_pk, sig)
       \<and> fst (active_authorizer uid auth_pk s) = Inr d
       \<and> verify_challenge_bound cr now (er_challenge_id body) uid new_pk auth_pk sig (st_auth s) = (Inr True, a)
       \<and> snd (enroll_complete cr i mk now_str now uid body s)
           = snd (enroll_commit i mk now_str uid body new_pk d (s\<lparr>st_auth := a\<rparr>)))"
proof (cases "decode_enroll cr body")
  case (Inl e)
  then show ?thesis by (simp add: enroll_complete_def)
next
  case (Inr r)
  obtain new_pk auth_pk sig where "r = (new_pk, auth_pk, sig)" by (cases r) auto
  then have dec: "decode_enroll cr body = Inr (new_pk, auth_pk, sig)" using Inr by simp
  show ?thesis
  proof (cases "fst (active_authorizer uid auth_pk s)")
    case (Inl e)
    then have "active_authorizer uid auth_pk s = (Inl e, s)" by (metis active_authorizer_state prod.collapse)
    then show ?thesis using dec by (simp add: enroll_complete_def bindS_Inr bindS_Inl)
  next
    case (Inr d)
    then have "active_authorizer uid auth_pk s = (Inr d, s)" by (metis active_authorizer_state prod.collapse)
    moreover obtain v a where v: "verify_challenge_bound cr now (er_challenge_id body) uid new_pk auth_pk sig (st_auth s) = (v, a)"
      by fastforce
    ultimately show ?thesis using dec
      by (cases v) (auto simp: enroll_complete_def bindS_Inr bindS_Inl on_auth_def refuse_if_def throwS_def bindS_def)
  qed
qed

subsection \<open>Properties\<close>

text \<open>C10. A device joins an account only with the help of a device that is already in it: whenever an enrolment
  changes the table of devices, it adds exactly one row, for the caller and the announced key, and there was an
  unrevoked device of the caller whose key verifies the signature over the digest of caller, new key and nonce, with
  a challenge not older than 300 seconds that was issued for this caller and this key.\<close>

theorem enrollment_needs_own_device:
  assumes "c_devices (st_conn (snd (enroll_complete cr i mk now_str now uid body s))) \<noteq> c_devices (st_conn s)"
  shows "\<exists>new_pk sig d ch. cr_b64_decode cr (er_new_device_public_key body) = Inr new_pk
      \<and> cr_b64_decode cr (er_authorizer_public_key body) = Inr (d_public_key d) \<and> cr_b64_decode cr (er_signature body) = Inr sig
    \<and> d \<in> set (active_devices (st_conn s) uid)
    \<and> map_of (au_challenges (st_auth s)) (er_challenge_id body) = Some ch \<and> elapsed now (chl_created_at ch) \<le> secs 300
    \<and> chl_binding ch = Some \<lparr>cb_user_id = uid, cb_target_pk = new_pk\<rparr>
    \<and> cr_verify cr (d_public_key d) (enrollment_signing_digest cr uid new_pk (chl_nonce ch)) sig
    \<and> c_devices (st_conn (snd (enroll_complete cr i mk now_str now uid body s)))
        = c_devices (st_conn s) @ [enrolled_row i now_str uid new_pk (er_device_label body)]"
proof -
  from enroll_complete_cases [of cr i mk now_str now uid body s] assms obtain new_pk auth_pk sig d a
    where f: "decode_enroll cr body = Inr (new_pk, auth_pk, sig)" "fst (active_authorizer uid auth_pk s) = Inr d"
      "verify_challenge_bound cr now (er_challenge_id body) uid new_pk auth_pk sig (st_auth s) = (Inr True, a)"
    and e: "snd (enroll_complete cr i mk now_str now uid body s) = snd (enroll_commit i mk now_str uid body new_pk d (s\<lparr>st_auth := a\<rparr>))"
    by auto
  have "audit_only (snd (insert_enrolled i now_str uid new_pk (er_device_label body) (st_conn s)))
      (st_conn (snd (enroll_complete cr i mk now_str now uid body s)))"
    using enroll_commit_conn [of i now_str uid new_pk body "s\<lparr>st_auth := a\<rparr>" mk d] by (simp add: e)
  then have "c_devices (st_conn (snd (enroll_complete cr i mk now_str now uid body s)))
      = c_devices (snd (insert_enrolled i now_str uid new_pk (er_device_label body) (st_conn s)))"
    by (rule audit_only_frame [where P = c_devices]) simp
  with insert_enrolled_devices assms have "c_devices (st_conn (snd (enroll_complete cr i mk now_str now uid body s)))
        = c_devices (st_conn s) @ [enrolled_row i now_str uid new_pk (er_device_label body)]" by fastforce
  with decode_enroll_Inr [OF f(1)] active_authorizer_Inr [OF f(2)] verify_challenge_bound_InrD [OF f(3)]
  show ?thesis by auto
qed

text \<open>Bob enrolls the key of sevens with the device of ones.\<close>

definition sample_devices :: site where
  "sample_devices = \<lparr>st_auth = run (auth_step toy_crypto) (auth_new [] []) [IssueChallenge (replicate 32 5) [9] 0
       (Some \<lparr>cb_user_id = ''bob'', cb_target_pk = replicate 32 7\<rparr>)],
     st_conn = sample_conn\<lparr>c_devices := [enrolled_row ''d1'' ''now'' ''bob'' (replicate 32 1) ''primary'']\<rparr>, st_sent = []\<rparr>"

definition sample_signature :: bytes where
  "sample_signature = cr_sign toy_crypto [] (enrollment_signing_digest toy_crypto ''bob'' (replicate 32 7) (replicate 32 5))"

definition sample_b64 :: crypto where
  "sample_b64 = toy_crypto\<lparr>cr_b64_decode := (\<lambda>s. Inr (if s = ''new'' then replicate 32 7
     else if s = ''authorizer'' then replicate 32 1 else sample_signature))\<rparr>"

definition sample_enroll :: enroll_request where
  "sample_enroll = \<lparr>er_challenge_id = hex [9], er_new_device_public_key = ''new'',
     er_authorizer_public_key = ''authorizer'', er_signature = ''signature'', er_device_label = ''phone''\<rparr>"

theorem enrollment_needs_own_device_witness:
  "\<exists>d. d \<in> set (active_devices (st_conn sample_devices) ''bob'')
    \<and> c_devices (st_conn (snd (enroll_complete sample_b64 ''d2'' (\<lambda>t. ''a'') ''now'' 1 ''bob'' sample_enroll sample_devices)))
      = c_devices (st_conn sample_devices) @ [enrolled_row ''d2'' ''now'' ''bob'' (replicate 32 7) ''phone'']"
proof -
  let ?s = "snd (enroll_complete sample_b64 ''d2'' (\<lambda>t. ''a'') ''now'' 1 ''bob'' sample_enroll sample_devices)"
  have "length (c_devices (st_conn ?s)) = 2" by code_simp
  moreover have "length (c_devices (st_conn sample_devices)) = 1" by code_simp
  ultimately have "c_devices (st_conn ?s) \<noteq> c_devices (st_conn sample_devices)" by auto
  from enrollment_needs_own_device [OF this] obtain new_pk d
    where n: "cr_b64_decode sample_b64 (er_new_device_public_key sample_enroll) = Inr new_pk"
      and d: "d \<in> set (active_devices (st_conn sample_devices) ''bob'')"
      and e: "c_devices (st_conn ?s) = c_devices (st_conn sample_devices)
        @ [enrolled_row ''d2'' ''now'' ''bob'' new_pk (er_device_label sample_enroll)]" by blast
  have "new_pk = replicate 32 7" using n by (simp add: sample_enroll_def sample_b64_def)
  with d e show ?thesis by (auto simp: sample_enroll_def)
qed

subsection \<open>Every run of the device endpoints\<close>

datatype device_request =
    Enroll string "string \<Rightarrow> string" string int string enroll_request
  | Revoke "string \<Rightarrow> string" string string string

fun device_step :: "crypto \<Rightarrow> site \<Rightarrow> device_request \<Rightarrow> site" where
  "device_step cr s (Enroll i mk now_str now uid body) = snd (enroll_complete cr i mk now_str now uid body s)"
| "device_step cr s (Revoke mk now uid did) = snd (on_db (devices_revoke mk now uid did) s)"

definition somebody_left :: "string \<Rightarrow> site \<Rightarrow> bool" where
  "somebody_left uid s \<longleftrightarrow> wf_devices (st_conn s) \<and> active_devices (st_conn s) uid \<noteq> []"

lemma wf_devices_audit_only: "audit_only c c' \<Longrightarrow> wf_devices c' = wf_devices c"
  by (rule audit_only_frame [where P = wf_devices]) (simp_all add: wf_devices_def)

lemma enroll_somebody_left:
  assumes "somebody_left v s"
  shows "somebody_left v (snd (enroll_complete cr i mk now_str now uid body s))"
  using enroll_complete_cases [of cr i mk now_str now uid body s]
proof
  assume "\<exists>new_pk auth_pk sig d a. decode_enroll cr body = Inr (new_pk, auth_pk, sig)
       \<and> fst (active_authorizer uid auth_pk s) = Inr d
       \<and> verify_challenge_bound cr now (er_challenge_id body) uid new_pk auth_pk sig (st_auth s) = (Inr True, a)
       \<and> snd (enroll_complete cr i mk now_str now uid body s)
           = snd (enroll_commit i mk now_str uid body new_pk d (s\<lparr>st_auth := a\<rparr>))"
  then obtain pk d a where e: "snd (enroll_complete cr i mk now_str now uid body s)
      = snd (enroll_commit i mk now_str uid body pk d (s\<lparr>st_auth := a\<rparr>))" by blast
  let ?c = "snd (insert_enrolled i now_str uid pk (er_device_label body) (st_conn s))"
  have ao: "audit_only ?c (st_conn (snd (enroll_complete cr i mk now_str now uid body s)))"
    using enroll_commit_conn [of i now_str uid pk body "s\<lparr>st_auth := a\<rparr>" mk d] by (simp add: e)
  have "active_devices ?c v \<noteq> []"
    using insert_enrolled_devices [of i now_str uid pk "er_device_label body" "st_conn s"] assms
    by (auto simp: somebody_left_def active_devices_def)
  moreover have "wf_devices ?c" using assms wf_insert_enrolled by (simp add: somebody_left_def)
  ultimately show ?thesis
    unfolding somebody_left_def wf_devices_audit_only [OF ao]
    by (subst audit_only_frame [OF ao, where P = "\<lambda>c. active_devices c v"]) (simp_all add: active_devices_def)
qed (use assms in \<open>simp add: somebody_left_def\<close>)

interpretation device_requests: invariant_machine "device_step cr" "\<lambda>_ _. True"
  "\<lambda>s. somebody_left uid s0 \<longrightarrow> somebody_left uid s" s0
proof (unfold_locales, simp, rule impI)
  fix s e
  assume "somebody_left uid s0 \<longrightarrow> somebody_left uid s" and "somebody_left uid s0"
  then have inv: "somebody_left uid s" by blast
  show "somebody_left uid (device_step cr s e)"
  proof (cases e)
    case (Revoke mk now u did)
    then show ?thesis using inv devices_revoke_active wf_devices_revoke by (simp add: somebody_left_def on_db_sel)
  qed (use inv enroll_somebody_left in simp)
qed

text \<open>C11. Nobody revokes the last device of a user: along every sequence of enrolments and revocations, by whomever
  and whatever statements fail, a user who has an unrevoked device keeps one.\<close>

theorem last_device_stays:
  assumes "wf_devices (st_conn s)" and "\<exists>d \<in> set (c_devices (st_conn s)). d_user_id d = uid \<and> device_active d"
  shows "\<exists>d \<in> set (c_devices (st_conn (run (device_step cr) s es))). d_user_id d = uid \<and> device_active d"
proof -
  have "somebody_left uid s" using assms by (auto simp: somebody_left_def active_devices_def rows_where_eq_Nil)
  with device_requests.reachable_inv [OF admissible_any] have "somebody_left uid (run (device_step cr) s es)" by blast
  then show ?thesis by (auto simp: somebody_left_def active_devices_def rows_where_eq_Nil)
qed

theorem last_device_stays_witness:
  "\<exists>d \<in> set (c_devices (st_conn (run (device_step sample_b64) sample_devices
      [Revoke (\<lambda>t. ''a'') ''now'' ''bob'' ''d1'', Enroll ''d2'' (\<lambda>t. ''a'') ''now'' 1 ''bob'' sample_enroll,
       Revoke (\<lambda>t. ''a'') ''now'' ''bob'' ''d1'', Revoke (\<lambda>t. ''a'') ''now'' ''bob'' ''d2'']))).
     d_user_id d = ''bob'' \<and> device_active d"
  by (rule last_device_stays) (simp_all add: sample_devices_def wf_devices_def enrolled_row_def device_active_def)

text \<open>An enrolment of a key that the user revoked before succeeds and changes nothing: the answer names the revoked
  device, which stays revoked.\<close>

lemma reenrolled_key_stays_revoked:
  assumes "healthy c" and "rows_where (\<lambda>d. d_user_id d = uid \<and> d_public_key d = pk) (c_devices c) = d # ds"
  shows "insert_enrolled i now uid pk label c = (Inr (d_id d), c)"
  using assms by (simp add: insert_enrolled_def get_device_by_user_and_pubkey_def)

end
