(* ===== verification/Login_Risk.thy ===== *)
theory Login_Risk
  imports Outbound
begin

section \<open>Risk signals of a login\<close>

text \<open>
  The risk scoring of \<open>api/auth_handlers.rs\<close> and the list of Tor exits of \<open>tor_list.rs\<close>, with the address parser of
  the standard library they use. The country database is a parameter. A header is \<open>None\<close> when absent and
  \<open>Some None\<close> when \<open>to_str\<close> fails on it, as in \<open>Auth\<close>; a header text is visible ASCII, so cutting it at a byte is safe.
\<close>

subsection \<open>\<open>IpAddr::from_str\<close>\<close>

text \<open>The parser of \<open>core::net\<close>: readers that return a value and the rest of the text.\<close>

definition hex_value :: "char \<Rightarrow> nat option" where
  "hex_value ch = (let b = char_byte ch in
     if 48 \<le> b \<and> b \<le> 57 then Some (nat (b - 48)) else if 97 \<le> b \<and> b \<le> 102 then Some (nat (b - 87))
     else if 65 \<le> b \<and> b \<le> 70 then Some (nat (b - 55)) else None)"

text \<open>Up to \<open>n\<close> digits: their count, the value, the rest.\<close>

fun read_digits :: "(char \<Rightarrow> nat option) \<Rightarrow> nat \<Rightarrow> nat \<Rightarrow> nat \<Rightarrow> nat \<Rightarrow> string \<Rightarrow> nat \<times> nat \<times> string" where
  "read_digits dig radix 0 k acc s = (k, acc, s)"
| "read_digits dig radix (Suc n) k acc [] = (k, acc, [])"
| "read_digits dig radix (Suc n) k acc (x # s) = (case dig x of
     None \<Rightarrow> (k, acc, x # s) | Some v \<Rightarrow> read_digits dig radix n (k + 1) (acc * radix + v) s)"

text \<open>\<open>read_number\<close>: one more digit than allowed is an error, and so is a value over the maximum. Decimal groups
  take no leading zero.\<close>

definition read_octet :: "string \<Rightarrow> (u8 \<times> string) option" where
  "read_octet s = (case read_digits digit_value 10 4 0 0 s of (k, v, rest) \<Rightarrow>
     if k = 0 \<or> k > 3 \<or> v > 255 \<or> (hd s = CHR ''0'' \<and> k > 1) then None else Some (of_nat v, rest))"

definition read_group :: "string \<Rightarrow> (u16 \<times> string) option" where
  "read_group s = (case read_digits hex_value 16 5 0 0 s of (k, v, rest) \<Rightarrow>
     if k = 0 \<or> k > 4 then None else Some (of_nat v, rest))"

fun read_char :: "char \<Rightarrow> string \<Rightarrow> string option" where
  "read_char ch [] = None"
| "read_char ch (x # s) = (if x = ch then Some s else None)"

definition read_separator :: "char \<Rightarrow> nat \<Rightarrow> (string \<Rightarrow> 'a option) \<Rightarrow> string \<Rightarrow> 'a option" where
  "read_separator ch index inner s = (if index > 0 then Option.bind (read_char ch s) inner else inner s)"

definition read_ipv4 :: "string \<Rightarrow> ((u8 \<times> u8 \<times> u8 \<times> u8) \<times> string) option" where
  "read_ipv4 s0 =
     Option.bind (read_octet s0) (\<lambda>(a, s1).
     Option.bind (read_separator CHR ''.'' 1 read_octet s1) (\<lambda>(b, s2).
     Option.bind (read_separator CHR ''.'' 2 read_octet s2) (\<lambda>(c, s3).
     Option.bind (read_separator CHR ''.'' 3 read_octet s3) (\<lambda>(d, s4).
     Some ((a, b, c, d), s4)))))"

definition be16 :: "u8 \<Rightarrow> u8 \<Rightarrow> u16" where
  "be16 hi lo = push_bit 8 (ucast hi) OR ucast lo"

text \<open>\<open>read_groups\<close> with \<open>n\<close> slots left of a slice whose first slot is \<open>i\<close>: the groups read, whether the last two come from
  an embedded IPv4 address, and the rest.\<close>

fun read_groups :: "nat \<Rightarrow> nat \<Rightarrow> string \<Rightarrow> u16 list \<times> bool \<times> string" where
  "read_groups 0 i s = ([], False, s)"
| "read_groups (Suc n) i s =
     (case (if n > 0 then read_separator CHR '':'' i read_ipv4 s else None) of
        Some ((a, b, c, d), rest) \<Rightarrow> ([be16 a b, be16 c d], True, rest)
      | None \<Rightarrow> (case read_separator CHR '':'' i read_group s of
          None \<Rightarrow> ([], False, s)
        | Some (g, rest) \<Rightarrow> (case read_groups n (i + 1) rest of (gs, v4, rest') \<Rightarrow> (g # gs, v4, rest'))))"

fun v6_of :: "u16 list \<Rightarrow> ip_addr option" where
  "v6_of [a, b, c, d, e, f, g, h] = Some (V6 a b c d e f g h)"
| "v6_of _ = None"

definition read_ipv6 :: "string \<Rightarrow> (ip_addr \<times> string) option" where
  "read_ipv6 s = (case read_groups 8 0 s of (head, head_ipv4, s1) \<Rightarrow>
     if length head = 8 then map_option (\<lambda>ip. (ip, s1)) (v6_of head)
     else if head_ipv4 then None
     else Option.bind (read_char CHR '':'' s1) (\<lambda>s2. Option.bind (read_char CHR '':'' s2) (\<lambda>s3.
       case read_groups (8 - (length head + 1)) 0 s3 of (tail, _, s4) \<Rightarrow>
         map_option (\<lambda>ip. (ip, s4)) (v6_of (head @ replicate (8 - length head - length tail) 0 @ tail)))))"

definition parse_ip :: "string \<Rightarrow> ip_addr option" where
  "parse_ip s =
     (case (case read_ipv4 s of Some ((a, b, c, d), rest) \<Rightarrow> Some (V4 a b c d, rest) | None \<Rightarrow> read_ipv6 s) of
        Some (ip, rest) \<Rightarrow> if rest = [] then Some ip else None
      | None \<Rightarrow> None)"

subsection \<open>The list of Tor exits\<close>

text \<open>\<open>str::lines\<close> (a final line end adds no line) and the first word of a trimmed line.\<close>

definition str_lines :: "string \<Rightarrow> string list" where
  "str_lines s = (let ls = split_on (char_of (10 :: nat)) s;
     kept = (if ls \<noteq> [] \<and> last ls = [] then butlast ls else ls)
   in map (\<lambda>l. if l \<noteq> [] \<and> last l = char_of (13 :: nat) then butlast l else l) kept)"

fun first_word :: "string \<Rightarrow> string" where
  "first_word [] = []"
| "first_word (x # s) = (if leading_space white_space (x # s) > 0 then [] else x # first_word s)"

fun parse_tor_list :: "string list \<Rightarrow> ip_addr set" where
  "parse_tor_list [] = {}"
| "parse_tor_list (raw # rest) =
     (let line = trim raw in
      if line = [] \<or> hd line = CHR ''#'' then parse_tor_list rest
      else (case parse_ip (first_word line) of
          Some ip \<Rightarrow> insert ip (parse_tor_list rest)
        | None \<Rightarrow> parse_tor_list rest))"

text \<open>\<open>exits\<close> is the list the process loaded, \<open>None\<close> when there is none.\<close>

definition tor_init :: "string \<Rightarrow> string option \<Rightarrow> ip_addr set option" where
  "tor_init path file = (if path = [] then None else map_option (\<lambda>body. parse_tor_list (str_lines body)) file)"

definition ip_is_tor_exit :: "ip_addr set option \<Rightarrow> string \<Rightarrow> bool" where
  "ip_is_tor_exit exits ip = (case parse_ip ip of None \<Rightarrow> False
     | Some parsed \<Rightarrow> (case exits of Some set1 \<Rightarrow> parsed \<in> set1 | None \<Rightarrow> False))"

subsection \<open>The request\<close>

definition header_str :: "string option option \<Rightarrow> string option" where
  "header_str h = (case h of Some v \<Rightarrow> v | None \<Rightarrow> None)"

definition non_empty :: "string option \<Rightarrow> string option" where
  "non_empty o1 = (case o1 of Some [] \<Rightarrow> None | _ \<Rightarrow> o1)"

definition extract_request_context ::
  "string option option \<Rightarrow> string option option \<Rightarrow> string option option \<Rightarrow> string option \<times> string option" where
  "extract_request_context forwarded_for real_ip user_agent =
     (non_empty (case header_str forwarded_for of
        Some s \<Rightarrow> Some (trim (hd (split_on CHR '','' s))) | None \<Rightarrow> header_str real_ip),
      map_option (\<lambda>s. if length s > 256 then take 256 s else s) (non_empty (header_str user_agent)))"

definition derive_country_from_ip :: "(ip_addr \<Rightarrow> string option) \<Rightarrow> string option \<Rightarrow> string option" where
  "derive_country_from_ip country_for ip = (case ip of None \<Rightarrow> None | Some s \<Rightarrow>
     if starts_with ''10.'' s \<or> starts_with ''172.'' s \<or> starts_with ''192.168.'' s \<or> s = ''127.0.0.1'' \<or> s = ''::1'' then None
     else (case Option.bind (parse_ip s) country_for of Some cc \<Rightarrow> Some cc | None \<Rightarrow> Some ''unknown''))"

definition ip_hint :: "string \<Rightarrow> string" where
  "ip_hint ip = (case rsplit_once CHR ''.'' ip of Some (a, _) \<Rightarrow> a @ ''.x''
     | None \<Rightarrow> (case rsplit_once CHR '':'' ip of Some (a, _) \<Rightarrow> a @ ''::x'' | None \<Rightarrow> ''x''))"

subsection \<open>The score\<close>

definition user_agent_family :: "string option \<Rightarrow> string" where
  "user_agent_family ua = (case ua of None \<Rightarrow> ''unknown'' | Some s \<Rightarrow>
     let lower = ascii_lower s in
     if contains ''firefox'' lower then ''firefox'' else if contains ''edg/'' lower then ''edge''
     else if contains ''chrome'' lower then ''chrome'' else if contains ''safari'' lower then ''safari''
     else if contains ''dilla-tauri'' lower \<or> contains ''tauri'' lower then ''tauri'' else ''other'')"

definition saturating_add :: "u32 \<Rightarrow> u32 \<Rightarrow> u32" where
  "saturating_add a b = (if unat a + unat b < 2 ^ 32 then a + b else - 1)"

definition country_change_score :: "string option \<Rightarrow> string option \<Rightarrow> u32" where
  "country_change_score prev_country new_country = (case (prev_country, new_country) of
     (Some p, Some n) \<Rightarrow> if p \<noteq> n then 30 else 0 | _ \<Rightarrow> 0)"

definition ua_change_score :: "string option \<Rightarrow> string option \<Rightarrow> u32" where
  "ua_change_score prev_ua new_ua = (case prev_ua of
     Some p \<Rightarrow> if user_agent_family (Some p) \<noteq> user_agent_family new_ua then 20 else 0 | None \<Rightarrow> 0)"

definition ip_risk_score :: "ip_addr set option \<Rightarrow> string option \<Rightarrow> u32" where
  "ip_risk_score exits new_ip = (case new_ip of Some n \<Rightarrow> if ip_is_tor_exit exits n then 50 else 0 | None \<Rightarrow> 0)"

definition compute_risk_score ::
  "ip_addr set option \<Rightarrow> (string option \<times> string option \<times> string option) option
    \<Rightarrow> string option \<Rightarrow> string option \<Rightarrow> string option \<Rightarrow> u32" where
  "compute_risk_score exits prev new_ip new_ua new_country = (case prev of None \<Rightarrow> 0
     | Some (prev_ip, prev_ua, prev_country) \<Rightarrow>
         saturating_add (saturating_add (saturating_add 0 (country_change_score prev_country new_country))
           (ua_change_score prev_ua new_ua)) (ip_risk_score exits new_ip))"

lemma tor_list_exact:
  "parse_tor_list ls = {ip. \<exists>raw \<in> set ls. trim raw \<noteq> [] \<and> hd (trim raw) \<noteq> CHR ''#'' \<and> parse_ip (first_word (trim raw)) = Some ip}"
proof (induction ls)
  case (Cons raw ls)
  then show ?case by (cases "parse_ip (first_word (trim raw))") (auto simp: Let_def)
qed simp

definition country_changed :: "string option \<Rightarrow> string option \<Rightarrow> bool" where
  "country_changed old new \<longleftrightarrow> old \<noteq> None \<and> new \<noteq> None \<and> old \<noteq> new"

definition family_changed :: "string option \<Rightarrow> string option \<Rightarrow> bool" where
  "family_changed old new \<longleftrightarrow> old \<noteq> None \<and> user_agent_family old \<noteq> user_agent_family new"

definition from_tor :: "ip_addr set option \<Rightarrow> string option \<Rightarrow> bool" where
  "from_tor exits ip \<longleftrightarrow> (\<exists>s. ip = Some s \<and> ip_is_tor_exit exits s)"

lemma risk_scores:
  "country_change_score old new = (if country_changed old new then 30 else 0)"
  "ua_change_score ua ua' = (if family_changed ua ua' then 20 else 0)"
  "ip_risk_score exits ip = (if from_tor exits ip then 50 else 0)"
  by (auto simp: country_change_score_def country_changed_def ua_change_score_def family_changed_def ip_risk_score_def from_tor_def
      split: option.split)

text \<open>The score never saturates: it is the sum of the three signals, at most 100.\<close>

lemma compute_risk_score_sum:
  "compute_risk_score exits prev ip ua country = (case prev of None \<Rightarrow> 0 | Some (pip, pua, pcountry) \<Rightarrow>
     (if country_changed pcountry country then 30 else 0) + (if family_changed pua ua then 20 else 0)
       + (if from_tor exits ip then 50 else 0))"
  by (simp add: compute_risk_score_def risk_scores saturating_add_def split: option.split)

lemma risk_score_threshold:
  "compute_risk_score exits (Some (pip, pua, pcountry)) ip ua country \<ge> 80 \<longleftrightarrow> country_changed pcountry country \<and> from_tor exits ip"
  "compute_risk_score exits None ip ua country < 80" "compute_risk_score exits prev ip ua country \<le> 100"
  by (auto simp: compute_risk_score_sum split: option.split)

end
