(* ===== verification/Login_Api.thy ===== *)
theory Login_Api
  imports Invites_Api Login_Risk Json_Rows
begin

section \<open>Login, registration and bootstrap\<close>

text \<open>
  \<open>api/auth_handlers.rs\<close>. The record \<open>login_env\<close> holds what a request takes from outside: the clocks, the fresh ids
  (\<open>le_id n\<close> is the n-th of the request), the ids of audit rows, the list of Tor exits, the country database. A JSON
  body that does not decode is an \<open>Inl\<close>. A response is the values of its JSON object with the cookie.
\<close>

subsection \<open>What a request needs from outside\<close>

record login_env =
  le_instant :: int
  le_utc :: int
  le_now :: string
  le_id :: "nat \<Rightarrow> string"
  le_audit :: "string \<Rightarrow> string"
  le_exits :: "ip_addr set option"
  le_country_for :: "ip_addr \<Rightarrow> string option"

definition epoch :: "login_env \<Rightarrow> int" where
  "epoch env = le_utc env div 1000000000"

definition json_opt :: "string option \<Rightarrow> json" where
  "json_opt v = (case v of None \<Rightarrow> JNull | Some s \<Rightarrow> JStr s)"

definition user_json :: "crypto \<Rightarrow> user \<Rightarrow> json" where
  "user_json cr u = JObj [(''id'', JStr (u_id u)), (''username'', JStr (u_username u)),
     (''display_name'', JStr (u_display_name u)), (''public_key'', JStr (cr_b64_encode cr (u_public_key u))),
     (''avatar_url'', JStr (u_avatar_url u)), (''status_text'', JStr (u_status_text u)),
     (''status_type'', JStr (u_status_type u)), (''is_admin'', JBool (u_is_admin u)),
     (''created_at'', JStr (u_created_at u)), (''updated_at'', JStr (u_updated_at u)),
     (''quiet_hours_enabled'', JBool (u_quiet_hours_enabled u)), (''quiet_hours_from'', JStr (u_quiet_hours_from u)),
     (''quiet_hours_to'', JStr (u_quiet_hours_to u))]"

subsection \<open>Cookies\<close>

definition AUTH_COOKIE_NAME :: string where "AUTH_COOKIE_NAME = ''__dilla_jwt''"

definition build_auth_cookie :: "string \<Rightarrow> nat \<Rightarrow> bool \<Rightarrow> string" where
  "build_auth_cookie token max_age_secs insecure =
     AUTH_COOKIE_NAME @ ''='' @ token @ ''; HttpOnly; SameSite=Strict;'' @ (if insecure then [] else '' Secure;'')
       @ '' Path=/api/v1; Max-Age='' @ show_nat max_age_secs"

definition clear_auth_cookie :: "bool \<Rightarrow> string" where
  "clear_auth_cookie insecure =
     AUTH_COOKIE_NAME @ ''=; HttpOnly; SameSite=Strict;'' @ (if insecure then [] else '' Secure;'')
       @ '' Path=/api/v1; Max-Age=0''"

subsection \<open>Challenges\<close>

definition challenge_request :: "crypto \<Rightarrow> bytes \<Rightarrow> bytes \<Rightarrow> int \<Rightarrow> string \<Rightarrow> (string \<times> string) site_op" where
  "challenge_request cr nonce id_bytes now public_key =
     bindS (readS (\<lambda>_. bindE (decode_b64 cr ''public key'' public_key) (sized 32 ''public key must be 32 bytes''))) (\<lambda>_.
     bindS (on_auth (generate_challenge nonce id_bytes now)) (\<lambda>(nc, cid).
     returnS (cid, cr_b64_encode cr nc)))"

definition decode_and_verify_challenge ::
  "crypto \<Rightarrow> int \<Rightarrow> string \<Rightarrow> string \<Rightarrow> string \<Rightarrow> bytes site_op" where
  "decode_and_verify_challenge cr now challenge_id public_key signature =
     bindS (readS (\<lambda>_. decode_b64 cr ''public key'' public_key)) (\<lambda>pk.
     bindS (readS (\<lambda>_. decode_b64 cr ''signature'' signature)) (\<lambda>sig.
     bindS (on_auth (verify_challenge cr now challenge_id pk sig)) (\<lambda>valid.
     bindS (refuse_if (\<not> valid) (Unauthorized ''invalid signature'')) (\<lambda>_.
     returnS pk))))"

subsection \<open>Audit of logins\<close>

definition log_login_failure_global :: "login_env \<Rightarrow> string \<Rightarrow> string option \<Rightarrow> string option \<Rightarrow> unit site_op" where
  "log_login_failure_global env reason ip ua = ignoreS (on_db (spawn_db
     (insert_audit_event (le_audit env ''_global'') (le_now env) ''_global'' None ''auth.login_failed'' (Some ''auth'') None
       (Some (JObj [(''reason'', JStr reason), (''ip'', json_opt ip), (''user_agent'', json_opt ua)])))))"

definition log_revoked_device_login :: "login_env \<Rightarrow> string \<Rightarrow> string \<Rightarrow> string option \<Rightarrow> unit site_op" where
  "log_revoked_device_login env uid did ip = ignoreS (on_db (spawn_db
     (audit_user_teams (le_audit env) (le_now env) uid ''auth.login_failed'' (Some ''device'') (Some did)
       (Some (JObj [(''reason'', JStr ''device_revoked''), (''ip'', json_opt ip)])))))"

text \<open>The frame to the devices of the user, from a score of 80.\<close>

definition risk_frames :: "string \<Rightarrow> string \<Rightarrow> u32 \<Rightarrow> string option \<Rightarrow> string option \<Rightarrow> hub_msg list" where
  "risk_frames uid did risk_score ip country =
     (if risk_score < 80 then []
      else [DirectMsg uid (event_new ''security:device-risk'' (JObj [(''device_id'', JStr did),
        (''risk_score'', JNum (uint risk_score)), (''country'', json_opt country),
        (''ip_hint'', json_opt (map_option ip_hint ip))]))])"

definition handle_risky_login ::
  "login_env \<Rightarrow> string \<Rightarrow> string \<Rightarrow> u32 \<Rightarrow> string option \<Rightarrow> string option \<Rightarrow> unit site_op" where
  "handle_risky_login env uid did risk_score ip country =
     bindS (ignoreS (on_db (spawn_db
       (audit_user_teams (le_audit env) (le_now env) uid ''device.risk_event'' (Some ''device'') (Some did)
         (Some (JObj [(''risk_score'', JNum (uint risk_score)), (''ip'', json_opt ip), (''country'', json_opt country)])))))) (\<lambda>_.
     send_frames (risk_frames uid did risk_score ip country))"

definition log_login_success :: "login_env \<Rightarrow> string \<Rightarrow> string \<Rightarrow> string option \<Rightarrow> string option \<Rightarrow> unit site_op" where
  "log_login_success env uid did ip country = ignoreS (on_db (spawn_db
     (audit_user_teams (le_audit env) (le_now env) uid ''auth.login'' (Some ''device'') (Some did)
       (Some (JObj [(''ip'', json_opt ip), (''country'', json_opt country)])))))"

subsection \<open>Login\<close>

record verify_request =
  vr_challenge_id :: string
  vr_public_key :: string
  vr_signature :: string

record login_response =
  lr_token :: string
  lr_refresh_token :: string
  lr_user :: user
  lr_device_id :: string
  lr_team_id :: string
  lr_cookie :: string

text \<open>The two tokens of a response, for a user and a device.\<close>

definition issue_tokens :: "jwt_lib \<Rightarrow> login_env \<Rightarrow> string \<Rightarrow> string \<Rightarrow> (string \<times> string) site_op" where
  "issue_tokens J env uid did =
     bindS (readS (\<lambda>s. generate_jwt_for_device J (st_auth s) (epoch env) (le_id env 0) uid did)) (\<lambda>token.
     bindS (readS (\<lambda>s. generate_refresh_token_for_device J (st_auth s) (epoch env) (le_id env 1) uid did)) (\<lambda>refresh_token.
     returnS (token, refresh_token)))"

definition prev_signals :: "user_device \<Rightarrow> string option \<times> string option \<times> string option" where
  "prev_signals d = (d_last_seen_ip d, d_last_seen_user_agent d, d_last_seen_country d)"

definition stamp_device :: "login_env \<Rightarrow> string option \<Rightarrow> string option \<Rightarrow> string option \<Rightarrow> user_device option \<Rightarrow> unit site_op" where
  "stamp_device env ip ua country device = (case device of None \<Rightarrow> returnS ()
     | Some d \<Rightarrow> ignoreS (on_db (spawn_db (record_device_login (le_now env) (d_id d) ip ua country))))"

definition admit_login ::
  "jwt_lib \<Rightarrow> login_env \<Rightarrow> bool \<Rightarrow> string option \<Rightarrow> string option \<Rightarrow> user \<Rightarrow> user_device option \<Rightarrow> login_response site_op" where
  "admit_login J env insecure ip ua user device =
     (let did = (case device of None \<Rightarrow> [] | Some d \<Rightarrow> d_id d);
          country = derive_country_from_ip (le_country_for env) ip;
          risk_score = compute_risk_score (le_exits env) (map_option prev_signals device) ip ua country
      in bindS (stamp_device env ip ua country device) (\<lambda>_.
         bindS (if risk_score \<ge> 50 then handle_risky_login env (u_id user) did risk_score ip country else returnS ()) (\<lambda>_.
         bindS (issue_tokens J env (u_id user) did) (\<lambda>(token, refresh_token).
         bindS (log_login_success env (u_id user) did ip country) (\<lambda>_.
         returnS \<lparr>lr_token = token, lr_refresh_token = refresh_token, lr_user = user, lr_device_id = did, lr_team_id = [],
           lr_cookie = build_auth_cookie token 3600 insecure\<rparr>)))))"

definition login_known ::
  "jwt_lib \<Rightarrow> login_env \<Rightarrow> bool \<Rightarrow> string option \<times> string option \<Rightarrow> user \<Rightarrow> bytes \<Rightarrow> login_response site_op" where
  "login_known J env insecure ctx user pk =
     bindS (on_db (spawn_db (readS (\<lambda>c. get_device_by_user_and_pubkey c (u_id user) pk)))) (\<lambda>device.
     if (case device of Some d \<Rightarrow> \<not> device_active d | None \<Rightarrow> False)
     then bindS (log_revoked_device_login env (u_id user) (d_id (the device)) (fst ctx))
       (\<lambda>_. throwS (Unauthorized ''invalid signature''))
     else admit_login J env insecure (fst ctx) (snd ctx) user device)"

definition login_verify ::
  "crypto \<Rightarrow> jwt_lib \<Rightarrow> login_env \<Rightarrow> bool \<Rightarrow> string option option \<Rightarrow> string option option \<Rightarrow> string option option
    \<Rightarrow> string + verify_request \<Rightarrow> login_response site_op" where
  "login_verify cr J env insecure forwarded_for real_ip user_agent request =
     (let ctx = extract_request_context forwarded_for real_ip user_agent in
     bindS (readS (\<lambda>_. map_err BadRequest request)) (\<lambda>body.
     bindS (readS (\<lambda>_. decode_b64 cr ''public key'' (vr_public_key body))) (\<lambda>pk.
     bindS (readS (\<lambda>_. decode_b64 cr ''signature'' (vr_signature body))) (\<lambda>sig.
     bindS (on_auth (verify_challenge cr (le_instant env) (vr_challenge_id body) pk sig)) (\<lambda>valid.
     bindS (on_db (spawn_db (readS (\<lambda>c. get_user_by_public_key c pk)))) (\<lambda>found.
     case (if valid then found else None) of
       None \<Rightarrow> bindS (log_login_failure_global env (if \<not> valid then ''bad_signature'' else ''unknown_user'') (fst ctx) (snd ctx))
         (\<lambda>_. throwS (Unauthorized ''invalid signature''))
     | Some user \<Rightarrow> login_known J env insecure ctx user pk))))))"

subsection \<open>Registration\<close>

record register_request =
  rr_challenge_id :: string
  rr_public_key :: string
  rr_signature :: string
  rr_username :: string
  rr_invite_token :: string

definition check_username_and_key_available :: "string \<Rightarrow> bytes \<Rightarrow> conn \<Rightarrow> unit db_res" where
  "check_username_and_key_available username pk c =
     bindE (get_user_by_username c username) (\<lambda>taken.
     if taken \<noteq> None then Inl QueryReturnedNoRows
     else bindE (get_user_by_public_key c pk) (\<lambda>known.
       if known \<noteq> None then Inl QueryReturnedNoRows else Inr ()))"

definition validate_invite :: "string \<Rightarrow> conn \<Rightarrow> string \<Rightarrow> invite db_res" where
  "validate_invite now c invite_token = bindE (get_invite_by_token c invite_token) (\<lambda>io.
     bindE (ok_or io (InvalidParameterName ''invite not found'')) (judge_invite now))"

definition new_user :: "login_env \<Rightarrow> string \<Rightarrow> bytes \<Rightarrow> bool \<Rightarrow> user" where
  "new_user env username pk is_admin = \<lparr>u_id = le_id env 2, u_username = username, u_display_name = username,
     u_public_key = pk, u_avatar_url = [], u_status_text = [], u_status_type = ''online'', u_is_admin = is_admin,
     u_created_at = le_now env, u_updated_at = le_now env, u_quiet_hours_enabled = False,
     u_quiet_hours_from = ''22:00'', u_quiet_hours_to = ''07:30''\<rparr>"

definition new_member :: "login_env \<Rightarrow> string \<Rightarrow> string \<Rightarrow> string \<Rightarrow> member" where
  "new_member env uid tid invited_by = \<lparr>m_id = le_id env 3, m_team_id = tid, m_user_id = uid, m_nickname = [],
     m_joined_at = le_now env, m_invited_by = invited_by, m_updated_at = []\<rparr>"

text \<open>The closure of \<open>register\<close>. There is no transaction.\<close>

definition register_body ::
  "login_env \<Rightarrow> string \<Rightarrow> bytes \<Rightarrow> string \<Rightarrow> (user \<times> member \<times> string \<times> string) db_op" where
  "register_body env username pk invite_token =
     bindS (readS (check_username_and_key_available username pk)) (\<lambda>_.
     bindS (readS (\<lambda>c. validate_invite (le_now env) c invite_token)) (\<lambda>iv.
     let user = new_user env username pk False;
         member = new_member env (u_id user) (i_team_id iv) (i_created_by iv)
     in bindS (create_user user) (\<lambda>_.
        bindS (create_member member) (\<lambda>_.
        bindS (readS (\<lambda>c. get_default_role_for_team c (i_team_id iv))) (\<lambda>default_role.
        bindS (case default_role of Some role \<Rightarrow> assign_role_to_member (m_id member) (r_id role) | None \<Rightarrow> returnS ()) (\<lambda>_.
        bindS (increment_invite_uses (i_id iv)) (\<lambda>_.
        bindS (log_invite_use (le_id env 4) (le_now env) (i_id iv) (u_id user)) (\<lambda>_.
        bindS (create_device (le_id env 5) (le_now env) (u_id user) (u_public_key user) ''primary'') (\<lambda>did.
        returnS (user, member, i_team_id iv, did))))))))))"

definition register_error :: "app_error \<Rightarrow> app_error" where
  "register_error e = (case e of NotFound _ \<Rightarrow> Conflict ''username or public key already registered''
     | Forbidden msg \<Rightarrow> BadRequest msg | _ \<Rightarrow> e)"

definition check_new_account :: "string \<Rightarrow> string \<Rightarrow> string \<Rightarrow> app_error + unit" where
  "check_new_account username token token_name =
     (if username = [] then Inl (BadRequest ''username is required'')
      else if length username > 32 then Inl (BadRequest ''username too long (max 32 chars)'')
      else if token = [] then Inl (BadRequest (token_name @ '' is required'')) else Inr ())"

definition register :: "crypto \<Rightarrow> jwt_lib \<Rightarrow> login_env \<Rightarrow> bool \<Rightarrow> register_request \<Rightarrow> login_response site_op" where
  "register cr J env insecure body =
     bindS (decode_and_verify_challenge cr (le_instant env) (rr_challenge_id body) (rr_public_key body) (rr_signature body)) (\<lambda>pk.
     bindS (readS (\<lambda>_. check_new_account (rr_username body) (rr_invite_token body) ''invite_token'')) (\<lambda>_.
     bindS (on_db (map_errH register_error (spawn_db (register_body env (rr_username body) pk (rr_invite_token body)))))
       (\<lambda>(user, member, tid, did).
     bindS (issue_tokens J env (u_id user) did) (\<lambda>(token, refresh_token).
     bindS (send_frames [BroadcastAll (event_new EVENT_MEMBER_JOINED (JObj [(''team_id'', JStr tid),
       (''user'', user_json cr user), (''member'', JObj (member_json member))]))]) (\<lambda>_.
     returnS \<lparr>lr_token = token, lr_refresh_token = refresh_token, lr_user = user, lr_device_id = [], lr_team_id = tid,
       lr_cookie = build_auth_cookie token 3600 insecure\<rparr>)))))"

subsection \<open>Bootstrap\<close>

record bootstrap_request =
  br_challenge_id :: string
  br_public_key :: string
  br_signature :: string
  br_username :: string
  br_bootstrap_token :: string
  br_team_name :: string

text \<open>\<open>parse_time\<close> is \<open>chrono\<close>'s parser for \<open>%Y-%m-%d %H:%M:%S\<close>, in seconds since the epoch.\<close>

definition validate_bootstrap_token :: "(string \<Rightarrow> int option) \<Rightarrow> login_env \<Rightarrow> string \<Rightarrow> unit db_op" where
  "validate_bootstrap_token parse_time env token =
     bindS (readS (\<lambda>c. get_bootstrap_token c token)) (\<lambda>found.
     bindS (some_or (InvalidParameterName ''invalid bootstrap token'') found) (\<lambda>bt.
     bindS (refuse_if (bt_used bt) (InvalidParameterName ''bootstrap token already used'')) (\<lambda>_.
     bindS (if bt_expires_at bt = [] then returnS ()
            else (case parse_time (bt_expires_at bt) of
                None \<Rightarrow> throwS (InvalidParameterName ''bootstrap token has malformed expires_at'')
              | Some ex \<Rightarrow> refuse_if (le_utc env > ex * 1000000000) (InvalidParameterName ''bootstrap token expired''))) (\<lambda>_.
     use_bootstrap_token token))))"

definition resolve_team_name :: "string \<Rightarrow> string \<Rightarrow> string" where
  "resolve_team_name body_name config_name =
     (if body_name \<noteq> [] then body_name else if config_name \<noteq> [] then config_name else ''My Team'')"

definition bootstrap_team :: "login_env \<Rightarrow> string \<Rightarrow> string \<Rightarrow> team" where
  "bootstrap_team env team_name uid = \<lparr>t_id = le_id env 6, t_name = team_name, t_description = [], t_icon_url = [],
     t_created_by = uid, t_max_file_size = 25 * 1024 * 1024, t_allow_member_invites = True, t_federated = False,
     t_force_turn_relay = False, t_created_at = le_now env, t_updated_at = le_now env\<rparr>"

definition create_bootstrap_team :: "login_env \<Rightarrow> string \<Rightarrow> string \<Rightarrow> string db_op" where
  "create_bootstrap_team env team_name uid =
     bindS (create_team (bootstrap_team env team_name uid)) (\<lambda>_. returnS (le_id env 6))"

definition bootstrap_role :: "login_env \<Rightarrow> string \<Rightarrow> string \<Rightarrow> string \<Rightarrow> string \<Rightarrow> int \<Rightarrow> u64 \<Rightarrow> bool \<Rightarrow> role" where
  "bootstrap_role env rid tid name color position permissions is_default = \<lparr>r_id = rid, r_team_id = tid, r_name = name,
     r_color = color, r_position = position, r_permissions = permissions, r_is_default = is_default,
     r_created_at = le_now env, r_updated_at = []\<rparr>"

definition bootstrap_roles :: "login_env \<Rightarrow> string \<Rightarrow> role list" where
  "bootstrap_roles env tid =
     [bootstrap_role env (le_id env 7) tid ''Admin'' ''#5eebab'' 1
        (PERM_ADMIN OR PERM_MANAGE_FEDERATION OR PERM_VIEW_AUDIT_LOG) False,
      bootstrap_role env (le_id env 8) tid ''everyone'' ''#99AAB5'' 0 (PERM_SEND_MESSAGES OR PERM_CREATE_INVITES) True]"

definition bootstrap_channels :: "bool \<Rightarrow> (string \<times> string \<times> string) list" where
  "bootstrap_channels seed_demo = (''general'', ''General discussion'', ''text'') #
     (if seed_demo then [(''design'', ''Design crits and figma links'', ''text''),
        (''dev'', ''Dev chat '' @ em_dash @ '' PRs, deploys, debugging'', ''text''),
        (''random'', ''Off-topic'', ''text''), (''voice-lounge'', [], ''voice'')] else [])"

definition bootstrap_channel :: "login_env \<Rightarrow> string \<Rightarrow> string \<Rightarrow> nat \<times> string \<times> string \<times> string \<Rightarrow> channel" where
  "bootstrap_channel env tid uid = (\<lambda>(i, name, topic, kind). \<lparr>ch_id = le_id env (20 + i), ch_team_id = tid, ch_name = name,
     ch_topic = topic, ch_type = kind, ch_position = int i, ch_category = [], ch_created_by = uid,
     ch_created_at = le_now env, ch_updated_at = le_now env, ch_locked = False, ch_hidden_if_restricted = False,
     ch_slow_mode_seconds = 0, ch_group_id = None\<rparr>)"

definition create_bootstrap_defaults :: "login_env \<Rightarrow> string \<Rightarrow> string \<Rightarrow> bool \<Rightarrow> unit db_op" where
  "create_bootstrap_defaults env tid uid seed_demo =
     bindS (for_eachS (create_role (le_now env)) (bootstrap_roles env tid)) (\<lambda>_.
     bindS (readS (\<lambda>c. get_member_by_user_and_team c uid tid)) (\<lambda>found.
     bindS (case found of Some m \<Rightarrow> assign_role_to_member (m_id m) (le_id env 7) | None \<Rightarrow> returnS ()) (\<lambda>_.
     for_eachS create_channel (map (bootstrap_channel env tid uid) (enumerate 0 (bootstrap_channels seed_demo))))))"

definition bootstrap_body ::
  "(string \<Rightarrow> int option) \<Rightarrow> login_env \<Rightarrow> string \<Rightarrow> bytes \<Rightarrow> string \<Rightarrow> string \<Rightarrow> bool \<Rightarrow> (user \<times> string \<times> string) db_op" where
  "bootstrap_body parse_time env username pk bootstrap_token team_name seed_demo =
     bindS (validate_bootstrap_token parse_time env bootstrap_token) (\<lambda>_.
     let user = new_user env username pk True
     in bindS (create_user user) (\<lambda>_.
        bindS (create_bootstrap_team env team_name (u_id user)) (\<lambda>tid.
        bindS (create_member (new_member env (u_id user) tid (u_id user))) (\<lambda>_.
        bindS (create_bootstrap_defaults env tid (u_id user) seed_demo) (\<lambda>_.
        bindS (create_device (le_id env 5) (le_now env) (u_id user) (u_public_key user) ''primary'') (\<lambda>did.
        returnS (user, tid, did)))))))"

definition bootstrap_error :: "app_error \<Rightarrow> app_error" where
  "bootstrap_error e = (case e of Forbidden msg \<Rightarrow> BadRequest msg | _ \<Rightarrow> e)"

definition bootstrap ::
  "crypto \<Rightarrow> jwt_lib \<Rightarrow> (string \<Rightarrow> int option) \<Rightarrow> login_env \<Rightarrow> bool \<Rightarrow> string \<Rightarrow> bool \<Rightarrow> bootstrap_request
    \<Rightarrow> login_response site_op" where
  "bootstrap cr J parse_time env insecure config_team_name seed_demo body =
     bindS (decode_and_verify_challenge cr (le_instant env) (br_challenge_id body) (br_public_key body) (br_signature body)) (\<lambda>pk.
     bindS (readS (\<lambda>_. check_new_account (br_username body) (br_bootstrap_token body) ''bootstrap_token'')) (\<lambda>_.
     bindS (on_db (map_errH bootstrap_error (spawn_db (in_tx (\<lambda>_. True) (bootstrap_body parse_time env (br_username body) pk
       (br_bootstrap_token body) (resolve_team_name (br_team_name body) config_team_name) seed_demo))))) (\<lambda>(user, tid, did).
     bindS (issue_tokens J env (u_id user) did) (\<lambda>(token, refresh_token).
     bindS (ignoreS (on_db (spawn_db (insert_audit_event (le_audit env tid) (le_now env) tid (Some (u_id user))
       ''bootstrap.consumed'' (Some ''team'') (Some tid) None)))) (\<lambda>_.
     returnS \<lparr>lr_token = token, lr_refresh_token = refresh_token, lr_user = user, lr_device_id = [], lr_team_id = tid,
       lr_cookie = build_auth_cookie token 3600 insecure\<rparr>)))))"

subsection \<open>Refresh and logout\<close>

definition log_token_event :: "login_env \<Rightarrow> string \<Rightarrow> string \<Rightarrow> string \<Rightarrow> json option \<Rightarrow> unit site_op" where
  "log_token_event env action uid did details = ignoreS (on_db (spawn_db
     (audit_user_teams (le_audit env) (le_now env) uid action (Some ''device'') (if did = [] then None else Some did) details)))"

text \<open>The answer: access token, refresh token, whether the refresh token was rotated, cookie.\<close>

definition refresh :: "jwt_lib \<Rightarrow> login_env \<Rightarrow> int \<Rightarrow> bool \<Rightarrow> string \<Rightarrow> (string \<times> string \<times> bool \<times> string) site_op" where
  "refresh J env t1 insecure refresh_token =
     bindS (refuse_if (refresh_token = []) (BadRequest ''refresh_token is required'')) (\<lambda>_.
     bindS (\<lambda>s. on_db (refresh_with_sliding J (st_auth s) (epoch env) t1 (le_id env 0) (le_id env 1) refresh_token) s)
       (\<lambda>(access, new_refresh, rotated).
     bindS (\<lambda>s. (case validate_refresh_token_full J (st_auth s) t1 (st_conn s) new_refresh of
         Inr (uid, _, _, _, did) \<Rightarrow> log_token_event env ''auth.token_refresh'' uid did (Some (JObj [(''rotated'', JBool rotated)]))
       | Inl _ \<Rightarrow> returnS ()) s) (\<lambda>_.
     returnS (access, new_refresh, rotated, build_auth_cookie access 3600 insecure))))"

definition logout :: "jwt_lib \<Rightarrow> login_env \<Rightarrow> bool \<Rightarrow> string option option \<Rightarrow> string site_op" where
  "logout J env insecure authorization =
     bindS (readS (\<lambda>_. ok_or (Option.bind (header_str authorization) (strip_prefix ''Bearer ''))
       (Unauthorized ''missing authorization header''))) (\<lambda>token.
     bindS (readS (\<lambda>s. Inr (validate_jwt_full J (st_auth s) (epoch env) (st_conn s) token))) (\<lambda>context.
     bindS (\<lambda>s. on_db (revoke_token J (st_auth s) (epoch env) token) s) (\<lambda>_.
     bindS (case context of
         Inr (uid, _, _, did) \<Rightarrow> log_token_event env ''auth.logout'' uid did None
       | Inl _ \<Rightarrow> returnS ()) (\<lambda>_.
     returnS (clear_auth_cookie insecure)))))"

subsection \<open>What a login takes\<close>

lemma on_db_read: "on_db (spawn_db (readS q)) s = (map_err map_db_error (q (st_conn s)), s)"
  by (simp add: on_db_def spawn_db_def readS_def)

lemma on_auth_Inr: "on_auth f s = (Inr x, s') \<longleftrightarrow> (\<exists>a. f (st_auth s) = (Inr x, a) \<and> s' = s\<lparr>st_auth := a\<rparr>)"
  by (auto simp: on_auth_def split: prod.splits)

lemma on_db_Inr: "on_db h s = (Inr x, s') \<longleftrightarrow> (\<exists>c. h (st_conn s) = (Inr x, c) \<and> s' = s\<lparr>st_conn := c\<rparr>)"
  by (auto simp: on_db_def split: prod.splits)

lemma verify_challenge_True:
  assumes "verify_challenge cr now i pk sig a = (Inr True, a')"
  shows "\<exists>ch. map_of (au_challenges a) i = Some ch \<and> chl_binding ch = None \<and> elapsed now (chl_created_at ch) \<le> secs 300
    \<and> cr_verify cr pk (chl_nonce ch) sig \<and> a' = a\<lparr>au_challenges := AList.delete i (au_challenges a)\<rparr>"
  using assms by (auto simp: verify_challenge_def take_challenge_def check_signature_def split: option.splits if_splits)

definition admitted_device :: "conn \<Rightarrow> user \<Rightarrow> bytes \<Rightarrow> user_device option \<Rightarrow> bool" where
  "admitted_device c u pk device \<longleftrightarrow> get_device_by_user_and_pubkey c (u_id u) pk = Inr device
     \<and> (\<forall>d. device = Some d \<longrightarrow> device_active d)"

lemma login_known_Inr:
  assumes "login_known J env insecure ctx u pk s = (Inr r, s')"
  shows "\<exists>device. admitted_device (st_conn s) u pk device
    \<and> admit_login J env insecure (fst ctx) (snd ctx) u device s = (Inr r, s')"
proof (cases "get_device_by_user_and_pubkey (st_conn s) (u_id u) pk")
  case (Inr device)
  then show ?thesis
    using assms by (cases device) (auto simp: login_known_def admitted_device_def on_db_read bindS_Inr throwS_def split: if_splits)
qed (use assms in \<open>simp add: login_known_def on_db_read bindS_Inl\<close>)

lemma login_verify_cases:
  assumes "login_verify cr J env insecure ff ri ag request s = (Inr r, s')"
  shows "\<exists>body pk sig a u device. request = Inr body \<and> cr_b64_decode cr (vr_public_key body) = Inr pk
    \<and> cr_b64_decode cr (vr_signature body) = Inr sig
    \<and> verify_challenge cr (le_instant env) (vr_challenge_id body) pk sig (st_auth s) = (Inr True, a)
    \<and> get_user_by_public_key (st_conn s) pk = Inr (Some u) \<and> admitted_device (st_conn s) u pk device
    \<and> admit_login J env insecure (fst (extract_request_context ff ri ag)) (snd (extract_request_context ff ri ag)) u device
      (s\<lparr>st_auth := a\<rparr>) = (Inr r, s')"
proof -
  from assms obtain body pk sig v a where b: "request = Inr body" "cr_b64_decode cr (vr_public_key body) = Inr pk"
    "cr_b64_decode cr (vr_signature body) = Inr sig"
    and v: "verify_challenge cr (le_instant env) (vr_challenge_id body) pk sig (st_auth s) = (Inr v, a)"
    by (auto simp: login_verify_def Let_def on_auth_Inr simp del: bindS_readS)
  then obtain found where f: "get_user_by_public_key (st_conn s) pk = Inr found"
    using assms by (cases "get_user_by_public_key (st_conn s) pk")
      (simp_all add: login_verify_def Let_def bindS_Inr on_auth_def on_db_read bindS_Inl decode_b64_def)
  from b v f assms obtain u where "v" "found = Some u"
    "login_known J env insecure (extract_request_context ff ri ag) u pk (s\<lparr>st_auth := a\<rparr>) = (Inr r, s')"
    by (cases found) (auto simp: login_verify_def Let_def bindS_Inr on_auth_def on_db_read throwS_def decode_b64_def split: if_splits)
  with b v f login_known_Inr [OF this(3)] show ?thesis by auto
qed

text \<open>What the steps of an admitted login leave alone: the authentication service, and every table but the audit log
  and the last-seen columns of the devices.\<close>

definition trust_part :: "user_device \<Rightarrow> string \<times> string \<times> bytes \<times> string option \<times> int" where
  "trust_part d = (d_id d, d_user_id d, d_public_key d, d_revoked_at d, d_tokens_invalidated_after d)"

definition seen_only :: "conn \<Rightarrow> conn \<Rightarrow> bool" where
  "seen_only c c' \<longleftrightarrow> (\<exists>as ds. c' = c\<lparr>c_audit := as, c_devices := ds\<rparr> \<and> map trust_part ds = map trust_part (c_devices c))"

lemma seen_only_refl [simp]: "seen_only c c"
  unfolding seen_only_def by (intro exI [of _ "c_audit c"] exI [of _ "c_devices c"]) simp

lemma seen_only_audit: "seen_only c d \<Longrightarrow> audit_only d e \<Longrightarrow> seen_only c e"
proof -
  assume "seen_only c d" and "audit_only d e"
  then obtain as ds aa where "d = c\<lparr>c_audit := as, c_devices := ds\<rparr>" "map trust_part ds = map trust_part (c_devices c)"
    "e = d\<lparr>c_audit := aa\<rparr>" unfolding seen_only_def audit_only_def by blast
  then have "e = c\<lparr>c_audit := aa, c_devices := ds\<rparr> \<and> map trust_part ds = map trust_part (c_devices c)" by simp
  then show ?thesis unfolding seen_only_def by blast
qed

lemma seen_only_stamp: "seen_only c (snd (record_device_login now did ip ua country c))"
  unfolding record_device_login_def
proof (rule exec_cases, erule option.inject [THEN iffD1, THEN subst])
  let ?f = "\<lambda>d. d\<lparr>d_last_seen_at := Some now, d_last_seen_ip := coalesce ip (d_last_seen_ip d),
       d_last_seen_user_agent := coalesce ua (d_last_seen_user_agent d),
       d_last_seen_country := coalesce country (d_last_seen_country d), d_current_session_started_at := Some now\<rparr>"
  show "seen_only c (c\<lparr>c_devices := update_where (\<lambda>d. d_id d = did) ?f (c_devices c)\<rparr>)"
    unfolding seen_only_def
    by (intro exI [of _ "c_audit c"] exI [of _ "update_where (\<lambda>d. d_id d = did) ?f (c_devices c)"])
      (simp add: map_update_where trust_part_def)
qed simp

lemma stamp_device_sel:
  "fst (stamp_device env ip ua country device s) = Inr ()" "st_auth (snd (stamp_device env ip ua country device s)) = st_auth s"
  "st_sent (snd (stamp_device env ip ua country device s)) = st_sent s"
  "seen_only (st_conn s) (st_conn (snd (stamp_device env ip ua country device s)))"
  by (auto simp: stamp_device_def ignoreS_def on_db_sel seen_only_stamp split: option.split)

lemma handle_risky_login_sel:
  "fst (handle_risky_login env uid did score ip country s) = Inr ()"
  "st_auth (snd (handle_risky_login env uid did score ip country s)) = st_auth s"
  "st_sent (snd (handle_risky_login env uid did score ip country s)) = st_sent s @ risk_frames uid did score ip country"
  "audit_only (st_conn s) (st_conn (snd (handle_risky_login env uid did score ip country s)))"
  by (simp_all add: handle_risky_login_def ignoreS_def on_db_sel audit_only_teams)

lemma log_login_success_sel:
  "fst (log_login_success env uid did ip country s) = Inr ()"
  "st_auth (snd (log_login_success env uid did ip country s)) = st_auth s"
  "st_sent (snd (log_login_success env uid did ip country s)) = st_sent s"
  "audit_only (st_conn s) (st_conn (snd (log_login_success env uid did ip country s)))"
  by (simp_all add: log_login_success_def ignoreS_def on_db_sel audit_only_teams)

lemma issue_tokens_Inr:
  "issue_tokens J env uid did s = (Inr (t, rt), s') \<longleftrightarrow> s' = s
    \<and> generate_jwt_for_device J (st_auth s) (epoch env) (le_id env 0) uid did = Inr t
    \<and> generate_refresh_token_for_device J (st_auth s) (epoch env) (le_id env 1) uid did = Inr rt"
  by (auto simp: issue_tokens_def simp del: bindS_readS)

definition login_score :: "login_env \<Rightarrow> string option \<Rightarrow> string option \<Rightarrow> user_device option \<Rightarrow> u32" where
  "login_score env ip ua device = compute_risk_score (le_exits env) (map_option prev_signals device) ip ua
     (derive_country_from_ip (le_country_for env) ip)"

definition device_key :: "user_device option \<Rightarrow> string" where
  "device_key device = (case device of None \<Rightarrow> [] | Some d \<Rightarrow> d_id d)"

lemma bindS_unit: "fst (m s) = Inr () \<Longrightarrow> bindS m f s = f () (snd (m s))"
  by (simp add: bindS_split)

lemma admit_login_Inr:
  assumes "admit_login J env insecure ip ua u device s = (Inr r, s')"
  shows "lr_user r = u \<and> lr_device_id r = device_key device \<and> st_auth s' = st_auth s \<and> seen_only (st_conn s) (st_conn s')
    \<and> generate_jwt_for_device J (st_auth s) (epoch env) (le_id env 0) (u_id u) (device_key device) = Inr (lr_token r)
    \<and> generate_refresh_token_for_device J (st_auth s) (epoch env) (le_id env 1) (u_id u) (device_key device) = Inr (lr_refresh_token r)
    \<and> st_sent s' = st_sent s @ risk_frames (u_id u) (device_key device) (login_score env ip ua device) ip
        (derive_country_from_ip (le_country_for env) ip)"
proof -
  let ?country = "derive_country_from_ip (le_country_for env) ip" and ?did = "device_key device"
  let ?score = "login_score env ip ua device"
  define s1 where "s1 = snd (stamp_device env ip ua ?country device s)"
  let ?risk = "if 50 \<le> ?score then handle_risky_login env (u_id u) ?did ?score ip ?country else returnS ()"
  define s2 where "s2 = snd (?risk s1)"
  have "\<not> 50 \<le> ?score \<Longrightarrow> ?score < 80" by unat_arith
  then have s2: "fst (?risk s1) = Inr ()" "st_auth s2 = st_auth s" "seen_only (st_conn s) (st_conn s2)"
    "st_sent s2 = st_sent s @ risk_frames (u_id u) ?did ?score ip ?country"
    using stamp_device_sel [where env = env and ip = ip and ua = ua and country = ?country and device = device and s = s]
      handle_risky_login_sel [where env = env and uid = "u_id u" and did = ?did and score = ?score and ip = ip
        and country = ?country and s = s1] seen_only_audit [of "st_conn s" "st_conn s1"]
    by (auto simp: s1_def s2_def risk_frames_def)
  have "admit_login J env insecure ip ua u device s
    = bindS (issue_tokens J env (u_id u) ?did) (\<lambda>(token, refresh_token).
         bindS (log_login_success env (u_id u) ?did ip ?country) (\<lambda>_.
         returnS \<lparr>lr_token = token, lr_refresh_token = refresh_token, lr_user = u, lr_device_id = ?did, lr_team_id = [],
           lr_cookie = build_auth_cookie token 3600 insecure\<rparr>)) s2"
    unfolding admit_login_def Let_def device_key_def [symmetric] login_score_def [symmetric]
    by (subst bindS_unit, rule stamp_device_sel(1), fold s1_def, subst bindS_unit, rule s2(1), fold s2_def, rule refl)
  with assms obtain t rt where "issue_tokens J env (u_id u) ?did s2 = (Inr (t, rt), s2)" "lr_token r = t"
    "lr_refresh_token r = rt" "lr_user r = u" "lr_device_id r = ?did" "s' = snd (log_login_success env (u_id u) ?did ip ?country s2)"
    by (auto simp: issue_tokens_Inr bindS_unit [OF log_login_success_sel(1)])
  with s2 log_login_success_sel [where env = env and uid = "u_id u" and did = ?did and ip = ip and country = ?country
      and s = s2] seen_only_audit show ?thesis
    by (auto simp: issue_tokens_Inr)
qed

subsection \<open>Properties\<close>

lemma user_by_key_SomeD: "get_user_by_public_key c pk = Inr (Some u) \<Longrightarrow> u \<in> set (c_users c) \<and> u_public_key u = pk"
  by (auto simp: get_user_by_public_key_def optional_query_row stmt_eq_Inr dest!: sym [of "Some u"] first_row_SomeD)

lemma device_by_key_NoneD: "get_device_by_user_and_pubkey c uid pk = Inr None \<Longrightarrow> d \<in> set (c_devices c) \<Longrightarrow> \<not> (d_user_id d = uid \<and> d_public_key d = pk)"
  by (auto simp: get_device_by_user_and_pubkey_def optional_query_row stmt_eq_Inr rows_where_eq_Nil dest!: sym [of None])

lemma device_by_key_SomeD: "get_device_by_user_and_pubkey c uid pk = Inr (Some d) \<Longrightarrow> d \<in> set (c_devices c) \<and> d_user_id d = uid \<and> d_public_key d = pk"
  by (auto simp: get_device_by_user_and_pubkey_def optional_query_row stmt_eq_Inr dest!: sym [of "Some d"] first_row_SomeD)

lemma admitted_all_active:
  assumes "admitted_device c u pk device" and "wf_devices c" and "d \<in> set (c_devices c)" and "d_user_id d = u_id u" and "d_public_key d = pk"
  shows "device_active d"
proof (cases device)
  case None
  then show ?thesis using assms device_by_key_NoneD unfolding admitted_device_def by blast
next
  case (Some e)
  then have "e \<in> set (c_devices c)" "d_user_id e = u_id u" "d_public_key e = pk" "device_active e"
    using assms(1) device_by_key_SomeD unfolding admitted_device_def by blast+
  moreover have "inj_on (\<lambda>d. (d_user_id d, d_public_key d)) (set (c_devices c))"
    using assms(2) by (simp add: wf_devices_def distinct_map)
  then have "e = d" by (rule inj_onD) (use calculation(1-3) assms(3-5) in simp_all)
  ultimately show ?thesis by simp
qed

text \<open>C7. Who logs in holds the private key: a login that succeeds presented a challenge issued by this server at most
  300 seconds ago and not bound to an enrolment, with a signature that verifies under the key of a user, none of
  whose devices with that key is revoked. The challenge is used up, the tokens name this user and this device, and
  of the database only the audit log and the last-seen columns of devices change.\<close>

theorem login_sound:
  assumes "login_verify cr J env insecure ff ri ag request s = (Inr r, s')" and "wf_devices (st_conn s)"
  shows "\<exists>body pk sig ch. request = Inr body \<and> cr_b64_decode cr (vr_public_key body) = Inr pk \<and> cr_b64_decode cr (vr_signature body) = Inr sig
    \<and> map_of (au_challenges (st_auth s)) (vr_challenge_id body) = Some ch \<and> chl_binding ch = None
    \<and> elapsed (le_instant env) (chl_created_at ch) \<le> secs 300 \<and> cr_verify cr pk (chl_nonce ch) sig
    \<and> lr_user r \<in> set (c_users (st_conn s)) \<and> u_public_key (lr_user r) = pk
    \<and> (\<forall>d \<in> set (c_devices (st_conn s)). d_user_id d = u_id (lr_user r) \<and> d_public_key d = pk \<longrightarrow> device_active d)
    \<and> st_auth s' = (st_auth s)\<lparr>au_challenges := AList.delete (vr_challenge_id body) (au_challenges (st_auth s))\<rparr>
    \<and> generate_jwt_for_device J (st_auth s') (epoch env) (le_id env 0) (u_id (lr_user r)) (lr_device_id r) = Inr (lr_token r)
    \<and> seen_only (st_conn s) (st_conn s')"
proof -
  from login_verify_cases [OF assms(1)] obtain body pk sig a u device where l: "request = Inr body"
    "cr_b64_decode cr (vr_public_key body) = Inr pk" "cr_b64_decode cr (vr_signature body) = Inr sig"
    and v: "verify_challenge cr (le_instant env) (vr_challenge_id body) pk sig (st_auth s) = (Inr True, a)"
    and u: "get_user_by_public_key (st_conn s) pk = Inr (Some u)" and d: "admitted_device (st_conn s) u pk device"
    and ad: "admit_login J env insecure (fst (extract_request_context ff ri ag)) (snd (extract_request_context ff ri ag)) u device
      (s\<lparr>st_auth := a\<rparr>) = (Inr r, s')" by blast
  note r = admit_login_Inr [OF ad]
  from d assms(2) admitted_all_active
  have "\<forall>x \<in> set (c_devices (st_conn s)). d_user_id x = u_id u \<and> d_public_key x = pk \<longrightarrow> device_active x" by blast
  moreover obtain ch where "map_of (au_challenges (st_auth s)) (vr_challenge_id body) = Some ch" "chl_binding ch = None"
    "elapsed (le_instant env) (chl_created_at ch) \<le> secs 300" "cr_verify cr pk (chl_nonce ch) sig"
    "a = (st_auth s)\<lparr>au_challenges := AList.delete (vr_challenge_id body) (au_challenges (st_auth s))\<rparr>"
    using verify_challenge_True [OF v] by blast
  ultimately show ?thesis using l r user_by_key_SomeD [OF u]
    by (intro exI [of _ body] exI [of _ pk] exI [of _ sig] exI [of _ ch] conjI) simp_all
qed

text \<open>A login warns the devices of its user exactly when the country of the device is known and changed and the
  address is on the loaded list of Tor exits; the score is the sum of at most 30, 20 and 50 points, so neither a new
  browser nor any one signal alone warns anybody, and without a list nothing ever does.\<close>

theorem login_warns_exactly:
  assumes "login_verify cr J env insecure ff ri ag request s = (Inr r, s')"
  shows "\<exists>ip ua country device score. (ip, ua) = extract_request_context ff ri ag
    \<and> country = derive_country_from_ip (le_country_for env) ip \<and> lr_device_id r = device_key device
    \<and> score = login_score env ip ua device \<and> score \<le> 100
    \<and> st_sent s' = st_sent s @ risk_frames (u_id (lr_user r)) (lr_device_id r) score ip country
    \<and> (st_sent s' \<noteq> st_sent s \<longleftrightarrow> (\<exists>d. device = Some d \<and> country_changed (d_last_seen_country d) country) \<and> from_tor (le_exits env) ip)"
proof -
  from login_verify_cases [OF assms(1)] obtain a u device where
    "admit_login J env insecure (fst (extract_request_context ff ri ag)) (snd (extract_request_context ff ri ag)) u device
      (s\<lparr>st_auth := a\<rparr>) = (Inr r, s')" by blast
  from admit_login_Inr [OF this] obtain ip ua where ctx: "(ip, ua) = extract_request_context ff ri ag"
    and r: "lr_user r = u" "lr_device_id r = device_key device"
      "st_sent s' = st_sent s @ risk_frames (u_id u) (device_key device) (login_score env ip ua device) ip
        (derive_country_from_ip (le_country_for env) ip)"
    by (cases "extract_request_context ff ri ag") auto
  have "login_score env ip ua device \<ge> 80 \<longleftrightarrow> (\<exists>d. device = Some d \<and> country_changed (d_last_seen_country d)
      (derive_country_from_ip (le_country_for env) ip)) \<and> from_tor (le_exits env) ip"
    by (cases device) (auto simp: login_score_def prev_signals_def risk_score_threshold not_le)
  moreover have "login_score env ip ua device \<le> 100" by (simp add: login_score_def risk_score_threshold)
  ultimately show ?thesis using ctx r
    by (intro exI [of _ ip] exI [of _ ua] exI [of _ "derive_country_from_ip (le_country_for env) ip"] exI [of _ device]
        exI [of _ "login_score env ip ua device"]) (auto simp: risk_frames_def not_less)
qed

end
