(* ===== verification/Accounts.thy ===== *)
theory Accounts
  imports Login_Api Devices_Api
begin

section \<open>Accounts: what logins, registrations and revocations give together\<close>

text \<open>
  Properties of \<open>api/auth_handlers.rs\<close> that span its handlers or involve \<open>api/devices.rs\<close>, with the witnesses of the
  login properties.
\<close>

subsection \<open>A login, in a sample\<close>

definition sample_clock :: login_env where
  "sample_clock = \<lparr>le_instant = 1, le_utc = 0, le_now = ''now'', le_id = (\<lambda>n. ''n'' @ show_nat n), le_audit = (\<lambda>t. t @ ''-audit''),
     le_exits = Some {V4 1 2 3 4}, le_country_for = (\<lambda>_. None)\<rparr>"

definition sample_keys :: crypto where
  "sample_keys = toy_crypto\<lparr>cr_b64_decode := (\<lambda>s. Inr (if s = ''k1'' then replicate 32 1 else if s = ''k7'' then replicate 32 7
     else take 64 (replicate 32 5 @ replicate 64 0)))\<rparr>"

definition sample_tokens :: jwt_lib where
  "sample_tokens = \<lparr>jl_encode = (\<lambda>_ _. Inr ''token''), jl_decode = (\<lambda>_ _ _ _. Inl ''no''), jl_bad_claims = ''bad''\<rparr>"

definition sample_accounts :: site where
  "sample_accounts = \<lparr>st_auth = run (auth_step toy_crypto) (auth_new [] []) [IssueChallenge (replicate 32 5) [9] 0 None],
     st_conn = sample_conn\<lparr>c_users := [sample_user ''owner'', (sample_user ''bob'')\<lparr>u_public_key := replicate 32 1\<rparr>],
       c_devices := [(enrolled_row ''d1'' ''now'' ''bob'' (replicate 32 1) ''primary'')\<lparr>d_last_seen_country := Some ''DE''\<rparr>,
         enrolled_row ''d2'' ''now'' ''bob'' (replicate 32 7) ''phone'']\<rparr>, st_sent = []\<rparr>"

definition sample_login :: "string \<Rightarrow> site \<Rightarrow> (app_error + login_response) \<times> site" where
  "sample_login k = login_verify sample_keys sample_tokens sample_clock False (Some (Some ''1.2.3.4, 10.0.0.1'')) None None
     (Inr \<lparr>vr_challenge_id = hex [9], vr_public_key = k, vr_signature = ''sig''\<rparr>)"

lemma sample_ctx: "extract_request_context (Some (Some ''1.2.3.4, 10.0.0.1'')) None None = (Some ''1.2.3.4'', None)"
  by code_simp

lemma sample_country: "derive_country_from_ip (le_country_for sample_clock) (Some ''1.2.3.4'') = Some ''unknown''"
  by code_simp

lemma sample_challenge:
  "verify_challenge sample_keys 1 (hex [9]) (replicate 32 1) (take 64 (replicate 32 5 @ replicate 64 0)) (st_auth sample_accounts)
    = (Inr True, (st_auth sample_accounts)\<lparr>au_challenges := []\<rparr>)"
  by code_simp

lemma sample_tor: "ip_is_tor_exit (Some {V4 1 2 3 4}) ''1.2.3.4''"
  by code_simp

lemma admit_login_succeeds:
  assumes "jl_encode J = (\<lambda>_ _. Inr t)"
  shows "\<exists>r s'. admit_login J env insecure ip ua u device s = (Inr r, s')"
proof -
  have t: "issue_tokens J env uid did st = (Inr (t, t), st)" for uid did st
    using assms by (simp add: issue_tokens_def generate_jwt_for_device_def generate_refresh_token_for_device_def)
  have risk: "fst ((if b then handle_risky_login env uid did score ip country else returnS ()) st) = Inr ()" for b uid did score country st
    by (simp add: handle_risky_login_sel)
  show ?thesis
    unfolding admit_login_def Let_def
    by (subst bindS_unit, rule stamp_device_sel(1), subst bindS_unit, rule risk, subst bindS_Inr, rule t)
      (simp add: bindS_unit [OF log_login_success_sel(1)])
qed

lemma sample_login_ok:
  "\<exists>r s'. sample_login ''k1'' sample_accounts = (Inr r, s') \<and> u_id (lr_user r) = ''bob'' \<and> lr_device_id r = ''d1''
    \<and> st_sent s' \<noteq> []"
proof -
  let ?s = "sample_accounts\<lparr>st_auth := (st_auth sample_accounts)\<lparr>au_challenges := []\<rparr>\<rparr>"
  let ?u = "(sample_user ''bob'')\<lparr>u_public_key := replicate 32 1\<rparr>"
  let ?d = "(enrolled_row ''d1'' ''now'' ''bob'' (replicate 32 1) ''primary'')\<lparr>d_last_seen_country := Some ''DE''\<rparr>"
  have h: "healthy (st_conn sample_accounts)" by (simp add: sample_accounts_def healthy_def sample_conn_def empty_conn_def)
  have user: "get_user_by_public_key (st_conn sample_accounts) (replicate 32 1) = Inr (Some ?u)"
    using h by (simp add: get_user_by_public_key_def) (simp add: sample_accounts_def sample_user_def)
  have device: "get_device_by_user_and_pubkey (st_conn ?s) ''bob'' (replicate 32 1) = Inr (Some ?d)"
    using h by (simp add: get_device_by_user_and_pubkey_def healthy_def) (simp add: sample_accounts_def enrolled_row_def)
  have "sample_login ''k1'' sample_accounts = admit_login sample_tokens sample_clock False (Some ''1.2.3.4'') None ?u (Some ?d) ?s"
    using sample_challenge user device
    by (simp add: sample_login_def login_verify_def login_known_def Let_def sample_ctx sample_clock_def on_auth_def on_db_read bindS_Inr
        decode_b64_def sample_keys_def device_active_def enrolled_row_def sample_user_def)
  moreover obtain r s' where ad: "admit_login sample_tokens sample_clock False (Some ''1.2.3.4'') None ?u (Some ?d) ?s = (Inr r, s')"
    using admit_login_succeeds [of sample_tokens "''token''"] unfolding sample_tokens_def by fastforce
  moreover have "from_tor (le_exits sample_clock) (Some ''1.2.3.4'')"
    by (simp add: from_tor_def sample_clock_def sample_tor)
  then have "80 \<le> login_score sample_clock (Some ''1.2.3.4'') None (Some ?d)"
    by (simp add: login_score_def prev_signals_def risk_score_threshold sample_country country_changed_def)
  then have "risk_frames uid did (login_score sample_clock (Some ''1.2.3.4'') None (Some ?d)) ip co \<noteq> []" for uid did ip co
    by (simp add: risk_frames_def not_less)
  ultimately show ?thesis using admit_login_Inr [OF ad]
    by (auto simp: sample_user_def device_key_def enrolled_row_def)
qed

theorem login_sound_witness:
  "\<exists>r s' ch. sample_login ''k1'' sample_accounts = (Inr r, s') \<and> map_of (au_challenges (st_auth sample_accounts)) (hex [9]) = Some ch
    \<and> cr_verify sample_keys (u_public_key (lr_user r)) (chl_nonce ch) (take 64 (replicate 32 5 @ replicate 64 0))"
proof -
  obtain r s' where ok: "sample_login ''k1'' sample_accounts = (Inr r, s')" using sample_login_ok by blast
  have wf: "wf_devices (st_conn sample_accounts)"
    by (simp add: wf_devices_def sample_accounts_def enrolled_row_def)
  from login_sound [OF ok [unfolded sample_login_def] wf] obtain pk sig ch
    where "cr_b64_decode sample_keys ''sig'' = Inr sig" "map_of (au_challenges (st_auth sample_accounts)) (hex [9]) = Some ch"
      "cr_verify sample_keys pk (chl_nonce ch) sig" "u_public_key (lr_user r) = pk"
    by auto
  then show ?thesis using ok by (auto simp: sample_keys_def)
qed

theorem login_warns_exactly_witness:
  "\<exists>r s' ip ua. sample_login ''k1'' sample_accounts = (Inr r, s') \<and> st_sent s' \<noteq> [] \<and> from_tor (le_exits sample_clock) ip
    \<and> (ip, ua) = extract_request_context (Some (Some ''1.2.3.4, 10.0.0.1'')) None None"
proof -
  obtain r s' where ok: "sample_login ''k1'' sample_accounts = (Inr r, s')" "st_sent s' \<noteq> []" using sample_login_ok by blast
  have "st_sent sample_accounts = []" by (simp add: sample_accounts_def)
  with login_warns_exactly [OF ok(1) [unfolded sample_login_def]] ok show ?thesis by metis
qed

subsection \<open>Locked out\<close>

lemma login_user:
  assumes "login_verify cr J env insecure ff ri ag request s = (Inr r, s')" and "wf_devices (st_conn s)"
  shows "lr_user r \<in> set (c_users (st_conn s))
    \<and> (\<forall>d \<in> set (c_devices (st_conn s)). d_user_id d = u_id (lr_user r) \<and> d_public_key d = u_public_key (lr_user r) \<longrightarrow> device_active d)"
proof -
  from login_verify_cases [OF assms(1)] obtain pk a u device where u: "get_user_by_public_key (st_conn s) pk = Inr (Some u)"
    "admitted_device (st_conn s) u pk device" and ad: "admit_login J env insecure (fst (extract_request_context ff ri ag))
      (snd (extract_request_context ff ri ag)) u device (s\<lparr>st_auth := a\<rparr>) = (Inr r, s')" by blast
  have "lr_user r = u" using admit_login_Inr [OF ad] by simp
  with user_by_key_SomeD [OF u(1)] admitted_all_active [OF u(2) assms(2)] show ?thesis by auto
qed

text \<open>Enrolled devices never log in, and revoking the first one locks the account. A login looks the user up by the
  key of the registration alone, so while an account can hold many active devices, the key that logs in is the one
  in \<open>users\<close>; once the device with that key is revoked, which the guard of the last device permits as soon as any
  other device is enrolled, no login ever reaches this user again.\<close>

theorem revoking_first_key_locks_out:
  assumes "wf_users (st_conn s)" and "wf_devices (st_conn s)" and "u \<in> set (c_users (st_conn s))"
    and "d \<in> set (c_devices (st_conn s))" and "d_user_id d = u_id u" and "d_public_key d = u_public_key u" and "\<not> device_active d"
  shows "\<nexists>cr J env insecure ff ri ag request r s'. login_verify cr J env insecure ff ri ag request s = (Inr r, s')
    \<and> u_id (lr_user r) = u_id u"
proof
  assume "\<exists>cr J env insecure ff ri ag request r s'. login_verify cr J env insecure ff ri ag request s = (Inr r, s') \<and> u_id (lr_user r) = u_id u"
  then obtain cr J env insecure ff ri ag request r s' where "login_verify cr J env insecure ff ri ag request s = (Inr r, s')"
    and "u_id (lr_user r) = u_id u" by blast
  with login_user [OF _ assms(2)] have l: "lr_user r \<in> set (c_users (st_conn s))" "u_id (lr_user r) = u_id u"
    "\<forall>d \<in> set (c_devices (st_conn s)). d_user_id d = u_id (lr_user r) \<and> d_public_key d = u_public_key (lr_user r) \<longrightarrow> device_active d"
    by blast+
  have "inj_on u_id (set (c_users (st_conn s)))" using assms(1) by (simp add: wf_users_def distinct_map)
  then have "lr_user r = u" by (rule inj_onD) (use l assms(3) in simp_all)
  with l(3) assms(4-7) show False by simp
qed

theorem revoking_first_key_locks_out_witness:
  "fst (on_db (devices_revoke (\<lambda>t. t) ''now'' ''bob'' ''d1'') sample_accounts) = Inr ()
    \<and> (let s = snd (on_db (devices_revoke (\<lambda>t. t) ''now'' ''bob'' ''d1'') sample_accounts)
       in active_devices (st_conn s) ''bob'' \<noteq> []
        \<and> (\<nexists>r s'. sample_login ''k1'' s = (Inr r, s') \<and> u_id (lr_user r) = ''bob'')
        \<and> (\<nexists>r s'. sample_login ''k7'' s = (Inr r, s') \<and> u_id (lr_user r) = ''bob''))"
proof -
  define s where "s = snd (on_db (devices_revoke (\<lambda>t. t) ''now'' ''bob'' ''d1'') sample_accounts)"
  have r: "fst (on_db (devices_revoke (\<lambda>t. t) ''now'' ''bob'' ''d1'') sample_accounts) = Inr ()" by code_simp
  have a: "active_devices (st_conn s) ''bob'' \<noteq> []" unfolding s_def by code_simp
  have us: "c_users (st_conn s) = [sample_user ''owner'', (sample_user ''bob'')\<lparr>u_public_key := replicate 32 1\<rparr>]"
    unfolding s_def by code_simp
  have ds: "map (\<lambda>d. (d_id d, d_user_id d, d_public_key d, device_active d)) (c_devices (st_conn s))
      = [(''d1'', ''bob'', replicate 32 1, False), (''d2'', ''bob'', replicate 32 7, True)]"
    unfolding s_def by code_simp
  then obtain d e where de: "c_devices (st_conn s) = [d, e]" "d_id d = ''d1''" "d_id e = ''d2''" "d_user_id d = ''bob''"
    "d_user_id e = ''bob''" "d_public_key d = replicate 32 1" "d_public_key e = replicate 32 7" "\<not> device_active d"
    by (auto simp: map_eq_Cons_conv)
  have "wf_users (st_conn s)" using us by (simp add: wf_users_def sample_user_def status_types_def)
  moreover have "wf_devices (st_conn s)" using de by (simp add: wf_devices_def)
  ultimately have "\<nexists>cr J env insecure ff ri ag request r s'. login_verify cr J env insecure ff ri ag request s = (Inr r, s')
      \<and> u_id (lr_user r) = u_id ((sample_user ''bob'')\<lparr>u_public_key := replicate 32 1\<rparr>)"
    by (rule revoking_first_key_locks_out [where d = d]) (use us de in \<open>simp_all add: sample_user_def\<close>)
  with r a show ?thesis unfolding s_def [symmetric] sample_login_def by (simp add: sample_user_def)
qed

end
