(* ===== verification/Registration.thy ===== *)
theory Registration
  imports Accounts
begin

section \<open>Registration, bootstrap and logout\<close>

text \<open>
  What the account handlers of \<open>api/auth_handlers.rs\<close> write: the quota of invites along every run, the effect of a
  registration, the single use of a bootstrap token, and what a logout ends.
\<close>

subsection \<open>What a registration writes\<close>

lemma validate_invite_InrD:
  assumes "validate_invite now c token = Inr iv"
  shows "iv \<in> set (c_invites c) \<and> i_token iv = token \<and> usable_invite now iv"
proof -
  from assms have f: "get_invite_by_token c token = Inr (Some iv)" and u: "usable_invite now iv"
    by (auto simp: validate_invite_def judge_invite_Inr)
  from f have "Some iv = first_row (rows_where (\<lambda>i. i_token i = token) (c_invites c))"
    by (simp add: get_invite_by_token_def optional_query_row stmt_eq_Inr)
  with u show ?thesis by (auto dest!: sym [of "Some iv"] first_row_SomeD)
qed

lemma exec_Inr: "exec f upd c = (Inr u, c') \<Longrightarrow> upd c = Some c'"
  by (simp add: exec_eq_Inr)

text \<open>What each statement of the closure adds when it succeeds.\<close>

lemma create_user_Inr:
  "create_user u c = (Inr x, c') \<Longrightarrow> c' = c\<lparr>c_users := c_users c @ [u\<lparr>
       u_quiet_hours_from := or_default (u_quiet_hours_from u) ''22:00'',
       u_quiet_hours_to := or_default (u_quiet_hours_to u) ''07:30''\<rparr>]\<rparr>
    \<and> u_id u \<notin> u_id ` set (c_users c) \<and> u_username u \<notin> u_username ` set (c_users c) \<and> u_public_key u \<notin> u_public_key ` set (c_users c)"
  by (auto simp: create_user_def exec_eq_Inr split: if_splits)

lemma create_member_Inr:
  "create_member m c = (Inr x, c') \<Longrightarrow> c' = c\<lparr>c_members := c_members c @
     [m\<lparr>m_updated_at := (if m_updated_at m = [] then m_joined_at m else m_updated_at m)\<rparr>]\<rparr> \<and> m_team_id m \<in> t_id ` set (c_teams c)"
  by (auto simp: create_member_def exec_eq_Inr split: if_splits)

lemma assign_role_Inr:
  "assign_role_to_member mid rid c = (Inr x, c') \<Longrightarrow> \<exists>mrs. c' = c\<lparr>c_member_roles := mrs\<rparr> \<and> set mrs = insert (mid, rid) (set (c_member_roles c))"
  by (auto simp: assign_role_to_member_def exec_eq_Inr split: if_splits intro: exI [of _ "c_member_roles c"])

lemma increment_Inr:
  "increment_invite_uses i c = (Inr x, c') \<Longrightarrow> c' = c\<lparr>c_invites :=
     update_where (\<lambda>x. i_id x = i) (\<lambda>x. x\<lparr>i_uses := i_uses x + 1\<rparr>) (c_invites c)\<rparr>"
  by (simp add: increment_invite_uses_def exec_eq_Inr)

lemma log_use_Inr:
  "log_invite_use n now i uid c = (Inr x, c') \<Longrightarrow> c' = c\<lparr>c_invite_uses := c_invite_uses c
     @ [\<lparr>iu_id = n, iu_invite_id = i, iu_user_id = uid, iu_used_at = now\<rparr>]\<rparr>"
  by (auto simp: log_invite_use_def exec_eq_Inr split: if_splits)

lemma create_device_Inr:
  "create_device n now uid pk label c = (Inr x, c') \<Longrightarrow> c' = c\<lparr>c_devices := c_devices c @ [enrolled_row n now uid pk label]\<rparr> \<and> x = n"
  by (auto simp: create_device_def exec_eq_Inr enrolled_row_def split: if_splits)

definition default_roles :: "conn \<Rightarrow> string \<Rightarrow> role set" where
  "default_roles c tid = {r \<in> set (c_roles c). r_team_id r = tid \<and> r_is_default r}"

lemma new_user_key: "u_public_key (new_user env username pk is_admin) = pk" "u_username (new_user env username pk is_admin) = username"
  by (simp_all add: new_user_def)

text \<open>The database after the registration of a user as a member through an invite.\<close>

definition registered :: "login_env \<Rightarrow> user \<Rightarrow> member \<Rightarrow> (string \<times> string) list \<Rightarrow> invite \<Rightarrow> conn \<Rightarrow> conn" where
  "registered env u m mrs iv c = c\<lparr>c_users := c_users c @ [u], c_members := c_members c @ [m\<lparr>m_updated_at := le_now env\<rparr>],
     c_member_roles := mrs,
     c_invites := update_where (\<lambda>x. i_id x = i_id iv) (\<lambda>x. x\<lparr>i_uses := i_uses x + 1\<rparr>) (c_invites c),
     c_invite_uses := c_invite_uses c @ [\<lparr>iu_id = le_id env 4, iu_invite_id = i_id iv, iu_user_id = u_id u, iu_used_at = le_now env\<rparr>],
     c_devices := c_devices c @ [enrolled_row (le_id env 5) (le_now env) (u_id u) (u_public_key u) ''primary'']\<rparr>"

lemma is_admin_new [simp]: "u_is_admin (new_user env username pk b) = b"
  by (simp add: new_user_def)

lemma register_body_Inr:
  assumes "register_body env username pk token c = (Inr (u, m, tid, did), c')"
  shows "\<exists>iv mrs. iv \<in> set (c_invites c) \<and> i_token iv = token \<and> usable_invite (le_now env) iv \<and> tid = i_team_id iv
    \<and> u = new_user env username pk False \<and> m = new_member env (u_id u) tid (i_created_by iv) \<and> did = le_id env 5
    \<and> username \<notin> u_username ` set (c_users c) \<and> pk \<notin> u_public_key ` set (c_users c)
    \<and> (set mrs = set (c_member_roles c) \<and> default_roles c tid = {}
       \<or> (\<exists>r \<in> default_roles c tid. set mrs = insert (m_id m, r_id r) (set (c_member_roles c))))
    \<and> c' = registered env u m mrs iv c"
proof -
  let ?u = "new_user env username pk False"
  from assms obtain iv c1 c2 ro c3 c4 c5 where iv: "validate_invite (le_now env) c token = Inr iv"
    and c1: "create_user ?u c = (Inr (), c1)"
    and c2: "create_member (new_member env (u_id ?u) (i_team_id iv) (i_created_by iv)) c1 = (Inr (), c2)"
    and ro: "get_default_role_for_team c2 (i_team_id iv) = Inr ro"
    and c3: "(case ro of Some role \<Rightarrow> assign_role_to_member (m_id (new_member env (u_id ?u) (i_team_id iv) (i_created_by iv))) (r_id role)
        | None \<Rightarrow> returnS ()) c2 = (Inr (), c3)"
    and c4: "increment_invite_uses (i_id iv) c3 = (Inr (), c4)"
    and c5: "log_invite_use (le_id env 4) (le_now env) (i_id iv) (u_id ?u) c4 = (Inr (), c5)"
    and c6: "create_device (le_id env 5) (le_now env) (u_id ?u) pk ''primary'' c5 = (Inr did, c')"
    and r: "u = ?u" "tid = i_team_id iv" "m = new_member env (u_id u) tid (i_created_by iv)"
    by (auto simp: register_body_def Let_def new_user_key simp del: bindS_readS)
  note users = create_user_Inr [OF c1] and members = create_member_Inr [OF c2]
  have u1: "c1 = c\<lparr>c_users := c_users c @ [u]\<rparr>" using users r(1) by (simp add: new_user_def or_default_def)
  have u2: "c2 = c1\<lparr>c_members := c_members c1 @ [m\<lparr>m_updated_at := le_now env\<rparr>]\<rparr>"
    using members r by (simp add: new_member_def)
  have "\<exists>mrs. c3 = c2\<lparr>c_member_roles := mrs\<rparr> \<and> (set mrs = set (c_member_roles c) \<and> default_roles c tid = {}
       \<or> (\<exists>r \<in> default_roles c tid. set mrs = insert (m_id m, r_id r) (set (c_member_roles c))))"
  proof (cases ro)
    case None
    have "default_roles c tid = {}" using ro None r(2) unfolding u1 u2
      by (auto simp: get_default_role_for_team_def optional_query_row stmt_eq_Inr default_roles_def rows_where_eq_Nil dest!: sym [of None])
    moreover from c3 None have c32: "c3 = c2" by simp
    have "c3 = c2\<lparr>c_member_roles := c_member_roles c\<rparr>" unfolding c32 u1 u2 by simp
    ultimately show ?thesis by blast
  next
    case (Some role)
    have "role \<in> default_roles c tid" using ro Some r(2) unfolding u1 u2
      by (auto simp: get_default_role_for_team_def optional_query_row stmt_eq_Inr default_roles_def dest!: sym [of "Some role"] first_row_SomeD)
    moreover have a: "assign_role_to_member (m_id m) (r_id role) c2 = (Inr (), c3)" using c3 Some r by simp
    obtain mrs where "c3 = c2\<lparr>c_member_roles := mrs\<rparr>" "set mrs = insert (m_id m, r_id role) (set (c_member_roles c2))"
      using assign_role_Inr [OF a] by blast
    moreover have "c_member_roles c2 = c_member_roles c" by (simp add: u1 u2)
    ultimately show ?thesis by auto
  qed
  then obtain mrs where c3': "c3 = c2\<lparr>c_member_roles := mrs\<rparr>" and mrs: "set mrs = set (c_member_roles c) \<and> default_roles c tid = {}
       \<or> (\<exists>r \<in> default_roles c tid. set mrs = insert (m_id m, r_id r) (set (c_member_roles c)))" by blast
  have "c4 = c3\<lparr>c_invites := update_where (\<lambda>x. i_id x = i_id iv) (\<lambda>x. x\<lparr>i_uses := i_uses x + 1\<rparr>) (c_invites c)\<rparr>"
    using increment_Inr [OF c4] by (simp add: c3' u1 u2)
  moreover have "c5 = c4\<lparr>c_invite_uses := c_invite_uses c @ [\<lparr>iu_id = le_id env 4, iu_invite_id = i_id iv, iu_user_id = u_id u, iu_used_at = le_now env\<rparr>]\<rparr>"
    using log_use_Inr [OF c5] r(1) calculation by (simp add: c3' u1 u2)
  moreover have did: "did = le_id env 5" using create_device_Inr [OF c6] by simp
  moreover have "c' = c5\<lparr>c_devices := c_devices c @ [enrolled_row did (le_now env) (u_id u) pk ''primary'']\<rparr>"
    using create_device_Inr [OF c6] r(1) calculation by (simp add: c3' u1 u2)
  ultimately have c': "c' = c\<lparr>c_users := c_users c @ [u], c_members := c_members c @ [m\<lparr>m_updated_at := le_now env\<rparr>], c_member_roles := mrs,
        c_invites := update_where (\<lambda>x. i_id x = i_id iv) (\<lambda>x. x\<lparr>i_uses := i_uses x + 1\<rparr>) (c_invites c),
        c_invite_uses := c_invite_uses c @ [\<lparr>iu_id = le_id env 4, iu_invite_id = i_id iv, iu_user_id = u_id u, iu_used_at = le_now env\<rparr>],
        c_devices := c_devices c @ [enrolled_row did (le_now env) (u_id u) pk ''primary'']\<rparr>"
    by (simp only: c3' u1 u2) simp
  have "username \<notin> u_username ` set (c_users c)" "pk \<notin> u_public_key ` set (c_users c)"
    using users by (simp_all add: new_user_key)
  moreover have "c' = registered env u m mrs iv c"
    unfolding registered_def c' by (simp add: r did new_user_key)
  ultimately show ?thesis using validate_invite_InrD [OF iv] r did mrs by blast
qed

subsection \<open>The quota\<close>

definition same_invites :: "conn \<Rightarrow> conn \<Rightarrow> bool" where
  "same_invites c c' \<longleftrightarrow> c_invites c' = c_invites c \<and> c_invite_uses c' = c_invite_uses c"

lemma same_invites_refl [simp]: "same_invites c c"
  by (simp add: same_invites_def)

lemma same_invites_wf: "same_invites c c' \<Longrightarrow> wf_invites c' = wf_invites c"
  unfolding same_invites_def by (intro wf_invites_frame) simp_all

lemma same_invites_ops:
  assumes "same_invites c0 c"
  shows "same_invites c0 (snd (create_user u c))" "same_invites c0 (snd (create_member m c))"
    "same_invites c0 (snd (assign_role_to_member mid rid c))" "same_invites c0 (snd (create_device i now uid pk l c))"
  using assms unfolding create_user_def create_member_def assign_role_to_member_def create_device_def snd_bindS_return
  by (simp_all add: exec_def same_invites_def)

text \<open>A chain whose first step leaves the invites alone.\<close>

lemma wf_via:
  assumes "wf_invites c" and "same_invites c (snd (m t))" and "\<And>x t. same_invites c t \<Longrightarrow> wf_invites (snd (f x t))"
  shows "wf_invites (snd (bindS m f t))"
  using assms same_invites_wf [OF assms(2)] by (simp add: bindS_split split: sum.split)

lemma wf_log_invite_use:
  assumes "wf_invites c" and "\<And>i. i \<in> set (c_invites c) \<Longrightarrow> i_id i = iid \<Longrightarrow> int (logged_uses c iid) < i_uses i"
  shows "wf_invites (snd (log_invite_use n now iid uid c))"
  unfolding log_invite_use_def
proof (rule exec_cases_if)
  assume "\<not> (n \<in> iu_id ` set (c_invite_uses c) \<or> iid \<notin> i_id ` set (c_invites c) \<or> uid \<notin> u_id ` set (c_users c))"
  then have "iid \<in> i_id ` set (c_invites c)" by blast
  let ?c = "c\<lparr>c_invite_uses := c_invite_uses c @ [\<lparr>iu_id = n, iu_invite_id = iid, iu_user_id = uid, iu_used_at = now\<rparr>]\<rparr>"
  have "within_quota ?c i" if "i \<in> set (c_invites c)" for i
    using that assms(1) assms(2) [OF that] by (auto simp: within_quota_def wf_invites_def logged_uses_def)
  with assms(1) \<open>iid \<in> _\<close> show "wf_invites ?c" by (simp add: wf_invites_def)
qed (rule assms(1))

lemma wf_use_up:
  assumes wf: "wf_invites c" and iv: "iv \<in> set (c_invites c)" "usable_invite now iv"
    and rest: "\<And>x t. wf_invites t \<Longrightarrow> wf_invites (snd (f x t))"
  shows "wf_invites (snd (bindS (increment_invite_uses (i_id iv)) (\<lambda>_. bindS (log_invite_use n now' (i_id iv) uid) f) c))"
proof -
  let ?c = "snd (increment_invite_uses (i_id iv) c)"
  have only: "i = iv" if "i \<in> set (c_invites c)" "i_id i = i_id iv" for i
    using that wf iv(1) by (auto simp: wf_invites_def distinct_map dest: inj_onD)
  then have wf': "wf_invites ?c"
    using wf_increment_invite [OF wf, of "i_id iv" now] iv(2) by blast
  have "wf_invites (snd (bindS (log_invite_use n now' (i_id iv) uid) f ?c))"
    if inc: "increment_invite_uses (i_id iv) c = (Inr x, ?c)" for x
  proof -
    have c: "?c = c\<lparr>c_invites := update_where (\<lambda>x. i_id x = i_id iv) (\<lambda>x. x\<lparr>i_uses := i_uses x + 1\<rparr>) (c_invites c)\<rparr>"
    using increment_Inr [OF inc] .
  have "int (logged_uses ?c (i_id iv)) < i_uses i" if "i \<in> set (c_invites ?c)" "i_id i = i_id iv" for i
  proof -
    from that c obtain j where "j \<in> set (c_invites c)" "i = (if i_id j = i_id iv then j\<lparr>i_uses := i_uses j + 1\<rparr> else j)" by auto
    with that only have "i = iv\<lparr>i_uses := i_uses iv + 1\<rparr>" by (auto split: if_splits)
    moreover have "int (logged_uses c (i_id iv)) \<le> i_uses iv" using wf iv(1) by (simp add: wf_invites_def within_quota_def)
    ultimately show ?thesis by (simp add: c logged_uses_def)
  qed
  with wf_log_invite_use [OF wf'] have "wf_invites (snd (log_invite_use n now' (i_id iv) uid ?c))" by blast
  then show ?thesis by (rule bindS_keeps_from) (rule rest)
  qed
  then show ?thesis using wf' by (rule bindS_after [rotated])
qed

lemma wf_register_body:
  assumes "wf_invites c"
  shows "wf_invites (snd (register_body env username pk token c))"
proof (cases "check_username_and_key_available username pk c")
  case (Inr u)
  show ?thesis
  proof (cases "validate_invite (le_now env) c token")
    case (Inr iv)
    note iv = validate_invite_InrD [OF Inr]
    have keep: "wf_invites t" if "same_invites c t" for t using that assms same_invites_wf by blast
    have up: "wf_invites (snd (bindS (increment_invite_uses (i_id iv)) (\<lambda>_. bindS (log_invite_use n now' (i_id iv) uid) f) t))"
      if "same_invites c t" "\<And>x t. wf_invites t \<Longrightarrow> wf_invites (snd (f x t))" for n now' uid f t
      by (rule wf_use_up [where now = "le_now env"]) (use that iv keep in \<open>auto simp: same_invites_def\<close>)
    have chain: "wf_invites (snd (bindS (create_user us) (\<lambda>_. bindS (create_member m) (\<lambda>_. bindS (readS q) (\<lambda>ro. bindS (g ro) (\<lambda>_.
        bindS (increment_invite_uses (i_id iv)) (\<lambda>_. bindS (log_invite_use n now' (i_id iv) uid) f))))) c))"
      if "\<And>ro t. same_invites c t \<Longrightarrow> same_invites c (snd (g ro t))" "\<And>x t. wf_invites t \<Longrightarrow> wf_invites (snd (f x t))"
      for us m q g n now' uid f
      by (rule wf_via [OF assms], rule same_invites_ops, rule same_invites_refl, rule wf_via [OF assms], erule same_invites_ops,
          rule wf_via [OF assms], simp, rule wf_via [OF assms], erule that(1), erule up, erule that(2))
    have role: "same_invites c (snd ((case ro of Some role \<Rightarrow> assign_role_to_member mid (r_id role) | None \<Rightarrow> returnS ()) t))"
      if "same_invites c t" for ro mid t
      using that by (cases ro) (simp_all add: same_invites_ops)
    have device: "wf_invites (snd (bindS (create_device n now' uid pk' l) (\<lambda>did. returnS (y did)) t))"
      if "wf_invites t" for n now' uid pk' l y t
      by (rule bindS_keeps_from [where P = wf_invites])
        (simp_all add: that same_invites_wf [OF same_invites_ops(4) [OF same_invites_refl]])
    from Inr \<open>check_username_and_key_available username pk c = Inr u\<close> show ?thesis
      unfolding register_body_def Let_def
      by (subst bindS_readS, simp only: sum.case) (subst bindS_readS, simp only: sum.case, rule chain, erule role, erule device)
  qed (use Inr assms in \<open>simp add: register_body_def\<close>)
qed (use assms in \<open>simp add: register_body_def\<close>)

lemma wf_create_invite_body: "wf_invites c \<Longrightarrow> i_uses i = 0 \<Longrightarrow> wf_invites (snd (create_invite_body a now uid tid i c))"
  unfolding create_invite_body_def
  by (rule bindS_keeps_from [where P = wf_invites]) (simp_all add: wf_create_invite wf_invites_audit)

lemma wf_invites_create: "wf_invites c \<Longrightarrow> wf_invites (snd (invites_create in_hours i a now rnd uid tid body c))"
  using wf_create_invite_body
  by (auto simp: invites_create_def no_panic_def invite_row_def split: sum.split option.split prod.split)
    (metis snd_conv invite.select_convs(6))+

lemma wf_invites_revoke: "wf_invites c \<Longrightarrow> wf_invites (snd (invites_revoke a now uid tid i c))"
  unfolding invites_revoke_def by (intro invites_kept.chain wf_revoke_invite; assumption)

lemma challenge_conn [simp]: "st_conn (snd (decode_and_verify_challenge cr now ci pk sig s)) = st_conn s"
  by (auto simp: decode_and_verify_challenge_def bindS_split on_auth_sel refuse_if_def throwS_def split: sum.split)

lemma issue_tokens_state [simp]: "snd (issue_tokens J env uid did s) = s"
  by (simp add: issue_tokens_def split: sum.split)

lemma register_conn:
  "st_conn (snd (register cr J env insecure body s)) = st_conn s
   \<or> (\<exists>pk. st_conn (snd (register cr J env insecure body s))
        = snd (register_body env (rr_username body) pk (rr_invite_token body) (st_conn s)))"
proof (cases "fst (decode_and_verify_challenge cr (le_instant env) (rr_challenge_id body) (rr_public_key body) (rr_signature body) s)")
  case (Inr pk)
  let ?s = "snd (decode_and_verify_challenge cr (le_instant env) (rr_challenge_id body) (rr_public_key body) (rr_signature body) s)"
  let ?rest = "\<lambda>(user, member, tid, did). bindS (issue_tokens J env (u_id user) did) (\<lambda>(token, refresh_token).
     bindS (send_frames [BroadcastAll (event_new EVENT_MEMBER_JOINED (JObj [(''team_id'', JStr tid),
       (''user'', user_json cr user), (''member'', JObj (member_json member))]))]) (\<lambda>_.
     returnS \<lparr>lr_token = token, lr_refresh_token = refresh_token, lr_user = user, lr_device_id = [], lr_team_id = tid,
       lr_cookie = build_auth_cookie token 3600 insecure\<rparr>))"
  have rest: "st_conn (snd (?rest x t)) = st_conn t" for x t
    by (cases x) (simp add: bindS_split [of "issue_tokens _ _ _ _"] split: sum.split)
  show ?thesis
  proof (cases "check_new_account (rr_username body) (rr_invite_token body) ''invite_token''")
    case (Inr u)
    then have "snd (register cr J env insecure body s) = snd (bindS (on_db (map_errH register_error
        (spawn_db (register_body env (rr_username body) pk (rr_invite_token body))))) ?rest ?s)"
      using \<open>fst _ = Inr pk\<close> by (simp add: register_def bindS_split [of "decode_and_verify_challenge _ _ _ _ _"])
    moreover have "st_conn (snd (bindS (on_db (map_errH register_error
        (spawn_db (register_body env (rr_username body) pk (rr_invite_token body))))) ?rest ?s))
      = snd (register_body env (rr_username body) pk (rr_invite_token body) (st_conn s))"
      by (rule bindS_keeps_from [where P = "\<lambda>t. st_conn t = _"]) (simp_all only: on_db_sel rest, simp_all)
    ultimately show ?thesis by auto
  qed (use Inr in \<open>simp add: register_def bindS_split [of "decode_and_verify_challenge _ _ _ _ _"]\<close>)
qed (simp add: register_def bindS_split [of "decode_and_verify_challenge _ _ _ _ _"])

subsection \<open>Every run of the invite endpoints\<close>

datatype invite_request =
    CreateInvite "int \<Rightarrow> string option" string string string bytes string string create_invite_request
  | RevokeInvite string string string string string
  | Register crypto jwt_lib login_env bool register_request

fun invite_step :: "site \<Rightarrow> invite_request \<Rightarrow> site" where
  "invite_step s (CreateInvite in_hours i a now rnd uid tid body) =
     s\<lparr>st_conn := snd (invites_create in_hours i a now rnd uid tid body (st_conn s))\<rparr>"
| "invite_step s (RevokeInvite a now uid tid i) = s\<lparr>st_conn := snd (invites_revoke a now uid tid i (st_conn s))\<rparr>"
| "invite_step s (Register cr J env insecure body) = snd (register cr J env insecure body s)"

interpretation invite_requests: invariant_machine invite_step "\<lambda>_ _. True"
  "\<lambda>s. wf_invites (st_conn s0) \<longrightarrow> wf_invites (st_conn s)" s0
proof (unfold_locales, simp, rule impI)
  fix s :: site and e
  assume "wf_invites (st_conn s0) \<longrightarrow> wf_invites (st_conn s)" and "wf_invites (st_conn s0)"
  then have wf: "wf_invites (st_conn s)" by blast
  show "wf_invites (st_conn (invite_step s e))"
  proof (cases e)
    case (Register cr J env insecure body)
    then show ?thesis using wf register_conn [of cr J env insecure body s] wf_register_body by auto
  qed (use wf wf_invites_create wf_invites_revoke in simp_all)
qed

text \<open>C9. An invite admits at most as many people as its creator allowed: along every sequence of creations,
  revocations and registrations, whichever statements fail, no more uses of an invite are logged than its maximum,
  and the counter that the next registration is judged by never lags behind the log.\<close>

theorem invite_quota:
  assumes "wf_invites (st_conn s)" and "i \<in> set (c_invites (st_conn (run invite_step s es)))"
  shows "int (logged_uses (st_conn (run invite_step s es)) (i_id i)) \<le> i_uses i
    \<and> (\<forall>m. i_max_uses i = Some m \<longrightarrow> int (logged_uses (st_conn (run invite_step s es)) (i_id i)) \<le> max 0 m)"
proof -
  have "wf_invites (st_conn (run invite_step s es))"
    using invite_requests.reachable_inv [OF admissible_any] assms(1) by blast
  with assms(2) show ?thesis by (fastforce simp: wf_invites_def within_quota_def)
qed

text \<open>Two uses are allowed; the third registration is refused and nothing is logged.\<close>

definition sample_invited :: site where
  "sample_invited = \<lparr>st_auth = auth_new [] [], st_conn = sample_conn\<lparr>c_invites := [\<lparr>i_id = ''i'', i_team_id = ''t'', i_created_by = ''owner'',
     i_token = ''tok'', i_max_uses = Some 1, i_uses = 1, i_expires_at = None, i_revoked = False, i_created_at = []\<rparr>],
     c_invite_uses := [\<lparr>iu_id = ''u'', iu_invite_id = ''i'', iu_user_id = ''bob'', iu_used_at = []\<rparr>]\<rparr>, st_sent = []\<rparr>"

theorem invite_quota_witness:
  "int (logged_uses (st_conn (run invite_step sample_invited [RevokeInvite ''a'' ''now'' ''owner'' ''t'' ''i''])) ''i'') \<le> 1"
proof -
  let ?s = "run invite_step sample_invited [RevokeInvite ''a'' ''now'' ''owner'' ''t'' ''i'']"
  have wf: "wf_invites (st_conn sample_invited)"
    by (simp add: sample_invited_def wf_invites_def within_quota_def logged_uses_def)
  have "map i_id (c_invites (st_conn ?s)) = [''i'']" "map i_max_uses (c_invites (st_conn ?s)) = [Some 1]" by code_simp+
  then obtain i where i: "i \<in> set (c_invites (st_conn ?s))" "i_id i = ''i''" "i_max_uses i = Some 1"
    by (auto simp: map_eq_Cons_conv)
  from invite_quota [OF wf i(1)] i show ?thesis by auto
qed

subsection \<open>The effect of a registration\<close>

lemma decode_and_verify_Inr:
  assumes "decode_and_verify_challenge cr now i k sg s = (Inr pk, s')"
  shows "\<exists>ch sig. cr_b64_decode cr k = Inr pk \<and> map_of (au_challenges (st_auth s)) i = Some ch \<and> cr_verify cr pk (chl_nonce ch) sig"
  using assms verify_challenge_True
  by (fastforce simp: decode_and_verify_challenge_def on_auth_Inr refuse_if_def throwS_def split: if_splits simp del: bindS_readS)

lemma register_Inr:
  assumes "register cr J env insecure body s = (Inr r, s')"
  shows "\<exists>pk a u m tid did c'. decode_and_verify_challenge cr (le_instant env) (rr_challenge_id body) (rr_public_key body)
        (rr_signature body) s = (Inr pk, s\<lparr>st_auth := a\<rparr>)
    \<and> rr_username body \<noteq> [] \<and> length (rr_username body) \<le> 32
    \<and> register_body env (rr_username body) pk (rr_invite_token body) (st_conn s) = (Inr (u, m, tid, did), c')
    \<and> generate_jwt_for_device J a (epoch env) (le_id env 0) (u_id u) did = Inr (lr_token r)
    \<and> generate_refresh_token_for_device J a (epoch env) (le_id env 1) (u_id u) did = Inr (lr_refresh_token r)
    \<and> lr_user r = u \<and> lr_team_id r = tid \<and> s' = s\<lparr>st_auth := a, st_conn := c', st_sent := st_sent s @
        [BroadcastAll (event_new EVENT_MEMBER_JOINED (JObj [(''team_id'', JStr tid), (''user'', user_json cr u), (''member'', JObj (member_json m))]))]\<rparr>"
proof -
  from assms obtain pk t where dec: "decode_and_verify_challenge cr (le_instant env) (rr_challenge_id body) (rr_public_key body)
        (rr_signature body) s = (Inr pk, t)"
    by (auto simp: register_def simp del: bindS_readS)
  obtain a where t: "t = s\<lparr>st_auth := a\<rparr>"
    using dec by (auto simp: decode_and_verify_challenge_def on_auth_Inr refuse_if_def throwS_def split: if_splits simp del: bindS_readS)
  show ?thesis
    using assms unfolding t dec [unfolded t]
    by (auto simp: register_def dec [unfolded t] on_db_Inr issue_tokens_Inr map_errH_def spawn_db_def check_new_account_def
        send_frames_def split: if_splits prod.splits sum.splits simp del: bindS_readS)
qed

text \<open>C8. A registration needs the key, the invite and a free name. One that succeeds answered a challenge with
  its key, named an invite of this server that is neither revoked, expired nor used up, and a username and key that
  nobody has; it adds one user, who is not an administrator, one membership in the team of the invite with at most
  the default role of that team, and one device with this key, to which the tokens are bound. The use is counted and
  logged, every client is told, and no other table changes.\<close>

theorem register_effect:
  assumes "register cr J env insecure body s = (Inr r, s')"
  shows "\<exists>pk iv mrs ch m. cr_b64_decode cr (rr_public_key body) = Inr pk
    \<and> map_of (au_challenges (st_auth s)) (rr_challenge_id body) = Some ch \<and> (\<exists>sig. cr_verify cr pk (chl_nonce ch) sig)
    \<and> iv \<in> set (c_invites (st_conn s)) \<and> i_token iv = rr_invite_token body \<and> usable_invite (le_now env) iv
    \<and> rr_username body \<noteq> [] \<and> length (rr_username body) \<le> 32 \<and> rr_username body \<notin> u_username ` set (c_users (st_conn s))
    \<and> pk \<notin> u_public_key ` set (c_users (st_conn s))
    \<and> u_username (lr_user r) = rr_username body \<and> u_public_key (lr_user r) = pk \<and> \<not> u_is_admin (lr_user r)
    \<and> m = new_member env (u_id (lr_user r)) (i_team_id iv) (i_created_by iv) \<and> lr_team_id r = i_team_id iv
    \<and> set mrs \<subseteq> set (c_member_roles (st_conn s)) \<union> {(m_id m, r_id ro) | ro. ro \<in> default_roles (st_conn s) (i_team_id iv)}
    \<and> st_conn s' = registered env (lr_user r) m mrs iv (st_conn s)
    \<and> generate_jwt_for_device J (st_auth s') (epoch env) (le_id env 0) (u_id (lr_user r)) (le_id env 5) = Inr (lr_token r)
    \<and> st_sent s' = st_sent s @ [BroadcastAll (event_new EVENT_MEMBER_JOINED (JObj [(''team_id'', JStr (i_team_id iv)),
        (''user'', user_json cr (lr_user r)), (''member'', JObj (member_json m))]))]"
proof -
  from register_Inr [OF assms] obtain pk a u m tid did c' where
    dec: "decode_and_verify_challenge cr (le_instant env) (rr_challenge_id body) (rr_public_key body) (rr_signature body) s = (Inr pk, s\<lparr>st_auth := a\<rparr>)"
    and name: "rr_username body \<noteq> []" "length (rr_username body) \<le> 32"
    and bd: "register_body env (rr_username body) pk (rr_invite_token body) (st_conn s) = (Inr (u, m, tid, did), c')"
    and jwt: "generate_jwt_for_device J a (epoch env) (le_id env 0) (u_id u) did = Inr (lr_token r)"
    and r: "lr_user r = u" "lr_team_id r = tid"
    and s': "s' = s\<lparr>st_auth := a, st_conn := c', st_sent := st_sent s @ [BroadcastAll (event_new EVENT_MEMBER_JOINED
        (JObj [(''team_id'', JStr tid), (''user'', user_json cr u), (''member'', JObj (member_json m))]))]\<rparr>" by blast
  from decode_and_verify_Inr [OF dec] obtain ch sig where ch: "cr_b64_decode cr (rr_public_key body) = Inr pk"
    "map_of (au_challenges (st_auth s)) (rr_challenge_id body) = Some ch" "cr_verify cr pk (chl_nonce ch) sig" by blast
  from register_body_Inr [OF bd] obtain iv mrs where b: "iv \<in> set (c_invites (st_conn s))" "i_token iv = rr_invite_token body"
    "usable_invite (le_now env) iv" "tid = i_team_id iv" "u = new_user env (rr_username body) pk False"
    "m = new_member env (u_id u) tid (i_created_by iv)" "did = le_id env 5"
    "rr_username body \<notin> u_username ` set (c_users (st_conn s))" "pk \<notin> u_public_key ` set (c_users (st_conn s))"
    and ro: "set mrs = set (c_member_roles (st_conn s)) \<and> default_roles (st_conn s) tid = {}
       \<or> (\<exists>r \<in> default_roles (st_conn s) tid. set mrs = insert (m_id m, r_id r) (set (c_member_roles (st_conn s))))"
    and c': "c' = registered env u m mrs iv (st_conn s)" by blast
  from ro have mrs: "set mrs \<subseteq> set (c_member_roles (st_conn s)) \<union> {(m_id m, r_id ro) | ro. ro \<in> default_roles (st_conn s) tid}"
    by auto
  have u: "u_username u = rr_username body" "u_public_key u = pk" "\<not> u_is_admin u"
    unfolding b(5) by (simp_all only: new_user_key is_admin_new) simp
  have st: "st_auth s' = a" "st_conn s' = registered env u m mrs iv (st_conn s)"
    "st_sent s' = st_sent s @ [BroadcastAll (event_new EVENT_MEMBER_JOINED (JObj [(''team_id'', JStr (i_team_id iv)),
        (''user'', user_json cr u), (''member'', JObj (member_json m))]))]"
    unfolding s' c' b(4) by simp_all
  show ?thesis
    unfolding r
    by (rule exI [of _ pk], rule exI [of _ iv], rule exI [of _ mrs], rule exI [of _ ch], rule exI [of _ m], intro conjI exI [of _ sig])
      (fact ch name b b(6) [unfolded b(4)] u mrs [unfolded b(4)] st jwt [folded st(1), unfolded b(7)])+
qed

subsection \<open>Logging out\<close>

lemma revoke_own_token:
  assumes "jwt_ok J" and "generate_jwt_for_device J s now jti uid did = Inr t" and "in_i64 now"
    and "in_i64 (now + ACCESS_TOKEN_EXPIRY_SECS)" and "jti \<noteq> []"
  shows "snd (revoke_token J s now1 t c) = snd (revoke_jti jti (now + ACCESS_TOKEN_EXPIRY_SECS) c)"
proof -
  define cl where "cl = \<lparr>cm_sub = uid, cm_iat = now, cm_exp = now + ACCESS_TOKEN_EXPIRY_SECS, cm_jti = jti,
    cm_aud = au_node_name s, cm_iss = au_node_name s, cm_did = did\<rparr>"
  have enc: "jl_encode J (au_jwt_secret s) (claims_json cl) = Inr t"
    using assms(2) by (simp add: generate_jwt_for_device_def cl_def)
  have "jl_decode J now1 (validation_default\<lparr>v_validate_aud := False, v_validate_exp := False\<rparr>) (au_jwt_secret s) t
      = Inr (claims_json cl)"
    by (rule decode_own [OF assms(1) enc json_get_claims(1-3)]) (simp_all add: validation_defs)
  moreover have "parse_claims (claims_json cl) = Some cl"
    using assms(3,4) by (intro parse_claims_json) (simp_all add: cl_def)
  ultimately show ?thesis
    using assms(5) by (simp add: revoke_token_def decode_as_def cl_def split: sum.split prod.split)
qed

text \<open>The database counts for a refresh token through the revocations of its own id alone.\<close>

lemma refresh_token_reads:
  assumes "jwt_ok J" and "generate_refresh_token_for_device J s now jti uid did = Inr t"
    and "in_i64 now" and "in_i64 (now + REFRESH_TOKEN_EXPIRY_SECS)" and "is_revoked now' c' jti = is_revoked now' c jti"
  shows "validate_refresh_token_full J s now' c' t = validate_refresh_token_full J s now' c t"
proof -
  define cl where "cl = \<lparr>cm_sub = uid, cm_iat = now, cm_exp = now + REFRESH_TOKEN_EXPIRY_SECS, cm_jti = jti,
    cm_aud = au_node_name s, cm_iss = au_node_name s, cm_did = did, cm_token_type = ''refresh''\<rparr>"
  have enc: "jl_encode J (au_jwt_secret s) (refresh_claims_json cl) = Inr t"
    using assms(2) by (simp add: generate_refresh_token_for_device_def cl_def)
  have parse: "parse_refresh_claims (refresh_claims_json cl) = Some cl"
    using assms(3,4) by (intro parse_refresh_claims_json) (simp_all add: cl_def)
  show ?thesis
  proof (cases "jl_decode J now' (access_token_validation s) (au_jwt_secret s) t")
    case (Inr cl')
    then have "cl' = refresh_claims_json cl" using jwt_okD(3) [OF assms(1) enc] by blast
    with Inr parse assms(5) show ?thesis by (simp add: validate_refresh_token_full_def decode_as_def cl_def)
  qed (simp add: validate_refresh_token_full_def decode_as_def)
qed

lemma is_revoked_audit: "audit_only c c' \<Longrightarrow> is_revoked now c' j = is_revoked now c j"
  by (erule audit_only_frame) (simp add: is_revoked_def stmt_def)

lemma log_token_event_sel:
  "fst (log_token_event env action uid did details s) = Inr ()" "st_auth (snd (log_token_event env action uid did details s)) = st_auth s"
  "audit_only (st_conn s) (st_conn (snd (log_token_event env action uid did details s)))"
  by (simp_all add: log_token_event_def ignoreS_def on_db_sel audit_only_teams)

lemma strip_own_prefix: "strip_prefix p (p @ t) = Some t"
proof -
  have "starts_with p (p @ t)" by (induction p) (simp_all add: starts_with_def)
  then show ?thesis by (simp add: strip_prefix_def)
qed

lemma logout_Inr:
  assumes "logout J env insecure (Some (Some (''Bearer '' @ t))) s = (Inr x, s')"
  shows "st_auth s' = st_auth s \<and> audit_only (snd (revoke_token J (st_auth s) (epoch env) t (st_conn s))) (st_conn s')"
proof -
  let ?s = "snd (on_db (revoke_token J (st_auth s) (epoch env) t) s)"
  from assms have "on_db (revoke_token J (st_auth s) (epoch env) t) s = (Inr (), ?s)"
    and "s' = ?s \<or> (\<exists>uid did. s' = snd (log_token_event env ''auth.logout'' uid did None ?s))"
    unfolding logout_def header_str_def
    by (auto simp: bindS_split [of "\<lambda>s. on_db (revoke_token J (st_auth s) (epoch env) t) s"] bindS_split [of "log_token_event _ _ _ _ _"] prod_eq_iff
        strip_own_prefix on_db_sel log_token_event_sel(1) simp del: append_Cons split: sum.splits)
  then show ?thesis using log_token_event_sel(2,3) [where env = env and action = "''auth.logout''" and details = None and s = ?s] by (auto simp: on_db_sel)
qed

text \<open>A logout ends half a session. It revokes the access token of its \<open>Authorization\<close> header, and nothing
  changes for the refresh token of the same login, which goes on to buy access tokens; and a browser that holds its
  token only in the cookie this server set, and passes the middleware with it, cannot log out at all.\<close>

theorem logout_leaves_refresh:
  assumes "jwt_ok J" and "healthy (st_conn s)"
    and "generate_jwt_for_device J (st_auth s) now ja uid did = Inr access" and "in_i64 now" and "in_i64 (now + ACCESS_TOKEN_EXPIRY_SECS)"
    and "ja \<noteq> []" and "ja \<noteq> jr" and "generate_refresh_token_for_device J (st_auth s) now' jr uid did = Inr refresh_token"
    and "in_i64 now'" and "in_i64 (now' + REFRESH_TOKEN_EXPIRY_SECS)"
    and "logout J env insecure (Some (Some (''Bearer '' @ access))) s = (Inr cookie, s')"
  shows "(\<forall>t < now + ACCESS_TOKEN_EXPIRY_SECS. validate_jwt_full J (st_auth s') t (st_conn s') access = Inl (Unauthorized ''token revoked''))
    \<and> (\<forall>t. validate_refresh_token_full J (st_auth s') t (st_conn s') refresh_token
        = validate_refresh_token_full J (st_auth s) t (st_conn s) refresh_token)
    \<and> (\<forall>r. logout J env insecure None r = (Inl (Unauthorized ''missing authorization header''), r))"
proof -
  note lo = logout_Inr [OF assms(11)]
  have rev: "is_revoked t (st_conn s') j = (if j = ja then Inr (t < now + ACCESS_TOKEN_EXPIRY_SECS) else is_revoked t (st_conn s) j)" for t j
    using is_revoked_audit [OF conjunct2 [OF lo]] revoke_own_token [OF assms(1,3,4,5,6)] is_revoked_revoke [OF assms(2)]
    by simp
  have "validate_jwt_full J (st_auth s') t (st_conn s') access = Inl (Unauthorized ''token revoked'')"
    if "t < now + ACCESS_TOKEN_EXPIRY_SECS" for t
    using validate_own_token [OF assms(1,3,4,5), of t "st_conn s'"] that rev assms(6) lo by (simp add: assert_jti_not_revoked_def)
  moreover have "validate_refresh_token_full J (st_auth s) t c refresh_token = validate_refresh_token_full J (st_auth s) t (st_conn s) refresh_token"
    if "is_revoked t c jr = is_revoked t (st_conn s') jr" for t c
    using refresh_token_reads [OF assms(1,8,9,10), of t c "st_conn s"] that rev assms(7) by auto
  moreover have "logout J env insecure None r = (Inl (Unauthorized ''missing authorization header''), r)" for r
    by (simp add: logout_def header_str_def)
  ultimately show ?thesis using lo by simp
qed

definition sample_session :: site where
  "sample_session = \<lparr>st_auth = auth_new [] ''n'', st_conn = empty_conn, st_sent = []\<rparr>"

text \<open>The middleware accepts the cookie; the logout revokes the token, and the refresh token still passes.\<close>

theorem logout_leaves_refresh_witness:
  "\<exists>cookie s'. logout sample_jwt (sample_clock\<lparr>le_utc := 200 * 1000000000\<rparr>) False (Some (Some ''Bearer A'')) sample_session = (Inr cookie, s')
    \<and> validate_jwt_full sample_jwt (st_auth s') 300 (st_conn s') ''A'' = Inl (Unauthorized ''token revoked'')
    \<and> validate_refresh_token_full sample_jwt (st_auth s') 300 (st_conn s') ''R'' = Inr (''u'', 0, 86400, ''old'', [])
    \<and> auth_middleware sample_jwt (st_auth sample_session) 200 (st_conn sample_session) None (Some (Some ''__dilla_jwt=A'')) (\<lambda>u. u) = Inr ''u''
    \<and> fst (logout sample_jwt (sample_clock\<lparr>le_utc := 200 * 1000000000\<rparr>) False None sample_session)
        = Inl (Unauthorized ''missing authorization header'')"
proof -
  let ?env = "sample_clock\<lparr>le_utc := 200 * 1000000000\<rparr>"
  let ?out = "logout sample_jwt ?env False (Some (Some (''Bearer '' @ ''A''))) sample_session"
  have "fst ?out = Inr (clear_auth_cookie False)" by code_simp
  then have out: "?out = (Inr (clear_auth_cookie False), snd ?out)" by (metis prod.collapse)
  have a: "generate_jwt_for_device sample_jwt (st_auth sample_session) 100 ''j'' ''u'' [] = Inr ''A''"
    and r: "generate_refresh_token_for_device sample_jwt (st_auth sample_session) 0 ''old'' ''u'' [] = Inr ''R''"
    and v: "validate_refresh_token_full sample_jwt (st_auth sample_session) 300 (st_conn sample_session) ''R'' = Inr (''u'', 0, 86400, ''old'', [])"
    and m: "auth_middleware sample_jwt (st_auth sample_session) 200 (st_conn sample_session) None (Some (Some ''__dilla_jwt=A'')) (\<lambda>u. u) = Inr ''u''"
    by code_simp+
  have h: "healthy (st_conn sample_session)" by (simp add: sample_session_def healthy_def empty_conn_def)
  have "100 + ACCESS_TOKEN_EXPIRY_SECS > 300" by (simp add: ACCESS_TOKEN_EXPIRY_SECS_def)
  with logout_leaves_refresh [OF sample_jwt_ok h a _ _ _ _ r _ _ out] v m out show ?thesis
    by (intro exI [of _ "clear_auth_cookie False"] exI [of _ "snd ?out"])
      (simp add: in_i64_def ACCESS_TOKEN_EXPIRY_SECS_def REFRESH_TOKEN_EXPIRY_SECS_def)
qed

end
