(* ===== verification/Bootstrap.thy ===== *)
theory Bootstrap
  imports Registration
begin

section \<open>Bootstrap: the first account of a server\<close>

text \<open>
  \<open>bootstrap\<close> of \<open>api/auth_handlers.rs\<close>: the token is checked and marked inside the transaction that creates the
  administrator, the team, its roles and channels. Also the witness of the registration.
\<close>

subsection \<open>A registration, in a sample\<close>

definition sample_visitor :: site where
  "sample_visitor = sample_invited\<lparr>st_auth := st_auth sample_accounts,
     st_conn := (st_conn sample_invited)\<lparr>c_invites := map (\<lambda>i. i\<lparr>i_max_uses := Some 2\<rparr>) (c_invites (st_conn sample_invited))\<rparr>\<rparr>"

definition sample_form :: register_request where
  "sample_form = \<lparr>rr_challenge_id = hex [9], rr_public_key = ''k1'', rr_signature = ''sig'', rr_username = ''eve'', rr_invite_token = ''tok''\<rparr>"

lemma sample_proof:
  "st_auth s = st_auth sample_accounts \<Longrightarrow> decode_and_verify_challenge sample_keys (le_instant sample_clock) (hex [9]) ''k1'' ''sig'' s
    = (Inr (replicate 32 1), s\<lparr>st_auth := (st_auth sample_accounts)\<lparr>au_challenges := []\<rparr>\<rparr>)"
  using sample_challenge
  by (simp add: decode_and_verify_challenge_def on_auth_def decode_b64_def sample_keys_def sample_clock_def bindS_Inr refuse_if_def)

lemma sample_issue: "issue_tokens sample_tokens env uid did s = (Inr (''token'', ''token''), s)"
  by (simp add: issue_tokens_def sample_tokens_def generate_jwt_for_device_def generate_refresh_token_for_device_def)

lemma sample_name_free: "check_username_and_key_available ''eve'' (replicate 32 1) (st_conn sample_visitor) = Inr ()"
  by code_simp

lemma sample_invite: "validate_invite (le_now sample_clock) (st_conn sample_visitor) ''tok'' = Inr \<lparr>i_id = ''i'', i_team_id = ''t'',
    i_created_by = ''owner'', i_token = ''tok'', i_max_uses = Some 2, i_uses = 1, i_expires_at = None, i_revoked = False, i_created_at = []\<rparr>"
  by code_simp

lemma sample_digits: "show_nat 2 = ''2''" "show_nat 3 = ''3''" "show_nat 4 = ''4''" "show_nat 5 = ''5''" "show_nat 7 = ''7''" "show_nat 8 = ''8''"
  by code_simp+

text \<open>When every statement finds its rows, a registration goes through.\<close>

lemma register_body_goes:
  assumes "healthy c" and "check_username_and_key_available username pk c = Inr ()" and "validate_invite (le_now env) c token = Inr iv"
    and "username \<notin> u_username ` set (c_users c)" "pk \<notin> u_public_key ` set (c_users c)" "le_id env 2 \<notin> u_id ` set (c_users c)"
    and "le_id env 3 \<notin> m_id ` set (c_members c)" "le_id env 2 \<notin> m_user_id ` set (c_members c)"
    and "i_team_id iv \<in> t_id ` set (c_teams c)" "i_created_by iv \<in> u_id ` set (c_users c)" "default_roles c (i_team_id iv) = {}"
    and "i_id iv \<in> i_id ` set (c_invites c)" "le_id env 4 \<notin> iu_id ` set (c_invite_uses c)"
    and "le_id env 5 \<notin> d_id ` set (c_devices c)" "le_id env 2 \<notin> d_user_id ` set (c_devices c)"
  shows "\<exists>c'. register_body env username pk token c = (Inr (new_user env username pk False,
    new_member env (le_id env 2) (i_team_id iv) (i_created_by iv), i_team_id iv, le_id env 5), c')"
proof -
  let ?u = "new_user env username pk False" and ?m = "new_member env (le_id env 2) (i_team_id iv) (i_created_by iv)"
  have u: "u_id ?u = le_id env 2" "u_status_type ?u \<in> status_types" by (simp_all add: new_user_def status_types_def)
  have m: "m_id ?m = le_id env 3" "m_team_id ?m = i_team_id iv" "m_user_id ?m = le_id env 2" "m_invited_by ?m = i_created_by iv"
    by (simp_all add: new_member_def)
  define c1 where "c1 = snd (create_user ?u c)"
  have c1: "create_user ?u c = (Inr (), c1)" "healthy c1" "\<exists>x. c1 = c\<lparr>c_users := c_users c @ [x]\<rparr> \<and> u_id x = le_id env 2"
    using assms(1,4-6) u unfolding c1_def create_user_def
    by (simp add: exec_healthy new_user_key healthy_def, simp add: exec_healthy new_user_key healthy_def,
        intro exI [of _ "?u\<lparr>u_quiet_hours_from := _, u_quiet_hours_to := _\<rparr>"], simp add: exec_healthy new_user_key)
  define c2 where "c2 = snd (create_member ?m c1)"
  have c2: "create_member ?m c1 = (Inr (), c2)" "healthy c2" "\<exists>x. c2 = c1\<lparr>c_members := c_members c @ [x]\<rparr>"
proof -
    obtain x where x: "c1 = c\<lparr>c_users := c_users c @ [x]\<rparr>" "u_id x = le_id env 2" using c1(3) by blast
    have cond: "\<not> (m_id ?m \<in> m_id ` set (c_members c1) \<or> (\<exists>y \<in> set (c_members c1). m_team_id y = m_team_id ?m \<and> m_user_id y = m_user_id ?m)
       \<or> m_team_id ?m \<notin> t_id ` set (c_teams c1) \<or> m_user_id ?m \<notin> u_id ` set (c_users c1) \<or> m_invited_by ?m \<notin> u_id ` set (c_users c1))"
      using assms(7-10) m x by force
    show "create_member ?m c1 = (Inr (), c2)" "healthy c2" "\<exists>x. c2 = c1\<lparr>c_members := c_members c @ [x]\<rparr>"
      unfolding c2_def create_member_def exec_healthy [OF c1(2)] if_not_P [OF cond] using c1(2) x(1) by (auto simp: healthy_def)
  qed
  have ro: "get_default_role_for_team c2 (i_team_id iv) = Inr None"
    using assms(11) c1(3) c2(2,3) by (auto simp: get_default_role_for_team_def default_roles_def rows_where_eq_Nil)
  define c4 where "c4 = snd (increment_invite_uses (i_id iv) c2)"
  have c4: "increment_invite_uses (i_id iv) c2 = (Inr (), c4)" "healthy c4"
    "c4 = c2\<lparr>c_invites := update_where (\<lambda>x. i_id x = i_id iv) (\<lambda>x. x\<lparr>i_uses := i_uses x + 1\<rparr>) (c_invites c)\<rparr>"
    using c1(3) c2(2,3) by (auto simp: c4_def increment_invite_uses_def exec_healthy healthy_def)
  have "i_id ` set (update_where (\<lambda>x. i_id x = i_id iv) (\<lambda>x. x\<lparr>i_uses := i_uses x + 1\<rparr>) (c_invites c)) = i_id ` set (c_invites c)"
    unfolding set_map [symmetric] by (simp add: map_update_where)
  then have iid: "i_id iv \<in> i_id ` set (c_invites c4)" using assms(12) c4(3) by simp
  have uid: "le_id env 2 \<in> u_id ` set (c_users c4)" and frame: "c_invite_uses c4 = c_invite_uses c" "c_devices c4 = c_devices c"
    using c1(3) c2(3) c4(3) by auto
  define c5 where "c5 = snd (log_invite_use (le_id env 4) (le_now env) (i_id iv) (le_id env 2) c4)"
  have c5: "log_invite_use (le_id env 4) (le_now env) (i_id iv) (le_id env 2) c4 = (Inr (), c5)" "healthy c5"
    "c_devices c5 = c_devices c" "c_users c5 = c_users c4"
    using assms(13) c4(2) uid iid frame by (simp_all add: c5_def log_invite_use_def exec_healthy healthy_def)
  have "\<exists>c6. create_device (le_id env 5) (le_now env) (le_id env 2) pk ''primary'' c5 = (Inr (le_id env 5), c6)"
    using assms(14,15) c5(2-4) uid by (auto simp: create_device_def exec_healthy)
  then obtain c6 where c6: "create_device (le_id env 5) (le_now env) (le_id env 2) pk ''primary'' c5 = (Inr (le_id env 5), c6)" by blast
  show ?thesis unfolding register_body_def Let_def
    by (rule exI [of _ c6]) (simp add: assms(2,3) u(1) new_user_key m(1) ro c1(1) c2(1) c4(1) c5(1) c6)
qed

lemma sample_register: "\<exists>r s'. register sample_keys sample_tokens sample_clock False sample_form sample_visitor = (Inr r, s')"
proof -
  have "\<exists>c'. register_body sample_clock ''eve'' (replicate 32 1) ''tok'' (st_conn sample_visitor)
      = (Inr (new_user sample_clock ''eve'' (replicate 32 1) False, new_member sample_clock (le_id sample_clock 2) ''t'' ''owner'', ''t'', le_id sample_clock 5), c')"
    using register_body_goes [of "st_conn sample_visitor", OF _ sample_name_free sample_invite]
    by (simp add: sample_visitor_def sample_invited_def sample_conn_def empty_conn_def sample_clock_def sample_user_def sample_digits
        default_roles_def healthy_def)
  then obtain did m u c where "register_body sample_clock ''eve'' (replicate 32 1) ''tok'' (st_conn sample_visitor)
      = (Inr (u, m, ''t'', did), c)" by blast
  moreover have "st_auth sample_visitor = st_auth sample_accounts" by (simp add: sample_visitor_def)
  ultimately show ?thesis using sample_proof [of sample_visitor]
    by (simp add: register_def sample_form_def check_new_account_def on_db_def map_errH_def spawn_db_def sample_issue send_frames_def)
qed

text \<open>The second and last use of an invite: a third one is refused by its quota.\<close>

theorem register_effect_witness:
  "\<exists>r s'. register sample_keys sample_tokens sample_clock False sample_form sample_visitor = (Inr r, s')
    \<and> u_username (lr_user r) = ''eve'' \<and> lr_user r \<in> set (c_users (st_conn s')) \<and> length (st_sent s') = 1
    \<and> (\<exists>iv \<in> set (c_invites (st_conn sample_visitor)). i_token iv = ''tok'' \<and> usable_invite ''now'' iv)"
proof -
  obtain r s' where ok: "register sample_keys sample_tokens sample_clock False sample_form sample_visitor = (Inr r, s')"
    using sample_register by blast
  have "st_sent sample_visitor = []" "le_now sample_clock = ''now''" "rr_username sample_form = ''eve''" "rr_invite_token sample_form = ''tok''"
    by (simp_all add: sample_visitor_def sample_invited_def sample_clock_def sample_form_def)
  with register_effect [OF ok] obtain m mrs iv where "u_username (lr_user r) = ''eve''" "i_token iv = ''tok''"
    "iv \<in> set (c_invites (st_conn sample_visitor))" "usable_invite ''now'' iv" "length (st_sent s') = 1"
    "st_conn s' = registered sample_clock (lr_user r) m mrs iv (st_conn sample_visitor)" by auto
  with ok show ?thesis by (intro exI [of _ r] exI [of _ s']) (auto simp: registered_def)
qed

subsection \<open>What a bootstrap writes\<close>

definition token_valid :: "(string \<Rightarrow> int option) \<Rightarrow> login_env \<Rightarrow> bootstrap_token \<Rightarrow> bool" where
  "token_valid parse_time env bt \<longleftrightarrow> \<not> bt_used bt
     \<and> (bt_expires_at bt = [] \<or> (\<exists>ex. parse_time (bt_expires_at bt) = Some ex \<and> le_utc env \<le> ex * 1000000000))"

lemma validate_bootstrap_Inr:
  assumes "validate_bootstrap_token parse_time env token c = (Inr u, c')"
  shows "\<exists>bt. bt \<in> set (c_bootstrap_tokens c) \<and> bt_token bt = token \<and> token_valid parse_time env bt
    \<and> first_row (rows_where (\<lambda>b. bt_token b = token) (c_bootstrap_tokens c)) = Some bt
    \<and> c' = c\<lparr>c_bootstrap_tokens := update_where (\<lambda>b. bt_token b = token) (\<lambda>b. b\<lparr>bt_used := True\<rparr>) (c_bootstrap_tokens c)\<rparr>"
proof -
  from assms obtain found where f: "get_bootstrap_token c token = Inr found"
    and r: "bindS (some_or (InvalidParameterName ''invalid bootstrap token'') found) (\<lambda>bt.
     bindS (refuse_if (bt_used bt) (InvalidParameterName ''bootstrap token already used'')) (\<lambda>_.
     bindS (if bt_expires_at bt = [] then returnS ()
            else (case parse_time (bt_expires_at bt) of
                None \<Rightarrow> throwS (InvalidParameterName ''bootstrap token has malformed expires_at'')
              | Some ex \<Rightarrow> refuse_if (le_utc env > ex * 1000000000) (InvalidParameterName ''bootstrap token expired''))) (\<lambda>_.
     use_bootstrap_token token))) c = (Inr u, c')"
    unfolding validate_bootstrap_token_def by (cases "get_bootstrap_token c token") simp_all
  from r obtain bt where b: "found = Some bt" by (cases found) (simp_all add: some_or_def throwS_def)
  with r have u': "\<not> bt_used bt" by (auto simp: some_or_def refuse_if_def throwS_def)
  have e: "token_valid parse_time env bt \<and> use_bootstrap_token token c = (Inr u, c')"
  proof (cases "bt_expires_at bt = []")
    case True
    with r b u' show ?thesis by (simp add: some_or_def refuse_if_def token_valid_def)
  next
    case False
    with r b u' show ?thesis
      by (cases "parse_time (bt_expires_at bt)") (auto simp: some_or_def refuse_if_def throwS_def token_valid_def not_less split: if_splits)
  qed
  then have v: "token_valid parse_time env bt" and u: "use_bootstrap_token token c = (Inr u, c')" by blast+
  from f b have "first_row (rows_where (\<lambda>b. bt_token b = token) (c_bootstrap_tokens c)) = Some bt"
    by (simp add: get_bootstrap_token_def optional_query_row stmt_eq_Inr)
  moreover from this have "bt \<in> set (c_bootstrap_tokens c) \<and> bt_token bt = token" by (auto dest!: first_row_SomeD)
  ultimately show ?thesis using v u by (auto simp: use_bootstrap_token_def exec_eq_Inr)
qed

text \<open>What the steps after the team leave alone.\<close>

definition same_core :: "conn \<Rightarrow> conn \<Rightarrow> bool" where
  "same_core c c' \<longleftrightarrow> c_users c' = c_users c \<and> c_teams c' = c_teams c \<and> c_bootstrap_tokens c' = c_bootstrap_tokens c"

interpretation core_kept: kept_property "same_core c0" for c0
proof (unfold_locales)
  fix c i n t a ac tt ti d
  assume "same_core c0 c"
  then show "same_core c0 (snd (insert_audit_event i n t a ac tt ti d c))"
    using insert_audit_event_state [of i n t a ac tt ti d c] by (auto simp: same_core_def)
qed

lemma same_core_ops:
  assumes "same_core c0 c"
  shows "same_core c0 (snd (create_member m c))" "same_core c0 (snd (create_role now ro c))" "same_core c0 (snd (create_channel ch c))"
    "same_core c0 (snd (assign_role_to_member mid rid c))" "same_core c0 (snd (create_device i now uid pk l c))"
  using assms unfolding create_role_def create_channel_def create_member_def assign_role_to_member_def create_device_def snd_bindS_return
  by (simp_all add: exec_def same_core_def)

lemma same_core_defaults:
  assumes "same_core c0 c"
  shows "same_core c0 (snd (create_bootstrap_defaults env tid uid seed_demo c))"
proof -
  have "same_core c0 (snd (for_eachS (create_role (le_now env)) rs t))" "same_core c0 (snd (for_eachS create_channel chs t))"
    if "same_core c0 t" for rs chs t using that by (rule for_eachS_keeps [rotated], blast intro: same_core_ops)+
  then show ?thesis unfolding create_bootstrap_defaults_def
    using assms by - (intro core_kept.chain same_core_ops; assumption)
qed

lemma bootstrap_body_Inr:
  assumes "bootstrap_body parse_time env username pk token name seed_demo c = (Inr (u, tid, did), c')"
  shows "\<exists>bt. bt \<in> set (c_bootstrap_tokens c) \<and> bt_token bt = token \<and> token_valid parse_time env bt
    \<and> u = new_user env username pk True \<and> tid = le_id env 6
    \<and> tid \<notin> t_id ` set (c_teams c) \<and> username \<notin> u_username ` set (c_users c) \<and> pk \<notin> u_public_key ` set (c_users c)
    \<and> c_users c' = c_users c @ [u] \<and> c_teams c' = c_teams c @ [bootstrap_team env name (u_id u)]
    \<and> c_bootstrap_tokens c' = update_where (\<lambda>b. bt_token b = token) (\<lambda>b. b\<lparr>bt_used := True\<rparr>) (c_bootstrap_tokens c)"
proof -
  let ?u = "new_user env username pk True"
  from assms obtain c1 c2 c3 c4 c5 x where c1: "validate_bootstrap_token parse_time env token c = (Inr (), c1)"
    and c2: "create_user ?u c1 = (Inr (), c2)"
    and c3: "create_team (bootstrap_team env name (u_id ?u)) c2 = (Inr (), c3)"
    and c4: "create_member (new_member env (u_id ?u) (le_id env 6) (u_id ?u)) c3 = (Inr (), c4)"
    and c5: "create_bootstrap_defaults env (le_id env 6) (u_id ?u) seed_demo c4 = (Inr (), c5)"
    and c6: "create_device (le_id env 5) (le_now env) (u_id ?u) pk ''primary'' c5 = (Inr did, c')"
    and r: "u = ?u" "tid = le_id env 6"
    by (auto simp: bootstrap_body_def create_bootstrap_team_def Let_def new_user_key simp del: bindS_readS)
  from validate_bootstrap_Inr [OF c1] obtain bt where bt: "bt \<in> set (c_bootstrap_tokens c)" "bt_token bt = token" "token_valid parse_time env bt"
    and e1: "c1 = c\<lparr>c_bootstrap_tokens := update_where (\<lambda>b. bt_token b = token) (\<lambda>b. b\<lparr>bt_used := True\<rparr>) (c_bootstrap_tokens c)\<rparr>" by blast
  have e2: "c2 = c1\<lparr>c_users := c_users c @ [u]\<rparr>" "username \<notin> u_username ` set (c_users c)" "pk \<notin> u_public_key ` set (c_users c)"
    using create_user_Inr [OF c2] by (simp_all add: e1 new_user_def or_default_def r(1))
  have e3: "c3 = c2\<lparr>c_teams := c_teams c @ [bootstrap_team env name (u_id u)]\<rparr>" "tid \<notin> t_id ` set (c_teams c)"
    using c3 by (auto simp: create_team_def exec_eq_Inr e2(1) e1 r bootstrap_team_def split: if_splits)
  have "same_core c3 c3" by (simp add: same_core_def)
  then have "same_core c3 (snd (create_member (new_member env (u_id ?u) (le_id env 6) (u_id ?u)) c3))" by (rule same_core_ops)
  then have "same_core c3 c4" by (simp add: c4)
  then have "same_core c3 (snd (create_bootstrap_defaults env (le_id env 6) (u_id ?u) seed_demo c4))" by (rule same_core_defaults)
  then have "same_core c3 c5" by (simp add: c5)
  then have "same_core c3 (snd (create_device (le_id env 5) (le_now env) (u_id ?u) pk ''primary'' c5))" by (rule same_core_ops)
  then have "same_core c3 c'" by (simp add: c6)
  then have "c_users c' = c_users c @ [u]" "c_teams c' = c_teams c @ [bootstrap_team env name (u_id u)]"
    "c_bootstrap_tokens c' = update_where (\<lambda>b. bt_token b = token) (\<lambda>b. b\<lparr>bt_used := True\<rparr>) (c_bootstrap_tokens c)"
    by (simp_all add: same_core_def e3(1) e2(1) e1)
  with bt r e2(2,3) e3(2) show ?thesis by blast
qed

lemma bootstrap_spent:
  assumes "\<And>b. b \<in> set (c_bootstrap_tokens (st_conn s)) \<Longrightarrow> bt_token b = br_bootstrap_token body \<Longrightarrow> bt_used b"
  shows "fst (bootstrap cr J parse_time env insecure config seed body s) \<noteq> Inr r"
proof
  assume "fst (bootstrap cr J parse_time env insecure config seed body s) = Inr r"
  then obtain s' where "bootstrap cr J parse_time env insecure config seed body s = (Inr r, s')" by (metis prod.collapse)
  then obtain pk t x where dec: "decode_and_verify_challenge cr (le_instant env) (br_challenge_id body) (br_public_key body) (br_signature body) s = (Inr pk, t)"
    and body: "fst (in_tx (\<lambda>_. True) (bootstrap_body parse_time env (br_username body) pk (br_bootstrap_token body)
       (resolve_team_name (br_team_name body) config) seed) (st_conn t)) = Inr x"
    by (auto simp: bootstrap_def on_db_Inr map_errH_def spawn_db_def split: prod.splits sum.splits simp del: bindS_readS)
  have "st_conn t = st_conn s" using dec challenge_conn [of cr "le_instant env" "br_challenge_id body" "br_public_key body" "br_signature body" s] by simp
  with in_tx_Inr [OF body] obtain u tid did c' where "bootstrap_body parse_time env (br_username body) pk (br_bootstrap_token body)
       (resolve_team_name (br_team_name body) config) seed (st_conn s) = (Inr (u, tid, did), c')"
    by (cases x) (metis prod.collapse)
  from bootstrap_body_Inr [OF this] assms show False by (auto simp: token_valid_def)
qed

lemma audit_only_eventD: "insert_audit_event i n t a ac tt ti d c = (r, c') \<Longrightarrow> audit_only c c'"
  using audit_only_event [of c i n t a ac tt ti d] by simp

text \<open>What a successful bootstrap went through.\<close>

lemma bootstrap_Inr:
  assumes "healthy (st_conn s)" and "bootstrap cr J parse_time env insecure config seed body s = (Inr r, s')"
  shows "\<exists>pk u tid did c'. bootstrap_body parse_time env (br_username body) pk (br_bootstrap_token body)
      (resolve_team_name (br_team_name body) config) seed (st_conn s) = (Inr (u, tid, did), c')
    \<and> (\<exists>ch sig. cr_b64_decode cr (br_public_key body) = Inr pk
        \<and> map_of (au_challenges (st_auth s)) (br_challenge_id body) = Some ch \<and> cr_verify cr pk (chl_nonce ch) sig)
    \<and> lr_user r = u \<and> lr_team_id r = tid \<and> audit_only c' (st_conn s')"
proof -
  from assms(2) obtain pk t where dec: "decode_and_verify_challenge cr (le_instant env) (br_challenge_id body) (br_public_key body)
      (br_signature body) s = (Inr pk, t)" by (auto simp: bootstrap_def simp del: bindS_readS)
  have t: "st_conn t = st_conn s"
    using dec challenge_conn [of cr "le_instant env" "br_challenge_id body" "br_public_key body" "br_signature body" s] by simp
  let ?tx = "in_tx (\<lambda>_. True) (bootstrap_body parse_time env (br_username body) pk (br_bootstrap_token body)
      (resolve_team_name (br_team_name body) config) seed) (st_conn s)"
  from assms(2) t obtain u tid did where tx: "fst ?tx = Inr (u, tid, did)" and r: "lr_user r = u" "lr_team_id r = tid"
    and a: "audit_only (snd ?tx) (st_conn s')"
    by (auto simp: bootstrap_def dec on_db_Inr map_errH_def spawn_db_def issue_tokens_Inr ignoreS_def on_db_sel
        split: prod.splits sum.splits dest: audit_only_eventD simp del: bindS_readS)
  from tx assms(1) obtain c' where "bootstrap_body parse_time env (br_username body) pk (br_bootstrap_token body)
      (resolve_team_name (br_team_name body) config) seed (st_conn s) = (Inr (u, tid, did), c')" "snd ?tx = c'"
    by (auto simp: in_tx_healthy split: prod.splits sum.splits)
  with decode_and_verify_Inr [OF dec] r a show ?thesis by blast
qed

text \<open>A failing one leaves the database as it was, when tokens can be signed at all.\<close>

lemma bootstrap_Inl:
  assumes "healthy (st_conn s)" and "\<And>k cl. \<exists>t. jl_encode J k cl = Inr t"
    and "bootstrap cr J parse_time env insecure config seed body s = (Inl e, s')"
  shows "st_conn s' = st_conn s"
proof -
  have issue: "\<exists>ts. issue_tokens J env uid did st = (Inr ts, st)" for uid did st
  proof -
    from assms(2) obtain a b where "generate_jwt_for_device J (st_auth st) (epoch env) (le_id env 0) uid did = Inr a"
      "generate_refresh_token_for_device J (st_auth st) (epoch env) (le_id env 1) uid did = Inr b"
      unfolding generate_jwt_for_device_def generate_refresh_token_for_device_def by (metis map_err_simps(2))
    then show ?thesis by (simp add: issue_tokens_def)
  qed
  let ?dec = "decode_and_verify_challenge cr (le_instant env) (br_challenge_id body) (br_public_key body) (br_signature body) s"
  have t: "st_conn (snd ?dec) = st_conn s" by simp
  show ?thesis
  proof (cases "fst ?dec")
    case (Inr pk)
    let ?f = "map_errH bootstrap_error (spawn_db (in_tx (\<lambda>_. True) (bootstrap_body parse_time env (br_username body) pk (br_bootstrap_token body)
      (resolve_team_name (br_team_name body) config) seed)))"
    show ?thesis
    proof (cases "check_new_account (br_username body) (br_bootstrap_token body) ''bootstrap_token''")
      case (Inr u)
      show ?thesis
      proof (cases "fst (?f (st_conn s))")
        case (Inl x)
        then have "snd (?f (st_conn s)) = st_conn s"
          using assms(1) by (auto simp: map_errH_def spawn_db_def in_tx_healthy split: prod.splits sum.splits)
        with Inl Inr \<open>fst ?dec = Inr pk\<close> t assms(3) show ?thesis
          by (auto simp: bootstrap_def bindS_split [of "decode_and_verify_challenge _ _ _ _ _"] bindS_split [of "on_db _"] on_db_sel)
      next
        case (Inr x)
        obtain uu tid did where x: "x = (uu, tid, did)" by (cases x)
        obtain ts where "issue_tokens J env (u_id uu) did (snd (on_db ?f (snd ?dec))) = (Inr ts, snd (on_db ?f (snd ?dec)))"
          using issue by blast
        with Inr x \<open>fst ?dec = Inr pk\<close> \<open>check_new_account _ _ _ = Inr u\<close> t assms(3) show ?thesis
          by (cases ts) (auto simp: bootstrap_def bindS_split [of "decode_and_verify_challenge _ _ _ _ _"] bindS_split [of "on_db _"]
              on_db_sel bindS_Inr bindS_split [of "ignoreS _"] ignoreS_def)
      qed
    qed (use assms(3) \<open>fst ?dec = Inr pk\<close> t in \<open>auto simp: bootstrap_def bindS_split [of "decode_and_verify_challenge _ _ _ _ _"]\<close>)
  qed (use assms(3) t in \<open>auto simp: bootstrap_def bindS_split [of "decode_and_verify_challenge _ _ _ _ _"]\<close>)
qed

text \<open>The first account is made once. A bootstrap that succeeds answered a challenge with its key and presented a
  token of this server that is unused and not expired; it makes one administrator, with a free name and a free key,
  and one team that this user owns, so that every permission of it is theirs. The token is marked in the same
  transaction: no bootstrap with it succeeds on any later state in which no bootstrap token was added; and one that
  fails changes nothing, whichever of its statements failed, as long as tokens can be signed.\<close>

theorem bootstrap_once:
  assumes "healthy (st_conn s)" and "\<And>k cl. \<exists>t. jl_encode J k cl = Inr t"
    and "bootstrap cr J parse_time env insecure config seed body s = (out, s')"
  shows "case out of Inl e \<Rightarrow> st_conn s' = st_conn s
    | Inr r \<Rightarrow> (\<exists>bt pk ch sig. bt \<in> set (c_bootstrap_tokens (st_conn s)) \<and> bt_token bt = br_bootstrap_token body \<and> token_valid parse_time env bt
          \<and> cr_b64_decode cr (br_public_key body) = Inr pk \<and> map_of (au_challenges (st_auth s)) (br_challenge_id body) = Some ch
          \<and> cr_verify cr pk (chl_nonce ch) sig \<and> u_public_key (lr_user r) = pk)
        \<and> c_users (st_conn s') = c_users (st_conn s) @ [lr_user r] \<and> u_is_admin (lr_user r)
        \<and> u_username (lr_user r) = br_username body \<and> u_username (lr_user r) \<notin> u_username ` set (c_users (st_conn s))
        \<and> u_public_key (lr_user r) \<notin> u_public_key ` set (c_users (st_conn s))
        \<and> (\<forall>p. holds_permission (st_conn s') (u_id (lr_user r)) (lr_team_id r) p)
        \<and> (\<nexists>cr' J' env' x r' t t'. br_bootstrap_token x = br_bootstrap_token body
            \<and> c_bootstrap_tokens (st_conn t) = c_bootstrap_tokens (st_conn s')
            \<and> bootstrap cr' J' parse_time env' insecure config seed x t = (Inr r', t'))"
proof (cases out)
  case (Inr r)
  from bootstrap_Inr [OF assms(1) assms(3) [unfolded Inr]] obtain pk u tid did c' where
    bd: "bootstrap_body parse_time env (br_username body) pk (br_bootstrap_token body)
      (resolve_team_name (br_team_name body) config) seed (st_conn s) = (Inr (u, tid, did), c')"
    and proof_of: "\<exists>ch sig. cr_b64_decode cr (br_public_key body) = Inr pk
        \<and> map_of (au_challenges (st_auth s)) (br_challenge_id body) = Some ch \<and> cr_verify cr pk (chl_nonce ch) sig"
    and r: "lr_user r = u" "lr_team_id r = tid" and a: "audit_only c' (st_conn s')" by blast
  note b = bootstrap_body_Inr [OF bd]
  have frame: "c_users (st_conn s') = c_users c'" "c_teams (st_conn s') = c_teams c'" "c_bootstrap_tokens (st_conn s') = c_bootstrap_tokens c'"
    by (rule audit_only_frame [OF a, where P = c_users] audit_only_frame [OF a, where P = c_teams]
        audit_only_frame [OF a, where P = c_bootstrap_tokens], simp)+
  have u: "u = new_user env (br_username body) pk True" using b by blast
  have "c_teams (st_conn s') = c_teams (st_conn s) @ [bootstrap_team env (resolve_team_name (br_team_name body) config) (u_id u)]"
    "tid = le_id env 6" "tid \<notin> t_id ` set (c_teams (st_conn s))" using b frame by auto
  moreover from this(3) have "rows_where (\<lambda>t. t_id t = tid) (c_teams (st_conn s)) = []" by (auto simp: rows_where_eq_Nil)
  ultimately have "owns_team (st_conn s') (u_id u) tid"
    by (simp add: owns_team_def rows_where_def bootstrap_team_def first_row_def)
  then have perm: "holds_permission (st_conn s') (u_id u) tid p" for p by (simp add: holds_permission_def)
  have "c_bootstrap_tokens (st_conn s') = update_where (\<lambda>b. bt_token b = br_bootstrap_token body) (\<lambda>b. b\<lparr>bt_used := True\<rparr>) (c_bootstrap_tokens (st_conn s))"
    using b unfolding frame(3) by blast
  then have "bt_used x" if "x \<in> set (c_bootstrap_tokens (st_conn s'))" "bt_token x = br_bootstrap_token body" for x
    using that by (auto split: if_splits)
  then have "bootstrap cr' J' parse_time env' insecure config seed x t \<noteq> (Inr r', t')"
    if "br_bootstrap_token x = br_bootstrap_token body" "c_bootstrap_tokens (st_conn t) = c_bootstrap_tokens (st_conn s')"
    for cr' J' env' x r' t t' using bootstrap_spent [of t x] that by (metis fst_conv)
  with Inr b frame r perm proof_of show ?thesis unfolding u by (auto simp: new_user_key)
next
  case (Inl e)
  with assms(3) bootstrap_Inl [OF assms(1,2)] show ?thesis by simp
qed

definition sample_empty :: conn where
  "sample_empty = empty_conn\<lparr>c_bootstrap_tokens := [\<lparr>bt_token = ''boot'', bt_used = False, bt_created_at = [], bt_expires_at = ''later''\<rparr>]\<rparr>"

definition sample_fresh :: site where
  "sample_fresh = \<lparr>st_auth = st_auth sample_accounts, st_conn = sample_empty, st_sent = []\<rparr>"

definition sample_first :: bootstrap_request where
  "sample_first = \<lparr>br_challenge_id = hex [9], br_public_key = ''k1'', br_signature = ''sig'', br_username = ''root'',
     br_bootstrap_token = ''boot'', br_team_name = ''T''\<rparr>"

lemma sample_boot_token: "\<exists>c. validate_bootstrap_token (\<lambda>_. Some 5) sample_clock ''boot'' sample_empty = (Inr (), c)
    \<and> healthy c \<and> c_users c = [] \<and> c_teams c = [] \<and> c_members c = [] \<and> c_roles c = [] \<and> c_channels c = [] \<and> c_devices c = [] \<and> c_member_roles c = []"
  by (simp add: validate_bootstrap_token_def get_bootstrap_token_def use_bootstrap_token_def sample_empty_def empty_conn_def
      exec_def healthy_def sample_clock_def rows_where_def stmt_def optional_query_row first_row_def)

lemma sample_boot_body: "\<exists>x c'. bootstrap_body (\<lambda>_. Some 5) sample_clock ''root'' (replicate 32 1) ''boot'' ''T'' False sample_empty = (Inr x, c')"
proof -
  obtain c where c: "validate_bootstrap_token (\<lambda>_. Some 5) sample_clock ''boot'' sample_empty = (Inr (), c)"
    "healthy c" "c_users c = []" "c_teams c = []" "c_members c = []" "c_roles c = []" "c_channels c = []" "c_devices c = []" "c_member_roles c = []"
    using sample_boot_token by blast
  show ?thesis
    using c
    by (simp add: bootstrap_body_def Let_def)
      (simp add: create_user_def create_bootstrap_team_def create_team_def create_member_def create_bootstrap_defaults_def
        bootstrap_roles_def bootstrap_channels_def create_role_def create_channel_def create_device_def get_member_by_user_and_team_def
        assign_role_to_member_def exec_eq_Inr new_user_def new_member_def bootstrap_team_def bootstrap_role_def bootstrap_channel_def
        status_types_def healthy_def rows_where_def optional_query_row stmt_def, simp add: sample_clock_def sample_digits channel_types_def)
qed

lemma sample_bootstrap: "\<exists>r s'. bootstrap sample_keys sample_tokens (\<lambda>_. Some 5) sample_clock False [] False sample_first sample_fresh = (Inr r, s')"
proof -
  obtain u tid did c where "bootstrap_body (\<lambda>_. Some 5) sample_clock ''root'' (replicate 32 1) ''boot'' ''T'' False sample_empty = (Inr (u, tid, did), c)"
    using sample_boot_body by (metis prod_cases3)
  moreover have "st_auth sample_fresh = st_auth sample_accounts" "st_conn sample_fresh = sample_empty" "healthy sample_empty"
    by (simp_all add: sample_fresh_def sample_empty_def healthy_def empty_conn_def)
  ultimately show ?thesis using sample_proof [of sample_fresh]
    by (simp add: bootstrap_def sample_first_def check_new_account_def resolve_team_name_def on_db_def map_errH_def spawn_db_def in_tx_healthy
        sample_issue bindS_split [of "ignoreS _"] ignoreS_def split: prod.split)
qed

theorem bootstrap_once_witness:
  "\<exists>r s'. bootstrap sample_keys sample_tokens (\<lambda>_. Some 5) sample_clock False [] False sample_first sample_fresh = (Inr r, s')
    \<and> u_is_admin (lr_user r) \<and> holds_permission (st_conn s') (u_id (lr_user r)) (lr_team_id r) PERM_ADMIN
    \<and> (\<nexists>r' t'. bootstrap sample_keys sample_tokens (\<lambda>_. Some 5) sample_clock False [] False sample_first s' = (Inr r', t'))"
proof -
  obtain r s' where ok: "bootstrap sample_keys sample_tokens (\<lambda>_. Some 5) sample_clock False [] False sample_first sample_fresh = (Inr r, s')"
    using sample_bootstrap by blast
  have h: "healthy (st_conn sample_fresh)" by (simp add: sample_fresh_def sample_empty_def healthy_def empty_conn_def)
  have "\<exists>t. jl_encode sample_tokens k cl = Inr t" for k cl by (simp add: sample_tokens_def)
  from bootstrap_once [OF h this ok] have "u_is_admin (lr_user r)" "holds_permission (st_conn s') (u_id (lr_user r)) (lr_team_id r) PERM_ADMIN"
    "\<nexists>cr' J' env' x r' t t'. br_bootstrap_token x = br_bootstrap_token sample_first
            \<and> c_bootstrap_tokens (st_conn t) = c_bootstrap_tokens (st_conn s')
            \<and> bootstrap cr' J' (\<lambda>_. Some 5) env' False [] False x t = (Inr r', t')" by simp_all
  with ok show ?thesis by blast
qed

end
