(* ===== verification/Prekeys_Api.thy ===== *)
theory Prekeys_Api
  imports Site_Kit
begin

section \<open>Prekey bundles\<close>

text \<open>
  \<open>db/prekey_queries.rs\<close> and \<open>api/prekeys.rs\<close>: the keys with which a client starts an encrypted session with an absent
  one. The table has no constraint on the user, so it may hold several bundles of one; a lookup takes the first. The
  list of one-time keys is stored as JSON, whose coder and decoder are parameters.
\<close>

record key_list_json =
  kl_to_vec :: "string list \<Rightarrow> string + bytes"
  kl_from_slice :: "bytes \<Rightarrow> string list option"

definition key_list_ok :: "key_list_json \<Rightarrow> bool" where
  "key_list_ok L \<longleftrightarrow> (\<forall>ks. \<exists>bs. kl_to_vec L ks = Inr bs \<and> bs \<noteq> [] \<and> kl_from_slice L bs = Some ks)"

subsection \<open>Statements\<close>

definition save_prekey_bundle :: "prekey_bundle \<Rightarrow> unit db_op" where
  "save_prekey_bundle b = exec ''save_prekey_bundle'' (\<lambda>c.
     if pk_user_id b \<notin> u_id ` set (c_users c) then None
     else Some (c\<lparr>c_prekeys := delete_where (\<lambda>x. pk_id x = pk_id b) (c_prekeys c) @ [b]\<rparr>))"

definition get_prekey_bundle :: "conn \<Rightarrow> string \<Rightarrow> prekey_bundle option db_res" where
  "get_prekey_bundle c uid = optional (query_row ''get_prekey_bundle'' c (rows_where (\<lambda>b. pk_user_id b = uid) (c_prekeys c)))"

definition delete_prekey_bundle :: "string \<Rightarrow> unit db_op" where
  "delete_prekey_bundle uid = exec ''delete_prekey_bundle'' (\<lambda>c.
     Some (c\<lparr>c_prekeys := delete_where (\<lambda>b. pk_user_id b = uid) (c_prekeys c)\<rparr>))"

definition bundle_keys :: "key_list_json \<Rightarrow> prekey_bundle \<Rightarrow> string list" where
  "bundle_keys L b = (if pk_one_time_prekeys b = [] then []
     else case kl_from_slice L (pk_one_time_prekeys b) of Some ks \<Rightarrow> ks | None \<Rightarrow> [])"

definition store_keys :: "key_list_json \<Rightarrow> string \<Rightarrow> string list \<Rightarrow> unit db_op" where
  "store_keys L uid ks = exec ''consume_one_time_prekey'' (\<lambda>c. Some (c\<lparr>c_prekeys :=
     update_where (\<lambda>b. pk_user_id b = uid)
       (\<lambda>b. b\<lparr>pk_one_time_prekeys := (case kl_to_vec L ks of Inr bs \<Rightarrow> bs | Inl _ \<Rightarrow> [])\<rparr>) (c_prekeys c)\<rparr>))"

definition consume_one_time_prekey :: "crypto \<Rightarrow> key_list_json \<Rightarrow> string \<Rightarrow> bytes option db_op" where
  "consume_one_time_prekey cr L uid =
     bindS (readS (\<lambda>c. get_prekey_bundle c uid)) (\<lambda>found.
     case found of
       None \<Rightarrow> returnS None
     | Some b \<Rightarrow> (case bundle_keys L b of
           [] \<Rightarrow> returnS None
         | k # remaining \<Rightarrow> bindS (store_keys L uid remaining) (\<lambda>_.
             returnS (Some (case cr_b64_decode cr k of Inr bs \<Rightarrow> bs | Inl _ \<Rightarrow> [])))))"

subsection \<open>Requests\<close>

record upload_prekey_request =
  up_identity_key :: string
  up_identity_dh_key :: string
  up_signed_prekey :: string
  up_signed_prekey_signature :: string
  up_one_time_prekeys :: "string list"

record bundle_answer =
  ba_user_id :: string
  ba_identity_key :: string
  ba_identity_dh_key :: string
  ba_signed_prekey :: string
  ba_signed_prekey_signature :: string
  ba_one_time_prekeys :: "string list"

definition decode_field :: "crypto \<Rightarrow> string \<Rightarrow> string \<Rightarrow> app_error + bytes" where
  "decode_field cr name s = map_err (\<lambda>_. BadRequest (''invalid base64 '' @ name)) (cr_b64_decode cr s)"

text \<open>The handlers that answer every database error with an internal error.\<close>

definition with_conn_internal :: "'a db_op \<Rightarrow> 'a handler" where
  "with_conn_internal f c = (case f c of (r, c') \<Rightarrow> (map_err (\<lambda>e. Internal (''db: '' @ db_error_text e)) r, c'))"

definition decode_bundle :: "crypto \<Rightarrow> key_list_json \<Rightarrow> string \<Rightarrow> string \<Rightarrow> string \<Rightarrow> upload_prekey_request \<Rightarrow> app_error + prekey_bundle" where
  "decode_bundle cr L i now uid body =
     bindE (decode_field cr ''identity_key'' (up_identity_key body)) (\<lambda>ik.
     bindE (decode_field cr ''identity_dh_key'' (up_identity_dh_key body)) (\<lambda>dh.
     bindE (decode_field cr ''signed_prekey'' (up_signed_prekey body)) (\<lambda>sp.
     bindE (decode_field cr ''signed_prekey_signature'' (up_signed_prekey_signature body)) (\<lambda>sg.
     bindE (map_err (\<lambda>e. Internal (''serialize prekeys: '' @ e)) (kl_to_vec L (up_one_time_prekeys body))) (\<lambda>otpk.
     Inr \<lparr>pk_id = i, pk_user_id = uid, pk_identity_key = ik, pk_identity_dh_key = dh, pk_signed_prekey = sp,
       pk_signed_prekey_signature = sg, pk_one_time_prekeys = otpk, pk_uploaded_at = now\<rparr>)))))"

definition prekeys_upload :: "crypto \<Rightarrow> key_list_json \<Rightarrow> string \<Rightarrow> string \<Rightarrow> string \<Rightarrow> upload_prekey_request \<Rightarrow> unit handler" where
  "prekeys_upload cr L i now uid body =
     bindS (readS (\<lambda>_. decode_bundle cr L i now uid body)) (\<lambda>b. with_conn_internal (save_prekey_bundle b))"

definition get_bundle_body :: "crypto \<Rightarrow> key_list_json \<Rightarrow> string \<Rightarrow> string \<Rightarrow> bool \<Rightarrow> bundle_answer db_op" where
  "get_bundle_body cr L caller target initiate =
     bindS (readS (\<lambda>c. users_share_team c caller target)) (\<lambda>share.
     bindS (refuse_if (\<not> share) (InvalidParameterName ''prekey bundle unavailable'')) (\<lambda>_.
     bindS (readS (\<lambda>c. get_prekey_bundle c target)) (\<lambda>found.
     bindS (some_or QueryReturnedNoRows found) (\<lambda>b.
     bindS (if initiate then consume_one_time_prekey cr L target else returnS None) (\<lambda>otpk.
     returnS \<lparr>ba_user_id = pk_user_id b, ba_identity_key = cr_b64_encode cr (pk_identity_key b),
       ba_identity_dh_key = cr_b64_encode cr (pk_identity_dh_key b),
       ba_signed_prekey = cr_b64_encode cr (pk_signed_prekey b),
       ba_signed_prekey_signature = cr_b64_encode cr (pk_signed_prekey_signature b),
       ba_one_time_prekeys = (case otpk of Some k \<Rightarrow> [cr_b64_encode cr k] | None \<Rightarrow> [])\<rparr>)))))"

definition bundle_error :: "db_error \<Rightarrow> app_error" where
  "bundle_error e = (case e of QueryReturnedNoRows \<Rightarrow> NotFound ''prekey bundle not found''
     | InvalidParameterName msg \<Rightarrow> Forbidden msg | _ \<Rightarrow> Internal (''db: '' @ db_error_text e))"

definition prekeys_get :: "crypto \<Rightarrow> key_list_json \<Rightarrow> string \<Rightarrow> string \<Rightarrow> bool \<Rightarrow> bundle_answer handler" where
  "prekeys_get cr L caller target initiate c =
     (case get_bundle_body cr L caller target initiate c of (r, c') \<Rightarrow> (map_err bundle_error r, c'))"

definition prekeys_delete :: "string \<Rightarrow> unit handler" where
  "prekeys_delete uid = with_conn_internal (delete_prekey_bundle uid)"

subsection \<open>The first bundle of a user, as a queue\<close>

definition own_bundles :: "conn \<Rightarrow> string \<Rightarrow> prekey_bundle list" where
  "own_bundles c uid = rows_where (\<lambda>b. pk_user_id b = uid) (c_prekeys c)"

definition key_queue :: "key_list_json \<Rightarrow> conn \<Rightarrow> string \<Rightarrow> string list" where
  "key_queue L c uid = (case first_row (own_bundles c uid) of None \<Rightarrow> [] | Some b \<Rightarrow> bundle_keys L b)"

text \<open>A key as the answer carries it.\<close>

definition recode :: "crypto \<Rightarrow> string \<Rightarrow> string" where
  "recode cr k = cr_b64_encode cr (case cr_b64_decode cr k of Inr bs \<Rightarrow> bs | Inl _ \<Rightarrow> [])"

lemma get_prekey_bundle_first: "get_prekey_bundle c uid = stmt ''get_prekey_bundle'' c (first_row (own_bundles c uid))"
  by (simp add: get_prekey_bundle_def optional_query_row own_bundles_def)

lemma with_conn_internal_sel [simp]: "snd (with_conn_internal f c) = snd (f c)"
  "fst (with_conn_internal f c) = map_err (\<lambda>e. Internal (''db: '' @ db_error_text e)) (fst (f c))"
  by (simp_all add: with_conn_internal_def split: prod.split)

lemma own_bundles_store:
  "own_bundles (c\<lparr>c_prekeys := update_where (\<lambda>b. pk_user_id b = uid) (\<lambda>b. b\<lparr>pk_one_time_prekeys := v\<rparr>) (c_prekeys c)\<rparr>) u
    = (if u = uid then map (\<lambda>b. b\<lparr>pk_one_time_prekeys := v\<rparr>) (own_bundles c u) else own_bundles c u)"
proof -
  have "rows_where (\<lambda>b. pk_user_id b = u) (update_where (\<lambda>b. pk_user_id b = uid) (\<lambda>b. b\<lparr>pk_one_time_prekeys := v\<rparr>) bs)
    = (if u = uid then map (\<lambda>b. b\<lparr>pk_one_time_prekeys := v\<rparr>) (rows_where (\<lambda>b. pk_user_id b = u) bs) else rows_where (\<lambda>b. pk_user_id b = u) bs)" for bs :: "prekey_bundle list"
    by (induction bs) (auto simp: update_where_def)
  then show ?thesis by (simp add: own_bundles_def)
qed

lemma own_bundles_upload:
  assumes "i \<notin> pk_id ` set (c_prekeys c)"
  shows "\<exists>bs. own_bundles (snd (prekeys_upload cr L i now uid body c)) u = own_bundles c u @ bs \<and> (u \<noteq> uid \<longrightarrow> bs = [])
    \<and> c_faults (snd (prekeys_upload cr L i now uid body c)) = c_faults c \<and> c_members (snd (prekeys_upload cr L i now uid body c)) = c_members c"
proof (cases "decode_bundle cr L i now uid body")
  case (Inr b)
  then have b: "pk_id b = i" "pk_user_id b = uid" by (auto simp: decode_bundle_def)
  then have keep: "delete_where (\<lambda>x. pk_id x = i) (c_prekeys c) = c_prekeys c"
    using assms unfolding delete_where_def by - (rule filter_True, metis image_eqI)
  have "own_bundles (snd (save_prekey_bundle b c)) u = own_bundles c u @ (if own_bundles (snd (save_prekey_bundle b c)) u = own_bundles c u then [] else [b])
    \<and> (u \<noteq> uid \<longrightarrow> own_bundles (snd (save_prekey_bundle b c)) u = own_bundles c u)
    \<and> c_faults (snd (save_prekey_bundle b c)) = c_faults c \<and> c_members (snd (save_prekey_bundle b c)) = c_members c"
    using b by (simp add: save_prekey_bundle_def exec_def keep own_bundles_def)
  then show ?thesis by (auto simp: prekeys_upload_def Inr)
qed (auto simp: prekeys_upload_def)

lemma users_share_team_True:
  "users_share_team c caller target = Inr True \<Longrightarrow> caller = target \<or> (\<exists>tid. is_member c caller tid \<and> is_member c target tid)"
  by (auto simp: users_share_team_def optional_query_row stmt_eq_Inr is_member_def split: if_splits dest!: first_row_SomeD) metis

lemma consume_result:
  assumes "key_list_ok L" and "first_row (own_bundles c uid) = Some b" and "''get_prekey_bundle'' \<notin> set (c_faults c)"
  shows "\<exists>bs. kl_from_slice L bs = Some (tl (key_queue L c uid)) \<and> bs \<noteq> [] \<and> consume_one_time_prekey cr L uid c =
    (case key_queue L c uid of [] \<Rightarrow> (Inr None, c)
     | k # ks \<Rightarrow> if ''consume_one_time_prekey'' \<in> set (c_faults c) then (Inl SqliteFailure, c)
        else (Inr (Some (case cr_b64_decode cr k of Inr bs \<Rightarrow> bs | Inl _ \<Rightarrow> [])),
          c\<lparr>c_prekeys := update_where (\<lambda>b. pk_user_id b = uid) (\<lambda>b. b\<lparr>pk_one_time_prekeys := bs\<rparr>) (c_prekeys c)\<rparr>))"
proof -
  obtain bs where "kl_to_vec L (tl (key_queue L c uid)) = Inr bs" "kl_from_slice L bs = Some (tl (key_queue L c uid))" "bs \<noteq> []"
    using assms(1) unfolding key_list_ok_def by meson
  with assms(2,3) show ?thesis
    by (intro exI [of _ bs] conjI; cases "bundle_keys L b") (simp_all add: consume_one_time_prekey_def get_prekey_bundle_first stmt_def key_queue_def
      store_keys_def exec_def bindS_split split: list.split)
qed

text \<open>What a lookup gives and writes.\<close>

definition popped :: "key_list_json \<Rightarrow> string \<Rightarrow> conn \<Rightarrow> conn \<Rightarrow> bool" where
  "popped L uid c c' \<longleftrightarrow> (\<exists>bs. kl_from_slice L bs = Some (tl (key_queue L c uid)) \<and> bs \<noteq> []
     \<and> c' = c\<lparr>c_prekeys := update_where (\<lambda>b. pk_user_id b = uid) (\<lambda>b. b\<lparr>pk_one_time_prekeys := bs\<rparr>) (c_prekeys c)\<rparr>)"

lemma get_bundle_cases:
  assumes "key_list_ok L"
  shows "(\<exists>e. prekeys_get cr L caller target initiate c = (Inl e, c))
    \<or> (\<exists>a c'. prekeys_get cr L caller target initiate c = (Inr a, c')
        \<and> (caller = target \<or> (\<exists>tid. is_member c caller tid \<and> is_member c target tid)) \<and> own_bundles c target \<noteq> []
        \<and> ba_one_time_prekeys a = (if initiate then map (recode cr) (take 1 (key_queue L c target)) else [])
        \<and> (if initiate \<and> key_queue L c target \<noteq> [] then popped L target c c' else c' = c))"
proof (cases "users_share_team c caller target = Inr True \<and> get_prekey_bundle c target = Inr (first_row (own_bundles c target)) \<and> own_bundles c target \<noteq> []")
  case False
  have "\<exists>e. get_bundle_body cr L caller target initiate c = (Inl e, c)"
  proof (cases "users_share_team c caller target")
    case (Inr share)
    then show ?thesis using False
      by (cases share; cases "get_prekey_bundle c target")
        (auto simp: get_bundle_body_def get_prekey_bundle_first stmt_def throwS_def bindS_split split: if_splits)
  qed (simp add: get_bundle_body_def)
  then show ?thesis by (auto simp: prekeys_get_def)
next
  case True
  then obtain b where b: "first_row (own_bundles c target) = Some b" and f: "''get_prekey_bundle'' \<notin> set (c_faults c)"
    by (cases "own_bundles c target") (auto simp: get_prekey_bundle_first stmt_eq_Inr stmt_def split: if_splits)
  note share = users_share_team_True [OF conjunct1 [OF True]]
  have go: "get_bundle_body cr L caller target initiate c = bindS (if initiate then consume_one_time_prekey cr L target else returnS None) (\<lambda>otpk.
     returnS \<lparr>ba_user_id = pk_user_id b, ba_identity_key = cr_b64_encode cr (pk_identity_key b),
       ba_identity_dh_key = cr_b64_encode cr (pk_identity_dh_key b), ba_signed_prekey = cr_b64_encode cr (pk_signed_prekey b),
       ba_signed_prekey_signature = cr_b64_encode cr (pk_signed_prekey_signature b),
       ba_one_time_prekeys = (case otpk of Some k \<Rightarrow> [cr_b64_encode cr k] | None \<Rightarrow> [])\<rparr>) c"
    using True b by (simp add: get_bundle_body_def)
  show ?thesis
  proof (cases initiate)
    case False
    with go share True show ?thesis by (simp add: prekeys_get_def)
  next
    case init: True
    from consume_result [OF assms b f, of cr] obtain bs where bs: "kl_from_slice L bs = Some (tl (key_queue L c target))" "bs \<noteq> []"
      "consume_one_time_prekey cr L target c =
        (case key_queue L c target of [] \<Rightarrow> (Inr None, c)
         | k # ks \<Rightarrow> if ''consume_one_time_prekey'' \<in> set (c_faults c) then (Inl SqliteFailure, c)
            else (Inr (Some (case cr_b64_decode cr k of Inr bs \<Rightarrow> bs | Inl _ \<Rightarrow> [])),
              c\<lparr>c_prekeys := update_where (\<lambda>b. pk_user_id b = target) (\<lambda>b. b\<lparr>pk_one_time_prekeys := bs\<rparr>) (c_prekeys c)\<rparr>))" by blast
    show ?thesis
    proof (cases "key_queue L c target")
      case Nil
      with go bs init share True show ?thesis by (simp add: prekeys_get_def bindS_split)
    next
      case (Cons k ks)
      with go bs init share True show ?thesis
        by (cases "''consume_one_time_prekey'' \<in> set (c_faults c)") (auto simp: prekeys_get_def bindS_split popped_def recode_def)
    qed
  qed
qed

lemma popped_queue:
  assumes "popped L uid c c'" and "key_queue L c uid \<noteq> []"
  shows "key_queue L c' u = (if u = uid then tl (key_queue L c u) else key_queue L c u)" "own_bundles c' u \<noteq> [] \<longleftrightarrow> own_bundles c u \<noteq> []"
proof -
  from assms(1) obtain bs where bs: "kl_from_slice L bs = Some (tl (key_queue L c uid))" "bs \<noteq> []"
    and c': "own_bundles c' u = (if u = uid then map (\<lambda>b. b\<lparr>pk_one_time_prekeys := bs\<rparr>) (own_bundles c u) else own_bundles c u)"
    by (auto simp: popped_def own_bundles_store)
  from assms(2) have "own_bundles c uid \<noteq> []" by (auto simp: key_queue_def)
  with bs c' show "key_queue L c' u = (if u = uid then tl (key_queue L c u) else key_queue L c u)"
    by (cases "own_bundles c uid") (simp_all add: key_queue_def bundle_keys_def first_row_map)
  show "own_bundles c' u \<noteq> [] \<longleftrightarrow> own_bundles c u \<noteq> []" using c' by simp
qed

subsection \<open>Runs of requests\<close>

datatype prekey_request =
    UploadKeys string string string upload_prekey_request
  | FetchBundle string string bool
  | DeleteKeys string

fun prekey_step :: "crypto \<Rightarrow> key_list_json \<Rightarrow> conn \<Rightarrow> prekey_request \<Rightarrow> conn" where
  "prekey_step cr L c (UploadKeys i now uid body) = snd (prekeys_upload cr L i now uid body c)"
| "prekey_step cr L c (FetchBundle caller target initiate) = snd (prekeys_get cr L caller target initiate c)"
| "prekey_step cr L c (DeleteKeys uid) = snd (prekeys_delete uid c)"

text \<open>The one-time keys of a user that a request hands out.\<close>

fun handed_out :: "crypto \<Rightarrow> key_list_json \<Rightarrow> string \<Rightarrow> conn \<Rightarrow> prekey_request \<Rightarrow> string list" where
  "handed_out cr L uid c (FetchBundle caller target initiate) =
     (case fst (prekeys_get cr L caller target initiate c) of Inr a \<Rightarrow> if target = uid then ba_one_time_prekeys a else [] | Inl _ \<Rightarrow> [])"
| "handed_out cr L uid c _ = []"

primrec handed_along :: "crypto \<Rightarrow> key_list_json \<Rightarrow> string \<Rightarrow> conn \<Rightarrow> prekey_request list \<Rightarrow> string list" where
  "handed_along cr L uid c [] = []"
| "handed_along cr L uid c (e # es) = handed_out cr L uid c e @ handed_along cr L uid (prekey_step cr L c e) es"

text \<open>Uploads carry a fresh id, and the user does not delete the bundle.\<close>

fun keeps_bundle :: "string \<Rightarrow> conn \<Rightarrow> prekey_request \<Rightarrow> bool" where
  "keeps_bundle uid c (UploadKeys i now u body) = (i \<notin> pk_id ` set (c_prekeys c))"
| "keeps_bundle uid c (DeleteKeys u) = (u \<noteq> uid)"
| "keeps_bundle uid c _ = True"

lemma prekey_step_queue:
  assumes "key_list_ok L" and "own_bundles c uid \<noteq> []" and "keeps_bundle uid c e"
  shows "own_bundles (prekey_step cr L c e) uid \<noteq> []
    \<and> handed_out cr L uid c e @ map (recode cr) (key_queue L (prekey_step cr L c e) uid) = map (recode cr) (key_queue L c uid)"
proof (cases e)
  case (UploadKeys i now u body)
  with assms(3) own_bundles_upload [of i c cr L now u body uid] obtain bs
    where "own_bundles (prekey_step cr L c e) uid = own_bundles c uid @ bs" by auto
  with assms(2) UploadKeys show ?thesis by (simp add: key_queue_def first_row_append)
next
  case (DeleteKeys u)
  with assms(3) have "own_bundles (prekey_step cr L c e) uid = own_bundles c uid"
    by (auto simp: prekeys_delete_def delete_prekey_bundle_def exec_def own_bundles_def rows_where_def delete_where_def intro!: filter_cong)
  with assms(2) DeleteKeys show ?thesis by (simp add: key_queue_def)
next
  case (FetchBundle caller target initiate)
  from get_bundle_cases [OF assms(1), of cr caller target initiate c]
  consider (refused) x where "prekeys_get cr L caller target initiate c = (Inl x, c)"
    | (answered) a c' where "prekeys_get cr L caller target initiate c = (Inr a, c')"
      "ba_one_time_prekeys a = (if initiate then map (recode cr) (take 1 (key_queue L c target)) else [])"
      "if initiate \<and> key_queue L c target \<noteq> [] then popped L target c c' else c' = c" by blast
  then show ?thesis
  proof cases
    case answered
    note r = answered
    show ?thesis
    proof (cases "initiate \<and> key_queue L c target \<noteq> []")
      case True
      with r popped_queue [of L target c c' uid] assms(2) FetchBundle show ?thesis
        by (cases "key_queue L c target") auto
    next
      case False
      with r assms(2) FetchBundle show ?thesis by auto
    qed
  qed (use assms(2) FetchBundle in simp)
qed

text \<open>C15. A one-time key is handed out once. While a user keeps the bundle, the keys that all lookups together hand out,
  whoever asks and whichever statements fail, followed by the keys still stored, are exactly the keys stored at the
  start, in their order.\<close>

theorem one_time_keys_once:
  assumes "key_list_ok L" and "own_bundles c uid \<noteq> []" and "admissible (keeps_bundle uid) (prekey_step cr L) c es"
  shows "handed_along cr L uid c es @ map (recode cr) (key_queue L (run (prekey_step cr L) c es) uid) = map (recode cr) (key_queue L c uid)"
  using assms(2,3)
proof (induction es arbitrary: c)
  case (Cons e es)
  with prekey_step_queue [OF assms(1) Cons.prems(1), of e cr] show ?case by simp
qed simp

text \<open>Keys cannot be renewed. An upload by a user who has a bundle is answered with success and adds a row, but every
  lookup of anybody still answers with the first bundle, until the user deletes all: the table has no constraint on
  the user, and the id that \<open>INSERT OR REPLACE\<close> looks at is fresh.\<close>

theorem uploads_after_first_ignored:
  assumes "own_bundles c uid \<noteq> []" and "i \<notin> pk_id ` set (c_prekeys c)"
  shows "fst (prekeys_get cr L caller target initiate (snd (prekeys_upload cr L i now uid body c)))
      = fst (prekeys_get cr L caller target initiate c)"
proof -
  let ?c = "snd (prekeys_upload cr L i now uid body c)"
  from own_bundles_upload [OF assms(2), of cr L now uid body target] obtain bs where
    bs: "own_bundles ?c target = own_bundles c target @ bs" "target \<noteq> uid \<longrightarrow> bs = []" and f: "c_faults ?c = c_faults c" "c_members ?c = c_members c"
    by blast
  then have first: "first_row (own_bundles ?c target) = first_row (own_bundles c target)"
    using assms(1) by (cases "target = uid") (auto simp: first_row_append)
  have share: "users_share_team ?c caller target = users_share_team c caller target"
    using f by (simp add: users_share_team_def optional_query_row stmt_def)
  have get: "get_prekey_bundle ?c target = get_prekey_bundle c target" using first f by (simp add: get_prekey_bundle_first stmt_def)
  have "fst (consume_one_time_prekey cr L target ?c) = fst (consume_one_time_prekey cr L target c)"
    unfolding consume_one_time_prekey_def using get f(1)
    by (simp add: bindS_split store_keys_def exec_def split: sum.split option.split list.split)
  note consume = this
  have "fst (get_bundle_body cr L caller target initiate ?c) = fst (get_bundle_body cr L caller target initiate c)"
  proof (cases "users_share_team c caller target")
    case (Inr sh)
    show ?thesis
    proof (cases "get_prekey_bundle c target")
      case (Inr found)
      with \<open>users_share_team c caller target = Inr sh\<close> share get consume show ?thesis
        by (cases sh; cases found) (simp_all add: get_bundle_body_def bindS_Inl throwS_def bindS_split [of "consume_one_time_prekey _ _ _"] split: sum.split)
    qed (use Inr share get in \<open>cases sh; simp add: get_bundle_body_def bindS_Inl throwS_def\<close>)
  qed (use share in \<open>simp add: get_bundle_body_def\<close>)
  then show ?thesis by (simp add: prekeys_get_def split: prod.split) (metis fst_conv)
qed

subsection \<open>An instance\<close>

text \<open>A character is a 2 and its byte, a key ends with a 1, the list with a 0.\<close>

definition toy_key :: "string \<Rightarrow> bytes" where
  "toy_key k = concat (map (\<lambda>ch. [2, of_nat (of_char ch)]) k) @ [1]"

fun toy_parse :: "string \<Rightarrow> bytes \<Rightarrow> string list option" where
  "toy_parse acc [] = None"
| "toy_parse acc [b] = (if b = 0 \<and> acc = [] then Some [] else None)"
| "toy_parse acc (b # d # bs) = (if b = 1 then map_option (Cons acc) (toy_parse [] (d # bs))
     else if b = 2 then toy_parse (acc @ [char_of (unat d)]) bs else None)"

definition toy_key_list :: key_list_json where
  "toy_key_list = \<lparr>kl_to_vec = (\<lambda>ks. Inr (concat (map toy_key ks) @ [0])), kl_from_slice = toy_parse []\<rparr>"

lemma toy_parse_key:
  assumes "bs \<noteq> []"
  shows "toy_parse acc (toy_key k @ bs) = map_option (Cons (acc @ k)) (toy_parse [] bs)"
proof (induction k arbitrary: acc)
  case Nil
  from assms obtain d ds where "bs = d # ds" by (cases bs) auto
  then show ?case by (simp add: toy_key_def)
next
  case (Cons ch k)
  have "unat (of_nat (of_char ch) :: u8) = of_char ch" by (simp add: unat_of_nat)
  then have "char_of (unat (of_nat (of_char ch) :: u8)) = ch" by simp
  with Cons.IH [of "acc @ [ch]"] show ?case by (simp add: toy_key_def)
qed

lemma toy_key_list_ok: "key_list_ok toy_key_list"
proof -
  have "toy_parse [] (concat (map toy_key ks) @ [0]) = Some ks" for ks
    by (induction ks) (simp_all add: toy_parse_key)
  then show ?thesis by (simp add: key_list_ok_def toy_key_list_def)
qed

definition sample_bundle :: "string \<Rightarrow> string list \<Rightarrow> upload_prekey_request" where
  "sample_bundle k ks = \<lparr>up_identity_key = k, up_identity_dh_key = k, up_signed_prekey = k, up_signed_prekey_signature = k,
     up_one_time_prekeys = ks\<rparr>"

definition sample_prekeys :: conn where
  "sample_prekeys = snd (prekeys_upload toy_crypto toy_key_list ''p1'' ''now'' ''bob'' (sample_bundle ''A'' [''x'', ''y'']) sample_conn)"

text \<open>A fetch for a new session, a look, an upload and another fetch.\<close>

theorem one_time_keys_once_witness:
  "\<exists>es. length es = 4 \<and> handed_along toy_crypto toy_key_list ''bob'' sample_prekeys es
      @ map (recode toy_crypto) (key_queue toy_key_list (run (prekey_step toy_crypto toy_key_list) sample_prekeys es) ''bob'') = [''x'', ''y'']"
proof -
  let ?es = "[FetchBundle ''bob'' ''bob'' True, FetchBundle ''owner'' ''bob'' True,
    UploadKeys ''p2'' ''later'' ''bob'' (sample_bundle ''B'' [''z'']), FetchBundle ''bob'' ''bob'' False]"
  have b: "own_bundles sample_prekeys ''bob'' \<noteq> []" by code_simp
  have a: "admissible (keeps_bundle ''bob'') (prekey_step toy_crypto toy_key_list) sample_prekeys ?es" by code_simp
  have q: "map (recode toy_crypto) (key_queue toy_key_list sample_prekeys ''bob'') = [''x'', ''y'']" by code_simp
  from one_time_keys_once [OF toy_key_list_ok b a] q show ?thesis by (intro exI [of _ ?es]) simp
qed

theorem uploads_after_first_ignored_witness:
  "\<exists>c. fst (prekeys_upload toy_crypto toy_key_list ''p2'' ''later'' ''bob'' (sample_bundle ''B'' [''z'']) sample_prekeys) = Inr ()
    \<and> c = snd (prekeys_upload toy_crypto toy_key_list ''p2'' ''later'' ''bob'' (sample_bundle ''B'' [''z'']) sample_prekeys)
    \<and> map_sum (\<lambda>_. ()) ba_identity_key (fst (prekeys_get toy_crypto toy_key_list ''bob'' ''bob'' False c)) = Inr ''A''"
proof -
  have b: "own_bundles sample_prekeys ''bob'' \<noteq> []" by code_simp
  have i: "''p2'' \<notin> pk_id ` set (c_prekeys sample_prekeys)" by code_simp
  have u: "fst (prekeys_upload toy_crypto toy_key_list ''p2'' ''later'' ''bob'' (sample_bundle ''B'' [''z'']) sample_prekeys) = Inr ()" by code_simp
  have "map_sum (\<lambda>_. ()) ba_identity_key (fst (prekeys_get toy_crypto toy_key_list ''bob'' ''bob'' False sample_prekeys)) = Inr ''A''" by code_simp
  with u uploads_after_first_ignored [OF b i, of toy_crypto toy_key_list "''bob''" "''bob''" False "''later''" "sample_bundle ''B'' [''z'']"]
  show ?thesis by simp
qed

end
