(* ===== verification/Polls_Api.thy ===== *)
theory Polls_Api
  imports Api_Kit Site_Kit
begin

section \<open>Polls\<close>

text \<open>
  \<open>db/poll_queries.rs\<close> and \<open>api/polls.rs\<close>. The options of a poll are stored as JSON, whose coder and decoder are
  parameters. The handlers ask for membership in the team of the path; the channel of a new poll is taken as it comes.
\<close>

record options_json =
  oj_to_string :: "string list \<Rightarrow> string + string"
  oj_from_str :: "string \<Rightarrow> string + string list"

definition options_ok :: "options_json \<Rightarrow> bool" where
  "options_ok L \<longleftrightarrow> (\<forall>ks. \<exists>s. oj_to_string L ks = Inr s \<and> oj_from_str L s = Inr ks)"

subsection \<open>Statements\<close>

definition create_poll :: "poll \<Rightarrow> unit db_op" where
  "create_poll p = exec ''create_poll'' (\<lambda>c.
     if po_id p \<in> po_id ` set (c_polls c) then None else Some (c\<lparr>c_polls := c_polls c @ [p]\<rparr>))"

definition get_poll_by_id :: "conn \<Rightarrow> string \<Rightarrow> poll option db_res" where
  "get_poll_by_id c i = stmt ''get_poll_by_id'' c (first_row (rows_where (\<lambda>p. po_id p = i) (c_polls c)))"

definition get_polls_by_channel :: "conn \<Rightarrow> string \<Rightarrow> poll list db_res" where
  "get_polls_by_channel c cid = stmt ''get_polls_by_channel'' c
     (sort_key po_created_at (rows_where (\<lambda>p. po_channel_id p = cid) (c_polls c)))"

definition get_votes_for_poll :: "conn \<Rightarrow> string \<Rightarrow> poll_vote list db_res" where
  "get_votes_for_poll c pid = stmt ''get_votes_for_poll'' c (rows_where (\<lambda>v. pv_poll_id v = pid) (c_poll_votes c))"

definition upsert_poll_vote :: "string \<Rightarrow> string \<Rightarrow> string \<Rightarrow> int \<Rightarrow> unit db_op" where
  "upsert_poll_vote now pid uid option_index = exec ''upsert_poll_vote'' (\<lambda>c.
     if pid \<notin> po_id ` set (c_polls c) then None
     else if (pid, uid) \<in> (\<lambda>v. (pv_poll_id v, pv_user_id v)) ` set (c_poll_votes c)
     then Some (c\<lparr>c_poll_votes := update_where (\<lambda>v. pv_poll_id v = pid \<and> pv_user_id v = uid)
       (\<lambda>v. v\<lparr>pv_option_index := option_index, pv_voted_at := now\<rparr>) (c_poll_votes c)\<rparr>)
     else Some (c\<lparr>c_poll_votes := c_poll_votes c
       @ [\<lparr>pv_poll_id = pid, pv_user_id = uid, pv_option_index = option_index, pv_voted_at = now\<rparr>]\<rparr>))"

definition clear_poll_vote :: "string \<Rightarrow> string \<Rightarrow> unit db_op" where
  "clear_poll_vote pid uid = exec ''clear_poll_vote'' (\<lambda>c.
     Some (c\<lparr>c_poll_votes := delete_where (\<lambda>v. pv_poll_id v = pid \<and> pv_user_id v = uid) (c_poll_votes c)\<rparr>))"

subsection \<open>The answer\<close>

record poll_answer =
  pa_id :: string
  pa_team_id :: string
  pa_channel_id :: string
  pa_question :: string
  pa_options :: "string list"
  pa_tallies :: "u32 list"
  pa_voters :: "string list list"
  pa_created_by :: "string option"
  pa_created_at :: string

text \<open>The loop over the votes: one pass that counts and collects.\<close>

fun count_votes :: "poll_vote list \<Rightarrow> u32 list \<times> string list list \<Rightarrow> u32 list \<times> string list list" where
  "count_votes [] (tallies, voters) = (tallies, voters)"
| "count_votes (v # vs) (tallies, voters) =
     (let idx = nat (pv_option_index v) in
      if 0 \<le> pv_option_index v \<and> idx < length tallies
      then count_votes vs (tallies[idx := tallies ! idx + 1], voters[idx := voters ! idx @ [pv_user_id v]])
      else count_votes vs (tallies, voters))"

definition poll_options :: "options_json \<Rightarrow> poll \<Rightarrow> string list" where
  "poll_options L p = unwrap_or (oj_from_str L (po_options p)) []"

definition poll_with_votes :: "options_json \<Rightarrow> poll \<Rightarrow> poll_vote list \<Rightarrow> poll_answer" where
  "poll_with_votes L p votes =
     (let opts = poll_options L p;
          (tallies, voters) = count_votes votes (replicate (length opts) 0, replicate (length opts) [])
      in \<lparr>pa_id = po_id p, pa_team_id = po_team_id p, pa_channel_id = po_channel_id p, pa_question = po_question p,
        pa_options = opts, pa_tallies = tallies, pa_voters = voters, pa_created_by = po_created_by p,
        pa_created_at = po_created_at p\<rparr>)"

definition poll_json :: "poll_answer \<Rightarrow> json" where
  "poll_json a = JObj [(''id'', JStr (pa_id a)), (''team_id'', JStr (pa_team_id a)), (''channel_id'', JStr (pa_channel_id a)),
     (''question'', JStr (pa_question a)), (''options'', JArr (map JStr (pa_options a))),
     (''tallies'', JArr (map (\<lambda>n. JNum (uint n)) (pa_tallies a))),
     (''voters'', JArr (map (\<lambda>us. JArr (map JStr us)) (pa_voters a))),
     (''created_by'', (case pa_created_by a of None \<Rightarrow> JNull | Some u \<Rightarrow> JStr u)), (''created_at'', JStr (pa_created_at a))]"

definition poll_frames :: "string \<Rightarrow> string \<Rightarrow> poll_answer \<Rightarrow> hub_msg list" where
  "poll_frames cid kind a = (if cid = [] then [] else [ChannelMsg cid (event_new kind (poll_json a)) None])"

subsection \<open>Requests\<close>

definition polls_list_body :: "options_json \<Rightarrow> string \<Rightarrow> string \<Rightarrow> string \<Rightarrow> conn \<Rightarrow> poll_answer list db_res" where
  "polls_list_body L uid tid cid c =
     bindE (require_team_member c uid tid) (\<lambda>_.
     bindE (get_polls_by_channel c cid) (\<lambda>polls.
     mapE (\<lambda>p. bindE (get_votes_for_poll c (po_id p)) (\<lambda>votes. Inr (poll_with_votes L p votes))) polls))"

definition polls_list :: "options_json \<Rightarrow> string \<Rightarrow> string \<Rightarrow> string \<Rightarrow> poll_answer list handler" where
  "polls_list L uid tid cid = spawn_db (readS (polls_list_body L uid tid cid))"

definition create_poll_body :: "options_json \<Rightarrow> string \<Rightarrow> string \<Rightarrow> string \<Rightarrow> string \<Rightarrow> string \<Rightarrow> string \<Rightarrow> string list \<Rightarrow> poll db_op" where
  "create_poll_body L i now uid tid cid question options =
     bindS (readS (\<lambda>c. require_team_member c uid tid)) (\<lambda>_.
     bindS (readS (\<lambda>_. map_err InvalidParameterName (oj_to_string L options))) (\<lambda>options_text.
     let p = \<lparr>po_id = i, po_team_id = tid, po_channel_id = cid, po_question = trim question, po_options = options_text,
       po_created_by = Some uid, po_created_at = now\<rparr>
     in bindS (create_poll p) (\<lambda>_. returnS p)))"

definition polls_create ::
  "options_json \<Rightarrow> string \<Rightarrow> string \<Rightarrow> string \<Rightarrow> string \<Rightarrow> string \<Rightarrow> string \<Rightarrow> string list \<Rightarrow> poll_answer sending" where
  "polls_create L i now uid tid cid question options c =
     (if trim question = [] then (Inl (BadRequest ''question is required''), c, [])
      else if length options < 2 then (Inl (BadRequest ''at least two options required''), c, [])
      else if length options > 12 then (Inl (BadRequest ''too many options (max 12)''), c, [])
      else and_send (bindS (spawn_db (create_poll_body L i now uid tid cid question options))
        (\<lambda>p. returnS (poll_with_votes L p []))) (poll_frames cid ''poll:new'') c)"

definition own_poll :: "string \<Rightarrow> string \<Rightarrow> string \<Rightarrow> poll db_op" where
  "own_poll uid tid pid =
     bindS (readS (\<lambda>c. require_team_member c uid tid)) (\<lambda>_.
     bindS (readS (\<lambda>c. get_poll_by_id c pid)) (\<lambda>found.
     bindS (some_or QueryReturnedNoRows found) (\<lambda>p.
     bindS (refuse_if (po_team_id p \<noteq> tid) (InvalidParameterName ''poll does not belong to this team'')) (\<lambda>_.
     returnS p))))"

definition vote_body :: "options_json \<Rightarrow> string \<Rightarrow> string \<Rightarrow> string \<Rightarrow> string \<Rightarrow> int \<Rightarrow> (poll \<times> poll_vote list) db_op" where
  "vote_body L now uid tid pid option_index =
     bindS (own_poll uid tid pid) (\<lambda>p.
     bindS (readS (\<lambda>_. map_err InvalidParameterName (oj_from_str L (po_options p)))) (\<lambda>opts.
     bindS (refuse_if (option_index < 0 \<or> nat option_index \<ge> length opts) (InvalidParameterName ''option_index out of range'')) (\<lambda>_.
     bindS (upsert_poll_vote now pid uid option_index) (\<lambda>_.
     bindS (readS (\<lambda>c. get_votes_for_poll c pid)) (\<lambda>votes.
     returnS (p, votes))))))"

definition unvote_body :: "string \<Rightarrow> string \<Rightarrow> string \<Rightarrow> (poll \<times> poll_vote list) db_op" where
  "unvote_body uid tid pid =
     bindS (own_poll uid tid pid) (\<lambda>p.
     bindS (clear_poll_vote pid uid) (\<lambda>_.
     bindS (readS (\<lambda>c. get_votes_for_poll c pid)) (\<lambda>votes.
     returnS (p, votes))))"

definition poll_updated :: "options_json \<Rightarrow> (poll \<times> poll_vote list) handler \<Rightarrow> poll_answer sending" where
  "poll_updated L h = and_send (bindS (map_errH (map_not_found ''poll'') h) (\<lambda>(p, votes). returnS (poll_with_votes L p votes)))
     (\<lambda>a. poll_frames (pa_channel_id a) ''poll:update'' a)"

definition polls_vote :: "options_json \<Rightarrow> string \<Rightarrow> string \<Rightarrow> string \<Rightarrow> string \<Rightarrow> int \<Rightarrow> poll_answer sending" where
  "polls_vote L now uid tid pid option_index = poll_updated L (spawn_db (vote_body L now uid tid pid option_index))"

definition polls_unvote :: "options_json \<Rightarrow> string \<Rightarrow> string \<Rightarrow> string \<Rightarrow> poll_answer sending" where
  "polls_unvote L uid tid pid = poll_updated L (spawn_db (unvote_body uid tid pid))"

subsection \<open>Counting\<close>

definition voters_for :: "poll_vote list \<Rightarrow> nat \<Rightarrow> string list" where
  "voters_for vs k = map pv_user_id (filter (\<lambda>v. pv_option_index v = int k) vs)"

lemma count_votes_acc:
  assumes "length ts = length us"
  shows "\<exists>ts' us'. count_votes vs (ts, us) = (ts', us') \<and> length ts' = length us \<and> length us' = length us
    \<and> (\<forall>k < length us. ts' ! k = ts ! k + of_nat (length (voters_for vs k)) \<and> us' ! k = us ! k @ voters_for vs k)"
  using assms
proof (induction vs arbitrary: ts us)
  case Nil
  then show ?case by (simp add: voters_for_def)
next
  case (Cons v vs)
  let ?i = "nat (pv_option_index v)"
  show ?case
  proof (cases "0 \<le> pv_option_index v \<and> ?i < length ts")
    case True
    let ?ts = "ts[?i := ts ! ?i + 1]" and ?us = "us[?i := us ! ?i @ [pv_user_id v]]"
    from Cons.IH [of ?ts ?us] Cons.prems obtain ts' us' where r: "count_votes vs (?ts, ?us) = (ts', us')"
      "length ts' = length us" "length us' = length us"
      "\<forall>k < length us. ts' ! k = ?ts ! k + of_nat (length (voters_for vs k)) \<and> us' ! k = ?us ! k @ voters_for vs k"
      by (simp only: length_list_update) blast
    have "ts' ! k = ts ! k + of_nat (length (voters_for (v # vs) k)) \<and> us' ! k = us ! k @ voters_for (v # vs) k" if "k < length us" for k
    proof (cases "k = ?i")
      case True
      then have "pv_option_index v = int k" using \<open>0 \<le> _ \<and> _\<close> by simp
      with r(4) that Cons.prems show ?thesis by (simp add: voters_for_def add.assoc)
    next
      case False
      then have "pv_option_index v \<noteq> int k" by auto
      with r(4) that False show ?thesis by (simp add: voters_for_def)
    qed
    with r(1-3) True show ?thesis by (simp add: Let_def)
  next
    case False
    then have "pv_option_index v \<noteq> int k" if "k < length us" for k using that Cons.prems by auto
    then have same: "voters_for (v # vs) k = voters_for vs k" if "k < length us" for k using that by (simp add: voters_for_def)
    from Cons.IH [of ts us] Cons.prems obtain ts' us' where "count_votes vs (ts, us) = (ts', us')"
      "length ts' = length us" "length us' = length us"
      "\<forall>k < length us. ts' ! k = ts ! k + of_nat (length (voters_for vs k)) \<and> us' ! k = us ! k @ voters_for vs k" by auto
    moreover from False have "count_votes (v # vs) (ts, us) = count_votes vs (ts, us)" by (auto simp: Let_def)
    ultimately show ?thesis using same by simp
  qed
qed

lemma poll_with_votes_counts:
  "pa_voters (poll_with_votes L p vs) = map (voters_for vs) [0..<length (poll_options L p)]"
  "pa_tallies (poll_with_votes L p vs) = map (\<lambda>k. of_nat (length (voters_for vs k))) [0..<length (poll_options L p)]"
proof -
  let ?n = "length (poll_options L p)"
  obtain ts us where r: "count_votes vs (replicate ?n 0, replicate ?n []) = (ts, us)" "length ts = ?n" "length us = ?n"
    "\<forall>k < ?n. ts ! k = replicate ?n 0 ! k + of_nat (length (voters_for vs k)) \<and> us ! k = replicate ?n [] ! k @ voters_for vs k"
    using count_votes_acc [of "replicate ?n 0" "replicate ?n []" vs] by auto
  then show "pa_voters (poll_with_votes L p vs) = map (voters_for vs) [0..<?n]"
    "pa_tallies (poll_with_votes L p vs) = map (\<lambda>k. of_nat (length (voters_for vs k))) [0..<?n]"
    by (auto simp: poll_with_votes_def Let_def intro!: nth_equalityI)
qed

subsection \<open>The tables along a run\<close>

definition ballot :: "poll_vote \<Rightarrow> string \<times> string" where
  "ballot v = (pv_poll_id v, pv_user_id v)"

definition vote_in_range :: "options_json \<Rightarrow> poll list \<Rightarrow> poll_vote \<Rightarrow> bool" where
  "vote_in_range L ps v \<longleftrightarrow> (\<exists>p \<in> set ps. po_id p = pv_poll_id v \<and> 0 \<le> pv_option_index v \<and> nat (pv_option_index v) < length (poll_options L p))"

definition wf_polls :: "options_json \<Rightarrow> conn \<Rightarrow> bool" where
  "wf_polls L c \<longleftrightarrow> distinct (map po_id (c_polls c)) \<and> distinct (map ballot (c_poll_votes c))
     \<and> (\<forall>v \<in> set (c_poll_votes c). vote_in_range L (c_polls c) v)"

lemma vote_in_range_more: "vote_in_range L ps v \<Longrightarrow> vote_in_range L (ps @ qs) v"
  by (auto simp: vote_in_range_def)

lemma wf_create_poll: "wf_polls L c \<Longrightarrow> wf_polls L (snd (create_poll p c))"
  unfolding create_poll_def by (rule exec_cases_if) (auto simp: wf_polls_def vote_in_range_more)

lemma wf_clear_vote: "wf_polls L c \<Longrightarrow> wf_polls L (snd (clear_poll_vote pid uid c))"
  by (simp add: clear_poll_vote_def exec_def wf_polls_def)

lemma wf_upsert_vote:
  assumes "wf_polls L c" and "p \<in> set (c_polls c)" "po_id p = pid" and "0 \<le> k" "nat k < length (poll_options L p)"
  shows "wf_polls L (snd (upsert_poll_vote now pid uid k c))"
proof -
  have in_range: "vote_in_range L (c_polls c) v" if "pv_poll_id v = pid" "pv_option_index v = k" for v
    using assms(2-5) that by (auto simp: vote_in_range_def)
  let ?vs = "update_where (\<lambda>v. pv_poll_id v = pid \<and> pv_user_id v = uid) (\<lambda>v. v\<lparr>pv_option_index := k, pv_voted_at := now\<rparr>) (c_poll_votes c)"
  have "map ballot ?vs = map ballot (c_poll_votes c)" by (rule map_update_where) (simp add: ballot_def)
  moreover have "\<forall>v \<in> set ?vs. vote_in_range L (c_polls c) v" using assms(1) in_range by (auto simp: wf_polls_def)
  ultimately have "wf_polls L (c\<lparr>c_poll_votes := ?vs\<rparr>)" using assms(1) by (simp add: wf_polls_def)
  moreover have "wf_polls L (c\<lparr>c_poll_votes := c_poll_votes c @ [\<lparr>pv_poll_id = pid, pv_user_id = uid, pv_option_index = k, pv_voted_at = now\<rparr>]\<rparr>)"
    if "(pid, uid) \<notin> (\<lambda>v. (pv_poll_id v, pv_user_id v)) ` set (c_poll_votes c)"
    using assms(1) that in_range by (auto simp: wf_polls_def ballot_def)
  ultimately show ?thesis using assms(1) by (simp add: upsert_poll_vote_def exec_def)
qed

lemma own_poll_cases:
  "(\<exists>e. own_poll uid tid pid c = (Inl e, c))
    \<or> (\<exists>p. own_poll uid tid pid c = (Inr p, c) \<and> p \<in> set (c_polls c) \<and> po_id p = pid \<and> po_team_id p = tid
      \<and> require_team_member c uid tid = Inr ())"
proof (cases "require_team_member c uid tid")
  case (Inr u)
  show ?thesis
  proof (cases "get_poll_by_id c pid")
    case (Inr found)
    then have "found = first_row (rows_where (\<lambda>p. po_id p = pid) (c_polls c))" by (simp add: get_poll_by_id_def stmt_eq_Inr)
    then have "found = Some p \<Longrightarrow> p \<in> set (c_polls c) \<and> po_id p = pid" for p by (auto dest!: sym [of "Some _"] first_row_SomeD)
    with Inr \<open>require_team_member c uid tid = Inr u\<close> show ?thesis
      by (cases found) (auto simp: own_poll_def bindS_Inl throwS_def refuse_if_def)
  qed (use Inr in \<open>simp add: own_poll_def\<close>)
qed (simp add: own_poll_def)

lemma wf_vote_body: "wf_polls L c \<Longrightarrow> wf_polls L (snd (vote_body L now uid tid pid k c))"
proof -
  assume wf: "wf_polls L c"
  from own_poll_cases [of uid tid pid c] consider e where "own_poll uid tid pid c = (Inl e, c)"
    | p where "own_poll uid tid pid c = (Inr p, c)" "p \<in> set (c_polls c)" "po_id p = pid" by blast
  then show ?thesis
  proof cases
    case 2
    show ?thesis
    proof (cases "oj_from_str L (po_options p)")
      case (Inr opts)
      then have o: "poll_options L p = opts" by (simp add: poll_options_def unwrap_or_def)
      show ?thesis
      proof (cases "k < 0 \<or> nat k \<ge> length opts")
        case True
        with 2 Inr wf show ?thesis by (simp add: vote_body_def bindS_Inr bindS_Inl throwS_def)
      next
        case False
        then have "wf_polls L (snd (upsert_poll_vote now pid uid k c))"
          using wf_upsert_vote [OF wf 2(2,3)] o by simp
        with 2(1) Inr False show ?thesis
          by (simp add: vote_body_def bindS_Inr bindS_split [of "upsert_poll_vote _ _ _ _"] bindS_split [of "readS _"] split: sum.split)
      qed
    qed (use 2 wf in \<open>simp add: vote_body_def bindS_Inr\<close>)
  qed (use wf in \<open>simp add: vote_body_def bindS_Inl\<close>)
qed

lemma wf_unvote_body: "wf_polls L c \<Longrightarrow> wf_polls L (snd (unvote_body uid tid pid c))"
  using own_poll_cases [of uid tid pid c] wf_clear_vote [of L c pid uid]
  by (auto simp: unvote_body_def bindS_Inl bindS_Inr bindS_split [of "clear_poll_vote _ _"] bindS_split [of "readS _"] split: sum.split)

lemma wf_create_body: "wf_polls L c \<Longrightarrow> wf_polls L (snd (create_poll_body L i now uid tid cid q opts c))"
  by (cases "require_team_member c uid tid"; cases "oj_to_string L opts")
    (simp_all add: create_poll_body_def Let_def wf_create_poll)

lemma poll_updated_state: "fst (snd (poll_updated L h c)) = snd (h c)"
  by (simp add: poll_updated_def and_send_sel bindS_split map_errH_def split: sum.split prod.split)

datatype poll_request =
    CreatePoll string string string string string string "string list"
  | Vote string string string string int
  | Unvote string string string

fun poll_step :: "options_json \<Rightarrow> conn \<Rightarrow> poll_request \<Rightarrow> conn" where
  "poll_step L c (CreatePoll i now uid tid cid q opts) = fst (snd (polls_create L i now uid tid cid q opts c))"
| "poll_step L c (Vote now uid tid pid k) = fst (snd (polls_vote L now uid tid pid k c))"
| "poll_step L c (Unvote uid tid pid) = fst (snd (polls_unvote L uid tid pid c))"

interpretation poll_requests: invariant_machine "poll_step L" "\<lambda>_ _. True" "\<lambda>c. wf_polls L c0 \<longrightarrow> wf_polls L c" c0 for L c0
proof (unfold_locales, simp, rule impI)
  fix c e
  assume "wf_polls L c0 \<longrightarrow> wf_polls L c" and "wf_polls L c0"
  then have wf: "wf_polls L c" by blast
  show "wf_polls L (poll_step L c e)"
  proof (cases e)
    case (CreatePoll i now uid tid cid q opts)
    then show ?thesis using wf wf_create_body by (simp add: polls_create_def and_send_sel bindS_split [of "spawn_db _"] split: sum.split)
  qed (use wf wf_vote_body wf_unvote_body in \<open>simp_all add: polls_vote_def polls_unvote_def poll_updated_state\<close>)
qed

lemma distinct_concat_map:
  assumes "\<And>k. distinct (f k)" and "\<And>j k. j \<noteq> k \<Longrightarrow> set (f j) \<inter> set (f k) = {}"
  shows "distinct (concat (map f [0..<n]))"
proof (induction n)
  case (Suc n)
  have "set (f j) \<inter> set (f n) = {}" if "j < n" for j using that by (intro assms(2)) simp
  then have "\<forall>j < n. \<forall>x \<in> set (f j). x \<notin> set (f n)" by blast
  then have "set (concat (map f [0..<n])) \<inter> set (f n) = {}" by auto
  with Suc assms(1) show ?case by simp
qed simp

text \<open>A poll counts everybody once. After any sequence of requests, whichever statements fail, the answer for a poll
  puts each user who voted under exactly one option, the one of the last accepted vote, the lists of voters of all
  options together are all the votes cast on the poll, and each tally is the number of voters of its option.\<close>

theorem poll_tallies_exact:
  assumes "wf_polls L c0" and "c = run (poll_step L) c0 es" and "p \<in> set (c_polls c)"
    and "a = poll_with_votes L p (rows_where (\<lambda>v. pv_poll_id v = po_id p) (c_poll_votes c))"
  shows "distinct (concat (pa_voters a)) \<and> length (pa_voters a) = length (pa_options a)
    \<and> set (concat (pa_voters a)) = pv_user_id ` {v \<in> set (c_poll_votes c). pv_poll_id v = po_id p}
    \<and> pa_tallies a = map (\<lambda>us. of_nat (length us)) (pa_voters a)
    \<and> (\<forall>v \<in> set (c_poll_votes c). pv_poll_id v = po_id p \<longrightarrow> pv_user_id v \<in> set (pa_voters a ! nat (pv_option_index v)))"
proof -
  let ?vs = "rows_where (\<lambda>v. pv_poll_id v = po_id p) (c_poll_votes c)"
  have wf: "wf_polls L c" using poll_requests.reachable_inv [OF admissible_any] assms(1,2) by blast
  have range: "0 \<le> pv_option_index v \<and> nat (pv_option_index v) < length (poll_options L p)" if "v \<in> set ?vs" for v
  proof -
    from that wf obtain q where "q \<in> set (c_polls c)" "po_id q = po_id p" "0 \<le> pv_option_index v" "nat (pv_option_index v) < length (poll_options L q)"
      by (auto simp: wf_polls_def vote_in_range_def)
    moreover from this wf assms(3) have "q = p" by (auto simp: wf_polls_def distinct_map dest: inj_onD)
    ultimately show ?thesis by simp
  qed
  have ballots: "inj_on pv_user_id (set ?vs)" "distinct ?vs"
  proof -
    have "inj_on ballot (set ?vs)" "distinct ?vs" using wf by (auto simp: wf_polls_def distinct_map rows_where_def intro: inj_on_subset)
    then show "inj_on pv_user_id (set ?vs)" "distinct ?vs" by (auto simp: inj_on_def ballot_def)
  qed
  have voters: "pa_voters a = map (voters_for ?vs) [0..<length (poll_options L p)]" by (simp add: assms(4) poll_with_votes_counts)
  have "distinct (voters_for ?vs k)" for k
    using ballots by (auto simp: voters_for_def distinct_map intro: inj_on_subset)
  moreover have "set (voters_for ?vs j) \<inter> set (voters_for ?vs k) = {}" if "j \<noteq> k" for j k
  proof -
    have "v = w" if "v \<in> set ?vs" "w \<in> set ?vs" "pv_user_id v = pv_user_id w" for v w using ballots(1) that unfolding inj_on_def by blast
    then have "pv_option_index v = pv_option_index w" if "v \<in> set ?vs" "w \<in> set ?vs" "pv_user_id v = pv_user_id w" for v w using that by blast
    note same = this
    show ?thesis
    proof (rule equals0I)
      fix x
      assume "x \<in> set (voters_for ?vs j) \<inter> set (voters_for ?vs k)"
      then obtain v w where "v \<in> set ?vs" "w \<in> set ?vs" "pv_option_index v = int j" "pv_option_index w = int k" "pv_user_id v = pv_user_id w"
        by (auto simp: voters_for_def simp del: set_rows_where)
      with same [of v w] \<open>j \<noteq> k\<close> show False by simp
    qed
  qed
  ultimately have once: "distinct (concat (map (voters_for ?vs) [0..<n]))" for n by (rule distinct_concat_map)
  have "set (concat (pa_voters a)) = pv_user_id ` set ?vs"
    using range by (force simp: voters voters_for_def)
  moreover have "pv_user_id v \<in> set (pa_voters a ! nat (pv_option_index v))" if "v \<in> set ?vs" for v
    using range [OF that] that by (auto simp: voters voters_for_def)
  moreover have "pa_tallies a = map (\<lambda>us. of_nat (length us)) (pa_voters a)" "length (pa_voters a) = length (pa_options a)"
    by (simp_all add: voters assms(4) poll_with_votes_counts comp_def) (simp add: poll_with_votes_def Let_def split: prod.split)
  ultimately show ?thesis using once by (simp add: voters)
qed

text \<open>Polls ignore the channel. Whoever is a member of some team posts a poll into any channel id, of another team,
  restricted or unknown, and the frame goes to everybody who has that channel open; and a member of any team reads the
  polls of every channel with the voters by name.\<close>

theorem polls_ignore_channel:
  assumes "healthy c" and "options_ok L" and "is_member c uid tid" and "i \<notin> po_id ` set (c_polls c)" and "cid \<noteq> []"
    and "trim question \<noteq> []" and "2 \<le> length options" and "length options \<le> 12"
  shows "\<exists>a c' ev. polls_create L i now uid tid cid question options c = (Inr a, c', [ChannelMsg cid ev None])
    \<and> pa_channel_id a = cid \<and> pa_options a = options
    \<and> (\<forall>reader team. is_member c reader team \<longrightarrow> (\<exists>as. fst (polls_list L reader team cid c') = Inr as \<and> i \<in> pa_id ` set as))"
proof -
  from assms(2) obtain t where t: "oj_to_string L options = Inr t" "oj_from_str L t = Inr options" unfolding options_ok_def by meson
  define p where "p = \<lparr>po_id = i, po_team_id = tid, po_channel_id = cid, po_question = trim question, po_options = t,
    po_created_by = Some uid, po_created_at = now\<rparr>"
  let ?c = "c\<lparr>c_polls := c_polls c @ [p]\<rparr>"
  have "create_poll p c = (Inr (), ?c)" using assms(1,4) by (simp add: create_poll_def exec_healthy p_def)
  moreover have m: "require_team_member c uid tid = Inr ()" using assms(1,3) by (simp add: require_team_member_healthy)
  ultimately have body: "create_poll_body L i now uid tid cid question options c = (Inr p, ?c)"
    by (simp add: create_poll_body_def t p_def [symmetric] bindS_Inr)
  let ?a = "poll_with_votes L p []"
  have create: "polls_create L i now uid tid cid question options c = (Inr ?a, ?c, [ChannelMsg cid (event_new ''poll:new'' (poll_json ?a)) None])"
    using assms(5-8) body by (simp add: polls_create_def and_send_def spawn_db_def bindS_split poll_frames_def)
  have read: "\<exists>as. fst (polls_list L reader team cid ?c) = Inr as \<and> i \<in> pa_id ` set as" if "is_member c reader team" for reader team
  proof -
    have h: "healthy ?c" using assms(1) by (simp add: healthy_def)
    have "require_team_member ?c reader team = Inr ()" using that h by (simp add: require_team_member_healthy is_member_def)
    moreover have "mapE (\<lambda>p. bindE (get_votes_for_poll ?c (po_id p)) (\<lambda>votes. Inr (poll_with_votes L p votes))) ps
        = Inr (map (\<lambda>p. poll_with_votes L p (rows_where (\<lambda>v. pv_poll_id v = po_id p) (c_poll_votes c))) ps)" for ps
      by (induction ps) (simp_all add: get_votes_for_poll_def stmt_healthy [OF h])
    ultimately have l: "fst (polls_list L reader team cid ?c) = Inr (map (\<lambda>p. poll_with_votes L p (rows_where (\<lambda>v. pv_poll_id v = po_id p) (c_poll_votes c)))
        (sort_key po_created_at (rows_where (\<lambda>p. po_channel_id p = cid) (c_polls ?c))))"
      using h by (simp add: polls_list_def polls_list_body_def spawn_db_def get_polls_by_channel_def)
    have pid: "pa_id (poll_with_votes L q vs) = po_id q" for q vs by (simp add: poll_with_votes_def Let_def split: prod.split)
    have "p \<in> set (sort_key po_created_at (rows_where (\<lambda>p. po_channel_id p = cid) (c_polls ?c)))" by (simp add: p_def)
    then have "i \<in> pa_id ` set (map (\<lambda>p. poll_with_votes L p (rows_where (\<lambda>v. pv_poll_id v = po_id p) (c_poll_votes c)))
        (sort_key po_created_at (rows_where (\<lambda>p. po_channel_id p = cid) (c_polls ?c))))"
      by (auto simp: image_image pid p_def)
    with l show ?thesis by blast
  qed
  have "pa_channel_id ?a = cid" "pa_options ?a = options"
    by (simp_all add: poll_with_votes_def Let_def p_def poll_options_def unwrap_or_def t split: prod.split)
  with create read show ?thesis by blast
qed

subsection \<open>An instance\<close>

text \<open>A list is written as its items, each followed by a line break; a line break or backslash in an item is escaped.\<close>

fun toy_escape :: "string \<Rightarrow> string" where
  "toy_escape [] = [CHR 0x0A]"
| "toy_escape (ch # s) = CHR 0x5C # ch # toy_escape s"

fun toy_items :: "string \<Rightarrow> string \<Rightarrow> string + string list" where
  "toy_items acc [] = (if acc = [] then Inr [] else Inl ''end'')"
| "toy_items acc [ch] = (if ch = CHR 0x0A then Inr [acc] else Inl ''end'')"
| "toy_items acc (ch # d # s) = (if ch = CHR 0x0A then bindE (toy_items [] (d # s)) (\<lambda>is. Inr (acc # is))
     else toy_items (acc @ [d]) s)"

definition toy_options :: options_json where
  "toy_options = \<lparr>oj_to_string = (\<lambda>ks. Inr (concat (map toy_escape ks))), oj_from_str = toy_items []\<rparr>"

lemma toy_items_escape: "toy_items acc (toy_escape k @ s) = bindE (toy_items [] s) (\<lambda>is. Inr ((acc @ k) # is))"
  by (induction k arbitrary: acc) (cases s; simp)+

lemma toy_options_ok: "options_ok toy_options"
proof -
  have "toy_items [] (concat (map toy_escape ks)) = Inr ks" for ks
    by (induction ks) (simp_all add: toy_items_escape)
  then show ?thesis by (simp add: options_ok_def toy_options_def)
qed

theorem polls_ignore_channel_witness:
  "\<exists>a c' ev. polls_create toy_options ''p'' ''now'' ''bob'' ''t'' ''other-team'' ''Lunch?'' [''yes'', ''no''] sample_conn
    = (Inr a, c', [ChannelMsg ''other-team'' ev None])"
proof -
  have "is_member sample_conn ''bob'' ''t''" "''p'' \<notin> po_id ` set (c_polls sample_conn)"
    by (simp_all add: sample_conn_def is_member_def empty_conn_def)
  moreover have "trim ''Lunch?'' \<noteq> []" by code_simp
  ultimately show ?thesis
    using polls_ignore_channel [of sample_conn toy_options "''bob''" "''t''" "''p''" "''other-team''" "''Lunch?''" "[''yes'', ''no'']" "''now''"]
      toy_options_ok by auto
qed

theorem poll_tallies_exact_witness:
  "\<exists>c p. c = run (poll_step toy_options) sample_conn [CreatePoll ''p'' ''now'' ''bob'' ''t'' ''ch'' ''Lunch?'' [''yes'', ''no''],
      Vote ''now'' ''bob'' ''t'' ''p'' 0, Vote ''now'' ''bob'' ''t'' ''p'' 1, Vote ''now'' ''bob'' ''t'' ''p'' 2]
    \<and> p \<in> set (c_polls c) \<and> set (concat (pa_voters (poll_with_votes toy_options p (rows_where (\<lambda>v. pv_poll_id v = po_id p) (c_poll_votes c))))) = {''bob''}"
proof -
  let ?c = "run (poll_step toy_options) sample_conn [CreatePoll ''p'' ''now'' ''bob'' ''t'' ''ch'' ''Lunch?'' [''yes'', ''no''],
      Vote ''now'' ''bob'' ''t'' ''p'' 0, Vote ''now'' ''bob'' ''t'' ''p'' 1, Vote ''now'' ''bob'' ''t'' ''p'' 2]"
  have "map po_id (c_polls ?c) = [''p'']" "map (\<lambda>v. (pv_poll_id v, pv_user_id v)) (c_poll_votes ?c) = [(''p'', ''bob'')]" by code_simp+
  then obtain p v where p: "c_polls ?c = [p]" "po_id p = ''p''" and v: "c_poll_votes ?c = [v]" "pv_poll_id v = ''p''" "pv_user_id v = ''bob''"
    by (auto simp: map_eq_Cons_conv)
  have wf: "wf_polls toy_options sample_conn" by (simp add: wf_polls_def sample_conn_def empty_conn_def)
  have "p \<in> set (c_polls ?c)" using p by simp
  from poll_tallies_exact [OF wf refl this refl]
  have "set (concat (pa_voters (poll_with_votes toy_options p (rows_where (\<lambda>v. pv_poll_id v = po_id p) (c_poll_votes ?c)))))
    = pv_user_id ` {v \<in> set (c_poll_votes ?c). pv_poll_id v = po_id p}" by blast
  also have "\<dots> = {''bob''}" unfolding v(1) p(2) using v(2,3) by auto
  finally have "set (concat (pa_voters (poll_with_votes toy_options p (rows_where (\<lambda>v. pv_poll_id v = po_id p) (c_poll_votes ?c))))) = {''bob''}" .
  then show ?thesis using \<open>p \<in> set (c_polls ?c)\<close> by blast
qed

end
