(* ===== verification/Pins_Api.thy ===== *)
theory Pins_Api
  imports Api_Kit Site_Kit
begin

section \<open>Pinned messages\<close>

text \<open>
  \<open>db/pin_queries.rs\<close> and \<open>api/pins.rs\<close>. Pinning and unpinning need the manage-messages permission in the team of the
  path; whether the channel and the message of the path belong to that team is not asked.
\<close>

subsection \<open>Statements\<close>

text \<open>\<open>INSERT OR IGNORE\<close>: a second pin of a message is skipped, a broken reference is an error.\<close>

definition pin_message :: "string \<Rightarrow> string \<Rightarrow> string \<Rightarrow> string \<Rightarrow> string \<Rightarrow> unit db_op" where
  "pin_message now mid cid tid uid = exec ''pin_message'' (\<lambda>c.
     if mid \<in> pm_message_id ` set (c_pins c) then Some c
     else if mid \<notin> msg_id ` set (c_messages c) \<or> cid \<notin> ch_id ` set (c_channels c) \<or> tid \<notin> t_id ` set (c_teams c) then None
     else Some (c\<lparr>c_pins := c_pins c @ [\<lparr>pm_message_id = mid, pm_channel_id = cid, pm_team_id = tid,
       pm_pinned_by = Some uid, pm_pinned_at = now\<rparr>]\<rparr>))"

definition unpin_message :: "string \<Rightarrow> unit db_op" where
  "unpin_message mid = exec ''unpin_message'' (\<lambda>c.
     Some (c\<lparr>c_pins := delete_where (\<lambda>p. pm_message_id p = mid) (c_pins c)\<rparr>))"

definition is_pinned :: "conn \<Rightarrow> string \<Rightarrow> bool db_res" where
  "is_pinned c mid = stmt ''is_pinned'' c (rows_where (\<lambda>p. pm_message_id p = mid) (c_pins c) \<noteq> [])"

definition get_pinned_ids_by_channel :: "conn \<Rightarrow> string \<Rightarrow> string list db_res" where
  "get_pinned_ids_by_channel c cid = stmt ''get_pinned_ids_by_channel'' c
     (map pm_message_id (rev (sort_key pm_pinned_at (rev (rows_where (\<lambda>p. pm_channel_id p = cid) (c_pins c))))))"

definition get_pins_by_team :: "conn \<Rightarrow> string \<Rightarrow> pinned_message list db_res" where
  "get_pins_by_team c tid = stmt ''get_pins_by_team'' c
     (rev (sort_key pm_pinned_at (rev (rows_where (\<lambda>p. pm_team_id p = tid) (c_pins c)))))"

subsection \<open>Requests\<close>

definition pins_list :: "string \<Rightarrow> string \<Rightarrow> string \<Rightarrow> string list handler" where
  "pins_list uid tid cid = spawn_db (
     bindS (readS (\<lambda>c. require_team_member c uid tid)) (\<lambda>_.
     readS (\<lambda>c. get_pinned_ids_by_channel c cid)))"

definition pin_event :: "string \<Rightarrow> string \<Rightarrow> string \<Rightarrow> bool \<Rightarrow> hub_msg list" where
  "pin_event tid cid mid pinned = [ChannelMsg cid (event_new ''message:pin-update'' (JObj [(''team_id'', JStr tid),
     (''channel_id'', JStr cid), (''message_id'', JStr mid), (''pinned'', JBool pinned)])) None]"

definition message_in_channel :: "conn \<Rightarrow> string \<Rightarrow> string \<Rightarrow> bool" where
  "message_in_channel c mid cid = unwrap_or (bindE (query_row ''pin'' c
     (rows_where (\<lambda>m. msg_id m = mid \<and> msg_channel_id m = cid \<and> cid \<noteq> []) (c_messages c))) (\<lambda>_. Inr True)) False"

definition log_pin :: "string \<Rightarrow> string \<Rightarrow> string \<Rightarrow> string \<Rightarrow> string \<Rightarrow> string \<Rightarrow> string \<Rightarrow> unit db_op" where
  "log_pin a now action uid tid cid mid = ignoreS (insert_audit_event a now tid (Some uid) action (Some ''message'') (Some mid)
     (Some (JObj [(''channel_id'', JStr cid)])))"

definition pin_body :: "string \<Rightarrow> string \<Rightarrow> string \<Rightarrow> string \<Rightarrow> string \<Rightarrow> string \<Rightarrow> unit db_op" where
  "pin_body a now uid tid cid mid =
     bindS (readS (\<lambda>c. require_permission c uid tid PERM_MANAGE_MESSAGES)) (\<lambda>_.
     bindS (readS (\<lambda>c. if message_in_channel c mid cid then Inr () else Inl QueryReturnedNoRows)) (\<lambda>_.
     bindS (pin_message now mid cid tid uid) (\<lambda>_.
     log_pin a now ''message.pin'' uid tid cid mid)))"

definition pin_error :: "app_error \<Rightarrow> app_error" where
  "pin_error e = (case e of NotFound _ \<Rightarrow> NotFound ''message not found in this channel'' | _ \<Rightarrow> e)"

definition pins_pin :: "string \<Rightarrow> string \<Rightarrow> string \<Rightarrow> string \<Rightarrow> string \<Rightarrow> string \<Rightarrow> unit sending" where
  "pins_pin a now uid tid cid mid = and_send (map_errH pin_error (spawn_db (pin_body a now uid tid cid mid)))
     (\<lambda>_. pin_event tid cid mid True)"

definition unpin_body :: "string \<Rightarrow> string \<Rightarrow> string \<Rightarrow> string \<Rightarrow> string \<Rightarrow> string \<Rightarrow> unit db_op" where
  "unpin_body a now uid tid cid mid =
     bindS (readS (\<lambda>c. require_permission c uid tid PERM_MANAGE_MESSAGES)) (\<lambda>_.
     bindS (unpin_message mid) (\<lambda>_.
     log_pin a now ''message.unpin'' uid tid cid mid))"

definition pins_unpin :: "string \<Rightarrow> string \<Rightarrow> string \<Rightarrow> string \<Rightarrow> string \<Rightarrow> string \<Rightarrow> unit sending" where
  "pins_unpin a now uid tid cid mid = and_send (spawn_db (unpin_body a now uid tid cid mid)) (\<lambda>_. pin_event tid cid mid False)"

subsection \<open>Properties\<close>

definition wf_pins :: "conn \<Rightarrow> bool" where
  "wf_pins c \<longleftrightarrow> distinct (map pm_message_id (c_pins c))
     \<and> (\<forall>p \<in> set (c_pins c). \<exists>m \<in> set (c_messages c). msg_id m = pm_message_id p \<and> msg_channel_id m = pm_channel_id p)"

lemma message_in_channel_True:
  "message_in_channel c mid cid \<Longrightarrow> \<exists>m \<in> set (c_messages c). msg_id m = mid \<and> msg_channel_id m = cid"
  by (auto simp: message_in_channel_def unwrap_or_def query_row_def stmt_def split: sum.splits if_splits dest: first_row_SomeD)
    (auto simp: ok_or_def split: option.splits dest!: first_row_SomeD)

lemma log_pin_audit: "audit_only c (snd (log_pin a now action uid tid cid mid c))" "fst (log_pin a now action uid tid cid mid c) = Inr ()"
  by (simp_all add: log_pin_def ignoreS_def audit_only_event)

lemma wf_pins_audit: "audit_only c c' \<Longrightarrow> wf_pins c' = wf_pins c"
  by (erule audit_only_frame) (simp add: wf_pins_def)

lemma wf_unpin_body: "wf_pins c \<Longrightarrow> wf_pins (snd (unpin_body a now uid tid cid mid c))"
proof -
  assume "wf_pins c"
  then have "wf_pins (snd (unpin_message mid c))" by (simp add: unpin_message_def exec_def wf_pins_def)
  then show ?thesis using \<open>wf_pins c\<close> wf_pins_audit [OF log_pin_audit(1)]
    by (cases "require_permission c uid tid PERM_MANAGE_MESSAGES")
      (simp_all add: unpin_body_def bindS_split [of "unpin_message _"] split: sum.split)
qed

lemma wf_pin_body: "wf_pins c \<Longrightarrow> wf_pins (snd (pin_body a now uid tid cid mid c))"
proof -
  assume wf: "wf_pins c"
  show ?thesis
  proof (cases "require_permission c uid tid PERM_MANAGE_MESSAGES")
    case (Inr u)
    show ?thesis
    proof (cases "message_in_channel c mid cid")
      case True
      from message_in_channel_True [OF True] obtain m where "m \<in> set (c_messages c)" "msg_id m = mid" "msg_channel_id m = cid" by blast
      then have "wf_pins (snd (pin_message now mid cid tid uid c))"
        using wf by (auto simp: pin_message_def exec_def wf_pins_def)
      then show ?thesis using Inr True wf_pins_audit [OF log_pin_audit(1)]
        by (simp add: pin_body_def bindS_split [of "pin_message _ _ _ _ _"] split: sum.split)
    qed (use Inr wf in \<open>simp add: pin_body_def\<close>)
  qed (use wf in \<open>simp add: pin_body_def\<close>)
qed

datatype pin_request = Pin string string string string string string | Unpin string string string string string string

fun pin_step :: "conn \<Rightarrow> pin_request \<Rightarrow> conn" where
  "pin_step c (Pin a now uid tid cid mid) = fst (snd (pins_pin a now uid tid cid mid c))"
| "pin_step c (Unpin a now uid tid cid mid) = fst (snd (pins_unpin a now uid tid cid mid c))"

interpretation pin_requests: invariant_machine pin_step "\<lambda>_ _. True" "\<lambda>c. wf_pins c0 \<longrightarrow> wf_pins c" c0 for c0
proof (unfold_locales, simp, rule impI)
  fix c e
  assume "wf_pins c0 \<longrightarrow> wf_pins c" and "wf_pins c0"
  then have wf: "wf_pins c" by blast
  show "wf_pins (pin_step c e)"
    by (cases e) (simp_all add: pins_pin_def pins_unpin_def and_send_sel wf_pin_body [OF wf] wf_unpin_body [OF wf])
qed

text \<open>A pinned message is pinned in the channel it was written in, at most once, along every run.\<close>

lemma pins_name_their_channel:
  assumes "wf_pins c" and "p \<in> set (c_pins (run pin_step c es))"
  shows "\<exists>m \<in> set (c_messages (run pin_step c es)). msg_id m = pm_message_id p \<and> msg_channel_id m = pm_channel_id p"
  using pin_requests.reachable_inv [OF admissible_any, of c es] assms by (auto simp: wf_pins_def)

text \<open>The team of the path guards nothing. Who holds the manage-messages permission in one team pins any message of
  any channel, and files the pin under the own team, and takes the pin off any message, whatever team and channel it is
  in; the frame goes to the channel that the path names. And a member of any team reads the pinned ids of every channel,
  open to them or not.\<close>

theorem pins_ignore_team:
  assumes "healthy c" and "holds_permission c uid tid PERM_MANAGE_MESSAGES"
  shows "(\<exists>c'. pins_unpin a now uid tid cid mid c = (Inr (), c', pin_event tid cid mid False)
      \<and> c_pins c' = delete_where (\<lambda>p. pm_message_id p = mid) (c_pins c))
    \<and> (\<forall>m \<in> set (c_messages c). msg_channel_id m \<noteq> [] \<and> msg_channel_id m \<in> ch_id ` set (c_channels c) \<and> tid \<in> t_id ` set (c_teams c)
        \<and> msg_id m \<notin> pm_message_id ` set (c_pins c) \<longrightarrow>
       (\<exists>c'. pins_pin a now uid tid (msg_channel_id m) (msg_id m) c = (Inr (), c', pin_event tid (msg_channel_id m) (msg_id m) True)
         \<and> c_pins c' = c_pins c @ [\<lparr>pm_message_id = msg_id m, pm_channel_id = msg_channel_id m, pm_team_id = tid,
             pm_pinned_by = Some uid, pm_pinned_at = now\<rparr>]))
    \<and> (\<forall>reader team ch. is_member c reader team \<longrightarrow>
       (\<exists>ids. fst (pins_list reader team ch c) = Inr ids \<and> set ids = pm_message_id ` {p \<in> set (c_pins c). pm_channel_id p = ch}))"
proof (intro conjI ballI allI impI)
  have perm: "require_permission c uid tid PERM_MANAGE_MESSAGES = Inr ()" using assms by (rule holds_permission_require)
  have log: "c_pins (snd (log_pin a now action u t x y d)) = c_pins d" for action u t x y d
    by (rule audit_only_frame [OF log_pin_audit(1), where P = c_pins]) simp
  show "\<exists>c'. pins_unpin a now uid tid cid mid c = (Inr (), c', pin_event tid cid mid False)
      \<and> c_pins c' = delete_where (\<lambda>p. pm_message_id p = mid) (c_pins c)"
    using perm assms(1) by (simp add: pins_unpin_def unpin_body_def and_send_def spawn_db_def unpin_message_def exec_healthy
        bindS_split log_pin_audit(2) log split: prod.split) (simp add: prod_eq_iff log_pin_audit(2) log)
  show "\<exists>c'. pins_pin a now uid tid (msg_channel_id m) (msg_id m) c = (Inr (), c', pin_event tid (msg_channel_id m) (msg_id m) True)
         \<and> c_pins c' = c_pins c @ [\<lparr>pm_message_id = msg_id m, pm_channel_id = msg_channel_id m, pm_team_id = tid,
             pm_pinned_by = Some uid, pm_pinned_at = now\<rparr>]"
    if m: "m \<in> set (c_messages c)" and ok: "msg_channel_id m \<noteq> [] \<and> msg_channel_id m \<in> ch_id ` set (c_channels c) \<and> tid \<in> t_id ` set (c_teams c)
        \<and> msg_id m \<notin> pm_message_id ` set (c_pins c)" for m
  proof -
    let ?row = "\<lparr>pm_message_id = msg_id m, pm_channel_id = msg_channel_id m, pm_team_id = tid, pm_pinned_by = Some uid, pm_pinned_at = now\<rparr>"
    have "rows_where (\<lambda>n. msg_id n = msg_id m \<and> msg_channel_id n = msg_channel_id m \<and> msg_channel_id m \<noteq> []) (c_messages c) \<noteq> []"
      using m ok by (auto simp: rows_where_eq_Nil)
    then have "message_in_channel c (msg_id m) (msg_channel_id m)"
      using assms(1) by (auto simp: message_in_channel_def unwrap_or_def ok_or_def split: option.split)
    moreover have "pin_message now (msg_id m) (msg_channel_id m) tid uid c = (Inr (), c\<lparr>c_pins := c_pins c @ [?row]\<rparr>)"
      using assms(1) m ok by (simp add: pin_message_def exec_healthy)
    ultimately have "pin_body a now uid tid (msg_channel_id m) (msg_id m) c
        = log_pin a now ''message.pin'' uid tid (msg_channel_id m) (msg_id m) (c\<lparr>c_pins := c_pins c @ [?row]\<rparr>)"
      using perm by (simp add: pin_body_def bindS_split)
    then show ?thesis
      using log_pin_audit(2) log by (simp add: pins_pin_def and_send_def map_errH_def spawn_db_def split: prod.split) (simp add: prod_eq_iff)
  qed
  show "\<exists>ids. fst (pins_list reader team ch c) = Inr ids \<and> set ids = pm_message_id ` {p \<in> set (c_pins c). pm_channel_id p = ch}"
    if "is_member c reader team" for reader team ch
    using that assms(1) by (simp add: pins_list_def spawn_db_def require_team_member_healthy get_pinned_ids_by_channel_def)
qed

definition sample_pins :: conn where
  "sample_pins = sample_conn\<lparr>c_roles := map (\<lambda>r. r\<lparr>r_permissions := PERM_MANAGE_MESSAGES\<rparr>) (c_roles sample_conn),
     c_pins := [\<lparr>pm_message_id = ''m'', pm_channel_id = ''elsewhere'', pm_team_id = ''other'', pm_pinned_by = None, pm_pinned_at = []\<rparr>]\<rparr>"

theorem pins_ignore_team_witness:
  "\<exists>c'. pins_unpin ''a'' ''now'' ''bob'' ''t'' ''ch'' ''m'' sample_pins = (Inr (), c', pin_event ''t'' ''ch'' ''m'' False) \<and> c_pins c' = []"
proof -
  have h: "healthy sample_pins" by (simp add: sample_pins_def healthy_def)
  have p: "holds_permission sample_pins ''bob'' ''t'' PERM_MANAGE_MESSAGES"
    by (simp add: holds_permission_def held_roles_def owns_team_def sample_pins_def sample_conn_def empty_conn_def perm_defs)
  have "delete_where (\<lambda>p. pm_message_id p = ''m'') (c_pins sample_pins) = []" by (simp add: sample_pins_def delete_where_def)
  with pins_ignore_team [OF h p, of "''a''" "''now''" "''ch''" "''m''"] show ?thesis by fastforce
qed

end
