(* ===== verification/Personal_Api.thy ===== *)
theory Personal_Api
  imports Site_Kit Presence
begin

section \<open>Blocks, mutes and presence of the caller\<close>

text \<open>
  \<open>db/block_queries.rs\<close> with \<open>api/blocks.rs\<close>, \<open>db/channel_mute_queries.rs\<close> with \<open>api/channel_mutes.rs\<close>, and
  \<open>api/presence.rs\<close>. Times are text and compared as text, as SQLite does; \<open>datetime('now')\<close> is the argument \<open>now\<close>, of
  the form \<open>YYYY-MM-DD HH:MM:SS\<close>.
\<close>

subsection \<open>Blocks\<close>

definition block_user :: "string \<Rightarrow> string \<Rightarrow> string \<Rightarrow> unit db_op" where
  "block_user now blocker blocked = exec ''block_user'' (\<lambda>c.
     if (blocker, blocked) \<in> (\<lambda>b. (ub_blocker_id b, ub_blocked_id b)) ` set (c_blocks c) then Some c
     else if blocker \<notin> u_id ` set (c_users c) \<or> blocked \<notin> u_id ` set (c_users c) then None
     else Some (c\<lparr>c_blocks := c_blocks c @ [\<lparr>ub_blocker_id = blocker, ub_blocked_id = blocked, ub_created_at = now\<rparr>]\<rparr>))"

definition unblock_user :: "string \<Rightarrow> string \<Rightarrow> unit db_op" where
  "unblock_user blocker blocked = exec ''unblock_user'' (\<lambda>c. Some (c\<lparr>c_blocks :=
     delete_where (\<lambda>b. ub_blocker_id b = blocker \<and> ub_blocked_id b = blocked) (c_blocks c)\<rparr>))"

definition list_blocked :: "conn \<Rightarrow> string \<Rightarrow> string list db_res" where
  "list_blocked c blocker = stmt ''list_blocked'' c
     (map ub_blocked_id (rev (sort_key ub_created_at (rev (rows_where (\<lambda>b. ub_blocker_id b = blocker) (c_blocks c))))))"

definition is_blocked :: "conn \<Rightarrow> string \<Rightarrow> string \<Rightarrow> bool db_res" where
  "is_blocked c blocker blocked = stmt ''is_blocked'' c
     (rows_where (\<lambda>b. ub_blocker_id b = blocker \<and> ub_blocked_id b = blocked) (c_blocks c) \<noteq> [])"

definition blocks_list :: "string \<Rightarrow> string list handler" where
  "blocks_list uid = spawn_db (readS (\<lambda>c. list_blocked c uid))"

definition user_exists :: "conn \<Rightarrow> string \<Rightarrow> bool" where
  "user_exists c uid = unwrap_or (bindE (query_row ''block'' c (rows_where (\<lambda>u. u_id u = uid) (c_users c))) (\<lambda>_. Inr True)) False"

definition blocks_block :: "string \<Rightarrow> string \<Rightarrow> string \<Rightarrow> unit handler" where
  "blocks_block now uid blocked =
     (if uid = blocked then throwS (BadRequest ''you cannot block yourself'')
      else map_errH (map_not_found ''user'') (spawn_db (
        bindS (readS (\<lambda>c. if user_exists c blocked then Inr () else Inl QueryReturnedNoRows)) (\<lambda>_.
        block_user now uid blocked))))"

definition blocks_unblock :: "string \<Rightarrow> string \<Rightarrow> unit handler" where
  "blocks_unblock uid blocked = spawn_db (unblock_user uid blocked)"

subsection \<open>Mutes\<close>

definition mute_active :: "string \<Rightarrow> string option \<Rightarrow> bool" where
  "mute_active now muted_until = (case muted_until of None \<Rightarrow> True | Some t \<Rightarrow> t > now)"

definition get_muted_channels :: "string \<Rightarrow> conn \<Rightarrow> string \<Rightarrow> (string \<times> string option) list db_res" where
  "get_muted_channels now c uid = stmt ''get_muted_channels'' c
     (map (\<lambda>((_, cid), t). (cid, t)) (rows_where (\<lambda>((u, _), t). u = uid \<and> mute_active now t) (c_channel_mutes c)))"

definition upsert_channel_mute :: "string \<Rightarrow> string \<Rightarrow> string option \<Rightarrow> unit db_op" where
  "upsert_channel_mute uid cid muted_until = exec ''upsert_channel_mute'' (\<lambda>c.
     if (uid, cid) \<in> fst ` set (c_channel_mutes c)
     then Some (c\<lparr>c_channel_mutes := update_where (\<lambda>p. fst p = (uid, cid)) (\<lambda>(k, _). (k, muted_until)) (c_channel_mutes c)\<rparr>)
     else Some (c\<lparr>c_channel_mutes := c_channel_mutes c @ [((uid, cid), muted_until)]\<rparr>))"

definition delete_channel_mute :: "string \<Rightarrow> string \<Rightarrow> unit db_op" where
  "delete_channel_mute uid cid = exec ''delete_channel_mute'' (\<lambda>c.
     Some (c\<lparr>c_channel_mutes := delete_where (\<lambda>p. fst p = (uid, cid)) (c_channel_mutes c)\<rparr>))"

definition is_channel_muted_for :: "string \<Rightarrow> conn \<Rightarrow> string \<Rightarrow> string \<Rightarrow> bool" where
  "is_channel_muted_for now c uid cid = (unwrap_or (stmt ''is_channel_muted_for'' c
     (length (rows_where (\<lambda>(k, t). k = (uid, cid) \<and> mute_active now t) (c_channel_mutes c)))) 0 > 0)"

definition mutes_list :: "string \<Rightarrow> string \<Rightarrow> (string \<times> string option) list handler" where
  "mutes_list now uid = spawn_db (readS (\<lambda>c. get_muted_channels now c uid))"

definition mutes_mute :: "string \<Rightarrow> string \<Rightarrow> string option \<Rightarrow> (string \<times> string option) sending" where
  "mutes_mute uid cid muted_until = and_send
     (bindS (spawn_db (upsert_channel_mute uid cid muted_until)) (\<lambda>_. returnS (cid, muted_until)))
     (\<lambda>_. [DirectMsg uid (event_new ''channel:mute-update'' (JObj [(''channel_id'', JStr cid), (''muted'', JBool True),
       (''muted_until'', (case muted_until of None \<Rightarrow> JNull | Some t \<Rightarrow> JStr t))]))])"

definition mutes_unmute :: "string \<Rightarrow> string \<Rightarrow> unit sending" where
  "mutes_unmute uid cid = and_send (spawn_db (delete_channel_mute uid cid))
     (\<lambda>_. [DirectMsg uid (event_new ''channel:mute-update'' (JObj [(''channel_id'', JStr cid), (''muted'', JBool False)]))])"

subsection \<open>Presence\<close>

definition presence_get_all :: "presence_mgr \<Rightarrow> string \<Rightarrow> string \<rightharpoonup> user_presence" where
  "presence_get_all pm tid = pm_presences pm"

text \<open>User, status, custom status.\<close>

definition presence_get_user :: "presence_mgr \<Rightarrow> string \<Rightarrow> string \<Rightarrow> string \<times> string \<times> string" where
  "presence_get_user pm tid target = (case get_presence pm target of
       Some p \<Rightarrow> (up_user_id p, status_as_str (up_status p), up_custom p)
     | None \<Rightarrow> (target, ''offline'', []))"

definition presence_update_own :: "int \<Rightarrow> string \<Rightarrow> string \<Rightarrow> string \<Rightarrow> string \<Rightarrow> presence_mgr \<Rightarrow> (string \<times> string \<times> string) \<times> presence_mgr" where
  "presence_update_own now uid tid status_text custom_status pm =
     (let st = status_from_str status_text
      in ((uid, status_as_str st, custom_status), update_presence now uid st custom_status pm))"

subsection \<open>Properties\<close>

text \<open>A block is directional and an unblock undoes it.\<close>

lemma block_roundtrip:
  assumes "healthy c" and "blocked \<in> u_id ` set (c_users c)" and "uid \<in> u_id ` set (c_users c)" and "uid \<noteq> blocked"
  shows "\<exists>c'. blocks_block now uid blocked c = (Inr (), c') \<and> is_blocked c' uid blocked = Inr True
    \<and> is_blocked c' blocked uid = is_blocked c blocked uid
    \<and> (\<exists>c''. blocks_unblock uid blocked c' = (Inr (), c'') \<and> is_blocked c'' uid blocked = Inr False)"
proof -
  have ex: "user_exists c blocked" using assms(1,2) by (force simp: user_exists_def unwrap_or_def ok_or_def split: option.split simp: rows_where_eq_Nil)
  show ?thesis
  proof (cases "(uid, blocked) \<in> (\<lambda>b. (ub_blocker_id b, ub_blocked_id b)) ` set (c_blocks c)")
    case True
    then have "block_user now uid blocked c = (Inr (), c)" using assms(1) by (simp add: block_user_def exec_healthy)
    with True ex assms show ?thesis
      by (intro exI [of _ c]) (auto simp: blocks_block_def map_errH_def spawn_db_def is_blocked_def blocks_unblock_def unblock_user_def
          exec_healthy rows_where_eq_Nil healthy_def stmt_def)
  next
    case False
    let ?c = "c\<lparr>c_blocks := c_blocks c @ [\<lparr>ub_blocker_id = uid, ub_blocked_id = blocked, ub_created_at = now\<rparr>]\<rparr>"
    have "block_user now uid blocked c = (Inr (), ?c)" using assms False by (simp add: block_user_def exec_healthy)
    with ex assms show ?thesis
      by (intro exI [of _ ?c]) (auto simp: blocks_block_def map_errH_def spawn_db_def is_blocked_def blocks_unblock_def unblock_user_def
          exec_def rows_where_eq_Nil healthy_def stmt_def)
  qed
qed

lemma upsert_stores:
  assumes "healthy c"
  shows "\<exists>c'. upsert_channel_mute uid cid t c = (Inr (), c') \<and> healthy c' \<and> ((uid, cid), t) \<in> set (c_channel_mutes c')"
proof (cases "(uid, cid) \<in> fst ` set (c_channel_mutes c)")
  case True
  then obtain old where "((uid, cid), old) \<in> set (c_channel_mutes c)" by auto
  then have "((uid, cid), t) \<in> set (update_where (\<lambda>p. fst p = (uid, cid)) (\<lambda>(k, _). (k, t)) (c_channel_mutes c))"
    unfolding set_update_where by (rule rev_image_eqI) simp
  with True assms show ?thesis by (simp add: upsert_channel_mute_def exec_healthy healthy_def)
qed (use assms in \<open>simp add: upsert_channel_mute_def exec_healthy healthy_def\<close>)

text \<open>The string order sees a \<open>T\<close> after a space.\<close>

lemma same_day_later: "day @ ''T'' @ a > day @ '' '' @ b" for day a b :: string
  by (induction day) (simp_all add: less_char_def)

text \<open>A mute outlives its end. The client sends the end of a mute in ISO 8601 form, with a \<open>T\<close> between day and time, and
  the statements compare it as text with the clock of the database, which writes a space there: on the day of its end a
  mute is in force at every time of that day, also after the end, for the dispatch and in the list.\<close>

theorem mute_outlives_its_end:
  assumes "healthy c"
  shows "\<exists>c'. mutes_mute uid cid (Some (day @ ''T'' @ end_time)) c = (Inr (cid, Some (day @ ''T'' @ end_time)), c',
        [DirectMsg uid (event_new ''channel:mute-update'' (JObj [(''channel_id'', JStr cid), (''muted'', JBool True),
          (''muted_until'', JStr (day @ ''T'' @ end_time))]))])
    \<and> is_channel_muted_for (day @ '' '' @ later) c' uid cid
    \<and> (\<exists>ms. fst (mutes_list (day @ '' '' @ later) uid c') = Inr ms \<and> cid \<in> fst ` set ms)"
proof -
  let ?t = "Some (day @ ''T'' @ end_time)"
  have act: "mute_active (day @ '' '' @ later) ?t" using same_day_later by (simp add: mute_active_def)
  obtain c' where up: "upsert_channel_mute uid cid ?t c = (Inr (), c')" and h: "healthy c'" and r: "((uid, cid), ?t) \<in> set (c_channel_mutes c')"
    using upsert_stores [OF assms] by blast
  have rows: "rows_where (\<lambda>(k, t). k = (uid, cid) \<and> mute_active (day @ '' '' @ later) t) (c_channel_mutes c') \<noteq> []"
    using r act by (auto simp: rows_where_eq_Nil)
  have "is_channel_muted_for (day @ '' '' @ later) c' uid cid" using rows h unfolding is_channel_muted_for_def by (simp add: unwrap_or_def)
  moreover have "((uid, cid), ?t) \<in> set (rows_where (\<lambda>((u, _), t). u = uid \<and> mute_active (day @ '' '' @ later) t) (c_channel_mutes c'))"
    using r act by simp
  then have "\<exists>ms. fst (mutes_list (day @ '' '' @ later) uid c') = Inr ms \<and> cid \<in> fst ` set ms"
    using h unfolding mutes_list_def spawn_db_def get_muted_channels_def by force
  moreover have "mutes_mute uid cid ?t c = (Inr (cid, ?t), c',
        [DirectMsg uid (event_new ''channel:mute-update'' (JObj [(''channel_id'', JStr cid), (''muted'', JBool True),
          (''muted_until'', JStr (day @ ''T'' @ end_time))]))])"
    using up by (simp add: mutes_mute_def and_send_def spawn_db_def bindS_def)
  ultimately show ?thesis by blast
qed

theorem mute_outlives_its_end_witness:
  "\<exists>c'. mutes_mute ''bob'' ''ch'' (Some ''2025-01-01T09:00:00Z'') sample_conn = (Inr (''ch'', Some ''2025-01-01T09:00:00Z''), c',
        [DirectMsg ''bob'' (event_new ''channel:mute-update'' (JObj [(''channel_id'', JStr ''ch''), (''muted'', JBool True),
          (''muted_until'', JStr ''2025-01-01T09:00:00Z'')]))])
    \<and> is_channel_muted_for ''2025-01-01 23:59:59'' c' ''bob'' ''ch''"
  using mute_outlives_its_end [OF sample_conn_sel(2), of "''bob''" "''ch''" "''2025-01-01''" "''09:00:00Z''" "''23:59:59''"] by auto

end
