(* ===== verification/Users_Api.thy ===== *)
theory Users_Api
  imports Site_Kit Channel_Store Prekeys_Api
begin

section \<open>The own account\<close>

text \<open>
  \<open>api/users.rs\<close>, \<open>delete_user\<close> of \<open>db/user_queries.rs\<close> and \<open>db/settings_queries.rs\<close>. The deletion is a sequence of
  statements outside a transaction; each is refused by the foreign keys that the migrations leave without an
  \<open>ON DELETE\<close> clause (\<open>invite_uses.invite_id\<close>, and every column in \<open>user_row_in_use\<close>), and the deletion of the user
  row cascades into the tables that declare it.
\<close>

subsection \<open>Settings\<close>

definition get_setting :: "conn \<Rightarrow> string \<Rightarrow> string option db_res" where
  "get_setting c key = optional (query_row ''get_setting'' c (map snd (rows_where (\<lambda>(k, v). k = key) (c_settings c))))"

definition put_setting :: "string \<Rightarrow> string \<Rightarrow> (string \<times> string) list \<Rightarrow> (string \<times> string) list" where
  "put_setting key v rows = (if key \<in> fst ` set rows then update_where (\<lambda>(k, _). k = key) (\<lambda>(k, _). (k, v)) rows else rows @ [(key, v)])"

text \<open>\<open>INSERT OR REPLACE\<close> removes the old row and appends.\<close>

definition set_setting :: "string \<Rightarrow> string \<Rightarrow> unit db_op" where
  "set_setting key v = exec ''set_setting'' (\<lambda>c. Some (c\<lparr>c_settings := delete_where (\<lambda>(k, _). k = key) (c_settings c) @ [(key, v)]\<rparr>))"

definition blob_key :: "string \<Rightarrow> string" where
  "blob_key uid = ''identity_blob:'' @ uid"

definition upsert_identity_blob :: "string \<Rightarrow> string \<Rightarrow> unit db_op" where
  "upsert_identity_blob uid blob = exec ''upsert_identity_blob'' (\<lambda>c. Some (c\<lparr>c_settings := put_setting (blob_key uid) blob (c_settings c)\<rparr>))"

definition get_identity_blob :: "conn \<Rightarrow> string \<Rightarrow> string option db_res" where
  "get_identity_blob c uid =
     optional (query_row ''get_identity_blob'' c (map snd (rows_where (\<lambda>(k, v). k = blob_key uid) (c_settings c))))"

subsection \<open>Quiet hours\<close>

text \<open>\<open>str::parse::<u8>\<close>: an optional plus sign, then at least one decimal digit, at most 255.\<close>

fun read_decimal :: "int \<Rightarrow> string \<Rightarrow> int option" where
  "read_decimal acc [] = Some acc"
| "read_decimal acc (x # s) = (if 48 \<le> char_byte x \<and> char_byte x \<le> 57 then
     (if acc * 10 + (char_byte x - 48) > 255 then None else read_decimal (acc * 10 + (char_byte x - 48)) s) else None)"

definition parse_u8 :: "string \<Rightarrow> int option" where
  "parse_u8 s = (case s of [] \<Rightarrow> None
     | x # rest \<Rightarrow> if x = CHR ''+'' then (if rest = [] then None else read_decimal 0 rest) else read_decimal 0 s)"

definition is_valid_hh_mm :: "string \<Rightarrow> bool" where
  "is_valid_hh_mm s =
     (if length s \<noteq> 5 \<or> s ! 2 \<noteq> CHR '':'' then False
      else (case parse_u8 (take 2 s) of None \<Rightarrow> False
        | Some h \<Rightarrow> (case parse_u8 (drop 3 s) of None \<Rightarrow> False | Some m \<Rightarrow> h < 24 \<and> m < 60)))"

subsection \<open>Profile\<close>

record update_me_request =
  um_display_name :: "string option"
  um_avatar_url :: "string option"
  um_status_text :: "string option"
  um_status_type :: "string option"
  um_quiet_hours_enabled :: "bool option"
  um_quiet_hours_from :: "string option"
  um_quiet_hours_to :: "string option"

definition get_me :: "string \<Rightarrow> user handler" where
  "get_me uid = bindS (with_conn_internal (readS (\<lambda>c. get_user_by_id c uid)))
     (\<lambda>found. (case found of None \<Rightarrow> throwS (NotFound ''user not found'') | Some u \<Rightarrow> returnS u))"

definition valid_hours :: "string \<Rightarrow> string option \<Rightarrow> db_error + unit" where
  "valid_hours msg hours = (case hours of None \<Rightarrow> Inr () | Some h \<Rightarrow> if is_valid_hh_mm h then Inr () else Inl (InvalidParameterName msg))"

definition updated_profile :: "update_me_request \<Rightarrow> user \<Rightarrow> user" where
  "updated_profile body u = u\<lparr>
     u_display_name := (case um_display_name body of None \<Rightarrow> u_display_name u | Some x \<Rightarrow> x),
     u_avatar_url := (case um_avatar_url body of None \<Rightarrow> u_avatar_url u | Some x \<Rightarrow> x),
     u_status_text := (case um_status_text body of None \<Rightarrow> u_status_text u | Some x \<Rightarrow> x),
     u_status_type := (case um_status_type body of None \<Rightarrow> u_status_type u | Some x \<Rightarrow> x),
     u_quiet_hours_enabled := (case um_quiet_hours_enabled body of None \<Rightarrow> u_quiet_hours_enabled u | Some x \<Rightarrow> x),
     u_quiet_hours_from := (case um_quiet_hours_from body of None \<Rightarrow> u_quiet_hours_from u | Some x \<Rightarrow> x),
     u_quiet_hours_to := (case um_quiet_hours_to body of None \<Rightarrow> u_quiet_hours_to u | Some x \<Rightarrow> x)\<rparr>"

definition update_me_body :: "string \<Rightarrow> string \<Rightarrow> update_me_request \<Rightarrow> user db_op" where
  "update_me_body now uid body =
     bindS (readS (\<lambda>c. get_user_by_id c uid)) (\<lambda>found.
     bindS (some_or QueryReturnedNoRows found) (\<lambda>u.
     bindS (readS (\<lambda>_. valid_hours ''quiet_hours_from must be HH:MM'' (um_quiet_hours_from body))) (\<lambda>_.
     bindS (readS (\<lambda>_. valid_hours ''quiet_hours_to must be HH:MM'' (um_quiet_hours_to body))) (\<lambda>_.
     bindS (update_user now (updated_profile body u)) (\<lambda>_. returnS (updated_profile body u))))))"

definition update_me :: "string \<Rightarrow> string \<Rightarrow> update_me_request \<Rightarrow> user handler" where
  "update_me now uid body =
     (if case um_display_name body of None \<Rightarrow> False | Some dn \<Rightarrow> length dn > 64
      then throwS (BadRequest ''display_name too long (max 64 chars)'')
      else if case um_status_text body of None \<Rightarrow> False | Some st \<Rightarrow> length st > 128
      then throwS (BadRequest ''status_text too long (max 128 chars)'')
      else with_conn_internal (update_me_body now uid body))"

definition get_identity_blob_handler :: "string \<Rightarrow> string handler" where
  "get_identity_blob_handler uid = bindS (with_conn_internal (readS (\<lambda>c. get_identity_blob c uid)))
     (\<lambda>blob. returnS (case blob of None \<Rightarrow> [] | Some b \<Rightarrow> b))"

definition MAX_IDENTITY_BLOB_BYTES :: nat where "MAX_IDENTITY_BLOB_BYTES = 64 * 1024"

definition put_identity_blob :: "string \<Rightarrow> string \<Rightarrow> unit handler" where
  "put_identity_blob uid blob =
     (if length blob > MAX_IDENTITY_BLOB_BYTES then throwS (PayloadTooLarge ''identity_blob too large (max 65536 bytes)'')
      else with_conn_internal (upsert_identity_blob uid blob))"

subsection \<open>Deletion of the account\<close>

text \<open>An administrator other than the user, by a role with the lowest bit.\<close>

definition other_admin :: "conn \<Rightarrow> string \<Rightarrow> string \<Rightarrow> bool" where
  "other_admin c uid tid \<longleftrightarrow> list_ex (\<lambda>m. m_team_id m = tid \<and> m_user_id m \<noteq> uid
     \<and> list_ex (\<lambda>r. (m_id m, r_id r) \<in> set (c_member_roles c) \<and> r_permissions r AND 1 \<noteq> 0) (c_roles c)) (c_members c)"

definition sole_admin_teams :: "conn \<Rightarrow> string \<Rightarrow> team list" where
  "sole_admin_teams c uid = rows_where (\<lambda>t. t_created_by t = uid \<and> \<not> other_admin c uid (t_id t)) (c_teams c)"

text \<open>The columns that refer to a user and have no \<open>ON DELETE\<close> clause.\<close>

definition user_row_in_use :: "conn \<Rightarrow> string \<Rightarrow> bool" where
  "user_row_in_use c uid \<longleftrightarrow> uid \<in> t_created_by ` set (c_teams c) \<or> uid \<in> msg_author_id ` set (c_messages c)
     \<or> uid \<in> rx_user_id ` set (c_reactions c) \<or> uid \<in> i_created_by ` set (c_invites c) \<or> uid \<in> iu_user_id ` set (c_invite_uses c)
     \<or> uid \<in> dmm_user_id ` set (c_dm_members c) \<or> uid \<in> ban_user_id ` set (c_bans c) \<or> uid \<in> ban_banned_by ` set (c_bans c)
     \<or> uid \<in> ch_created_by ` set (c_channels c) \<or> uid \<in> m_invited_by ` set (c_members c) \<or> uid \<in> th_creator_id ` set (c_threads c)"

text \<open>The cascades of a user row.\<close>

definition drop_user_row :: "string \<Rightarrow> conn \<Rightarrow> conn" where
  "drop_user_row uid c =
     (let gone = m_id ` {m \<in> set (c_members c). m_user_id m = uid}
      in c\<lparr>c_users := delete_where (\<lambda>u. u_id u = uid) (c_users c),
           c_members := delete_where (\<lambda>m. m_user_id m = uid) (c_members c),
           c_member_roles := delete_where (\<lambda>(mid, _). mid \<in> gone) (c_member_roles c),
           c_prekeys := delete_where (\<lambda>b. pk_user_id b = uid) (c_prekeys c),
           c_channel_reads := delete_where (\<lambda>((u, _), _). u = uid) (c_channel_reads c),
           c_blocks := delete_where (\<lambda>b. ub_blocker_id b = uid \<or> ub_blocked_id b = uid) (c_blocks c),
           c_devices := delete_where (\<lambda>d. d_user_id d = uid) (c_devices c),
           c_recovery := delete_where (\<lambda>s. rs_user_id s = uid) (c_recovery c)\<rparr>)"

text \<open>The statements in order: steps 2 to 7, step 8, and steps 9 to 13. All but step 8 succeed whatever the rows are.\<close>

definition erase_content :: "string \<Rightarrow> (string \<times> (conn \<Rightarrow> conn)) list" where
  "erase_content uid = [
     (''delete_user.reactions'', \<lambda>c. c\<lparr>c_reactions := delete_where (\<lambda>r. rx_user_id r = uid) (c_reactions c)\<rparr>),
     (''delete_user.attachments'', \<lambda>c. c\<lparr>c_attachments := delete_where
        (\<lambda>a. a_message_id a \<in> msg_id ` {m \<in> set (c_messages c). msg_author_id m = uid}) (c_attachments c)\<rparr>),
     (''delete_user.thread_messages'', \<lambda>c. drop_messages
        (\<lambda>m. msg_thread_id m \<noteq> [] \<and> msg_thread_id m \<in> th_id ` {t \<in> set (c_threads c). th_creator_id t = uid}) c),
     (''delete_user.threads'', \<lambda>c. c\<lparr>c_threads := delete_where (\<lambda>t. th_creator_id t = uid) (c_threads c)\<rparr>),
     (''delete_user.messages'', drop_messages (\<lambda>m. msg_author_id m = uid)),
     (''delete_user.dm_members'', \<lambda>c. c\<lparr>c_dm_members := delete_where (\<lambda>d. dmm_user_id d = uid) (c_dm_members c)\<rparr>),
     (''delete_user.invite_uses'', \<lambda>c. c\<lparr>c_invite_uses := delete_where (\<lambda>x. iu_user_id x = uid) (c_invite_uses c)\<rparr>)]"

definition erase_invites :: "string \<Rightarrow> unit db_op" where
  "erase_invites uid = exec ''delete_user.invites'' (\<lambda>c.
     if list_ex (\<lambda>x. iu_invite_id x \<in> i_id ` {i \<in> set (c_invites c). i_created_by i = uid}) (c_invite_uses c) then None
     else Some (c\<lparr>c_invites := delete_where (\<lambda>i. i_created_by i = uid) (c_invites c)\<rparr>))"

definition erase_rest :: "string \<Rightarrow> (string \<times> (conn \<Rightarrow> conn)) list" where
  "erase_rest uid = [
     (''delete_user.bans'', \<lambda>c. c\<lparr>c_bans := delete_where (\<lambda>b. ban_user_id b = uid \<or> ban_banned_by b = uid) (c_bans c)\<rparr>),
     (''delete_user.prekeys'', \<lambda>c. c\<lparr>c_prekeys := delete_where (\<lambda>b. pk_user_id b = uid) (c_prekeys c)\<rparr>),
     (''delete_user.channels'', \<lambda>c. c\<lparr>c_channels :=
        update_where (\<lambda>ch. ch_created_by ch = uid) (\<lambda>ch. ch\<lparr>ch_created_by := []\<rparr>) (c_channels c)\<rparr>),
     (''delete_user.invited_by'', \<lambda>c. c\<lparr>c_members :=
        update_where (\<lambda>m. m_invited_by m = uid) (\<lambda>m. m\<lparr>m_invited_by := []\<rparr>) (c_members c)\<rparr>),
     (''delete_user.member_roles'', \<lambda>c. c\<lparr>c_member_roles := delete_where
        (\<lambda>(mid, _). mid \<in> m_id ` {m \<in> set (c_members c). m_user_id m = uid}) (c_member_roles c)\<rparr>),
     (''delete_user.members'', \<lambda>c. c\<lparr>c_members := delete_where (\<lambda>m. m_user_id m = uid) (c_members c),
        c_member_roles := delete_where (\<lambda>(mid, _). mid \<in> m_id ` {m \<in> set (c_members c). m_user_id m = uid}) (c_member_roles c)\<rparr>),
     (''delete_user.blob'', \<lambda>c. c\<lparr>c_settings := delete_where (\<lambda>(k, _). k = blob_key uid) (c_settings c)\<rparr>)]"

definition run_updates :: "(string \<times> (conn \<Rightarrow> conn)) list \<Rightarrow> unit db_op" where
  "run_updates = for_eachS (\<lambda>(name, f). exec name (\<lambda>c. Some (f c)))"

definition delete_user_row :: "string \<Rightarrow> unit db_op" where
  "delete_user_row uid = exec ''delete_user.users'' (\<lambda>c.
     if uid \<notin> u_id ` set (c_users c) then Some c else if user_row_in_use c uid then None else Some (drop_user_row uid c))"

definition delete_user :: "string \<Rightarrow> unit db_op" where
  "delete_user uid =
     bindS (readS (\<lambda>c. stmt ''delete_user'' c (length (sole_admin_teams c uid)))) (\<lambda>n.
     if n > 0 then throwS (InvalidParameterName (''cannot delete: user is the sole admin of a team '' @ em_dash @ '' transfer ownership first''))
     else bindS (run_updates (erase_content uid)) (\<lambda>_.
       bindS (erase_invites uid) (\<lambda>_.
       bindS (run_updates (erase_rest uid)) (\<lambda>_. delete_user_row uid))))"

definition delete_me :: "string \<Rightarrow> unit handler" where
  "delete_me uid c = (case delete_user uid c of (r, c') \<Rightarrow> (map_err (\<lambda>e. case e of
       InvalidParameterName msg \<Rightarrow> BadRequest msg | other \<Rightarrow> Internal (''db: '' @ db_error_text other)) r, c'))"

subsection \<open>The statements of a deletion\<close>

definition after_updates :: "(string \<times> (conn \<Rightarrow> conn)) list \<Rightarrow> conn \<Rightarrow> conn" where
  "after_updates us c = fold snd us c"

lemma run_updates_healthy:
  assumes "\<And>name f d. (name, f) \<in> set us \<Longrightarrow> c_faults (f d) = c_faults d" and "healthy c"
  shows "run_updates us c = (Inr (), after_updates us c) \<and> healthy (after_updates us c)"
  using assms
proof (induction us arbitrary: c)
  case (Cons u us)
  obtain name f where u: "u = (name, f)" by fastforce
  have h: "healthy (f c)" using Cons.prems(1) [of name f c] Cons.prems(2) u by (simp add: healthy_def)
  have "run_updates us (f c) = (Inr (), after_updates us (f c)) \<and> healthy (after_updates us (f c))"
    using Cons.prems(1) h by (intro Cons.IH) auto
  then show ?case using Cons.prems(2) u by (simp add: run_updates_def after_updates_def exec_healthy bindS_def)
qed (simp add: run_updates_def after_updates_def)

lemma drop_messages_sel [simp]:
  "c_faults (drop_messages p c) = c_faults c" "c_users (drop_messages p c) = c_users c" "c_teams (drop_messages p c) = c_teams c"
  "c_dm_members (drop_messages p c) = c_dm_members c" "c_invites (drop_messages p c) = c_invites c"
  "c_invite_uses (drop_messages p c) = c_invite_uses c" "c_roles (drop_messages p c) = c_roles c"
  "c_members (drop_messages p c) = c_members c" "c_member_roles (drop_messages p c) = c_member_roles c"
  by (simp_all add: drop_messages_def Let_def)

lemma drop_messages_less:
  "set (c_reactions (drop_messages p c)) \<subseteq> set (c_reactions c)" "set (c_threads (drop_messages p c)) \<subseteq> set (c_threads c)"
  "msg_author_id ` set (c_messages (drop_messages p c)) \<subseteq> msg_author_id ` {m \<in> set (c_messages c). \<not> p m}"
  by (auto simp: drop_messages_def Let_def)

text \<open>What is left of a user after steps 2 to 7, and after the deletion.\<close>

definition content_erased :: "conn \<Rightarrow> string \<Rightarrow> bool" where
  "content_erased c uid \<longleftrightarrow> uid \<notin> msg_author_id ` set (c_messages c) \<and> uid \<notin> rx_user_id ` set (c_reactions c)
     \<and> uid \<notin> th_creator_id ` set (c_threads c) \<and> uid \<notin> dmm_user_id ` set (c_dm_members c) \<and> uid \<notin> iu_user_id ` set (c_invite_uses c)"

definition account_erased :: "conn \<Rightarrow> string \<Rightarrow> bool" where
  "account_erased c uid \<longleftrightarrow> content_erased c uid \<and> uid \<notin> u_id ` set (c_users c) \<and> uid \<notin> m_user_id ` set (c_members c)
     \<and> uid \<notin> m_invited_by ` set (c_members c) \<and> uid \<notin> i_created_by ` set (c_invites c) \<and> uid \<notin> ban_user_id ` set (c_bans c)
     \<and> uid \<notin> ban_banned_by ` set (c_bans c) \<and> uid \<notin> ch_created_by ` set (c_channels c) \<and> uid \<notin> pk_user_id ` set (c_prekeys c)
     \<and> uid \<notin> ub_blocker_id ` set (c_blocks c) \<and> uid \<notin> ub_blocked_id ` set (c_blocks c) \<and> uid \<notin> d_user_id ` set (c_devices c)
     \<and> uid \<notin> rs_user_id ` set (c_recovery c) \<and> blob_key uid \<notin> fst ` set (c_settings c)"

text \<open>An invite of the user that somebody else used.\<close>

definition invite_used_by_other :: "conn \<Rightarrow> string \<Rightarrow> bool" where
  "invite_used_by_other c uid \<longleftrightarrow> (\<exists>x \<in> set (c_invite_uses c). iu_user_id x \<noteq> uid
     \<and> iu_invite_id x \<in> i_id ` {i \<in> set (c_invites c). i_created_by i = uid})"

lemma erase_content_frame:
  "c_users (after_updates (erase_content uid) c) = c_users c" "c_teams (after_updates (erase_content uid) c) = c_teams c"
  "c_invites (after_updates (erase_content uid) c) = c_invites c"
  "c_invite_uses (after_updates (erase_content uid) c) = delete_where (\<lambda>x. iu_user_id x = uid) (c_invite_uses c)"
  by (simp_all add: after_updates_def erase_content_def)

lemma erase_content_erases: "content_erased (after_updates (erase_content uid) c) uid"
proof -
  let ?c3 = "fold snd (take 3 (erase_content uid)) c"
  let ?c4 = "?c3\<lparr>c_threads := delete_where (\<lambda>t. th_creator_id t = uid) (c_threads ?c3)\<rparr>"
  let ?c5 = "drop_messages (\<lambda>m. msg_author_id m = uid) ?c4"
  have "set (c_reactions ?c3) \<subseteq> {r. rx_user_id r \<noteq> uid}"
    using drop_messages_less(1) by (fastforce simp: erase_content_def)
  then have "uid \<notin> rx_user_id ` set (c_reactions ?c5)" using drop_messages_less(1) [of _ ?c4] by fastforce
  moreover have "uid \<notin> th_creator_id ` set (c_threads ?c5)" using drop_messages_less(2) [of _ ?c4] by fastforce
  moreover have "uid \<notin> msg_author_id ` set (c_messages ?c5)" using drop_messages_less(3) [of _ ?c4] by fastforce
  moreover have "after_updates (erase_content uid) c = ?c5\<lparr>c_dm_members := delete_where (\<lambda>d. dmm_user_id d = uid) (c_dm_members ?c5),
      c_invite_uses := delete_where (\<lambda>x. iu_user_id x = uid) (c_invite_uses ?c5)\<rparr>"
    by (simp add: after_updates_def erase_content_def)
  ultimately show ?thesis by (auto simp: content_erased_def)
qed

lemma erase_rest_state:
  "after_updates (erase_rest uid) c = c\<lparr>
     c_bans := delete_where (\<lambda>b. ban_user_id b = uid \<or> ban_banned_by b = uid) (c_bans c),
     c_prekeys := delete_where (\<lambda>b. pk_user_id b = uid) (c_prekeys c),
     c_channels := update_where (\<lambda>ch. ch_created_by ch = uid) (\<lambda>ch. ch\<lparr>ch_created_by := []\<rparr>) (c_channels c),
     c_members := c_members (after_updates (erase_rest uid) c), c_member_roles := c_member_roles (after_updates (erase_rest uid) c),
     c_settings := delete_where (\<lambda>(k, _). k = blob_key uid) (c_settings c)\<rparr>"
  by (simp add: after_updates_def erase_rest_def)

lemma erase_rest_members:
  "uid \<noteq> [] \<Longrightarrow> m \<in> set (c_members (after_updates (erase_rest uid) c)) \<Longrightarrow> m_user_id m \<noteq> uid \<and> m_invited_by m \<noteq> uid"
  by (auto simp: after_updates_def erase_rest_def split: if_splits)

lemma erase_content_keeps:
  "content_erased c uid \<Longrightarrow> content_erased (after_updates (erase_rest uid) c) uid"
  by (simp add: content_erased_def after_updates_def erase_rest_def)

text \<open>Steps 8 to 14 on a connection whose content is erased.\<close>

definition delete_tail :: "string \<Rightarrow> unit db_op" where
  "delete_tail uid = bindS (erase_invites uid) (\<lambda>_. bindS (run_updates (erase_rest uid)) (\<lambda>_. delete_user_row uid))"

lemma invites_blocked:
  "healthy d \<Longrightarrow> \<exists>x \<in> set (c_invite_uses d). iu_invite_id x \<in> i_id ` {i \<in> set (c_invites d). i_created_by i = uid}
   \<Longrightarrow> delete_tail uid d = (Inl SqliteFailure, d)"
  by (auto simp: delete_tail_def erase_invites_def exec_healthy bindS_def list_ex_iff)

lemma delete_tail_free:
  assumes "healthy d" and "\<forall>x \<in> set (c_invite_uses d). iu_invite_id x \<notin> i_id ` {i \<in> set (c_invites d). i_created_by i = uid}"
  shows "delete_tail uid d
    = delete_user_row uid (after_updates (erase_rest uid) (d\<lparr>c_invites := delete_where (\<lambda>i. i_created_by i = uid) (c_invites d)\<rparr>))
    \<and> healthy (after_updates (erase_rest uid) (d\<lparr>c_invites := delete_where (\<lambda>i. i_created_by i = uid) (c_invites d)\<rparr>))"
proof -
  let ?d = "d\<lparr>c_invites := delete_where (\<lambda>i. i_created_by i = uid) (c_invites d)\<rparr>"
  have "healthy ?d" using assms(1) by (simp add: healthy_def)
  then have "run_updates (erase_rest uid) ?d = (Inr (), after_updates (erase_rest uid) ?d) \<and> healthy (after_updates (erase_rest uid) ?d)"
    by (intro run_updates_healthy) (auto simp: erase_rest_def)
  with assms show ?thesis by (auto simp: delete_tail_def erase_invites_def exec_healthy bindS_def list_ex_iff)
qed

lemma delete_user_goes:
  assumes "healthy c"
  shows "delete_user uid c = (if sole_admin_teams c uid \<noteq> []
      then (Inl (InvalidParameterName (''cannot delete: user is the sole admin of a team '' @ em_dash @ '' transfer ownership first'')), c)
      else delete_tail uid (after_updates (erase_content uid) c))
    \<and> healthy (after_updates (erase_content uid) c)"
proof -
  have "run_updates (erase_content uid) c = (Inr (), after_updates (erase_content uid) c) \<and> healthy (after_updates (erase_content uid) c)"
    using assms by (intro run_updates_healthy) (auto simp: erase_content_def)
  then show ?thesis using assms by (simp add: delete_user_def delete_tail_def bindS_def)
qed

lemma row_in_use_at_the_end:
  assumes "content_erased d uid" and "uid \<noteq> []"
  shows "user_row_in_use (after_updates (erase_rest uid) (d\<lparr>c_invites := delete_where (\<lambda>i. i_created_by i = uid) (c_invites d)\<rparr>)) uid
    \<longleftrightarrow> uid \<in> t_created_by ` set (c_teams d)"
proof -
  let ?e = "after_updates (erase_rest uid) (d\<lparr>c_invites := delete_where (\<lambda>i. i_created_by i = uid) (c_invites d)\<rparr>)"
  have "content_erased ?e uid" using assms(1) by (intro erase_content_keeps) (simp add: content_erased_def)
  moreover have "uid \<notin> m_invited_by ` set (c_members ?e)" using erase_rest_members [OF assms(2)] by blast
  moreover have "uid \<notin> ban_user_id ` set (c_bans ?e)" "uid \<notin> ban_banned_by ` set (c_bans ?e)" "uid \<notin> ch_created_by ` set (c_channels ?e)"
    "uid \<notin> i_created_by ` set (c_invites ?e)" "c_teams ?e = c_teams d"
    using assms(2) by (subst erase_rest_state; force)+
  ultimately show ?thesis by (simp add: user_row_in_use_def content_erased_def)
qed

lemma drop_user_row_erases:
  assumes "content_erased d uid" and "uid \<noteq> []"
  defines "e \<equiv> after_updates (erase_rest uid) (d\<lparr>c_invites := delete_where (\<lambda>i. i_created_by i = uid) (c_invites d)\<rparr>)"
  shows "account_erased (drop_user_row uid e) uid"
proof -
  have "content_erased e uid" unfolding e_def using assms(1) by (intro erase_content_keeps) (simp add: content_erased_def)
  moreover have "uid \<notin> m_invited_by ` set (c_members e)" using erase_rest_members [OF assms(2)] unfolding e_def by blast
  moreover have "uid \<notin> ban_user_id ` set (c_bans e)" "uid \<notin> ban_banned_by ` set (c_bans e)" "uid \<notin> ch_created_by ` set (c_channels e)"
    "uid \<notin> i_created_by ` set (c_invites e)" "blob_key uid \<notin> fst ` set (c_settings e)"
    unfolding e_def using assms(2) by (subst erase_rest_state; force)+
  ultimately show ?thesis
    unfolding account_erased_def content_erased_def drop_user_row_def by (auto simp: Let_def)
qed

text \<open>C16. What a request to delete the own account does, case by case. With a team that has no other administrator it
  is refused and nothing changes. Without any team of one's own, and with no own invite used by somebody else, every
  row of the account goes. In the remaining cases the foreign keys stop the deletion half-way: the answer is an
  internal error, the messages, reactions, threads and conversations of the user are gone for good, and the account is still
  there; so whoever created a team, or whose invite somebody accepted, can never delete the account.\<close>

theorem account_deletion_exact:
  assumes "healthy c" and "uid \<in> u_id ` set (c_users c)" and "uid \<noteq> []"
  shows "if sole_admin_teams c uid \<noteq> []
      then delete_me uid c = (Inl (BadRequest (''cannot delete: user is the sole admin of a team '' @ em_dash @ '' transfer ownership first'')), c)
      else \<exists>c'. content_erased c' uid
        \<and> (if uid \<in> t_created_by ` set (c_teams c) \<or> invite_used_by_other c uid
           then delete_me uid c = (Inl (Internal ''db: SqliteFailure''), c') \<and> c_users c' = c_users c
           else delete_me uid c = (Inr (), c') \<and> account_erased c' uid)"
proof (cases "sole_admin_teams c uid = []")
  case False
  then show ?thesis using delete_user_goes [OF assms(1), of uid] by (simp add: delete_me_def)
next
  case True
  let ?d = "after_updates (erase_content uid) c"
  have go: "delete_user uid c = delete_tail uid ?d" and h: "healthy ?d" using True delete_user_goes [OF assms(1), of uid] by simp_all
  have gone: "content_erased ?d uid" by (rule erase_content_erases)
  have used: "(\<exists>x \<in> set (c_invite_uses ?d). iu_invite_id x \<in> i_id ` {i \<in> set (c_invites ?d). i_created_by i = uid}) \<longleftrightarrow> invite_used_by_other c uid"
    by (auto simp: erase_content_frame invite_used_by_other_def)
  show ?thesis
  proof (cases "invite_used_by_other c uid")
    case True
    then have "delete_tail uid ?d = (Inl SqliteFailure, ?d)" using used by (intro invites_blocked [OF h]) blast
    with go gone True \<open>sole_admin_teams c uid = []\<close> show ?thesis
      by (auto simp: delete_me_def db_error_text_def erase_content_frame intro!: exI [of _ ?d])
  next
    case False
    let ?e = "after_updates (erase_rest uid) (?d\<lparr>c_invites := delete_where (\<lambda>i. i_created_by i = uid) (c_invites ?d)\<rparr>)"
    have tail: "delete_tail uid ?d = delete_user_row uid ?e" and he: "healthy ?e"
      using delete_tail_free [OF h, of uid] used False by blast+
    have us: "c_users ?e = c_users c" by (subst erase_rest_state) (simp add: erase_content_frame)
    have "content_erased ?e uid" using gone by (intro erase_content_keeps) (simp add: content_erased_def)
    moreover have "user_row_in_use ?e uid \<longleftrightarrow> uid \<in> t_created_by ` set (c_teams c)"
      using row_in_use_at_the_end [OF gone assms(3)] by (simp add: erase_content_frame)
    moreover have acc: "account_erased (drop_user_row uid ?e) uid" by (rule drop_user_row_erases [OF gone assms(3)])
    ultimately show ?thesis
      using go tail he us assms(2) False \<open>sole_admin_teams c uid = []\<close>
      by (cases "uid \<in> t_created_by ` set (c_teams c)")
        (auto simp: delete_me_def delete_user_row_def exec_healthy db_error_text_def account_erased_def)
  qed
qed

text \<open>The owner of a team whose other member is an administrator.\<close>

definition sample_retiring :: conn where
  "sample_retiring = sample_conn\<lparr>c_roles := map (\<lambda>r. r\<lparr>r_permissions := 1\<rparr>) (c_roles sample_conn)\<rparr>"

theorem account_deletion_exact_witness:
  "(\<exists>c'. delete_me ''owner'' sample_retiring = (Inl (Internal ''db: SqliteFailure''), c') \<and> c_users c' = c_users sample_retiring
      \<and> content_erased c' ''owner'')
   \<and> (\<exists>c'. delete_me ''bob'' sample_conn = (Inr (), c') \<and> account_erased c' ''bob'')
   \<and> snd (delete_me ''owner'' sample_conn) = sample_conn"
proof (intro conjI)
  have "healthy sample_retiring" by (simp add: sample_retiring_def healthy_def)
  moreover have "sole_admin_teams sample_retiring ''owner'' = []" "''owner'' \<in> t_created_by ` set (c_teams sample_retiring)"
    "''owner'' \<in> u_id ` set (c_users sample_retiring)"
    by (simp_all add: sole_admin_teams_def other_admin_def sample_retiring_def sample_conn_def empty_conn_def sample_user_def)
  ultimately show "\<exists>c'. delete_me ''owner'' sample_retiring = (Inl (Internal ''db: SqliteFailure''), c') \<and> c_users c' = c_users sample_retiring
      \<and> content_erased c' ''owner''"
    using account_deletion_exact [of sample_retiring "''owner''"] by auto
  show "\<exists>c'. delete_me ''bob'' sample_conn = (Inr (), c') \<and> account_erased c' ''bob''"
    using account_deletion_exact [of sample_conn "''bob''"]
    by (auto simp: sole_admin_teams_def invite_used_by_other_def sample_conn_def empty_conn_def sample_user_def healthy_def)
  have "sole_admin_teams sample_conn ''owner'' \<noteq> []"
    by (simp add: sole_admin_teams_def other_admin_def sample_conn_def empty_conn_def)
  then show "snd (delete_me ''owner'' sample_conn) = sample_conn"
    using account_deletion_exact [of sample_conn "''owner''"] by (simp add: sample_conn_def empty_conn_def sample_user_def healthy_def)
qed

subsection \<open>The other handlers\<close>

lemma put_setting_lookup:
  "rows_where (\<lambda>(k, v). k = key) (put_setting key v rows) \<noteq> [] \<and> (\<forall>r \<in> set (rows_where (\<lambda>(k, v). k = key) (put_setting key v rows)). snd r = v)"
  by (force simp: put_setting_def rows_where_eq_Nil)

text \<open>A stored blob is read back, and nobody else's is touched.\<close>

lemma blob_roundtrip:
  assumes "healthy c" and "length blob \<le> MAX_IDENTITY_BLOB_BYTES"
  shows "\<exists>c'. put_identity_blob uid blob c = (Inr (), c') \<and> fst (get_identity_blob_handler uid c') = Inr blob
    \<and> (\<forall>u. u \<noteq> uid \<longrightarrow> get_identity_blob c' u = get_identity_blob c u)"
proof -
  let ?c = "c\<lparr>c_settings := put_setting (blob_key uid) blob (c_settings c)\<rparr>"
  have put: "put_identity_blob uid blob c = (Inr (), ?c)"
    using assms by (simp add: put_identity_blob_def with_conn_internal_def upsert_identity_blob_def exec_healthy)
  obtain r rs where rows: "rows_where (\<lambda>(k, v). k = blob_key uid) (c_settings ?c) = r # rs" and "snd r = blob"
    using put_setting_lookup [of "blob_key uid" blob "c_settings c"]
    by (cases "rows_where (\<lambda>(k, v). k = blob_key uid) (c_settings ?c)") auto
  then have read: "get_identity_blob ?c uid = Inr (Some blob)"
    using assms(1) by (simp add: get_identity_blob_def healthy_def stmt_def query_row_def)
  have other: "rows_where (\<lambda>(k, v). k = blob_key u) (put_setting (blob_key uid) blob (c_settings c))
      = rows_where (\<lambda>(k, v). k = blob_key u) (c_settings c)" if "u \<noteq> uid" for u
    unfolding put_setting_def using that by (auto simp: blob_key_def intro!: rows_where_update_other)
  have "fst (get_identity_blob_handler uid ?c) = Inr blob"
    using read by (simp add: get_identity_blob_handler_def with_conn_internal_def bindS_def)
  moreover have "get_identity_blob ?c u = get_identity_blob c u" if "u \<noteq> uid" for u
    using other [OF that] by (simp add: get_identity_blob_def query_row_def stmt_def)
  ultimately show ?thesis using put by blast
qed

lemma read_decimal_range: "0 \<le> acc \<Longrightarrow> read_decimal acc s = Some n \<Longrightarrow> 0 \<le> n"
proof (induction s arbitrary: acc)
  case (Cons x s)
  then have "read_decimal (acc * 10 + (char_byte x - 48)) s = Some n" "0 \<le> acc * 10 + (char_byte x - 48)"
    by (simp_all split: if_splits)
  then show ?case by (rule Cons.IH [rotated])
qed simp

text \<open>The check of the quiet hours lets only times of a day through, some of them with a plus sign.\<close>

lemma quiet_hours_in_range:
  assumes "is_valid_hh_mm s"
  shows "\<exists>h m. parse_u8 (take 2 s) = Some h \<and> parse_u8 (drop 3 s) = Some m \<and> 0 \<le> h \<and> h < 24 \<and> 0 \<le> m \<and> m < 60"
  using assms by (auto simp: is_valid_hh_mm_def parse_u8_def dest: read_decimal_range [rotated] split: if_splits option.splits list.splits)

lemma plus_sign_accepted: "is_valid_hh_mm ''+5:+9''"
  by (simp add: is_valid_hh_mm_def parse_u8_def char_byte_def)

end
