(* ===== verification/Uploads_Api.thy ===== *)
theory Uploads_Api
  imports Site_Kit Prekeys_Api Ws_Messages
begin

section \<open>Uploads\<close>

text \<open>
  \<open>api/uploads.rs\<close> with the quota statements of \<open>db/team_queries.rs\<close>. The state is the connection and the files of
  the upload directory; \<open>up_io\<close> gives the error text of a file operation that fails. The multipart reader and the
  time parser of \<open>chrono\<close> are parameters. Instants are in milliseconds.
\<close>

subsection \<open>Quota\<close>

definition get_team_upload_bytes_used :: "conn \<Rightarrow> string \<Rightarrow> int db_res" where
  "get_team_upload_bytes_used c tid = Inr (unwrap_or (query_row ''get_team_upload_bytes_used'' c
     (map (\<lambda>t. case map_of (c_upload_bytes c) (t_id t) of None \<Rightarrow> 0 | Some n \<Rightarrow> n) (rows_where (\<lambda>t. t_id t = tid) (c_teams c)))) 0)"

text \<open>The column \<open>upload_bytes_used\<close> of the teams, 0 unless written.\<close>

definition add_team_upload_bytes :: "string \<Rightarrow> int \<Rightarrow> unit db_op" where
  "add_team_upload_bytes tid delta = exec ''add_team_upload_bytes'' (\<lambda>c. Some (
     if tid \<in> t_id ` set (c_teams c)
     then c\<lparr>c_upload_bytes := (tid, max 0 ((case map_of (c_upload_bytes c) tid of None \<Rightarrow> 0 | Some n \<Rightarrow> n) + delta))
       # delete_where (\<lambda>p. fst p = tid) (c_upload_bytes c)\<rparr>
     else c))"

record upload_config =
  uc_max_upload_size :: int
  uc_quota_gb :: u64
  uc_upload_dir :: string

text \<open>\<open>gb as i64 * 1024 * 1024 * 1024\<close>, with its wrap-around.\<close>

definition quota_bytes :: "upload_config \<Rightarrow> int" where
  "quota_bytes cfg = sint (uc_quota_gb cfg * 1024 * 1024 * 1024)"

subsection \<open>Files\<close>

record upload_site =
  up_conn :: conn
  up_files :: "string \<Rightarrow> bytes option"
  up_io :: "string \<Rightarrow> string option"

type_synonym 'a upload_op = "(upload_site, app_error, 'a) effect"

definition on_conn :: "'a handler \<Rightarrow> 'a upload_op" where
  "on_conn h s = (case h (up_conn s) of (r, c) \<Rightarrow> (r, s\<lparr>up_conn := c\<rparr>))"

text \<open>\<open>PathBuf::join\<close>.\<close>

definition path_join :: "string \<Rightarrow> string \<Rightarrow> string" where
  "path_join a b = (if starts_with ''/'' b then b else if a = [] \<or> last a = CHR ''/'' then a @ b else a @ ''/'' @ b)"

definition bad_team_id :: "string \<Rightarrow> bool" where
  "bad_team_id tid \<longleftrightarrow> contains ''..'' tid \<or> CHR ''/'' \<in> set tid \<or> CHR 0x5C \<in> set tid"

definition store_file :: "upload_config \<Rightarrow> string \<Rightarrow> string \<Rightarrow> bytes \<Rightarrow> string upload_op" where
  "store_file cfg tid aid data s =
     (let path = path_join (path_join (uc_upload_dir cfg) tid) aid
      in case up_io s ''mkdir'' of Some e \<Rightarrow> (Inl (Internal (''create upload dir: '' @ e)), s)
         | None \<Rightarrow> (case up_io s ''write'' of Some e \<Rightarrow> (Inl (Internal (''write file: '' @ e)), s)
         | None \<Rightarrow> (Inr path, s\<lparr>up_files := (up_files s)(path := Some data)\<rparr>)))"

subsection \<open>Upload\<close>

definition ALLOWED_PREFIXES :: "string list" where
  "ALLOWED_PREFIXES = [''image/'', ''audio/'', ''video/'', ''text/plain'', ''application/pdf'', ''application/octet-stream'', ''application/json'']"

definition sanitize_upload_content_type :: "string \<Rightarrow> string" where
  "sanitize_upload_content_type raw =
     (if list_ex (\<lambda>p. starts_with p (ascii_lower (trim raw))) ALLOWED_PREFIXES then raw else ''application/octet-stream'')"

text \<open>The field of the form, as far as it was read: name and type of the file, and its bytes or the error of reading them.\<close>

record upload_field =
  uf_file_name :: "string option"
  uf_content_type :: "string option"
  uf_bytes :: "string + bytes"

definition first_field :: "string + upload_field option \<Rightarrow> app_error + upload_field" where
  "first_field form = bindE (map_err (\<lambda>e. BadRequest (''multipart error: '' @ e)) form)
     (\<lambda>f. ok_or f (BadRequest ''no file uploaded''))"

definition new_upload :: "string \<Rightarrow> string \<Rightarrow> string \<Rightarrow> bytes \<Rightarrow> bytes \<Rightarrow> int \<Rightarrow> string \<Rightarrow> attachment" where
  "new_upload aid now uid filename ctype sz path = \<lparr>a_id = aid, a_message_id = [], a_filename = filename, a_content_type = ctype,
     a_size = sz, a_storage_path = path, a_uploader_id = Some uid, a_created_at = now\<rparr>"

definition record_upload :: "string \<Rightarrow> attachment \<Rightarrow> attachment db_op" where
  "record_upload tid att = bindS (create_attachment att) (\<lambda>_. bindS (add_team_upload_bytes tid (a_size att)) (\<lambda>_. returnS att))"

definition quota_check :: "upload_config \<Rightarrow> string \<Rightarrow> int \<Rightarrow> unit upload_op" where
  "quota_check cfg tid sz = (if quota_bytes cfg > 0 then
       bindS (on_conn (with_conn_internal (readS (\<lambda>c. get_team_upload_bytes_used c tid)))) (\<lambda>used.
       if used + sz > quota_bytes cfg then throwS (PayloadTooLarge ''team upload quota exceeded'') else returnS ())
     else returnS ())"

definition upload :: "upload_config \<Rightarrow> string \<Rightarrow> string \<Rightarrow> string \<Rightarrow> string \<Rightarrow> string + upload_field option \<Rightarrow> attachment upload_op" where
  "upload cfg aid now uid tid form =
     bindS (on_conn (with_conn_internal (readS (\<lambda>c. get_member_by_user_and_team c uid tid)))) (\<lambda>member.
     if member = None then throwS (Forbidden ''not a member of this team'')
     else bindS (readS (\<lambda>_. first_field form)) (\<lambda>field.
     let filename = as_bytes (case uf_file_name field of None \<Rightarrow> ''unknown'' | Some n \<Rightarrow> n);
         ctype = as_bytes (sanitize_upload_content_type (case uf_content_type field of None \<Rightarrow> ''application/octet-stream'' | Some t \<Rightarrow> t))
     in bindS (readS (\<lambda>_. map_err (\<lambda>e. BadRequest (''failed to read upload: '' @ e)) (uf_bytes field))) (\<lambda>data.
     let sz = int (length data)
     in if sz > uc_max_upload_size cfg then throwS (BadRequest ''file too large'')
     else if bad_team_id tid then throwS (BadRequest ''invalid team id'')
     else bindS (quota_check cfg tid sz) (\<lambda>_.
     bindS (store_file cfg tid aid data) (\<lambda>path.
     on_conn (with_conn_internal (record_upload tid (new_upload aid now uid filename ctype sz path))))))))"

text \<open>The same in two halves: up to the check of the quota, and from the file on. Other requests come in between.\<close>

definition upload_check :: "upload_config \<Rightarrow> string \<Rightarrow> string \<Rightarrow> string + upload_field option \<Rightarrow> (bytes \<times> bytes \<times> bytes) upload_op" where
  "upload_check cfg uid tid form =
     bindS (on_conn (with_conn_internal (readS (\<lambda>c. get_member_by_user_and_team c uid tid)))) (\<lambda>member.
     if member = None then throwS (Forbidden ''not a member of this team'')
     else bindS (readS (\<lambda>_. first_field form)) (\<lambda>field.
     let filename = as_bytes (case uf_file_name field of None \<Rightarrow> ''unknown'' | Some n \<Rightarrow> n);
         ctype = as_bytes (sanitize_upload_content_type (case uf_content_type field of None \<Rightarrow> ''application/octet-stream'' | Some t \<Rightarrow> t))
     in bindS (readS (\<lambda>_. map_err (\<lambda>e. BadRequest (''failed to read upload: '' @ e)) (uf_bytes field))) (\<lambda>data.
     let sz = int (length data)
     in if sz > uc_max_upload_size cfg then throwS (BadRequest ''file too large'')
     else if bad_team_id tid then throwS (BadRequest ''invalid team id'')
     else bindS (quota_check cfg tid sz) (\<lambda>_. returnS (filename, ctype, data)))))"

definition upload_write :: "upload_config \<Rightarrow> string \<Rightarrow> string \<Rightarrow> string \<Rightarrow> string \<Rightarrow> bytes \<times> bytes \<times> bytes \<Rightarrow> attachment upload_op" where
  "upload_write cfg aid now uid tid = (\<lambda>(filename, ctype, data).
     bindS (store_file cfg tid aid data) (\<lambda>path.
     on_conn (with_conn_internal (record_upload tid (new_upload aid now uid filename ctype (int (length data)) path)))))"

lemma upload_halves: "upload cfg aid now uid tid form = bindS (upload_check cfg uid tid form) (upload_write cfg aid now uid tid)"
  by (rule ext) (simp add: upload_def upload_check_def upload_write_def bindS_def Let_def split: prod.split sum.split)

subsection \<open>Download\<close>

definition UNLINKED_GRACE_SECS :: int where "UNLINKED_GRACE_SECS = 3600"

text \<open>\<open>TimeDelta::num_seconds\<close>, towards zero.\<close>

definition num_seconds :: "int \<Rightarrow> int" where
  "num_seconds ms = sgn ms * (\<bar>ms\<bar> div 1000)"

text \<open>The last component of \<open>Path::parent\<close>, the empty string when it is not a name.\<close>

definition parent_dir_name :: "string \<Rightarrow> string" where
  "parent_dir_name p = (case rev (filter (\<lambda>x. x \<noteq> [] \<and> x \<noteq> ''.'') (split_on CHR ''/'' p)) of
       _ # d # _ \<Rightarrow> if d = ''..'' then [] else d
     | _ \<Rightarrow> [])"

definition authorize_unlinked_attachment_fetch ::
  "(string \<Rightarrow> int option) \<Rightarrow> int \<Rightarrow> attachment \<Rightarrow> string \<Rightarrow> string \<Rightarrow> int \<Rightarrow> db_error + unit" where
  "authorize_unlinked_attachment_fetch created now_ms att uid tid grace =
     (if \<not> (case created (a_created_at att) of None \<Rightarrow> False | Some t \<Rightarrow> num_seconds (now_ms - t) < grace)
      then Inl (InvalidParameterName ''attachment is not linked to a message'')
      else case a_uploader_id att of
          Some upid \<Rightarrow> if upid \<noteq> uid then Inl (InvalidParameterName ''attachment does not belong to caller'') else Inr ()
        | None \<Rightarrow> if parent_dir_name (a_storage_path att) \<noteq> tid
            then Inl (InvalidParameterName ''attachment does not belong to this team'') else Inr ())"

definition authorize_download :: "(string \<Rightarrow> int option) \<Rightarrow> int \<Rightarrow> string \<Rightarrow> string \<Rightarrow> string \<Rightarrow> conn \<Rightarrow> db_error + attachment" where
  "authorize_download created now_ms uid tid aid c =
     bindE (require_team_member c uid tid) (\<lambda>_.
     bindE (get_attachment c aid) (\<lambda>found.
     bindE (ok_or found QueryReturnedNoRows) (\<lambda>att.
     if a_message_id att = [] then
       bindE (authorize_unlinked_attachment_fetch created now_ms att uid tid UNLINKED_GRACE_SECS) (\<lambda>_. Inr att)
     else
       bindE (get_message_by_id c (a_message_id att)) (\<lambda>m.
       bindE (ok_or m QueryReturnedNoRows) (\<lambda>msg.
       bindE (get_channel_by_id c (msg_channel_id msg)) (\<lambda>ch.
       bindE (ok_or ch QueryReturnedNoRows) (\<lambda>channel.
       if ch_team_id channel \<noteq> tid then Inl QueryReturnedNoRows
       else bindE (user_can_access_channel c uid tid (msg_channel_id msg)) (\<lambda>ok.
         if \<not> ok then Inl (InvalidParameterName ''channel access denied'') else Inr att))))))))"

definition attachment_error :: "db_error \<Rightarrow> app_error" where
  "attachment_error e = (case e of QueryReturnedNoRows \<Rightarrow> NotFound ''attachment not found''
     | InvalidParameterName msg \<Rightarrow> Forbidden msg | SqliteFailure \<Rightarrow> Internal (''db: '' @ db_error_text e))"

text \<open>The answer: the name and length in the headers, and the stream.\<close>

definition download ::
  "(string \<Rightarrow> int option) \<Rightarrow> int \<Rightarrow> string \<Rightarrow> string \<Rightarrow> string \<Rightarrow> (string \<times> int \<times> bytes) upload_op" where
  "download created now_ms uid tid aid s =
     (case authorize_download created now_ms uid tid aid (up_conn s) of
        Inl e \<Rightarrow> (Inl (attachment_error e), s)
      | Inr att \<Rightarrow> (case up_io s ''open'' of
            Some e \<Rightarrow> (Inl (Internal (''open file: '' @ e)), s)
          | None \<Rightarrow> (case up_files s (a_storage_path att) of
              None \<Rightarrow> (Inl (Internal ''open file: No such file or directory (os error 2)''), s)
            | Some data \<Rightarrow> (Inr (a_id att, a_size att, data), s))))"

subsection \<open>Deletion\<close>

definition delete_attachment_rows :: "string \<Rightarrow> string \<Rightarrow> string \<Rightarrow> string db_op" where
  "delete_attachment_rows uid tid aid =
     bindS (readS (\<lambda>c. user_has_permission c uid tid PERM_MANAGE_MESSAGES)) (\<lambda>ok.
     bindS (refuse_if (\<not> ok) (InvalidParameterName ''insufficient permissions'')) (\<lambda>_.
     bindS (readS (\<lambda>c. get_attachment c aid)) (\<lambda>found.
     bindS (some_or QueryReturnedNoRows found) (\<lambda>att.
     bindS (delete_attachment aid) (\<lambda>_.
     bindS (ignoreS (add_team_upload_bytes tid (- a_size att))) (\<lambda>_.
     returnS (a_storage_path att)))))))"

definition attachments_delete :: "string \<Rightarrow> string \<Rightarrow> string \<Rightarrow> unit upload_op" where
  "attachments_delete uid tid aid s =
     (case delete_attachment_rows uid tid aid (up_conn s) of
        (Inl e, c) \<Rightarrow> (Inl (attachment_error e), s\<lparr>up_conn := c\<rparr>)
      | (Inr path, c) \<Rightarrow> (Inr (), s\<lparr>up_conn := c,
          up_files := (if up_io s ''remove'' = None then (up_files s)(path := None) else up_files s)\<rparr>))"

subsection \<open>Who reads a file\<close>

definition fetchable :: "(string \<Rightarrow> int option) \<Rightarrow> int \<Rightarrow> conn \<Rightarrow> string \<Rightarrow> string \<Rightarrow> attachment \<Rightarrow> bool" where
  "fetchable created now_ms c uid tid att \<longleftrightarrow>
     (if a_message_id att = [] then
        (\<exists>t. created (a_created_at att) = Some t \<and> num_seconds (now_ms - t) < UNLINKED_GRACE_SECS)
        \<and> (case a_uploader_id att of Some u \<Rightarrow> u = uid | None \<Rightarrow> parent_dir_name (a_storage_path att) = tid)
      else \<exists>msg \<in> set (c_messages c). \<exists>ch \<in> set (c_channels c). msg_id msg = a_message_id att
        \<and> ch_id ch = msg_channel_id msg \<and> ch_team_id ch = tid \<and> may_access c uid tid (ch_id ch))"

lemma get_attachment_SomeD: "get_attachment c aid = Inr (Some a) \<Longrightarrow> a \<in> set (c_attachments c) \<and> a_id a = aid"
  by (auto simp: get_attachment_def optional_query_row stmt_eq_Inr dest!: first_row_SomeD sym [of "Some _"])

lemma unlinked_fetch_Inr:
  "authorize_unlinked_attachment_fetch created now_ms att uid tid UNLINKED_GRACE_SECS = Inr u
   \<Longrightarrow> (\<exists>t. created (a_created_at att) = Some t \<and> num_seconds (now_ms - t) < UNLINKED_GRACE_SECS)
     \<and> (case a_uploader_id att of Some u \<Rightarrow> u = uid | None \<Rightarrow> parent_dir_name (a_storage_path att) = tid)"
  by (auto simp: authorize_unlinked_attachment_fetch_def split: if_splits option.splits)

lemma authorize_download_sound:
  assumes "group_lookups_ok c" and ok: "authorize_download created now_ms uid tid aid c = Inr att"
  shows "is_member c uid tid \<and> att \<in> set (c_attachments c) \<and> a_id att = aid \<and> fetchable created now_ms c uid tid att"
proof -
  have r: "require_team_member c uid tid = Inr ()" and g: "get_attachment c aid = Inr (Some att)"
    using ok by (auto simp: authorize_download_def split: if_splits)
  then have base: "is_member c uid tid" "att \<in> set (c_attachments c)" "a_id att = aid"
    using require_team_member_InrD get_attachment_SomeD by blast+
  show ?thesis
  proof (cases "a_message_id att = []")
    case True
    with ok have "authorize_unlinked_attachment_fetch created now_ms att uid tid UNLINKED_GRACE_SECS = Inr ()"
      by (simp add: authorize_download_def r g)
    from unlinked_fetch_Inr [OF this] base True show ?thesis by (simp add: fetchable_def)
  next
    case False
    with ok obtain msg ch where m: "get_message_by_id c (a_message_id att) = Inr (Some msg)"
      and ch: "get_channel_by_id c (msg_channel_id msg) = Inr (Some ch)" "ch_team_id ch = tid"
      and acc: "user_can_access_channel c uid tid (msg_channel_id msg) = Inr True"
      by (auto simp: authorize_download_def r g split: if_splits)
    have "may_access c uid tid (msg_channel_id msg)" using access_granted_sound [OF assms(1) acc] .
    with False base ch(2) get_message_by_id_SomeD [OF m] get_channel_by_id_SomeD [OF ch(1)] show ?thesis
      by (auto simp: fetchable_def intro!: bexI [of _ msg] bexI [of _ ch])
  qed
qed

text \<open>C12. Who can download. A file is sent only to a member of the team in the path, and it is the file of the
  attachment that was asked for. An attachment that hangs on a message is sent only when the message is in a channel of that
  team which the access policy opens to the caller; one that does not is sent for an hour, to its uploader (for rows
  without uploader: to members of the team whose directory it is in). A download changes nothing.\<close>

theorem download_guarded:
  assumes "group_lookups_ok (up_conn s)" and "download created now_ms uid tid aid s = (Inr (name, n, data), s')"
  shows "s' = s \<and> name = aid \<and> is_member (up_conn s) uid tid
    \<and> (\<exists>att \<in> set (c_attachments (up_conn s)). a_id att = aid \<and> up_files s (a_storage_path att) = Some data
        \<and> n = a_size att \<and> fetchable created now_ms (up_conn s) uid tid att)"
proof -
  obtain att where ok: "authorize_download created now_ms uid tid aid (up_conn s) = Inr att"
    using assms(2) by (auto simp: download_def split: sum.splits)
  with authorize_download_sound [OF assms(1) this] assms(2) show ?thesis
    by (auto simp: download_def split: option.splits)
qed

subsection \<open>Attachments of others\<close>

lemma may_access_rows:
  assumes "c_teams c' = c_teams c" and "c_channels c' = c_channels c" and "c_roles c' = c_roles c" and "c_members c' = c_members c"
    and "c_member_roles c' = c_member_roles c" and "c_channel_role_access c' = c_channel_role_access c"
    and "c_group_role_access c' = c_group_role_access c"
  shows "may_access c' uid tid cid = may_access c uid tid cid"
  unfolding may_access_def owns_team_def gating_roles_def default_role_id_def is_member_def assms by (rule refl)

text \<open>C13. Any file can be taken over. Whoever may post in some channel names the attachment of somebody else, from any team
  or conversation, in a message there; after that the download under the own team sends the file.\<close>

theorem foreign_file_taken:
  fixes s :: upload_site
  assumes h: "healthy (w_conn w)" and wf: "wf_chat (w_conn w)" and "parse_message_send_payload payload = Some p"
    and access: "check_channel_access (w_conn w) (ms_channel_id p) tid uid"
    and "compute_slow_mode_block epoch now_ts (w_conn w) (ms_channel_id p) tid uid = None"
    and row: "row = \<lparr>msg_id = new_id, msg_channel_id = ms_channel_id p, msg_dm_channel_id = [],
        msg_author_id = uid, msg_content = ms_content p,
        msg_type = (if ms_msg_type p = [] then ''text'' else ms_msg_type p),
        msg_thread_id = (case ms_thread_id p of None \<Rightarrow> [] | Some t \<Rightarrow> t),
        msg_reply_to = ms_reply_to_message_id p, msg_edited_at = None, msg_deleted = False,
        msg_lamport_ts = 0, msg_created_at = now\<rparr>"
    and "message_ok (w_conn w) row" and "new_id \<noteq> []" and member: "is_member (w_conn w) uid tid"
    and att: "att \<in> set (c_attachments (w_conn w))" "a_id att \<in> set (ms_attachment_ids p)"
    and stored: "up_files s (a_storage_path att) = Some data" "up_io s ''open'' = None"
  shows "let c = w_conn (handle_message_send epoch now_ts new_id now uid uname tid payload w)
    in fst (download created now_ms uid tid (a_id att) (s\<lparr>up_conn := c\<rparr>)) = Inr (a_id att, a_size att, data)"
proof -
  let ?c = "w_conn w" and ?c' = "w_conn (handle_message_send epoch now_ts new_id now uid uname tid payload w)"
  have conn: "?c' = ?c\<lparr>c_messages := c_messages ?c @ [row], c_attachments := link_all new_id (ms_attachment_ids p) (c_attachments ?c)\<rparr>"
    using assms(3-5) persist_healthy [OF h assms(7)]
    by (simp add: handle_message_send_def Let_def row send_defs event_new_def)
  let ?a = "att\<lparr>a_message_id := new_id\<rparr>"
  have ids: "map a_id (link_all new_id (ms_attachment_ids p) (c_attachments ?c)) = map a_id (c_attachments ?c)"
    by (simp add: link_all_def)
  have "?a \<in> set (link_all new_id (ms_attachment_ids p) (c_attachments ?c))"
    using att by (force simp: link_all_def)
  then have "lookup_by a_id (a_id ?a) (link_all new_id (ms_attachment_ids p) (c_attachments ?c)) = Some ?a"
    using wf ids by (intro lookup_by_unique) (simp_all add: wf_chat_def)
  then have ga: "get_attachment ?c' (a_id att) = Inr (Some ?a)"
    using h by (simp add: get_attachment_def optional_query_row conn lookup_by_def healthy_def stmt_def)
  have "new_id \<notin> msg_id ` set (c_messages ?c)" using assms(7) by (simp add: message_ok_def row)
  then have "rows_where (\<lambda>m. msg_id m = new_id) (c_messages ?c) = []" by (auto simp: rows_where_eq_Nil)
  then have gm: "get_message_by_id ?c' new_id = Inr (Some row)"
    using h by (simp add: get_message_by_id_def optional_query_row conn healthy_def stmt_def row)
  obtain ch where gc: "get_channel_by_id ?c (ms_channel_id p) = Inr (Some ch)" "ch_team_id ch = tid"
    using access h by (auto simp: check_access_healthy get_channel_by_id_def optional_query_row)
  have h': "healthy ?c'" using h by (simp add: conn healthy_def)
  have "may_access ?c' uid tid (ms_channel_id p)"
    using access h by (subst may_access_rows [of _ ?c]) (simp_all add: conn check_access_healthy)
  then have may: "user_can_access_channel ?c' uid tid (ms_channel_id p) = Inr True" using h' by (simp add: access_decides)
  have gc': "get_channel_by_id ?c' (ms_channel_id p) = Inr (Some ch)"
    using gc(1) by (simp add: conn get_channel_by_id_def optional_query_row stmt_def)
  have "is_member ?c' uid tid" using member by (simp add: conn is_member_def)
  then have mem: "require_team_member ?c' uid tid = Inr ()" by (simp only: require_team_member_healthy [OF h'] if_True)
  have "authorize_download created now_ms uid tid (a_id att) ?c' = Inr ?a"
    using ga gm gc(2) gc' may mem assms(8) by (simp add: authorize_download_def row)
  then show ?thesis using stored by (simp add: download_def Let_def)
qed

text \<open>A file of a conversation that \<open>bob\<close> is not in, and \<open>bob\<close>, who takes it.\<close>

definition sample_private :: conn where
  "sample_private = sample_chat\<lparr>
     c_dm_channels := [\<lparr>dm_id = ''d'', dm_team_id = ''t'', dm_type = ''dm'', dm_name = [], dm_created_at = []\<rparr>],
     c_messages := c_messages sample_chat @ [(hd (c_messages sample_chat))\<lparr>msg_id := ''secret'', msg_channel_id := [],
       msg_dm_channel_id := ''d'', msg_author_id := ''owner''\<rparr>],
     c_attachments := [(hd (c_attachments sample_chat))\<lparr>a_message_id := ''secret'', a_uploader_id := Some ''owner''\<rparr>]\<rparr>"

definition sample_uploads :: upload_site where
  "sample_uploads = \<lparr>up_conn = sample_private, up_files = (\<lambda>p. if p = ''p'' then Some [1] else None), up_io = (\<lambda>_. None)\<rparr>"

lemmas sample_private_defs = sample_private_def sample_chat_def sample_conn_def empty_conn_def sample_user_def

lemma sample_private_ok:
  "healthy sample_private" "wf_chat sample_private" "is_member sample_private ''bob'' ''t''"
  "check_channel_access sample_private ''ch'' ''t'' ''bob''"
  by (simp add: sample_private_defs healthy_def)
    (simp add: sample_private_defs wf_chat_def refs_def opt_refs_def, simp add: sample_private_defs is_member_def,
     simp add: check_access_healthy may_access_def gating_roles_def default_role_id_def sample_private_defs healthy_def owns_team_def)

lemma sample_private_slow: "compute_slow_mode_block (\<lambda>_. Some 0) 10 sample_private ''ch'' ''t'' ''bob'' = None"
proof -
  have h: "healthy sample_private" by (rule sample_private_ok)
  have perm: "user_has_permission sample_private ''bob'' ''t'' PERM_BYPASS_SLOW_MODE = Inr False"
    by (simp add: user_has_permission_Inr owns_team_def held_roles_def sample_private_defs perm_defs healthy_def)
  have "newest_own sample_private ''ch'' ''bob'' = Some (hd (c_messages sample_chat))"
    by (simp add: newest_own_def sample_private_defs)
  moreover have "slow_mode_seconds sample_private ''ch'' = 10" by (simp add: slow_mode_seconds_def sample_private_defs)
  ultimately show ?thesis by (simp add: slow_mode_healthy [OF h perm])
qed

theorem foreign_file_taken_witness:
  "fst (download (\<lambda>_. None) 0 ''bob'' ''t'' ''a'' sample_uploads) = Inl (NotFound ''attachment not found'')
   \<and> fst (download (\<lambda>_. None) 0 ''bob'' ''t'' ''a'' (sample_uploads\<lparr>up_conn :=
       w_conn (handle_message_send (\<lambda>_. Some 0) 10 ''n'' ''now'' ''bob'' ''bob'' ''t'' sample_send
         \<lparr>w_conn = sample_private, w_rooms = None, w_out = [], w_sfu = []\<rparr>)\<rparr>)) = Inr (''a'', 1, [1])"
proof (rule conjI)
  have "authorize_download (\<lambda>_. None) 0 ''bob'' ''t'' ''a'' sample_private = Inl QueryReturnedNoRows"
    using sample_private_ok(3)
    by (simp add: authorize_download_def require_team_member_healthy [OF sample_private_ok(1)])
      (simp add: get_attachment_def get_message_by_id_def get_channel_by_id_def sample_private_defs query_row_def stmt_def)
  then show "fst (download (\<lambda>_. None) 0 ''bob'' ''t'' ''a'' sample_uploads) = Inl (NotFound ''attachment not found'')"
    by (simp add: download_def sample_uploads_def attachment_error_def)
  let ?row = "\<lparr>msg_id = ''n'', msg_channel_id = ''ch'', msg_dm_channel_id = [], msg_author_id = ''bob'',
    msg_content = ''hello'', msg_type = ''text'', msg_thread_id = [], msg_reply_to = None,
    msg_edited_at = None, msg_deleted = False, msg_lamport_ts = 0, msg_created_at = ''now''\<rparr>"
  let ?att = "hd (c_attachments sample_private)"
  have "message_ok sample_private ?row"
    by (simp add: message_ok_def sample_private_defs message_types_def)
  moreover have "?att \<in> set (c_attachments sample_private)" "a_id ?att = ''a''" "a_storage_path ?att = ''p''" "a_size ?att = 1"
    by (simp_all add: sample_private_defs)
  ultimately show "fst (download (\<lambda>_. None) 0 ''bob'' ''t'' ''a'' (sample_uploads\<lparr>up_conn :=
       w_conn (handle_message_send (\<lambda>_. Some 0) 10 ''n'' ''now'' ''bob'' ''bob'' ''t'' sample_send
         \<lparr>w_conn = sample_private, w_rooms = None, w_out = [], w_sfu = []\<rparr>)\<rparr>)) = Inr (''a'', 1, [1])"
    using foreign_file_taken [of "\<lparr>w_conn = sample_private, w_rooms = None, w_out = [], w_sfu = []\<rparr>" sample_send _ "''t''" "''bob''" "\<lambda>_. Some 0" 10
        ?row "''n''" "''now''" ?att sample_uploads "[1]", OF _ _ sample_send_parsed] sample_private_ok sample_private_slow
    by (simp add: sample_uploads_def)
qed

theorem download_guarded_witness:
  "\<exists>att \<in> set (c_attachments sample_chat). a_id att = ''a'' \<and> fetchable (\<lambda>_. None) 0 sample_chat ''bob'' ''t'' att"
proof -
  let ?s = "sample_uploads\<lparr>up_conn := sample_chat\<rparr>"
  have h: "healthy sample_chat" by simp
  have "user_can_access_channel sample_chat ''bob'' ''t'' ''ch'' = Inr True" "is_member sample_chat ''bob'' ''t''"
    by (simp add: access_decides may_access_def gating_roles_def default_role_id_def sample_private_defs healthy_def owns_team_def)
      (simp add: is_member_def sample_private_defs)
  moreover have "get_attachment sample_chat ''a'' = Inr (Some (hd (c_attachments sample_chat)))"
    "get_message_by_id sample_chat ''m'' = Inr (Some (hd (c_messages sample_chat)))"
    "get_channel_by_id sample_chat ''ch'' = Inr (Some (hd (c_channels sample_chat)))"
    "a_message_id (hd (c_attachments sample_chat)) = ''m''" "msg_channel_id (hd (c_messages sample_chat)) = ''ch''"
    "ch_team_id (hd (c_channels sample_chat)) = ''t''"
    by (simp_all add: get_attachment_def get_message_by_id_def get_channel_by_id_def sample_private_defs query_row_def stmt_def)
  ultimately have "authorize_download (\<lambda>_. None) 0 ''bob'' ''t'' ''a'' sample_chat = Inr (hd (c_attachments sample_chat))"
    by (simp add: authorize_download_def require_team_member_healthy [OF h])
  then have "download (\<lambda>_. None) 0 ''bob'' ''t'' ''a'' ?s = (Inr (''a'', 1, [1]), ?s)"
    by (simp add: download_def sample_uploads_def) (simp add: sample_private_defs)
  moreover have "group_lookups_ok (up_conn ?s)" by (simp add: group_lookups_ok_def sample_private_defs)
  ultimately show ?thesis using download_guarded [of ?s "\<lambda>_. None" 0 "''bob''" "''t''" "''a''" "''a''" 1 "[1]" ?s] by auto
qed

subsection \<open>The quota\<close>

definition upload_tally :: "conn \<Rightarrow> string \<Rightarrow> int" where
  "upload_tally c tid = (case map_of (c_upload_bytes c) tid of None \<Rightarrow> 0 | Some n \<Rightarrow> n)"

definition quota_kept :: "upload_config \<Rightarrow> upload_site \<Rightarrow> bool" where
  "quota_kept cfg s \<longleftrightarrow> ''get_team_upload_bytes_used'' \<notin> set (c_faults (up_conn s))
     \<and> (\<forall>a \<in> set (c_attachments (up_conn s)). 0 \<le> a_size a) \<and> (\<forall>tid. 0 \<le> upload_tally (up_conn s) tid \<and> upload_tally (up_conn s) tid \<le> quota_bytes cfg)"

lemma quota_check_passes:
  assumes "fst (quota_check cfg tid sz s) = Inr u" and "0 < quota_bytes cfg"
    and "''get_team_upload_bytes_used'' \<notin> set (c_faults (up_conn s))" and "tid \<in> t_id ` set (c_teams (up_conn s))"
  shows "upload_tally (up_conn s) tid + sz \<le> quota_bytes cfg"
proof -
  obtain t ts where rows: "rows_where (\<lambda>t. t_id t = tid) (c_teams (up_conn s)) = t # ts" and t: "t_id t = tid"
  proof (cases "rows_where (\<lambda>t. t_id t = tid) (c_teams (up_conn s))")
    case Nil
    with assms(4) show thesis by (auto simp: rows_where_eq_Nil)
  next
    case (Cons t ts)
    then have "t \<in> set (rows_where (\<lambda>t. t_id t = tid) (c_teams (up_conn s)))" by simp
    then have "t_id t = tid" by simp
    with Cons show thesis by (rule that)
  qed
  have "get_team_upload_bytes_used (up_conn s) tid = Inr (upload_tally (up_conn s) tid)"
    using assms(3) by (simp add: get_team_upload_bytes_used_def query_row_def stmt_def rows t upload_tally_def unwrap_or_def)
  then show ?thesis
    using assms(1,2) by (simp add: quota_check_def bindS_def on_conn_def with_conn_internal_def split: if_splits)
qed

lemma quota_check_state [simp]: "snd (quota_check cfg tid sz s) = s"
  by (simp add: quota_check_def bindS_def on_conn_def with_conn_internal_def split: prod.split sum.split)

lemma upload_tally_add:
  "upload_tally (snd (add_team_upload_bytes tid d c)) x
    \<le> (if x = tid \<and> tid \<in> t_id ` set (c_teams c) then max (upload_tally c tid) (max 0 (upload_tally c tid + d)) else upload_tally c x)"
proof -
  have other: "map_of (delete_where (\<lambda>p. fst p = tid) rows) x = map_of rows x" if "x \<noteq> tid" for rows :: "(string \<times> int) list"
    using that by (induction rows) (auto simp: delete_where_def)
  show ?thesis
    by (cases "x = tid") (auto simp: add_team_upload_bytes_def exec_def upload_tally_def other)
qed

lemma on_conn_sel [simp]:
  "fst (on_conn h s) = fst (h (up_conn s))" "snd (on_conn h s) = s\<lparr>up_conn := snd (h (up_conn s))\<rparr>"
  by (simp_all add: on_conn_def split: prod.split)

lemma store_file_conn [simp]: "up_conn (snd (store_file cfg tid aid data s)) = up_conn s"
  by (simp add: store_file_def Let_def split: option.split)

lemma add_bytes_frame [simp]:
  "c_faults (snd (add_team_upload_bytes tid d c)) = c_faults c" "c_teams (snd (add_team_upload_bytes tid d c)) = c_teams c"
  "c_attachments (snd (add_team_upload_bytes tid d c)) = c_attachments c"
  by (simp_all add: add_team_upload_bytes_def exec_def)

lemma tally_other_tables [simp]: "upload_tally (c\<lparr>c_attachments := as\<rparr>) x = upload_tally c x"
  by (simp add: upload_tally_def)

lemma upload_tally_nonneg: "0 \<le> upload_tally c x \<Longrightarrow> 0 \<le> upload_tally (snd (add_team_upload_bytes tid d c)) x"
proof -
  have other: "map_of (delete_where (\<lambda>p. fst p = tid) rows) x = map_of rows x" if "x \<noteq> tid" for rows :: "(string \<times> int) list"
    using that by (induction rows) (auto simp: delete_where_def)
  show "0 \<le> upload_tally c x \<Longrightarrow> ?thesis"
    by (cases "x = tid") (auto simp: add_team_upload_bytes_def exec_def upload_tally_def other)
qed

text \<open>How the writes of the two handlers move the tallies: only that of one team grows, by at most \<open>d\<close>.\<close>

definition tally_moves :: "string \<Rightarrow> int \<Rightarrow> conn \<Rightarrow> conn \<Rightarrow> bool" where
  "tally_moves tid d c c' \<longleftrightarrow> c_faults c' = c_faults c \<and> c_teams c' = c_teams c
     \<and> (\<forall>a \<in> set (c_attachments c'). a \<in> set (c_attachments c) \<or> 0 \<le> a_size a)
     \<and> (\<forall>x. 0 \<le> upload_tally c x \<longrightarrow> 0 \<le> upload_tally c' x
          \<and> upload_tally c' x \<le> upload_tally c x + (if x = tid \<and> tid \<in> t_id ` set (c_teams c) then d else 0))"

lemma tally_moves_refl [simp]: "0 \<le> d \<Longrightarrow> tally_moves tid d c c"
  by (simp add: tally_moves_def)

lemma tally_moves_add:
  assumes "0 \<le> d" and "e \<le> d"
  shows "tally_moves tid d c (snd (add_team_upload_bytes tid e c))"
proof -
  have "upload_tally (snd (add_team_upload_bytes tid e c)) x \<le> upload_tally c x + (if x = tid \<and> tid \<in> t_id ` set (c_teams c) then d else 0)"
    if "0 \<le> upload_tally c x" for x
    using upload_tally_add [of tid e c x] that assms by (auto split: if_splits)
  then show ?thesis by (simp add: tally_moves_def upload_tally_nonneg)
qed

lemma tally_moves_trans: "tally_moves tid 0 c c' \<Longrightarrow> tally_moves tid d c' c'' \<Longrightarrow> tally_moves tid d c c''"
  unfolding tally_moves_def by (fastforce split: if_splits)

lemma tally_moves_attachments:
  "\<forall>a \<in> set as. a \<in> set (c_attachments c) \<or> 0 \<le> a_size a \<Longrightarrow> tally_moves tid 0 c (c\<lparr>c_attachments := as\<rparr>)"
  by (simp add: tally_moves_def)

lemma record_upload_moves:
  assumes "0 \<le> a_size att"
  shows "tally_moves tid (a_size att) c (snd (record_upload tid att c))"
proof -
  let ?c = "snd (create_attachment att c)"
  have made: "tally_moves tid 0 c ?c"
    using assms by (auto simp: create_attachment_def exec_def intro!: tally_moves_attachments)
  then have "tally_moves tid (a_size att) c ?c" using tally_moves_trans tally_moves_refl assms by blast
  moreover have "tally_moves tid (a_size att) c (snd (add_team_upload_bytes tid (a_size att) ?c))"
    using tally_moves_trans [OF made] tally_moves_add assms by blast
  ultimately show ?thesis by (simp add: record_upload_def bindS_split split: sum.split)
qed

lemma delete_rows_moves:
  assumes "\<forall>a \<in> set (c_attachments c). 0 \<le> a_size a"
  shows "tally_moves tid 0 c (snd (delete_attachment_rows uid tid aid c))"
proof -
  have rest: "tally_moves tid 0 c (snd (bindS (delete_attachment aid) (\<lambda>_. bindS (ignoreS (add_team_upload_bytes tid (- a_size a))) (\<lambda>_. returnS (a_storage_path a))) c))"
    if a: "a \<in> set (c_attachments c)" for a
  proof -
    let ?d = "snd (delete_attachment aid c)"
    have "tally_moves tid 0 c ?d" by (auto simp: delete_attachment_def exec_def intro!: tally_moves_attachments)
    moreover have "tally_moves tid 0 ?d (snd (add_team_upload_bytes tid (- a_size a) ?d))" using assms a by (intro tally_moves_add) auto
    ultimately show ?thesis by (auto simp: bindS_split intro: tally_moves_trans split: sum.split)
  qed
  show ?thesis
  proof (cases "get_attachment c aid")
    case (Inr o1)
    with rest get_attachment_SomeD show ?thesis
      by (cases o1) (auto simp: delete_attachment_rows_def bindS_split refuse_if_def simp del: bindS_readS split: sum.split)
  qed (auto simp: delete_attachment_rows_def bindS_split refuse_if_def split: sum.split)
qed

text \<open>Requests that overlap: the uploads between their two halves are listed. One that is cut off stays in no list.\<close>

record pending_upload =
  pu_aid :: string
  pu_now :: string
  pu_uid :: string
  pu_tid :: string
  pu_file :: "bytes \<times> bytes \<times> bytes"

record upload_floor =
  fl_site :: upload_site
  fl_pending :: "pending_upload list"

datatype floor_event =
    BeginUpload string string string string "string + upload_field option"
  | FinishUpload nat
  | CutOff nat
  | DeleteFile string string string

definition remove_at :: "nat \<Rightarrow> 'a list \<Rightarrow> 'a list" where
  "remove_at k xs = take k xs @ drop (Suc k) xs"

fun floor_step :: "upload_config \<Rightarrow> upload_floor \<Rightarrow> floor_event \<Rightarrow> upload_floor" where
  "floor_step cfg f (BeginUpload aid now uid tid form) = (case upload_check cfg uid tid form (fl_site f) of
       (Inl e, s) \<Rightarrow> f\<lparr>fl_site := s\<rparr>
     | (Inr x, s) \<Rightarrow> f\<lparr>fl_site := s, fl_pending := fl_pending f @ [\<lparr>pu_aid = aid, pu_now = now, pu_uid = uid, pu_tid = tid, pu_file = x\<rparr>]\<rparr>)"
| "floor_step cfg f (FinishUpload k) = (if k < length (fl_pending f)
     then let p = fl_pending f ! k in f\<lparr>fl_site := snd (upload_write cfg (pu_aid p) (pu_now p) (pu_uid p) (pu_tid p) (pu_file p) (fl_site f)),
            fl_pending := remove_at k (fl_pending f)\<rparr>
     else f)"
| "floor_step cfg f (CutOff k) = f\<lparr>fl_pending := remove_at k (fl_pending f)\<rparr>"
| "floor_step cfg f (DeleteFile uid tid aid) = f\<lparr>fl_site := snd (attachments_delete uid tid aid (fl_site f))\<rparr>"

definition overlap_ok :: "nat \<Rightarrow> upload_floor \<Rightarrow> floor_event \<Rightarrow> bool" where
  "overlap_ok n f e \<longleftrightarrow> (case e of BeginUpload aid now uid tid form \<Rightarrow> length (fl_pending f) < n | _ \<Rightarrow> True)"

definition pending_size :: "pending_upload \<Rightarrow> int" where
  "pending_size p = (case pu_file p of (fname, ctype, data) \<Rightarrow> int (length data))"

definition pending_bytes :: "string \<Rightarrow> pending_upload list \<Rightarrow> int" where
  "pending_bytes tid ps = (\<Sum>p \<leftarrow> ps. if pu_tid p = tid then pending_size p else 0)"

text \<open>What is used and what is on its way.\<close>

definition floor_kept :: "upload_config \<Rightarrow> nat \<Rightarrow> upload_floor \<Rightarrow> bool" where
  "floor_kept cfg n f \<longleftrightarrow> ''get_team_upload_bytes_used'' \<notin> set (c_faults (up_conn (fl_site f)))
     \<and> (\<forall>a \<in> set (c_attachments (up_conn (fl_site f))). 0 \<le> a_size a)
     \<and> length (fl_pending f) \<le> n \<and> (\<forall>p \<in> set (fl_pending f). pending_size p \<le> uc_max_upload_size cfg)
     \<and> (\<forall>x. 0 \<le> upload_tally (up_conn (fl_site f)) x)
     \<and> (\<forall>x. if x \<in> t_id ` set (c_teams (up_conn (fl_site f)))
          then upload_tally (up_conn (fl_site f)) x + pending_bytes x (fl_pending f) \<le> quota_bytes cfg + (int n - 1) * uc_max_upload_size cfg
          else upload_tally (up_conn (fl_site f)) x \<le> quota_bytes cfg)"

lemma pending_size_nonneg [simp]: "0 \<le> pending_size p"
  by (simp add: pending_size_def split: prod.split)

lemma pending_bytes_nonneg [simp]: "0 \<le> pending_bytes tid ps"
  by (induction ps) (simp_all add: pending_bytes_def)

lemma pending_bytes_append [simp]: "pending_bytes tid (ps @ qs) = pending_bytes tid ps + pending_bytes tid qs"
  by (simp add: pending_bytes_def)

lemma pending_bytes_one [simp]: "pending_bytes tid [p] = (if pu_tid p = tid then pending_size p else 0)"
  by (simp add: pending_bytes_def)

lemma pending_bytes_bound:
  assumes "\<forall>p \<in> set ps. pending_size p \<le> m" and "0 \<le> m"
  shows "pending_bytes tid ps \<le> int (length ps) * m"
  using assms by (induction ps) (auto simp: pending_bytes_def algebra_simps)

lemma pending_bytes_remove:
  assumes "k < length ps"
  shows "pending_bytes tid (remove_at k ps) = pending_bytes tid ps - (if pu_tid (ps ! k) = tid then pending_size (ps ! k) else 0)"
proof -
  have "pending_bytes tid ps = pending_bytes tid (take k ps @ [ps ! k] @ drop (Suc k) ps)"
    using arg_cong [OF id_take_nth_drop [OF assms], of "pending_bytes tid"] by simp
  then show ?thesis by (simp add: remove_at_def pending_bytes_def)
qed

lemma remove_at_sub: "set (remove_at k ps) \<subseteq> set ps" "length (remove_at k ps) \<le> length ps" "pending_bytes tid (remove_at k ps) \<le> pending_bytes tid ps"
proof -
  show "set (remove_at k ps) \<subseteq> set ps" by (auto simp: remove_at_def dest: in_set_takeD in_set_dropD)
  show "length (remove_at k ps) \<le> length ps" by (simp add: remove_at_def)
  show "pending_bytes tid (remove_at k ps) \<le> pending_bytes tid ps"
    by (cases "k < length ps") (simp add: pending_bytes_remove, simp add: remove_at_def)
qed

lemma upload_check_state:
  "snd (upload_check cfg uid tid form s) = s"
  "fst (upload_check cfg uid tid form s) = Inr (fname, ctype, data) \<Longrightarrow>
     int (length data) \<le> uc_max_upload_size cfg \<and> fst (quota_check cfg tid (int (length data)) s) = Inr ()"
proof -
  have q: "quota_check cfg tid z s = (fst (quota_check cfg tid z s), s)" for z
    by (metis prod.collapse quota_check_state)
  show "snd (upload_check cfg uid tid form s) = s"
    by (auto simp: upload_check_def bindS_split Let_def split: sum.split)
  show "fst (upload_check cfg uid tid form s) = Inr (fname, ctype, data) \<Longrightarrow>
     int (length data) \<le> uc_max_upload_size cfg \<and> fst (quota_check cfg tid (int (length data)) s) = Inr ()"
    by (auto simp: upload_check_def bindS_split Let_def split: sum.splits if_splits)
qed

lemma upload_write_moves:
  "tally_moves tid (int (length (snd (snd x)))) (up_conn s) (up_conn (snd (upload_write cfg aid now uid tid x s)))"
proof -
  obtain fname ctype data where x: "x = (fname, ctype, data)" by (cases x)
  have "a_size (new_upload aid now uid fname ctype (int (length data)) path) = int (length data)" for path by (simp add: new_upload_def)
  then have "tally_moves tid (int (length data)) c (snd (record_upload tid (new_upload aid now uid fname ctype (int (length data)) path) c))" for c path
    using record_upload_moves [of "new_upload aid now uid fname ctype (int (length data)) path" tid c] by simp
  then show ?thesis by (simp add: x upload_write_def bindS_split split: sum.split)
qed

lemma floor_kept_moves:
  assumes "floor_kept cfg n f" and "tally_moves tid d (up_conn (fl_site f)) (up_conn s)" and "0 \<le> d"
    and "length ps \<le> n" and "set ps \<subseteq> set (fl_pending f)"
    and "\<And>x. pending_bytes x ps + (if x = tid then d else 0) \<le> pending_bytes x (fl_pending f)"
  shows "floor_kept cfg n \<lparr>fl_site = s, fl_pending = ps\<rparr>"
proof -
  have b: "if x \<in> t_id ` set (c_teams (up_conn s)) then upload_tally (up_conn s) x + pending_bytes x ps \<le> quota_bytes cfg + (int n - 1) * uc_max_upload_size cfg
      else upload_tally (up_conn s) x \<le> quota_bytes cfg" for x
  proof -
    have "upload_tally (up_conn s) x \<le> upload_tally (up_conn (fl_site f)) x + (if x = tid \<and> tid \<in> t_id ` set (c_teams (up_conn s)) then d else 0)"
      "c_teams (up_conn s) = c_teams (up_conn (fl_site f))"
      using assms(1,2) by (auto simp: tally_moves_def floor_kept_def)
    with assms(1) assms(6) [of x] show ?thesis unfolding floor_kept_def by (smt (verit))
  qed
  show ?thesis using assms(1,2,4,5) b unfolding floor_kept_def tally_moves_def by auto
qed

lemma begin_kept:
  assumes "0 < quota_bytes cfg" and "0 \<le> uc_max_upload_size cfg" and "floor_kept cfg n f" and "length (fl_pending f) < n"
    and "fst (upload_check cfg uid tid form (fl_site f)) = Inr x" and "pu_tid p = tid" "pu_file p = x"
  shows "floor_kept cfg n (f\<lparr>fl_pending := fl_pending f @ [p]\<rparr>)"
proof -
  obtain fname ctype data where x: "x = (fname, ctype, data)" by (cases x)
  then have sz: "pending_size p = int (length data)" using assms(7) by (simp add: pending_size_def)
  note ok = upload_check_state(2) [OF assms(5) [unfolded x]]
  have "pending_bytes y (fl_pending f) \<le> int (length (fl_pending f)) * uc_max_upload_size cfg" for y
    using pending_bytes_bound assms(2,3) by (simp add: floor_kept_def)
  moreover have "int (length (fl_pending f)) * uc_max_upload_size cfg \<le> (int n - 1) * uc_max_upload_size cfg"
    using assms(2,4) by (intro mult_right_mono) auto
  moreover have "upload_tally (up_conn (fl_site f)) tid + pending_size p \<le> quota_bytes cfg" if "tid \<in> t_id ` set (c_teams (up_conn (fl_site f)))"
    using quota_check_passes [OF conjunct2 [OF ok] assms(1)] that assms(3) sz by (simp add: floor_kept_def)
  ultimately have "upload_tally (up_conn (fl_site f)) tid + (pending_bytes tid (fl_pending f) + pending_size p) \<le> quota_bytes cfg + (int n - 1) * uc_max_upload_size cfg"
    if "tid \<in> t_id ` set (c_teams (up_conn (fl_site f)))"
    using that by (smt (verit))
  with assms(3,4) ok sz show ?thesis unfolding floor_kept_def by (auto simp: assms(6))
qed

lemma floor_kept_step:
  assumes "0 < quota_bytes cfg" and "0 \<le> uc_max_upload_size cfg" and "floor_kept cfg n f" and "overlap_ok n f e"
  shows "floor_kept cfg n (floor_step cfg f e)"
proof (cases e)
  case (BeginUpload aid now uid tid form)
  then have n: "length (fl_pending f) < n" using assms(4) by (simp add: overlap_ok_def)
  obtain r where r: "upload_check cfg uid tid form (fl_site f) = (r, fl_site f)" using upload_check_state(1) by (metis prod.collapse)
  with assms(3) BeginUpload begin_kept [OF assms(1-3) n, of uid tid form] show ?thesis by (cases r) simp_all
next
  case (FinishUpload k)
  show ?thesis
  proof (cases "k < length (fl_pending f)")
    case True
    let ?p = "fl_pending f ! k"
    have "pending_size ?p = int (length (snd (snd (pu_file ?p))))" by (simp add: pending_size_def split: prod.split)
    then have "tally_moves (pu_tid ?p) (pending_size ?p) (up_conn (fl_site f))
        (up_conn (snd (upload_write cfg (pu_aid ?p) (pu_now ?p) (pu_uid ?p) (pu_tid ?p) (pu_file ?p) (fl_site f))))"
      using upload_write_moves by metis
    then have "floor_kept cfg n \<lparr>fl_site = snd (upload_write cfg (pu_aid ?p) (pu_now ?p) (pu_uid ?p) (pu_tid ?p) (pu_file ?p) (fl_site f)),
        fl_pending = remove_at k (fl_pending f)\<rparr>"
    proof (rule floor_kept_moves [OF assms(3)])
      show "length (remove_at k (fl_pending f)) \<le> n" using remove_at_sub(2) [of k "fl_pending f"] assms(3) by (auto simp: floor_kept_def)
      show "pending_bytes x (remove_at k (fl_pending f)) + (if x = pu_tid ?p then pending_size ?p else 0) \<le> pending_bytes x (fl_pending f)" for x
        using pending_bytes_remove [OF True, of x] by auto
    qed (simp_all add: remove_at_sub)
    then show ?thesis using True FinishUpload by (cases f) (simp add: Let_def)
  qed (use assms(3) FinishUpload in simp)
next
  case (CutOff k)
  have "floor_kept cfg n \<lparr>fl_site = fl_site f, fl_pending = remove_at k (fl_pending f)\<rparr>"
  proof (rule floor_kept_moves [OF assms(3) tally_moves_refl [OF order_refl]])
    show "length (remove_at k (fl_pending f)) \<le> n" using remove_at_sub(2) [of k "fl_pending f"] assms(3) by (auto simp: floor_kept_def)
  qed (simp_all add: remove_at_sub)
  then show ?thesis using CutOff by (cases f) simp
next
  case (DeleteFile uid tid aid)
  have "up_conn (snd (attachments_delete uid tid aid (fl_site f))) = snd (delete_attachment_rows uid tid aid (up_conn (fl_site f)))"
    by (simp add: attachments_delete_def split: prod.split sum.split)
  then have "tally_moves tid 0 (up_conn (fl_site f)) (up_conn (snd (attachments_delete uid tid aid (fl_site f))))"
    using delete_rows_moves assms(3) by (simp add: floor_kept_def)
  then have "floor_kept cfg n \<lparr>fl_site = snd (attachments_delete uid tid aid (fl_site f)), fl_pending = fl_pending f\<rparr>"
    by (rule floor_kept_moves [OF assms(3)]) (use assms(3) in \<open>simp_all add: floor_kept_def\<close>)
  then show ?thesis using DeleteFile by (cases f) simp
qed

definition empty_floor :: "upload_site \<Rightarrow> upload_floor" where
  "empty_floor s = \<lparr>fl_site = s, fl_pending = []\<rparr>"

lemma floor_kept_start:
  assumes "0 < quota_bytes cfg" and "0 \<le> uc_max_upload_size cfg" and "0 < n" and "quota_kept cfg s"
  shows "floor_kept cfg n (empty_floor s)"
proof -
  have m: "0 \<le> (int n - 1) * uc_max_upload_size cfg" using assms(2,3) by simp
  have "upload_tally (up_conn s) x \<le> quota_bytes cfg" for x using assms(4) by (simp add: quota_kept_def)
  then have "upload_tally (up_conn s) x \<le> quota_bytes cfg + (int n - 1) * uc_max_upload_size cfg" for x
    using m by (meson add_increasing2)
  with assms(4) show ?thesis by (simp add: floor_kept_def quota_kept_def empty_floor_def pending_bytes_def)
qed

interpretation uploads: invariant_machine "floor_step cfg" "overlap_ok n"
    "\<lambda>f. 0 < quota_bytes cfg \<and> 0 \<le> uc_max_upload_size cfg \<and> 0 < n \<and> quota_kept cfg s0 \<longrightarrow> floor_kept cfg n f" "empty_floor s0" for cfg n s0
  by unfold_locales (use floor_kept_start floor_kept_step in blast)+


definition sample_limits :: upload_config where
  "sample_limits = \<lparr>uc_max_upload_size = 25, uc_quota_gb = 10, uc_upload_dir = ''/data''\<rparr>"


text \<open>Whoever manages the messages of some team deletes any attachment of the server, the file included, and the bytes
  are credited to the own team.\<close>

lemma manager_deletes_any:
  assumes "healthy (up_conn s)" and "holds_permission (up_conn s) uid tid PERM_MANAGE_MESSAGES"
    and "get_attachment (up_conn s) aid = Inr (Some att)" and "up_io s ''remove'' = None"
  shows "\<exists>s'. attachments_delete uid tid aid s = (Inr (), s') \<and> up_files s' (a_storage_path att) = None
    \<and> aid \<notin> a_id ` set (c_attachments (up_conn s'))"
proof -
  have "user_has_permission (up_conn s) uid tid PERM_MANAGE_MESSAGES = Inr True"
    using assms(1,2) by (simp add: user_has_permission_Inr holds_permission_def)
  moreover have "delete_attachment aid (up_conn s)
      = (Inr (), up_conn s\<lparr>c_attachments := delete_where (\<lambda>a. a_id a = aid) (c_attachments (up_conn s))\<rparr>)"
    using assms(1) by (simp add: delete_attachment_def exec_healthy)
  ultimately have "\<exists>c. delete_attachment_rows uid tid aid (up_conn s) = (Inr (a_storage_path att), c)
      \<and> aid \<notin> a_id ` set (c_attachments c)"
    using assms(3) by (auto simp: delete_attachment_rows_def bindS_def refuse_if_def)
  then show ?thesis using assms(4) by (auto simp: attachments_delete_def)
qed

end
