(* ===== verification/Gif_Api.thy ===== *)
theory Gif_Api
  imports Uploads_Api Users_Api Outbound
begin

section \<open>The Giphy proxy\<close>

text \<open>
  \<open>api/gif.rs\<close>. The HTTP client is the environment: \<open>ht_get\<close> takes the URL and the host and address pinned by
  \<open>ClientBuilder::resolve\<close>, and gives the error of the request or the response, whose bodies may fail to arrive. The
  names are resolved by \<open>dns\<close>, as in the outbound guard.
\<close>

subsection \<open>The client\<close>

record http_response =
  hr_status :: int
  hr_status_text :: string
  hr_content_type :: "string option"
  hr_json :: "string + json"
  hr_bytes :: "string + bytes"

record http_client =
  ht_build :: "string option"
  ht_get :: "string \<Rightarrow> (string \<times> ip_addr \<times> u16) option \<Rightarrow> string + http_response"

definition giphy_response :: "http_client \<Rightarrow> string \<Rightarrow> string \<Rightarrow> (string \<times> ip_addr \<times> u16) option \<Rightarrow> app_error + http_response" where
  "giphy_response ht what url pin =
     (case ht_build ht of Some e \<Rightarrow> Inl (Internal (''http client: '' @ e))
      | None \<Rightarrow> bindE (map_err (\<lambda>e. BadGateway (what @ e)) (ht_get ht url pin)) (\<lambda>res.
          if \<not> (200 \<le> hr_status res \<and> hr_status res < 300) then Inl (BadGateway (''giphy returned '' @ hr_status_text res))
          else Inr res))"

subsection \<open>Search\<close>

definition hex_upper :: "nat \<Rightarrow> char" where
  "hex_upper n = ''0123456789ABCDEF'' ! n"

definition unreserved :: "char \<Rightarrow> bool" where
  "unreserved ch \<longleftrightarrow> (let b = char_byte ch in 48 \<le> b \<and> b \<le> 57 \<or> 65 \<le> b \<and> b \<le> 90 \<or> 97 \<le> b \<and> b \<le> 122
     \<or> ch \<in> {CHR ''-'', CHR ''_'', CHR ''.'', CHR ''~''})"

definition percent_encode :: "string \<Rightarrow> string" where
  "percent_encode s = concat (map (\<lambda>ch. if unreserved ch then [ch]
     else [CHR ''%'', hex_upper (nat (char_byte ch) div 16), hex_upper (nat (char_byte ch) mod 16)]) s)"

text \<open>\<open>Value::index\<close> by a key: \<open>Null\<close> when there is none.\<close>

definition json_at :: "json \<Rightarrow> string \<Rightarrow> json" where
  "json_at v k = (case json_get v k of None \<Rightarrow> JNull | Some x \<Rightarrow> x)"

definition url_at :: "json \<Rightarrow> string \<Rightarrow> string option" where
  "url_at images k = json_as_str (json_at (json_at images k) ''url'')"

definition or_else :: "'a option \<Rightarrow> 'a option \<Rightarrow> 'a option" where
  "or_else a b = (case a of None \<Rightarrow> b | Some x \<Rightarrow> Some x)"

text \<open>The URL of an item and of its preview.\<close>

definition extract_gif :: "json \<Rightarrow> (string \<times> string) option" where
  "extract_gif item =
     (let images = json_at item ''images''
      in Option.bind (or_else (url_at images ''downsized'') (or_else (url_at images ''original'')
           (or_else (url_at images ''fixed_height'') (json_as_str (json_at item ''url'')))))
         (\<lambda>url. Some (url, (case or_else (url_at images ''fixed_height_small'') (url_at images ''preview_gif'') of
            Some p \<Rightarrow> p | None \<Rightarrow> url))))"

definition gif_items :: "json \<Rightarrow> json list" where
  "gif_items body = (case json_at body ''data'' of JNull \<Rightarrow> [] | JArr arr \<Rightarrow> arr | v \<Rightarrow> [v])"

definition gif_endpoint :: "string \<Rightarrow> string \<Rightarrow> string \<Rightarrow> int \<Rightarrow> string" where
  "gif_endpoint base key q limit =
     (if limit = 1 then base @ ''/v1/gifs/translate?api_key='' @ percent_encode key @ ''&s='' @ percent_encode q
      else base @ ''/v1/gifs/search?api_key='' @ percent_encode key @ ''&q='' @ percent_encode q @ ''&limit=''
        @ show_nat (nat limit) @ ''&rating=pg-13'')"

definition gif_key :: "string \<Rightarrow> string \<Rightarrow> string option db_op" where
  "gif_key uid tid = bindS (readS (\<lambda>c. require_team_member c uid tid)) (\<lambda>_.
     readS (\<lambda>c. get_setting c (''team:'' @ tid @ '':giphy_api_key'')))"

text \<open>The query as it is echoed, and the results, the first of which is repeated at the top of the answer.\<close>

definition gif_search :: "http_client \<Rightarrow> string \<Rightarrow> string \<Rightarrow> string \<Rightarrow> string \<Rightarrow> int option \<Rightarrow> (string \<times> (string \<times> string) list) handler" where
  "gif_search ht base uid tid q0 limit0 =
     (let q = trim q0
      in if q = [] then throwS (BadRequest ''query is required'')
         else bindS (spawn_db (gif_key uid tid)) (\<lambda>key_opt.
           let key = trim (case key_opt of None \<Rightarrow> [] | Some k \<Rightarrow> k)
           in if key = [] then throwS (ServiceUnavailable ''gif provider not configured for this team'')
              else let limit = clamp 1 12 (case limit0 of None \<Rightarrow> 1 | Some n \<Rightarrow> n)
                in bindS (readS (\<lambda>_. giphy_response ht ''giphy request failed: '' (gif_endpoint base key q limit) None)) (\<lambda>res.
                   bindS (readS (\<lambda>_. map_err (\<lambda>e. BadGateway (''giphy decode: '' @ e)) (hr_json res))) (\<lambda>body.
                   if gif_items body = [] then throwS (NotFound ''no gif matches that query'')
                   else let results = List.map_filter extract_gif (gif_items body)
                     in if results = [] then throwS (BadGateway ''no usable gif urls in giphy response'')
                        else returnS (q, results)))))"

subsection \<open>Embedding\<close>

definition ends_with :: "string \<Rightarrow> string \<Rightarrow> bool" where
  "ends_with p s \<longleftrightarrow> starts_with (rev p) (rev s)"

definition is_giphy_url :: "string \<Rightarrow> bool" where
  "is_giphy_url url =
     (if \<not> starts_with ''https://'' url then False
      else let host = takeWhile (\<lambda>ch. ch \<noteq> CHR ''/'') (drop 8 url);
               host_no_port = takeWhile (\<lambda>ch. ch \<noteq> CHR '':'') host
        in host_no_port = ''giphy.com'' \<or> ends_with ''.giphy.com'' host_no_port \<or> host_no_port = ''i.giphy.com'')"

definition gif_file_name :: "string \<Rightarrow> string" where
  "gif_file_name url = takeWhile (\<lambda>ch. ch \<noteq> CHR ''?'') (after_last CHR ''/'' url)"

definition gif_quota_check :: "upload_config \<Rightarrow> string \<Rightarrow> (int \<Rightarrow> bool) \<Rightarrow> unit upload_op" where
  "gif_quota_check cfg tid over = (if quota_bytes cfg > 0 then
       bindS (on_conn (spawn_db (readS (\<lambda>c. get_team_upload_bytes_used c tid)))) (\<lambda>used.
       if over used then throwS (PayloadTooLarge ''team upload quota exceeded'') else returnS ())
     else returnS ())"

definition gif_embed ::
  "upload_config \<Rightarrow> http_client \<Rightarrow> (string \<Rightarrow> string + (ip_addr \<times> u16) list) \<Rightarrow> (ip_addr \<Rightarrow> string)
    \<Rightarrow> string \<Rightarrow> string \<Rightarrow> string \<Rightarrow> string \<Rightarrow> string \<Rightarrow> attachment upload_op" where
  "gif_embed cfg ht dns show_ip aid now uid tid url =
     (if \<not> is_giphy_url url then throwS (BadRequest ''embed only accepts giphy.com URLs'')
      else bindS (on_conn (spawn_db (readS (\<lambda>c. require_team_member c uid tid)))) (\<lambda>_.
      bindS (readS (\<lambda>_. safe_outbound_url dns show_ip url)) (\<lambda>safe.
      bindS (gif_quota_check cfg tid (\<lambda>used. used \<ge> quota_bytes cfg)) (\<lambda>_.
      bindS (readS (\<lambda>_. giphy_response ht ''giphy fetch failed: '' (so_url safe) (Some (so_host safe, so_addr safe, so_port safe)))) (\<lambda>res.
      bindS (readS (\<lambda>_. map_err (\<lambda>e. BadGateway (''giphy body: '' @ e)) (hr_bytes res))) (\<lambda>data.
      let sz = int (length data)
      in if sz > uc_max_upload_size cfg then throwS (BadRequest ''gif too large'')
         else bindS (gif_quota_check cfg tid (\<lambda>used. used + sz > quota_bytes cfg)) (\<lambda>_.
         if bad_team_id tid then throwS (BadRequest ''invalid team id'')
         else bindS (store_file cfg tid aid data) (\<lambda>path.
         on_conn (spawn_db (record_upload tid (new_upload aid now uid (as_bytes (gif_file_name url))
           (as_bytes (case hr_content_type res of None \<Rightarrow> ''image/gif'' | Some t \<Rightarrow> t)) sz path)))))))))))"

subsection \<open>What the host check lets through\<close>

text \<open>A name that can be written into a URL.\<close>

definition plain_host :: "string \<Rightarrow> bool" where
  "plain_host h \<longleftrightarrow> h \<noteq> [] \<and> set h \<inter> {CHR ''/'', CHR ''?'', CHR ''#'', CHR ''@'', CHR '':'', CHR ''[''} = {}"

definition crafted_url :: "string \<Rightarrow> string" where
  "crafted_url h = ''https://media.giphy.com:x@'' @ h @ ''/cat.gif''"

lemma crafted_passes: "is_giphy_url (crafted_url h)"
  by (simp add: is_giphy_url_def crafted_url_def starts_with_def ends_with_def)

lemma after_at: "CHR ''@'' \<notin> set h \<Longrightarrow> rsplit_once CHR ''@'' h = None"
  by (induction h) auto

lemma no_colon: "CHR '':'' \<notin> set h \<Longrightarrow> rsplit_once CHR '':'' h = None"
  by (induction h) auto

lemma crafted_parse:
  assumes "plain_host h"
  shows "parse_url (crafted_url h) = Some \<lparr>url_scheme = ''https'', url_host = h, url_port = None\<rparr>"
proof -
  have auth: "takeWhile (\<lambda>ch. ch \<notin> {CHR ''/'', CHR ''?'', CHR ''#''}) (''media.giphy.com:x@'' @ h @ ''/cat.gif'') = ''media.giphy.com:x@'' @ h"
    using assms by (simp add: plain_host_def) (subst takeWhile_append2; auto)
  have at: "after_last CHR ''@'' (''media.giphy.com:x@'' @ h) = h"
    using assms by (simp add: after_last_def plain_host_def after_at)
  have hp: "parse_host_port h = Some (h, None)"
    using assms by (cases h) (auto simp: parse_host_port_def strip_prefix_def starts_with_def plain_host_def no_colon)
  have split: "split_once ''://'' (crafted_url h) = Some (''https'', ''media.giphy.com:x@'' @ h @ ''/cat.gif'')"
    by (simp add: crafted_url_def starts_with_def)
  have low: "ascii_lower ''https'' = ''https''" by (simp add: ascii_lower_def char_byte_def)
  show ?thesis
    unfolding parse_url_def split bind.simps prod.case Let_def auth at hp
    using assms by (simp add: plain_host_def low)
qed

lemma show_443: "show_nat 443 = ''443''"
  by code_simp

text \<open>The proxy fetches from any host. For every host name there is a URL that passes the check for Giphy and whose host,
  for the parser of the outbound guard, is that name; so a member of a team makes the server fetch from an arbitrary
  public address, pinned to the name of the attacker, and gets what it answers as an attachment.\<close>

theorem embed_fetches_from_any_host:
  assumes "plain_host h" and h: "healthy (up_conn s)" and "is_member (up_conn s) uid tid" and "\<not> bad_team_id tid"
    and "dns (h @ '':443'') = Inr [(ip, port)]" and "is_public_ip ip"
    and "quota_bytes cfg \<le> 0" and "ht_build ht = None"
    and "ht_get ht (crafted_url h) (Some (h, ip, port)) = Inr res" and "200 \<le> hr_status res" "hr_status res < 300"
    and "hr_bytes res = Inr data" and "int (length data) \<le> uc_max_upload_size cfg"
    and "up_io s ''mkdir'' = None" "up_io s ''write'' = None" and "aid \<notin> a_id ` set (c_attachments (up_conn s))"
  shows "\<exists>att s'. gif_embed cfg ht dns show_ip aid now uid tid (crafted_url h) s = (Inr att, s')
    \<and> a_id att = aid \<and> a_uploader_id att = Some uid \<and> up_files s' (a_storage_path att) = Some data"
proof -
  let ?path = "path_join (path_join (uc_upload_dir cfg) tid) aid"
  let ?att = "new_upload aid now uid (as_bytes (gif_file_name (crafted_url h)))
    (as_bytes (case hr_content_type res of None \<Rightarrow> ''image/gif'' | Some t \<Rightarrow> t)) (int (length data)) ?path"
  let ?s = "s\<lparr>up_files := (up_files s)(?path := Some data)\<rparr>"
  have "host_port \<lparr>url_scheme = ''https'', url_host = h, url_port = None\<rparr> = h @ '':443''"
    by (simp add: host_port_def port_or_default_def show_443)
  then have safe: "safe_outbound_url dns show_ip (crafted_url h) = Inr \<lparr>so_url = crafted_url h, so_host = h, so_addr = ip, so_port = port\<rparr>"
    using assms(1,5,6) by (simp add: safe_outbound_url_def crafted_parse plain_host_def)
  have get: "giphy_response ht ''giphy fetch failed: '' (crafted_url h) (Some (h, ip, port)) = Inr res"
    using assms(8-11) by (simp add: giphy_response_def)
  have put: "store_file cfg tid aid data s = (Inr ?path, ?s)" using assms(14,15) by (simp add: store_file_def Let_def)
  obtain c where rec: "record_upload tid ?att (up_conn s) = (Inr ?att, c)"
    using h assms(16) by (auto simp: record_upload_def create_attachment_def add_team_upload_bytes_def exec_healthy healthy_def bindS_def new_upload_def exec_def)
  have mem: "require_team_member (up_conn s) uid tid = Inr ()" using assms(3) by (simp add: require_team_member_healthy [OF h])
  have quota: "gif_quota_check cfg tid over s = (Inr (), s)" for over using assms(7) by (simp add: gif_quota_check_def)
  have "gif_embed cfg ht dns show_ip aid now uid tid (crafted_url h) s = (Inr ?att, ?s\<lparr>up_conn := c\<rparr>)"
    using mem safe get put rec quota assms(4,12,13)
    by (simp add: gif_embed_def crafted_passes bindS_split on_conn_def spawn_db_def Let_def)
  then show ?thesis by (simp add: new_upload_def)
qed

definition sample_http :: http_client where
  "sample_http = \<lparr>ht_build = None, ht_get = (\<lambda>_ pin. case pin of Some (host, _) \<Rightarrow> if host = ''evil.example''
     then Inr \<lparr>hr_status = 200, hr_status_text = [], hr_content_type = None, hr_json = Inl [], hr_bytes = Inr [6, 6]\<rparr> else Inl [] | None \<Rightarrow> Inl [])\<rparr>"

theorem embed_fetches_from_any_host_witness:
  "\<exists>att s'. gif_embed (sample_limits\<lparr>uc_quota_gb := 0\<rparr>) sample_http (\<lambda>_. Inr [(V4 8 8 8 8, 443)]) (\<lambda>_. []) ''n'' [] ''bob'' ''t''
      (crafted_url ''evil.example'') sample_uploads = (Inr att, s') \<and> up_files s' (a_storage_path att) = Some [6, 6]"
proof -
  have "plain_host ''evil.example''" by (simp add: plain_host_def)
  moreover have "\<not> bad_team_id ''t''" by (simp add: bad_team_id_def starts_with_def)
  moreover have "quota_bytes (sample_limits\<lparr>uc_quota_gb := 0\<rparr>) \<le> 0" by (simp add: quota_bytes_def)
  moreover have "is_public_ip (V4 8 8 8 8)" by (simp add: is_public_ipv4_def)
  moreover have "healthy (up_conn sample_uploads)" "is_member (up_conn sample_uploads) ''bob'' ''t''"
    "''n'' \<notin> a_id ` set (c_attachments (up_conn sample_uploads))"
    using sample_private_ok by (simp_all add: sample_uploads_def) (simp add: sample_private_defs)
  ultimately show ?thesis
    using embed_fetches_from_any_host [of "''evil.example''" sample_uploads "''bob''" "''t''" "\<lambda>_. Inr [(V4 8 8 8 8, 443)]" "V4 8 8 8 8" 443
        "sample_limits\<lparr>uc_quota_gb := 0\<rparr>" sample_http "\<lparr>hr_status = 200, hr_status_text = [], hr_content_type = None, hr_json = Inl [], hr_bytes = Inr [6, 6]\<rparr>"
        "[6, 6]" "''n''" "\<lambda>_. []" "[]"]
    by (auto simp: sample_http_def sample_uploads_def sample_limits_def)
qed

end
