(* ===== verification/Recovery_Api.thy ===== *)
theory Recovery_Api
  imports Site_Kit
begin

section \<open>Recovery of an identity\<close>

text \<open>
  \<open>db/identity_recovery_queries.rs\<close> and \<open>api/identity_recovery.rs\<close>. HMAC-SHA256 and the URL alphabet of base64 are
  parameters, beside the record \<open>crypto\<close>; the row id that SQLite assigns is an argument.
\<close>

subsection \<open>Slots\<close>

definition upsert_recovery_slot ::
  "int \<Rightarrow> string \<Rightarrow> string \<Rightarrow> string \<Rightarrow> string \<Rightarrow> bytes \<Rightarrow> bytes \<Rightarrow> unit db_op" where
  "upsert_recovery_slot i now uid cred rp_id salt blob = exec ''upsert_recovery_slot'' (\<lambda>c.
     if \<exists>s \<in> set (c_recovery c). rs_user_id s = uid \<and> rs_credential_id s = cred
     then Some (c\<lparr>c_recovery := update_where (\<lambda>s. rs_user_id s = uid \<and> rs_credential_id s = cred)
       (\<lambda>s. s\<lparr>rs_prf_salt := salt, rs_encrypted_blob := blob, rs_rp_id := rp_id, rs_updated_at := now\<rparr>) (c_recovery c)\<rparr>)
     else if uid \<notin> u_id ` set (c_users c) then None
     else Some (c\<lparr>c_recovery := c_recovery c @ [\<lparr>rs_id = i, rs_user_id = uid, rs_credential_id = cred, rs_rp_id = rp_id,
       rs_prf_salt = salt, rs_encrypted_blob = blob, rs_created_at = now, rs_updated_at = now\<rparr>]\<rparr>))"

definition get_recovery_slot :: "conn \<Rightarrow> string \<Rightarrow> string \<Rightarrow> recovery_slot option db_res" where
  "get_recovery_slot c uid cred = optional (query_row ''get_recovery_slot'' c
     (rows_where (\<lambda>s. rs_user_id s = uid \<and> rs_credential_id s = cred) (c_recovery c)))"

definition get_recovery_slot_by_credential :: "conn \<Rightarrow> string \<Rightarrow> recovery_slot option db_res" where
  "get_recovery_slot_by_credential c cred = optional (query_row ''get_recovery_slot_by_credential'' c
     (rows_where (\<lambda>s. rs_credential_id s = cred) (c_recovery c)))"

definition list_recovery_descriptors_for_user :: "conn \<Rightarrow> string \<Rightarrow> (string \<times> bytes) list db_res" where
  "list_recovery_descriptors_for_user c uid = stmt ''list_recovery_descriptors_for_user'' c
     (map (\<lambda>s. (rs_credential_id s, rs_prf_salt s)) (sort_key rs_created_at (rows_where (\<lambda>s. rs_user_id s = uid) (c_recovery c))))"

definition delete_recovery_slot :: "string \<Rightarrow> string \<Rightarrow> bool db_op" where
  "delete_recovery_slot uid cred c = (case exec ''delete_recovery_slot'' (\<lambda>c. Some (c\<lparr>c_recovery :=
       delete_where (\<lambda>s. rs_user_id s = uid \<and> rs_credential_id s = cred) (c_recovery c)\<rparr>)) c of
     (r, c') \<Rightarrow> (bindE r (\<lambda>_. Inr (list_ex (\<lambda>s. rs_user_id s = uid \<and> rs_credential_id s = cred) (c_recovery c))), c'))"

subsection \<open>Enrolling and revoking\<close>

definition MAX_CREDENTIAL_ID_LEN :: nat where "MAX_CREDENTIAL_ID_LEN = 1024"
definition MAX_ENCRYPTED_BLOB_LEN :: nat where "MAX_ENCRYPTED_BLOB_LEN = 64 * 1024"
definition PRF_SALT_LEN :: nat where "PRF_SALT_LEN = 32"
definition LOOKUP_DESCRIPTOR_COUNT :: nat where "LOOKUP_DESCRIPTOR_COUNT = 4"

record upsert_slot_request =
  us_credential_id :: string
  us_prf_salt :: string
  us_encrypted_blob :: string

definition rp_id_of :: "string \<Rightarrow> string" where
  "rp_id_of domain = (if domain = [] then ''localhost'' else domain)"

definition upsert_slot :: "crypto \<Rightarrow> string \<Rightarrow> int \<Rightarrow> string \<Rightarrow> string \<Rightarrow> upsert_slot_request \<Rightarrow> string handler" where
  "upsert_slot cr domain i now uid body =
     (if us_credential_id body = [] \<or> length (us_credential_id body) > MAX_CREDENTIAL_ID_LEN
      then throwS (BadRequest ''credential_id must be 1..=1024 chars'')
      else bindS (readS (\<lambda>_. decode_b64 cr ''prf_salt'' (us_prf_salt body))) (\<lambda>salt.
      bindS (readS (\<lambda>_. sized PRF_SALT_LEN ''prf_salt must be exactly 32 bytes'' salt)) (\<lambda>_.
      bindS (readS (\<lambda>_. decode_b64 cr ''encrypted_blob'' (us_encrypted_blob body))) (\<lambda>blob.
      if blob = [] \<or> length blob > MAX_ENCRYPTED_BLOB_LEN then throwS (BadRequest ''encrypted_blob must be 1..=65536 bytes'')
      else bindS (spawn_db (upsert_recovery_slot i now uid (us_credential_id body) (rp_id_of domain) salt blob)) (\<lambda>_.
      returnS (us_credential_id body))))))"

definition revoke_slot :: "string \<Rightarrow> string \<Rightarrow> unit handler" where
  "revoke_slot uid cred =
     (if cred = [] \<or> length cred > MAX_CREDENTIAL_ID_LEN then throwS (BadRequest ''invalid credential_id'')
      else bindS (spawn_db (delete_recovery_slot uid cred)) (\<lambda>removed.
        if \<not> removed then throwS (NotFound ''recovery slot not found'') else returnS ()))"

subsection \<open>Looking up and fetching\<close>

record recovery_env =
  re_crypto :: crypto
  re_hmac :: "bytes \<Rightarrow> bytes \<Rightarrow> bytes"
  re_b64_url :: "bytes \<Rightarrow> string"
  re_jwt_secret :: bytes
  re_domain :: string

definition synthetic_descriptor :: "recovery_env \<Rightarrow> string \<Rightarrow> nat \<Rightarrow> string \<times> string" where
  "synthetic_descriptor env username position =
     (let mac = (\<lambda>label. re_hmac env (re_jwt_secret env) (as_bytes label @ [0] @ as_bytes username @ [0, of_nat position]))
      in (re_b64_url env (mac ''dilla-recovery-synthetic-cred-v1''),
          cr_b64_encode (re_crypto env) (mac ''dilla-recovery-synthetic-v1'')))"

text \<open>\<open>counter.to_be_bytes()\<close>.\<close>

definition u64_be :: "u64 \<Rightarrow> bytes" where
  "u64_be n = map (\<lambda>i. ucast (drop_bit (8 * (7 - i)) n)) [0..<8]"

definition SYNTHETIC_BLOB_LEN :: nat where "SYNTHETIC_BLOB_LEN = 2048"

text \<open>The loop ends only because a code is not empty; \<open>None\<close> stands for a loop that does not end.\<close>

partial_function (option) blob_loop :: "(bytes \<Rightarrow> bytes) \<Rightarrow> bytes \<Rightarrow> u64 \<Rightarrow> bytes \<Rightarrow> bytes option" where
  "blob_loop mac prefix counter out =
     (if length out < SYNTHETIC_BLOB_LEN then blob_loop mac prefix (counter + 1) (out @ mac (prefix @ u64_be counter))
      else Some (take SYNTHETIC_BLOB_LEN out))"

definition synthetic_encrypted_blob :: "recovery_env \<Rightarrow> string \<Rightarrow> string \<Rightarrow> bytes option" where
  "synthetic_encrypted_blob env username cred = blob_loop (re_hmac env (re_jwt_secret env))
     (as_bytes ''dilla-recovery-synthetic-blob-v1'' @ [0] @ as_bytes username @ [0] @ as_bytes cred) 0 []"

definition synthetic_salt :: "recovery_env \<Rightarrow> string \<Rightarrow> string \<Rightarrow> bytes" where
  "synthetic_salt env username cred = re_hmac env (re_jwt_secret env)
     (as_bytes ''dilla-recovery-synthetic-fetch-salt-v1'' @ [0] @ as_bytes username @ [0] @ as_bytes cred)"

text \<open>The relying party and the descriptors.\<close>

definition recovery_lookup :: "recovery_env \<Rightarrow> string \<Rightarrow> (string \<times> (string \<times> string) list) handler" where
  "recovery_lookup env username =
     (if username = [] \<or> length username > 32 then throwS (BadRequest ''invalid username'')
      else bindS (spawn_db (readS (\<lambda>c. get_user_by_username c username))) (\<lambda>user.
      bindS (case user of None \<Rightarrow> returnS []
             | Some u \<Rightarrow> bindS (spawn_db (readS (\<lambda>c. list_recovery_descriptors_for_user c (u_id u)))) (\<lambda>descs.
                 returnS (map (\<lambda>(cred, salt). (cred, cr_b64_encode (re_crypto env) salt)) (take LOOKUP_DESCRIPTOR_COUNT descs))))
        (\<lambda>real. returnS (rp_id_of (re_domain env), real
           @ map (synthetic_descriptor env username) [length real ..< LOOKUP_DESCRIPTOR_COUNT]))))"

record fetch_answer =
  fa_credential_id :: string
  fa_rp_id :: string
  fa_prf_salt :: string
  fa_encrypted_blob :: string
  fa_user_id :: string

definition nil_uuid :: string where
  "nil_uuid = ''00000000-0000-0000-0000-000000000000''"

text \<open>\<open>None\<close> only when the loop does not end.\<close>

definition fetch_of :: "recovery_env \<Rightarrow> string \<Rightarrow> string \<Rightarrow> recovery_slot option \<Rightarrow> fetch_answer option" where
  "fetch_of env username cred slot = (case slot of
       Some s \<Rightarrow> Some \<lparr>fa_credential_id = rs_credential_id s, fa_rp_id = rp_id_of (re_domain env),
         fa_prf_salt = cr_b64_encode (re_crypto env) (rs_prf_salt s),
         fa_encrypted_blob = cr_b64_encode (re_crypto env) (rs_encrypted_blob s), fa_user_id = rs_user_id s\<rparr>
     | None \<Rightarrow> map_option (\<lambda>blob. \<lparr>fa_credential_id = cred, fa_rp_id = rp_id_of (re_domain env),
         fa_prf_salt = cr_b64_encode (re_crypto env) (synthetic_salt env username cred),
         fa_encrypted_blob = cr_b64_encode (re_crypto env) blob, fa_user_id = nil_uuid\<rparr>)
         (synthetic_encrypted_blob env username cred))"

definition recovery_fetch :: "recovery_env \<Rightarrow> string \<Rightarrow> string \<Rightarrow> fetch_answer option handler" where
  "recovery_fetch env username cred =
     (if username = [] \<or> length username > 32 then throwS (BadRequest ''invalid username'')
      else if cred = [] \<or> length cred > MAX_CREDENTIAL_ID_LEN then throwS (BadRequest ''invalid credential_id'')
      else bindS (spawn_db (readS (\<lambda>c. get_user_by_username c username))) (\<lambda>user.
      bindS (case user of None \<Rightarrow> returnS None | Some u \<Rightarrow> spawn_db (readS (\<lambda>c. get_recovery_slot c (u_id u) cred))) (\<lambda>slot.
      returnS (fetch_of env username cred slot))))"

subsection \<open>What the answers show\<close>

lemma blob_loop_returns:
  assumes "\<And>m. length (mac m) = 32"
  shows "\<exists>b. blob_loop mac prefix counter out = Some b \<and> length b = SYNTHETIC_BLOB_LEN"
proof (induction "SYNTHETIC_BLOB_LEN - length out" arbitrary: counter out rule: less_induct)
  case less
  show ?case
  proof (cases "length out < SYNTHETIC_BLOB_LEN")
    case True
    then have "SYNTHETIC_BLOB_LEN - length (out @ mac (prefix @ u64_be counter)) < SYNTHETIC_BLOB_LEN - length out" using assms by simp
    from less.hyps [OF this] True show ?thesis by (subst blob_loop.simps) simp
  qed (subst blob_loop.simps, simp)
qed

text \<open>A code of 32 bytes.\<close>

definition hmac_ok :: "recovery_env \<Rightarrow> bool" where
  "hmac_ok env \<longleftrightarrow> (\<forall>k m. length (re_hmac env k m) = 32)"

lemma synthetic_blob_returns: "hmac_ok env \<Longrightarrow> \<exists>b. synthetic_encrypted_blob env username cred = Some b \<and> length b = 2048"
  using blob_loop_returns [of "re_hmac env (re_jwt_secret env)"] by (auto simp: synthetic_encrypted_blob_def hmac_ok_def SYNTHETIC_BLOB_LEN_def)

definition user_named :: "conn \<Rightarrow> string \<Rightarrow> user option" where
  "user_named c n = first_row (rows_where (\<lambda>u. u_username u = n) (c_users c))"

definition slot_of :: "conn \<Rightarrow> string \<Rightarrow> string \<Rightarrow> recovery_slot option" where
  "slot_of c n cred = Option.bind (user_named c n) (\<lambda>u.
     first_row (rows_where (\<lambda>s. rs_user_id s = u_id u \<and> rs_credential_id s = cred) (c_recovery c)))"

definition valid_name :: "string \<Rightarrow> bool" where "valid_name n \<longleftrightarrow> n \<noteq> [] \<and> length n \<le> 32"
definition valid_credential :: "string \<Rightarrow> bool" where "valid_credential cred \<longleftrightarrow> cred \<noteq> [] \<and> length cred \<le> MAX_CREDENTIAL_ID_LEN"

lemma fetch_goes:
  assumes "healthy c" and "valid_name n" and "valid_credential cred"
  shows "recovery_fetch env n cred c = (Inr (fetch_of env n cred (slot_of c n cred)), c)"
  using assms
  by (cases "user_named c n")
    (auto simp: recovery_fetch_def valid_name_def valid_credential_def get_user_by_username_def get_recovery_slot_def slot_of_def
      user_named_def optional_query_row spawn_db_def bindS_def)

lemma slot_of_SomeD: "slot_of c n cred = Some s \<Longrightarrow> \<exists>u \<in> set (c_users c). u_username u = n \<and> s \<in> set (c_recovery c) \<and> rs_user_id s = u_id u"
  by (auto simp: slot_of_def user_named_def dest!: first_row_SomeD split: Option.bind_splits)

text \<open>The answer of a lookup has one shape. A lookup with a valid name on a healthy
  database always answers, with exactly four descriptors: the first slots of the user, then made-up ones that depend on the name
  and the position alone; so users without slots and unknown names get the same answer.\<close>

theorem recovery_lookup_padded:
  assumes "healthy c" and "valid_name n"
  shows "\<exists>real. recovery_lookup env n c = (Inr (rp_id_of (re_domain env), real
        @ map (synthetic_descriptor env n) [length real ..< LOOKUP_DESCRIPTOR_COUNT]), c)
      \<and> real = (case user_named c n of None \<Rightarrow> [] | Some u \<Rightarrow> take 4 (map (\<lambda>s. (rs_credential_id s, cr_b64_encode (re_crypto env) (rs_prf_salt s)))
          (sort_key rs_created_at (rows_where (\<lambda>s. rs_user_id s = u_id u) (c_recovery c)))))
      \<and> length (real @ map (synthetic_descriptor env n) [length real ..< LOOKUP_DESCRIPTOR_COUNT]) = 4"
proof (cases "user_named c n")
  case None
  with assms show ?thesis
    by (simp add: recovery_lookup_def valid_name_def user_named_def get_user_by_username_def optional_query_row
        spawn_db_def bindS_def LOOKUP_DESCRIPTOR_COUNT_def)
next
  case (Some u)
  let ?real = "map (\<lambda>(cred, salt). (cred, cr_b64_encode (re_crypto env) salt)) (take LOOKUP_DESCRIPTOR_COUNT
    (map (\<lambda>s. (rs_credential_id s, rs_prf_salt s)) (sort_key rs_created_at (rows_where (\<lambda>s. rs_user_id s = u_id u) (c_recovery c)))))"
  have "recovery_lookup env n c = (Inr (rp_id_of (re_domain env), ?real
      @ map (synthetic_descriptor env n) [length ?real ..< LOOKUP_DESCRIPTOR_COUNT]), c)"
    using assms Some by (simp add: recovery_lookup_def valid_name_def user_named_def get_user_by_username_def optional_query_row
        spawn_db_def bindS_def list_recovery_descriptors_for_user_def)
  then show ?thesis using Some
    by (intro exI [of _ ?real] conjI) (simp_all add: LOOKUP_DESCRIPTOR_COUNT_def take_map comp_def)
qed

text \<open>A fetch always answers. With valid arguments, on a healthy database, the loop that makes up a blob ends, and the answer
  for a name or a credential without slot carries a blob of 2048 bytes.\<close>

theorem recovery_fetch_returns:
  assumes "healthy c" and "hmac_ok env" and "valid_name n" and "valid_credential cred"
  shows "\<exists>a. recovery_fetch env n cred c = (Inr (Some a), c)
    \<and> (slot_of c n cred = None \<longrightarrow> (\<exists>b. fa_encrypted_blob a = cr_b64_encode (re_crypto env) b \<and> length b = 2048))"
  using fetch_goes [OF assms(1,3,4)] synthetic_blob_returns [OF assms(2), of n cred]
  by (cases "slot_of c n cred") (auto simp: fetch_of_def)

text \<open>A fetch tells who has a slot. The made-up answer carries the nil identifier as the user, a real one the identifier of
  the user, so the answer shows whether the name and the credential belong to a slot, which the padding is meant to hide.\<close>

theorem fetch_reveals_slots:
  assumes "healthy c" and "hmac_ok env" and "valid_name n" and "valid_credential cred" and "nil_uuid \<notin> u_id ` set (c_users c)"
  shows "\<exists>a. fst (recovery_fetch env n cred c) = Inr (Some a) \<and> (fa_user_id a \<noteq> nil_uuid \<longleftrightarrow> slot_of c n cred \<noteq> None)"
proof (cases "slot_of c n cred")
  case None
  with fetch_goes [OF assms(1,3,4), of env] synthetic_blob_returns [OF assms(2), of n cred] show ?thesis by (auto simp: fetch_of_def)
next
  case (Some s)
  with slot_of_SomeD [OF Some] assms(5) have "rs_user_id s \<noteq> nil_uuid" by auto
  with fetch_goes [OF assms(1,3,4), of env] Some show ?thesis by (auto simp: fetch_of_def)
qed

lemma upsert_slot_stores:
  assumes "healthy c" and "uid \<in> u_id ` set (c_users c)"
  shows "\<exists>c'. upsert_recovery_slot i now uid cred rp salt blob c = (Inr (), c') \<and> healthy c' \<and> c_users c' = c_users c
    \<and> (\<exists>s. first_row (rows_where (\<lambda>s. rs_user_id s = uid \<and> rs_credential_id s = cred) (c_recovery c')) = Some s
        \<and> rs_user_id s = uid \<and> rs_credential_id s = cred \<and> rs_prf_salt s = salt \<and> rs_encrypted_blob s = blob)
    \<and> (\<forall>u k. (u, k) \<noteq> (uid, cred) \<longrightarrow> rows_where (\<lambda>s. rs_user_id s = u \<and> rs_credential_id s = k) (c_recovery c')
        = rows_where (\<lambda>s. rs_user_id s = u \<and> rs_credential_id s = k) (c_recovery c))"
proof (cases "\<exists>s \<in> set (c_recovery c). rs_user_id s = uid \<and> rs_credential_id s = cred")
  case True
  let ?p = "\<lambda>s. rs_user_id s = uid \<and> rs_credential_id s = cred"
  let ?f = "\<lambda>s. s\<lparr>rs_prf_salt := salt, rs_encrypted_blob := blob, rs_rp_id := rp, rs_updated_at := now\<rparr>"
  obtain s ss where rows: "rows_where ?p (c_recovery c) = s # ss"
    using True by (cases "rows_where ?p (c_recovery c)") (auto simp: rows_where_eq_Nil)
  then have "s \<in> set (rows_where ?p (c_recovery c))" by simp
  then have s: "?p s" by simp
  have "rows_where ?p (update_where ?p ?f (c_recovery c)) = update_where ?p ?f (s # ss)"
    unfolding rows [symmetric] by (rule rows_where_update_where) simp
  moreover have "rows_where (\<lambda>s. rs_user_id s = u \<and> rs_credential_id s = k) (update_where ?p ?f (c_recovery c))
      = rows_where (\<lambda>s. rs_user_id s = u \<and> rs_credential_id s = k) (c_recovery c)" if "(u, k) \<noteq> (uid, cred)" for u k
    using that by (intro rows_where_update_other) auto
  ultimately show ?thesis
    using True s assms(1) by (simp add: upsert_recovery_slot_def exec_healthy healthy_def update_where_def)
next
  case False
  then have none: "rows_where (\<lambda>s. rs_user_id s = uid \<and> rs_credential_id s = cred) (c_recovery c) = []"
    by (auto simp: rows_where_eq_Nil)
  show ?thesis using False none assms by (auto simp: upsert_recovery_slot_def exec_healthy healthy_def)
qed

text \<open>A slot comes back and can be taken away. After an enrolment a fetch by the name and credential of the user gives the
  salt and the blob that were sent, for whatever was stored before; no other slot changes; a revocation removes it, and a
  second one finds nothing.\<close>

theorem recovery_roundtrip:
  assumes "healthy c" and "user_named c n = Some u" and "valid_name n" and "valid_credential cred"
    and "length salt = PRF_SALT_LEN" and "blob \<noteq> []" and "length blob \<le> MAX_ENCRYPTED_BLOB_LEN"
    and b64: "\<forall>bs. cr_b64_decode (re_crypto env) (cr_b64_encode (re_crypto env) bs) = Inr bs"
  defines "body \<equiv> \<lparr>us_credential_id = cred, us_prf_salt = cr_b64_encode (re_crypto env) salt,
      us_encrypted_blob = cr_b64_encode (re_crypto env) blob\<rparr>"
  shows "\<exists>c' a. upsert_slot (re_crypto env) (re_domain env) i now (u_id u) body c = (Inr cred, c')
    \<and> fst (recovery_fetch env n cred c') = Inr (Some a) \<and> fa_user_id a = u_id u
    \<and> fa_prf_salt a = us_prf_salt body \<and> fa_encrypted_blob a = us_encrypted_blob body
    \<and> (\<forall>n' k. k \<noteq> cred \<longrightarrow> slot_of c' n' k = slot_of c n' k)
    \<and> (\<exists>c''. revoke_slot (u_id u) cred c' = (Inr (), c'') \<and> slot_of c'' n cred = None
        \<and> revoke_slot (u_id u) cred c'' = (Inl (NotFound ''recovery slot not found''), c''))"
proof -
  have "u \<in> set (c_users c)" using first_row_SomeD [OF assms(2) [unfolded user_named_def]] by simp
  then have "u_id u \<in> u_id ` set (c_users c)" by simp
  then obtain c' s where up: "upsert_recovery_slot i now (u_id u) cred (rp_id_of (re_domain env)) salt blob c = (Inr (), c')"
    and h: "healthy c'" and us: "c_users c' = c_users c"
    and s: "first_row (rows_where (\<lambda>s. rs_user_id s = u_id u \<and> rs_credential_id s = cred) (c_recovery c')) = Some s"
      "rs_user_id s = u_id u" "rs_prf_salt s = salt" "rs_encrypted_blob s = blob"
    and rest: "\<And>x k. (x, k) \<noteq> (u_id u, cred) \<Longrightarrow> rows_where (\<lambda>s. rs_user_id s = x \<and> rs_credential_id s = k) (c_recovery c')
        = rows_where (\<lambda>s. rs_user_id s = x \<and> rs_credential_id s = k) (c_recovery c)"
    using upsert_slot_stores [OF assms(1), of "u_id u" i now cred "rp_id_of (re_domain env)" salt blob] by blast
  have named: "user_named c' = user_named c" by (simp add: user_named_def us fun_eq_iff)
  have slot: "slot_of c' n cred = Some s" using s assms(2) by (simp add: slot_of_def named)
  have "upsert_slot (re_crypto env) (re_domain env) i now (u_id u) body c = (Inr cred, c')"
    using up assms(4-7) b64 by (simp add: upsert_slot_def body_def valid_credential_def decode_b64_def sized_def spawn_db_def bindS_def)
  moreover have "recovery_fetch env n cred c' = (Inr (fetch_of env n cred (Some s)), c')"
    using fetch_goes [OF h assms(3,4), of env] slot by simp
  moreover have "slot_of c' n' k = slot_of c n' k" if "k \<noteq> cred" for n' k using that rest by (simp add: slot_of_def named)
  moreover let ?d = "c'\<lparr>c_recovery := delete_where (\<lambda>s. rs_user_id s = u_id u \<and> rs_credential_id s = cred) (c_recovery c')\<rparr>"
  have "s \<in> set (rows_where (\<lambda>s. rs_user_id s = u_id u \<and> rs_credential_id s = cred) (c_recovery c'))" using first_row_SomeD [OF s(1)] .
  then have "\<exists>s \<in> set (c_recovery c'). rs_user_id s = u_id u \<and> rs_credential_id s = cred" by auto
  then have "revoke_slot (u_id u) cred c' = (Inr (), ?d)"
    using h assms(4) by (simp add: revoke_slot_def valid_credential_def delete_recovery_slot_def exec_healthy spawn_db_def bindS_def list_ex_iff)
  moreover have "rows_where (\<lambda>s. rs_user_id s = u_id u \<and> rs_credential_id s = cred) (c_recovery ?d) = []" by (auto simp: rows_where_eq_Nil)
  then have "slot_of ?d n cred = None" using assms(2) by (simp add: slot_of_def user_named_def us)
  moreover have "revoke_slot (u_id u) cred ?d = (Inl (NotFound ''recovery slot not found''), ?d)"
    using h assms(4) by (auto simp: revoke_slot_def valid_credential_def delete_recovery_slot_def exec_healthy healthy_def spawn_db_def
        bindS_def list_ex_iff delete_where_def filter_empty_conv intro!: filter_True)
  ultimately show ?thesis using s by (auto simp: fetch_of_def body_def)
qed

subsection \<open>Instances\<close>

definition sample_env :: recovery_env where
  "sample_env = \<lparr>re_crypto = toy_crypto, re_hmac = (\<lambda>k m. replicate 32 7), re_b64_url = (\<lambda>_. ''made-up''), re_jwt_secret = [], re_domain = []\<rparr>"

definition sample_escrow :: conn where
  "sample_escrow = sample_conn\<lparr>c_recovery := [\<lparr>rs_id = 1, rs_user_id = ''bob'', rs_credential_id = ''key'', rs_rp_id = ''localhost'',
     rs_prf_salt = replicate 32 1, rs_encrypted_blob = [5], rs_created_at = [], rs_updated_at = []\<rparr>]\<rparr>"

lemma sample_escrow_ok:
  "healthy sample_escrow" "hmac_ok sample_env" "valid_name ''bob''" "valid_name ''nobody''" "valid_credential ''key''"
  "nil_uuid \<notin> u_id ` set (c_users sample_escrow)" "user_named sample_escrow ''bob'' = Some (sample_user ''bob'')"
  "user_named sample_escrow ''nobody'' = None"
  by (simp_all add: sample_escrow_def healthy_def sample_conn_def empty_conn_def hmac_ok_def sample_env_def valid_name_def
      valid_credential_def MAX_CREDENTIAL_ID_LEN_def nil_uuid_def user_named_def sample_user_def)

theorem recovery_lookup_padded_witness:
  "recovery_lookup sample_env ''nobody'' sample_escrow
    = (Inr (''localhost'', map (synthetic_descriptor sample_env ''nobody'') [0, 1, 2, 3]), sample_escrow)"
proof -
  have "[0 ..< LOOKUP_DESCRIPTOR_COUNT] = [0, 1, 2, 3]" by (simp add: LOOKUP_DESCRIPTOR_COUNT_def upt_rec)
  then show ?thesis
    using recovery_lookup_padded [OF sample_escrow_ok(1,4), of sample_env] sample_escrow_ok(8)
    by (simp add: sample_env_def rp_id_of_def)
qed

theorem recovery_fetch_returns_witness:
  "\<exists>a b. recovery_fetch sample_env ''nobody'' ''key'' sample_escrow = (Inr (Some a), sample_escrow)
    \<and> fa_encrypted_blob a = cr_b64_encode toy_crypto b \<and> length b = 2048"
proof -
  have "slot_of sample_escrow ''nobody'' ''key'' = None" using sample_escrow_ok(8) by (simp add: slot_of_def)
  moreover have "re_crypto sample_env = toy_crypto" by (simp add: sample_env_def)
  ultimately show ?thesis using recovery_fetch_returns [OF sample_escrow_ok(1,2,4,5)] by metis
qed

theorem fetch_reveals_slots_witness:
  "(\<exists>a. fst (recovery_fetch sample_env ''bob'' ''key'' sample_escrow) = Inr (Some a) \<and> fa_user_id a \<noteq> nil_uuid)
   \<and> (\<exists>a. fst (recovery_fetch sample_env ''nobody'' ''key'' sample_escrow) = Inr (Some a) \<and> fa_user_id a = nil_uuid)"
proof -
  have "slot_of sample_escrow ''bob'' ''key'' \<noteq> None"
    using sample_escrow_ok(7) by (simp add: slot_of_def) (simp add: sample_escrow_def sample_user_def)
  moreover have "slot_of sample_escrow ''nobody'' ''key'' = None" using sample_escrow_ok(8) by (simp add: slot_of_def)
  ultimately show ?thesis
    using fetch_reveals_slots [OF sample_escrow_ok(1,2,3,5,6)] fetch_reveals_slots [OF sample_escrow_ok(1,2,4,5,6)] by metis
qed

theorem recovery_roundtrip_witness:
  "\<exists>c' a. fst (recovery_fetch sample_env ''bob'' ''key'' c') = Inr (Some a) \<and> fa_encrypted_blob a = cr_b64_encode toy_crypto [9]
    \<and> (\<exists>c''. revoke_slot ''bob'' ''key'' c' = (Inr (), c'') \<and> slot_of c'' ''bob'' ''key'' = None)"
proof -
  have "re_crypto sample_env = toy_crypto" by (simp add: sample_env_def)
  moreover have "\<forall>bs. cr_b64_decode toy_crypto (cr_b64_encode toy_crypto bs) = Inr bs"
    using toy_crypto_ok by (simp add: crypto_ok_def)
  ultimately show ?thesis
    using recovery_roundtrip [OF sample_escrow_ok(1,7,3,5), of "replicate 32 1" "[9]" sample_env 2 "[]"]
    by (fastforce simp: PRF_SALT_LEN_def MAX_ENCRYPTED_BLOB_LEN_def sample_user_def)
qed

end
