(* ===== verification/Fed_Wire.thy ===== *)
theory Fed_Wire
  imports Json_Rows Libraries
begin

section \<open>Federation: identity, pinned peers, signed events\<close>

text \<open>
  \<open>federation/identity.rs\<close>, \<open>federation/peers.rs\<close> and \<open>federation/wire.rs\<close>. The cryptography, base64 and
  the serializer to bytes are third-party code: a \<open>crypto\<close> record of functions is an argument of the
  definitions that use them; \<open>crypto_ok\<close> states what their documentation promises. A public key or a
  signature is its bytes; \<open>cr_key_ok\<close> is the check of \<open>VerifyingKey::from_bytes\<close>.
\<close>

subsection \<open>Events and the library functions\<close>

record fed_event =
  fe_type :: string
  fe_node_name :: string
  fe_timestamp :: u64
  fe_payload :: json

definition fed_event_json :: "fed_event \<Rightarrow> json" where
  "fed_event_json e = JObj [(''type'', JStr (fe_type e)), (''node_name'', JStr (fe_node_name e)),
     (''timestamp'', JNum (uint (fe_timestamp e))), (''payload'', fe_payload e)]"

definition parse_fed_event :: "json \<Rightarrow> fed_event option" where
  "parse_fed_event v = Option.bind (fields_of [''type'', ''node_name'', ''timestamp'', ''payload''] v) (\<lambda>kvs.
     Option.bind (field_str kvs ''type'') (\<lambda>x0.
     Option.bind (field_str kvs ''node_name'') (\<lambda>x1.
     Option.bind (field_u64 kvs ''timestamp'') (\<lambda>x2.
     Option.bind (map_of kvs ''payload'') (\<lambda>x3.
     Some \<lparr>fe_type = x0, fe_node_name = x1, fe_timestamp = x2, fe_payload = x3\<rparr>)))))"

subsection \<open>Node identity\<close>

record node_identity =
  ni_node_id :: string
  ni_public_key :: bytes
  ni_signing_key :: bytes

definition load_identity :: "crypto \<Rightarrow> conn \<Rightarrow> node_identity option db_res" where
  "load_identity cr c = bindE (stmt ''identity.load'' c (c_node_identity c)) (\<lambda>row. case row of
     None \<Rightarrow> Inr None
   | Some (node_id, pk, sk) \<Rightarrow>
       if length pk \<noteq> 32 then Inl (InvalidParameterName ''node public_key wrong length'')
       else if length sk \<noteq> 32 then Inl (InvalidParameterName ''node private_key wrong length'')
       else if \<not> cr_key_ok cr pk then Inl (InvalidParameterName ''node public_key invalid'')
       else if cr_public cr sk \<noteq> pk then Inl (InvalidParameterName ''node identity public/private key mismatch'')
       else Inr (Some \<lparr>ni_node_id = node_id, ni_public_key = pk, ni_signing_key = sk\<rparr>))"

text \<open>\<open>seed\<close> is what the operating system's generator returns (\<open>None\<close> when it fails), \<open>node_id\<close> what
  \<open>uuid_v4_hex\<close> returns.\<close>

definition ensure_identity :: "crypto \<Rightarrow> bytes option \<Rightarrow> string \<Rightarrow> node_identity db_op" where
  "ensure_identity cr seed node_id = bindS (readS (load_identity cr)) (\<lambda>existing. case existing of
     Some i \<Rightarrow> returnS i
   | None \<Rightarrow> (case seed of
       None \<Rightarrow> throwS (InvalidParameterName ''rng'')
     | Some sk \<Rightarrow> bindS (exec ''identity.ensure'' (\<lambda>c. case c_node_identity c of
           Some _ \<Rightarrow> None
         | None \<Rightarrow> Some (c\<lparr>c_node_identity := Some (node_id, cr_public cr sk, sk)\<rparr>)))
         (\<lambda>_. returnS \<lparr>ni_node_id = node_id, ni_public_key = cr_public cr sk, ni_signing_key = sk\<rparr>)))"

text \<open>The id: sixteen random bytes with the version and variant bits stamped, in hex.\<close>

definition uuid_v4_hex :: "bytes \<Rightarrow> string" where
  "uuid_v4_hex bytes = hex (bytes[6 := bytes ! 6 AND 0x0f OR 0x40, 8 := bytes ! 8 AND 0x3f OR 0x80])"

subsection \<open>Pinned peers\<close>

definition is_active :: "pinned_peer \<Rightarrow> bool" where
  "is_active p = (pp_revoked_at p = None)"

definition row_to_peer :: "crypto \<Rightarrow> pinned_peer \<Rightarrow> pinned_peer db_res" where
  "row_to_peer cr p =
     (if length (pp_public_key p) \<noteq> 32 then Inl (InvalidParameterName ''peer public_key wrong length'')
      else if \<not> cr_key_ok cr (pp_public_key p) then Inl (InvalidParameterName ''peer public_key invalid'')
      else Inr p)"

definition get_peer :: "crypto \<Rightarrow> conn \<Rightarrow> string \<Rightarrow> pinned_peer option db_res" where
  "get_peer cr c node_id = optional (bindE (query_row ''peers.get'' c
     (rows_where (\<lambda>p. pp_node_id p = node_id) (c_fed_peers c))) (row_to_peer cr))"

definition pin_peer :: "crypto \<Rightarrow> string \<Rightarrow> string \<Rightarrow> bytes \<Rightarrow> string \<Rightarrow> pinned_peer db_op" where
  "pin_peer cr now node_id pk hostname = bindS (exec ''peers.pin'' (\<lambda>c.
     let row = \<lparr>pp_node_id = node_id, pp_public_key = pk, pp_hostname = hostname, pp_pinned_at = now,
           pp_revoked_at = None\<rparr>
     in Some (c\<lparr>c_fed_peers := (if node_id \<in> pp_node_id ` set (c_fed_peers c)
          then update_where (\<lambda>p. pp_node_id p = node_id) (\<lambda>_. row) (c_fed_peers c)
          else c_fed_peers c @ [row])\<rparr>)))
     (\<lambda>_. readS (\<lambda>c. bindE (get_peer cr c node_id) (\<lambda>po.
        ok_or po (InvalidParameterName ''peer disappeared after pin''))))"

definition revoke_peer :: "string \<Rightarrow> string \<Rightarrow> unit db_op" where
  "revoke_peer now node_id c =
     (let hit = (\<lambda>p. pp_node_id p = node_id \<and> pp_revoked_at p = None)
      in bindS (exec ''peers.revoke'' (\<lambda>c. Some (c\<lparr>c_fed_peers :=
             update_where hit (\<lambda>p. p\<lparr>pp_revoked_at := Some now\<rparr>) (c_fed_peers c)\<rparr>)))
           (\<lambda>_. if list_ex hit (c_fed_peers c) then returnS ()
                else throwS (InvalidParameterName ''peer not found or already revoked'')) c)"

definition list_all_peers :: "crypto \<Rightarrow> conn \<Rightarrow> pinned_peer list db_res" where
  "list_all_peers cr c = bindE (stmt ''peers.list_all'' c (sort_key pp_hostname (c_fed_peers c)))
     (mapE (row_to_peer cr))"

definition active_public_key :: "crypto \<Rightarrow> conn \<Rightarrow> string \<Rightarrow> bytes option db_res" where
  "active_public_key cr c node_id = bindE (get_peer cr c node_id) (\<lambda>po. case po of
     None \<Rightarrow> Inr None
   | Some p \<Rightarrow> if \<not> is_active p then Inr None else Inr (Some (pp_public_key p)))"

subsection \<open>The signed envelope\<close>

definition WIRE_VERSION :: u32 where "WIRE_VERSION = 3"

record signed_event =
  se_v :: u32
  se_event :: fed_event
  se_origin_node_id :: string
  se_seq :: u64
  se_event_id :: string
  se_signature :: string

datatype wire_error =
    UnsupportedVersion u32
  | UnpinnedPeer string
  | SignatureDecode string
  | EventIdMismatch
  | BadSignature
  | WireDb db_error
  | Serialize string

definition signed_event_json :: "signed_event \<Rightarrow> json" where
  "signed_event_json s = JObj [(''v'', JNum (uint (se_v s))), (''event'', fed_event_json (se_event s)),
     (''origin_node_id'', JStr (se_origin_node_id s)), (''seq'', JNum (uint (se_seq s))),
     (''event_id'', JStr (se_event_id s)), (''signature'', JStr (se_signature s))]"

definition parse_signed_event :: "json \<Rightarrow> signed_event option" where
  "parse_signed_event v = Option.bind
     (fields_of [''v'', ''event'', ''origin_node_id'', ''seq'', ''event_id'', ''signature''] v) (\<lambda>kvs.
     Option.bind (field_int 0 (2 ^ 32 - 1) kvs ''v'') (\<lambda>x0.
     Option.bind (Option.bind (map_of kvs ''event'') parse_fed_event) (\<lambda>x1.
     Option.bind (field_str kvs ''origin_node_id'') (\<lambda>x2.
     Option.bind (field_u64 kvs ''seq'') (\<lambda>x3.
     Option.bind (field_str kvs ''event_id'') (\<lambda>x4.
     Option.bind (field_str kvs ''signature'') (\<lambda>x5.
     Some \<lparr>se_v = word_of_int x0, se_event = x1, se_origin_node_id = x2, se_seq = x3, se_event_id = x4,
       se_signature = x5\<rparr>)))))))"

text \<open>\<open>BTreeMap::insert\<close>: keys ascending, the last value of a key wins.\<close>

fun btree_insert :: "string \<Rightarrow> 'v \<Rightarrow> (string \<times> 'v) list \<Rightarrow> (string \<times> 'v) list" where
  "btree_insert k v [] = [(k, v)]"
| "btree_insert k v ((k', v') # kvs) =
     (if k < k' then (k, v) # (k', v') # kvs
      else if k = k' then (k, v) # kvs
      else (k', v') # btree_insert k v kvs)"

definition btree_of :: "(string \<times> 'v) list \<Rightarrow> (string \<times> 'v) list" where
  "btree_of kvs = foldl (\<lambda>m (k, v). btree_insert k v m) [] kvs"

primrec canonicalize :: "json \<Rightarrow> json" where
  "canonicalize (JObj kvs) = JObj (btree_of (map (map_prod id canonicalize) kvs))"
| "canonicalize (JArr xs) = JArr (map canonicalize xs)"
| "canonicalize (JStr s) = JStr s"
| "canonicalize (JNum n) = JNum n"
| "canonicalize (JBool b) = JBool b"
| "canonicalize JNull = JNull"

definition canonical_bytes :: "crypto \<Rightarrow> json \<Rightarrow> wire_error + bytes" where
  "canonical_bytes cr v = map_err Serialize (cr_to_vec cr (canonicalize v))"

definition canonical_signing_bytes :: "crypto \<Rightarrow> u32 \<Rightarrow> fed_event \<Rightarrow> string \<Rightarrow> u64 \<Rightarrow> wire_error + bytes" where
  "canonical_signing_bytes cr v event origin seq = canonical_bytes cr
     (JObj [(''v'', JNum (uint v)), (''event'', fed_event_json event), (''origin_node_id'', JStr origin),
       (''seq'', JNum (uint seq))])"

definition derive_event_id :: "crypto \<Rightarrow> bytes \<Rightarrow> string" where
  "derive_event_id cr signing_bytes = hex (cr_sha256 cr signing_bytes)"

definition sign_event :: "crypto \<Rightarrow> node_identity \<Rightarrow> fed_event \<Rightarrow> u64 \<Rightarrow> wire_error + signed_event" where
  "sign_event cr identity event seq =
     bindE (canonical_signing_bytes cr WIRE_VERSION event (ni_node_id identity) seq) (\<lambda>signing_bytes.
       Inr \<lparr>se_v = WIRE_VERSION, se_event = event, se_origin_node_id = ni_node_id identity, se_seq = seq,
         se_event_id = derive_event_id cr signing_bytes,
         se_signature = cr_b64_encode cr (cr_sign cr (ni_signing_key identity) signing_bytes)\<rparr>)"

definition verify_with_public_key :: "crypto \<Rightarrow> bytes \<Rightarrow> signed_event \<Rightarrow> wire_error + unit" where
  "verify_with_public_key cr pk env =
     (if se_v env \<noteq> WIRE_VERSION then Inl (UnsupportedVersion (se_v env))
      else bindE (canonical_signing_bytes cr (se_v env) (se_event env) (se_origin_node_id env)
                    (se_seq env)) (\<lambda>signing_bytes.
        if derive_event_id cr signing_bytes \<noteq> se_event_id env then Inl EventIdMismatch
        else bindE (map_err SignatureDecode (cr_b64_decode cr (se_signature env))) (\<lambda>sig_bytes.
          if length sig_bytes \<noteq> 64 then Inl (SignatureDecode ''signature wrong length'')
          else ensure (cr_verify cr pk signing_bytes sig_bytes) BadSignature)))"

definition verify_event :: "crypto \<Rightarrow> conn \<Rightarrow> signed_event \<Rightarrow> wire_error + unit" where
  "verify_event cr c env =
     (if se_v env \<noteq> WIRE_VERSION then Inl (UnsupportedVersion (se_v env))
      else bindE (map_err WireDb (active_public_key cr c (se_origin_node_id env))) (\<lambda>pko.
        bindE (ok_or pko (UnpinnedPeer (se_origin_node_id env))) (\<lambda>pk.
          verify_with_public_key cr pk env)))"

subsection \<open>Canonical form\<close>

lemma btree_insert_keys: "fst ` set (btree_insert k v m) = insert k (fst ` set m)"
  by (induction k v m rule: btree_insert.induct) auto

lemma btree_insert_sorted:
  "sorted_wrt (<) (map fst m) \<Longrightarrow> sorted_wrt (<) (map fst (btree_insert k v m))"
proof (induction k v m rule: btree_insert.induct)
  case (2 k v k' v' kvs)
  then show ?case
    using btree_insert_keys [of k v kvs] by (auto 4 3 simp: image_iff)
qed simp

lemma btree_insert_map: "sorted_wrt (<) (map fst m) \<Longrightarrow> map_of (btree_insert k v m) = (map_of m)(k \<mapsto> v)"
proof (induction k v m rule: btree_insert.induct)
  case (2 k v k' v' kvs)
  then show ?case by (auto simp: fun_eq_iff)
qed simp

lemma btree_fold:
  "sorted_wrt (<) (map fst m) \<Longrightarrow>
   sorted_wrt (<) (map fst (foldl (\<lambda>m (k, v). btree_insert k v m) m kvs))
   \<and> map_of (foldl (\<lambda>m (k, v). btree_insert k v m) m kvs) = map_of m ++ map_of (rev kvs)"
proof (induction kvs arbitrary: m)
  case (Cons kv kvs)
  obtain k v where kv: "kv = (k, v)" by fastforce
  have "map_of m ++ map_of (rev (kv # kvs)) = (map_of m)(k \<mapsto> v) ++ map_of (rev kvs)"
    by (auto simp: kv map_add_def fun_eq_iff split: option.split)
  with Cons.IH [OF btree_insert_sorted [OF Cons.prems, of k v]] Cons.prems
  show ?case by (simp add: kv btree_insert_map del: fun_upd_apply rev.simps)
qed simp

lemma btree_of_sorted: "sorted_wrt (<) (map fst (btree_of kvs))"
  and btree_of_map: "map_of (btree_of kvs) = map_of (rev kvs)"
  using btree_fold [of "[]" kvs] by (simp_all add: btree_of_def)

text \<open>A sorted association list is determined by its map.\<close>

lemma sorted_assoc_unique:
  assumes "sorted_wrt (<) (map fst (xs :: (string \<times> 'v) list))" and "sorted_wrt (<) (map fst ys)"
    and "map_of xs = map_of ys"
  shows "xs = ys"
proof -
  have d: "distinct (map fst zs)" if "sorted_wrt (<) (map fst zs)" for zs :: "(string \<times> 'v) list"
    using that by (simp add: strict_sorted_iff)
  have rebuild: "zs = map (\<lambda>k. (k, the (map_of zs k))) (map fst zs)" if "sorted_wrt (<) (map fst zs)"
    for zs :: "(string \<times> 'v) list"
    using d [OF that] by (auto intro!: map_idI [symmetric] simp: comp_def)
  have "set (map fst xs) = set (map fst ys)"
    using assms(3) by (metis dom_map_of_conv_image_fst set_map)
  then have "map fst xs = map fst ys"
    using assms(1,2) by (intro sorted_distinct_set_unique) (simp_all add: strict_sorted_iff)
  with assms(3) rebuild [OF assms(1)] rebuild [OF assms(2)] show ?thesis by metis
qed

lemma btree_of_cong: "map_of (rev xs) = map_of (rev ys) \<Longrightarrow> btree_of xs = btree_of ys"
  by (rule sorted_assoc_unique) (simp_all add: btree_of_sorted btree_of_map)

lemma map_of_rev_distinct: "distinct (map fst xs) \<Longrightarrow> map_of (rev xs) = map_of xs"
proof (induction xs)
  case (Cons x xs)
  then have "map_of xs (fst x) = None" by (simp add: map_of_eq_None_iff)
  with Cons show ?case by (cases x) (auto simp: map_add_def fun_eq_iff split: option.split)
qed simp

lemma btree_of_id: "sorted_wrt (<) (map fst xs) \<Longrightarrow> btree_of xs = xs"
  by (rule sorted_assoc_unique [OF btree_of_sorted])
    (simp_all add: btree_of_map strict_sorted_iff map_of_rev_distinct)

lemma btree_of_set: "set (btree_of kvs) \<subseteq> set kvs"
proof -
  have "distinct (map fst (btree_of kvs))"
    using btree_of_sorted [of kvs] by (simp only: strict_sorted_iff)
  then show ?thesis
    using btree_of_map [of kvs] by (metis map_of_SomeD map_of_is_SomeI set_rev subrelI)
qed

lemma canonicalize_idem: "canonicalize (canonicalize v) = canonicalize v"
proof (induction v)
  case (JObj kvs)
  have "map (map_prod id canonicalize) (btree_of (map (map_prod id canonicalize) kvs))
      = btree_of (map (map_prod id canonicalize) kvs)"
  proof (rule map_idI)
    fix kv assume "kv \<in> set (btree_of (map (map_prod id canonicalize) kvs))"
    then obtain k v where "(k, v) \<in> set kvs" and kv: "kv = (k, canonicalize v)"
      using btree_of_set by (fastforce simp: map_prod_def)
    with JObj.IH [of "(k, v)" v] show "map_prod id canonicalize kv = kv" by simp
  qed
  then show ?case by (simp add: btree_of_id [OF btree_of_sorted])
qed (simp_all add: map_idI)

text \<open>The same value up to the order of the members of objects.\<close>

inductive same_json :: "json \<Rightarrow> json \<Rightarrow> bool" where
  same: "same_json v v"
| via: "same_json u v \<Longrightarrow> same_json v w \<Longrightarrow> same_json u w"
| reorder: "distinct (map fst kvs) \<Longrightarrow> distinct (map fst kvs') \<Longrightarrow> set kvs = set kvs'
    \<Longrightarrow> same_json (JObj kvs) (JObj kvs')"
| member: "same_json v v' \<Longrightarrow> same_json (JObj (xs @ (k, v) # ys)) (JObj (xs @ (k, v') # ys))"
| element: "same_json v v' \<Longrightarrow> same_json (JArr (xs @ v # ys)) (JArr (xs @ v' # ys))"

lemma canonicalize_reorder:
  assumes "distinct (map fst kvs)" and "distinct (map fst kvs')" and "set kvs = set kvs'"
  shows "canonicalize (JObj kvs) = canonicalize (JObj kvs')"
proof -
  let ?f = "map (map_prod id canonicalize)"
  have keys: "map fst (?f xs) = map fst xs" for xs by (simp add: comp_def)
  have "map_of (?f kvs) = map_of (?f kvs')"
    using assms by (intro map_of_inject_set [THEN iffD2]) (simp_all add: keys)
  then show ?thesis
    using assms by (simp add: btree_of_cong map_of_rev_distinct keys)
qed

subsection \<open>Signatures\<close>

lemma get_peer_active:
  "active_public_key cr c origin = Inr (Some pk) \<Longrightarrow>
   (\<exists>p \<in> set (c_fed_peers c). pp_node_id p = origin \<and> pp_public_key p = pk \<and> pp_revoked_at p = None
     \<and> length pk = 32 \<and> cr_key_ok cr pk)"
  by (auto simp: active_public_key_def get_peer_def row_to_peer_def is_active_def query_row_eq_Inr
      bindE_def optional_def split: sum.splits option.splits if_splits db_error.splits
      dest!: first_row_SomeD)

lemma revoke_peer_rows:
  "healthy c \<Longrightarrow> c_fed_peers (snd (revoke_peer now node_id c))
    = update_where (\<lambda>p. pp_node_id p = node_id \<and> pp_revoked_at p = None) (\<lambda>p. p\<lparr>pp_revoked_at := Some now\<rparr>) (c_fed_peers c)"
  by (simp add: revoke_peer_def exec_healthy bindS_def Let_def)

lemma verify_okD:
  assumes "verify_with_public_key cr pk e = Inr ()"
  shows "\<exists>bs sig. se_v e = WIRE_VERSION
    \<and> canonical_signing_bytes cr WIRE_VERSION (se_event e) (se_origin_node_id e) (se_seq e) = Inr bs
    \<and> se_event_id e = derive_event_id cr bs \<and> cr_b64_decode cr (se_signature e) = Inr sig
    \<and> length sig = 64 \<and> cr_verify cr pk bs sig"
  using assms by (auto simp: verify_with_public_key_def split: if_splits)

lemma sign_verify:
  assumes "crypto_ok cr" and "sign_event cr i e seq = Inr s" and "ni_public_key i = cr_public cr (ni_signing_key i)"
  shows "verify_with_public_key cr (ni_public_key i) s = Inr ()"
proof -
  obtain bs where "canonical_signing_bytes cr WIRE_VERSION e (ni_node_id i) seq = Inr bs"
    using assms(2) by (auto simp: sign_event_def)
  with assms show ?thesis
    by (auto simp: sign_event_def verify_with_public_key_def crypto_ok_def simp del: bindE_eq_Inr)
qed

lemma parse_fed_event_json: "parse_fed_event (fed_event_json e) = Some e"
  using uint_lt2p [of "fe_timestamp e"]
  by (cases e) (simp add: parse_fed_event_def fed_event_json_def field_str_def field_u64_def field_int_def)

lemma parse_signed_event_json: "parse_signed_event (signed_event_json s) = Some s"
  using uint_lt2p [of "se_v s"] uint_lt2p [of "se_seq s"]
  by (cases s) (simp add: parse_signed_event_def signed_event_json_def parse_fed_event_json field_str_def
      field_u64_def field_int_def)

subsection \<open>Properties\<close>

text \<open>The canonical form does not depend on the order in which a producer writes the members of an
  object, at any depth, and is a normal form: two peers whose JSON agrees up to member order sign the same
  bytes.\<close>

theorem canonical_form:
  assumes "same_json v v'"
  shows "canonicalize v = canonicalize v' \<and> canonicalize (canonicalize v) = canonicalize v
    \<and> canonical_bytes cr v = canonical_bytes cr v'"
proof -
  have "canonicalize v = canonicalize v'"
    using assms
  proof induction
    case (reorder kvs kvs')
    then show ?case by (rule canonicalize_reorder)
  qed simp_all
  then show ?thesis by (simp add: canonicalize_idem canonical_bytes_def)
qed

theorem canonical_form_witness:
  "canonicalize (JObj [(''b'', JNum 1), (''a'', JArr [JObj [(''d'', JNull), (''c'', JBool True)]])])
   = JObj [(''a'', JArr [JObj [(''c'', JBool True), (''d'', JNull)]]), (''b'', JNum 1)]"
proof -
  let ?v = "JObj [(''b'', JNum 1), (''a'', JArr [JObj [(''d'', JNull), (''c'', JBool True)]])]"
  let ?w = "JObj [(''a'', JArr [JObj [(''d'', JNull), (''c'', JBool True)]]), (''b'', JNum 1)]"
  have "same_json ?v ?w"
    by (rule reorder) auto
  from canonical_form [OF this] have "canonicalize ?v = canonicalize ?w" by blast
  then show ?thesis by code_simp
qed

text \<open>C33. A signed event survives the wire: what a node signs, prints and sends parses back to the same
  envelope and verifies at every peer that has pinned the node's key and not revoked it.\<close>

theorem signed_event_roundtrip:
  assumes "crypto_ok cr" and "ni_public_key i = cr_public cr (ni_signing_key i)"
    and "sign_event cr i e seq = Inr s"
    and "active_public_key cr c (ni_node_id i) = Inr (Some (ni_public_key i))"
  shows "parse_signed_event (signed_event_json s) = Some s \<and> verify_event cr c s = Inr ()
    \<and> se_event s = e \<and> se_seq s = seq"
proof -
  have "se_v s = WIRE_VERSION" "se_origin_node_id s = ni_node_id i" "se_event s = e" "se_seq s = seq"
    using assms(3) by (auto simp: sign_event_def)
  with sign_verify [OF assms(1,3,2)] assms(4) show ?thesis
    by (simp add: parse_signed_event_json verify_event_def)
qed

text \<open>A toy instance of the library functions, for the witnesses: hashing and signing are the identity up to
  padding.\<close>

definition sample_identity :: node_identity where
  "sample_identity = \<lparr>ni_node_id = ''n1'', ni_public_key = replicate 32 0, ni_signing_key = []\<rparr>"

definition sample_event :: fed_event where
  "sample_event = \<lparr>fe_type = ''message:new'', fe_node_name = ''n1'', fe_timestamp = 7, fe_payload = JNull\<rparr>"

definition sample_pins :: conn where
  "sample_pins = empty_conn\<lparr>c_fed_peers := [\<lparr>pp_node_id = ''n1'', pp_public_key = replicate 32 0,
     pp_hostname = ''h'', pp_pinned_at = ''t'', pp_revoked_at = None\<rparr>]\<rparr>"

definition sample_signed :: signed_event where
  "sample_signed = \<lparr>se_v = 3, se_event = sample_event, se_origin_node_id = ''n1'', se_seq = 1,
     se_event_id = derive_event_id toy_crypto [1, 2, 3], se_signature = cr_b64_encode toy_crypto
       (cr_sign toy_crypto [] [1, 2, 3])\<rparr>"

lemma sample_sign: "sign_event toy_crypto sample_identity sample_event 1 = Inr sample_signed"
  by (simp add: sign_event_def canonical_signing_bytes_def canonical_bytes_def sample_identity_def
      sample_signed_def WIRE_VERSION_def) (simp add: toy_crypto_def)

lemma sample_pinned: "active_public_key toy_crypto sample_pins ''n1'' = Inr (Some (replicate 32 0))"
  by code_simp

theorem signed_event_roundtrip_witness:
  "verify_event toy_crypto sample_pins sample_signed = Inr ()"
proof -
  have "ni_public_key sample_identity = cr_public toy_crypto (ni_signing_key sample_identity)"
    "active_public_key toy_crypto sample_pins (ni_node_id sample_identity)
       = Inr (Some (ni_public_key sample_identity))"
    using sample_pinned by (simp_all add: sample_identity_def toy_crypto_def)
  from signed_event_roundtrip [OF toy_crypto_ok this(1) sample_sign this(2)] show ?thesis by blast
qed

text \<open>C30. Nothing verifies without a pinned key: an accepted envelope has version 3, its origin has a row
  that is not revoked, and the row's key accepts the signature over the canonical bytes of exactly this
  event, origin and sequence number, which the event id hashes. Revoking the origin refuses every envelope
  of it from then on.\<close>

theorem verify_needs_pinned_key:
  assumes "healthy c" and "verify_event cr c s = Inr ()"
  shows "(\<exists>p bs sig. p \<in> set (c_fed_peers c) \<and> pp_node_id p = se_origin_node_id s \<and> pp_revoked_at p = None
      \<and> canonical_signing_bytes cr WIRE_VERSION (se_event s) (se_origin_node_id s) (se_seq s) = Inr bs
      \<and> se_event_id s = derive_event_id cr bs \<and> cr_b64_decode cr (se_signature s) = Inr sig
      \<and> cr_verify cr (pp_public_key p) bs sig)
    \<and> se_v s = WIRE_VERSION
    \<and> verify_event cr (snd (revoke_peer now (se_origin_node_id s) c)) s \<noteq> Inr ()"
proof -
  let ?o = "se_origin_node_id s"
  have v: "se_v s = WIRE_VERSION" using assms(2) by (auto simp: verify_event_def split: if_splits)
  then obtain pk where pk: "active_public_key cr c ?o = Inr (Some pk)"
    and ok: "verify_with_public_key cr pk s = Inr ()"
    using assms(2) by (auto simp: verify_event_def)
  have "\<not> (\<exists>p \<in> set (c_fed_peers (snd (revoke_peer now ?o c))). pp_node_id p = ?o \<and> pp_revoked_at p = None)"
    by (auto simp: revoke_peer_rows [OF assms(1)])
  then have "verify_event cr (snd (revoke_peer now ?o c)) s \<noteq> Inr ()"
    using get_peer_active [of cr _ ?o] by (fastforce simp: verify_event_def v)
  with v get_peer_active [OF pk] verify_okD [OF ok] show ?thesis by blast
qed

theorem verify_needs_pinned_key_witness:
  "verify_event toy_crypto (snd (revoke_peer ''now'' ''n1'' sample_pins)) sample_signed \<noteq> Inr ()"
proof -
  have h: "healthy sample_pins" by (simp add: healthy_def sample_pins_def empty_conn_def)
  have "verify_event toy_crypto sample_pins sample_signed = Inr ()"
    using sign_verify [OF toy_crypto_ok sample_sign] sample_pinned
    by (simp add: verify_event_def sample_signed_def WIRE_VERSION_def sample_identity_def toy_crypto_def)
  moreover have "se_origin_node_id sample_signed = ''n1''" by (simp add: sample_signed_def)
  ultimately show ?thesis using verify_needs_pinned_key [OF h] by metis
qed

end
