(* ===== verification/Fed_Transport.thy ===== *)
theory Fed_Transport
  imports Fed_Wire
begin

section \<open>Federation: the transport\<close>

text \<open>
  \<open>federation/transport.rs\<close>: which frames the transport believes, which peers it talks to, what it sends.
  Sockets are the environment: \<open>dial\<close> says whether \<open>connect_async\<close> succeeds for a URL, \<open>io\<close> whether a send
  to an address does, and the frames put on the sockets are \<open>tr_sent\<close>. The serializer to text and the
  parser are third-party code, the argument \<open>js\<close>. The connection map is a \<open>HashMap\<close>: the order in which a
  broadcast walks it is not specified, the model walks it in the order of insertion.
\<close>

datatype frame = TextFrame string | CloseFrame | PingFrame

record transport =
  tr_conns :: "(string \<times> bool) list"
  tr_peers :: "string list"
  tr_join_secret :: string
  tr_insecure :: bool
  tr_node_identity :: "node_identity option"
  tr_require_v3 :: bool
  tr_seq :: u64
  tr_sent :: "(string \<times> frame) list"

text \<open>\<open>Transport::with_settings_full\<close>, with a database handle; \<open>SEQ\<close> is a static counter that starts at 1.\<close>

definition transport_new :: "string \<Rightarrow> bool \<Rightarrow> node_identity option \<Rightarrow> bool \<Rightarrow> transport" where
  "transport_new secret insecure identity require_v3 = \<lparr>tr_conns = [], tr_peers = [], tr_join_secret = secret,
     tr_insecure = insecure, tr_node_identity = identity, tr_require_v3 = require_v3, tr_seq = 1, tr_sent = []\<rparr>"

record provenance =
  pv_origin_node_id :: "string option"
  pv_seq :: "u64 option"
  pv_event_id :: "string option"

definition provenance_default :: provenance where
  "provenance_default = \<lparr>pv_origin_node_id = None, pv_seq = None, pv_event_id = None\<rparr>"

subsection \<open>Handshakes\<close>

definition parse_auth_message :: "json \<Rightarrow> string option" where
  "parse_auth_message v = Option.bind (fields_of [''join_token''] v) (\<lambda>kvs. field_str kvs ''join_token'')"

definition validate_auth_message_with_insecure :: "json_lib \<Rightarrow> string \<Rightarrow> string \<Rightarrow> bool \<Rightarrow> bool" where
  "validate_auth_message_with_insecure js message_text expected_secret insecure =
     (if expected_secret = [] then insecure
      else (case Option.bind (js_from_str js message_text) parse_auth_message of
          None \<Rightarrow> False
        | Some join_token \<Rightarrow> join_token = expected_secret))"

definition build_auth_message :: "json_lib \<Rightarrow> string \<Rightarrow> string" where
  "build_auth_message js secret = js_to_string js (JObj [(''join_token'', JStr secret)])"

definition looks_like_v3 :: "json_lib \<Rightarrow> string \<Rightarrow> bool" where
  "looks_like_v3 js text = (case js_from_str js text of
     None \<Rightarrow> False
   | Some v \<Rightarrow> json_get v ''v'' = Some (JNum (uint WIRE_VERSION)) \<and> json_get_str v ''node_id'' \<noteq> None)"

record v3_handshake =
  hs_node_id :: string
  hs_nonce :: string
  hs_signature :: string

definition parse_v3_handshake :: "json \<Rightarrow> v3_handshake option" where
  "parse_v3_handshake v = Option.bind (fields_of [''v'', ''node_id'', ''nonce'', ''signature''] v) (\<lambda>kvs.
     Option.bind (field_int 0 (2 ^ 32 - 1) kvs ''v'') (\<lambda>_.
     Option.bind (field_str kvs ''node_id'') (\<lambda>x0.
     Option.bind (field_str kvs ''nonce'') (\<lambda>x1.
     Option.bind (field_str kvs ''signature'') (\<lambda>x2.
     Some \<lparr>hs_node_id = x0, hs_nonce = x1, hs_signature = x2\<rparr>)))))"

text \<open>A string's bytes: the model's strings are byte strings.\<close>

definition validate_v3_handshake ::
  "crypto \<Rightarrow> json_lib \<Rightarrow> conn \<Rightarrow> transport \<Rightarrow> string \<Rightarrow> string + string" where
  "validate_v3_handshake cr js c tr text =
     bindE (ok_or (Option.bind (js_from_str js text) parse_v3_handshake) ''v3 handshake malformed'') (\<lambda>hs.
     bindE (ensure (tr_node_identity tr \<noteq> None) ''v3 handshake unsupported: no local node identity'') (\<lambda>_.
     bindE (map_err (\<lambda>_. ''v3 nonce not valid base64'') (cr_b64_decode cr (hs_nonce hs))) (\<lambda>nonce_bytes.
     bindE (ensure (\<not> length nonce_bytes < 16) ''v3 nonce too short'') (\<lambda>_.
     bindE (map_err (\<lambda>_. ''v3 signature not valid base64'') (cr_b64_decode cr (hs_signature hs))) (\<lambda>sig_bytes.
     bindE (ensure (length sig_bytes = 64) ''v3 signature wrong length'') (\<lambda>_.
     bindE (map_err (\<lambda>_. ''v3 pinned-peer lookup failed'') (active_public_key cr c (hs_node_id hs))) (\<lambda>pko.
     bindE (ok_or pko ''v3 origin peer not pinned'') (\<lambda>pk.
     bindE (ensure (cr_verify cr pk (as_bytes (hs_node_id hs) @ nonce_bytes) sig_bytes) ''v3 signature invalid'') (\<lambda>_.
     Inr (hs_node_id hs))))))))))"

definition requires_auth :: "string \<Rightarrow> bool" where
  "requires_auth secret = (secret \<noteq> [])"

definition evaluate_handshake_message :: "crypto \<Rightarrow> json_lib \<Rightarrow> conn \<Rightarrow> transport \<Rightarrow> string \<Rightarrow> bool" where
  "evaluate_handshake_message cr js c tr text =
     (if looks_like_v3 js text
      then (case validate_v3_handshake cr js c tr text of Inr _ \<Rightarrow> True | Inl _ \<Rightarrow> False)
      else if tr_require_v3 tr then False
      else validate_auth_message_with_insecure js text (tr_join_secret tr) (tr_insecure tr))"

text \<open>\<open>first\<close> is the first frame of the peer, \<open>None\<close> when none comes within five seconds.\<close>

definition authenticate_inbound_peer ::
  "crypto \<Rightarrow> json_lib \<Rightarrow> conn \<Rightarrow> transport \<Rightarrow> frame option \<Rightarrow> bool" where
  "authenticate_inbound_peer cr js c tr first = (case first of
     Some (TextFrame text) \<Rightarrow> evaluate_handshake_message cr js c tr text
   | _ \<Rightarrow> False)"

subsection \<open>Connections\<close>

definition build_peer_url_with_insecure :: "string \<Rightarrow> bool \<Rightarrow> string" where
  "build_peer_url_with_insecure address insecure =
     (if contains ''://'' address
      then if starts_with ''ws://'' address \<and> \<not> insecure then [] else address
      else ''wss://'' @ address @ ''/federation'')"

definition set_conn :: "string \<Rightarrow> bool \<Rightarrow> transport \<Rightarrow> transport" where
  "set_conn addr up tr = tr\<lparr>tr_conns := (if addr \<in> fst ` set (tr_conns tr)
     then update_where (\<lambda>p. fst p = addr) (\<lambda>p. (addr, up)) (tr_conns tr) else tr_conns tr @ [(addr, up)])\<rparr>"

definition track_peer :: "string \<Rightarrow> transport \<Rightarrow> transport" where
  "track_peer addr tr = tr\<lparr>tr_peers := insert_or_ignore addr (tr_peers tr)\<rparr>"

definition put_frame :: "string \<Rightarrow> frame \<Rightarrow> transport \<Rightarrow> transport" where
  "put_frame addr f tr = tr\<lparr>tr_sent := tr_sent tr @ [(addr, f)]\<rparr>"

definition connect_to_peer ::
  "json_lib \<Rightarrow> (string \<Rightarrow> bool) \<Rightarrow> (string \<Rightarrow> bool) \<Rightarrow> string \<Rightarrow> transport \<Rightarrow> (string + unit) \<times> transport" where
  "connect_to_peer js dial io address tr =
     (let tr = track_peer address tr;
          url = build_peer_url_with_insecure address (tr_insecure tr)
      in if url = [] then (Inl ''refusing to connect to plain ws:// peer'', tr)
         else if \<not> dial url then (Inl ''failed to connect to peer'', tr)
         else if requires_auth (tr_join_secret tr) \<and> \<not> io address then (Inl ''failed to send auth to peer'', tr)
         else let tr = (if requires_auth (tr_join_secret tr)
                then put_frame address (TextFrame (build_auth_message js (tr_join_secret tr))) tr else tr)
              in (Inr (), set_conn address True tr))"

definition handle_incoming ::
  "crypto \<Rightarrow> json_lib \<Rightarrow> conn \<Rightarrow> string \<Rightarrow> frame option \<Rightarrow> transport \<Rightarrow> transport" where
  "handle_incoming cr js c peer_addr first tr =
     (let authenticated = (if tr_join_secret tr = [] then tr_insecure tr
            else authenticate_inbound_peer cr js c tr first)
      in if \<not> authenticated then put_frame peer_addr CloseFrame tr
         else track_peer peer_addr (set_conn peer_addr True tr))"

definition send_to_peer :: "json_lib \<Rightarrow> (string \<Rightarrow> bool) \<Rightarrow> string \<Rightarrow> fed_event \<Rightarrow> transport \<Rightarrow> (string + unit) \<times> transport" where
  "send_to_peer js io peer_addr event tr = (case map_of (tr_conns tr) peer_addr of
     None \<Rightarrow> (Inl ''peer not connected'', tr)
   | Some False \<Rightarrow> (Inl ''peer is disconnected'', tr)
   | Some True \<Rightarrow>
       if io peer_addr then (Inr (), put_frame peer_addr (TextFrame (js_to_string js (fed_event_json event))) tr)
       else (Inl ''failed to send to peer'', tr))"

definition serialize_for_wire :: "crypto \<Rightarrow> json_lib \<Rightarrow> fed_event \<Rightarrow> transport \<Rightarrow> string \<times> transport" where
  "serialize_for_wire cr js event tr = (case tr_node_identity tr of
     None \<Rightarrow> (js_to_string js (fed_event_json event), tr)
   | Some identity \<Rightarrow>
       let seq = tr_seq tr; tr = tr\<lparr>tr_seq := tr_seq tr + 1\<rparr>
       in (case sign_event cr identity event seq of
            Inr env \<Rightarrow> (js_to_string js (signed_event_json env), tr)
          | Inl _ \<Rightarrow> (js_to_string js (fed_event_json event), tr)))"

primrec send_frames :: "(string \<Rightarrow> bool) \<Rightarrow> frame \<Rightarrow> (string \<times> bool) list \<Rightarrow> transport \<Rightarrow> transport" where
  "send_frames io f [] tr = tr"
| "send_frames io f (p # ps) tr =
     send_frames io f ps (if snd p \<and> io (fst p) then put_frame (fst p) f tr else tr)"

definition broadcast_to_peers :: "crypto \<Rightarrow> json_lib \<Rightarrow> (string \<Rightarrow> bool) \<Rightarrow> fed_event \<Rightarrow> transport \<Rightarrow> transport" where
  "broadcast_to_peers cr js io event tr =
     (let (data, tr) = serialize_for_wire cr js event tr in send_frames io (TextFrame data) (tr_conns tr) tr)"

primrec reconnect_each ::
  "json_lib \<Rightarrow> (string \<Rightarrow> bool) \<Rightarrow> (string \<Rightarrow> bool) \<Rightarrow> string list \<Rightarrow> transport \<Rightarrow> transport" where
  "reconnect_each js dial io [] tr = tr"
| "reconnect_each js dial io (addr # addrs) tr = reconnect_each js dial io addrs
     (if map_of (tr_conns tr) addr = Some True then tr else snd (connect_to_peer js dial io addr tr))"

definition reconnect_disconnected_peers ::
  "json_lib \<Rightarrow> (string \<Rightarrow> bool) \<Rightarrow> (string \<Rightarrow> bool) \<Rightarrow> transport \<Rightarrow> transport" where
  "reconnect_disconnected_peers js dial io tr = reconnect_each js dial io (tr_peers tr) tr"

definition ping_connected_peers :: "(string \<Rightarrow> bool) \<Rightarrow> transport \<Rightarrow> transport" where
  "ping_connected_peers io tr = send_frames io PingFrame (tr_conns tr) tr"

definition stop_transport :: "transport \<Rightarrow> transport" where
  "stop_transport tr = (foldl (\<lambda>t p. put_frame (fst p) CloseFrame t) tr (tr_conns tr))\<lparr>tr_conns := []\<rparr>"

definition peer_statuses :: "transport \<Rightarrow> (string \<times> bool) list" where
  "peer_statuses tr = map (\<lambda>addr. (addr, map_of (tr_conns tr) addr = Some True)) (tr_peers tr)"

subsection \<open>The read pump\<close>

definition dispatch_v3_signed_frame ::
  "crypto \<Rightarrow> json_lib \<Rightarrow> conn \<Rightarrow> string \<Rightarrow> (fed_event \<times> provenance) option" where
  "dispatch_v3_signed_frame cr js c text =
     Option.bind (Option.bind (js_from_str js text) parse_signed_event) (\<lambda>env.
       case verify_event cr c env of
         Inl _ \<Rightarrow> None
       | Inr _ \<Rightarrow> Some (se_event env, \<lparr>pv_origin_node_id = Some (se_origin_node_id env),
           pv_seq = Some (se_seq env), pv_event_id = Some (se_event_id env)\<rparr>))"

definition quoted_v3 :: string where
  "quoted_v3 = [CHR 0x22, CHR ''v'', CHR 0x22, CHR '':'', CHR ''3'']"

definition quoted_v3_spaced :: string where
  "quoted_v3_spaced = [CHR 0x22, CHR ''v'', CHR 0x22, CHR '':'', CHR '' '', CHR ''3'']"

definition dispatch_inbound_text_frame ::
  "crypto \<Rightarrow> json_lib \<Rightarrow> conn \<Rightarrow> bool \<Rightarrow> string \<Rightarrow> (fed_event \<times> provenance) option" where
  "dispatch_inbound_text_frame cr js c require_v3 text =
     (if contains quoted_v3 text \<or> contains quoted_v3_spaced text then dispatch_v3_signed_frame cr js c text
      else if require_v3 then None
      else map_option (\<lambda>event. (event, provenance_default))
        (Option.bind (js_from_str js text) parse_fed_event))"

text \<open>The pump ends (close frame, error, end of stream): the connection is marked, not dropped.\<close>

definition pump_ended :: "string \<Rightarrow> transport \<Rightarrow> transport" where
  "pump_ended addr tr = tr\<lparr>tr_conns := update_where (\<lambda>p. fst p = addr) (\<lambda>p. (fst p, False)) (tr_conns tr)\<rparr>"

subsection \<open>Lemmas\<close>

lemma put_frame_sel [simp]:
  "tr_conns (put_frame a f tr) = tr_conns tr" "tr_peers (put_frame a f tr) = tr_peers tr"
  "tr_sent (put_frame a f tr) = tr_sent tr @ [(a, f)]" "tr_seq (put_frame a f tr) = tr_seq tr"
  "tr_node_identity (put_frame a f tr) = tr_node_identity tr" "tr_insecure (put_frame a f tr) = tr_insecure tr"
  "tr_join_secret (put_frame a f tr) = tr_join_secret tr" "tr_require_v3 (put_frame a f tr) = tr_require_v3 tr"
  by (simp_all add: put_frame_def)

lemma set_conn_sel [simp]:
  "tr_peers (set_conn a b tr) = tr_peers tr" "tr_sent (set_conn a b tr) = tr_sent tr"
  "tr_insecure (set_conn a b tr) = tr_insecure tr"
  by (simp_all add: set_conn_def)

lemma track_peer_sel [simp]:
  "tr_conns (track_peer a tr) = tr_conns tr" "tr_sent (track_peer a tr) = tr_sent tr"
  "tr_insecure (track_peer a tr) = tr_insecure tr" "tr_join_secret (track_peer a tr) = tr_join_secret tr"
  "set (tr_peers (track_peer a tr)) = insert a (set (tr_peers tr))"
  by (simp_all add: track_peer_def)

lemma map_of_update_where_key:
  "map_of (update_where (\<lambda>p. fst p = a) (\<lambda>p. (a, v)) kvs) k
    = (if k = a \<and> a \<in> fst ` set kvs then Some v else map_of kvs k)"
proof (induction kvs)
  case (Cons x xs)
  have "k \<notin> fst ` set xs \<Longrightarrow> map_of xs k = None" by (simp add: map_of_eq_None_iff)
  with Cons show ?case by (cases x) (force simp: update_where_def map_of_eq_None_iff image_iff)
qed (simp add: update_where_def)

lemma set_conn_map: "map_of (tr_conns (set_conn a b tr)) k = (if k = a then Some b else map_of (tr_conns tr) k)"
  by (auto simp: set_conn_def map_of_update_where_key map_add_def dom_map_of_conv_image_fst [symmetric]
      split: option.split)

lemma handshake_v3D:
  assumes "validate_v3_handshake cr js c tr text = Inr node_id"
  shows "\<exists>p nonce sig. p \<in> set (c_fed_peers c) \<and> pp_node_id p = node_id \<and> pp_revoked_at p = None
    \<and> 16 \<le> length nonce \<and> length sig = 64 \<and> cr_verify cr (pp_public_key p) (as_bytes node_id @ nonce) sig"
proof -
  obtain pk nonce sig where "active_public_key cr c node_id = Inr (Some pk)" and "\<not> length nonce < 16"
    and "length sig = 64" and "cr_verify cr pk (as_bytes node_id @ nonce) sig"
    using assms by (auto simp: validate_v3_handshake_def)
  then show ?thesis using get_peer_active [of cr c node_id pk] by (metis not_less)
qed

lemma connect_success:
  assumes "\<forall>u. dial u" and "\<forall>a. io a" and "build_peer_url_with_insecure addr (tr_insecure tr) \<noteq> []"
  shows "map_of (tr_conns (snd (connect_to_peer js dial io addr tr))) k
    = (if k = addr then Some True else map_of (tr_conns tr) k)"
  using assms by (simp add: connect_to_peer_def Let_def set_conn_map)

lemma connect_keeps:
  "tr_insecure (snd (connect_to_peer js dial io addr tr)) = tr_insecure tr"
  "map_of (tr_conns tr) k = Some True \<Longrightarrow> map_of (tr_conns (snd (connect_to_peer js dial io addr tr))) k = Some True"
  by (simp_all add: connect_to_peer_def Let_def set_conn_map)

lemma reconnect_each_connects:
  assumes "\<forall>u. dial u" and "\<forall>a. io a"
  shows "(map_of (tr_conns tr) k = Some True
       \<or> k \<in> set addrs \<and> build_peer_url_with_insecure k (tr_insecure tr) \<noteq> [])
    \<Longrightarrow> map_of (tr_conns (reconnect_each js dial io addrs tr)) k = Some True"
proof (induction addrs arbitrary: tr)
  case (Cons addr addrs)
  let ?tr = "if map_of (tr_conns tr) addr = Some True then tr else snd (connect_to_peer js dial io addr tr)"
  have "map_of (tr_conns ?tr) k = Some True
      \<or> k \<in> set addrs \<and> build_peer_url_with_insecure k (tr_insecure ?tr) \<noteq> []"
    using Cons.prems connect_success [OF assms, of addr tr js k] connect_keeps [where js = js and dial = dial and io = io and addr = addr and tr = tr]
    by auto
  from Cons.IH [OF this] show ?case by simp
qed simp

subsection \<open>Properties\<close>

text \<open>With \<open>require_v3\<close> and a join secret, a peer gets in and an event gets through only by a key that is
  pinned here and not revoked: the peer that a handshake admits has signed its id and a nonce of sixteen
  bytes or more, and every event the read pump dispatches has been signed together with its origin and
  sequence number.\<close>

theorem require_v3_trusts_only_pinned:
  assumes "tr_require_v3 tr" and "tr_join_secret tr \<noteq> []"
    and "map_of (tr_conns (handle_incoming cr js c peer first tr)) peer \<noteq> map_of (tr_conns tr) peer"
    and "dispatch_inbound_text_frame cr js c (tr_require_v3 tr) text = Some (event, prov)"
  shows "(\<exists>p node_id nonce sig. p \<in> set (c_fed_peers c) \<and> pp_node_id p = node_id \<and> pp_revoked_at p = None
      \<and> 16 \<le> length nonce \<and> cr_verify cr (pp_public_key p) (as_bytes node_id @ nonce) sig)
    \<and> (\<exists>p origin seq bs sig. prov = \<lparr>pv_origin_node_id = Some origin, pv_seq = Some seq,
           pv_event_id = Some (derive_event_id cr bs)\<rparr>
      \<and> p \<in> set (c_fed_peers c) \<and> pp_node_id p = origin \<and> pp_revoked_at p = None
      \<and> canonical_signing_bytes cr WIRE_VERSION event origin seq = Inr bs
      \<and> cr_verify cr (pp_public_key p) bs sig)"
proof
  have "authenticate_inbound_peer cr js c tr first"
    using assms(2,3) by (auto simp: handle_incoming_def Let_def split: if_splits)
  then obtain t node_id where "validate_v3_handshake cr js c tr t = Inr node_id"
    using assms(1) by (auto simp: authenticate_inbound_peer_def evaluate_handshake_message_def
        split: option.splits frame.splits if_splits sum.splits)
  from handshake_v3D [OF this] show "\<exists>p node_id nonce sig. p \<in> set (c_fed_peers c) \<and> pp_node_id p = node_id
      \<and> pp_revoked_at p = None \<and> 16 \<le> length nonce
      \<and> cr_verify cr (pp_public_key p) (as_bytes node_id @ nonce) sig" by blast
next
  have "dispatch_v3_signed_frame cr js c text = Some (event, prov)"
    using assms(1,4) by (auto simp: dispatch_inbound_text_frame_def split: if_splits)
  then obtain env where env_in: "(case verify_event cr c env of Inl _ \<Rightarrow> None | Inr _ \<Rightarrow> Some (se_event env,
      \<lparr>pv_origin_node_id = Some (se_origin_node_id env), pv_seq = Some (se_seq env),
        pv_event_id = Some (se_event_id env)\<rparr>)) = Some (event, prov)"
    by (auto simp: dispatch_v3_signed_frame_def bind_eq_Some_conv)
  then have env: "verify_event cr c env = Inr ()" and ev: "event = se_event env"
    and pv: "prov = \<lparr>pv_origin_node_id = Some (se_origin_node_id env), pv_seq = Some (se_seq env),
           pv_event_id = Some (se_event_id env)\<rparr>"
    by (cases "verify_event cr c env"; simp)+
  obtain pk where "active_public_key cr c (se_origin_node_id env) = Inr (Some pk)"
    and "verify_with_public_key cr pk env = Inr ()"
    using env by (auto simp: verify_event_def split: if_splits)
  from get_peer_active [OF this(1)] verify_okD [OF this(2)] ev pv
  show "\<exists>p origin seq bs sig. prov = \<lparr>pv_origin_node_id = Some origin, pv_seq = Some seq,
           pv_event_id = Some (derive_event_id cr bs)\<rparr>
      \<and> p \<in> set (c_fed_peers c) \<and> pp_node_id p = origin \<and> pp_revoked_at p = None
      \<and> canonical_signing_bytes cr WIRE_VERSION event origin seq = Inr bs
      \<and> cr_verify cr (pp_public_key p) bs sig" by metis
qed

text \<open>A parser of two texts, for the witness: a handshake and an envelope.\<close>

definition sample_js :: json_lib where
  "sample_js = \<lparr>js_to_string = (\<lambda>_. quoted_v3), js_from_str = (\<lambda>t. if t = ''hs''
     then Some (JObj [(''v'', JNum 3), (''node_id'', JStr ''n1''), (''nonce'', JStr (replicate 16 CHR ''a'')),
       (''signature'', JStr (cr_b64_encode toy_crypto (cr_sign toy_crypto []
          (as_bytes ''n1'' @ as_bytes (replicate 16 CHR ''a'')))))])
     else Some (signed_event_json sample_signed))\<rparr>"

definition sample_transport :: transport where
  "sample_transport = transport_new ''secret'' False (Some sample_identity) True"

theorem require_v3_trusts_only_pinned_witness:
  "\<exists>p. p \<in> set (c_fed_peers sample_pins) \<and> pp_node_id p = ''n1'' \<and> pp_revoked_at p = None"
proof -
  have tr: "tr_require_v3 sample_transport" "tr_join_secret sample_transport \<noteq> []"
    by (simp_all add: sample_transport_def transport_new_def)
  have adm: "map_of (tr_conns (handle_incoming toy_crypto sample_js sample_pins ''p'' (Some (TextFrame ''hs''))
      sample_transport)) ''p'' \<noteq> map_of (tr_conns sample_transport) ''p''"
    by code_simp
  have "dispatch_v3_signed_frame toy_crypto sample_js sample_pins quoted_v3
      = Some (sample_event, \<lparr>pv_origin_node_id = Some ''n1'', pv_seq = Some 1,
          pv_event_id = Some (se_event_id sample_signed)\<rparr>)"
    by code_simp
  then have disp: "dispatch_inbound_text_frame toy_crypto sample_js sample_pins (tr_require_v3 sample_transport)
      quoted_v3 = Some (sample_event, \<lparr>pv_origin_node_id = Some ''n1'', pv_seq = Some 1,
          pv_event_id = Some (se_event_id sample_signed)\<rparr>)"
    by (simp add: dispatch_inbound_text_frame_def starts_with_def) (simp add: quoted_v3_def starts_with_def)
  from require_v3_trusts_only_pinned [OF tr adm disp] show ?thesis
    by (elim conjE exE) (metis option.inject provenance.ext_inject)
qed

text \<open>A pass of the reconnect loop with a working network reaches everybody: every known peer whose URL
  is acceptable (not a plain \<open>ws://\<close> one, unless the node runs insecure) ends up connected.\<close>

theorem reconnect_reaches_all:
  assumes "\<forall>u. dial u" and "\<forall>a. io a" and "addr \<in> set (tr_peers tr)"
    and "tr_insecure tr \<or> \<not> starts_with ''ws://'' addr" and "addr \<noteq> []"
  shows "(addr, True) \<in> set (peer_statuses (reconnect_disconnected_peers js dial io tr))"
proof -
  have "build_peer_url_with_insecure addr (tr_insecure tr) \<noteq> []"
    using assms(4,5) by (auto simp: build_peer_url_with_insecure_def)
  with reconnect_each_connects [OF assms(1,2)] assms(3)
  have up: "map_of (tr_conns (reconnect_disconnected_peers js dial io tr)) addr = Some True"
    by (simp add: reconnect_disconnected_peers_def)
  have "addr \<in> set (tr_peers t) \<Longrightarrow> addr \<in> set (tr_peers (reconnect_each js dial io as t))" for as t
    by (induction as arbitrary: t) (simp_all add: connect_to_peer_def Let_def)
  with assms(3) have "addr \<in> set (tr_peers (reconnect_disconnected_peers js dial io tr))"
    by (simp add: reconnect_disconnected_peers_def)
  with up show ?thesis by (auto simp: peer_statuses_def)
qed

theorem reconnect_reaches_all_witness:
  "(''host'', True) \<in> set (peer_statuses (reconnect_disconnected_peers sample_js (\<lambda>_. True) (\<lambda>_. True)
     (pump_ended ''host'' (snd (connect_to_peer sample_js (\<lambda>_. True) (\<lambda>_. True) ''host'' sample_transport)))))"
proof (rule reconnect_reaches_all)
  let ?tr = "pump_ended ''host'' (snd (connect_to_peer sample_js (\<lambda>_. True) (\<lambda>_. True) ''host'' sample_transport))"
  show "''host'' \<in> set (tr_peers ?tr)" "tr_insecure ?tr \<or> \<not> starts_with ''ws://'' ''host''"
    by code_simp+
qed simp_all

end
