(* ===== verification/Fed_Clock.thy ===== *)
theory Fed_Clock
  imports Prelude
begin

section \<open>Federation: the Lamport clock\<close>

text \<open>
  The clock of \<open>SyncManager\<close> (\<open>federation/sync.rs\<close>): \<open>tick\<close> is one \<open>fetch_add\<close>, \<open>update\<close> a
  compare-and-swap loop. \<open>tick\<close> and \<open>clock_update\<close> are the sequential specification; \<open>clock_step\<close> is the
  code under interleaving, one atomic access per step, any number of threads. The refinement says that the
  interleaved code does what the sequential one does in the order of the successful writes.

  The counter is an \<open>AtomicU64\<close>: it wraps, and with the release profile so does the addition in \<open>update\<close>.
\<close>

subsection \<open>Sequential operations\<close>

text \<open>The value returned and the new clock.\<close>

definition tick :: "u64 \<Rightarrow> u64 \<times> u64" where
  "tick ts = (let new_val = ts + 1 in (new_val, new_val))"

definition clock_update :: "u64 \<Rightarrow> u64 \<Rightarrow> u64 \<times> u64" where
  "clock_update received ts = (let new_val = max ts received + 1 in (new_val, new_val))"

definition current_ts :: "u64 \<Rightarrow> u64" where
  "current_ts ts = ts"

datatype clock_op = Tick | Update u64

primrec clock_op_result :: "clock_op \<Rightarrow> u64 \<Rightarrow> u64 \<times> u64" where
  "clock_op_result Tick ts = tick ts"
| "clock_op_result (Update received) ts = clock_update received ts"

subsection \<open>The operations under interleaving\<close>

text \<open>Where a thread is in its operation: outside, in \<open>update\<close> before the load, between the load and the
  exchange.\<close>

datatype clock_pc = Idle | Wants u64 | Loaded u64 u64

record clock_machine =
  k_clock :: u64
  k_pc :: "nat \<Rightarrow> clock_pc"
  k_stamps :: "u64 list"

datatype clock_access = FetchAdd nat | Call nat u64 | Load nat | Exchange nat

definition clock_new :: clock_machine where
  "clock_new = \<lparr>k_clock = 0, k_pc = (\<lambda>_. Idle), k_stamps = []\<rparr>"

definition complete :: "nat \<Rightarrow> u64 \<Rightarrow> clock_machine \<Rightarrow> clock_machine" where
  "complete t v s = s\<lparr>k_clock := v, k_pc := (k_pc s)(t := Idle), k_stamps := v # k_stamps s\<rparr>"

fun clock_step :: "clock_machine \<Rightarrow> clock_access \<Rightarrow> clock_machine" where
  "clock_step s (FetchAdd t) = (case k_pc s t of Idle \<Rightarrow> complete t (k_clock s + 1) s | _ \<Rightarrow> s)"
| "clock_step s (Call t received) = (case k_pc s t of
     Idle \<Rightarrow> s\<lparr>k_pc := (k_pc s)(t := Wants received)\<rparr> | _ \<Rightarrow> s)"
| "clock_step s (Load t) = (case k_pc s t of
     Wants received \<Rightarrow> s\<lparr>k_pc := (k_pc s)(t := Loaded received (k_clock s))\<rparr> | _ \<Rightarrow> s)"
| "clock_step s (Exchange t) = (case k_pc s t of
     Loaded received current \<Rightarrow>
       if k_clock s = current then complete t (max current received + 1) s
       else s\<lparr>k_pc := (k_pc s)(t := Wants received)\<rparr>
   | _ \<Rightarrow> s)"

text \<open>The operation that a step completes, if any.\<close>

fun completes :: "clock_machine \<Rightarrow> clock_access \<Rightarrow> clock_op option" where
  "completes s (FetchAdd t) = (case k_pc s t of Idle \<Rightarrow> Some Tick | _ \<Rightarrow> None)"
| "completes s (Exchange t) = (case k_pc s t of
     Loaded received current \<Rightarrow> if k_clock s = current then Some (Update received) else None
   | _ \<Rightarrow> None)"
| "completes s _ = None"

primrec linearization :: "clock_machine \<Rightarrow> clock_access list \<Rightarrow> clock_op list" where
  "linearization s [] = []"
| "linearization s (e # es) =
     (case completes s e of None \<Rightarrow> [] | Some op \<Rightarrow> [op]) @ linearization (clock_step s e) es"

text \<open>The sequential clock: results in the order of the calls, and the final value.\<close>

primrec sequential :: "u64 \<Rightarrow> clock_op list \<Rightarrow> u64 list \<times> u64" where
  "sequential ts [] = ([], ts)"
| "sequential ts (op # ops) = (let (v, ts') = clock_op_result op ts; (vs, ts'') = sequential ts' ops
     in (v # vs, ts''))"

subsection \<open>Lemmas\<close>

lemma complete_sel [simp]:
  "k_clock (complete t v s) = v" "k_stamps (complete t v s) = v # k_stamps s"
  "k_pc (complete t v s) = (k_pc s)(t := Idle)"
  by (simp_all add: complete_def)

lemma clock_step_cases:
  "(case completes s e of
      None \<Rightarrow> k_clock (clock_step s e) = k_clock s \<and> k_stamps (clock_step s e) = k_stamps s
    | Some op \<Rightarrow> k_clock (clock_step s e) = snd (clock_op_result op (k_clock s))
        \<and> k_stamps (clock_step s e) = fst (clock_op_result op (k_clock s)) # k_stamps s)"
  by (cases e) (auto simp: tick_def clock_update_def Let_def split: clock_pc.splits)

lemma clock_step_completes:
  "completes s e = Some op \<Longrightarrow> k_clock (clock_step s e) = snd (clock_op_result op (k_clock s))
     \<and> k_stamps (clock_step s e) = fst (clock_op_result op (k_clock s)) # k_stamps s"
  "completes s e = None \<Longrightarrow> k_clock (clock_step s e) = k_clock s \<and> k_stamps (clock_step s e) = k_stamps s"
  using clock_step_cases [of s e] by simp_all

lemma op_result_eq: "fst (clock_op_result op ts) = snd (clock_op_result op ts)"
  by (cases op) (simp_all add: tick_def clock_update_def Let_def)

lemma linearization_refines:
  "rev (k_stamps (run clock_step s es)) = rev (k_stamps s) @ fst (sequential (k_clock s) (linearization s es))
   \<and> k_clock (run clock_step s es) = snd (sequential (k_clock s) (linearization s es))"
proof (induction es arbitrary: s)
  case Nil
  then show ?case by simp
next
  case (Cons e es)
  show ?case
  proof (cases "completes s e")
    case None
    then show ?thesis using Cons.IH [of "clock_step s e"] clock_step_completes(2) [OF None] by simp
  next
    case (Some op)
    then show ?thesis
      using Cons.IH [of "clock_step s e"] clock_step_completes(1) [OF Some]
      by (simp add: Let_def case_prod_unfold)
  qed
qed

text \<open>A clock value handed out is larger than the clock before it, unless the increment wraps.\<close>

lemma max_word_less: "(x :: u64) \<noteq> - 1 \<Longrightarrow> x < x + 1"
  using inc_less_eq_triv_imp [of x] by (cases "x < x + 1") simp_all

lemma op_result_greater:
  assumes "ts \<noteq> - 1" and "\<forall>r. op = Update r \<longrightarrow> r \<noteq> - 1"
  shows "ts < fst (clock_op_result op ts) \<and> (\<forall>r. op = Update r \<longrightarrow> r < fst (clock_op_result op ts))"
proof (cases op)
  case Tick
  then show ?thesis using assms(1) by (simp add: tick_def Let_def max_word_less)
next
  case (Update r)
  have "max ts r \<noteq> - 1" using assms Update by (simp add: max_def)
  then have "max ts r < max ts r + 1" by (rule max_word_less)
  then have "ts < max ts r + 1" "r < max ts r + 1"
    by (meson max.cobounded1 max.cobounded2 le_less_trans)+
  with Update show ?thesis by (simp add: clock_update_def Let_def)
qed

text \<open>No call brings the largest timestamp and the clock never stands at it.\<close>

fun clock_ok :: "clock_machine \<Rightarrow> clock_access \<Rightarrow> bool" where
  "clock_ok s (Call t received) = (received \<noteq> - 1)"
| "clock_ok s _ = (k_clock s \<noteq> - 1)"

definition clock_inv :: "clock_machine \<Rightarrow> bool" where
  "clock_inv s \<longleftrightarrow> sorted_wrt (>) (k_stamps s) \<and> (\<forall>v \<in> set (k_stamps s). v \<le> k_clock s)
     \<and> (\<forall>t r. (k_pc s t = Wants r \<or> (\<exists>c. k_pc s t = Loaded r c)) \<longrightarrow> r \<noteq> - 1)"

lemma clock_inv_complete:
  assumes "clock_inv s" and "k_clock s < v"
  shows "clock_inv (complete t v s)"
  using assms by (auto simp: clock_inv_def intro: le_less_trans less_imp_le split: if_splits)

interpretation clock: invariant_machine clock_step clock_ok clock_inv clock_new
proof unfold_locales
  show "clock_inv clock_new" by (simp add: clock_inv_def clock_new_def)
next
  fix s e
  assume inv: "clock_inv s" and ok: "clock_ok s e"
  have cas: "k_clock s < max (k_clock s) r + 1" if "k_pc s t = Loaded r c" "k_clock s \<noteq> - 1" for t r c
    using op_result_greater [of "k_clock s" "Update r"] inv that
    by (auto simp: clock_inv_def clock_update_def Let_def)
  show "clock_inv (clock_step s e)"
  proof (cases e)
    case (FetchAdd t)
    then show ?thesis using ok inv clock_inv_complete [OF inv max_word_less]
      by (auto split: clock_pc.splits)
  next
    case (Call t r)
    then show ?thesis using ok inv by (auto simp: clock_inv_def split: clock_pc.splits)
  next
    case (Load t)
    then show ?thesis using inv by (auto simp: clock_inv_def split: clock_pc.splits)
  next
    case (Exchange t)
    show ?thesis
    proof (cases "k_pc s t")
      case (Loaded r c)
      have "clock_inv (s\<lparr>k_pc := (k_pc s)(t := Wants r)\<rparr>)"
        using inv Loaded by (auto simp: clock_inv_def)
      moreover have "clock_inv (complete t (max (k_clock s) r + 1) s)"
        using ok Exchange clock_inv_complete [OF inv cas [OF Loaded]] by simp
      ultimately show ?thesis using Exchange Loaded by (cases "k_clock s = c") simp_all
    qed (use inv Exchange in simp_all)
  qed
qed

lemma clock_progress:
  "length (k_stamps s) \<le> length (k_stamps (run clock_step s es))
   \<and> (length (k_stamps (run clock_step s es)) = length (k_stamps s)
      \<longrightarrow> k_clock (run clock_step s es) = k_clock s)"
proof (induction es arbitrary: s)
  case Nil
  then show ?case by simp
next
  case (Cons e es)
  then show ?case
    using Cons.IH [of "clock_step s e"] clock_step_completes [of s e]
    by (cases "completes s e") auto
qed

text \<open>How often the exchange of a thread fails along a run, and whether the next one would.\<close>

definition stale :: "nat \<Rightarrow> clock_machine \<Rightarrow> bool" where
  "stale t s = (case k_pc s t of Loaded received current \<Rightarrow> current \<noteq> k_clock s | _ \<Rightarrow> False)"

primrec retries :: "nat \<Rightarrow> clock_machine \<Rightarrow> clock_access list \<Rightarrow> nat" where
  "retries t s [] = 0"
| "retries t s (e # es) = (if e = Exchange t \<and> stale t s then 1 else 0) + retries t (clock_step s e) es"

lemma stale_step:
  "completes s e = None \<Longrightarrow> stale t (clock_step s e) \<Longrightarrow> stale t s \<and> e \<noteq> Exchange t"
  by (cases e) (auto simp: stale_def split: clock_pc.splits if_splits)

lemma stale_incomplete: "stale t s \<Longrightarrow> completes s (Exchange t) = None"
  by (auto simp: stale_def split: clock_pc.splits)

lemma retries_bounded:
  "retries t s es + length (k_stamps s) \<le> length (k_stamps (run clock_step s es)) + (if stale t s then 1 else 0)"
proof (induction es arbitrary: s)
  case (Cons e es)
  note IH = Cons.IH [of "clock_step s e"]
  show ?case
  proof (cases "completes s e")
    case None
    with IH clock_step_completes(2) [OF None] stale_step [OF None] show ?thesis by (auto split: if_splits)
  next
    case (Some op)
    then have "\<not> (e = Exchange t \<and> stale t s)" using stale_incomplete by auto
    with IH clock_step_completes(1) [OF Some] show ?thesis by (auto split: if_splits)
  qed
qed simp

subsection \<open>Properties\<close>

text \<open>C34. Under any interleaving of any number of threads the clock behaves like the sequential one: the
  timestamps handed out are those of calling \<open>tick\<close> and \<open>update\<close> one after the other in the order of their
  successful writes, and the clock ends at the same value.\<close>

theorem clock_linearizable:
  "rev (k_stamps (run clock_step clock_new es)) = fst (sequential 0 (linearization clock_new es))
   \<and> k_clock (run clock_step clock_new es) = snd (sequential 0 (linearization clock_new es))"
  using linearization_refines [of clock_new es] by (simp add: clock_new_def)

text \<open>As long as no peer sends the largest timestamp and the clock has not reached it, the
  timestamps a node hands out grow strictly, whatever the interleaving: no two events of the node carry the
  same one.\<close>

theorem stamps_increase:
  assumes "admissible clock_ok clock_step clock_new es"
  shows "sorted_wrt (>) (k_stamps (run clock_step clock_new es))
    \<and> distinct (k_stamps (run clock_step clock_new es))"
proof -
  have s: "sorted_wrt (>) (k_stamps (run clock_step clock_new es))"
    using clock.reachable_inv [OF assms] by (simp add: clock_inv_def)
  have "distinct xs" if "sorted_wrt (>) xs" for xs :: "u64 list"
    using that by (induction xs) auto
  with s show ?thesis by blast
qed

theorem stamps_increase_witness:
  "distinct (k_stamps (run clock_step clock_new
     [Call 0 5, Load 0, FetchAdd 1, Exchange 0, Load 0, Exchange 0, FetchAdd 2]))"
proof -
  have "admissible clock_ok clock_step clock_new
     [Call 0 5, Load 0, FetchAdd 1, Exchange 0, Load 0, Exchange 0, FetchAdd 2]"
    by code_simp
  from stamps_increase [OF this] show ?thesis by blast
qed

text \<open>The \<open>update\<close> loop makes progress: when the exchange of one thread fails, some other operation
  has completed since that thread's load.\<close>

theorem exchange_fails_only_by_progress:
  assumes "k_pc s t = Loaded received (k_clock s)"
    and "k_pc (run clock_step s es) t = Loaded received (k_clock s)"
    and "k_pc (clock_step (run clock_step s es) (Exchange t)) t = Wants received"
  shows "length (k_stamps s) < length (k_stamps (run clock_step s es))"
proof -
  have "k_clock (run clock_step s es) \<noteq> k_clock s"
    using assms(2,3) by (auto split: if_splits)
  with clock_progress [of s es] show ?thesis by linarith
qed

theorem exchange_fails_only_by_progress_witness:
  "length (k_stamps (run clock_step clock_new [Call 0 5, Load 0]))
   < length (k_stamps (run clock_step (run clock_step clock_new [Call 0 5, Load 0]) [FetchAdd 1]))"
  by (rule exchange_fails_only_by_progress [where t = 0 and received = 5]) code_simp+

text \<open>C22. The compare-and-swap loop of \<open>update\<close> comes to an end: along every interleaving the exchange of a thread fails at
  most once for each operation of the server that completed, so a caller waits only while others get their
  timestamps, and as soon as it is left alone for one load and one exchange it returns, with the
  successor of the larger of its own clock and the received one.\<close>

theorem clock_update_returns:
  fixes es t
  defines "s \<equiv> run clock_step clock_new es"
  shows "retries t clock_new es \<le> length (k_stamps s)
    \<and> (k_pc s t = Wants received \<longrightarrow> k_pc (run clock_step s [Load t, Exchange t]) t = Idle
        \<and> k_stamps (run clock_step s [Load t, Exchange t]) = (max (k_clock s) received + 1) # k_stamps s)"
  using retries_bounded [of t clock_new es] by (simp add: s_def clock_new_def stale_def)

text \<open>One failed exchange, by the tick of another thread, and then the return.\<close>

theorem clock_update_returns_witness:
  "retries 0 clock_new [Call 0 5, Load 0, FetchAdd 1, Exchange 0] = 1
   \<and> k_stamps (run clock_step (run clock_step clock_new [Call 0 5, Load 0, FetchAdd 1, Exchange 0]) [Load 0, Exchange 0]) = [6, 1]"
proof -
  let ?es = "[Call 0 5, Load 0, FetchAdd 1, Exchange 0]"
  have "k_pc (run clock_step clock_new ?es) 0 = Wants 5" "k_clock (run clock_step clock_new ?es) = 1"
    "k_stamps (run clock_step clock_new ?es) = [1]" "retries 0 clock_new ?es = 1" by code_simp+
  with clock_update_returns [of 0 ?es 5] show ?thesis by simp
qed

text \<open>The clock is only logical up to the width of the counter: one event of a peer with the largest
  timestamp sets the local clock to zero, below every timestamp handed out before.\<close>

theorem clock_wraps:
  "clock_update (- 1) ts = (0, 0)"
  by (simp add: clock_update_def Let_def max_def)

end
