(* ===== verification/Fed_Sync.thy ===== *)
theory Fed_Sync
  imports Fed_Transport Fed_Clock Permissions Channel_Store
begin

section \<open>Federation: state synchronisation\<close>

text \<open>
  The state exchange of \<open>SyncManager\<close> (\<open>federation/sync.rs\<close>) and the statements of
  \<open>db/sync_queries.rs\<close>. A response is merged row by row inside one transaction; channels and roles are
  last-writer-wins registers, for which \<open>lww\<close> states the abstract contract. Error texts are constructors of
  \<open>fed_error\<close>: the code only logs them.
\<close>

datatype fed_error =
    TooManyChannels nat
  | TooManyMessages nat
  | RateLimited
  | FedDb db_error
  | FedParse
  | FedMissing string
  | FedSend string

subsection \<open>Limits\<close>

definition MAX_SYNC_MESSAGES_PER_CHANNEL :: int where "MAX_SYNC_MESSAGES_PER_CHANNEL = 1000"
definition MAX_SYNC_CHANNELS :: nat where "MAX_SYNC_CHANNELS = 100"
definition MAX_SYNC_TOTAL_MESSAGES :: nat where "MAX_SYNC_TOTAL_MESSAGES = 10000"
definition SYNC_RATE_LIMIT_SECS :: int where "SYNC_RATE_LIMIT_SECS = 300"

definition validate_sync_response_size :: "nat \<Rightarrow> nat \<Rightarrow> fed_error + unit" where
  "validate_sync_response_size num_channels num_messages =
     (if num_channels > MAX_SYNC_CHANNELS then Inl (TooManyChannels num_channels)
      else if num_messages > MAX_SYNC_TOTAL_MESSAGES then Inl (TooManyMessages num_messages)
      else Inr ())"

definition is_sync_rate_limited :: "int option \<Rightarrow> int \<Rightarrow> bool" where
  "is_sync_rate_limited last_request_ts now = (case last_request_ts of
     Some ts \<Rightarrow> now - ts < SYNC_RATE_LIMIT_SECS | None \<Rightarrow> False)"

subsection \<open>The data exchanged\<close>

record state_sync_data =
  sd_channels :: "channel list"
  sd_messages :: "message list"
  sd_members :: "member list"
  sd_roles :: "role list"

definition rows_json :: "('r \<Rightarrow> (string \<times> json) list) \<Rightarrow> 'r list \<Rightarrow> json" where
  "rows_json f rs = JArr (map (\<lambda>r. JObj (f r)) rs)"

definition sync_data_json :: "state_sync_data \<Rightarrow> json" where
  "sync_data_json d = JObj [(''channels'', rows_json channel_json (sd_channels d)),
     (''messages'', rows_json message_json (sd_messages d)), (''members'', rows_json member_json (sd_members d)),
     (''roles'', rows_json role_json (sd_roles d))]"

definition field_rows :: "(json \<Rightarrow> 'r option) \<Rightarrow> (string \<times> json) list \<Rightarrow> string \<Rightarrow> 'r list option" where
  "field_rows f kvs k = (case map_of kvs k of Some (JArr vs) \<Rightarrow> those (map f vs) | _ \<Rightarrow> None)"

definition parse_sync_data :: "json \<Rightarrow> state_sync_data option" where
  "parse_sync_data v = Option.bind (fields_of [''channels'', ''messages'', ''members'', ''roles''] v) (\<lambda>kvs.
     Option.bind (field_rows parse_channel kvs ''channels'') (\<lambda>x0.
     Option.bind (field_rows parse_message kvs ''messages'') (\<lambda>x1.
     Option.bind (field_rows parse_member kvs ''members'') (\<lambda>x2.
     Option.bind (field_rows parse_role kvs ''roles'') (\<lambda>x3.
     Some \<lparr>sd_channels = x0, sd_messages = x1, sd_members = x2, sd_roles = x3\<rparr>)))))"

subsection \<open>Statements\<close>

definition sync_channel_row :: "channel \<Rightarrow> channel \<Rightarrow> channel" where
  "sync_channel_row ch x = x\<lparr>ch_name := ch_name ch, ch_topic := ch_topic ch, ch_category := ch_category ch,
     ch_position := ch_position ch, ch_updated_at := ch_updated_at ch\<rparr>"

definition update_channel_from_sync :: "channel \<Rightarrow> unit db_op" where
  "update_channel_from_sync ch = exec ''update_channel_from_sync'' (\<lambda>c.
     let chs = update_where (\<lambda>x. ch_id x = ch_id ch) (sync_channel_row ch) (c_channels c)
     in if ch_id ch \<in> ch_id ` set (c_channels c) \<and> \<not> distinct (map channel_key chs) then None
        else Some (c\<lparr>c_channels := chs\<rparr>))"

definition sync_role_row :: "role \<Rightarrow> role \<Rightarrow> role" where
  "sync_role_row r x = x\<lparr>r_name := r_name r, r_color := r_color r, r_position := r_position r,
     r_permissions := r_permissions r, r_updated_at := r_updated_at r\<rparr>"

definition update_role_from_sync :: "role \<Rightarrow> unit db_op" where
  "update_role_from_sync r = exec ''update_role_from_sync'' (\<lambda>c.
     Some (c\<lparr>c_roles := update_where (\<lambda>x. r_id x = r_id r) (sync_role_row r) (c_roles c)\<rparr>))"

definition update_member_from_sync :: "member \<Rightarrow> unit db_op" where
  "update_member_from_sync m = exec ''update_member_from_sync'' (\<lambda>c.
     Some (c\<lparr>c_members := update_where (\<lambda>x. m_id x = m_id m)
       (\<lambda>x. x\<lparr>m_nickname := m_nickname m, m_updated_at := m_updated_at m\<rparr>) (c_members c)\<rparr>))"

definition update_message_from_sync :: "message \<Rightarrow> unit db_op" where
  "update_message_from_sync m = exec ''update_message_from_sync'' (\<lambda>c.
     Some (c\<lparr>c_messages := update_where (\<lambda>x. msg_id x = msg_id m)
       (\<lambda>x. x\<lparr>msg_content := msg_content m, msg_edited_at := msg_edited_at m, msg_deleted := msg_deleted m\<rparr>)
       (c_messages c)\<rparr>))"

subsection \<open>Merging\<close>

definition merge_channel :: "channel \<Rightarrow> unit db_op" where
  "merge_channel channel = bindS (readS (\<lambda>c. get_channel_by_id c (ch_id channel))) (\<lambda>eo. case eo of
     Some existing \<Rightarrow> if ch_updated_at channel > ch_updated_at existing
       then update_channel_from_sync channel else returnS ()
   | None \<Rightarrow> create_channel channel)"

definition merge_channels :: "channel list \<Rightarrow> unit db_op" where
  "merge_channels = for_eachS merge_channel"

text \<open>\<open>now k\<close> is what the clock says when the row with the key \<open>k\<close> is inserted: the clock is read for each row.\<close>

definition merge_role :: "(string \<Rightarrow> string) \<Rightarrow> role \<Rightarrow> unit db_op" where
  "merge_role now role = bindS (readS (\<lambda>c. get_role_by_id c (r_id role))) (\<lambda>eo. case eo of
     Some existing \<Rightarrow> if r_updated_at role > r_updated_at existing
       then update_role_from_sync role else returnS ()
   | None \<Rightarrow> create_role (now (r_id role)) role)"

definition merge_roles :: "(string \<Rightarrow> string) \<Rightarrow> role list \<Rightarrow> unit db_op" where
  "merge_roles now = for_eachS (merge_role now)"

definition merge_member :: "member \<Rightarrow> unit db_op" where
  "merge_member member =
     bindS (readS (\<lambda>c. get_member_by_user_and_team c (m_user_id member) (m_team_id member))) (\<lambda>eo. case eo of
       Some existing \<Rightarrow> if m_updated_at member > m_updated_at existing
         then update_member_from_sync member else returnS ()
     | None \<Rightarrow> create_member member)"

definition merge_members :: "member list \<Rightarrow> unit db_op" where
  "merge_members = for_eachS merge_member"

definition should_update_message :: "message \<Rightarrow> message \<Rightarrow> bool" where
  "should_update_message remote local =
     (let remote_ts = (case msg_edited_at remote of None \<Rightarrow> [] | Some s \<Rightarrow> s);
          local_ts = (case msg_edited_at local of None \<Rightarrow> [] | Some s \<Rightarrow> s)
      in if msg_deleted remote \<and> \<not> msg_deleted local then remote_ts \<ge> local_ts else remote_ts > local_ts)"

definition merge_message :: "message \<Rightarrow> unit db_op" where
  "merge_message message = bindS (readS (\<lambda>c. get_message_by_id c (msg_id message))) (\<lambda>eo. case eo of
     Some existing \<Rightarrow> if should_update_message message existing
       then update_message_from_sync message else returnS ()
   | None \<Rightarrow> create_message message)"

definition merge_messages :: "message list \<Rightarrow> unit db_op" where
  "merge_messages = for_eachS merge_message"

definition merge_all :: "(string \<Rightarrow> string) \<Rightarrow> state_sync_data \<Rightarrow> unit db_op" where
  "merge_all now data = bindS (merge_channels (sd_channels data)) (\<lambda>_.
     bindS (merge_roles now (sd_roles data)) (\<lambda>_.
     bindS (merge_members (sd_members data)) (\<lambda>_.
     merge_messages (sd_messages data))))"

text \<open>\<open>BEGIN\<close>, the body, then \<open>COMMIT\<close> or \<open>ROLLBACK\<close>. When \<open>COMMIT\<close> itself fails the transaction stays open
  and its rows visible on this connection; a failing \<open>ROLLBACK\<close> is ignored.\<close>

definition transaction :: "unit db_op \<Rightarrow> unit db_op" where
  "transaction body c =
     (if ''BEGIN'' \<in> set (c_faults c) then (Inl SqliteFailure, c)
      else (case body c of
          (Inr _, c') \<Rightarrow> (if ''COMMIT'' \<in> set (c_faults c) then Inl SqliteFailure else Inr (), c')
        | (Inl e, c') \<Rightarrow> (Inl e, if ''ROLLBACK'' \<in> set (c_faults c) then c' else c)))"

definition handle_state_sync_response :: "(string \<Rightarrow> string) \<Rightarrow> state_sync_data \<Rightarrow> conn \<Rightarrow> (fed_error + unit) \<times> conn" where
  "handle_state_sync_response now data c =
     (case validate_sync_response_size (length (sd_channels data)) (length (sd_messages data)) of
        Inl e \<Rightarrow> (Inl e, c)
      | Inr _ \<Rightarrow> (case transaction (merge_all now data) c of (r, c') \<Rightarrow> (map_err FedDb r, c')))"

subsection \<open>Requests\<close>

record sync_mgr =
  sy_lamport_ts :: u64
  sy_node_name :: string
  sy_last_sync_request :: "(string \<times> int) list"

definition sync_new :: "string \<Rightarrow> sync_mgr" where
  "sync_new node_name = \<lparr>sy_lamport_ts = 0, sy_node_name = node_name, sy_last_sync_request = []\<rparr>"

definition ticked :: "sync_mgr \<Rightarrow> u64 \<times> sync_mgr" where
  "ticked sm = (let (ts, clk) = tick (sy_lamport_ts sm) in (ts, sm\<lparr>sy_lamport_ts := clk\<rparr>))"

definition FED_EVENT_STATE_SYNC_REQ :: string where "FED_EVENT_STATE_SYNC_REQ = ''state:sync:req''"
definition FED_EVENT_STATE_SYNC_RESP :: string where "FED_EVENT_STATE_SYNC_RESP = ''state:sync:resp''"

definition send_event ::
  "json_lib \<Rightarrow> (string \<Rightarrow> bool) \<Rightarrow> string \<Rightarrow> string \<Rightarrow> json \<Rightarrow> sync_mgr \<times> transport
     \<Rightarrow> (fed_error + unit) \<times> sync_mgr \<times> transport" where
  "send_event js io peer_addr ty payload s =
     (let (ts, sm) = ticked (fst s);
          (r, tr) = send_to_peer js io peer_addr \<lparr>fe_type = ty, fe_node_name = sy_node_name sm,
            fe_timestamp = ts, fe_payload = payload\<rparr> (snd s)
      in (map_err FedSend r, sm, tr))"

definition request_state_sync ::
  "json_lib \<Rightarrow> (string \<Rightarrow> bool) \<Rightarrow> string \<Rightarrow> sync_mgr \<times> transport \<Rightarrow> (fed_error + unit) \<times> sync_mgr \<times> transport" where
  "request_state_sync js io peer_addr s = send_event js io peer_addr FED_EVENT_STATE_SYNC_REQ JNull s"

definition collect_sync_data :: "conn \<Rightarrow> state_sync_data db_res" where
  "collect_sync_data c = bindE (get_first_team c) (\<lambda>to. case to of
     None \<Rightarrow> Inr \<lparr>sd_channels = [], sd_messages = [], sd_members = [], sd_roles = []\<rparr>
   | Some team \<Rightarrow>
       bindE (get_channels_by_team c (t_id team)) (\<lambda>channels.
       bindE (get_roles_by_team c (t_id team)) (\<lambda>roles.
       bindE (get_members_by_team c (t_id team)) (\<lambda>member_pairs.
       bindE (mapE (\<lambda>ch. get_messages_by_channel c (ch_id ch) [] MAX_SYNC_MESSAGES_PER_CHANNEL) channels) (\<lambda>ms.
         Inr \<lparr>sd_channels = channels, sd_messages = concat ms, sd_members = map fst member_pairs,
           sd_roles = roles\<rparr>)))))"

definition handle_state_sync_request ::
  "json_lib \<Rightarrow> (string \<Rightarrow> bool) \<Rightarrow> int \<Rightarrow> conn \<Rightarrow> string \<Rightarrow> sync_mgr \<times> transport
     \<Rightarrow> (fed_error + unit) \<times> sync_mgr \<times> transport" where
  "handle_state_sync_request js io now c peer_addr s =
     (if is_sync_rate_limited (map_of (sy_last_sync_request (fst s)) peer_addr) now then (Inl RateLimited, s)
      else let sm = (fst s)\<lparr>sy_last_sync_request := (peer_addr, now)
                 # filter (\<lambda>p. fst p \<noteq> peer_addr) (sy_last_sync_request (fst s))\<rparr>
        in (case collect_sync_data c of
              Inl e \<Rightarrow> (Inl (FedDb e), sm, snd s)
            | Inr data \<Rightarrow> send_event js io peer_addr FED_EVENT_STATE_SYNC_RESP (sync_data_json data) (sm, snd s)))"

subsection \<open>Last-writer-wins tables\<close>

text \<open>The abstract merge: a remote row overwrites the local row of its key when its stamp is larger, and is
  inserted when there is none.\<close>

definition lww_merge1 ::
  "('r \<Rightarrow> 'k) \<Rightarrow> ('r \<Rightarrow> 'o::linorder) \<Rightarrow> ('r \<Rightarrow> 'r \<Rightarrow> 'r) \<Rightarrow> ('r \<Rightarrow> 'r) \<Rightarrow> 'r list \<Rightarrow> 'r \<Rightarrow> 'r list" where
  "lww_merge1 key stamp overwrite fresh rs r = (case lookup_by key (key r) rs of
     None \<Rightarrow> rs @ [fresh r]
   | Some x \<Rightarrow> if stamp x < stamp r then update_where (\<lambda>y. key y = key r) (overwrite r) rs else rs)"

definition lww_merge ::
  "('r \<Rightarrow> 'k) \<Rightarrow> ('r \<Rightarrow> 'o::linorder) \<Rightarrow> ('r \<Rightarrow> 'r \<Rightarrow> 'r) \<Rightarrow> ('r \<Rightarrow> 'r) \<Rightarrow> 'r list \<Rightarrow> 'r list \<Rightarrow> 'r list" where
  "lww_merge key stamp overwrite fresh = foldl (lww_merge1 key stamp overwrite fresh)"

locale lww =
  fixes key :: "'r \<Rightarrow> 'k"
    and stamp :: "'r \<Rightarrow> 'o::linorder"
    and overwrite :: "'r \<Rightarrow> 'r \<Rightarrow> 'r"
    and fresh :: "'r \<Rightarrow> 'r"
    and synced :: "'r \<Rightarrow> 'v"
    and stamp_of :: "'v \<Rightarrow> 'o"
  assumes key_overwrite: "key (overwrite r x) = key x"
    and stamp_overwrite: "stamp (overwrite r x) = stamp r"
    and synced_overwrite: "synced (overwrite r x) = synced r"
    and key_fresh: "key (fresh r) = key r"
    and stamp_fresh: "stamp r \<le> stamp (fresh r)"
    and stamp_of_synced: "stamp_of (synced r) = stamp r"
begin

abbreviation merge1 where "merge1 \<equiv> lww_merge1 key stamp overwrite fresh"
abbreviation merge where "merge \<equiv> lww_merge key stamp overwrite fresh"

lemma lookup_merge1:
  "lookup_by key k (merge1 rs r) =
     (if k \<noteq> key r then lookup_by key k rs
      else Some (case lookup_by key k rs of
        None \<Rightarrow> fresh r
      | Some x \<Rightarrow> if stamp x < stamp r then overwrite r x else x))"
  by (auto simp: lww_merge1_def lookup_by_append lookup_by_update_where key_overwrite key_fresh
      split: option.splits dest!: lookup_by_SomeD)

lemma merge_Nil [simp]: "merge rs [] = rs"
  by (simp add: lww_merge_def)

lemma merge_Cons [simp]: "merge rs (r # rems) = merge (merge1 rs r) rems"
  by (simp add: lww_merge_def)

text \<open>A stamp never goes down, and after the merge no remote row is newer than the local one.\<close>

lemma lookup_merge_mono:
  "lookup_by key k rs = Some x \<Longrightarrow> \<exists>y. lookup_by key k (merge rs rems) = Some y \<and> stamp x \<le> stamp y"
proof (induction rems arbitrary: rs x)
  case (Cons r rems)
  have "\<exists>y. lookup_by key k (merge1 rs r) = Some y \<and> stamp x \<le> stamp y"
    using Cons.prems by (auto simp: lookup_merge1 stamp_overwrite)
  then obtain y where "lookup_by key k (merge1 rs r) = Some y" "stamp x \<le> stamp y" by blast
  with Cons.IH [of "merge1 rs r" y] show ?case by (auto intro: order_trans)
qed simp

lemma merge_up_to_date:
  "r \<in> set rems \<Longrightarrow> \<exists>y. lookup_by key (key r) (merge rs rems) = Some y \<and> stamp r \<le> stamp y"
proof (induction rems arbitrary: rs)
  case (Cons q rems)
  show ?case
  proof (cases "r = q")
    case True
    have "\<exists>y. lookup_by key (key r) (merge1 rs r) = Some y \<and> stamp r \<le> stamp y"
      by (auto simp: lookup_merge1 stamp_overwrite stamp_fresh not_less split: option.splits)
    then obtain y where "lookup_by key (key r) (merge1 rs r) = Some y" "stamp r \<le> stamp y" by blast
    with True lookup_merge_mono [of "key r" "merge1 rs r" y rems] show ?thesis
      by (auto intro: order_trans)
  next
    case False
    with Cons show ?thesis by simp
  qed
qed simp

text \<open>A row that no remote row beats is kept as it is.\<close>

lemma merge_keeps:
  "lookup_by key k rs = Some x \<Longrightarrow> (\<And>r. r \<in> set rems \<Longrightarrow> key r = k \<Longrightarrow> stamp r \<le> stamp x)
   \<Longrightarrow> lookup_by key k (merge rs rems) = Some x"
proof (induction rems arbitrary: rs)
  case (Cons r rems)
  have "key r = k \<Longrightarrow> \<not> stamp x < stamp r"
    using Cons.prems(2) [of r] by (simp add: not_less)
  then have "lookup_by key k (merge1 rs r) = Some x"
    using Cons.prems(1) by (auto simp: lookup_merge1)
  with Cons show ?case by simp
qed simp

lemma merge1_current:
  "lookup_by key (key r) rs = Some x \<Longrightarrow> stamp r \<le> stamp x \<Longrightarrow> merge1 rs r = rs"
  by (simp add: lww_merge1_def not_less [symmetric])

text \<open>Merging the same rows again changes nothing.\<close>

lemma merge_again: "merge (merge rs rems) rems = merge rs rems"
proof -
  have "merge rs' qs = rs'" if "\<And>r. r \<in> set qs \<Longrightarrow> \<exists>y. lookup_by key (key r) rs' = Some y \<and> stamp r \<le> stamp y"
    for rs' qs
    using that
  proof (induction qs)
    case (Cons q qs)
    then obtain y where "lookup_by key (key q) rs' = Some y" "stamp q \<le> stamp y" by fastforce
    from merge1_current [OF this] Cons show ?case by simp
  qed simp
  then show ?thesis using merge_up_to_date by blast
qed

text \<open>Two tables that exchange their rows agree on every key they hold with different stamps.\<close>

lemma merge_newer:
  assumes "distinct (map key rems)" and "r \<in> set rems" and "lookup_by key (key r) rs = Some x"
    and "stamp x < stamp r"
  shows "\<exists>y. lookup_by key (key r) (merge rs rems) = Some (overwrite r y)"
  using assms
proof (induction rems arbitrary: rs x)
  case (Cons q rems)
  show ?case
  proof (cases "r = q")
    case True
    have "lookup_by key (key r) (merge1 rs r) = Some (overwrite r x)"
      using Cons.prems by (simp add: lookup_merge1)
    moreover have "\<And>p. p \<in> set rems \<Longrightarrow> key p = key r \<Longrightarrow> stamp p \<le> stamp (overwrite r x)"
      using Cons.prems(1) True by (metis image_eqI distinct.simps(2) list.simps(9) set_map)
    ultimately show ?thesis using merge_keeps [of "key r" "merge1 rs r" "overwrite r x" rems] True by auto
  next
    case False
    then have "key q \<noteq> key r"
      using Cons.prems(1,2) by (metis image_eqI distinct.simps(2) list.simps(9) set_ConsD set_map)
    then have "lookup_by key (key r) (merge1 rs q) = Some x"
      using Cons.prems(3) by (simp add: lookup_merge1)
    with Cons False show ?thesis by auto
  qed
qed simp

lemma exchange_agrees:
  assumes "distinct (map key as)" and "distinct (map key bs)"
    and "a \<in> set as" and "b \<in> set bs" and "key a = key b" and "stamp a \<noteq> stamp b"
  shows "map_option synced (lookup_by key (key a) (merge as bs))
    = map_option synced (lookup_by key (key a) (merge bs as))"
proof -
  have look: "lookup_by key (key a) as = Some a" "lookup_by key (key a) bs = Some b"
    using assms lookup_by_unique [of key as a] lookup_by_unique [of key bs b] by simp_all
  consider "stamp a < stamp b" | "stamp b < stamp a" using assms(6) by fastforce
  then show ?thesis
  proof cases
    case 1
    have "lookup_by key (key a) (merge bs as) = Some b"
      using look(2) 1 assms(1,3) lookup_by_unique [of key as]
      by (intro merge_keeps) (metis less_imp_le option.inject)+
    moreover have "\<exists>y. lookup_by key (key a) (merge as bs) = Some (overwrite b y)"
      using merge_newer [OF assms(2,4), of as a] look(1) 1 assms(5) by simp
    ultimately show ?thesis by (auto simp: synced_overwrite)
  next
    case 2
    have "lookup_by key (key a) (merge as bs) = Some a"
      using look(1) 2 assms(2,4,5) lookup_by_unique [of key bs]
      by (intro merge_keeps) (metis less_imp_le option.inject)+
    moreover have "\<exists>y. lookup_by key (key a) (merge bs as) = Some (overwrite a y)"
      using merge_newer [OF assms(1,3), of bs b] look(2) 2 by simp
    ultimately show ?thesis by (auto simp: synced_overwrite)
  qed
qed

text \<open>The order of two sets of rows does not matter, when rows of one key and one stamp have the same content, and an
  inserted row keeps its content: what a table says of a key is a fold, and its steps commute.\<close>

definition view :: "'r list \<Rightarrow> 'k \<Rightarrow> 'v option" where
  "view rs k = map_option synced (lookup_by key k rs)"

definition vstep :: "'v option \<Rightarrow> 'r \<Rightarrow> 'v option" where
  "vstep v r = Some (case v of None \<Rightarrow> synced r | Some x \<Rightarrow> if stamp_of x < stamp r then synced r else x)"

lemma view_merge:
  "\<forall>r \<in> set rems. synced (fresh r) = synced r \<Longrightarrow> view (merge rs rems) k = foldl vstep (view rs k) (filter (\<lambda>r. key r = k) rems)"
proof (induction rems arbitrary: rs)
  case (Cons r rems)
  have "view (merge1 rs r) k = (if key r = k then vstep (view rs k) r else view rs k)"
    using Cons.prems by (auto simp: view_def vstep_def lookup_merge1 stamp_of_synced synced_overwrite split: option.split)
  then show ?case using Cons by simp
qed simp

lemma vstep_commute:
  assumes "stamp r = stamp q \<Longrightarrow> synced r = synced q"
  shows "vstep (vstep v r) q = vstep (vstep v q) r"
  using assms by (cases v) (auto simp: vstep_def stamp_of_synced not_less)

lemma vstep_past:
  "\<forall>q \<in> set qs. stamp r = stamp q \<longrightarrow> synced r = synced q \<Longrightarrow> foldl vstep (vstep v r) qs = vstep (foldl vstep v qs) r"
  by (induction qs arbitrary: v) (simp_all add: vstep_commute)

lemma vsteps_commute:
  "\<forall>r \<in> set rs. \<forall>q \<in> set qs. stamp r = stamp q \<longrightarrow> synced r = synced q
    \<Longrightarrow> foldl vstep (foldl vstep v rs) qs = foldl vstep (foldl vstep v qs) rs"
proof (induction rs arbitrary: v)
  case (Cons r rs)
  then have "foldl vstep (foldl vstep (vstep v r) rs) qs = foldl vstep (foldl vstep (vstep v r) qs) rs" by simp
  also have "\<dots> = foldl vstep (vstep (foldl vstep v qs) r) rs" using Cons.prems vstep_past [of qs r v] by simp
  finally show ?case by simp
qed simp

lemma merge_order:
  assumes "\<forall>r \<in> set as \<union> set bs. synced (fresh r) = synced r"
    and "\<forall>a \<in> set as. \<forall>b \<in> set bs. key a = key b \<and> stamp a = stamp b \<longrightarrow> synced a = synced b"
  shows "view (merge (merge rs as) bs) k = view (merge (merge rs bs) as) k"
proof -
  have "view (merge (merge rs as) bs) k = foldl vstep (foldl vstep (view rs k) (filter (\<lambda>r. key r = k) as)) (filter (\<lambda>r. key r = k) bs)"
    using assms(1) by (simp add: view_merge)
  also have "\<dots> = foldl vstep (foldl vstep (view rs k) (filter (\<lambda>r. key r = k) bs)) (filter (\<lambda>r. key r = k) as)"
    using assms(2) by (intro vsteps_commute) auto
  also have "\<dots> = view (merge (merge rs bs) as) k" using assms(1) by (simp add: view_merge)
  finally show ?thesis .
qed

end

text \<open>Channels and roles are such tables.\<close>

definition synced_channel :: "channel \<Rightarrow> string \<times> string \<times> string \<times> int \<times> string" where
  "synced_channel ch = (ch_name ch, ch_topic ch, ch_category ch, ch_position ch, ch_updated_at ch)"

definition synced_role :: "role \<Rightarrow> string \<times> string \<times> int \<times> u64 \<times> string" where
  "synced_role r = (r_name r, r_color r, r_position r, r_permissions r, r_updated_at r)"

definition stamped_role :: "(string \<Rightarrow> string) \<Rightarrow> role \<Rightarrow> role" where
  "stamped_role now r = r\<lparr>r_updated_at := (if r_updated_at r = [] then now (r_id r) else r_updated_at r)\<rparr>"

interpretation channel_lww: lww ch_id ch_updated_at sync_channel_row "\<lambda>r. r" synced_channel "\<lambda>(_, _, _, _, at). at"
  by unfold_locales (simp_all add: sync_channel_row_def synced_channel_def)

interpretation role_lww: lww r_id r_updated_at sync_role_row "stamped_role now" synced_role "\<lambda>(_, _, _, _, at). at" for now
  by unfold_locales (simp_all add: sync_role_row_def synced_role_def stamped_role_def)

text \<open>Roles that all carry a stamp are inserted as they are.\<close>

interpretation plain_role_lww: lww r_id r_updated_at sync_role_row "\<lambda>r. r" synced_role "\<lambda>(_, _, _, _, at). at"
  by unfold_locales (simp_all add: sync_role_row_def synced_role_def)

abbreviation merged_channels :: "channel list \<Rightarrow> channel list \<Rightarrow> channel list" where
  "merged_channels \<equiv> lww_merge ch_id ch_updated_at sync_channel_row (\<lambda>r. r)"

abbreviation merged_roles :: "(string \<Rightarrow> string) \<Rightarrow> role list \<Rightarrow> role list \<Rightarrow> role list" where
  "merged_roles now \<equiv> lww_merge r_id r_updated_at sync_role_row (stamped_role now)"

subsection \<open>The merge refines its specification\<close>

lemma merge_channel_refines:
  assumes "merge_channel r c = (Inr u, c')"
  shows "c' = c\<lparr>c_channels := lww_merge1 ch_id ch_updated_at sync_channel_row (\<lambda>r. r) (c_channels c) r\<rparr>"
  using assms
  by (auto simp: merge_channel_def get_channel_by_id_def optional_query_row stmt_def lww_merge1_def
      lookup_by_def update_channel_from_sync_def create_channel_def exec_eq_Inr Let_def
      split: option.splits if_splits)

lemma merge_role_refines:
  assumes "merge_role now r c = (Inr u, c')"
  shows "c' = c\<lparr>c_roles := lww_merge1 r_id r_updated_at sync_role_row (stamped_role now) (c_roles c) r\<rparr>"
  using assms
  by (auto simp: merge_role_def get_role_by_id_def optional_query_row stmt_def lww_merge1_def
      lookup_by_def update_role_from_sync_def create_role_def exec_eq_Inr Let_def stamped_role_def
      split: option.splits if_splits)

lemma merge_channels_refines:
  "merge_channels rems c = (Inr u, c') \<Longrightarrow> c' = c\<lparr>c_channels := merged_channels (c_channels c) rems\<rparr>"
proof (induction rems arbitrary: c)
  case (Cons r rems)
  then obtain v c1 where "merge_channel r c = (Inr v, c1)" and rest: "merge_channels rems c1 = (Inr u, c')"
    by (auto simp: merge_channels_def)
  from merge_channel_refines [OF this(1)] Cons.IH [OF rest] show ?case by simp
qed (simp add: merge_channels_def)

lemma merge_roles_refines:
  "merge_roles now rems c = (Inr u, c') \<Longrightarrow> c' = c\<lparr>c_roles := merged_roles now (c_roles c) rems\<rparr>"
proof (induction rems arbitrary: c)
  case (Cons r rems)
  then obtain v c1 where "merge_role now r c = (Inr v, c1)" and rest: "merge_roles now rems c1 = (Inr u, c')"
    by (auto simp: merge_roles_def)
  from merge_role_refines [OF this(1)] Cons.IH [OF rest] show ?case by simp
qed (simp add: merge_roles_def)

text \<open>Members and messages are merged without touching the other tables.\<close>

lemma exec_frame:
  assumes "\<And>c'. upd c = Some c' \<Longrightarrow> f c' = f c"
  shows "f (snd (exec g upd c)) = f c"
  by (rule exec_cases [where P = "\<lambda>c'. f c' = f c"]) (simp_all add: assms)

lemma read_then_frame:
  assumes "\<And>x. f (snd (m x c)) = f c"
  shows "f (snd (bindS (readS q) m c)) = f c"
  using assms by (simp split: sum.split)

definition other_tables :: "conn \<Rightarrow> channel list \<times> role list" where
  "other_tables c = (c_channels c, c_roles c)"

lemma merge_member_frame: "other_tables (snd (merge_member m c)) = other_tables c"
  unfolding merge_member_def
proof (rule read_then_frame)
  fix eo
  have "other_tables (snd (update_member_from_sync m c)) = other_tables c"
    unfolding update_member_from_sync_def by (rule exec_frame) (auto simp: other_tables_def)
  moreover have "other_tables (snd (create_member m c)) = other_tables c"
    unfolding create_member_def by (rule exec_frame) (auto simp: other_tables_def split: if_splits)
  ultimately show "other_tables (snd ((case eo of Some existing \<Rightarrow> if m_updated_at m > m_updated_at existing
      then update_member_from_sync m else returnS () | None \<Rightarrow> create_member m) c)) = other_tables c"
    by (simp split: option.split)
qed

lemma merge_message_frame: "other_tables (snd (merge_message m c)) = other_tables c"
  unfolding merge_message_def
proof (rule read_then_frame)
  fix eo
  have "other_tables (snd (update_message_from_sync m c)) = other_tables c"
    unfolding update_message_from_sync_def by (rule exec_frame) (auto simp: other_tables_def)
  moreover have "other_tables (snd (create_message m c)) = other_tables c"
    unfolding create_message_def by (rule exec_frame) (auto simp: other_tables_def split: if_splits)
  ultimately show "other_tables (snd ((case eo of Some existing \<Rightarrow> if should_update_message m existing
      then update_message_from_sync m else returnS () | None \<Rightarrow> create_message m) c)) = other_tables c"
    by (simp split: option.split)
qed

lemma merge_rest_frame:
  "other_tables (snd (merge_members ms c)) = other_tables c"
  "other_tables (snd (merge_messages msgs c)) = other_tables c"
  unfolding merge_members_def merge_messages_def
  by (rule for_eachS_keeps; simp add: merge_member_frame merge_message_frame)+

lemma merge_all_refines:
  assumes "merge_all now data c = (Inr u, c')"
  shows "c_channels c' = merged_channels (c_channels c) (sd_channels data)
    \<and> c_roles c' = merged_roles now (c_roles c) (sd_roles data)"
proof -
  obtain u1 c1 u2 c2 u3 c3 where 1: "merge_channels (sd_channels data) c = (Inr u1, c1)"
    and 2: "merge_roles now (sd_roles data) c1 = (Inr u2, c2)"
    and 3: "merge_members (sd_members data) c2 = (Inr u3, c3)"
    and 4: "merge_messages (sd_messages data) c3 = (Inr u, c')"
    using assms by (auto simp: merge_all_def)
  have "other_tables c' = other_tables c2"
    using merge_rest_frame(1) [of "sd_members data" c2] merge_rest_frame(2) [of "sd_messages data" c3] 3 4
    by simp
  then show ?thesis
    using merge_channels_refines [OF 1] merge_roles_refines [OF 2] by (simp add: other_tables_def)
qed

lemma response_refines:
  assumes "handle_state_sync_response now data c = (Inr u, c')"
  shows "c_channels c' = merged_channels (c_channels c) (sd_channels data)
    \<and> c_roles c' = merged_roles now (c_roles c) (sd_roles data)"
proof -
  obtain v where "merge_all now data c = (Inr v, c')"
    using assms by (cases "merge_all now data c")
      (auto simp: handle_state_sync_response_def transaction_def split: sum.splits if_splits prod.splits)
  from merge_all_refines [OF this] show ?thesis .
qed

subsection \<open>Round trip of the data\<close>

definition sync_data_ok :: "state_sync_data \<Rightarrow> bool" where
  "sync_data_ok d \<longleftrightarrow> (\<forall>ch \<in> set (sd_channels d). in_i32 (ch_position ch) \<and> in_i32 (ch_slow_mode_seconds ch))
     \<and> (\<forall>r \<in> set (sd_roles d). in_i32 (r_position r))"

lemma those_map_Some: "(\<And>x. x \<in> set xs \<Longrightarrow> f (g x) = Some x) \<Longrightarrow> those (map f (map g xs)) = Some xs"
  by (induction xs) simp_all

lemma field_rows_json:
  "(\<And>x. x \<in> set xs \<Longrightarrow> f (JObj (g x)) = Some x) \<Longrightarrow> map_of kvs k = Some (rows_json g xs)
   \<Longrightarrow> field_rows f kvs k = Some xs"
  using those_map_Some [of xs f "\<lambda>x. JObj (g x)"] by (simp add: field_rows_def rows_json_def)

subsection \<open>Properties\<close>

text \<open>C31. A state-sync response that is accepted does to the channels and the roles exactly what
  last-writer-wins merging of the remote rows does: stamps never go down, afterwards no remote row is newer
  than the local one, and merging the same rows again changes nothing.\<close>

theorem sync_is_lww_merge:
  assumes "handle_state_sync_response now data c = (Inr u, c')"
  shows "c_channels c' = merged_channels (c_channels c) (sd_channels data)
    \<and> c_roles c' = merged_roles now (c_roles c) (sd_roles data)
    \<and> merged_channels (c_channels c') (sd_channels data) = c_channels c'
    \<and> merged_roles now (c_roles c') (sd_roles data) = c_roles c'"
  using response_refines [OF assms] by (simp add: channel_lww.merge_again role_lww.merge_again)

text \<open>A node with one channel and a peer that has renamed it.\<close>

definition sync_node :: "string \<Rightarrow> string \<Rightarrow> conn" where
  "sync_node name stamp = empty_conn\<lparr>
     c_users := [\<lparr>u_id = ''u'', u_username = ''u'', u_display_name = [], u_public_key = [], u_avatar_url = [],
       u_status_text = [], u_status_type = ''online'', u_is_admin = False, u_created_at = [], u_updated_at = [],
       u_quiet_hours_enabled = False, u_quiet_hours_from = [], u_quiet_hours_to = []\<rparr>],
     c_channels := [\<lparr>ch_id = ''ch'', ch_team_id = ''t'', ch_name = name, ch_topic = [], ch_type = ''text'',
       ch_position = 0, ch_category = [], ch_created_by = ''u'', ch_created_at = [], ch_updated_at = stamp,
       ch_locked = False, ch_hidden_if_restricted = False, ch_slow_mode_seconds = 0, ch_group_id = None\<rparr>]\<rparr>"

definition channels_of :: "conn \<Rightarrow> state_sync_data" where
  "channels_of c = \<lparr>sd_channels = c_channels c, sd_messages = [], sd_members = [], sd_roles = []\<rparr>"

lemma sync_node_exchange:
  "handle_state_sync_response (\<lambda>_. ''now'') (channels_of (sync_node ''new'' ''2'')) (sync_node ''old'' ''1'')
     = (Inr (), sync_node ''new'' ''2'')"
  "handle_state_sync_response (\<lambda>_. ''now'') (channels_of (sync_node ''old'' ''1'')) (sync_node ''new'' ''2'')
     = (Inr (), sync_node ''new'' ''2'')"
  by code_simp+

theorem sync_is_lww_merge_witness:
  "merged_channels (c_channels (sync_node ''new'' ''2'')) (c_channels (sync_node ''new'' ''2''))
   = c_channels (sync_node ''new'' ''2'')"
  using sync_is_lww_merge [OF sync_node_exchange(1)] by (simp add: channels_of_def)

text \<open>Two nodes that exchange their channels agree on a channel that both hold with different stamps.\<close>

lemma exchange_converges:
  assumes "distinct (map ch_id (c_channels c1))" and "distinct (map ch_id (c_channels c2))"
    and "sd_channels d1 = c_channels c1" and "sd_channels d2 = c_channels c2"
    and "handle_state_sync_response now1 d2 c1 = (Inr u1, c1')"
    and "handle_state_sync_response now2 d1 c2 = (Inr u2, c2')"
    and "a \<in> set (c_channels c1)" and "b \<in> set (c_channels c2)" and "ch_id a = ch_id b"
    and "ch_updated_at a \<noteq> ch_updated_at b"
  shows "map_option synced_channel (lookup_by ch_id (ch_id a) (c_channels c1'))
    = map_option synced_channel (lookup_by ch_id (ch_id a) (c_channels c2'))"
  using channel_lww.exchange_agrees [OF assms(1,2,7,8,9,10)] response_refines [OF assms(5)] response_refines [OF assms(6)] assms(3,4)
  by simp

text \<open>C32. Two responses may arrive in either order: when all four merges are accepted, the channels and the roles of the
  node agree afterwards, key by key, in everything that is synchronised (name, topic, category and position of a channel;
  name, colour, position and permissions of a role; the stamp). Rows of the two responses that carry the same id and the
  same stamp must have the same content, and roles a stamp: of two rows with one stamp the first wins.\<close>

theorem sync_converges:
  assumes "handle_state_sync_response now1 d1 c = (Inr u1, c1)" and "handle_state_sync_response now2 d2 c1 = (Inr u2, c12)"
    and "handle_state_sync_response now3 d2 c = (Inr u3, c2)" and "handle_state_sync_response now4 d1 c2 = (Inr u4, c21)"
    and "\<forall>a \<in> set (sd_channels d1). \<forall>b \<in> set (sd_channels d2).
      ch_id a = ch_id b \<and> ch_updated_at a = ch_updated_at b \<longrightarrow> synced_channel a = synced_channel b"
    and "\<forall>a \<in> set (sd_roles d1). \<forall>b \<in> set (sd_roles d2).
      r_id a = r_id b \<and> r_updated_at a = r_updated_at b \<longrightarrow> synced_role a = synced_role b"
    and "\<forall>r \<in> set (sd_roles d1) \<union> set (sd_roles d2). r_updated_at r \<noteq> []"
  shows "map_option synced_channel (lookup_by ch_id k (c_channels c12)) = map_option synced_channel (lookup_by ch_id k (c_channels c21))
    \<and> map_option synced_role (lookup_by r_id k (c_roles c12)) = map_option synced_role (lookup_by r_id k (c_roles c21))"
proof -
  have same: "merged_roles now rs rems = lww_merge r_id r_updated_at sync_role_row (\<lambda>r. r) rs rems"
    if "\<forall>r \<in> set rems. r_updated_at r \<noteq> []" for now rs rems
    unfolding lww_merge_def using that
    by (intro foldl_cong) (auto simp: lww_merge1_def stamped_role_def split: option.split)
  note r = response_refines [OF assms(1)] response_refines [OF assms(2)] response_refines [OF assms(3)] response_refines [OF assms(4)]
  have "channel_lww.view (c_channels c12) k = channel_lww.view (c_channels c21) k"
    using assms(5) r by (simp add: channel_lww.merge_order)
  moreover have "plain_role_lww.view (c_roles c12) k = plain_role_lww.view (c_roles c21) k"
    using assms(6,7) r by (simp add: same plain_role_lww.merge_order)
  ultimately show ?thesis by (simp add: channel_lww.view_def plain_role_lww.view_def)
qed

text \<open>Two peers have renamed the channel, one after the other.\<close>

theorem sync_converges_witness:
  "map_option ch_name (lookup_by ch_id ''ch'' (c_channels (snd (handle_state_sync_response (\<lambda>_. ''now'')
      (channels_of (sync_node ''third'' ''3'')) (sync_node ''new'' ''2''))))) = Some ''third''
   \<and> map_option synced_channel (lookup_by ch_id ''ch'' (c_channels (snd (handle_state_sync_response (\<lambda>_. ''now'')
      (channels_of (sync_node ''third'' ''3'')) (sync_node ''new'' ''2'')))))
    = map_option synced_channel (lookup_by ch_id ''ch'' (c_channels (snd (handle_state_sync_response (\<lambda>_. ''now'')
      (channels_of (sync_node ''new'' ''2'')) (sync_node ''third'' ''3'')))))"
proof
  let ?n = "\<lambda>_ :: string. ''now''"
  let ?d1 = "channels_of (sync_node ''new'' ''2'')" and ?d2 = "channels_of (sync_node ''third'' ''3'')"
  have m: "handle_state_sync_response ?n ?d1 (sync_node ''old'' ''1'') = (Inr (), sync_node ''new'' ''2'')"
    "handle_state_sync_response ?n ?d2 (sync_node ''new'' ''2'')
      = (Inr (), snd (handle_state_sync_response ?n ?d2 (sync_node ''new'' ''2'')))"
    "handle_state_sync_response ?n ?d2 (sync_node ''old'' ''1'') = (Inr (), sync_node ''third'' ''3'')"
    "handle_state_sync_response ?n ?d1 (sync_node ''third'' ''3'')
      = (Inr (), snd (handle_state_sync_response ?n ?d1 (sync_node ''third'' ''3'')))"
    by code_simp+
  show "map_option ch_name (lookup_by ch_id ''ch'' (c_channels (snd (handle_state_sync_response ?n ?d2 (sync_node ''new'' ''2'')))))
      = Some ''third''" by code_simp
  have "\<forall>a \<in> set (sd_channels ?d1). \<forall>b \<in> set (sd_channels ?d2).
      ch_id a = ch_id b \<and> ch_updated_at a = ch_updated_at b \<longrightarrow> synced_channel a = synced_channel b"
    by (simp add: channels_of_def sync_node_def)
  from sync_converges [OF m this, of "''ch''"]
  show "map_option synced_channel (lookup_by ch_id ''ch'' (c_channels (snd (handle_state_sync_response ?n ?d2 (sync_node ''new'' ''2'')))))
    = map_option synced_channel (lookup_by ch_id ''ch'' (c_channels (snd (handle_state_sync_response ?n ?d1 (sync_node ''third'' ''3'')))))"
    by (simp add: channels_of_def)
qed

text \<open>A state-sync response is all or nothing: when it is refused, for its size or because any one of its
  rows violates a constraint (an author this node does not know, a channel name already taken), the database
  is as before, unless \<open>COMMIT\<close> or \<open>ROLLBACK\<close> themselves fail.\<close>

theorem sync_all_or_nothing:
  assumes "handle_state_sync_response now data c = (Inl e, c')"
    and "''COMMIT'' \<notin> set (c_faults c)" and "''ROLLBACK'' \<notin> set (c_faults c)"
  shows "c' = c \<and> (e = TooManyChannels (length (sd_channels data)) \<longleftrightarrow> length (sd_channels data) > 100)"
  using assms
  by (auto simp: handle_state_sync_response_def validate_sync_response_size_def MAX_SYNC_CHANNELS_def
      transaction_def split: if_splits prod.splits sum.splits)

theorem sync_all_or_nothing_witness:
  "snd (handle_state_sync_response (\<lambda>_. ''now'') \<lparr>sd_channels = [hd (c_channels (sync_node ''b'' ''2'')),
     (hd (c_channels (sync_node ''c'' ''2'')))\<lparr>ch_id := ''x'', ch_created_by := ''stranger''\<rparr>],
     sd_messages = [], sd_members = [], sd_roles = []\<rparr> (sync_node ''a'' ''1'')) = sync_node ''a'' ''1''"
proof -
  let ?d = "\<lparr>sd_channels = [hd (c_channels (sync_node ''b'' ''2'')),
     (hd (c_channels (sync_node ''c'' ''2'')))\<lparr>ch_id := ''x'', ch_created_by := ''stranger''\<rparr>],
     sd_messages = [], sd_members = [], sd_roles = []\<rparr>"
  have "fst (handle_state_sync_response (\<lambda>_. ''now'') ?d (sync_node ''a'' ''1'')) = Inl (FedDb SqliteFailure)"
    by code_simp
  then have r: "handle_state_sync_response (\<lambda>_. ''now'') ?d (sync_node ''a'' ''1'')
      = (Inl (FedDb SqliteFailure), snd (handle_state_sync_response (\<lambda>_. ''now'') ?d (sync_node ''a'' ''1'')))"
    by (metis prod.collapse)
  have "c_faults (sync_node ''a'' ''1'') = []" by (simp add: sync_node_def empty_conn_def)
  then show ?thesis using sync_all_or_nothing [OF r] by simp
qed

text \<open>What a node serialises for a peer parses back to the same channels, messages, members and roles.\<close>

theorem sync_data_roundtrip:
  assumes "sync_data_ok d"
  shows "parse_sync_data (sync_data_json d) = Some d"
proof -
  let ?kvs = "[(''channels'', rows_json channel_json (sd_channels d)),
     (''messages'', rows_json message_json (sd_messages d)), (''members'', rows_json member_json (sd_members d)),
     (''roles'', rows_json role_json (sd_roles d))]"
  have "field_rows parse_channel ?kvs ''channels'' = Some (sd_channels d)"
    using assms by (intro field_rows_json) (auto simp: sync_data_ok_def parse_channel_json)
  moreover have "field_rows parse_message ?kvs ''messages'' = Some (sd_messages d)"
    by (intro field_rows_json) (simp_all add: parse_message_json)
  moreover have "field_rows parse_member ?kvs ''members'' = Some (sd_members d)"
    by (intro field_rows_json) (simp_all add: parse_member_json)
  moreover have "field_rows parse_role ?kvs ''roles'' = Some (sd_roles d)"
    using assms by (intro field_rows_json) (auto simp: sync_data_ok_def parse_role_json)
  ultimately show ?thesis by (simp add: parse_sync_data_def sync_data_json_def)
qed

theorem sync_data_roundtrip_witness:
  "parse_sync_data (sync_data_json (channels_of (sync_node ''a'' ''1''))) = Some (channels_of (sync_node ''a'' ''1''))"
  by (rule sync_data_roundtrip) code_simp

text \<open>A deleted message does not survive being copied: the row of a peer that this node does not have is
  inserted without its \<open>deleted\<close> mark, and only a second synchronisation with the same data sets it. So the
  merge of messages, unlike that of channels and roles, is not idempotent.\<close>

theorem sync_drops_tombstone:
  assumes "healthy c" and "message_ok c tomb" and "msg_deleted tomb" and "msg_edited_at tomb = None"
  shows "merge_messages [tomb] c = (Inr (), c\<lparr>c_messages := c_messages c @ [tomb\<lparr>msg_deleted := False\<rparr>]\<rparr>)
    \<and> merge_messages [tomb] (snd (merge_messages [tomb] c)) = (Inr (), c\<lparr>c_messages := c_messages c @ [tomb]\<rparr>)"
proof -
  have fresh: "\<forall>m \<in> set (c_messages c). msg_id m \<noteq> msg_id tomb"
    using assms(2) unfolding message_ok_def by (metis image_eqI)
  then have none: "rows_where (\<lambda>m. msg_id m = msg_id tomb) (c_messages c) = []"
    by (simp add: rows_where_eq_Nil)
  let ?c = "c\<lparr>c_messages := c_messages c @ [tomb\<lparr>msg_deleted := False\<rparr>]\<rparr>"
  have "tomb\<lparr>msg_edited_at := None, msg_deleted := False\<rparr> = tomb\<lparr>msg_deleted := False\<rparr>"
    using assms(4) by (cases tomb) simp
  then have first: "merge_messages [tomb] c = (Inr (), ?c)"
    using assms(1,2) none
    by (simp add: merge_messages_def merge_message_def get_message_by_id_def create_message_def exec_healthy)
  have h: "healthy ?c" using assms(1) by (simp add: healthy_def)
  have upd: "update_where (\<lambda>x. msg_id x = msg_id tomb) f (c_messages c) = c_messages c" for f
    by (rule update_where_none) (use fresh in blast)
  have "tomb\<lparr>msg_deleted := False, msg_content := msg_content tomb, msg_edited_at := None, msg_deleted := True\<rparr> = tomb"
    using assms(3,4) by (cases tomb) simp
  then have "merge_messages [tomb] ?c = (Inr (), c\<lparr>c_messages := c_messages c @ [tomb]\<rparr>)"
    using h none assms(3,4) upd
    by (simp add: merge_messages_def merge_message_def get_message_by_id_def should_update_message_def
        update_message_from_sync_def exec_healthy) (simp add: update_where_def)
  with first show ?thesis by simp
qed

definition sample_tomb :: message where
  "sample_tomb = \<lparr>msg_id = ''m'', msg_channel_id = ''ch'', msg_dm_channel_id = [], msg_author_id = ''u'',
     msg_content = [], msg_type = ''text'', msg_thread_id = [], msg_reply_to = None, msg_edited_at = None,
     msg_deleted = True, msg_lamport_ts = 0, msg_created_at = ''1''\<rparr>"

theorem sync_drops_tombstone_witness:
  "c_messages (snd (merge_messages [sample_tomb] (sync_node ''a'' ''1''))) = [sample_tomb\<lparr>msg_deleted := False\<rparr>]"
proof -
  have h: "healthy (sync_node ''a'' ''1'')" and ok: "message_ok (sync_node ''a'' ''1'') sample_tomb"
    and t: "msg_deleted sample_tomb" "msg_edited_at sample_tomb = None"
    and none: "c_messages (sync_node ''a'' ''1'') = []"
    by code_simp+
  from sync_drops_tombstone [OF h ok t] none show ?thesis by simp
qed

end
