(* ===== verification/Fed_Mesh.thy ===== *)
theory Fed_Mesh
  imports Fed_Sync Ws_Social Teams_Api
begin

section \<open>Federation: authority, replay protection, event dispatch\<close>

text \<open>
  \<open>federation/authority.rs\<close> and the mesh node of \<open>federation/mod.rs\<close>. The mesh
  node owns the sync manager, the transport and its view of the peers; a replicated event changes the world
  of the local handlers (\<open>world\<close>: database and hub queues). \<open>now\<close> is \<open>db::now_str\<close>, \<open>now_ts\<close> the time in
  seconds.
\<close>

subsection \<open>Authority\<close>

datatype authority_decision = AuthorityAllow | AuthorityDenied string | LegacyTeam

definition payload_team :: "json \<Rightarrow> string" where
  "payload_team payload = (case json_get_str payload ''team_id'' of None \<Rightarrow> [] | Some t \<Rightarrow> t)"

definition get_team_owner :: "conn \<Rightarrow> string \<Rightarrow> string option db_res" where
  "get_team_owner c tid = optional (query_row ''get_team_owner'' c
     (map snd (rows_where (\<lambda>p. fst p = tid) (c_team_authority c))))"

definition check_team_authority :: "conn \<Rightarrow> string \<Rightarrow> string \<Rightarrow> authority_decision db_res" where
  "check_team_authority c origin tid =
     bindE (optional (query_row ''check_team_authority'' c
        (map snd (rows_where (\<lambda>p. fst p = tid) (c_team_authority c))))) (\<lambda>row. case row of
       None \<Rightarrow> Inr LegacyTeam
     | Some owner \<Rightarrow> if owner = origin then Inr AuthorityAllow else Inr (AuthorityDenied ''team.not_team_owner''))"

definition message_event_types :: "string list" where
  "message_event_types = [''message.create'', ''message:new'', ''message.edit'', ''message:edit'',
     ''message.delete'', ''message:delete'']"

definition check_authority :: "conn \<Rightarrow> signed_event \<Rightarrow> authority_decision db_res" where
  "check_authority c env =
     (let event_type = fe_type (se_event env); payload = fe_payload (se_event env);
          origin = se_origin_node_id env; team_id = payload_team payload
      in if starts_with ''channel.'' event_type \<or> starts_with ''role.'' event_type
            \<or> starts_with ''member.'' event_type
         then (if team_id = [] then Inr (AuthorityDenied ''missing_team_id'')
               else check_team_authority c origin team_id)
         else if event_type \<in> set message_event_types
         then (let author_home = (case json_get_str payload ''home_node_id'' of None \<Rightarrow> [] | Some h \<Rightarrow> h)
               in if author_home = [] then Inr (AuthorityDenied ''message.missing_home_node_id'')
                  else if author_home = origin then Inr AuthorityAllow
                  else Inr (AuthorityDenied ''message.author_home_peer_mismatch''))
         else if event_type = ''state.sync'' \<or> event_type = ''state.sync.response''
         then (if team_id = [] then Inr (AuthorityDenied ''missing_team_id'')
               else check_team_authority c origin team_id)
         else Inr (AuthorityDenied ''unknown_event_type''))"

subsection \<open>The sequence watermark\<close>

text \<open>The largest sequence number applied for an origin and a team; a read that fails counts as none.\<close>

definition advance_watermark :: "string \<Rightarrow> string \<Rightarrow> u64 \<Rightarrow> bool db_op" where
  "advance_watermark origin team_id seq c =
     (let key = (origin, team_id);
          prev_seq = unwrap_or (query_row ''watermark.read'' c
            (map snd (rows_where (\<lambda>p. fst p = key) (c_seq_watermark c)))) 0
      in if seq \<le> prev_seq then (Inr False, c)
         else bindS (exec ''watermark.write'' (\<lambda>c. Some (c\<lparr>c_seq_watermark :=
             (if key \<in> fst ` set (c_seq_watermark c)
              then update_where (\<lambda>p. fst p = key) (\<lambda>p. (key, seq)) (c_seq_watermark c)
              else c_seq_watermark c @ [(key, seq)])\<rparr>))) (\<lambda>_. returnS True) c)"

subsection \<open>The mesh node\<close>

record peer_info =
  pi_address :: string
  pi_status :: string
  pi_node_name :: string
  pi_last_seen :: string

record mesh =
  mh_node_name :: string
  mh_local_node_id :: string
  mh_sync :: sync_mgr
  mh_transport :: transport
  mh_peers :: "(string \<times> peer_info) list"
  mh_world :: world

definition mesh_new :: "string \<Rightarrow> string \<Rightarrow> bool \<Rightarrow> node_identity option \<Rightarrow> bool \<Rightarrow> world \<Rightarrow> mesh" where
  "mesh_new node_name secret insecure identity require_v3 w = \<lparr>mh_node_name = node_name,
     mh_local_node_id = (case identity of None \<Rightarrow> [] | Some i \<Rightarrow> ni_node_id i), mh_sync = sync_new node_name,
     mh_transport = transport_new secret insecure identity require_v3, mh_peers = [], mh_world = w\<rparr>"

definition FED_EVENT_MESSAGE_NEW :: string where "FED_EVENT_MESSAGE_NEW = ''message:new''"
definition FED_EVENT_MESSAGE_EDIT :: string where "FED_EVENT_MESSAGE_EDIT = ''message:edit''"
definition FED_EVENT_MESSAGE_DELETE :: string where "FED_EVENT_MESSAGE_DELETE = ''message:delete''"
definition FED_EVENT_PRESENCE_CHANGED :: string where "FED_EVENT_PRESENCE_CHANGED = ''presence:changed''"
definition FED_EVENT_VOICE_USER_JOINED :: string where "FED_EVENT_VOICE_USER_JOINED = ''voice:user:joined''"
definition FED_EVENT_VOICE_USER_LEFT :: string where "FED_EVENT_VOICE_USER_LEFT = ''voice:user:left''"
definition FED_EVENT_MEMBER_JOINED :: string where "FED_EVENT_MEMBER_JOINED = ''member:joined''"
definition FED_EVENT_MEMBER_LEFT :: string where "FED_EVENT_MEMBER_LEFT = ''member:left''"

lemmas fed_event_names = FED_EVENT_MESSAGE_NEW_def FED_EVENT_MESSAGE_EDIT_def FED_EVENT_MESSAGE_DELETE_def
  FED_EVENT_PRESENCE_CHANGED_def FED_EVENT_VOICE_USER_JOINED_def FED_EVENT_VOICE_USER_LEFT_def
  FED_EVENT_MEMBER_JOINED_def FED_EVENT_MEMBER_LEFT_def FED_EVENT_STATE_SYNC_REQ_def
  FED_EVENT_STATE_SYNC_RESP_def

subsection \<open>Outbound\<close>

definition broadcast_event :: "crypto \<Rightarrow> json_lib \<Rightarrow> (string \<Rightarrow> bool) \<Rightarrow> string \<Rightarrow> json \<Rightarrow> mesh \<Rightarrow> mesh" where
  "broadcast_event cr js io ty payload m =
     (let (ts, sm) = ticked (mh_sync m)
      in m\<lparr>mh_sync := sm, mh_transport := broadcast_to_peers cr js io \<lparr>fe_type = ty,
           fe_node_name = mh_node_name m, fe_timestamp = ts, fe_payload = payload\<rparr> (mh_transport m)\<rparr>)"

record replication_message =
  rm_message_id :: string
  rm_channel_id :: string
  rm_author_id :: string
  rm_username :: string
  rm_content :: string
  rm_msg_type :: string
  rm_thread_id :: string
  rm_lamport_ts :: u64
  rm_created_at :: string

definition replication_message_json :: "replication_message \<Rightarrow> (string \<times> json) list" where
  "replication_message_json r = [(''message_id'', JStr (rm_message_id r)), (''channel_id'', JStr (rm_channel_id r)),
     (''author_id'', JStr (rm_author_id r)), (''username'', JStr (rm_username r)),
     (''content'', JStr (rm_content r)), (''type'', JStr (rm_msg_type r)), (''thread_id'', JStr (rm_thread_id r)),
     (''lamport_ts'', JNum (uint (rm_lamport_ts r))), (''created_at'', JStr (rm_created_at r))]"

definition parse_replication_message :: "json \<Rightarrow> replication_message option" where
  "parse_replication_message v = Option.bind (fields_of [''message_id'', ''channel_id'', ''author_id'',
       ''username'', ''content'', ''type'', ''thread_id'', ''lamport_ts'', ''created_at''] v) (\<lambda>kvs.
     Option.bind (field_str kvs ''message_id'') (\<lambda>x0.
     Option.bind (field_str kvs ''channel_id'') (\<lambda>x1.
     Option.bind (field_str kvs ''author_id'') (\<lambda>x2.
     Option.bind (field_str kvs ''username'') (\<lambda>x3.
     Option.bind (field_str kvs ''content'') (\<lambda>x4.
     Option.bind (field_str kvs ''type'') (\<lambda>x5.
     Option.bind (field_str_default kvs ''thread_id'') (\<lambda>x6.
     Option.bind (field_u64 kvs ''lamport_ts'') (\<lambda>x7.
     Option.bind (field_str kvs ''created_at'') (\<lambda>x8.
     Some \<lparr>rm_message_id = x0, rm_channel_id = x1, rm_author_id = x2, rm_username = x3, rm_content = x4,
       rm_msg_type = x5, rm_thread_id = x6, rm_lamport_ts = x7, rm_created_at = x8\<rparr>))))))))))"

definition broadcast_message :: "crypto \<Rightarrow> json_lib \<Rightarrow> (string \<Rightarrow> bool) \<Rightarrow> replication_message \<Rightarrow> mesh \<Rightarrow> mesh" where
  "broadcast_message cr js io msg m = broadcast_event cr js io FED_EVENT_MESSAGE_NEW
     (JObj (replication_message_json msg @ [(''home_node_id'', JStr (mh_local_node_id m))])) m"

definition broadcast_message_edit ::
  "crypto \<Rightarrow> json_lib \<Rightarrow> (string \<Rightarrow> bool) \<Rightarrow> string \<Rightarrow> string \<Rightarrow> string \<Rightarrow> mesh \<Rightarrow> mesh" where
  "broadcast_message_edit cr js io mid cid content m = broadcast_event cr js io FED_EVENT_MESSAGE_EDIT
     (JObj [(''message_id'', JStr mid), (''channel_id'', JStr cid), (''content'', JStr content),
       (''home_node_id'', JStr (mh_local_node_id m))]) m"

definition broadcast_message_delete ::
  "crypto \<Rightarrow> json_lib \<Rightarrow> (string \<Rightarrow> bool) \<Rightarrow> string \<Rightarrow> string \<Rightarrow> mesh \<Rightarrow> mesh" where
  "broadcast_message_delete cr js io mid cid m = broadcast_event cr js io FED_EVENT_MESSAGE_DELETE
     (JObj [(''message_id'', JStr mid), (''channel_id'', JStr cid), (''home_node_id'', JStr (mh_local_node_id m))]) m"

definition broadcast_presence_changed ::
  "crypto \<Rightarrow> json_lib \<Rightarrow> (string \<Rightarrow> bool) \<Rightarrow> string \<Rightarrow> string \<Rightarrow> string \<Rightarrow> mesh \<Rightarrow> mesh" where
  "broadcast_presence_changed cr js io uid st custom m = broadcast_event cr js io FED_EVENT_PRESENCE_CHANGED
     (JObj [(''user_id'', JStr uid), (''status_type'', JStr st), (''custom_status'', JStr custom)]) m"

definition broadcast_voice_user_joined ::
  "crypto \<Rightarrow> json_lib \<Rightarrow> (string \<Rightarrow> bool) \<Rightarrow> string \<Rightarrow> string \<Rightarrow> string \<Rightarrow> mesh \<Rightarrow> mesh" where
  "broadcast_voice_user_joined cr js io cid uid uname m = broadcast_event cr js io FED_EVENT_VOICE_USER_JOINED
     (JObj [(''channel_id'', JStr cid), (''user_id'', JStr uid), (''username'', JStr uname)]) m"

definition broadcast_voice_user_left ::
  "crypto \<Rightarrow> json_lib \<Rightarrow> (string \<Rightarrow> bool) \<Rightarrow> string \<Rightarrow> string \<Rightarrow> mesh \<Rightarrow> mesh" where
  "broadcast_voice_user_left cr js io cid uid m = broadcast_event cr js io FED_EVENT_VOICE_USER_LEFT
     (JObj [(''channel_id'', JStr cid), (''user_id'', JStr uid)]) m"

subsection \<open>Handlers of replicated events\<close>

definition fed_db :: "'a db_op \<Rightarrow> world \<Rightarrow> (fed_error + 'a) \<times> world" where
  "fed_db f w = (case run_db f w of (r, w') \<Rightarrow> (map_err FedDb r, w'))"

definition require_str :: "json \<Rightarrow> string \<Rightarrow> fed_error + string" where
  "require_str payload k = ok_or (json_get_str payload k) (FedMissing k)"

definition then_broadcast :: "(fed_error + unit) \<times> world \<Rightarrow> (world \<Rightarrow> world) \<Rightarrow> (fed_error + unit) \<times> world" where
  "then_broadcast rw f = (case rw of (Inl e, w) \<Rightarrow> (Inl e, w) | (Inr _, w) \<Rightarrow> (Inr (), f w))"

definition replicated_message :: "replication_message \<Rightarrow> message" where
  "replicated_message r = \<lparr>msg_id = rm_message_id r, msg_channel_id = rm_channel_id r, msg_dm_channel_id = [],
     msg_author_id = rm_author_id r, msg_content = rm_content r, msg_type = rm_msg_type r,
     msg_thread_id = rm_thread_id r, msg_reply_to = None, msg_edited_at = None, msg_deleted = False,
     msg_lamport_ts = rm_lamport_ts r, msg_created_at = rm_created_at r\<rparr>"

definition fed_message_new :: "json \<Rightarrow> world \<Rightarrow> (fed_error + unit) \<times> world" where
  "fed_message_new payload w = (case parse_replication_message payload of
     None \<Rightarrow> (Inl FedParse, w)
   | Some r \<Rightarrow> then_broadcast
       (fed_db (bindS (readS (\<lambda>c. get_message_by_id c (rm_message_id r))) (\<lambda>existing.
          if existing = None then create_message (replicated_message r) else returnS ())) w)
       (broadcast_to_channel (rm_channel_id r) (event_new EVENT_MESSAGE_NEW
         (message_new_payload_json (rm_message_id r) (rm_channel_id r) (rm_author_id r) (rm_username r)
           (rm_content r) (rm_msg_type r) (rm_thread_id r) None (rm_created_at r) [])) None))"

definition fed_message_edit :: "string \<Rightarrow> json \<Rightarrow> world \<Rightarrow> (fed_error + unit) \<times> world" where
  "fed_message_edit now payload w =
     (case bindE (require_str payload ''message_id'') (\<lambda>mid. bindE (require_str payload ''channel_id'') (\<lambda>cid.
             bindE (require_str payload ''content'') (\<lambda>content. Inr (mid, cid, content)))) of
        Inl e \<Rightarrow> (Inl e, w)
      | Inr (mid, cid, content) \<Rightarrow> then_broadcast (fed_db (update_message_content now mid content) w)
          (broadcast_to_channel cid (event_new EVENT_MESSAGE_UPDATED (JObj [(''message_id'', JStr mid),
            (''channel_id'', JStr cid), (''content'', JStr content), (''edited_at'', JStr now)])) None))"

definition fed_message_delete :: "json \<Rightarrow> world \<Rightarrow> (fed_error + unit) \<times> world" where
  "fed_message_delete payload w =
     (case bindE (require_str payload ''message_id'') (\<lambda>mid. bindE (require_str payload ''channel_id'') (\<lambda>cid.
             Inr (mid, cid))) of
        Inl e \<Rightarrow> (Inl e, w)
      | Inr (mid, cid) \<Rightarrow> then_broadcast (fed_db (soft_delete_message mid) w)
          (broadcast_to_channel cid (event_new EVENT_MESSAGE_DELETED
            (JObj [(''message_id'', JStr mid), (''channel_id'', JStr cid)])) None))"

definition str_or_empty :: "json \<Rightarrow> string \<Rightarrow> string" where
  "str_or_empty payload k = (case json_get_str payload k of None \<Rightarrow> [] | Some s \<Rightarrow> s)"

definition fed_presence_changed :: "string \<Rightarrow> json \<Rightarrow> world \<Rightarrow> (fed_error + unit) \<times> world" where
  "fed_presence_changed now payload w =
     (case bindE (require_str payload ''user_id'') (\<lambda>uid. bindE (require_str payload ''status_type'') (\<lambda>st.
             Inr (uid, st, str_or_empty payload ''custom_status''))) of
        Inl e \<Rightarrow> (Inl e, w)
      | Inr (uid, st, custom) \<Rightarrow> then_broadcast (fed_db (update_user_status now uid st custom) w)
          (broadcast_to_all (event_new EVENT_PRESENCE_CHANGED (presence_update_payload_json uid st custom))))"

definition fed_voice_user_joined :: "json \<Rightarrow> world \<Rightarrow> (fed_error + unit) \<times> world" where
  "fed_voice_user_joined payload w =
     (case bindE (require_str payload ''channel_id'') (\<lambda>cid. bindE (require_str payload ''user_id'') (\<lambda>uid.
             Inr (cid, uid))) of
        Inl e \<Rightarrow> (Inl e, w)
      | Inr (cid, uid) \<Rightarrow> (Inr (), broadcast_to_channel cid (event_new EVENT_VOICE_USER_JOINED
          (voice_user_joined_payload_json cid uid (str_or_empty payload ''username''))) None w))"

definition fed_voice_user_left :: "json \<Rightarrow> world \<Rightarrow> (fed_error + unit) \<times> world" where
  "fed_voice_user_left payload w =
     (case bindE (require_str payload ''channel_id'') (\<lambda>cid. bindE (require_str payload ''user_id'') (\<lambda>uid.
             Inr (cid, uid))) of
        Inl e \<Rightarrow> (Inl e, w)
      | Inr (cid, uid) \<Rightarrow> (Inr (), broadcast_to_channel cid (event_new EVENT_VOICE_USER_LEFT
          (voice_user_left_payload_json cid uid)) None w))"

definition fed_state_sync_response :: "(string \<Rightarrow> string) \<Rightarrow> json \<Rightarrow> world \<Rightarrow> (fed_error + unit) \<times> world" where
  "fed_state_sync_response now payload w = (case parse_sync_data payload of
     None \<Rightarrow> (Inl FedParse, w)
   | Some data \<Rightarrow> (case handle_state_sync_response now data (w_conn w) of (r, c') \<Rightarrow> (r, w\<lparr>w_conn := c'\<rparr>)))"

subsection \<open>Dispatch\<close>

text \<open>What the gate does with an event that came in a signed envelope: \<open>False\<close> is the silent drop.\<close>

definition passes_gate :: "fed_event \<Rightarrow> provenance \<Rightarrow> conn \<Rightarrow> bool \<times> conn" where
  "passes_gate event prov c = (case pv_origin_node_id prov of
     None \<Rightarrow> (True, c)
   | Some origin \<Rightarrow>
       (case check_authority c \<lparr>se_v = WIRE_VERSION, se_event = event, se_origin_node_id = origin,
            se_seq = (case pv_seq prov of None \<Rightarrow> 0 | Some q \<Rightarrow> q),
            se_event_id = (case pv_event_id prov of None \<Rightarrow> [] | Some i \<Rightarrow> i), se_signature = []\<rparr> of
          Inl _ \<Rightarrow> (False, c)
        | Inr (AuthorityDenied _) \<Rightarrow> (False, c)
        | Inr _ \<Rightarrow> (case pv_seq prov of
            None \<Rightarrow> (True, c)
          | Some seq \<Rightarrow> (case advance_watermark origin (payload_team (fe_payload event)) seq c of
                (Inr True, c') \<Rightarrow> (True, c')
              | (_, c') \<Rightarrow> (False, c')))))"

definition touch_peer :: "string \<Rightarrow> string \<Rightarrow> string \<Rightarrow> mesh \<Rightarrow> mesh" where
  "touch_peer now peer_addr node_name m =
     (let info = \<lparr>pi_address = (case map_of (mh_peers m) peer_addr of None \<Rightarrow> peer_addr | Some p \<Rightarrow> pi_address p),
            pi_status = ''connected'', pi_node_name = node_name, pi_last_seen = now\<rparr>
      in m\<lparr>mh_peers := (if peer_addr \<in> fst ` set (mh_peers m)
           then update_where (\<lambda>p. fst p = peer_addr) (\<lambda>p. (peer_addr, info)) (mh_peers m)
           else mh_peers m @ [(peer_addr, info)])\<rparr>)"

definition on_world :: "(world \<Rightarrow> (fed_error + unit) \<times> world) \<Rightarrow> mesh \<Rightarrow> (fed_error + unit) \<times> mesh" where
  "on_world f m = (case f (mh_world m) of (r, w') \<Rightarrow> (r, m\<lparr>mh_world := w'\<rparr>))"

text \<open>The clock: \<open>now []\<close> when the event is handled, \<open>now k\<close> when a row with the key \<open>k\<close> is inserted for it.\<close>

definition dispatch_event ::
  "json_lib \<Rightarrow> (string \<Rightarrow> bool) \<Rightarrow> (string \<Rightarrow> string) \<Rightarrow> int \<Rightarrow> string \<Rightarrow> fed_event \<Rightarrow> mesh \<Rightarrow> (fed_error + unit) \<times> mesh" where
  "dispatch_event js io now now_ts peer_addr event m =
     (let ty = fe_type event; payload = fe_payload event in
      if ty = FED_EVENT_MESSAGE_NEW then on_world (fed_message_new payload) m
      else if ty = FED_EVENT_MESSAGE_EDIT then on_world (fed_message_edit (now []) payload) m
      else if ty = FED_EVENT_MESSAGE_DELETE then on_world (fed_message_delete payload) m
      else if ty = FED_EVENT_PRESENCE_CHANGED then on_world (fed_presence_changed (now []) payload) m
      else if ty = FED_EVENT_VOICE_USER_JOINED then on_world (fed_voice_user_joined payload) m
      else if ty = FED_EVENT_VOICE_USER_LEFT then on_world (fed_voice_user_left payload) m
      else if ty = FED_EVENT_STATE_SYNC_REQ
      then (case handle_state_sync_request js io now_ts (w_conn (mh_world m)) peer_addr (mh_sync m, mh_transport m) of
          (r, sm, tr) \<Rightarrow> (r, m\<lparr>mh_sync := sm, mh_transport := tr\<rparr>))
      else if ty = FED_EVENT_STATE_SYNC_RESP then on_world (fed_state_sync_response now payload) m
      else (Inr (), m))"

definition observe_clock :: "u64 \<Rightarrow> mesh \<Rightarrow> mesh" where
  "observe_clock received m = m\<lparr>mh_sync := (mh_sync m)\<lparr>sy_lamport_ts :=
     snd (clock_update received (sy_lamport_ts (mh_sync m)))\<rparr>\<rparr>"

definition handle_federation_event ::
  "json_lib \<Rightarrow> (string \<Rightarrow> bool) \<Rightarrow> (string \<Rightarrow> string) \<Rightarrow> int \<Rightarrow> string \<Rightarrow> fed_event \<Rightarrow> provenance \<Rightarrow> mesh
     \<Rightarrow> (fed_error + unit) \<times> mesh" where
  "handle_federation_event js io now now_ts peer_addr event prov m =
     (let m = observe_clock (fe_timestamp event) m
      in (case passes_gate event prov (w_conn (mh_world m)) of
            (False, c') \<Rightarrow> (Inr (), m\<lparr>mh_world := (mh_world m)\<lparr>w_conn := c'\<rparr>\<rparr>)
          | (True, c') \<Rightarrow> dispatch_event js io now now_ts peer_addr event
              (touch_peer (now []) peer_addr (fe_node_name event) (m\<lparr>mh_world := (mh_world m)\<lparr>w_conn := c'\<rparr>\<rparr>))))"

subsection \<open>Life cycle\<close>

primrec connect_initial ::
  "json_lib \<Rightarrow> (string \<Rightarrow> bool) \<Rightarrow> (string \<Rightarrow> bool) \<Rightarrow> string \<Rightarrow> string list \<Rightarrow> mesh \<Rightarrow> mesh" where
  "connect_initial js dial io now [] m = m"
| "connect_initial js dial io now (addr # addrs) m = connect_initial js dial io now addrs
     (if addr = [] then m
      else (case connect_to_peer js dial io addr (mh_transport m) of (r, tr) \<Rightarrow>
        let info = (case r of
              Inr _ \<Rightarrow> \<lparr>pi_address = addr, pi_status = ''connected'', pi_node_name = [], pi_last_seen = now\<rparr>
            | Inl _ \<Rightarrow> \<lparr>pi_address = addr, pi_status = ''disconnected'', pi_node_name = [], pi_last_seen = []\<rparr>)
        in m\<lparr>mh_transport := tr, mh_peers := (addr, info) # filter (\<lambda>p. fst p \<noteq> addr) (mh_peers m)\<rparr>))"

definition mesh_stop :: "mesh \<Rightarrow> mesh" where
  "mesh_stop m = m\<lparr>mh_transport := stop_transport (mh_transport m)\<rparr>"

definition refresh_peer :: "string \<Rightarrow> mesh \<Rightarrow> string \<times> bool \<Rightarrow> mesh" where
  "refresh_peer now m st = m\<lparr>mh_peers := update_where (\<lambda>p. fst p = fst st) (\<lambda>p. (fst p, (snd p)\<lparr>
       pi_status := (if snd st then ''connected'' else ''disconnected''),
       pi_last_seen := (if snd st then now else pi_last_seen (snd p))\<rparr>)) (mh_peers m)\<rparr>"

definition get_peers :: "string \<Rightarrow> mesh \<Rightarrow> peer_info list \<times> mesh" where
  "get_peers now m = (let m = foldl (refresh_peer now) m (peer_statuses (mh_transport m))
     in (map snd (mh_peers m), m))"

subsection \<open>What replicated events leave alone\<close>

text \<open>The watermark and the faults of the connection: no handler of a replicated event touches them.\<close>

definition gate_part :: "conn \<Rightarrow> ((string \<times> string) \<times> u64) list \<times> string list" where
  "gate_part c = (c_seq_watermark c, c_faults c)"

named_theorems gate_frame \<open>operations that keep the part of the connection the gate reads\<close>

lemma gate_frame_exec:
  "(\<And>c'. upd c = Some c' \<Longrightarrow> gate_part c' = gate_part c) \<Longrightarrow> gate_part (snd (exec g upd c)) = gate_part c"
  by (rule exec_frame)

lemma gate_frame_ops [gate_frame]:
  "gate_part (snd (create_message msg c)) = gate_part c"
  "gate_part (snd (update_message_content now mid txt c)) = gate_part c"
  "gate_part (snd (soft_delete_message mid c)) = gate_part c"
  "gate_part (snd (update_user_status now uid st custom c)) = gate_part c"
  unfolding create_message_def update_message_content_def soft_delete_message_def update_user_status_def
  by (rule gate_frame_exec; auto simp: gate_part_def split: if_splits)+

lemma gate_frame_sync [gate_frame]:
  "gate_part (snd (update_channel_from_sync ch c)) = gate_part c" "gate_part (snd (create_channel ch c)) = gate_part c"
  "gate_part (snd (update_role_from_sync r c)) = gate_part c" "gate_part (snd (create_role now r c)) = gate_part c"
  "gate_part (snd (update_member_from_sync m c)) = gate_part c" "gate_part (snd (create_member m c)) = gate_part c"
  "gate_part (snd (update_message_from_sync msg c)) = gate_part c"
  unfolding update_channel_from_sync_def create_channel_def update_role_from_sync_def create_role_def
    update_member_from_sync_def create_member_def update_message_from_sync_def
  by (rule gate_frame_exec; auto simp: gate_part_def Let_def split: if_splits option.splits)+

lemma gate_frame_bind:
  "gate_part (snd (m c)) = gate_part c \<Longrightarrow> (\<And>x t. gate_part (snd (f x t)) = gate_part t)
   \<Longrightarrow> gate_part (snd (bindS m f c)) = gate_part c"
  by (cases "m c"; cases "fst (m c)") (auto simp: bindS_def)

lemma gate_frame_each:
  "(\<And>x t. gate_part (snd (f x t)) = gate_part t) \<Longrightarrow> gate_part (snd (for_eachS f xs c)) = gate_part c"
  by (rule for_eachS_keeps) simp_all

lemma gate_frame_merge [gate_frame]: "gate_part (snd (merge_all now data c)) = gate_part c"
  unfolding merge_all_def merge_channels_def merge_roles_def merge_members_def merge_messages_def
  by (intro gate_frame_bind gate_frame_each)
    (auto simp: merge_channel_def merge_role_def merge_member_def merge_message_def gate_frame
      split: option.split sum.split)

lemma gate_frame_response [gate_frame]:
  "gate_part (snd (handle_state_sync_response now data c)) = gate_part c"
  using gate_frame_merge [of now data c]
  by (cases "merge_all now data c") (auto simp: handle_state_sync_response_def transaction_def split: sum.splits)

lemma fed_db_frame:
  assumes "\<And>c. gate_part (snd (f c)) = gate_part c"
  shows "gate_part (w_conn (snd (then_broadcast (fed_db f w) (send msg)))) = gate_part (w_conn w)"
  using assms [of "w_conn w"]
  by (cases "f (w_conn w)"; cases "fst (f (w_conn w))";
      simp add: fed_db_def run_db_def then_broadcast_def send_def)

lemma fed_handlers_frame:
  "gate_part (w_conn (snd (fed_message_new payload w))) = gate_part (w_conn w)"
  "gate_part (w_conn (snd (fed_message_edit now payload w))) = gate_part (w_conn w)"
  "gate_part (w_conn (snd (fed_message_delete payload w))) = gate_part (w_conn w)"
  "gate_part (w_conn (snd (fed_presence_changed now payload w))) = gate_part (w_conn w)"
  "gate_part (w_conn (snd (fed_voice_user_joined payload w))) = gate_part (w_conn w)"
  "gate_part (w_conn (snd (fed_voice_user_left payload w))) = gate_part (w_conn w)"
  "gate_part (w_conn (snd (fed_state_sync_response clk payload w))) = gate_part (w_conn w)"
proof -
  have new: "gate_part (snd (bindS (readS (\<lambda>c. get_message_by_id c mid)) (\<lambda>existing.
      if existing = None then create_message msg else returnS ()) c)) = gate_part c" for mid msg c
    by (simp add: gate_frame split: sum.split)
  show "gate_part (w_conn (snd (fed_message_new payload w))) = gate_part (w_conn w)"
    unfolding fed_message_new_def send_defs by (auto split: option.split intro!: fed_db_frame new)
  show "gate_part (w_conn (snd (fed_state_sync_response clk payload w))) = gate_part (w_conn w)"
    using gate_frame_response [of clk _ "w_conn w"]
    by (auto simp: fed_state_sync_response_def split: option.split prod.split) (metis snd_conv)
qed (auto simp: fed_message_edit_def fed_message_delete_def fed_presence_changed_def fed_voice_user_joined_def
    fed_voice_user_left_def gate_frame send_defs split: sum.split intro!: fed_db_frame)

lemma dispatch_frame:
  "gate_part (w_conn (mh_world (snd (dispatch_event js io now now_ts peer_addr event m))))
    = gate_part (w_conn (mh_world m))"
proof -
  have on: "gate_part (w_conn (mh_world (snd (on_world f m)))) = gate_part (w_conn (snd (f (mh_world m))))" for f
    by (simp add: on_world_def split: prod.split)
  show ?thesis
    by (auto simp: dispatch_event_def Let_def on fed_handlers_frame split: prod.split)
qed

subsection \<open>The gate\<close>

lemma passes_gateD:
  assumes "healthy c" and "pv_origin_node_id prov = Some origin" and "pv_seq prov = Some seq"
    and "passes_gate event prov c = (True, c')"
  shows "healthy c' \<and> map_of (c_seq_watermark c') (origin, payload_team (fe_payload event)) = Some seq"
  using assms
  by (auto simp: passes_gate_def advance_watermark_def Let_def exec_healthy bindS_def healthy_def
      map_of_update_where_key map_add_def dom_map_of_conv_image_fst [symmetric]
      split: sum.splits authority_decision.splits prod.splits if_splits bool.splits option.splits)

text \<open>What the gate reads is the entry of its key.\<close>

lemma watermark_read:
  assumes "healthy c"
  shows "unwrap_or (query_row ''watermark.read'' c (map snd (rows_where (\<lambda>p. fst p = key) (c_seq_watermark c)))) 0
    = (case map_of (c_seq_watermark c) key of None \<Rightarrow> 0 | Some high \<Rightarrow> high)"
proof -
  have "first_row (map snd (rows_where (\<lambda>p. fst p = k) xs)) = map_of xs k" for xs :: "((string \<times> string) \<times> u64) list" and k
    by (induction xs) auto
  with assms show ?thesis by (simp add: unwrap_or_def ok_or_def split: option.split)
qed

lemma gate_stays_shut:
  assumes "healthy c" and "pv_origin_node_id prov = Some origin" and "pv_seq prov = Some seq"
    and "map_of (c_seq_watermark c) (origin, payload_team (fe_payload event)) = Some high" and "seq \<le> high"
  shows "passes_gate event prov c = (False, c)"
proof -
  have "unwrap_or (query_row ''watermark.read'' c (map snd (rows_where
      (\<lambda>p. fst p = (origin, payload_team (fe_payload event))) (c_seq_watermark c)))) 0 = high"
    using assms(1,4) by (simp only: watermark_read option.case)
  with assms show ?thesis
    by (simp add: passes_gate_def advance_watermark_def split: sum.split authority_decision.split)
qed

text \<open>A watermark never falls, whatever passes the gate or does not.\<close>

definition watermark_reached :: "string \<times> string \<Rightarrow> u64 \<Rightarrow> conn \<Rightarrow> bool" where
  "watermark_reached key low c \<longleftrightarrow> healthy c \<and> (\<exists>high \<ge> low. map_of (c_seq_watermark c) key = Some high)"

lemma advance_keeps:
  assumes "watermark_reached key low c"
  shows "watermark_reached key low (snd (advance_watermark origin team_id seq c))"
proof -
  from assms obtain high where h: "healthy c" "low \<le> high" "map_of (c_seq_watermark c) key = Some high"
    by (auto simp: watermark_reached_def)
  let ?k = "(origin, team_id)"
  let ?prev = "case map_of (c_seq_watermark c) ?k of None \<Rightarrow> 0 | Some v \<Rightarrow> v"
  show ?thesis
  proof (cases "seq \<le> ?prev")
    case True
    then show ?thesis using assms h(1) by (simp add: advance_watermark_def Let_def watermark_read del: query_row_healthy)
  next
    case False
    let ?w = "if ?k \<in> fst ` set (c_seq_watermark c)
        then update_where (\<lambda>p. fst p = ?k) (\<lambda>p. (?k, seq)) (c_seq_watermark c) else c_seq_watermark c @ [(?k, seq)]"
    have "snd (advance_watermark origin team_id seq c) = c\<lparr>c_seq_watermark := ?w\<rparr>"
      using False h(1) by (simp add: advance_watermark_def Let_def watermark_read exec_healthy bindS_def del: query_row_healthy)
    moreover have "map_of ?w key = Some (if key = ?k then seq else high)"
      using h(3) by (auto simp: map_of_update_where_key map_add_def dom_map_of_conv_image_fst [symmetric])
    moreover have "low \<le> (if key = ?k then seq else high)" using False h(2,3) by auto
    ultimately show ?thesis using h(1) by (simp add: watermark_reached_def healthy_def)
  qed
qed

lemma gate_keeps: "watermark_reached key low c \<Longrightarrow> watermark_reached key low (snd (passes_gate event prov c))"
proof -
  assume reached: "watermark_reached key low c"
  have adv: "snd (case r of (Inr True, c') \<Rightarrow> (True, c') | (_, c') \<Rightarrow> (False, c')) = snd r" for r :: "(db_error + bool) \<times> conn"
    by (auto split: prod.split sum.split bool.split)
  have "snd (passes_gate event prov c) = c
    \<or> (\<exists>origin team_id seq. snd (passes_gate event prov c) = snd (advance_watermark origin team_id seq c))"
    unfolding passes_gate_def by (simp add: adv split: option.split sum.split authority_decision.split) blast
  then show ?thesis using advance_keeps [OF reached] reached by metis
qed

lemma shut_gate_drops:
  assumes "passes_gate event prov (w_conn (mh_world m)) = (False, w_conn (mh_world m))"
  shows "handle_federation_event js io now now_ts peer_addr event prov m
    = (Inr (), observe_clock (fe_timestamp event) m)"
  using assms by (simp add: handle_federation_event_def observe_clock_def)

lemma open_gate_watermark:
  assumes "healthy (w_conn (mh_world m))" and "pv_origin_node_id prov = Some origin" and "pv_seq prov = Some seq"
    and "fst (passes_gate event prov (w_conn (mh_world m)))"
    and "m' = snd (handle_federation_event js io now now_ts peer_addr event prov m)"
  shows "healthy (w_conn (mh_world m'))
    \<and> map_of (c_seq_watermark (w_conn (mh_world m'))) (origin, payload_team (fe_payload event)) = Some seq"
proof -
  obtain c' where gate: "passes_gate event prov (w_conn (mh_world m)) = (True, c')"
    using assms(4) by (cases "passes_gate event prov (w_conn (mh_world m))") simp
  have "gate_part (w_conn (mh_world m')) = gate_part c'"
    using gate by (simp add: assms(5) handle_federation_event_def dispatch_frame touch_peer_def observe_clock_def Let_def)
  with passes_gateD [OF assms(1,2,3) gate] show ?thesis by (simp add: gate_part_def healthy_def)
qed

subsection \<open>A node that receives one event after the other\<close>

record fed_arrival =
  fa_now :: "string \<Rightarrow> string"
  fa_now_ts :: int
  fa_peer :: string
  fa_event :: fed_event
  fa_prov :: provenance

definition federation_step :: "json_lib \<Rightarrow> (string \<Rightarrow> bool) \<Rightarrow> mesh \<Rightarrow> fed_arrival \<Rightarrow> mesh" where
  "federation_step js io m x = snd (handle_federation_event js io (fa_now x) (fa_now_ts x) (fa_peer x) (fa_event x) (fa_prov x) m)"

lemma watermark_reached_gate_part: "gate_part c = gate_part d \<Longrightarrow> watermark_reached key low c = watermark_reached key low d"
  by (simp add: watermark_reached_def gate_part_def healthy_def)

lemma federation_step_keeps:
  assumes "watermark_reached key low (w_conn (mh_world m))"
  shows "watermark_reached key low (w_conn (mh_world (federation_step js io m x)))"
proof -
  obtain b c' where gate: "passes_gate (fa_event x) (fa_prov x) (w_conn (mh_world m)) = (b, c')" by fastforce
  with gate_keeps [OF assms, of "fa_event x" "fa_prov x"] have c': "watermark_reached key low c'" by simp
  have "gate_part (w_conn (mh_world (federation_step js io m x))) = gate_part c'"
    using gate by (cases b) (simp_all add: federation_step_def handle_federation_event_def dispatch_frame touch_peer_def observe_clock_def Let_def)
  with c' watermark_reached_gate_part show ?thesis by blast
qed

lemma federation_run_keeps:
  "watermark_reached key low (w_conn (mh_world m)) \<Longrightarrow> watermark_reached key low (w_conn (mh_world (run (federation_step js io) m xs)))"
  by (induction xs arbitrary: m) (simp_all add: federation_step_keeps)

subsection \<open>Properties\<close>

text \<open>C29. A signed event is applied at most once: after an event of an origin and team with sequence number
  \<open>seq\<close> got through, and after any further events of anybody, every event of that origin and team with the same
  or a smaller number changes nothing but the Lamport clock, whatever it asks for. The database does not fail:
  a watermark that cannot be read counts as none.\<close>

theorem no_replay:
  assumes "healthy (w_conn (mh_world m))"
    and "pv_origin_node_id prov = Some origin" and "pv_seq prov = Some seq"
    and "fst (passes_gate event prov (w_conn (mh_world m)))"
    and "m' = run (federation_step js io) (snd (handle_federation_event js io now now_ts peer event prov m)) xs"
    and "pv_origin_node_id prov' = Some origin" and "pv_seq prov' = Some seq'" and "seq' \<le> seq"
    and "payload_team (fe_payload event') = payload_team (fe_payload event)"
  shows "handle_federation_event js io now' now_ts' peer' event' prov' m' = (Inr (), observe_clock (fe_timestamp event') m')"
proof -
  let ?key = "(origin, payload_team (fe_payload event))"
  have "watermark_reached ?key seq (w_conn (mh_world (snd (handle_federation_event js io now now_ts peer event prov m))))"
    using open_gate_watermark [OF assms(1-4) refl, of js io now now_ts peer] by (auto simp: watermark_reached_def)
  then have "watermark_reached ?key seq (w_conn (mh_world m'))" unfolding assms(5) by (rule federation_run_keeps)
  then obtain high where wm: "healthy (w_conn (mh_world m'))" "seq \<le> high"
    "map_of (c_seq_watermark (w_conn (mh_world m'))) ?key = Some high"
    by (auto simp: watermark_reached_def)
  have "passes_gate event' prov' (w_conn (mh_world m')) = (False, w_conn (mh_world m'))"
    using gate_stays_shut [OF wm(1) assms(6,7)] wm(2,3) assms(8,9) by (metis order_trans)
  then show ?thesis by (rule shut_gate_drops)
qed

text \<open>A node with one message of another node's user, and the events of a peer.\<close>

definition sample_mesh :: mesh where
  "sample_mesh = mesh_new ''n2'' ''secret'' False None True
     \<lparr>w_conn = sample_chat, w_rooms = None, w_out = [], w_sfu = []\<rparr>"

definition peer_prov :: "u64 \<Rightarrow> provenance" where
  "peer_prov seq = \<lparr>pv_origin_node_id = Some ''n1'', pv_seq = Some seq, pv_event_id = Some ''id''\<rparr>"

definition peer_edit :: fed_event where
  "peer_edit = \<lparr>fe_type = ''message:edit'', fe_node_name = ''n1'', fe_timestamp = 1,
     fe_payload = JObj [(''message_id'', JStr ''m''), (''channel_id'', JStr ''ch''), (''content'', JStr ''forged''),
       (''home_node_id'', JStr ''n1'')]\<rparr>"

lemma sample_mesh_healthy: "healthy (w_conn (mh_world sample_mesh))"
  by (simp add: sample_mesh_def mesh_new_def)

text \<open>Between the event and its replay, another node edits, and so does the same one with a later number.\<close>

definition between :: "fed_arrival list" where
  "between = [\<lparr>fa_now = (\<lambda>_. ''t''), fa_now_ts = 0, fa_peer = ''q'', fa_event = peer_edit, fa_prov = (peer_prov 9)\<lparr>pv_origin_node_id := Some ''n3''\<rparr>\<rparr>,
     \<lparr>fa_now = (\<lambda>_. ''t''), fa_now_ts = 0, fa_peer = ''p'', fa_event = peer_edit, fa_prov = peer_prov 2\<rparr>]"

theorem no_replay_witness:
  "let m' = run (federation_step sample_js (\<lambda>_. True))
       (snd (handle_federation_event sample_js (\<lambda>_. True) (\<lambda>_. ''now'') 0 ''p'' peer_edit (peer_prov 1) sample_mesh)) between
   in handle_federation_event sample_js (\<lambda>_. True) (\<lambda>_. ''now'') 0 ''p'' peer_edit (peer_prov 1) m' = (Inr (), observe_clock 1 m')"
proof -
  have "fst (passes_gate peer_edit (peer_prov 1) (w_conn (mh_world sample_mesh)))"
    by code_simp
  moreover have "pv_origin_node_id (peer_prov 1) = Some ''n1''" "pv_seq (peer_prov 1) = Some 1"
    "fe_timestamp peer_edit = 1"
    by (simp_all add: peer_prov_def peer_edit_def)
  ultimately show ?thesis
    unfolding Let_def using no_replay [OF sample_mesh_healthy _ _ _ refl] by (metis order_refl)
qed

text \<open>Of the events the mesh sends, only the message events pass their own authority check: a signed
  presence, voice, membership or state-sync event, named with colons, is of unknown type to
  \<open>authority::check\<close> and is dropped silently by every receiver.\<close>

theorem own_events_denied:
  assumes "pv_origin_node_id prov = Some origin"
    and "fe_type event \<in> {FED_EVENT_PRESENCE_CHANGED, FED_EVENT_VOICE_USER_JOINED, FED_EVENT_VOICE_USER_LEFT,
      FED_EVENT_STATE_SYNC_REQ, FED_EVENT_STATE_SYNC_RESP, FED_EVENT_MEMBER_JOINED, FED_EVENT_MEMBER_LEFT}"
  shows "handle_federation_event js io now now_ts peer event prov m
    = (Inr (), observe_clock (fe_timestamp event) m)"
proof -
  have "check_authority (w_conn (mh_world m)) (env\<lparr>se_event := event\<rparr>) = Inr (AuthorityDenied ''unknown_event_type'')"
    for env
    using assms(2) by (auto simp: check_authority_def fed_event_names starts_with_def message_event_types_def)
  from this [of "\<lparr>se_v = WIRE_VERSION, se_event = event, se_origin_node_id = origin, se_seq = s, se_event_id = i,
      se_signature = g\<rparr>" for s i g]
  have "passes_gate event prov (w_conn (mh_world m)) = (False, w_conn (mh_world m))"
    using assms(1) by (simp add: passes_gate_def)
  then show ?thesis by (rule shut_gate_drops)
qed

theorem own_events_denied_witness:
  "fst (handle_federation_event sample_js (\<lambda>_. True) (\<lambda>_. ''now'') 0 ''p'' \<lparr>fe_type = ''presence:changed'',
     fe_node_name = ''n1'', fe_timestamp = 1, fe_payload = JObj [(''user_id'', JStr ''u'')]\<rparr> (peer_prov 1) sample_mesh)
   = Inr ()"
proof -
  have "pv_origin_node_id (peer_prov 1) = Some ''n1''" by (simp add: peer_prov_def)
  from own_events_denied [OF this, of "\<lparr>fe_type = ''presence:changed'', fe_node_name = ''n1'', fe_timestamp = 1,
      fe_payload = JObj [(''user_id'', JStr ''u'')]\<rparr>"]
  show ?thesis by (simp add: FED_EVENT_PRESENCE_CHANGED_def)
qed

text \<open>The sequence number is above what was applied of this origin and team.\<close>

definition fresh_seq :: "conn \<Rightarrow> string \<Rightarrow> string \<Rightarrow> u64 \<Rightarrow> bool" where
  "fresh_seq c origin team_id seq \<longleftrightarrow> (case map_of (c_seq_watermark c) (origin, team_id) of None \<Rightarrow> 0 | Some high \<Rightarrow> high) < seq"

lemma fresh_gate:
  assumes "healthy c" and "pv_origin_node_id prov = Some origin" and "pv_seq prov = Some seq"
    and "fresh_seq c origin (payload_team (fe_payload event)) seq"
    and "\<And>i. check_authority c \<lparr>se_v = WIRE_VERSION, se_event = event, se_origin_node_id = origin, se_seq = seq,
        se_event_id = i, se_signature = []\<rparr> = Inr AuthorityAllow"
  obtains ws where "passes_gate event prov c = (True, c\<lparr>c_seq_watermark := ws\<rparr>)"
proof -
  let ?key = "(origin, payload_team (fe_payload event))"
  have "\<not> seq \<le> (case map_of (c_seq_watermark c) ?key of None \<Rightarrow> 0 | Some high \<Rightarrow> high)"
    using assms(4) by (simp add: fresh_seq_def)
  then have "\<exists>ws. advance_watermark origin (payload_team (fe_payload event)) seq c = (Inr True, c\<lparr>c_seq_watermark := ws\<rparr>)"
    using assms(1) by (auto simp: advance_watermark_def Let_def watermark_read exec_healthy bindS_def returnS_def simp del: query_row_healthy)
  then show ?thesis using that assms(2,3,5) by (auto simp: passes_gate_def)
qed

text \<open>C35. The authority of a message event rests on what the event says of itself: \<open>home_node_id\<close> is read
  from the payload, so a pinned peer that names itself may rewrite any message of any author and channel:
  a frame of it that the read pump lets through, signed, with a fresh sequence number, is applied.\<close>

theorem forged_home_rewrites_message:
  assumes "healthy (w_conn (mh_world m))"
    and "dispatch_inbound_text_frame cr js' (w_conn (mh_world m)) require_v3 frame = Some (event, prov)"
    and "pv_origin_node_id prov = Some origin" and "origin \<noteq> []"
    and "fresh_seq (w_conn (mh_world m)) origin (payload_team (fe_payload event)) (the (pv_seq prov))"
    and "fe_type event = FED_EVENT_MESSAGE_EDIT"
    and "json_get_str (fe_payload event) ''home_node_id'' = Some origin"
    and "json_get_str (fe_payload event) ''message_id'' = Some mid"
    and "json_get_str (fe_payload event) ''channel_id'' = Some cid"
    and "json_get_str (fe_payload event) ''content'' = Some txt"
    and "msg \<in> set (c_messages (w_conn (mh_world m)))" and "msg_id msg = mid"
  shows "msg\<lparr>msg_content := txt, msg_edited_at := Some (now [])\<rparr>
      \<in> set (c_messages (w_conn (mh_world (snd (handle_federation_event js io now now_ts peer event prov m)))))
    \<and> fst (handle_federation_event js io now now_ts peer event prov m) = Inr ()"
proof -
  let ?c = "w_conn (mh_world m)"
  have "dispatch_v3_signed_frame cr js' ?c frame = Some (event, prov)"
    using assms(2,3) by (auto simp: dispatch_inbound_text_frame_def provenance_default_def split: if_splits)
  then obtain env where "(case verify_event cr ?c env of Inl _ \<Rightarrow> None | Inr _ \<Rightarrow> Some (se_event env,
      \<lparr>pv_origin_node_id = Some (se_origin_node_id env), pv_seq = Some (se_seq env),
        pv_event_id = Some (se_event_id env)\<rparr>)) = Some (event, prov)"
    by (auto simp: dispatch_v3_signed_frame_def bind_eq_Some_conv)
  then have seq: "pv_seq prov = Some (the (pv_seq prov))" by (cases "verify_event cr ?c env") auto
  have allow: "check_authority ?c \<lparr>se_v = WIRE_VERSION, se_event = event, se_origin_node_id = origin, se_seq = q,
      se_event_id = i, se_signature = []\<rparr> = Inr AuthorityAllow" for q i
    using assms(4,6,7) by (simp add: check_authority_def fed_event_names starts_with_def message_event_types_def)
  from fresh_gate [OF assms(1,3) seq assms(5) allow] obtain ws
    where gate: "passes_gate event prov ?c = (True, ?c\<lparr>c_seq_watermark := ws\<rparr>)" .
  let ?w = "(mh_world m)\<lparr>w_conn := ?c\<lparr>c_seq_watermark := ws\<rparr>\<rparr>"
  have "healthy (?c\<lparr>c_seq_watermark := ws\<rparr>)" using assms(1) by (simp add: healthy_def)
  then have "fed_db (update_message_content (now []) mid txt) ?w
      = (Inr (), ?w\<lparr>w_conn := (w_conn ?w)\<lparr>c_messages := update_where (\<lambda>m. msg_id m = mid)
         (\<lambda>m. m\<lparr>msg_content := txt, msg_edited_at := Some (now [])\<rparr>) (c_messages ?c)\<rparr>\<rparr>)"
    by (simp add: fed_db_def run_db_def update_message_content_def exec_healthy)
  then show ?thesis
    using assms(6,8-12) gate
    by (auto simp: handle_federation_event_def observe_clock_def touch_peer_def dispatch_event_def fed_event_names
        on_world_def fed_message_edit_def require_str_def then_broadcast_def send_defs Let_def)
qed

text \<open>The node has pinned the peer; the peer signs the edit of a message of another node's user.\<close>

definition forging_js :: json_lib where
  "forging_js = \<lparr>js_to_string = (\<lambda>_. quoted_v3), js_from_str = (\<lambda>_. Some (signed_event_json (sample_signed\<lparr>se_event := peer_edit\<rparr>)))\<rparr>"

definition pinning_mesh :: mesh where
  "pinning_mesh = sample_mesh\<lparr>mh_world := (mh_world sample_mesh)\<lparr>w_conn := sample_chat\<lparr>c_fed_peers := c_fed_peers sample_pins\<rparr>\<rparr>\<rparr>"

theorem forged_home_rewrites_message_witness:
  "map msg_content (c_messages sample_chat) = [''hi''] \<and> ''forged'' \<in> msg_content ` set (c_messages (w_conn (mh_world
     (snd (handle_federation_event forging_js (\<lambda>_. True) (\<lambda>_. ''now'') 0 ''p'' peer_edit
       \<lparr>pv_origin_node_id = Some ''n1'', pv_seq = Some 1, pv_event_id = Some (se_event_id sample_signed)\<rparr> pinning_mesh)))))"
proof
  let ?prov = "\<lparr>pv_origin_node_id = Some ''n1'', pv_seq = Some 1, pv_event_id = Some (se_event_id sample_signed)\<rparr>"
  show "map msg_content (c_messages sample_chat) = [''hi'']" by (simp add: sample_chat_def)
  have h: "healthy (w_conn (mh_world pinning_mesh))" using sample_chat_sel by (simp add: pinning_mesh_def healthy_def)
  have "dispatch_v3_signed_frame toy_crypto forging_js (w_conn (mh_world pinning_mesh)) quoted_v3 = Some (peer_edit, ?prov)"
    by code_simp
  then have d: "dispatch_inbound_text_frame toy_crypto forging_js (w_conn (mh_world pinning_mesh)) True quoted_v3 = Some (peer_edit, ?prov)"
    by (simp add: dispatch_inbound_text_frame_def starts_with_def) (simp add: quoted_v3_def starts_with_def)
  have f: "fresh_seq (w_conn (mh_world pinning_mesh)) ''n1'' (payload_team (fe_payload peer_edit)) (the (pv_seq ?prov))" by code_simp
  have p: "fe_type peer_edit = FED_EVENT_MESSAGE_EDIT" "json_get_str (fe_payload peer_edit) ''home_node_id'' = Some ''n1''"
    "json_get_str (fe_payload peer_edit) ''message_id'' = Some ''m''"
    "json_get_str (fe_payload peer_edit) ''channel_id'' = Some ''ch''"
    "json_get_str (fe_payload peer_edit) ''content'' = Some ''forged''"
    by (simp_all add: peer_edit_def FED_EVENT_MESSAGE_EDIT_def json_get_str_def)
  have msg: "hd (c_messages sample_chat) \<in> set (c_messages (w_conn (mh_world pinning_mesh)))"
    "msg_id (hd (c_messages sample_chat)) = ''m''"
    by (simp_all add: pinning_mesh_def sample_chat_def)
  from forged_home_rewrites_message [OF h d _ _ f p msg, of "\<lambda>_. ''now''" forging_js "\<lambda>_. True" 0 "''p''"]
  show "''forged'' \<in> msg_content ` set (c_messages (w_conn (mh_world
     (snd (handle_federation_event forging_js (\<lambda>_. True) (\<lambda>_. ''now'') 0 ''p'' peer_edit ?prov pinning_mesh)))))" by force
qed

text \<open>Sequence numbers start again when a node restarts, the watermarks of its peers do not: the first
  event that a restarted node signs has number 1, and a peer that has applied any event of that origin and
  team drops it.\<close>

theorem restart_is_dropped:
  assumes "healthy (w_conn (mh_world m))"
    and "tr_seq (transport_new secret insecure (Some i) require_v3) = seq"
    and "pv_origin_node_id prov = Some origin" and "pv_seq prov = Some seq"
    and "map_of (c_seq_watermark (w_conn (mh_world m))) (origin, payload_team (fe_payload event)) = Some high"
    and "high \<noteq> 0"
  shows "seq = 1 \<and> handle_federation_event js io now now_ts peer event prov m
    = (Inr (), observe_clock (fe_timestamp event) m)"
proof -
  have "seq = 1" using assms(2) by (simp add: transport_new_def)
  moreover have "1 \<le> high"
    using assms(6) by (simp add: word_le_nat_alt unat_gt_0 Suc_le_eq)
  ultimately show ?thesis
    using gate_stays_shut [OF assms(1,3,4,5)] shut_gate_drops by simp
qed

theorem restart_is_dropped_witness:
  "fst (handle_federation_event sample_js (\<lambda>_. True) (\<lambda>_. ''now'') 0 ''p'' peer_edit (peer_prov 1)
     (sample_mesh\<lparr>mh_world := (mh_world sample_mesh)\<lparr>w_conn := sample_chat\<lparr>c_seq_watermark := [((''n1'', []), 7)]\<rparr>\<rparr>\<rparr>))
   = Inr ()"
proof -
  let ?m = "sample_mesh\<lparr>mh_world := (mh_world sample_mesh)\<lparr>w_conn := sample_chat\<lparr>c_seq_watermark := [((''n1'', []), 7)]\<rparr>\<rparr>\<rparr>"
  have h: "healthy (w_conn (mh_world ?m))" using sample_chat_sel by (simp add: healthy_def)
  have s: "tr_seq (transport_new [] False (Some sample_identity) True) = 1" by (simp add: transport_new_def)
  have p: "pv_origin_node_id (peer_prov 1) = Some ''n1''" "pv_seq (peer_prov 1) = Some 1"
    by (simp_all add: peer_prov_def)
  have wm: "map_of (c_seq_watermark (w_conn (mh_world ?m))) (''n1'', payload_team (fe_payload peer_edit)) = Some 7"
    by (simp add: payload_team_def peer_edit_def json_get_str_def)
  from restart_is_dropped [OF h s p wm] show ?thesis by simp
qed

end
