(* ===== verification/Fed_Api.thy ===== *)
theory Fed_Api
  imports Fed_Mesh Site_Kit Prekeys_Api
begin

section \<open>Administration of the federation, join tokens\<close>

text \<open>
  \<open>federation/join.rs\<close> and \<open>api/federation.rs\<close>. The requests on the registry of pinned peers are handlers on the
  connection; those that need the mesh act on it and take the join manager, \<open>None\<close> when federation is not enabled.
  HKDF-SHA256 and the JWT crate are parameters. \<open>now\<close> is a time as text, \<open>now_ts\<close> in seconds.
\<close>

subsection \<open>The join secret\<close>

definition JOIN_SECRET_HKDF_INFO :: bytes where
  "JOIN_SECRET_HKDF_INFO = as_bytes ''dilla-federation-join-v1''"

definition JOIN_SECRET_MIN_BYTES :: nat where "JOIN_SECRET_MIN_BYTES = 32"

text \<open>\<open>hkdf\<close> takes the info string and the key material and gives 32 bytes, \<open>rnd\<close> are 32 random bytes.\<close>

definition derive_join_secret :: "(bytes \<Rightarrow> bytes \<Rightarrow> bytes) \<Rightarrow> bytes \<Rightarrow> string \<Rightarrow> bytes" where
  "derive_join_secret hkdf rnd join_secret =
     (if join_secret = [] then rnd else hkdf JOIN_SECRET_HKDF_INFO (as_bytes join_secret))"

text \<open>What the start does about the secret: go on in silence, after a warning, after an error, or panic.\<close>

datatype start_policy = StartQuietly | StartWarned | StartAlarmed | StartRefused

definition enforce_security_policy :: "string \<Rightarrow> bool \<Rightarrow> bool \<Rightarrow> start_policy" where
  "enforce_security_policy join_secret peers_configured insecure =
     (if \<not> peers_configured then StartQuietly
      else if join_secret = [] then (if \<not> insecure then StartRefused else StartAlarmed)
      else if length join_secret < JOIN_SECRET_MIN_BYTES then StartWarned else StartQuietly)"

record join_manager =
  jm_secret :: bytes
  jm_node_name :: string

definition join_manager_new :: "(bytes \<Rightarrow> bytes \<Rightarrow> bytes) \<Rightarrow> bytes \<Rightarrow> string \<Rightarrow> string \<Rightarrow> join_manager" where
  "join_manager_new hkdf rnd node_name join_secret =
     \<lparr>jm_secret = derive_join_secret hkdf rnd join_secret, jm_node_name = node_name\<rparr>"

subsection \<open>Join tokens\<close>

record join_claims =
  jc_team_id :: string
  jc_team_name :: string
  jc_peers :: "string list"
  jc_creator :: string
  jc_iat :: int
  jc_exp :: int

definition join_claims_json :: "join_claims \<Rightarrow> json" where
  "join_claims_json x = JObj [(''team_id'', JStr (jc_team_id x)), (''team_name'', JStr (jc_team_name x)),
     (''peers'', JArr (map JStr (jc_peers x))), (''creator'', JStr (jc_creator x)), (''iat'', JNum (jc_iat x)),
     (''exp'', JNum (jc_exp x))]"

definition field_strs :: "(string \<times> json) list \<Rightarrow> string \<Rightarrow> string list option" where
  "field_strs kvs k = (case map_of kvs k of Some (JArr xs) \<Rightarrow> those (map json_as_str xs) | _ \<Rightarrow> None)"

definition parse_join_claims :: "json \<Rightarrow> join_claims option" where
  "parse_join_claims v = Option.bind (fields_of [''team_id'', ''team_name'', ''peers'', ''creator'', ''iat'', ''exp''] v) (\<lambda>kvs.
     Option.bind (field_str kvs ''team_id'') (\<lambda>tid.
     Option.bind (field_str kvs ''team_name'') (\<lambda>name.
     Option.bind (field_strs kvs ''peers'') (\<lambda>peers.
     Option.bind (field_str kvs ''creator'') (\<lambda>creator.
     Option.bind (field_time kvs ''iat'') (\<lambda>iat.
     Option.bind (field_time kvs ''exp'') (\<lambda>ex.
       Some \<lparr>jc_team_id = tid, jc_team_name = name, jc_peers = peers, jc_creator = creator, jc_iat = iat, jc_exp = ex\<rparr>)))))))"

record join_info =
  ji_team_id :: string
  ji_team_name :: string
  ji_peers :: "string list"
  ji_expires_at :: int

definition generate_join_token_with_peers ::
  "jwt_lib \<Rightarrow> join_manager \<Rightarrow> int \<Rightarrow> string \<Rightarrow> string list \<Rightarrow> conn \<Rightarrow> string + string" where
  "generate_join_token_with_peers J jm now_ts creator peers c =
     bindE (map_err (\<lambda>e. ''db error: '' @ db_error_text e)
       (bindE (get_first_team c) (\<lambda>team. ok_or team QueryReturnedNoRows))) (\<lambda>t.
     map_err (\<lambda>e. ''jwt encode: '' @ e) (jl_encode J (jm_secret jm) (join_claims_json
       \<lparr>jc_team_id = t_id t, jc_team_name = t_name t, jc_peers = peers, jc_creator = creator, jc_iat = now_ts,
        jc_exp = now_ts + 24 * 3600\<rparr>)))"

definition generate_join_token :: "jwt_lib \<Rightarrow> join_manager \<Rightarrow> int \<Rightarrow> string \<Rightarrow> conn \<Rightarrow> string + string" where
  "generate_join_token J jm now_ts creator = generate_join_token_with_peers J jm now_ts creator []"

definition validate_join_token :: "jwt_lib \<Rightarrow> join_manager \<Rightarrow> int \<Rightarrow> string \<Rightarrow> string + join_info" where
  "validate_join_token J jm now_ts token =
     bindE (map_err (\<lambda>e. ''invalid join token: '' @ e)
       (decode_as parse_join_claims J now_ts validation_default (jm_secret jm) token)) (\<lambda>cl.
     Inr \<lparr>ji_team_id = jc_team_id cl, ji_team_name = jc_team_name cl, ji_peers = jc_peers cl, ji_expires_at = jc_exp cl\<rparr>)"

text \<open>\<open>ms\<close> and \<open>ms'\<close> are the clock in milliseconds at the two events.\<close>

definition handle_node_join ::
  "crypto \<Rightarrow> json_lib \<Rightarrow> (string \<Rightarrow> bool) \<Rightarrow> join_manager \<Rightarrow> u64 \<Rightarrow> u64 \<Rightarrow> string \<Rightarrow> transport \<Rightarrow> (string + unit) \<times> transport" where
  "handle_node_join cr js io jm ms ms' peer_addr tr =
     (case send_to_peer js io peer_addr \<lparr>fe_type = FED_EVENT_STATE_SYNC_REQ, fe_node_name = jm_node_name jm,
          fe_timestamp = ms, fe_payload = JNull\<rparr> tr of
        (Inl e, tr') \<Rightarrow> (Inl e, tr')
      | (Inr _, tr') \<Rightarrow> (Inr (), broadcast_to_peers cr js io \<lparr>fe_type = FED_EVENT_MEMBER_JOINED, fe_node_name = jm_node_name jm,
          fe_timestamp = ms', fe_payload = JObj [(''peer_addr'', JStr peer_addr)]\<rparr> tr'))"

subsection \<open>Who administers the federation\<close>

primrec any_team_grants :: "conn \<Rightarrow> string \<Rightarrow> u64 \<Rightarrow> string list \<Rightarrow> bool db_res" where
  "any_team_grants c uid perm [] = Inr False"
| "any_team_grants c uid perm (t # ts) =
     bindE (user_has_permission c uid t perm) (\<lambda>ok. if ok then Inr True else any_team_grants c uid perm ts)"

definition federation_permitted :: "string \<Rightarrow> conn \<Rightarrow> bool db_res" where
  "federation_permitted uid c =
     bindE (get_user_by_id c uid) (\<lambda>user.
     if (case user of None \<Rightarrow> False | Some u \<Rightarrow> u_is_admin u) then Inr True
     else bindE (list_user_teams c uid) (any_team_grants c uid PERM_MANAGE_FEDERATION))"

definition require_federation :: "string \<Rightarrow> string \<Rightarrow> unit handler" where
  "require_federation msg uid = bindS (with_conn_internal (readS (federation_permitted uid)))
     (\<lambda>permitted. refuse_if (\<not> permitted) (Forbidden msg))"

definition require_manage_federation :: "string \<Rightarrow> unit handler" where
  "require_manage_federation = require_federation ''PERM_MANAGE_FEDERATION required''"

subsection \<open>Requests on the mesh\<close>

type_synonym 'a mesh_op = "(mesh, app_error, 'a) effect"

definition on_mesh_db :: "'a handler \<Rightarrow> 'a mesh_op" where
  "on_mesh_db h m = (case h (w_conn (mh_world m)) of (r, c) \<Rightarrow> (r, m\<lparr>mh_world := (mh_world m)\<lparr>w_conn := c\<rparr>\<rparr>))"

definition with_mesh :: "join_manager option \<Rightarrow> (join_manager \<Rightarrow> 'a mesh_op) \<Rightarrow> 'a mesh_op" where
  "with_mesh fed f = (case fed of None \<Rightarrow> throwS (BadRequest ''federation is not enabled'') | Some jm \<Rightarrow> f jm)"

definition mesh_peers :: "string \<Rightarrow> peer_info list mesh_op" where
  "mesh_peers now m = (case get_peers now m of (ps, m') \<Rightarrow> (Inr ps, m'))"

text \<open>The name of the node, its peers and the Lamport stamp; the number of peers is the length of the list.\<close>

definition federation_status :: "join_manager option \<Rightarrow> string \<Rightarrow> (string \<times> peer_info list \<times> u64) mesh_op" where
  "federation_status fed now = with_mesh fed (\<lambda>_. bindS (mesh_peers now) (\<lambda>peers.
     readS (\<lambda>m. Inr (mh_node_name m, peers, current_ts (sy_lamport_ts (mh_sync m))))))"

definition federation_peers :: "join_manager option \<Rightarrow> string \<Rightarrow> peer_info list mesh_op" where
  "federation_peers fed now = with_mesh fed (\<lambda>_. mesh_peers now)"

definition create_join_token :: "jwt_lib \<Rightarrow> join_manager option \<Rightarrow> string \<Rightarrow> int \<Rightarrow> string \<Rightarrow> string mesh_op" where
  "create_join_token J fed now now_ts uid = with_mesh fed (\<lambda>jm.
     bindS (on_mesh_db (require_federation ''PERM_MANAGE_FEDERATION required to mint a federation join token'' uid)) (\<lambda>_.
     bindS (mesh_peers now) (\<lambda>peers.
     on_mesh_db (readS (\<lambda>c. map_err Internal (generate_join_token_with_peers J jm now_ts uid (map pi_address peers) c))))))"

definition get_join_info :: "jwt_lib \<Rightarrow> join_manager option \<Rightarrow> int \<Rightarrow> string \<Rightarrow> join_info mesh_op" where
  "get_join_info J fed now_ts token = with_mesh fed (\<lambda>jm. readS (\<lambda>_. map_err BadRequest (validate_join_token J jm now_ts token)))"

subsection \<open>The registry of peers\<close>

text \<open>The node id and the public key in base64 and in hex.\<close>

definition federation_identity :: "crypto \<Rightarrow> bytes option \<Rightarrow> string \<Rightarrow> string \<Rightarrow> (string \<times> string \<times> string) handler" where
  "federation_identity cr seed node_id uid = bindS (require_manage_federation uid) (\<lambda>_.
     bindS (with_conn_internal (ensure_identity cr seed node_id)) (\<lambda>i.
     returnS (ni_node_id i, cr_b64_encode cr (ni_public_key i), hex (ni_public_key i))))"

record peer_view =
  pv_node_id :: string
  pv_public_key_b64 :: string
  pv_hostname :: string
  pv_pinned_at :: string
  pv_revoked_at :: "string option"
  pv_active :: bool

definition peer_view_of :: "crypto \<Rightarrow> pinned_peer \<Rightarrow> peer_view" where
  "peer_view_of cr p = \<lparr>pv_node_id = pp_node_id p, pv_public_key_b64 = cr_b64_encode cr (pp_public_key p), pv_hostname = pp_hostname p,
     pv_pinned_at = pp_pinned_at p, pv_revoked_at = pp_revoked_at p, pv_active = is_active p\<rparr>"

definition list_pinned_peers :: "crypto \<Rightarrow> string \<Rightarrow> peer_view list handler" where
  "list_pinned_peers cr uid = bindS (require_manage_federation uid) (\<lambda>_.
     bindS (with_conn_internal (readS (list_all_peers cr))) (\<lambda>rows. returnS (map (peer_view_of cr) rows)))"

record pin_peer_request =
  pr_node_id :: string
  pr_public_key_b64 :: string
  pr_hostname :: string

definition decode_peer_key :: "crypto \<Rightarrow> string \<Rightarrow> app_error + bytes" where
  "decode_peer_key cr b64 =
     bindE (map_err (\<lambda>e. BadRequest (''public_key_b64 not valid base64: '' @ e)) (cr_b64_decode cr (trim b64))) (\<lambda>pk.
     if length pk \<noteq> 32 then Inl (BadRequest ''public_key_b64 must decode to 32 bytes'')
     else if \<not> cr_key_ok cr pk then Inl (BadRequest ''public_key not a valid Ed25519 key'') else Inr pk)"

definition federation_pin_peer :: "crypto \<Rightarrow> (string \<Rightarrow> string) \<Rightarrow> string \<Rightarrow> string \<Rightarrow> pin_peer_request \<Rightarrow> pinned_peer handler" where
  "federation_pin_peer cr mk now uid body = bindS (require_manage_federation uid) (\<lambda>_.
     let node_id = trim (pr_node_id body); hostname = trim (pr_hostname body)
     in if node_id = [] then throwS (BadRequest ''node_id is required'')
        else if hostname = [] then throwS (BadRequest ''hostname is required'')
        else if length node_id > 128 \<or> length hostname > 253 then throwS (BadRequest ''node_id or hostname too long'')
        else bindS (readS (\<lambda>_. decode_peer_key cr (pr_public_key_b64 body))) (\<lambda>pk.
          with_conn_internal (bindS (pin_peer cr now node_id pk hostname) (\<lambda>peer.
            bindS (audit_user_teams mk now uid ''federation.peer.pinned'' (Some ''federation_peer'') (Some (pp_node_id peer))
              (Some (JObj [(''hostname'', JStr (pp_hostname peer))]))) (\<lambda>_. returnS peer)))))"

definition revoke_error :: "db_error \<Rightarrow> app_error" where
  "revoke_error e = (case e of
       InvalidParameterName s \<Rightarrow> if contains ''not found'' s then NotFound s else Internal (''db: '' @ db_error_text e)
     | _ \<Rightarrow> Internal (''db: '' @ db_error_text e))"

definition with_conn_mapped :: "(db_error \<Rightarrow> app_error) \<Rightarrow> 'a db_op \<Rightarrow> 'a handler" where
  "with_conn_mapped g f c = (case f c of (r, c') \<Rightarrow> (map_err g r, c'))"

definition federation_revoke_peer :: "(string \<Rightarrow> string) \<Rightarrow> string \<Rightarrow> string \<Rightarrow> string \<Rightarrow> unit handler" where
  "federation_revoke_peer mk now uid node_id = bindS (require_manage_federation uid) (\<lambda>_.
     with_conn_mapped revoke_error (bindS (revoke_peer now node_id) (\<lambda>_.
       audit_user_teams mk now uid ''federation.peer.revoked'' (Some ''federation_peer'') (Some node_id) None)))"

subsection \<open>The authority over a team\<close>

definition local_node_id :: "conn \<Rightarrow> string option" where
  "local_node_id c = unwrap_or (bindE (stmt ''local_node_id'' c (c_node_identity c)) (\<lambda>row. Inr (map_option fst row))) None"

definition authority_candidate :: "crypto \<Rightarrow> conn \<Rightarrow> string \<Rightarrow> bool" where
  "authority_candidate cr c owner \<longleftrightarrow> local_node_id c = Some owner
     \<or> unwrap_or (bindE (active_public_key cr c owner) (\<lambda>key. Inr (key \<noteq> None))) False"

definition authority_error :: "db_error \<Rightarrow> app_error" where
  "authority_error e = (case e of
       InvalidParameterName s \<Rightarrow> if s = ''team not found'' then NotFound s else BadRequest s
     | _ \<Rightarrow> Internal (''db: '' @ db_error_text e))"

definition set_authority_body :: "crypto \<Rightarrow> string \<Rightarrow> string \<Rightarrow> string \<Rightarrow> string \<Rightarrow> string \<Rightarrow> unit db_op" where
  "set_authority_body cr audit_id now uid tid owner =
     bindS (readS (\<lambda>c. get_team c tid)) (\<lambda>team.
     bindS (refuse_if (team = None) (InvalidParameterName ''team not found'')) (\<lambda>_.
     bindS (readS (\<lambda>c. Inr (authority_candidate cr c owner))) (\<lambda>trusted.
     bindS (refuse_if (\<not> trusted) (InvalidParameterName ''owner_node_id is not this node and not a pinned peer'')) (\<lambda>_.
     bindS (record_team_owner tid owner) (\<lambda>_.
     ignoreS (insert_audit_event audit_id now tid (Some uid) ''federation.team_authority.set'' (Some ''team'') (Some tid)
       (Some (JObj [(''owner_node_id'', JStr owner)]))))))))"

definition set_team_authority :: "crypto \<Rightarrow> string \<Rightarrow> string \<Rightarrow> string \<Rightarrow> string \<Rightarrow> string \<Rightarrow> (string \<times> string) handler" where
  "set_team_authority cr audit_id now uid tid owner_node_id = bindS (require_manage_federation uid) (\<lambda>_.
     let owner = trim owner_node_id
     in if owner = [] then throwS (BadRequest ''owner_node_id is required'')
        else if length owner > 128 then throwS (BadRequest ''owner_node_id too long'')
        else bindS (with_conn_mapped authority_error (set_authority_body cr audit_id now uid tid owner)) (\<lambda>_.
          returnS (tid, owner)))"

subsection \<open>The guard\<close>

definition manages_federation :: "conn \<Rightarrow> string \<Rightarrow> bool" where
  "manages_federation c uid \<longleftrightarrow> (\<exists>u \<in> set (c_users c). u_id u = uid \<and> u_is_admin u)
     \<or> (\<exists>m \<in> set (c_members c). m_user_id m = uid \<and> holds_permission c uid (m_team_id m) PERM_MANAGE_FEDERATION)"

lemma any_team_grants_True:
  "any_team_grants c uid p ts = Inr True \<Longrightarrow> \<exists>t \<in> set ts. holds_permission c uid t p"
  by (induction ts) (auto simp: holds_permission_def dest: has_permission_fail_closed split: if_splits)

lemma any_team_grants_healthy:
  "healthy c \<Longrightarrow> any_team_grants c uid p ts = Inr (\<exists>t \<in> set ts. holds_permission c uid t p)"
  by (induction ts) (auto simp: user_has_permission_Inr holds_permission_def)

lemma federation_permitted_True:
  assumes "federation_permitted uid c = Inr True"
  shows "manages_federation c uid"
proof -
  obtain user where user: "get_user_by_id c uid = Inr user" using assms by (auto simp: federation_permitted_def)
  show ?thesis
  proof (cases "case user of None \<Rightarrow> False | Some u \<Rightarrow> u_is_admin u")
    case True
    then obtain u where "user = Some u" "u_is_admin u" by (cases user) auto
    with user get_user_by_id_SomeD [of c uid u] show ?thesis by (auto simp: manages_federation_def)
  next
    case False
    with assms user obtain ts where "list_user_teams c uid = Inr ts" and "any_team_grants c uid PERM_MANAGE_FEDERATION ts = Inr True"
      by (auto simp: federation_permitted_def)
    from this(1) any_team_grants_True [OF this(2)] show ?thesis
      by (auto simp: manages_federation_def list_user_teams_def stmt_eq_Inr)
  qed
qed

lemma federation_permitted_healthy:
  assumes "healthy c" and "wf_users c" and m: "manages_federation c uid"
  shows "federation_permitted uid c = Inr True"
proof -
  have user: "get_user_by_id c uid = Inr (first_row (rows_where (\<lambda>u. u_id u = uid) (c_users c)))"
    using assms(1) by (simp add: get_user_by_id_def optional_query_row)
  have adm: "first_row (rows_where (\<lambda>u. u_id u = uid) (c_users c)) = Some u" if "u \<in> set (c_users c)" "u_id u = uid" for u
    using lookup_by_unique [of u_id "c_users c" u] assms(2) that by (simp add: wf_users_def lookup_by_def)
  have teams: "list_user_teams c uid = Inr (map m_team_id (rows_where (\<lambda>m. m_user_id m = uid) (c_members c)))"
    using assms(1) by (simp add: list_user_teams_def)
  show ?thesis
    using m adm unfolding federation_permitted_def user teams
    by (auto simp: manages_federation_def any_team_grants_healthy [OF assms(1)])
qed

lemma with_conn_mapped_sel [simp]:
  "fst (with_conn_mapped g f c) = map_err g (fst (f c))" "snd (with_conn_mapped g f c) = snd (f c)"
  by (simp_all add: with_conn_mapped_def split: prod.split)

lemma require_federation_refused:
  assumes "\<not> manages_federation c uid"
  shows "\<exists>e. require_federation msg uid c = (Inl e, c)"
  using assms federation_permitted_True [of uid c]
  by (cases "federation_permitted uid c") (auto simp: require_federation_def with_conn_internal_def bindS_def refuse_if_def)

lemma require_federation_cases:
  "(require_federation msg uid c = (Inr (), c) \<and> manages_federation c uid) \<or> (\<exists>e. require_federation msg uid c = (Inl e, c))"
  using federation_permitted_True [of uid c]
  by (cases "federation_permitted uid c") (auto simp: require_federation_def with_conn_internal_def bindS_def refuse_if_def)

lemma require_federation_passes:
  "healthy c \<Longrightarrow> wf_users c \<Longrightarrow> manages_federation c uid \<Longrightarrow> require_federation msg uid c = (Inr (), c)"
  by (simp add: require_federation_def with_conn_internal_def federation_permitted_healthy bindS_def)

lemma refuses_federation:
  assumes "\<not> manages_federation c uid"
  shows "refuses c (bindS (require_manage_federation uid) f c)"
proof -
  obtain e where "require_manage_federation uid c = (Inl e, c)"
    using require_federation_refused [OF assms] unfolding require_manage_federation_def by blast
  then show ?thesis by (simp add: refuses_def bindS_def)
qed

text \<open>C25. Who administers the federation. Without the permission to manage the federation in any team of the caller, and
  without the administrator flag, no request shows the identity of the node or the pinned peers, pins or revokes a peer, sets
  the authority over a team or mints a join token, and none changes anything.\<close>

theorem federation_admin_authorized:
  assumes "\<not> manages_federation (w_conn (mh_world m)) uid"
  defines "c \<equiv> w_conn (mh_world m)"
  shows "refuses c (federation_identity cr seed nid uid c) \<and> refuses c (list_pinned_peers cr uid c)
    \<and> refuses c (federation_pin_peer cr mk now uid body c) \<and> refuses c (federation_revoke_peer mk now uid node c)
    \<and> refuses c (set_team_authority cr aid now uid tid owner c)
    \<and> snd (create_join_token J fed now ts uid m) = m \<and> (\<exists>e. fst (create_join_token J fed now ts uid m) = Inl e)"
proof -
  obtain e where e: "require_federation ''PERM_MANAGE_FEDERATION required to mint a federation join token'' uid
      (w_conn (mh_world m)) = (Inl e, w_conn (mh_world m))"
    using require_federation_refused [OF assms(1)] by blast
  then have "create_join_token J fed now ts uid m = (Inl (if fed = None then BadRequest ''federation is not enabled'' else e), m)"
    by (simp add: create_join_token_def with_mesh_def on_mesh_db_def bindS_def split: option.split)
  moreover have "\<not> manages_federation c uid" using assms(1) by (simp add: c_def)
  ultimately show ?thesis
    by (simp add: federation_identity_def list_pinned_peers_def federation_pin_peer_def federation_revoke_peer_def
        set_team_authority_def refuses_federation)
qed

subsection \<open>A pinned peer is believed\<close>

definition only_pins :: "conn \<Rightarrow> conn \<Rightarrow> bool" where
  "only_pins c c' \<longleftrightarrow> (\<exists>ps as. c' = c\<lparr>c_fed_peers := ps, c_audit := as\<rparr>)"

lemma only_pins_keeps:
  assumes "only_pins c c'"
  shows "healthy c' = healthy c" "wf_users c' = wf_users c" "manages_federation c' uid = manages_federation c uid"
proof -
  obtain ps as where "c' = c\<lparr>c_fed_peers := ps, c_audit := as\<rparr>" using assms unfolding only_pins_def by blast
  then show "healthy c' = healthy c" "wf_users c' = wf_users c" "manages_federation c' uid = manages_federation c uid"
    by (simp_all add: healthy_def wf_users_def manages_federation_def holds_permission_def owns_team_def held_roles_def)
qed

definition pins_of :: "conn \<Rightarrow> string \<Rightarrow> pinned_peer list" where
  "pins_of c n = rows_where (\<lambda>p. pp_node_id p = n) (c_fed_peers c)"

lemma active_key_healthy:
  "healthy c \<Longrightarrow> active_public_key cr c n = (case first_row (pins_of c n) of None \<Rightarrow> Inr None
     | Some p \<Rightarrow> bindE (row_to_peer cr p) (\<lambda>p. Inr (if is_active p then Some (pp_public_key p) else None)))"
  by (auto simp: active_public_key_def get_peer_def pins_of_def optional_def row_to_peer_def split: option.split)

lemma pins_of_audit [simp]: "pins_of (c\<lparr>c_audit := as\<rparr>) n = pins_of c n"
  by (simp add: pins_of_def)

lemma pin_peer_goes:
  fixes node_id pk host now
  assumes "healthy c" and "length pk = 32" and "cr_key_ok cr pk"
  defines "row \<equiv> \<lparr>pp_node_id = node_id, pp_public_key = pk, pp_hostname = host, pp_pinned_at = now, pp_revoked_at = None\<rparr>"
  shows "\<exists>ps. pin_peer cr now node_id pk host c = (Inr row, c\<lparr>c_fed_peers := ps\<rparr>)
    \<and> (\<exists>k. pins_of (c\<lparr>c_fed_peers := ps\<rparr>) node_id = row # replicate k row)
    \<and> (\<forall>n. n \<noteq> node_id \<longrightarrow> pins_of (c\<lparr>c_fed_peers := ps\<rparr>) n = pins_of c n)"
proof -
  let ?q = "\<lambda>p. pp_node_id p = node_id"
  let ?ps = "if node_id \<in> pp_node_id ` set (c_fed_peers c) then update_where ?q (\<lambda>_. row) (c_fed_peers c) else c_fed_peers c @ [row]"
  have own: "\<exists>k. pins_of (c\<lparr>c_fed_peers := ?ps\<rparr>) node_id = row # replicate k row"
  proof (cases "node_id \<in> pp_node_id ` set (c_fed_peers c)")
    case True
    then obtain p ps where rows: "rows_where ?q (c_fed_peers c) = p # ps"
      by (cases "rows_where ?q (c_fed_peers c)") (auto simp: rows_where_eq_Nil)
    have "\<forall>x \<in> set (rows_where ?q (c_fed_peers c)). ?q x" by simp
    then have "rows_where ?q (update_where ?q (\<lambda>_. row) (c_fed_peers c)) = row # replicate (length ps) row"
      by (subst rows_where_update_where) (auto simp: rows row_def update_where_def map_replicate_const [symmetric] intro: map_cong)
    with True show ?thesis by (auto simp: pins_of_def)
  next
    case False
    then have "rows_where ?q (c_fed_peers c) = []" by (auto simp: rows_where_eq_Nil)
    with False show ?thesis by (auto simp: pins_of_def row_def rows_where_def intro!: exI [of _ 0])
  qed
  have "pins_of (c\<lparr>c_fed_peers := ?ps\<rparr>) n = pins_of c n" if "n \<noteq> node_id" for n
    using that by (auto simp: pins_of_def row_def rows_where_def update_where_def intro!: rows_where_update_other [unfolded rows_where_def update_where_def])
  moreover have "healthy (c\<lparr>c_fed_peers := ?ps\<rparr>)" using assms(1) by (simp add: healthy_def)
  then have "get_peer cr (c\<lparr>c_fed_peers := ?ps\<rparr>) node_id = Inr (Some row)"
    using own assms(2,3) by (auto simp: get_peer_def pins_of_def row_to_peer_def row_def)
  then have "pin_peer cr now node_id pk host c = (Inr row, c\<lparr>c_fed_peers := ?ps\<rparr>)"
    using assms(1) unfolding pin_peer_def Let_def row_def [symmetric]
    by (simp add: exec_healthy bindS_def split del: if_split)
  ultimately show ?thesis using own by blast
qed

text \<open>A request that pins a node under its own key, as an operator copies it from the identity of the node.\<close>

definition pin_request_for :: "crypto \<Rightarrow> node_identity \<Rightarrow> pin_peer_request \<Rightarrow> bool" where
  "pin_request_for cr i body \<longleftrightarrow> trim (pr_node_id body) = ni_node_id i \<and> ni_node_id i \<noteq> [] \<and> length (ni_node_id i) \<le> 128
     \<and> trim (pr_hostname body) \<noteq> [] \<and> length (trim (pr_hostname body)) \<le> 253
     \<and> trim (pr_public_key_b64 body) = cr_b64_encode cr (ni_public_key i)
     \<and> ni_public_key i = cr_public cr (ni_signing_key i)"

lemma pin_request_goes:
  assumes "healthy c" and "wf_users c" and "manages_federation c uid" and "crypto_ok cr" and p: "pin_request_for cr i body"
  shows "\<exists>c' row. federation_pin_peer cr mk now uid body c = (Inr row, c') \<and> only_pins c c'
    \<and> pp_node_id row = ni_node_id i \<and> pp_public_key row = ni_public_key i \<and> pp_revoked_at row = None
    \<and> (\<exists>k. pins_of c' (ni_node_id i) = row # replicate k row)
    \<and> (\<forall>n. n \<noteq> ni_node_id i \<longrightarrow> pins_of c' n = pins_of c n)"
proof -
  let ?row = "\<lparr>pp_node_id = ni_node_id i, pp_public_key = ni_public_key i, pp_hostname = trim (pr_hostname body),
      pp_pinned_at = now, pp_revoked_at = None\<rparr>"
  have key: "length (ni_public_key i) = 32" "cr_key_ok cr (ni_public_key i)"
    "decode_peer_key cr (pr_public_key_b64 body) = Inr (ni_public_key i)"
    using assms(4) p by (simp_all add: crypto_ok_def pin_request_for_def decode_peer_key_def)
  obtain ps k where pin: "pin_peer cr now (ni_node_id i) (ni_public_key i) (trim (pr_hostname body)) c = (Inr ?row, c\<lparr>c_fed_peers := ps\<rparr>)"
    and own: "pins_of (c\<lparr>c_fed_peers := ps\<rparr>) (ni_node_id i) = ?row # replicate k ?row"
    and rest: "\<forall>n. n \<noteq> ni_node_id i \<longrightarrow> pins_of (c\<lparr>c_fed_peers := ps\<rparr>) n = pins_of c n"
    using pin_peer_goes [OF assms(1) key(1,2), of now "ni_node_id i" "trim (pr_hostname body)"] by blast
  obtain as where as: "audit_user_teams mk now uid ''federation.peer.pinned'' (Some ''federation_peer'') (Some (ni_node_id i))
      (Some (JObj [(''hostname'', JStr (trim (pr_hostname body)))])) (c\<lparr>c_fed_peers := ps\<rparr>)
      = (Inr (), c\<lparr>c_fed_peers := ps, c_audit := as\<rparr>)"
    using audit_user_teams_state [where c = "c\<lparr>c_fed_peers := ps\<rparr>"] by blast
  have "trim (pr_node_id body) = ni_node_id i" "ni_node_id i \<noteq> []" "length (ni_node_id i) \<le> 128"
    "trim (pr_hostname body) \<noteq> []" "length (trim (pr_hostname body)) \<le> 253"
    using p by (simp_all add: pin_request_for_def)
  then have "federation_pin_peer cr mk now uid body c = (Inr ?row, c\<lparr>c_fed_peers := ps, c_audit := as\<rparr>)"
    by (simp add: federation_pin_peer_def require_manage_federation_def require_federation_passes [OF assms(1-3)] bindS_def
        key(3) with_conn_internal_def pin as)
  moreover have "only_pins c (c\<lparr>c_fed_peers := ps, c_audit := as\<rparr>)" unfolding only_pins_def by blast
  ultimately show ?thesis using own rest by (intro exI [of _ "c\<lparr>c_fed_peers := ps, c_audit := as\<rparr>"] exI [of _ ?row]) auto
qed

lemma revoke_request_goes:
  assumes "healthy c" and "wf_users c" and "manages_federation c uid" and own: "pins_of c n = row # replicate k row" "pp_revoked_at row = None"
  shows "\<exists>c'. federation_revoke_peer mk now uid n c = (Inr (), c') \<and> only_pins c c'
    \<and> pins_of c' n = replicate (Suc k) (row\<lparr>pp_revoked_at := Some now\<rparr>) \<and> (\<forall>n'. n' \<noteq> n \<longrightarrow> pins_of c' n' = pins_of c n')"
proof -
  let ?hit = "\<lambda>p. pp_node_id p = n \<and> pp_revoked_at p = None"
  let ?ps = "update_where ?hit (\<lambda>p. p\<lparr>pp_revoked_at := Some now\<rparr>) (c_fed_peers c)"
  have "row \<in> set (pins_of c n)" by (simp add: own(1))
  then have row: "row \<in> set (c_fed_peers c)" "pp_node_id row = n" by (simp_all add: pins_of_def)
  then have "list_ex ?hit (c_fed_peers c)" using own(2) by (auto simp: list_ex_iff)
  then have rev: "revoke_peer now n c = (Inr (), c\<lparr>c_fed_peers := ?ps\<rparr>)"
    using assms(1) by (simp add: revoke_peer_def exec_healthy bindS_def Let_def)
  have "pins_of (c\<lparr>c_fed_peers := ?ps\<rparr>) n = update_where ?hit (\<lambda>p. p\<lparr>pp_revoked_at := Some now\<rparr>) (pins_of c n)"
    unfolding pins_of_def by (simp add: rows_where_update_where)
  then have "pins_of (c\<lparr>c_fed_peers := ?ps\<rparr>) n = replicate (Suc k) (row\<lparr>pp_revoked_at := Some now\<rparr>)"
    using row own by (simp add: update_where_def)
  moreover have "pins_of (c\<lparr>c_fed_peers := ?ps\<rparr>) n' = pins_of c n'" if "n' \<noteq> n" for n'
    using that unfolding pins_of_def by simp (intro rows_where_update_other, auto)
  moreover obtain as where "audit_user_teams mk now uid ''federation.peer.revoked'' (Some ''federation_peer'') (Some n) None
      (c\<lparr>c_fed_peers := ?ps\<rparr>) = (Inr (), c\<lparr>c_fed_peers := ?ps, c_audit := as\<rparr>)"
    using audit_user_teams_state [where c = "c\<lparr>c_fed_peers := ?ps\<rparr>"] by blast
  then have "federation_revoke_peer mk now uid n c = (Inr (), c\<lparr>c_fed_peers := ?ps, c_audit := as\<rparr>)"
    by (simp add: federation_revoke_peer_def require_manage_federation_def require_federation_passes [OF assms(1-3)] bindS_def
        with_conn_mapped_def rev)
  moreover have "only_pins c (c\<lparr>c_fed_peers := ?ps, c_audit := as\<rparr>)" unfolding only_pins_def by blast
  ultimately show ?thesis by (intro exI [of _ "c\<lparr>c_fed_peers := ?ps, c_audit := as\<rparr>"]) simp
qed

text \<open>Pinning is trust, revoking ends it. After an administrator pins a node under its key every event the node signs
  verifies, after the revocation none does any more, and after a second pin they do again; the trust in other
  nodes stays as it was.\<close>

theorem pinned_peer_verifies:
  assumes "healthy c" and "wf_users c" and "manages_federation c uid" and "crypto_ok cr" and "pin_request_for cr i body"
    and s: "sign_event cr i e seq = Inr env"
  shows "\<exists>row c' c'' row2 c3. federation_pin_peer cr mk now uid body c = (Inr row, c') \<and> verify_event cr c' env = Inr ()
    \<and> federation_revoke_peer mk now' uid (ni_node_id i) c' = (Inr (), c'')
    \<and> verify_event cr c'' env = Inl (UnpinnedPeer (ni_node_id i))
    \<and> federation_pin_peer cr mk now'' uid body c'' = (Inr row2, c3) \<and> verify_event cr c3 env = Inr ()
    \<and> (\<forall>n. n \<noteq> ni_node_id i \<longrightarrow> active_public_key cr c3 n = active_public_key cr c n)"
proof -
  have pk: "ni_public_key i = cr_public cr (ni_signing_key i)" using assms(5) by (simp add: pin_request_for_def)
  have env: "se_v env = WIRE_VERSION" "se_origin_node_id env = ni_node_id i" using s by (auto simp: sign_event_def)
  have key: "length (ni_public_key i) = 32" "cr_key_ok cr (ni_public_key i)" using assms(4) by (simp_all add: pk crypto_ok_def)
  have believed: "verify_event cr d env = Inr ()"
    if "healthy d" "pins_of d (ni_node_id i) = row # rest" "pp_public_key row = ni_public_key i" "pp_revoked_at row = None" for d row rest
    using that key sign_verify [OF assms(4) s pk]
    by (simp add: verify_event_def env active_key_healthy row_to_peer_def is_active_def)
  note goes = pin_request_goes [OF _ _ _ assms(4,5)]
  obtain c1 row k where 1: "federation_pin_peer cr mk now uid body c = (Inr row, c1)" "only_pins c c1" "pp_revoked_at row = None"
    "pp_public_key row = ni_public_key i" "pins_of c1 (ni_node_id i) = row # replicate k row" "\<forall>n. n \<noteq> ni_node_id i \<longrightarrow> pins_of c1 n = pins_of c n"
    using goes [OF assms(1-3), of mk now] by blast
  have ok1: "healthy c1" "wf_users c1" "manages_federation c1 uid" using assms(1-3) by (simp_all add: only_pins_keeps [OF 1(2)])
  obtain c2 where 2: "federation_revoke_peer mk now' uid (ni_node_id i) c1 = (Inr (), c2)" "only_pins c1 c2"
    "pins_of c2 (ni_node_id i) = replicate (Suc k) (row\<lparr>pp_revoked_at := Some now'\<rparr>)" "\<forall>n. n \<noteq> ni_node_id i \<longrightarrow> pins_of c2 n = pins_of c1 n"
    using revoke_request_goes [OF ok1 1(5,3)] by blast
  have ok2: "healthy c2" "wf_users c2" "manages_federation c2 uid" using ok1 by (simp_all add: only_pins_keeps [OF 2(2)])
  obtain c3 row2 k2 where 3: "federation_pin_peer cr mk now'' uid body c2 = (Inr row2, c3)" "only_pins c2 c3" "pp_revoked_at row2 = None"
    "pp_public_key row2 = ni_public_key i" "pins_of c3 (ni_node_id i) = row2 # replicate k2 row2" "\<forall>n. n \<noteq> ni_node_id i \<longrightarrow> pins_of c3 n = pins_of c2 n"
    using goes [OF ok2, of mk now''] by blast
  have ok3: "healthy c3" using ok2 by (simp add: only_pins_keeps [OF 3(2)])
  have "verify_event cr c2 env = Inl (UnpinnedPeer (ni_node_id i))"
    using ok2(1) 1(4) 2(3) key by (simp add: verify_event_def env active_key_healthy row_to_peer_def is_active_def)
  moreover have "active_public_key cr c3 n = active_public_key cr c n" if "n \<noteq> ni_node_id i" for n
    using that 1(6) 2(4) 3(6) by (simp add: active_key_healthy ok3 assms(1))
  ultimately show ?thesis
    using 1(1) 2(1) 3(1) believed [OF ok1(1) 1(5,4,3)] believed [OF ok3 3(5,4,3)] by blast
qed

subsection \<open>The authority over a team\<close>

lemma owner_recorded:
  assumes "healthy c"
  shows "\<exists>ow. record_team_owner tid owner c = (Inr (), c\<lparr>c_team_authority := ow\<rparr>)
    \<and> (\<exists>k. rows_where (\<lambda>p. fst p = tid) ow = (tid, owner) # replicate k (tid, owner))
    \<and> (\<forall>t. t \<noteq> tid \<longrightarrow> rows_where (\<lambda>p. fst p = t) ow = rows_where (\<lambda>p. fst p = t) (c_team_authority c))"
proof -
  let ?q = "\<lambda>p. fst p = tid"
  let ?f = "\<lambda>p. (fst p, owner)"
  let ?ow = "if tid \<in> fst ` set (c_team_authority c) then update_where ?q ?f (c_team_authority c) else c_team_authority c @ [(tid, owner)]"
  have "\<exists>k. rows_where ?q ?ow = (tid, owner) # replicate k (tid, owner)"
  proof (cases "tid \<in> fst ` set (c_team_authority c)")
    case True
    then obtain p ps where rows: "rows_where ?q (c_team_authority c) = p # ps"
      by (cases "rows_where ?q (c_team_authority c)") (auto simp: rows_where_eq_Nil)
    have "\<forall>x \<in> set (rows_where ?q (c_team_authority c)). ?q x" by simp
    then have "rows_where ?q (update_where ?q ?f (c_team_authority c)) = (tid, owner) # replicate (length ps) (tid, owner)"
      by (subst rows_where_update_where) (auto simp: rows update_where_def map_replicate_const [symmetric] intro: map_cong)
    with True show ?thesis by auto
  next
    case False
    then have "rows_where ?q (c_team_authority c) = []" by (auto simp: rows_where_eq_Nil)
    with False show ?thesis by (auto simp: rows_where_def intro!: exI [of _ 0])
  qed
  moreover have "rows_where (\<lambda>p. fst p = t) ?ow = rows_where (\<lambda>p. fst p = t) (c_team_authority c)" if "t \<noteq> tid" for t
    using that by (auto simp: rows_where_def update_where_def intro!: rows_where_update_other [unfolded rows_where_def update_where_def])
  moreover have "record_team_owner tid owner c = (Inr (), c\<lparr>c_team_authority := ?ow\<rparr>)"
    using assms by (simp add: record_team_owner_def exec_healthy)
  ultimately show ?thesis by blast
qed

text \<open>Setting the authority. A request that succeeds came from an administrator of the federation and named a team that
  exists and either this node or a pinned peer that is not revoked; after it exactly the named node speaks for that
  team, and every other team keeps its authority.\<close>

theorem authority_set_exact:
  assumes h: "healthy c" and ok: "fst (set_team_authority cr aid now uid tid node c) = Inr r"
  defines "c' \<equiv> snd (set_team_authority cr aid now uid tid node c)"
  shows "manages_federation c uid \<and> tid \<in> t_id ` set (c_teams c)
    \<and> (map_option fst (c_node_identity c) = Some (trim node) \<or> (\<exists>pk. active_public_key cr c (trim node) = Inr (Some pk)))
    \<and> (\<forall>origin. check_team_authority c' origin tid
        = Inr (if origin = trim node then AuthorityAllow else AuthorityDenied ''team.not_team_owner''))
    \<and> (\<forall>t origin. t \<noteq> tid \<longrightarrow> check_team_authority c' origin t = check_team_authority c origin t)"
proof -
  let ?body = "set_authority_body cr aid now uid tid (trim node)"
  have m: "manages_federation c uid" and req: "require_manage_federation uid c = (Inr (), c)"
    using ok require_federation_cases [of "''PERM_MANAGE_FEDERATION required''" uid c]
    by (auto simp: set_team_authority_def require_manage_federation_def bindS_def)
  have body: "fst (?body c) = Inr ()" and c': "c' = snd (?body c)"
    using ok by (auto simp: c'_def set_team_authority_def bindS_split Let_def req split: if_splits sum.splits)
  obtain team where team: "get_team c tid = Inr (Some team)" and trusted: "authority_candidate cr c (trim node)"
    using body by (cases "get_team c tid") (auto simp: set_authority_body_def bindS_split refuse_if_def split: if_splits sum.splits option.splits)
  have "tid \<in> t_id ` set (c_teams c)"
    using team by (auto simp: get_team_def optional_query_row stmt_eq_Inr dest!: first_row_SomeD sym [of "Some _"])
  moreover have "map_option fst (c_node_identity c) = Some (trim node) \<or> (\<exists>pk. active_public_key cr c (trim node) = Inr (Some pk))"
    using trusted h by (auto simp: authority_candidate_def local_node_id_def unwrap_or_def bindE_def split: sum.splits)
  moreover obtain ow k where ow: "record_team_owner tid (trim node) c = (Inr (), c\<lparr>c_team_authority := ow\<rparr>)"
    "rows_where (\<lambda>p. fst p = tid) ow = (tid, trim node) # replicate k (tid, trim node)"
    "\<forall>t. t \<noteq> tid \<longrightarrow> rows_where (\<lambda>p. fst p = t) ow = rows_where (\<lambda>p. fst p = t) (c_team_authority c)"
    using owner_recorded [OF h, of tid "trim node"] by blast
  obtain as where "c' = c\<lparr>c_team_authority := ow, c_audit := as\<rparr>"
    using insert_audit_event_state [of aid now tid "Some uid" "''federation.team_authority.set''" "Some ''team''" "Some tid"
        "Some (JObj [(''owner_node_id'', JStr (trim node))])" "c\<lparr>c_team_authority := ow\<rparr>"]
    by (auto simp: c' set_authority_body_def bindS_split team trusted ow(1))
  then have "check_team_authority c' origin t = bindE (optional (ok_or (first_row (map snd (rows_where (\<lambda>p. fst p = t) ow))) QueryReturnedNoRows))
      (\<lambda>row. case row of None \<Rightarrow> Inr LegacyTeam | Some owner \<Rightarrow> if owner = origin then Inr AuthorityAllow else Inr (AuthorityDenied ''team.not_team_owner''))" for origin t
    using h by (simp add: check_team_authority_def healthy_def)
  ultimately show ?thesis using m ow(2,3) h by (auto simp: check_team_authority_def)
qed

subsection \<open>Join tokens come back\<close>

text \<open>Documented behaviour of the JWT crate for a token without audience and issuer: it decodes under its key while it has not
  expired.\<close>

definition plain_jwt_ok :: "jwt_lib \<Rightarrow> bool" where
  "plain_jwt_ok J \<longleftrightarrow> (\<forall>now v k t cl. jl_encode J k cl = Inr t \<and> expiry_passes now v cl \<and> names_pass v cl
     \<and> json_get cl ''exp'' \<noteq> None \<longrightarrow> jl_decode J now v k t = Inr cl)"

lemma those_strings: "those (map json_as_str (map JStr xs)) = Some xs"
  by (induction xs) simp_all

lemma parse_join_claims_json:
  assumes "jc_iat x \<in> {- (2 ^ 63) .. 2 ^ 63 - 1}" and "jc_exp x \<in> {- (2 ^ 63) .. 2 ^ 63 - 1}"
  shows "parse_join_claims (join_claims_json x) = Some x"
  using assms those_strings [of "jc_peers x"]
  by (cases x) (simp add: parse_join_claims_def join_claims_json_def field_str_def field_strs_def field_time_def field_int_def)

text \<open>Round trip of a join token. Whoever asks with a token of this node gets back exactly the team, its name and the
  addresses the token was made with, for a day and the minute of leeway and not longer; a node with another secret
  refuses it.\<close>

theorem join_token_roundtrip:
  assumes "jwt_ok J" and "plain_jwt_ok J" and gen: "generate_join_token_with_peers J jm now creator peers c = Inr tok"
    and "0 \<le> now" and "now + 86400 < 2 ^ 63"
  shows "\<exists>t. get_first_team c = Inr (Some t)
    \<and> (\<forall>now' info. validate_join_token J jm now' tok = Inr info \<longleftrightarrow> now' \<le> now + 86400 + 60
        \<and> info = \<lparr>ji_team_id = t_id t, ji_team_name = t_name t, ji_peers = peers, ji_expires_at = now + 86400\<rparr>)
    \<and> (\<forall>jm' now' info. jm_secret jm' \<noteq> jm_secret jm \<longrightarrow> validate_join_token J jm' now' tok \<noteq> Inr info)"
proof -
  obtain t where t: "get_first_team c = Inr (Some t)" using gen by (auto simp: generate_join_token_with_peers_def)
  let ?cl = "\<lparr>jc_team_id = t_id t, jc_team_name = t_name t, jc_peers = peers, jc_creator = creator, jc_iat = now, jc_exp = now + 86400\<rparr>"
  have enc: "jl_encode J (jm_secret jm) (join_claims_json ?cl) = Inr tok"
    using gen by (simp add: generate_join_token_with_peers_def t)
  have parse: "parse_join_claims (join_claims_json ?cl) = Some ?cl" using assms(4,5) by (intro parse_join_claims_json) simp_all
  have claims: "json_get (join_claims_json ?cl) ''exp'' = Some (JNum (now + 86400))" "names_pass validation_default (join_claims_json ?cl)"
    by (simp_all add: join_claims_json_def names_pass_def json_get_str_def validation_default_def)
  then have expiry: "expiry_passes now' validation_default (join_claims_json ?cl) \<longleftrightarrow> now' \<le> now + 86400 + 60" for now'
    by (auto simp: expiry_passes_def validation_default_def)
  have dec: "jl_decode J now' validation_default (jm_secret jm) tok = Inr cl \<longleftrightarrow> now' \<le> now + 86400 + 60 \<and> cl = join_claims_json ?cl" for now' cl
    using assms(1,2) enc claims expiry [of now'] unfolding jwt_ok_def plain_jwt_ok_def by (metis option.distinct(1))
  have "validate_join_token J jm now' tok = Inr info \<longleftrightarrow> now' \<le> now + 86400 + 60
      \<and> info = \<lparr>ji_team_id = t_id t, ji_team_name = t_name t, ji_peers = peers, ji_expires_at = now + 86400\<rparr>" for now' info
    by (auto simp: validate_join_token_def decode_as_def dec parse)
  moreover have "validate_join_token J jm' now' tok \<noteq> Inr info" if "jm_secret jm' \<noteq> jm_secret jm" for jm' now' info
  proof
    assume "validate_join_token J jm' now' tok = Inr info"
    then obtain cl where "jl_decode J now' validation_default (jm_secret jm') tok = Inr cl"
      by (auto simp: validate_join_token_def decode_as_def)
    with enc assms(1) that show False unfolding jwt_ok_def by blast
  qed
  ultimately show ?thesis using t by blast
qed

subsection \<open>Instances\<close>

definition sample_admin :: conn where
  "sample_admin = sample_conn\<lparr>c_users := [(sample_user ''root'')\<lparr>u_is_admin := True\<rparr>], c_node_identity := Some (''n2'', [], [])\<rparr>"

definition sample_pin_request :: pin_peer_request where
  "sample_pin_request = \<lparr>pr_node_id = ''n1'', pr_public_key_b64 = cr_b64_encode toy_crypto (replicate 32 0), pr_hostname = ''h''\<rparr>"

lemma sample_admin_ok: "healthy sample_admin" "wf_users sample_admin" "manages_federation sample_admin ''root''"
  by (simp_all add: sample_admin_def healthy_def sample_conn_def empty_conn_def wf_users_def manages_federation_def sample_user_def
      status_types_def)

theorem pinned_peer_verifies_witness:
  "\<exists>row c' c''. federation_pin_peer toy_crypto (\<lambda>_. ''a'') ''now'' ''root'' sample_pin_request sample_admin = (Inr row, c')
     \<and> verify_event toy_crypto c' sample_signed = Inr ()
     \<and> federation_revoke_peer (\<lambda>_. ''a'') ''later'' ''root'' ''n1'' c' = (Inr (), c'')
     \<and> verify_event toy_crypto c'' sample_signed = Inl (UnpinnedPeer ''n1'')"
proof -
  have "trim (cr_b64_encode toy_crypto (replicate 32 0)) = cr_b64_encode toy_crypto (replicate 32 0)" by code_simp
  moreover have "trim ''n1'' = ''n1''" "trim ''h'' = ''h''" by code_simp+
  moreover have "cr_public toy_crypto [] = replicate 32 0" by (simp add: toy_crypto_def)
  ultimately have "pin_request_for toy_crypto sample_identity sample_pin_request"
    by (simp add: pin_request_for_def sample_identity_def sample_pin_request_def)
  from pinned_peer_verifies [OF sample_admin_ok toy_crypto_ok this sample_sign, of "\<lambda>_. ''a''" "''now''" "''later''" "''then''"]
  have "\<exists>row c' c''. federation_pin_peer toy_crypto (\<lambda>_. ''a'') ''now'' ''root'' sample_pin_request sample_admin = (Inr row, c')
     \<and> verify_event toy_crypto c' sample_signed = Inr ()
     \<and> federation_revoke_peer (\<lambda>_. ''a'') ''later'' ''root'' (ni_node_id sample_identity) c' = (Inr (), c'')
     \<and> verify_event toy_crypto c'' sample_signed = Inl (UnpinnedPeer (ni_node_id sample_identity))" by blast
  moreover have "ni_node_id sample_identity = ''n1''" by (simp add: sample_identity_def)
  ultimately show ?thesis by simp
qed

theorem federation_admin_authorized_witness:
  "refuses sample_chat (federation_pin_peer toy_crypto (\<lambda>_. ''a'') ''now'' ''bob'' sample_pin_request sample_chat)"
proof -
  have "\<not> manages_federation (w_conn (mh_world sample_mesh)) ''bob''" and w: "w_conn (mh_world sample_mesh) = sample_chat"
    by (simp_all add: sample_mesh_def mesh_new_def)
      (simp add: manages_federation_def holds_permission_def owns_team_def held_roles_def sample_chat_def sample_conn_def empty_conn_def
        sample_user_def PERM_ADMIN_def PERM_MANAGE_FEDERATION_def)
  from federation_admin_authorized [OF this(1)] show ?thesis unfolding w by blast
qed

theorem authority_set_exact_witness:
  "\<exists>c'. set_team_authority toy_crypto ''a'' ''now'' ''root'' ''t'' '' n2 '' sample_admin = (Inr (''t'', ''n2''), c')
     \<and> check_team_authority c' ''n2'' ''t'' = Inr AuthorityAllow"
proof -
  have n2: "trim '' n2 '' = ''n2''" by code_simp
  have "get_team sample_admin ''t'' = Inr (Some (hd (c_teams sample_conn)))"
    by (simp add: get_team_def sample_admin_ok(1)) (simp add: sample_admin_def sample_conn_def empty_conn_def)
  moreover have "authority_candidate toy_crypto sample_admin ''n2''"
    using sample_admin_ok(1) by (simp add: authority_candidate_def local_node_id_def) (simp add: sample_admin_def)
  moreover obtain ow where "record_team_owner ''t'' ''n2'' sample_admin = (Inr (), sample_admin\<lparr>c_team_authority := ow\<rparr>)"
    using owner_recorded [OF sample_admin_ok(1)] by blast
  ultimately have "fst (set_team_authority toy_crypto ''a'' ''now'' ''root'' ''t'' '' n2 '' sample_admin) = Inr (''t'', ''n2'')"
    using require_federation_passes [OF sample_admin_ok]
    by (simp add: set_team_authority_def require_manage_federation_def bindS_split Let_def n2 set_authority_body_def)
  then obtain c' where c': "set_team_authority toy_crypto ''a'' ''now'' ''root'' ''t'' '' n2 '' sample_admin = (Inr (''t'', ''n2''), c')"
    by (metis prod.collapse)
  then have "fst (set_team_authority toy_crypto ''a'' ''now'' ''root'' ''t'' '' n2 '' sample_admin) = Inr (''t'', ''n2'')" by simp
  from authority_set_exact [OF sample_admin_ok(1) this]
  have "check_team_authority c' ''n2'' ''t'' = Inr (if ''n2'' = trim '' n2 '' then AuthorityAllow else AuthorityDenied ''team.not_team_owner'')"
    unfolding c' snd_conv by blast
  with c' show ?thesis by (simp add: n2)
qed

theorem join_token_roundtrip_witness:
  "validate_join_token (toy_jwt [(join_claims_json \<lparr>jc_team_id = ''t'', jc_team_name = ''T'', jc_peers = [''h''], jc_creator = ''root'',
       jc_iat = 0, jc_exp = 86400\<rparr>, ''J'')]) \<lparr>jm_secret = [], jm_node_name = []\<rparr> 86460 ''J''
     = Inr \<lparr>ji_team_id = ''t'', ji_team_name = ''T'', ji_peers = [''h''], ji_expires_at = 86400\<rparr>"
proof -
  let ?J = "toy_jwt [(join_claims_json \<lparr>jc_team_id = ''t'', jc_team_name = ''T'', jc_peers = [''h''], jc_creator = ''root'',
       jc_iat = 0, jc_exp = 86400\<rparr>, ''J'')]"
  have team: "get_first_team sample_conn = Inr (Some (hd (c_teams sample_conn)))"
    by (simp add: get_first_team_def) (simp add: sample_conn_def)
  have gen: "generate_join_token_with_peers ?J \<lparr>jm_secret = [], jm_node_name = []\<rparr> 0 ''root'' [''h''] sample_conn = Inr ''J''"
    by (simp add: generate_join_token_with_peers_def team) (simp add: sample_conn_def toy_jwt_def)
  have "plain_jwt_ok ?J" by (auto simp: plain_jwt_ok_def toy_jwt_def split: if_splits)
  from join_token_roundtrip [OF toy_jwt_ok this gen] team show ?thesis by (auto simp: sample_conn_def)
qed

end
