(* ===== verification/Ws_Sync.thy ===== *)
theory Ws_Sync
  imports Ws_Requests Channels_Api Login_Api Pins_Api Personal_Api
begin

section \<open>WebSocket session: the first read of a team\<close>

text \<open>
  The action \<open>sync:init\<close> of \<open>ws/handlers/request.rs\<close> and the counters of \<open>db/read_queries.rs\<close>. Times are text, compared as
  text; \<open>now\<close> is the clock of the database. The rooms are \<open>None\<close> when the server has no voice.
\<close>

subsection \<open>Counters\<close>

text \<open>The time after which a message counts as unread; now, when nothing was read yet.\<close>

definition read_until :: "string \<Rightarrow> conn \<Rightarrow> string \<Rightarrow> string \<Rightarrow> string" where
  "read_until now c uid cid = (case first_row (rows_where (\<lambda>p. fst p = (uid, cid)) (c_channel_reads c)) of
     None \<Rightarrow> now | Some (_, _, at) \<Rightarrow> at)"

definition get_unread_count :: "string \<Rightarrow> conn \<Rightarrow> string \<Rightarrow> string \<Rightarrow> int db_res" where
  "get_unread_count now c uid cid = stmt ''get_unread_count'' c (int (length (rows_where (\<lambda>m. msg_channel_id m = cid
     \<and> \<not> msg_deleted m \<and> msg_created_at m > read_until now c uid cid) (c_messages c))))"

definition get_unread_counts_for_team :: "string \<Rightarrow> conn \<Rightarrow> string \<Rightarrow> string \<Rightarrow> (string \<times> int) list db_res" where
  "get_unread_counts_for_team now c uid tid = stmt ''get_unread_counts_for_team'' c
     (map (\<lambda>ch. (ch_id ch, int (length (rows_where (\<lambda>m. msg_channel_id m = ch_id ch
        \<and> \<not> msg_deleted m \<and> msg_created_at m > read_until now c uid (ch_id ch)) (c_messages c)))))
      (rows_where (\<lambda>ch. ch_team_id ch = tid) (c_channels c)))"

text \<open>Own messages do not count here.\<close>

definition get_dm_unread_counts_for_user :: "string \<Rightarrow> conn \<Rightarrow> string \<Rightarrow> string \<Rightarrow> (string \<times> int) list db_res" where
  "get_dm_unread_counts_for_user now c uid tid = stmt ''get_dm_unread_counts_for_user'' c
     (map (\<lambda>d. (dm_id d, int (length (rows_where (\<lambda>m. msg_dm_channel_id m = dm_id d
        \<and> \<not> msg_deleted m \<and> msg_author_id m \<noteq> uid \<and> msg_created_at m > read_until now c uid (dm_id d)) (c_messages c)))))
      (rows_where (\<lambda>d. dm_team_id d = tid
         \<and> (\<exists>x \<in> set (c_dm_members c). dmm_channel_id x = dm_id d \<and> dmm_user_id x = uid)) (c_dm_channels c)))"

definition get_last_read_message_id :: "conn \<Rightarrow> string \<Rightarrow> string \<Rightarrow> string option db_res" where
  "get_last_read_message_id c uid cid = optional (query_row ''get_last_read_message_id'' c
     (map (\<lambda>(_, mid, _). mid) (rows_where (\<lambda>p. fst p = (uid, cid)) (c_channel_reads c))))"

definition get_last_read_at :: "conn \<Rightarrow> string \<Rightarrow> string \<Rightarrow> string option db_res" where
  "get_last_read_at c uid cid = optional (query_row ''get_last_read_at'' c
     (map (\<lambda>(_, _, at). at) (rows_where (\<lambda>p. fst p = (uid, cid)) (c_channel_reads c))))"

subsection \<open>The answer\<close>

definition team_json :: "team \<Rightarrow> json" where
  "team_json t = JObj [(''id'', JStr (t_id t)), (''name'', JStr (t_name t)), (''description'', JStr (t_description t)),
     (''icon_url'', JStr (t_icon_url t)), (''created_by'', JStr (t_created_by t)), (''max_file_size'', JNum (t_max_file_size t)),
     (''allow_member_invites'', JBool (t_allow_member_invites t)), (''federated'', JBool (t_federated t)),
     (''force_turn_relay'', JBool (t_force_turn_relay t)), (''created_at'', JStr (t_created_at t)), (''updated_at'', JStr (t_updated_at t))]"

definition rooms_json :: "room_mgr \<Rightarrow> string \<Rightarrow> json" where
  "rooms_json rm tid = JObj (map (\<lambda>r. (vr_channel_id r, JArr (map voice_peer_json (vr_peers r)))) (get_rooms_by_team rm tid))"

definition sync_channel :: "conn \<Rightarrow> channel \<Rightarrow> json" where
  "sync_channel c ch = JObj (channel_json ch
     @ [(''access_role_ids'', JArr (map JStr (unwrap_or (get_channel_access_roles c (ch_id ch)) [])))])"

definition sync_group :: "conn \<Rightarrow> channel_group \<Rightarrow> json" where
  "sync_group c g = JObj (group_json g
     @ [(''access_role_ids'', JArr (map JStr (unwrap_or (get_group_access_roles c (cg_id g)) [])))])"

definition sync_member :: "crypto \<Rightarrow> conn \<Rightarrow> member \<times> user \<Rightarrow> json" where
  "sync_member cr c = (\<lambda>(m, u). JObj [(''member'', JObj (member_json m)), (''user'', user_json cr u),
     (''role_ids'', JArr (map (JStr \<circ> r_id) (unwrap_or (get_member_roles c (m_id m)) [])))])"

definition sync_pin :: "pinned_message \<Rightarrow> json" where
  "sync_pin p = JObj [(''message_id'', JStr (pm_message_id p)), (''channel_id'', JStr (pm_channel_id p)),
     (''pinned_by'', json_opt (pm_pinned_by p)), (''pinned_at'', JStr (pm_pinned_at p))]"

definition sync_init :: "crypto \<Rightarrow> string \<Rightarrow> room_mgr option \<Rightarrow> string \<Rightarrow> string \<Rightarrow> conn \<Rightarrow> json db_res" where
  "sync_init cr now rooms uid tid c =
     bindE (get_channels_by_team c tid) (\<lambda>channels.
     bindE (get_members_by_team c tid) (\<lambda>members.
     bindE (get_roles_by_team c tid) (\<lambda>roles.
     bindE (get_team c tid) (\<lambda>team.
     bindE (get_unread_counts_for_team now c uid tid) (\<lambda>unread.
     Inr (JObj ([
       (''team'', (case team of None \<Rightarrow> JNull | Some t \<Rightarrow> team_json t)),
       (''channels'', JArr (map (sync_channel c) (filter (channel_listed c uid tid) channels))),
       (''members'', JArr (map (sync_member cr c) members)),
       (''roles'', JArr (map (\<lambda>r. JObj (role_json r)) roles)),
       (''groups'', JArr (map (sync_group c) (unwrap_or (get_groups_by_team c tid) []))),
       (''pins'', JArr (map sync_pin (unwrap_or (get_pins_by_team c tid) []))),
       (''blocked_user_ids'', JArr (map JStr (unwrap_or (list_blocked c uid) []))),
       (''unread_counts'', JObj (map (\<lambda>(cid, n). (cid, JNum n)) unread)),
       (''muted_channels'', JArr (map (\<lambda>(cid, until). JObj [(''channel_id'', JStr cid), (''muted_until'', json_opt until)])
          (unwrap_or (get_muted_channels now c uid) [])))]
       @ (case rooms of None \<Rightarrow> [] | Some rm \<Rightarrow> [(''voice_states'', rooms_json rm tid)]))))))))"

text \<open>The request with this read.\<close>

definition handle_session_request :: "crypto \<Rightarrow> string \<Rightarrow> string \<Rightarrow> string \<Rightarrow> request_event \<Rightarrow> world \<Rightarrow> world" where
  "handle_session_request cr now uid tid req w = handle_request (sync_init cr now (w_rooms w)) uid tid req w"

subsection \<open>What the answer shows\<close>

abbreviation team_channels :: "conn \<Rightarrow> string \<Rightarrow> channel list" where
  "team_channels c tid \<equiv> rows_where (\<lambda>ch. ch_team_id ch = tid) (c_channels c)"

lemma channel_listed_healthy:
  "healthy c \<Longrightarrow> channel_listed c uid tid ch \<longleftrightarrow> (channel_hidden c ch \<longrightarrow> may_access c uid tid (ch_id ch))"
  by (simp add: channel_listed_def access_decides)

lemma unread_count_team:
  assumes "get_unread_counts_for_team now c uid tid = Inr counts" and "(cid, n) \<in> set counts" and "healthy c"
  shows "get_unread_count now c uid cid = Inr n"
  using assms by (auto simp: get_unread_counts_for_team_def get_unread_count_def)

text \<open>C28. What the first read of a team shows of a hidden channel. The list of channels leaves out exactly the hidden ones that
  the policy closes to the caller, as it should; but the counters name every channel of the team with its unread
  messages, the rooms every channel with a call and who is in it, and the pins every pinned message, for hidden ones too.\<close>

theorem sync_names_hidden_channels:
  assumes "healthy c"
  shows "\<exists>kvs listed. sync_init cr now (Some rm) uid tid c = Inr (JObj kvs)
    \<and> map_of kvs ''channels'' = Some (JArr (map (sync_channel c) listed))
    \<and> set listed = {ch \<in> set (team_channels c tid). channel_hidden c ch \<longrightarrow> may_access c uid tid (ch_id ch)}
    \<and> (\<exists>counts. map_of kvs ''unread_counts'' = Some (JObj (map (\<lambda>(cid, n). (cid, JNum n)) counts))
        \<and> map fst counts = map ch_id (team_channels c tid)
        \<and> (\<forall>(cid, n) \<in> set counts. get_unread_count now c uid cid = Inr n))
    \<and> map_of kvs ''voice_states'' = Some (rooms_json rm tid)
    \<and> (\<exists>pins. map_of kvs ''pins'' = Some (JArr (map sync_pin pins)) \<and> set pins = {p \<in> set (c_pins c). pm_team_id p = tid})"
proof -
  obtain kvs where kvs: "sync_init cr now (Some rm) uid tid c = Inr (JObj kvs)"
    using assms(1) by (simp add: sync_init_def get_channels_by_team_def get_members_by_team_def get_roles_by_team_def get_team_def
        optional_query_row get_unread_counts_for_team_def)
  let ?all = "sort_key ch_position (sort_key ch_created_at (team_channels c tid))"
  let ?counts = "map (\<lambda>ch. (ch_id ch, int (length (rows_where (\<lambda>m. msg_channel_id m = ch_id ch
        \<and> \<not> msg_deleted m \<and> msg_created_at m > read_until now c uid (ch_id ch)) (c_messages c))))) (team_channels c tid)"
  let ?pins = "rev (sort_key pm_pinned_at (rev (rows_where (\<lambda>p. pm_team_id p = tid) (c_pins c))))"
  have counts: "get_unread_counts_for_team now c uid tid = Inr ?counts"
    using assms(1) by (simp add: get_unread_counts_for_team_def)
  have fields: "map_of kvs ''channels'' = Some (JArr (map (sync_channel c) (filter (channel_listed c uid tid) ?all)))"
    "map_of kvs ''unread_counts'' = Some (JObj (map (\<lambda>(cid, n). (cid, JNum n)) ?counts))"
    "map_of kvs ''voice_states'' = Some (rooms_json rm tid)" "map_of kvs ''pins'' = Some (JArr (map sync_pin ?pins))"
    using kvs assms(1) counts unfolding sync_init_def get_channels_by_team_def get_pins_by_team_def
    by (auto simp: get_members_by_team_def get_roles_by_team_def get_team_def optional_query_row)
  have "set (filter (channel_listed c uid tid) ?all) = {ch \<in> set (team_channels c tid). channel_hidden c ch \<longrightarrow> may_access c uid tid (ch_id ch)}"
    by (auto simp: channel_listed_healthy [OF assms(1)])
  moreover have "\<forall>(cid, n) \<in> set ?counts. get_unread_count now c uid cid = Inr n"
    using unread_count_team [OF counts _ assms(1)] by blast
  moreover have "map fst ?counts = map ch_id (team_channels c tid)" by (simp add: comp_def)
  moreover have "set ?pins = {p \<in> set (c_pins c). pm_team_id p = tid}" by auto
  ultimately show ?thesis using kvs fields by blast
qed

text \<open>Bob does not hold the role of the hidden channel \<open>ch\<close>: it is not listed, and it is named all the same.\<close>

definition sample_hidden :: conn where
  "sample_hidden = sample_conn\<lparr>c_channels := map (\<lambda>ch. ch\<lparr>ch_hidden_if_restricted := True\<rparr>) (c_channels sample_conn), c_member_roles := []\<rparr>"

theorem sync_names_hidden_channels_witness:
  "\<exists>kvs n. sync_init toy_crypto ''now'' (Some room_new) ''bob'' ''t'' sample_hidden = Inr (JObj kvs)
    \<and> map_of kvs ''channels'' = Some (JArr []) \<and> map_of kvs ''unread_counts'' = Some (JObj [(''ch'', JNum n)])"
proof -
  have h: "healthy sample_hidden" by (simp add: sample_hidden_def sample_conn_def empty_conn_def healthy_def)
  have all: "map ch_id (team_channels sample_hidden ''t'') = [''ch'']"
    by (simp add: sample_hidden_def sample_conn_def rows_where_def)
  have none: "{ch \<in> set (team_channels sample_hidden ''t''). channel_hidden sample_hidden ch \<longrightarrow> may_access sample_hidden ''bob'' ''t'' (ch_id ch)} = {}"
    by (simp add: sample_hidden_def sample_conn_def rows_where_def channel_hidden_def may_access_def gating_roles_def owns_team_def default_role_id_def)
  from sync_names_hidden_channels [OF h, of toy_crypto "''now''" room_new "''bob''" "''t''"]
  obtain kvs listed counts where "sync_init toy_crypto ''now'' (Some room_new) ''bob'' ''t'' sample_hidden = Inr (JObj kvs)"
    and "map_of kvs ''channels'' = Some (JArr (map (sync_channel sample_hidden) listed))" and l: "set listed = {}"
    and "map_of kvs ''unread_counts'' = Some (JObj (map (\<lambda>(cid, n). (cid, JNum n)) counts))" and n: "map fst counts = [''ch'']"
    unfolding none all by (elim exE conjE) (rule that)
  moreover from n obtain k where "counts = [(''ch'', k)]" by (cases counts) auto
  ultimately show ?thesis by simp
qed

text \<open>The comment on the counters promises only channels with unread messages; none is left out.\<close>

lemma counters_name_read_channels:
  "healthy c \<Longrightarrow> ch \<in> set (c_channels c) \<Longrightarrow> \<exists>counts. get_unread_counts_for_team now c uid (ch_team_id ch) = Inr counts \<and> ch_id ch \<in> fst ` set counts"
  by (auto simp: get_unread_counts_for_team_def image_image)

text \<open>A channel that was never marked as read shows no unread message that is older than the request.\<close>

lemma unopened_shows_nothing:
  assumes "healthy c" and "(uid, cid) \<notin> fst ` set (c_channel_reads c)" and "\<forall>m \<in> set (c_messages c). msg_created_at m \<le> now"
  shows "get_unread_count now c uid cid = Inr 0"
proof -
  have "rows_where (\<lambda>p. fst p = (uid, cid)) (c_channel_reads c) = []" using assms(2) by (force simp: rows_where_eq_Nil)
  then have "read_until now c uid cid = now" by (simp add: read_until_def)
  moreover have "rows_where (\<lambda>m. msg_channel_id m = cid \<and> \<not> msg_deleted m \<and> msg_created_at m > now) (c_messages c) = []"
    using assms(3) by (auto simp: rows_where_eq_Nil)
  ultimately show ?thesis using assms(1) by (simp add: get_unread_count_def)
qed

end
