(* ===== verification/Ws_Session.thy ===== *)
theory Ws_Session
  imports Ws_Sync
begin

section \<open>WebSocket session: the connection\<close>

text \<open>
  \<open>ws/client.rs\<close>: what a connection does when it opens, the dispatch of its events over all handlers, and its read pump.
  Both pumps are tasks of their own. The read pump wakes up for a frame or at its deadline; a wake carries the time, the
  state of the hub at that moment, and the clocks and fresh ids of the handler. The write pump copies bytes to the socket
  and pings; of it only its end matters, which is a failed send. The connection is unregistered when the first of them
  ends, and the other one is not stopped. A relay of telemetry sends its events out of the server and changes nothing here.
\<close>

subsection \<open>Dispatch\<close>

record session =
  ss_client_id :: string
  ss_user_id :: string
  ss_username :: string
  ss_team_id :: string

text \<open>What the handlers use beside the state: libraries and the SFU, fixed; clocks and fresh ids, new for each event.\<close>

record session_port =
  sn_crypto :: crypto
  sn_js :: json_lib
  sn_sfu :: "sfu_port option"
  sn_epoch :: "string \<Rightarrow> int option"

record event_env =
  ee_now :: string
  ee_now_ts :: int
  ee_instant :: int
  ee_new_id :: string
  ee_audit_id :: string

definition parse_event :: "json \<Rightarrow> event option" where
  "parse_event v = Option.bind (fields_of [''type'', ''payload''] v) (\<lambda>kvs.
     Option.bind (field_str kvs ''type'') (\<lambda>ty.
     Option.bind (field_value_default kvs ''payload'') (\<lambda>payload.
       Some \<lparr>ev_type = ty, ev_payload = payload\<rparr>)))"

definition handle_event :: "session_port \<Rightarrow> hub \<Rightarrow> session \<Rightarrow> event_env \<Rightarrow> event \<Rightarrow> world \<Rightarrow> world" where
  "handle_event P h s e event =
     (let ty = ev_type event; payload = ev_payload event; cid = ss_client_id s; uid = ss_user_id s; uname = ss_username s;
          tid = ss_team_id s; now = ee_now e
      in if ty \<in> {EVENT_CHANNEL_JOIN, EVENT_CHANNEL_LEAVE} then handle_channel_event h cid uid tid ty payload
      else if ty = EVENT_MESSAGE_SEND
        then handle_message_send (sn_epoch P) (ee_now_ts e) (ee_new_id e) now uid uname tid payload
      else if ty = EVENT_MESSAGE_EDIT then handle_message_edit (ee_audit_id e) now uid payload
      else if ty = EVENT_MESSAGE_DELETE then handle_message_delete (ee_audit_id e) now uid payload
      else if ty \<in> {EVENT_TYPING_START, EVENT_TYPING_STOP} then handle_typing h (ee_instant e) cid uid uname tid payload
      else if ty = EVENT_PRESENCE_UPDATE then handle_presence_update uid payload
      else if ty = EVENT_PING then handle_ping uid
      else if ty = EVENT_REQUEST then on_payload (parse_request_event payload) (handle_session_request (sn_crypto P) now uid tid)
      else if ty \<in> {EVENT_REACTION_ADD, EVENT_REACTION_REMOVE} then handle_reaction_event (ee_new_id e) now uid tid ty payload
      else if ty \<in> {EVENT_THREAD_MESSAGE_SEND, EVENT_THREAD_MESSAGE_EDIT, EVENT_THREAD_MESSAGE_REMOVE}
        then handle_thread_event (ee_new_id e) now uid tid ty payload
      else if ty = EVENT_CHANNEL_KEY_DISTRIBUTE then handle_channel_key_distribute uid payload
      else if ty \<in> {EVENT_VOICE_JOIN, EVENT_VOICE_LEAVE, EVENT_VOICE_ANSWER, EVENT_VOICE_ICE_CANDIDATE, EVENT_VOICE_MUTE,
          EVENT_VOICE_DEAFEN, EVENT_VOICE_FORCE_MUTE, EVENT_VOICE_FORCE_DISCONNECT, EVENT_VOICE_LATENCY,
          EVENT_VOICE_SCREEN_START, EVENT_VOICE_SCREEN_STOP, EVENT_VOICE_WEBCAM_START, EVENT_VOICE_WEBCAM_STOP,
          EVENT_VOICE_KEY_DISTRIBUTE, EVENT_VOICE_INVITE}
        then handle_voice_event (sn_sfu P) (ee_audit_id e) now cid uid uname tid ty payload
      else if ty = ACTION_CHANNEL_READ then handle_channel_mark_read now uid tid payload
      else if ty \<in> {EVENT_DM_MESSAGE_SEND, EVENT_DM_MESSAGE_EDIT, EVENT_DM_MESSAGE_DELETE}
        then handle_dm_message_event (ee_new_id e) now uid uname ty payload
      else if ty \<in> {EVENT_DM_TYPING_START, EVENT_DM_TYPING_STOP} then handle_dm_typing uid uname payload
      else (\<lambda>w. w))"

subsection \<open>The pump\<close>

definition PONG_WAIT :: int where "PONG_WAIT = 60000"
definition MAX_MESSAGE_SIZE :: nat where "MAX_MESSAGE_SIZE = 16 * 1024"

datatype incoming = WsText string | WsPong | WsOther | WsClosed

text \<open>Times in milliseconds. \<open>WsClosed\<close> is a close frame, an error or the end of the stream; \<open>WsOther\<close> a binary or ping frame.\<close>

datatype wake = Arrived int incoming | DeadlinePassed int | SendFailed

record pump =
  pu_last_pong :: int
  pu_reading :: bool
  pu_writing :: bool
  pu_registered :: bool

definition open_session :: "int \<Rightarrow> session \<Rightarrow> world \<Rightarrow> pump \<times> world" where
  "open_session t s w =
     (let w = send (Register \<lparr>cl_id = ss_client_id s, cl_user_id = ss_user_id s, cl_username = ss_username s,
            cl_team_id = ss_team_id s\<rparr>) w;
          w = (case w_rooms w of None \<Rightarrow> w
            | Some rm \<Rightarrow> send_to_user (ss_user_id s) (event_new EVENT_VOICE_ROOMS_SNAPSHOT
                (JObj [(''team_id'', JStr (ss_team_id s)), (''rooms'', rooms_json rm (ss_team_id s))])) w)
      in (\<lparr>pu_last_pong = t, pu_reading = True, pu_writing = True, pu_registered = True\<rparr>, w))"

definition unregister_once :: "session \<Rightarrow> pump \<times> world \<Rightarrow> pump \<times> world" where
  "unregister_once s = (\<lambda>(p, w). if pu_registered p
     then (p\<lparr>pu_registered := False\<rparr>, send (Unregister (ss_client_id s)) w) else (p, w))"

definition stop_reading :: "session \<Rightarrow> pump \<times> world \<Rightarrow> pump \<times> world" where
  "stop_reading s = (\<lambda>(p, w). unregister_once s (p\<lparr>pu_reading := False\<rparr>, w))"

definition reap_if_late :: "session \<Rightarrow> int \<Rightarrow> pump \<times> world \<Rightarrow> pump \<times> world" where
  "reap_if_late s t = (\<lambda>(p, w). if t - pu_last_pong p > PONG_WAIT then stop_reading s (p, w) else (p, w))"

definition handle_text :: "session_port \<Rightarrow> hub \<Rightarrow> session \<Rightarrow> event_env \<Rightarrow> string \<Rightarrow> world \<Rightarrow> world" where
  "handle_text P h s e frame w =
     (let w = emit (ClientActivity (ss_user_id s)) w
      in (case Option.bind (js_from_str (sn_js P) frame) parse_event of
            None \<Rightarrow> w | Some event \<Rightarrow> handle_event P h s e event w))"

definition read_step :: "session_port \<Rightarrow> session \<Rightarrow> hub \<Rightarrow> event_env \<Rightarrow> int \<Rightarrow> incoming \<Rightarrow> pump \<times> world \<Rightarrow> pump \<times> world" where
  "read_step P s h e t frame = (\<lambda>(p, w). case frame of
       WsClosed \<Rightarrow> stop_reading s (p, w)
     | WsPong \<Rightarrow> (p\<lparr>pu_last_pong := t\<rparr>, w)
     | WsOther \<Rightarrow> reap_if_late s t (p, w)
     | WsText str \<Rightarrow> if length str > MAX_MESSAGE_SIZE then (p, w) else reap_if_late s t (p, handle_text P h s e str w))"

definition pump_step :: "session_port \<Rightarrow> session \<Rightarrow> pump \<times> world \<Rightarrow> hub \<times> event_env \<times> wake \<Rightarrow> pump \<times> world" where
  "pump_step P s = (\<lambda>(p, w) (h, e, wk). case wk of
       SendFailed \<Rightarrow> if pu_writing p then unregister_once s (p\<lparr>pu_writing := False\<rparr>, w) else (p, w)
     | DeadlinePassed t \<Rightarrow> if pu_reading p \<and> t \<ge> pu_last_pong p + PONG_WAIT then stop_reading s (p, w) else (p, w)
     | Arrived t frame \<Rightarrow> if pu_reading p then read_step P s h e t frame (p, w) else (p, w))"

text \<open>The hub hands the events of a session to the consumer that \<open>main.rs\<close> spawned, in order, while the session goes on:
  the first \<open>n\<close> of its messages have been looked at. In between come the events that the hub makes itself, of this and of
  other connections: that a user came or went, or a voice connection closed.\<close>

datatype session_turn = Woken "hub \<times> event_env \<times> wake" | Consumed int string | HubMade int string hub_event

definition session_step ::
  "session_port \<Rightarrow> session \<Rightarrow> nat \<times> presence_mgr \<times> pump \<times> world \<Rightarrow> session_turn \<Rightarrow> nat \<times> presence_mgr \<times> pump \<times> world" where
  "session_step P s = (\<lambda>(n, pm, p, w) x. case x of
       Woken y \<Rightarrow> (n, pm, pump_step P s (p, w) y)
     | Consumed now_ts now \<Rightarrow> (if n \<ge> length (w_out w) then (n, pm, p, w)
         else case w_out w ! n of
             EmitEvent e \<Rightarrow> (case handle_hub_event (sn_sfu P) now_ts now e (pm, w) of (pm', w') \<Rightarrow> (Suc n, pm', p, w'))
           | _ \<Rightarrow> (Suc n, pm, p, w))
     | HubMade now_ts now e \<Rightarrow> (case e of
           PresenceUpdateEv uid st cu \<Rightarrow> (n, pm, p, w)
         | _ \<Rightarrow> (case handle_hub_event (sn_sfu P) now_ts now e (pm, w) of (pm', w') \<Rightarrow> (n, pm', p, w'))))"

definition session_world :: "nat \<times> presence_mgr \<times> pump \<times> world \<Rightarrow> world" where
  "session_world = (\<lambda>(n, pm, p, w). w)"

subsection \<open>What a session can change\<close>

text \<open>The tables a session writes: messages, attachments, reactions, threads, read marks, the audit log, and the users.\<close>

definition with_content :: "conn \<Rightarrow> conn \<Rightarrow> conn" where
  "with_content c d = d\<lparr>c_messages := c_messages c, c_attachments := c_attachments c, c_audit := c_audit c,
     c_reactions := c_reactions c, c_threads := c_threads c, c_channel_reads := c_channel_reads c, c_users := c_users c\<rparr>"

text \<open>What belongs to other users there.\<close>

definition others :: "string \<Rightarrow> conn \<Rightarrow> message list \<times> reaction list \<times> ((string \<times> string) \<times> string \<times> string) list" where
  "others uid c = (filter (\<lambda>m. msg_author_id m \<noteq> uid) (c_messages c), filter (\<lambda>r. rx_user_id r \<noteq> uid) (c_reactions c),
     filter (\<lambda>p. fst (fst p) \<noteq> uid) (c_channel_reads c))"

text \<open>Of the users table the own row may change, and of it the status and the time of the change.\<close>

definition same_but_status :: "string \<Rightarrow> user \<Rightarrow> user \<Rightarrow> bool" where
  "same_but_status uid x y \<longleftrightarrow> x = y \<or> u_id x = uid
     \<and> y = x\<lparr>u_status_type := u_status_type y, u_status_text := u_status_text y, u_updated_at := u_updated_at y\<rparr>"

lemma same_but_status_refl [simp]: "list_all2 (same_but_status uid) us us"
  by (rule list_all2_refl) (simp add: same_but_status_def)

lemma same_but_status_trans:
  "list_all2 (same_but_status uid) us vs \<Longrightarrow> list_all2 (same_but_status uid) vs ws \<Longrightarrow> list_all2 (same_but_status uid) us ws"
proof (erule list_all2_trans [rotated])
  fix x y z assume "same_but_status uid x y" "same_but_status uid y z"
  then show "same_but_status uid x z"
    by (cases x; cases y; cases z) (auto simp: same_but_status_def)
qed

definition confined :: "string \<Rightarrow> conn \<Rightarrow> conn \<Rightarrow> bool" where
  "confined uid c c' \<longleftrightarrow> with_content c c' = c \<and> list_all2 (same_but_status uid) (c_users c) (c_users c') \<and> (distinct (map msg_id (c_messages c))
     \<longrightarrow> distinct (map msg_id (c_messages c')) \<and> others uid c' = others uid c)"

lemma confined_refl [simp]: "confined uid c c"
  by (simp add: confined_def with_content_def)

lemma with_content_twice: "with_content c (with_content d e) = with_content c e"
  by (simp add: with_content_def)

lemma confined_trans: "confined uid c d \<Longrightarrow> confined uid d e \<Longrightarrow> confined uid c e"
  unfolding confined_def by (metis with_content_twice same_but_status_trans)

lemma confined_exec:
  assumes "\<And>c'. upd c = Some c' \<Longrightarrow> confined uid c c'"
  shows "confined uid c (snd (exec f upd c))"
  using assms by (auto simp: exec_def split: option.split)

lemma confined_audit [simp]: "confined uid c (c\<lparr>c_audit := as\<rparr>)"
  by (simp add: confined_def with_content_def others_def)

lemma confined_bind:
  "confined uid c (snd (m c)) \<Longrightarrow> (\<And>x t. confined uid t (snd (f x t))) \<Longrightarrow> confined uid c (snd (bindS m f c))"
  by (rule bindS_keeps_from) (auto intro: confined_trans)

lemma confined_event: "confined uid c (snd (insert_audit_event i n t a ac tt ti d c))"
  using insert_audit_event_state [of i n t a ac tt ti d c] by auto

lemma filter_map_other:
  assumes "\<And>x. x \<in> set xs \<Longrightarrow> P x \<Longrightarrow> g x = x" and "\<And>x. x \<in> set xs \<Longrightarrow> \<not> P x \<Longrightarrow> \<not> P (g x)"
  shows "filter P (map g xs) = filter P xs"
  using assms by (induction xs) auto

lemma confined_own_rewrite:
  assumes own: "m \<in> set (c_messages c)" "msg_id m = mid" "msg_author_id m = uid"
    and f: "\<And>m. msg_id (f m) = msg_id m" "\<And>m. msg_author_id (f m) = msg_author_id m"
  shows "confined uid c (c\<lparr>c_messages := update_where (\<lambda>m. msg_id m = mid) f (c_messages c)\<rparr>)"
proof -
  have "filter (\<lambda>m. msg_author_id m \<noteq> uid) (update_where (\<lambda>m. msg_id m = mid) f (c_messages c)) = filter (\<lambda>m. msg_author_id m \<noteq> uid) (c_messages c)"
    if "distinct (map msg_id (c_messages c))"
  proof -
    have all: "msg_author_id x = uid" if "x \<in> set (c_messages c)" "msg_id x = mid" for x
      using that own \<open>distinct (map msg_id (c_messages c))\<close> by (metis distinct_map inj_onD)
    show ?thesis unfolding update_where_def by (rule filter_map_other) (use f all in auto)
  qed
  moreover have "map msg_id (update_where (\<lambda>m. msg_id m = mid) f (c_messages c)) = map msg_id (c_messages c)"
    using f(1) by (simp add: update_where_def comp_def)
  ultimately show ?thesis by (simp add: confined_def with_content_def others_def)
qed

lemma own_message_row: "own_message mid uid c = Inr () \<Longrightarrow> \<exists>m \<in> set (c_messages c). msg_id m = mid \<and> msg_author_id m = uid"
  by (auto simp: own_message_def split: option.splits if_splits dest!: get_message_by_id_SomeD)

lemma own_thread_message_row: "own_thread_message mid thid uid c = Inr () \<Longrightarrow> \<exists>m \<in> set (c_messages c). msg_id m = mid \<and> msg_author_id m = uid"
  by (auto simp: own_thread_message_def split: option.splits if_splits dest!: get_message_by_id_SomeD)

lemma confined_rewrites:
  assumes "\<exists>m \<in> set (c_messages c). msg_id m = mid \<and> msg_author_id m = uid"
  shows "confined uid c (snd (update_message_content now mid content c))" "confined uid c (snd (soft_delete_message mid c))"
  using assms unfolding update_message_content_def soft_delete_message_def
  by (auto intro!: confined_exec confined_own_rewrite)

lemma confined_new_message:
  assumes "msg_author_id m = uid" and "msg_id m \<notin> msg_id ` set (c_messages c)"
  shows "confined uid c (c\<lparr>c_messages := c_messages c @ [m]\<rparr>)"
  using assms by (auto simp: confined_def with_content_def others_def)

lemma confined_messages:
  assumes "msg_author_id m = uid"
  shows "confined uid c (snd (create_message m c))" "confined uid c (snd (create_thread_message now m c))"
proof -
  show "confined uid c (snd (create_message m c))"
    unfolding create_message_def using assms
    by (intro confined_exec) (auto simp: message_ok_def intro!: confined_new_message split: if_splits)
  show "confined uid c (snd (create_thread_message now m c))"
    unfolding create_thread_message_def using assms
    by (intro confined_bind confined_exec) (auto simp: message_ok_def Let_def confined_def with_content_def others_def split: if_splits)
qed

lemma confined_marks:
  "confined uid c (snd (add_reaction i n mid uid emoji c))" "confined uid c (snd (remove_reaction mid uid emoji c))"
  "confined uid c (snd (mark_channel_read n uid cid mid c))"
proof -
  show "confined uid c (snd (add_reaction i n mid uid emoji c))"
    unfolding add_reaction_def Let_def
    by (intro confined_bind confined_exec) (auto simp: confined_def with_content_def others_def split: if_splits)
  show "confined uid c (snd (remove_reaction mid uid emoji c))"
    unfolding remove_reaction_def
    by (intro confined_exec) (auto simp: confined_def with_content_def others_def delete_where_def intro!: filter_cong)
  have "filter (\<lambda>p. fst (fst p) \<noteq> uid) (update_where (\<lambda>p. fst p = (uid, cid)) (\<lambda>p. (fst p, mid, n)) rs) = filter (\<lambda>p. fst (fst p) \<noteq> uid) rs" for rs
    unfolding update_where_def by (rule filter_map_other) auto
  then show "confined uid c (snd (mark_channel_read n uid cid mid c))"
    unfolding mark_channel_read_def
    by (intro confined_exec) (auto simp: confined_def with_content_def others_def split: if_splits)
qed

subsection \<open>The handlers\<close>

lemma confined_run_db: "confined uid (w_conn w) (snd (f (w_conn w))) \<Longrightarrow> confined uid (w_conn w) (w_conn (snd (run_db f w)))"
  by (cases "f (w_conn w)") (simp add: run_db_def)

lemma confined_persist:
  assumes "msg_author_id m = uid"
  shows "confined uid c (snd (persist_message_and_attachments m aids c))"
proof -
  have "confined uid c (snd (bindS (create_message m) (\<lambda>_. for_eachS (\<lambda>aid. exec ''persist_message_and_attachments.link'' (\<lambda>c.
         Some (c\<lparr>c_attachments := update_where (\<lambda>a. a_id a = aid) (\<lambda>a. a\<lparr>a_message_id := msg_id m\<rparr>) (c_attachments c)\<rparr>))) aids) c))"
  proof (intro confined_bind confined_messages(1) [OF assms])
    fix x :: unit and t
    show "confined uid t (snd (for_eachS (\<lambda>aid. exec ''persist_message_and_attachments.link'' (\<lambda>c.
         Some (c\<lparr>c_attachments := update_where (\<lambda>a. a_id a = aid) (\<lambda>a. a\<lparr>a_message_id := msg_id m\<rparr>) (c_attachments c)\<rparr>))) aids t))"
    proof (rule for_eachS_keeps)
      fix aid d assume "confined uid t d"
      moreover have "confined uid d (d\<lparr>c_attachments := as\<rparr>)" for as by (simp add: confined_def with_content_def others_def)
      ultimately show "confined uid t (snd (exec ''persist_message_and_attachments.link'' (\<lambda>c.
         Some (c\<lparr>c_attachments := update_where (\<lambda>a. a_id a = aid) (\<lambda>a. a\<lparr>a_message_id := msg_id m\<rparr>) (c_attachments c)\<rparr>)) d))"
        by (blast intro: confined_trans confined_exec)
    qed simp
  qed
  moreover have "snd (case r of (Inl e, c') \<Rightarrow> (False, c') | (Inr u, c') \<Rightarrow> (True, c')) = snd r" for r :: "(db_error + unit) \<times> conn"
    by (cases r; cases "fst r") simp_all
  ultimately show ?thesis unfolding persist_message_and_attachments_def by simp
qed

text \<open>A handler that runs database code and then only sends.\<close>

lemma confined_then_send:
  assumes "confined uid (w_conn w) (snd (f (w_conn w)))" and "\<And>x w'. w_conn (g x w') = w_conn w'"
  shows "confined uid (w_conn w) (w_conn (case run_db f w of (Inl e, w') \<Rightarrow> w' | (Inr x, w') \<Rightarrow> g x w'))"
  using assms by (auto simp: run_db_def split: prod.split sum.split)

lemma confined_unless:
  "confined uid (w_conn w) (w_conn w') \<Longrightarrow> confined uid (w_conn w) (w_conn (if b then w else w'))"
  by simp

interpretation confined_kept: kept_property "confined uid c0" for uid c0
  by unfold_locales (rule confined_trans [OF _ confined_event])

lemma confined_rewrite_then:
  assumes "\<exists>m \<in> set (c_messages c). msg_id m = mid \<and> msg_author_id m = uid" and "\<And>x t. confined uid t (snd (f x t))"
  shows "confined uid c (snd (bindS (update_message_content now mid content) f c))"
    "confined uid c (snd (bindS (soft_delete_message mid) f c))"
  by (intro confined_bind confined_rewrites [OF assms(1)] assms(2))+

lemma confined_log:
  "confined uid t (snd (bindS (ignoreS (insert_audit_event i n tm a ac tt ti d)) (\<lambda>_. returnS True) t))"
  by (intro confined_bind) (simp_all add: confined_event)

lemma confined_edit: "confined uid c (snd (apply_message_edit a now mid content uid c))"
  unfolding apply_message_edit_def
proof (rule confined_kept.guarded [OF confined_refl])
  fix row assume row: "get_message_by_id c mid = Inr row"
  show "confined uid c (snd ((case row of None \<Rightarrow> returnS False
       | Some msg \<Rightarrow>
           if msg_author_id msg \<noteq> uid then returnS False
           else bindS (update_message_content now mid content) (\<lambda>_.
             if msg_content msg = content then returnS True
             else (\<lambda>c. case get_channel_by_id c (msg_channel_id msg) of
                 Inr (Some channel) \<Rightarrow> bindS (ignoreS (insert_audit_event a now (ch_team_id channel)
                     (Some uid) ''message.edit'' (Some ''message'') (Some mid)
                     (Some (JObj [(''channel_id'', JStr (msg_channel_id msg)), (''edited_at'', JStr now)]))))
                     (\<lambda>_. returnS True) c
               | _ \<Rightarrow> returnS True c))) c))"
  proof (cases row)
    case (Some msg)
    have "\<exists>m \<in> set (c_messages c). msg_id m = mid \<and> msg_author_id m = uid" if "msg_author_id msg = uid"
      using row Some that by (auto dest: get_message_by_id_SomeD)
    then show ?thesis
      unfolding Some by (auto intro!: confined_rewrite_then(1) confined_event confined_rewrites(1) split: sum.split option.split simp: confined_log)
  qed simp
qed

lemma confined_delete: "confined uid c (snd (apply_message_delete a now mid uid c))"
  unfolding apply_message_delete_def
proof (rule confined_kept.guarded [OF confined_refl])
  fix row assume row: "get_message_by_id c mid = Inr row"
  show "confined uid c (snd ((case row of None \<Rightarrow> returnS False
       | Some msg \<Rightarrow>
           if msg_deleted msg \<or> msg_author_id msg \<noteq> uid then returnS False
           else bindS (soft_delete_message mid) (\<lambda>_. (\<lambda>c. case get_channel_by_id c (msg_channel_id msg) of
               Inr (Some channel) \<Rightarrow> bindS (ignoreS (insert_audit_event a now (ch_team_id channel)
                   (Some uid) ''message.delete'' (Some ''message'') (Some mid)
                   (Some (JObj [(''channel_id'', JStr (msg_channel_id msg)), (''deleted_at'', JStr now)]))))
                   (\<lambda>_. returnS True) c
             | _ \<Rightarrow> returnS True c))) c))"
  proof (cases row)
    case (Some msg)
    have "\<exists>m \<in> set (c_messages c). msg_id m = mid \<and> msg_author_id m = uid" if "msg_author_id msg = uid"
      using row Some that by (auto dest: get_message_by_id_SomeD)
    then show ?thesis
      unfolding Some by (auto intro!: confined_rewrite_then(2) confined_event confined_rewrites(2) split: sum.split option.split simp: confined_log)
  qed simp
qed

text \<open>The handlers of messages: channels, threads, direct messages; then reactions and read marks.\<close>

lemma confined_message_handlers:
  "confined uid (w_conn w) (w_conn (handle_message_send ep nts i now uid un tid payload w))"
  "confined uid (w_conn w) (w_conn (handle_message_edit a now uid payload w))"
  "confined uid (w_conn w) (w_conn (handle_message_delete a now uid payload w))"
proof -
  have keep: "confined uid c (snd r) \<Longrightarrow> r = (x, c') \<Longrightarrow> confined uid c c'" for c r and x :: 'a and c' by simp
  show "confined uid (w_conn w) (w_conn (handle_message_send ep nts i now uid un tid payload w))"
    by (auto simp: handle_message_send_def send_slow_mode_rejection_def send_defs Let_def split: option.split prod.split
        intro!: keep [OF confined_persist])
  show "confined uid (w_conn w) (w_conn (handle_message_edit a now uid payload w))"
    by (auto simp: handle_message_edit_def send_defs Let_def split: option.split prod.split intro!: keep [OF confined_edit])
  show "confined uid (w_conn w) (w_conn (handle_message_delete a now uid payload w))"
    by (auto simp: handle_message_delete_def send_defs Let_def split: option.split prod.split intro!: keep [OF confined_delete])
qed

lemma dm_members_sel [simp]: "w_conn (broadcast_to_dm_members ms ev w) = w_conn w"
  by (induction ms arbitrary: w) (simp_all add: send_defs)

lemma thread_broadcast_sel [simp]:
  "w_conn (broadcast_thread_updated cid th w) = w_conn w" "w_conn (broadcast_thread_message_new cid thid msg w) = w_conn w"
  by (simp_all add: broadcast_thread_updated_def broadcast_thread_message_new_def send_defs split: option.split)

lemma confined_on_payload:
  "(\<And>p. confined uid (w_conn w) (w_conn (h p w))) \<Longrightarrow> confined uid (w_conn w) (w_conn (on_payload po h w))"
  by (simp add: on_payload_def split: option.split)

lemma confined_reactions: "confined uid (w_conn w) (w_conn (handle_reaction_event i now uid tid ty payload w))"
proof -
  have "confined uid (w_conn w) (w_conn (handle_reaction_add i now uid tid p w))"
    "confined uid (w_conn w) (w_conn (handle_reaction_remove uid tid p w))" for p
    unfolding handle_reaction_add_def handle_reaction_remove_def
    by (simp_all add: confined_then_send confined_marks send_defs)
  then show ?thesis unfolding handle_reaction_event_def by (intro confined_on_payload) simp
qed

lemma confined_read_mark: "confined uid (w_conn w) (w_conn (handle_channel_mark_read now uid tid payload w))"
proof (cases "parse_channel_mark_read_payload payload")
  case (Some p)
  let ?m = "bindS (readS (\<lambda>c. get_channel_by_id c (cm_channel_id p))) (\<lambda>channel.
              if (case channel of Some ch \<Rightarrow> ch_team_id ch = tid | None \<Rightarrow> False)
              then bindS (mark_channel_read now uid (cm_channel_id p) (cm_message_id p)) (\<lambda>_. returnS True)
              else returnS False)"
  have "confined uid c (snd (?m c))" for c
    by (intro confined_kept.guarded confined_refl) (simp add: confined_bind confined_marks)
  then show ?thesis
    using Some confined_run_db [of uid w ?m] by (auto simp: handle_channel_mark_read_def send_defs split: prod.split)
qed (simp add: handle_channel_mark_read_def)

lemma confined_threads: "confined uid (w_conn w) (w_conn (handle_thread_event i now uid tid ty payload w))"
proof -
  have "confined uid (w_conn w) (w_conn (handle_thread_message_send i now uid tid p w))" for p
  proof -
    have "confined uid c (snd (bindS (readS (\<lambda>c. bindE (get_thread c (ts_thread_id p)) (\<lambda>o1. ok_or o1 QueryReturnedNoRows))) (\<lambda>th.
           let msg = thread_message i now (th_channel_id th) uid (ts_thread_id p) (ts_content p) in
           bindS (create_thread_message now msg) (\<lambda>_.
           bindS (readS (\<lambda>c. get_thread c (ts_thread_id p))) (\<lambda>updated.
           returnS (msg, th_channel_id th, updated)))) c))" for c
      unfolding Let_def by (intro confined_kept.guarded confined_refl confined_bind confined_messages) (simp_all add: thread_message_def)
    then show ?thesis
      unfolding handle_thread_message_send_def
      by (intro confined_unless confined_then_send) (simp_all split: prod.split)
  qed
  moreover have "confined uid (w_conn w) (w_conn (handle_thread_message_edit now uid p w))" for p
    unfolding handle_thread_message_edit_def
    by (intro confined_then_send confined_kept.guarded confined_refl confined_rewrite_then(1)) (auto dest: own_thread_message_row simp: send_defs)
  moreover have "confined uid (w_conn w) (w_conn (handle_thread_message_remove uid p w))" for p
    unfolding handle_thread_message_remove_def
    by (intro confined_then_send confined_kept.guarded confined_refl confined_rewrite_then(2)) (auto dest: own_thread_message_row simp: send_defs)
  ultimately show ?thesis unfolding handle_thread_event_def by (simp add: confined_on_payload)
qed

lemma confined_direct: "confined uid (w_conn w) (w_conn (handle_dm_message_event i now uid un ty payload w))"
proof -
  have "confined uid (w_conn w) (w_conn (handle_dm_message_send i now uid un p w))" for p
    unfolding handle_dm_message_send_def Let_def
    by (simp add: confined_then_send confined_bind confined_messages dm_message_def)
  moreover have "confined uid (w_conn w) (w_conn (handle_dm_message_edit now uid p w))" for p
  proof -
    have "confined uid c (snd (bindS (readS (own_message (de_message_id p) uid)) (\<lambda>_.
           bindS (update_message_content now (de_message_id p) (de_content p)) (\<lambda>_.
           readS (\<lambda>c. get_dm_members c (de_dm_channel_id p)))) c))" for c
      by (intro confined_kept.guarded confined_refl confined_rewrite_then(1)) (auto dest: own_message_row)
    then show ?thesis unfolding handle_dm_message_edit_def by (simp add: confined_then_send)
  qed
  moreover have "confined uid (w_conn w) (w_conn (handle_dm_message_delete uid p w))" for p
  proof -
    have "confined uid c (snd (bindS (readS (own_message (dd_message_id p) uid)) (\<lambda>_.
           bindS (soft_delete_message (dd_message_id p)) (\<lambda>_.
           readS (\<lambda>c. get_dm_members c (dd_dm_channel_id p)))) c))" for c
      by (intro confined_kept.guarded confined_refl confined_rewrite_then(2)) (auto dest: own_message_row)
    then show ?thesis unfolding handle_dm_message_delete_def by (simp add: confined_then_send)
  qed
  ultimately show ?thesis unfolding handle_dm_message_event_def by (simp add: confined_on_payload)
qed

text \<open>The voice handlers write one audit row at most; the others write nothing.\<close>

lemma confined_moderation:
  "confined uid c (w_conn (audit_voice a now action actor tid target ch w))" if "w_conn w = c"
  using that confined_event by (simp add: audit_voice_def)

lemma silent_handlers [simp]:
  "w_conn (handle_channel_event h cid uid tid ty payload w) = w_conn w"
  "w_conn (handle_typing h n cid uid un tid payload w) = w_conn w"
  "w_conn (handle_presence_update uid payload w) = w_conn w" "w_conn (handle_ping uid w) = w_conn w"
  "w_conn (handle_channel_key_distribute uid payload w) = w_conn w"
  "w_conn (handle_dm_typing uid un payload w) = w_conn w"
  "w_conn (handle_session_request cr now uid tid req w) = w_conn w"
  by (simp_all add: handle_channel_event_def handle_typing_def handle_presence_update_def handle_ping_def Let_def
      handle_channel_key_distribute_def handle_dm_typing_def handle_session_request_def handle_request_def send_defs
      split: option.split sum.split)

lemma silent_voice [simp]:
  "w_conn (handle_voice_join_leave sfu cl uid un tid ty payload w) = w_conn w"
  "w_conn (handle_voice_signaling sfu uid ty payload w) = w_conn w"
  "w_conn (handle_voice_media sfu uid ty payload w) = w_conn w"
  "w_conn (handle_voice_key_distribute cl uid payload w) = w_conn w"
  "w_conn (handle_voice_latency uid lp w) = w_conn w" "w_conn (handle_voice_invite uid un tid ip w) = w_conn w"
  by (simp_all add: handle_voice_join_leave_def handle_voice_join_def handle_voice_leave_def handle_voice_signaling_def
      handle_voice_media_def handle_voice_key_distribute_def handle_voice_invite_def handle_voice_mute_def handle_voice_deafen_def
      handle_voice_screen_start_def handle_voice_screen_stop_def handle_voice_webcam_start_def handle_voice_webcam_stop_def
      on_payload_def voice_leaf_defs Let_def split: option.split prod.split)

lemma confined_voice: "confined uid (w_conn w) (w_conn (handle_voice_event sfu a now cl uid un tid ty payload w))"
proof -
  have "confined uid (w_conn w) (w_conn (handle_voice_force_mute a now uid tid p w))" for p
    unfolding handle_voice_force_mute_def Let_def
    by (auto intro!: confined_moderation simp: mute_update_def send_defs split: option.split)
  moreover have "confined uid (w_conn w) (w_conn (handle_voice_force_disconnect sfu a now uid tid p w))" for p
    unfolding handle_voice_force_disconnect_def Let_def
    by (auto intro!: confined_moderation simp: voice_leaf_defs)
  ultimately show ?thesis
    unfolding handle_voice_event_def by (simp add: confined_on_payload)
qed

lemma confined_handle_event: "confined (ss_user_id s) (w_conn w) (w_conn (handle_event P h s e event w))"
  unfolding handle_event_def Let_def
  by (simp add: confined_message_handlers confined_reactions confined_threads confined_direct confined_read_mark confined_voice
      confined_on_payload)

text \<open>What the consumer of the hub's events writes for a session: the status that it announced.\<close>

lemma confined_status: "confined uid c (snd (update_user_status now uid st cu c))"
proof -
  have "list_all2 (same_but_status uid) us (update_where (\<lambda>x. u_id x = uid)
      (\<lambda>x. x\<lparr>u_status_type := st, u_status_text := cu, u_updated_at := now\<rparr>) us)" for us
    by (induction us) (auto simp: update_where_def same_but_status_def)
  then show ?thesis
    unfolding update_user_status_def by (intro confined_exec) (auto simp: confined_def with_content_def others_def split: if_splits)
qed

lemma confined_consumed:
  assumes "\<And>u st cu. e = PresenceUpdateEv u st cu \<Longrightarrow> u = uid"
  shows "confined uid (w_conn w) (w_conn (snd (handle_hub_event sfu n now e (pm, w))))"
  using assms
  by (cases e) (simp_all add: handle_hub_event_def persist_presence_update_def confined_status cleanup_user_voice_state_def
      cleanup_channel_voice_state_def broadcast_voice_left_def send_defs Let_def split: option.split prod.split)

subsection \<open>Whose status a session announces\<close>

definition announces_own :: "string \<Rightarrow> world \<Rightarrow> bool" where
  "announces_own uid w \<longleftrightarrow> (\<forall>u st cu. EmitEvent (PresenceUpdateEv u st cu) \<in> set (w_out w) \<longrightarrow> u = uid)"

lemma announces_same [simp]:
  "announces_own uid (w\<lparr>w_conn := c\<rparr>) = announces_own uid w" "announces_own uid (w\<lparr>w_rooms := rm\<rparr>) = announces_own uid w"
  "announces_own uid (sfu_do sfu call w) = announces_own uid w" "announces_own uid (rooms_do f w) = announces_own uid w"
  "announces_own uid (audit_voice a n ac x t y d w) = announces_own uid w"
  by (simp_all add: announces_own_def)

lemma announces_send [simp]:
  "announces_own uid (send m w) \<longleftrightarrow> announces_own uid w \<and> (\<forall>u st cu. m = EmitEvent (PresenceUpdateEv u st cu) \<longrightarrow> u = uid)"
  by (auto simp: announces_own_def)

lemma announces_dm_members [simp]: "announces_own uid (broadcast_to_dm_members ms ev w) = announces_own uid w"
  by (induction ms arbitrary: w) (simp_all add: send_defs)

lemma announces_then_send:
  assumes "\<And>x w'. announces_own uid (g x w') = announces_own uid w'"
  shows "announces_own uid (case run_db f w of (Inl e, w') \<Rightarrow> w' | (Inr x, w') \<Rightarrow> g x w') = announces_own uid w"
  using assms by (auto simp: run_db_def split: prod.split sum.split)

lemma announces_on_payload:
  "(\<And>p. announces_own uid (h p w) = announces_own uid w) \<Longrightarrow> announces_own uid (on_payload po h w) = announces_own uid w"
  by (simp add: on_payload_def split: option.split)

lemma announces_presence [simp]: "announces_own uid (handle_presence_update uid payload w) = announces_own uid w"
  by (simp add: handle_presence_update_def send_defs split: option.split)

lemma announces_messages [simp]:
  "announces_own uid (handle_message_send ep nts i now u un tid payload w) = announces_own uid w"
  "announces_own uid (handle_message_edit a now u payload w) = announces_own uid w"
  "announces_own uid (handle_message_delete a now u payload w) = announces_own uid w"
  by (simp_all add: handle_message_send_def handle_message_edit_def handle_message_delete_def send_slow_mode_rejection_def
      send_defs Let_def split: option.split prod.split)

lemma announces_others [simp]:
  "announces_own uid (handle_channel_event h cid u tid ty payload w) = announces_own uid w"
  "announces_own uid (handle_typing h n cid u un tid payload w) = announces_own uid w"
  "announces_own uid (handle_ping u w) = announces_own uid w"
  "announces_own uid (handle_channel_key_distribute u payload w) = announces_own uid w"
  "announces_own uid (handle_dm_typing u un payload w) = announces_own uid w"
  "announces_own uid (handle_session_request cr now u tid req w) = announces_own uid w"
  by (simp_all add: handle_channel_event_def handle_typing_def handle_ping_def Let_def
      handle_channel_key_distribute_def handle_dm_typing_def handle_session_request_def handle_request_def send_defs
      split: option.split sum.split)

lemma announces_social [simp]:
  "announces_own uid (handle_reaction_event i now u tid ty payload w) = announces_own uid w"
  "announces_own uid (handle_channel_mark_read now u tid payload w) = announces_own uid w"
  "announces_own uid (handle_dm_message_event i now u un ty payload w) = announces_own uid w"
proof -
  have "announces_own uid (handle_reaction_add i now u tid p w) = announces_own uid w"
    "announces_own uid (handle_reaction_remove u tid p w) = announces_own uid w" for p
    unfolding handle_reaction_add_def handle_reaction_remove_def by (simp_all add: announces_then_send send_defs)
  then show "announces_own uid (handle_reaction_event i now u tid ty payload w) = announces_own uid w"
    unfolding handle_reaction_event_def by (intro announces_on_payload) simp
  show "announces_own uid (handle_channel_mark_read now u tid payload w) = announces_own uid w"
    by (auto simp: handle_channel_mark_read_def run_db_def send_defs split: option.split prod.split sum.split)
  have "announces_own uid (handle_dm_message_send i now u un p w) = announces_own uid w"
    "announces_own uid (handle_dm_message_edit now u q w) = announces_own uid w"
    "announces_own uid (handle_dm_message_delete u r w) = announces_own uid w" for p q r
    unfolding handle_dm_message_send_def handle_dm_message_edit_def handle_dm_message_delete_def Let_def
    by (simp_all add: announces_then_send)
  then show "announces_own uid (handle_dm_message_event i now u un ty payload w) = announces_own uid w"
    unfolding handle_dm_message_event_def by (simp add: announces_on_payload)
qed

lemma announces_threads [simp]: "announces_own uid (handle_thread_event i now u tid ty payload w) = announces_own uid w"
proof -
  have "announces_own uid (broadcast_thread_updated cid th w) = announces_own uid w"
    "announces_own uid (broadcast_thread_message_new cid thid msg w) = announces_own uid w" for cid th thid msg w
    by (simp_all add: broadcast_thread_updated_def broadcast_thread_message_new_def send_defs split: option.split)
  then have "announces_own uid (handle_thread_message_send i now u tid p w) = announces_own uid w"
    "announces_own uid (handle_thread_message_edit now u q w) = announces_own uid w"
    "announces_own uid (handle_thread_message_remove u r w) = announces_own uid w" for p q r
    unfolding handle_thread_message_send_def handle_thread_message_edit_def handle_thread_message_remove_def
    by (simp_all add: announces_then_send send_defs split: prod.split)
  then show ?thesis unfolding handle_thread_event_def by (simp add: announces_on_payload)
qed

lemma announces_voice [simp]: "announces_own uid (handle_voice_event sfu a now cl u un tid ty payload w) = announces_own uid w"
proof -
  have evict: "announces_own uid (process_eviction sfu cl u olds v) = announces_own uid v" for olds v
    by (induction olds arbitrary: v) (simp_all add: voice_leaf_defs)
  have state: "announces_own uid (send_voice_state ch u v) = announces_own uid v"
    "announces_own uid (initiate_sfu_join sfu ch u v) = announces_own uid v" for ch v
    by (simp_all add: send_voice_state_def initiate_sfu_join_def send_defs Let_def split: option.split)
  have "announces_own uid (handle_voice_join_leave sfu cl u un tid ty payload w) = announces_own uid w"
    "announces_own uid (handle_voice_signaling sfu u ty payload w) = announces_own uid w"
    "announces_own uid (handle_voice_media sfu u ty payload w) = announces_own uid w"
    "announces_own uid (handle_voice_key_distribute cl u payload w) = announces_own uid w"
    "announces_own uid (handle_voice_latency u lp w) = announces_own uid w"
    "announces_own uid (handle_voice_invite u un tid ip w) = announces_own uid w"
    "announces_own uid (handle_voice_force_mute a now u tid fm w) = announces_own uid w"
    "announces_own uid (handle_voice_force_disconnect sfu a now u tid fd w) = announces_own uid w" for lp ip fm fd
    by (simp_all add: handle_voice_join_leave_def handle_voice_join_def handle_voice_leave_def handle_voice_signaling_def
        handle_voice_media_def handle_voice_key_distribute_def handle_voice_invite_def handle_voice_mute_def handle_voice_deafen_def
        handle_voice_screen_start_def handle_voice_screen_stop_def handle_voice_webcam_start_def handle_voice_webcam_stop_def
        handle_voice_force_mute_def handle_voice_force_disconnect_def on_payload_def voice_leaf_defs Let_def evict state
        split: option.split prod.split)
  then show ?thesis unfolding handle_voice_event_def by (simp add: announces_on_payload)
qed

lemma announces_handle_event: "announces_own (ss_user_id s) (handle_event P h s e event w) = announces_own (ss_user_id s) w"
  unfolding handle_event_def Let_def by (simp add: announces_on_payload)

lemma announces_consumed: "announces_own uid (snd (handle_hub_event sfu n now e (pm, w))) = announces_own uid w"
proof -
  have "announces_own uid (cleanup_each sfu u cids v) = announces_own uid v" for u cids v
    by (induction cids arbitrary: v) (simp_all add: voice_leaf_defs)
  then show ?thesis
    by (cases e) (simp_all add: handle_hub_event_def persist_presence_update_def cleanup_user_voice_state_def
        cleanup_channel_voice_state_def voice_leaf_defs Let_def split: option.split prod.split)
qed

subsection \<open>The connection as a machine\<close>

lemma open_conn [simp]: "w_conn (snd (open_session t s w)) = w_conn w"
  by (simp add: open_session_def send_defs Let_def split: option.split)

lemma open_pump [simp]: "fst (open_session t s w) = \<lparr>pu_last_pong = t, pu_reading = True, pu_writing = True, pu_registered = True\<rparr>"
  by (simp add: open_session_def Let_def)

lemma stops_sel [simp]:
  "w_conn (snd (unregister_once s pw)) = w_conn (snd pw)" "w_conn (snd (stop_reading s pw)) = w_conn (snd pw)"
  "w_conn (snd (reap_if_late s t pw)) = w_conn (snd pw)"
  by (simp_all add: unregister_once_def stop_reading_def reap_if_late_def split: prod.split)

lemma confined_text: "confined (ss_user_id s) (w_conn w) (w_conn (handle_text P h s e str w))"
  using confined_handle_event [of s "emit (ClientActivity (ss_user_id s)) w"]
  by (simp add: handle_text_def Let_def send_defs split: option.split)

lemma announces_text: "announces_own (ss_user_id s) (handle_text P h s e str w) = announces_own (ss_user_id s) w"
  by (simp add: handle_text_def Let_def send_defs announces_handle_event split: option.split)

lemma announces_stops [simp]:
  "announces_own uid (snd (unregister_once s pw)) = announces_own uid (snd pw)"
  "announces_own uid (snd (stop_reading s pw)) = announces_own uid (snd pw)"
  "announces_own uid (snd (reap_if_late s t pw)) = announces_own uid (snd pw)"
  by (simp_all add: unregister_once_def stop_reading_def reap_if_late_def split: prod.split)

lemma pump_step_frame:
  "confined (ss_user_id s) (w_conn (snd pw)) (w_conn (snd (pump_step P s pw x)))"
  "announces_own (ss_user_id s) (snd (pump_step P s pw x)) = announces_own (ss_user_id s) (snd pw)"
proof -
  obtain p w h e wk where x: "pw = (p, w)" "x = (h, e, wk)" by (metis prod_cases3 surj_pair)
  show "confined (ss_user_id s) (w_conn (snd pw)) (w_conn (snd (pump_step P s pw x)))"
    unfolding x by (simp add: pump_step_def read_step_def confined_text split: wake.split incoming.split)
  show "announces_own (ss_user_id s) (snd (pump_step P s pw x)) = announces_own (ss_user_id s) (snd pw)"
    unfolding x by (simp add: pump_step_def read_step_def announces_text split: wake.split incoming.split)
qed

lemma session_step_frame:
  assumes "announces_own (ss_user_id s) (session_world st)"
  shows "confined (ss_user_id s) (w_conn (session_world st)) (w_conn (session_world (session_step P s st x)))
    \<and> announces_own (ss_user_id s) (session_world (session_step P s st x))"
proof -
  obtain n pm p w where st: "st = (n, pm, p, w)" by (metis prod_cases4)
  show ?thesis
  proof (cases x)
    case (Woken y)
    obtain p' w' where step: "pump_step P s (p, w) y = (p', w')" by fastforce
    have "confined (ss_user_id s) (w_conn w) (w_conn w')" "announces_own (ss_user_id s) w' = announces_own (ss_user_id s) w"
      using pump_step_frame [where s = s and P = P and pw = "(p, w)" and x = y] by (simp_all add: step)
    then show ?thesis using assms step by (simp add: Woken st session_step_def session_world_def)
  next
    case (Consumed now_ts now)
    show ?thesis
    proof (cases "\<exists>e. n < length (w_out w) \<and> w_out w ! n = EmitEvent e")
      case True
      then obtain e where e: "n < length (w_out w)" "w_out w ! n = EmitEvent e" by blast
      then have "EmitEvent e \<in> set (w_out w)" by (metis nth_mem)
      then have "u = ss_user_id s" if "e = PresenceUpdateEv u t cu" for u t cu
        using assms that by (auto simp: st session_world_def announces_own_def)
      then have "confined (ss_user_id s) (w_conn w) (w_conn (snd (handle_hub_event (sn_sfu P) now_ts now e (pm, w))))"
        by (rule confined_consumed)
      moreover obtain pm' w' where r: "handle_hub_event (sn_sfu P) now_ts now e (pm, w) = (pm', w')" by fastforce
      ultimately show ?thesis
        using assms e announces_consumed [of "ss_user_id s" "sn_sfu P" now_ts now e pm w]
        by (simp add: Consumed st session_step_def session_world_def)
    next
      case False
      then have "session_world (session_step P s st x) = w"
        by (auto simp: Consumed st session_step_def session_world_def split: hub_msg.split)
      then show ?thesis using assms by (simp add: st session_world_def)
    qed
  next
    case (HubMade now_ts now e)
    obtain pm' w' where r: "handle_hub_event (sn_sfu P) now_ts now e (pm, w) = (pm', w')" by fastforce
    show ?thesis
    proof (cases "\<exists>u t cu. e = PresenceUpdateEv u t cu")
      case True
      then show ?thesis using assms by (auto simp: HubMade st session_step_def session_world_def)
    next
      case False
      then have "session_world (session_step P s st x) = w'"
        using r by (cases e) (simp_all add: HubMade st session_step_def session_world_def)
      moreover have "confined (ss_user_id s) (w_conn w) (w_conn w')"
        using confined_consumed [of e "ss_user_id s" w "sn_sfu P" now_ts now pm] False r by auto
      ultimately show ?thesis
        using assms announces_consumed [of "ss_user_id s" "sn_sfu P" now_ts now e pm w] r by (simp add: st session_world_def)
    qed
  qed
qed

lemma session_run_frame:
  "announces_own (ss_user_id s) (session_world st)
    \<Longrightarrow> confined (ss_user_id s) (w_conn (session_world st)) (w_conn (session_world (run (session_step P s) st xs)))"
proof (induction xs arbitrary: st)
  case (Cons x xs)
  from session_step_frame [OF Cons.prems, of P x] Cons.IH [of "session_step P s st x"] show ?case by (auto intro: confined_trans)
qed simp

text \<open>C26. Whatever a client sends over its connection, in whatever order and at whatever time, and whenever the consumer of
  the hub's events takes up what the session emits: of the database only messages,
  attachments, reactions, threads, read marks, the audit log and the users table change; the messages and reactions of
  other users stay as they are, row by row, and so do their read marks; and of the users table only the own row does, in
  its status, its status text and the time of the change. \<open>w_out\<close> collects what the session sends.\<close>

theorem session_confined:
  assumes "distinct (map msg_id (c_messages (w_conn w)))" and "w_out w = []"
    and "c' = w_conn (session_world (run (session_step P s) (0, pm, open_session t s w) turns))"
  shows "with_content (w_conn w) c' = w_conn w \<and> others (ss_user_id s) c' = others (ss_user_id s) (w_conn w)
    \<and> list_all2 (same_but_status (ss_user_id s)) (c_users (w_conn w)) (c_users c')
    \<and> distinct (map msg_id (c_messages c'))"
proof -
  obtain p w1 where open1: "open_session t s w = (p, w1)" by fastforce
  then have "w_conn w1 = w_conn w" using open_conn [of t s w] by simp
  moreover have "announces_own (ss_user_id s) w1"
    using open1 assms(2) by (auto simp: open_session_def announces_own_def send_defs Let_def split: option.splits)
  ultimately show ?thesis
    using session_run_frame [of s "(0, pm, p, w1)" P turns] assms(1,3) open1 by (simp add: confined_def session_world_def)
qed

text \<open>Bob's client deletes his message, says that he is busy, sends a frame that cannot be read, and falls silent.\<close>

definition sample_session :: session where
  "sample_session = \<lparr>ss_client_id = ''c'', ss_user_id = ''bob'', ss_username = ''bob'', ss_team_id = ''t''\<rparr>"

definition sample_port :: session_port where
  "sample_port = \<lparr>sn_crypto = toy_crypto, sn_js = \<lparr>js_to_string = (\<lambda>_. []), js_from_str = (\<lambda>str. if str = ''d''
       then Some (JObj [(''type'', JStr EVENT_MESSAGE_DELETE),
         (''payload'', JObj [(''message_id'', JStr ''m''), (''channel_id'', JStr ''ch'')])])
       else if str = ''s'' then Some (JObj [(''type'', JStr EVENT_PRESENCE_UPDATE),
         (''payload'', JObj [(''user_id'', JStr ''eve''), (''status_type'', JStr ''dnd''), (''status_text'', JStr ''busy'')])]) else None)\<rparr>,
     sn_sfu = None, sn_epoch = (\<lambda>_. None)\<rparr>"

definition sample_env :: event_env where
  "sample_env = \<lparr>ee_now = ''now'', ee_now_ts = 0, ee_instant = 0, ee_new_id = ''x'', ee_audit_id = ''ae''\<rparr>"

definition sample_opened :: world where
  "sample_opened = \<lparr>w_conn = sample_chat, w_rooms = None, w_out = [], w_sfu = []\<rparr>"

definition sample_wakes :: "(hub \<times> event_env \<times> wake) list" where
  "sample_wakes = [(hub_new, sample_env, Arrived 5 (WsText ''d'')), (hub_new, sample_env, Arrived 6 (WsText ''?'')),
     (hub_new, sample_env, DeadlinePassed 60000)]"

definition sample_turns :: "session_turn list" where
  "sample_turns = Woken (hub_new, sample_env, Arrived 4 (WsText ''s'')) # map Woken sample_wakes
     @ replicate 3 (Consumed 7 ''later'') @ [HubMade 8 ''later'' (ClientDisconnected ''bob'')]"

theorem session_confined_witness:
  "let c' = w_conn (session_world (run (session_step sample_port sample_session)
      (0, presence_new, open_session 0 sample_session sample_opened) sample_turns))
   in others ''bob'' c' = others ''bob'' sample_chat \<and> map u_status_type (c_users c') \<noteq> map u_status_type (c_users sample_chat)"
proof -
  let ?c = "w_conn (session_world (run (session_step sample_port sample_session)
      (0, presence_new, open_session 0 sample_session sample_opened) sample_turns))"
  have "distinct (map msg_id (c_messages (w_conn sample_opened)))" "w_out sample_opened = []"
    by (simp_all add: sample_opened_def sample_chat_def)
  from session_confined [OF this refl, of sample_port sample_session presence_new 0 sample_turns]
  have "others ''bob'' ?c = others ''bob'' sample_chat"
    by (simp add: sample_session_def sample_opened_def del: run.simps)
  moreover have "map u_status_type (c_users ?c) \<noteq> map u_status_type (c_users sample_chat)" by code_simp
  ultimately show ?thesis by (simp add: Let_def del: run.simps)
qed

text \<open>The pongs stop. Without a pong and without a failed send the state of the pump depends only on whether it was reaped.\<close>

definition quiet :: "hub \<times> event_env \<times> wake \<Rightarrow> bool" where
  "quiet = (\<lambda>(h, e, wk). wk \<noteq> SendFailed \<and> (\<forall>t. wk \<noteq> Arrived t WsPong))"

definition pu_at :: "int \<Rightarrow> bool \<Rightarrow> pump" where
  "pu_at t b = \<lparr>pu_last_pong = t, pu_reading = b, pu_writing = True, pu_registered = b\<rparr>"

lemma quiet_step:
  assumes "quiet x" and "fst pw = pu_at t b"
  shows "\<exists>b'. fst (pump_step P s pw x) = pu_at t b' \<and> (b' \<longrightarrow> b)"
  using assms
  by (cases pw; cases x)
    (auto simp: pump_step_def read_step_def quiet_def pu_at_def reap_if_late_def stop_reading_def unregister_once_def
      split: wake.split incoming.split)

lemma quiet_run:
  "\<forall>x \<in> set wks. quiet x \<Longrightarrow> fst pw = pu_at t b \<Longrightarrow> \<exists>b'. fst (run (pump_step P s) pw wks) = pu_at t b' \<and> (b' \<longrightarrow> b)"
proof (induction wks arbitrary: pw b)
  case (Cons x wks)
  then obtain b1 where b1: "fst (pump_step P s pw x) = pu_at t b1" "b1 \<longrightarrow> b" using quiet_step by (metis list.set_intros(1))
  with Cons.IH [OF _ b1(1)] Cons.prems(1) show ?case by auto
qed auto

text \<open>C27. A peer that stops answering. Once the deadline of the last pong has passed, the server reads nothing more from
  the connection and has taken it out of the registry; but the writing half is not stopped, although the point of the
  deadline is to free the resources of such peers: it goes on pinging, and holds the socket, for as long as sends succeed.\<close>

theorem silent_session_reaped:
  assumes "\<forall>x \<in> set wks. quiet x" and "(h, e, DeadlinePassed t) \<in> set wks" and "t \<ge> t0 + PONG_WAIT"
  shows "fst (run (pump_step P s) (open_session t0 s w) wks)
    = \<lparr>pu_last_pong = t0, pu_reading = False, pu_writing = True, pu_registered = False\<rparr>"
proof -
  obtain xs ys where wks: "wks = xs @ (h, e, DeadlinePassed t) # ys" using split_list [OF assms(2)] by blast
  obtain b where b: "fst (run (pump_step P s) (open_session t0 s w) xs) = pu_at t0 b"
    using quiet_run [of xs "open_session t0 s w" t0 True P s] assms(1) wks by (auto simp: pu_at_def)
  then have "fst (pump_step P s (run (pump_step P s) (open_session t0 s w) xs) (h, e, DeadlinePassed t)) = pu_at t0 False"
    using assms(3)
    by (cases "run (pump_step P s) (open_session t0 s w) xs")
      (auto simp: pump_step_def pu_at_def stop_reading_def unregister_once_def)
  from quiet_run [OF _ this, of ys P s] assms(1) show ?thesis by (auto simp: wks run_append pu_at_def)
qed

theorem silent_session_reaped_witness:
  "pu_writing (fst (run (pump_step sample_port sample_session) (open_session 0 sample_session sample_opened) sample_wakes))"
proof -
  have "\<forall>x \<in> set sample_wakes. quiet x" by (simp add: sample_wakes_def quiet_def)
  moreover have "(hub_new, sample_env, DeadlinePassed 60000) \<in> set sample_wakes" by (simp add: sample_wakes_def)
  moreover have "(60000 :: int) \<ge> 0 + PONG_WAIT" by (simp add: PONG_WAIT_def)
  ultimately show ?thesis
    by (simp add: silent_session_reaped [of sample_wakes hub_new sample_env 60000 0 sample_port sample_session sample_opened] del: run.simps)
qed

text \<open>The other way round: a failed send takes the connection out of the registry, but its frames are still obeyed.\<close>

lemma unregistered_still_reads:
  assumes "pu_reading p" and "pu_registered p" and "pu_writing p" and "t - pu_last_pong p \<le> PONG_WAIT" and "length str \<le> MAX_MESSAGE_SIZE"
  shows "run (pump_step P s) (p, w) [(h, e, SendFailed), (h, e, Arrived t (WsText str))]
    = (p\<lparr>pu_writing := False, pu_registered := False\<rparr>, handle_text P h s e str (send (Unregister (ss_client_id s)) w))"
  using assms by (simp add: pump_step_def read_step_def unregister_once_def reap_if_late_def)

end
