(* ===== verification/Server_Config.thy ===== *)
theory Server_Config
  imports Outbound Auth
begin

section \<open>Start of the server: configuration and secrets\<close>

text \<open>
  \<open>config.rs\<close> and the part of \<open>main.rs\<close> that reads secrets from files and judges them. \<open>env\<close> is the environment,
  \<open>files\<close> is \<open>read_to_string\<close>. Two fields are left out: the server never reads \<open>rate_limit\<close> (a float), and \<open>Debug\<close>
  prints secrets as redacted. A port is a \<open>u16\<close>; without overflow checks, as in a release build, \<open>port + 1\<close> wraps.
\<close>

subsection \<open>Values of the environment\<close>

type_synonym environment = "string \<Rightarrow> string option"

definition env_str :: "environment \<Rightarrow> string \<Rightarrow> string \<Rightarrow> string" where
  "env_str env key fallback = (case env key of None \<Rightarrow> fallback | Some v \<Rightarrow> v)"

text \<open>\<open>from_str\<close> of the wider integers: an optional sign, decimal digits, and a bound.\<close>

fun digits_upto :: "int \<Rightarrow> int \<Rightarrow> string \<Rightarrow> int option" where
  "digits_upto bound acc [] = Some acc"
| "digits_upto bound acc (x # s) = (case digit_value x of
     None \<Rightarrow> None
   | Some v \<Rightarrow> if acc * 10 + int v \<le> bound then digits_upto bound (acc * 10 + int v) s else None)"

definition parse_unsigned :: "int \<Rightarrow> string \<Rightarrow> int option" where
  "parse_unsigned bound s = (let ds = (case s of [] \<Rightarrow> [] | x # t \<Rightarrow> if x = CHR ''+'' then t else s)
     in if ds = [] then None else digits_upto bound 0 ds)"

definition parse_i64 :: "string \<Rightarrow> int option" where
  "parse_i64 s = (case s of
     x # t \<Rightarrow> if x = CHR ''-'' then (if t = [] then None else map_option uminus (digits_upto (2 ^ 63) 0 t))
       else parse_unsigned (2 ^ 63 - 1) s
   | [] \<Rightarrow> None)"

definition env_u16 :: "environment \<Rightarrow> string \<Rightarrow> u16 \<Rightarrow> u16" where
  "env_u16 env key fallback = (case Option.bind (env key) parse_u16 of None \<Rightarrow> fallback | Some n \<Rightarrow> n)"

definition env_u32 :: "environment \<Rightarrow> string \<Rightarrow> int \<Rightarrow> int" where
  "env_u32 env key fallback = (case Option.bind (env key) (parse_unsigned (2 ^ 32 - 1)) of None \<Rightarrow> fallback | Some n \<Rightarrow> n)"

definition env_u64 :: "environment \<Rightarrow> string \<Rightarrow> int \<Rightarrow> int" where
  "env_u64 env key fallback = (case Option.bind (env key) (parse_unsigned (2 ^ 64 - 1)) of None \<Rightarrow> fallback | Some n \<Rightarrow> n)"

definition env_i64 :: "environment \<Rightarrow> string \<Rightarrow> int \<Rightarrow> int" where
  "env_i64 env key fallback = (case Option.bind (env key) parse_i64 of None \<Rightarrow> fallback | Some n \<Rightarrow> n)"

definition env_bool :: "environment \<Rightarrow> string \<Rightarrow> bool \<Rightarrow> bool" where
  "env_bool env key fallback = (case env key of None \<Rightarrow> fallback
     | Some v \<Rightarrow> eq_ignore_ascii_case v ''true'' \<or> v = ''1'')"

definition comma_list :: "string \<Rightarrow> string list" where
  "comma_list s = (if s = [] then [] else map trim (split_on CHR '','' s))"

subsection \<open>Configuration\<close>

record config =
  cf_port :: u16
  cf_data_dir :: string
  cf_db_passphrase :: string
  cf_tls_cert :: string
  cf_tls_key :: string
  cf_peers :: "string list"
  cf_team_name :: string
  cf_federation_port :: u16
  cf_node_name :: string
  cf_join_secret :: string
  cf_require_federation_v3 :: bool
  cf_tor_exit_list_path :: string
  cf_geoip_db_path :: string
  cf_fed_bind_addr :: string
  cf_fed_advert_addr :: string
  cf_fed_advert_port :: u16
  cf_max_upload_size :: int
  cf_upload_dir :: string
  cf_log_level :: string
  cf_log_format :: string
  cf_rate_burst :: int
  cf_ratelimit_per_second :: int
  cf_ratelimit_burst :: int
  cf_upload_quota_per_team_gb :: int
  cf_db_passphrase_file :: string
  cf_domain :: string
  cf_cf_turn_key_id :: string
  cf_cf_turn_api_token :: string
  cf_turn_mode :: string
  cf_turn_shared_secret :: string
  cf_turn_urls :: string
  cf_turn_ttl :: int
  cf_allowed_origins :: "string list"
  cf_trusted_proxies :: "string list"
  cf_insecure :: bool
  cf_theme_file :: string
  cf_seed_demo :: bool
  cf_browser_log_forward :: bool
  cf_telemetry_adapter :: string
  cf_sentry_dsn :: string
  cf_environment :: string
  cf_otel_enabled :: bool
  cf_otel_protocol :: string
  cf_otel_endpoint :: string
  cf_otel_http_endpoint :: string
  cf_otel_insecure :: bool
  cf_otel_service_name :: string
  cf_otel_api_key :: string
  cf_otel_api_header :: string

definition config_load :: "environment \<Rightarrow> config" where
  "config_load env =
     (let port = env_u16 env ''DILLA_PORT'' 8080;
          data_dir = env_str env ''DILLA_DATA_DIR'' ''./data'';
          federation_port = env_u16 env ''DILLA_FEDERATION_PORT'' 0;
          upload_dir = env_str env ''DILLA_UPLOAD_DIR'' []
      in \<lparr>cf_port = port, cf_data_dir = data_dir, cf_db_passphrase = env_str env ''DILLA_DB_PASSPHRASE'' [],
          cf_tls_cert = env_str env ''DILLA_TLS_CERT'' [], cf_tls_key = env_str env ''DILLA_TLS_KEY'' [],
          cf_peers = comma_list (env_str env ''DILLA_PEERS'' []), cf_team_name = env_str env ''DILLA_TEAM'' [],
          cf_federation_port = (if federation_port = 0 then port + 1 else federation_port),
          cf_node_name = env_str env ''DILLA_NODE_NAME'' [], cf_join_secret = env_str env ''DILLA_JOIN_SECRET'' [],
          cf_require_federation_v3 = env_bool env ''DILLA_FEDERATION_REQUIRE_V3'' False,
          cf_tor_exit_list_path = env_str env ''DILLA_TOR_EXIT_LIST_PATH'' [],
          cf_geoip_db_path = env_str env ''DILLA_GEOIP_DB_PATH'' [],
          cf_fed_bind_addr = env_str env ''DILLA_FED_BIND_ADDR'' ''0.0.0.0'',
          cf_fed_advert_addr = env_str env ''DILLA_FED_ADVERTISE_ADDR'' [],
          cf_fed_advert_port = env_u16 env ''DILLA_FED_ADVERTISE_PORT'' 0,
          cf_max_upload_size = env_i64 env ''DILLA_MAX_UPLOAD_SIZE'' (25 * 1024 * 1024),
          cf_upload_dir = (if upload_dir = [] then data_dir @ ''/uploads'' else upload_dir),
          cf_log_level = env_str env ''DILLA_LOG_LEVEL'' ''info'', cf_log_format = env_str env ''DILLA_LOG_FORMAT'' ''text'',
          cf_rate_burst = env_u32 env ''DILLA_RATE_BURST'' 200,
          cf_ratelimit_per_second = env_u64 env ''DILLA_RATELIMIT_PER_SECOND'' 30,
          cf_ratelimit_burst = env_u32 env ''DILLA_RATELIMIT_BURST'' 60,
          cf_upload_quota_per_team_gb = env_u64 env ''DILLA_UPLOAD_QUOTA_PER_TEAM_GB'' 10,
          cf_db_passphrase_file = env_str env ''DILLA_DB_PASSPHRASE_FILE'' [], cf_domain = env_str env ''DILLA_DOMAIN'' [],
          cf_cf_turn_key_id = env_str env ''DILLA_CF_TURN_KEY_ID'' [],
          cf_cf_turn_api_token = env_str env ''DILLA_CF_TURN_API_TOKEN'' [],
          cf_turn_mode = env_str env ''DILLA_TURN_MODE'' [],
          cf_turn_shared_secret = env_str env ''DILLA_TURN_SHARED_SECRET'' [],
          cf_turn_urls = env_str env ''DILLA_TURN_URLS'' [], cf_turn_ttl = env_u64 env ''DILLA_TURN_TTL'' 86400,
          cf_allowed_origins = comma_list (env_str env ''DILLA_ALLOWED_ORIGINS'' []),
          cf_trusted_proxies = comma_list (env_str env ''DILLA_TRUSTED_PROXIES'' []),
          cf_insecure = env_bool env ''DILLA_INSECURE'' False, cf_theme_file = env_str env ''DILLA_THEME_FILE'' [],
          cf_seed_demo = env_bool env ''DILLA_SEED_DEMO'' False,
          cf_browser_log_forward = env_bool env ''DILLA_BROWSER_LOG_FORWARD'' False,
          cf_telemetry_adapter = env_str env ''DILLA_TELEMETRY_ADAPTER'' ''none'',
          cf_sentry_dsn = env_str env ''DILLA_SENTRY_DSN'' [],
          cf_environment = env_str env ''DILLA_ENVIRONMENT'' ''production'',
          cf_otel_enabled = env_bool env ''DILLA_OTEL_ENABLED'' False,
          cf_otel_protocol = env_str env ''DILLA_OTEL_PROTOCOL'' ''http'',
          cf_otel_endpoint = env_str env ''DILLA_OTEL_ENDPOINT'' ''localhost:4317'',
          cf_otel_http_endpoint = env_str env ''DILLA_OTEL_HTTP_ENDPOINT'' [],
          cf_otel_insecure = env_bool env ''DILLA_OTEL_INSECURE'' False,
          cf_otel_service_name = env_str env ''DILLA_OTEL_SERVICE_NAME'' ''dilla-server'',
          cf_otel_api_key = env_str env ''DILLA_OTEL_API_KEY'' [],
          cf_otel_api_header = env_str env ''DILLA_OTEL_API_HEADER'' []\<rparr>)"

definition config_validate :: "config \<Rightarrow> string + unit" where
  "config_validate cfg =
     (if cf_port cfg = 0 \<or> cf_port cfg > 65534 then Inl (''invalid port: '' @ show_nat (unat (cf_port cfg)))
      else if cf_data_dir cfg = [] then Inl ''data-dir is required'' else Inr ())"

text \<open>The warnings, by what they say.\<close>

datatype start_warning = DatabaseUnencrypted bool | CorsAllowsAllOrigins

definition warn_insecure_defaults :: "config \<Rightarrow> start_warning list" where
  "warn_insecure_defaults cfg =
     (if cf_db_passphrase cfg = [] then [DatabaseUnencrypted (cf_insecure cfg)] else [])
     @ (if cf_allowed_origins cfg = [] then [CorsAllowsAllOrigins] else [])"

subsection \<open>Secrets from files\<close>

definition line_end :: "char \<Rightarrow> bool" where
  "line_end ch \<longleftrightarrow> char_byte ch \<in> {10, 13, 32, 9}"

definition trim_line_end :: "string \<Rightarrow> string" where
  "trim_line_end raw = rev (dropWhile line_end (rev raw))"

definition read_secret_file :: "(string \<Rightarrow> string + string) \<Rightarrow> string \<Rightarrow> string \<Rightarrow> string + string" where
  "read_secret_file files label path =
     bindE (map_err (\<lambda>e. label @ '': read '' @ path @ '': '' @ e) (files path)) (\<lambda>raw.
       if trim_line_end raw = [] then Inl (label @ '': file '' @ path @ '' exists but is empty after trim'')
       else Inr (trim_line_end raw))"

definition read_env_pointed_secret :: "(string \<Rightarrow> string + string) \<Rightarrow> environment \<Rightarrow> string \<Rightarrow> string + string option" where
  "read_env_pointed_secret files env var = (case env var of
     None \<Rightarrow> Inr None
   | Some path \<Rightarrow> if path = [] then Inr None else bindE (read_secret_file files var path) (\<lambda>s. Inr (Some s)))"

definition override :: "('a \<Rightarrow> 'b \<Rightarrow> 'b) \<Rightarrow> 'a option \<Rightarrow> 'b \<Rightarrow> 'b" where
  "override upd v x = (case v of None \<Rightarrow> x | Some s \<Rightarrow> upd s x)"

text \<open>The JWT secret goes back into the environment.\<close>

definition load_secrets_from_files ::
  "(string \<Rightarrow> string + string) \<Rightarrow> environment \<Rightarrow> config \<Rightarrow> string + environment \<times> config" where
  "load_secrets_from_files files env cfg =
     bindE (if cf_db_passphrase_file cfg = [] then Inr cfg
        else bindE (read_secret_file files ''DILLA_DB_PASSPHRASE_FILE'' (cf_db_passphrase_file cfg))
          (\<lambda>s. Inr (cfg\<lparr>cf_db_passphrase := s\<rparr>))) (\<lambda>cfg.
     bindE (read_env_pointed_secret files env ''DILLA_JWT_SECRET_FILE'') (\<lambda>jwt.
     let env = override (\<lambda>s env. env(''DILLA_JWT_SECRET'' := Some s)) jwt env in
     bindE (read_env_pointed_secret files env ''DILLA_JOIN_SECRET_FILE'') (\<lambda>join.
     let cfg = override (\<lambda>s cfg. cfg\<lparr>cf_join_secret := s\<rparr>) join cfg in
     bindE (read_env_pointed_secret files env ''DILLA_CF_TURN_API_TOKEN_FILE'') (\<lambda>turn.
     let cfg = override (\<lambda>s cfg. cfg\<lparr>cf_cf_turn_api_token := s\<rparr>) turn cfg in
     bindE (read_env_pointed_secret files env ''DILLA_OTEL_API_KEY_FILE'') (\<lambda>otel.
     let cfg = override (\<lambda>s cfg. cfg\<lparr>cf_otel_api_key := s\<rparr>) otel cfg in
     bindE (read_env_pointed_secret files env ''DILLA_SENTRY_DSN_FILE'') (\<lambda>dsn.
     Inr (env, override (\<lambda>s cfg. cfg\<lparr>cf_sentry_dsn := s\<rparr>) dsn cfg)))))))"

subsection \<open>Strength of the signing key\<close>

datatype jwt_strength = OkExplicit | OkStrongPass | InsecureEmptyPass | InsecureShortPass nat | RejectEmpty | RejectShort nat

definition check_jwt_secret_strength :: "environment \<Rightarrow> config \<Rightarrow> jwt_strength" where
  "check_jwt_secret_strength env cfg =
     (let pass_len = length (cf_db_passphrase cfg)
      in if (case env ''DILLA_JWT_SECRET'' of None \<Rightarrow> False | Some v \<Rightarrow> v \<noteq> []) then OkExplicit
      else if cf_db_passphrase cfg = [] then (if cf_insecure cfg then InsecureEmptyPass else RejectEmpty)
      else if pass_len < 32 then (if cf_insecure cfg then InsecureShortPass pass_len else RejectShort pass_len)
      else OkStrongPass)"

text \<open>Whether the start goes on.\<close>

definition enforce_jwt_secret_strength :: "environment \<Rightarrow> config \<Rightarrow> bool" where
  "enforce_jwt_secret_strength env cfg = (case check_jwt_secret_strength env cfg of
     OkExplicit \<Rightarrow> True | OkStrongPass \<Rightarrow> True | InsecureEmptyPass \<Rightarrow> True | InsecureShortPass n \<Rightarrow> True
   | RejectEmpty \<Rightarrow> False | RejectShort n \<Rightarrow> False)"

definition derive_node_name_for_auth :: "config \<Rightarrow> string" where
  "derive_node_name_for_auth cfg = (if cf_node_name cfg = [] then ''node-'' @ show_nat (unat (cf_port cfg)) else cf_node_name cfg)"

subsection \<open>How the server listens\<close>

text \<open>The bind address is \<open>0.0.0.0\<close> with the port of the configuration; a decimal \<open>u16\<close> always parses.\<close>

datatype server_start_mode = Tls u16 | Plaintext u16 | RejectPlaintext

definition start_server_mode :: "config \<Rightarrow> server_start_mode" where
  "start_server_mode cfg =
     (if cf_tls_cert cfg \<noteq> [] \<and> cf_tls_key cfg \<noteq> [] then Tls (cf_port cfg)
      else if cf_insecure cfg then Plaintext (cf_port cfg) else RejectPlaintext)"

subsection \<open>Lemmas\<close>

lemma digits_upto_bounds: "0 \<le> acc \<Longrightarrow> acc \<le> b \<Longrightarrow> digits_upto b acc s = Some n \<Longrightarrow> 0 \<le> n \<and> n \<le> b"
proof (induction s arbitrary: acc)
  case (Cons x s)
  then obtain v where v: "digit_value x = Some v" by (cases "digit_value x") simp_all
  show ?case
  proof (cases "acc * 10 + int v \<le> b")
    case True
    with v Cons.prems have "digits_upto b (acc * 10 + int v) s = Some n" by simp
    moreover have "0 \<le> acc * 10 + int v" using Cons.prems(1) by simp
    ultimately show ?thesis using Cons.IH True by blast
  qed (use v Cons.prems in simp)
qed simp

lemma parse_unsigned_bounds: 
  assumes "0 \<le> b" and "parse_unsigned b s = Some n"
  shows "0 \<le> n \<and> n \<le> b"
proof -
  obtain ds where "digits_upto b 0 ds = Some n"
    using assms(2) by (simp add: parse_unsigned_def Let_def split: if_splits)
  with assms(1) show ?thesis using digits_upto_bounds by blast
qed

text \<open>Whatever the environment says, the limits of the configuration are in the range of their types.\<close>

lemma config_limits:
  "0 \<le> cf_ratelimit_burst (config_load env) \<and> cf_ratelimit_burst (config_load env) < 2 ^ 32"
  "0 \<le> cf_ratelimit_per_second (config_load env) \<and> cf_ratelimit_per_second (config_load env) < 2 ^ 64"
  "0 \<le> cf_upload_quota_per_team_gb (config_load env) \<and> cf_upload_quota_per_team_gb (config_load env) < 2 ^ 64"
proof -
  have u32: "0 \<le> env_u32 env k d \<and> env_u32 env k d < 2 ^ 32" if "0 \<le> d" "d < 2 ^ 32" for k d
  proof (cases "Option.bind (env k) (parse_unsigned (2 ^ 32 - 1))")
    case (Some n)
    then obtain v where "parse_unsigned (2 ^ 32 - 1) v = Some n" by (auto simp: bind_eq_Some_conv)
    then have "0 \<le> n \<and> n \<le> 2 ^ 32 - 1" by (intro parse_unsigned_bounds) simp_all
    then have "0 \<le> n \<and> n < 2 ^ 32" by arith
    with Some show ?thesis unfolding env_u32_def by (simp del: power_numeral)
  qed (use that in \<open>simp add: env_u32_def\<close>)
  have u64: "0 \<le> env_u64 env k d \<and> env_u64 env k d < 2 ^ 64" if "0 \<le> d" "d < 2 ^ 64" for k d
  proof (cases "Option.bind (env k) (parse_unsigned (2 ^ 64 - 1))")
    case (Some n)
    then obtain v where "parse_unsigned (2 ^ 64 - 1) v = Some n" by (auto simp: bind_eq_Some_conv)
    then have "0 \<le> n \<and> n \<le> 2 ^ 64 - 1" by (intro parse_unsigned_bounds) simp_all
    then have "0 \<le> n \<and> n < 2 ^ 64" by arith
    with Some show ?thesis unfolding env_u64_def by (simp del: power_numeral)
  qed (use that in \<open>simp add: env_u64_def\<close>)
  show "0 \<le> cf_ratelimit_burst (config_load env) \<and> cf_ratelimit_burst (config_load env) < 2 ^ 32"
    using u32 by (simp add: config_load_def Let_def)
  show "0 \<le> cf_ratelimit_per_second (config_load env) \<and> cf_ratelimit_per_second (config_load env) < 2 ^ 64"
    "0 \<le> cf_upload_quota_per_team_gb (config_load env) \<and> cf_upload_quota_per_team_gb (config_load env) < 2 ^ 64"
    using u64 by (simp_all add: config_load_def Let_def)
qed

text \<open>The highest port makes the federation port wrap to zero; \<open>validate\<close> refuses it later.\<close>

lemma highest_port_wraps:
  assumes "env ''DILLA_PORT'' = Some ''65535''" and "env ''DILLA_FEDERATION_PORT'' = None"
  shows "cf_federation_port (config_load env) = 0 \<and> config_validate (config_load env) \<noteq> Inr ()"
proof -
  have "parse_u16 ''65535'' = Some 65535" by (simp add: parse_u16_def digit_value_def char_byte_def)
  then have "cf_port (config_load env) = 65535" using assms(1) by (simp add: config_load_def env_u16_def Let_def)
  moreover have "cf_federation_port (config_load env) = cf_port (config_load env) + 1"
    using assms(2) by (simp add: config_load_def env_u16_def Let_def)
  ultimately show ?thesis by (simp add: config_validate_def)
qed

text \<open>A secret from a file is never empty and has no white space at its end.\<close>

lemma read_secret_file_InrD:
  assumes "read_secret_file files label path = Inr s"
  shows "s \<noteq> [] \<and> \<not> line_end (last s) \<and> (\<exists>raw rest. files path = Inr raw \<and> raw = s @ rest \<and> (\<forall>ch \<in> set rest. line_end ch))"
proof -
  obtain raw where raw: "files path = Inr raw" "s = trim_line_end raw" "s \<noteq> []"
    using assms by (cases "files path") (auto simp: read_secret_file_def map_err_def bindE_def split: if_splits)
  let ?r = "rev raw"
  have "last s = hd (dropWhile line_end ?r)" using raw by (simp add: trim_line_end_def last_rev)
  moreover have "dropWhile line_end ?r \<noteq> []" using raw by (simp add: trim_line_end_def)
  ultimately have "\<not> line_end (last s)" by (simp add: hd_dropWhile)
  moreover have "rev (takeWhile line_end ?r @ dropWhile line_end ?r) = raw" by simp
  then have "raw = s @ rev (takeWhile line_end ?r)" unfolding rev_append raw(2) trim_line_end_def by (rule sym)
  moreover have "\<forall>ch \<in> set (rev (takeWhile line_end ?r)). line_end ch" by (auto dest: set_takeWhileD)
  ultimately show ?thesis using raw by blast
qed

text \<open>An explicit secret of any length passes, although the message on a refusal asks for 32 bytes.\<close>

lemma short_explicit_secret_passes:
  "env ''DILLA_JWT_SECRET'' = Some [ch] \<Longrightarrow> enforce_jwt_secret_strength env cfg
     \<and> derive_jwt_secret hkdf (env ''DILLA_JWT_SECRET'') rnd (cf_db_passphrase cfg) = hkdf (as_bytes [ch])"
  by (simp add: enforce_jwt_secret_strength_def check_jwt_secret_strength_def derive_jwt_secret_def)

end
