(* ===== verification/Db_Open.thy ===== *)
theory Db_Open
  imports Server_Config Uploads_Api
begin

section \<open>Start of the server: the database\<close>

text \<open>
  \<open>db/mod.rs\<close>: the migrations, the pool of readers, the small helpers; and the first start of \<open>main.rs\<close>. What a script
  does to a database is SQLite's affair: \<open>sq_batch\<close> runs the statements of a script one after the other, and when one fails
  returns its error and the content as the statements before it left it. \<open>sq_insert\<close> is the error of the insert that
  records a script. A start may meet another engine than the one before: the disk was full, the process was killed.
\<close>

subsection \<open>Migrations\<close>

definition MIGRATION_NAMES :: "string list" where
  "MIGRATION_NAMES = [''001_initial.sql'', ''002_bans.sql'', ''003_dm_enhancements.sql'', ''004_threads.sql'',
     ''005_reactions_attachments.sql'', ''006_federation_sync.sql'', ''007_nullable_fks.sql'', ''008_channel_reads.sql'',
     ''009_team_federated.sql'', ''010_channel_reads_dm_support.sql'', ''011_prekey_identity_dh_key.sql'', ''012_channel_locked.sql'',
     ''013_audit_events.sql'', ''014_polls.sql'', ''015_channel_access.sql'', ''016_channel_hidden_if_restricted.sql'',
     ''017_channel_slow_mode.sql'', ''018_channel_mutes.sql'', ''019_channel_name_unique.sql'', ''020_channel_groups.sql'',
     ''021_channel_groups_hidden.sql'', ''022_pinned_messages.sql'', ''023_user_quiet_hours.sql'', ''024_user_blocks.sql'',
     ''025_message_reply_to.sql'', ''026_bootstrap_token_expiry.sql'', ''027_jwt_revocations.sql'', ''028_team_upload_quota.sql'',
     ''029_user_devices.sql'', ''030_federation_identity.sql'', ''031_team_turn_relay.sql'', ''032_attachments_uploader_id.sql'',
     ''033_identity_recovery_slots.sql'']"

text \<open>\<open>include_str!\<close>: the texts are files of the repository.\<close>

definition MIGRATIONS :: "(string \<Rightarrow> string) \<Rightarrow> (string \<times> string) list" where
  "MIGRATIONS file_text = map (\<lambda>n. (n, file_text n)) MIGRATION_NAMES"

record 'd sql_engine =
  sq_batch :: "string \<Rightarrow> 'd \<Rightarrow> string option \<times> 'd"
  sq_insert :: "string \<Rightarrow> 'd \<Rightarrow> string option"

record 'd db_file =
  df_recorded :: "string list"
  df_content :: 'd

definition skipped_migration :: "string \<Rightarrow> bool" where
  "skipped_migration trimmed \<longleftrightarrow> trimmed = [] \<or> starts_with ''--'' trimmed \<and> CHR 0x0A \<notin> set trimmed"

definition apply_migration :: "'d sql_engine \<Rightarrow> string \<Rightarrow> 'd \<Rightarrow> string option \<times> 'd" where
  "apply_migration E sql d = (let trimmed = trim sql in if skipped_migration trimmed then (None, d) else sq_batch E trimmed d)"

fun run_migrations :: "'d sql_engine \<Rightarrow> (string \<times> string) list \<Rightarrow> 'd db_file \<Rightarrow> (string + unit) \<times> 'd db_file" where
  "run_migrations E [] f = (Inr (), f)"
| "run_migrations E ((name, sql) # ms) f =
     (if name \<in> set (df_recorded f) then run_migrations E ms f
      else case apply_migration E sql (df_content f) of
          (Some e, d) \<Rightarrow> (Inl e, f\<lparr>df_content := d\<rparr>)
        | (None, d) \<Rightarrow> (case sq_insert E name d of
              Some e \<Rightarrow> (Inl e, f\<lparr>df_content := d\<rparr>)
            | None \<Rightarrow> run_migrations E ms (f\<lparr>df_recorded := df_recorded f @ [name], df_content := d\<rparr>)))"

text \<open>The server is started again and again, each time on the engine of that day.\<close>

definition start_on :: "(string \<times> string) list \<Rightarrow> 'd db_file \<Rightarrow> 'd sql_engine \<Rightarrow> 'd db_file" where
  "start_on ms f E = snd (run_migrations E ms f)"

subsection \<open>The pool\<close>

definition DEFAULT_READ_POOL_SIZE :: nat where "DEFAULT_READ_POOL_SIZE = 4"

text \<open>\<open>fetch_add\<close> on the shared counter, which wraps, and the remainder.\<close>

definition with_read_index :: "64 word \<Rightarrow> nat \<times> 64 word" where
  "with_read_index i = (unat i mod DEFAULT_READ_POOL_SIZE, i + 1)"

definition nullable :: "string \<Rightarrow> string option" where
  "nullable s = (if s = [] then None else Some s)"

subsection \<open>The first start\<close>

text \<open>Errors of the file system: of the removal, of the creation, of the first write with the number of bytes that were
  written before it, of the second write.\<close>

record token_port =
  tk_remove :: "string option"
  tk_create :: "string option"
  tk_write :: "(string \<times> nat) option"
  tk_newline :: "string option"

definition write_bootstrap_token_file :: "token_port \<Rightarrow> string \<Rightarrow> string option \<Rightarrow> (string + unit) \<times> string option" where
  "write_bootstrap_token_file P token old =
     (case (if old = None then None else tk_remove P) of
        Some e \<Rightarrow> (Inl e, old)
      | None \<Rightarrow> (case tk_create P of
          Some e \<Rightarrow> (Inl e, None)
        | None \<Rightarrow> (case tk_write P of
            Some (e, n) \<Rightarrow> (Inl e, Some (take n token))
          | None \<Rightarrow> (case tk_newline P of
              Some e \<Rightarrow> (Inl e, Some token)
            | None \<Rightarrow> (Inr (), Some (token @ [CHR 0x0A]))))))"

definition has_users :: "conn \<Rightarrow> bool db_res" where
  "has_users c = stmt ''has_users'' c (c_users c \<noteq> [])"

datatype first_start =
    HasUsers
  | TokenWrittenToFile string
  | TokenStderrFallback string string string
  | HasUsersError db_error
  | BootstrapTokenError app_error

definition first_start_outcome ::
  "(int \<Rightarrow> string) \<Rightarrow> int \<Rightarrow> bytes \<Rightarrow> token_port \<Rightarrow> config \<Rightarrow> string option \<Rightarrow> conn \<Rightarrow> first_start \<times> string option \<times> conn" where
  "first_start_outcome fmt now rnd P cfg file c =
     (case has_users c of
        Inl e \<Rightarrow> (HasUsersError e, file, c)
      | Inr True \<Rightarrow> (HasUsers, file, c)
      | Inr False \<Rightarrow> (case generate_bootstrap_token fmt now rnd c of
          (Inl e, c') \<Rightarrow> (BootstrapTokenError e, file, c')
        | (Inr token, c') \<Rightarrow>
            let path = path_join (cf_data_dir cfg) ''BOOTSTRAP_TOKEN'' in
            (case write_bootstrap_token_file P token file of
              (Inr _, file') \<Rightarrow> (TokenWrittenToFile path, file', c')
            | (Inl e, file') \<Rightarrow> (TokenStderrFallback token path e, file', c'))))"

subsection \<open>Lemmas\<close>

lemma migration_names: "distinct MIGRATION_NAMES" "length MIGRATION_NAMES = 33"
  by (simp_all add: MIGRATION_NAMES_def)

lemma map_fst_MIGRATIONS: "map fst (MIGRATIONS ft) = MIGRATION_NAMES"
  by (simp add: MIGRATIONS_def comp_def)

text \<open>What is recorded is a beginning of the list, and the recorded scripts were run.\<close>

text \<open>One script: a failed start has stopped at it, or it is recorded and the start goes on.\<close>

lemma run_migrations_new:
  assumes "name \<notin> set (df_recorded f)"
  obtains e d where "run_migrations E ((name, sql) # ms) f = (Inl e, f\<lparr>df_content := d\<rparr>)"
      "apply_migration E sql (df_content f) = (Some e, d) \<or> apply_migration E sql (df_content f) = (None, d) \<and> sq_insert E name d = Some e"
    | d where "run_migrations E ((name, sql) # ms) f
        = run_migrations E ms (f\<lparr>df_recorded := df_recorded f @ [name], df_content := d\<rparr>)"
      "apply_migration E sql (df_content f) = (None, d)"
proof -
  obtain eo d where ap: "apply_migration E sql (df_content f) = (eo, d)" by fastforce
  show ?thesis
  proof (cases "eo = None \<and> sq_insert E name d = None")
    case True
    then show ?thesis using ap assms that(2) by simp
  next
    case False
    then show ?thesis using ap assms that(1) by (cases eo) auto
  qed
qed

lemma run_migrations_records:
  assumes "set (df_recorded f) \<inter> set (map fst ms) = {}" and "distinct (map fst ms)"
  shows "\<exists>k. df_recorded (snd (run_migrations E ms f)) = df_recorded f @ take k (map fst ms)
    \<and> (fst (run_migrations E ms f) = Inr () \<longleftrightarrow> take k (map fst ms) = map fst ms)"
  using assms
proof (induction ms arbitrary: f)
  case (Cons m ms)
  obtain name sql where m: "m = (name, sql)" by fastforce
  with Cons.prems have new: "name \<notin> set (df_recorded f)" by simp
  show ?case
  proof (cases rule: run_migrations_new [OF new, of E sql ms])
    case (1 e d)
    then show ?thesis unfolding m by (intro exI [of _ 0]) simp
  next
    case (2 d)
    let ?f = "f\<lparr>df_recorded := df_recorded f @ [name], df_content := d\<rparr>"
    have "set (df_recorded ?f) \<inter> set (map fst ms) = {}" "distinct (map fst ms)" using Cons.prems m by auto
    with Cons.IH obtain k where "df_recorded (snd (run_migrations E ms ?f)) = df_recorded ?f @ take k (map fst ms)"
      "fst (run_migrations E ms ?f) = Inr () \<longleftrightarrow> take k (map fst ms) = map fst ms" by blast
    then show ?thesis unfolding m 2(1) by (intro exI [of _ "Suc k"]) simp
  qed
qed simp

lemma run_migrations_skip:
  "set (map fst ms1) \<subseteq> set (df_recorded f) \<Longrightarrow> run_migrations E (ms1 @ ms2) f = run_migrations E ms2 f"
  by (induction ms1) auto

text \<open>A start on a file whose record is a beginning of the list does the rest of the list.\<close>

lemma run_migrations_resume:
  assumes "df_recorded f = take k (map fst ms)"
  shows "run_migrations E ms f = run_migrations E (drop k ms) f"
proof -
  have "set (map fst (take k ms)) \<subseteq> set (df_recorded f)" using assms by (simp add: take_map)
  from run_migrations_skip [OF this, of E "drop k ms"] show ?thesis by simp
qed

lemma start_on_prefix:
  assumes "distinct (map fst ms)" and "df_recorded f = take k (map fst ms)"
  shows "\<exists>j. df_recorded (start_on ms f E) = take j (map fst ms)
    \<and> (fst (run_migrations E ms f) = Inr () \<longleftrightarrow> df_recorded (start_on ms f E) = map fst ms)"
proof -
  have rest: "set (df_recorded f) \<inter> set (map fst (drop k ms)) = {}" "distinct (map fst (drop k ms))"
    using assms set_take_disj_set_drop_if_distinct [of "map fst ms" k k] by (simp_all add: drop_map [symmetric])
  from run_migrations_records [OF rest, of E] obtain j where
    j: "df_recorded (start_on ms f E) = take k (map fst ms) @ take j (drop k (map fst ms))"
    "fst (run_migrations E ms f) = Inr () \<longleftrightarrow> take j (drop k (map fst ms)) = drop k (map fst ms)"
    unfolding start_on_def run_migrations_resume [OF assms(2), of E] by (auto simp: assms(2) drop_map)
  have "take k (map fst ms) @ take j (drop k (map fst ms)) = take (k + j) (map fst ms)" by (simp add: take_add)
  moreover have "take k (map fst ms) @ take j (drop k (map fst ms)) = map fst ms \<longleftrightarrow> take j (drop k (map fst ms)) = drop k (map fst ms)"
    by (metis append_take_drop_id same_append_eq)
  ultimately show ?thesis using j by metis
qed

definition after_starts :: "(string \<times> string) list \<Rightarrow> 'd \<Rightarrow> 'd sql_engine list \<Rightarrow> 'd db_file" where
  "after_starts ms d Es = foldl (start_on ms) \<lparr>df_recorded = [], df_content = d\<rparr> Es"

lemma after_starts_prefix:
  assumes "distinct (map fst ms)"
  shows "\<exists>k. df_recorded (after_starts ms d Es) = take k (map fst ms)"
  unfolding after_starts_def
proof (induction Es rule: rev_induct)
  case Nil
  show ?case by (intro exI [of _ 0]) simp
next
  case (snoc E Es)
  then show ?case using start_on_prefix [OF assms, of "foldl (start_on ms) \<lparr>df_recorded = [], df_content = d\<rparr> Es" _ E] by auto
qed


text \<open>A start on an engine that does not fail succeeds.\<close>

lemma sound_engine_finishes:
  "(\<And>s d. fst (sq_batch E s d) = None) \<Longrightarrow> (\<And>n d. sq_insert E n d = None) \<Longrightarrow> fst (run_migrations E ms f) = Inr ()"
proof (induction ms arbitrary: f)
  case (Cons m ms)
  obtain name sql where m: "m = (name, sql)" by fastforce
  show ?case
  proof (cases "name \<in> set (df_recorded f)")
    case True
    then show ?thesis using Cons.IH [OF Cons.prems] by (simp add: m)
  next
    case False
    obtain eo d where ap: "apply_migration E sql (df_content f) = (eo, d)" by fastforce
    then have "eo = None" using Cons.prems(1) [of "trim sql" "df_content f"] by (auto simp: apply_migration_def Let_def split: if_splits)
    then show ?thesis using ap False Cons.IH [OF Cons.prems] by (simp add: m Cons.prems(2))
  qed
qed simp

text \<open>A script is not run in a transaction. Here one has two statements that each add one, and the first time the second of
  them fails: the next start runs both again, and the content is not that of one start.\<close>

lemma half_script_runs_again:
  fixes two broken :: "nat sql_engine"
  assumes "two = \<lparr>sq_batch = (\<lambda>s d. (None, d + 2)), sq_insert = (\<lambda>n d. None)\<rparr>"
    and "broken = \<lparr>sq_batch = (\<lambda>s d. (Some ''disk full'', d + 1)), sq_insert = (\<lambda>n d. None)\<rparr>"
    and "\<not> skipped_migration (trim s)"
  shows "df_content (after_starts [(n, s)] 0 [two]) = 2 \<and> df_content (after_starts [(n, s)] 0 [broken, two]) = 3"
  using assms by (simp add: after_starts_def start_on_def apply_migration_def)

subsection \<open>The pool and the first start\<close>

text \<open>Four reads in a row use the four connections, also where the counter wraps.\<close>

lemma next_reader: "fst (with_read_index (i + 1)) = (fst (with_read_index i) + 1) mod DEFAULT_READ_POOL_SIZE"
proof -
  have "unat (i + 1) = (unat i + 1) mod 2 ^ 64" by (simp add: unat_word_ariths)
  moreover have "(4 :: nat) dvd 2 ^ 64" by simp
  ultimately have "unat (i + 1) mod 4 = (unat i + 1) mod 4" by (simp add: mod_mod_cancel)
  then show ?thesis by (simp add: with_read_index_def DEFAULT_READ_POOL_SIZE_def mod_Suc_eq)
qed

lemma reader_in_pool: "fst (with_read_index i) < DEFAULT_READ_POOL_SIZE"
  by (simp add: with_read_index_def DEFAULT_READ_POOL_SIZE_def)

lemma four_readers: "fst ` with_read_index ` {i, i + 1, i + 2, i + 3} = {..< DEFAULT_READ_POOL_SIZE}"
proof -
  let ?r = "fst (with_read_index i)"
  have step: "fst (with_read_index (i + 2)) = (?r + 2) mod 4" "fst (with_read_index (i + 3)) = (?r + 3) mod 4"
    "fst (with_read_index (i + 1)) = (?r + 1) mod 4"
    using next_reader [of i] next_reader [of "i + 1"] next_reader [of "i + 2"]
    by (simp_all add: DEFAULT_READ_POOL_SIZE_def mod_simps add.assoc add.commute)
  have "?r < 4" using reader_in_pool [of i] by (simp add: DEFAULT_READ_POOL_SIZE_def)
  then consider "?r = 0" | "?r = 1" | "?r = 2" | "?r = 3" by linarith
  then show ?thesis by cases (auto simp: step DEFAULT_READ_POOL_SIZE_def)
qed

text \<open>The token of the first start is in the file or on the console, and the database knows it either way.\<close>

lemma first_start_token:
  assumes "healthy c" and "c_users c = []" and "hex rnd \<notin> bt_token ` set (c_bootstrap_tokens c)"
    and "first_start_outcome fmt now rnd P cfg file c = (r, file', c')"
  shows "hex rnd \<in> bt_token ` set (c_bootstrap_tokens c')
    \<and> (r = TokenWrittenToFile (path_join (cf_data_dir cfg) ''BOOTSTRAP_TOKEN'') \<and> file' = Some (hex rnd @ [CHR 0x0A])
      \<or> (\<exists>e. r = TokenStderrFallback (hex rnd) (path_join (cf_data_dir cfg) ''BOOTSTRAP_TOKEN'') e))"
  using assms
  by (auto simp: first_start_outcome_def has_users_def generate_bootstrap_token_def create_bootstrap_token_def
      create_bootstrap_token_with_ttl_def exec_healthy write_bootstrap_token_file_def Let_def split: option.splits if_splits prod.splits)

end
