(* ===== verification/Turn.thy ===== *)
theory Turn
  imports Libraries Outbound
begin

section \<open>Voice: credentials of the TURN server\<close>

text \<open>
  \<open>voice/turn.rs\<close>. The answer of Cloudflare is a parameter, \<open>Inl\<close> an error of the request, else the status and the body
  (\<open>None\<close> where the body cannot be read or is not JSON). HMAC-SHA1, base64 and the random UUID are parameters. Times are
  in seconds; each reading of the clock is an argument.
\<close>

subsection \<open>Cloudflare\<close>

record cached_credentials =
  cc_ice_servers :: json
  cc_valid_until :: int

record turn_answer =
  ta_status :: int
  ta_text :: "string option"
  ta_json :: "string + json"

definition CREDENTIAL_TTL :: int where "CREDENTIAL_TTL = 86400"
definition CACHE_SECONDS :: int where "CACHE_SECONDS = 3600"

definition cached_at :: "int \<Rightarrow> cached_credentials option \<Rightarrow> json option" where
  "cached_at now cache = (case cache of None \<Rightarrow> None
     | Some cc \<Rightarrow> if now < cc_valid_until cc then Some (cc_ice_servers cc) else None)"

definition json_field :: "json \<Rightarrow> string \<Rightarrow> json option" where
  "json_field v k = (case v of JObj kvs \<Rightarrow> map_of kvs k | _ \<Rightarrow> None)"

text \<open>The cache is read under the read lock, and again under the write lock, which is held to the end.\<close>

definition cf_get_ice_servers ::
  "int \<Rightarrow> int \<Rightarrow> (json \<Rightarrow> string + turn_answer) \<Rightarrow> int \<Rightarrow> cached_credentials option \<Rightarrow> cached_credentials option
     \<Rightarrow> (string + json) \<times> cached_credentials option" where
  "cf_get_ice_servers now1 now2 post now3 cache1 cache2 =
     (case cached_at now1 cache1 of Some v \<Rightarrow> (Inr v, cache1)
      | None \<Rightarrow> (case cached_at now2 cache2 of Some v \<Rightarrow> (Inr v, cache2)
      | None \<Rightarrow> (case post (JObj [(''ttl'', JNum CREDENTIAL_TTL)]) of
          Inl e \<Rightarrow> (Inl (''cloudflare TURN API request failed: '' @ e), cache2)
        | Inr resp \<Rightarrow>
            if ta_status resp \<noteq> 201 \<and> ta_status resp \<noteq> 200
            then (Inl (''cloudflare TURN API returned '' @ show_nat (nat (ta_status resp)) @ '': ''
                @ (case ta_text resp of None \<Rightarrow> ''<unreadable>'' | Some t \<Rightarrow> t)), cache2)
            else (case ta_json resp of
              Inl e \<Rightarrow> (Inl (''decode CF TURN response: '' @ e), cache2)
            | Inr body \<Rightarrow> (case json_field body ''iceServers'' of
                None \<Rightarrow> (Inl ''missing iceServers in CF response'', cache2)
              | Some ice \<Rightarrow> (Inr ice, Some \<lparr>cc_ice_servers = ice, cc_valid_until = now3 + CACHE_SECONDS\<rparr>))))))"

subsection \<open>Self-hosted\<close>

record self_hosted =
  sh_shared_secret :: string
  sh_turn_urls :: "string list"
  sh_ttl :: int

definition self_hosted_ice_servers ::
  "(bytes \<Rightarrow> bytes \<Rightarrow> bytes) \<Rightarrow> (bytes \<Rightarrow> string) \<Rightarrow> string \<Rightarrow> int \<Rightarrow> self_hosted \<Rightarrow> json" where
  "self_hosted_ice_servers hmac b64 uuid now sh =
     (let username = show_nat (nat (now + sh_ttl sh)) @ '':'' @ take 8 uuid;
          password = b64 (hmac (as_bytes (sh_shared_secret sh)) (as_bytes username))
      in JArr [JObj [(''urls'', JArr (map JStr (sh_turn_urls sh))), (''username'', JStr username), (''credential'', JStr password)]])"

subsection \<open>The cache over time\<close>

text \<open>One caller after the other, each with the times it reads: the state keeps when the credentials were asked for.\<close>

record turn_use =
  tu_now1 :: int
  tu_now2 :: int
  tu_now3 :: int
  tu_post :: "json \<Rightarrow> string + turn_answer"

definition turn_step :: "cached_credentials option \<Rightarrow> turn_use \<Rightarrow> cached_credentials option" where
  "turn_step cache u = snd (cf_get_ice_servers (tu_now1 u) (tu_now2 u) (tu_post u) (tu_now3 u) cache cache)"

text \<open>The credentials of an answer, if it has any.\<close>

definition answer_credentials :: "string + turn_answer \<Rightarrow> json option" where
  "answer_credentials r = (case r of Inl _ \<Rightarrow> None | Inr resp \<Rightarrow>
     if ta_status resp = 201 \<or> ta_status resp = 200 then (case ta_json resp of Inl _ \<Rightarrow> None | Inr body \<Rightarrow> json_field body ''iceServers'') else None)"

text \<open>What the cache holds was answered to a caller, less than an hour before it becomes invalid.\<close>

definition answered_to :: "turn_use list \<Rightarrow> json \<Rightarrow> int \<Rightarrow> bool" where
  "answered_to us v t \<longleftrightarrow> (\<exists>u \<in> set us. answer_credentials (tu_post u (JObj [(''ttl'', JNum CREDENTIAL_TTL)])) = Some v
     \<and> t < tu_now3 u + CACHE_SECONDS)"

lemma cf_result:
  "fst (cf_get_ice_servers n1 n2 post n3 cache1 cache2) = Inr v \<Longrightarrow> cached_at n1 cache1 = Some v \<or> cached_at n2 cache2 = Some v
    \<or> answer_credentials (post (JObj [(''ttl'', JNum CREDENTIAL_TTL)])) = Some v"
  by (auto simp: cf_get_ice_servers_def answer_credentials_def split: option.splits sum.splits if_splits)

lemma cf_cache:
  "snd (cf_get_ice_servers n1 n2 post n3 cache cache) = cache
    \<or> (\<exists>ice. answer_credentials (post (JObj [(''ttl'', JNum CREDENTIAL_TTL)])) = Some ice
        \<and> snd (cf_get_ice_servers n1 n2 post n3 cache cache) = Some \<lparr>cc_ice_servers = ice, cc_valid_until = n3 + CACHE_SECONDS\<rparr>)"
  by (simp add: cf_get_ice_servers_def answer_credentials_def split: option.split sum.split)

lemma cache_origin:
  assumes "run turn_step None us = Some cc"
  shows "\<exists>u \<in> set us. answer_credentials (tu_post u (JObj [(''ttl'', JNum CREDENTIAL_TTL)])) = Some (cc_ice_servers cc)
    \<and> cc_valid_until cc = tu_now3 u + CACHE_SECONDS"
  using assms
proof (induction us arbitrary: cc rule: rev_induct)
  case (snoc u us)
  define r where "r = run turn_step None us"
  have now: "snd (cf_get_ice_servers (tu_now1 u) (tu_now2 u) (tu_post u) (tu_now3 u) r r) = Some cc"
    using snoc.prems by (simp add: run_append r_def turn_step_def [of "run turn_step None us"])
  from cf_cache [of "tu_now1 u" "tu_now2 u" "tu_post u" "tu_now3 u" r]
  show ?case
  proof (elim disjE exE conjE)
    assume "snd (cf_get_ice_servers (tu_now1 u) (tu_now2 u) (tu_post u) (tu_now3 u) r r) = r"
    with now have "run turn_step None us = Some cc" by (simp add: r_def)
    with snoc.IH show ?thesis by fastforce
  next
    fix ice
    assume ice: "answer_credentials (tu_post u (JObj [(''ttl'', JNum CREDENTIAL_TTL)])) = Some ice"
      and "snd (cf_get_ice_servers (tu_now1 u) (tu_now2 u) (tu_post u) (tu_now3 u) r r)
        = Some \<lparr>cc_ice_servers = ice, cc_valid_until = tu_now3 u + CACHE_SECONDS\<rparr>"
    with now have "cc = \<lparr>cc_ice_servers = ice, cc_valid_until = tu_now3 u + CACHE_SECONDS\<rparr>" by simp
    with ice show ?thesis by simp
  qed
qed simp

lemma cached_answered: "cached_at t (run turn_step None us) = Some v \<Longrightarrow> answered_to us v t"
  using cache_origin [of us] unfolding cached_at_def answered_to_def by (fastforce split: option.splits if_splits)

text \<open>Whoever asks for TURN credentials, also while another caller is fetching, gets those of a fresh answer or those that
  were answered to an earlier caller and are at most an hour old, of the day they are good for; a failed request is
  reported and never kept.\<close>

theorem turn_credentials_fresh:
  assumes "fst (cf_get_ice_servers n1 n2 post n3 (run turn_step None us) (run turn_step None (us @ us'))) = Inr v" and "n1 \<le> n2"
  shows "answer_credentials (post (JObj [(''ttl'', JNum CREDENTIAL_TTL)])) = Some v
    \<or> (\<exists>u \<in> set (us @ us'). answer_credentials (tu_post u (JObj [(''ttl'', JNum CREDENTIAL_TTL)])) = Some v
        \<and> n1 < tu_now3 u + CACHE_SECONDS)"
proof -
  have "answered_to (us @ us') v n1" if "answered_to us v n1 \<or> answered_to (us @ us') v n2"
    using that assms(2) unfolding answered_to_def by fastforce
  with cf_result [OF assms(1)] cached_answered show ?thesis unfolding answered_to_def by blast
qed

theorem turn_credentials_fresh_witness:
  "(\<exists>u \<in> set [\<lparr>tu_now1 = 0, tu_now2 = 0, tu_now3 = 5, tu_post = (\<lambda>_. Inr \<lparr>ta_status = 201, ta_text = None,
      ta_json = Inr (JObj [(''iceServers'', JStr ''a'')])\<rparr>)\<rparr>]. 100 < tu_now3 u + CACHE_SECONDS)"
proof -
  let ?u = "\<lparr>tu_now1 = 0, tu_now2 = 0, tu_now3 = 5, tu_post = (\<lambda>_. Inr \<lparr>ta_status = 201, ta_text = None,
      ta_json = Inr (JObj [(''iceServers'', JStr ''a'')])\<rparr>)\<rparr>"
  have "fst (cf_get_ice_servers 100 100 (\<lambda>_. Inl ''down'') 100 (run turn_step None [?u]) (run turn_step None ([?u] @ []))) = Inr (JStr ''a'')"
    by (simp add: turn_step_def cf_get_ice_servers_def cached_at_def json_field_def CACHE_SECONDS_def)
  from turn_credentials_fresh [OF this] show ?thesis by (auto simp: answer_credentials_def)
qed

end
