(* ===== verification/Server_Start.thy ===== *)
theory Server_Start
  imports Db_Open Turn Fed_Api
begin

section \<open>Start of the server\<close>

text \<open>
  \<open>main\<close> of \<open>main.rs\<close>, up to the moment the server listens: where it gives up and what it runs with. \<open>machine\<close> is what the
  process meets: environment, files, the data directory, SQLite with the migrations, random bytes, the clock. Logging,
  the metrics exporter, the listening sockets and the periodic tasks are left out.
\<close>

datatype turn_provider =
    CloudflareTurn string string
  | SelfHostedTurn self_hosted
  | NoTurn

definition configure_turn_provider :: "config \<Rightarrow> turn_provider" where
  "configure_turn_provider cfg =
     (if cf_turn_mode cfg = ''cloudflare'' then CloudflareTurn (cf_cf_turn_key_id cfg) (cf_cf_turn_api_token cfg)
      else if cf_turn_mode cfg = ''self-hosted'' then SelfHostedTurn \<lparr>sh_shared_secret = cf_turn_shared_secret cfg,
          sh_turn_urls = comma_list (cf_turn_urls cfg), sh_ttl = cf_turn_ttl cfg\<rparr>
      else NoTurn)"

record 'd machine =
  ma_env :: environment
  ma_files :: "string \<Rightarrow> string + string"
  ma_dir_error :: "string option"
  ma_open_error :: "string option"
  ma_engine :: "'d sql_engine"
  ma_file :: "'d db_file"
  ma_script :: "string \<Rightarrow> string"
  ma_tables :: "'d \<Rightarrow> conn"
  ma_hkdf :: "bytes \<Rightarrow> bytes"
  ma_random :: bytes
  ma_clock :: "int \<Rightarrow> string"
  ma_now :: int
  ma_token_random :: bytes
  ma_token_port :: token_port
  ma_token_file :: "string option"

definition init_database_result :: "'d machine \<Rightarrow> config \<Rightarrow> string + start_warning list \<times> 'd db_file" where
  "init_database_result M cfg =
     bindE (map_err (\<lambda>e. ''invalid configuration: '' @ e) (config_validate cfg)) (\<lambda>_.
     let warnings = warn_insecure_defaults cfg in
     (case ma_dir_error M of Some e \<Rightarrow> Inl (''failed to create data directory: '' @ e)
      | None \<Rightarrow> (case ma_open_error M of Some e \<Rightarrow> Inl (''failed to open database: '' @ e)
      | None \<Rightarrow> (case run_migrations (ma_engine M) (MIGRATIONS (ma_script M)) (ma_file M) of
            (Inl e, f) \<Rightarrow> Inl (''failed to run migrations: '' @ e)
          | (Inr _, f) \<Rightarrow> Inr (warnings, f)))))"

datatype start_failure =
    ExitSecretFile string
  | ExitWeakKey jwt_strength
  | ExitDatabase string
  | ExitFirstStart first_start
  | PanicJoinSecret
  | ExitPlaintext

text \<open>No mesh without peers and without a node name.\<close>

definition mesh_policy :: "config \<Rightarrow> start_policy option" where
  "mesh_policy cfg = (if cf_peers cfg = [] \<and> cf_node_name cfg = [] then None
     else Some (enforce_security_policy (cf_join_secret cfg) (cf_peers cfg \<noteq> []) (cf_insecure cfg)))"

record running =
  ru_config :: config
  ru_auth :: auth_service
  ru_first_start :: first_start
  ru_conn :: conn
  ru_turn :: turn_provider
  ru_mesh :: "start_policy option"
  ru_mode :: server_start_mode
  ru_warnings :: "start_warning list"

definition server_start :: "'d machine \<Rightarrow> start_failure + running" where
  "server_start M =
     bindE (map_err ExitSecretFile (load_secrets_from_files (ma_files M) (ma_env M) (config_load (ma_env M)))) (\<lambda>(env, cfg).
     if \<not> enforce_jwt_secret_strength env cfg then Inl (ExitWeakKey (check_jwt_secret_strength env cfg))
     else bindE (map_err ExitDatabase (init_database_result M cfg)) (\<lambda>(warnings, f).
     let auth = auth_new (derive_jwt_secret (ma_hkdf M) (env ''DILLA_JWT_SECRET'') (ma_random M) (cf_db_passphrase cfg))
            (derive_node_name_for_auth cfg);
         (first, token_file, c) = first_start_outcome (ma_clock M) (ma_now M) (ma_token_random M) (ma_token_port M) cfg
            (ma_token_file M) (ma_tables M (df_content f))
     in if (case first of BootstrapTokenError _ \<Rightarrow> True | HasUsersError _ \<Rightarrow> True | _ \<Rightarrow> False) then Inl (ExitFirstStart first)
     else if mesh_policy cfg = Some StartRefused then Inl PanicJoinSecret
     else if start_server_mode cfg = RejectPlaintext then Inl ExitPlaintext
     else Inr \<lparr>ru_config = cfg, ru_auth = auth, ru_first_start = first, ru_conn = c, ru_turn = configure_turn_provider cfg,
            ru_mesh = mesh_policy cfg, ru_mode = start_server_mode cfg, ru_warnings = warnings\<rparr>))"

subsection \<open>The periodic status of the federation\<close>

record status_snapshot =
  fs_connected :: nat
  fs_total :: nat
  fs_degraded :: bool

definition federation_status_snapshot :: "peer_info list \<Rightarrow> status_snapshot" where
  "federation_status_snapshot peers =
     (let total = length peers; connected = length (filter (\<lambda>p. pi_status p = ''connected'') peers)
      in \<lparr>fs_connected = connected, fs_total = total, fs_degraded = connected < total\<rparr>)"

definition federation_status_payloads :: "status_snapshot \<Rightarrow> int \<Rightarrow> event \<times> event" where
  "federation_status_payloads snap lamport =
     (\<lparr>ev_type = EVENT_FEDERATION_PEER_STATUS, ev_payload = JObj [(''connected'', JNum (int (fs_connected snap))),
        (''total'', JNum (int (fs_total snap))), (''degraded'', JBool (fs_degraded snap))]\<rparr>,
      \<lparr>ev_type = EVENT_FEDERATION_LAMPORT, ev_payload = JObj [(''value'', JNum lamport)]\<rparr>)"

definition broadcast_presence_update :: "string \<Rightarrow> string \<Rightarrow> string \<Rightarrow> world \<Rightarrow> world" where
  "broadcast_presence_update uid st cu = broadcast_to_all (event_new EVENT_PRESENCE_CHANGED (presence_update_payload_json uid st cu))"

definition broadcast_federation_status :: "string \<Rightarrow> mesh \<Rightarrow> mesh" where
  "broadcast_federation_status now m =
     (let (peers, m) = get_peers now m;
          (peer_payload, lamport_payload) = federation_status_payloads (federation_status_snapshot peers)
            (uint (current_ts (sy_lamport_ts (mh_sync m))))
      in m\<lparr>mh_world := broadcast_to_all lamport_payload (broadcast_to_all peer_payload (mh_world m))\<rparr>)"

lemma degraded_iff: "fs_degraded (federation_status_snapshot peers) \<longleftrightarrow> (\<exists>p \<in> set peers. pi_status p \<noteq> ''connected'')"
proof (induction peers)
  case (Cons p peers)
  then show ?case
    using length_filter_le [of "\<lambda>p. pi_status p = ''connected''" peers]
    by (auto simp: federation_status_snapshot_def Let_def less_Suc_eq_le)
qed (simp add: federation_status_snapshot_def)

subsection \<open>What a running server has\<close>

lemma strong_key:
  assumes "enforce_jwt_secret_strength env cfg" and "\<not> cf_insecure cfg"
  shows "(\<exists>s. env ''DILLA_JWT_SECRET'' = Some s \<and> s \<noteq> []
        \<and> derive_jwt_secret hkdf (env ''DILLA_JWT_SECRET'') rnd (cf_db_passphrase cfg) = hkdf (as_bytes s))
    \<or> length (cf_db_passphrase cfg) \<ge> 32
        \<and> derive_jwt_secret hkdf (env ''DILLA_JWT_SECRET'') rnd (cf_db_passphrase cfg) = hkdf (as_bytes (cf_db_passphrase cfg))"
  using assms
  by (cases "env ''DILLA_JWT_SECRET''")
    (auto simp: enforce_jwt_secret_strength_def check_jwt_secret_strength_def derive_jwt_secret_def Let_def split: if_splits)

lemma server_start_InrD:
  assumes "server_start M = Inr r"
  obtains env f tokf where
    "load_secrets_from_files (ma_files M) (ma_env M) (config_load (ma_env M)) = Inr (env, ru_config r)"
    "enforce_jwt_secret_strength env (ru_config r)" "init_database_result M (ru_config r) = Inr (ru_warnings r, f)"
    "au_jwt_secret (ru_auth r) = derive_jwt_secret (ma_hkdf M) (env ''DILLA_JWT_SECRET'') (ma_random M) (cf_db_passphrase (ru_config r))"
    "ru_mesh r = mesh_policy (ru_config r)" "ru_mesh r \<noteq> Some StartRefused"
    "ru_mode r = start_server_mode (ru_config r)" "ru_mode r \<noteq> RejectPlaintext"
    "first_start_outcome (ma_clock M) (ma_now M) (ma_token_random M) (ma_token_port M) (ru_config r)
       (ma_token_file M) (ma_tables M (df_content f)) = (ru_first_start r, tokf, ru_conn r)"
proof -
  obtain env cfg where l: "load_secrets_from_files (ma_files M) (ma_env M) (config_load (ma_env M)) = Inr (env, cfg)"
    using assms by (cases "load_secrets_from_files (ma_files M) (ma_env M) (config_load (ma_env M))") (auto simp: server_start_def map_err_def bindE_def)
  obtain warnings f where d: "init_database_result M cfg = Inr (warnings, f)"
    using assms l by (cases "init_database_result M cfg") (auto simp: server_start_def map_err_def bindE_def split: if_splits)
  obtain first tokf c where fs: "first_start_outcome (ma_clock M) (ma_now M) (ma_token_random M) (ma_token_port M) cfg
       (ma_token_file M) (ma_tables M (df_content f)) = (first, tokf, c)" by (metis prod_cases3)
  have "enforce_jwt_secret_strength env cfg"
    and "mesh_policy cfg \<noteq> Some StartRefused" and "start_server_mode cfg \<noteq> RejectPlaintext"
    and r: "r = \<lparr>ru_config = cfg, ru_auth = auth_new (derive_jwt_secret (ma_hkdf M) (env ''DILLA_JWT_SECRET'') (ma_random M) (cf_db_passphrase cfg))
            (derive_node_name_for_auth cfg), ru_first_start = first, ru_conn = c, ru_turn = configure_turn_provider cfg,
            ru_mesh = mesh_policy cfg, ru_mode = start_server_mode cfg, ru_warnings = warnings\<rparr>"
    using assms l d fs by (auto simp: server_start_def map_err_def bindE_def Let_def split: if_splits)
  then show ?thesis using that [of env f tokf] l d fs by (simp add: auth_new_def)
qed

text \<open>C17. A server that runs without the insecure flag: it serves TLS on the configured port, every migration is applied,
  the key that signs its tokens comes from an explicit secret or from a passphrase of at least 32 bytes, and if it has
  peers, its join secret is not empty.\<close>

theorem server_start_secure:
  assumes "server_start M = Inr r" and "\<not> cf_insecure (ru_config r)"
    and "df_recorded (ma_file M) = take k MIGRATION_NAMES"
  shows "ru_mode r = Tls (cf_port (ru_config r)) \<and> 0 < cf_port (ru_config r) \<and> cf_port (ru_config r) < 65535
    \<and> (cf_peers (ru_config r) \<noteq> [] \<longrightarrow> cf_join_secret (ru_config r) \<noteq> [])
    \<and> (\<exists>secret. au_jwt_secret (ru_auth r) = ma_hkdf M (as_bytes secret) \<and> secret \<noteq> []
        \<and> (length secret \<ge> 32 \<and> secret = cf_db_passphrase (ru_config r)
          \<or> (\<exists>env cfg. load_secrets_from_files (ma_files M) (ma_env M) (config_load (ma_env M)) = Inr (env, cfg) \<and> env ''DILLA_JWT_SECRET'' = Some secret)))
    \<and> df_recorded (start_on (MIGRATIONS (ma_script M)) (ma_file M) (ma_engine M)) = MIGRATION_NAMES"
proof -
  from server_start_InrD [OF assms(1)] obtain env f and tokf :: "string option" where
    l: "load_secrets_from_files (ma_files M) (ma_env M) (config_load (ma_env M)) = Inr (env, ru_config r)"
    and e: "enforce_jwt_secret_strength env (ru_config r)" and d: "init_database_result M (ru_config r) = Inr (ru_warnings r, f)"
    and key: "au_jwt_secret (ru_auth r) = derive_jwt_secret (ma_hkdf M) (env ''DILLA_JWT_SECRET'') (ma_random M) (cf_db_passphrase (ru_config r))"
    and mesh: "ru_mesh r = mesh_policy (ru_config r)" "ru_mesh r \<noteq> Some StartRefused"
    and mode: "ru_mode r = start_server_mode (ru_config r)" "ru_mode r \<noteq> RejectPlaintext" by blast
  have "ru_mode r = Tls (cf_port (ru_config r))" using mode assms(2) by (simp add: start_server_mode_def split: if_splits)
  moreover have valid: "config_validate (ru_config r) = Inr ()" "fst (run_migrations (ma_engine M) (MIGRATIONS (ma_script M)) (ma_file M)) = Inr ()"
    using d by (auto simp: init_database_result_def map_err_def bindE_def Let_def split: sum.splits option.splits prod.splits)
  then have "0 < cf_port (ru_config r)" "cf_port (ru_config r) < 65535"
    by (auto simp: config_validate_def word_less_nat_alt word_le_nat_alt unat_gt_0 split: if_splits)
  moreover have "cf_join_secret (ru_config r) \<noteq> []" if "cf_peers (ru_config r) \<noteq> []"
    using mesh assms(2) that by (auto simp: mesh_policy_def enforce_security_policy_def)
  moreover have "df_recorded (start_on (MIGRATIONS (ma_script M)) (ma_file M) (ma_engine M)) = MIGRATION_NAMES"
    using start_on_prefix [of "MIGRATIONS (ma_script M)" "ma_file M" k "ma_engine M"] valid(2) assms(3)
    by (auto simp: map_fst_MIGRATIONS migration_names)
  moreover have "\<exists>secret. au_jwt_secret (ru_auth r) = ma_hkdf M (as_bytes secret) \<and> secret \<noteq> []
        \<and> (length secret \<ge> 32 \<and> secret = cf_db_passphrase (ru_config r)
          \<or> (\<exists>env cfg. load_secrets_from_files (ma_files M) (ma_env M) (config_load (ma_env M)) = Inr (env, cfg) \<and> env ''DILLA_JWT_SECRET'' = Some secret))"
    using strong_key [OF e assms(2), of "ma_hkdf M" "ma_random M"] key l by fastforce
  ultimately show ?thesis by blast
qed

text \<open>A machine with a certificate and a long passphrase, and users in its database.\<close>

definition sample_machine :: "unit machine" where
  "sample_machine = \<lparr>ma_env = [''DILLA_TLS_CERT'' \<mapsto> ''c'', ''DILLA_TLS_KEY'' \<mapsto> ''k'', ''DILLA_DB_PASSPHRASE'' \<mapsto> replicate 32 CHR ''p''],
     ma_files = (\<lambda>_. Inl ''none''), ma_dir_error = None, ma_open_error = None,
     ma_engine = \<lparr>sq_batch = (\<lambda>s d. (None, d)), sq_insert = (\<lambda>n d. None)\<rparr>, ma_file = \<lparr>df_recorded = [], df_content = ()\<rparr>,
     ma_script = (\<lambda>n. n), ma_tables = (\<lambda>_. sample_conn), ma_hkdf = id, ma_random = [], ma_clock = (\<lambda>_. ''now''), ma_now = 0,
     ma_token_random = [], ma_token_port = \<lparr>tk_remove = None, tk_create = None, tk_write = None, tk_newline = None\<rparr>, ma_token_file = None\<rparr>"

lemma sample_machine_config:
  defines "cfg \<equiv> config_load (ma_env sample_machine)"
  shows "cf_port cfg = 8080" "cf_data_dir cfg = ''./data''" "cf_db_passphrase cfg = replicate 32 CHR ''p''" "cf_tls_cert cfg = ''c''"
    "cf_tls_key cfg = ''k''" "cf_peers cfg = []" "cf_node_name cfg = []" "cf_insecure cfg = False" "cf_db_passphrase_file cfg = []"
  by (simp_all add: cfg_def sample_machine_def config_load_def Let_def env_u16_def env_str_def env_bool_def comma_list_def)

theorem server_start_secure_witness:
  "\<exists>r. server_start sample_machine = Inr r \<and> ru_mode r = Tls (cf_port (ru_config r)) \<and> cf_port (ru_config r) < 65535"
proof -
  let ?M = sample_machine
  let ?env = "ma_env ?M"
  let ?cfg = "config_load ?env"
  have l: "load_secrets_from_files (ma_files ?M) ?env ?cfg = Inr (?env, ?cfg)"
    unfolding load_secrets_from_files_def sample_machine_config
    by (simp add: sample_machine_def read_env_pointed_secret_def override_def)
  have e: "enforce_jwt_secret_strength ?env ?cfg"
    unfolding enforce_jwt_secret_strength_def check_jwt_secret_strength_def sample_machine_config by (simp add: sample_machine_def)
  have v: "config_validate ?cfg = Inr ()" unfolding config_validate_def sample_machine_config by simp
  obtain f where run: "run_migrations (ma_engine ?M) (MIGRATIONS (ma_script ?M)) (ma_file ?M) = (Inr (), f)"
    using sound_engine_finishes [of "ma_engine ?M" "MIGRATIONS (ma_script ?M)" "ma_file ?M"]
    by (cases "run_migrations (ma_engine ?M) (MIGRATIONS (ma_script ?M)) (ma_file ?M)") (simp add: sample_machine_def)
  have d: "init_database_result ?M ?cfg = Inr (warn_insecure_defaults ?cfg, f)"
    unfolding init_database_result_def v run by (simp add: map_err_def sample_machine_def)
  have "ma_tables ?M () = sample_conn" by (simp add: sample_machine_def)
  then have fs: "first_start_outcome (ma_clock ?M) (ma_now ?M) (ma_token_random ?M) (ma_token_port ?M) ?cfg (ma_token_file ?M)
      (ma_tables ?M ()) = (HasUsers, ma_token_file ?M, sample_conn)"
    by (simp add: first_start_outcome_def has_users_def) (simp add: sample_conn_def)
  have m: "mesh_policy ?cfg = None" "start_server_mode ?cfg = Tls 8080"
    unfolding mesh_policy_def start_server_mode_def sample_machine_config by simp_all
  obtain r where r: "server_start ?M = Inr r" "ru_config r = ?cfg"
    by (simp add: server_start_def l e d fs m map_err_def)
  have "df_recorded (ma_file ?M) = take 0 MIGRATION_NAMES" by (simp add: sample_machine_def)
  from server_start_secure [OF r(1) _ this] r show ?thesis by (simp add: sample_machine_config)
qed

end
