(* ===== verification/Browser_Log.thy ===== *)
theory Browser_Log
  imports Server_Config
begin

section \<open>The relay of browser logs\<close>

text \<open>
  \<open>api/debug.rs\<close>. The lines it writes are values; \<open>tracing\<close> prints them. Characters are bytes of UTF-8: the filters look
  only at values below 128, so that filtering bytes and filtering code points is the same.
\<close>

subsection \<open>Filters\<close>

definition MAX_ENTRIES_PER_BATCH :: nat where "MAX_ENTRIES_PER_BATCH = 100"
definition MAX_MESSAGE_LEN :: nat where "MAX_MESSAGE_LEN = 4096"
definition MAX_TAG_LEN :: nat where "MAX_TAG_LEN = 64"

definition ESC :: char where "ESC = CHR 0x1B"

fun skip_csi_body :: "string \<Rightarrow> string" where
  "skip_csi_body [] = []"
| "skip_csi_body (ch # s) = (if 0x40 \<le> char_byte ch \<and> char_byte ch \<le> 0x7e then s else skip_csi_body s)"

definition is_keepable_char :: "char \<Rightarrow> bool" where
  "is_keepable_char ch \<longleftrightarrow> char_byte ch \<ge> 0x20 \<or> char_byte ch \<in> {10, 13, 9}"

lemma skip_csi_shorter: "length (skip_csi_body s) \<le> length s"
  by (induction s) auto

function strip_ansi :: "string \<Rightarrow> string" where
  "strip_ansi [] = []"
| "strip_ansi (ch # s) =
     (if ch = ESC then (case s of [] \<Rightarrow> [] | x # t \<Rightarrow> if x = CHR ''['' then strip_ansi (skip_csi_body t) else strip_ansi s)
      else if is_keepable_char ch then ch # strip_ansi s else strip_ansi s)"
  by pat_completeness auto

termination strip_ansi
  by (relation "measure length") (auto simp: le_imp_less_Suc skip_csi_shorter less_Suc_eq_le intro: le_trans [OF skip_csi_shorter])

definition continues :: "char \<Rightarrow> bool" where
  "continues ch \<longleftrightarrow> 128 \<le> char_byte ch \<and> char_byte ch < 192"

text \<open>\<open>char_indices\<close>, each with the width of its character.\<close>

function char_indices :: "nat \<Rightarrow> string \<Rightarrow> (nat \<times> nat) list" where
  "char_indices i [] = []"
| "char_indices i (ch # s) = (let k = length (takeWhile continues s) in (i, Suc k) # char_indices (i + Suc k) (drop k s))"
  by pat_completeness auto

termination char_indices
  by (relation "measure (\<lambda>(i, s). length s)") auto

definition cut_mark :: string where
  "cut_mark = map char_of [0xE2, 0x80, 0xA6 :: int] @ ''[truncated]''"

definition truncate_text :: "string \<Rightarrow> nat \<Rightarrow> string" where
  "truncate_text s lim = (if length s \<le> lim then s
     else let before = takeWhile (\<lambda>(i, w). i < lim) (char_indices 0 s);
              cut = (if before = [] then 0 else case last before of (i, w) \<Rightarrow> i + w)
          in take cut s @ cut_mark)"

definition truncate_tag :: "string \<Rightarrow> string" where
  "truncate_tag s = truncate_text s MAX_TAG_LEN"

definition normalize_level :: "string \<Rightarrow> string" where
  "normalize_level raw = (let l = ascii_lower raw in
     if l = ''error'' then ''error'' else if l = ''warn'' \<or> l = ''warning'' then ''warn''
     else if l = ''debug'' then ''debug'' else ''info'')"

subsection \<open>The request\<close>

record browser_log_entry =
  be_level :: string
  be_message :: string
  be_ts :: "u64 option"
  be_tag :: "string option"
  be_user :: "string option"

record browser_log_batch =
  bb_entries :: "browser_log_entry list"
  bb_session :: "string option"

definition field_opt_u64 :: "(string \<times> json) list \<Rightarrow> string \<Rightarrow> u64 option option" where
  "field_opt_u64 kvs k = (case map_of kvs k of None \<Rightarrow> Some None | Some JNull \<Rightarrow> Some None
     | Some _ \<Rightarrow> map_option Some (field_u64 kvs k))"

definition parse_browser_entry :: "json \<Rightarrow> browser_log_entry option" where
  "parse_browser_entry v = Option.bind (fields_of [''level'', ''message'', ''ts'', ''tag'', ''user''] v) (\<lambda>kvs.
     Option.bind (field_str kvs ''level'') (\<lambda>level.
     Option.bind (field_str kvs ''message'') (\<lambda>message.
     Option.bind (field_opt_u64 kvs ''ts'') (\<lambda>ts.
     Option.bind (field_opt_str kvs ''tag'') (\<lambda>tag.
     Option.bind (field_opt_str kvs ''user'') (\<lambda>user.
       Some \<lparr>be_level = level, be_message = message, be_ts = ts, be_tag = tag, be_user = user\<rparr>))))))"

definition parse_browser_batch :: "json \<Rightarrow> browser_log_batch option" where
  "parse_browser_batch v = Option.bind (fields_of [''entries'', ''session''] v) (\<lambda>kvs.
     Option.bind (case map_of kvs ''entries'' of Some (JArr vs) \<Rightarrow> those (map parse_browser_entry vs) | _ \<Rightarrow> None) (\<lambda>entries.
     Option.bind (field_opt_str kvs ''session'') (\<lambda>session.
       Some \<lparr>bb_entries = entries, bb_session = session\<rparr>)))"

definition extract_auth_user_id :: "jwt_lib \<Rightarrow> auth_service \<Rightarrow> int \<Rightarrow> conn \<Rightarrow> string option option \<Rightarrow> string option" where
  "extract_auth_user_id J s now c authorization = Option.bind authorization (\<lambda>hv.
     Option.bind hv (\<lambda>raw. Option.bind (strip_prefix ''Bearer '' raw) (\<lambda>token.
       case validate_jwt J s now c token of Inl _ \<Rightarrow> None | Inr uid \<Rightarrow> Some uid)))"

record log_line =
  ll_level :: string
  ll_session :: string
  ll_tag :: string
  ll_user :: string
  ll_unauthenticated :: bool
  ll_message :: string

definition or_dash :: "string option \<Rightarrow> string" where
  "or_dash o1 = (case o1 of None \<Rightarrow> ''-'' | Some s \<Rightarrow> s)"

definition entry_line :: "string option \<Rightarrow> string \<Rightarrow> browser_log_entry \<Rightarrow> log_line" where
  "entry_line auth_user session entry =
     \<lparr>ll_level = normalize_level (be_level entry), ll_session = session,
      ll_tag = or_dash (map_option (truncate_tag \<circ> strip_ansi) (be_tag entry)),
      ll_user = (case auth_user of Some uid \<Rightarrow> uid | None \<Rightarrow> or_dash (map_option (truncate_tag \<circ> strip_ansi) (be_user entry))),
      ll_unauthenticated = (auth_user = None),
      ll_message = truncate_text (strip_ansi (be_message entry)) MAX_MESSAGE_LEN\<rparr>"

text \<open>\<open>body\<close> is what reading and parsing the body gives: the error of reading it, the error of its JSON, or the value (whose
  shape is checked by \<open>serde\<close>, with an error text of its own).\<close>

definition ingest ::
  "jwt_lib \<Rightarrow> auth_service \<Rightarrow> int \<Rightarrow> conn \<Rightarrow> config \<Rightarrow> string option option \<Rightarrow> string + (string + json) \<Rightarrow> string
     \<Rightarrow> (app_error + int \<times> json) \<times> log_line list" where
  "ingest J s now c cfg authorization body shape_error =
     (if \<not> cf_browser_log_forward cfg then (Inr (204, JObj []), [])
      else let auth_user = extract_auth_user_id J s now c authorization in
        (case body of
           Inl e \<Rightarrow> (Inl (BadRequest (''body read: '' @ e)), [])
         | Inr (Inl e) \<Rightarrow> (Inl (BadRequest (''invalid JSON: '' @ e)), [])
         | Inr (Inr v) \<Rightarrow> (case parse_browser_batch v of
             None \<Rightarrow> (Inl (BadRequest (''invalid JSON: '' @ shape_error)), [])
           | Some batch \<Rightarrow>
               let session = or_dash (map_option (truncate_tag \<circ> strip_ansi) (bb_session batch));
                   entries = take MAX_ENTRIES_PER_BATCH (bb_entries batch)
               in (Inr (200, JObj [(''accepted'', JNum (int (length entries)))]), map (entry_line auth_user session) entries))))"

subsection \<open>What the filter lets through\<close>

lemma ESC_not_keepable: "\<not> is_keepable_char ESC"
  by (simp add: is_keepable_char_def ESC_def char_byte_def)

lemma strip_ansi_keepable: "ch \<in> set (strip_ansi s) \<Longrightarrow> is_keepable_char ch"
  by (induction s rule: strip_ansi.induct) (auto split: if_splits list.splits)

lemma strip_ansi_plain: "\<forall>ch \<in> set s. is_keepable_char ch \<Longrightarrow> strip_ansi (s @ t) = s @ strip_ansi t"
  using ESC_not_keepable by (induction s) auto

lemma strip_ansi_idem: "strip_ansi (strip_ansi s) = strip_ansi s"
  using strip_ansi_plain [of "strip_ansi s" "[]"] strip_ansi_keepable by simp

text \<open>Valid UTF-8, as far as lengths matter: a character has at most three continuation bytes, an ASCII character none.\<close>

inductive utf8_shape :: "string \<Rightarrow> bool" where
  shape_end: "utf8_shape []"
| shape_char: "\<not> continues ch \<Longrightarrow> \<forall>x \<in> set cs. continues x \<Longrightarrow> length cs \<le> 3 \<Longrightarrow> char_byte ch < 128 \<longrightarrow> cs = [] \<Longrightarrow> utf8_shape s
     \<Longrightarrow> utf8_shape (ch # cs @ s)"

lemma shape_head: "utf8_shape s \<Longrightarrow> takeWhile continues s = []"
  by (erule utf8_shape.cases) auto

lemma shape_tail: "char_byte ch < 128 \<Longrightarrow> utf8_shape (ch # s) \<Longrightarrow> utf8_shape s"
  by (erule utf8_shape.cases [of "ch # s"]) auto

lemma skip_continuation: "\<forall>x \<in> set cs. continues x \<Longrightarrow> skip_csi_body (cs @ s) = skip_csi_body s"
  by (induction cs) (auto simp: continues_def)

lemma skip_shape: "utf8_shape s \<Longrightarrow> utf8_shape (skip_csi_body s)"
  by (induction rule: utf8_shape.induct) (auto intro: utf8_shape.intros simp: skip_continuation)

lemma keep_continuation: "\<forall>x \<in> set cs. continues x \<Longrightarrow> strip_ansi (cs @ s) = cs @ strip_ansi s"
  by (rule strip_ansi_plain) (auto simp: continues_def is_keepable_char_def)

lemma strip_shape: "utf8_shape s \<Longrightarrow> utf8_shape (strip_ansi s)"
proof (induction "length s" arbitrary: s rule: less_induct)
  case less
  from less.prems show ?case
  proof cases
    case (shape_char ch cs t)
    have t: "utf8_shape (strip_ansi t)" using less.hyps [of t] shape_char by simp
    show ?thesis
    proof (cases "ch = ESC")
      case True
      then have "s = ESC # t" using shape_char by (simp add: ESC_def char_byte_def)
      moreover have that_skip: "utf8_shape (strip_ansi (skip_csi_body u))" if "t = CHR ''['' # u" for u
      proof -
        have "utf8_shape u" using shape_tail [OF _ \<open>utf8_shape t\<close> [unfolded that]] by (simp add: char_byte_def)
        then show ?thesis
          using less.hyps [of "skip_csi_body u"] skip_shape skip_csi_shorter [of u] \<open>s = ESC # t\<close> that by simp
      qed
      ultimately show ?thesis
      proof (cases t)
        case Nil
        then show ?thesis using \<open>s = ESC # t\<close> by (simp add: shape_end)
      next
        case (Cons x u)
        show ?thesis
        proof (cases "x = CHR ''[''")
          case True
          then have "strip_ansi s = strip_ansi (skip_csi_body u)" using \<open>s = ESC # t\<close> Cons by simp
          then show ?thesis using that_skip Cons True by simp
        next
          case False
          then have "strip_ansi s = strip_ansi t" unfolding \<open>s = ESC # t\<close> Cons by simp
          then show ?thesis using t by (simp only:)
        qed
      qed
    next
      case False
      have kept: "strip_ansi s = (if is_keepable_char ch then ch # cs @ strip_ansi t else cs @ strip_ansi t)"
        using shape_char False by (simp add: keep_continuation)
      have "cs = []" if "\<not> is_keepable_char ch" using that shape_char by (auto simp: is_keepable_char_def)
      with kept t utf8_shape.shape_char [OF shape_char(2-5) t] show ?thesis by auto
    qed
  qed (simp add: shape_end)
qed

lemma char_widths: "utf8_shape s \<Longrightarrow> (i, w) \<in> set (char_indices j s) \<Longrightarrow> w \<le> 4"
proof (induction arbitrary: j rule: utf8_shape.induct)
  case (shape_char ch cs s)
  have "takeWhile continues (cs @ s) = cs" using shape_char shape_head by (simp add: takeWhile_append)
  then have "char_indices j (ch # cs @ s) = (j, Suc (length cs)) # char_indices (j + Suc (length cs)) s" by (simp add: Let_def)
  then show ?case using shape_char by auto
qed simp

lemma truncate_length:
  assumes "utf8_shape s" shows "length (truncate_text s lim) \<le> lim + 17"
proof -
  define before where "before = takeWhile (\<lambda>(i, w). i < lim) (char_indices 0 s)"
  define cut where "cut = (if before = [] then 0 else case last before of (i, w) \<Rightarrow> i + w)"
  have "cut \<le> lim + 3"
  proof (cases "before = []")
    case False
    obtain i w where l: "last before = (i, w)" by fastforce
    with False have m: "(i, w) \<in> set before" by (metis last_in_set)
    then have "i < lim" "(i, w) \<in> set (char_indices 0 s)" unfolding before_def by (auto dest: set_takeWhileD)
    with char_widths [OF assms] have "w \<le> 4" "i < lim" by auto
    then show ?thesis using False l by (simp add: cut_def)
  qed (simp add: cut_def)
  moreover have "length cut_mark = 14" by (simp add: cut_mark_def)
  moreover have "truncate_text s lim = (if length s \<le> lim then s else take cut s @ cut_mark)"
    by (simp add: truncate_text_def Let_def before_def cut_def)
  ultimately show ?thesis by (simp add: min_def)
qed

lemma truncate_keepable: "\<forall>ch \<in> set s. is_keepable_char ch \<Longrightarrow> ch \<in> set (truncate_text s lim) \<Longrightarrow> is_keepable_char ch"
proof -
  have "\<forall>ch \<in> set cut_mark. is_keepable_char ch" by (simp add: cut_mark_def is_keepable_char_def char_byte_def)
  then show "\<forall>ch \<in> set s. is_keepable_char ch \<Longrightarrow> ch \<in> set (truncate_text s lim) \<Longrightarrow> is_keepable_char ch"
    unfolding truncate_text_def Let_def by (auto dest: in_set_takeD split: if_splits)
qed

subsection \<open>The lines of a request\<close>

text \<open>A text as a client may send it through the filter: no byte is ESC, none below 0x20 is another control character than
  line feed, carriage return and tab, and it is not much longer than the limit: the character at the limit may have three
  bytes more, and the mark has fourteen. The one-character control sequence introducer U+009B (two bytes in UTF-8) and
  DEL are not excluded, and a line feed starts a new line of the log.\<close>

definition clean_text :: "nat \<Rightarrow> string \<Rightarrow> bool" where
  "clean_text lim s \<longleftrightarrow> (\<forall>ch \<in> set s. ch \<noteq> CHR 0x1B \<and> (char_byte ch < 0x20 \<longrightarrow> ch \<in> {CHR 0x09, CHR 0x0A, CHR 0x0D}))
     \<and> length s \<le> lim + 17"

lemma char_byte_inverse: "char_of (char_byte ch) = ch"
  by (simp add: char_byte_def)

lemma keepable_plain:
  assumes "is_keepable_char ch" shows "ch \<noteq> CHR 0x1B \<and> (char_byte ch < 0x20 \<longrightarrow> ch \<in> {CHR 0x09, CHR 0x0A, CHR 0x0D})"
proof -
  have "ch \<in> {CHR 0x09, CHR 0x0A, CHR 0x0D}" if "char_byte ch < 0x20"
  proof -
    have "char_byte ch = 10 \<or> char_byte ch = 13 \<or> char_byte ch = 9" using assms that by (auto simp: is_keepable_char_def)
    then have "ch = char_of (10 :: int) \<or> ch = char_of (13 :: int) \<or> ch = char_of (9 :: int)" using char_byte_inverse [of ch] by auto
    then show ?thesis by (auto simp: char_of_def)
  qed
  moreover have "ch \<noteq> CHR 0x1B" using assms ESC_not_keepable by (auto simp: ESC_def)
  ultimately show ?thesis by blast
qed

lemma clean_filtered: "utf8_shape s \<Longrightarrow> clean_text lim (truncate_text (strip_ansi s) lim)"
  unfolding clean_text_def
  using truncate_length [OF strip_shape] truncate_keepable [of "strip_ansi s"] strip_ansi_keepable keepable_plain by blast

lemma clean_or_dash: "(\<And>s. o1 = Some s \<Longrightarrow> utf8_shape s) \<Longrightarrow> clean_text MAX_TAG_LEN (or_dash (map_option (truncate_tag \<circ> strip_ansi) o1))"
proof (cases o1)
  case None
  then show ?thesis by (simp add: clean_text_def or_dash_def is_keepable_char_def char_byte_def)
next
  case (Some s)
  assume "\<And>s. o1 = Some s \<Longrightarrow> utf8_shape s"
  with Some clean_filtered show ?thesis by (simp add: or_dash_def truncate_tag_def)
qed

definition batch_shape :: "browser_log_batch \<Rightarrow> bool" where
  "batch_shape batch \<longleftrightarrow> (\<forall>s \<in> set_option (bb_session batch). utf8_shape s) \<and> (\<forall>e \<in> set (bb_entries batch).
     utf8_shape (be_message e) \<and> (\<forall>s \<in> set_option (be_tag e) \<union> set_option (be_user e). utf8_shape s))"

definition sound_line :: "string option \<Rightarrow> log_line \<Rightarrow> bool" where
  "sound_line auth_user l \<longleftrightarrow> clean_text 4096 (ll_message l) \<and> clean_text 64 (ll_session l)
     \<and> clean_text 64 (ll_tag l) \<and> ll_level l \<in> {''error'', ''warn'', ''debug'', ''info''}
     \<and> (case auth_user of Some uid \<Rightarrow> ll_user l = uid \<and> \<not> ll_unauthenticated l
        | None \<Rightarrow> clean_text 64 (ll_user l) \<and> ll_unauthenticated l)"

lemma entry_line_sound:
  assumes "batch_shape batch" and "e \<in> set (bb_entries batch)"
  shows "sound_line auth_user (entry_line auth_user (or_dash (map_option (truncate_tag \<circ> strip_ansi) (bb_session batch))) e)"
proof -
  have "clean_text MAX_MESSAGE_LEN (truncate_text (strip_ansi (be_message e)) MAX_MESSAGE_LEN)"
    "clean_text MAX_TAG_LEN (or_dash (map_option (truncate_tag \<circ> strip_ansi) (bb_session batch)))"
    "clean_text MAX_TAG_LEN (or_dash (map_option (truncate_tag \<circ> strip_ansi) (be_tag e)))"
    "clean_text MAX_TAG_LEN (or_dash (map_option (truncate_tag \<circ> strip_ansi) (be_user e)))"
    using assms unfolding batch_shape_def by (auto intro!: clean_filtered clean_or_dash)
  then show ?thesis
    by (simp add: sound_line_def entry_line_def normalize_level_def Let_def MAX_MESSAGE_LEN_def MAX_TAG_LEN_def split: option.split)
qed

text \<open>C21. What a browser, signed in or not, can bring into the log of the server: at most a hundred entries per request.
  No field of an entry has an ESC byte or a control character below 0x20 but line feed, carriage return and tab; the
  message has at most 4113 bytes, the other fields 81; the level is one of four; the entry is marked as
  unauthenticated unless it carries the user of a valid token; and nothing at all is logged while the relay is off.\<close>

theorem browser_log_contained:
  assumes "\<And>v batch. body = Inr (Inr v) \<Longrightarrow> parse_browser_batch v = Some batch \<Longrightarrow> batch_shape batch"
    and "ingest J s now c cfg authorization body shape_error = (r, ls)"
  shows "length ls \<le> 100 \<and> (\<forall>l \<in> set ls. sound_line (extract_auth_user_id J s now c authorization) l)
    \<and> (\<not> cf_browser_log_forward cfg \<longrightarrow> ls = [])"
proof (cases "ls = []")
  case False
  then obtain v batch where v: "body = Inr (Inr v)" "parse_browser_batch v = Some batch" "cf_browser_log_forward cfg"
    and ls: "ls = map (entry_line (extract_auth_user_id J s now c authorization)
      (or_dash (map_option (truncate_tag \<circ> strip_ansi) (bb_session batch)))) (take MAX_ENTRIES_PER_BATCH (bb_entries batch))"
    using assms(2) by (auto simp: ingest_def Let_def split: if_splits sum.splits option.splits)
  have "batch_shape batch" using assms(1) v by blast
  then have "\<forall>l \<in> set ls. sound_line (extract_auth_user_id J s now c authorization) l"
    unfolding ls by (auto intro!: entry_line_sound dest: in_set_takeD)
  then show ?thesis using v by (simp add: ls MAX_ENTRIES_PER_BATCH_def)
qed simp

lemma ascii_shape: "\<forall>ch \<in> set s. char_byte ch < 128 \<Longrightarrow> utf8_shape s"
proof (induction s)
  case (Cons ch s)
  then have "utf8_shape (ch # [] @ s)" by (intro utf8_shape.shape_char) (auto simp: continues_def)
  then show ?case by simp
qed (rule shape_end)

definition sample_report :: json where
  "sample_report = JObj [(''entries'', JArr [JObj [(''level'', JStr ''WARNING''), (''message'', JStr ''hi'')]])]"

theorem browser_log_contained_witness:
  "\<exists>l. snd (ingest sample_jwt (auth_new [] []) 0 empty_conn (config_load [''DILLA_BROWSER_LOG_FORWARD'' \<mapsto> ''1'']) None (Inr (Inr sample_report)) [])
      = [l] \<and> ll_message l = ''hi'' \<and> sound_line None l"
proof -
  let ?cfg = "config_load [''DILLA_BROWSER_LOG_FORWARD'' \<mapsto> ''1'']"
  let ?batch = "\<lparr>bb_entries = [\<lparr>be_level = ''WARNING'', be_message = ''hi'', be_ts = None, be_tag = None, be_user = None\<rparr>], bb_session = None\<rparr>"
  have p: "parse_browser_batch sample_report = Some ?batch"
    by (simp add: sample_report_def parse_browser_batch_def parse_browser_entry_def field_str_def field_opt_str_def field_opt_u64_def)
  have shape: "batch_shape ?batch" by (simp add: batch_shape_def ascii_shape char_byte_def)
  have on: "cf_browser_log_forward ?cfg" by (simp add: config_load_def Let_def env_bool_def)
  have none: "extract_auth_user_id J s n c None = None" for J s n c by (simp add: extract_auth_user_id_def)
  have hi: "strip_ansi ''hi'' = ''hi''" using strip_ansi_plain [of "''hi''" "[]"] by (simp add: is_keepable_char_def char_byte_def)
  obtain r ls where run: "ingest sample_jwt (auth_new [] []) 0 empty_conn ?cfg None (Inr (Inr sample_report)) [] = (r, ls)" by fastforce
  then have ls: "ls = [entry_line None (or_dash (map_option (truncate_tag \<circ> strip_ansi) None)) (hd (bb_entries ?batch))]"
    by (simp add: ingest_def on none p MAX_ENTRIES_PER_BATCH_def Let_def)
  have "length ls \<le> 100 \<and> (\<forall>l \<in> set ls. sound_line (extract_auth_user_id sample_jwt (auth_new [] []) 0 empty_conn None) l)
      \<and> (\<not> cf_browser_log_forward ?cfg \<longrightarrow> ls = [])"
    by (rule browser_log_contained [OF _ run]) (use p shape in simp)
  moreover obtain l where l: "ls = [l]" "l = entry_line None (or_dash (map_option (truncate_tag \<circ> strip_ansi) None)) (hd (bb_entries ?batch))"
    using ls by blast
  moreover have "ll_message l = ''hi''"
    unfolding l(2) entry_line_def by (simp del: strip_ansi.simps add: hi truncate_text_def MAX_MESSAGE_LEN_def)
  ultimately show ?thesis unfolding run none by (simp del: strip_ansi.simps)
qed

text \<open>A line end is kept, so a message can look like several lines of the log, with any user and level.\<close>

lemma forged_line:
  assumes "\<forall>ch \<in> set (a @ b). is_keepable_char ch" and "length a + length b < MAX_MESSAGE_LEN"
    and "be_message e = a @ [CHR 0x0A] @ b"
  shows "ll_message (entry_line u session e) = a @ [CHR 0x0A] @ b"
proof -
  have "\<forall>ch \<in> set (a @ [CHR 0x0A] @ b). is_keepable_char ch" using assms(1) by (auto simp: is_keepable_char_def char_byte_def)
  from strip_ansi_plain [OF this, of "[]"] have "strip_ansi (a @ [CHR 0x0A] @ b) = a @ [CHR 0x0A] @ b" by simp
  with assms(2,3) show ?thesis by (simp add: entry_line_def truncate_text_def)
qed

end
