(* ===== verification/Router.thy ===== *)
theory Router
  imports Server_Config Ws_Session
begin

section \<open>The router\<close>

text \<open>
  \<open>create_router\<close> of \<open>api/mod.rs\<close> with the handlers of that file, and the embedded client of \<open>webapp/mod.rs\<close>. A handler is
  its name; the handlers themselves are in the theories of their files. Which of several matching routes axum takes is a
  parameter, \<open>pick\<close>; the rate limiters are one too, \<open>admit\<close>. A path is split at its slashes; a parameter stands for
  a segment that is not empty, a rest for one or more segments. The routes are in the order of the file.
\<close>

subsection \<open>Routes\<close>

datatype http_method = GET | HEAD | POST | PUT | PATCH | DELETE | OPTIONS

datatype limit = AuthLimit | ProtectedLimit | StrictLimit

record route =
  rt_path :: string
  rt_methods :: "(http_method \<times> string) list"
  rt_limit :: "limit option"

definition rt :: "string \<Rightarrow> (http_method \<times> string) list \<Rightarrow> limit option \<Rightarrow> route" where
  "rt p ms l = \<lparr>rt_path = p, rt_methods = ms, rt_limit = l\<rparr>"

definition auth_routes :: "route list" where
  "auth_routes = [rt ''/api/v1/auth/challenge'' [(POST, ''auth_handlers::challenge'')] None,
     rt ''/api/v1/auth/verify'' [(POST, ''auth_handlers::verify'')] None,
     rt ''/api/v1/auth/register'' [(POST, ''auth_handlers::register'')] None,
     rt ''/api/v1/auth/bootstrap'' [(POST, ''auth_handlers::bootstrap'')] None,
     rt ''/api/v1/auth/refresh'' [(POST, ''auth_handlers::refresh'')] None]"

definition public_routes :: "route list" where
  "public_routes = [rt ''/api/v1/health'' [(GET, ''health'')] None,
     rt ''/api/v1/version'' [(GET, ''version'')] None,
     rt ''/api/v1/config'' [(GET, ''get_config'')] None,
     rt ''/theme/custom.css'' [(GET, ''theme::get_custom_theme'')] None,
     rt ''/api/voice/models/manifest.json'' [(GET, ''voice::models_manifest'')] None,
     rt ''/api/voice/models/{*path}'' [(GET, ''voice::models_serve'')] None,
     rt ''/api/v1/invites/{token}/info'' [(GET, ''invites::get_invite_info'')] None,
     rt ''/api/v1/federation/join/{token}'' [(GET, ''federation::get_join_info'')] None,
     rt ''/api/v1/debug/browser-log'' [(POST, ''debug::ingest'')] (Some AuthLimit),
     rt ''/api/v1/identity/recovery/lookup'' [(POST, ''identity_recovery::lookup'')] (Some AuthLimit),
     rt ''/api/v1/identity/recovery/fetch'' [(POST, ''identity_recovery::fetch'')] (Some AuthLimit)]"

definition account_routes :: "route list" where
  "account_routes = [rt ''/api/v1/users/me'' [(GET, ''users::get_me''), (PATCH, ''users::update_me''), (DELETE, ''users::delete_me'')] None,
     rt ''/api/v1/identity/blob'' [(GET, ''users::get_identity_blob''), (PUT, ''users::put_identity_blob'')] None,
     rt ''/api/v1/prekeys'' [(POST, ''prekeys::upload''), (DELETE, ''prekeys::delete_own'')] None,
     rt ''/api/v1/prekeys/{user_id}'' [(GET, ''prekeys::get_bundle'')] (Some StrictLimit)]"

definition team_routes :: "route list" where
  "team_routes = [rt ''/api/v1/teams'' [(GET, ''teams::list''), (POST, ''teams::create'')] None,
     rt ''/api/v1/teams/{team_id}'' [(GET, ''teams::get_team''), (PATCH, ''teams::update'')] None,
     rt ''/api/v1/teams/{team_id}/members'' [(GET, ''teams::list_members'')] None,
     rt ''/api/v1/teams/{team_id}/members/{user_id}'' [(PATCH, ''teams::update_member''), (DELETE, ''teams::kick_member'')] None,
     rt ''/api/v1/teams/{team_id}/leave'' [(POST, ''teams::leave_team'')] None,
     rt ''/api/v1/teams/{team_id}/members/{user_id}/ban'' [(POST, ''teams::ban_member''), (DELETE, ''teams::unban_member'')] None]"

definition channel_routes :: "route list" where
  "channel_routes = [rt ''/api/v1/teams/{team_id}/channels'' [(GET, ''channels::list''), (POST, ''channels::create'')] None,
     rt ''/api/v1/teams/{team_id}/channels/{channel_id}'' [(GET, ''channels::get_channel''), (PATCH, ''channels::update''), (DELETE, ''channels::delete_channel'')] None,
     rt ''/api/v1/teams/{team_id}/channels/{channel_id}/read'' [(PUT, ''channels::mark_read'')] None,
     rt ''/api/v1/teams/{team_id}/channels/{channel_id}/messages'' [(GET, ''messages::list''), (POST, ''messages::create'')] None,
     rt ''/api/v1/teams/{team_id}/channels/{channel_id}/messages/{message_id}'' [(PATCH, ''messages::edit''), (DELETE, ''messages::delete_msg'')] None]"

definition role_routes :: "route list" where
  "role_routes = [rt ''/api/v1/teams/{team_id}/roles'' [(GET, ''roles::list''), (POST, ''roles::create'')] None,
     rt ''/api/v1/teams/{team_id}/roles/reorder'' [(PUT, ''roles::reorder'')] None,
     rt ''/api/v1/teams/{team_id}/roles/{role_id}'' [(PATCH, ''roles::update''), (DELETE, ''roles::delete_role'')] None,
     rt ''/api/v1/teams/{team_id}/audit'' [(GET, ''audit::list'')] None,
     rt ''/api/v1/me/muted-channels'' [(GET, ''channel_mutes::list'')] None,
     rt ''/api/v1/me/muted-channels/{channel_id}'' [(PUT, ''channel_mutes::mute''), (DELETE, ''channel_mutes::unmute'')] None]"

definition poll_group_routes :: "route list" where
  "poll_group_routes = [rt ''/api/v1/teams/{team_id}/channels/{channel_id}/polls'' [(GET, ''polls::list_for_channel''), (POST, ''polls::create'')] None,
     rt ''/api/v1/teams/{team_id}/channels/{channel_id}/access'' [(GET, ''channels::get_access''), (PUT, ''channels::set_access'')] None,
     rt ''/api/v1/teams/{team_id}/polls/{poll_id}/votes'' [(POST, ''polls::vote''), (DELETE, ''polls::unvote'')] None,
     rt ''/api/v1/teams/{team_id}/groups'' [(GET, ''channel_groups::list''), (POST, ''channel_groups::create'')] None,
     rt ''/api/v1/teams/{team_id}/groups/{group_id}'' [(PUT, ''channel_groups::update''), (DELETE, ''channel_groups::delete'')] None,
     rt ''/api/v1/teams/{team_id}/groups/{group_id}/access'' [(GET, ''channel_groups::get_access''), (PUT, ''channel_groups::set_access'')] None]"

definition block_pin_routes :: "route list" where
  "block_pin_routes = [rt ''/api/v1/users/me/blocks'' [(GET, ''blocks::list'')] None,
     rt ''/api/v1/users/me/blocks/{blocked_id}'' [(POST, ''blocks::block''), (DELETE, ''blocks::unblock'')] None,
     rt ''/api/v1/teams/{team_id}/channels/{channel_id}/pins'' [(GET, ''pins::list_for_channel'')] None,
     rt ''/api/v1/teams/{team_id}/channels/{channel_id}/messages/{message_id}/pin'' [(POST, ''pins::pin''), (DELETE, ''pins::unpin'')] None,
     rt ''/api/v1/teams/{team_id}/gif'' [(GET, ''gif::search'')] None,
     rt ''/api/v1/teams/{team_id}/gif/embed'' [(POST, ''gif::embed'')] (Some StrictLimit),
     rt ''/api/v1/teams/{team_id}/integrations/giphy'' [(GET, ''integrations::get_giphy''), (PUT, ''integrations::set_giphy'')] None]"

definition invite_dm_routes :: "route list" where
  "invite_dm_routes = [rt ''/api/v1/teams/{team_id}/invites'' [(GET, ''invites::list''), (POST, ''invites::create'')] None,
     rt ''/api/v1/teams/{team_id}/invites/{invite_id}'' [(DELETE, ''invites::revoke'')] None,
     rt ''/api/v1/teams/{team_id}/dms'' [(GET, ''dms::list''), (POST, ''dms::create_or_get'')] None,
     rt ''/api/v1/teams/{team_id}/dms/{dm_id}'' [(GET, ''dms::get_dm'')] None,
     rt ''/api/v1/teams/{team_id}/dms/{dm_id}/messages'' [(GET, ''dms::list_messages''), (POST, ''dms::send_message'')] None,
     rt ''/api/v1/teams/{team_id}/dms/{dm_id}/messages/{message_id}'' [(PUT, ''dms::edit_message''), (DELETE, ''dms::delete_message'')] None,
     rt ''/api/v1/teams/{team_id}/dms/{dm_id}/members'' [(POST, ''dms::add_members'')] None,
     rt ''/api/v1/teams/{team_id}/dms/{dm_id}/members/{user_id}'' [(DELETE, ''dms::remove_member'')] None]"

definition thread_reaction_routes :: "route list" where
  "thread_reaction_routes = [rt ''/api/v1/teams/{team_id}/channels/{channel_id}/threads'' [(GET, ''threads::list''), (POST, ''threads::create'')] None,
     rt ''/api/v1/teams/{team_id}/threads/{thread_id}'' [(GET, ''threads::get_thread''), (PUT, ''threads::update''), (DELETE, ''threads::delete_thread'')] None,
     rt ''/api/v1/teams/{team_id}/threads/{thread_id}/messages'' [(GET, ''threads::list_messages''), (POST, ''threads::create_message'')] None,
     rt ''/api/v1/teams/{team_id}/channels/{channel_id}/messages/{message_id}/reactions/{emoji}'' [(PUT, ''reactions::add''), (DELETE, ''reactions::remove'')] None,
     rt ''/api/v1/teams/{team_id}/channels/{channel_id}/messages/{message_id}/reactions'' [(GET, ''reactions::list'')] None]"

definition upload_presence_routes :: "route list" where
  "upload_presence_routes = [rt ''/api/v1/teams/{team_id}/upload'' [(POST, ''uploads::upload'')] (Some StrictLimit),
     rt ''/api/v1/teams/{team_id}/attachments/{attachment_id}'' [(GET, ''uploads::download''), (DELETE, ''uploads::delete_attachment'')] None,
     rt ''/api/v1/teams/{team_id}/presence'' [(GET, ''presence::get_all''), (PUT, ''presence::update_own'')] None,
     rt ''/api/v1/teams/{team_id}/presence/{user_id}'' [(GET, ''presence::get_user'')] None,
     rt ''/api/v1/teams/{team_id}/voice/{channel_id}'' [(GET, ''voice::get_room'')] None]"

definition federation_routes :: "route list" where
  "federation_routes = [rt ''/api/v1/federation/status'' [(GET, ''federation::get_status'')] None,
     rt ''/api/v1/federation/peers'' [(GET, ''federation::get_peers'')] None,
     rt ''/api/v1/federation/join-token'' [(POST, ''federation::create_join_token'')] None,
     rt ''/api/v1/federation/identity'' [(GET, ''federation::get_node_identity'')] None,
     rt ''/api/v1/federation/pinned-peers'' [(GET, ''federation::list_pinned_peers''), (POST, ''federation::pin_peer'')] None,
     rt ''/api/v1/federation/pinned-peers/{node_id}'' [(DELETE, ''federation::revoke_peer'')] None,
     rt ''/api/v1/federation/team-authority/{team_id}'' [(PUT, ''federation::set_team_authority'')] None]"

definition device_routes :: "route list" where
  "device_routes = [rt ''/api/v1/auth/ws-ticket'' [(POST, ''ws_ticket'')] None,
     rt ''/api/v1/auth/logout'' [(POST, ''auth_handlers::logout'')] None,
     rt ''/api/v1/devices'' [(GET, ''devices::list_devices'')] None,
     rt ''/api/v1/devices/enroll-begin'' [(POST, ''devices::enroll_begin'')] (Some AuthLimit),
     rt ''/api/v1/devices/enroll-complete'' [(POST, ''devices::enroll_complete'')] (Some AuthLimit),
     rt ''/api/v1/devices/{device_id}/revoke'' [(POST, ''devices::revoke_device'')] None,
     rt ''/api/v1/identity/recovery/passkey'' [(PUT, ''identity_recovery::upsert_slot'')] None,
     rt ''/api/v1/identity/recovery/passkey/{credential_id}'' [(DELETE, ''identity_recovery::revoke_slot'')] None]"

definition ws_routes :: "route list" where
  "ws_routes = [rt ''/ws'' [(GET, ''ws_handler'')] None]"

definition protected_routes :: "route list" where
  "protected_routes = account_routes @ team_routes @ channel_routes @ role_routes @ poll_group_routes @ block_pin_routes
     @ invite_dm_routes @ thread_reaction_routes @ upload_presence_routes @ federation_routes @ device_routes"

datatype area = AuthArea | PublicArea | ProtectedArea | WsArea

definition route_table :: "(area \<times> route) list" where
  "route_table = map (Pair PublicArea) public_routes @ map (Pair AuthArea) auth_routes
     @ map (Pair ProtectedArea) protected_routes @ map (Pair WsArea) ws_routes"

subsection \<open>Matching\<close>

datatype seg = Lit string | Par string | Rest string

definition seg_of :: "string \<Rightarrow> seg" where
  "seg_of s = (if starts_with ''{*'' s then Rest s else if starts_with ''{'' s then Par s else Lit s)"

definition pattern_of :: "string \<Rightarrow> seg list" where
  "pattern_of path = map seg_of (split_on CHR ''/'' path)"

fun seg_match :: "seg list \<Rightarrow> string list \<Rightarrow> bool" where
  "seg_match [] [] = True"
| "seg_match (Lit l # ps) (x # xs) = (l = x \<and> seg_match ps xs)"
| "seg_match (Par n # ps) (x # xs) = (x \<noteq> [] \<and> seg_match ps xs)"
| "seg_match (Rest n # ps) (x # xs) = (ps = [] \<and> (x \<noteq> [] \<or> xs \<noteq> []))"
| "seg_match _ _ = False"

definition route_matches :: "route \<Rightarrow> string \<Rightarrow> bool" where
  "route_matches r path = seg_match (pattern_of (rt_path r)) (split_on CHR ''/'' path)"

text \<open>What axum promises: it takes a route that matches, if there is one.\<close>

definition picks :: "(string \<Rightarrow> (area \<times> route) option) \<Rightarrow> bool" where
  "picks pick \<longleftrightarrow> (\<forall>path. case pick path of
       None \<Rightarrow> \<forall>e \<in> set route_table. \<not> route_matches (snd e) path
     | Some e \<Rightarrow> e \<in> set route_table \<and> route_matches (snd e) path)"

subsection \<open>Serving a request\<close>

record request =
  rq_method :: http_method
  rq_path :: string
  rq_authorization :: "string option option"
  rq_cookie :: "string option option"

datatype outcome =
    Run string "string option"
  | Limited
  | Refused app_error
  | MethodNotAllowed
  | Preflight
  | Fallback

text \<open>\<open>get\<close> answers \<open>HEAD\<close> too. The limit of a route is around its handlers, the other layers are around the whole route; the
  layer that was added last runs first.\<close>

definition dispatch :: "(limit \<Rightarrow> bool) \<Rightarrow> route \<Rightarrow> http_method \<Rightarrow> string option \<Rightarrow> outcome" where
  "dispatch admit r m uid =
     (case map_of (rt_methods r) (if m = HEAD then GET else m) of
        None \<Rightarrow> MethodNotAllowed
      | Some h \<Rightarrow> (case rt_limit r of None \<Rightarrow> Run h uid | Some l \<Rightarrow> if admit l then Run h uid else Limited))"

definition guarded :: "jwt_lib \<Rightarrow> auth_service \<Rightarrow> int \<Rightarrow> conn \<Rightarrow> (limit \<Rightarrow> bool) \<Rightarrow> request \<Rightarrow> route \<Rightarrow> outcome" where
  "guarded J s now c admit rq r = (if \<not> admit ProtectedLimit then Limited
     else case auth_middleware J s now c (rq_authorization rq) (rq_cookie rq) (\<lambda>uid. dispatch admit r (rq_method rq) (Some uid)) of
       Inl e \<Rightarrow> Refused e | Inr out \<Rightarrow> out)"

fun serve_area ::
  "jwt_lib \<Rightarrow> auth_service \<Rightarrow> int \<Rightarrow> conn \<Rightarrow> (limit \<Rightarrow> bool) \<Rightarrow> request \<Rightarrow> area \<times> route \<Rightarrow> outcome" where
  "serve_area J s now c admit rq (AuthArea, r) = (if admit AuthLimit then dispatch admit r (rq_method rq) None else Limited)"
| "serve_area J s now c admit rq (PublicArea, r) = dispatch admit r (rq_method rq) None"
| "serve_area J s now c admit rq (WsArea, r) = dispatch admit r (rq_method rq) None"
| "serve_area J s now c admit rq (ProtectedArea, r) = guarded J s now c admit rq r"

text \<open>The CORS layer is around every route and answers each \<open>OPTIONS\<close> itself.\<close>

definition serve ::
  "jwt_lib \<Rightarrow> auth_service \<Rightarrow> int \<Rightarrow> conn \<Rightarrow> (limit \<Rightarrow> bool) \<Rightarrow> (string \<Rightarrow> (area \<times> route) option) \<Rightarrow> request \<Rightarrow> outcome" where
  "serve J s now c admit pick rq = (case pick (rq_path rq) of
       None \<Rightarrow> Fallback
     | Some e \<Rightarrow> if rq_method rq = OPTIONS then Preflight else serve_area J s now c admit rq e)"

subsection \<open>Limits, CORS, headers\<close>

text \<open>\<open>per_second(n)\<close> of the builder sets the time, in seconds, after which one request is given back.\<close>

record quota =
  qt_seconds_per_request :: int
  qt_burst :: int

definition limit_quota :: "config \<Rightarrow> limit \<Rightarrow> quota" where
  "limit_quota cfg l = (case l of
     AuthLimit \<Rightarrow> \<lparr>qt_seconds_per_request = 6, qt_burst = 10\<rparr>
   | ProtectedLimit \<Rightarrow> \<lparr>qt_seconds_per_request = max 1 (cf_ratelimit_per_second cfg), qt_burst = max 1 (cf_ratelimit_burst cfg)\<rparr>
   | StrictLimit \<Rightarrow> \<lparr>qt_seconds_per_request = 5, qt_burst = 10\<rparr>)"

datatype cors = VeryPermissive | NoCrossOrigin | AllowOrigins "string list"

text \<open>\<open>parse\<close> is the parser of header values.\<close>

definition cors_layer :: "(string \<Rightarrow> string option) \<Rightarrow> config \<Rightarrow> cors" where
  "cors_layer parse cfg = (if cf_allowed_origins cfg = [] then (if cf_insecure cfg then VeryPermissive else NoCrossOrigin)
     else AllowOrigins (List.map_filter parse (cf_allowed_origins cfg)))"

definition api_headers :: "(string \<times> string) list" where
  "api_headers = [(''x-content-type-options'', ''nosniff''), (''x-frame-options'', ''DENY''),
     (''referrer-policy'', ''strict-origin-when-cross-origin'')]"

definition hsts_header :: "config \<Rightarrow> (string \<times> string) list" where
  "hsts_header cfg = (if cf_tls_cert cfg \<noteq> [] \<and> cf_tls_key cfg \<noteq> []
     then [(''strict-transport-security'', ''max-age=63072000; includeSubDomains; preload'')] else [])"

subsection \<open>Handlers of this file\<close>

definition health :: json where "health = JObj [(''status'', JStr ''ok'')]"

definition version :: "string option \<Rightarrow> json" where
  "version v = JObj [(''version'', JStr (case v of None \<Rightarrow> ''dev'' | Some s \<Rightarrow> s)), (''runtime'', JStr ''rust'')]"

definition get_config :: "config \<Rightarrow> json" where
  "get_config cfg = JObj [(''domain'', JStr (cf_domain cfg)), (''rp_id'', JStr (cf_domain cfg)),
     (''has_custom_theme'', JBool (cf_theme_file cfg \<noteq> [])), (''db_encrypted'', JBool (cf_db_passphrase cfg \<noteq> [])),
     (''tls_enabled'', JBool (cf_tls_cert cfg \<noteq> []))]"

definition ws_ticket :: "bytes \<Rightarrow> int \<Rightarrow> string \<Rightarrow> auth_service \<Rightarrow> json \<times> auth_service" where
  "ws_ticket rnd now uid s = (case generate_ws_ticket rnd now uid s of (ticket, s') \<Rightarrow> (JObj [(''ticket'', JStr ticket)], s'))"

text \<open>The upgrade: a status with a text, or the session that \<open>handle_ws_connection\<close> is started with.\<close>

definition ws_handler ::
  "jwt_lib \<Rightarrow> int \<Rightarrow> string \<Rightarrow> (string \<Rightarrow> string option) \<Rightarrow> conn \<Rightarrow> auth_service \<Rightarrow> (int \<times> string + session) \<times> auth_service" where
  "ws_handler J now client_id params c s =
     (let team_id = (case params ''team'' of None \<Rightarrow> [] | Some t \<Rightarrow> t);
          (r, s') = (case params ''ticket'' of
              Some ticket \<Rightarrow> (case validate_ws_ticket now ticket s of (r, s') \<Rightarrow> (map_err (\<lambda>_. (401, ''invalid or expired ticket'')) r, s'))
            | None \<Rightarrow> (map_err (\<lambda>_. (401, ''invalid token''))
                (validate_jwt J s now c (case params ''token'' of None \<Rightarrow> [] | Some t \<Rightarrow> t)), s))
      in (bindE r (\<lambda>uid.
          let username = unwrap_or (bindE (get_user_by_id c uid) (\<lambda>u. Inr (case u of None \<Rightarrow> [] | Some u \<Rightarrow> u_username u))) [];
              scoped = (if team_id \<noteq> [] \<and> unwrap_or (bindE (get_member_by_user_and_team c uid team_id) (\<lambda>m. Inr (m \<noteq> None))) False
                then team_id else [])
          in Inr \<lparr>ss_client_id = client_id, ss_user_id = uid, ss_username = username, ss_team_id = scoped\<rparr>), s'))"

subsection \<open>The embedded client\<close>

definition quoted :: "string \<Rightarrow> string" where
  "quoted s = CHR 0x27 # s @ [CHR 0x27]"

definition csp_directives :: "bool \<Rightarrow> (string \<times> string list) list" where
  "csp_directives insecure =
     [(''default-src'', [quoted ''self'']), (''script-src'', [quoted ''self'']), (''style-src'', [quoted ''self'', quoted ''unsafe-inline'']),
      (''img-src'', [quoted ''self'', ''data:'', ''blob:'', ''https:'']),
      (''connect-src'', if insecure then [quoted ''self'', ''ws:'', ''wss:'', ''http:'', ''https:''] else [quoted ''self'', ''wss:'', ''https:'']),
      (''worker-src'', [quoted ''self'', ''blob:'']), (''font-src'', [quoted ''self'', ''data:'']), (''object-src'', [quoted ''none'']),
      (''base-uri'', [quoted ''self'']), (''form-action'', [quoted ''self'']), (''frame-ancestors'', [quoted ''none'']),
      (''upgrade-insecure-requests'', []), (''require-trusted-types-for'', [quoted ''script'']), (''trusted-types'', [''default''])]"

fun join_with :: "string \<Rightarrow> string list \<Rightarrow> string" where
  "join_with sep [] = []"
| "join_with sep [x] = x"
| "join_with sep (x # y # xs) = x @ sep @ join_with sep (y # xs)"

definition csp :: "bool \<Rightarrow> string" where
  "csp insecure = join_with ''; '' (map (\<lambda>(d, vs). join_with '' '' (d # vs)) (csp_directives insecure))"

definition webapp_headers :: "bool \<Rightarrow> (string \<times> string) list" where
  "webapp_headers insecure = [(''content-security-policy'', csp insecure), (''x-content-type-options'', ''nosniff''),
     (''referrer-policy'', ''no-referrer''), (''cross-origin-opener-policy'', ''same-origin''), (''cross-origin-embedder-policy'', ''require-corp'')]"

datatype webapp_answer =
    NotFoundJson
  | Asset string bool bytes
  | Index bytes
  | NoClient

text \<open>\<open>files\<close> is the embedded directory, \<open>mime\<close> the type guessed from a path.\<close>

definition foreign_path :: "string \<Rightarrow> bool" where
  "foreign_path path \<longleftrightarrow> starts_with ''/api/'' path \<or> starts_with ''/ws'' path \<or> starts_with ''/federation/'' path
     \<or> path = ''/health'' \<or> starts_with ''/auth'' path"

definition serve_webapp :: "(string \<Rightarrow> bytes option) \<Rightarrow> (string \<Rightarrow> string) \<Rightarrow> string \<Rightarrow> webapp_answer" where
  "serve_webapp files mime path =
     (if foreign_path path then NotFoundJson
      else let file_path = dropWhile (\<lambda>ch. ch = CHR ''/'') path in
        (case (if file_path = [] then None else files file_path) of
           Some body \<Rightarrow> Asset (mime file_path) (starts_with ''/assets/'' path) body
         | None \<Rightarrow> (case files ''index.html'' of Some body \<Rightarrow> Index body | None \<Rightarrow> NoClient)))"

subsection \<open>Which patterns can match the same path\<close>

fun overlap :: "seg list \<Rightarrow> seg list \<Rightarrow> bool" where
  "overlap [] [] = True"
| "overlap (Rest n # ps) (q # qs) = True"
| "overlap (p # ps) (Rest n # qs) = True"
| "overlap (Lit l # ps) (Lit k # qs) = (l = k \<and> overlap ps qs)"
| "overlap (p # ps) (q # qs) = overlap ps qs"
| "overlap _ _ = False"

lemma overlap_complete: "seg_match ps xs \<Longrightarrow> seg_match qs xs \<Longrightarrow> overlap ps qs"
  by (induction ps qs arbitrary: xs rule: overlap.induct) (auto elim: seg_match.elims)

lemma open_routes_apart:
  "list_all (\<lambda>q. list_all (\<lambda>p. \<not> overlap (pattern_of (rt_path p)) (pattern_of (rt_path q))) (public_routes @ auth_routes @ ws_routes)) protected_routes"
  by code_simp

lemma areas: "e \<in> set route_table \<Longrightarrow> fst e = ProtectedArea \<and> snd e \<in> set protected_routes
    \<or> snd e \<in> set (public_routes @ auth_routes @ ws_routes)"
  by (auto simp: route_table_def)

lemma picked_is_protected:
  assumes "picks pick" and "r \<in> set protected_routes" and "route_matches r path"
  obtains q where "pick path = Some (ProtectedArea, q)" "q \<in> set protected_routes" "route_matches q path"
proof -
  have e: "(ProtectedArea, r) \<in> set route_table" using assms(2) by (simp add: route_table_def)
  with assms obtain ar q where p: "pick path = Some (ar, q)" "(ar, q) \<in> set route_table" "route_matches q path"
    unfolding picks_def by (metis (mono_tags, lifting) option.case_eq_if option.collapse prod.collapse snd_conv)
  have "q \<notin> set (public_routes @ auth_routes @ ws_routes)"
    using open_routes_apart assms(2,3) p(3) overlap_complete by (fastforce simp: list_all_iff route_matches_def)
  with areas [OF p(2)] p that show thesis by auto
qed

lemma auth_middleware_Inr:
  "auth_middleware J s now c a k f = Inr out \<longleftrightarrow>
     (\<exists>token uid. request_token a k = Inr token \<and> validate_jwt J s now c token = Inr uid \<and> out = f uid)"
  by (auto simp: auth_middleware_def bindE_def split: sum.splits)

text \<open>C18. A path that a protected route matches, whichever of the matching routes axum takes: the request is answered by a
  limiter, by the CORS layer when it is an \<open>OPTIONS\<close>, or by the check of the token; a handler runs only within the limit of the
  protected area, for a request with a valid token, as the user of that token.\<close>

theorem protected_path_guarded:
  assumes "picks pick" and "r \<in> set protected_routes" and "route_matches r (rq_path rq)"
  shows "case serve J s now c admit pick rq of
      Run h u \<Rightarrow> admit ProtectedLimit \<and> rq_method rq \<noteq> OPTIONS
        \<and> (\<exists>token uid. request_token (rq_authorization rq) (rq_cookie rq) = Inr token \<and> validate_jwt J s now c token = Inr uid \<and> u = Some uid)
    | MethodNotAllowed \<Rightarrow> admit ProtectedLimit
        \<and> (\<exists>token uid. request_token (rq_authorization rq) (rq_cookie rq) = Inr token \<and> validate_jwt J s now c token = Inr uid)
    | Refused e \<Rightarrow> \<forall>f :: string \<Rightarrow> unit. auth_middleware J s now c (rq_authorization rq) (rq_cookie rq) f = Inl e
    | Limited \<Rightarrow> True | Preflight \<Rightarrow> rq_method rq = OPTIONS | Fallback \<Rightarrow> False"
proof -
  obtain q where q: "pick (rq_path rq) = Some (ProtectedArea, q)" using picked_is_protected [OF assms] by blast
  show ?thesis
  proof (cases "rq_method rq = OPTIONS \<or> \<not> admit ProtectedLimit")
    case True
    then show ?thesis using q by (auto simp: serve_def guarded_def)
  next
    case False
    with q show ?thesis
      by (auto simp: serve_def guarded_def auth_middleware_def bindE_def dispatch_def split: sum.splits option.splits)
  qed
qed

definition first_match :: "string \<Rightarrow> (area \<times> route) option" where
  "first_match path = find (\<lambda>e. route_matches (snd e) path) route_table"

lemma first_match_picks: "picks first_match"
  unfolding picks_def first_match_def
  by (auto simp: find_None_iff find_Some_iff split: option.splits) (metis snd_conv)

theorem protected_path_guarded_witness:
  "serve sample_jwt (auth_new [] ''n'') 100 empty_conn (\<lambda>_. True) first_match
     \<lparr>rq_method = DELETE, rq_path = ''/api/v1/users/me'', rq_authorization = Some (Some ''Bearer R''), rq_cookie = None\<rparr>
   \<noteq> Run ''users::delete_me'' (Some ''u'')"
proof -
  let ?rq = "\<lparr>rq_method = DELETE, rq_path = ''/api/v1/users/me'', rq_authorization = Some (Some ''Bearer R''), rq_cookie = None\<rparr>"
  let ?r = "rt ''/api/v1/users/me'' [(GET, ''users::get_me''), (PATCH, ''users::update_me''), (DELETE, ''users::delete_me'')] None"
  have r: "?r \<in> set protected_routes" by (simp add: protected_routes_def account_routes_def)
  have m: "route_matches ?r (rq_path ?rq)" by code_simp
  have t: "request_token (Some (Some ''Bearer R'')) None = Inr ''R''" by code_simp
  have v: "isl (validate_jwt sample_jwt (auth_new [] ''n'') 100 empty_conn ''R'')" by code_simp
  from protected_path_guarded [OF first_match_picks r m, where J = sample_jwt and s = "auth_new [] ''n''" and now = 100 and c = empty_conn and admit = "\<lambda>_. True"] t v
  show ?thesis by auto
qed

text \<open>Which handlers of the protected area have a limit of their own.\<close>

lemma strict_handlers:
  assumes "pick (rq_path rq) = Some e" and "e \<in> set route_table" and "serve J s now c admit pick rq = Run h u"
    and "h \<in> {''uploads::upload'', ''gif::embed'', ''prekeys::get_bundle''}"
  shows "admit StrictLimit"
proof -
  have "list_all (\<lambda>(a, r). list_all (\<lambda>(m, h). h \<in> {''uploads::upload'', ''gif::embed'', ''prekeys::get_bundle''} \<longrightarrow> rt_limit r = Some StrictLimit) (rt_methods r)) route_table"
    by code_simp
  moreover obtain ar r where e: "e = (ar, r)" by fastforce
  moreover have "\<exists>uid. dispatch admit r (rq_method rq) uid = Run h u"
    using assms(1,3) e by (cases ar) (auto simp: serve_def guarded_def auth_middleware_Inr split: if_splits sum.splits)
  ultimately show ?thesis using assms(2,4)
    by (fastforce simp: dispatch_def list_all_iff split: option.splits if_splits dest: map_of_SomeD)
qed

text \<open>C19. A WebSocket session is opened for the user that a ticket, at most 30 seconds old, was issued to, and the ticket is
  gone; or without a ticket for the user of a valid access token. The team of the session is empty, or the one asked for
  and the user is a member of it.\<close>

theorem ws_upgrade_sound:
  assumes "ws_handler J now client_id params c s = (Inr ss, s')"
  shows "(case params ''ticket'' of
       Some ticket \<Rightarrow> map_of (au_ws_tickets s') ticket = None
         \<and> (\<exists>t. map_of (au_ws_tickets s) ticket = Some t \<and> wt_user_id t = ss_user_id ss \<and> elapsed now (wt_created_at t) \<le> secs 30)
     | None \<Rightarrow> s' = s \<and> validate_jwt J s now c (case params ''token'' of None \<Rightarrow> [] | Some t \<Rightarrow> t) = Inr (ss_user_id ss))
    \<and> (ss_team_id ss = [] \<or> params ''team'' = Some (ss_team_id ss)
         \<and> (\<exists>m \<in> set (c_members c). m_user_id m = ss_user_id ss \<and> m_team_id m = ss_team_id ss))"
proof -
  have member: "\<exists>m \<in> set (c_members c). m_user_id m = uid \<and> m_team_id m = tid"
    if "unwrap_or (bindE (get_member_by_user_and_team c uid tid) (\<lambda>m. Inr (m \<noteq> None))) False" for uid tid
    using that by (auto simp: get_member_by_user_and_team_def optional_query_row unwrap_or_def bindE_def stmt_eq_Inr
        split: sum.splits dest!: first_row_SomeD sym [of "Some _"])
  show ?thesis using assms member
    by (auto simp: ws_handler_def validate_ws_ticket_def Let_def bindE_def map_err_def delete_conv'
        split: option.splits sum.splits if_splits prod.splits)
qed

theorem ws_upgrade_sound_witness:
  "snd (ws_handler sample_jwt 8 ''c'' [''ticket'' \<mapsto> hex [1], ''team'' \<mapsto> ''t''] sample_conn
     (snd (ws_ticket [1] 7 ''bob'' (auth_new [] ''n'')))) = auth_new [] ''n''
   \<and> (\<exists>m \<in> set (c_members sample_conn). m_user_id m = ''bob'' \<and> m_team_id m = ''t'')"
proof -
  let ?s = "snd (ws_ticket [1] 7 ''bob'' (auth_new [] ''n''))"
  have "ws_handler sample_jwt 8 ''c'' [''ticket'' \<mapsto> hex [1], ''team'' \<mapsto> ''t''] sample_conn ?s = (Inr sample_session, auth_new [] ''n'')"
    by code_simp
  from ws_upgrade_sound [OF this] this show ?thesis by (simp add: sample_session_def)
qed

subsection \<open>Findings\<close>

text \<open>A higher \<open>DILLA_RATELIMIT_PER_SECOND\<close> gives requests back more slowly.\<close>

lemma faster_setting_is_slower:
  assumes "1 \<le> cf_ratelimit_per_second a" and "cf_ratelimit_per_second a < cf_ratelimit_per_second b"
  shows "qt_seconds_per_request (limit_quota a ProtectedLimit) < qt_seconds_per_request (limit_quota b ProtectedLimit)"
  using assms by (simp add: limit_quota_def)

text \<open>Without origins, and without the insecure flag, the start warns that every origin is allowed while none is.\<close>

lemma cors_warning_wrong:
  assumes "cf_allowed_origins cfg = []" and "\<not> cf_insecure cfg"
  shows "CorsAllowsAllOrigins \<in> set (warn_insecure_defaults cfg)" and "cors_layer parse cfg = NoCrossOrigin"
  using assms by (simp_all add: warn_insecure_defaults_def cors_layer_def)

text \<open>A certificate without a key: the configuration shown to clients claims TLS, the server does not serve it.\<close>

lemma certificate_alone_claims_tls:
  assumes "cf_tls_cert cfg \<noteq> []" and "cf_tls_key cfg = []"
  shows "get_config cfg = JObj [(''domain'', JStr (cf_domain cfg)), (''rp_id'', JStr (cf_domain cfg)),
     (''has_custom_theme'', JBool (cf_theme_file cfg \<noteq> [])), (''db_encrypted'', JBool (cf_db_passphrase cfg \<noteq> [])), (''tls_enabled'', JBool True)]"
    and "start_server_mode cfg \<noteq> Tls port" and "hsts_header cfg = []"
  using assms by (simp_all add: get_config_def start_server_mode_def hsts_header_def)

end
