(* ===== verification/Spec2Isabelle.thy ===== *)
theory Spec2Isabelle
  imports Team_Store Permissions Channel_Access Channel_Store Policy Hub Presence Voice_Room Events
    Ws_Messages Ws_Voice Ws_Social Ws_Requests User_Store Api_Base Roles_Api Teams_Api
    Json_Rows Text Libraries Device_Store Auth Outbound Messages_Api Api_Kit Channel_Groups
    Channels_Api Dms_Api Threads_Api Site_Kit Invites_Api Devices_Api Login_Risk Login_Api
    Accounts
    Registration
    Bootstrap
    Prekeys_Api
    Polls_Api
    Pins_Api
    Personal_Api
    Users_Api
    Uploads_Api
    Gif_Api
    Recovery_Api
    Fed_Api
    Ws_Sync
    Ws_Session
    Server_Config
    Db_Open
    Turn
    Server_Start
    Browser_Log
    Router
    Fed_Clock Fed_Wire Fed_Transport Fed_Sync Fed_Mesh
begin

text \<open>
  \<^bold>\<open>Dilla chat server: a verification library\<close>

  Dilla is a federated team-chat server written in Rust (\<open>server-rs/\<close>). Clients talk to it over HTTP
  (\<open>src/api/\<close>) and over WebSockets (\<open>src/ws/\<close>); the state is an SQLite database (\<open>src/db/\<close>), the registry of
  connected clients (\<open>ws/hub.rs\<close>), the voice rooms (\<open>voice/room.rs\<close>) and the presence table
  (\<open>presence/mod.rs\<close>); servers of a mesh exchange signed events (\<open>src/federation/\<close>). Access is decided in
  one place (\<open>policy/mod.rs\<close> over \<open>db/permission_queries.rs\<close> and \<open>db/channel_access_queries.rs\<close>).

  \<^bold>\<open>How the model corresponds to the code.\<close> Rust structs are records with a field prefix, enums are datatypes.
  \<open>Result\<close> is a sum with the error on the left. A database function is a \<open>'a db_op\<close>, a state transformer on the
  record \<open>conn\<close>, whose fields are the tables as lists of rows in rowid order; every SQL statement is one
  \<open>stmt\<close> (read) or \<open>exec\<close> (write), which checks the constraints of the migrations and may also fail because its
  name is in \<open>c_faults\<close>: theorems that assume \<open>healthy c\<close> exclude injected faults, the others hold with them. An
  HTTP handler is a \<open>handler\<close> (or \<open>sending\<close>, when it queues frames); a WebSocket handler acts on the \<open>world\<close>:
  database, voice rooms, queued hub messages and SFU calls. Fresh ids, clocks and random bytes are arguments.
  Strings are UTF-8 bytes. Permission masks, sequence numbers and Lamport stamps are \<open>64 word\<close>; \<open>i32\<close> columns are
  integers with the wrap-around written out where the code computes with them.

  \<^bold>\<open>Theories.\<close>
  \<^item> \<open>Prelude\<close>: results, effects, rows, runs; the locales \<open>invariant_machine\<close> and \<open>monotone_machine\<close>. \<open>Text\<close>: the
    string functions of the standard library. \<open>Libraries\<close>: the crypto and JSON crates as records of functions.
  \<^item> \<open>Models\<close>, \<open>Json_Rows\<close>: \<open>db/models.rs\<close>, the connection, the serde form of the rows.
  \<^item> \<open>Team_Store\<close>, \<open>Permissions\<close>, \<open>Channel_Access\<close>, \<open>Channel_Store\<close>, \<open>User_Store\<close>, \<open>Device_Store\<close>: \<open>src/db/\<close>, with the
    integrity predicates \<open>wf_team\<close>, \<open>wf_chat\<close>, \<open>wf_users\<close>, \<open>wf_devices\<close> and the proof that every statement keeps them.
  \<^item> \<open>Policy\<close>: \<open>policy/mod.rs\<close>, proved equal to a declarative rule (\<open>may_access\<close>, \<open>holds_permission\<close>).
  \<^item> \<open>Hub\<close>, \<open>Presence\<close>, \<open>Voice_Room\<close>: the in-memory components as machines with an invariant along every run.
  \<^item> \<open>Events\<close>: the event catalogue of \<open>ws/events.rs\<close>. \<open>Ws_Messages\<close>, \<open>Ws_Voice\<close>, \<open>Ws_Social\<close>, \<open>Ws_Requests\<close>,
    \<open>Ws_Sync\<close> (\<open>sync:init\<close>, the first read of a team): the handlers of \<open>ws/client.rs\<close> and \<open>ws/handlers/\<close>, and the hub
    and SFU event handlers of \<open>main.rs\<close>. \<open>Ws_Session\<close>: the dispatch of events, the two pumps of a connection as a machine
    over frames, deadlines and failed sends, and the consumer of what the session emits.
  \<^item> \<open>Api_Base\<close> (errors, \<open>spawn_db\<close>, the locales \<open>authorized_op\<close> and \<open>kept_property\<close>), \<open>Roles_Api\<close>, \<open>Teams_Api\<close>,
    \<open>Messages_Api\<close>, \<open>Channel_Groups\<close>, \<open>Channels_Api\<close>, \<open>Dms_Api\<close>, \<open>Threads_Api\<close> (over \<open>Api_Kit\<close>, the statements they
    share): the handlers of \<open>src/api/\<close> that work on the database and queue frames.
  \<^item> \<open>Site_Kit\<close>: handlers that also use the authentication service (the record \<open>site\<close>), transactions, the database lock
    and its poisoning. Over it \<open>Invites_Api\<close> (\<open>api/invites.rs\<close>), \<open>Devices_Api\<close> (\<open>api/devices.rs\<close>), \<open>Login_Risk\<close>
    (\<open>tor_list.rs\<close>, the risk score, the address parser of the standard library), \<open>Login_Api\<close>
    (\<open>api/auth_handlers.rs\<close>). \<open>Accounts\<close>, \<open>Registration\<close>, \<open>Bootstrap\<close>: what these handlers give together.
  \<^item> \<open>Prekeys_Api\<close>, \<open>Polls_Api\<close>, \<open>Pins_Api\<close>, \<open>Personal_Api\<close> (blocks, mutes, presence), \<open>Users_Api\<close> (profile,
    settings, deletion of an account): the smaller resources, each with its statements of \<open>src/db/\<close>.
  \<^item> \<open>Uploads_Api\<close> (\<open>api/uploads.rs\<close>: the state is the database and the upload directory, a map from paths to bytes),
    \<open>Gif_Api\<close> (\<open>api/gif.rs\<close> over it and the outbound guard), \<open>Recovery_Api\<close> (\<open>api/identity_recovery.rs\<close>).
  \<^item> \<open>Auth\<close>: \<open>auth.rs\<close>, with the locale \<open>one_time_store\<close> for challenges and tickets. \<open>Outbound\<close>: \<open>api/outbound.rs\<close>.
  \<^item> \<open>Fed_Clock\<close>, \<open>Fed_Wire\<close>, \<open>Fed_Transport\<close>, \<open>Fed_Sync\<close>, \<open>Fed_Mesh\<close>: \<open>src/federation/\<close>, with the locale \<open>lww\<close> for
    last-writer-wins merges; \<open>Fed_Api\<close>: \<open>federation/join.rs\<close> and the administration in \<open>api/federation.rs\<close>.
  \<^item> \<open>Server_Config\<close>, \<open>Db_Open\<close>, \<open>Turn\<close>, \<open>Server_Start\<close>: \<open>config.rs\<close>, \<open>db/mod.rs\<close> (the migration runner over any SQL
    engine, the readers, the token of the first start), \<open>voice/turn.rs\<close>, and the start in \<open>main.rs\<close> over them.
  \<^item> \<open>Router\<close>: \<open>api/mod.rs\<close> and \<open>webapp/mod.rs\<close>: every route with its methods and limiter, the layers, the upgrade to a
    session, the embedded client. \<open>Browser_Log\<close>: \<open>api/debug.rs\<close>.

  \<^bold>\<open>What the properties show.\<close> Who may read, write, moderate and administer, on every path that exists for it
  (sockets, HTTP, federation), and that a refusal changes nothing; what an admitted operation does to every
  table and which frames it queues; the invariants of the hub, the rooms, presence and the clock along every run
  and interleaving; single use and expiry of tickets, challenges and tokens; who logs in, registers and
  enrolls a device, the quota of invites and the single use of a bootstrap token along every run; replay protection, signatures and
  convergence of the mesh; round trips of tokens and signed events. Where the code departs from its intent the
  property states what it does (half-applied updates, gates that open, locked-out accounts, deletions of an account that stop half-way, sessions that outlive their logout, a request that
  poisons the database lock, forged home nodes, files of other teams taken over, a host check that a crafted URL passes).

  \<^bold>\<open>Bounds and fuel.\<close> No definition uses fuel: loops are structural recursion over the rows, frames or events
  they visit, \<open>drop_spaces\<close>, \<open>strip_ansi\<close> and \<open>char_indices\<close> have termination proofs by length, \<open>blob_loop\<close> (which ends only because a code is not empty)
  is a partial function proved to return, and endless loops of the server (event loops, reconnect and sweep
  loops) are step functions, one call per iteration.

  \<^bold>\<open>Interleavings.\<close> A handler runs as one step; two handlers of different clients interleave only between steps, but for
  the clock and the locks of \<open>add_peer\<close>, which are modelled statement by statement, uploads, whose quota check and
  record are separate steps, and the events of a session, which their consumer takes up at any later time.

  \<^bold>\<open>Not modelled.\<close> Sockets, TLS and the SFU (WebRTC; the port \<open>sfu_port\<close> records the calls), logging, metrics and the
  telemetry relay, the country database, the listing of the audit log, the voice, theme and integration handlers of
  \<open>src/api/\<close>, SQLCipher and the opening of the database file (the schema itself is in the statements; what a migration
  script does is the SQL engine's), the TypeScript client. The HTTP client, the choice among matching routes, the counters
  of the rate limiters and the crates for JSON, JWT, Ed25519, SHA-256, HKDF, DNS and the Unicode
  case table are parameters, with what the code relies on as hypotheses (\<open>crypto_ok\<close>, \<open>jwt_ok\<close>) that a toy instance
  satisfies in the witnesses.
\<close>

end
